(* ===== verification/Prelude.thy ===== *)
theory Prelude
  imports Main "HOL-Library.AList" "HOL-Library.Sublist" "HOL-Library.Char_ord" "HOL-Library.List_Lexorder"
begin

text \<open>
  The shared vocabulary of the development: the Python values and effects that every component
  of the backend uses.

  \<^item> A Python \<open>str\<close> is a \<open>string\<close> that holds its UTF-8 encoding. Code point order is
    byte order of the encoding, so \<open>sorted\<close> and \<open><\<close> agree; \<open>strip\<close> removes the
    encodings of the characters for which \<open>str.isspace\<close> holds.
  \<^item> A \<open>dict\<close> is an association list in insertion order: \<open>d[k] = v\<close> replaces in place
    or appends (\<open>AList.update\<close>), lookup is \<open>map_of\<close>.
  \<^item> A JSON value decoded by Python is a \<open>json\<close>.
  \<^item> An exception is a value of \<open>exc\<close>; a function that may raise returns \<open>exc + 'a\<close>
    (\<open>Inl\<close> the exception), and one that also reads and writes the database is an
    \<open>('s, 'a) eff\<close>, a function from the state to the outcome and the new state. An exception
    does not undo the writes made before it unless they are inside \<open>transaction\<close>.
\<close>

named_theorems eff_simps \<open>unfolding the error and state monad\<close>
named_theorems table_simps \<open>reading and writing database tables\<close>

section \<open>Strings\<close>

definition ascii_ws :: "string list" where
  "ascii_ws = map (\<lambda>n. [char_of (n::nat)]) [9, 10, 11, 12, 13, 28, 29, 30, 31, 32]"

definition utf8_ws :: "string list" where
  "utf8_ws = map (map char_of)
     ([[0xC2, 0x85], [0xC2, 0xA0], [0xE1, 0x9A, 0x80]]
      @ map (\<lambda>n. [0xE2, 0x80, n]) [0x80, 0x81, 0x82, 0x83, 0x84, 0x85, 0x86, 0x87, 0x88, 0x89, 0x8A]
      @ [[0xE2, 0x80, 0xA8], [0xE2, 0x80, 0xA9], [0xE2, 0x80, 0xAF], [0xE2, 0x81, 0x9F],
         [0xE3, 0x80, 0x80 :: nat]])"

definition py_whitespace :: "string list" where
  "py_whitespace = ascii_ws @ utf8_ws"

text \<open>Removing, as long as possible, a prefix that is one of the listed (non-empty) words.\<close>

function drop_words :: "'a list list \<Rightarrow> 'a list \<Rightarrow> 'a list" where
  "drop_words ws xs =
     (case find (\<lambda>w. w \<noteq> [] \<and> prefix w xs) ws of
        None \<Rightarrow> xs
      | Some w \<Rightarrow> drop_words ws (drop (length w) xs))"
  by pat_completeness auto
termination
  by (relation "measure (\<lambda>(ws, xs). length xs)")
     (auto simp: find_Some_iff prefix_def)

declare drop_words.simps [simp del]

definition lstrip :: "string \<Rightarrow> string" where
  "lstrip s = drop_words py_whitespace s"

definition rstrip :: "string \<Rightarrow> string" where
  "rstrip s = rev (drop_words (map rev py_whitespace) (rev s))"

definition strip :: "string \<Rightarrow> string" where
  "strip s = rstrip (lstrip s)"

lemma drop_words_suffix: "suffix (drop_words ws xs) xs"
proof (induction ws xs rule: drop_words.induct)
  case (1 ws xs)
  show ?case
  proof (cases "find (\<lambda>w. w \<noteq> [] \<and> prefix w xs) ws")
    case None
    then show ?thesis by (simp add: drop_words.simps)
  next
    case (Some w)
    have "suffix (drop_words ws (drop (length w) xs)) (drop (length w) xs)"
      using 1 [OF Some] .
    also have "suffix (drop (length w) xs) xs" by (rule suffix_drop)
    finally show ?thesis using Some by (simp add: drop_words.simps [of ws xs])
  qed
qed

lemma drop_words_none: "w \<in> set ws \<Longrightarrow> w \<noteq> [] \<Longrightarrow> \<not> prefix w (drop_words ws xs)"
proof (induction ws xs rule: drop_words.induct)
  case (1 ws xs)
  show ?case
  proof (cases "find (\<lambda>w. w \<noteq> [] \<and> prefix w xs) ws")
    case None
    then have "drop_words ws xs = xs" by (simp add: drop_words.simps [of ws xs])
    with None 1(2,3) show ?thesis by (auto simp: find_None_iff)
  next
    case (Some v)
    from 1(1) [OF Some 1(2,3)] Some show ?thesis by (simp add: drop_words.simps [of ws xs])
  qed
qed

lemma drop_words_id:
  assumes "\<And>w. w \<in> set ws \<Longrightarrow> w \<noteq> [] \<Longrightarrow> \<not> prefix w xs"
  shows "drop_words ws xs = xs"
proof -
  have "find (\<lambda>w. w \<noteq> [] \<and> prefix w xs) ws = None"
    using assms by (auto simp: find_None_iff)
  then show ?thesis by (simp add: drop_words.simps [of ws xs])
qed

lemma drop_words_idem [simp]: "drop_words ws (drop_words ws xs) = drop_words ws xs"
  by (rule drop_words_id) (rule drop_words_none)

lemma rstrip_prefix: "prefix (rstrip s) s"
  using drop_words_suffix [of "map rev py_whitespace" "rev s"]
  by (simp add: rstrip_def suffix_to_prefix)

lemma rstrip_idem [simp]: "rstrip (rstrip s) = rstrip s"
  by (simp add: rstrip_def)

lemma lstrip_strip [simp]: "lstrip (strip s) = strip s"
  unfolding lstrip_def strip_def
proof (rule drop_words_id)
  fix w assume w: "w \<in> set py_whitespace" "w \<noteq> []"
  show "\<not> prefix w (rstrip (drop_words py_whitespace s))"
  proof
    assume "prefix w (rstrip (drop_words py_whitespace s))"
    then have "prefix w (drop_words py_whitespace s)"
      using rstrip_prefix prefix_order.trans by blast
    with drop_words_none [OF w] show False by blast
  qed
qed

lemma strip_strip [simp]: "strip (strip s) = strip s"
proof -
  have "strip (strip s) = rstrip (lstrip (strip s))" by (rule strip_def)
  also have "\<dots> = rstrip (strip s)" by (simp only: lstrip_strip)
  also have "\<dots> = strip s" by (simp add: strip_def)
  finally show ?thesis .
qed

text \<open>Visible ASCII characters begin and end no white space, which evaluates \<open>strip\<close> on most
  literals.\<close>

definition plain_char :: "char \<Rightarrow> bool" where
  "plain_char c \<longleftrightarrow> 32 < (of_char c :: nat) \<and> (of_char c :: nat) < 128"

lemma whitespace_not_plain:
  "w \<in> set py_whitespace \<Longrightarrow> w \<noteq> [] \<and> \<not> plain_char (hd w) \<and> \<not> plain_char (last w)"
  by (auto simp: py_whitespace_def ascii_ws_def utf8_ws_def plain_char_def)

lemma strip_plain:
  assumes "s \<noteq> []" "plain_char (hd s)" "plain_char (last s)"
  shows "strip s = s"
proof -
  have "drop_words py_whitespace s = s"
  proof (rule drop_words_id)
    fix w assume "w \<in> set py_whitespace"
    with whitespace_not_plain [OF this] assms show "\<not> prefix w s"
      by (cases w; cases s) auto
  qed
  moreover have "drop_words (map rev py_whitespace) (rev s) = rev s"
  proof (rule drop_words_id)
    fix w assume "w \<in> set (map rev py_whitespace)"
    then obtain v where "v \<in> set py_whitespace" "w = rev v" by auto
    with whitespace_not_plain [OF this(1)] assms show "\<not> prefix w (rev s)"
      by (cases v rule: rev_cases; cases s rule: rev_cases) auto
  qed
  ultimately show ?thesis by (simp add: strip_def lstrip_def rstrip_def)
qed

lemma strip_Nil [simp]: "strip [] = []"
proof -
  have "suffix (lstrip []) []" by (simp only: lstrip_def drop_words_suffix)
  then have "lstrip [] = []" by simp
  then show ?thesis using rstrip_prefix [of "[]"] by (simp add: strip_def)
qed

text \<open>Blank strings: \<open>not s.strip()\<close> in the source.\<close>

abbreviation blank :: "string \<Rightarrow> bool" where
  "blank s \<equiv> strip s = []"

definition stripped :: "string \<Rightarrow> bool" where
  "stripped s \<longleftrightarrow> strip s = s"

lemma stripped_strip [simp]: "stripped (strip s)"
  by (simp add: stripped_def)

lemma strip_stripped: "stripped s \<Longrightarrow> strip s = s"
  by (simp add: stripped_def)

text \<open>Decimal numerals, and \<open>str(int)\<close>.\<close>

fun nat_str :: "nat \<Rightarrow> string" where
  "nat_str n = (if n < 10 then [char_of (48 + n)] else nat_str (n div 10) @ [char_of (48 + n mod 10)])"

declare nat_str.simps [simp del]

definition int_str :: "int \<Rightarrow> string" where
  "int_str i = (if i < 0 then CHR ''-'' # nat_str (nat (- i)) else nat_str (nat i))"

text \<open>\<open>str.lower\<close> on the ASCII letters (the texts it is applied to are ASCII).\<close>

definition ascii_lower :: "string \<Rightarrow> string" where
  "ascii_lower s = map (\<lambda>c. if 65 \<le> (of_char c :: nat) \<and> (of_char c :: nat) \<le> 90
                       then char_of ((of_char c :: nat) + 32) else c) s"

definition is_substring :: "string \<Rightarrow> string \<Rightarrow> bool" where
  "is_substring p s \<longleftrightarrow> list_ex (prefix p) (suffixes s)"

text \<open>\<open>repr\<close> of a \<open>str\<close>; characters outside ASCII print as themselves.\<close>

definition hex_digit :: "nat \<Rightarrow> char" where
  "hex_digit n = (if n < 10 then char_of (48 + n) else char_of (87 + n))"

definition repr_char :: "char \<Rightarrow> char \<Rightarrow> string" where
  "repr_char q c =
     (let n = (of_char c :: nat) in
      if c = q \<or> n = 92 then [char_of (92::nat), c]
      else if n = 10 then [char_of (92::nat), CHR ''n'']
      else if n = 13 then [char_of (92::nat), CHR ''r'']
      else if n = 9 then [char_of (92::nat), CHR ''t'']
      else if n < 32 \<or> n = 127 then [char_of (92::nat), CHR ''x'', hex_digit (n div 16), hex_digit (n mod 16)]
      else [c])"

definition squote :: char where "squote = char_of (39::nat)"
definition dquote :: char where "dquote = char_of (34::nat)"

definition repr_str :: "string \<Rightarrow> string" where
  "repr_str s =
     (let q = (if squote \<in> set s \<and> dquote \<notin> set s then dquote else squote)
      in [q] @ concat (map (repr_char q) s) @ [q])"

section \<open>Dictionaries and JSON values\<close>

type_synonym 'v dict = "(string \<times> 'v) list"

abbreviation dict_get :: "'v dict \<Rightarrow> string \<Rightarrow> 'v option" where
  "dict_get d k \<equiv> map_of d k"

abbreviation dict_set :: "'v dict \<Rightarrow> string \<Rightarrow> 'v \<Rightarrow> 'v dict" where
  "dict_set d k v \<equiv> AList.update k v d"

text \<open>The comprehension \<open>{k: v for k in ks}\<close>.\<close>

definition dict_of_keys :: "string list \<Rightarrow> 'v \<Rightarrow> 'v dict" where
  "dict_of_keys ks v = fold (\<lambda>k d. dict_set d k v) ks []"

lemma update_new: "k \<notin> fst ` set d \<Longrightarrow> AList.update k v d = d @ [(k, v)]"
  by (induction d) auto

lemma dict_of_keys_distinct: "distinct ks \<Longrightarrow> dict_of_keys ks v = map (\<lambda>k. (k, v)) ks"
proof -
  have "distinct (map fst d @ ks) \<Longrightarrow>
        fold (\<lambda>k d. dict_set d k v) ks d = d @ map (\<lambda>k. (k, v)) ks" for d
    by (induction ks arbitrary: d) (auto simp: update_new)
  from this [of "[]"] show "distinct ks \<Longrightarrow> ?thesis" by (simp add: dict_of_keys_def)
qed

lemma dict_set_fold_distinct:
  "distinct (map k xs) \<Longrightarrow> fold (\<lambda>x d. dict_set d (k x) (v x)) xs [] = map (\<lambda>x. (k x, v x)) xs"
proof -
  have "distinct (map fst d @ map k xs) \<Longrightarrow>
        fold (\<lambda>x d. dict_set d (k x) (v x)) xs d = d @ map (\<lambda>x. (k x, v x)) xs" for d
    by (induction xs arbitrary: d) (auto simp: update_new)
  from this [of "[]"] show "distinct (map k xs) \<Longrightarrow> ?thesis" by simp
qed

lemma find_distinct_key: "distinct (map k xs) \<Longrightarrow> x \<in> set xs \<Longrightarrow> find (\<lambda>y. k y = k x) xs = Some x"
  by (induction xs) (auto simp: image_iff)

lemma find_SomeD: "find P xs = Some x \<Longrightarrow> x \<in> set xs \<and> P x"
  by (auto simp: find_Some_iff)

lemma find_append:
  "find P (xs @ ys) = (case find P xs of None \<Rightarrow> find P ys | Some x \<Rightarrow> Some x)"
  by (induction xs) auto

lemma map_of_map_const: "map_of (map (\<lambda>k. (k, v)) ks) k = (if k \<in> set ks then Some v else None)"
  by (induction ks) auto

lemma pairs_of_map_of:
  "distinct (map fst d) \<Longrightarrow> map fst d = ks \<Longrightarrow> (\<And>k. k \<in> set ks \<Longrightarrow> map_of d k = Some (f k)) \<Longrightarrow>
   d = map (\<lambda>k. (k, f k)) ks"
proof (induction d arbitrary: ks)
  case Nil
  then show ?case by simp
next
  case (Cons kv d)
  then obtain k ks' where ks: "ks = k # ks'" "fst kv = k" "map fst d = ks'" by auto
  have "map_of d j = Some (f j)" if "j \<in> set ks'" for j
    using Cons.prems(3) [of j] Cons.prems(1) that ks by (auto split: if_splits)
  from Cons.IH [OF _ ks(3) this] Cons.prems(1) have "d = map (\<lambda>k. (k, f k)) ks'" by simp
  moreover have "snd kv = f k" using Cons.prems(3) [of k] ks by simp
  ultimately show ?case using ks by (cases kv) simp
qed

text \<open>A \<open>float\<close> is kept as the text of its \<open>repr\<close>: no modelled operation computes with one.\<close>

datatype json =
    JNull | JBool bool | JInt int | JFloat string | JStr string
  | JList "json list" | JObj "(string \<times> json) list"

text \<open>\<open>raw.get(key)\<close> of a decoded object: the value, or \<open>None\<close>, which is also what JSON
  \<open>null\<close> decodes to.\<close>

definition jget :: "json dict \<Rightarrow> string \<Rightarrow> json" where
  "jget d k = (case dict_get d k of None \<Rightarrow> JNull | Some v \<Rightarrow> v)"

definition jget_or :: "json dict \<Rightarrow> string \<Rightarrow> json \<Rightarrow> json" where
  "jget_or d k v = (case dict_get d k of None \<Rightarrow> v | Some w \<Rightarrow> w)"

text \<open>Joining with a separator, as \<open>sep.join\<close>.\<close>

fun join_with :: "string \<Rightarrow> string list \<Rightarrow> string" where
  "join_with sep [] = []"
| "join_with sep [x] = x"
| "join_with sep (x # y # ys) = x @ sep @ join_with sep (y # ys)"

fun py_repr :: "json \<Rightarrow> string" where
  "py_repr JNull = ''None''"
| "py_repr (JBool b) = (if b then ''True'' else ''False'')"
| "py_repr (JInt i) = int_str i"
| "py_repr (JFloat t) = t"
| "py_repr (JStr s) = repr_str s"
| "py_repr (JList xs) = ''['' @ join_with '', '' (map py_repr xs) @ '']''"
| "py_repr (JObj kvs) =
     ''{'' @ join_with '', '' (map (\<lambda>kv. repr_str (fst kv) @ '': '' @ py_repr (snd kv)) kvs) @ ''}''"

text \<open>\<open>str(x)\<close>.\<close>

fun py_str :: "json \<Rightarrow> string" where
  "py_str (JStr s) = s"
| "py_str v = py_repr v"

text \<open>\<open>bool(x)\<close>. Zero is the only false number; \<open>repr\<close> of a zero float is \<open>0.0\<close> or
  \<open>-0.0\<close>.\<close>

fun py_truthy :: "json \<Rightarrow> bool" where
  "py_truthy JNull = False"
| "py_truthy (JBool b) = b"
| "py_truthy (JInt i) = (i \<noteq> 0)"
| "py_truthy (JFloat t) = (t \<noteq> ''0.0'' \<and> t \<noteq> ''-0.0'')"
| "py_truthy (JStr s) = (s \<noteq> [])"
| "py_truthy (JList xs) = (xs \<noteq> [])"
| "py_truthy (JObj kvs) = (kvs \<noteq> [])"

section \<open>Exceptions\<close>

text \<open>
  One link of a database driver's exception chain (\<open>__cause__\<close>): the class name, the attribute
  \<open>constraint_name\<close>, the attribute \<open>constraint\<close> and the text.
\<close>

record exc_link =
  link_type :: string
  link_constraint_name :: "string option"
  link_constraint :: "string option"
  link_text :: string

datatype exc =
    ValueError string
  | KeyError string
  | TypeError string
  | AttributeError string
  | LookupError string
  | RuntimeError string
  | OverflowError string
  | InvalidOperation string
  | IntegrityError "exc_link list"
  | WorkflowDefinitionError string
  | WorkflowExecuteError string
  | WorkshopRepositoryError string
  | WorkshopProjectNotFoundError string
  | WorkshopTaskNotFoundError string
  | WorkshopTaskConflictError string
  | WorkshopProposalNotFoundError string
  | WorkshopExpertNotFoundError string
  | WorkshopWorkflowNotFoundError string
  | WorkshopScheduleNotFoundError string
  | WorkshopWorkflowConflictError string
  | WorkshopOwnershipError string
  | WorkshopScheduleTriggerConflictError string
  | WorkshopScheduleClaimLostError string
  | WorkshopArtifactConflictError string
  | WorkshopProjectConflictError string
  | WorkshopGroupChatOwnershipError string
  | TaskOrchestratorError string
  | WorkshopWorkflowScheduleError string
  | WorkshopProjectError string
  | InvalidCronExpressionError string
  | InvalidTimezoneError string
  | CronNextFireError string
  | AuthorizedOperationError string
  | GenerationGateError string
  | UpgradeInviteProposalError string
  | DoesNotExist string
  | MultipleObjectsReturned string
  | WebhookGrantError string string
  | MoneyParseError string string
  | GmvUnavailableError string string
  | TaobaoAdapterError string string
  | OAuthError string string
  | AppError string string
  | GatewayChatError string string
  | CanvasRevisionConflictError "(string \<times> string \<times> int \<times> int) list"
  | ValidationError string
  | AssertionError string
  | ResponseError string
  | ReplayLogLimitExceeded string
  | ReplayExecutionClosed string
  | ExecutionLeaseLost string
  | RedisConnectionError string
  | CancelledError

text \<open>\<open>str(exc)\<close>: the message; a \<open>KeyError\<close> shows the \<open>repr\<close> of its key.\<close>

fun exc_str :: "exc \<Rightarrow> string" where
  "exc_str (KeyError k) = repr_str k"
| "exc_str (IntegrityError ls) = (case ls of [] \<Rightarrow> [] | l # _ \<Rightarrow> link_text l)"
| "exc_str (WebhookGrantError c m) = m"
| "exc_str (AppError c m) = m"
| "exc_str (ValueError m) = m"
| "exc_str (TypeError m) = m"
| "exc_str (AttributeError m) = m"
| "exc_str (LookupError m) = m"
| "exc_str (RuntimeError m) = m"
| "exc_str (OverflowError m) = m"
| "exc_str (InvalidOperation m) = m"
| "exc_str (WorkflowDefinitionError m) = m"
| "exc_str (WorkflowExecuteError m) = m"
| "exc_str (WorkshopRepositoryError m) = m"
| "exc_str (WorkshopProjectNotFoundError m) = m"
| "exc_str (WorkshopTaskNotFoundError m) = m"
| "exc_str (WorkshopTaskConflictError m) = m"
| "exc_str (WorkshopProposalNotFoundError m) = m"
| "exc_str (WorkshopExpertNotFoundError m) = m"
| "exc_str (WorkshopWorkflowNotFoundError m) = m"
| "exc_str (WorkshopScheduleNotFoundError m) = m"
| "exc_str (WorkshopWorkflowConflictError m) = m"
| "exc_str (WorkshopOwnershipError m) = m"
| "exc_str (WorkshopScheduleTriggerConflictError m) = m"
| "exc_str (WorkshopScheduleClaimLostError m) = m"
| "exc_str (WorkshopArtifactConflictError m) = m"
| "exc_str (WorkshopProjectConflictError m) = m"
| "exc_str (WorkshopGroupChatOwnershipError m) = m"
| "exc_str (TaskOrchestratorError m) = m"
| "exc_str (WorkshopWorkflowScheduleError m) = m"
| "exc_str (WorkshopProjectError m) = m"
| "exc_str (InvalidCronExpressionError m) = m"
| "exc_str (InvalidTimezoneError m) = m"
| "exc_str (CronNextFireError m) = m"
| "exc_str (AuthorizedOperationError m) = m"
| "exc_str (GenerationGateError m) = m"
| "exc_str (UpgradeInviteProposalError m) = m"
| "exc_str (DoesNotExist m) = m"
| "exc_str (MultipleObjectsReturned m) = m"
| "exc_str (MoneyParseError c m) = m"
| "exc_str (GmvUnavailableError c m) = m"
| "exc_str (TaobaoAdapterError c m) = m"
| "exc_str (OAuthError c m) = m"
| "exc_str (GatewayChatError c m) = m"
| "exc_str (CanvasRevisionConflictError cs) = ''canvas revision conflict''"
| "exc_str (ValidationError m) = m"
| "exc_str (AssertionError m) = m"
| "exc_str (ResponseError m) = m"
| "exc_str (ReplayLogLimitExceeded m) = m"
| "exc_str (ReplayExecutionClosed m) = m"
| "exc_str (ExecutionLeaseLost m) = m"
| "exc_str (RedisConnectionError m) = m"
| "exc_str CancelledError = []"

text \<open>\<open>isinstance(e, WorkshopRepositoryError)\<close>: the class and its subclasses.\<close>

fun is_repository_error :: "exc \<Rightarrow> bool" where
  "is_repository_error (WorkshopRepositoryError _) = True"
| "is_repository_error (WorkshopProjectNotFoundError _) = True"
| "is_repository_error (WorkshopTaskNotFoundError _) = True"
| "is_repository_error (WorkshopTaskConflictError _) = True"
| "is_repository_error (WorkshopProposalNotFoundError _) = True"
| "is_repository_error (WorkshopExpertNotFoundError _) = True"
| "is_repository_error (WorkshopWorkflowNotFoundError _) = True"
| "is_repository_error (WorkshopScheduleNotFoundError _) = True"
| "is_repository_error (WorkshopWorkflowConflictError _) = True"
| "is_repository_error (WorkshopOwnershipError _) = True"
| "is_repository_error (WorkshopScheduleTriggerConflictError _) = True"
| "is_repository_error (WorkshopScheduleClaimLostError _) = True"
| "is_repository_error (WorkshopArtifactConflictError _) = True"
| "is_repository_error (WorkshopProjectConflictError _) = True"
| "is_repository_error (WorkshopGroupChatOwnershipError _) = True"
| "is_repository_error _ = False"

section \<open>Results: values or exceptions\<close>

type_synonym 'a res = "exc + 'a"

definition bindR :: "'a res \<Rightarrow> ('a \<Rightarrow> 'b res) \<Rightarrow> 'b res" where
  "bindR m f = (case m of Inl e \<Rightarrow> Inl e | Inr x \<Rightarrow> f x)"

lemma bindR_simps [simp]: "bindR (Inr x) f = f x" "bindR (Inl e) f = Inl e"
  by (simp_all add: bindR_def)

lemma bindR_Inr: "bindR m f = Inr y \<longleftrightarrow> (\<exists>x. m = Inr x \<and> f x = Inr y)"
  by (simp add: bindR_def split: sum.splits)

lemma bindR_cong [fundef_cong]:
  "m = m' \<Longrightarrow> (\<And>x. m' = Inr x \<Longrightarrow> f x = g x) \<Longrightarrow> bindR m f = bindR m' g"
  by (simp add: bindR_def split: sum.splits)

text \<open>\<open>assertR\<close> raises unless its condition holds.\<close>

definition assertR :: "bool \<Rightarrow> exc \<Rightarrow> unit res" where
  "assertR c e = (if c then Inr () else Inl e)"

lemma assertR_simps [simp]:
  "assertR True e = Inr ()" "assertR False e = Inl e" "assertR c e = Inr u \<longleftrightarrow> c"
  by (simp_all add: assertR_def)

text \<open>A comprehension whose element expression may raise stops at the first exception.\<close>

fun mapR :: "('a \<Rightarrow> 'b res) \<Rightarrow> 'a list \<Rightarrow> 'b list res" where
  "mapR f [] = Inr []"
| "mapR f (x # xs) = bindR (f x) (\<lambda>y. bindR (mapR f xs) (\<lambda>ys. Inr (y # ys)))"

lemma mapR_cong [fundef_cong]:
  "xs = ys \<Longrightarrow> (\<And>x. x \<in> set ys \<Longrightarrow> f x = g x) \<Longrightarrow> mapR f xs = mapR g ys"
proof -
  assume "xs = ys" "\<And>x. x \<in> set ys \<Longrightarrow> f x = g x"
  then have "\<And>x. x \<in> set xs \<Longrightarrow> f x = g x" by simp
  then have "mapR f xs = mapR g xs" by (induction xs) auto
  with \<open>xs = ys\<close> show ?thesis by simp
qed

lemma mapR_Inr_iff: "mapR f xs = Inr ys \<longleftrightarrow> list_all2 (\<lambda>x y. f x = Inr y) xs ys"
  by (induction xs arbitrary: ys) (auto simp: bindR_Inr list_all2_Cons1)

lemma mapR_map_Inr: "(\<And>x. x \<in> set xs \<Longrightarrow> f x = Inr (g x)) \<Longrightarrow> mapR f xs = Inr (map g xs)"
  by (induction xs) auto

section \<open>Effects: a state, and exceptions that keep the writes made so far\<close>

type_synonym ('s, 'a) eff = "'s \<Rightarrow> 'a res \<times> 's"

definition ret :: "'a \<Rightarrow> ('s, 'a) eff" where
  "ret x s = (Inr x, s)"

definition raise :: "exc \<Rightarrow> ('s, 'a) eff" where
  "raise e s = (Inl e, s)"

definition bindE :: "('s, 'a) eff \<Rightarrow> ('a \<Rightarrow> ('s, 'b) eff) \<Rightarrow> ('s, 'b) eff" where
  "bindE m f s = (case m s of (Inl e, s') \<Rightarrow> (Inl e, s') | (Inr x, s') \<Rightarrow> f x s')"

definition liftR :: "'a res \<Rightarrow> ('s, 'a) eff" where
  "liftR r s = (r, s)"

definition gets :: "('s \<Rightarrow> 'a) \<Rightarrow> ('s, 'a) eff" where
  "gets f s = (Inr (f s), s)"

definition modify :: "('s \<Rightarrow> 's) \<Rightarrow> ('s, unit) eff" where
  "modify f s = (Inr (), f s)"

definition ensure :: "bool \<Rightarrow> exc \<Rightarrow> ('s, unit) eff" where
  "ensure c e s = (if c then Inr () else Inl e, s)"

text \<open>\<open>try: m except: h\<close>, where \<open>h e\<close> re-raises what the source does not catch.\<close>

definition catchE :: "('s, 'a) eff \<Rightarrow> (exc \<Rightarrow> ('s, 'a) eff) \<Rightarrow> ('s, 'a) eff" where
  "catchE m h s = (case m s of (Inl e, s') \<Rightarrow> h e s' | (Inr x, s') \<Rightarrow> (Inr x, s'))"

text \<open>\<open>try ... finally\<close>.\<close>

definition finallyE :: "('s, 'a) eff \<Rightarrow> ('s, 'b) eff \<Rightarrow> ('s, 'a) eff" where
  "finallyE m f s =
     (case m s of (r, t) \<Rightarrow> (case f t of (Inl e, u) \<Rightarrow> (Inl e, u) | (Inr _, u) \<Rightarrow> (r, u)))"

text \<open>\<open>async with in_transaction()\<close>: an exception rolls the writes back.\<close>

definition transaction :: "('s, 'a) eff \<Rightarrow> ('s, 'a) eff" where
  "transaction m s = (case m s of (Inl e, _) \<Rightarrow> (Inl e, s) | (Inr x, s') \<Rightarrow> (Inr x, s'))"

fun forE :: "'b list \<Rightarrow> ('b \<Rightarrow> ('s, unit) eff) \<Rightarrow> ('s, unit) eff" where
  "forE [] f = ret ()"
| "forE (x # xs) f = bindE (f x) (\<lambda>_. forE xs f)"

fun mapE :: "('b \<Rightarrow> ('s, 'a) eff) \<Rightarrow> 'b list \<Rightarrow> ('s, 'a list) eff" where
  "mapE f [] = ret []"
| "mapE f (x # xs) = bindE (f x) (\<lambda>y. bindE (mapE f xs) (\<lambda>ys. ret (y # ys)))"

declare ret_def [eff_simps] raise_def [eff_simps] liftR_def [eff_simps] gets_def [eff_simps]
  modify_def [eff_simps] ensure_def [eff_simps]

lemma bindE_Inr: "m s = (Inr x, s') \<Longrightarrow> bindE m f s = f x s'"
  by (simp add: bindE_def)

lemma bindE_Inl: "m s = (Inl e, s') \<Longrightarrow> bindE m f s = (Inl e, s')"
  by (simp add: bindE_def)

lemma bindE_basic [eff_simps]:
  "bindE (ret x) f = f x"
  "bindE (raise e) f = raise e"
  "bindE (gets g) f s = f (g s) s"
  "bindE (modify h) k s = k () (h s)"
  "bindE (liftR (Inr x)) f = f x"
  "bindE (liftR (Inl e)) f = raise e"
  "bindE (ensure c e) k s = (if c then k () s else (Inl e, s))"
  by (simp_all add: bindE_def ret_def raise_def gets_def modify_def liftR_def ensure_def fun_eq_iff)

lemma bindE_assoc: "bindE (bindE m f) g = bindE m (\<lambda>x. bindE (f x) g)"
  by (simp add: bindE_def fun_eq_iff split: prod.splits sum.splits)

lemma bindE_eq_Inr:
  "bindE m f s = (Inr y, t) \<longleftrightarrow> (\<exists>x s'. m s = (Inr x, s') \<and> f x s' = (Inr y, t))"
  by (auto simp: bindE_def split: prod.splits sum.splits)

lemma bindE_eq_Inl:
  "bindE m f s = (Inl e, t) \<longleftrightarrow>
     m s = (Inl e, t) \<or> (\<exists>x s'. m s = (Inr x, s') \<and> f x s' = (Inl e, t))"
  by (auto simp: bindE_def split: prod.splits sum.splits)

lemma catch_Inr: "(\<And>e s. \<nexists>x t. h e s = (Inr x, t)) \<Longrightarrow> catchE m h s = (Inr x, t) \<longleftrightarrow> m s = (Inr x, t)"
  by (auto simp: catchE_def split: prod.splits sum.splits)

lemma transaction_eq_Inr: "transaction m s = (Inr x, t) \<longleftrightarrow> m s = (Inr x, t)"
  by (auto simp: transaction_def split: prod.splits sum.splits)

lemma transaction_Inl_state: "transaction m s = (Inl e, t) \<Longrightarrow> t = s"
  by (auto simp: transaction_def split: prod.splits sum.splits)

lemma transaction_eq_Inl: "transaction m s = (Inl e, t) \<longleftrightarrow> t = s \<and> (\<exists>t'. m s = (Inl e, t'))"
  by (auto simp: transaction_def split: prod.splits sum.splits)

lemmas eff_outcomes = bindE_eq_Inr bindE_eq_Inl transaction_eq_Inr transaction_eq_Inl

section \<open>Times\<close>

text \<open>A \<open>datetime\<close>: aware ones are instants (microseconds since the epoch, UTC), naive ones carry
  no time zone. Columns of type \<open>TIMESTAMPTZ\<close> hold instants.\<close>

datatype datetime = Naive int | Aware int

fun is_aware :: "datetime \<Rightarrow> bool" where
  "is_aware (Aware _) = True"
| "is_aware (Naive _) = False"

end
