(* ===== verification/Workshop_Enums.thy ===== *)
theory Workshop_Enums
  imports Prelude
begin

text \<open>
  The enumerations of \<open>app/server/workshop/domain/enums.py\<close> with their stored values, the
  external-capability gate (\<open>external_tool_gate.py\<close>), the role policy (\<open>role_policy.py\<close>) and
  the effective capabilities of an expert (\<open>ecommerce/effective_profile.py\<close>). Each enumeration has
  its list of members, \<open>*_value\<close> (the \<open>.value\<close> of a member) and \<open>*_of\<close> (the call of the
  class on a string, which raises \<open>ValueError\<close> on an unknown value).
\<close>

section \<open>Enumerations\<close>

datatype task_status =
    TS_ALIGNING | TS_AWAITING_GO | TS_AUTHORIZED | TS_EXECUTING | TS_BLOCKED
  | TS_RE_ALIGNING | TS_REVIEWING | TS_DONE | TS_FAILED | TS_CANCELLED

fun task_status_value :: "task_status \<Rightarrow> string" where
  "task_status_value TS_ALIGNING = ''aligning''"
| "task_status_value TS_AWAITING_GO = ''awaiting_go''"
| "task_status_value TS_AUTHORIZED = ''authorized''"
| "task_status_value TS_EXECUTING = ''executing''"
| "task_status_value TS_BLOCKED = ''blocked''"
| "task_status_value TS_RE_ALIGNING = ''re_aligning''"
| "task_status_value TS_REVIEWING = ''reviewing''"
| "task_status_value TS_DONE = ''done''"
| "task_status_value TS_FAILED = ''failed''"
| "task_status_value TS_CANCELLED = ''cancelled''"

definition all_task_status :: "task_status list" where
  "all_task_status =
     [TS_ALIGNING, TS_AWAITING_GO, TS_AUTHORIZED, TS_EXECUTING, TS_BLOCKED,
      TS_RE_ALIGNING, TS_REVIEWING, TS_DONE, TS_FAILED, TS_CANCELLED]"

datatype workshop_role = ROLE_SINGLE_AGENT | ROLE_HOST | ROLE_ADVISOR | ROLE_EXECUTOR

datatype expert_kind = EK_ADVISOR | EK_EXECUTOR

fun expert_kind_value :: "expert_kind \<Rightarrow> string" where
  "expert_kind_value EK_ADVISOR = ''advisor''"
| "expert_kind_value EK_EXECUTOR = ''executor''"

datatype workflow_status = WS_DRAFT | WS_SAVED

datatype workflow_source = SRC_AGENT | SRC_USER

datatype run_status =
  RS_QUEUED | RS_RUNNING | RS_SUCCEEDED | RS_FAILED | RS_BLOCKED | RS_CANCELLED

fun run_status_value :: "run_status \<Rightarrow> string" where
  "run_status_value RS_QUEUED = ''queued''"
| "run_status_value RS_RUNNING = ''running''"
| "run_status_value RS_SUCCEEDED = ''succeeded''"
| "run_status_value RS_FAILED = ''failed''"
| "run_status_value RS_BLOCKED = ''blocked''"
| "run_status_value RS_CANCELLED = ''cancelled''"

datatype run_trigger = TRIG_MANUAL | TRIG_SCHEDULE | TRIG_TRIAL

datatype proposal_status = PS_PENDING | PS_CONFIRMED | PS_DECLINED

datatype storage_type = ST_DB | ST_OSS | ST_FILESYSTEM

fun storage_type_value :: "storage_type \<Rightarrow> string" where
  "storage_type_value ST_DB = ''db''"
| "storage_type_value ST_OSS = ''oss''"
| "storage_type_value ST_FILESYSTEM = ''filesystem''"

definition all_storage_type :: "storage_type list" where
  "all_storage_type = [ST_DB, ST_OSS, ST_FILESYSTEM]"

datatype event_kind =
  EV_SCHEDULE_STARTED | EV_SCHEDULE_SUMMARY | EV_ARTIFACTS_PUBLISHED | EV_SCHEDULE_BLOCKED

datatype capability =
    WEB_SEARCH | WEB_FETCH_READONLY | READ_UPLOADS | WRITE_TEMP_WORKSPACE
  | READ_PROJECT_FILES | WRITE_PROJECT_FILES | BROWSER_READ | BROWSER_WRITE
  | SANDBOX_EXECUTE | MCP | DRAFT_WORKFLOW | CONFIRM_SAVE_WORKFLOW | CREATE_SCHEDULE
  | START_WORKFLOW_EXECUTION | STOP_WORKFLOW_EXECUTION | DELETE_WORKFLOW
  | MANUAL_RUN_WORKFLOW | REQUEST_EXTERNAL_AUTH | PROPOSE_INVITE | INVITE_EXPERT
  | RAISE_AUTH_POPUP | TAOBAO_STORE_WRITE | GENERATION_LIST_MODELS | GENERATION_SUBMIT

fun capability_value :: "capability \<Rightarrow> string" where
  "capability_value WEB_SEARCH = ''web_search''"
| "capability_value WEB_FETCH_READONLY = ''web_fetch_readonly''"
| "capability_value READ_UPLOADS = ''read_uploads''"
| "capability_value WRITE_TEMP_WORKSPACE = ''write_temp_workspace''"
| "capability_value READ_PROJECT_FILES = ''read_project_files''"
| "capability_value WRITE_PROJECT_FILES = ''write_project_files''"
| "capability_value BROWSER_READ = ''browser_read''"
| "capability_value BROWSER_WRITE = ''browser_write''"
| "capability_value SANDBOX_EXECUTE = ''sandbox_execute''"
| "capability_value MCP = ''mcp''"
| "capability_value DRAFT_WORKFLOW = ''draft_workflow''"
| "capability_value CONFIRM_SAVE_WORKFLOW = ''confirm_save_workflow''"
| "capability_value CREATE_SCHEDULE = ''create_schedule''"
| "capability_value START_WORKFLOW_EXECUTION = ''start_workflow_execution''"
| "capability_value STOP_WORKFLOW_EXECUTION = ''stop_workflow_execution''"
| "capability_value DELETE_WORKFLOW = ''delete_workflow''"
| "capability_value MANUAL_RUN_WORKFLOW = ''manual_run_workflow''"
| "capability_value REQUEST_EXTERNAL_AUTH = ''request_external_auth''"
| "capability_value PROPOSE_INVITE = ''propose_invite''"
| "capability_value INVITE_EXPERT = ''invite_expert''"
| "capability_value RAISE_AUTH_POPUP = ''raise_auth_popup''"
| "capability_value TAOBAO_STORE_WRITE = ''taobao_store_write''"
| "capability_value GENERATION_LIST_MODELS = ''generation_list_models''"
| "capability_value GENERATION_SUBMIT = ''generation_submit''"

definition all_capability :: "capability list" where
  "all_capability =
     [WEB_SEARCH, WEB_FETCH_READONLY, READ_UPLOADS, WRITE_TEMP_WORKSPACE,
      READ_PROJECT_FILES, WRITE_PROJECT_FILES, BROWSER_READ, BROWSER_WRITE,
      SANDBOX_EXECUTE, MCP, DRAFT_WORKFLOW, CONFIRM_SAVE_WORKFLOW, CREATE_SCHEDULE,
      START_WORKFLOW_EXECUTION, STOP_WORKFLOW_EXECUTION, DELETE_WORKFLOW,
      MANUAL_RUN_WORKFLOW, REQUEST_EXTERNAL_AUTH, PROPOSE_INVITE, INVITE_EXPERT,
      RAISE_AUTH_POPUP, TAOBAO_STORE_WRITE, GENERATION_LIST_MODELS, GENERATION_SUBMIT]"

text \<open>Calling an enumeration class on a value.\<close>

definition enum_of :: "string \<Rightarrow> 'a list \<Rightarrow> ('a \<Rightarrow> string) \<Rightarrow> string \<Rightarrow> 'a res" where
  "enum_of cls members val s =
     (case find (\<lambda>m. val m = s) members of
        Some m \<Rightarrow> Inr m
      | None \<Rightarrow> Inl (ValueError (repr_str s @ '' is not a valid '' @ cls)))"

definition capability_of :: "string \<Rightarrow> capability res" where
  "capability_of = enum_of ''WorkshopToolCapability'' all_capability capability_value"

definition storage_type_of :: "string \<Rightarrow> storage_type res" where
  "storage_type_of = enum_of ''WorkshopArtifactStorageType'' all_storage_type storage_type_value"

lemma enum_of_value:
  assumes "m \<in> set ms" and "inj_on val (set ms)"
  shows "enum_of cls ms val (val m) = Inr m"
proof -
  obtain m' where f: "find (\<lambda>x. val x = val m) ms = Some m'"
    using assms(1) by (cases "find (\<lambda>x. val x = val m) ms") (auto simp: find_None_iff)
  then have "m' \<in> set ms" "val m' = val m" by (auto simp: find_Some_iff in_set_conv_nth)
  with assms have "m' = m" by (auto dest: inj_onD)
  with f show ?thesis by (simp add: enum_of_def)
qed

lemma all_capability_UNIV: "set all_capability = UNIV"
proof -
  have "c \<in> set all_capability" for c by (cases c) (simp_all add: all_capability_def)
  then show ?thesis by blast
qed

lemma distinct_capability_values: "distinct (map capability_value all_capability)"
  by (simp add: all_capability_def)

lemma inj_capability_value: "inj capability_value"
  using distinct_capability_values by (simp add: distinct_map all_capability_UNIV)

lemma capability_of_value [simp]: "capability_of (capability_value c) = Inr c"
  unfolding capability_of_def
  by (rule enum_of_value) (simp_all add: all_capability_UNIV inj_capability_value)

lemma capability_of_Inr: "capability_of s = Inr c \<longleftrightarrow> s = capability_value c"
proof
  assume "capability_of s = Inr c"
  then show "s = capability_value c"
    by (auto simp: capability_of_def enum_of_def find_Some_iff split: option.splits)
qed simp

lemma storage_type_of_value [simp]: "storage_type_of (storage_type_value t) = Inr t"
  by (cases t) (simp_all add: storage_type_of_def enum_of_def all_storage_type_def)

lemma inj_storage_type_value: "inj storage_type_value"
  by (rule injI) (metis storage_type_of_value sum.inject(2))

lemma inj_task_status_value: "task_status_value a = task_status_value b \<longleftrightarrow> a = b"
  by (cases a; cases b) simp_all

section \<open>The external-capability gate\<close>

definition external_capabilities :: "capability list" where
  "external_capabilities =
     [BROWSER_WRITE, MCP, CREATE_SCHEDULE, TAOBAO_STORE_WRITE, GENERATION_SUBMIT]"

definition is_external_capability :: "capability \<Rightarrow> bool" where
  "is_external_capability c \<longleftrightarrow> c \<in> set external_capabilities"

definition executor_may_use_external :: "capability set \<Rightarrow> capability \<Rightarrow> bool" where
  "executor_may_use_external granted c =
     (if \<not> is_external_capability c then True else c \<in> granted)"

section \<open>Role policy and effective capabilities\<close>

definition single_agent_caps :: "capability set" where
  "single_agent_caps = {WEB_SEARCH, WEB_FETCH_READONLY, READ_UPLOADS, WRITE_TEMP_WORKSPACE}"

definition host_caps :: "capability set" where
  "host_caps =
     {READ_PROJECT_FILES, INVITE_EXPERT, RAISE_AUTH_POPUP, PROPOSE_INVITE, DRAFT_WORKFLOW,
      CONFIRM_SAVE_WORKFLOW, CREATE_SCHEDULE, START_WORKFLOW_EXECUTION,
      STOP_WORKFLOW_EXECUTION, DELETE_WORKFLOW, MANUAL_RUN_WORKFLOW}"

definition advisor_caps :: "capability set" where
  "advisor_caps =
     {WEB_SEARCH, WEB_FETCH_READONLY, READ_UPLOADS, READ_PROJECT_FILES, BROWSER_READ,
      PROPOSE_INVITE}"

definition executor_caps :: "capability set" where
  "executor_caps =
     {WEB_SEARCH, WEB_FETCH_READONLY, READ_UPLOADS, READ_PROJECT_FILES, WRITE_PROJECT_FILES,
      WRITE_TEMP_WORKSPACE, BROWSER_READ, BROWSER_WRITE, SANDBOX_EXECUTE, MCP,
      REQUEST_EXTERNAL_AUTH, PROPOSE_INVITE, TAOBAO_STORE_WRITE, GENERATION_LIST_MODELS,
      GENERATION_SUBMIT}"

fun capabilities_for :: "workshop_role \<Rightarrow> capability set" where
  "capabilities_for ROLE_SINGLE_AGENT = single_agent_caps"
| "capabilities_for ROLE_HOST = host_caps"
| "capabilities_for ROLE_ADVISOR = advisor_caps"
| "capabilities_for ROLE_EXECUTOR = executor_caps"

definition role_allows :: "workshop_role \<Rightarrow> capability \<Rightarrow> bool" where
  "role_allows r c \<longleftrightarrow> c \<in> capabilities_for r"

definition resolve_effective_capabilities ::
    "workshop_role \<Rightarrow> capability set \<Rightarrow> capability set \<Rightarrow> capability set" where
  "resolve_effective_capabilities role allow granted =
     (let base = capabilities_for role \<inter> allow
      in {c \<in> base. if is_external_capability c then c \<in> granted else True})"

fun expert_kind_to_role :: "expert_kind \<Rightarrow> workshop_role" where
  "expert_kind_to_role EK_ADVISOR = ROLE_ADVISOR"
| "expert_kind_to_role EK_EXECUTOR = ROLE_EXECUTOR"

end
