(* ===== verification/Workflow_Definition.thy ===== *)
theory Workflow_Definition
  imports Workshop_Enums "HOL-Library.Multiset"
begin

text \<open>
  Executable workflow definitions: \<open>app/server/workshop/domain/workflow_definition.py\<close>. The
  dataclasses are records; their \<open>__post_init__\<close> methods, which normalise the fields and raise
  \<open>WorkflowDefinitionError\<close>, are the \<open>*_init\<close> functions. Then the graph checks
  (\<open>_ancestors\<close>, \<open>_has_cycle\<close>), the validation before saving, and the JSON codec of the
  \<open>steps\<close> column.
\<close>

section \<open>Data\<close>

record node_assignee =
  preset_key :: string

record node_input =
  ni_kind :: string
  ni_name :: string
  ni_from :: "string option"

record node_output =
  no_name :: string
  no_storage :: storage_type
  no_required :: bool

record workflow_node =
  wn_id :: string
  wn_title :: string
  wn_instruction :: string
  wn_assignee :: node_assignee
  wn_inputs :: "node_input list"
  wn_outputs :: "node_output list"
  wn_caps :: "capability list"
  wn_on_failure :: string

record workflow_edge =
  from_id :: string
  to_id :: string

record workflow_definition =
  wd_nodes :: "workflow_node list"
  wd_edges :: "workflow_edge list"
  wd_known_presets :: "string set"
  wd_allowlists :: "capability set dict"
  wd_entry :: "string list option"

abbreviation WDE :: "string \<Rightarrow> exc" where
  "WDE \<equiv> WorkflowDefinitionError"

definition node_assignee_init :: "string \<Rightarrow> node_assignee res" where
  "node_assignee_init preset =
     (let key = strip preset
      in if key = [] then Inl (WDE ''assignee.preset_key required'')
         else Inr \<lparr>preset_key = key\<rparr>)"

definition node_input_init :: "string \<Rightarrow> string \<Rightarrow> string option \<Rightarrow> node_input res" where
  "node_input_init kind name from =
     (let k = strip kind in
      if k \<notin> {''artifact'', ''project_brief''} then Inl (WDE (''unsupported input kind: '' @ k))
      else if k = ''artifact'' then
        (let n = strip name in
         if n = [] then Inl (WDE ''artifact input name required'')
         else (case from of
                 None \<Rightarrow> Inr \<lparr>ni_kind = k, ni_name = n, ni_from = None\<rparr>
               | Some f \<Rightarrow>
                   if strip f = [] then Inl (WDE ''from_node_id required when set'')
                   else Inr \<lparr>ni_kind = k, ni_name = n, ni_from = Some (strip f)\<rparr>))
      else Inr \<lparr>ni_kind = k, ni_name = name, ni_from = from\<rparr>)"

definition node_output_init :: "string \<Rightarrow> storage_type \<Rightarrow> bool \<Rightarrow> node_output res" where
  "node_output_init name st req =
     (let n = strip name in
      if n = [] then Inl (WDE ''output name required'')
      else Inr \<lparr>no_name = n, no_storage = st, no_required = req\<rparr>)"

definition workflow_node_init ::
  "string \<Rightarrow> string \<Rightarrow> string \<Rightarrow> node_assignee \<Rightarrow> node_input list \<Rightarrow> node_output list
   \<Rightarrow> capability list \<Rightarrow> string \<Rightarrow> workflow_node res" where
  "workflow_node_init id0 title instruction assignee inputs outputs caps on_failure =
     (let i = strip id0; t = strip title; ins = strip instruction in
      if i = [] then Inl (WDE ''node id required'')
      else if t = [] then Inl (WDE ''node title required'')
      else if ins = [] then Inl (WDE ''node instruction required'')
      else if on_failure \<notin> {''fail_run'', ''block''}
        then Inl (WDE (''unsupported on_failure: '' @ on_failure))
      else Inr \<lparr>wn_id = i, wn_title = t, wn_instruction = ins, wn_assignee = assignee,
                wn_inputs = inputs, wn_outputs = outputs, wn_caps = caps,
                wn_on_failure = on_failure\<rparr>)"

definition workflow_edge_init :: "string \<Rightarrow> string \<Rightarrow> workflow_edge res" where
  "workflow_edge_init f t =
     (let a = strip f; b = strip t in
      if a = [] \<or> b = [] then Inl (WDE ''edge endpoints required'')
      else if a = b then Inl (WDE ''self-loop edge forbidden'')
      else Inr \<lparr>from_id = a, to_id = b\<rparr>)"

section \<open>Graph checks\<close>

text \<open>
  \<open>_ancestors\<close>: the loop over \<open>stack\<close>, popping from its end. A popped id is either already
  seen, and the stack shrinks, or new, and the ids not yet seen shrink.
\<close>

function ancestors_loop :: "string list dict \<Rightarrow> string list \<Rightarrow> string set \<Rightarrow> string set" where
  "ancestors_loop incoming stack seen =
     (if stack = [] then seen
      else if last stack \<in> seen then ancestors_loop incoming (butlast stack) seen
      else ancestors_loop incoming
             (butlast stack @ (case dict_get incoming (last stack) of None \<Rightarrow> [] | Some ps \<Rightarrow> ps))
             (insert (last stack) seen))"
  by pat_completeness auto

definition ancestor_universe :: "string list dict \<Rightarrow> string list \<Rightarrow> string set" where
  "ancestor_universe incoming stack = set stack \<union> (\<Union>ps \<in> snd ` set incoming. set ps)"

lemma finite_ancestor_universe [simp]: "finite (ancestor_universe incoming stack)"
  by (simp add: ancestor_universe_def)

lemma ancestor_universe_push:
  "stack \<noteq> [] \<Longrightarrow>
   ancestor_universe incoming
     (butlast stack @ (case dict_get incoming x of None \<Rightarrow> [] | Some ps \<Rightarrow> ps))
   \<subseteq> ancestor_universe incoming stack"
  by (cases "dict_get incoming x")
     (fastforce simp: ancestor_universe_def dest: in_set_butlastD map_of_SomeD)+

lemma ancestor_universe_pop:
  "ancestor_universe incoming (butlast stack) \<subseteq> ancestor_universe incoming stack"
  by (auto simp: ancestor_universe_def dest: in_set_butlastD)

termination ancestors_loop
proof (relation "measures [\<lambda>(inc, st, seen). card (ancestor_universe inc st - seen),
                           \<lambda>(inc, st, seen). length st]", goal_cases)
  case 1
  then show ?case by simp
next
  case (2 incoming stack seen)
  have "card (ancestor_universe incoming (butlast stack) - seen)
        \<le> card (ancestor_universe incoming stack - seen)"
    by (rule card_mono) (use ancestor_universe_pop in auto)
  moreover have "length (butlast stack) < length stack" using 2(1) by simp
  ultimately show ?case by auto
next
  case (3 incoming stack seen)
  let ?st = "butlast stack @ (case dict_get incoming (last stack) of None \<Rightarrow> [] | Some ps \<Rightarrow> ps)"
  have "last stack \<in> ancestor_universe incoming stack"
    using 3(1) by (simp add: ancestor_universe_def)
  then have "ancestor_universe incoming ?st - insert (last stack) seen
             \<subset> ancestor_universe incoming stack - seen"
    using ancestor_universe_push [OF 3(1), of incoming "last stack"] 3(2) by blast
  then have "card (ancestor_universe incoming ?st - insert (last stack) seen)
             < card (ancestor_universe incoming stack - seen)"
    by (intro psubset_card_mono) auto
  then show ?case by simp
qed

declare ancestors_loop.simps [simp del]

definition ancestors :: "string \<Rightarrow> string list dict \<Rightarrow> string set" where
  "ancestors node_id incoming =
     ancestors_loop incoming
       (case dict_get incoming node_id of None \<Rightarrow> [] | Some ps \<Rightarrow> ps) {}"

text \<open>
  \<open>_has_cycle\<close>: the degree table and the adjacency lists, then the elimination loop, which pops
  from the end of the queue. \<open>relax\<close> is the inner loop over the successors of the popped node.
\<close>

fun count_edges :: "workflow_edge list \<Rightarrow> string list dict \<Rightarrow> int dict
    \<Rightarrow> (string list dict \<times> int dict) res" where
  "count_edges [] out ind = Inr (out, ind)"
| "count_edges (e # es) out ind =
     (case dict_get out (from_id e) of
        None \<Rightarrow> Inl (KeyError (from_id e))
      | Some ts \<Rightarrow>
          count_edges es (dict_set out (from_id e) (ts @ [to_id e]))
            (dict_set ind (to_id e)
               ((case dict_get ind (to_id e) of None \<Rightarrow> 0 | Some d \<Rightarrow> d) + 1)))"

fun relax :: "string list \<Rightarrow> int dict \<Rightarrow> string list \<Rightarrow> (int dict \<times> string list) res" where
  "relax [] ind q = Inr (ind, q)"
| "relax (n # ns) ind q =
     (case dict_get ind n of
        None \<Rightarrow> Inl (KeyError n)
      | Some d \<Rightarrow> relax ns (dict_set ind n (d - 1)) (if d - 1 = 0 then q @ [n] else q))"

definition pos_count :: "int dict \<Rightarrow> nat" where
  "pos_count ind = length (filter (\<lambda>kv. snd kv > 0) ind)"

lemma pos_count_set:
  "dict_get ind n = Some d \<Longrightarrow>
   pos_count (dict_set ind n v) + (if d > 0 then 1 else 0) = pos_count ind + (if v > 0 then 1 else 0)"
  by (induction ind) (auto simp: pos_count_def split: if_splits)

lemma relax_measure:
  "relax ns ind q = Inr (ind', q') \<Longrightarrow> length q' + pos_count ind' = length q + pos_count ind"
proof (induction ns ind q rule: relax.induct)
  case (1 ind q)
  then show ?case by simp
next
  case (2 n ns ind q)
  then obtain d where d: "dict_get ind n = Some d" by (auto split: option.splits)
  with 2 have "length q' + pos_count ind'
      = length (if d - 1 = 0 then q @ [n] else q) + pos_count (dict_set ind n (d - 1))"
    by (auto split: if_splits)
  with pos_count_set [OF d, of "d - 1"] show ?case by (auto split: if_splits)
qed

function has_cycle_loop ::
    "string list dict \<Rightarrow> string list \<Rightarrow> int dict \<Rightarrow> nat \<Rightarrow> nat res" where
  "has_cycle_loop out q ind visited =
     (if q = [] then Inr visited
      else (case dict_get out (last q) of
              None \<Rightarrow> Inl (KeyError (last q))
            | Some ns \<Rightarrow>
                (case relax ns ind (butlast q) of
                   Inl e \<Rightarrow> Inl e
                 | Inr (ind', q') \<Rightarrow> has_cycle_loop out q' ind' (visited + 1))))"
  by pat_completeness auto
termination
  by (relation "measure (\<lambda>(out, q, ind, v). length q + pos_count ind)")
     (auto dest!: relax_measure)

declare has_cycle_loop.simps [simp del]

definition has_cycle :: "string list \<Rightarrow> workflow_edge list \<Rightarrow> bool res" where
  "has_cycle node_ids edges =
     bindR (count_edges edges (dict_of_keys node_ids []) (dict_of_keys node_ids 0))
       (\<lambda>(out, ind).
         bindR (has_cycle_loop out (map fst (filter (\<lambda>kv. snd kv = 0) ind)) ind 0)
           (\<lambda>visited. Inr (visited \<noteq> length node_ids)))"

section \<open>Validation before saving\<close>

fun collect_nodes :: "workflow_node list \<Rightarrow> workflow_node dict \<Rightarrow> workflow_node dict res" where
  "collect_nodes [] acc = Inr acc"
| "collect_nodes (n # ns) acc =
     (if wn_id n \<in> fst ` set acc then Inl (WDE (''duplicate node id: '' @ wn_id n))
      else collect_nodes ns (acc @ [(wn_id n, n)]))"

fun check_edges :: "string set \<Rightarrow> workflow_edge list \<Rightarrow> unit res" where
  "check_edges ids [] = Inr ()"
| "check_edges ids (e # es) =
     (if from_id e \<notin> ids \<or> to_id e \<notin> ids then Inl (WDE ''edge endpoint unknown'')
      else check_edges ids es)"

fun build_incoming :: "workflow_edge list \<Rightarrow> string list dict \<Rightarrow> string list dict res" where
  "build_incoming [] inc = Inr inc"
| "build_incoming (e # es) inc =
     (case dict_get inc (to_id e) of
        None \<Rightarrow> Inl (KeyError (to_id e))
      | Some ps \<Rightarrow> build_incoming es (dict_set inc (to_id e) (ps @ [from_id e])))"

definition check_entry :: "string list \<Rightarrow> string list option \<Rightarrow> unit res" where
  "check_entry roots entry =
     (case entry of
        None \<Rightarrow> Inr ()
      | Some es \<Rightarrow>
          (let entries = map strip es in
           if entries = [] \<or> (\<exists>x \<in> set entries. x = [])
             then Inl (WDE ''entry_node_ids invalid'')
           else if set entries \<noteq> set roots
             then Inl (WDE ''entry_node_ids must match roots'')
           else Inr ()))"

fun own_outputs :: "string \<Rightarrow> node_output list \<Rightarrow> string dict \<Rightarrow> string dict res" where
  "own_outputs nid [] owners = Inr owners"
| "own_outputs nid (o0 # os) owners =
     (if no_name o0 \<in> fst ` set owners then Inl (WDE (''duplicate artifact name: '' @ no_name o0))
      else own_outputs nid os (owners @ [(no_name o0, nid)]))"

definition check_preset :: "workflow_definition \<Rightarrow> workflow_node \<Rightarrow> unit res" where
  "check_preset d n =
     (let preset = preset_key (wn_assignee n) in
      if preset \<notin> wd_known_presets d then Inl (WDE (''unknown preset: '' @ preset))
      else (case dict_get (wd_allowlists d) preset of
              None \<Rightarrow> Inl (WDE (''missing allowlist for preset: '' @ preset))
            | Some allow \<Rightarrow>
                if \<exists>c \<in> set (wn_caps n). c \<notin> allow
                then Inl (WDE ''external_capabilities outside preset allowlist'')
                else Inr ()))"

fun check_inputs :: "string dict \<Rightarrow> string set \<Rightarrow> node_input list \<Rightarrow> unit res" where
  "check_inputs owners anc [] = Inr ()"
| "check_inputs owners anc (i # is) =
     (if ni_kind i \<noteq> ''artifact'' then check_inputs owners anc is
      else (case dict_get owners (ni_name i) of
              None \<Rightarrow>
                (case ni_from i of
                   None \<Rightarrow> Inl (WDE (''unknown artifact input: '' @ ni_name i))
                 | Some f \<Rightarrow>
                     if f \<notin> anc
                     then Inl (WDE (''artifact must come from ancestor: '' @ ni_name i))
                     else check_inputs owners anc is)
            | Some owner \<Rightarrow>
                if ni_from i \<noteq> None \<and> ni_from i \<noteq> Some owner
                then Inl (WDE (''artifact owner mismatch: '' @ ni_name i))
                else if owner \<notin> anc
                then Inl (WDE (''artifact must come from ancestor: '' @ ni_name i))
                else check_inputs owners anc is))"

fun check_nodes :: "workflow_definition \<Rightarrow> string list dict \<Rightarrow> string dict \<Rightarrow> workflow_node list
    \<Rightarrow> unit res" where
  "check_nodes d incoming owners [] = Inr ()"
| "check_nodes d incoming owners (n # ns) =
     bindR (own_outputs (wn_id n) (wn_outputs n) owners) (\<lambda>owners'.
     bindR (check_preset d n) (\<lambda>_.
     bindR (check_inputs owners' (ancestors (wn_id n) incoming) (wn_inputs n)) (\<lambda>_.
     check_nodes d incoming owners' ns)))"

definition validate_workflow_definition :: "workflow_definition \<Rightarrow> unit res" where
  "validate_workflow_definition d =
     (if wd_nodes d = [] then Inl (WDE ''nodes required'')
      else
        bindR (collect_nodes (wd_nodes d) []) (\<lambda>by_id.
        bindR (check_edges (fst ` set by_id) (wd_edges d)) (\<lambda>_.
        bindR (has_cycle (map fst by_id) (wd_edges d)) (\<lambda>cyclic.
        if cyclic then Inl (WDE ''cycle in workflow graph'')
        else
          bindR (build_incoming (wd_edges d) (dict_of_keys (map fst by_id) [])) (\<lambda>incoming.
          let roots = map fst (filter (\<lambda>kv. snd kv = []) incoming) in
          if roots = [] then Inl (WDE ''entry node required'')
          else
            bindR (check_entry roots (wd_entry d)) (\<lambda>_.
            check_nodes d incoming [] (wd_nodes d)))))))"

end
