(* ===== verification/Workflow_Graph.thy ===== *)
theory Workflow_Graph
  imports Workflow_Definition
begin

text \<open>
  Correctness of the graph checks of \<open>workflow_definition.py\<close> against the edge relation.
  \<open>_has_cycle\<close> and the executor's \<open>topological_order\<close> are the same elimination of nodes
  without remaining predecessors under two queue disciplines (pop the last id, pop the least id):
  the locale \<open>queue_discipline\<close> states what the elimination needs of the queue and proves once
  that a step keeps its invariant \<open>kahn_inv\<close>.
\<close>

section \<open>The edge relation\<close>

definition edge_rel :: "workflow_edge list \<Rightarrow> (string \<times> string) set" where
  "edge_rel es = (\<lambda>e. (from_id e, to_id e)) ` set es"

definition edges_within :: "workflow_edge list \<Rightarrow> string set \<Rightarrow> bool" where
  "edges_within es V \<longleftrightarrow> (\<forall>e \<in> set es. from_id e \<in> V \<and> to_id e \<in> V)"

definition succs :: "workflow_edge list \<Rightarrow> string \<Rightarrow> string list" where
  "succs es n = map to_id (filter (\<lambda>e. from_id e = n) es)"

definition preds :: "workflow_edge list \<Rightarrow> string \<Rightarrow> string list" where
  "preds es n = map from_id (filter (\<lambda>e. to_id e = n) es)"

definition remaining :: "workflow_edge list \<Rightarrow> string list \<Rightarrow> string \<Rightarrow> nat" where
  "remaining es ord n = length (filter (\<lambda>e. to_id e = n \<and> from_id e \<notin> set ord) es)"

lemma remaining_zero: "remaining es ord n = 0 \<longleftrightarrow> set (preds es n) \<subseteq> set ord"
  by (auto simp: remaining_def preds_def filter_empty_conv)

lemma count_succs: "count_list (succs es x) n = length (filter (\<lambda>e. from_id e = x \<and> to_id e = n) es)"
  by (induction es) (auto simp: succs_def)

lemma remaining_snoc:
  "x \<notin> set ord \<Longrightarrow> remaining es (ord @ [x]) n + count_list (succs es x) n = remaining es ord n"
  by (induction es) (auto simp: remaining_def succs_def)

lemma finite_edge_rel [simp]: "finite (edge_rel es)"
  by (simp add: edge_rel_def)

lemma in_edge_rel: "(a, b) \<in> edge_rel es \<longleftrightarrow> a \<in> set (preds es b)"
  by (auto simp: edge_rel_def preds_def)

lemma edges_within_edge_rel: "edges_within es V \<Longrightarrow> (a, b) \<in> edge_rel es \<Longrightarrow> a \<in> V \<and> b \<in> V"
  by (auto simp: edge_rel_def edges_within_def)

section \<open>The tables\<close>

lemma map_fst_update_old: "k \<in> fst ` set d \<Longrightarrow> map fst (AList.update k v d) = map fst d"
  by (simp add: AList.update_keys)

lemma count_edges_spec:
  assumes "\<forall>e \<in> set es. from_id e \<in> fst ` set out \<and> to_id e \<in> fst ` set ind"
  shows "\<exists>out' ind'. count_edges es out ind = Inr (out', ind')
           \<and> map fst out' = map fst out \<and> map fst ind' = map fst ind
           \<and> (\<forall>n. map_of out' n = map_option (\<lambda>ts. ts @ succs es n) (map_of out n))
           \<and> (\<forall>n. map_of ind' n = map_option (\<lambda>d. d + int (length (preds es n))) (map_of ind n))"
  using assms
proof (induction es arbitrary: out ind)
  case Nil
  then show ?case by (simp add: succs_def preds_def option.map_ident)
next
  case (Cons e es)
  let ?a = "from_id e" and ?b = "to_id e"
  have ab: "?a \<in> fst ` set out" "?b \<in> fst ` set ind" using Cons.prems by auto
  then obtain ts d where t: "map_of out ?a = Some ts" and d: "map_of ind ?b = Some d"
    by (metis map_of_eq_None_iff not_Some_eq)
  let ?out = "AList.update ?a (ts @ [?b]) out" and ?ind = "AList.update ?b (d + 1) ind"
  have keys: "map fst ?out = map fst out" "map fst ?ind = map fst ind"
    using ab by (simp_all add: map_fst_update_old)
  then have "fst ` set ?out = fst ` set out" "fst ` set ?ind = fst ` set ind"
    by (metis list.set_map)+
  with Cons.prems have "\<forall>e \<in> set es. from_id e \<in> fst ` set ?out \<and> to_id e \<in> fst ` set ?ind"
    by simp
  from Cons.IH [OF this] obtain out' ind' where
    r: "count_edges es ?out ?ind = Inr (out', ind')"
    and k: "map fst out' = map fst ?out" "map fst ind' = map fst ?ind"
    and o: "\<forall>n. map_of out' n = map_option (\<lambda>ts. ts @ succs es n) (map_of ?out n)"
    and i: "\<forall>n. map_of ind' n = map_option (\<lambda>d. d + int (length (preds es n))) (map_of ?ind n)"
    by blast
  have "map_of out' n = map_option (\<lambda>ts. ts @ succs (e # es) n) (map_of out n)" for n
    using o t by (simp add: AList.update_conv' succs_def)
  moreover have "map_of ind' n = map_option (\<lambda>d. d + int (length (preds (e # es) n))) (map_of ind n)" for n
    using i d by (simp add: AList.update_conv' preds_def)
  ultimately show ?case using r k keys t d by simp
qed

lemma relax_spec:
  assumes "\<forall>n \<in> set ns. \<exists>d. map_of ind n = Some d \<and> int (count_list ns n) \<le> d"
  shows "\<exists>ind' ps. relax ns ind q = Inr (ind', q @ ps)
           \<and> map fst ind' = map fst ind
           \<and> (\<forall>n. map_of ind' n = map_option (\<lambda>d. d - int (count_list ns n)) (map_of ind n))
           \<and> distinct ps
           \<and> (\<forall>n. n \<in> set ps \<longleftrightarrow> n \<in> set ns \<and> map_of ind n = Some (int (count_list ns n)))"
  using assms
proof (induction ns arbitrary: ind q)
  case Nil
  then show ?case by (simp add: option.map_ident)
next
  case (Cons m ns)
  then obtain d where d: "map_of ind m = Some d" "int (count_list ns m) + 1 \<le> d"
    by fastforce
  let ?ind = "AList.update m (d - 1) ind"
  let ?q = "if d - 1 = 0 then q @ [m] else q"
  have "\<forall>n \<in> set ns. \<exists>d. map_of ?ind n = Some d \<and> int (count_list ns n) \<le> d"
  proof
    fix n assume "n \<in> set ns"
    with Cons.prems obtain d' where "map_of ind n = Some d'" "int (count_list (m # ns) n) \<le> d'"
      by auto
    with d show "\<exists>d. map_of ?ind n = Some d \<and> int (count_list ns n) \<le> d"
      by (auto simp: AList.update_conv' split: if_splits)
  qed
  from Cons.IH [OF this, of ?q] obtain ind' ps where
    r: "relax ns ?ind ?q = Inr (ind', ?q @ ps)" and k: "map fst ind' = map fst ?ind"
    and i: "\<forall>n. map_of ind' n = map_option (\<lambda>d. d - int (count_list ns n)) (map_of ?ind n)"
    and dist: "distinct ps"
    and ps: "\<forall>n. n \<in> set ps \<longleftrightarrow> n \<in> set ns \<and> map_of ?ind n = Some (int (count_list ns n))"
    by blast
  let ?ps = "if d - 1 = 0 then m # ps else ps"
  have mfst: "m \<in> fst ` set ind" using d(1) by (metis map_of_eq_None_iff option.distinct(1))
  have "m \<notin> set ps" if "d - 1 = 0"
    using that d ps by (auto simp: AList.update_conv' count_list_0_iff)
  then have "distinct ?ps" using dist by simp
  moreover have "n \<in> set ?ps \<longleftrightarrow>
      n \<in> set (m # ns) \<and> map_of ind n = Some (int (count_list (m # ns) n))" for n
  proof (cases "n = m")
    case True
    show ?thesis
    proof (cases "m \<in> set ns")
      case True
      then have "0 < count_list ns m" using count_list_0_iff [of ns m] by auto
      with True \<open>n = m\<close> d ps show ?thesis by (auto simp: AList.update_conv')
    next
      case False
      then have "count_list ns m = 0" by (simp add: count_list_0_iff)
      with False \<open>n = m\<close> d ps show ?thesis by (auto simp: AList.update_conv')
    qed
  next
    case False
    then show ?thesis using d ps by (auto simp: AList.update_conv')
  qed
  moreover have "map_of ind' n = map_option (\<lambda>d. d - int (count_list (m # ns) n)) (map_of ind n)" for n
    using i d by (simp add: AList.update_conv')
  moreover have "relax (m # ns) ind q = Inr (ind', q @ ?ps)"
    using r d(1) by (cases "d - 1 = 0") simp_all
  moreover have "map fst ind' = map fst ind"
    using k mfst by (simp add: map_fst_update_old)
  ultimately show ?case by blast
qed

section \<open>Elimination of nodes without predecessors\<close>

definition kahn_inv ::
    "workflow_edge list \<Rightarrow> string set \<Rightarrow> string list \<Rightarrow> int dict \<Rightarrow> string list \<Rightarrow> bool" where
  "kahn_inv es V q ind ord \<longleftrightarrow>
     distinct (ord @ q) \<and> set (ord @ q) \<subseteq> V \<and>
     (\<forall>n \<in> V. map_of ind n = Some (int (remaining es ord n))) \<and>
     (\<forall>n \<in> V. n \<in> set (ord @ q) \<longleftrightarrow> remaining es ord n = 0) \<and>
     (\<forall>i < length ord. set (preds es (ord ! i)) \<subseteq> set (take i ord))"

lemma kahn_inv_start:
  assumes "\<forall>n \<in> V. map_of ind n = Some (int (length (preds es n)))" and "fst ` set ind = V"
    and "distinct (map fst ind)"
  shows "kahn_inv es V (map fst (filter (\<lambda>kv. snd kv = 0) ind)) ind []"
proof -
  have rem: "remaining es [] n = length (preds es n)" for n
    by (simp add: remaining_def preds_def)
  have "n \<in> set (map fst (filter (\<lambda>kv. snd kv = 0) ind)) \<longleftrightarrow> remaining es [] n = 0"
    if n: "n \<in> V" for n
  proof -
    have mo: "map_of ind n = Some (int (length (preds es n)))" using n assms(1) by blast
    have "(\<exists>d. (n, d) \<in> set ind \<and> d = 0) \<longleftrightarrow> int (length (preds es n)) = 0"
      using mo assms(3) by (metis map_of_eq_Some_iff option.inject)
    then show ?thesis by (force simp: rem)
  qed
  moreover have "distinct (map fst (filter (\<lambda>kv. snd kv = 0) ind))"
    using assms(3) by (simp add: distinct_map_filter)
  moreover have "set (map fst (filter (\<lambda>kv. snd kv = 0) ind)) \<subseteq> V"
    using assms(2) by auto
  ultimately show ?thesis using assms(1) by (simp add: kahn_inv_def rem)
qed

lemma kahn_inv_step:
  assumes inv: "kahn_inv es V q ind ord" and within: "edges_within es V"
    and pop: "mset q = add_mset x (mset q1)"
  shows "\<exists>ind' q'. relax (succs es x) ind q1 = Inr (ind', q') \<and> kahn_inv es V q' ind' (ord @ [x])"
proof -
  have q: "set q = insert x (set q1)" "distinct q = (x \<notin> set q1 \<and> distinct q1)"
    using mset_eq_setD [of q "x # q1"] mset_eq_imp_distinct_iff [of q "x # q1"] pop by simp_all
  have xV: "x \<in> V" and xord: "x \<notin> set ord" and dq: "distinct (ord @ q)"
    using inv q by (auto simp: kahn_inv_def)
  have rem: "map_of ind n = Some (int (remaining es ord n))"
    and mem: "n \<in> set (ord @ q) \<longleftrightarrow> remaining es ord n = 0" if "n \<in> V" for n
    using inv that by (auto simp: kahn_inv_def)
  have sV: "n \<in> V" if "n \<in> set (succs es x)" for n
    using that within by (auto simp: succs_def edges_within_def)
  have snoc: "remaining es (ord @ [x]) n + count_list (succs es x) n = remaining es ord n" for n
    using remaining_snoc [OF xord] .
  have "\<forall>n \<in> set (succs es x). \<exists>d. map_of ind n = Some d \<and> int (count_list (succs es x) n) \<le> d"
  proof
    fix n assume "n \<in> set (succs es x)"
    then show "\<exists>d. map_of ind n = Some d \<and> int (count_list (succs es x) n) \<le> d"
      using rem [OF sV] snoc [of n] by (intro exI [of _ "int (remaining es ord n)"]) auto
  qed
  from relax_spec [OF this, of q1] obtain ind' ps where
    r: "relax (succs es x) ind q1 = Inr (ind', q1 @ ps)"
    and i: "\<forall>n. map_of ind' n = map_option (\<lambda>d. d - int (count_list (succs es x) n)) (map_of ind n)"
    and dps: "distinct ps"
    and ps: "\<forall>n. n \<in> set ps \<longleftrightarrow> n \<in> set (succs es x) \<and>
                   map_of ind n = Some (int (count_list (succs es x) n))"
    by blast
  have psV: "set ps \<subseteq> V" using ps sV by auto
  have new: "n \<in> set ps \<longleftrightarrow> n \<notin> set (ord @ q) \<and> remaining es (ord @ [x]) n = 0" if "n \<in> V" for n
  proof -
    have "n \<in> set (succs es x) \<longleftrightarrow> 0 < count_list (succs es x) n"
      using count_list_0_iff [of "succs es x" n] by auto
    then have "n \<in> set ps \<longleftrightarrow>
        0 < count_list (succs es x) n \<and> remaining es ord n = count_list (succs es x) n"
      using spec [OF ps, of n] rem [OF that] by simp
    then show ?thesis unfolding mem [OF that] using snoc [of n] by linarith
  qed
  have old: "remaining es (ord @ [x]) n = 0" if "n \<in> V" "n \<in> set (ord @ q)" for n
    using mem [OF that(1)] that(2) snoc [of n] by simp
  have "kahn_inv es V (q1 @ ps) ind' (ord @ [x])"
    unfolding kahn_inv_def
  proof (intro conjI ballI allI impI)
    show "distinct ((ord @ [x]) @ q1 @ ps)"
      using dq q dps new psV by auto
    show "set ((ord @ [x]) @ q1 @ ps) \<subseteq> V"
      using inv q psV by (auto simp: kahn_inv_def)
    show "map_of ind' n = Some (int (remaining es (ord @ [x]) n))" if "n \<in> V" for n
      using i rem [OF that] snoc [of n] by simp
    show "n \<in> set ((ord @ [x]) @ q1 @ ps) \<longleftrightarrow> remaining es (ord @ [x]) n = 0" if "n \<in> V" for n
      using new [OF that] old [OF that] q by auto
    show "set (preds es ((ord @ [x]) ! k)) \<subseteq> set (take k (ord @ [x]))"
      if "k < length (ord @ [x])" for k
    proof (cases "k < length ord")
      case True
      then show ?thesis using inv by (auto simp: kahn_inv_def nth_append)
    next
      case False
      with that have "k = length ord" by simp
      moreover have "remaining es ord x = 0" using mem [OF xV] q by simp
      ultimately show ?thesis by (simp add: remaining_zero)
    qed
  qed
  with r show ?thesis by blast
qed

text \<open>When the queue is empty, every node was eliminated exactly if the graph has no cycle.\<close>

lemma take_before: "a \<in> set (take i xs) \<Longrightarrow> length (takeWhile (\<lambda>y. y \<noteq> a) xs) < i"
proof (induction xs arbitrary: i)
  case Nil
  then show ?case by simp
next
  case (Cons y xs)
  then show ?case by (cases i) auto
qed

lemma takeWhile_nth: "distinct xs \<Longrightarrow> i < length xs \<Longrightarrow> length (takeWhile (\<lambda>y. y \<noteq> xs ! i) xs) = i"
proof (induction xs arbitrary: i)
  case Nil
  then show ?case by simp
next
  case (Cons y xs)
  then show ?case by (cases i) auto
qed

lemma order_acyclic:
  assumes "distinct ord" and "\<forall>i < length ord. set (preds es (ord ! i)) \<subseteq> set (take i ord)"
    and "\<forall>(a, b) \<in> edge_rel es. b \<in> set ord"
  shows "acyclic (edge_rel es)"
proof -
  let ?f = "\<lambda>x. length (takeWhile (\<lambda>y. y \<noteq> x) ord)"
  have "edge_rel es \<subseteq> measure ?f"
  proof
    fix ab assume ab: "ab \<in> edge_rel es"
    obtain a b where [simp]: "ab = (a, b)" by (cases ab)
    from ab assms(3) obtain i where i: "i < length ord" "ord ! i = b"
      by (auto simp: in_set_conv_nth)
    have "a \<in> set (take i ord)" using assms(2) i ab by (auto simp: in_edge_rel)
    then have "?f a < i" by (rule take_before)
    moreover have "?f b = i" using takeWhile_nth [OF assms(1) i(1)] i(2) by simp
    ultimately show "ab \<in> measure ?f" by simp
  qed
  then show ?thesis by (meson wf_acyclic wf_measure wf_subset)
qed

lemma kahn_inv_done:
  assumes inv: "kahn_inv es V [] ind ord" and within: "edges_within es V"
  shows "set ord = V \<longleftrightarrow> acyclic (edge_rel es)"
proof
  assume "set ord = V"
  then have "\<forall>(a, b) \<in> edge_rel es. b \<in> set ord"
    using edges_within_edge_rel [OF within] by blast
  with inv show "acyclic (edge_rel es)"
    by (auto simp: kahn_inv_def intro!: order_acyclic [of ord])
next
  assume "acyclic (edge_rel es)"
  then have wf: "wf (edge_rel es)" by (simp add: finite_acyclic_wf)
  show "set ord = V"
  proof (rule ccontr)
    assume "set ord \<noteq> V"
    with inv obtain z0 where "z0 \<in> V - set ord" by (auto simp: kahn_inv_def)
    from wfE_min [OF wf this] obtain z where
      z: "z \<in> V - set ord" and min: "\<And>y. (y, z) \<in> edge_rel es \<Longrightarrow> y \<notin> V - set ord"
      by blast
    have "set (preds es z) \<subseteq> set ord"
      using min edges_within_edge_rel [OF within] by (auto simp: in_edge_rel)
    then have "remaining es ord z = 0" by (simp add: remaining_zero)
    with inv z show False by (auto simp: kahn_inv_def)
  qed
qed

lemma kahn_inv_done_length:
  assumes "kahn_inv es (set ids) [] ind ord" "edges_within es (set ids)" "distinct ids"
  shows "length ord = length ids \<longleftrightarrow> acyclic (edge_rel es)"
proof -
  have "distinct ord" "set ord \<subseteq> set ids" using assms(1) by (auto simp: kahn_inv_def)
  then have "length ord = length ids \<longleftrightarrow> set ord = set ids"
    using assms(3) by (metis List.finite_set card_subset_eq distinct_card)
  with kahn_inv_done [OF assms(1,2)] show ?thesis by simp
qed

section \<open>Queue disciplines\<close>

locale queue_discipline =
  fixes pop :: "string list \<Rightarrow> string \<times> string list"
  assumes pop_mset: "q \<noteq> [] \<Longrightarrow> mset q = add_mset (fst (pop q)) (mset (snd (pop q)))"
begin

lemma pop_step:
  assumes "kahn_inv es V q ind ord" "edges_within es V" "q \<noteq> []"
  shows "\<exists>ind' q'. relax (succs es (fst (pop q))) ind (snd (pop q)) = Inr (ind', q')
           \<and> kahn_inv es V q' ind' (ord @ [fst (pop q)])"
  using kahn_inv_step [OF assms(1,2) pop_mset [OF assms(3)]] .

lemma pop_in: "q \<noteq> [] \<Longrightarrow> fst (pop q) \<in> set q"
  using pop_mset by (metis set_mset_mset union_single_eq_member)

end

definition pop_last :: "string list \<Rightarrow> string \<times> string list" where
  "pop_last q = (last q, butlast q)"

definition pop_least :: "string list \<Rightarrow> string \<times> string list" where
  "pop_least q = (hd (sort q), tl (sort q))"

interpretation lifo: queue_discipline pop_last
proof
  fix q :: "string list"
  assume "q \<noteq> []"
  then have "q = butlast q @ [last q]" by simp
  then show "mset q = add_mset (fst (pop_last q)) (mset (snd (pop_last q)))"
    by (metis fst_conv mset.simps(2) mset_append pop_last_def snd_conv union_mset_add_mset_right
        add.right_neutral mset.simps(1))
qed

interpretation least_first: queue_discipline pop_least
proof
  fix q :: "string list"
  assume "q \<noteq> []"
  then have "sort q = hd (sort q) # tl (sort q)"
    by (metis length_0_conv length_sort list.collapse)
  then show "mset q = add_mset (fst (pop_least q)) (mset (snd (pop_least q)))"
    by (metis fst_conv mset.simps(2) mset_sort pop_least_def snd_conv)
qed

section \<open>\<open>_has_cycle\<close> decides cycles\<close>

lemma has_cycle_loop_correct:
  assumes "kahn_inv es V q ind ord" "edges_within es V"
    and "\<forall>n \<in> V. map_of out n = Some (succs es n)"
  shows "\<exists>ord' ind'. has_cycle_loop out q ind (length ord) = Inr (length ord')
           \<and> kahn_inv es V [] ind' ord'"
  using assms
proof (induction out q ind "length ord" arbitrary: ord rule: has_cycle_loop.induct)
  case (1 out q ind)
  show ?case
  proof (cases "q = []")
    case True
    with 1(2) show ?thesis
      by (subst has_cycle_loop.simps) auto
  next
    case False
    then have "last q \<in> V" using 1(2) by (auto simp: kahn_inv_def)
    then have out: "map_of out (last q) = Some (succs es (last q))" using 1(4) by blast
    obtain ind' q' where r: "relax (succs es (last q)) ind (butlast q) = Inr (ind', q')"
      and inv: "kahn_inv es V q' ind' (ord @ [last q])"
      using lifo.pop_step [OF 1(2,3) False] by (auto simp: pop_last_def)
    obtain ord' ind'' where
      "has_cycle_loop out q' ind' (length ord + 1) = Inr (length ord')" "kahn_inv es V [] ind'' ord'"
      using 1(1) [OF False out r refl, of "ord @ [last q]"] inv 1(3,4) by simp blast
    with False out r show ?thesis
      by (subst has_cycle_loop.simps) auto
  qed
qed

lemma tables_start:
  assumes "distinct ids" "edges_within es (set ids)"
  obtains out ind where
    "count_edges es (dict_of_keys ids []) (dict_of_keys ids 0) = Inr (out, ind)"
    "\<forall>n \<in> set ids. map_of out n = Some (succs es n)"
    "kahn_inv es (set ids) (map fst (filter (\<lambda>kv. snd kv = 0) ind)) ind []"
proof -
  let ?o = "dict_of_keys ids []" and ?i = "dict_of_keys ids (0 :: int)"
  have o: "?o = map (\<lambda>k. (k, [])) ids" and i: "?i = map (\<lambda>k. (k, 0)) ids"
    using assms(1) by (simp_all add: dict_of_keys_distinct)
  have "\<forall>e \<in> set es. from_id e \<in> fst ` set ?o \<and> to_id e \<in> fst ` set ?i"
    using assms(2) by (auto simp: o i edges_within_def image_iff)
  from count_edges_spec [OF this] obtain out ind where
    r: "count_edges es ?o ?i = Inr (out, ind)"
    and k: "map fst ind = map fst ?i"
    and mo: "\<forall>n. map_of out n = map_option (\<lambda>ts. ts @ succs es n) (map_of ?o n)"
    and mi: "\<forall>n. map_of ind n = map_option (\<lambda>d. d + int (length (preds es n))) (map_of ?i n)"
    by blast
  have ki: "map fst ind = ids" using k by (simp add: i comp_def)
  then have kis: "fst ` set ind = set ids" by (metis list.set_map)
  have "kahn_inv es (set ids) (map fst (filter (\<lambda>kv. snd kv = 0) ind)) ind []"
    by (rule kahn_inv_start) (use mi ki kis assms(1) in \<open>simp_all add: i map_of_map_const\<close>)
  moreover have "\<forall>n \<in> set ids. map_of out n = Some (succs es n)"
    using mo by (simp add: o map_of_map_const)
  ultimately show ?thesis using r that by blast
qed

lemma has_cycle_acyclic:
  assumes "distinct ids" "edges_within es (set ids)"
  shows "has_cycle ids es = Inr (\<not> acyclic (edge_rel es))"
proof -
  obtain out ind where
    c: "count_edges es (dict_of_keys ids []) (dict_of_keys ids 0) = Inr (out, ind)"
    and out: "\<forall>n \<in> set ids. map_of out n = Some (succs es n)"
    and inv: "kahn_inv es (set ids) (map fst (filter (\<lambda>kv. snd kv = 0) ind)) ind []"
    using tables_start [OF assms] by blast
  from has_cycle_loop_correct [OF inv assms(2) out] obtain ord ind' where
    "has_cycle_loop out (map fst (filter (\<lambda>kv. snd kv = 0) ind)) ind 0 = Inr (length ord)"
    "kahn_inv es (set ids) [] ind' ord"
    by auto
  with c kahn_inv_done_length [OF _ assms(2,1)] show ?thesis
    by (simp add: has_cycle_def)
qed

section \<open>\<open>_ancestors\<close> computes the strict ancestors\<close>

definition pred_rel :: "string list dict \<Rightarrow> (string \<times> string) set" where
  "pred_rel inc = {(p, x). \<exists>ps. map_of inc x = Some ps \<and> p \<in> set ps}"

definition reach :: "string list dict \<Rightarrow> string set \<Rightarrow> string set" where
  "reach inc S = {p. \<exists>s \<in> S. (p, s) \<in> (pred_rel inc)\<^sup>*}"

lemma reach_closed:
  assumes "\<forall>x \<in> S. \<forall>p. (p, x) \<in> pred_rel inc \<longrightarrow> p \<in> S \<union> T" and "x \<in> S"
    and "(p, x) \<in> (pred_rel inc)\<^sup>*"
  shows "p \<in> S \<union> reach inc T"
  using assms(3,2)
proof (induction rule: rtrancl_induct)
  case base
  then show ?case by simp
next
  case (step y z)
  then have "y \<in> S \<union> T" using assms(1) by blast
  with step show ?case by (auto simp: reach_def)
qed

lemma reach_Un: "reach inc (A \<union> B) = reach inc A \<union> reach inc B"
  by (auto simp: reach_def)

lemma reach_insert: "reach inc (insert x A) = reach inc {x} \<union> reach inc A"
  by (auto simp: reach_def)

lemma reach_insert_preds:
  "reach inc {x} = insert x (reach inc {p. (p, x) \<in> pred_rel inc})"
  by (auto simp: reach_def elim: rtranclE intro: rtrancl_into_rtrancl)

lemma preds_of_case:
  "set (case map_of inc x of None \<Rightarrow> [] | Some ps \<Rightarrow> ps) = {p. (p, x) \<in> pred_rel inc}"
  by (cases "map_of inc x") (auto simp: pred_rel_def)

lemma ancestors_loop_reach:
  assumes "\<forall>x \<in> seen. \<forall>p. (p, x) \<in> pred_rel inc \<longrightarrow> p \<in> seen \<union> set stack"
  shows "ancestors_loop inc stack seen = seen \<union> reach inc (set stack)"
  using assms
proof (induction inc stack seen rule: ancestors_loop.induct)
  case (1 inc stack seen)
  show ?case
  proof (cases "stack = []")
    case True
    then show ?thesis by (subst ancestors_loop.simps) (simp add: reach_def)
  next
    case False
    then have st: "set stack = insert (last stack) (set (butlast stack))"
      by (cases stack rule: rev_cases) auto
    show ?thesis
    proof (cases "last stack \<in> seen")
      case True
      have closed: "\<forall>x \<in> seen. \<forall>p. (p, x) \<in> pred_rel inc \<longrightarrow> p \<in> seen \<union> set (butlast stack)"
        using 1(3) True st by auto
      have "reach inc {last stack} \<subseteq> seen \<union> reach inc (set (butlast stack))"
        using reach_closed [OF closed True] by (auto simp: reach_def)
      moreover have "reach inc (set stack) = reach inc {last stack} \<union> reach inc (set (butlast stack))"
        unfolding st by (rule reach_insert)
      ultimately have "seen \<union> reach inc (set stack) = seen \<union> reach inc (set (butlast stack))"
        by blast
      with 1(1) [OF False True closed] False True show ?thesis
        by (subst ancestors_loop.simps) simp
    next
      case new: False
      let ?x = "last stack"
      let ?st = "butlast stack @ (case map_of inc ?x of None \<Rightarrow> [] | Some ps \<Rightarrow> ps)"
      have sst: "set ?st = set (butlast stack) \<union> {p. (p, ?x) \<in> pred_rel inc}"
        using preds_of_case by auto
      have "\<forall>y \<in> insert ?x seen. \<forall>p. (p, y) \<in> pred_rel inc \<longrightarrow> p \<in> insert ?x seen \<union> set ?st"
        unfolding sst using 1(3) st by auto
      from 1(2) [OF False new this]
      have "ancestors_loop inc ?st (insert ?x seen) = insert ?x seen \<union> reach inc (set ?st)" .
      moreover have "insert ?x (reach inc (set ?st)) = reach inc (set stack)"
        unfolding sst reach_Un st
        using reach_insert [of inc ?x "set (butlast stack)"] reach_insert_preds [of inc ?x] by blast
      ultimately show ?thesis using False new
        by (subst ancestors_loop.simps) auto
    qed
  qed
qed

lemma ancestors_trancl: "ancestors n inc = {p. (p, n) \<in> (pred_rel inc)\<^sup>+}"
proof -
  have "ancestors n inc = reach inc {p. (p, n) \<in> pred_rel inc}"
    unfolding ancestors_def by (subst ancestors_loop_reach) (simp_all add: preds_of_case)
  also have "\<dots> = {p. (p, n) \<in> (pred_rel inc)\<^sup>+}"
    by (auto simp: reach_def trancl_unfold_right relcomp_unfold)
  finally show ?thesis .
qed

lemma build_incoming_spec:
  assumes "\<forall>e \<in> set es. to_id e \<in> fst ` set inc"
  shows "\<exists>inc'. build_incoming es inc = Inr inc' \<and> map fst inc' = map fst inc
           \<and> (\<forall>n. map_of inc' n = map_option (\<lambda>ps. ps @ preds es n) (map_of inc n))"
  using assms
proof (induction es arbitrary: inc)
  case Nil
  then show ?case by (simp add: preds_def option.map_ident)
next
  case (Cons e es)
  let ?b = "to_id e"
  have b: "?b \<in> fst ` set inc" using Cons.prems by simp
  then obtain ps where ps: "map_of inc ?b = Some ps"
    by (metis map_of_eq_None_iff not_Some_eq)
  let ?inc = "AList.update ?b (ps @ [from_id e]) inc"
  have k: "map fst ?inc = map fst inc" using b by (simp add: map_fst_update_old)
  then have "fst ` set ?inc = fst ` set inc" by (metis list.set_map)
  with Cons.prems have "\<forall>e \<in> set es. to_id e \<in> fst ` set ?inc" by simp
  from Cons.IH [OF this] obtain inc' where
    r: "build_incoming es ?inc = Inr inc'" "map fst inc' = map fst ?inc"
    and m: "\<forall>n. map_of inc' n = map_option (\<lambda>ps. ps @ preds es n) (map_of ?inc n)" by blast
  have "map_of inc' n = map_option (\<lambda>ps. ps @ preds (e # es) n) (map_of inc n)" for n
    using m ps by (simp add: AList.update_conv' preds_def)
  with r k ps show ?case by simp
qed

lemma build_incoming_start:
  assumes "distinct ids" "edges_within es (set ids)"
  obtains inc where "build_incoming es (dict_of_keys ids []) = Inr inc"
    "map fst inc = ids" "\<forall>n \<in> set ids. map_of inc n = Some (preds es n)"
    "pred_rel inc = edge_rel es"
proof -
  let ?i = "dict_of_keys ids ([] :: string list)"
  have i: "?i = map (\<lambda>k. (k, [])) ids" using assms(1) by (simp add: dict_of_keys_distinct)
  have "\<forall>e \<in> set es. to_id e \<in> fst ` set ?i"
    using assms(2) by (auto simp: i edges_within_def image_iff)
  from build_incoming_spec [OF this] obtain inc where
    r: "build_incoming es ?i = Inr inc" and k: "map fst inc = map fst ?i"
    and m: "\<forall>n. map_of inc n = map_option (\<lambda>ps. ps @ preds es n) (map_of ?i n)" by blast
  have mo: "map_of inc n = (if n \<in> set ids then Some (preds es n) else None)" for n
    using m by (simp add: i map_of_map_const)
  have "pred_rel inc = edge_rel es"
    using edges_within_edge_rel [OF assms(2)]
    by (auto simp: pred_rel_def mo in_edge_rel split: if_splits)
  with r k mo show ?thesis by (intro that) (simp_all add: i comp_def)
qed

end
