(* ===== verification/Workflow_Codec.thy ===== *)
theory Workflow_Codec
  imports Workflow_Definition
begin

text \<open>
  The JSON codec of workflow definitions (\<open>definition_to_jsonable\<close> and
  \<open>parse_definition_graph\<close> of \<open>workflow_definition.py\<close>), the well-formedness that the
  \<open>__post_init__\<close> methods establish, and the round trip through the \<open>steps\<close> column.
\<close>

section \<open>Serialisation\<close>

definition input_to_json :: "node_input \<Rightarrow> json" where
  "input_to_json i =
     JObj ([(''kind'', JStr (ni_kind i)), (''name'', JStr (ni_name i))]
           @ (case ni_from i of None \<Rightarrow> [] | Some f \<Rightarrow> [(''from_node_id'', JStr f)]))"

definition output_to_json :: "node_output \<Rightarrow> json" where
  "output_to_json x =
     JObj [(''name'', JStr (no_name x)),
           (''storage_type'', JStr (storage_type_value (no_storage x))),
           (''required'', JBool (no_required x))]"

definition node_to_json :: "workflow_node \<Rightarrow> json" where
  "node_to_json n =
     JObj [(''id'', JStr (wn_id n)), (''title'', JStr (wn_title n)),
           (''instruction'', JStr (wn_instruction n)),
           (''assignee'', JObj [(''preset_key'', JStr (preset_key (wn_assignee n)))]),
           (''inputs'', JList (map input_to_json (wn_inputs n))),
           (''outputs'', JList (map output_to_json (wn_outputs n))),
           (''external_capabilities'', JList (map (\<lambda>c. JStr (capability_value c)) (wn_caps n))),
           (''on_failure'', JStr (wn_on_failure n))]"

definition edge_to_json :: "workflow_edge \<Rightarrow> json" where
  "edge_to_json e = JObj [(''from'', JStr (from_id e)), (''to'', JStr (to_id e))]"

definition definition_to_jsonable ::
    "workflow_node list \<Rightarrow> workflow_edge list \<Rightarrow> string \<Rightarrow> string list option \<Rightarrow> json res" where
  "definition_to_jsonable nodes edges model_key entry =
     (let key = strip model_key in
      if key = [] then Inl (WDE ''model_key required'')
      else Inr (JObj ([(''model_key'', JStr key),
                       (''nodes'', JList (map node_to_json nodes)),
                       (''edges'', JList (map edge_to_json edges))]
                      @ (case entry of None \<Rightarrow> []
                         | Some es \<Rightarrow> [(''entry_node_ids'', JList (map JStr es))]))))"

section \<open>Parsing\<close>

text \<open>\<open>x or []\<close>, and the comprehensions over the objects of a list: elements that are not
  objects are skipped, and their number is compared afterwards.\<close>

definition or_empty :: "json \<Rightarrow> json" where
  "or_empty v = (if py_truthy v then v else JList [])"

definition objects_of :: "json list \<Rightarrow> json dict list" where
  "objects_of vs = concat (map (\<lambda>v. case v of JObj d \<Rightarrow> [d] | _ \<Rightarrow> []) vs)"

definition parse_input :: "json dict \<Rightarrow> node_input res" where
  "parse_input d =
     node_input_init (py_str (jget_or d ''kind'' (JStr []))) (py_str (jget_or d ''name'' (JStr [])))
       (if jget d ''from_node_id'' \<noteq> JNull then Some (py_str (jget d ''from_node_id'')) else None)"

definition parse_output :: "json dict \<Rightarrow> node_output res" where
  "parse_output d =
     bindR (storage_type_of (py_str (jget d ''storage_type''))) (\<lambda>st.
     node_output_init (py_str (jget_or d ''name'' (JStr []))) st
       (py_truthy (jget_or d ''required'' (JBool True))))"

definition parse_edge :: "json dict \<Rightarrow> workflow_edge res" where
  "parse_edge d =
     workflow_edge_init (py_str (jget_or d ''from'' (JStr []))) (py_str (jget_or d ''to'' (JStr [])))"

definition parse_objects :: "string \<Rightarrow> (json dict \<Rightarrow> 'a res) \<Rightarrow> json list \<Rightarrow> 'a list res" where
  "parse_objects what f vs =
     bindR (mapR f (objects_of vs)) (\<lambda>xs.
     if length xs \<noteq> length vs then Inl (WDE (what @ '' must be object'')) else Inr xs)"

definition parse_node :: "json \<Rightarrow> workflow_node res" where
  "parse_node item =
     (case item of
        JObj d \<Rightarrow>
          (case jget d ''assignee'' of
             JObj a \<Rightarrow>
               (case (or_empty (jget d ''inputs''), or_empty (jget d ''outputs'')) of
                  (JList ins, JList outs) \<Rightarrow>
                    (case or_empty (jget d ''external_capabilities'') of
                       JList cs \<Rightarrow>
                         bindR (parse_objects ''input'' parse_input ins) (\<lambda>inputs.
                         bindR (parse_objects ''output'' parse_output outs) (\<lambda>outputs.
                         bindR (mapR (\<lambda>c. capability_of (py_str c)) cs) (\<lambda>caps.
                         bindR (node_assignee_init (py_str (jget_or a ''preset_key'' (JStr [])))) (\<lambda>asg.
                         workflow_node_init (py_str (jget_or d ''id'' (JStr [])))
                           (py_str (jget_or d ''title'' (JStr [])))
                           (py_str (jget_or d ''instruction'' (JStr [])))
                           asg inputs outputs caps
                           (py_str (jget_or d ''on_failure'' (JStr ''fail_run'')))))))
                     | _ \<Rightarrow> Inl (WDE ''external_capabilities must be list''))
                | _ \<Rightarrow> Inl (WDE ''inputs/outputs must be lists''))
           | _ \<Rightarrow> Inl (WDE ''assignee required''))
      | _ \<Rightarrow> Inl (WDE ''node must be object''))"

definition parse_entry :: "json \<Rightarrow> string list option res" where
  "parse_entry raw =
     (case raw of
        JNull \<Rightarrow> Inr None
      | JList vs \<Rightarrow> Inr (Some (map py_str vs))
      | _ \<Rightarrow> Inl (WDE ''entry_node_ids must be list''))"

definition parse_definition_graph ::
    "json \<Rightarrow> (workflow_node list \<times> workflow_edge list \<times> string list option \<times> string) res" where
  "parse_definition_graph raw =
     (case raw of
        JObj d \<Rightarrow>
          (let model_key = strip (py_str (jget_or d ''model_key'' (JStr []))) in
           if model_key = [] then Inl (WDE ''model_key required'')
           else (case jget d ''nodes'' of
                   JList (n # ns) \<Rightarrow>
                     (case jget d ''edges'' of
                        JList es \<Rightarrow>
                          bindR (mapR parse_node (n # ns)) (\<lambda>nodes.
                          bindR (parse_objects ''edge'' parse_edge es) (\<lambda>edges.
                          bindR (parse_entry (jget d ''entry_node_ids'')) (\<lambda>entry.
                          Inr (nodes, edges, entry, model_key))))
                      | _ \<Rightarrow> Inl (WDE ''edges required''))
                 | _ \<Rightarrow> Inl (WDE ''nodes required'')))
      | _ \<Rightarrow> Inl (WDE ''definition must be object''))"

section \<open>Well-formed values\<close>

definition text_ok :: "string \<Rightarrow> bool" where
  "text_ok s \<longleftrightarrow> stripped s \<and> s \<noteq> []"

definition input_ok :: "node_input \<Rightarrow> bool" where
  "input_ok i \<longleftrightarrow> ni_kind i = ''project_brief'' \<or>
     ni_kind i = ''artifact'' \<and> text_ok (ni_name i) \<and> pred_option text_ok (ni_from i)"

definition edge_ok :: "workflow_edge \<Rightarrow> bool" where
  "edge_ok e \<longleftrightarrow> text_ok (from_id e) \<and> text_ok (to_id e) \<and> from_id e \<noteq> to_id e"

definition node_ok :: "workflow_node \<Rightarrow> bool" where
  "node_ok n \<longleftrightarrow> text_ok (wn_id n) \<and> text_ok (wn_title n) \<and> text_ok (wn_instruction n)
     \<and> text_ok (preset_key (wn_assignee n)) \<and> list_all input_ok (wn_inputs n)
     \<and> list_all (\<lambda>x. text_ok (no_name x)) (wn_outputs n)
     \<and> wn_on_failure n \<in> {''fail_run'', ''block''}"

lemma text_ok_strip: "strip s \<noteq> [] \<Longrightarrow> text_ok (strip s)"
  by (simp add: text_ok_def)

lemma strip_text_ok: "text_ok s \<Longrightarrow> strip s = s \<and> s \<noteq> []"
  by (simp add: text_ok_def strip_stripped)

lemma text_ok_plain: "s \<noteq> [] \<Longrightarrow> plain_char (hd s) \<Longrightarrow> plain_char (last s) \<Longrightarrow> text_ok s"
  by (simp add: text_ok_def stripped_def strip_plain)

lemma strip_kinds [simp]: "strip ''artifact'' = ''artifact''" "strip ''project_brief'' = ''project_brief''"
  by (simp_all add: strip_plain plain_char_def)

lemma node_input_init_ok: "node_input_init k n f = Inr i \<Longrightarrow> input_ok i"
  by (auto simp: node_input_init_def input_ok_def text_ok_def Let_def split: if_splits option.splits)

lemma node_input_init_id: "input_ok i \<Longrightarrow> node_input_init (ni_kind i) (ni_name i) (ni_from i) = Inr i"
  by (auto simp: node_input_init_def input_ok_def strip_text_ok Let_def dest: strip_text_ok split: option.splits)

lemma node_output_init_ok: "node_output_init n st r = Inr x \<Longrightarrow> text_ok (no_name x)"
  by (auto simp: node_output_init_def text_ok_def Let_def split: if_splits)

lemma node_output_init_id:
  "text_ok (no_name x) \<Longrightarrow> node_output_init (no_name x) (no_storage x) (no_required x) = Inr x"
  by (auto simp: node_output_init_def strip_text_ok Let_def)

lemma node_assignee_init_ok: "node_assignee_init k = Inr a \<Longrightarrow> text_ok (preset_key a)"
  by (auto simp: node_assignee_init_def text_ok_def Let_def split: if_splits)

lemma node_assignee_init_id: "text_ok (preset_key a) \<Longrightarrow> node_assignee_init (preset_key a) = Inr a"
  by (auto simp: node_assignee_init_def strip_text_ok Let_def)

lemma workflow_edge_init_ok: "workflow_edge_init f t = Inr e \<Longrightarrow> edge_ok e"
  by (auto simp: workflow_edge_init_def edge_ok_def text_ok_def Let_def split: if_splits)

lemma workflow_edge_init_id: "edge_ok e \<Longrightarrow> workflow_edge_init (from_id e) (to_id e) = Inr e"
  by (auto simp: workflow_edge_init_def edge_ok_def strip_text_ok Let_def)

lemma workflow_node_init_ok:
  assumes "workflow_node_init i t ins a inputs outputs caps onf = Inr n"
    and "text_ok (preset_key a)" "list_all input_ok inputs" "list_all (\<lambda>x. text_ok (no_name x)) outputs"
  shows "node_ok n"
  using assms by (auto simp: workflow_node_init_def node_ok_def text_ok_def Let_def split: if_splits)

lemma workflow_node_init_id:
  "node_ok n \<Longrightarrow>
   workflow_node_init (wn_id n) (wn_title n) (wn_instruction n) (wn_assignee n) (wn_inputs n)
     (wn_outputs n) (wn_caps n) (wn_on_failure n) = Inr n"
  by (auto simp: workflow_node_init_def node_ok_def strip_text_ok Let_def)

section \<open>Parsed definitions are well formed\<close>

lemma mapR_all: "mapR f xs = Inr ys \<Longrightarrow> (\<And>x y. f x = Inr y \<Longrightarrow> P y) \<Longrightarrow> list_all P ys"
  unfolding mapR_Inr_iff by (induction xs ys rule: list_all2_induct) auto

lemma parse_objects_all:
  "parse_objects w f vs = Inr ys \<Longrightarrow> (\<And>x y. f x = Inr y \<Longrightarrow> P y) \<Longrightarrow> list_all P ys"
  by (auto simp: parse_objects_def bindR_Inr split: if_splits intro: mapR_all)

lemma parse_node_ok: "parse_node item = Inr n \<Longrightarrow> node_ok n"
proof -
  assume "parse_node item = Inr n"
  then obtain ins inputs outs outputs a asg i t instr caps onf where
    "parse_objects ''input'' parse_input ins = Inr inputs"
    "parse_objects ''output'' parse_output outs = Inr outputs"
    "node_assignee_init a = Inr asg"
    "workflow_node_init i t instr asg inputs outputs caps onf = Inr n"
    by (auto simp: parse_node_def bindR_Inr split: json.splits)
  moreover from this(1) have "list_all input_ok inputs"
    by (rule parse_objects_all) (auto simp: parse_input_def intro: node_input_init_ok)
  moreover from \<open>parse_objects ''output'' parse_output outs = Inr outputs\<close>
  have "list_all (\<lambda>x. text_ok (no_name x)) outputs"
    by (rule parse_objects_all) (auto simp: parse_output_def bindR_Inr intro: node_output_init_ok)
  ultimately show ?thesis using node_assignee_init_ok workflow_node_init_ok by blast
qed

lemma parse_definition_graph_ok:
  assumes "parse_definition_graph raw = Inr (nodes, edges, entry, model_key)"
  shows "nodes \<noteq> [] \<and> list_all node_ok nodes \<and> list_all edge_ok edges \<and> text_ok model_key"
proof -
  from assms obtain n ns es k where
    "mapR parse_node (n # ns) = Inr nodes" "parse_objects ''edge'' parse_edge es = Inr edges"
    "model_key = strip k" "strip k \<noteq> []"
    by (auto simp: parse_definition_graph_def bindR_Inr Let_def simp del: mapR.simps
        split: json.splits list.splits if_splits)
  moreover from this(1) have "nodes \<noteq> []" by (auto simp: bindR_Inr)
  moreover from \<open>mapR parse_node (n # ns) = Inr nodes\<close> have "list_all node_ok nodes"
    by (rule mapR_all) (rule parse_node_ok)
  moreover from \<open>parse_objects ''edge'' parse_edge es = Inr edges\<close> have "list_all edge_ok edges"
    by (rule parse_objects_all) (auto simp: parse_edge_def intro: workflow_edge_init_ok)
  ultimately show ?thesis by (simp add: text_ok_strip)
qed

section \<open>Round trip\<close>

lemma objects_of_map: "(\<And>x. \<exists>d. g x = JObj d) \<Longrightarrow>
  objects_of (map g xs) = map (\<lambda>x. case g x of JObj d \<Rightarrow> d | _ \<Rightarrow> []) xs"
proof (induction xs)
  case (Cons x xs)
  moreover obtain d where "g x = JObj d" using Cons.prems by blast
  ultimately show ?case by (simp add: objects_of_def)
qed (simp add: objects_of_def)

lemma parse_objects_map:
  assumes "\<And>x. \<exists>d. g x = JObj d" and "\<And>x d. x \<in> set xs \<Longrightarrow> g x = JObj d \<Longrightarrow> f d = Inr x"
  shows "parse_objects w f (map g xs) = Inr xs"
proof -
  let ?d = "\<lambda>x. case g x of JObj d \<Rightarrow> d | _ \<Rightarrow> []"
  have "f (?d x) = Inr x" if "x \<in> set xs" for x
    using assms(1) [of x] assms(2) [OF that] by auto
  then have "list_all2 (\<lambda>d y. f d = Inr y) (map ?d xs) xs"
    by (simp add: list.rel_map list_all2_same)
  then have "mapR f (map ?d xs) = Inr xs" by (simp add: mapR_Inr_iff)
  then show ?thesis by (simp add: parse_objects_def objects_of_map [OF assms(1)])
qed

lemma or_empty_map: "or_empty (JList xs) = JList xs"
  by (simp add: or_empty_def)

lemma parse_inputs_map:
  "list_all input_ok is \<Longrightarrow> parse_objects w parse_input (map input_to_json is) = Inr is"
proof (rule parse_objects_map)
  fix x d assume "list_all input_ok is" "x \<in> set is" "input_to_json x = JObj d"
  then show "parse_input d = Inr x"
    using node_input_init_id [of x]
    by (auto simp: input_to_json_def parse_input_def jget_def jget_or_def list_all_iff
        split: option.splits)
qed (simp add: input_to_json_def)

lemma parse_outputs_map:
  "list_all (\<lambda>x. text_ok (no_name x)) os \<Longrightarrow>
   parse_objects w parse_output (map output_to_json os) = Inr os"
proof (rule parse_objects_map)
  fix x d assume "list_all (\<lambda>x. text_ok (no_name x)) os" "x \<in> set os" "output_to_json x = JObj d"
  then show "parse_output d = Inr x"
    using node_output_init_id [of x]
    by (auto simp: output_to_json_def parse_output_def jget_def jget_or_def list_all_iff)
qed (simp add: output_to_json_def)

lemma parse_edges_map:
  "list_all edge_ok es \<Longrightarrow> parse_objects w parse_edge (map edge_to_json es) = Inr es"
proof (rule parse_objects_map)
  fix x d assume "list_all edge_ok es" "x \<in> set es" "edge_to_json x = JObj d"
  then show "parse_edge d = Inr x"
    using workflow_edge_init_id [of x]
    by (auto simp: edge_to_json_def parse_edge_def jget_or_def list_all_iff)
qed (simp add: edge_to_json_def)

lemma parse_caps_map:
  "mapR (\<lambda>c. capability_of (py_str c)) (map (\<lambda>c. JStr (capability_value c)) cs) = Inr cs"
  by (simp add: mapR_Inr_iff list.rel_map list_all2_same)

lemma parse_node_to_json: "node_ok n \<Longrightarrow> parse_node (node_to_json n) = Inr n"
  using workflow_node_init_id [of n] node_assignee_init_id [of "wn_assignee n"]
    parse_inputs_map [of "wn_inputs n" "''input''"] parse_outputs_map [of "wn_outputs n" "''output''"]
  by (simp add: parse_node_def node_to_json_def jget_def jget_or_def or_empty_map parse_caps_map
      node_ok_def)

lemma parse_to_jsonable:
  assumes "nodes \<noteq> []" and "list_all node_ok nodes" and "list_all edge_ok edges"
    and "definition_to_jsonable nodes edges model_key entry = Inr raw"
  shows "parse_definition_graph raw = Inr (nodes, edges, entry, strip model_key)"
proof -
  have nodes: "mapR parse_node (map node_to_json nodes) = Inr nodes"
    using assms(2) by (simp add: mapR_Inr_iff list.rel_map list_all2_same list_all_iff parse_node_to_json)
  obtain n ns where ns: "map node_to_json nodes = n # ns" using assms(1) by (cases nodes) auto
  have "strip model_key \<noteq> []"
    and raw: "raw = JObj ([(''model_key'', JStr (strip model_key)),
                       (''nodes'', JList (n # ns)), (''edges'', JList (map edge_to_json edges))]
                      @ (case entry of None \<Rightarrow> []
                         | Some es \<Rightarrow> [(''entry_node_ids'', JList (map JStr es))]))"
    using assms(4) by (auto simp: definition_to_jsonable_def Let_def ns split: if_splits)
  then show ?thesis
    using nodes [unfolded ns] parse_edges_map [OF assms(3)]
    by (cases entry) (simp_all add: parse_definition_graph_def parse_entry_def jget_def jget_or_def
        comp_def del: mapR.simps)
qed

text \<open>
  C36. Writing a definition to JSON and reading it back gives the same nodes, edges and entry ids and
  the stripped model key, for every non-empty list of nodes and every list of edges that the
  dataclass constructors can have produced.
\<close>

theorem definition_roundtrip:
  assumes "nodes \<noteq> []" and "list_all node_ok nodes" and "list_all edge_ok edges"
    and "definition_to_jsonable nodes edges model_key entry = Inr raw"
  shows "parse_definition_graph raw = Inr (nodes, edges, entry, strip model_key)"
  using assms by (rule parse_to_jsonable)

definition sample_node :: "string \<Rightarrow> node_input list \<Rightarrow> node_output list \<Rightarrow> workflow_node" where
  "sample_node i inputs outputs =
     \<lparr>wn_id = i, wn_title = ''t'', wn_instruction = ''do it'', wn_assignee = \<lparr>preset_key = ''p''\<rparr>,
      wn_inputs = inputs, wn_outputs = outputs, wn_caps = [MCP], wn_on_failure = ''block''\<rparr>"

definition sample_nodes :: "workflow_node list" where
  "sample_nodes =
     [sample_node ''a'' [\<lparr>ni_kind = ''project_brief'', ni_name = [], ni_from = None\<rparr>]
        [\<lparr>no_name = ''plan'', no_storage = ST_DB, no_required = True\<rparr>],
      sample_node ''b'' [\<lparr>ni_kind = ''artifact'', ni_name = ''plan'', ni_from = Some ''a''\<rparr>]
        [\<lparr>no_name = ''final'', no_storage = ST_OSS, no_required = False\<rparr>]]"

theorem definition_roundtrip_witness:
  "sample_nodes \<noteq> [] \<and> list_all node_ok sample_nodes
   \<and> list_all edge_ok [\<lparr>from_id = ''a'', to_id = ''b''\<rparr>]
   \<and> (\<exists>raw. definition_to_jsonable sample_nodes [\<lparr>from_id = ''a'', to_id = ''b''\<rparr>] ''m'' (Some [''a'']) = Inr raw
        \<and> parse_definition_graph raw
          = Inr (sample_nodes, [\<lparr>from_id = ''a'', to_id = ''b''\<rparr>], Some [''a''], strip ''m''))"
proof -
  have 1: "sample_nodes \<noteq> []" "list_all node_ok sample_nodes"
    "list_all edge_ok [\<lparr>from_id = ''a'', to_id = ''b''\<rparr>]"
    by (simp_all add: sample_nodes_def sample_node_def node_ok_def edge_ok_def input_ok_def
        text_ok_plain plain_char_def)
  have "strip ''m'' \<noteq> []" by (simp add: strip_plain plain_char_def)
  then obtain raw where raw:
    "definition_to_jsonable sample_nodes [\<lparr>from_id = ''a'', to_id = ''b''\<rparr>] ''m'' (Some [''a'']) = Inr raw"
    by (simp add: definition_to_jsonable_def)
  from definition_roundtrip [OF 1 raw] 1 raw show ?thesis by blast
qed

text \<open>
  C37. Whatever JSON object the parser accepts, the nodes, edges and model key it returns satisfy the
  constraints of the dataclasses: non-blank and stripped names, supported input kinds, no self loop,
  a supported failure policy; and serialising the result and parsing it again gives the same result.
\<close>

theorem parse_definition_graph_normal:
  assumes "parse_definition_graph raw = Inr (nodes, edges, entry, model_key)"
  shows "nodes \<noteq> [] \<and> list_all node_ok nodes \<and> list_all edge_ok edges \<and> text_ok model_key
    \<and> bindR (definition_to_jsonable nodes edges model_key entry) parse_definition_graph
      = Inr (nodes, edges, entry, model_key)"
proof -
  note ok = parse_definition_graph_ok [OF assms]
  then have key: "strip model_key = model_key" "model_key \<noteq> []" by (simp_all add: strip_text_ok)
  then obtain raw' where raw': "definition_to_jsonable nodes edges model_key entry = Inr raw'"
    by (simp add: definition_to_jsonable_def)
  with parse_to_jsonable [OF _ _ _ raw'] ok key show ?thesis by simp
qed

definition sample_raw :: json where
  "sample_raw =
     JObj [(''model_key'', JInt 7),
           (''nodes'', JList [JObj [(''id'', JStr ''a''), (''title'', JStr ''t''),
              (''instruction'', JStr ''go''), (''assignee'', JObj [(''preset_key'', JStr ''p'')])]]),
           (''edges'', JList [])]"

theorem parse_definition_graph_normal_witness:
  "\<exists>nodes edges entry model_key.
     parse_definition_graph sample_raw = Inr (nodes, edges, entry, model_key)
     \<and> (nodes \<noteq> [] \<and> list_all node_ok nodes \<and> list_all edge_ok edges \<and> text_ok model_key
    \<and> bindR (definition_to_jsonable nodes edges model_key entry) parse_definition_graph
      = Inr (nodes, edges, entry, model_key))"
proof -
  have "\<exists>nodes edges entry model_key.
      parse_definition_graph sample_raw = Inr (nodes, edges, entry, model_key)"
    by (simp add: sample_raw_def parse_definition_graph_def parse_node_def parse_objects_def
        objects_of_def jget_def jget_or_def or_empty_def node_assignee_init_def
        workflow_node_init_def parse_entry_def int_str_def nat_str.simps strip_plain plain_char_def)
  with parse_definition_graph_normal show ?thesis by blast
qed

end
