(* ===== verification/Workflow_Validation.thy ===== *)
theory Workflow_Validation
  imports Workflow_Graph Workflow_Codec
begin

text \<open>
  What \<open>validate_workflow_definition\<close> accepts. \<open>valid_definition\<close> is the declarative contract
  of a saved definition: a graph over distinct node ids whose edge relation is acyclic, whose
  declared entries are the roots, whose artifact names are unique, whose nodes use only allowed
  external capabilities and read only artifacts of strict ancestors. The validation returns exactly
  on these definitions.
\<close>

definition strict_ancestors :: "workflow_edge list \<Rightarrow> string \<Rightarrow> string set" where
  "strict_ancestors es n = {p. (p, n) \<in> (edge_rel es)\<^sup>+}"

definition owner_pairs :: "workflow_node list \<Rightarrow> string dict" where
  "owner_pairs ns = concat (map (\<lambda>n. map (\<lambda>x. (no_name x, wn_id n)) (wn_outputs n)) ns)"

definition preset_legal :: "workflow_definition \<Rightarrow> workflow_node \<Rightarrow> bool" where
  "preset_legal d n \<longleftrightarrow> preset_key (wn_assignee n) \<in> wd_known_presets d \<and>
     (\<exists>allow. map_of (wd_allowlists d) (preset_key (wn_assignee n)) = Some allow
        \<and> set (wn_caps n) \<subseteq> allow)"

definition input_legal :: "string dict \<Rightarrow> string set \<Rightarrow> node_input \<Rightarrow> bool" where
  "input_legal owners anc i \<longleftrightarrow> ni_kind i = ''artifact'' \<longrightarrow>
     (case map_of owners (ni_name i) of
        None \<Rightarrow> (\<exists>f. ni_from i = Some f \<and> f \<in> anc)
      | Some owner \<Rightarrow> ni_from i \<in> {None, Some owner} \<and> owner \<in> anc)"

definition roots_of :: "workflow_definition \<Rightarrow> string list" where
  "roots_of d = filter (\<lambda>n. preds (wd_edges d) n = []) (map wn_id (wd_nodes d))"

definition entry_legal :: "workflow_definition \<Rightarrow> bool" where
  "entry_legal d \<longleftrightarrow> (\<forall>es. wd_entry d = Some es \<longrightarrow>
     es \<noteq> [] \<and> (\<forall>e \<in> set es. \<not> blank e) \<and> strip ` set es = set (roots_of d))"

definition valid_definition :: "workflow_definition \<Rightarrow> bool" where
  "valid_definition d \<longleftrightarrow>
     wd_nodes d \<noteq> [] \<and> distinct (map wn_id (wd_nodes d)) \<and>
     edges_within (wd_edges d) (wn_id ` set (wd_nodes d)) \<and>
     acyclic (edge_rel (wd_edges d)) \<and> entry_legal d \<and>
     distinct (map fst (owner_pairs (wd_nodes d))) \<and>
     (\<forall>k < length (wd_nodes d).
        preset_legal d (wd_nodes d ! k) \<and>
        list_all (input_legal (owner_pairs (take (Suc k) (wd_nodes d)))
                    (strict_ancestors (wd_edges d) (wn_id (wd_nodes d ! k))))
          (wn_inputs (wd_nodes d ! k)))"

section \<open>The passes of the validation\<close>

lemma owner_pairs_simps [simp]:
  "owner_pairs [] = []"
  "owner_pairs (n # ns) = map (\<lambda>x. (no_name x, wn_id n)) (wn_outputs n) @ owner_pairs ns"
  by (simp_all add: owner_pairs_def)

lemma collect_nodes_Inr:
  "distinct (map fst acc) \<Longrightarrow>
   collect_nodes ns acc = Inr by_id \<longleftrightarrow>
     distinct (map fst acc @ map wn_id ns) \<and> by_id = acc @ map (\<lambda>n. (wn_id n, n)) ns"
  by (induction ns arbitrary: acc) auto

lemma check_edges_Inr: "check_edges V es = Inr () \<longleftrightarrow> edges_within es V"
  by (induction es) (auto simp: edges_within_def)

lemma check_entry_Inr:
  "check_entry roots entry = Inr () \<longleftrightarrow>
     (\<forall>es. entry = Some es \<longrightarrow> es \<noteq> [] \<and> (\<forall>e \<in> set es. \<not> blank e) \<and> strip ` set es = set roots)"
proof (cases entry)
  case (Some es)
  have "(\<exists>x \<in> set (map strip es). x = []) \<longleftrightarrow> (\<exists>e \<in> set es. blank e)" by force
  then show ?thesis using Some by (simp add: check_entry_def Let_def del: bex_simps) blast
qed (simp add: check_entry_def)

lemma own_outputs_Inr:
  "distinct (map fst owners) \<Longrightarrow>
   own_outputs nid os owners = Inr owners' \<longleftrightarrow>
     distinct (map fst owners @ map no_name os) \<and> owners' = owners @ map (\<lambda>x. (no_name x, nid)) os"
  by (induction os arbitrary: owners) auto

lemma check_preset_Inr: "check_preset d n = Inr () \<longleftrightarrow> preset_legal d n"
  by (auto simp: check_preset_def preset_legal_def Let_def split: option.splits)

lemma check_inputs_Inr: "check_inputs owners anc is = Inr () \<longleftrightarrow> list_all (input_legal owners anc) is"
  by (induction "is") (auto simp: input_legal_def split: option.splits)

lemma check_nodes_Inr:
  assumes "distinct (map fst owners)"
  shows "check_nodes d inc owners ns = Inr () \<longleftrightarrow>
     distinct (map fst (owners @ owner_pairs ns)) \<and>
     (\<forall>k < length ns. preset_legal d (ns ! k) \<and>
        list_all (input_legal (owners @ owner_pairs (take (Suc k) ns)) (ancestors (wn_id (ns ! k)) inc))
          (wn_inputs (ns ! k)))"
  using assms
proof (induction ns arbitrary: owners)
  case Nil
  then show ?case by simp
next
  case (Cons n ns)
  let ?own = "owners @ map (\<lambda>x. (no_name x, wn_id n)) (wn_outputs n)"
  show ?case
  proof (cases "distinct (map fst ?own)")
    case True
    then have "own_outputs (wn_id n) (wn_outputs n) owners = Inr ?own"
      using Cons.prems by (simp add: own_outputs_Inr comp_def)
    then have "check_nodes d inc owners (n # ns) = Inr () \<longleftrightarrow>
        preset_legal d n \<and> list_all (input_legal ?own (ancestors (wn_id n) inc)) (wn_inputs n) \<and>
        check_nodes d inc ?own ns = Inr ()"
      by (auto simp: bindR_Inr check_preset_Inr check_inputs_Inr)
    then show ?thesis
      unfolding Cons.IH [OF True] by (auto simp: All_less_Suc2)
  next
    case False
    have "own_outputs (wn_id n) (wn_outputs n) owners \<noteq> Inr o'" for o'
      using False Cons.prems by (auto simp: own_outputs_Inr comp_def)
    then have "check_nodes d inc owners (n # ns) \<noteq> Inr ()" by (auto simp: bindR_Inr)
    then show ?thesis using False by auto
  qed
qed

lemma acyclic_has_root:
  assumes "ids \<noteq> []" "acyclic (edge_rel es)" "edges_within es (set ids)"
  shows "\<exists>n \<in> set ids. preds es n = []"
proof -
  have wf: "wf (edge_rel es)" using assms(2) by (simp add: finite_acyclic_wf)
  have "hd ids \<in> set ids" using assms(1) by simp
  from wfE_min [OF wf this] obtain z where z: "z \<in> set ids"
    and min: "\<And>y. (y, z) \<in> edge_rel es \<Longrightarrow> y \<notin> set ids" by blast
  have "p \<notin> set (preds es z)" for p
    using min [of p] edges_within_edge_rel [OF assms(3), of p z] by (auto simp: in_edge_rel)
  then have "preds es z = []" by (cases "preds es z") auto
  with z show ?thesis by blast
qed

lemma validate_after_graph:
  assumes "wd_nodes d \<noteq> []" and dist: "distinct (map wn_id (wd_nodes d))"
    and within: "edges_within (wd_edges d) (wn_id ` set (wd_nodes d))"
    and acyc: "acyclic (edge_rel (wd_edges d))"
  shows "validate_workflow_definition d = Inr () \<longleftrightarrow> valid_definition d"
proof -
  let ?ids = "map wn_id (wd_nodes d)" and ?es = "wd_edges d"
  have within': "edges_within ?es (set ?ids)" using within by simp
  have by_id: "collect_nodes (wd_nodes d) [] = Inr (map (\<lambda>n. (wn_id n, n)) (wd_nodes d))"
    using dist by (simp add: collect_nodes_Inr)
  have keys: "map fst (map (\<lambda>n. (wn_id n, n)) (wd_nodes d)) = ?ids" by (simp add: comp_def)
  have keyset: "fst ` set (map (\<lambda>n. (wn_id n, n)) (wd_nodes d)) = wn_id ` set (wd_nodes d)"
    by (simp add: image_image)
  obtain inc where inc: "build_incoming ?es (dict_of_keys ?ids []) = Inr inc"
    and ki: "map fst inc = ?ids" and mo: "\<forall>n \<in> set ?ids. map_of inc n = Some (preds ?es n)"
    and rel: "pred_rel inc = edge_rel ?es"
    using build_incoming_start [OF dist within'] by blast
  have pairs: "inc = map (\<lambda>n. (n, preds ?es n)) ?ids"
    using ki mo dist by (intro pairs_of_map_of) auto
  have roots: "map fst (filter (\<lambda>kv. snd kv = []) inc) = roots_of d"
    by (simp add: pairs roots_of_def filter_map comp_def)
  have nonempty: "roots_of d \<noteq> []"
    using acyclic_has_root [OF _ acyc within'] assms(1) by (auto simp: roots_of_def filter_empty_conv)
  have anc: "ancestors n inc = strict_ancestors ?es n" for n
    by (simp add: ancestors_trancl rel strict_ancestors_def)
  have edges: "check_edges (wn_id ` set (wd_nodes d)) ?es = Inr ()"
    using within by (simp add: check_edges_Inr)
  have cyc: "has_cycle ?ids ?es = Inr False"
    using has_cycle_acyclic [OF dist within'] acyc by simp
  have "validate_workflow_definition d =
      bindR (check_entry (roots_of d) (wd_entry d)) (\<lambda>_. check_nodes d inc [] (wd_nodes d))"
    unfolding validate_workflow_definition_def by_id bindR_simps keys keyset edges cyc inc Let_def
      roots using assms(1) nonempty by simp
  then have "validate_workflow_definition d = Inr () \<longleftrightarrow>
      entry_legal d \<and> check_nodes d inc [] (wd_nodes d) = Inr ()"
    by (simp add: bindR_Inr check_entry_Inr entry_legal_def)
  also have "\<dots> \<longleftrightarrow> valid_definition d"
    using assms by (simp add: valid_definition_def check_nodes_Inr anc)
  finally show ?thesis .
qed

lemma validate_graph_ok:
  assumes "validate_workflow_definition d = Inr ()"
  shows "wd_nodes d \<noteq> [] \<and> distinct (map wn_id (wd_nodes d)) \<and>
     edges_within (wd_edges d) (wn_id ` set (wd_nodes d)) \<and> acyclic (edge_rel (wd_edges d))"
proof -
  have ne: "wd_nodes d \<noteq> []" using assms by (auto simp: validate_workflow_definition_def)
  obtain by_id where by_id: "collect_nodes (wd_nodes d) [] = Inr by_id"
    and edges: "check_edges (fst ` set by_id) (wd_edges d) = Inr ()"
    and cyc: "has_cycle (map fst by_id) (wd_edges d) = Inr False"
    using assms ne by (auto simp: validate_workflow_definition_def bindR_Inr split: if_splits)
  from by_id have b: "distinct (map wn_id (wd_nodes d))" "by_id = map (\<lambda>n. (wn_id n, n)) (wd_nodes d)"
    by (simp_all add: collect_nodes_Inr)
  have within: "edges_within (wd_edges d) (wn_id ` set (wd_nodes d))"
    using edges b(2) by (simp add: check_edges_Inr image_image)
  have "map fst by_id = map wn_id (wd_nodes d)" using b(2) by (simp add: comp_def)
  with cyc has_cycle_acyclic [OF b(1)] within have "acyclic (edge_rel (wd_edges d))" by simp
  with ne b within show ?thesis by blast
qed

lemma validate_iff: "validate_workflow_definition d = Inr () \<longleftrightarrow> valid_definition d"
proof (cases "wd_nodes d \<noteq> [] \<and> distinct (map wn_id (wd_nodes d)) \<and>
     edges_within (wd_edges d) (wn_id ` set (wd_nodes d)) \<and> acyclic (edge_rel (wd_edges d))")
  case True
  then show ?thesis using validate_after_graph by blast
next
  case False
  then show ?thesis using validate_graph_ok [of d] by (auto simp: valid_definition_def)
qed

section \<open>Properties\<close>

text \<open>
  C1. \<open>validate_workflow_definition\<close> returns exactly on the definitions that satisfy the
  declarative contract \<open>valid_definition\<close>. In particular a saved graph is acyclic, and every
  artifact input that the check can resolve is produced by a strict ancestor of its reader.
\<close>

theorem validate_workflow_definition_iff:
  "validate_workflow_definition d = Inr () \<longleftrightarrow> valid_definition d"
  by (rule validate_iff)

text \<open>
  \<open>_has_cycle\<close>, on distinct node ids and edges between them, terminates without an
  exception and answers whether the edge relation has a cycle.
\<close>

theorem has_cycle_decides:
  assumes "distinct node_ids" and "edges_within edges (set node_ids)"
  shows "has_cycle node_ids edges = Inr (\<exists>n. (n, n) \<in> (edge_rel edges)\<^sup>+)"
  using has_cycle_acyclic [OF assms] by (simp add: acyclic_def)

theorem has_cycle_decides_witness:
  "has_cycle [''a'', ''b''] [\<lparr>from_id = ''a'', to_id = ''b''\<rparr>, \<lparr>from_id = ''b'', to_id = ''a''\<rparr>] = Inr True
   \<and> (\<exists>n. (n, n) \<in> (edge_rel [\<lparr>from_id = ''a'', to_id = ''b''\<rparr>, \<lparr>from_id = ''b'', to_id = ''a''\<rparr>])\<^sup>+)"
proof -
  define es where "es = [\<lparr>from_id = ''a'', to_id = ''b''\<rparr>, \<lparr>from_id = ''b'', to_id = ''a''\<rparr>]"
  have "has_cycle [''a'', ''b''] es = Inr (\<exists>n. (n, n) \<in> (edge_rel es)\<^sup>+)"
    by (rule has_cycle_decides) (simp_all add: es_def edges_within_def)
  moreover have "(''a'', ''b'') \<in> edge_rel es" "(''b'', ''a'') \<in> edge_rel es"
    by (simp_all add: es_def edge_rel_def)
  then have "\<exists>n. (n, n) \<in> (edge_rel es)\<^sup>+" by (meson trancl.intros)
  ultimately show ?thesis unfolding es_def [symmetric] by simp
qed

text \<open>
  \<open>_ancestors\<close>, on the table of incoming edges that the validation builds, returns exactly
  the strict ancestors of a node in the edge relation.
\<close>

theorem ancestors_are_strict_ancestors:
  assumes "distinct node_ids" and "edges_within edges (set node_ids)"
    and "build_incoming edges (dict_of_keys node_ids []) = Inr incoming"
  shows "ancestors n incoming = {p. (p, n) \<in> (edge_rel edges)\<^sup>+}"
  using build_incoming_start [OF assms(1,2)] assms(3) by (metis ancestors_trancl sum.inject(2))

theorem ancestors_are_strict_ancestors_witness:
  "\<exists>incoming. build_incoming [\<lparr>from_id = ''a'', to_id = ''b''\<rparr>] (dict_of_keys [''a'', ''b''] []) = Inr incoming
     \<and> ancestors ''b'' incoming = {p. (p, ''b'') \<in> (edge_rel [\<lparr>from_id = ''a'', to_id = ''b''\<rparr>])\<^sup>+}"
proof -
  have "build_incoming [\<lparr>from_id = ''a'', to_id = ''b''\<rparr>] (dict_of_keys [''a'', ''b''] [])
      = Inr [(''a'', []), (''b'', [''a''])]"
    by (simp add: dict_of_keys_distinct)
  with ancestors_are_strict_ancestors [OF _ _ this, of "''b''"] show ?thesis
    by (simp add: edges_within_def)
qed

end
