(* ===== verification/Workflow_Executor.thy ===== *)
theory Workflow_Executor
  imports Workflow_Validation
begin

text \<open>
  Execution of a workflow graph: \<open>app/server/workshop/domain/workflow_executor.py\<close>. The
  \<open>NodeRunner\<close> protocol is a parameter: a function from the context of a node to the artifacts
  it produces or the exception it raises. A run asks the runner once per node, with contexts that
  differ in their node, so a function is as general as a runner with state of its own.
\<close>

section \<open>Data\<close>

record produced_artifact =
  pa_name :: string
  pa_storage :: storage_type
  pa_content :: string
  pa_storage_key :: string
  pa_size :: "int option"

definition is_non_empty :: "produced_artifact \<Rightarrow> bool" where
  "is_non_empty a =
     (if pa_storage a = ST_DB then \<not> blank (pa_content a)
      else \<not> blank (pa_storage_key a) \<and> (case pa_size a of None \<Rightarrow> True | Some n \<Rightarrow> n > 0))"

record node_run_context =
  nc_run_id :: string
  nc_project_id :: string
  nc_node :: workflow_node
  nc_inputs :: "produced_artifact dict"
  nc_model_key :: string

type_synonym node_runner = "node_run_context \<Rightarrow> produced_artifact list res"

record workflow_run_state =
  st_run_id :: string
  st_status :: run_status
  st_current :: "string option"
  st_error :: "string option"
  st_artifacts :: "produced_artifact dict"
  st_completed :: "string list"

definition run_state_init :: "string \<Rightarrow> run_status \<Rightarrow> string option \<Rightarrow> workflow_run_state" where
  "run_state_init rid status err =
     \<lparr>st_run_id = rid, st_status = status, st_current = None, st_error = err,
      st_artifacts = [], st_completed = []\<rparr>"

section \<open>Topological order\<close>

definition nodes_by_id :: "workflow_node list \<Rightarrow> workflow_node dict" where
  "nodes_by_id nodes = fold (\<lambda>n d. dict_set d (wn_id n) n) nodes []"

fun topo_edges :: "workflow_node dict \<Rightarrow> workflow_edge list \<Rightarrow> string list dict \<Rightarrow> int dict
    \<Rightarrow> (string list dict \<times> int dict) res" where
  "topo_edges by_id [] out ind = Inr (out, ind)"
| "topo_edges by_id (e # es) out ind =
     (if dict_get by_id (from_id e) = None \<or> dict_get by_id (to_id e) = None
      then Inl (WorkflowExecuteError ''edge endpoint unknown'')
      else (case dict_get out (from_id e) of
              None \<Rightarrow> Inl (KeyError (from_id e))
            | Some ts \<Rightarrow>
                (case dict_get ind (to_id e) of
                   None \<Rightarrow> Inl (KeyError (to_id e))
                 | Some deg \<Rightarrow>
                     topo_edges by_id es (dict_set out (from_id e) (ts @ [to_id e]))
                       (dict_set ind (to_id e) (deg + 1)))))"

text \<open>The loop sorts the queue and pops its first id; \<open>relax\<close> is the same inner loop over the
  successors as in \<open>_has_cycle\<close>.\<close>

function topo_loop :: "workflow_node dict \<Rightarrow> string list dict \<Rightarrow> string list \<Rightarrow> int dict
    \<Rightarrow> workflow_node list \<Rightarrow> workflow_node list res" where
  "topo_loop by_id out q ind ordered =
     (if q = [] then Inr ordered
      else (let current = fst (pop_least q) in
            case dict_get by_id current of
              None \<Rightarrow> Inl (KeyError current)
            | Some node \<Rightarrow>
                (case dict_get out current of
                   None \<Rightarrow> Inl (KeyError current)
                 | Some ns \<Rightarrow>
                     (case relax ns ind (snd (pop_least q)) of
                        Inl e \<Rightarrow> Inl e
                      | Inr (ind', q') \<Rightarrow> topo_loop by_id out q' ind' (ordered @ [node])))))"
  by pat_completeness auto
termination
  by (relation "measure (\<lambda>(by_id, out, q, ind, acc). length q + pos_count ind)")
     (auto dest!: relax_measure simp: pop_least_def)

declare topo_loop.simps [simp del]

definition topological_order ::
    "workflow_node list \<Rightarrow> workflow_edge list \<Rightarrow> workflow_node list res" where
  "topological_order nodes edges =
     bindR (topo_edges (nodes_by_id nodes) edges (dict_of_keys (map wn_id nodes) [])
              (dict_of_keys (map wn_id nodes) 0))
       (\<lambda>(out, ind).
         bindR (topo_loop (nodes_by_id nodes) out
                  (map fst (filter (\<lambda>kv. snd kv = 0) ind)) ind [])
           (\<lambda>ordered. if length ordered \<noteq> length nodes
                      then Inl (WorkflowExecuteError ''cycle in workflow graph'')
                      else Inr ordered))"

section \<open>Running the nodes\<close>

text \<open>The artifact inputs of a node: \<open>Inl\<close> the name of the first one that is missing.\<close>

fun gather_inputs :: "produced_artifact dict \<Rightarrow> node_input list \<Rightarrow> produced_artifact dict
    \<Rightarrow> string + produced_artifact dict" where
  "gather_inputs arts [] acc = Inr acc"
| "gather_inputs arts (i # is) acc =
     (if ni_kind i \<noteq> ''artifact'' then gather_inputs arts is acc
      else (case dict_get arts (ni_name i) of
              None \<Rightarrow> Inl (ni_name i)
            | Some a \<Rightarrow> gather_inputs arts is (dict_set acc (ni_name i) a)))"

text \<open>Recording what a node produced: empty artifacts are skipped; the first component is the name
  of a duplicate, which stops the loop with the artifacts recorded before it.\<close>

fun record_artifacts :: "produced_artifact list \<Rightarrow> produced_artifact dict
    \<Rightarrow> string option \<times> produced_artifact dict" where
  "record_artifacts [] arts = (None, arts)"
| "record_artifacts (a # as) arts =
     (if \<not> is_non_empty a then record_artifacts as arts
      else if dict_get arts (pa_name a) \<noteq> None then (Some (pa_name a), arts)
      else record_artifacts as (dict_set arts (pa_name a) a))"

text \<open>The loop over the ordered nodes; the flag says that it ran to its end.\<close>

fun run_nodes :: "node_runner \<Rightarrow> string \<Rightarrow> string \<Rightarrow> string \<Rightarrow> workflow_node list
    \<Rightarrow> workflow_run_state \<Rightarrow> bool \<times> workflow_run_state" where
  "run_nodes runner rid pid model [] st = (True, st)"
| "run_nodes runner rid pid model (n # ns) st =
     (let st1 = st\<lparr>st_current := Some (wn_id n)\<rparr> in
      case gather_inputs (st_artifacts st) (wn_inputs n) [] of
        Inl name \<Rightarrow>
          (False, st1\<lparr>st_status := RS_FAILED,
                      st_error := Some (''missing input artifact: '' @ name)\<rparr>)
      | Inr inputs \<Rightarrow>
          (case runner \<lparr>nc_run_id = rid, nc_project_id = pid, nc_node = n,
                        nc_inputs = inputs, nc_model_key = model\<rparr> of
             Inl e \<Rightarrow>
               (False, st1\<lparr>st_status := (if wn_on_failure n = ''block'' then RS_BLOCKED else RS_FAILED),
                           st_error := Some (exc_str e)\<rparr>)
           | Inr produced \<Rightarrow>
               (case record_artifacts produced (st_artifacts st) of
                  (Some name, arts) \<Rightarrow>
                    (False, st1\<lparr>st_status := RS_FAILED, st_artifacts := arts,
                                st_error := Some (''duplicate artifact name: '' @ name)\<rparr>)
                | (None, arts) \<Rightarrow>
                    run_nodes runner rid pid model ns
                      (st1\<lparr>st_artifacts := arts, st_completed := st_completed st @ [wn_id n]\<rparr>))))"

definition has_final_file_deliverable :: "produced_artifact list \<Rightarrow> bool" where
  "has_final_file_deliverable as = list_ex (\<lambda>a. pa_storage a = ST_OSS \<and> is_non_empty a) as"

definition execute_workflow_graph ::
    "string \<Rightarrow> string \<Rightarrow> workflow_node list \<Rightarrow> workflow_edge list \<Rightarrow> string \<Rightarrow> string set
     \<Rightarrow> capability set dict \<Rightarrow> node_runner \<Rightarrow> workflow_run_state res" where
  "execute_workflow_graph rid pid nodes edges model_key presets allowlists runner =
     (let model = strip model_key in
      if model = []
      then Inr (run_state_init rid RS_FAILED (Some ''workflow model_key required''))
      else
        bindR (validate_workflow_definition
                 \<lparr>wd_nodes = nodes, wd_edges = edges, wd_known_presets = presets,
                  wd_allowlists = allowlists, wd_entry = None\<rparr>) (\<lambda>_.
        let st = run_state_init rid RS_RUNNING None in
        case topological_order nodes edges of
          Inl (WorkflowExecuteError m) \<Rightarrow> Inr (st\<lparr>st_status := RS_FAILED, st_error := Some m\<rparr>)
        | Inl e \<Rightarrow> Inl e
        | Inr order \<Rightarrow>
            (case run_nodes runner rid pid model order st of
               (False, st') \<Rightarrow> Inr st'
             | (True, st') \<Rightarrow>
                 if \<not> has_final_file_deliverable (map snd (st_artifacts st'))
                 then Inr (st'\<lparr>st_status := RS_FAILED,
                               st_error := Some ''missing final file deliverable'',
                               st_current := None\<rparr>)
                 else Inr (st'\<lparr>st_status := RS_SUCCEEDED, st_current := None\<rparr>))))"

section \<open>The order is the canonical topological order\<close>

text \<open>A node is ready when it is not done and its predecessors are; the canonical order always takes
  the ready node with the least id.\<close>

definition ready :: "workflow_edge list \<Rightarrow> string set \<Rightarrow> string set \<Rightarrow> string \<Rightarrow> bool" where
  "ready es V finished m \<longleftrightarrow> m \<in> V \<and> m \<notin> finished \<and> set (preds es m) \<subseteq> finished"

definition canonical_order :: "workflow_edge list \<Rightarrow> string set \<Rightarrow> string list \<Rightarrow> bool" where
  "canonical_order es V ord \<longleftrightarrow>
     (\<forall>i < length ord. ready es V (set (take i ord)) (ord ! i) \<and>
        (\<forall>m. ready es V (set (take i ord)) m \<longrightarrow> ord ! i \<le> m))"

lemma canonical_order_snoc:
  "canonical_order es V (ord @ [x]) \<longleftrightarrow>
     canonical_order es V ord \<and> ready es V (set ord) x \<and> (\<forall>m. ready es V (set ord) m \<longrightarrow> x \<le> m)"
  by (auto simp: canonical_order_def nth_append less_Suc_eq)

lemma kahn_inv_ready: "kahn_inv es V q ind ord \<Longrightarrow> ready es V (set ord) m \<longleftrightarrow> m \<in> set q"
  by (auto simp: kahn_inv_def ready_def remaining_zero)

lemma pop_least_le: "m \<in> set q \<Longrightarrow> fst (pop_least q) \<le> m"
proof -
  assume "m \<in> set q"
  then have "m \<in> set (sort q)" by simp
  moreover have "sorted (sort q)" by simp
  ultimately show ?thesis by (cases "sort q") (auto simp: pop_least_def)
qed

lemma nodes_by_id_distinct:
  "distinct (map wn_id nodes) \<Longrightarrow> nodes_by_id nodes = map (\<lambda>n. (wn_id n, n)) nodes"
  by (simp add: nodes_by_id_def dict_set_fold_distinct)

lemma topo_edges_count:
  "\<forall>e \<in> set es. map_of by_id (from_id e) \<noteq> None \<and> map_of by_id (to_id e) \<noteq> None
     \<and> to_id e \<in> fst ` set ind \<Longrightarrow>
   topo_edges by_id es out ind = count_edges es out ind"
proof (induction by_id es out ind rule: topo_edges.induct)
  case (2 by_id e es out ind)
  then obtain deg where "map_of ind (to_id e) = Some deg"
    by (metis list.set_intros(1) map_of_eq_None_iff not_Some_eq)
  with 2 show ?case by (auto simp: AList.dom_update split: option.splits)
qed simp

lemma topo_loop_correct:
  assumes "kahn_inv es V q ind (map wn_id ordered)" "edges_within es V"
    and "\<forall>n \<in> V. map_of out n = Some (succs es n)"
    and "\<forall>n \<in> V. \<exists>node. map_of by_id n = Some node \<and> wn_id node = n"
    and "canonical_order es V (map wn_id ordered)"
    and "\<forall>n \<in> set ordered. map_of by_id (wn_id n) = Some n"
  shows "\<exists>ord ind'. topo_loop by_id out q ind ordered = Inr ord
           \<and> kahn_inv es V [] ind' (map wn_id ord) \<and> canonical_order es V (map wn_id ord)
           \<and> (\<forall>n \<in> set ord. map_of by_id (wn_id n) = Some n)"
  using assms
proof (induction by_id out q ind ordered rule: topo_loop.induct)
  case (1 by_id out q ind ordered)
  show ?case
  proof (cases "q = []")
    case True
    with 1(2,6,7) show ?thesis by (subst topo_loop.simps) auto
  next
    case False
    let ?x = "fst (pop_least q)"
    have xq: "?x \<in> set q" using False by (rule least_first.pop_in)
    then have xV: "?x \<in> V" using 1(2) by (auto simp: kahn_inv_def)
    then obtain node where node: "map_of by_id ?x = Some node" "wn_id node = ?x" using 1(5) by blast
    have out: "map_of out ?x = Some (succs es ?x)" using 1(4) xV by blast
    obtain ind' q' where r: "relax (succs es ?x) ind (snd (pop_least q)) = Inr (ind', q')"
      and inv: "kahn_inv es V q' ind' (map wn_id ordered @ [?x])"
      using least_first.pop_step [OF 1(2,3) False] by blast
    have can: "canonical_order es V (map wn_id ordered @ [?x])"
      using 1(6) kahn_inv_ready [OF 1(2)] xq pop_least_le by (auto simp: canonical_order_snoc)
    have "\<exists>ord ind''. topo_loop by_id out q' ind' (ordered @ [node]) = Inr ord
           \<and> kahn_inv es V [] ind'' (map wn_id ord) \<and> canonical_order es V (map wn_id ord)
           \<and> (\<forall>n \<in> set ord. map_of by_id (wn_id n) = Some n)"
      by (rule 1(1) [OF False refl node(1) out r refl]) (use inv can node 1(3,4,5,7) in auto)
    with False node out r show ?thesis by (subst topo_loop.simps) (auto simp: Let_def)
  qed
qed

lemma topological_order_spec:
  assumes dist: "distinct (map wn_id nodes)" and within: "edges_within edges (wn_id ` set nodes)"
  shows "if acyclic (edge_rel edges)
         then \<exists>ord. topological_order nodes edges = Inr ord \<and> mset ord = mset nodes
                \<and> canonical_order edges (wn_id ` set nodes) (map wn_id ord)
         else topological_order nodes edges = Inl (WorkflowExecuteError ''cycle in workflow graph'')"
proof -
  let ?ids = "map wn_id nodes" and ?b = "nodes_by_id nodes"
  have within': "edges_within edges (set ?ids)" using within by simp
  have by_id: "map_of ?b (wn_id n) = Some n" if "n \<in> set nodes" for n
    using that dist by (simp add: nodes_by_id_distinct map_of_eq_Some_iff comp_def)
  have mem: "n \<in> set nodes" if "map_of ?b i = Some n" for i n
    using that dist by (auto simp: nodes_by_id_distinct dest!: map_of_SomeD)
  obtain out ind where
    c: "count_edges edges (dict_of_keys ?ids []) (dict_of_keys ?ids 0) = Inr (out, ind)"
    and out: "\<forall>n \<in> set ?ids. map_of out n = Some (succs edges n)"
    and inv: "kahn_inv edges (set ?ids) (map fst (filter (\<lambda>kv. snd kv = 0) ind)) ind []"
    using tables_start [OF dist within'] by blast
  have t: "topo_edges ?b edges (dict_of_keys ?ids []) (dict_of_keys ?ids 0) = Inr (out, ind)"
    unfolding c [symmetric]
    by (rule topo_edges_count)
       (use within by_id dist in \<open>fastforce simp: edges_within_def dict_of_keys_distinct image_iff\<close>)
  have "\<exists>ord ind'. topo_loop ?b out (map fst (filter (\<lambda>kv. snd kv = 0) ind)) ind [] = Inr ord
           \<and> kahn_inv edges (set ?ids) [] ind' (map wn_id ord) \<and> canonical_order edges (set ?ids) (map wn_id ord)
           \<and> (\<forall>n \<in> set ord. map_of ?b (wn_id n) = Some n)"
    by (rule topo_loop_correct)
       (use inv within' out by_id in \<open>auto simp: canonical_order_def\<close>)
  then obtain ord ind' where l: "topo_loop ?b out (map fst (filter (\<lambda>kv. snd kv = 0) ind)) ind [] = Inr ord"
    and fin: "kahn_inv edges (set ?ids) [] ind' (map wn_id ord)"
    and can: "canonical_order edges (set ?ids) (map wn_id ord)"
    and sub: "\<forall>n \<in> set ord. map_of ?b (wn_id n) = Some n" by blast
  have len: "length ord = length nodes \<longleftrightarrow> acyclic (edge_rel edges)"
    using kahn_inv_done_length [OF fin within' dist] by simp
  have "distinct (map wn_id ord)" using fin by (simp add: kahn_inv_def)
  then have "distinct ord" "set ord \<subseteq> set nodes" using sub mem by (auto simp: distinct_map)
  moreover have "distinct nodes" using dist by (simp add: distinct_map)
  ultimately have "length ord = length nodes \<Longrightarrow> mset ord = mset nodes"
    by (metis List.finite_set card_subset_eq distinct_card set_eq_iff_mset_eq_distinct)
  then show ?thesis using t l len can by (simp add: topological_order_def)
qed

section \<open>What a run does\<close>

definition named :: "produced_artifact list \<Rightarrow> produced_artifact dict" where
  "named as = map (\<lambda>a. (pa_name a, a)) (filter is_non_empty as)"

lemma named_simps [simp]: "named [] = []" "named (as @ bs) = named as @ named bs"
  by (simp_all add: named_def)

text \<open>The runner returned \<open>outs ! k\<close> for the \<open>k\<close>-th node, asked with the inputs found among
  the artifacts present before it.\<close>

definition executed :: "node_runner \<Rightarrow> string \<Rightarrow> string \<Rightarrow> string \<Rightarrow> produced_artifact dict
    \<Rightarrow> workflow_node list \<Rightarrow> produced_artifact list list \<Rightarrow> bool" where
  "executed runner rid pid model arts ns outs \<longleftrightarrow> length outs = length ns \<and>
     (\<forall>k < length ns. \<exists>ins.
        gather_inputs (arts @ named (concat (take k outs))) (wn_inputs (ns ! k)) [] = Inr ins
        \<and> runner \<lparr>nc_run_id = rid, nc_project_id = pid, nc_node = ns ! k,
                  nc_inputs = ins, nc_model_key = model\<rparr> = Inr (outs ! k))"

lemma executed_Nil [simp]: "executed runner rid pid model arts [] outs \<longleftrightarrow> outs = []"
  by (simp add: executed_def)

lemma executed_Cons:
  "executed runner rid pid model arts (n # ns) outs \<longleftrightarrow>
     (\<exists>ins out outs'. outs = out # outs' \<and> gather_inputs arts (wn_inputs n) [] = Inr ins
        \<and> runner \<lparr>nc_run_id = rid, nc_project_id = pid, nc_node = n,
                  nc_inputs = ins, nc_model_key = model\<rparr> = Inr out
        \<and> executed runner rid pid model (arts @ named out) ns outs')"
  by (cases outs) (auto simp: executed_def All_less_Suc2)

lemma gather_inputs_spec:
  "gather_inputs arts is acc = Inr ins \<Longrightarrow>
   map_of ins k = (if k \<in> ni_name ` {i \<in> set is. ni_kind i = ''artifact''} then map_of arts k else map_of acc k)"
proof (induction arts "is" acc rule: gather_inputs.induct)
  case (2 arts i "is" acc)
  then show ?case
    by (auto simp: AList.update_conv' split: if_splits option.splits)
qed simp

lemma record_artifacts_None:
  "distinct (map fst arts) \<Longrightarrow>
   record_artifacts as arts = (None, arts') \<longleftrightarrow>
     arts' = arts @ named as \<and> distinct (map fst (arts @ named as))"
proof (induction as arts rule: record_artifacts.induct)
  case (2 a as arts)
  show ?case
  proof (cases "is_non_empty a \<and> map_of arts (pa_name a) = None")
    case True
    then have "pa_name a \<notin> fst ` set arts" by (simp add: map_of_eq_None_iff)
    with True 2 show ?thesis by (simp add: update_new named_def)
  next
    case False
    with 2 show ?thesis by (auto simp: named_def rev_image_eqI dest: map_of_SomeD)
  qed
qed (auto simp: named_def)

lemma run_nodes_True:
  assumes "distinct (map fst (st_artifacts st))"
  shows "run_nodes runner rid pid model ns st = (True, st') \<longleftrightarrow>
     (\<exists>outs. executed runner rid pid model (st_artifacts st) ns outs
        \<and> distinct (map fst (st_artifacts st @ named (concat outs)))
        \<and> st' = st\<lparr>st_current := (if ns = [] then st_current st else Some (wn_id (last ns))),
                   st_artifacts := st_artifacts st @ named (concat outs),
                   st_completed := st_completed st @ map wn_id ns\<rparr>)"
  using assms
proof (induction ns arbitrary: st)
  case Nil
  then show ?case by auto
next
  case (Cons n ns)
  let ?ctx = "\<lambda>ins. \<lparr>nc_run_id = rid, nc_project_id = pid, nc_node = n, nc_inputs = ins, nc_model_key = model\<rparr>"
  show ?case
  proof (cases "\<exists>ins out. gather_inputs (st_artifacts st) (wn_inputs n) [] = Inr ins
      \<and> runner (?ctx ins) = Inr out \<and> distinct (map fst (st_artifacts st @ named out))")
    case True
    then obtain ins out where g: "gather_inputs (st_artifacts st) (wn_inputs n) [] = Inr ins"
      "runner (?ctx ins) = Inr out" and d: "distinct (map fst (st_artifacts st @ named out))" by blast
    then have "record_artifacts out (st_artifacts st) = (None, st_artifacts st @ named out)"
      using record_artifacts_None [OF Cons.prems] by blast
    with g have step: "run_nodes runner rid pid model (n # ns) st =
        run_nodes runner rid pid model ns
          (st\<lparr>st_current := Some (wn_id n), st_artifacts := st_artifacts st @ named out,
              st_completed := st_completed st @ [wn_id n]\<rparr>)"
      by simp
    have outs: "executed runner rid pid model (st_artifacts st) (n # ns) outs \<longleftrightarrow>
        (\<exists>outs'. outs = out # outs' \<and> executed runner rid pid model (st_artifacts st @ named out) ns outs')"
      for outs using g by (auto simp: executed_Cons)
    have one_point: "(\<exists>outs. (\<exists>outs'. outs = out # outs' \<and> E outs') \<and> Q outs) \<longleftrightarrow>
        (\<exists>outs'. E outs' \<and> Q (out # outs'))" for E Q by blast
    show ?thesis unfolding step outs one_point
      by (subst Cons.IH) (use d in simp_all)
  next
    case False
    then have "run_nodes runner rid pid model (n # ns) st \<noteq> (True, st')"
      using record_artifacts_None [OF Cons.prems]
      by (auto simp: Let_def split: sum.splits option.splits prod.splits)
    moreover have "\<not> (\<exists>outs. executed runner rid pid model (st_artifacts st) (n # ns) outs
        \<and> distinct (map fst (st_artifacts st @ named (concat outs))))"
    proof
      assume "\<exists>outs. executed runner rid pid model (st_artifacts st) (n # ns) outs
        \<and> distinct (map fst (st_artifacts st @ named (concat outs)))"
      then obtain ins out outs where
        "gather_inputs (st_artifacts st) (wn_inputs n) [] = Inr ins" "runner (?ctx ins) = Inr out"
        "distinct (map fst ((st_artifacts st @ named out) @ named (concat outs)))"
        by (auto simp: executed_Cons simp del: distinct_append)
      with False show False by (metis distinct_append map_append)
    qed
    ultimately show ?thesis by blast
  qed
qed

text \<open>A run that stops early stops at a node, with the nodes before it completed.\<close>

definition stopped_at :: "node_runner \<Rightarrow> workflow_node list \<Rightarrow> string list \<Rightarrow> nat \<Rightarrow> workflow_run_state \<Rightarrow> bool" where
  "stopped_at runner ns before k st \<longleftrightarrow> k < length ns \<and> st_current st = Some (wn_id (ns ! k))
     \<and> st_completed st = before @ map wn_id (take k ns)
     \<and> (st_status st = RS_FAILED \<or> st_status st = RS_BLOCKED \<and> wn_on_failure (ns ! k) = ''block'')
     \<and> st_error st \<noteq> None"

lemma run_nodes_False:
  "run_nodes runner rid pid model ns st = (False, st') \<Longrightarrow>
   \<exists>k. stopped_at runner ns (st_completed st) k st'"
proof (induction ns arbitrary: st)
  case (Cons n ns)
  show ?case
  proof (cases "\<exists>ins out arts. gather_inputs (st_artifacts st) (wn_inputs n) [] = Inr ins
      \<and> runner \<lparr>nc_run_id = rid, nc_project_id = pid, nc_node = n, nc_inputs = ins, nc_model_key = model\<rparr> = Inr out
      \<and> record_artifacts out (st_artifacts st) = (None, arts)")
    case True
    then obtain arts where "run_nodes runner rid pid model ns
        (st\<lparr>st_current := Some (wn_id n), st_artifacts := arts,
            st_completed := st_completed st @ [wn_id n]\<rparr>) = (False, st')"
      using Cons.prems by auto
    from Cons.IH [OF this] obtain k where
      "stopped_at runner ns (st_completed st @ [wn_id n]) k st'" by auto
    then have "stopped_at runner (n # ns) (st_completed st) (Suc k) st'"
      by (simp add: stopped_at_def)
    then show ?thesis by blast
  next
    case False
    with Cons.prems have "stopped_at runner (n # ns) (st_completed st) 0 st'"
      by (auto simp: stopped_at_def Let_def split: sum.splits prod.splits option.splits if_splits)
    then show ?thesis by blast
  qed
qed simp

lemma has_final_iff:
  "has_final_file_deliverable as \<longleftrightarrow> (\<exists>a \<in> set as. pa_storage a = ST_OSS \<and> is_non_empty a)"
  by (simp add: has_final_file_deliverable_def list_ex_iff)

section \<open>Properties\<close>

abbreviation graph_of :: "workflow_node list \<Rightarrow> workflow_edge list \<Rightarrow> string set
    \<Rightarrow> capability set dict \<Rightarrow> workflow_definition" where
  "graph_of nodes edges presets allowlists \<equiv>
     \<lparr>wd_nodes = nodes, wd_edges = edges, wd_known_presets = presets,
      wd_allowlists = allowlists, wd_entry = None\<rparr>"

lemma validated_order:
  assumes "validate_workflow_definition (graph_of nodes edges presets allowlists) = Inr ()"
  shows "\<exists>ord. topological_order nodes edges = Inr ord \<and> mset ord = mset nodes
                \<and> canonical_order edges (wn_id ` set nodes) (map wn_id ord)"
  using validate_graph_ok [OF assms] topological_order_spec [of nodes edges] by simp

lemma execute_run:
  assumes "\<not> blank model_key"
    and "validate_workflow_definition (graph_of nodes edges presets allowlists) = Inr ()"
    and "topological_order nodes edges = Inr order"
  shows "execute_workflow_graph rid pid nodes edges model_key presets allowlists runner =
     (case run_nodes runner rid pid (strip model_key) order (run_state_init rid RS_RUNNING None) of
        (False, st') \<Rightarrow> Inr st'
      | (True, st') \<Rightarrow>
          if \<not> has_final_file_deliverable (map snd (st_artifacts st'))
          then Inr (st'\<lparr>st_status := RS_FAILED, st_error := Some ''missing final file deliverable'',
                        st_current := None\<rparr>)
          else Inr (st'\<lparr>st_status := RS_SUCCEEDED, st_current := None\<rparr>))"
  using assms by (simp add: execute_workflow_graph_def Let_def)

text \<open>
  On distinct node ids and edges between them, \<open>topological_order\<close> returns a permutation of
  the nodes when the graph has no cycle and raises the cycle error otherwise. The order it returns is
  the canonical one: each position holds the least id among the nodes whose predecessors all stand
  before it.
\<close>

theorem topological_order_canonical:
  assumes "distinct (map wn_id nodes)" and "edges_within edges (wn_id ` set nodes)"
  shows "if acyclic (edge_rel edges)
         then \<exists>ord. topological_order nodes edges = Inr ord \<and> mset ord = mset nodes
                \<and> canonical_order edges (wn_id ` set nodes) (map wn_id ord)
         else topological_order nodes edges = Inl (WorkflowExecuteError ''cycle in workflow graph'')"
  using assms by (rule topological_order_spec)

theorem topological_order_canonical_witness:
  "\<exists>ord. topological_order sample_nodes [\<lparr>from_id = ''a'', to_id = ''b''\<rparr>] = Inr ord
     \<and> mset ord = mset sample_nodes
     \<and> canonical_order [\<lparr>from_id = ''a'', to_id = ''b''\<rparr>] (wn_id ` set sample_nodes) (map wn_id ord)"
proof -
  let ?es = "[\<lparr>from_id = ''a'', to_id = ''b''\<rparr>]"
  have "acyclic (edge_rel ?es)"
    by (rule acyclic_subset [of "measure (\<lambda>s. if s = ''a'' then 0 else 1)"])
       (auto simp: edge_rel_def wf_acyclic)
  then show ?thesis
    using topological_order_canonical [of sample_nodes ?es]
    by (simp add: sample_nodes_def sample_node_def edges_within_def)
qed

lemma sample_valid:
  "validate_workflow_definition (graph_of sample_nodes [\<lparr>from_id = ''a'', to_id = ''b''\<rparr>] {''p''} [(''p'', {MCP})]) = Inr ()"
  by (simp add: sample_nodes_def sample_node_def validate_workflow_definition_def has_cycle_def
      dict_of_keys_def has_cycle_loop.simps check_entry_def check_preset_def ancestors_def
      ancestors_loop.simps)

lemma sample_order: "topological_order sample_nodes [\<lparr>from_id = ''a'', to_id = ''b''\<rparr>] = Inr sample_nodes"
  by (simp add: sample_nodes_def sample_node_def topological_order_def nodes_by_id_def
      dict_of_keys_def topo_loop.simps pop_least_def Let_def)

definition sample_runner :: node_runner where
  "sample_runner ctx =
     (if wn_id (nc_node ctx) = ''a''
      then Inr [\<lparr>pa_name = ''plan'', pa_storage = ST_DB, pa_content = ''x'', pa_storage_key = [], pa_size = None\<rparr>]
      else if nc_inputs ctx = [] then Inl (RuntimeError ''no plan'')
      else Inr [\<lparr>pa_name = ''final'', pa_storage = ST_OSS, pa_content = [], pa_storage_key = ''k'', pa_size = Some 3\<rparr>])"

text \<open>
  C4. On a validated definition with a model key, a run succeeds exactly when the runner answers for
  every node of the topological order, each asked with the artifacts recorded before it, no
  non-empty artifact name is produced twice, and a non-empty \<open>oss\<close> file is among the
  artifacts. The run then reports every node completed, in that order, and all non-empty artifacts.
\<close>

theorem execute_succeeds_iff:
  assumes "\<not> blank model_key"
    and "validate_workflow_definition (graph_of nodes edges presets allowlists) = Inr ()"
    and "topological_order nodes edges = Inr order"
  shows "execute_workflow_graph rid pid nodes edges model_key presets allowlists runner = Inr st
           \<and> st_status st = RS_SUCCEEDED \<longleftrightarrow>
     (\<exists>outs. executed runner rid pid (strip model_key) [] order outs
        \<and> distinct (map fst (named (concat outs)))
        \<and> (\<exists>a \<in> set (concat outs). pa_storage a = ST_OSS \<and> is_non_empty a)
        \<and> st = \<lparr>st_run_id = rid, st_status = RS_SUCCEEDED, st_current = None, st_error = None,
                st_artifacts = named (concat outs), st_completed = map wn_id order\<rparr>)"
    (is "?lhs \<longleftrightarrow> ?rhs")
proof -
  let ?st0 = "run_state_init rid RS_RUNNING None"
  have true: "run_nodes runner rid pid (strip model_key) order ?st0 = (True, st') \<longleftrightarrow>
     (\<exists>outs. executed runner rid pid (strip model_key) [] order outs
        \<and> distinct (map fst (named (concat outs)))
        \<and> st' = ?st0\<lparr>st_current := (if order = [] then None else Some (wn_id (last order))),
                     st_artifacts := named (concat outs), st_completed := map wn_id order\<rparr>)" for st'
    using run_nodes_True [of ?st0 runner rid pid "strip model_key" order st'] by (simp add: run_state_init_def)
  have final: "has_final_file_deliverable (map snd (named as)) \<longleftrightarrow>
      (\<exists>a \<in> set as. pa_storage a = ST_OSS \<and> is_non_empty a)" for as
    by (auto simp: has_final_iff named_def)
  obtain fin st1 where r: "run_nodes runner rid pid (strip model_key) order ?st0 = (fin, st1)" by force
  show ?thesis
  proof (cases fin)
    case True
    with r have "run_nodes runner rid pid (strip model_key) order ?st0 = (True, st1)" by simp
    from this [unfolded true] obtain outs where o: "executed runner rid pid (strip model_key) [] order outs"
      "distinct (map fst (named (concat outs)))"
      "st1 = ?st0\<lparr>st_current := (if order = [] then None else Some (wn_id (last order))),
                     st_artifacts := named (concat outs), st_completed := map wn_id order\<rparr>"
      by blast
    have uniq: "named (concat outs') = named (concat outs)"
      if "executed runner rid pid (strip model_key) [] order outs'"
         "distinct (map fst (named (concat outs')))" for outs'
    proof -
      let ?fin = "?st0\<lparr>st_current := (if order = [] then None else Some (wn_id (last order))),
        st_artifacts := named (concat outs'), st_completed := map wn_id order\<rparr>"
      have "run_nodes runner rid pid (strip model_key) order ?st0 = (True, ?fin)"
        using true [of ?fin] that by blast
      then have "st_artifacts st1 = st_artifacts ?fin" using r by simp
      then show ?thesis using o(3) by simp
    qed
    let ?H = "has_final_file_deliverable (map snd (named (concat outs)))"
    let ?S = "\<lparr>st_run_id = rid, st_status = RS_SUCCEEDED, st_current = None, st_error = None,
                st_artifacts = named (concat outs), st_completed = map wn_id order\<rparr>"
    have "?rhs \<longleftrightarrow> ?H \<and> st = ?S"
    proof
      assume ?rhs
      then obtain outs' where "executed runner rid pid (strip model_key) [] order outs'"
        "distinct (map fst (named (concat outs')))"
        "has_final_file_deliverable (map snd (named (concat outs')))"
        "st = ?S\<lparr>st_artifacts := named (concat outs')\<rparr>"
        unfolding final by auto
      with uniq [OF this(1,2)] show "?H \<and> st = ?S" by simp
    next
      assume "?H \<and> st = ?S"
      with o(1,2) show ?rhs unfolding final by blast
    qed
    moreover have "?lhs \<longleftrightarrow> ?H \<and> st = ?S"
      unfolding execute_run [OF assms] r using True o(3)
      by (cases ?H) (auto simp: run_state_init_def)
    ultimately show ?thesis by blast
  next
    case False
    then obtain k where "stopped_at runner order [] k st1"
      using r run_nodes_False by (fastforce simp: run_state_init_def)
    then have "st_status st1 \<noteq> RS_SUCCEEDED" by (auto simp: stopped_at_def)
    moreover have "\<nexists>outs. executed runner rid pid (strip model_key) [] order outs
        \<and> distinct (map fst (named (concat outs)))"
      using r False true by auto
    ultimately show ?thesis unfolding execute_run [OF assms] r using False by auto
  qed
qed

theorem execute_succeeds_iff_witness:
  "\<exists>st. execute_workflow_graph ''r'' ''p'' sample_nodes [\<lparr>from_id = ''a'', to_id = ''b''\<rparr>] ''m'' {''p''}
           [(''p'', {MCP})] sample_runner = Inr st \<and> st_status st = RS_SUCCEEDED
         \<and> st_completed st = [''a'', ''b'']"
proof -
  let ?outs = "[[\<lparr>pa_name = ''plan'', pa_storage = ST_DB, pa_content = ''x'', pa_storage_key = [], pa_size = None\<rparr>],
      [\<lparr>pa_name = ''final'', pa_storage = ST_OSS, pa_content = [], pa_storage_key = ''k'', pa_size = Some 3\<rparr>]]"
  have m: "strip ''m'' = ''m''" by (simp add: strip_plain plain_char_def)
  have exe: "executed sample_runner ''r'' ''p'' (strip ''m'') [] sample_nodes ?outs"
    and dist: "distinct (map fst (named (concat ?outs)))"
    and oss: "\<exists>a \<in> set (concat ?outs). pa_storage a = ST_OSS \<and> is_non_empty a"
    by (simp_all add: sample_nodes_def sample_node_def executed_Cons sample_runner_def named_def
        is_non_empty_def strip_plain plain_char_def)
  from execute_succeeds_iff [THEN iffD2, OF _ sample_valid sample_order,
      OF _ exI, OF _ conjI, OF _ exe conjI, OF _ dist conjI, OF _ oss refl] m
  show ?thesis by (fastforce simp: sample_nodes_def sample_node_def)
qed

lemma execute_dependencies:
  assumes "execute_workflow_graph rid pid nodes edges model_key presets allowlists runner = Inr st"
  shows "st_status st \<in> {RS_SUCCEEDED, RS_FAILED, RS_BLOCKED}
    \<and> (\<forall>i < length (st_completed st).
         set (preds edges (st_completed st ! i)) \<subseteq> set (take i (st_completed st)))
    \<and> (\<forall>c. st_current st = Some c \<longrightarrow>
         set (preds edges c) \<subseteq> set (st_completed st) \<and> c \<notin> set (st_completed st))
    \<and> (st_status st = RS_BLOCKED \<longrightarrow>
         (\<exists>n \<in> set nodes. st_current st = Some (wn_id n) \<and> wn_on_failure n = ''block''))"
proof (cases "blank model_key")
  case True
  with assms show ?thesis by (auto simp: execute_workflow_graph_def run_state_init_def)
next
  case False
  have v: "validate_workflow_definition (graph_of nodes edges presets allowlists) = Inr ()"
    using assms False by (auto simp: execute_workflow_graph_def Let_def bindR_Inr)
  obtain order where order: "topological_order nodes edges = Inr order" "mset order = mset nodes"
    "canonical_order edges (wn_id ` set nodes) (map wn_id order)"
    using validated_order [OF v] by blast
  have ready: "ready edges (wn_id ` set nodes) (set (take i (map wn_id order))) (wn_id (order ! i))"
    if "i < length order" for i
    using order(3) that by (simp add: canonical_order_def)
  have sub: "set (preds edges (wn_id (order ! i))) \<subseteq> wn_id ` set (take i order)"
    "wn_id (order ! i) \<notin> wn_id ` set (take i order)" if "i < length order" for i
    using ready [OF that] by (simp_all add: ready_def take_map)
  obtain fin st1 where r: "run_nodes runner rid pid (strip model_key) order (run_state_init rid RS_RUNNING None) = (fin, st1)" by force
  note ex = execute_run [OF False v order(1), of rid pid runner, unfolded r assms]
  show ?thesis
  proof (cases fin)
    case True
    then have "st_completed st1 = map wn_id order"
      using r run_nodes_True [of "run_state_init rid RS_RUNNING None" runner rid pid "strip model_key" order st1]
      by (auto simp: run_state_init_def)
    moreover have "st_completed st = st_completed st1 \<and> st_current st = None
        \<and> st_status st \<in> {RS_SUCCEEDED, RS_FAILED}"
      using ex True by (cases "has_final_file_deliverable (map snd (st_artifacts st1))") simp_all
    ultimately show ?thesis using sub by (auto simp: take_map)
  next
    case False
    then obtain k where k: "stopped_at runner order [] k st1"
      using r run_nodes_False by (fastforce simp: run_state_init_def)
    have st: "st = st1" using ex False by simp
    have "order ! k \<in> set nodes" 
      using k nth_mem [of k order] mset_eq_setD [OF order(2)] by (simp add: stopped_at_def)
    with k sub st show ?thesis
      by (auto simp: stopped_at_def take_map min_def)
  qed
qed



end
