(* ===== verification/Workshop_DB.thy ===== *)
theory Workshop_DB
  imports Workshop_Enums "HOL-Library.Product_Lexorder"
begin

text \<open>
  The workshop tables: the rows of \<open>app/server/workshop/persistence/models.py\<close> and the
  constraints of \<open>db/schema.sql\<close> and \<open>db/workshop_workflow_runs.sql\<close>.

  A table is the list of its rows in insertion order, which is the order of a \<open>BIGSERIAL\<close> key, so
  those keys are not stored. A column restricted by a \<open>CHECK\<close> to the values of an enumeration has
  that enumeration as its type, a \<open>JSONB\<close> column has type \<open>json\<close>, a \<open>TIMESTAMPTZ\<close> column holds an
  instant. Limits of \<open>VARCHAR(n)\<close> and of \<open>BIGINT\<close> are not modelled.

  The state also carries what an operation takes from its surroundings: the readings of the clock and
  the values of \<open>uuid4().hex\<close> still to come (any streams), the rows of \<open>chat_conversations\<close>
  that projects refer to, \<open>db_driver\<close>, the exception chain with which the database driver
  reports a violated constraint, and the calls made so far of the callbacks that enqueue and revoke
  the execution of a run.
\<close>

section \<open>Rows\<close>

record project_row =
  pr_id :: string
  pr_user :: int
  pr_name :: string
  pr_group_chat :: int
  pr_brief :: json
  pr_created :: int
  pr_updated :: int

record expert_row =
  ex_id :: string
  ex_project :: string
  ex_name :: string
  ex_kind :: expert_kind
  ex_preset :: "string option"
  ex_source_preset :: "string option"
  ex_created :: int
  ex_updated :: int

record task_proposal_row =
  tp_id :: string
  tp_project :: string
  tp_title :: string
  tp_goals :: json
  tp_required :: json
  tp_status :: proposal_status
  tp_created :: int
  tp_updated :: int

record expert_proposal_row =
  ep_id :: string
  ep_project :: string
  ep_name :: string
  ep_kind :: expert_kind
  ep_source_preset :: "string option"
  ep_status :: proposal_status
  ep_created :: int
  ep_updated :: int

record task_row =
  tk_id :: string
  tk_project :: string
  tk_title :: string
  tk_goals :: json
  tk_required :: json
  tk_status :: task_status
  tk_schedule :: "string option"
  tk_sched_auth :: bool
  tk_ext_auth :: json
  tk_revision :: int
  tk_created :: int
  tk_updated :: int

record task_expert_row =
  te_project :: string
  te_task :: string
  te_expert :: string
  te_created :: int

record capability_use_row =
  cu_project :: string
  cu_task :: string
  cu_capability :: string
  cu_created :: int

record workflow_row =
  wf_id :: string
  wf_project :: string
  wf_name :: string
  wf_steps :: json
  wf_status :: workflow_status
  wf_source :: workflow_source
  wf_revision :: int
  wf_created :: int
  wf_updated :: int

record workflow_run_row =
  wr_id :: string
  wr_project :: string
  wr_workflow :: string
  wr_workflow_revision :: int
  wr_schedule :: "string option"
  wr_trigger :: run_trigger
  wr_status :: run_status
  wr_current_node :: "string option"
  wr_error :: "string option"
  wr_started :: "int option"
  wr_finished :: "int option"
  wr_revision :: int
  wr_created :: int
  wr_updated :: int

record schedule_row =
  sc_id :: string
  sc_project :: string
  sc_workflow :: string
  sc_cron :: string
  sc_timezone :: string
  sc_enabled :: bool
  sc_authorized_at :: int
  sc_caps :: json
  sc_next_run :: "int option"
  sc_created :: int
  sc_updated :: int

record schedule_run_row =
  sr_id :: string
  sr_project :: string
  sr_schedule :: string
  sr_trigger_key :: string
  sr_task :: string
  sr_created :: int

record artifact_row =
  ar_id :: string
  ar_project :: string
  ar_task :: "string option"
  ar_name :: string
  ar_storage :: storage_type
  ar_key :: string
  ar_size :: "int option"
  ar_metadata :: json
  ar_created :: int
  ar_updated :: int

record event_row =
  ev_key :: string
  ev_project :: string
  ev_task :: "string option"
  ev_kind :: event_kind
  ev_payload :: json
  ev_created :: int

record room_member_row =
  rm_project :: string
  rm_expert :: string
  rm_created :: int

section \<open>The state\<close>

datatype violation = UniqueV string | ForeignKeyV string | CheckV string

record db =
  projects :: "project_row list"
  experts :: "expert_row list"
  task_proposals :: "task_proposal_row list"
  expert_proposals :: "expert_proposal_row list"
  tasks :: "task_row list"
  task_experts :: "task_expert_row list"
  capability_uses :: "capability_use_row list"
  workflows :: "workflow_row list"
  workflow_runs :: "workflow_run_row list"
  schedules :: "schedule_row list"
  schedule_runs :: "schedule_run_row list"
  artifacts :: "artifact_row list"
  events :: "event_row list"
  room_members :: "room_member_row list"
  conversations :: "(int \<times> int) list"
  db_clock :: "nat \<Rightarrow> int"
  db_uuids :: "nat \<Rightarrow> string"
  db_driver :: "violation \<Rightarrow> exc_link list"
  db_enqueued :: "(string \<times> int \<times> string) list"
  db_revoked :: "(string \<times> int \<times> string) list"

text \<open>Reading the clock, drawing a \<open>uuid4().hex\<close>.\<close>

definition tick :: "(db, int) eff" where
  "tick db = (Inr (db_clock db 0), db\<lparr>db_clock := (\<lambda>n. db_clock db (Suc n))\<rparr>)"

definition uuid_hex :: "(db, string) eff" where
  "uuid_hex db = (Inr (db_uuids db 0), db\<lparr>db_uuids := (\<lambda>n. db_uuids db (Suc n))\<rparr>)"

definition new_id :: "string \<Rightarrow> (db, string) eff" where
  "new_id prfx = bindE uuid_hex (\<lambda>u. ret (prfx @ ''_'' @ u))"

text \<open>\<open>str(uuid4())\<close>: the hexadecimal digits in groups of 8, 4, 4, 4 and 12.\<close>

definition uuid_str :: "(db, string) eff" where
  "uuid_str = bindE uuid_hex (\<lambda>u. ret (join_with ''-''
     [take 8 u, take 4 (drop 8 u), take 4 (drop 12 u), take 4 (drop 16 u), drop 20 u]))"

text \<open>\<open>async with in_transaction()\<close>: an exception undoes the writes, while the clock and the
  identifiers drawn have moved on.\<close>

definition in_transaction :: "(db, 'a) eff \<Rightarrow> (db, 'a) eff" where
  "in_transaction m db =
     (case m db of
        (Inl e, db') \<Rightarrow> (Inl e, db\<lparr>db_clock := db_clock db', db_uuids := db_uuids db'\<rparr>)
      | (Inr x, db') \<Rightarrow> (Inr x, db'))"

lemma in_transaction_Inr: "in_transaction m db = (Inr x, db') \<longleftrightarrow> m db = (Inr x, db')"
  by (auto simp: in_transaction_def split: prod.splits sum.splits)

lemma in_transaction_Inl:
  "in_transaction m db = (Inl e, db') \<longleftrightarrow>
     (\<exists>d. m db = (Inl e, d) \<and> db' = db\<lparr>db_clock := db_clock d, db_uuids := db_uuids d\<rparr>)"
  by (auto simp: in_transaction_def split: prod.splits sum.splits)

text \<open>The first violated constraint of a statement ends it with the driver's \<open>IntegrityError\<close>.\<close>

fun constraints :: "(bool \<times> violation) list \<Rightarrow> (db, unit) eff" where
  "constraints [] = ret ()"
| "constraints ((ok, v) # cs) =
     (if ok then constraints cs else (\<lambda>db. (Inl (IntegrityError (db_driver db v)), db)))"

text \<open>\<open>filter(P).update(f)\<close>: the changed table and the number of rows it matched.\<close>

definition update_rows :: "('r \<Rightarrow> bool) \<Rightarrow> ('r \<Rightarrow> 'r) \<Rightarrow> 'r list \<Rightarrow> 'r list" where
  "update_rows P f rows = map (\<lambda>r. if P r then f r else r) rows"

definition count_rows :: "('r \<Rightarrow> bool) \<Rightarrow> 'r list \<Rightarrow> nat" where
  "count_rows P rows = length (filter P rows)"

section \<open>Inserts\<close>

definition has_project :: "db \<Rightarrow> string \<Rightarrow> bool" where
  "has_project db p \<longleftrightarrow> p \<in> pr_id ` set (projects db)"

definition has_task :: "db \<Rightarrow> string \<Rightarrow> string \<Rightarrow> bool" where
  "has_task db p t \<longleftrightarrow> (p, t) \<in> (\<lambda>r. (tk_project r, tk_id r)) ` set (tasks db)"

definition has_workflow :: "db \<Rightarrow> string \<Rightarrow> string \<Rightarrow> bool" where
  "has_workflow db p w \<longleftrightarrow> (p, w) \<in> (\<lambda>r. (wf_project r, wf_id r)) ` set (workflows db)"

definition has_schedule :: "db \<Rightarrow> string \<Rightarrow> string \<Rightarrow> bool" where
  "has_schedule db p s \<longleftrightarrow> (p, s) \<in> (\<lambda>r. (sc_project r, sc_id r)) ` set (schedules db)"

definition insert_project :: "string \<Rightarrow> int \<Rightarrow> string \<Rightarrow> int \<Rightarrow> json \<Rightarrow> (db, project_row) eff" where
  "insert_project i user name chat brief =
     bindE tick (\<lambda>c. bindE tick (\<lambda>u. bindE (gets id) (\<lambda>db.
     bindE (constraints
       [(i \<notin> pr_id ` set (projects db), UniqueV ''workshop_projects_pkey''),
        (chat \<notin> pr_group_chat ` set (projects db), UniqueV ''uk_workshop_projects_group_chat''),
        ((chat, user) \<in> set (conversations db), ForeignKeyV ''fk_workshop_projects_group_chat_user'')]) (\<lambda>_.
     let r = \<lparr>pr_id = i, pr_user = user, pr_name = name, pr_group_chat = chat, pr_brief = brief,
              pr_created = c, pr_updated = u\<rparr> in
     bindE (modify (\<lambda>db. db\<lparr>projects := projects db @ [r]\<rparr>)) (\<lambda>_. ret r)))))"

definition insert_expert :: "string \<Rightarrow> string \<Rightarrow> string \<Rightarrow> expert_kind \<Rightarrow> string option \<Rightarrow> string option
    \<Rightarrow> (db, expert_row) eff" where
  "insert_expert i project name kind preset source =
     bindE tick (\<lambda>c. bindE tick (\<lambda>u. bindE (gets id) (\<lambda>db.
     bindE (constraints
       [(i \<notin> ex_id ` set (experts db), UniqueV ''workshop_experts_pkey''),
        (preset = None \<or> (project, preset) \<notin> (\<lambda>r. (ex_project r, ex_preset r)) ` set (experts db),
         UniqueV ''uk_workshop_experts_project_preset''),
        (has_project db project, ForeignKeyV ''fk_workshop_experts_project'')]) (\<lambda>_.
     let r = \<lparr>ex_id = i, ex_project = project, ex_name = name, ex_kind = kind, ex_preset = preset,
              ex_source_preset = source, ex_created = c, ex_updated = u\<rparr> in
     bindE (modify (\<lambda>db. db\<lparr>experts := experts db @ [r]\<rparr>)) (\<lambda>_. ret r)))))"

definition insert_task_proposal :: "string \<Rightarrow> string \<Rightarrow> string \<Rightarrow> json \<Rightarrow> json \<Rightarrow> proposal_status
    \<Rightarrow> (db, task_proposal_row) eff" where
  "insert_task_proposal i project title goals required status =
     bindE tick (\<lambda>c. bindE tick (\<lambda>u. bindE (gets id) (\<lambda>db.
     bindE (constraints
       [(i \<notin> tp_id ` set (task_proposals db), UniqueV ''workshop_task_proposals_pkey''),
        (has_project db project, ForeignKeyV ''fk_workshop_task_proposals_project'')]) (\<lambda>_.
     let r = \<lparr>tp_id = i, tp_project = project, tp_title = title, tp_goals = goals,
              tp_required = required, tp_status = status, tp_created = c, tp_updated = u\<rparr> in
     bindE (modify (\<lambda>db. db\<lparr>task_proposals := task_proposals db @ [r]\<rparr>)) (\<lambda>_. ret r)))))"

definition insert_expert_proposal :: "string \<Rightarrow> string \<Rightarrow> string \<Rightarrow> expert_kind \<Rightarrow> string option
    \<Rightarrow> proposal_status \<Rightarrow> (db, expert_proposal_row) eff" where
  "insert_expert_proposal i project name kind source status =
     bindE tick (\<lambda>c. bindE tick (\<lambda>u. bindE (gets id) (\<lambda>db.
     bindE (constraints
       [(i \<notin> ep_id ` set (expert_proposals db), UniqueV ''workshop_expert_proposals_pkey''),
        (has_project db project, ForeignKeyV ''fk_workshop_expert_proposals_project'')]) (\<lambda>_.
     let r = \<lparr>ep_id = i, ep_project = project, ep_name = name, ep_kind = kind,
              ep_source_preset = source, ep_status = status, ep_created = c, ep_updated = u\<rparr> in
     bindE (modify (\<lambda>db. db\<lparr>expert_proposals := expert_proposals db @ [r]\<rparr>)) (\<lambda>_. ret r)))))"

definition insert_task :: "string \<Rightarrow> string \<Rightarrow> string \<Rightarrow> json \<Rightarrow> json \<Rightarrow> task_status \<Rightarrow> string option
    \<Rightarrow> bool \<Rightarrow> json \<Rightarrow> int \<Rightarrow> (db, task_row) eff" where
  "insert_task i project title goals required status sched auth ext rvn =
     bindE tick (\<lambda>c. bindE tick (\<lambda>u. bindE (gets id) (\<lambda>db.
     bindE (constraints
       [(rvn \<ge> 1, CheckV ''ck_workshop_tasks_revision''),
        (i \<notin> tk_id ` set (tasks db), UniqueV ''workshop_tasks_pkey''),
        (has_project db project, ForeignKeyV ''fk_workshop_tasks_project''),
        (case sched of None \<Rightarrow> True | Some s \<Rightarrow> has_schedule db project s,
         ForeignKeyV ''fk_workshop_tasks_schedule_project'')]) (\<lambda>_.
     let r = \<lparr>tk_id = i, tk_project = project, tk_title = title, tk_goals = goals,
              tk_required = required, tk_status = status, tk_schedule = sched, tk_sched_auth = auth,
              tk_ext_auth = ext, tk_revision = rvn, tk_created = c, tk_updated = u\<rparr> in
     bindE (modify (\<lambda>db. db\<lparr>tasks := tasks db @ [r]\<rparr>)) (\<lambda>_. ret r)))))"

definition insert_task_expert :: "string \<Rightarrow> string \<Rightarrow> string \<Rightarrow> (db, unit) eff" where
  "insert_task_expert project task expert =
     bindE tick (\<lambda>c. bindE (gets id) (\<lambda>db.
     bindE (constraints
       [((task, expert) \<notin> (\<lambda>r. (te_task r, te_expert r)) ` set (task_experts db),
         UniqueV ''uk_workshop_task_experts_task_expert''),
        (has_project db project, ForeignKeyV ''fk_workshop_task_experts_project''),
        (task \<in> tk_id ` set (tasks db), ForeignKeyV ''fk_workshop_task_experts_task''),
        (expert \<in> ex_id ` set (experts db), ForeignKeyV ''fk_workshop_task_experts_expert'')]) (\<lambda>_.
     modify (\<lambda>db. db\<lparr>task_experts := task_experts db @
       [\<lparr>te_project = project, te_task = task, te_expert = expert, te_created = c\<rparr>]\<rparr>))))"

definition insert_capability_use :: "string \<Rightarrow> string \<Rightarrow> string \<Rightarrow> (db, unit) eff" where
  "insert_capability_use project task cap =
     bindE tick (\<lambda>c. bindE (gets id) (\<lambda>db.
     bindE (constraints
       [((task, cap) \<notin> (\<lambda>r. (cu_task r, cu_capability r)) ` set (capability_uses db),
         UniqueV ''uk_workshop_task_capability_uses_task_cap''),
        (has_project db project, ForeignKeyV ''fk_workshop_task_capability_uses_project''),
        (task \<in> tk_id ` set (tasks db), ForeignKeyV ''fk_workshop_task_capability_uses_task'')]) (\<lambda>_.
     modify (\<lambda>db. db\<lparr>capability_uses := capability_uses db @
       [\<lparr>cu_project = project, cu_task = task, cu_capability = cap, cu_created = c\<rparr>]\<rparr>))))"

definition insert_room_member :: "string \<Rightarrow> string \<Rightarrow> (db, unit) eff" where
  "insert_room_member project expert =
     bindE tick (\<lambda>c. bindE (gets id) (\<lambda>db.
     bindE (constraints
       [((project, expert) \<notin> (\<lambda>r. (rm_project r, rm_expert r)) ` set (room_members db),
         UniqueV ''uk_workshop_room_members_project_expert''),
        (has_project db project, ForeignKeyV ''fk_workshop_room_members_project''),
        (expert \<in> ex_id ` set (experts db), ForeignKeyV ''fk_workshop_room_members_expert'')]) (\<lambda>_.
     modify (\<lambda>db. db\<lparr>room_members := room_members db @
       [\<lparr>rm_project = project, rm_expert = expert, rm_created = c\<rparr>]\<rparr>))))"

definition insert_workflow :: "string \<Rightarrow> string \<Rightarrow> string \<Rightarrow> json \<Rightarrow> workflow_status \<Rightarrow> workflow_source
    \<Rightarrow> int \<Rightarrow> (db, workflow_row) eff" where
  "insert_workflow i project name steps status source rvn =
     bindE tick (\<lambda>c. bindE tick (\<lambda>u. bindE (gets id) (\<lambda>db.
     bindE (constraints
       [(rvn \<ge> 1, CheckV ''ck_workshop_workflows_revision''),
        (i \<notin> wf_id ` set (workflows db), UniqueV ''workshop_workflows_pkey''),
        (has_project db project, ForeignKeyV ''fk_workshop_workflows_project'')]) (\<lambda>_.
     let r = \<lparr>wf_id = i, wf_project = project, wf_name = name, wf_steps = steps, wf_status = status,
              wf_source = source, wf_revision = rvn, wf_created = c, wf_updated = u\<rparr> in
     bindE (modify (\<lambda>db. db\<lparr>workflows := workflows db @ [r]\<rparr>)) (\<lambda>_. ret r)))))"

definition insert_workflow_run :: "string \<Rightarrow> string \<Rightarrow> string \<Rightarrow> int \<Rightarrow> string option \<Rightarrow> run_trigger
    \<Rightarrow> run_status \<Rightarrow> int \<Rightarrow> (db, workflow_run_row) eff" where
  "insert_workflow_run i project workflow wrev sched trig status rvn =
     bindE tick (\<lambda>c. bindE tick (\<lambda>u. bindE (gets id) (\<lambda>db.
     bindE (constraints
       [(rvn \<ge> 1, CheckV ''ck_workshop_workflow_runs_revision''),
        (i \<notin> wr_id ` set (workflow_runs db), UniqueV ''workshop_workflow_runs_pkey''),
        (has_project db project, ForeignKeyV ''fk_workshop_workflow_runs_project''),
        (has_workflow db project workflow, ForeignKeyV ''fk_workshop_workflow_runs_workflow_project'')]) (\<lambda>_.
     let r = \<lparr>wr_id = i, wr_project = project, wr_workflow = workflow, wr_workflow_revision = wrev,
              wr_schedule = sched, wr_trigger = trig, wr_status = status, wr_current_node = None,
              wr_error = None, wr_started = None, wr_finished = None, wr_revision = rvn,
              wr_created = c, wr_updated = u\<rparr> in
     bindE (modify (\<lambda>db. db\<lparr>workflow_runs := workflow_runs db @ [r]\<rparr>)) (\<lambda>_. ret r)))))"

definition insert_schedule :: "string \<Rightarrow> string \<Rightarrow> string \<Rightarrow> string \<Rightarrow> string \<Rightarrow> bool \<Rightarrow> int \<Rightarrow> json
    \<Rightarrow> int option \<Rightarrow> (db, schedule_row) eff" where
  "insert_schedule i project workflow cron tz enabled auth_at caps next_run =
     bindE tick (\<lambda>c. bindE tick (\<lambda>u. bindE (gets id) (\<lambda>db.
     bindE (constraints
       [(i \<notin> sc_id ` set (schedules db), UniqueV ''workshop_schedules_pkey''),
        (has_project db project, ForeignKeyV ''fk_workshop_schedules_project''),
        (has_workflow db project workflow, ForeignKeyV ''fk_workshop_schedules_workflow_project'')]) (\<lambda>_.
     let r = \<lparr>sc_id = i, sc_project = project, sc_workflow = workflow, sc_cron = cron,
              sc_timezone = tz, sc_enabled = enabled, sc_authorized_at = auth_at, sc_caps = caps,
              sc_next_run = next_run, sc_created = c, sc_updated = u\<rparr> in
     bindE (modify (\<lambda>db. db\<lparr>schedules := schedules db @ [r]\<rparr>)) (\<lambda>_. ret r)))))"

definition insert_schedule_run :: "string \<Rightarrow> string \<Rightarrow> string \<Rightarrow> string \<Rightarrow> string
    \<Rightarrow> (db, schedule_run_row) eff" where
  "insert_schedule_run i project sched key task =
     bindE tick (\<lambda>c. bindE (gets id) (\<lambda>db.
     bindE (constraints
       [(i \<notin> sr_id ` set (schedule_runs db), UniqueV ''workshop_schedule_runs_pkey''),
        ((sched, key) \<notin> (\<lambda>r. (sr_schedule r, sr_trigger_key r)) ` set (schedule_runs db),
         UniqueV ''uk_workshop_schedule_runs_schedule_trigger''),
        (has_project db project, ForeignKeyV ''fk_workshop_schedule_runs_project''),
        (has_schedule db project sched, ForeignKeyV ''fk_workshop_schedule_runs_schedule_project''),
        (has_task db project task, ForeignKeyV ''fk_workshop_schedule_runs_task_project'')]) (\<lambda>_.
     let r = \<lparr>sr_id = i, sr_project = project, sr_schedule = sched, sr_trigger_key = key,
              sr_task = task, sr_created = c\<rparr> in
     bindE (modify (\<lambda>db. db\<lparr>schedule_runs := schedule_runs db @ [r]\<rparr>)) (\<lambda>_. ret r))))"

definition insert_artifact :: "string \<Rightarrow> string \<Rightarrow> string option \<Rightarrow> string \<Rightarrow> storage_type \<Rightarrow> string
    \<Rightarrow> int option \<Rightarrow> json \<Rightarrow> (db, artifact_row) eff" where
  "insert_artifact i project task name st key sz meta =
     bindE tick (\<lambda>c. bindE tick (\<lambda>u. bindE (gets id) (\<lambda>db.
     bindE (constraints
       [(case sz of None \<Rightarrow> True | Some n \<Rightarrow> n > 0, CheckV ''ck_workshop_artifacts_size_bytes''),
        (i \<notin> ar_id ` set (artifacts db), UniqueV ''workshop_artifacts_pkey''),
        (task = None \<or> (task, name) \<notin> (\<lambda>r. (ar_task r, ar_name r)) ` set (artifacts db),
         UniqueV ''uk_workshop_artifacts_task_name''),
        (has_project db project, ForeignKeyV ''fk_workshop_artifacts_project''),
        (case task of None \<Rightarrow> True | Some t \<Rightarrow> has_task db project t,
         ForeignKeyV ''fk_workshop_artifacts_task_project'')]) (\<lambda>_.
     let r = \<lparr>ar_id = i, ar_project = project, ar_task = task, ar_name = name, ar_storage = st,
              ar_key = key, ar_size = sz, ar_metadata = meta, ar_created = c, ar_updated = u\<rparr> in
     bindE (modify (\<lambda>db. db\<lparr>artifacts := artifacts db @ [r]\<rparr>)) (\<lambda>_. ret r)))))"

definition insert_event :: "string \<Rightarrow> string \<Rightarrow> string option \<Rightarrow> event_kind \<Rightarrow> json
    \<Rightarrow> (db, event_row) eff" where
  "insert_event key project task kind payload =
     bindE tick (\<lambda>c. bindE (gets id) (\<lambda>db.
     bindE (constraints
       [(key \<notin> ev_key ` set (events db), UniqueV ''uk_workshop_events_event_key''),
        (has_project db project, ForeignKeyV ''fk_workshop_events_project''),
        (case task of None \<Rightarrow> True | Some t \<Rightarrow> has_task db project t,
         ForeignKeyV ''fk_workshop_events_task_project'')]) (\<lambda>_.
     let r = \<lparr>ev_key = key, ev_project = project, ev_task = task, ev_kind = kind,
              ev_payload = payload, ev_created = c\<rparr> in
     bindE (modify (\<lambda>db. db\<lparr>events := events db @ [r]\<rparr>)) (\<lambda>_. ret r))))"

section \<open>Updates\<close>

text \<open>An \<open>UPDATE\<close> fires the trigger that stamps \<open>updated_at\<close>; it returns the number of rows.\<close>

definition update_projects :: "(project_row \<Rightarrow> bool) \<Rightarrow> (project_row \<Rightarrow> project_row) \<Rightarrow> (db, nat) eff" where
  "update_projects P f = bindE tick (\<lambda>u. bindE (gets (\<lambda>db. count_rows P (projects db))) (\<lambda>n.
     bindE (modify (\<lambda>db. db\<lparr>projects := update_rows P (\<lambda>r. f r\<lparr>pr_updated := u\<rparr>) (projects db)\<rparr>))
       (\<lambda>_. ret n)))"

definition update_task_proposals ::
    "(task_proposal_row \<Rightarrow> bool) \<Rightarrow> (task_proposal_row \<Rightarrow> task_proposal_row) \<Rightarrow> (db, nat) eff" where
  "update_task_proposals P f = bindE tick (\<lambda>u. bindE (gets (\<lambda>db. count_rows P (task_proposals db))) (\<lambda>n.
     bindE (modify (\<lambda>db. db\<lparr>task_proposals :=
                update_rows P (\<lambda>r. f r\<lparr>tp_updated := u\<rparr>) (task_proposals db)\<rparr>)) (\<lambda>_. ret n)))"

definition update_expert_proposals ::
    "(expert_proposal_row \<Rightarrow> bool) \<Rightarrow> (expert_proposal_row \<Rightarrow> expert_proposal_row) \<Rightarrow> (db, nat) eff" where
  "update_expert_proposals P f = bindE tick (\<lambda>u. bindE (gets (\<lambda>db. count_rows P (expert_proposals db))) (\<lambda>n.
     bindE (modify (\<lambda>db. db\<lparr>expert_proposals :=
                update_rows P (\<lambda>r. f r\<lparr>ep_updated := u\<rparr>) (expert_proposals db)\<rparr>)) (\<lambda>_. ret n)))"

definition update_tasks :: "(task_row \<Rightarrow> bool) \<Rightarrow> (task_row \<Rightarrow> task_row) \<Rightarrow> (db, nat) eff" where
  "update_tasks P f = bindE tick (\<lambda>u. bindE (gets (\<lambda>db. count_rows P (tasks db))) (\<lambda>n.
     bindE (modify (\<lambda>db. db\<lparr>tasks := update_rows P (\<lambda>r. f r\<lparr>tk_updated := u\<rparr>) (tasks db)\<rparr>))
       (\<lambda>_. ret n)))"

definition update_workflows :: "(workflow_row \<Rightarrow> bool) \<Rightarrow> (workflow_row \<Rightarrow> workflow_row) \<Rightarrow> (db, nat) eff" where
  "update_workflows P f = bindE tick (\<lambda>u. bindE (gets (\<lambda>db. count_rows P (workflows db))) (\<lambda>n.
     bindE (modify (\<lambda>db. db\<lparr>workflows := update_rows P (\<lambda>r. f r\<lparr>wf_updated := u\<rparr>) (workflows db)\<rparr>))
       (\<lambda>_. ret n)))"

definition update_workflow_runs ::
    "(workflow_run_row \<Rightarrow> bool) \<Rightarrow> (workflow_run_row \<Rightarrow> workflow_run_row) \<Rightarrow> (db, nat) eff" where
  "update_workflow_runs P f = bindE tick (\<lambda>u. bindE (gets (\<lambda>db. count_rows P (workflow_runs db))) (\<lambda>n.
     bindE (modify (\<lambda>db. db\<lparr>workflow_runs :=
                update_rows P (\<lambda>r. f r\<lparr>wr_updated := u\<rparr>) (workflow_runs db)\<rparr>)) (\<lambda>_. ret n)))"

definition update_schedules :: "(schedule_row \<Rightarrow> bool) \<Rightarrow> (schedule_row \<Rightarrow> schedule_row) \<Rightarrow> (db, nat) eff" where
  "update_schedules P f = bindE tick (\<lambda>u. bindE (gets (\<lambda>db. count_rows P (schedules db))) (\<lambda>n.
     bindE (modify (\<lambda>db. db\<lparr>schedules := update_rows P (\<lambda>r. f r\<lparr>sc_updated := u\<rparr>) (schedules db)\<rparr>))
       (\<lambda>_. ret n)))"

definition update_artifacts :: "(artifact_row \<Rightarrow> bool) \<Rightarrow> (artifact_row \<Rightarrow> artifact_row) \<Rightarrow> (db, nat) eff" where
  "update_artifacts P f = bindE tick (\<lambda>u. bindE (gets (\<lambda>db. count_rows P (artifacts db))) (\<lambda>n.
     bindE (modify (\<lambda>db. db\<lparr>artifacts := update_rows P (\<lambda>r. f r\<lparr>ar_updated := u\<rparr>) (artifacts db)\<rparr>))
       (\<lambda>_. ret n)))"

section \<open>Deletes with their cascades\<close>

definition delete_experts :: "(expert_row \<Rightarrow> bool) \<Rightarrow> (db, nat) eff" where
  "delete_experts P =
     bindE (gets (\<lambda>db. filter P (experts db))) (\<lambda>gone.
     bindE (modify (\<lambda>db. db\<lparr>
         experts := filter (\<lambda>r. \<not> P r) (experts db),
         task_experts := filter (\<lambda>r. te_expert r \<notin> ex_id ` set gone) (task_experts db),
         room_members := filter (\<lambda>r. rm_expert r \<notin> ex_id ` set gone) (room_members db)\<rparr>)) (\<lambda>_.
     ret (length gone)))"

text \<open>
  Deleting workflows deletes their schedules and runs, and the schedules' trigger records; a task
  that still refers to such a schedule (\<open>ON DELETE RESTRICT\<close>) makes the statement fail.
\<close>

definition delete_workflows :: "(workflow_row \<Rightarrow> bool) \<Rightarrow> (db, nat) eff" where
  "delete_workflows P =
     bindE (gets id) (\<lambda>db.
     let gone = (\<lambda>r. (wf_project r, wf_id r)) ` set (filter P (workflows db));
         sgone = (\<lambda>s. (sc_project s, Some (sc_id s))) `
                   {s \<in> set (schedules db). (sc_project s, sc_workflow s) \<in> gone} in
     bindE (constraints
       [(\<forall>t \<in> set (tasks db). (tk_project t, tk_schedule t) \<notin> sgone,
         ForeignKeyV ''fk_workshop_tasks_schedule_project'')]) (\<lambda>_.
     bindE (modify (\<lambda>db. db\<lparr>
         workflows := filter (\<lambda>r. \<not> P r) (workflows db),
         schedules := filter (\<lambda>s. (sc_project s, sc_workflow s) \<notin> gone) (schedules db),
         workflow_runs := filter (\<lambda>r. (wr_project r, wr_workflow r) \<notin> gone) (workflow_runs db),
         schedule_runs := filter (\<lambda>r. (sr_project r, Some (sr_schedule r)) \<notin> sgone) (schedule_runs db)\<rparr>)) (\<lambda>_.
     ret (length (filter P (workflows db))))))"

text \<open>A statement goes through exactly when all its constraints hold.\<close>

lemma constraints_Inr: "constraints cs db = (Inr (), db') \<longleftrightarrow> list_all fst cs \<and> db' = db"
  by (induction cs rule: constraints.induct) (auto simp: ret_def)

declare constraints.simps [simp del]

end
