(* ===== verification/Workshop_Types.thy ===== *)
theory Workshop_Types
  imports Workshop_DB Workflow_Codec
begin

text \<open>
  The read models of \<open>app/server/workshop/domain/types.py\<close>, the acceptance of submitted artifacts
  (\<open>domain/weak_accept.py\<close>) and the (de)serialisation of event payloads
  (\<open>persistence/repository.py\<close>).
\<close>

section \<open>Artifact submissions\<close>

record artifact_submission =
  as_name :: string
  as_storage :: storage_type
  as_content :: "string option"
  as_key :: "string option"
  as_size :: "int option"

definition artifact_submission_init ::
    "string \<Rightarrow> storage_type \<Rightarrow> string option \<Rightarrow> string option \<Rightarrow> int option \<Rightarrow> artifact_submission res" where
  "artifact_submission_init name st content key sz =
     (let a = \<lparr>as_name = name, as_storage = st, as_content = content, as_key = key, as_size = sz\<rparr> in
      if blank name then Inl (ValueError ''artifact name required'')
      else if st = ST_DB then
        (if (case content of None \<Rightarrow> True | Some c \<Rightarrow> blank c)
         then Inl (ValueError ''db artifact content required'')
         else if key \<noteq> None then Inl (ValueError ''db artifact must not carry client storage_key'')
         else if (case sz of None \<Rightarrow> False | Some n \<Rightarrow> n \<le> 0)
         then Inl (ValueError ''db artifact size_bytes must be positive when set'')
         else Inr a)
      else if (case key of None \<Rightarrow> True | Some k \<Rightarrow> blank k)
      then Inl (ValueError ''external artifact storage_key required'')
      else if (case sz of None \<Rightarrow> True | Some n \<Rightarrow> n \<le> 0)
      then Inl (ValueError ''external artifact size_bytes required'')
      else if content \<noteq> None
      then Inl (ValueError ''external artifact must not carry inline content'')
      else Inr a)"

definition submission_non_empty :: "artifact_submission \<Rightarrow> bool" where
  "submission_non_empty a =
     (if as_storage a = ST_DB
      then (case as_content a of None \<Rightarrow> False | Some c \<Rightarrow> \<not> blank c)
      else (case as_size a of None \<Rightarrow> False | Some n \<Rightarrow> n > 0))"

section \<open>Weak acceptance\<close>

record weak_accept_result =
  wa_passed :: bool
  wa_reasons :: "string list"

definition ecommerce_deliverable_types :: "string list" where
  "ecommerce_deliverable_types =
     [''MarketCompetitorBrief'', ''ListingCopyVersion'', ''CreativeBrief'', ''GenerationAssetRef'',
      ''CampaignPlanDoc'', ''EmailSequenceDraft'', ''AdsStrategyBrief'', ''AdsReportDiagnosis'',
      ''MetricsSnapshot'', ''DailyOrWeeklyReview'', ''AnomalyList'', ''ChartArtifact'',
      ''PublishDiff'', ''PublishReceipt'']"

text \<open>
  Two parameters: \<open>loads\<close>, the JSON decoder (\<open>None\<close> for a decode error), and
  \<open>contract\<close>, whether the pydantic model of a deliverable type accepts an object.
\<close>

record contract_env =
  ce_loads :: "string \<Rightarrow> json option"
  ce_contract :: "string \<Rightarrow> json dict \<Rightarrow> bool"

definition ecommerce_artifact_valid :: "contract_env \<Rightarrow> string \<Rightarrow> artifact_submission \<Rightarrow> bool" where
  "ecommerce_artifact_valid env type_name a =
     (if as_storage a \<noteq> ST_DB then False
      else (case as_content a of
              None \<Rightarrow> False
            | Some c \<Rightarrow>
                (case ce_loads env c of
                   Some (JObj payload) \<Rightarrow> ce_contract env type_name payload
                 | _ \<Rightarrow> False)))"

definition submitted_by_name :: "artifact_submission list \<Rightarrow> artifact_submission dict" where
  "submitted_by_name arts = fold (\<lambda>a d. dict_set d (strip (as_name a)) a) arts []"

fun required_reasons :: "contract_env \<Rightarrow> artifact_submission dict \<Rightarrow> string list \<Rightarrow> string list" where
  "required_reasons env submitted [] = []"
| "required_reasons env submitted (name # names) =
     (case dict_get submitted name of
        None \<Rightarrow> [''artifacts_missing'']
      | Some a \<Rightarrow>
          if \<not> submission_non_empty a then [''artifact_empty'']
          else if name \<in> set ecommerce_deliverable_types \<and> \<not> ecommerce_artifact_valid env name a
          then [''ecommerce_deliverable_invalid'']
          else required_reasons env submitted names)"

definition evaluate_weak_accept :: "contract_env \<Rightarrow> string list \<Rightarrow> string set \<Rightarrow> string list
    \<Rightarrow> artifact_submission list \<Rightarrow> capability set \<Rightarrow> capability set \<Rightarrow> weak_accept_result" where
  "evaluate_weak_accept env goals covered required arts granted used =
     (let reasons =
        (if \<exists>g \<in> set goals. g \<notin> covered then [''goals_incomplete''] else [])
        @ required_reasons env (submitted_by_name arts) required
        @ (if {c \<in> used. is_external_capability c} \<subseteq> granted then [] else [''external_auth_violation''])
      in if reasons \<noteq> [] then \<lparr>wa_passed = False, wa_reasons = reasons\<rparr>
         else \<lparr>wa_passed = True, wa_reasons = []\<rparr>)"

section \<open>Read models\<close>

record workshop_project =
  p_id :: string
  p_user :: int
  p_name :: string
  p_group_chat :: int
  p_host_role :: workshop_role

record roster_expert =
  x_id :: string
  x_project :: string
  x_name :: string
  x_kind :: expert_kind
  x_preset :: "string option"
  x_source_preset :: "string option"

record create_task_proposal =
  q_id :: string
  q_project :: string
  q_title :: string
  q_goals :: "string list"
  q_required :: "string list"
  q_status :: proposal_status

record workshop_task =
  t_id :: string
  t_project :: string
  t_title :: string
  t_goals :: "string list"
  t_required :: "string list"
  t_status :: task_status
  t_schedule :: "string option"
  t_sched_auth :: bool
  t_ext_auth :: "capability set"
  t_revision :: int

record workshop_workflow =
  w_id :: string
  w_project :: string
  w_name :: string
  w_nodes :: "workflow_node list"
  w_edges :: "workflow_edge list"
  w_status :: workflow_status
  w_source :: workflow_source
  w_revision :: int
  w_model_key :: string
  w_entry :: "string list option"

record workshop_run =
  r_id :: string
  r_project :: string
  r_workflow :: string
  r_workflow_revision :: int
  r_schedule :: "string option"
  r_trigger :: run_trigger
  r_status :: run_status
  r_current_node :: "string option"
  r_error :: "string option"
  r_started :: "int option"
  r_finished :: "int option"
  r_created :: int
  r_revision :: int

record workshop_schedule =
  s_id :: string
  s_project :: string
  s_workflow :: string
  s_cron :: string
  s_timezone :: string
  s_enabled :: bool
  s_authorized_at :: int
  s_caps :: "capability set"
  s_next_run :: "int option"

datatype event_payload =
    ScheduleStarted string string string string
  | ScheduleSummary string string
  | ArtifactsPublished string "string list"
  | ScheduleBlocked string string "string list"

record workshop_event =
  e_key :: string
  e_project :: string
  e_task :: "string option"
  e_kind :: event_kind
  e_payload :: event_payload
  e_created :: int

record schedule_run =
  u_id :: string
  u_project :: string
  u_schedule :: string
  u_trigger_key :: string
  u_task :: string

record artifact_record =
  a_id :: string
  a_project :: string
  a_task :: "string option"
  a_name :: string
  a_storage :: storage_type
  a_key :: string
  a_size :: "int option"
  a_content :: "string option"
  a_created :: int
  a_updated :: int

record message_attribution =
  ma_task :: "string option"
  ma_needs_clarification :: bool

section \<open>Event payloads\<close>

abbreviation WRE :: "string \<Rightarrow> exc" where
  "WRE \<equiv> WorkshopRepositoryError"

fun dump_event_payload :: "event_kind \<Rightarrow> event_payload \<Rightarrow> json res" where
  "dump_event_payload EV_SCHEDULE_STARTED p =
     (case p of
        ScheduleStarted sid tid key msg \<Rightarrow>
          Inr (JObj [(''schedule_id'', JStr sid), (''task_id'', JStr tid),
                     (''trigger_key'', JStr key), (''message'', JStr msg)])
      | _ \<Rightarrow> Inl (WRE ''schedule_started payload type mismatch''))"
| "dump_event_payload EV_SCHEDULE_SUMMARY p =
     (case p of
        ScheduleSummary tid msg \<Rightarrow> Inr (JObj [(''task_id'', JStr tid), (''message'', JStr msg)])
      | _ \<Rightarrow> Inl (WRE ''schedule_summary payload type mismatch''))"
| "dump_event_payload EV_ARTIFACTS_PUBLISHED p =
     (case p of
        ArtifactsPublished tid names \<Rightarrow>
          Inr (JObj [(''task_id'', JStr tid), (''artifact_names'', JList (map JStr names))])
      | _ \<Rightarrow> Inl (WRE ''artifacts_published payload type mismatch''))"
| "dump_event_payload EV_SCHEDULE_BLOCKED p =
     (case p of
        ScheduleBlocked tid msg reasons \<Rightarrow>
          Inr (JObj [(''task_id'', JStr tid), (''message'', JStr msg),
                     (''reasons'', JList (map JStr reasons))])
      | _ \<Rightarrow> Inl (WRE ''schedule_blocked payload type mismatch''))"

definition need_str :: "json dict \<Rightarrow> string \<Rightarrow> string \<Rightarrow> string res" where
  "need_str d k msg = (case jget d k of JStr s \<Rightarrow> Inr s | _ \<Rightarrow> Inl (WRE msg))"

definition need_list :: "json dict \<Rightarrow> string \<Rightarrow> string \<Rightarrow> json list res" where
  "need_list d k msg = (case jget d k of JList xs \<Rightarrow> Inr xs | _ \<Rightarrow> Inl (WRE msg))"

fun parse_event_fields :: "event_kind \<Rightarrow> json dict \<Rightarrow> event_payload res" where
  "parse_event_fields EV_SCHEDULE_STARTED d =
     bindR (need_str d ''schedule_id'' ''schedule_started schedule_id must be string'') (\<lambda>sid.
     bindR (need_str d ''task_id'' ''schedule_started task_id must be string'') (\<lambda>tid.
     bindR (need_str d ''trigger_key'' ''schedule_started trigger_key must be string'') (\<lambda>key.
     bindR (need_str d ''message'' ''schedule_started message must be string'') (\<lambda>msg.
     Inr (ScheduleStarted sid tid key msg)))))"
| "parse_event_fields EV_SCHEDULE_SUMMARY d =
     bindR (need_str d ''task_id'' ''schedule_summary task_id must be string'') (\<lambda>tid.
     bindR (need_str d ''message'' ''schedule_summary message must be string'') (\<lambda>msg.
     Inr (ScheduleSummary tid msg)))"
| "parse_event_fields EV_ARTIFACTS_PUBLISHED d =
     bindR (need_str d ''task_id'' ''artifacts_published task_id must be string'') (\<lambda>tid.
     bindR (need_list d ''artifact_names'' ''artifacts_published artifact_names must be list'') (\<lambda>ns.
     Inr (ArtifactsPublished tid (map py_str ns))))"
| "parse_event_fields EV_SCHEDULE_BLOCKED d =
     bindR (need_str d ''task_id'' ''schedule_blocked task_id must be string'') (\<lambda>tid.
     bindR (need_str d ''message'' ''schedule_blocked message must be string'') (\<lambda>msg.
     bindR (need_list d ''reasons'' ''schedule_blocked reasons must be list'') (\<lambda>rs.
     Inr (ScheduleBlocked tid msg (map py_str rs)))))"

definition parse_event_payload :: "event_kind \<Rightarrow> json \<Rightarrow> event_payload res" where
  "parse_event_payload kind raw =
     (case raw of JObj d \<Rightarrow> parse_event_fields kind d
      | _ \<Rightarrow> Inl (WRE ''event payload must be object''))"

section \<open>Properties\<close>

lemma parse_dump_event: "dump_event_payload k p = Inr j \<Longrightarrow> parse_event_payload k j = Inr p"
  by (cases k; cases p)
     (auto simp: parse_event_payload_def need_str_def need_list_def jget_def comp_def)

lemma required_reasons_Nil:
  "required_reasons env submitted names = [] \<longleftrightarrow>
     (\<forall>n \<in> set names. \<exists>a. map_of submitted n = Some a \<and> submission_non_empty a
        \<and> (n \<in> set ecommerce_deliverable_types \<longrightarrow> ecommerce_artifact_valid env n a))"
  by (induction names) (auto split: option.splits)

lemma submitted_by_name_last:
  "map_of (submitted_by_name arts) n = find (\<lambda>a. strip (as_name a) = n) (rev arts)"
proof -
  have "map_of (fold (\<lambda>a d. dict_set d (strip (as_name a)) a) arts d) n =
        (case find (\<lambda>a. strip (as_name a) = n) (rev arts) of Some a \<Rightarrow> Some a | None \<Rightarrow> map_of d n)" for d
  proof (induction arts arbitrary: d)
    case (Cons a arts)
    then show ?case by (simp add: find_append AList.update_conv' split: option.splits)
  qed simp
  from this [of "[]"] show ?thesis by (simp add: submitted_by_name_def split: option.splits)
qed

text \<open>
  A submission passes the weak acceptance exactly when every goal is covered, every required
  artifact was submitted (the last submission of that name counts), is non-empty and, for a
  deliverable type of the e-commerce contract, satisfies the contract, and no external capability
  was used that the task had not been granted.
\<close>

theorem weak_accept_passes_iff:
  "wa_passed (evaluate_weak_accept env goals covered required arts granted used) \<longleftrightarrow>
     set goals \<subseteq> covered
     \<and> (\<forall>n \<in> set required. \<exists>a. find (\<lambda>a. strip (as_name a) = n) (rev arts) = Some a
          \<and> submission_non_empty a
          \<and> (n \<in> set ecommerce_deliverable_types \<longrightarrow> ecommerce_artifact_valid env n a))
     \<and> (\<forall>c \<in> used. is_external_capability c \<longrightarrow> c \<in> granted)"
  by (auto simp: evaluate_weak_accept_def Let_def required_reasons_Nil submitted_by_name_last)

definition sample_env :: contract_env where
  "sample_env = \<lparr>ce_loads = (\<lambda>s. Some (JObj [])), ce_contract = (\<lambda>t d. True)\<rparr>"

definition sample_submission :: artifact_submission where
  "sample_submission =
     \<lparr>as_name = ''PublishDiff'', as_storage = ST_DB, as_content = Some ''x'', as_key = None, as_size = None\<rparr>"

theorem weak_accept_passes_iff_witness:
  "wa_passed (evaluate_weak_accept sample_env [''g''] {''g''} [''PublishDiff''] [sample_submission] {MCP} {MCP, WEB_SEARCH})"
  unfolding weak_accept_passes_iff
  by (simp add: sample_submission_def sample_env_def submission_non_empty_def ecommerce_artifact_valid_def
      is_external_capability_def external_capabilities_def strip_plain plain_char_def)


text \<open>
  An event payload that \<open>_dump_event_payload\<close> accepts for its kind is read back unchanged by
  \<open>_parse_event_payload\<close>.
\<close>

theorem event_payload_roundtrip:
  assumes "dump_event_payload kind payload = Inr raw"
  shows "parse_event_payload kind raw = Inr payload"
  using assms by (rule parse_dump_event)

theorem event_payload_roundtrip_witness:
  "\<exists>raw. dump_event_payload EV_SCHEDULE_BLOCKED (ScheduleBlocked ''t1'' ''m'' [''r1'', ''r2'']) = Inr raw
     \<and> parse_event_payload EV_SCHEDULE_BLOCKED raw = Inr (ScheduleBlocked ''t1'' ''m'' [''r1'', ''r2''])"
  using event_payload_roundtrip [of EV_SCHEDULE_BLOCKED "ScheduleBlocked ''t1'' ''m'' [''r1'', ''r2'']"] by simp

end
