(* ===== verification/Sha256.thy ===== *)
theory Sha256
  imports Prelude "HOL-Library.Word"
begin

text \<open>
  The digests of Python's standard library that the backend uses: \<open>hashlib.sha256(...).hexdigest()\<close>
  (identifiers of preset experts, payload hashes) and \<open>hmac.new(key, body, sha256).hexdigest()\<close>
  (signatures of payment webhooks), after FIPS 180-4 and RFC 2104. A byte string is a
  \<open>string\<close>.
\<close>

unbundle bit_operations_syntax

definition sha_k :: "32 word list" where
  "sha_k =
     [1116352408, 1899447441, 3049323471, 3921009573, 961987163, 1508970993, 2453635748, 2870763221,
      3624381080, 310598401, 607225278, 1426881987, 1925078388, 2162078206, 2614888103, 3248222580,
      3835390401, 4022224774, 264347078, 604807628, 770255983, 1249150122, 1555081692, 1996064986,
      2554220882, 2821834349, 2952996808, 3210313671, 3336571891, 3584528711, 113926993, 338241895,
      666307205, 773529912, 1294757372, 1396182291, 1695183700, 1986661051, 2177026350, 2456956037,
      2730485921, 2820302411, 3259730800, 3345764771, 3516065817, 3600352804, 4094571909, 275423344,
      430227734, 506948616, 659060556, 883997877, 958139571, 1322822218, 1537002063, 1747873779,
      1955562222, 2024104815, 2227730452, 2361852424, 2428436474, 2756734187, 3204031479, 3329325298]"

definition sha_init :: "32 word list" where
  "sha_init =
     [1779033703, 3144134277, 1013904242, 2773480762, 1359893119, 2600822924, 528734635, 1541459225]"

text \<open>Big-endian words from bytes, and the padded message in blocks of sixteen words.\<close>

fun words_of_bytes :: "nat list \<Rightarrow> 32 word list" where
  "words_of_bytes (a # b # c # d # bs) =
     of_nat (a * 2 ^ 24 + b * 2 ^ 16 + c * 2 ^ 8 + d) # words_of_bytes bs"
| "words_of_bytes _ = []"

definition sha_pad :: "string \<Rightarrow> nat list" where
  "sha_pad s =
     (let n = length s
      in map of_char s @ [0x80] @ replicate ((119 - n mod 64) mod 64) 0
         @ map (\<lambda>i. (8 * n) div 2 ^ (8 * i) mod 256) [7, 6, 5, 4, 3, 2, 1, 0])"

fun sha_blocks :: "nat \<Rightarrow> 32 word list \<Rightarrow> 32 word list list" where
  "sha_blocks 0 ws = []"
| "sha_blocks (Suc n) ws = take 16 ws # sha_blocks n (drop 16 ws)"

text \<open>The message schedule, kept with its latest word first.\<close>

fun sha_extend :: "nat \<Rightarrow> 32 word list \<Rightarrow> 32 word list" where
  "sha_extend 0 w = w"
| "sha_extend (Suc n) w =
     (let w15 = w ! 14; w2 = w ! 1;
          s0 = (word_rotr 7 w15 XOR word_rotr 18 w15) XOR drop_bit 3 w15;
          s1 = (word_rotr 17 w2 XOR word_rotr 19 w2) XOR drop_bit 10 w2
      in sha_extend n ((w ! 15 + s0 + w ! 6 + s1) # w))"

fun sha_round :: "32 word list \<Rightarrow> 32 word \<times> 32 word \<Rightarrow> 32 word list" where
  "sha_round [a, b, c, d, e, f, g, h] (k, w) =
     (let s1 = (word_rotr 6 e XOR word_rotr 11 e) XOR word_rotr 25 e;
          ch = (e AND f) XOR (NOT e AND g);
          t1 = h + s1 + ch + k + w;
          s0 = (word_rotr 2 a XOR word_rotr 13 a) XOR word_rotr 22 a;
          maj = ((a AND b) XOR (a AND c)) XOR (b AND c)
      in [t1 + s0 + maj, a, b, c, d + t1, e, f, g])"
| "sha_round st _ = st"

definition sha_block :: "32 word list \<Rightarrow> 32 word list \<Rightarrow> 32 word list" where
  "sha_block st block =
     map2 (+) st (foldl sha_round st (zip sha_k (rev (sha_extend 48 (rev block)))))"

definition sha256_words :: "string \<Rightarrow> 32 word list" where
  "sha256_words s =
     (let bytes = sha_pad s
      in foldl sha_block sha_init (sha_blocks (length bytes div 64) (words_of_bytes bytes)))"

definition word_bytes :: "32 word \<Rightarrow> nat list" where
  "word_bytes w = map (\<lambda>i. unat w div 2 ^ (8 * i) mod 256) [3, 2, 1, 0]"

definition sha256_digest :: "string \<Rightarrow> string" where
  "sha256_digest s = concat (map (\<lambda>w. map char_of (word_bytes w)) (sha256_words s))"

definition hex_bytes :: "string \<Rightarrow> string" where
  "hex_bytes s = concat (map (\<lambda>c. let n = (of_char c :: nat) in [hex_digit (n div 16), hex_digit (n mod 16)]) s)"

definition sha256_hex :: "string \<Rightarrow> string" where
  "sha256_hex s = hex_bytes (sha256_digest s)"

definition hmac_sha256_hex :: "string \<Rightarrow> string \<Rightarrow> string" where
  "hmac_sha256_hex key msg =
     (let k = (if length key > 64 then sha256_digest key else key);
          block = map of_char k @ replicate (64 - length k) (0 :: 8 word);
          pad = (\<lambda>x. map (\<lambda>b. char_of (unat (b XOR x))) block)
      in hex_bytes (sha256_digest (pad 0x5c @ sha256_digest (pad 0x36 @ msg))))"

text \<open>Digests have a fixed length.\<close>

lemma sha_round_length [simp]: "length st = 8 \<Longrightarrow> length (sha_round st kw) = 8"
  by (induction st kw rule: sha_round.induct) (auto simp: Let_def)

lemma foldl_sha_round_length [simp]: "length st = 8 \<Longrightarrow> length (foldl sha_round st kws) = 8"
  by (induction kws arbitrary: st) auto

lemma foldl_sha_block_length [simp]: "length st = 8 \<Longrightarrow> length (foldl sha_block st bs) = 8"
  by (induction bs arbitrary: st) (auto simp: sha_block_def)

lemma sha256_digest_length: "length (sha256_digest s) = 32"
proof -
  have "length (sha256_words s) = 8"
    by (simp add: sha256_words_def Let_def) (simp add: sha_init_def)
  then show ?thesis
    by (simp add: sha256_digest_def length_concat comp_def word_bytes_def sum_list_replicate map_replicate_const)
qed

lemma hex_bytes_length: "length (hex_bytes s) = 2 * length s"
  by (induction s) (auto simp: hex_bytes_def Let_def)

lemma sha256_hex_length [simp]: "length (sha256_hex s) = 64"
  by (simp add: sha256_hex_def hex_bytes_length sha256_digest_length)

end
