(* ===== verification/Workshop_Repository.thy ===== *)
theory Workshop_Repository
  imports Workshop_Types Sha256
begin

text \<open>
  \<open>app/server/workshop/persistence/repository.py\<close>, first part: the helper functions, the
  conversion of rows to read models, and the operations on projects, experts, proposals, tasks,
  capability uses, artifacts and events. An operation is an effect on \<open>db\<close>: it returns a value or
  raises an exception, and an exception undoes its writes only inside \<open>in_transaction\<close>.
\<close>

section \<open>Constraint violations\<close>

definition known_constraints :: "string list" where
  "known_constraints =
     [''uk_workshop_projects_group_chat'', ''fk_workshop_projects_group_chat_user'',
      ''uk_workshop_room_members_project_expert'', ''uk_workshop_task_experts_task_expert'',
      ''uk_workshop_task_capability_uses_task_cap'', ''uk_workshop_artifacts_task_name'',
      ''uk_workshop_schedule_runs_schedule_trigger'']"

definition non_blank :: "string option \<Rightarrow> string option" where
  "non_blank v = (case v of None \<Rightarrow> None | Some s \<Rightarrow> if blank s then None else Some (strip s))"

fun constraint_name :: "exc_link list \<Rightarrow> string option" where
  "constraint_name [] = None"
| "constraint_name (l # ls) =
     (case non_blank (link_constraint_name l) of
        Some n \<Rightarrow> Some n
      | None \<Rightarrow>
          (case non_blank (link_constraint l) of
             Some n \<Rightarrow> Some n
           | None \<Rightarrow>
               (case find (\<lambda>n. is_substring (ascii_lower n) (ascii_lower (link_text l))) known_constraints of
                  Some n \<Rightarrow> Some n
                | None \<Rightarrow> constraint_name ls)))"

definition chain_text :: "exc_link list \<Rightarrow> string" where
  "chain_text ls = ascii_lower (exc_str (IntegrityError ls))"

definition is_unique_violation :: "exc_link list \<Rightarrow> bool" where
  "is_unique_violation ls \<longleftrightarrow>
     (\<exists>l \<in> set ls. link_type l = ''UniqueViolationError'')
     \<or> is_substring ''unique'' (chain_text ls) \<or> is_substring ''duplicate key'' (chain_text ls)"

definition is_foreign_key_violation :: "exc_link list \<Rightarrow> bool" where
  "is_foreign_key_violation ls \<longleftrightarrow>
     (\<exists>l \<in> set ls. link_type l = ''ForeignKeyViolationError'')
     \<or> is_substring ''foreign key'' (chain_text ls)
     \<or> is_substring ''violates foreign key'' (chain_text ls)"

definition map_project_create_integrity :: "exc_link list \<Rightarrow> exc" where
  "map_project_create_integrity ls =
     (let name = constraint_name ls; txt = chain_text ls;
          conflict = WorkshopProjectConflictError ''group chat already bound to a workshop project'';
          owner = WorkshopGroupChatOwnershipError ''group chat not found or not owned by user'' in
      if name = Some ''uk_workshop_projects_group_chat'' then conflict
      else if name = Some ''fk_workshop_projects_group_chat_user'' then owner
      else if is_unique_violation ls \<and> (is_substring ''uk_workshop_projects_group_chat'' txt
                \<or> is_substring ''group_chat_id'' txt) then conflict
      else if is_foreign_key_violation ls \<and> (is_substring ''fk_workshop_projects_group_chat_user'' txt
                \<or> is_substring ''chat_conversations'' txt \<or> is_substring ''group_chat'' txt) then owner
      else IntegrityError ls)"

text \<open>What the driver is documented to report: the name of the violated constraint, and the class of
  a unique violation.\<close>

definition driver_reports :: "(violation \<Rightarrow> exc_link list) \<Rightarrow> bool" where
  "driver_reports drv \<longleftrightarrow>
     (\<forall>n. constraint_name (drv (UniqueV n)) = Some n \<and> is_unique_violation (drv (UniqueV n))
        \<and> constraint_name (drv (ForeignKeyV n)) = Some n \<and> \<not> is_unique_violation (drv (ForeignKeyV n))
        \<and> constraint_name (drv (CheckV n)) = Some n \<and> \<not> is_unique_violation (drv (CheckV n)))"

section \<open>Columns and read models\<close>

text \<open>The characters of a text: a lead byte with its continuation bytes.\<close>

definition is_continuation :: "char \<Rightarrow> bool" where
  "is_continuation c \<longleftrightarrow> (let n = (of_char c :: nat) in 128 \<le> n \<and> n < 192)"

function utf8_chars :: "string \<Rightarrow> string list" where
  "utf8_chars [] = []"
| "utf8_chars (c # s) =
     (c # takeWhile is_continuation s) # utf8_chars (dropWhile is_continuation s)"
  by pat_completeness auto
termination
  by (relation "measure length") (auto simp: le_imp_less_Suc length_dropWhile_le)

text \<open>Iterating over a decoded JSON value.\<close>

definition not_iterable :: "string \<Rightarrow> json list res" where
  "not_iterable ty = Inl (TypeError (squote # ty @ [squote] @ '' object is not iterable''))"

fun py_iter :: "json \<Rightarrow> json list res" where
  "py_iter (JList xs) = Inr xs"
| "py_iter (JObj d) = Inr (map (\<lambda>kv. JStr (fst kv)) d)"
| "py_iter (JStr s) = Inr (map JStr (utf8_chars s))"
| "py_iter JNull = not_iterable ''NoneType''"
| "py_iter (JBool b) = not_iterable ''bool''"
| "py_iter (JInt i) = not_iterable ''int''"
| "py_iter (JFloat t) = not_iterable ''float''"

definition parse_capabilities :: "json \<Rightarrow> capability set res" where
  "parse_capabilities raw =
     bindR (py_iter raw) (\<lambda>items. bindR (mapR (\<lambda>v. capability_of (py_str v)) items) (\<lambda>cs. Inr (set cs)))"

definition dump_capabilities :: "capability set \<Rightarrow> json" where
  "dump_capabilities caps = JList (map JStr (sorted_list_of_set (capability_value ` caps)))"

definition parse_string_list :: "json \<Rightarrow> string \<Rightarrow> string list res" where
  "parse_string_list raw field =
     (case raw of JList xs \<Rightarrow> Inr (map py_str xs) | _ \<Rightarrow> Inl (WRE (field @ '' must be list'')))"

abbreviation json_strings :: "string list \<Rightarrow> json" where
  "json_strings ss \<equiv> JList (map JStr ss)"

definition parse_definition_payload ::
    "json \<Rightarrow> (workflow_node list \<times> workflow_edge list \<times> string list option \<times> string) res" where
  "parse_definition_payload raw =
     (case parse_definition_graph raw of Inr r \<Rightarrow> Inr r | Inl e \<Rightarrow> Inl (WRE (exc_str e)))"

definition goals_from_nodes :: "workflow_node list \<Rightarrow> string list" where
  "goals_from_nodes nodes = map wn_title nodes"

fun add_required :: "node_output list \<Rightarrow> string list \<Rightarrow> string list" where
  "add_required [] ordered = ordered"
| "add_required (x # xs) ordered =
     add_required xs (if \<not> no_required x \<or> no_name x \<in> set ordered then ordered
                      else ordered @ [no_name x])"

definition aggregate_required_artifacts :: "workflow_node list \<Rightarrow> string list" where
  "aggregate_required_artifacts nodes = foldl (\<lambda>acc n. add_required (wn_outputs n) acc) [] nodes"

definition artifact_row_fields ::
    "artifact_submission \<Rightarrow> string \<Rightarrow> (string \<times> int option \<times> json) res" where
  "artifact_row_fields a aid =
     (if blank aid then Inl (WRE ''artifact_id required'')
      else if as_storage a = ST_DB then
        (case as_content a of
           None \<Rightarrow> Inl (WRE ''db artifact content required'')
         | Some c \<Rightarrow>
             if blank c then Inl (WRE ''db artifact content required'')
             else Inr (''db:'' @ strip aid,
                       Some (case as_size a of Some n \<Rightarrow> n | None \<Rightarrow> int (length c)),
                       JObj [(''content'', JStr c)]))
      else (case as_key a of
              None \<Rightarrow> Inl (WRE ''external artifact storage_key required'')
            | Some k \<Rightarrow>
                if blank k then Inl (WRE ''external artifact storage_key required'')
                else (case as_size a of
                        None \<Rightarrow> Inl (WRE ''external artifact size_bytes required'')
                      | Some n \<Rightarrow>
                          if n \<le> 0 then Inl (WRE ''external artifact size_bytes required'')
                          else if as_content a \<noteq> None
                          then Inl (WRE ''external artifact must not carry inline content'')
                          else Inr (strip k, Some n, JObj []))))"

definition build_project_brief :: "string list option \<Rightarrow> json" where
  "build_project_brief keys =
     (case keys of None \<Rightarrow> JObj [] | Some [] \<Rightarrow> JObj []
      | Some ks \<Rightarrow> JObj [(''bootstrap_keys'', json_strings ks)])"

definition to_project :: "project_row \<Rightarrow> workshop_project" where
  "to_project r = \<lparr>p_id = pr_id r, p_user = pr_user r, p_name = pr_name r,
                   p_group_chat = pr_group_chat r, p_host_role = ROLE_HOST\<rparr>"

definition to_expert :: "expert_row \<Rightarrow> roster_expert" where
  "to_expert r = \<lparr>x_id = ex_id r, x_project = ex_project r, x_name = ex_name r, x_kind = ex_kind r,
                  x_preset = ex_preset r, x_source_preset = ex_source_preset r\<rparr>"

definition to_task :: "task_row \<Rightarrow> workshop_task res" where
  "to_task r =
     bindR (parse_string_list (tk_goals r) ''task goals'') (\<lambda>goals.
     bindR (parse_string_list (tk_required r) ''task required_artifacts'') (\<lambda>required.
     bindR (parse_capabilities (tk_ext_auth r)) (\<lambda>ext.
     Inr \<lparr>t_id = tk_id r, t_project = tk_project r, t_title = tk_title r, t_goals = goals,
          t_required = required, t_status = tk_status r, t_schedule = tk_schedule r,
          t_sched_auth = tk_sched_auth r, t_ext_auth = ext, t_revision = tk_revision r\<rparr>)))"

definition to_workflow :: "workflow_row \<Rightarrow> workshop_workflow res" where
  "to_workflow r =
     bindR (parse_definition_payload (wf_steps r)) (\<lambda>(nodes, edges, entry, model_key).
     Inr \<lparr>w_id = wf_id r, w_project = wf_project r, w_name = wf_name r, w_nodes = nodes,
          w_edges = edges, w_status = wf_status r, w_source = wf_source r,
          w_revision = wf_revision r, w_model_key = model_key, w_entry = entry\<rparr>)"

definition to_workflow_run :: "workflow_run_row \<Rightarrow> workshop_run" where
  "to_workflow_run r =
     \<lparr>r_id = wr_id r, r_project = wr_project r, r_workflow = wr_workflow r,
      r_workflow_revision = wr_workflow_revision r, r_schedule = wr_schedule r,
      r_trigger = wr_trigger r, r_status = wr_status r, r_current_node = wr_current_node r,
      r_error = wr_error r, r_started = wr_started r, r_finished = wr_finished r,
      r_created = wr_created r, r_revision = wr_revision r\<rparr>"

definition to_schedule :: "schedule_row \<Rightarrow> workshop_schedule res" where
  "to_schedule r =
     bindR (parse_capabilities (sc_caps r)) (\<lambda>caps.
     Inr \<lparr>s_id = sc_id r, s_project = sc_project r, s_workflow = sc_workflow r, s_cron = sc_cron r,
          s_timezone = sc_timezone r, s_enabled = sc_enabled r,
          s_authorized_at = sc_authorized_at r, s_caps = caps, s_next_run = sc_next_run r\<rparr>)"

definition to_event :: "event_row \<Rightarrow> workshop_event res" where
  "to_event r =
     bindR (parse_event_payload (ev_kind r) (ev_payload r)) (\<lambda>p.
     Inr \<lparr>e_key = ev_key r, e_project = ev_project r, e_task = ev_task r, e_kind = ev_kind r,
          e_payload = p, e_created = ev_created r\<rparr>)"

definition to_task_proposal :: "task_proposal_row \<Rightarrow> create_task_proposal res" where
  "to_task_proposal r =
     bindR (parse_string_list (tp_goals r) ''task proposal goals'') (\<lambda>goals.
     bindR (parse_string_list (tp_required r) ''task proposal required_artifacts'') (\<lambda>required.
     Inr \<lparr>q_id = tp_id r, q_project = tp_project r, q_title = tp_title r, q_goals = goals,
          q_required = required, q_status = tp_status r\<rparr>))"

definition to_schedule_run :: "schedule_run_row \<Rightarrow> schedule_run" where
  "to_schedule_run r = \<lparr>u_id = sr_id r, u_project = sr_project r, u_schedule = sr_schedule r,
                        u_trigger_key = sr_trigger_key r, u_task = sr_task r\<rparr>"

definition artifact_content_from_metadata :: "storage_type \<Rightarrow> json \<Rightarrow> string option res" where
  "artifact_content_from_metadata st meta =
     (if st \<noteq> ST_DB then Inr None
      else (case meta of
              JObj d \<Rightarrow>
                (case jget d ''content'' of
                   JNull \<Rightarrow> Inr None
                 | JStr s \<Rightarrow> Inr (Some s)
                 | _ \<Rightarrow> Inl (WRE ''artifact metadata content must be string''))
            | _ \<Rightarrow> Inr None))"

definition to_artifact :: "artifact_row \<Rightarrow> artifact_record res" where
  "to_artifact r =
     bindR (artifact_content_from_metadata (ar_storage r) (ar_metadata r)) (\<lambda>content.
     Inr \<lparr>a_id = ar_id r, a_project = ar_project r, a_task = ar_task r, a_name = ar_name r,
          a_storage = ar_storage r, a_key = ar_key r, a_size = ar_size r, a_content = content,
          a_created = ar_created r, a_updated = ar_updated r\<rparr>)"

text \<open>\<open>_preset_expert_id\<close>: at most 64 characters, with a digest suffix for long keys.\<close>

definition preset_expert_id :: "string \<Rightarrow> string \<Rightarrow> string" where
  "preset_expert_id project key =
     (let candidate = project @ ''_'' @ key in
      if length (utf8_chars candidate) \<le> 64 then candidate
      else (let sfx = take 16 (sha256_hex key);
                prfx = concat (take (64 - 1 - length sfx) (utf8_chars project))
            in prfx @ ''_'' @ sfx))"

section \<open>Projects\<close>

text \<open>\<open>first()\<close> of a query that selects at most one row, or raises when there is none.\<close>

definition first_or :: "'r option \<Rightarrow> exc \<Rightarrow> (db, 'r) eff" where
  "first_or r e = (case r of None \<Rightarrow> raise e | Some x \<Rightarrow> ret x)"

record preset_expert =
  pe_key :: string
  pe_name :: string
  pe_kind :: expert_kind

definition get_project :: "string \<Rightarrow> int \<Rightarrow> (db, workshop_project option) eff" where
  "get_project pid uid =
     gets (\<lambda>db. map_option to_project (find (\<lambda>r. pr_id r = pid \<and> pr_user r = uid) (projects db)))"

definition require_project :: "string \<Rightarrow> int \<Rightarrow> (db, workshop_project) eff" where
  "require_project pid uid =
     bindE (get_project pid uid) (\<lambda>p. first_or p (WorkshopProjectNotFoundError pid))"

definition get_project_owner_user_id :: "string \<Rightarrow> (db, int) eff" where
  "get_project_owner_user_id pid =
     bindE (gets (\<lambda>db. find (\<lambda>r. pr_id r = pid) (projects db))) (\<lambda>r.
     bindE (first_or r (WorkshopProjectNotFoundError pid)) (\<lambda>r. ret (pr_user r)))"

definition get_project_by_group_chat :: "int \<Rightarrow> int \<Rightarrow> (db, workshop_project option) eff" where
  "get_project_by_group_chat uid chat =
     gets (\<lambda>db. map_option to_project
                  (find (\<lambda>r. pr_user r = uid \<and> pr_group_chat r = chat) (projects db)))"

definition list_projects_for_user :: "int \<Rightarrow> (db, workshop_project list) eff" where
  "list_projects_for_user uid =
     gets (\<lambda>db. map to_project (rev (sort_key (\<lambda>r. (pr_updated r, pr_id r))
                  (filter (\<lambda>r. pr_user r = uid) (projects db)))))"

definition insert_preset_experts :: "string \<Rightarrow> preset_expert list \<Rightarrow> (db, unit) eff" where
  "insert_preset_experts pid presets =
     forE presets (\<lambda>p. bindE (insert_expert (preset_expert_id pid (pe_key p)) pid (pe_name p)
                               (pe_kind p) (Some (pe_key p)) None) (\<lambda>_. ret ()))"

definition map_integrity :: "(exc_link list \<Rightarrow> exc) \<Rightarrow> exc \<Rightarrow> (db, 'a) eff" where
  "map_integrity f e = raise (case e of IntegrityError ls \<Rightarrow> f ls | _ \<Rightarrow> e)"

definition create_project_with_presets :: "string \<Rightarrow> int \<Rightarrow> string \<Rightarrow> int \<Rightarrow> preset_expert list option
    \<Rightarrow> string list option \<Rightarrow> (db, workshop_project) eff" where
  "create_project_with_presets pid uid name chat presets keys =
     bindE (catchE (in_transaction (
         bindE (insert_project pid uid name chat (build_project_brief keys)) (\<lambda>project.
         bindE (insert_preset_experts pid (case presets of None \<Rightarrow> [] | Some ps \<Rightarrow> ps)) (\<lambda>_.
         ret project))))
       (map_integrity map_project_create_integrity)) (\<lambda>project.
     ret (to_project project))"

definition create_project_with_presets_and_task_proposal :: "string \<Rightarrow> int \<Rightarrow> string \<Rightarrow> int \<Rightarrow> string
    \<Rightarrow> string \<Rightarrow> string list \<Rightarrow> string list \<Rightarrow> preset_expert list option \<Rightarrow> string list option
    \<Rightarrow> (db, workshop_project \<times> create_task_proposal) eff" where
  "create_project_with_presets_and_task_proposal pid uid name chat qid qtitle qgoals qrequired presets keys =
     bindE (catchE (in_transaction (
         bindE (insert_project pid uid name chat (build_project_brief keys)) (\<lambda>project.
         bindE (insert_preset_experts pid (case presets of None \<Rightarrow> [] | Some ps \<Rightarrow> ps)) (\<lambda>_.
         bindE (insert_task_proposal qid pid qtitle (json_strings qgoals) (json_strings qrequired)
                  PS_PENDING) (\<lambda>proposal.
         ret (project, proposal))))))
       (map_integrity map_project_create_integrity)) (\<lambda>(project, proposal).
     bindE (liftR (to_task_proposal proposal)) (\<lambda>q. ret (to_project project, q)))"

definition get_project_brief :: "string \<Rightarrow> int \<Rightarrow> (db, json dict) eff" where
  "get_project_brief pid uid =
     bindE (gets (\<lambda>db. find (\<lambda>r. pr_id r = pid \<and> pr_user r = uid) (projects db))) (\<lambda>r.
     bindE (first_or r (WorkshopProjectNotFoundError pid)) (\<lambda>r.
     ret (case pr_brief r of JObj d \<Rightarrow> d | _ \<Rightarrow> [])))"

definition update_project_brief :: "string \<Rightarrow> int \<Rightarrow> json dict \<Rightarrow> (db, unit) eff" where
  "update_project_brief pid uid brief =
     bindE (update_projects (\<lambda>r. pr_id r = pid \<and> pr_user r = uid) (\<lambda>r. r\<lparr>pr_brief := JObj brief\<rparr>)) (\<lambda>n.
     ensure (n = 1) (WorkshopProjectNotFoundError pid))"

section \<open>Experts\<close>

definition list_roster :: "string \<Rightarrow> int \<Rightarrow> (db, roster_expert list) eff" where
  "list_roster pid uid =
     bindE (require_project pid uid) (\<lambda>_.
     gets (\<lambda>db. map to_expert (sort_key (\<lambda>r. (ex_created r, ex_id r))
                  (filter (\<lambda>r. ex_project r = pid) (experts db)))))"

definition get_expert :: "string \<Rightarrow> int \<Rightarrow> string \<Rightarrow> (db, roster_expert) eff" where
  "get_expert pid uid eid =
     bindE (require_project pid uid) (\<lambda>_.
     bindE (gets (\<lambda>db. find (\<lambda>r. ex_id r = eid \<and> ex_project r = pid) (experts db))) (\<lambda>r.
     bindE (first_or r (WorkshopExpertNotFoundError eid)) (\<lambda>r. ret (to_expert r))))"

definition add_custom_expert :: "string \<Rightarrow> int \<Rightarrow> string \<Rightarrow> string \<Rightarrow> expert_kind \<Rightarrow> string option
    \<Rightarrow> (db, roster_expert) eff" where
  "add_custom_expert pid uid eid name kind source =
     bindE (require_project pid uid) (\<lambda>_.
     bindE (insert_expert eid pid name kind None source) (\<lambda>r. ret (to_expert r)))"

text \<open>The fallback read after a lost race raises \<open>DoesNotExist\<close> when the row is of another
  project.\<close>

definition add_preset_expert :: "string \<Rightarrow> int \<Rightarrow> preset_expert \<Rightarrow> (db, roster_expert) eff" where
  "add_preset_expert pid uid p =
     bindE (require_project pid uid) (\<lambda>_.
     let eid = preset_expert_id pid (pe_key p); mine = (\<lambda>r. ex_id r = eid \<and> ex_project r = pid) in
     bindE (gets (\<lambda>db. find mine (experts db))) (\<lambda>existing.
     case existing of
       Some r \<Rightarrow> ret (to_expert r)
     | None \<Rightarrow>
         bindE (catchE (insert_expert eid pid (pe_name p) (pe_kind p) (Some (pe_key p)) None)
           (\<lambda>e. case e of
                  IntegrityError ls \<Rightarrow>
                    bindE (gets (\<lambda>db. find mine (experts db))) (\<lambda>r.
                    first_or r (LookupError ''Object \"WorkshopExperts\" does not exist''))
                | _ \<Rightarrow> raise e)) (\<lambda>r.
         ret (to_expert r))))"

definition create_expert_proposal :: "string \<Rightarrow> string \<Rightarrow> int \<Rightarrow> string \<Rightarrow> expert_kind \<Rightarrow> string option
    \<Rightarrow> (db, string) eff" where
  "create_expert_proposal qid pid uid name kind source =
     bindE (require_project pid uid) (\<lambda>_.
     bindE (insert_expert_proposal qid pid name kind source PS_PENDING) (\<lambda>_. ret qid))"

definition pending_expert_proposal :: "string \<Rightarrow> string \<Rightarrow> expert_proposal_row \<Rightarrow> bool" where
  "pending_expert_proposal pid qid r \<longleftrightarrow> ep_id r = qid \<and> ep_project r = pid \<and> ep_status r = PS_PENDING"

definition confirm_expert_proposal :: "string \<Rightarrow> int \<Rightarrow> string \<Rightarrow> string \<Rightarrow> (db, roster_expert) eff" where
  "confirm_expert_proposal pid uid qid eid =
     bindE (require_project pid uid) (\<lambda>_.
     bindE (in_transaction (
       bindE (gets (\<lambda>db. find (pending_expert_proposal pid qid) (expert_proposals db))) (\<lambda>q.
       bindE (first_or q (WorkshopProposalNotFoundError qid)) (\<lambda>q.
       bindE (update_expert_proposals (pending_expert_proposal pid qid)
                (\<lambda>r. r\<lparr>ep_status := PS_CONFIRMED\<rparr>)) (\<lambda>n.
       bindE (ensure (n = 1) (WorkshopProposalNotFoundError qid)) (\<lambda>_.
       insert_expert eid pid (ep_name q) (ep_kind q) None (ep_source_preset q)))))))
       (\<lambda>r. ret (to_expert r)))"

definition decline_expert_proposal :: "string \<Rightarrow> int \<Rightarrow> string \<Rightarrow> (db, unit) eff" where
  "decline_expert_proposal pid uid qid =
     bindE (require_project pid uid) (\<lambda>_.
     bindE (update_expert_proposals (pending_expert_proposal pid qid)
              (\<lambda>r. r\<lparr>ep_status := PS_DECLINED\<rparr>)) (\<lambda>n.
     ensure (n = 1) (WorkshopProposalNotFoundError qid)))"

definition remove_expert :: "string \<Rightarrow> int \<Rightarrow> string \<Rightarrow> (db, unit) eff" where
  "remove_expert pid uid eid =
     bindE (get_expert pid uid eid) (\<lambda>_.
     in_transaction (
       bindE (modify (\<lambda>db. db\<lparr>task_experts :=
           filter (\<lambda>r. \<not> (te_project r = pid \<and> te_expert r = eid)) (task_experts db)\<rparr>)) (\<lambda>_.
       bindE (modify (\<lambda>db. db\<lparr>room_members :=
           filter (\<lambda>r. \<not> (rm_project r = pid \<and> rm_expert r = eid)) (room_members db)\<rparr>)) (\<lambda>_.
       bindE (delete_experts (\<lambda>r. ex_id r = eid \<and> ex_project r = pid)) (\<lambda>n.
       ensure (n = 1) (WorkshopExpertNotFoundError eid))))))"

text \<open>A unique violation of the named constraint counts as success.\<close>

definition ignoring_duplicate :: "string \<Rightarrow> (db, unit) eff \<Rightarrow> (db, unit) eff" where
  "ignoring_duplicate uk m =
     catchE m (\<lambda>e. case e of
                     IntegrityError ls \<Rightarrow> if constraint_name ls = Some uk then ret () else raise e
                   | _ \<Rightarrow> raise e)"

definition add_room_member :: "string \<Rightarrow> int \<Rightarrow> string \<Rightarrow> (db, unit) eff" where
  "add_room_member pid uid eid =
     bindE (get_expert pid uid eid) (\<lambda>_.
     ignoring_duplicate ''uk_workshop_room_members_project_expert'' (insert_room_member pid eid))"

definition list_room_members :: "string \<Rightarrow> int \<Rightarrow> (db, string set) eff" where
  "list_room_members pid uid =
     bindE (require_project pid uid) (\<lambda>_.
     gets (\<lambda>db. rm_expert ` {r \<in> set (room_members db). rm_project r = pid}))"

section \<open>Tasks\<close>

definition get_task :: "string \<Rightarrow> int \<Rightarrow> string \<Rightarrow> (db, workshop_task option) eff" where
  "get_task pid uid tid =
     bindE (require_project pid uid) (\<lambda>_.
     bindE (gets (\<lambda>db. find (\<lambda>r. tk_id r = tid \<and> tk_project r = pid) (tasks db))) (\<lambda>r.
     case r of None \<Rightarrow> ret None | Some r \<Rightarrow> bindE (liftR (to_task r)) (\<lambda>t. ret (Some t))))"

definition require_task :: "string \<Rightarrow> int \<Rightarrow> string \<Rightarrow> (db, workshop_task) eff" where
  "require_task pid uid tid =
     bindE (get_task pid uid tid) (\<lambda>t. first_or t (WorkshopTaskNotFoundError tid))"

definition assert_task_in_project :: "string \<Rightarrow> string \<Rightarrow> (db, unit) eff" where
  "assert_task_in_project pid tid =
     bindE (gets (\<lambda>db. \<exists>r \<in> set (tasks db). tk_id r = tid \<and> tk_project r = pid)) (\<lambda>ok.
     ensure ok (WorkshopOwnershipError tid))"

definition assign_task_expert :: "string \<Rightarrow> int \<Rightarrow> string \<Rightarrow> string \<Rightarrow> (db, unit) eff" where
  "assign_task_expert pid uid tid eid =
     bindE (get_expert pid uid eid) (\<lambda>_.
     bindE (require_task pid uid tid) (\<lambda>_.
     ignoring_duplicate ''uk_workshop_task_experts_task_expert'' (insert_task_expert pid tid eid)))"

definition unassign_task_expert :: "string \<Rightarrow> int \<Rightarrow> string \<Rightarrow> string \<Rightarrow> (db, unit) eff" where
  "unassign_task_expert pid uid tid eid =
     bindE (require_task pid uid tid) (\<lambda>_.
     modify (\<lambda>db. db\<lparr>task_experts :=
       filter (\<lambda>r. \<not> (te_project r = pid \<and> te_task r = tid \<and> te_expert r = eid)) (task_experts db)\<rparr>))"

definition list_task_experts :: "string \<Rightarrow> int \<Rightarrow> string \<Rightarrow> (db, string set) eff" where
  "list_task_experts pid uid tid =
     bindE (require_task pid uid tid) (\<lambda>_.
     gets (\<lambda>db. te_expert ` {r \<in> set (task_experts db). te_project r = pid \<and> te_task r = tid}))"

definition list_tasks_for_project :: "string \<Rightarrow> int \<Rightarrow> (db, workshop_task list) eff" where
  "list_tasks_for_project pid uid =
     bindE (require_project pid uid) (\<lambda>_.
     bindE (gets (\<lambda>db. sort_key (\<lambda>r. (tk_created r, tk_id r))
                        (filter (\<lambda>r. tk_project r = pid) (tasks db)))) (\<lambda>rows.
     liftR (mapR to_task rows)))"

definition list_tasks_by_statuses :: "string \<Rightarrow> int \<Rightarrow> task_status list \<Rightarrow> (db, workshop_task list) eff" where
  "list_tasks_by_statuses pid uid statuses =
     bindE (require_project pid uid) (\<lambda>_.
     bindE (gets (\<lambda>db. sort_key (\<lambda>r. (tk_created r, tk_id r))
                        (filter (\<lambda>r. tk_project r = pid \<and> tk_status r \<in> set statuses) (tasks db)))) (\<lambda>rows.
     liftR (mapR to_task rows)))"

text \<open>Assignments grouped by task, in the order of the task ids.\<close>

definition group_assignments :: "task_expert_row list \<Rightarrow> string list dict" where
  "group_assignments rows =
     fold (\<lambda>r d. dict_set d (te_task r)
             ((case dict_get d (te_task r) of None \<Rightarrow> [] | Some es \<Rightarrow> es) @ [te_expert r])) rows []"

definition list_task_assignments_for_project :: "string \<Rightarrow> int \<Rightarrow> (db, string list dict) eff" where
  "list_task_assignments_for_project pid uid =
     bindE (require_project pid uid) (\<lambda>_.
     gets (\<lambda>db. sort_key (\<lambda>kv. kv) (group_assignments
             (sort_key (\<lambda>r. (te_task r, te_expert r))
               (filter (\<lambda>r. te_project r = pid) (task_experts db))))))"

definition create_task_proposal :: "string \<Rightarrow> string \<Rightarrow> int \<Rightarrow> string \<Rightarrow> string list \<Rightarrow> string list
    \<Rightarrow> (db, create_task_proposal) eff" where
  "create_task_proposal qid pid uid title goals required =
     bindE (require_project pid uid) (\<lambda>_.
     bindE (insert_task_proposal qid pid title (json_strings goals) (json_strings required) PS_PENDING) (\<lambda>r.
     liftR (to_task_proposal r)))"

definition get_task_proposal :: "string \<Rightarrow> int \<Rightarrow> string \<Rightarrow> (db, create_task_proposal) eff" where
  "get_task_proposal pid uid qid =
     bindE (require_project pid uid) (\<lambda>_.
     bindE (gets (\<lambda>db. find (\<lambda>r. tp_id r = qid \<and> tp_project r = pid) (task_proposals db))) (\<lambda>r.
     bindE (first_or r (WorkshopProposalNotFoundError qid)) (\<lambda>r. liftR (to_task_proposal r))))"

definition list_pending_task_proposals :: "string \<Rightarrow> int \<Rightarrow> (db, create_task_proposal list) eff" where
  "list_pending_task_proposals pid uid =
     bindE (require_project pid uid) (\<lambda>_.
     bindE (gets (\<lambda>db. sort_key (\<lambda>r. (tp_created r, tp_id r))
              (filter (\<lambda>r. tp_project r = pid \<and> tp_status r = PS_PENDING) (task_proposals db)))) (\<lambda>rows.
     liftR (mapR to_task_proposal rows)))"

definition pending_task_proposal :: "string \<Rightarrow> string \<Rightarrow> task_proposal_row \<Rightarrow> bool" where
  "pending_task_proposal pid qid r \<longleftrightarrow> tp_id r = qid \<and> tp_project r = pid \<and> tp_status r = PS_PENDING"

definition json_list_or :: "json \<Rightarrow> string \<Rightarrow> (db, json) eff" where
  "json_list_or raw msg = (case raw of JList xs \<Rightarrow> ret (JList xs) | _ \<Rightarrow> raise (WRE msg))"

definition confirm_task_proposal :: "string \<Rightarrow> int \<Rightarrow> string \<Rightarrow> string \<Rightarrow> (db, workshop_task) eff" where
  "confirm_task_proposal pid uid qid tid =
     bindE (require_project pid uid) (\<lambda>_.
     bindE (in_transaction (
       bindE (gets (\<lambda>db. find (pending_task_proposal pid qid) (task_proposals db))) (\<lambda>q.
       bindE (first_or q (WorkshopProposalNotFoundError qid)) (\<lambda>q.
       bindE (update_task_proposals (pending_task_proposal pid qid)
                (\<lambda>r. r\<lparr>tp_status := PS_CONFIRMED\<rparr>)) (\<lambda>n.
       bindE (ensure (n = 1) (WorkshopProposalNotFoundError qid)) (\<lambda>_.
       bindE (json_list_or (tp_goals q) ''task proposal goals must be list'') (\<lambda>goals.
       bindE (json_list_or (tp_required q) ''task proposal required_artifacts must be list'') (\<lambda>required.
       insert_task tid pid (tp_title q) goals required TS_ALIGNING None False (JList []) 1))))))))
       (\<lambda>r. liftR (to_task r)))"

definition decline_task_proposal :: "string \<Rightarrow> int \<Rightarrow> string \<Rightarrow> (db, unit) eff" where
  "decline_task_proposal pid uid qid =
     bindE (require_project pid uid) (\<lambda>_.
     bindE (update_task_proposals (pending_task_proposal pid qid)
              (\<lambda>r. r\<lparr>tp_status := PS_DECLINED\<rparr>)) (\<lambda>n.
     ensure (n = 1) (WorkshopProposalNotFoundError qid)))"

text \<open>Compare-and-set updates: ownership, revision and old status select the row.\<close>

definition task_at :: "string \<Rightarrow> string \<Rightarrow> int \<Rightarrow> task_status \<Rightarrow> task_row \<Rightarrow> bool" where
  "task_at pid tid rvn st r \<longleftrightarrow>
     tk_id r = tid \<and> tk_project r = pid \<and> tk_revision r = rvn \<and> tk_status r = st"

definition update_task_status_cas :: "string \<Rightarrow> int \<Rightarrow> string \<Rightarrow> int \<Rightarrow> task_status \<Rightarrow> task_status
    \<Rightarrow> (db, workshop_task) eff" where
  "update_task_status_cas pid uid tid rvn expected target =
     bindE (require_project pid uid) (\<lambda>_.
     bindE (update_tasks (task_at pid tid rvn expected)
              (\<lambda>r. r\<lparr>tk_status := target, tk_revision := rvn + 1\<rparr>)) (\<lambda>n.
     bindE (ensure (n = 1) (WorkshopTaskConflictError tid)) (\<lambda>_.
     require_task pid uid tid)))"

definition update_task_external_auth_cas :: "string \<Rightarrow> int \<Rightarrow> string \<Rightarrow> int \<Rightarrow> task_status
    \<Rightarrow> capability set \<Rightarrow> (db, workshop_task) eff" where
  "update_task_external_auth_cas pid uid tid rvn expected ext =
     bindE (require_project pid uid) (\<lambda>_.
     bindE (update_tasks (task_at pid tid rvn expected)
              (\<lambda>r. r\<lparr>tk_ext_auth := dump_capabilities ext, tk_revision := rvn + 1\<rparr>)) (\<lambda>n.
     bindE (ensure (n = 1) (WorkshopTaskConflictError tid)) (\<lambda>_.
     require_task pid uid tid)))"

section \<open>Capability uses\<close>

definition record_capability_use :: "string \<Rightarrow> int \<Rightarrow> string \<Rightarrow> capability \<Rightarrow> (db, unit) eff" where
  "record_capability_use pid uid tid cap =
     bindE (require_task pid uid tid) (\<lambda>_.
     ignoring_duplicate ''uk_workshop_task_capability_uses_task_cap''
       (insert_capability_use pid tid (capability_value cap)))"

definition list_capability_uses :: "string \<Rightarrow> int \<Rightarrow> string \<Rightarrow> (db, capability set) eff" where
  "list_capability_uses pid uid tid =
     bindE (require_task pid uid tid) (\<lambda>_.
     bindE (gets (\<lambda>db. filter (\<lambda>r. cu_project r = pid \<and> cu_task r = tid) (capability_uses db))) (\<lambda>rows.
     bindE (liftR (mapR (\<lambda>r. capability_of (cu_capability r)) rows)) (\<lambda>cs. ret (set cs))))"

section \<open>Artifacts and events\<close>

definition list_artifacts_for_project :: "string \<Rightarrow> int \<Rightarrow> string option \<Rightarrow> (db, artifact_record list) eff" where
  "list_artifacts_for_project pid uid tid =
     bindE (require_project pid uid) (\<lambda>_.
     bindE (case tid of None \<Rightarrow> ret () | Some t \<Rightarrow> assert_task_in_project pid t) (\<lambda>_.
     bindE (gets (\<lambda>db. sort_key (\<lambda>r. (ar_created r, ar_id r))
              (filter (\<lambda>r. ar_project r = pid \<and> (tid = None \<or> ar_task r = tid)) (artifacts db)))) (\<lambda>rows.
     liftR (mapR to_artifact rows))))"

definition insert_artifacts :: "string \<Rightarrow> string \<Rightarrow> artifact_submission list \<Rightarrow> (db, unit) eff" where
  "insert_artifacts pid tid arts = forE arts (\<lambda>a.
     let name = strip (as_name a) in
     bindE (gets (\<lambda>db. find (\<lambda>r. ar_task r = Some tid \<and> ar_name r = name) (artifacts db))) (\<lambda>existing.
     case existing of
       Some r \<Rightarrow>
         bindE (liftR (artifact_row_fields a (ar_id r))) (\<lambda>(key, sz, meta).
         bindE (update_artifacts (\<lambda>x. ar_id x = ar_id r)
                  (\<lambda>x. x\<lparr>ar_storage := as_storage a, ar_key := key, ar_size := sz, ar_metadata := meta\<rparr>)) (\<lambda>_.
         ret ()))
     | None \<Rightarrow>
         bindE (new_id ''art'') (\<lambda>aid.
         bindE (liftR (artifact_row_fields a aid)) (\<lambda>(key, sz, meta).
         catchE (bindE (insert_artifact aid pid (Some tid) name (as_storage a) key sz meta) (\<lambda>_. ret ()))
           (\<lambda>e. case e of
                  IntegrityError ls \<Rightarrow>
                    if constraint_name ls = Some ''uk_workshop_artifacts_task_name'' \<or> is_unique_violation ls
                    then raise (WorkshopArtifactConflictError name) else raise e
                | _ \<Rightarrow> raise e)))))"

definition create_artifact :: "string \<Rightarrow> string \<Rightarrow> int \<Rightarrow> string option \<Rightarrow> artifact_submission
    \<Rightarrow> (db, string) eff" where
  "create_artifact aid pid uid tid a =
     bindE (require_project pid uid) (\<lambda>_.
     bindE (case tid of None \<Rightarrow> ret () | Some t \<Rightarrow> assert_task_in_project pid t) (\<lambda>_.
     bindE (liftR (artifact_row_fields a aid)) (\<lambda>(key, sz, meta).
     bindE (catchE (insert_artifact aid pid tid (strip (as_name a)) (as_storage a) key sz meta)
              (map_integrity (\<lambda>_. WorkshopArtifactConflictError (strip (as_name a))))) (\<lambda>_.
     ret aid))))"

definition append_event :: "string \<Rightarrow> string \<Rightarrow> int \<Rightarrow> event_kind \<Rightarrow> event_payload \<Rightarrow> string option
    \<Rightarrow> (db, workshop_event) eff" where
  "append_event key pid uid kind payload tid =
     bindE (require_project pid uid) (\<lambda>_.
     bindE (case tid of None \<Rightarrow> ret () | Some t \<Rightarrow> assert_task_in_project pid t) (\<lambda>_.
     bindE (liftR (dump_event_payload kind payload)) (\<lambda>j.
     bindE (insert_event key pid tid kind j) (\<lambda>r. liftR (to_event r)))))"

definition list_events :: "string \<Rightarrow> int \<Rightarrow> (db, workshop_event list) eff" where
  "list_events pid uid =
     bindE (require_project pid uid) (\<lambda>_.
     bindE (gets (\<lambda>db. sort_key ev_created (filter (\<lambda>r. ev_project r = pid) (events db)))) (\<lambda>rows.
     liftR (mapR to_event rows)))"

section \<open>Completion of tasks\<close>

definition complete_weak_accept :: "string \<Rightarrow> int \<Rightarrow> string \<Rightarrow> int \<Rightarrow> artifact_submission list
    \<Rightarrow> (db, workshop_task) eff" where
  "complete_weak_accept pid uid tid rvn arts =
     bindE (require_project pid uid) (\<lambda>_.
     in_transaction (
       bindE (update_task_status_cas pid uid tid rvn TS_REVIEWING TS_DONE) (\<lambda>task.
       bindE (insert_artifacts pid tid arts) (\<lambda>_. ret task))))"

definition summary_message :: "string \<Rightarrow> string" where
  "summary_message tid = map char_of [228, 187, 187, 229, 138, 161, 32 :: nat] @ tid @ map char_of [32, 229, 174, 140, 230, 136, 144, 230, 145, 152, 232, 166, 129 :: nat]"

definition blocked_message :: "string \<Rightarrow> string" where
  "blocked_message tid = map char_of [228, 187, 187, 229, 138, 161, 32 :: nat] @ tid @ map char_of [32, 229, 190, 133, 229, 164, 132, 231, 144, 134 :: nat]"

definition complete_scheduled_success :: "string \<Rightarrow> int \<Rightarrow> string \<Rightarrow> int \<Rightarrow> artifact_submission list
    \<Rightarrow> string \<Rightarrow> string \<Rightarrow> (db, workshop_task \<times> workshop_event \<times> workshop_event) eff" where
  "complete_scheduled_success pid uid tid rvn arts summary_key published_key =
     bindE (require_project pid uid) (\<lambda>_.
     bindE (in_transaction (
       bindE (update_task_status_cas pid uid tid rvn TS_REVIEWING TS_DONE) (\<lambda>task.
       bindE (insert_artifacts pid tid arts) (\<lambda>_.
       bindE (liftR (dump_event_payload EV_SCHEDULE_SUMMARY (ScheduleSummary tid (summary_message tid)))) (\<lambda>j1.
       bindE (insert_event summary_key pid (Some tid) EV_SCHEDULE_SUMMARY j1) (\<lambda>r1.
       bindE (liftR (dump_event_payload EV_ARTIFACTS_PUBLISHED
                (ArtifactsPublished tid (map (\<lambda>a. strip (as_name a)) arts)))) (\<lambda>j2.
       bindE (insert_event published_key pid (Some tid) EV_ARTIFACTS_PUBLISHED j2) (\<lambda>r2.
       ret (task, r1, r2)))))))))
       (\<lambda>(task, r1, r2).
     bindE (liftR (to_event r1)) (\<lambda>e1. bindE (liftR (to_event r2)) (\<lambda>e2. ret (task, e1, e2)))))"

definition complete_scheduled_blocked :: "string \<Rightarrow> int \<Rightarrow> string \<Rightarrow> int \<Rightarrow> string list \<Rightarrow> string
    \<Rightarrow> (db, workshop_task \<times> workshop_event) eff" where
  "complete_scheduled_blocked pid uid tid rvn reasons key =
     bindE (require_project pid uid) (\<lambda>_.
     bindE (in_transaction (
       bindE (update_task_status_cas pid uid tid rvn TS_REVIEWING TS_BLOCKED) (\<lambda>task.
       bindE (liftR (dump_event_payload EV_SCHEDULE_BLOCKED
                (ScheduleBlocked tid (blocked_message tid) reasons))) (\<lambda>j.
       bindE (insert_event key pid (Some tid) EV_SCHEDULE_BLOCKED j) (\<lambda>r. ret (task, r))))))
       (\<lambda>(task, r). bindE (liftR (to_event r)) (\<lambda>e. ret (task, e))))"

end
