(* ===== verification/Cron_Next_Fire.thy ===== *)
theory Cron_Next_Fire
  imports Prelude
begin

text \<open>
  \<open>app/server/workshop/domain/cron_next_fire.py\<close>. The time zone database and APScheduler's
  \<open>CronTrigger\<close> are parameters (\<open>cron_env\<close>); instants are microseconds since the epoch. What
  the schedules rely on is \<open>cron_advances\<close>: the next fire time after a previous one is later.
\<close>

record cron_env =
  ce_zone :: "string \<Rightarrow> unit res"
  ce_crontab :: "string \<Rightarrow> string \<Rightarrow> bool"
  ce_next_fire :: "string \<Rightarrow> string \<Rightarrow> int option \<Rightarrow> int \<Rightarrow> int option"

definition cron_advances :: "cron_env \<Rightarrow> bool" where
  "cron_advances env \<longleftrightarrow>
     (\<forall>expr tz p n. ce_next_fire env expr tz (Some p) p = Some n \<longrightarrow> p < n)"

definition require_aware :: "datetime \<Rightarrow> string \<Rightarrow> int res" where
  "require_aware m field =
     (case m of Aware t \<Rightarrow> Inr t | Naive _ \<Rightarrow> Inl (CronNextFireError (field @ '' must be timezone-aware'')))"

text \<open>\<open>ZoneInfoNotFoundError\<close> is a \<open>KeyError\<close>.\<close>

definition parse_iana_timezone :: "cron_env \<Rightarrow> string \<Rightarrow> string res" where
  "parse_iana_timezone env tz =
     (let name = strip tz in
      if name = [] then Inl (InvalidTimezoneError ''timezone required'')
      else (case ce_zone env name of
              Inr _ \<Rightarrow> Inr name
            | Inl (KeyError _) \<Rightarrow> Inl (InvalidTimezoneError (''unknown IANA timezone: '' @ name))
            | Inl e \<Rightarrow> Inl e))"

text \<open>\<open>str.split()\<close>: the maximal runs without white space.\<close>

function py_split :: "string \<Rightarrow> string \<Rightarrow> string list" where
  "py_split cur s =
     (let out = (if cur = [] then [] else [cur]) in
      if s = [] then out
      else (case find (\<lambda>w. w \<noteq> [] \<and> prefix w s) py_whitespace of
              Some w \<Rightarrow> out @ py_split [] (drop (length w) s)
            | None \<Rightarrow> py_split (cur @ [hd s]) (tl s)))"
  by pat_completeness auto
termination
  by (relation "measure (\<lambda>(cur, s). length s)") (auto simp: find_Some_iff prefix_def)

declare py_split.simps [simp del]

lemma py_split_Nil [simp]: "py_split cur [] = (if cur = [] then [] else [cur])"
  by (simp add: py_split.simps)

lemma py_split_plain: "plain_char c \<Longrightarrow> py_split cur (c # s) = py_split (cur @ [c]) s"
proof -
  assume c: "plain_char c"
  have "\<not> prefix w (c # s)" if "w \<in> set py_whitespace" for w
    using whitespace_not_plain [OF that] c by (cases w) auto
  then have "find (\<lambda>w. w \<noteq> [] \<and> prefix w (c # s)) py_whitespace = None" by (auto simp: find_None_iff)
  then show ?thesis by (subst py_split.simps) simp
qed

lemma py_split_space: "py_split cur (CHR '' '' # s) = (if cur = [] then [] else [cur]) @ py_split [] s"
proof -
  have "find (\<lambda>w. w \<noteq> [] \<and> prefix w (CHR '' '' # s)) py_whitespace = Some '' ''"
    by (simp add: py_whitespace_def ascii_ws_def char_of_def bit_simps)
  then show ?thesis by (subst py_split.simps) simp
qed

definition parse_five_field_cron :: "cron_env \<Rightarrow> string \<Rightarrow> string \<Rightarrow> string res" where
  "parse_five_field_cron env cron tz =
     (let expr = strip cron in
      if expr = [] then Inl (InvalidCronExpressionError ''cron required'')
      else (let fields = py_split [] expr in
            if length fields \<noteq> 5
            then Inl (InvalidCronExpressionError
                        (''cron must have exactly 5 fields; got '' @ nat_str (length fields)))
            else if ce_crontab env expr tz then Inr expr
            else Inl (InvalidCronExpressionError (''invalid cron: '' @ expr))))"

definition compute_next_run_at :: "cron_env \<Rightarrow> string \<Rightarrow> string \<Rightarrow> datetime \<Rightarrow> datetime option \<Rightarrow> int res" where
  "compute_next_run_at env cron tz after previous =
     bindR (require_aware after ''after'') (\<lambda>a.
     bindR (case previous of None \<Rightarrow> Inr None
            | Some m \<Rightarrow> bindR (require_aware m ''previous_fire_time'') (\<lambda>p. Inr (Some p))) (\<lambda>p.
     bindR (parse_iana_timezone env tz) (\<lambda>zone.
     bindR (parse_five_field_cron env cron zone) (\<lambda>expr.
     case ce_next_fire env expr zone p a of
       None \<Rightarrow> Inl (CronNextFireError ''cron has no next fire time'')
     | Some n \<Rightarrow> Inr n))))"

section \<open>Trigger keys\<close>

text \<open>The proleptic Gregorian date of a day number (days since 1970-01-01).\<close>

definition civil_date :: "int \<Rightarrow> int \<times> int \<times> int" where
  "civil_date days =
     (let z = days + 719468; era = z div 146097; doe = z mod 146097;
          yoe = (doe - doe div 1460 + doe div 36524 - doe div 146096) div 365;
          doy = doe - (365 * yoe + yoe div 4 - yoe div 100);
          mp = (5 * doy + 2) div 153;
          d = doy - (153 * mp + 2) div 5 + 1;
          m = (if mp < 10 then mp + 3 else mp - 9);
          y = yoe + era * 400 + (if m \<le> 2 then 1 else 0)
      in (y, m, d))"

definition two_digits :: "int \<Rightarrow> string" where
  "two_digits n = [char_of (48 + nat n div 10), char_of (48 + nat n mod 10)]"

definition strftime_utc :: "int \<Rightarrow> string" where
  "strftime_utc t =
     (let secs = t div 1000000; days = secs div 86400; sod = secs mod 86400;
          (y, m, d) = civil_date days
      in int_str y @ two_digits m @ two_digits d @ ''T'' @ two_digits (sod div 3600)
         @ two_digits (sod div 60 mod 60) @ two_digits (sod mod 60) @ ''Z'')"

definition schedule_trigger_key :: "string \<Rightarrow> datetime \<Rightarrow> string res" where
  "schedule_trigger_key sid due =
     (let s = strip sid in
      if s = [] then Inl (CronNextFireError ''schedule_id required'')
      else bindR (require_aware due ''due_fire_at'') (\<lambda>t. Inr (s @ '':'' @ strftime_utc t)))"

lemma compute_next_run_at_later:
  "cron_advances env \<Longrightarrow> compute_next_run_at env cron tz (Aware t) (Some (Aware t)) = Inr n \<Longrightarrow> t < n"
  by (auto simp: compute_next_run_at_def require_aware_def bindR_Inr cron_advances_def split: option.splits)

end
