(* ===== verification/Schedule_Repository.thy ===== *)
theory Schedule_Repository
  imports Workshop_Repository Cron_Next_Fire
begin

text \<open>
  \<open>app/server/workshop/persistence/repository.py\<close>, second part: workflows, workflow runs,
  schedules and the trigger records that make the firing of a schedule idempotent. Row locks
  (\<open>select_for_update\<close>, \<open>skip_locked\<close>) make a transaction on a schedule atomic; the model runs a
  transaction in one step.
\<close>

section \<open>Workflows\<close>

definition create_workflow :: "string \<Rightarrow> string \<Rightarrow> int \<Rightarrow> string \<Rightarrow> workflow_node list \<Rightarrow> workflow_edge list
    \<Rightarrow> string \<Rightarrow> workflow_status \<Rightarrow> workflow_source \<Rightarrow> string list option \<Rightarrow> (db, workshop_workflow) eff" where
  "create_workflow wid pid uid name nodes edges model_key status source entry =
     bindE (require_project pid uid) (\<lambda>_.
     let key = strip model_key in
     bindE (ensure (key \<noteq> []) (WRE ''model_key required'')) (\<lambda>_.
     bindE (liftR (definition_to_jsonable nodes edges key entry)) (\<lambda>steps.
     bindE (insert_workflow wid pid name steps status source 1) (\<lambda>r.
     liftR (to_workflow r)))))"

definition get_workflow :: "string \<Rightarrow> int \<Rightarrow> string \<Rightarrow> (db, workshop_workflow) eff" where
  "get_workflow pid uid wid =
     bindE (require_project pid uid) (\<lambda>_.
     bindE (gets (\<lambda>db. find (\<lambda>r. wf_id r = wid \<and> wf_project r = pid) (workflows db))) (\<lambda>r.
     bindE (first_or r (WorkshopWorkflowNotFoundError wid)) (\<lambda>r. liftR (to_workflow r))))"

definition save_workflow_cas :: "string \<Rightarrow> int \<Rightarrow> string \<Rightarrow> int \<Rightarrow> (db, workshop_workflow) eff" where
  "save_workflow_cas pid uid wid rvn =
     bindE (require_project pid uid) (\<lambda>_.
     bindE (update_workflows
              (\<lambda>r. wf_id r = wid \<and> wf_project r = pid \<and> wf_revision r = rvn \<and> wf_status r = WS_DRAFT)
              (\<lambda>r. r\<lparr>wf_status := WS_SAVED, wf_revision := rvn + 1\<rparr>)) (\<lambda>n.
     bindE (ensure (n = 1) (WorkshopWorkflowConflictError wid)) (\<lambda>_.
     get_workflow pid uid wid)))"

definition list_saved_workflows :: "string \<Rightarrow> int \<Rightarrow> (db, workshop_workflow list) eff" where
  "list_saved_workflows pid uid =
     bindE (require_project pid uid) (\<lambda>_.
     bindE (gets (\<lambda>db. sort_key (\<lambda>r. (wf_updated r, wf_id r))
              (filter (\<lambda>r. wf_project r = pid \<and> wf_status r = WS_SAVED) (workflows db)))) (\<lambda>rows.
     liftR (mapR to_workflow rows)))"

definition load_workflow_row :: "string \<Rightarrow> string \<Rightarrow> bool \<Rightarrow> (db, workflow_row) eff" where
  "load_workflow_row pid wid require_saved =
     bindE (gets (\<lambda>db. find (\<lambda>r. wf_id r = wid \<and> wf_project r = pid) (workflows db))) (\<lambda>r.
     bindE (first_or r (WorkshopWorkflowNotFoundError wid)) (\<lambda>r.
     bindE (ensure (\<not> require_saved \<or> wf_status r = WS_SAVED) (WorkshopWorkflowNotFoundError wid)) (\<lambda>_.
     ret r)))"

definition repo_delete_workflow :: "string \<Rightarrow> int \<Rightarrow> string \<Rightarrow> (db, unit) eff" where
  "repo_delete_workflow pid uid wid =
     bindE (require_project pid uid) (\<lambda>_.
     bindE (delete_workflows (\<lambda>r. wf_id r = wid \<and> wf_project r = pid)) (\<lambda>n.
     ensure (n = 1) (WorkshopWorkflowNotFoundError wid)))"

section \<open>Workflow runs\<close>

definition create_workflow_run :: "string \<Rightarrow> string \<Rightarrow> int \<Rightarrow> string \<Rightarrow> int \<Rightarrow> run_trigger \<Rightarrow> string option
    \<Rightarrow> run_status \<Rightarrow> (db, workshop_run) eff" where
  "create_workflow_run rid pid uid wid wrev trig sched status =
     bindE (require_project pid uid) (\<lambda>_.
     bindE (insert_workflow_run rid pid wid wrev sched trig status 1) (\<lambda>r. ret (to_workflow_run r)))"

definition get_workflow_run :: "string \<Rightarrow> int \<Rightarrow> string \<Rightarrow> (db, workshop_run) eff" where
  "get_workflow_run pid uid rid =
     bindE (require_project pid uid) (\<lambda>_.
     bindE (gets (\<lambda>db. find (\<lambda>r. wr_id r = rid \<and> wr_project r = pid) (workflow_runs db))) (\<lambda>r.
     bindE (first_or r (WRE (''unknown workflow run: '' @ rid))) (\<lambda>r. ret (to_workflow_run r))))"

definition list_workflow_runs :: "string \<Rightarrow> int \<Rightarrow> string option \<Rightarrow> nat \<Rightarrow> (db, workshop_run list) eff" where
  "list_workflow_runs pid uid wid limit =
     bindE (require_project pid uid) (\<lambda>_.
     gets (\<lambda>db. map to_workflow_run (take limit (rev (sort_key (\<lambda>r. (wr_created r, wr_id r))
       (filter (\<lambda>r. wr_project r = pid \<and> (case wid of None \<Rightarrow> True | Some w \<Rightarrow> wr_workflow r = w))
          (workflow_runs db)))))))"

definition update_workflow_run_cas :: "string \<Rightarrow> int \<Rightarrow> string \<Rightarrow> int \<Rightarrow> run_status \<Rightarrow> string option
    \<Rightarrow> string option \<Rightarrow> int option \<Rightarrow> int option \<Rightarrow> (db, workshop_run) eff" where
  "update_workflow_run_cas pid uid rid rvn status current err started finished =
     bindE (require_project pid uid) (\<lambda>_.
     bindE (update_workflow_runs (\<lambda>r. wr_id r = rid \<and> wr_project r = pid \<and> wr_revision r = rvn)
              (\<lambda>r. r\<lparr>wr_status := status, wr_current_node := current, wr_error := err,
                     wr_started := started, wr_finished := finished, wr_revision := rvn + 1\<rparr>)) (\<lambda>n.
     bindE (ensure (n = 1) (WRE (''workflow run conflict: '' @ rid))) (\<lambda>_.
     get_workflow_run pid uid rid)))"

definition active_status :: "run_status \<Rightarrow> bool" where
  "active_status s \<longleftrightarrow> s = RS_QUEUED \<or> s = RS_RUNNING"

definition list_active_workflow_runs :: "string \<Rightarrow> int \<Rightarrow> string \<Rightarrow> (db, workshop_run list) eff" where
  "list_active_workflow_runs pid uid wid =
     bindE (require_project pid uid) (\<lambda>_.
     gets (\<lambda>db. map to_workflow_run (sort_key (\<lambda>r. (wr_created r, wr_id r))
       (filter (\<lambda>r. wr_project r = pid \<and> wr_workflow r = wid \<and> active_status (wr_status r))
          (workflow_runs db)))))"

definition cancel_workflow_run_cas :: "string \<Rightarrow> int \<Rightarrow> string \<Rightarrow> int \<Rightarrow> datetime \<Rightarrow> string option
    \<Rightarrow> (db, workshop_run) eff" where
  "cancel_workflow_run_cas pid uid rid rvn finished reason =
     (case finished of
        Naive _ \<Rightarrow> raise (WRE ''finished_at must be timezone-aware'')
      | Aware t \<Rightarrow>
          bindE (require_project pid uid) (\<lambda>_.
          bindE (update_workflow_runs
                   (\<lambda>r. wr_id r = rid \<and> wr_project r = pid \<and> wr_revision r = rvn \<and> active_status (wr_status r))
                   (\<lambda>r. r\<lparr>wr_status := RS_CANCELLED, wr_error := reason, wr_finished := Some t,
                          wr_revision := rvn + 1\<rparr>)) (\<lambda>n.
          bindE (ensure (n = 1) (WRE (''workflow run cancel conflict: '' @ rid))) (\<lambda>_.
          get_workflow_run pid uid rid))))"

section \<open>Schedules\<close>

definition repo_create_schedule :: "string \<Rightarrow> string \<Rightarrow> int \<Rightarrow> string \<Rightarrow> string \<Rightarrow> string \<Rightarrow> int
    \<Rightarrow> capability set \<Rightarrow> int option \<Rightarrow> (db, workshop_schedule) eff" where
  "repo_create_schedule sid pid uid wid cron tz authorized_at caps next_run =
     bindE (require_project pid uid) (\<lambda>_.
     bindE (get_workflow pid uid wid) (\<lambda>w.
     bindE (ensure (w_status w = WS_SAVED) (WorkshopWorkflowNotFoundError wid)) (\<lambda>_.
     bindE (insert_schedule sid pid wid cron tz True authorized_at (dump_capabilities caps) next_run) (\<lambda>r.
     liftR (to_schedule r)))))"

definition repo_get_schedule :: "string \<Rightarrow> int \<Rightarrow> string \<Rightarrow> (db, workshop_schedule) eff" where
  "repo_get_schedule pid uid sid =
     bindE (require_project pid uid) (\<lambda>_.
     bindE (gets (\<lambda>db. find (\<lambda>r. sc_id r = sid \<and> sc_project r = pid) (schedules db))) (\<lambda>r.
     bindE (first_or r (WorkshopScheduleNotFoundError sid)) (\<lambda>r. liftR (to_schedule r))))"

definition repo_list_schedules :: "string \<Rightarrow> int \<Rightarrow> (db, workshop_schedule list) eff" where
  "repo_list_schedules pid uid =
     bindE (require_project pid uid) (\<lambda>_.
     bindE (gets (\<lambda>db. sort_key (\<lambda>r. (sc_created r, sc_id r))
              (filter (\<lambda>r. sc_project r = pid) (schedules db)))) (\<lambda>rows.
     liftR (mapR to_schedule rows)))"

definition list_schedules_for_workflow :: "string \<Rightarrow> int \<Rightarrow> string \<Rightarrow> (db, workshop_schedule list) eff" where
  "list_schedules_for_workflow pid uid wid =
     bindE (require_project pid uid) (\<lambda>_.
     bindE (gets (\<lambda>db. sort_key (\<lambda>r. (sc_created r, sc_id r))
              (filter (\<lambda>r. sc_project r = pid \<and> sc_workflow r = wid) (schedules db)))) (\<lambda>rows.
     liftR (mapR to_schedule rows)))"

definition clear_task_schedule_refs_for_workflow :: "string \<Rightarrow> int \<Rightarrow> string \<Rightarrow> (db, nat) eff" where
  "clear_task_schedule_refs_for_workflow pid uid wid =
     bindE (require_project pid uid) (\<lambda>_.
     bindE (gets (\<lambda>db. map sc_id (filter (\<lambda>r. sc_project r = pid \<and> sc_workflow r = wid) (schedules db)))) (\<lambda>sids.
     if sids = [] then ret 0
     else update_tasks (\<lambda>r. tk_project r = pid \<and> tk_schedule r \<in> Some ` set sids)
            (\<lambda>r. r\<lparr>tk_schedule := None, tk_sched_auth := False\<rparr>)))"

definition schedule_is :: "string \<Rightarrow> string \<Rightarrow> schedule_row \<Rightarrow> bool" where
  "schedule_is pid sid r \<longleftrightarrow> sc_id r = sid \<and> sc_project r = pid"

definition repo_disable_schedule :: "string \<Rightarrow> int \<Rightarrow> string \<Rightarrow> (db, workshop_schedule) eff" where
  "repo_disable_schedule pid uid sid =
     bindE (require_project pid uid) (\<lambda>_.
     in_transaction (
       bindE (gets (\<lambda>db. find (schedule_is pid sid) (schedules db))) (\<lambda>r.
       bindE (first_or r (WorkshopScheduleNotFoundError sid)) (\<lambda>_.
       bindE (update_schedules (schedule_is pid sid)
                (\<lambda>r. r\<lparr>sc_enabled := False, sc_next_run := None\<rparr>)) (\<lambda>_.
       bindE (gets (\<lambda>db. find (schedule_is pid sid) (schedules db))) (\<lambda>r.
       bindE (first_or r (WorkshopScheduleNotFoundError sid)) (\<lambda>r. liftR (to_schedule r))))))))"

definition repo_enable_schedule :: "string \<Rightarrow> int \<Rightarrow> string \<Rightarrow> datetime \<Rightarrow> (db, workshop_schedule) eff" where
  "repo_enable_schedule pid uid sid next_run =
     (case next_run of
        Naive _ \<Rightarrow> raise (WRE ''next_run_at must be timezone-aware'')
      | Aware t \<Rightarrow>
          bindE (require_project pid uid) (\<lambda>_.
          in_transaction (
            bindE (gets (\<lambda>db. find (schedule_is pid sid) (schedules db))) (\<lambda>r.
            bindE (first_or r (WorkshopScheduleNotFoundError sid)) (\<lambda>r.
            if sc_enabled r \<and> sc_next_run r \<noteq> None then liftR (to_schedule r)
            else
              bindE (update_schedules (schedule_is pid sid)
                       (\<lambda>r. r\<lparr>sc_enabled := True, sc_next_run := Some t\<rparr>)) (\<lambda>_.
              bindE (gets (\<lambda>db. find (schedule_is pid sid) (schedules db))) (\<lambda>r.
              bindE (first_or r (WorkshopScheduleNotFoundError sid)) (\<lambda>r. liftR (to_schedule r)))))))))"

definition list_due_schedules :: "datetime \<Rightarrow> int \<Rightarrow> (db, workshop_schedule list) eff" where
  "list_due_schedules now limit =
     bindE (ensure (limit \<ge> 1) (WRE ''limit must be >= 1'')) (\<lambda>_.
     case now of
       Naive _ \<Rightarrow> raise (WRE ''now must be timezone-aware'')
     | Aware t \<Rightarrow>
         bindE (gets (\<lambda>db. take (nat limit) (sort_key (\<lambda>r. (the (sc_next_run r), sc_id r))
                  (filter (\<lambda>r. sc_enabled r \<and> (case sc_next_run r of None \<Rightarrow> False | Some n \<Rightarrow> n \<le> t))
                     (schedules db))))) (\<lambda>rows.
         liftR (mapR to_schedule rows)))"

section \<open>Tasks started from workflows\<close>

definition create_task :: "string \<Rightarrow> string \<Rightarrow> int \<Rightarrow> string \<Rightarrow> string list \<Rightarrow> task_status \<Rightarrow> string list
    \<Rightarrow> string option \<Rightarrow> bool \<Rightarrow> capability set \<Rightarrow> (db, workshop_task) eff" where
  "create_task tid pid uid title goals status required sched auth ext =
     bindE (require_project pid uid) (\<lambda>_.
     bindE (case sched of None \<Rightarrow> ret ()
            | Some s \<Rightarrow> bindE (repo_get_schedule pid uid s) (\<lambda>_. ret ())) (\<lambda>_.
     bindE (insert_task tid pid title (json_strings goals) (json_strings required) status sched auth
              (dump_capabilities ext) 1) (\<lambda>r.
     liftR (to_task r))))"

definition create_executing_task_from_workflow :: "string \<Rightarrow> int \<Rightarrow> string \<Rightarrow> string \<Rightarrow> capability set
    \<Rightarrow> (db, workshop_task) eff" where
  "create_executing_task_from_workflow pid uid wid tid ext =
     bindE (require_project pid uid) (\<lambda>_.
     bindE (in_transaction (
       bindE (load_workflow_row pid wid True) (\<lambda>wr.
       bindE (liftR (to_workflow wr)) (\<lambda>w.
       insert_task tid pid (w_name w) (json_strings (goals_from_nodes (w_nodes w)))
         (json_strings (aggregate_required_artifacts (w_nodes w))) TS_EXECUTING None False
         (dump_capabilities ext) 1))))
       (\<lambda>r. liftR (to_task r)))"

section \<open>Triggers\<close>

type_synonym trigger_bundle = "workshop_task \<times> workshop_event \<times> schedule_run"

definition started_message :: "string \<Rightarrow> string" where
  "started_message sid = map char_of [229, 174, 154, 230, 151, 182, 228, 187, 187, 229, 138, 161, 32 :: nat] @ sid @ map char_of [32, 229, 188, 128, 229, 167, 139 :: nat]"

definition insert_schedule_trigger :: "schedule_row \<Rightarrow> string \<Rightarrow> string \<Rightarrow> string \<Rightarrow> (db, trigger_bundle) eff" where
  "insert_schedule_trigger sr key tid ekey =
     bindE (liftR (to_schedule sr)) (\<lambda>s.
     bindE (load_workflow_row (sc_project sr) (s_workflow s) True) (\<lambda>wr.
     bindE (liftR (to_workflow wr)) (\<lambda>w.
     bindE (insert_task tid (sc_project sr) (w_name w) (json_strings (goals_from_nodes (w_nodes w)))
              (json_strings (aggregate_required_artifacts (w_nodes w))) TS_EXECUTING
              (Some (sc_id sr)) True (dump_capabilities (s_caps s)) 1) (\<lambda>task.
     bindE (new_id ''srun'') (\<lambda>uid.
     bindE (catchE (insert_schedule_run uid (sc_project sr) (sc_id sr) key tid)
              (map_integrity (\<lambda>ls. if is_unique_violation ls
                                   then WorkshopScheduleTriggerConflictError key
                                   else IntegrityError ls))) (\<lambda>run.
     bindE (liftR (dump_event_payload EV_SCHEDULE_STARTED
              (ScheduleStarted (sc_id sr) tid key (started_message (sc_id sr))))) (\<lambda>j.
     bindE (insert_event ekey (sc_project sr) (Some tid) EV_SCHEDULE_STARTED j) (\<lambda>ev.
     bindE (liftR (to_task task)) (\<lambda>t.
     bindE (liftR (to_event ev)) (\<lambda>e.
     ret (t, e, to_schedule_run run)))))))))))"

definition load_trigger_bundle :: "string \<Rightarrow> schedule_run_row \<Rightarrow> (db, trigger_bundle) eff" where
  "load_trigger_bundle pid run =
     bindE (gets (\<lambda>db. find (\<lambda>r. tk_id r = sr_task run \<and> tk_project r = pid) (tasks db))) (\<lambda>tr.
     bindE (first_or tr (WorkshopTaskNotFoundError (sr_task run))) (\<lambda>tr.
     bindE (gets (\<lambda>db. sort_key ev_created (filter (\<lambda>r. ev_project r = pid \<and> ev_task r = Some (sr_task run)
                          \<and> ev_kind r = EV_SCHEDULE_STARTED) (events db)))) (\<lambda>evs.
     case evs of
       [] \<Rightarrow> raise (WRE (''missing schedule_started event for task '' @ sr_task run))
     | er # _ \<Rightarrow>
         bindE (liftR (to_task tr)) (\<lambda>t. bindE (liftR (to_event er)) (\<lambda>e.
         ret (t, e, to_schedule_run run))))))"

definition get_schedule_run_by_trigger_key :: "string \<Rightarrow> int \<Rightarrow> string \<Rightarrow> string \<Rightarrow> (db, trigger_bundle) eff" where
  "get_schedule_run_by_trigger_key pid uid sid key =
     bindE (require_project pid uid) (\<lambda>_.
     bindE (gets (\<lambda>db. find (\<lambda>r. sr_project r = pid \<and> sr_schedule r = sid \<and> sr_trigger_key r = key)
                        (schedule_runs db))) (\<lambda>r.
     bindE (first_or r (WorkshopScheduleNotFoundError sid)) (\<lambda>r. load_trigger_bundle pid r)))"

definition trigger_schedule_run :: "string \<Rightarrow> int \<Rightarrow> string \<Rightarrow> string \<Rightarrow> string \<Rightarrow> string
    \<Rightarrow> (db, trigger_bundle) eff" where
  "trigger_schedule_run pid uid sid key tid ekey =
     bindE (require_project pid uid) (\<lambda>_.
     catchE (in_transaction (
       bindE (gets (\<lambda>db. find (\<lambda>r. sr_project r = pid \<and> sr_schedule r = sid \<and> sr_trigger_key r = key)
                          (schedule_runs db))) (\<lambda>existing.
       case existing of
         Some run \<Rightarrow> load_trigger_bundle pid run
       | None \<Rightarrow>
           bindE (gets (\<lambda>db. find (schedule_is pid sid) (schedules db))) (\<lambda>sr.
           bindE (first_or sr (WorkshopScheduleNotFoundError sid)) (\<lambda>sr.
           bindE (ensure (sc_enabled sr) (WRE ''schedule is disabled'')) (\<lambda>_.
           insert_schedule_trigger sr key tid ekey))))))
       (\<lambda>e. case e of
              WorkshopScheduleTriggerConflictError _ \<Rightarrow> get_schedule_run_by_trigger_key pid uid sid key
            | _ \<Rightarrow> raise e))"

text \<open>Moving \<open>next_run_at\<close> on, if it still has the expected value.\<close>

definition advance_schedule :: "cron_env \<Rightarrow> schedule_row \<Rightarrow> int \<Rightarrow> (db, unit) eff" where
  "advance_schedule env sr due =
     bindE (liftR (compute_next_run_at env (sc_cron sr) (sc_timezone sr) (Aware due) (Some (Aware due)))) (\<lambda>n.
     bindE (update_schedules (\<lambda>r. sc_id r = sc_id sr \<and> sc_next_run r = Some due)
              (\<lambda>r. r\<lparr>sc_next_run := Some n\<rparr>)) (\<lambda>k.
     ensure (k = 1) (WorkshopScheduleClaimLostError (sc_id sr))))"

definition claim_due_schedule_run :: "cron_env \<Rightarrow> string \<Rightarrow> datetime \<Rightarrow> string \<Rightarrow> string
    \<Rightarrow> (db, trigger_bundle option) eff" where
  "claim_due_schedule_run env sid expected tid ekey =
     (case expected of
        Naive _ \<Rightarrow> raise (WRE ''expected_next_run_at must be timezone-aware'')
      | Aware due \<Rightarrow>
          catchE (in_transaction (
            bindE (gets (\<lambda>db. find (\<lambda>r. sc_id r = sid \<and> sc_enabled r \<and> sc_next_run r = Some due)
                               (schedules db))) (\<lambda>found.
            case found of
              None \<Rightarrow> ret None
            | Some sr \<Rightarrow>
                bindE (liftR (schedule_trigger_key sid (Aware due))) (\<lambda>key.
                bindE (gets (\<lambda>db. find (\<lambda>r. sr_schedule r = sid \<and> sr_trigger_key r = key)
                                   (schedule_runs db))) (\<lambda>existing.
                bindE (advance_schedule env sr due) (\<lambda>_.
                case existing of
                  Some run \<Rightarrow> bindE (load_trigger_bundle (sc_project sr) run) (\<lambda>b. ret (Some b))
                | None \<Rightarrow> bindE (insert_schedule_trigger sr key tid ekey) (\<lambda>b. ret (Some b))))))))
            (\<lambda>e. case e of
                   WorkshopScheduleTriggerConflictError _ \<Rightarrow> ret None
                 | WorkshopScheduleClaimLostError _ \<Rightarrow> ret None
                 | _ \<Rightarrow> raise e))"

end
