(* ===== verification/Frame_Rules.thy ===== *)
theory Frame_Rules
  imports Prelude
begin

text \<open>
  What an effect leaves alone. \<open>keeps f m\<close>: the effect \<open>m\<close> does not change the part \<open>f\<close> of
  the state, whether it returns or raises. The rules in \<open>frame_intros\<close> follow the structure of an
  effect, so that a frame fact about an operation is proved by unfolding it and applying them.
\<close>

named_theorems frame_intros \<open>rules for keeps\<close>

definition keeps :: "('s \<Rightarrow> 'b) \<Rightarrow> ('s, 'a) eff \<Rightarrow> bool" where
  "keeps f m \<longleftrightarrow> (\<forall>s. f (snd (m s)) = f s)"

lemma keepsD: "keeps f m \<Longrightarrow> m s = (r, s') \<Longrightarrow> f s' = f s"
  by (metis keeps_def snd_conv)

lemma keeps_basic [frame_intros]:
  "keeps f (ret x)" "keeps f (raise e)" "keeps f (liftR r)" "keeps f (gets g)" "keeps f (ensure c e)"
  by (simp_all add: keeps_def ret_def raise_def liftR_def gets_def ensure_def)

lemma keeps_modify [frame_intros]: "(\<And>s. f (h s) = f s) \<Longrightarrow> keeps f (modify h)"
  by (simp add: keeps_def modify_def)

lemma keeps_bind [frame_intros]: "keeps f m \<Longrightarrow> (\<And>x. keeps f (k x)) \<Longrightarrow> keeps f (bindE m k)"
  by (auto simp: keeps_def bindE_def split: prod.splits sum.splits) (metis snd_conv)+

lemma keeps_catch [frame_intros]: "keeps f m \<Longrightarrow> (\<And>e. keeps f (h e)) \<Longrightarrow> keeps f (catchE m h)"
  by (auto simp: keeps_def catchE_def split: prod.splits sum.splits) (metis snd_conv)+

lemma keeps_forE [frame_intros]: "(\<And>x. keeps f (k x)) \<Longrightarrow> keeps f (forE xs k)"
  by (induction xs) (auto intro: frame_intros)

lemma keeps_mapE [frame_intros]: "(\<And>x. keeps f (k x)) \<Longrightarrow> keeps f (mapE k xs)"
  by (induction xs) (auto intro: frame_intros)

lemma keeps_if [frame_intros]: "(c \<Longrightarrow> keeps f m) \<Longrightarrow> (\<not> c \<Longrightarrow> keeps f n) \<Longrightarrow> keeps f (if c then m else n)"
  by simp

lemma keeps_option [frame_intros]:
  "(x = None \<Longrightarrow> keeps f m) \<Longrightarrow> (\<And>y. x = Some y \<Longrightarrow> keeps f (k y)) \<Longrightarrow>
   keeps f (case x of None \<Rightarrow> m | Some y \<Rightarrow> k y)"
  by (cases x) auto

lemma keeps_prod [frame_intros]:
  "(\<And>a b. x = (a, b) \<Longrightarrow> keeps f (k a b)) \<Longrightarrow> keeps f (case x of (a, b) \<Rightarrow> k a b)"
  by (cases x) auto

lemma keeps_list [frame_intros]:
  "(x = [] \<Longrightarrow> keeps f m) \<Longrightarrow> (\<And>y ys. x = y # ys \<Longrightarrow> keeps f (k y ys)) \<Longrightarrow>
   keeps f (case x of [] \<Rightarrow> m | y # ys \<Rightarrow> k y ys)"
  by (cases x) auto

lemma keeps_datetime [frame_intros]:
  "(\<And>t. x = Naive t \<Longrightarrow> keeps f (m t)) \<Longrightarrow> (\<And>t. x = Aware t \<Longrightarrow> keeps f (k t)) \<Longrightarrow>
   keeps f (case x of Naive t \<Rightarrow> m t | Aware t \<Rightarrow> k t)"
  by (cases x) auto

end
