(* ===== verification/Frames.thy ===== *)
theory Frames
  imports Schedule_Repository Frame_Rules
begin

text \<open>
  What the operations of the workshop database leave alone, by the rules of \<open>Frame_Rules\<close>.
\<close>

lemma keeps_tick [frame_intros]: "(\<And>db c. f (db\<lparr>db_clock := c\<rparr>) = f db) \<Longrightarrow> keeps f tick"
  by (simp add: keeps_def tick_def)

lemma keeps_uuid [frame_intros]: "(\<And>db c. f (db\<lparr>db_uuids := c\<rparr>) = f db) \<Longrightarrow> keeps f uuid_hex"
  by (simp add: keeps_def uuid_hex_def)

lemma keeps_new_id [frame_intros]: "(\<And>db c. f (db\<lparr>db_uuids := c\<rparr>) = f db) \<Longrightarrow> keeps f (new_id p)"
  unfolding new_id_def by (intro frame_intros) auto

lemma keeps_uuid_str [frame_intros]: "(\<And>db c. f (db\<lparr>db_uuids := c\<rparr>) = f db) \<Longrightarrow> keeps f uuid_str"
  unfolding uuid_str_def by (intro frame_intros) auto

lemma keeps_transaction [frame_intros]:
  "keeps f m \<Longrightarrow> (\<And>db c u. f (db\<lparr>db_clock := c, db_uuids := u\<rparr>) = f db) \<Longrightarrow> keeps f (in_transaction m)"
  by (auto simp: keeps_def in_transaction_def split: prod.splits sum.splits) (metis snd_conv)+

lemma keeps_constraints [frame_intros]: "keeps f (constraints cs)"
  by (induction cs) (auto simp: keeps_def ret_def constraints.simps)

lemma keeps_first_or [frame_intros]: "keeps f (first_or r e)"
  by (auto simp: first_or_def split: option.splits intro: frame_intros)

lemma keeps_map_integrity [frame_intros]: "keeps f (map_integrity g e)"
  unfolding map_integrity_def by (rule frame_intros)

section \<open>Reads change nothing\<close>

lemma reads_only [frame_intros]:
  "keeps f (get_project pid uid)" "keeps f (require_project pid uid)"
  "keeps f (get_expert pid uid eid)" "keeps f (get_task pid uid tid)" "keeps f (require_task pid uid tid)"
  "keeps f (assert_task_in_project pid tid)" "keeps f (list_capability_uses pid uid tid)"
  "keeps f (get_workflow pid uid wid)" "keeps f (get_workflow_run pid uid rid)"
  "keeps f (repo_get_schedule pid uid sid)" "keeps f (load_workflow_row pid wid sv)"
  "keeps f (load_trigger_bundle pid run)" "keeps f (get_schedule_run_by_trigger_key pid uid sid key)"
  "keeps f (list_active_workflow_runs pid uid wid)" "keeps f (list_schedules_for_workflow pid uid wid)"
  "keeps f (list_saved_workflows pid uid)" "keeps f (list_due_schedules now limit)"
  "keeps f (get_project_brief pid uid)" "keeps f (get_project_owner_user_id pid)"
  by (auto simp: get_project_def require_project_def get_expert_def get_task_def require_task_def
      assert_task_in_project_def list_capability_uses_def get_workflow_def get_workflow_run_def
      repo_get_schedule_def load_workflow_row_def load_trigger_bundle_def
      get_schedule_run_by_trigger_key_def list_active_workflow_runs_def list_schedules_for_workflow_def
      list_saved_workflows_def list_due_schedules_def get_project_brief_def get_project_owner_user_id_def
      intro!: frame_intros)

lemma read_state: "keeps (\<lambda>s. s) m \<Longrightarrow> m s = (r, s') \<Longrightarrow> s' = s"
  by (metis keepsD)

section \<open>Single-table writes\<close>

lemma update_tasks_run:
  "update_tasks P f db =
     (Inr (count_rows P (tasks db)),
      db\<lparr>db_clock := (\<lambda>n. db_clock db (Suc n)),
         tasks := update_rows P (\<lambda>r. f r\<lparr>tk_updated := db_clock db 0\<rparr>) (tasks db)\<rparr>)"
  by (simp add: update_tasks_def bindE_def tick_def gets_def modify_def ret_def)

lemma update_workflow_runs_run:
  "update_workflow_runs P f db =
     (Inr (count_rows P (workflow_runs db)),
      db\<lparr>db_clock := (\<lambda>n. db_clock db (Suc n)),
         workflow_runs := update_rows P (\<lambda>r. f r\<lparr>wr_updated := db_clock db 0\<rparr>) (workflow_runs db)\<rparr>)"
  by (simp add: update_workflow_runs_def bindE_def tick_def gets_def modify_def ret_def)

lemma update_schedules_run:
  "update_schedules P f db =
     (Inr (count_rows P (schedules db)),
      db\<lparr>db_clock := (\<lambda>n. db_clock db (Suc n)),
         schedules := update_rows P (\<lambda>r. f r\<lparr>sc_updated := db_clock db 0\<rparr>) (schedules db)\<rparr>)"
  by (simp add: update_schedules_def bindE_def tick_def gets_def modify_def ret_def)

lemma insert_artifacts_keeps [frame_intros]:
  "keeps tasks (insert_artifacts pid tid arts)" "keeps projects (insert_artifacts pid tid arts)"
  unfolding insert_artifacts_def insert_artifact_def update_artifacts_def Let_def
  by (intro frame_intros; auto split: exc.splits intro!: frame_intros)+

lemma insert_event_keeps [frame_intros]:
  "keeps tasks (insert_event key p t k j)" "keeps projects (insert_event key p t k j)"
  unfolding insert_event_def Let_def by (intro frame_intros; simp)+

end
