(* ===== verification/Task_Orchestrator.thy ===== *)
theory Task_Orchestrator
  imports Frames
begin

text \<open>
  \<open>app/server/workshop/services/task_orchestrator.py\<close>: the life cycle of a task. A handler reads
  the task, checks its status and writes with a compare-and-set on revision and status; the reads
  and writes of concurrent handlers interleave between these two steps.
\<close>

section \<open>Handlers\<close>

abbreviation TOE :: "string \<Rightarrow> exc" where
  "TOE \<equiv> TaskOrchestratorError"

definition orch_get :: "string \<Rightarrow> int \<Rightarrow> string \<Rightarrow> (db, workshop_task) eff" where
  "orch_get pid uid tid =
     catchE (require_task pid uid tid)
       (\<lambda>e. case e of WorkshopTaskNotFoundError _ \<Rightarrow> raise (TOE (''unknown task: '' @ tid)) | _ \<Rightarrow> raise e)"

text \<open>\<open>WorkshopTaskConflictError\<close> becomes an orchestrator error.\<close>

definition or_conflict :: "string \<Rightarrow> (db, 'a) eff \<Rightarrow> (db, 'a) eff" where
  "or_conflict tid m =
     catchE m (\<lambda>e. case e of WorkshopTaskConflictError _ \<Rightarrow> raise (TOE (''task conflict: '' @ tid)) | _ \<Rightarrow> raise e)"

definition orch_transition :: "string \<Rightarrow> int \<Rightarrow> workshop_task \<Rightarrow> task_status \<Rightarrow> (db, workshop_task) eff" where
  "orch_transition pid uid task target =
     or_conflict (t_id task)
       (update_task_status_cas pid uid (t_id task) (t_revision task) (t_status task) target)"

definition guarded_transition :: "task_status set \<Rightarrow> string \<Rightarrow> task_status \<Rightarrow> string \<Rightarrow> int \<Rightarrow> string
    \<Rightarrow> (db, workshop_task) eff" where
  "guarded_transition allowed what target pid uid tid =
     bindE (orch_get pid uid tid) (\<lambda>task.
     bindE (ensure (t_status task \<in> allowed)
              (TOE (''cannot '' @ what @ '' from '' @ task_status_value (t_status task)))) (\<lambda>_.
     orch_transition pid uid task target))"

definition host_propose_go :: "string \<Rightarrow> int \<Rightarrow> string \<Rightarrow> (db, workshop_task) eff" where
  "host_propose_go = guarded_transition {TS_ALIGNING, TS_RE_ALIGNING} ''propose go'' TS_AWAITING_GO"

definition user_confirm_go :: "string \<Rightarrow> int \<Rightarrow> string \<Rightarrow> (db, workshop_task) eff" where
  "user_confirm_go = guarded_transition {TS_AWAITING_GO} ''confirm go'' TS_AUTHORIZED"

definition begin_execution :: "string \<Rightarrow> int \<Rightarrow> string \<Rightarrow> (db, workshop_task) eff" where
  "begin_execution = guarded_transition {TS_AUTHORIZED} ''begin execution'' TS_EXECUTING"

definition mark_blocked :: "string \<Rightarrow> int \<Rightarrow> string \<Rightarrow> (db, workshop_task) eff" where
  "mark_blocked = guarded_transition {TS_EXECUTING} ''block'' TS_BLOCKED"

definition mark_re_aligning :: "string \<Rightarrow> int \<Rightarrow> string \<Rightarrow> (db, workshop_task) eff" where
  "mark_re_aligning = guarded_transition {TS_EXECUTING, TS_BLOCKED, TS_REVIEWING} ''re-align'' TS_RE_ALIGNING"

definition mark_reviewing :: "string \<Rightarrow> int \<Rightarrow> string \<Rightarrow> (db, workshop_task) eff" where
  "mark_reviewing = guarded_transition {TS_EXECUTING} ''review'' TS_REVIEWING"

definition orch_cancel :: "string \<Rightarrow> int \<Rightarrow> string \<Rightarrow> (db, workshop_task) eff" where
  "orch_cancel = guarded_transition (- {TS_DONE, TS_FAILED, TS_CANCELLED}) ''cancel'' TS_CANCELLED"

definition orch_fail :: "string \<Rightarrow> int \<Rightarrow> string \<Rightarrow> (db, workshop_task) eff" where
  "orch_fail = guarded_transition {TS_EXECUTING, TS_BLOCKED, TS_REVIEWING} ''fail'' TS_FAILED"

definition user_reject_done :: "string \<Rightarrow> int \<Rightarrow> string \<Rightarrow> (db, workshop_task) eff" where
  "user_reject_done = guarded_transition {TS_DONE} ''reject done'' TS_RE_ALIGNING"

definition fail_review_blocked :: "string \<Rightarrow> int \<Rightarrow> string \<Rightarrow> (db, workshop_task) eff" where
  "fail_review_blocked = guarded_transition {TS_REVIEWING} ''fail-review'' TS_BLOCKED"

definition orch_record_capability_use :: "string \<Rightarrow> int \<Rightarrow> string \<Rightarrow> capability \<Rightarrow> (db, unit) eff" where
  "orch_record_capability_use pid uid tid cap =
     bindE (orch_get pid uid tid) (\<lambda>task.
     bindE (ensure (t_status task \<in> {TS_EXECUTING, TS_BLOCKED})
              (TOE (''cannot record capability use from '' @ task_status_value (t_status task)))) (\<lambda>_.
     record_capability_use pid uid tid cap))"

definition orch_weak_accept :: "contract_env \<Rightarrow> string \<Rightarrow> int \<Rightarrow> string \<Rightarrow> string set
    \<Rightarrow> artifact_submission list \<Rightarrow> (db, weak_accept_result) eff" where
  "orch_weak_accept env pid uid tid covered arts =
     bindE (orch_get pid uid tid) (\<lambda>task.
     bindE (ensure (t_status task = TS_REVIEWING)
              (TOE (''cannot weak-accept from '' @ task_status_value (t_status task)))) (\<lambda>_.
     bindE (list_capability_uses pid uid tid) (\<lambda>used.
     let res = evaluate_weak_accept env (t_goals task) covered (t_required task) arts (t_ext_auth task) used in
     if \<not> wa_passed res then ret res
     else bindE (or_conflict tid (complete_weak_accept pid uid tid (t_revision task) arts)) (\<lambda>_. ret res))))"

definition attribute_message :: "string \<Rightarrow> int \<Rightarrow> string option \<Rightarrow> bool \<Rightarrow> string list
    \<Rightarrow> (db, message_attribution) eff" where
  "attribute_message pid uid tid ambiguous candidates =
     (if ambiguous then ret \<lparr>ma_task = None, ma_needs_clarification = True\<rparr>
      else (case tid of
              None \<Rightarrow> ret \<lparr>ma_task = None, ma_needs_clarification = candidates \<noteq> []\<rparr>
            | Some t \<Rightarrow>
                bindE (orch_get pid uid t) (\<lambda>_.
                ret \<lparr>ma_task = Some t, ma_needs_clarification = False\<rparr>)))"

definition grant_external_auth :: "string \<Rightarrow> int \<Rightarrow> string \<Rightarrow> capability set \<Rightarrow> (db, workshop_task) eff" where
  "grant_external_auth pid uid tid requested =
     bindE (ensure (\<forall>c \<in> requested. is_external_capability c)
              (TOE ''non-external capability cannot be granted'')) (\<lambda>_.
     bindE (orch_get pid uid tid) (\<lambda>task.
     bindE (ensure (t_status task \<in> {TS_AUTHORIZED, TS_EXECUTING, TS_BLOCKED})
              (TOE (''cannot grant external auth from '' @ task_status_value (t_status task)))) (\<lambda>_.
     or_conflict tid
       (update_task_external_auth_cas pid uid tid (t_revision task) (t_status task)
          (t_ext_auth task \<union> requested)))))"

definition has_external_auth :: "string \<Rightarrow> int \<Rightarrow> string \<Rightarrow> capability \<Rightarrow> (db, bool) eff" where
  "has_external_auth pid uid tid cap =
     bindE (orch_get pid uid tid) (\<lambda>task. ret (cap \<in> t_ext_auth task))"

end
