(* ===== verification/Task_Lifecycle.thy ===== *)
theory Task_Lifecycle
  imports Task_Orchestrator
begin

text \<open>
  The task state machine. Handlers run concurrently: each is a read step that checks the status and a
  later write step, and \<open>orch_step\<close> interleaves such steps of any number of handlers with the creation
  of tasks and with steps that do not touch the tasks. The compare-and-set on revision and status makes
  every write a legal transition of the row it changes.
\<close>

section \<open>Compare-and-set\<close>

definition cas_row :: "string \<Rightarrow> string \<Rightarrow> int \<Rightarrow> task_status \<Rightarrow> (task_row \<Rightarrow> task_row) \<Rightarrow> int \<Rightarrow> task_row \<Rightarrow> task_row" where
  "cas_row pid tid rvn st f now r =
     (if task_at pid tid rvn st r then f r\<lparr>tk_revision := rvn + 1, tk_updated := now\<rparr> else r)"

lemma update_rows_cas:
  "update_rows (task_at pid tid rvn st) (\<lambda>r. (f r)\<lparr>tk_revision := rvn + 1\<rparr>\<lparr>tk_updated := now\<rparr>) rows
   = map (cas_row pid tid rvn st f now) rows"
  by (simp add: update_rows_def cas_row_def)

lemma first_or_run: "first_or r e db = (case r of None \<Rightarrow> Inl e | Some x \<Rightarrow> Inr x, db)"
  by (simp add: first_or_def ret_def raise_def split: option.splits)

lemma require_project_run:
  "require_project pid uid db =
     (case find (\<lambda>r. pr_id r = pid \<and> pr_user r = uid) (projects db) of
        None \<Rightarrow> Inl (WorkshopProjectNotFoundError pid) | Some r \<Rightarrow> Inr (to_project r), db)"
  by (simp add: require_project_def get_project_def bindE_def gets_def first_or_run split: option.splits)

lemma require_task_state [simp]: "snd (require_task pid uid tid db) = db"
  using reads_only(5) [of "\<lambda>s. s" pid uid tid] by (simp add: keeps_def)

definition task_cas :: "string \<Rightarrow> int \<Rightarrow> string \<Rightarrow> int \<Rightarrow> task_status \<Rightarrow> (task_row \<Rightarrow> task_row) \<Rightarrow> (db, workshop_task) eff" where
  "task_cas pid uid tid rvn st f =
     bindE (require_project pid uid) (\<lambda>_.
     bindE (update_tasks (task_at pid tid rvn st) (\<lambda>r. (f r)\<lparr>tk_revision := rvn + 1\<rparr>)) (\<lambda>n.
     bindE (ensure (n = 1) (WorkshopTaskConflictError tid)) (\<lambda>_.
     require_task pid uid tid)))"

lemma update_task_cas_eqs:
  "update_task_status_cas pid uid tid rvn st target = task_cas pid uid tid rvn st (\<lambda>r. r\<lparr>tk_status := target\<rparr>)"
  "update_task_external_auth_cas pid uid tid rvn st ext
     = task_cas pid uid tid rvn st (\<lambda>r. r\<lparr>tk_ext_auth := dump_capabilities ext\<rparr>)"
  by (simp_all add: update_task_status_cas_def update_task_external_auth_cas_def task_cas_def)

text \<open>A compare-and-set either raises with the tasks as they were, or changes only the row it found.\<close>

definition cas_effect :: "string \<Rightarrow> string \<Rightarrow> int \<Rightarrow> task_status \<Rightarrow> (task_row \<Rightarrow> task_row) \<Rightarrow> db \<Rightarrow> db \<Rightarrow> bool" where
  "cas_effect pid tid rvn st f db db' \<longleftrightarrow>
     tasks db' = tasks db \<or> (\<exists>now. tasks db' = map (cas_row pid tid rvn st f now) (tasks db))"

lemma task_cas_effect: "cas_effect pid tid rvn st f db (snd (task_cas pid uid tid rvn st f db))"
  by (auto simp: cas_effect_def task_cas_def bindE_def require_project_run update_tasks_run ensure_def
      update_rows_cas split: prod.splits sum.splits option.splits)

lemma task_cas_Inr:
  assumes "task_cas pid uid tid rvn st f db = (Inr t, db')"
  shows "count_rows (task_at pid tid rvn st) (tasks db) = 1
     \<and> tasks db' = map (cas_row pid tid rvn st f (db_clock db 0)) (tasks db)
     \<and> require_task pid uid tid db' = (Inr t, db')"
proof -
  let ?db = "db\<lparr>db_clock := (\<lambda>n. db_clock db (Suc n)),
     tasks := map (cas_row pid tid rvn st f (db_clock db 0)) (tasks db)\<rparr>"
  from assms have c: "count_rows (task_at pid tid rvn st) (tasks db) = 1"
    and r: "require_task pid uid tid ?db = (Inr t, db')"
    by (auto simp: task_cas_def bindE_def require_project_run update_tasks_run ensure_def
        update_rows_cas split: option.splits if_splits)
  have "db' = ?db" using r require_task_state [of pid uid tid ?db] by simp
  with c r show ?thesis by simp
qed

lemma or_conflict_state: "snd (or_conflict tid m db) = snd (m db)"
  by (auto simp: or_conflict_def catchE_def raise_def split: prod.splits sum.splits exc.splits)

lemma or_conflict_Inr: "or_conflict tid m db = (Inr x, db') \<longleftrightarrow> m db = (Inr x, db')"
  by (auto simp: or_conflict_def catchE_def raise_def split: prod.splits sum.splits exc.splits)

lemma orch_get_Inr:
  assumes "orch_get pid uid tid db = (Inr task, db')"
  shows "db' = db \<and> (\<exists>r \<in> set (tasks db). tk_id r = tid \<and> tk_project r = pid \<and> to_task r = Inr task)"
proof -
  have "require_task pid uid tid db = (Inr task, db')"
    using assms by (auto simp: orch_get_def catchE_def raise_def split: prod.splits sum.splits exc.splits)
  moreover from this have "db' = db" using require_task_state [of pid uid tid db] by simp
  ultimately obtain r where "find (\<lambda>r. tk_id r = tid \<and> tk_project r = pid) (tasks db) = Some r"
    and "to_task r = Inr task"
    by (auto simp: require_task_def get_task_def bindE_eq_Inr first_or_run gets_def liftR_def ret_def
        require_project_run split: option.splits)
  with \<open>db' = db\<close> show ?thesis by (auto dest: find_SomeD)
qed

lemma to_task_fields:
  "to_task r = Inr t \<Longrightarrow>
   t_id t = tk_id r \<and> t_project t = tk_project r \<and> t_status t = tk_status r \<and> t_revision t = tk_revision r"
  by (auto simp: to_task_def bindR_Inr)

section \<open>Legal transitions\<close>

fun legal :: "task_status \<Rightarrow> task_status \<Rightarrow> bool" where
  "legal s TS_AWAITING_GO = (s \<in> {TS_ALIGNING, TS_RE_ALIGNING})"
| "legal s TS_AUTHORIZED = (s = TS_AWAITING_GO)"
| "legal s TS_EXECUTING = (s = TS_AUTHORIZED)"
| "legal s TS_BLOCKED = (s \<in> {TS_EXECUTING, TS_REVIEWING})"
| "legal s TS_RE_ALIGNING = (s \<in> {TS_EXECUTING, TS_BLOCKED, TS_REVIEWING, TS_DONE})"
| "legal s TS_REVIEWING = (s = TS_EXECUTING)"
| "legal s TS_DONE = (s = TS_REVIEWING)"
| "legal s TS_FAILED = (s \<in> {TS_EXECUTING, TS_BLOCKED, TS_REVIEWING})"
| "legal s TS_CANCELLED = (s \<notin> {TS_DONE, TS_FAILED, TS_CANCELLED})"
| "legal s TS_ALIGNING = False"

text \<open>The guarded transitions of the orchestrator: allowed statuses and target.\<close>

definition handler_moves :: "(task_status set \<times> string \<times> task_status) list" where
  "handler_moves =
     [({TS_ALIGNING, TS_RE_ALIGNING}, ''propose go'', TS_AWAITING_GO),
      ({TS_AWAITING_GO}, ''confirm go'', TS_AUTHORIZED),
      ({TS_AUTHORIZED}, ''begin execution'', TS_EXECUTING),
      ({TS_EXECUTING}, ''block'', TS_BLOCKED),
      ({TS_EXECUTING, TS_BLOCKED, TS_REVIEWING}, ''re-align'', TS_RE_ALIGNING),
      ({TS_EXECUTING}, ''review'', TS_REVIEWING),
      (- {TS_DONE, TS_FAILED, TS_CANCELLED}, ''cancel'', TS_CANCELLED),
      ({TS_EXECUTING, TS_BLOCKED, TS_REVIEWING}, ''fail'', TS_FAILED),
      ({TS_DONE}, ''reject done'', TS_RE_ALIGNING),
      ({TS_REVIEWING}, ''fail-review'', TS_BLOCKED)]"

lemma handler_moves_legal: "(allowed, what, target) \<in> set handler_moves \<Longrightarrow> s \<in> allowed \<Longrightarrow> legal s target"
  by (auto simp: handler_moves_def)

lemma legal_terminal: "s \<in> {TS_FAILED, TS_CANCELLED} \<Longrightarrow> \<not> legal s s'"
  by (cases s') auto

section \<open>Interleaved handlers\<close>

text \<open>What a handler has decided after its read: the task it read, and the write to come.\<close>

datatype pending =
    PMove string int workshop_task task_status
  | PGrant string int workshop_task "capability set"
  | PAccept string int workshop_task "artifact_submission list"

inductive orch_step :: "db \<times> pending list \<Rightarrow> db \<times> pending list \<Rightarrow> bool" where
  read_move:
    "(allowed, what, target) \<in> set handler_moves \<Longrightarrow> orch_get pid uid tid db = (Inr task, db') \<Longrightarrow>
     t_status task \<in> allowed \<Longrightarrow>
     orch_step (db, ps) (db', PMove pid uid task target # ps)"
| write_move:
    "orch_transition pid uid task target db = (r, db') \<Longrightarrow>
     orch_step (db, xs @ PMove pid uid task target # ys) (db', xs @ ys)"
| read_grant:
    "\<forall>c \<in> requested. is_external_capability c \<Longrightarrow> orch_get pid uid tid db = (Inr task, db') \<Longrightarrow>
     t_status task \<in> {TS_AUTHORIZED, TS_EXECUTING, TS_BLOCKED} \<Longrightarrow>
     orch_step (db, ps) (db', PGrant pid uid task requested # ps)"
| write_grant:
    "or_conflict (t_id task) (update_task_external_auth_cas pid uid (t_id task) (t_revision task)
       (t_status task) (t_ext_auth task \<union> requested)) db = (r, db') \<Longrightarrow>
     orch_step (db, xs @ PGrant pid uid task requested # ys) (db', xs @ ys)"
| read_accept:
    "orch_get pid uid tid db = (Inr task, db1) \<Longrightarrow> t_status task = TS_REVIEWING \<Longrightarrow>
     list_capability_uses pid uid tid db1 = (Inr used, db') \<Longrightarrow>
     wa_passed (evaluate_weak_accept env (t_goals task) covered (t_required task) arts (t_ext_auth task) used) \<Longrightarrow>
     orch_step (db, ps) (db', PAccept pid uid task arts # ps)"
| write_accept:
    "or_conflict (t_id task) (complete_weak_accept pid uid (t_id task) (t_revision task) arts) db = (r, db') \<Longrightarrow>
     orch_step (db, xs @ PAccept pid uid task arts # ys) (db', xs @ ys)"
| new_task:
    "insert_task tid pid title goals required status sched auth ext 1 db = (r, db') \<Longrightarrow>
     orch_step (db, ps) (db', ps)"
| other:
    "tasks db' = tasks db \<Longrightarrow> orch_step (db, ps) (db', ps)"

inductive_cases orch_stepE: "orch_step (db, ps) (db', ps')"

fun pending_ok :: "pending \<Rightarrow> bool" where
  "pending_ok (PMove pid uid task target) = legal (t_status task) target"
| "pending_ok (PGrant pid uid task requested) =
     ((\<forall>c \<in> requested. is_external_capability c) \<and> t_status task \<in> {TS_AUTHORIZED, TS_EXECUTING, TS_BLOCKED})"
| "pending_ok (PAccept pid uid task arts) = (t_status task = TS_REVIEWING)"

definition orch_inv :: "db \<times> pending list \<Rightarrow> bool" where
  "orch_inv s \<longleftrightarrow> distinct (map tk_id (tasks (fst s))) \<and> list_all pending_ok (snd s)"

text \<open>How a row may change: not at all, or by one revision along a legal transition.\<close>

definition row_step :: "task_row \<Rightarrow> task_row \<Rightarrow> bool" where
  "row_step r r' \<longleftrightarrow> r' = r \<or>
     tk_id r' = tk_id r \<and> tk_project r' = tk_project r \<and> tk_goals r' = tk_goals r
     \<and> tk_required r' = tk_required r \<and> tk_revision r' = tk_revision r + 1
     \<and> (tk_status r' = tk_status r \<or> legal (tk_status r) (tk_status r'))"

definition rows_step :: "task_row list \<Rightarrow> task_row list \<Rightarrow> bool" where
  "rows_step rs rs' \<longleftrightarrow> (\<exists>new. distinct (map tk_id rs @ map tk_id new) \<and>
     list_all2 row_step (rs @ new) rs')"

lemma row_step_refl [simp]: "row_step r r"
  by (simp add: row_step_def)

lemma row_step_id: "row_step r r' \<Longrightarrow> tk_id r' = tk_id r"
  by (auto simp: row_step_def)

lemma rows_step_refl: "distinct (map tk_id rs) \<Longrightarrow> rows_step rs rs"
  unfolding rows_step_def by (intro exI [of _ "[]"]) (simp add: list_all2_same)

lemma rows_step_distinct: "rows_step rs rs' \<Longrightarrow> distinct (map tk_id rs')"
proof -
  assume "rows_step rs rs'"
  then obtain new where d: "distinct (map tk_id (rs @ new))" and l: "list_all2 row_step (rs @ new) rs'"
    by (auto simp: rows_step_def)
  have "list_all2 (\<lambda>a b. tk_id a = tk_id b) (rs @ new) rs'"
    using l by (rule list_all2_mono) (simp add: row_step_id)
  then have "map tk_id (rs @ new) = map tk_id rs'" 
    by (auto simp: list_all2_conv_all_nth intro!: nth_equalityI simp del: map_append)
  with d show ?thesis by (simp only: )
qed

lemma cas_effect_rows:
  assumes "cas_effect pid tid rvn st f db db'" and "distinct (map tk_id (tasks db))"
    and "\<And>r. tk_id (f r) = tk_id r \<and> tk_project (f r) = tk_project r \<and> tk_goals (f r) = tk_goals r
           \<and> tk_required (f r) = tk_required r"
    and "\<And>r. tk_status r = st \<Longrightarrow> tk_status (f r) = tk_status r \<or> legal (tk_status r) (tk_status (f r))"
  shows "rows_step (tasks db) (tasks db')"
proof (cases "tasks db' = tasks db")
  case True
  then show ?thesis using assms(2) by (simp add: rows_step_refl)
next
  case False
  then obtain now where eq: "tasks db' = map (cas_row pid tid rvn st f now) (tasks db)"
    using assms(1) by (auto simp: cas_effect_def)
  have "row_step r (cas_row pid tid rvn st f now r)" for r
    using assms(3,4) by (auto simp: cas_row_def row_step_def task_at_def)
  then have "list_all2 row_step (tasks db @ []) (tasks db')"
    by (simp add: eq list.rel_map list_all2_same)
  moreover have "distinct (map tk_id (tasks db) @ map tk_id ([] :: task_row list))" using assms(2) by simp
  ultimately show ?thesis unfolding rows_step_def by blast
qed

lemma insert_task_rows:
  assumes "insert_task tid pid title goals required status sched auth ext rvn db = (r, db')"
    and "distinct (map tk_id (tasks db))"
  shows "rows_step (tasks db) (tasks db')"
proof (cases r)
  case (Inl e)
  have "tasks db' = tasks db"
    using assms(1) Inl
    by (auto simp: insert_task_def bindE_eq_Inl tick_def gets_def modify_def ret_def Let_def
        dest!: keepsD [OF keeps_constraints [of tasks]])
  then show ?thesis using assms(2) by (simp add: rows_step_refl)
next
  case (Inr row)
  then have "tk_id row \<notin> tk_id ` set (tasks db)" "tasks db' = tasks db @ [row]"
    using assms(1)
    by (auto simp: insert_task_def bindE_eq_Inr tick_def gets_def modify_def ret_def constraints_Inr Let_def)
  then show ?thesis unfolding rows_step_def using assms(2)
    by (intro exI [of _ "[row]"]) (auto simp: list_all2_same)
qed

lemma complete_weak_accept_effect:
  "cas_effect pid tid rvn TS_REVIEWING (\<lambda>r. r\<lparr>tk_status := TS_DONE\<rparr>) db
     (snd (complete_weak_accept pid uid tid rvn arts db))"
proof -
  let ?m = "bindE (task_cas pid uid tid rvn TS_REVIEWING (\<lambda>r. r\<lparr>tk_status := TS_DONE\<rparr>)) (\<lambda>task.
       bindE (insert_artifacts pid tid arts) (\<lambda>_. ret task))"
  have "cas_effect pid tid rvn TS_REVIEWING (\<lambda>r. r\<lparr>tk_status := TS_DONE\<rparr>) db (snd (?m db))"
  proof -
    obtain r db1 where c: "task_cas pid uid tid rvn TS_REVIEWING (\<lambda>r. r\<lparr>tk_status := TS_DONE\<rparr>) db = (r, db1)"
      by force
    have "keeps tasks (bindE (insert_artifacts pid tid arts) (\<lambda>_. ret task))" for task :: workshop_task
      by (intro frame_intros)
    then have "tasks (snd (?m db)) = tasks db1"
      using c by (cases r) (auto simp: bindE_def [of "task_cas pid uid tid rvn TS_REVIEWING (\<lambda>r. r\<lparr>tk_status := TS_DONE\<rparr>)"] keeps_def)
    moreover have "cas_effect pid tid rvn TS_REVIEWING (\<lambda>r. r\<lparr>tk_status := TS_DONE\<rparr>) db db1"
      using task_cas_effect [of pid tid rvn TS_REVIEWING "\<lambda>r. r\<lparr>tk_status := TS_DONE\<rparr>" db uid] c by simp
    ultimately show ?thesis by (simp add: cas_effect_def)
  qed
  then show ?thesis
    by (auto simp: complete_weak_accept_def update_task_cas_eqs bindE_def [of "require_project pid uid"]
        require_project_run in_transaction_def cas_effect_def split: prod.splits sum.splits option.splits)
qed

section \<open>Every step follows a legal transition\<close>

lemma orch_step_rows:
  assumes "orch_step s s'" and "orch_inv s"
  shows "rows_step (tasks (fst s)) (tasks (fst s')) \<and> orch_inv s'"
proof -
  have d: "distinct (map tk_id (tasks (fst s)))" using assms(2) by (simp add: orch_inv_def)
  have rows: "rows_step (tasks (fst s)) (tasks (fst s'))"
    using assms
  proof (cases rule: orch_step.cases)
    case (write_move pid uid task target db r db' xs ys)
    have "cas_effect pid (t_id task) (t_revision task) (t_status task) (\<lambda>r. r\<lparr>tk_status := target\<rparr>) db db'"
      using task_cas_effect [of pid "t_id task" "t_revision task" "t_status task" "\<lambda>r. r\<lparr>tk_status := target\<rparr>" db uid]
        write_move(3) or_conflict_state [of "t_id task"]
      by (metis orch_transition_def snd_conv update_task_cas_eqs(1))
    moreover have "legal (t_status task) target" using assms(2) write_move by (simp add: orch_inv_def)
    ultimately show ?thesis using write_move d by (auto intro: cas_effect_rows)
  next
    case (write_grant task pid uid requested db r db' xs ys)
    have "cas_effect pid (t_id task) (t_revision task) (t_status task)
        (\<lambda>r. r\<lparr>tk_ext_auth := dump_capabilities (t_ext_auth task \<union> requested)\<rparr>) db db'"
      using task_cas_effect [of pid "t_id task" "t_revision task" "t_status task" _ db uid]
        write_grant(3) or_conflict_state [of "t_id task"]
      by (metis snd_conv update_task_cas_eqs(2))
    then show ?thesis using write_grant d by (auto intro: cas_effect_rows)
  next
    case (write_accept task pid uid arts db r db' xs ys)
    have "cas_effect pid (t_id task) (t_revision task) TS_REVIEWING (\<lambda>r. r\<lparr>tk_status := TS_DONE\<rparr>) db db'"
      using complete_weak_accept_effect [of pid "t_id task" "t_revision task" db uid arts]
        write_accept(3) or_conflict_state [of "t_id task"]
      by (metis snd_conv)
    then show ?thesis using write_accept d by (auto intro: cas_effect_rows)
  next
    case new_task
    with d show ?thesis by (auto intro: insert_task_rows)
  next
    case read_accept
    with d show ?thesis
      by (auto dest!: orch_get_Inr keepsD [OF reads_only(7) [of tasks]] intro: rows_step_refl)
  qed (use d in \<open>auto dest!: orch_get_Inr intro: rows_step_refl\<close>)
  moreover have "list_all pending_ok (snd s')"
    using assms by (cases rule: orch_step.cases) (auto simp: orch_inv_def handler_moves_legal)
  ultimately show ?thesis by (simp add: orch_inv_def rows_step_distinct)
qed

text \<open>Along a run, the rows of a task form a chain of such steps.\<close>

lemma rows_step_find:
  assumes "rows_step rs rs'" and "r \<in> set rs"
  shows "\<exists>r' \<in> set rs'. row_step r r'"
proof -
  obtain new where "list_all2 row_step (rs @ new) rs'" using assms(1) by (auto simp: rows_step_def)
  moreover have "r \<in> set (rs @ new)" using assms(2) by simp
  ultimately show ?thesis by (metis in_set_conv_nth list_all2_conv_all_nth)
qed

lemma orch_run_rows:
  assumes "orch_step\<^sup>*\<^sup>* s s'" and "orch_inv s" and "r \<in> set (tasks (fst s))"
  shows "orch_inv s' \<and> (\<exists>r' \<in> set (tasks (fst s')). row_step\<^sup>*\<^sup>* r r')"
  using assms
proof (induction rule: rtranclp_induct)
  case base
  then show ?case by blast
next
  case (step s1 s2)
  then obtain r1 where r1: "r1 \<in> set (tasks (fst s1))" "row_step\<^sup>*\<^sup>* r r1" and inv: "orch_inv s1" by blast
  from orch_step_rows [OF step(2) inv] rows_step_find [OF _ r1(1)] obtain r2 where
    "r2 \<in> set (tasks (fst s2))" "row_step r1 r2" "orch_inv s2" by blast
  with r1(2) show ?case by (meson rtranclp.rtrancl_into_rtrancl)
qed

lemma row_steps_revision:
  "row_step\<^sup>*\<^sup>* r r' \<Longrightarrow> tk_id r' = tk_id r \<and> (r' = r \<or> tk_revision r < tk_revision r')
     \<and> legal\<^sup>*\<^sup>* (tk_status r) (tk_status r')"
proof (induction rule: rtranclp_induct)
  case (step r1 r2)
  from step(2) have "r2 = r1 \<or> tk_revision r2 = tk_revision r1 + 1 \<and> tk_id r2 = tk_id r1
      \<and> (tk_status r2 = tk_status r1 \<or> legal (tk_status r1) (tk_status r2))"
    by (auto simp: row_step_def)
  then show ?case using step(3) by (auto intro: rtranclp.rtrancl_into_rtrancl)
qed simp

lemma legal_run_terminal:
  "legal\<^sup>*\<^sup>* s s' \<Longrightarrow> s \<in> {TS_FAILED, TS_CANCELLED} \<Longrightarrow> s' = s"
  by (induction rule: rtranclp_induct) (use legal_terminal in blast)+

definition sample_task :: task_row where
  "sample_task =
     \<lparr>tk_id = ''t1'', tk_project = ''p1'', tk_title = ''T'', tk_goals = JList [], tk_required = JList [],
      tk_status = TS_AUTHORIZED, tk_schedule = None, tk_sched_auth = False, tk_ext_auth = JList [],
      tk_revision = 3, tk_created = 0, tk_updated = 0\<rparr>"

definition sample_db :: db where
  "sample_db =
     \<lparr>projects = [\<lparr>pr_id = ''p1'', pr_user = 7, pr_name = ''P'', pr_group_chat = 1, pr_brief = JObj [],
                   pr_created = 0, pr_updated = 0\<rparr>],
      experts = [], task_proposals = [], expert_proposals = [], tasks = [sample_task],
      task_experts = [], capability_uses = [], workflows = [], workflow_runs = [], schedules = [],
      schedule_runs = [], artifacts = [], events = [], room_members = [], conversations = [(1, 7)],
      db_clock = int, db_uuids = nat_str, db_driver = (\<lambda>v. []),
      db_enqueued = [], db_revoked = []\<rparr>"

definition sample_read :: workshop_task where
  "sample_read =
     \<lparr>t_id = ''t1'', t_project = ''p1'', t_title = ''T'', t_goals = [], t_required = [],
      t_status = TS_AUTHORIZED, t_schedule = None, t_sched_auth = False, t_ext_auth = {}, t_revision = 3\<rparr>"

lemma sample_get: "orch_get ''p1'' 7 ''t1'' sample_db = (Inr sample_read, sample_db)"
  by (simp add: orch_get_def require_task_def get_task_def require_project_run bindE_def gets_def
      catchE_def first_or_run sample_db_def sample_task_def sample_read_def to_task_def
      parse_string_list_def parse_capabilities_def liftR_def ret_def)

lemma sample_db_tasks: "tasks sample_db = [sample_task]"
  by (simp add: sample_db_def)



section \<open>What a handler does on its own\<close>

lemma find_map_cas:
  assumes "\<And>r. tk_id (f r) = tk_id r \<and> tk_project (f r) = tk_project r"
  shows "find (\<lambda>r. tk_id r = tid \<and> tk_project r = pid) (map (cas_row pid' tid' rvn st f now) rows)
   = map_option (cas_row pid' tid' rvn st f now) (find (\<lambda>r. tk_id r = tid \<and> tk_project r = pid) rows)"
  using assms by (induction rows) (auto simp: cas_row_def)

lemma count_rows_one:
  "distinct (map tk_id rows) \<Longrightarrow> r \<in> set rows \<Longrightarrow> tk_id r = tid \<Longrightarrow> task_at pid tid rvn st r \<Longrightarrow>
   count_rows (task_at pid tid rvn st) rows = 1"
proof -
  assume d: "distinct (map tk_id rows)" and r: "r \<in> set rows" "tk_id r = tid" "task_at pid tid rvn st r"
  have "task_at pid tid rvn st x \<longleftrightarrow> x = r" if "x \<in> set rows" for x
    using that d r by (auto simp: task_at_def distinct_map dest: inj_onD)
  then have "set (filter (task_at pid tid rvn st) rows) = {r}" using r by auto
  moreover have "distinct (filter (task_at pid tid rvn st) rows)" using d by (simp add: distinct_map)
  ultimately show ?thesis by (metis One_nat_def card.empty card_insert_if count_rows_def distinct_card
        empty_iff finite.emptyI)
qed

lemma orch_get_row:
  assumes "orch_get pid uid tid db = (Inr task, db0)"
  obtains p r where "find (\<lambda>r. pr_id r = pid \<and> pr_user r = uid) (projects db) = Some p"
    "find (\<lambda>r. tk_id r = tid \<and> tk_project r = pid) (tasks db) = Some r" "to_task r = Inr task"
proof -
  have "require_task pid uid tid db = (Inr task, db0)"
    using assms by (auto simp: orch_get_def catchE_def raise_def split: prod.splits sum.splits exc.splits)
  then obtain p r where "find (\<lambda>r. pr_id r = pid \<and> pr_user r = uid) (projects db) = Some p"
    "find (\<lambda>r. tk_id r = tid \<and> tk_project r = pid) (tasks db) = Some r" "to_task r = Inr task"
    by (auto simp: require_task_def get_task_def bindE_eq_Inr first_or_run gets_def liftR_def ret_def
        require_project_run split: option.splits)
  then show ?thesis by (rule that)
qed

text \<open>A compare-and-set with the revision and status just read succeeds.\<close>

lemma task_cas_found:
  assumes g: "orch_get pid uid tid db = (Inr task, db0)" and dist: "distinct (map tk_id (tasks db))"
    and f: "\<And>r. tk_id (f r) = tk_id r \<and> tk_project (f r) = tk_project r"
    and t': "\<And>r now. to_task r = Inr task \<Longrightarrow>
        to_task ((f r)\<lparr>tk_revision := t_revision task + 1, tk_updated := now\<rparr>) = Inr t'"
  shows "task_cas pid uid tid (t_revision task) (t_status task) f db =
     (Inr t', db\<lparr>db_clock := (\<lambda>n. db_clock db (Suc n)),
         tasks := map (cas_row pid tid (t_revision task) (t_status task) f (db_clock db 0)) (tasks db)\<rparr>)"
proof -
  obtain p r where p: "find (\<lambda>r. pr_id r = pid \<and> pr_user r = uid) (projects db) = Some p"
    and r: "find (\<lambda>r. tk_id r = tid \<and> tk_project r = pid) (tasks db) = Some r" "to_task r = Inr task"
    using g by (rule orch_get_row)
  note fields = to_task_fields [OF r(2)] find_SomeD [OF r(1)]
  have at: "task_at pid tid (t_revision task) (t_status task) r" using fields by (simp add: task_at_def)
  have "count_rows (task_at pid tid (t_revision task) (t_status task)) (tasks db) = 1"
    using fields at by (intro count_rows_one [OF dist]) auto
  moreover have "to_task (cas_row pid tid (t_revision task) (t_status task) f now r) = Inr t'" for now
    using t' [OF r(2)] at by (simp add: cas_row_def)
  ultimately show ?thesis using p r(1)
    by (simp add: task_cas_def bindE_def require_project_run update_tasks_run ensure_def update_rows_cas
        require_task_def get_task_def gets_def find_map_cas [OF f] liftR_def ret_def first_or_run)
qed

lemma task_cas_status:
  assumes "orch_get pid uid tid db = (Inr task, db0)" and "distinct (map tk_id (tasks db))"
  shows "task_cas pid uid tid (t_revision task) (t_status task) (\<lambda>r. r\<lparr>tk_status := target\<rparr>) db =
     (Inr (task\<lparr>t_status := target, t_revision := t_revision task + 1\<rparr>),
      db\<lparr>db_clock := (\<lambda>n. db_clock db (Suc n)),
         tasks := map (cas_row pid tid (t_revision task) (t_status task)
                         (\<lambda>r. r\<lparr>tk_status := target\<rparr>) (db_clock db 0)) (tasks db)\<rparr>)"
  by (rule task_cas_found [OF assms]) (auto simp: to_task_def bindR_Inr)

lemma orch_get_state [simp]: "snd (orch_get pid uid tid db) = db"
proof -
  have "keeps (\<lambda>s. s) (orch_get pid uid tid)"
    unfolding orch_get_def by (auto split: exc.splits intro!: frame_intros)
  then show ?thesis by (simp add: keeps_def)
qed

lemma guarded_transition_run:
  assumes "distinct (map tk_id (tasks db))"
  shows "guarded_transition allowed what target pid uid tid db =
     (case fst (orch_get pid uid tid db) of
        Inl e \<Rightarrow> (Inl e, db)
      | Inr task \<Rightarrow>
          if t_status task \<in> allowed
          then (Inr (task\<lparr>t_status := target, t_revision := t_revision task + 1\<rparr>),
                db\<lparr>db_clock := (\<lambda>n. db_clock db (Suc n)),
                   tasks := map (cas_row pid tid (t_revision task) (t_status task)
                                   (\<lambda>r. r\<lparr>tk_status := target\<rparr>) (db_clock db 0)) (tasks db)\<rparr>)
          else (Inl (TOE (''cannot '' @ what @ '' from '' @ task_status_value (t_status task))), db))"
proof (cases "fst (orch_get pid uid tid db)")
  case (Inl e)
  then have "orch_get pid uid tid db = (Inl e, db)" by (metis orch_get_state prod.collapse)
  then show ?thesis by (simp add: guarded_transition_def bindE_def)
next
  case (Inr task)
  then have g: "orch_get pid uid tid db = (Inr task, db)" by (metis orch_get_state prod.collapse)
  then have "t_id task = tid" using orch_get_Inr [OF g] to_task_fields by blast
  with g task_cas_status [OF g assms] show ?thesis
    by (auto simp: guarded_transition_def bindE_def ensure_def orch_transition_def update_task_cas_eqs
        or_conflict_def catchE_def)
qed

text \<open>The transition handlers with the statuses they accept and the status they set.\<close>

definition orch_handlers ::
    "((string \<Rightarrow> int \<Rightarrow> string \<Rightarrow> (db, workshop_task) eff) \<times> task_status set \<times> task_status) list" where
  "orch_handlers =
     [(host_propose_go, {TS_ALIGNING, TS_RE_ALIGNING}, TS_AWAITING_GO),
      (user_confirm_go, {TS_AWAITING_GO}, TS_AUTHORIZED),
      (begin_execution, {TS_AUTHORIZED}, TS_EXECUTING),
      (mark_blocked, {TS_EXECUTING}, TS_BLOCKED),
      (mark_re_aligning, {TS_EXECUTING, TS_BLOCKED, TS_REVIEWING}, TS_RE_ALIGNING),
      (mark_reviewing, {TS_EXECUTING}, TS_REVIEWING),
      (orch_cancel, - {TS_DONE, TS_FAILED, TS_CANCELLED}, TS_CANCELLED),
      (orch_fail, {TS_EXECUTING, TS_BLOCKED, TS_REVIEWING}, TS_FAILED),
      (user_reject_done, {TS_DONE}, TS_RE_ALIGNING),
      (fail_review_blocked, {TS_REVIEWING}, TS_BLOCKED)]"

lemma orch_handlers_guarded:
  "(h, allowed, target) \<in> set orch_handlers \<Longrightarrow> \<exists>what. h = guarded_transition allowed what target"
  by (auto simp: orch_handlers_def host_propose_go_def user_confirm_go_def begin_execution_def
      mark_blocked_def mark_re_aligning_def mark_reviewing_def orch_cancel_def orch_fail_def
      user_reject_done_def fail_review_blocked_def)

text \<open>
  A transition handler of the orchestrator, run alone on distinct task ids, raises and leaves
  every task as it was, or finds the task in one of its accepted statuses, returns it in the target
  status with the next revision, and changes no other task.
\<close>

theorem handler_all_or_nothing:
  assumes "(h, allowed, target) \<in> set orch_handlers" and "distinct (map tk_id (tasks db))"
    and "h pid uid tid db = (res, db')"
  shows "(\<exists>e. res = Inl e) \<and> tasks db' = tasks db \<or>
     (\<exists>r \<in> set (tasks db). \<exists>t. res = Inr t \<and> tk_id r = tid \<and> tk_project r = pid \<and> tk_status r \<in> allowed
        \<and> t_status t = target \<and> t_revision t = tk_revision r + 1
        \<and> tasks db' = map (\<lambda>x. if tk_id x = tid
                                then r\<lparr>tk_status := target, tk_revision := tk_revision r + 1,
                                       tk_updated := db_clock db 0\<rparr> else x) (tasks db))"
proof -
  obtain what where h: "h = guarded_transition allowed what target"
    using orch_handlers_guarded [OF assms(1)] by blast
  note run = guarded_transition_run [OF assms(2), of allowed what target pid uid tid, folded h, unfolded assms(3)]
  show ?thesis
  proof (cases "fst (orch_get pid uid tid db)")
    case (Inl e)
    with run show ?thesis by auto
  next
    case (Inr task)
    then have "orch_get pid uid tid db = (Inr task, db)" by (metis orch_get_state prod.collapse)
    from orch_get_Inr [OF this] obtain r where
      r: "r \<in> set (tasks db)" "tk_id r = tid" "tk_project r = pid" "to_task r = Inr task" by blast
    note f = to_task_fields [OF r(4)]
    have "cas_row pid tid (t_revision task) (t_status task) (\<lambda>r. r\<lparr>tk_status := target\<rparr>) now x
        = (if tk_id x = tid then r\<lparr>tk_status := target, tk_revision := tk_revision r + 1, tk_updated := now\<rparr> else x)"
      if "x \<in> set (tasks db)" for x now
      using that r f assms(2) by (auto simp: cas_row_def task_at_def distinct_map dest: inj_onD)
    then have "map (cas_row pid tid (t_revision task) (t_status task) (\<lambda>r. r\<lparr>tk_status := target\<rparr>) (db_clock db 0)) (tasks db)
        = map (\<lambda>x. if tk_id x = tid then r\<lparr>tk_status := target, tk_revision := tk_revision r + 1,
                                       tk_updated := db_clock db 0\<rparr> else x) (tasks db)"
      by (intro map_cong) auto
    with Inr run r f show ?thesis by (auto split: if_splits)
  qed
qed

theorem handler_all_or_nothing_witness:
  "\<exists>t db'. begin_execution ''p1'' 7 ''t1'' sample_db = (Inr t, db')
     \<and> t_status t = TS_EXECUTING \<and> t_revision t = 4"
proof -
  have d: "distinct (map tk_id (tasks sample_db))" by (simp add: sample_db_tasks)
  have m: "(begin_execution, {TS_AUTHORIZED}, TS_EXECUTING) \<in> set orch_handlers"
    by (simp add: orch_handlers_def)
  obtain res db' where r: "begin_execution ''p1'' 7 ''t1'' sample_db = (res, db')" by force
  moreover have "\<exists>t. res = Inr t"
    using r guarded_transition_run [OF d, of "{TS_AUTHORIZED}" "''begin execution''" TS_EXECUTING "''p1''" 7 "''t1''"]
    by (auto simp: begin_execution_def sample_get sample_read_def)
  ultimately show ?thesis
    using handler_all_or_nothing [OF m d r] by (auto simp: sample_db_tasks sample_task_def)
qed

section \<open>Granting external capabilities\<close>

lemma finite_capabilities [simp]: "finite (S :: capability set)"
  by (metis List.finite_set all_capability_UNIV finite_subset subset_UNIV)

lemma parse_dump_capabilities [simp]: "parse_capabilities (dump_capabilities S) = Inr S"
proof -
  let ?vs = "sorted_list_of_set (capability_value ` S)"
  have set: "set ?vs = capability_value ` S" by simp
  have "capability_of v = Inr (the_inv capability_value v)" if "v \<in> set ?vs" for v
    using that inj_capability_value by (auto simp: set the_inv_f_f)
  then have "mapR (\<lambda>v. capability_of (py_str v)) (map JStr ?vs) = Inr (map (the_inv capability_value) ?vs)"
    by (simp add: mapR_Inr_iff list.rel_map list_all2_same)
  moreover have "set (map (the_inv capability_value) ?vs) = S"
    using inj_capability_value by (auto simp: the_inv_f_f image_iff)
  ultimately show ?thesis by (simp add: parse_capabilities_def dump_capabilities_def)
qed

lemma task_cas_auth:
  assumes "orch_get pid uid tid db = (Inr task, db0)" and "distinct (map tk_id (tasks db))"
  shows "task_cas pid uid tid (t_revision task) (t_status task)
       (\<lambda>r. r\<lparr>tk_ext_auth := dump_capabilities S\<rparr>) db =
     (Inr (task\<lparr>t_ext_auth := S, t_revision := t_revision task + 1\<rparr>),
      db\<lparr>db_clock := (\<lambda>n. db_clock db (Suc n)),
         tasks := map (cas_row pid tid (t_revision task) (t_status task)
                         (\<lambda>r. r\<lparr>tk_ext_auth := dump_capabilities S\<rparr>) (db_clock db 0)) (tasks db)\<rparr>)"
  by (rule task_cas_found [OF assms]) (auto simp: to_task_def bindR_Inr)

text \<open>
  Granting external capabilities to a task: a request with a non-external capability, an unknown
  task or a task that is not authorized, executing or blocked is refused and no task changes;
  otherwise the task returned, and stored, has exactly the old and the requested capabilities.
\<close>

theorem grant_external_auth_exact:
  assumes "distinct (map tk_id (tasks db))" and "grant_external_auth pid uid tid requested db = (res, db')"
  shows "(\<exists>e. res = Inl e) \<and> tasks db' = tasks db
     \<or> (\<exists>task t. orch_get pid uid tid db = (Inr task, db) \<and> res = Inr t
          \<and> t_status task \<in> {TS_AUTHORIZED, TS_EXECUTING, TS_BLOCKED} \<and> t_status t = t_status task
          \<and> (\<forall>c \<in> requested. is_external_capability c)
          \<and> t_ext_auth t = t_ext_auth task \<union> requested
          \<and> orch_get pid uid tid db' = (Inr t, db'))"
proof (cases "(\<forall>c \<in> requested. is_external_capability c) \<and> (\<exists>task. fst (orch_get pid uid tid db) = Inr task
    \<and> t_status task \<in> {TS_AUTHORIZED, TS_EXECUTING, TS_BLOCKED})")
  case False
  obtain r0 where g: "orch_get pid uid tid db = (r0, db)" by (metis orch_get_state prod.collapse)
  have "(\<exists>e. res = Inl e) \<and> db' = db"
    using False assms(2) g
    by (cases r0) (auto simp: grant_external_auth_def bindE_def ensure_def split: if_splits)
  then show ?thesis by blast
next
  case True
  then obtain task where g: "orch_get pid uid tid db = (Inr task, db)"
    and st: "t_status task \<in> {TS_AUTHORIZED, TS_EXECUTING, TS_BLOCKED}"
    and ext: "\<forall>c \<in> requested. is_external_capability c" by (metis orch_get_state prod.collapse)
  let ?t = "task\<lparr>t_ext_auth := t_ext_auth task \<union> requested, t_revision := t_revision task + 1\<rparr>"
  note cas = task_cas_auth [OF g assms(1), of "t_ext_auth task \<union> requested"]
  have res: "res = Inr ?t"
    and db': "task_cas pid uid tid (t_revision task) (t_status task)
       (\<lambda>r. r\<lparr>tk_ext_auth := dump_capabilities (t_ext_auth task \<union> requested)\<rparr>) db = (Inr ?t, db')"
    using assms(2) g st ext cas
    by (simp_all add: grant_external_auth_def bindE_def ensure_def update_task_cas_eqs or_conflict_def catchE_def)
  have "orch_get pid uid tid db' = (Inr ?t, db')"
    using task_cas_Inr [OF db'] by (simp add: orch_get_def catchE_def)
  with g st ext res show ?thesis by (intro disjI2 exI [of _ task] exI [of _ ?t]) simp
qed

theorem grant_external_auth_exact_witness:
  "\<exists>t db'. grant_external_auth ''p1'' 7 ''t1'' {MCP} sample_db = (Inr t, db') \<and> t_ext_auth t = {MCP}"
proof -
  have d: "distinct (map tk_id (tasks sample_db))" by (simp add: sample_db_tasks)
  obtain res db' where r: "grant_external_auth ''p1'' 7 ''t1'' {MCP} sample_db = (res, db')" by force
  moreover have "\<exists>t. res = Inr t"
    using r task_cas_auth [OF sample_get d, of "{MCP}"]
    by (auto simp: grant_external_auth_def bindE_def ensure_def is_external_capability_def
        external_capabilities_def sample_get update_task_cas_eqs or_conflict_def catchE_def
        sample_read_def)
  ultimately show ?thesis
    using grant_external_auth_exact [OF d r] by (auto simp: sample_get sample_read_def)
qed

end
