(* ===== verification/Expert_Profiles.thy ===== *)
theory Expert_Profiles
  imports Workshop_Enums
begin

text \<open>
  The expert profiles of the platform (\<open>app/server/workshop/domain/ecommerce/profiles.py\<close>) and the
  catalogue that workflow validation uses (\<open>domain/preset_catalog.py\<close>, \<open>domain/presets.py\<close>).
  The prompt text of a profile is not modelled.
\<close>

record expert_profile =
  ep_key :: string
  ep_title :: string
  ep_expert_kind :: expert_kind
  ep_skills :: "string list"
  ep_allowlist :: "capability list"
  ep_deliverables :: "string list"
  ep_mcp_servers :: "string list"
  ep_beta :: bool

text \<open>The display names, in UTF-8.\<close>

definition market_title :: string where
  "market_title = map char_of [229, 184, 130, 229, 156, 186, 228, 184, 142, 231, 171, 158, 229, 147, 129, 231, 160, 148, 231, 169, 182 :: nat]"

definition listing_title :: string where
  "listing_title = map char_of [229, 149, 134, 229, 147, 129, 231, 173, 150, 229, 136, 146, 228, 184, 142, 230, 150, 135, 230, 161, 136 :: nat]"

definition campaign_title :: string where
  "campaign_title = map char_of [232, 144, 165, 233, 148, 128, 230, 180, 187, 229, 138, 168, 231, 173, 150, 229, 136, 146 :: nat]"

definition ads_title :: string where
  "ads_title = map char_of [229, 185, 191, 229, 145, 138, 231, 173, 150, 231, 149, 165, 228, 184, 142, 229, 136, 134, 230, 158, 144 :: nat]"

definition analytics_title :: string where
  "analytics_title = map char_of [231, 187, 143, 232, 144, 165, 229, 136, 134, 230, 158, 144, 228, 184, 142, 229, 164, 141, 231, 155, 152 :: nat]"

definition store_title :: string where
  "store_title = map char_of [230, 183, 152, 229, 164, 169, 229, 186, 151, 233, 147, 186, 232, 191, 144, 232, 144, 165 :: nat]"

definition read_caps :: "capability list" where
  "read_caps = [WEB_SEARCH, WEB_FETCH_READONLY, READ_UPLOADS, READ_PROJECT_FILES, BROWSER_READ, PROPOSE_INVITE]"

definition ecom_profiles :: "expert_profile list" where
  "ecom_profiles =
     [\<lparr>ep_key = ''ecom_market_competitor_advisor'', ep_title = market_title,
       ep_expert_kind = EK_ADVISOR,
       ep_skills = [''customer-research'', ''competitive-brief'', ''competitor-profiling'',
                    ''ecommerce-competitor-analysis''],
       ep_allowlist = read_caps, ep_deliverables = [''MarketCompetitorBrief''],
       ep_mcp_servers = [], ep_beta = False\<rparr>,
      \<lparr>ep_key = ''ecom_listing_planner_executor'', ep_title = listing_title,
       ep_expert_kind = EK_EXECUTOR,
       ep_skills = [''product-description-generator'', ''cro'', ''ecom-landing-pages'', ''ad-creative'',
                    ''taobao-listing-official-rules''],
       ep_allowlist = read_caps @ [WRITE_PROJECT_FILES, WRITE_TEMP_WORKSPACE, GENERATION_LIST_MODELS,
                    GENERATION_SUBMIT, SANDBOX_EXECUTE, REQUEST_EXTERNAL_AUTH],
       ep_deliverables = [''ListingCopyVersion'', ''CreativeBrief'', ''GenerationAssetRef''],
       ep_mcp_servers = [], ep_beta = False\<rparr>,
      \<lparr>ep_key = ''ecom_campaign_planner_executor'', ep_title = campaign_title,
       ep_expert_kind = EK_EXECUTOR,
       ep_skills = [''campaign-plan'', ''ecommerce-marketing-strategy-builder'', ''email-sequence''],
       ep_allowlist = read_caps @ [WRITE_PROJECT_FILES, WRITE_TEMP_WORKSPACE],
       ep_deliverables = [''CampaignPlanDoc'', ''EmailSequenceDraft''],
       ep_mcp_servers = [], ep_beta = False\<rparr>,
      \<lparr>ep_key = ''ecom_ads_strategy_analyzer_executor'', ep_title = ads_title,
       ep_expert_kind = EK_EXECUTOR,
       ep_skills = [''ads'', ''ecommerce-ppc-strategy-planner''],
       ep_allowlist = read_caps @ [WRITE_PROJECT_FILES, WRITE_TEMP_WORKSPACE, SANDBOX_EXECUTE],
       ep_deliverables = [''AdsStrategyBrief'', ''AdsReportDiagnosis''],
       ep_mcp_servers = [], ep_beta = True\<rparr>,
      \<lparr>ep_key = ''ecom_ops_analytics_executor'', ep_title = analytics_title,
       ep_expert_kind = EK_EXECUTOR,
       ep_skills = [''performance-report'', ''warehouse-optimization'', ''pricing''],
       ep_allowlist = read_caps @ [WRITE_PROJECT_FILES, WRITE_TEMP_WORKSPACE, SANDBOX_EXECUTE,
                    REQUEST_EXTERNAL_AUTH],
       ep_deliverables = [''MetricsSnapshot'', ''MetricsWorkbook'', ''ReviewDeck'', ''ChartArtifact'',
                    ''DailyOrWeeklyReview'', ''AnomalyList''],
       ep_mcp_servers = [], ep_beta = False\<rparr>,
      \<lparr>ep_key = ''ecom_taobao_store_ops_executor'', ep_title = store_title,
       ep_expert_kind = EK_EXECUTOR,
       ep_skills = [''taobao-open-platform-publish'', ''browser''],
       ep_allowlist = [READ_UPLOADS, READ_PROJECT_FILES, BROWSER_READ, BROWSER_WRITE,
                    TAOBAO_STORE_WRITE, REQUEST_EXTERNAL_AUTH, PROPOSE_INVITE],
       ep_deliverables = [''PublishDiff'', ''PublishReceipt'', ''AuditLogRef''],
       ep_mcp_servers = [], ep_beta = False\<rparr>]"

definition ecom_preset_keys :: "string list" where
  "ecom_preset_keys = map ep_key ecom_profiles"

definition get_ecom_profile :: "string \<Rightarrow> expert_profile res" where
  "get_ecom_profile key =
     (case find (\<lambda>p. ep_key p = key) ecom_profiles of Some p \<Rightarrow> Inr p | None \<Rightarrow> Inl (KeyError key))"

definition is_ecom_preset :: "string \<Rightarrow> bool" where
  "is_ecom_preset key \<longleftrightarrow> key \<in> set ecom_preset_keys"

definition workshop_preset_catalog :: "string set \<times> capability set dict" where
  "workshop_preset_catalog =
     (set (map ep_key ecom_profiles),
      fold (\<lambda>p d. dict_set d (ep_key p) (set (ep_allowlist p))) ecom_profiles [])"

text \<open>Every profile has a key of its own, which the catalogue maps to the profile's allowlist.\<close>

lemma distinct_ecom_keys: "distinct (map ep_key ecom_profiles)"
  by (simp add: ecom_profiles_def)

lemma catalog_allowlist:
  "p \<in> set ecom_profiles \<Longrightarrow> map_of (snd workshop_preset_catalog) (ep_key p) = Some (set (ep_allowlist p))"
  using distinct_ecom_keys
  by (auto simp: workshop_preset_catalog_def dict_set_fold_distinct map_of_eq_Some_iff comp_def)

lemma get_ecom_profile_key: "p \<in> set ecom_profiles \<Longrightarrow> get_ecom_profile (ep_key p) = Inr p"
  by (simp add: get_ecom_profile_def find_distinct_key [OF distinct_ecom_keys])

lemma profile_within_ceiling:
  "p \<in> set ecom_profiles \<Longrightarrow> set (ep_allowlist p) \<subseteq> capabilities_for (expert_kind_to_role (ep_expert_kind p))"
  by (auto simp: ecom_profiles_def read_caps_def advisor_caps_def executor_caps_def)

text \<open>
  The effective capabilities of an expert never exceed the ceiling of its role nor the allowlist
  of its profile, and an external capability is among them only when the task was granted it. For
  the profiles of the platform the allowlist lies within the ceiling, so an expert has exactly its
  non-external capabilities and the granted external ones.
\<close>

theorem effective_capabilities_of_profile:
  assumes "get_ecom_profile key = Inr p"
  shows "resolve_effective_capabilities (expert_kind_to_role (ep_expert_kind p)) (set (ep_allowlist p)) granted
    = {c \<in> set (ep_allowlist p). \<not> is_external_capability c} \<union> (set (ep_allowlist p) \<inter> granted)"
proof -
  have "p \<in> set ecom_profiles"
    using assms by (auto simp: get_ecom_profile_def find_Some_iff split: option.splits)
  from profile_within_ceiling [OF this] show ?thesis
    by (auto simp: resolve_effective_capabilities_def Let_def)
qed

theorem effective_capabilities_of_profile_witness:
  "\<exists>p. get_ecom_profile ''ecom_taobao_store_ops_executor'' = Inr p
     \<and> BROWSER_WRITE \<notin> resolve_effective_capabilities (expert_kind_to_role (ep_expert_kind p)) (set (ep_allowlist p)) {TAOBAO_STORE_WRITE}
     \<and> TAOBAO_STORE_WRITE \<in> resolve_effective_capabilities (expert_kind_to_role (ep_expert_kind p)) (set (ep_allowlist p)) {TAOBAO_STORE_WRITE}"
proof -
  have "\<exists>p. get_ecom_profile ''ecom_taobao_store_ops_executor'' = Inr p \<and> TAOBAO_STORE_WRITE \<in> set (ep_allowlist p)"
    by (simp add: get_ecom_profile_def ecom_profiles_def)
  then obtain p where p: "get_ecom_profile ''ecom_taobao_store_ops_executor'' = Inr p"
    "TAOBAO_STORE_WRITE \<in> set (ep_allowlist p)" by blast
  with effective_capabilities_of_profile [OF p(1), of "{TAOBAO_STORE_WRITE}"] show ?thesis
    by (auto simp: is_external_capability_def external_capabilities_def)
qed

end
