(* ===== verification/Billing_Packs.thy ===== *)
theory Billing_Packs
  imports Prelude
begin

text \<open>
  Credit packs and the parsing of payment notifications:
  \<open>app/server/billing/domain/packs.py\<close>, \<open>domain/grant.py\<close> and the part of \<open>composition.py\<close> that
  reads the configured product identifiers. The settings are arguments.
\<close>

section \<open>Packs\<close>

datatype credit_pack_key = USD_5 | USD_15 | USD_50 | USD_100

fun credit_pack_key_value :: "credit_pack_key \<Rightarrow> string" where
  "credit_pack_key_value USD_5 = ''usd_5''"
| "credit_pack_key_value USD_15 = ''usd_15''"
| "credit_pack_key_value USD_50 = ''usd_50''"
| "credit_pack_key_value USD_100 = ''usd_100''"

definition all_credit_pack_key :: "credit_pack_key list" where
  "all_credit_pack_key = [USD_5, USD_15, USD_50, USD_100]"

text \<open>\<open>CreditPackKey(s)\<close>.\<close>

definition credit_pack_key_of :: "string \<Rightarrow> credit_pack_key res" where
  "credit_pack_key_of s =
     (case find (\<lambda>k. credit_pack_key_value k = s) all_credit_pack_key of
        None \<Rightarrow> Inl (ValueError (repr_str s @ '' is not a valid CreditPackKey''))
      | Some k \<Rightarrow> Inr k)"

definition CREDITS_PER_USD_CENT :: int where
  "CREDITS_PER_USD_CENT = 10"

definition CREDITS_PER_USD :: int where
  "CREDITS_PER_USD = 100 div CREDITS_PER_USD_CENT"

definition credits_for_usd_cents :: "int \<Rightarrow> int res" where
  "credits_for_usd_cents usd_cents =
     (if usd_cents \<le> 0 then Inl (ValueError ''usd_cents must be positive'')
      else if usd_cents mod 100 \<noteq> 0
           then Inl (ValueError ''usd_cents must be whole dollars for credit packs'')
      else Inr (usd_cents div CREDITS_PER_USD_CENT))"

record credit_pack =
  pack_key :: credit_pack_key
  pack_price :: int
  pack_credits :: int
  pack_label :: string

text \<open>One entry of the module-level dictionary; building it may raise.\<close>

definition make_pack :: "credit_pack_key \<Rightarrow> int \<Rightarrow> string \<Rightarrow> (credit_pack_key \<times> credit_pack) res" where
  "make_pack k cents label =
     bindR (credits_for_usd_cents cents) (\<lambda>c.
     Inr (k, \<lparr> pack_key = k, pack_price = cents, pack_credits = c, pack_label = label \<rparr>))"

definition CREDIT_PACKS_init :: "(credit_pack_key \<times> credit_pack) list res" where
  "CREDIT_PACKS_init =
     mapR (\<lambda>(k, cents, label). make_pack k cents label)
       [(USD_5, 500, ''$5 / 50 credits''), (USD_15, 1500, ''$15 / 150 credits''),
        (USD_50, 5000, ''$50 / 500 credits''), (USD_100, 10000, ''$100 / 1000 credits'')]"

definition CREDIT_PACKS :: "(credit_pack_key \<times> credit_pack) list" where
  "CREDIT_PACKS = (case CREDIT_PACKS_init of Inl _ \<Rightarrow> [] | Inr ps \<Rightarrow> ps)"

definition pack_at :: "credit_pack_key \<Rightarrow> credit_pack res" where
  "pack_at k = (case map_of CREDIT_PACKS k of
     None \<Rightarrow> Inl (KeyError (credit_pack_key_value k)) | Some p \<Rightarrow> Inr p)"

definition get_pack :: "string \<Rightarrow> credit_pack res" where
  "get_pack key = bindR (credit_pack_key_of key) pack_at"

fun product_loop :: "(credit_pack_key \<times> string) list \<Rightarrow> string \<Rightarrow> credit_pack res" where
  "product_loop [] normalized = Inl (LookupError (''unknown creem product id: '' @ normalized))"
| "product_loop ((k, product_id) # rest) normalized =
     (if product_id \<noteq> [] \<and> product_id = normalized then pack_at k else product_loop rest normalized)"

definition get_pack_by_creem_product_id ::
  "string \<Rightarrow> (credit_pack_key \<times> string) list \<Rightarrow> credit_pack res" where
  "get_pack_by_creem_product_id creem_product_id product_id_by_pack =
     (let normalized = strip creem_product_id in
      if normalized = [] then Inl (LookupError ''creem product id is empty'')
      else product_loop product_id_by_pack normalized)"

section \<open>Configuration\<close>

record creem_settings =
  CREEM_PRODUCT_ID_USD_5 :: string
  CREEM_PRODUCT_ID_USD_15 :: string
  CREEM_PRODUCT_ID_USD_50 :: string
  CREEM_PRODUCT_ID_USD_100 :: string

definition product_id_by_pack_from_settings :: "creem_settings \<Rightarrow> (credit_pack_key \<times> string) list" where
  "product_id_by_pack_from_settings settings =
     map (\<lambda>(k, v). (k, strip v))
       (filter (\<lambda>(k, v). strip v \<noteq> [])
         [(USD_5, CREEM_PRODUCT_ID_USD_5 settings), (USD_15, CREEM_PRODUCT_ID_USD_15 settings),
          (USD_50, CREEM_PRODUCT_ID_USD_50 settings), (USD_100, CREEM_PRODUCT_ID_USD_100 settings)])"

record credit_pack_view =
  view_key :: credit_pack_key
  view_label :: string
  view_price :: int
  view_credits :: int
  view_available :: bool

definition list_public_packs :: "creem_settings \<Rightarrow> credit_pack_view list" where
  "list_public_packs settings =
     (let configured = product_id_by_pack_from_settings settings
      in map (\<lambda>(k, p). \<lparr> view_key = pack_key p, view_label = pack_label p, view_price = pack_price p,
                         view_credits = pack_credits p, view_available = (k \<in> set (map fst configured)) \<rparr>)
           CREDIT_PACKS)"

section \<open>Parsing a notification\<close>

record checkout_completed_grant =
  gr_event_id :: string
  gr_checkout_id :: string
  gr_order_id :: "string option"
  gr_product_id :: string
  gr_request_id :: "string option"
  gr_amount :: "int option"
  gr_currency :: "string option"
  gr_metadata :: "json dict"
  gr_pack :: credit_pack

abbreviation malformed :: "string \<Rightarrow> exc" where
  "malformed m \<equiv> WebhookGrantError ''WEBHOOK_MALFORMED'' m"

text \<open>\<open>isinstance(x, str) and x.strip()\<close>, and the two \<open>isinstance\<close> tests that yield an option;
  a Python \<open>bool\<close> is an \<open>int\<close>.\<close>

fun nonblank_str :: "json \<Rightarrow> string option" where
  "nonblank_str (JStr s) = (if strip s = [] then None else Some s)"
| "nonblank_str _ = None"

fun as_str :: "json \<Rightarrow> string option" where
  "as_str (JStr s) = Some s"
| "as_str _ = None"

fun as_int :: "json \<Rightarrow> int option" where
  "as_int (JInt i) = Some i"
| "as_int (JBool b) = Some (if b then 1 else 0)"
| "as_int _ = None"

fun as_obj :: "json \<Rightarrow> json dict option" where
  "as_obj (JObj d) = Some d"
| "as_obj _ = None"

definition require_opt :: "'a option \<Rightarrow> exc \<Rightarrow> 'a res" where
  "require_opt x e = (case x of None \<Rightarrow> Inl e | Some v \<Rightarrow> Inr v)"

definition grant_product_id :: "json \<Rightarrow> json \<Rightarrow> string option" where
  "grant_product_id product order =
     (let direct = (case product of JObj d \<Rightarrow> as_str (jget d ''id'') | JStr s \<Rightarrow> Some s | _ \<Rightarrow> None)
      in case (direct, order) of
           (None, JObj od) \<Rightarrow> as_str (jget od ''product'')
         | _ \<Rightarrow> direct)"

definition order_field :: "(json \<Rightarrow> 'a option) \<Rightarrow> json \<Rightarrow> string \<Rightarrow> 'a option" where
  "order_field conv order k = (case order of JObj od \<Rightarrow> conv (jget od k) | _ \<Rightarrow> None)"

definition grant_request_id :: "json \<Rightarrow> string option res" where
  "grant_request_id v =
     (case v of JNull \<Rightarrow> Inr None
      | JStr s \<Rightarrow> Inr (if strip s = [] then None else Some (strip s))
      | _ \<Rightarrow> Inl (malformed ''request_id must be string''))"

definition grant_metadata :: "json \<Rightarrow> json dict res" where
  "grant_metadata v =
     (case v of JNull \<Rightarrow> Inr [] | JObj d \<Rightarrow> Inr d
      | _ \<Rightarrow> Inl (malformed ''metadata must be object''))"

text \<open>\<open>except LookupError as exc: raise WebhookGrantError("UNKNOWN_PRODUCT", str(exc))\<close>; a
  \<open>KeyError\<close> is a \<open>LookupError\<close>.\<close>

fun unknown_product :: "exc \<Rightarrow> exc" where
  "unknown_product (LookupError m) = WebhookGrantError ''UNKNOWN_PRODUCT'' m"
| "unknown_product (KeyError k) = WebhookGrantError ''UNKNOWN_PRODUCT'' (exc_str (KeyError k))"
| "unknown_product e = e"

definition grant_pack :: "string \<Rightarrow> (credit_pack_key \<times> string) list \<Rightarrow> credit_pack res" where
  "grant_pack product_id products =
     (case get_pack_by_creem_product_id product_id products of
        Inl e \<Rightarrow> Inl (unknown_product e) | Inr p \<Rightarrow> Inr p)"

definition parse_checkout_object ::
  "(credit_pack_key \<times> string) list \<Rightarrow> string \<Rightarrow> json dict \<Rightarrow> checkout_completed_grant res" where
  "parse_checkout_object products event_id obj =
     bindR (require_opt (nonblank_str (jget obj ''id'')) (malformed ''missing checkout id'')) (\<lambda>checkout_id.
     let order = jget obj ''order'';
         order_id = order_field as_str order ''id'';
         amount = order_field as_int order ''amount'';
         currency = order_field as_str order ''currency'';
         product_id = (case grant_product_id (jget obj ''product'') order of None \<Rightarrow> [] | Some s \<Rightarrow> s)
     in bindR (assertR (product_id \<noteq> []) (malformed ''missing product id'')) (\<lambda>_.
        bindR (grant_pack product_id products) (\<lambda>pack.
        bindR (grant_request_id (jget obj ''request_id'')) (\<lambda>request_id.
        bindR (grant_metadata (jget obj ''metadata'')) (\<lambda>metadata.
        Inr \<lparr> gr_event_id = strip event_id, gr_checkout_id = strip checkout_id,
              gr_order_id = (case order_id of None \<Rightarrow> None
                             | Some s \<Rightarrow> if s = [] then None else Some (strip s)),
              gr_product_id = strip product_id, gr_request_id = request_id, gr_amount = amount,
              gr_currency = currency, gr_metadata = metadata, gr_pack = pack \<rparr>)))))"

definition parse_checkout_completed_grant ::
  "json dict \<Rightarrow> (credit_pack_key \<times> string) list \<Rightarrow> checkout_completed_grant option res" where
  "parse_checkout_completed_grant payload products =
     (let event_type = jget payload ''eventType'' in
      if event_type = JNull then Inl (malformed ''missing eventType'')
      else if event_type \<noteq> JStr ''checkout.completed'' then Inr None
      else bindR (require_opt (nonblank_str (jget payload ''id'')) (malformed ''missing event id'')) (\<lambda>event_id.
           bindR (require_opt (as_obj (jget payload ''object'')) (malformed ''missing checkout object'')) (\<lambda>obj.
           bindR (parse_checkout_object products event_id obj) (\<lambda>g. Inr (Some g)))))"

section \<open>Facts about packs\<close>

lemma CREDIT_PACKS_eq:
  "CREDIT_PACKS =
     [(USD_5, \<lparr> pack_key = USD_5, pack_price = 500, pack_credits = 50, pack_label = ''$5 / 50 credits'' \<rparr>),
      (USD_15, \<lparr> pack_key = USD_15, pack_price = 1500, pack_credits = 150, pack_label = ''$15 / 150 credits'' \<rparr>),
      (USD_50, \<lparr> pack_key = USD_50, pack_price = 5000, pack_credits = 500, pack_label = ''$50 / 500 credits'' \<rparr>),
      (USD_100, \<lparr> pack_key = USD_100, pack_price = 10000, pack_credits = 1000, pack_label = ''$100 / 1000 credits'' \<rparr>)]"
  by (simp add: CREDIT_PACKS_def CREDIT_PACKS_init_def make_pack_def credits_for_usd_cents_def
      CREDITS_PER_USD_CENT_def)

lemma pack_at_Inr: "\<exists>p. pack_at k = Inr p \<and> pack_key p = k \<and> 0 < pack_credits p \<and> 0 < pack_price p"
  by (cases k) (simp_all add: pack_at_def CREDIT_PACKS_eq)

lemma pack_at_key:
  "pack_at k = Inr p \<Longrightarrow> pack_key p = k \<and> 0 < pack_credits p \<and> 0 < pack_price p"
  using pack_at_Inr [of k] by auto

lemma credit_pack_key_of_value [simp]: "credit_pack_key_of (credit_pack_key_value k) = Inr k"
  by (cases k) (simp_all add: credit_pack_key_of_def all_credit_pack_key_def)

lemma credit_pack_key_of_Inr: "credit_pack_key_of s = Inr k \<longleftrightarrow> s = credit_pack_key_value k"
proof
  assume "credit_pack_key_of s = Inr k"
  then show "s = credit_pack_key_value k"
    by (auto simp: credit_pack_key_of_def split: option.splits dest!: find_SomeD)
qed simp

lemma product_loop_Inr:
  "product_loop products n = Inr p \<Longrightarrow> \<exists>k. pack_at k = Inr p \<and> (k, n) \<in> set products"
  by (induction products n rule: product_loop.induct) (auto split: if_splits)

lemma grant_pack_Inr:
  assumes "grant_pack pid products = Inr p"
  shows "pack_at (pack_key p) = Inr p \<and> (pack_key p, strip pid) \<in> set products"
proof -
  from assms have "product_loop products (strip pid) = Inr p"
    by (simp add: grant_pack_def get_pack_by_creem_product_id_def Let_def split: sum.splits if_splits)
  then obtain k where "pack_at k = Inr p" "(k, strip pid) \<in> set products"
    using product_loop_Inr by blast
  with pack_at_key show ?thesis by blast
qed

lemma parse_grant_pack:
  assumes "parse_checkout_completed_grant payload products = Inr (Some g)"
  shows "pack_at (pack_key (gr_pack g)) = Inr (gr_pack g)"
    and "(pack_key (gr_pack g), gr_product_id g) \<in> set products"
  using assms
  by (auto simp: parse_checkout_completed_grant_def parse_checkout_object_def bindR_Inr Let_def
      dest!: grant_pack_Inr split: if_splits)

end
