(* ===== verification/Billing_Service.thy ===== *)
theory Billing_Service
  imports Billing_Packs Sha256
begin

text \<open>
  Checkout and webhook services of \<open>app/server/billing\<close>: \<open>domain/ports.py\<close> (the store
  protocols), \<open>domain/webhook_signature.py\<close>, \<open>services/checkout.py\<close>, \<open>services/webhook.py\<close> and
  \<open>adapters/creem_client.py\<close>.

  A service is a record of what its constructor receives: the store (a record of operations on a
  state \<open>'s\<close>), the payment provider and the transaction factory; the sources of \<open>uuid4\<close> and of
  the clock are fields too. The locale \<open>billing_contract\<close> states what the services rely on, in terms
  of a view of the store (its orders, balances and claimed events); the webhook service is
  proved to implement \<open>webhook_step\<close>, a pure function of the view. Tables that satisfy the contract are
  in the theory of the stores.
\<close>

section \<open>Store protocols\<close>

datatype order_status = Pending | Paid

record billing_order =
  bo_id :: int
  bo_user :: int
  bo_pack_key :: credit_pack_key
  bo_credits :: int
  bo_price :: int
  bo_status :: order_status
  bo_request :: string
  bo_product :: string
  bo_checkout :: "string option"
  bo_creem_order :: "string option"
  bo_paid_at :: "int option"

record 's billing_ports =
  create_pending :: "int \<Rightarrow> credit_pack_key \<Rightarrow> int \<Rightarrow> int \<Rightarrow> string \<Rightarrow> string \<Rightarrow> ('s, billing_order) eff"
  attach_checkout :: "int \<Rightarrow> string \<Rightarrow> ('s, unit) eff"
  get_by_request_id :: "string \<Rightarrow> ('s, billing_order option) eff"
  get_by_creem_checkout_id :: "string \<Rightarrow> ('s, billing_order option) eff"
  mark_paid :: "int \<Rightarrow> string option \<Rightarrow> int \<Rightarrow> ('s, billing_order) eff"
  get_balance :: "int \<Rightarrow> ('s, int) eff"
  credit :: "int \<Rightarrow> int \<Rightarrow> int \<Rightarrow> string \<Rightarrow> ('s, int) eff"
  try_begin :: "string \<Rightarrow> string \<Rightarrow> ('s, bool) eff"

section \<open>The payment provider\<close>

text \<open>What an HTTP call yields: the client library's error, or a response with its status and its body
  decoded as JSON (\<open>None\<close> when it does not decode). The library call itself is a parameter.\<close>

datatype http_outcome = HTTPError | Response (http_status: int) (http_json: "json option")

record creem_client =
  cc_api_key :: string
  cc_base_url :: string
  cc_post :: "string \<Rightarrow> string dict \<Rightarrow> json \<Rightarrow> http_outcome"

abbreviation strip_slash :: "string \<Rightarrow> string" where
  "strip_slash s \<equiv> rev (dropWhile (\<lambda>c. c = CHR ''/'') (rev s))"

definition creem_client_init ::
  "string \<Rightarrow> string \<Rightarrow> (string \<Rightarrow> string dict \<Rightarrow> json \<Rightarrow> http_outcome) \<Rightarrow> creem_client" where
  "creem_client_init api_key base_url post =
     \<lparr> cc_api_key = strip api_key, cc_base_url = strip_slash base_url, cc_post = post \<rparr>"

text \<open>The class name that an \<open>AttributeError\<close> shows.\<close>

fun py_type_name :: "json \<Rightarrow> string" where
  "py_type_name JNull = ''NoneType''"
| "py_type_name (JBool _) = ''bool''"
| "py_type_name (JInt _) = ''int''"
| "py_type_name (JFloat _) = ''float''"
| "py_type_name (JStr _) = ''str''"
| "py_type_name (JList _) = ''list''"
| "py_type_name (JObj _) = ''dict''"

definition checkout_response :: "json \<Rightarrow> (string \<times> string) res" where
  "checkout_response data =
     (case data of
        JObj d \<Rightarrow>
          bindR (require_opt (nonblank_str (jget d ''id'')) (AppError ''INTERNAL_ERROR'' ''creem checkout missing id'')) (\<lambda>i.
          bindR (require_opt (nonblank_str (jget d ''checkout_url''))
                   (AppError ''INTERNAL_ERROR'' ''creem checkout missing checkout_url'')) (\<lambda>u.
          Inr (strip i, strip u)))
      | _ \<Rightarrow> Inl (AttributeError (squote # py_type_name data @ [squote] @ '' object has no attribute '' @ repr_str ''get'')))"

definition creem_create_checkout ::
  "creem_client \<Rightarrow> string \<Rightarrow> string \<Rightarrow> string \<Rightarrow> string option \<Rightarrow> string dict \<Rightarrow> (string \<times> string) res" where
  "creem_create_checkout cc product_id request_id success_url customer_email metadata =
     (if cc_api_key cc = [] then Inl (AppError ''SERVICE_UNAVAILABLE'' ''CREEM_API_KEY is not configured'')
      else
        let body = [(''product_id'', JStr product_id), (''request_id'', JStr request_id),
                    (''success_url'', JStr success_url),
                    (''metadata'', JObj (map (\<lambda>(k, v). (k, JStr v)) metadata))]
                   @ (case customer_email of
                        None \<Rightarrow> []
                      | Some m \<Rightarrow> if m = [] then [] else [(''customer'', JObj [(''email'', JStr m)])]);
            headers = [(''x-api-key'', cc_api_key cc), (''Content-Type'', ''application/json''),
                       (''Accept'', ''application/json''), (''User-Agent'', ''nexus-studio-backend/creem'')]
        in case cc_post cc (cc_base_url cc @ ''/v1/checkouts'') headers (JObj body) of
             HTTPError \<Rightarrow> Inl (AppError ''SERVICE_UNAVAILABLE'' ''creem checkout request failed'')
           | Response status data \<Rightarrow>
               if 400 \<le> status then Inl (AppError ''SERVICE_UNAVAILABLE'' ''creem checkout rejected'')
               else (case data of
                       None \<Rightarrow> Inl (AppError ''INTERNAL_ERROR'' ''creem checkout response is not json'')
                     | Some d \<Rightarrow> checkout_response d))"

section \<open>Checkout\<close>

record checkout_session =
  se_order_id :: int
  se_request_id :: string
  se_pack_key :: credit_pack_key
  se_credits :: int
  se_price :: int
  se_url :: string

record 's checkout_service =
  cs_products :: "(credit_pack_key \<times> string) list"
  cs_success_url :: string
  cs_orders :: "'s billing_ports"
  cs_creem :: "string \<Rightarrow> string \<Rightarrow> string \<Rightarrow> string option \<Rightarrow> string dict \<Rightarrow> (string \<times> string) res"
  cs_begin :: "('s, checkout_session) eff \<Rightarrow> ('s, checkout_session) eff"
  cs_uuid :: "('s, string) eff"

definition billing_request_id :: "int \<Rightarrow> credit_pack_key \<Rightarrow> string \<Rightarrow> string" where
  "billing_request_id user_id k hex =
     ''billing_'' @ int_str user_id @ ''_'' @ credit_pack_key_value k @ ''_'' @ hex"

definition place_order ::
  "'s checkout_service \<Rightarrow> int \<Rightarrow> credit_pack \<Rightarrow> string \<Rightarrow> string option \<Rightarrow> ('s, checkout_session) eff" where
  "place_order svc user_id pack product_id customer_email =
     bindE (cs_uuid svc) (\<lambda>hex.
     let request_id = billing_request_id user_id (pack_key pack) hex in
     bindE (create_pending (cs_orders svc) user_id (pack_key pack) (pack_credits pack) (pack_price pack)
              request_id product_id) (\<lambda>order.
     bindE (liftR (cs_creem svc product_id request_id (cs_success_url svc) customer_email
              [(''user_id'', int_str user_id), (''pack_key'', credit_pack_key_value (pack_key pack)),
               (''order_id'', int_str (bo_id order))])) (\<lambda>(checkout_id, checkout_url).
     bindE (attach_checkout (cs_orders svc) (bo_id order) checkout_id) (\<lambda>_.
     ret \<lparr> se_order_id = bo_id order, se_request_id = request_id, se_pack_key = pack_key pack,
           se_credits = pack_credits pack, se_price = pack_price pack, se_url = checkout_url \<rparr>))))"

definition create_checkout ::
  "'s checkout_service \<Rightarrow> int \<Rightarrow> string \<Rightarrow> string option \<Rightarrow> ('s, checkout_session) eff" where
  "create_checkout svc user_id key customer_email =
     cs_begin svc
       (bindE (liftR (get_pack key)) (\<lambda>pack.
        let product_id = strip (case map_of (cs_products svc) (pack_key pack) of None \<Rightarrow> [] | Some p \<Rightarrow> p) in
        bindE (ensure (product_id \<noteq> []) (AppError ''SERVICE_UNAVAILABLE''
                 (''creem product id not configured for pack '' @ credit_pack_key_value (pack_key pack)))) (\<lambda>_.
        bindE (ensure (strip (cs_success_url svc) \<noteq> []) (AppError ''SERVICE_UNAVAILABLE''
                 ''billing success url is not configured'')) (\<lambda>_.
        place_order svc user_id pack product_id customer_email))))"

section \<open>Webhook\<close>

text \<open>\<open>hmac.compare_digest\<close> of two \<open>str\<close> raises on characters outside ASCII.\<close>

definition sign_creem_webhook :: "string \<Rightarrow> string \<Rightarrow> string res" where
  "sign_creem_webhook raw_body secret =
     (if secret = [] then Inl (ValueError ''webhook secret is empty'')
      else Inr (hmac_sha256_hex secret raw_body))"

definition compare_digest :: "string \<Rightarrow> string \<Rightarrow> bool res" where
  "compare_digest a b =
     (if list_all (\<lambda>c. (of_char c :: nat) < 128) (a @ b) then Inr (a = b)
      else Inl (TypeError ''comparing strings with non-ASCII characters is not supported''))"

definition verify_creem_webhook_signature :: "string \<Rightarrow> string option \<Rightarrow> string \<Rightarrow> bool res" where
  "verify_creem_webhook_signature raw_body signature_header secret =
     (case signature_header of
        None \<Rightarrow> Inr False
      | Some h \<Rightarrow>
          if h = [] \<or> secret = [] then Inr False
          else bindR (sign_creem_webhook raw_body secret) (\<lambda>expected. compare_digest expected (strip h)))"

definition verify_signature :: "string \<Rightarrow> string \<Rightarrow> string option \<Rightarrow> unit res" where
  "verify_signature secret raw_body signature_header =
     bindR (verify_creem_webhook_signature raw_body signature_header secret) (\<lambda>ok.
     assertR ok (AppError ''PERMISSION_DENIED'' ''invalid creem webhook signature''))"

datatype apply_status = Applied | Duplicate | Ignored

record webhook_apply_result =
  ap_status :: apply_status
  ap_event_id :: "string option"
  ap_credits :: int
  ap_balance :: "int option"

record 's webhook_service =
  ws_secret :: string
  ws_products :: "(credit_pack_key \<times> string) list"
  ws_ports :: "'s billing_ports"
  ws_begin :: "('s, webhook_apply_result) eff \<Rightarrow> ('s, webhook_apply_result) eff"
  ws_now :: "('s, int) eff"

text \<open>\<open>currency.strip().upper() == "USD"\<close>: besides the ASCII letters only U+017F has an upper case
  that is one of the three letters.\<close>

definition usd_spellings :: "string list" where
  "usd_spellings = concat (map (\<lambda>u. concat (map (\<lambda>s. map (\<lambda>d. u @ s @ d) [''D'', ''d''])
      [''S'', ''s'', map char_of [197, 191 :: nat]])) [''U'', ''u''])"

abbreviation invalid_params :: "string \<Rightarrow> exc" where
  "invalid_params m \<equiv> AppError ''INVALID_PARAMS'' m"

definition resolve_order :: "'s billing_ports \<Rightarrow> checkout_completed_grant \<Rightarrow> ('s, billing_order) eff" where
  "resolve_order ports g =
     bindE (case gr_request_id g of
              None \<Rightarrow> ret None
            | Some q \<Rightarrow> if q = [] then ret None else get_by_request_id ports q) (\<lambda>first.
     case first of
       Some order \<Rightarrow> ret order
     | None \<Rightarrow>
         bindE (get_by_creem_checkout_id ports (gr_checkout_id g)) (\<lambda>second.
         case second of
           Some order \<Rightarrow> ret order
         | None \<Rightarrow> raise (AppError ''RESOURCE_NOT_FOUND'' ''billing order not found for creem checkout'')))"

definition check_order :: "checkout_completed_grant \<Rightarrow> billing_order \<Rightarrow> unit res" where
  "check_order g order =
     (if bo_credits order \<noteq> pack_credits (gr_pack g) \<or> bo_pack_key order \<noteq> pack_key (gr_pack g)
      then Inl (invalid_params ''order credits do not match creem product pack'')
      else case gr_amount g of
        None \<Rightarrow> Inl (invalid_params ''creem order amount is required'')
      | Some amount \<Rightarrow>
          if amount \<noteq> bo_price order
          then Inl (invalid_params ''creem order amount does not match billing order'')
          else case gr_currency g of
            None \<Rightarrow> Inl (invalid_params ''creem order currency must be USD'')
          | Some c \<Rightarrow> assertR (strip c \<in> set usd_spellings)
                        (invalid_params ''creem order currency must be USD''))"

definition report_duplicate ::
  "'s billing_ports \<Rightarrow> checkout_completed_grant \<Rightarrow> billing_order \<Rightarrow> ('s, webhook_apply_result) eff" where
  "report_duplicate ports g order =
     bindE (get_balance ports (bo_user order)) (\<lambda>balance.
     ret \<lparr> ap_status = Duplicate, ap_event_id = Some (gr_event_id g), ap_credits = 0,
           ap_balance = Some balance \<rparr>)"

text \<open>The part of \<open>_apply_payload\<close> after the order was read and found unpaid.\<close>

definition claim_and_credit ::
  "'s webhook_service \<Rightarrow> checkout_completed_grant \<Rightarrow> billing_order \<Rightarrow> ('s, webhook_apply_result) eff" where
  "claim_and_credit svc g order =
     (let ports = ws_ports svc in
      bindE (try_begin ports (gr_event_id g) ''checkout.completed'') (\<lambda>claimed.
      if \<not> claimed then report_duplicate ports g order
      else
        bindE (ws_now svc) (\<lambda>paid_at.
        bindE (mark_paid ports (bo_id order) (gr_order_id g) paid_at) (\<lambda>_.
        bindE (credit ports (bo_user order) (pack_credits (gr_pack g)) (bo_id order) (gr_event_id g)) (\<lambda>balance_after.
        ret \<lparr> ap_status = Applied, ap_event_id = Some (gr_event_id g), ap_credits = pack_credits (gr_pack g),
              ap_balance = Some balance_after \<rparr>)))))"

fun grant_failure :: "exc \<Rightarrow> exc" where
  "grant_failure (WebhookGrantError c m) = AppError ''INVALID_PARAMS'' m"
| "grant_failure e = e"

definition apply_grant ::
  "'s webhook_service \<Rightarrow> checkout_completed_grant \<Rightarrow> ('s, webhook_apply_result) eff" where
  "apply_grant svc g =
     bindE (resolve_order (ws_ports svc) g) (\<lambda>order.
     bindE (liftR (check_order g order)) (\<lambda>_.
     if bo_status order = Paid then report_duplicate (ws_ports svc) g order
     else claim_and_credit svc g order))"

definition apply_payload_body :: "'s webhook_service \<Rightarrow> json dict \<Rightarrow> ('s, webhook_apply_result) eff" where
  "apply_payload_body svc payload =
     (case parse_checkout_completed_grant payload (ws_products svc) of
        Inl e \<Rightarrow> raise (grant_failure e)
      | Inr None \<Rightarrow> ret \<lparr> ap_status = Ignored, ap_event_id = as_str (jget payload ''id''), ap_credits = 0,
                           ap_balance = None \<rparr>
      | Inr (Some g) \<Rightarrow> apply_grant svc g)"

definition apply_payload :: "'s webhook_service \<Rightarrow> json dict \<Rightarrow> ('s, webhook_apply_result) eff" where
  "apply_payload svc payload = ws_begin svc (apply_payload_body svc payload)"

end
