(* ===== verification/Billing_Contract.thy ===== *)
theory Billing_Contract
  imports Billing_Service
begin

text \<open>
  What the billing services need of a store, and what they then guarantee. A store is seen through its
  view: the orders in the order of creation, the balance of every user and the claimed events. The locale
  \<open>billing_contract\<close> gives the law of each operation on the view; \<open>billing_services\<close> adds the
  two services. The webhook service is shown to be the pure function \<open>webhook_step\<close> of the view, and
  the balances to stay the totals of the paid orders.
\<close>

section \<open>The view and the abstract webhook\<close>

record bview =
  v_orders :: "billing_order list"
  v_balance :: "int \<Rightarrow> int"
  v_seen :: "string set"

definition pay_order :: "int \<Rightarrow> string option \<Rightarrow> int \<Rightarrow> billing_order \<Rightarrow> billing_order" where
  "pay_order i creem_order now b =
     (if bo_id b = i \<and> bo_status b \<noteq> Paid
      then b\<lparr>bo_status := Paid, bo_creem_order := creem_order, bo_paid_at := Some now\<rparr> else b)"

definition set_checkout :: "int \<Rightarrow> string \<Rightarrow> billing_order \<Rightarrow> billing_order" where
  "set_checkout i c b = (if bo_id b = i then b\<lparr>bo_checkout := Some c\<rparr> else b)"

definition found :: "('a \<Rightarrow> bool) \<Rightarrow> 'a option \<Rightarrow> 'a list \<Rightarrow> bool" where
  "found P r xs = (case r of None \<Rightarrow> (\<forall>x \<in> set xs. \<not> P x) | Some x \<Rightarrow> x \<in> set xs \<and> P x)"

text \<open>The order that a grant refers to: by request identifier, else by checkout identifier.\<close>

definition by_request :: "checkout_completed_grant \<Rightarrow> billing_order \<Rightarrow> bool" where
  "by_request g b \<longleftrightarrow> gr_request_id g = Some (bo_request b) \<and> bo_request b \<noteq> []"

definition resolution :: "checkout_completed_grant \<Rightarrow> billing_order list \<Rightarrow> billing_order option \<Rightarrow> bool" where
  "resolution g bs r \<longleftrightarrow>
     (if \<exists>b \<in> set bs. by_request g b then found (by_request g) r bs
      else found (\<lambda>b. bo_checkout b = Some (gr_checkout_id g)) r bs)"

definition webhook_step ::
  "(credit_pack_key \<times> string) list \<Rightarrow> json dict \<Rightarrow> billing_order option \<Rightarrow> int \<Rightarrow> bview \<Rightarrow>
   webhook_apply_result res \<times> bview" where
  "webhook_step products payload resolved now V =
     (case parse_checkout_completed_grant payload products of
        Inl e \<Rightarrow> (Inl (grant_failure e), V)
      | Inr None \<Rightarrow> (Inr \<lparr> ap_status = Ignored, ap_event_id = as_str (jget payload ''id''), ap_credits = 0,
                           ap_balance = None \<rparr>, V)
      | Inr (Some g) \<Rightarrow>
          (case resolved of
             None \<Rightarrow> (Inl (AppError ''RESOURCE_NOT_FOUND'' ''billing order not found for creem checkout''), V)
           | Some b \<Rightarrow>
               (case check_order g b of
                  Inl e \<Rightarrow> (Inl e, V)
                | Inr _ \<Rightarrow>
                    let u = bo_user b; c = pack_credits (gr_pack g); e = gr_event_id g in
                    if bo_status b = Paid \<or> e \<in> v_seen V
                    then (Inr \<lparr> ap_status = Duplicate, ap_event_id = Some e, ap_credits = 0,
                               ap_balance = Some (v_balance V u) \<rparr>, V)
                    else (Inr \<lparr> ap_status = Applied, ap_event_id = Some e, ap_credits = c,
                               ap_balance = Some (v_balance V u + c) \<rparr>,
                          \<lparr> v_orders = map (pay_order (bo_id b) (gr_order_id g) now) (v_orders V),
                            v_balance = (v_balance V)(u := v_balance V u + c),
                            v_seen = insert e (v_seen V) \<rparr>))))"

definition paid_total :: "int \<Rightarrow> billing_order list \<Rightarrow> int" where
  "paid_total u bs = sum_list (map bo_credits (filter (\<lambda>b. bo_user b = u \<and> bo_status b = Paid) bs))"

definition balanced :: "bview \<Rightarrow> bool" where
  "balanced V \<longleftrightarrow> v_balance V = (\<lambda>u. paid_total u (v_orders V))"

text \<open>An order only ever moves from pending to paid, and a paid one is frozen.\<close>

definition order_step :: "billing_order \<Rightarrow> billing_order \<Rightarrow> bool" where
  "order_step b b' \<longleftrightarrow>
     (bo_id b', bo_user b', bo_pack_key b', bo_credits b', bo_price b', bo_request b', bo_product b')
       = (bo_id b, bo_user b, bo_pack_key b, bo_credits b, bo_price b, bo_request b, bo_product b)
     \<and> (bo_status b = Paid \<longrightarrow> b' = b)"

section \<open>Facts about the view\<close>

lemma pay_order_fields [simp]:
  "bo_id (pay_order i c t b) = bo_id b" "bo_user (pay_order i c t b) = bo_user b"
  "bo_credits (pay_order i c t b) = bo_credits b" "bo_price (pay_order i c t b) = bo_price b"
  "bo_pack_key (pay_order i c t b) = bo_pack_key b" "bo_request (pay_order i c t b) = bo_request b"
  "bo_product (pay_order i c t b) = bo_product b" "bo_checkout (pay_order i c t b) = bo_checkout b"
  "bo_status (pay_order i c t b) = (if bo_id b = i then Paid else bo_status b)"
  by (auto simp: pay_order_def) (metis order_status.exhaust)?

lemma set_checkout_fields [simp]:
  "bo_id (set_checkout i c b) = bo_id b" "bo_user (set_checkout i c b) = bo_user b"
  "bo_credits (set_checkout i c b) = bo_credits b" "bo_status (set_checkout i c b) = bo_status b"
  "bo_request (set_checkout i c b) = bo_request b" "bo_pack_key (set_checkout i c b) = bo_pack_key b"
  "bo_price (set_checkout i c b) = bo_price b" "bo_product (set_checkout i c b) = bo_product b"
  by (auto simp: set_checkout_def)

lemma paid_total_Nil [simp]: "paid_total u [] = 0"
  by (simp add: paid_total_def)

lemma paid_total_Cons [simp]:
  "paid_total u (b # bs) = (if bo_user b = u \<and> bo_status b = Paid then bo_credits b else 0) + paid_total u bs"
  by (simp add: paid_total_def)

lemma paid_total_append [simp]: "paid_total u (bs @ cs) = paid_total u bs + paid_total u cs"
  by (simp add: paid_total_def)

lemma paid_total_set_checkout [simp]: "paid_total u (map (set_checkout i c) bs) = paid_total u bs"
  by (induction bs) simp_all

lemma paid_total_pay_absent: "i \<notin> bo_id ` set bs \<Longrightarrow> paid_total u (map (pay_order i c t) bs) = paid_total u bs"
  by (induction bs) auto

lemma paid_total_pay:
  assumes "distinct (map bo_id bs)" "b \<in> set bs" "bo_status b \<noteq> Paid"
  shows "paid_total u (map (pay_order (bo_id b) c t) bs)
       = paid_total u bs + (if bo_user b = u then bo_credits b else 0)"
  using assms
proof (induction bs)
  case (Cons x bs)
  show ?case
  proof (cases "x = b")
    case True
    with Cons.prems show ?thesis by (auto simp: paid_total_pay_absent image_iff)
  next
    case False
    with Cons have "bo_id x \<noteq> bo_id b" by (auto simp: image_iff)
    with Cons False show ?thesis by auto
  qed
qed simp

lemma found_unique:
  assumes "found P r xs" "found P q xs" "\<And>x y. x \<in> set xs \<Longrightarrow> y \<in> set xs \<Longrightarrow> P x \<Longrightarrow> P y \<Longrightarrow> x = y"
  shows "r = q"
  using assms by (cases r; cases q) (auto simp: found_def)

lemma resolution_member: "resolution g bs (Some b) \<Longrightarrow> b \<in> set bs"
  by (auto simp: resolution_def found_def split: if_splits)

lemma check_order_Inr:
  "check_order g b = Inr u \<Longrightarrow>
     bo_credits b = pack_credits (gr_pack g) \<and> bo_pack_key b = pack_key (gr_pack g)
     \<and> gr_amount g = Some (bo_price b) \<and> (\<exists>c. gr_currency g = Some c \<and> strip c \<in> set usd_spellings)"
  by (auto simp: check_order_def split: if_splits option.splits)

definition resolves :: "(credit_pack_key \<times> string) list \<Rightarrow> json dict \<Rightarrow> bview \<Rightarrow> billing_order option \<Rightarrow> bool" where
  "resolves products payload V r \<longleftrightarrow>
     (\<forall>g. parse_checkout_completed_grant payload products = Inr (Some g) \<longrightarrow> resolution g (v_orders V) r)"

lemma webhook_step_cases:
  assumes step: "webhook_step products payload r now V = (res, W)" and r: "resolves products payload V r"
  obtains (same) "W = V" "\<And>x. res = Inr x \<Longrightarrow> ap_status x \<noteq> Applied"
    | (applied) g b where "parse_checkout_completed_grant payload products = Inr (Some g)"
        "r = Some b" "b \<in> set (v_orders V)" "check_order g b = Inr ()" "bo_status b = Pending"
        "gr_event_id g \<notin> v_seen V"
        "res = Inr \<lparr> ap_status = Applied, ap_event_id = Some (gr_event_id g), ap_credits = bo_credits b,
                     ap_balance = Some (v_balance V (bo_user b) + bo_credits b) \<rparr>"
        "W = \<lparr> v_orders = map (pay_order (bo_id b) (gr_order_id g) now) (v_orders V),
               v_balance = (v_balance V)(bo_user b := v_balance V (bo_user b) + bo_credits b),
               v_seen = insert (gr_event_id g) (v_seen V) \<rparr>"
proof (cases "\<exists>g b. parse_checkout_completed_grant payload products = Inr (Some g) \<and> r = Some b
                 \<and> check_order g b = Inr () \<and> bo_status b \<noteq> Paid \<and> gr_event_id g \<notin> v_seen V")
  case True
  then obtain g b where gb: "parse_checkout_completed_grant payload products = Inr (Some g)" "r = Some b"
      "check_order g b = Inr ()" "bo_status b \<noteq> Paid" "gr_event_id g \<notin> v_seen V" by blast
  moreover have "b \<in> set (v_orders V)" using r gb by (simp add: resolves_def resolution_member)
  moreover have "bo_status b = Pending" using gb(4) by (cases "bo_status b") simp_all
  moreover have "bo_credits b = pack_credits (gr_pack g)" using check_order_Inr [OF gb(3)] by simp
  ultimately show thesis using step by (intro applied) (auto simp: webhook_step_def Let_def)
next
  case False
  with step have "W = V \<and> (\<forall>x. res = Inr x \<longrightarrow> ap_status x \<noteq> Applied)"
    unfolding webhook_step_def Let_def
    by (cases "parse_checkout_completed_grant payload products") (force split: option.splits sum.splits if_splits)+
  then show thesis by (intro same) auto
qed

lemma webhook_step_balanced:
  assumes step: "webhook_step products payload r now V = (res, W)" and r: "resolves products payload V r"
    and V: "distinct (map bo_id (v_orders V))" "balanced V"
  shows "balanced W"
  using step r
proof (cases rule: webhook_step_cases)
  case same
  with V show ?thesis by simp
next
  case (applied g b)
  with V show ?thesis by (auto simp: balanced_def fun_eq_iff paid_total_pay)
qed

lemma order_step_refl [simp]: "order_step b b"
  by (simp add: order_step_def)

lemma order_step_trans: "order_step a b \<Longrightarrow> order_step b c \<Longrightarrow> order_step a c"
  by (auto simp: order_step_def)

lemma order_step_pay: "order_step b (pay_order i c t b)"
  by (auto simp: order_step_def pay_order_def)

lemma order_step_set_checkout: "bo_status b = Pending \<Longrightarrow> order_step b (set_checkout i c b)"
  by (auto simp: order_step_def set_checkout_def)

section \<open>Histories\<close>

text \<open>Any sequence of the two services' calls, in any order and with any arguments.\<close>

inductive billing_steps :: "'s checkout_service \<Rightarrow> 's webhook_service \<Rightarrow> 's \<Rightarrow> 's \<Rightarrow> bool"
  for cs :: "'s checkout_service" and ws :: "'s webhook_service" where
  start: "billing_steps cs ws s s"
| checkout: "billing_steps cs ws s t \<Longrightarrow> create_checkout cs user_id key email t = (r, t') \<Longrightarrow>
    billing_steps cs ws s t'"
| webhook: "billing_steps cs ws s t \<Longrightarrow> apply_payload ws payload t = (r, t') \<Longrightarrow>
    billing_steps cs ws s t'"

text \<open>The orders of an earlier state are a prefix of the later ones, each moved forward only.\<close>

definition orders_advance :: "billing_order list \<Rightarrow> billing_order list \<Rightarrow> bool" where
  "orders_advance bs cs \<longleftrightarrow> (\<exists>new old. cs = old @ new \<and> list_all2 order_step bs old)"

definition order_placed :: "bview \<Rightarrow> bview \<Rightarrow> billing_order \<Rightarrow> bool" where
  "order_placed V W b \<longleftrightarrow> W = V\<lparr>v_orders := v_orders V @ [b]\<rparr> \<and> bo_status b = Pending"

lemma orders_advance_refl [simp]: "orders_advance bs bs"
  unfolding orders_advance_def
  by (intro exI [of _ "[]"] exI [of _ bs]) (simp add: list.rel_refl)

lemma orders_advance_trans: "orders_advance as bs \<Longrightarrow> orders_advance bs cs \<Longrightarrow> orders_advance as cs"
proof -
  assume "orders_advance as bs" "orders_advance bs cs"
  then obtain o1 n1 o2 n2 where *: "bs = o1 @ n1" "list_all2 order_step as o1"
      "cs = o2 @ n2" "list_all2 order_step bs o2"
    unfolding orders_advance_def by blast
  then obtain p q where pq: "o2 = p @ q" "list_all2 order_step o1 p" by (auto simp: list_all2_append1)
  have "list_all2 order_step as p"
    using order_step_trans *(2) pq(2) by (rule list_all2_trans)
  with pq show ?thesis unfolding orders_advance_def using *(3) by (intro exI [of _ "q @ n2"] exI [of _ p]) simp
qed

lemma orders_advance_append: "orders_advance bs (bs @ cs)"
  unfolding orders_advance_def by (intro exI [of _ cs] exI [of _ bs]) (simp add: list.rel_refl)

lemma orders_advance_pay: "orders_advance bs (map (pay_order i c t) bs)"
  unfolding orders_advance_def
  by (intro exI [of _ "[]"] exI [of _ "map (pay_order i c t) bs"])
     (simp add: list_all2_map2 order_step_pay list.rel_refl)

lemma orders_advance_member:
  assumes "orders_advance bs cs" "b \<in> set bs" shows "\<exists>b' \<in> set cs. order_step b b'"
proof -
  obtain old new where "cs = old @ new" "list_all2 order_step bs old"
    using assms(1) unfolding orders_advance_def by blast
  moreover obtain i where "i < length bs" "bs ! i = b" using assms(2) by (metis in_set_conv_nth)
  ultimately show ?thesis by (intro bexI [of _ "old ! i"]) (auto simp: list_all2_conv_all_nth)
qed

section \<open>The contract\<close>

text \<open>A transaction runs its body; when the body fails it may restore the view.\<close>

definition transactional ::
  "('s \<Rightarrow> bool) \<Rightarrow> ('s \<Rightarrow> bview) \<Rightarrow> (('s, 'a) eff \<Rightarrow> ('s, 'a) eff) \<Rightarrow> bool" where
  "transactional ok view begin \<longleftrightarrow>
     (\<forall>m s x t. m s = (Inr x, t) \<longrightarrow> begin m s = (Inr x, t)) \<and>
     (\<forall>m s e t. m s = (Inl e, t) \<longrightarrow>
        (\<exists>t'. begin m s = (Inl e, t') \<and> (t' = t \<or> (ok s \<longrightarrow> ok t') \<and> view t' = view s)))"

lemma transactional_Inr: "transactional ok view begin \<Longrightarrow> m s = (Inr x, t) \<Longrightarrow> begin m s = (Inr x, t)"
  by (simp add: transactional_def)

lemma transactional_Inl:
  "transactional ok view begin \<Longrightarrow> m s = (Inl e, t) \<Longrightarrow>
     \<exists>t'. begin m s = (Inl e, t') \<and> (t' = t \<or> (ok s \<longrightarrow> ok t') \<and> view t' = view s)"
  by (simp add: transactional_def)

text \<open>The effect of a checkout: a new pending order that carries the session's data, or, on an
  exception, at most a pending order that was not announced.\<close>

definition checkout_effect ::
  "int \<Rightarrow> credit_pack \<Rightarrow> checkout_session res \<Rightarrow> bview \<Rightarrow> bview \<Rightarrow> bool" where
  "checkout_effect u pack r V W \<longleftrightarrow>
     (case r of
        Inl e \<Rightarrow> V = W \<or> (\<exists>b. order_placed V W b)
      | Inr se \<Rightarrow> \<exists>b. order_placed V W b \<and> bo_user b = u \<and> bo_id b = se_order_id se
          \<and> bo_request b = se_request_id se \<and> bo_pack_key b = pack_key pack \<and> bo_credits b = pack_credits pack
          \<and> bo_price b = pack_price pack \<and> bo_checkout b \<noteq> None \<and> se_pack_key se = pack_key pack
          \<and> se_credits se = pack_credits pack \<and> se_price se = pack_price pack)"

locale billing_contract =
  fixes ports :: "'s billing_ports"
    and uuid :: "('s, string) eff"
    and clock :: "('s, int) eff"
    and ok :: "'s \<Rightarrow> bool"
    and view :: "'s \<Rightarrow> bview"
    and uncredited :: "'s \<Rightarrow> string \<Rightarrow> bool"
    and time_of :: "'s \<Rightarrow> int"
  assumes ids_distinct: "ok s \<Longrightarrow> distinct (map bo_id (v_orders (view s)))"
    and get_balance_law: "ok s \<Longrightarrow> get_balance ports u s = (Inr (v_balance (view s) u), s)"
    and by_request_law: "ok s \<Longrightarrow>
      \<exists>r. get_by_request_id ports q s = (Inr r, s) \<and> found (\<lambda>b. bo_request b = q) r (v_orders (view s))"
    and by_checkout_law: "ok s \<Longrightarrow>
      \<exists>r. get_by_creem_checkout_id ports c s = (Inr r, s)
        \<and> found (\<lambda>b. bo_checkout b = Some c) r (v_orders (view s))"
    and create_law: "ok s \<Longrightarrow> create_pending ports u k cr pr q pid s = (r, t) \<Longrightarrow>
      ok t \<and> (case r of
        Inl e \<Rightarrow> view t = view s
      | Inr b \<Rightarrow> view t = (view s)\<lparr>v_orders := v_orders (view s) @ [b]\<rparr>
          \<and> bo_user b = u \<and> bo_pack_key b = k \<and> bo_credits b = cr \<and> bo_price b = pr \<and> bo_request b = q
          \<and> bo_product b = pid \<and> bo_status b = Pending \<and> bo_checkout b = None)"
    and attach_law: "ok s \<Longrightarrow> b \<in> set (v_orders (view s)) \<Longrightarrow> bo_checkout b = None \<Longrightarrow>
      \<exists>t. attach_checkout ports (bo_id b) c s = (Inr (), t) \<and> ok t
        \<and> view t = (view s)\<lparr>v_orders := map (set_checkout (bo_id b) c) (v_orders (view s))\<rparr>"
    and mark_law: "ok s \<Longrightarrow> b \<in> set (v_orders (view s)) \<Longrightarrow>
      \<exists>b' t. mark_paid ports (bo_id b) co now s = (Inr b', t) \<and> ok t
        \<and> view t = (view s)\<lparr>v_orders := map (pay_order (bo_id b) co now) (v_orders (view s))\<rparr>
        \<and> uncredited t = uncredited s"
    and credit_law: "ok s \<Longrightarrow> 0 < d \<Longrightarrow> b \<in> set (v_orders (view s)) \<Longrightarrow> e \<in> v_seen (view s) \<Longrightarrow>
      uncredited s e \<Longrightarrow>
      \<exists>t. credit ports u d (bo_id b) e s = (Inr (v_balance (view s) u + d), t) \<and> ok t
        \<and> view t = (view s)\<lparr>v_balance := (v_balance (view s))(u := v_balance (view s) u + d)\<rparr>"
    and try_begin_law: "ok s \<Longrightarrow>
      \<exists>t. try_begin ports e ty s = (Inr (e \<notin> v_seen (view s)), t) \<and> ok t \<and> time_of t = time_of s
        \<and> view t = (view s)\<lparr>v_seen := insert e (v_seen (view s))\<rparr>
        \<and> (e \<notin> v_seen (view s) \<longrightarrow> uncredited t e)"
    and uuid_law: "ok s \<Longrightarrow> \<exists>h t. uuid s = (Inr h, t) \<and> ok t \<and> view t = view s"
    and clock_law: "ok s \<Longrightarrow>
      \<exists>t. clock s = (Inr (time_of s), t) \<and> ok t \<and> view t = view s \<and> uncredited t = uncredited s"

locale billing_services = billing_contract +
  fixes cs :: "'s checkout_service" and ws :: "'s webhook_service"
  assumes cs_ports: "cs_orders cs = ports" and cs_uuid: "cs_uuid cs = uuid"
    and ws_ports: "ws_ports ws = ports" and ws_now: "ws_now ws = clock"
    and cs_begin: "transactional ok view (cs_begin cs)"
    and ws_begin: "transactional ok view (ws_begin ws)"

context billing_services
begin

lemma resolve_order_law:
  assumes "ok s"
  shows "\<exists>r. resolution g (v_orders (view s)) r
     \<and> resolve_order ports g s = (case r of
         None \<Rightarrow> (Inl (AppError ''RESOURCE_NOT_FOUND'' ''billing order not found for creem checkout''), s)
       | Some b \<Rightarrow> (Inr b, s))"
proof -
  obtain second where second: "get_by_creem_checkout_id ports (gr_checkout_id g) s = (Inr second, s)"
      "found (\<lambda>b. bo_checkout b = Some (gr_checkout_id g)) second (v_orders (view s))"
    using by_checkout_law [OF assms] by blast
  show ?thesis
  proof (cases "gr_request_id g = None \<or> gr_request_id g = Some []")
    case True
    then have "\<not> (\<exists>b \<in> set (v_orders (view s)). by_request g b)" by (auto simp: by_request_def)
    with second have "resolution g (v_orders (view s)) second" by (simp add: resolution_def)
    with second True show ?thesis
      by (intro exI [of _ second]) (auto simp: resolve_order_def bindE_def ret_def raise_def split: option.splits)
  next
    case False
    then obtain q where q: "gr_request_id g = Some q" "q \<noteq> []" by auto
    obtain first where first: "get_by_request_id ports q s = (Inr first, s)"
        "found (\<lambda>b. bo_request b = q) first (v_orders (view s))"
      using by_request_law [OF assms] by blast
    have eq: "by_request g = (\<lambda>b. bo_request b = q)" using q by (auto simp: by_request_def fun_eq_iff)
    show ?thesis
    proof (cases first)
      case None
      with first second q eq have "resolution g (v_orders (view s)) second"
        by (auto simp: resolution_def found_def)
      with first second q None show ?thesis
        by (intro exI [of _ second]) (auto simp: resolve_order_def bindE_def ret_def raise_def split: option.splits)
    next
      case (Some b)
      with first q eq have "resolution g (v_orders (view s)) (Some b)"
        by (auto simp: resolution_def found_def)
      with first q Some show ?thesis
        by (intro exI [of _ "Some b"]) (simp add: resolve_order_def bindE_def ret_def)
    qed
  qed
qed

lemma claim_and_credit_law:
  assumes ok: "ok s" and b: "b \<in> set (v_orders (view s))"
    and g: "check_order g b = Inr ()" "0 < pack_credits (gr_pack g)"
  defines "e \<equiv> gr_event_id g" and "u \<equiv> bo_user b" and "c \<equiv> pack_credits (gr_pack g)"
  shows "\<exists>t. ok t \<and> (if e \<in> v_seen (view s)
      then claim_and_credit ws g b s = (Inr \<lparr> ap_status = Duplicate, ap_event_id = Some e, ap_credits = 0,
              ap_balance = Some (v_balance (view s) u) \<rparr>, t) \<and> view t = view s
      else claim_and_credit ws g b s = (Inr \<lparr> ap_status = Applied, ap_event_id = Some e, ap_credits = c,
              ap_balance = Some (v_balance (view s) u + c) \<rparr>, t)
        \<and> view t = \<lparr> v_orders = map (pay_order (bo_id b) (gr_order_id g) (time_of s)) (v_orders (view s)),
                     v_balance = (v_balance (view s))(u := v_balance (view s) u + c),
                     v_seen = insert e (v_seen (view s)) \<rparr>)"
proof -
  from try_begin_law [OF ok] obtain s1 where s1:
    "try_begin ports e ''checkout.completed'' s = (Inr (e \<notin> v_seen (view s)), s1)" "ok s1"
    "time_of s1 = time_of s" "view s1 = (view s)\<lparr>v_seen := insert e (v_seen (view s))\<rparr>"
    "e \<notin> v_seen (view s) \<Longrightarrow> uncredited s1 e" by blast
  show ?thesis
  proof (cases "e \<in> v_seen (view s)")
    case True
    with s1 have "view s1 = view s" by (simp add: insert_absorb)
    with True s1 get_balance_law [OF s1(2)] show ?thesis
      by (intro exI [of _ s1])
         (simp add: claim_and_credit_def report_duplicate_def bindE_def ret_def ws_ports e_def u_def)
  next
    case False
    from clock_law [OF s1(2)] obtain s2 where s2:
      "clock s1 = (Inr (time_of s), s2)" "ok s2" "view s2 = view s1" "uncredited s2 = uncredited s1"
      using s1 by auto
    from b s1 s2 have b2: "b \<in> set (v_orders (view s2))" by simp
    from mark_law [OF s2(2) b2] obtain b' s3 where s3:
      "mark_paid ports (bo_id b) (gr_order_id g) (time_of s) s2 = (Inr b', s3)" "ok s3"
      "view s3 = (view s2)\<lparr>v_orders := map (pay_order (bo_id b) (gr_order_id g) (time_of s)) (v_orders (view s2))\<rparr>"
      "uncredited s3 = uncredited s2" by blast
    define b3 where "b3 = pay_order (bo_id b) (gr_order_id g) (time_of s) b"
    have "b3 \<in> set (v_orders (view s3))" using b2 s3 by (auto simp: b3_def)
    moreover have "e \<in> v_seen (view s3)" using s1 s2 s3 by simp
    moreover have "uncredited s3 e" using s1 s2 s3 False by simp
    ultimately obtain t where t:
      "credit ports u c (bo_id b3) e s3 = (Inr (v_balance (view s3) u + c), t)" "ok t"
      "view t = (view s3)\<lparr>v_balance := (v_balance (view s3))(u := v_balance (view s3) u + c)\<rparr>"
      using credit_law [OF s3(2), of c b3 e u] g c_def by blast
    have "bo_id b3 = bo_id b" by (simp add: b3_def)
    with False t s1 s2 s3 show ?thesis
      by (intro exI [of _ t])
         (simp add: claim_and_credit_def bindE_def ret_def ws_ports ws_now e_def u_def c_def)
  qed
qed

lemma apply_payload_body_law:
  assumes ok: "ok s"
  shows "\<exists>r t. resolves (ws_products ws) payload (view s) r
     \<and> ok t \<and> apply_payload_body ws payload s = (fst (webhook_step (ws_products ws) payload r (time_of s) (view s)), t)
     \<and> view t = snd (webhook_step (ws_products ws) payload r (time_of s) (view s))"
proof (cases "\<exists>g. parse_checkout_completed_grant payload (ws_products ws) = Inr (Some g)")
  case False
  with ok show ?thesis
    by (intro exI [of _ None] exI [of _ s])
       (auto simp: resolves_def apply_payload_body_def webhook_step_def raise_def ret_def split: sum.splits option.splits)
next
  case True
  then obtain g where g: "parse_checkout_completed_grant payload (ws_products ws) = Inr (Some g)" by blast
  then have body: "apply_payload_body ws payload = apply_grant ws g" by (simp add: apply_payload_body_def)
  have pos: "0 < pack_credits (gr_pack g)" using parse_grant_pack(1) [OF g] pack_at_key by blast
  from resolve_order_law [OF ok, of g] obtain r where r: "resolution g (v_orders (view s)) r"
    "resolve_order ports g s = (case r of
         None \<Rightarrow> (Inl (AppError ''RESOURCE_NOT_FOUND'' ''billing order not found for creem checkout''), s)
       | Some b \<Rightarrow> (Inr b, s))" by blast
  have "\<exists>t. ok t \<and> apply_grant ws g s = (fst (webhook_step (ws_products ws) payload r (time_of s) (view s)), t)
     \<and> view t = snd (webhook_step (ws_products ws) payload r (time_of s) (view s))"
  proof (cases r)
    case None
    with r ok g show ?thesis
      by (intro exI [of _ s]) (simp add: apply_grant_def bindE_def ws_ports webhook_step_def)
  next
    case (Some b)
    show ?thesis
    proof (cases "check_order g b")
      case (Inl e)
      with r ok g Some show ?thesis
        by (intro exI [of _ s]) (simp add: apply_grant_def bindE_def liftR_def ws_ports webhook_step_def)
    next
      case (Inr u)
      have b: "b \<in> set (v_orders (view s))" using r(1) Some by (simp add: resolution_member)
      show ?thesis
      proof (cases "bo_status b = Paid")
        case True
        with r ok g Some Inr get_balance_law [OF ok] show ?thesis
          by (intro exI [of _ s])
             (simp add: apply_grant_def report_duplicate_def bindE_def liftR_def ret_def ws_ports webhook_step_def)
      next
        case False
        then have "apply_grant ws g s = claim_and_credit ws g b s"
          using r Some Inr by (simp add: apply_grant_def bindE_def liftR_def ws_ports)
        with claim_and_credit_law [OF ok b _ pos] Inr False g Some show ?thesis
          by (auto simp: webhook_step_def Let_def split: if_splits)
      qed
    qed
  qed
  with r(1) g body show ?thesis by (auto simp: resolves_def)
qed

lemma apply_payload_law:
  assumes ok: "ok s"
  shows "\<exists>r t. resolves (ws_products ws) payload (view s) r \<and> ok t
     \<and> apply_payload ws payload s = (fst (webhook_step (ws_products ws) payload r (time_of s) (view s)), t)
     \<and> view t = snd (webhook_step (ws_products ws) payload r (time_of s) (view s))"
proof -
  from apply_payload_body_law [OF ok] obtain r t where
    rt: "resolves (ws_products ws) payload (view s) r" "ok t"
      "apply_payload_body ws payload s = (fst (webhook_step (ws_products ws) payload r (time_of s) (view s)), t)"
      "view t = snd (webhook_step (ws_products ws) payload r (time_of s) (view s))" by blast
  obtain res W where res: "webhook_step (ws_products ws) payload r (time_of s) (view s) = (res, W)" by fastforce
  show ?thesis
  proof (cases res)
    case (Inr x)
    with ws_begin rt res have "apply_payload ws payload s = (Inr x, t)"
      by (simp add: apply_payload_def transactional_def)
    with rt res Inr show ?thesis by (intro exI [of _ r] exI [of _ t]) simp
  next
    case (Inl e)
    with res rt(1) have W: "W = view s" by (cases rule: webhook_step_cases) auto
    have "apply_payload_body ws payload s = (Inl e, t)" using rt(3) res Inl by simp
    from transactional_Inl [of ok view "ws_begin ws" "apply_payload_body ws payload" s, OF ws_begin this] obtain t' where "apply_payload ws payload s = (Inl e, t')"
        "t' = t \<or> (ok s \<longrightarrow> ok t') \<and> view t' = view s"
      unfolding apply_payload_def by blast
    with rt res Inl ok W show ?thesis by (intro exI [of _ r] exI [of _ t']) auto
  qed
qed

lemma place_order_law:
  assumes ok: "ok s" and run: "place_order cs u pack pid email s = (r, t)"
  shows "ok t \<and> checkout_effect u pack r (view s) (view t)"
proof -
  from uuid_law [OF ok] obtain h s1 where s1: "uuid s = (Inr h, s1)" "ok s1" "view s1 = view s" by blast
  define q where "q = billing_request_id u (pack_key pack) h"
  obtain r2 s2 where s2:
    "create_pending ports u (pack_key pack) (pack_credits pack) (pack_price pack) q pid s1 = (r2, s2)" by fastforce
  note created = create_law [OF s1(2) s2]
  show ?thesis
  proof (cases r2)
    case (Inl e)
    with run s1 s2 have "r = Inl e" "t = s2"
      by (simp_all add: place_order_def bindE_def cs_uuid cs_ports q_def Let_def)
    with created Inl s1 show ?thesis by (simp add: checkout_effect_def)
  next
    case (Inr b)
    note c = created [unfolded Inr, simplified]
    have placed: "order_placed (view s) (view s2) b" using c s1 by (simp add: order_placed_def)
    define args where "args = [(''user_id'', int_str u), (''pack_key'', credit_pack_key_value (pack_key pack)),
               (''order_id'', int_str (bo_id b))]"
    show ?thesis
    proof (cases "cs_creem cs pid q (cs_success_url cs) email args")
      case (Inl e)
      with run s1 s2 Inr have "r = Inl e" "t = s2"
        by (simp_all add: place_order_def bindE_def liftR_def cs_uuid cs_ports q_def Let_def args_def)
      with c placed show ?thesis by (auto simp: checkout_effect_def)
    next
      case creem: (Inr cu)
      obtain cid url where cu: "cu = (cid, url)" by fastforce
      have "b \<in> set (v_orders (view s2))" using c by simp
      from attach_law [OF _ this] c obtain s3 where s3: "attach_checkout ports (bo_id b) cid s2 = (Inr (), s3)"
        "ok s3" "view s3 = (view s2)\<lparr>v_orders := map (set_checkout (bo_id b) cid) (v_orders (view s2))\<rparr>"
        by blast
      have t: "t = s3" "r = Inr \<lparr> se_order_id = bo_id b, se_request_id = q, se_pack_key = pack_key pack,
           se_credits = pack_credits pack, se_price = pack_price pack, se_url = url \<rparr>"
        using run s1 s2 s3 Inr creem cu
        by (simp_all add: place_order_def bindE_def liftR_def ret_def cs_uuid cs_ports q_def Let_def args_def)
      have "bo_id b \<notin> bo_id ` set (v_orders (view s))" using ids_distinct [of s2] c s1 by simp
      then have "map (set_checkout (bo_id b) cid) (v_orders (view s)) = v_orders (view s)"
        by (intro map_idI) (force simp: set_checkout_def image_iff)
      with s3 c s1 have "order_placed (view s) (view s3) (set_checkout (bo_id b) cid b)"
        by (simp add: order_placed_def)
      moreover have "bo_checkout (set_checkout (bo_id b) cid b) \<noteq> None" by (simp add: set_checkout_def)
      ultimately show ?thesis using t s3(2) c unfolding checkout_effect_def
        by (simp add: exI [of _ "set_checkout (bo_id b) cid b"])
    qed
  qed
qed

lemma create_checkout_law:
  assumes ok: "ok s" and run: "create_checkout cs u key email s = (r, t)"
  shows "ok t \<and> (case get_pack key of Inl _ \<Rightarrow> view t = view s \<and> (\<exists>e. r = Inl e)
                   | Inr pack \<Rightarrow> checkout_effect u pack r (view s) (view t))"
proof -
  define body where "body = bindE (liftR (get_pack key)) (\<lambda>pack.
        let product_id = strip (case map_of (cs_products cs) (pack_key pack) of None \<Rightarrow> [] | Some p \<Rightarrow> p) in
        bindE (ensure (product_id \<noteq> []) (AppError ''SERVICE_UNAVAILABLE''
                 (''creem product id not configured for pack '' @ credit_pack_key_value (pack_key pack)))) (\<lambda>_.
        bindE (ensure (strip (cs_success_url cs) \<noteq> []) (AppError ''SERVICE_UNAVAILABLE''
                 ''billing success url is not configured'')) (\<lambda>_.
        place_order cs u pack product_id email)))"
  have run': "cs_begin cs body s = (r, t)" using run by (simp add: create_checkout_def body_def)
  obtain r1 t1 where b: "body s = (r1, t1)" by fastforce
  have body: "ok t1 \<and> (case get_pack key of Inl _ \<Rightarrow> view t1 = view s \<and> (\<exists>e. r1 = Inl e)
                   | Inr pack \<Rightarrow> checkout_effect u pack r1 (view s) (view t1))"
  proof (cases "get_pack key")
    case (Inl e)
    with b ok show ?thesis by (auto simp: body_def eff_simps)
  next
    case (Inr pack)
    with b have "(\<exists>e. r1 = Inl e \<and> t1 = s) \<or> (\<exists>pid. place_order cs u pack pid email s = (r1, t1))"
      by (auto simp: body_def eff_simps Let_def split: if_splits)
    then have "ok t1 \<and> checkout_effect u pack r1 (view s) (view t1)"
      using place_order_law [OF ok] ok by (auto simp: checkout_effect_def)
    with Inr show ?thesis by simp
  qed
  show ?thesis
  proof (cases r1)
    case (Inr x)
    with transactional_Inr [OF cs_begin, of body] b run' have "r = r1 \<and> t = t1" by simp
    with body show ?thesis by blast
  next
    case (Inl e)
    with transactional_Inl [OF cs_begin, of body] b run' have "r = r1 \<and> (t = t1 \<or> ok t \<and> view t = view s)"
      using ok by fastforce
    with body Inl show ?thesis by (cases "get_pack key") (auto simp: checkout_effect_def)
  qed
qed

lemma checkout_progress:
  assumes "ok s" "create_checkout cs u key email s = (r, t)"
  shows "ok t" and "balanced (view s) \<Longrightarrow> balanced (view t)"
    and "orders_advance (v_orders (view s)) (v_orders (view t))"
proof -
  note law = create_checkout_law [OF assms]
  then show "ok t" by simp
  have "view t = view s \<or> (\<exists>b. order_placed (view s) (view t) b)" 
    using law by (cases r; cases "get_pack key") (auto simp: checkout_effect_def)
  then show "balanced (view s) \<Longrightarrow> balanced (view t)"
    and "orders_advance (v_orders (view s)) (v_orders (view t))"
    by (auto simp: order_placed_def balanced_def fun_eq_iff orders_advance_append)
qed

lemma webhook_progress:
  assumes "ok s" "apply_payload ws payload s = (res, t)"
  shows "ok t" and "balanced (view s) \<Longrightarrow> balanced (view t)"
    and "orders_advance (v_orders (view s)) (v_orders (view t))"
proof -
  from apply_payload_law [OF assms(1), of payload] assms(2) obtain r where
    r: "resolves (ws_products ws) payload (view s) r" "ok t"
      "webhook_step (ws_products ws) payload r (time_of s) (view s) = (res, view t)"
    by (metis prod.collapse prod.inject)
  then show "ok t" by simp
  show "balanced (view s) \<Longrightarrow> balanced (view t)"
    using webhook_step_balanced [OF r(3,1) ids_distinct [OF assms(1)]] .
  from r(3,1) show "orders_advance (v_orders (view s)) (v_orders (view t))"
    by (cases rule: webhook_step_cases) (simp_all add: orders_advance_pay)
qed

theorem history_balanced:
  assumes "billing_steps cs ws s t" "ok s"
  shows "ok t \<and> (balanced (view s) \<longrightarrow> balanced (view t)) \<and> orders_advance (v_orders (view s)) (v_orders (view t))"
  using assms
proof (induction rule: billing_steps.induct)
  case (start s)
  then show ?case by simp
next
  case (checkout s t user_id key email r t')
  then show ?case using checkout_progress [of t] orders_advance_trans by metis
next
  case (webhook s t payload r t')
  then show ?case using webhook_progress [of t] orders_advance_trans by metis
qed

end

end
