(* ===== verification/Billing_Store.thy ===== *)
theory Billing_Store
  imports Billing_Contract
begin

text \<open>
  The two stores of \<open>app/server/billing\<close>: \<open>InMemoryBillingStores\<close> of \<open>domain/ports.py\<close> and
  \<open>TortoiseBillingRepository\<close> of \<open>persistence/models.py\<close>, over the tables of \<open>db/schema.sql\<close>,
  with the services that \<open>composition.py\<close> builds on the latter. Both satisfy the contract.

  A table is the list of its rows; the columns \<open>created_at\<close> and \<open>updated_at\<close>, which billing never
  reads, are left out, and so are the widths of columns. The clock and the random identifiers are
  streams of the state; \<open>bd_driver\<close> is the exception chain with which the driver reports a violated
  constraint. An aborted transaction restores the tables, but not the sequence of order identifiers.
  A Python object returned by the in-memory store is the stored object itself; the services read only fields
  that no later step changes, so a copy is returned here.
\<close>

section \<open>The in-memory store\<close>

record credit_balance =
  cb_user :: int
  cb_balance :: int
  cb_version :: int

record memory_stores =
  im_orders :: "(int \<times> billing_order) list"
  im_by_request :: "int dict"
  im_by_checkout :: "int dict"
  im_balances :: "(int \<times> credit_balance) list"
  im_events :: "string set"
  im_next :: int
  im_clock :: "nat \<Rightarrow> int"
  im_uuids :: "nat \<Rightarrow> string"

definition im_create_pending ::
  "int \<Rightarrow> credit_pack_key \<Rightarrow> int \<Rightarrow> int \<Rightarrow> string \<Rightarrow> string \<Rightarrow> (memory_stores, billing_order) eff" where
  "im_create_pending user_id key credits price request_id product_id s =
     (let i = im_next s;
          b = \<lparr> bo_id = i, bo_user = user_id, bo_pack_key = key, bo_credits = credits, bo_price = price,
                bo_status = Pending, bo_request = request_id, bo_product = product_id, bo_checkout = None,
                bo_creem_order = None, bo_paid_at = None \<rparr>
      in (Inr b, s\<lparr> im_next := i + 1, im_orders := AList.update i b (im_orders s),
                    im_by_request := dict_set (im_by_request s) request_id i \<rparr>))"

definition im_order_at :: "int \<Rightarrow> (memory_stores, billing_order) eff" where
  "im_order_at i s = (case map_of (im_orders s) i of
     None \<Rightarrow> (Inl (KeyError (int_str i)), s) | Some b \<Rightarrow> (Inr b, s))"

definition im_attach_checkout :: "int \<Rightarrow> string \<Rightarrow> (memory_stores, unit) eff" where
  "im_attach_checkout i c =
     bindE (im_order_at i) (\<lambda>b.
     modify (\<lambda>s. s\<lparr> im_orders := AList.update i (b\<lparr>bo_checkout := Some c\<rparr>) (im_orders s),
                    im_by_checkout := dict_set (im_by_checkout s) c i \<rparr>))"

definition im_get_by_request_id :: "string \<Rightarrow> (memory_stores, billing_order option) eff" where
  "im_get_by_request_id q s =
     (Inr (case dict_get (im_by_request s) q of None \<Rightarrow> None | Some i \<Rightarrow> map_of (im_orders s) i), s)"

definition im_get_by_creem_checkout_id :: "string \<Rightarrow> (memory_stores, billing_order option) eff" where
  "im_get_by_creem_checkout_id c s =
     (Inr (case dict_get (im_by_checkout s) c of None \<Rightarrow> None | Some i \<Rightarrow> map_of (im_orders s) i), s)"

definition im_mark_paid :: "int \<Rightarrow> string option \<Rightarrow> int \<Rightarrow> (memory_stores, billing_order) eff" where
  "im_mark_paid i creem_order paid_at =
     bindE (im_order_at i) (\<lambda>b.
     if bo_status b = Paid then ret b
     else let b' = b\<lparr>bo_status := Paid, bo_creem_order := creem_order, bo_paid_at := Some paid_at\<rparr> in
          bindE (modify (\<lambda>s. s\<lparr>im_orders := AList.update i b' (im_orders s)\<rparr>)) (\<lambda>_. ret b'))"

definition im_get_balance :: "int \<Rightarrow> (memory_stores, int) eff" where
  "im_get_balance u s =
     (Inr (case map_of (im_balances s) u of None \<Rightarrow> 0 | Some r \<Rightarrow> cb_balance r), s)"

definition im_credit :: "int \<Rightarrow> int \<Rightarrow> int \<Rightarrow> string \<Rightarrow> (memory_stores, int) eff" where
  "im_credit u delta order_id event_id s =
     (let r = (case map_of (im_balances s) u of
                 None \<Rightarrow> \<lparr> cb_user = u, cb_balance = 0, cb_version = 0 \<rparr> | Some r \<Rightarrow> r);
          r' = r\<lparr>cb_balance := cb_balance r + delta, cb_version := cb_version r + 1\<rparr>
      in (Inr (cb_balance r'), s\<lparr>im_balances := AList.update u r' (im_balances s)\<rparr>))"

definition im_try_begin :: "string \<Rightarrow> string \<Rightarrow> (memory_stores, bool) eff" where
  "im_try_begin e ty s =
     (if e \<in> im_events s then (Inr False, s) else (Inr True, s\<lparr>im_events := insert e (im_events s)\<rparr>))"

definition im_ports :: "memory_stores billing_ports" where
  "im_ports = \<lparr> create_pending = im_create_pending, attach_checkout = im_attach_checkout,
     get_by_request_id = im_get_by_request_id, get_by_creem_checkout_id = im_get_by_creem_checkout_id,
     mark_paid = im_mark_paid, get_balance = im_get_balance, credit = im_credit, try_begin = im_try_begin \<rparr>"

definition im_uuid4 :: "(memory_stores, string) eff" where
  "im_uuid4 s = (Inr (im_uuids s 0), s\<lparr>im_uuids := (\<lambda>n. im_uuids s (Suc n))\<rparr>)"

definition im_now :: "(memory_stores, int) eff" where
  "im_now s = (Inr (im_clock s 0), s\<lparr>im_clock := (\<lambda>n. im_clock s (Suc n))\<rparr>)"

definition null_transaction :: "('s, 'a) eff \<Rightarrow> ('s, 'a) eff" where
  "null_transaction m = m"

section \<open>The database store\<close>

record billing_order_row =
  or_id :: int
  or_user :: int
  or_pack_key :: string
  or_credits :: int
  or_price :: int
  or_status :: order_status
  or_request :: string
  or_product :: string
  or_checkout :: "string option"
  or_creem_order :: "string option"
  or_paid_at :: "int option"

record balance_row =
  ba_user :: int
  ba_balance :: int
  ba_version :: int

record ledger_row =
  le_user :: int
  le_order :: int
  le_event :: string
  le_delta :: int
  le_balance_after :: int

record webhook_event_row =
  we_event :: string
  we_type :: string

record billing_db =
  bd_orders :: "billing_order_row list"
  bd_balances :: "balance_row list"
  bd_ledger :: "ledger_row list"
  bd_events :: "webhook_event_row list"
  bd_next :: int
  bd_clock :: "nat \<Rightarrow> int"
  bd_uuids :: "nat \<Rightarrow> string"
  bd_driver :: "string \<Rightarrow> exc_link list"

definition bd_uuid4 :: "(billing_db, string) eff" where
  "bd_uuid4 s = (Inr (bd_uuids s 0), s\<lparr>bd_uuids := (\<lambda>n. bd_uuids s (Suc n))\<rparr>)"

definition bd_now :: "(billing_db, int) eff" where
  "bd_now s = (Inr (bd_clock s 0), s\<lparr>bd_clock := (\<lambda>n. bd_clock s (Suc n))\<rparr>)"

text \<open>A sequence is never set back by an abort.\<close>

definition bd_transaction :: "(billing_db, 'a) eff \<Rightarrow> (billing_db, 'a) eff" where
  "bd_transaction m s =
     (case m s of
        (Inl e, t) \<Rightarrow> (Inl e, s\<lparr>bd_next := max (bd_next s) (bd_next t), bd_clock := bd_clock t,
                                  bd_uuids := bd_uuids t\<rparr>)
      | (Inr x, t) \<Rightarrow> (Inr x, t))"

definition bd_constraint :: "bool \<Rightarrow> string \<Rightarrow> (billing_db, unit) eff" where
  "bd_constraint c name s = (if c then (Inr (), s) else (Inl (IntegrityError (bd_driver s name)), s))"

definition to_record :: "billing_order_row \<Rightarrow> billing_order res" where
  "to_record r =
     bindR (credit_pack_key_of (or_pack_key r)) (\<lambda>k.
     Inr \<lparr> bo_id = or_id r, bo_user = or_user r, bo_pack_key = k, bo_credits = or_credits r,
           bo_price = or_price r, bo_status = or_status r, bo_request = or_request r,
           bo_product = or_product r, bo_checkout = or_checkout r, bo_creem_order = or_creem_order r,
           bo_paid_at = or_paid_at r \<rparr>)"

definition bd_create_pending ::
  "int \<Rightarrow> credit_pack_key \<Rightarrow> int \<Rightarrow> int \<Rightarrow> string \<Rightarrow> string \<Rightarrow> (billing_db, billing_order) eff" where
  "bd_create_pending user_id key credits price request_id product_id =
     bindE (gets bd_next) (\<lambda>i.
     bindE (modify (\<lambda>s. s\<lparr>bd_next := i + 1\<rparr>)) (\<lambda>_.
     bindE (gets bd_orders) (\<lambda>rows.
     bindE (bd_constraint (0 < credits) ''ck_billing_orders_credits_positive'') (\<lambda>_.
     bindE (bd_constraint (0 < price) ''ck_billing_orders_price_positive'') (\<lambda>_.
     bindE (bd_constraint (request_id \<notin> or_request ` set rows) ''uk_billing_orders_request_id'') (\<lambda>_.
     let r = \<lparr> or_id = i, or_user = user_id, or_pack_key = credit_pack_key_value key, or_credits = credits,
               or_price = price, or_status = Pending, or_request = request_id, or_product = product_id,
               or_checkout = None, or_creem_order = None, or_paid_at = None \<rparr> in
     bindE (modify (\<lambda>s. s\<lparr>bd_orders := bd_orders s @ [r]\<rparr>)) (\<lambda>_.
     liftR (to_record r))))))))"

definition bd_attach_checkout :: "int \<Rightarrow> string \<Rightarrow> (billing_db, unit) eff" where
  "bd_attach_checkout i c =
     bindE (gets (\<lambda>s. length (filter (\<lambda>r. or_id r = i) (bd_orders s)))) (\<lambda>updated.
     bindE (modify (\<lambda>s. s\<lparr>bd_orders := map (\<lambda>r. if or_id r = i then r\<lparr>or_checkout := Some c\<rparr> else r) (bd_orders s)\<rparr>)) (\<lambda>_.
     ensure (updated = 1) (LookupError (''billing order not found: '' @ int_str i))))"

definition record_option :: "billing_order_row option \<Rightarrow> billing_order option res" where
  "record_option r = (case r of None \<Rightarrow> Inr None | Some row \<Rightarrow> bindR (to_record row) (\<lambda>b. Inr (Some b)))"

definition bd_get_by_request_id :: "string \<Rightarrow> (billing_db, billing_order option) eff" where
  "bd_get_by_request_id q s = (record_option (find (\<lambda>r. or_request r = q) (bd_orders s)), s)"

definition bd_get_by_creem_checkout_id :: "string \<Rightarrow> (billing_db, billing_order option) eff" where
  "bd_get_by_creem_checkout_id c s = (record_option (find (\<lambda>r. or_checkout r = Some c) (bd_orders s)), s)"

definition bd_mark_paid :: "int \<Rightarrow> string option \<Rightarrow> int \<Rightarrow> (billing_db, billing_order) eff" where
  "bd_mark_paid i creem_order paid_at =
     bd_transaction
       (bindE (gets (\<lambda>s. find (\<lambda>r. or_id r = i) (bd_orders s))) (\<lambda>found.
        case found of
          None \<Rightarrow> raise (DoesNotExist ''Object does not exist'')
        | Some row \<Rightarrow>
            if or_status row = Paid then liftR (to_record row)
            else
              let row' = row\<lparr>or_status := Paid, or_creem_order := creem_order, or_paid_at := Some paid_at\<rparr> in
              bindE (modify (\<lambda>s. s\<lparr>bd_orders := map (\<lambda>r. if or_id r = i
                       then r\<lparr>or_status := or_status row', or_creem_order := or_creem_order row',
                              or_paid_at := or_paid_at row'\<rparr> else r) (bd_orders s)\<rparr>)) (\<lambda>_.
              liftR (to_record row'))))"

definition balance_of_rows :: "balance_row list \<Rightarrow> int \<Rightarrow> int" where
  "balance_of_rows rows u = (case find (\<lambda>r. ba_user r = u) rows of None \<Rightarrow> 0 | Some r \<Rightarrow> ba_balance r)"

definition bd_get_balance :: "int \<Rightarrow> (billing_db, int) eff" where
  "bd_get_balance u s = (Inr (balance_of_rows (bd_balances s) u), s)"

text \<open>The locked row of the user, created with balance 0 when missing.\<close>

definition bd_lock_balance :: "int \<Rightarrow> (billing_db, balance_row) eff" where
  "bd_lock_balance u =
     bindE (gets (\<lambda>s. find (\<lambda>r. ba_user r = u) (bd_balances s))) (\<lambda>found.
     case found of
       Some r \<Rightarrow> ret r
     | None \<Rightarrow>
         let r = \<lparr> ba_user = u, ba_balance = 0, ba_version = 0 \<rparr> in
         bindE (gets bd_balances) (\<lambda>rows.
         bindE (bd_constraint (u \<notin> ba_user ` set rows) ''uk_billing_credit_balances_user'') (\<lambda>_.
         bindE (modify (\<lambda>s. s\<lparr>bd_balances := bd_balances s @ [r]\<rparr>)) (\<lambda>_. ret r))))"

definition bd_credit :: "int \<Rightarrow> int \<Rightarrow> int \<Rightarrow> string \<Rightarrow> (billing_db, int) eff" where
  "bd_credit u delta order_id event_id =
     bindE (ensure (0 < delta) (ValueError ''credit delta must be positive'')) (\<lambda>_.
     bd_transaction
       (bindE (gets (\<lambda>s. find (\<lambda>l. le_event l = event_id) (bd_ledger s))) (\<lambda>existing.
        case existing of
          Some l \<Rightarrow> ret (le_balance_after l)
        | None \<Rightarrow>
            bindE (bd_lock_balance u) (\<lambda>row.
            let row' = row\<lparr>ba_balance := ba_balance row + delta, ba_version := ba_version row + 1\<rparr> in
            bindE (bd_constraint (0 \<le> ba_balance row') ''ck_billing_credit_balances_nonneg'') (\<lambda>_.
            bindE (modify (\<lambda>s. s\<lparr>bd_balances := map (\<lambda>r. if ba_user r = u then row' else r) (bd_balances s)\<rparr>)) (\<lambda>_.
            bindE (gets id) (\<lambda>s.
            bindE (bd_constraint (0 < delta) ''ck_billing_credit_ledger_delta_positive'') (\<lambda>_.
            bindE (bd_constraint (event_id \<notin> le_event ` set (bd_ledger s)) ''uk_billing_credit_ledger_event'') (\<lambda>_.
            bindE (bd_constraint (order_id \<in> or_id ` set (bd_orders s)) ''fk_billing_credit_ledger_order'') (\<lambda>_.
            bindE (modify (\<lambda>s. s\<lparr>bd_ledger := bd_ledger s @
                [\<lparr> le_user = u, le_order = order_id, le_event = event_id, le_delta = delta,
                   le_balance_after = ba_balance row' \<rparr>]\<rparr>)) (\<lambda>_.
            ret (ba_balance row'))))))))))))"

definition bd_try_begin :: "string \<Rightarrow> string \<Rightarrow> (billing_db, bool) eff" where
  "bd_try_begin e ty =
     bindE (gets (\<lambda>s. find (\<lambda>w. we_event w = e) (bd_events s))) (\<lambda>existing.
     if existing \<noteq> None then ret False
     else
       catchE (bindE (gets bd_events) (\<lambda>rows.
               bindE (bd_constraint (e \<notin> we_event ` set rows) ''uk_billing_webhook_events_event'') (\<lambda>_.
               bindE (modify (\<lambda>s. s\<lparr>bd_events := bd_events s @ [\<lparr> we_event = e, we_type = ty \<rparr>]\<rparr>)) (\<lambda>_.
               ret True))))
         (\<lambda>x. case x of IntegrityError _ \<Rightarrow> ret False | _ \<Rightarrow> raise x))"

definition bd_ports :: "billing_db billing_ports" where
  "bd_ports = \<lparr> create_pending = bd_create_pending, attach_checkout = bd_attach_checkout,
     get_by_request_id = bd_get_by_request_id, get_by_creem_checkout_id = bd_get_by_creem_checkout_id,
     mark_paid = bd_mark_paid, get_balance = bd_get_balance, credit = bd_credit, try_begin = bd_try_begin \<rparr>"

section \<open>The composition root\<close>

definition get_checkout_service :: "creem_settings \<Rightarrow> string \<Rightarrow> creem_client \<Rightarrow> billing_db checkout_service" where
  "get_checkout_service settings success_url client =
     \<lparr> cs_products = product_id_by_pack_from_settings settings, cs_success_url = strip success_url,
       cs_orders = bd_ports, cs_creem = creem_create_checkout client, cs_begin = bd_transaction,
       cs_uuid = bd_uuid4 \<rparr>"

definition get_webhook_service :: "creem_settings \<Rightarrow> string \<Rightarrow> billing_db webhook_service" where
  "get_webhook_service settings secret =
     \<lparr> ws_secret = secret, ws_products = product_id_by_pack_from_settings settings, ws_ports = bd_ports,
       ws_begin = bd_transaction, ws_now = bd_now \<rparr>"

text \<open>The services as the tests build them, on the in-memory store without transactions.\<close>

definition memory_checkout_service ::
  "(credit_pack_key \<times> string) list \<Rightarrow> string \<Rightarrow>
   (string \<Rightarrow> string \<Rightarrow> string \<Rightarrow> string option \<Rightarrow> string dict \<Rightarrow> (string \<times> string) res) \<Rightarrow>
   memory_stores checkout_service" where
  "memory_checkout_service products success_url creem =
     \<lparr> cs_products = products, cs_success_url = success_url, cs_orders = im_ports, cs_creem = creem,
       cs_begin = null_transaction, cs_uuid = im_uuid4 \<rparr>"

definition memory_webhook_service ::
  "(credit_pack_key \<times> string) list \<Rightarrow> string \<Rightarrow> memory_stores webhook_service" where
  "memory_webhook_service products secret =
     \<lparr> ws_secret = secret, ws_products = products, ws_ports = im_ports, ws_begin = null_transaction,
       ws_now = im_now \<rparr>"

end
