(* ===== verification/Billing_Ledger.thy ===== *)
theory Billing_Ledger
  imports Billing_Store
begin

text \<open>
  Both stores satisfy the billing contract: the in-memory store without transactions, and the
  database with the services that the composition root builds.
\<close>

section \<open>The in-memory store satisfies the contract\<close>

definition im_view :: "memory_stores \<Rightarrow> bview" where
  "im_view s = \<lparr> v_orders = map snd (im_orders s),
     v_balance = (\<lambda>u. case map_of (im_balances s) u of None \<Rightarrow> 0 | Some r \<Rightarrow> cb_balance r),
     v_seen = im_events s \<rparr>"

text \<open>The indexes point to orders that carry the key, and every key of an order is indexed.\<close>

definition im_indexed ::
  "int \<Rightarrow> (int \<rightharpoonup> billing_order) \<Rightarrow> (string \<rightharpoonup> int) \<Rightarrow> (string \<rightharpoonup> int) \<Rightarrow> bool" where
  "im_indexed n orders requests checkouts \<longleftrightarrow>
     (\<forall>i b. orders i = Some b \<longrightarrow> bo_id b = i \<and> i < n \<and> requests (bo_request b) \<noteq> None
          \<and> (\<forall>c. bo_checkout b = Some c \<longrightarrow> checkouts c \<noteq> None))
     \<and> (\<forall>q i. requests q = Some i \<longrightarrow> (\<exists>b. orders i = Some b \<and> bo_request b = q))
     \<and> (\<forall>c i. checkouts c = Some i \<longrightarrow> (\<exists>b. orders i = Some b \<and> bo_checkout b = Some c))"

definition im_ok :: "memory_stores \<Rightarrow> bool" where
  "im_ok s \<longleftrightarrow> distinct (map fst (im_orders s))
     \<and> im_indexed (im_next s) (map_of (im_orders s)) (map_of (im_by_request s)) (map_of (im_by_checkout s))"

lemma im_indexedD:
  assumes "im_indexed n orders requests checkouts"
  shows "orders i = Some b \<Longrightarrow> bo_id b = i" and "orders i = Some b \<Longrightarrow> i < n"
    and "orders i = Some b \<Longrightarrow> requests (bo_request b) \<noteq> None"
    and "orders i = Some b \<Longrightarrow> bo_checkout b = Some c \<Longrightarrow> checkouts c \<noteq> None"
    and "requests q = Some i \<Longrightarrow> \<exists>b. orders i = Some b \<and> bo_request b = q"
    and "checkouts c = Some i \<Longrightarrow> \<exists>b. orders i = Some b \<and> bo_checkout b = Some c"
  using assms unfolding im_indexed_def by simp_all

lemma im_indexedI:
  assumes "\<And>i b. orders i = Some b \<Longrightarrow> bo_id b = i \<and> i < n \<and> requests (bo_request b) \<noteq> None"
    and "\<And>i b c. orders i = Some b \<Longrightarrow> bo_checkout b = Some c \<Longrightarrow> checkouts c \<noteq> None"
    and "\<And>q i. requests q = Some i \<Longrightarrow> \<exists>b. orders i = Some b \<and> bo_request b = q"
    and "\<And>c i. checkouts c = Some i \<Longrightarrow> \<exists>b. orders i = Some b \<and> bo_checkout b = Some c"
  shows "im_indexed n orders requests checkouts"
  using assms unfolding im_indexed_def by simp

lemma im_indexed_replace:
  assumes ix: "im_indexed n orders requests checkouts" and b: "orders i = Some b"
    and b': "bo_id b' = bo_id b" "bo_request b' = bo_request b" "bo_checkout b' = bo_checkout b"
  shows "im_indexed n (orders(i \<mapsto> b')) requests checkouts"
proof (rule im_indexedI)
  fix q j assume "requests q = Some j"
  with im_indexedD(5) [OF ix] obtain d where "orders j = Some d" "bo_request d = q" by blast
  with b b' show "\<exists>d. (orders(i \<mapsto> b')) j = Some d \<and> bo_request d = q" by (cases "j = i") simp_all
next
  fix c j assume "checkouts c = Some j"
  with im_indexedD(6) [OF ix] obtain d where "orders j = Some d" "bo_checkout d = Some c" by blast
  with b b' show "\<exists>d. (orders(i \<mapsto> b')) j = Some d \<and> bo_checkout d = Some c" by (cases "j = i") simp_all
qed (use im_indexedD(1-4) [OF ix] b b' in \<open>simp split: if_splits; fastforce\<close>)+

lemma im_indexed_new:
  assumes ix: "im_indexed n orders requests checkouts" and b: "bo_id b = n" "bo_checkout b = None"
  shows "im_indexed (n + 1) (orders(n \<mapsto> b)) (requests(bo_request b \<mapsto> n)) checkouts"
proof (rule im_indexedI)
  have new: "orders n = None" using im_indexedD(2) [OF ix] by (cases "orders n") fastforce+
  {
    fix i c assume "(orders(n \<mapsto> b)) i = Some c"
    then show "bo_id c = i \<and> i < n + 1 \<and> (requests(bo_request b \<mapsto> n)) (bo_request c) \<noteq> None"
      using im_indexedD(1-3) [OF ix, of i c] b by (auto split: if_splits)
  }
  {
    fix i c k assume "(orders(n \<mapsto> b)) i = Some c" "bo_checkout c = Some k"
    then show "checkouts k \<noteq> None" using im_indexedD(4) [OF ix, of i c] b by (auto split: if_splits)
  }
  {
    fix q i assume "(requests(bo_request b \<mapsto> n)) q = Some i"
    then show "\<exists>c. (orders(n \<mapsto> b)) i = Some c \<and> bo_request c = q"
      using im_indexedD(5) [OF ix, of q i] new by (auto split: if_splits)
  }
  fix c i assume "checkouts c = Some i"
  then show "\<exists>d. (orders(n \<mapsto> b)) i = Some d \<and> bo_checkout d = Some c"
    using im_indexedD(6) [OF ix, of c i] new by auto
qed

lemma im_indexed_attach:
  assumes ix: "im_indexed n orders requests checkouts" and b: "orders i = Some b" "bo_checkout b = None"
  shows "im_indexed n (orders(i \<mapsto> b\<lparr>bo_checkout := Some c\<rparr>)) requests (checkouts(c \<mapsto> i))"
proof (rule im_indexedI)
  fix j d assume "(orders(i \<mapsto> b\<lparr>bo_checkout := Some c\<rparr>)) j = Some d"
  then show "bo_id d = j \<and> j < n \<and> requests (bo_request d) \<noteq> None"
    using im_indexedD(1-3) [OF ix, of j] b by (auto split: if_splits)
next
  fix j d k assume "(orders(i \<mapsto> b\<lparr>bo_checkout := Some c\<rparr>)) j = Some d" "bo_checkout d = Some k"
  then show "(checkouts(c \<mapsto> i)) k \<noteq> None"
    using im_indexedD(4) [OF ix, of j] b by (auto split: if_splits)
next
  fix q j assume "requests q = Some j"
  with im_indexedD(5) [OF ix] obtain d where "orders j = Some d" "bo_request d = q" by blast
  then show "\<exists>d. (orders(i \<mapsto> b\<lparr>bo_checkout := Some c\<rparr>)) j = Some d \<and> bo_request d = q"
    using b by (cases "j = i") auto
next
  fix k j assume k: "(checkouts(c \<mapsto> i)) k = Some j"
  show "\<exists>d. (orders(i \<mapsto> b\<lparr>bo_checkout := Some c\<rparr>)) j = Some d \<and> bo_checkout d = Some k"
  proof (cases "k = c")
    case True
    with k show ?thesis by auto
  next
    case False
    with k im_indexedD(6) [OF ix, of k j] obtain d where "orders j = Some d" "bo_checkout d = Some k" by auto
    with b show ?thesis by (cases "j = i") auto
  qed
qed

lemma im_member: "im_ok s \<Longrightarrow> b \<in> set (v_orders (im_view s)) \<longleftrightarrow> map_of (im_orders s) (bo_id b) = Some b"
proof
  assume ok: "im_ok s" and "b \<in> set (v_orders (im_view s))"
  then obtain i where "map_of (im_orders s) i = Some b" by (auto simp: im_view_def im_ok_def)
  moreover from this ok have "bo_id b = i" by (auto simp: im_ok_def im_indexed_def)
  ultimately show "map_of (im_orders s) (bo_id b) = Some b" by simp
next
  assume "map_of (im_orders s) (bo_id b) = Some b"
  then show "b \<in> set (v_orders (im_view s))" by (force simp: im_view_def dest: map_of_SomeD)
qed

lemma im_ids: "im_ok s \<Longrightarrow> map bo_id (v_orders (im_view s)) = map fst (im_orders s)"
  unfolding im_ok_def im_view_def by (auto dest: im_indexedD(1))

lemma update_existing:
  "distinct (map fst d) \<Longrightarrow> map_of d k = Some v \<Longrightarrow>
   map snd (AList.update k w d) = map (\<lambda>x. if fst x = k then w else snd x) d"
proof (induction d)
  case (Cons x d)
  then show ?case
  proof (cases "fst x = k")
    case True
    then have "map snd d = map (\<lambda>x. if fst x = k then w else snd x) d"
      using Cons.prems(1) by (intro map_cong) (auto simp: image_iff)
    with True show ?thesis by (cases x) simp
  qed (cases x, simp)
qed simp

text \<open>Replacing an order by one with the same identity updates the view pointwise.\<close>

lemma im_view_update:
  assumes ok: "im_ok s" and b: "b \<in> set (v_orders (im_view s))" and f: "\<And>x. bo_id x \<noteq> bo_id b \<Longrightarrow> f x = x"
  shows "map snd (AList.update (bo_id b) (f b) (im_orders s)) = map f (v_orders (im_view s))"
proof -
  have at: "map_of (im_orders s) (bo_id b) = Some b" using im_member [OF ok] b by blast
  have "(if fst x = bo_id b then f b else snd x) = f (snd x)" if "x \<in> set (im_orders s)" for x
  proof -
    have x: "map_of (im_orders s) (fst x) = Some (snd x)" using that ok by (simp add: im_ok_def)
    then have "bo_id (snd x) = fst x" using ok by (simp add: im_ok_def im_indexed_def)
    moreover have "snd x = b" if "fst x = bo_id b" using x at that by simp
    ultimately show ?thesis using f [of "snd x"] by metis
  qed
  then have "map (\<lambda>x. if fst x = bo_id b then f b else snd x) (im_orders s) = map f (map snd (im_orders s))"
    by simp
  moreover have "distinct (map fst (im_orders s))" using ok by (simp add: im_ok_def)
  ultimately show ?thesis using update_existing [OF _ at, of "f b"] by (simp add: im_view_def)
qed

lemma im_create_law:
  assumes ok: "im_ok s" and run: "im_create_pending u k cr pr q pid s = (r, t)"
  shows "im_ok t \<and> (\<exists>b. r = Inr b \<and> im_view t = (im_view s)\<lparr>v_orders := v_orders (im_view s) @ [b]\<rparr>
    \<and> bo_user b = u \<and> bo_pack_key b = k \<and> bo_credits b = cr \<and> bo_price b = pr \<and> bo_request b = q
    \<and> bo_product b = pid \<and> bo_status b = Pending \<and> bo_checkout b = None)"
proof -
  define b where "b = \<lparr> bo_id = im_next s, bo_user = u, bo_pack_key = k, bo_credits = cr, bo_price = pr,
      bo_status = Pending, bo_request = q, bo_product = pid, bo_checkout = None, bo_creem_order = None,
      bo_paid_at = None \<rparr>"
  have "map_of (im_orders s) (im_next s) = None"
    using im_indexedD(2) ok unfolding im_ok_def by (metis less_irrefl not_None_eq)
  then have "AList.update (im_next s) b (im_orders s) = im_orders s @ [(im_next s, b)]"
    by (intro update_new) (simp add: map_of_eq_None_iff)
  moreover have "r = Inr b" and t: "t = s\<lparr> im_next := im_next s + 1,
      im_orders := AList.update (im_next s) b (im_orders s),
      im_by_request := dict_set (im_by_request s) q (im_next s) \<rparr>"
    using run by (simp_all add: im_create_pending_def Let_def b_def)
  moreover have "im_ok t"
    using ok im_indexed_new [of "im_next s" "map_of (im_orders s)" "map_of (im_by_request s)"
        "map_of (im_by_checkout s)" b]
    by (simp add: im_ok_def t update_conv' distinct_update) (simp add: b_def)
  ultimately show ?thesis by (simp add: im_view_def) (simp add: b_def)
qed

lemma im_attach_law:
  assumes ok: "im_ok s" and b: "b \<in> set (v_orders (im_view s))" and none: "bo_checkout b = None"
  shows "\<exists>t. im_attach_checkout (bo_id b) c s = (Inr (), t) \<and> im_ok t
      \<and> im_view t = (im_view s)\<lparr>v_orders := map (set_checkout (bo_id b) c) (v_orders (im_view s))\<rparr>"
proof -
  have at: "map_of (im_orders s) (bo_id b) = Some b" using im_member [OF ok] b by blast
  define t where "t = s\<lparr> im_orders := AList.update (bo_id b) (b\<lparr>bo_checkout := Some c\<rparr>) (im_orders s),
                    im_by_checkout := dict_set (im_by_checkout s) c (bo_id b) \<rparr>"
  have "im_attach_checkout (bo_id b) c s = (Inr (), t)"
    using at by (simp add: im_attach_checkout_def im_order_at_def bindE_def modify_def t_def)
  moreover have "im_ok t"
    using ok im_indexed_attach [of "im_next s" "map_of (im_orders s)" _ _ "bo_id b" b, OF _ at none] by (simp add: im_ok_def t_def update_conv' distinct_update)
  moreover have "map snd (im_orders t) = map (set_checkout (bo_id b) c) (v_orders (im_view s))"
    using im_view_update [OF ok b, of "set_checkout (bo_id b) c"] by (simp add: t_def set_checkout_def)
  ultimately show ?thesis by (intro exI [of _ t]) (simp add: im_view_def t_def)
qed

lemma im_mark_law:
  assumes ok: "im_ok s" and b: "b \<in> set (v_orders (im_view s))"
  shows "\<exists>b' t. im_mark_paid (bo_id b) co now s = (Inr b', t) \<and> im_ok t
      \<and> im_view t = (im_view s)\<lparr>v_orders := map (pay_order (bo_id b) co now) (v_orders (im_view s))\<rparr>"
proof -
  have at: "map_of (im_orders s) (bo_id b) = Some b" using im_member [OF ok] b by blast
  define b' where "b' = pay_order (bo_id b) co now b"
  define t where "t = s\<lparr>im_orders := AList.update (bo_id b) b' (im_orders s)\<rparr>"
  have "im_mark_paid (bo_id b) co now s = (Inr b', t)"
  proof (cases "bo_status b = Paid")
    case True
    then have "b' = b" by (simp add: b'_def pay_order_def)
    with at have "AList.update (bo_id b) b' (im_orders s) = im_orders s" by (simp add: update_triv)
    with True at \<open>b' = b\<close> show ?thesis
      by (simp add: im_mark_paid_def im_order_at_def bindE_def ret_def t_def)
  next
    case False
    with at show ?thesis
      by (simp add: im_mark_paid_def im_order_at_def bindE_def ret_def modify_def t_def b'_def pay_order_def Let_def)
  qed
  moreover have "im_ok t"
    using ok im_indexed_replace [of "im_next s" "map_of (im_orders s)" _ _ "bo_id b" b b', OF _ at]
    by (simp add: im_ok_def t_def update_conv' distinct_update) (simp add: b'_def)
  moreover have "map snd (im_orders t) = map (pay_order (bo_id b) co now) (v_orders (im_view s))"
    using im_view_update [OF ok b, of "pay_order (bo_id b) co now"] by (simp add: t_def b'_def pay_order_def)
  ultimately show ?thesis by (intro exI [of _ b'] exI [of _ t]) (simp add: im_view_def t_def)
qed

text \<open>A lookup through an index that covers the orders and points to the right ones finds an order.\<close>

lemma im_index_found:
  assumes ok: "im_ok s"
    and covers: "\<And>b. b \<in> set (v_orders (im_view s)) \<Longrightarrow> P b \<Longrightarrow> r \<noteq> None"
    and points: "\<And>i. r = Some i \<Longrightarrow> \<exists>b. map_of (im_orders s) i = Some b \<and> P b"
  shows "found P (case r of None \<Rightarrow> None | Some i \<Rightarrow> map_of (im_orders s) i) (v_orders (im_view s))"
proof (cases r)
  case None
  with covers show ?thesis by (auto simp: found_def)
next
  case (Some i)
  with points obtain b where b: "map_of (im_orders s) i = Some b" "P b" by blast
  then have "b \<in> set (v_orders (im_view s))" by (force simp: im_view_def dest: map_of_SomeD)
  with b Some show ?thesis by (simp add: found_def)
qed

lemma im_request_law:
  assumes ok: "im_ok s"
  shows "found (\<lambda>b. bo_request b = q)
     (case dict_get (im_by_request s) q of None \<Rightarrow> None | Some i \<Rightarrow> map_of (im_orders s) i) (v_orders (im_view s))"
proof -
  have ix: "im_indexed (im_next s) (map_of (im_orders s)) (map_of (im_by_request s)) (map_of (im_by_checkout s))"
    using ok by (simp add: im_ok_def)
  show ?thesis
    using im_member [OF ok] im_indexedD(3,5) [OF ix] by (intro im_index_found [OF ok]) blast+
qed

lemma im_checkout_law:
  assumes ok: "im_ok s"
  shows "found (\<lambda>b. bo_checkout b = Some c)
     (case dict_get (im_by_checkout s) c of None \<Rightarrow> None | Some i \<Rightarrow> map_of (im_orders s) i) (v_orders (im_view s))"
proof -
  have ix: "im_indexed (im_next s) (map_of (im_orders s)) (map_of (im_by_request s)) (map_of (im_by_checkout s))"
    using ok by (simp add: im_ok_def)
  show ?thesis
    using im_member [OF ok] im_indexedD(4,6) [OF ix] by (intro im_index_found [OF ok]) blast+
qed

interpretation im: billing_contract im_ports im_uuid4 im_now im_ok im_view "\<lambda>_ _. True" "\<lambda>s. im_clock s 0"
proof (unfold_locales, goal_cases)
  case (1 s)
  then show ?case by (simp add: im_ids im_ok_def)
next
  case (2 s u)
  then show ?case by (simp add: im_ports_def im_get_balance_def im_view_def)
next
  case (3 s q)
  then show ?case by (simp add: im_ports_def im_get_by_request_id_def im_request_law)
next
  case (4 s c)
  then show ?case by (simp add: im_ports_def im_get_by_creem_checkout_id_def im_checkout_law)
next
  case (5 s u k cr pr q pid r t)
  then show ?case using im_create_law [of s u k cr pr q pid r t] by (auto simp: im_ports_def)
next
  case (6 s b c)
  then show ?case using im_attach_law by (simp add: im_ports_def)
next
  case (7 s b co now)
  then show ?case using im_mark_law by (simp add: im_ports_def)
next
  case (8 s d b e u)
  then show ?case
    by (auto simp: im_ports_def im_credit_def im_view_def im_ok_def Let_def update_conv' fun_eq_iff split: option.splits)
next
  case (9 s e ty)
  then show ?case by (auto simp: im_ports_def im_try_begin_def im_view_def im_ok_def)
next
  case (10 s)
  then show ?case by (simp add: im_uuid4_def im_view_def im_ok_def)
next
  case (11 s)
  then show ?case by (simp add: im_now_def im_view_def im_ok_def)
qed

lemma null_transactional: "transactional ok view null_transaction"
  by (simp add: transactional_def null_transaction_def)

interpretation im: billing_services im_ports im_uuid4 im_now im_ok im_view "\<lambda>_ _. True" "\<lambda>s. im_clock s 0"
  "memory_checkout_service products url creem" "memory_webhook_service products secret"
  for products url creem secret
  by unfold_locales (simp_all add: memory_checkout_service_def memory_webhook_service_def null_transactional)

section \<open>The database satisfies the contract\<close>

definition row_order :: "billing_order_row \<Rightarrow> billing_order" where
  "row_order r =
     \<lparr> bo_id = or_id r, bo_user = or_user r,
       bo_pack_key = (case credit_pack_key_of (or_pack_key r) of Inr k \<Rightarrow> k | Inl _ \<Rightarrow> USD_5),
       bo_credits = or_credits r, bo_price = or_price r, bo_status = or_status r, bo_request = or_request r,
       bo_product = or_product r, bo_checkout = or_checkout r, bo_creem_order = or_creem_order r,
       bo_paid_at = or_paid_at r \<rparr>"

definition bd_view :: "billing_db \<Rightarrow> bview" where
  "bd_view s = \<lparr> v_orders = map row_order (bd_orders s), v_balance = balance_of_rows (bd_balances s),
     v_seen = we_event ` set (bd_events s) \<rparr>"

definition orders_ok :: "int \<Rightarrow> billing_order_row list \<Rightarrow> bool" where
  "orders_ok n rows \<longleftrightarrow> distinct (map or_id rows) \<and> distinct (map or_request rows)
     \<and> (\<forall>r \<in> set rows. or_id r < n \<and> or_pack_key r \<in> range credit_pack_key_value)"

definition bd_ok :: "billing_db \<Rightarrow> bool" where
  "bd_ok s \<longleftrightarrow> orders_ok (bd_next s) (bd_orders s)
     \<and> distinct (map ba_user (bd_balances s)) \<and> (\<forall>r \<in> set (bd_balances s). 0 \<le> ba_balance r)
     \<and> le_event ` set (bd_ledger s) \<subseteq> we_event ` set (bd_events s)"

definition bd_uncredited :: "billing_db \<Rightarrow> string \<Rightarrow> bool" where
  "bd_uncredited s e \<longleftrightarrow> e \<notin> le_event ` set (bd_ledger s)"

lemma row_order_fields [simp]:
  "bo_id (row_order r) = or_id r" "bo_user (row_order r) = or_user r" "bo_status (row_order r) = or_status r"
  "bo_request (row_order r) = or_request r" "bo_checkout (row_order r) = or_checkout r"
  "bo_credits (row_order r) = or_credits r" "bo_price (row_order r) = or_price r"
  by (simp_all add: row_order_def)

lemma to_record_ok: "or_pack_key r \<in> range credit_pack_key_value \<Longrightarrow> to_record r = Inr (row_order r)"
  by (auto simp: to_record_def row_order_def)

lemma record_option_found:
  assumes ok: "orders_ok n rows"
  shows "\<exists>b. record_option (find (\<lambda>r. Q (row_order r)) rows) = Inr b \<and> found Q b (map row_order rows)"
proof (cases "find (\<lambda>r. Q (row_order r)) rows")
  case None
  then have "\<forall>r \<in> set rows. \<not> Q (row_order r)" by (auto simp: find_None_iff)
  with None show ?thesis by (simp add: record_option_def found_def)
next
  case (Some r)
  then have r: "r \<in> set rows" "Q (row_order r)" using find_SomeD by fastforce+
  with ok have "to_record r = Inr (row_order r)" by (auto intro!: to_record_ok simp: orders_ok_def)
  with Some r show ?thesis by (simp add: record_option_def found_def)
qed

lemma orders_ok_map:
  assumes "orders_ok n rows"
    and "\<And>r. or_id (f r) = or_id r \<and> or_request (f r) = or_request r \<and> or_pack_key (f r) = or_pack_key r"
  shows "orders_ok n (map f rows)"
  using assms by (auto simp: orders_ok_def comp_def)

lemma balance_of_rows_simps [simp]:
  "balance_of_rows [] u = 0"
  "balance_of_rows (r # rows) u = (if ba_user r = u then ba_balance r else balance_of_rows rows u)"
  by (simp_all add: balance_of_rows_def)

lemma balance_of_rows_update:
  "balance_of_rows (map (\<lambda>x. if ba_user x = ba_user r then r else x) rows) v
     = (if v = ba_user r \<and> v \<in> ba_user ` set rows then ba_balance r else balance_of_rows rows v)"
proof (induction rows)
  case (Cons x rows)
  then show ?case by (cases "ba_user x = ba_user r"; cases "v = ba_user r") simp_all
qed simp

lemma balance_of_rows_append:
  "u \<notin> ba_user ` set rows \<Longrightarrow>
   balance_of_rows (rows @ [\<lparr> ba_user = u, ba_balance = 0, ba_version = 0 \<rparr>]) v = balance_of_rows rows v"
  by (induction rows) auto

lemma balance_of_rows_absent: "u \<notin> ba_user ` set rows \<Longrightarrow> balance_of_rows rows u = 0"
  by (induction rows) auto

lemma bd_create_law:
  assumes ok: "bd_ok s" and run: "bd_create_pending u k cr pr q pid s = (r, t)"
  shows "bd_ok t \<and> (case r of
      Inl e \<Rightarrow> bd_view t = bd_view s
    | Inr b \<Rightarrow> bd_view t = (bd_view s)\<lparr>v_orders := v_orders (bd_view s) @ [b]\<rparr>
        \<and> bo_user b = u \<and> bo_pack_key b = k \<and> bo_credits b = cr \<and> bo_price b = pr \<and> bo_request b = q
        \<and> bo_product b = pid \<and> bo_status b = Pending \<and> bo_checkout b = None)"
proof -
  define row where "row = \<lparr> or_id = bd_next s, or_user = u, or_pack_key = credit_pack_key_value k, or_credits = cr,
               or_price = pr, or_status = Pending, or_request = q, or_product = pid,
               or_checkout = None, or_creem_order = None, or_paid_at = None \<rparr>"
  have rec: "to_record row = Inr (row_order row)" by (rule to_record_ok) (simp add: row_def)
  have fresh: "bd_next s \<notin> or_id ` set (bd_orders s)" using ok by (auto simp: bd_ok_def orders_ok_def)
  show ?thesis
  proof (cases "0 < cr \<and> 0 < pr \<and> q \<notin> or_request ` set (bd_orders s)")
    case True
    with run rec have "r = Inr (row_order row)" "t = s\<lparr>bd_next := bd_next s + 1, bd_orders := bd_orders s @ [row]\<rparr>"
      by (auto simp: bd_create_pending_def eff_simps bd_constraint_def bindE_def Let_def row_def [symmetric])
    moreover have "orders_ok (bd_next s + 1) (bd_orders s @ [row])"
      using ok True fresh by (auto simp: bd_ok_def orders_ok_def row_def)
    ultimately show ?thesis using ok by (simp add: bd_ok_def bd_view_def) (simp add: row_def row_order_def)
  next
    case False
    with run have "t = s\<lparr>bd_next := bd_next s + 1\<rparr>" "\<exists>e. r = Inl e"
      by (auto simp: bd_create_pending_def eff_simps bd_constraint_def bindE_def Let_def split: if_splits)
    with ok show ?thesis by (auto simp: bd_ok_def orders_ok_def bd_view_def)
  qed
qed

lemma one_row: "distinct (map f rows) \<Longrightarrow> r \<in> set rows \<Longrightarrow> filter (\<lambda>x. f x = f r) rows = [r]"
  by (induction rows) (auto simp: image_iff filter_empty_conv)

lemma bd_attach_law:
  assumes ok: "bd_ok s" and b: "b \<in> set (v_orders (bd_view s))"
  shows "\<exists>t. bd_attach_checkout (bo_id b) c s = (Inr (), t) \<and> bd_ok t
      \<and> bd_view t = (bd_view s)\<lparr>v_orders := map (set_checkout (bo_id b) c) (v_orders (bd_view s))\<rparr>"
proof -
  from b obtain r where r: "r \<in> set (bd_orders s)" "b = row_order r" by (auto simp: bd_view_def)
  define f where "f = (\<lambda>x :: billing_order_row. if or_id x = or_id r then x\<lparr>or_checkout := Some c\<rparr> else x)"
  have "filter (\<lambda>x. or_id x = or_id r) (bd_orders s) = [r]"
    using one_row [of or_id "bd_orders s" r] ok r(1) by (simp add: bd_ok_def orders_ok_def)
  then have "bd_attach_checkout (bo_id b) c s = (Inr (), s\<lparr>bd_orders := map f (bd_orders s)\<rparr>)"
    using r(2) by (simp add: bd_attach_checkout_def eff_simps f_def)
  moreover have "orders_ok (bd_next s) (map f (bd_orders s))"
    using ok by (intro orders_ok_map) (auto simp: bd_ok_def f_def)
  moreover have "row_order (f x) = set_checkout (or_id r) c (row_order x)" for x
    by (simp add: f_def set_checkout_def row_order_def)
  ultimately show ?thesis using ok r by (simp add: bd_ok_def bd_view_def)
qed

lemma bd_mark_law:
  assumes ok: "bd_ok s" and b: "b \<in> set (v_orders (bd_view s))"
  shows "\<exists>b' t. bd_mark_paid (bo_id b) co now s = (Inr b', t) \<and> bd_ok t
      \<and> bd_view t = (bd_view s)\<lparr>v_orders := map (pay_order (bo_id b) co now) (v_orders (bd_view s))\<rparr>
      \<and> bd_uncredited t = bd_uncredited s"
proof -
  from b obtain r where r: "r \<in> set (bd_orders s)" "b = row_order r" by (auto simp: bd_view_def)
  have ids: "distinct (map or_id (bd_orders s))" and key: "or_pack_key r \<in> range credit_pack_key_value"
    using ok r by (auto simp: bd_ok_def orders_ok_def)
  have find: "find (\<lambda>x. or_id x = or_id r) (bd_orders s) = Some r" using find_distinct_key [OF ids r(1)] .
  have same: "x = r" if "x \<in> set (bd_orders s)" "or_id x = or_id r" for x
    using find_distinct_key [OF ids that(1)] that(2) find by simp
  show ?thesis
  proof (cases "or_status r = Paid")
    case True
    have "pay_order (or_id r) co now (row_order x) = row_order x" if "x \<in> set (bd_orders s)" for x
      using True same [OF that] by (cases "or_id x = or_id r") (simp_all add: pay_order_def)
    then have "map (pay_order (or_id r) co now) (map row_order (bd_orders s)) = map row_order (bd_orders s)"
      by simp
    with True find r key ok show ?thesis
      by (intro exI [of _ "row_order r"] exI [of _ s])
         (simp add: bd_mark_paid_def bd_transaction_def eff_simps to_record_ok bd_view_def)
  next
    case False
    define f where "f = (\<lambda>x :: billing_order_row. if or_id x = or_id r
      then x\<lparr>or_status := Paid, or_creem_order := co, or_paid_at := Some now\<rparr> else x)"
    have "bd_mark_paid (bo_id b) co now s = (Inr (row_order (f r)), s\<lparr>bd_orders := map f (bd_orders s)\<rparr>)"
      using False find r key
      by (simp add: bd_mark_paid_def bd_transaction_def eff_simps Let_def f_def to_record_ok)
    moreover have "orders_ok (bd_next s) (map f (bd_orders s))"
      using ok by (intro orders_ok_map) (auto simp: bd_ok_def f_def)
    moreover have "row_order (f x) = pay_order (or_id r) co now (row_order x)" if "x \<in> set (bd_orders s)" for x
      using False same [OF that] by (cases "or_id x = or_id r") (simp_all add: f_def pay_order_def row_order_def)
    ultimately show ?thesis using ok r
      by (intro exI [of _ "row_order (f r)"] exI [of _ "s\<lparr>bd_orders := map f (bd_orders s)\<rparr>"])
         (simp add: bd_ok_def bd_view_def bd_uncredited_def fun_eq_iff)
  qed
qed

lemma bd_lock_law:
  assumes "distinct (map ba_user (bd_balances s))"
  shows "\<exists>row rows. bd_lock_balance u s = (Inr row, s\<lparr>bd_balances := rows\<rparr>) \<and> row \<in> set rows \<and> ba_user row = u
     \<and> distinct (map ba_user rows) \<and> balance_of_rows rows = balance_of_rows (bd_balances s)
     \<and> ba_balance row = balance_of_rows (bd_balances s) u
     \<and> ba_balance ` set rows \<subseteq> insert 0 (ba_balance ` set (bd_balances s))"
proof (cases "find (\<lambda>r. ba_user r = u) (bd_balances s)")
  case None
  then have "u \<notin> ba_user ` set (bd_balances s)" by (auto simp: find_None_iff)
  with None assms show ?thesis
    by (intro exI [of _ "\<lparr> ba_user = u, ba_balance = 0, ba_version = 0 \<rparr>"]
          exI [of _ "bd_balances s @ [\<lparr> ba_user = u, ba_balance = 0, ba_version = 0 \<rparr>]"])
       (auto simp: bd_lock_balance_def eff_simps bindE_def bd_constraint_def Let_def balance_of_rows_append
          balance_of_rows_absent fun_eq_iff)
next
  case (Some r)
  then have "r \<in> set (bd_balances s)" "ba_user r = u" using find_SomeD by fastforce+
  moreover have "balance_of_rows (bd_balances s) u = ba_balance r" using Some by (simp add: balance_of_rows_def)
  ultimately show ?thesis using Some assms
    by (intro exI [of _ r] exI [of _ "bd_balances s"]) (auto simp: bd_lock_balance_def eff_simps)
qed

lemma bd_credit_law:
  assumes ok: "bd_ok s" and d: "0 < d" and b: "b \<in> set (v_orders (bd_view s))" and e: "e \<in> v_seen (bd_view s)"
    and new: "bd_uncredited s e"
  shows "\<exists>t. bd_credit u d (bo_id b) e s = (Inr (v_balance (bd_view s) u + d), t) \<and> bd_ok t
        \<and> bd_view t = (bd_view s)\<lparr>v_balance := (v_balance (bd_view s))(u := v_balance (bd_view s) u + d)\<rparr>"
proof -
  let ?bal = "balance_of_rows (bd_balances s) u"
  obtain row rows where row: "bd_lock_balance u s = (Inr row, s\<lparr>bd_balances := rows\<rparr>)" "row \<in> set rows"
      "ba_user row = u" "distinct (map ba_user rows)" "balance_of_rows rows = balance_of_rows (bd_balances s)"
      "ba_balance row = ?bal" "ba_balance ` set rows \<subseteq> insert 0 (ba_balance ` set (bd_balances s))"
    using bd_lock_law [of s u] ok by (auto simp: bd_ok_def)
  have nonneg: "\<forall>r \<in> set rows. 0 \<le> ba_balance r" using row(7) ok by (auto simp: bd_ok_def image_subset_iff)
  define row' where "row' = row\<lparr>ba_balance := ?bal + d, ba_version := ba_version row + 1\<rparr>"
  define rows' where "rows' = map (\<lambda>r. if ba_user r = u then row' else r) rows"
  define l where "l = \<lparr> le_user = u, le_order = bo_id b, le_event = e, le_delta = d, le_balance_after = ?bal + d \<rparr>"
  define t where "t = s\<lparr>bd_balances := rows', bd_ledger := bd_ledger s @ [l]\<rparr>"
  have none: "find (\<lambda>x. le_event x = e) (bd_ledger s) = None"
    using new by (auto simp: bd_uncredited_def find_None_iff)
  have "0 \<le> ?bal" using nonneg row(2,6) by auto
  moreover have "bo_id b \<in> or_id ` set (bd_orders s)" using b by (auto simp: bd_view_def)
  ultimately have "bd_credit u d (bo_id b) e s = (Inr (?bal + d), t)"
    using d none row(1,3,6) new
    by (simp add: bd_credit_def bd_transaction_def eff_simps bindE_def bd_constraint_def Let_def bd_uncredited_def
        t_def l_def rows'_def row'_def)
  moreover have "balance_of_rows rows' = (balance_of_rows (bd_balances s))(u := ?bal + d)"
  proof
    fix v
    have "ba_user row' = u" using row(3) by (simp add: row'_def)
    moreover from this have "u \<in> ba_user ` set rows" using imageI [OF row(2), of ba_user] row(3) by simp
    ultimately show "balance_of_rows rows' v = ((balance_of_rows (bd_balances s))(u := ?bal + d)) v"
      using balance_of_rows_update [of row' rows v] row(5) by (simp add: rows'_def) (simp add: row'_def)
  qed
  moreover have "map ba_user rows' = map ba_user rows" using row(3) by (simp add: rows'_def row'_def)
  moreover have "\<forall>r \<in> set rows'. 0 \<le> ba_balance r" using nonneg d \<open>0 \<le> ?bal\<close> by (auto simp: rows'_def row'_def)
  ultimately show ?thesis using ok e row(4)
    by (intro exI [of _ t]) (auto simp: bd_ok_def bd_view_def t_def l_def)
qed

interpretation bd: billing_contract bd_ports bd_uuid4 bd_now bd_ok bd_view bd_uncredited "\<lambda>s. bd_clock s 0"
proof (unfold_locales, goal_cases)
  case (1 s)
  then show ?case by (simp add: bd_ok_def orders_ok_def bd_view_def comp_def)
next
  case (2 s u)
  then show ?case by (simp add: bd_ports_def bd_get_balance_def bd_view_def)
next
  case (3 s q)
  then show ?case
    using record_option_found [of "bd_next s" "bd_orders s" "\<lambda>b. bo_request b = q"]
    by (simp add: bd_ports_def bd_get_by_request_id_def bd_view_def bd_ok_def)
next
  case (4 s c)
  then show ?case
    using record_option_found [of "bd_next s" "bd_orders s" "\<lambda>b. bo_checkout b = Some c"]
    by (simp add: bd_ports_def bd_get_by_creem_checkout_id_def bd_view_def bd_ok_def)
next
  case (5 s u k cr pr q pid r t)
  then show ?case using bd_create_law by (simp add: bd_ports_def)
next
  case (6 s b c)
  then show ?case using bd_attach_law by (simp add: bd_ports_def)
next
  case (7 s b co now)
  then show ?case using bd_mark_law by (simp add: bd_ports_def)
next
  case (8 s d b e u)
  then show ?case using bd_credit_law by (simp add: bd_ports_def)
next
  case (9 s e ty)
  show ?case
  proof (cases "find (\<lambda>w. we_event w = e) (bd_events s)")
    case None
    then have "e \<notin> we_event ` set (bd_events s)" by (auto simp: find_None_iff)
    with 9 None show ?thesis
      by (auto simp: bd_ports_def bd_try_begin_def catchE_def eff_simps bindE_def bd_constraint_def bd_ok_def
          bd_view_def bd_uncredited_def)
  next
    case (Some w)
    then have "e \<in> we_event ` set (bd_events s)" by (auto dest: find_SomeD)
    with 9 Some show ?thesis
      by (auto simp: bd_ports_def bd_try_begin_def eff_simps bd_view_def)
  qed
next
  case (10 s)
  then show ?case by (simp add: bd_uuid4_def bd_view_def bd_ok_def)
next
  case (11 s)
  then show ?case by (simp add: bd_now_def bd_view_def bd_ok_def bd_uncredited_def fun_eq_iff)
qed

lemma bd_transactional: "transactional bd_ok bd_view bd_transaction"
proof -
  have "\<exists>t'. bd_transaction m s = (Inl e, t') \<and> (t' = t \<or> (bd_ok s \<longrightarrow> bd_ok t') \<and> bd_view t' = bd_view s)"
    if "m s = (Inl e, t)" for m :: "(billing_db, 'a) eff" and s e t
    using that by (auto simp: bd_transaction_def bd_ok_def orders_ok_def bd_view_def)
  moreover have "bd_transaction m s = (Inr x, t)" if "m s = (Inr x, t)" for m :: "(billing_db, 'a) eff" and s x t
    using that by (simp add: bd_transaction_def)
  ultimately show ?thesis by (simp add: transactional_def)
qed

interpretation bd: billing_services bd_ports bd_uuid4 bd_now bd_ok bd_view bd_uncredited "\<lambda>s. bd_clock s 0"
  "get_checkout_service settings url client" "get_webhook_service settings secret"
  for settings url client secret
  by unfold_locales (simp_all add: get_checkout_service_def get_webhook_service_def bd_transactional)

end
