(* ===== verification/Billing_Properties.thy ===== *)
theory Billing_Properties
  imports Billing_Ledger
begin

text \<open>
  What the billing contract gives for the deployed services: balances are the totals of the paid orders
  through every history, a paid checkout is credited exactly once, a payment that does not match its
  order is refused, and the in-memory store of the tests answers a notification as the database does.
\<close>

definition new_billing_db :: "(nat \<Rightarrow> int) \<Rightarrow> (nat \<Rightarrow> string) \<Rightarrow> (string \<Rightarrow> exc_link list) \<Rightarrow> billing_db" where
  "new_billing_db clock uuids driver =
     \<lparr> bd_orders = [], bd_balances = [], bd_ledger = [], bd_events = [], bd_next = 1, bd_clock = clock,
       bd_uuids = uuids, bd_driver = driver \<rparr>"

lemma new_billing_db_ok: "bd_ok (new_billing_db c v d)" "balanced (bd_view (new_billing_db c v d))"
  by (auto simp: new_billing_db_def bd_ok_def orders_ok_def balanced_def bd_view_def fun_eq_iff)

lemmas reachable_ok = bd.history_balanced [OF _ new_billing_db_ok(1)]

text \<open>
  C30. In every state that the checkout and webhook services can bring an empty database to, by any sequence
  of calls with any arguments and any answers of the payment provider, the balance of a user is exactly the
  total of the credits of that user's paid orders.\<close>

theorem balance_is_paid_total:
  assumes "billing_steps (get_checkout_service settings url client) (get_webhook_service settings secret)
             (new_billing_db clock uuids driver) t"
  shows "get_balance bd_ports u t = (Inr (paid_total u (map row_order (bd_orders t))), t)"
proof -
  have "bd_ok t" "balanced (bd_view t)" using reachable_ok [OF assms] new_billing_db_ok(2) by auto
  then show ?thesis using bd.get_balance_law [of t u] by (simp add: balanced_def bd_view_def)
qed

lemma bd_order_unique:
  assumes "bd_ok s" "b \<in> set (v_orders (bd_view s))" "c \<in> set (v_orders (bd_view s))" "bo_request b = bo_request c"
  shows "b = c"
proof -
  obtain q r where "q \<in> set (bd_orders s)" "r \<in> set (bd_orders s)" "b = row_order q" "c = row_order r"
    using assms(2,3) by (auto simp: bd_view_def)
  moreover have "inj_on or_request (set (bd_orders s))"
    using assms(1) by (simp add: bd_ok_def orders_ok_def distinct_map)
  ultimately show ?thesis using assms(4) by (auto dest: inj_onD)
qed

lemma resolution_by_request:
  assumes ok: "bd_ok s" and b: "b \<in> set (v_orders (bd_view s))" "gr_request_id g = Some (bo_request b)" "bo_request b \<noteq> []"
    and r: "resolution g (v_orders (bd_view s)) r"
  shows "r = Some b"
proof -
  have "by_request g b" using b by (simp add: by_request_def)
  with b r have "found (by_request g) r (v_orders (bd_view s))" unfolding resolution_def by metis
  moreover have "found (by_request g) (Some b) (v_orders (bd_view s))"
    using b \<open>by_request g b\<close> by (simp add: found_def)
  ultimately show ?thesis
    by (rule found_unique) (use bd_order_unique [OF ok] in \<open>auto simp: by_request_def\<close>)
qed

lemma placed_order_resolved:
  assumes ok: "bd_ok s" and run: "create_checkout (get_checkout_service settings url client) u key email s = (Inr se, t)"
    and steps: "billing_steps (get_checkout_service settings url client) (get_webhook_service settings secret) t t'"
  obtains b pack where "b \<in> set (v_orders (bd_view t'))" "bd_ok t'" "get_pack key = Inr pack" "bo_user b = u"
    "bo_id b = se_order_id se" "bo_request b = se_request_id se" "bo_pack_key b = pack_key pack"
    "bo_credits b = pack_credits pack" "bo_price b = pack_price pack" "se_pack_key se = pack_key pack"
    "se_credits se = pack_credits pack" "se_price se = pack_price pack"
proof -
  note law = bd.create_checkout_law [OF ok run]
  then obtain pack where pack: "get_pack key = Inr pack" by (cases "get_pack key") auto
  with law obtain b where b: "bd_ok t" "order_placed (bd_view s) (bd_view t) b" "bo_user b = u" "bo_id b = se_order_id se"
      "bo_request b = se_request_id se" "bo_pack_key b = pack_key pack" "bo_credits b = pack_credits pack"
      "bo_price b = pack_price pack" "se_pack_key se = pack_key pack" "se_credits se = pack_credits pack"
      "se_price se = pack_price pack"
    by (auto simp: checkout_effect_def)
  then have "b \<in> set (v_orders (bd_view t))" by (simp add: order_placed_def)
  moreover have later: "bd_ok t'" "orders_advance (v_orders (bd_view t)) (v_orders (bd_view t'))"
    using bd.history_balanced [OF steps b(1)] by auto
  ultimately obtain b' where "b' \<in> set (v_orders (bd_view t'))" "order_step b b'"
    using orders_advance_member by blast
  with b pack later that [of b' pack] show thesis by (simp add: order_step_def)
qed

lemma get_pack_at: "get_pack key = Inr p \<Longrightarrow> pack_at (pack_key p) = Inr p"
  using pack_at_key by (auto simp: get_pack_def bindR_Inr)

text \<open>The outcome of a notification that matches an order of the database.\<close>

lemma paid_row:
  assumes "row_order row \<in> set bs" and "v_orders (bd_view t) = map f bs"
    and "f (row_order row) = b" "bo_id b = or_id row" "bo_user b = or_user row" "bo_status b = Paid"
  shows "\<exists>r \<in> set (bd_orders t). or_id r = or_id row \<and> or_user r = or_user row \<and> or_status r = Paid"
proof -
  have "b \<in> set (v_orders (bd_view t))" using assms by auto
  then obtain r where r: "r \<in> set (bd_orders t)" "row_order r = b" by (auto simp: bd_view_def)
  have "or_id r = bo_id b" "or_user r = bo_user b" "or_status r = bo_status b"
    by (simp_all only: r(2) [symmetric] row_order_fields)
  with r(1) assms show ?thesis by auto
qed

lemma apply_matching_payment:
  assumes ok: "bd_ok s" and row: "row \<in> set (bd_orders s)"
    and g: "parse_checkout_completed_grant payload (product_id_by_pack_from_settings settings) = Inr (Some g)"
      "gr_request_id g = Some (or_request row)" "or_request row \<noteq> []"
    and check: "check_order g (row_order row) = Inr ()"
    and new: "gr_event_id g \<notin> we_event ` set (bd_events s)"
  shows "\<exists>res t. apply_payload (get_webhook_service settings secret) payload s = (Inr res, t)
     \<and> ap_status res = (if or_status row = Paid then Duplicate else Applied)
     \<and> (\<exists>r \<in> set (bd_orders t). or_id r = or_id row \<and> or_user r = or_user row \<and> or_status r = Paid)
     \<and> balance_of_rows (bd_balances t) (or_user row)
         = balance_of_rows (bd_balances s) (or_user row) + (if or_status row = Paid then 0 else or_credits row)"
proof -
  let ?ws = "get_webhook_service settings secret"
  have prods: "ws_products ?ws = product_id_by_pack_from_settings settings" by (simp add: get_webhook_service_def)
  obtain r t where r: "resolves (ws_products ?ws) payload (bd_view s) r"
      "apply_payload ?ws payload s = (fst (webhook_step (ws_products ?ws) payload r (bd_clock s 0) (bd_view s)), t)"
      "bd_view t = snd (webhook_step (ws_products ?ws) payload r (bd_clock s 0) (bd_view s))"
    using bd.apply_payload_law [OF ok, of settings secret payload] by blast
  have "resolution g (v_orders (bd_view s)) r" using r(1) g(1) prods by (simp add: resolves_def)
  moreover have mem: "row_order row \<in> set (v_orders (bd_view s))" using row by (simp add: bd_view_def)
  ultimately have rb: "r = Some (row_order row)" using resolution_by_request [OF ok] g(2,3) by simp
  have unseen: "gr_event_id g \<notin> v_seen (bd_view s)" using new by (simp add: bd_view_def)
  have cr: "pack_credits (gr_pack g) = or_credits row" using check_order_Inr [OF check] by simp
  have bal: "balance_of_rows (bd_balances x) = v_balance (bd_view x)" for x by (simp add: bd_view_def)
  define W where "W = webhook_step (product_id_by_pack_from_settings settings) payload (Some (row_order row)) (bd_clock s 0) (bd_view s)"
  have step: "apply_payload ?ws payload s = (fst W, t)" "bd_view t = snd W"
    using r(2,3) by (simp_all add: W_def prods rb)
  show ?thesis
  proof (cases "or_status row = Paid")
    case True
    then have "\<exists>res. W = (Inr res, bd_view s) \<and> ap_status res = Duplicate"
      by (simp add: W_def webhook_step_def g(1) check Let_def)
    with paid_row [OF mem, of t id "row_order row"] step True show ?thesis by (auto simp: bal)
  next
    case False
    then have "\<exists>res. W = (Inr res, \<lparr> v_orders = map (pay_order (or_id row) (gr_order_id g) (bd_clock s 0)) (v_orders (bd_view s)),
               v_balance = (v_balance (bd_view s))
                  (or_user row := v_balance (bd_view s) (or_user row) + or_credits row),
               v_seen = insert (gr_event_id g) (v_seen (bd_view s)) \<rparr>) \<and> ap_status res = Applied"
      by (simp add: W_def webhook_step_def g(1) check cr unseen Let_def)
    with step paid_row [OF mem, of t "pay_order (or_id row) (gr_order_id g) (bd_clock s 0)", OF _ refl] False
    show ?thesis by (auto simp: bal)
  qed
qed

text \<open>
  C31. A checkout is credited. Let a user open a checkout, let any further calls happen, and let a completed
  notification arrive under a new event identifier that names the checkout's request, its pack and its price
  in US dollars. Then the notification succeeds and the order is paid afterwards; if it was still
  pending the user's balance grows by the credits of the session, and if it was already paid the
  notification is reported as a duplicate and the balance stays.\<close>

theorem paid_checkout_is_credited:
  assumes reach: "billing_steps (get_checkout_service settings url client) (get_webhook_service settings secret)
             (new_billing_db clock uuids driver) s"
    and run: "create_checkout (get_checkout_service settings url client) u key email s = (Inr se, t)"
    and steps: "billing_steps (get_checkout_service settings url client) (get_webhook_service settings secret) t t'"
    and g: "parse_checkout_completed_grant payload (product_id_by_pack_from_settings settings) = Inr (Some g)"
      "gr_request_id g = Some (se_request_id se)" "se_request_id se \<noteq> []" "pack_key (gr_pack g) = se_pack_key se"
      "gr_amount g = Some (se_price se)" "gr_currency g = Some c" "strip c \<in> set usd_spellings"
    and new: "gr_event_id g \<notin> we_event ` set (bd_events t')"
  shows "\<exists>b \<in> set (bd_orders t'). \<exists>res t''.
     apply_payload (get_webhook_service settings secret) payload t' = (Inr res, t'')
     \<and> or_id b = se_order_id se
     \<and> (\<exists>b' \<in> set (bd_orders t''). or_id b' = se_order_id se \<and> or_user b' = u \<and> or_status b' = Paid)
     \<and> ap_status res = (if or_status b = Paid then Duplicate else Applied)
     \<and> balance_of_rows (bd_balances t'') u
         = balance_of_rows (bd_balances t') u + (if or_status b = Paid then 0 else se_credits se)"
proof -
  have "bd_ok s" using reachable_ok [OF reach] by simp
  from placed_order_resolved [OF this run steps] obtain b pack where b: "b \<in> set (v_orders (bd_view t'))"
      "bd_ok t'" "get_pack key = Inr pack" "bo_user b = u" "bo_id b = se_order_id se"
      "bo_request b = se_request_id se" "bo_pack_key b = pack_key pack" "bo_credits b = pack_credits pack"
      "bo_price b = pack_price pack" "se_pack_key se = pack_key pack" "se_credits se = pack_credits pack"
      "se_price se = pack_price pack" .
  obtain row where row: "row \<in> set (bd_orders t')" "b = row_order row" using b(1) by (auto simp: bd_view_def)
  have "gr_pack g = pack"
    using parse_grant_pack(1) [OF g(1)] get_pack_at [OF b(3)] unfolding g(4) b(10) by (metis sum.inject(2))
  then have check: "check_order g (row_order row) = Inr ()"
    using b(7-9,12) g(5-7) by (simp add: check_order_def row(2))
  have req: "gr_request_id g = Some (or_request row)" "or_request row \<noteq> []"
    using g(2,3) b(6) row(2) by simp_all
  have "or_id row = se_order_id se" "or_user row = u" "or_credits row = se_credits se"
    using b(4,5,8,11) row(2) by simp_all
  with apply_matching_payment [OF b(2) row(1) g(1) req check new, of secret] show ?thesis
    by (intro bexI [OF _ row(1)]) (cases "or_status row = Paid"; auto)
qed

text \<open>
  C32. The webhook credits nothing that is not due. In a reachable state, a notification either leaves
  orders, balances and claimed events as they are, or it reports success, its event is new, and it pays one
  pending order whose pack is the one configured for the notified product and whose price is the notified
  amount in US dollars; then exactly that order becomes paid and exactly its user gains its credits.\<close>

theorem webhook_credits_only_due_payments:
  assumes reach: "billing_steps (get_checkout_service settings url client) (get_webhook_service settings secret)
             (new_billing_db clock uuids driver) s"
    and run: "apply_payload (get_webhook_service settings secret) payload s = (r, t)"
  shows "bd_view t = bd_view s \<or>
    (\<exists>row \<in> set (bd_orders s). \<exists>g res c now. r = Inr res \<and> ap_status res = Applied
       \<and> parse_checkout_completed_grant payload (product_id_by_pack_from_settings settings) = Inr (Some g)
       \<and> gr_event_id g \<notin> we_event ` set (bd_events s)
       \<and> or_status row = Pending \<and> (bo_pack_key (row_order row), gr_product_id g)
             \<in> set (product_id_by_pack_from_settings settings)
       \<and> gr_amount g = Some (or_price row) \<and> gr_currency g = Some c \<and> strip c \<in> set usd_spellings
       \<and> bd_view t = \<lparr> v_orders = map (pay_order (or_id row) (gr_order_id g) now) (v_orders (bd_view s)),
            v_balance = (v_balance (bd_view s))(or_user row := v_balance (bd_view s) (or_user row) + or_credits row),
            v_seen = insert (gr_event_id g) (v_seen (bd_view s)) \<rparr>)"
proof -
  let ?ws = "get_webhook_service settings secret"
  have prods: "ws_products ?ws = product_id_by_pack_from_settings settings" by (simp add: get_webhook_service_def)
  have ok: "bd_ok s" using reachable_ok [OF reach] by simp
  obtain q where q: "resolves (product_id_by_pack_from_settings settings) payload (bd_view s) q"
      "webhook_step (product_id_by_pack_from_settings settings) payload q (bd_clock s 0) (bd_view s) = (r, bd_view t)"
    using bd.apply_payload_law [OF ok, of settings secret payload] run unfolding prods
    by (metis prod.collapse prod.inject)
  from q(2,1) show ?thesis
  proof (cases rule: webhook_step_cases)
    case same
    then show ?thesis by simp
  next
    case (applied g b)
    obtain row where row: "row \<in> set (bd_orders s)" "b = row_order row"
      using applied(3) by (auto simp: bd_view_def)
    obtain c where c: "gr_currency g = Some c" "strip c \<in> set usd_spellings"
      "gr_amount g = Some (or_price row)" "bo_pack_key (row_order row) = pack_key (gr_pack g)"
      using check_order_Inr [OF applied(4)] row(2) by auto
    have "gr_event_id g \<notin> we_event ` set (bd_events s)" using applied(6) by (simp add: bd_view_def)
    with applied row c parse_grant_pack(2) [OF applied(1)] show ?thesis
      by (intro disjI2 bexI [OF _ row(1)] exI [of _ g] exI [of _ c] exI [of _ "bd_clock s 0"]
          exI [of _ "\<lparr> ap_status = Applied, ap_event_id = Some (gr_event_id g), ap_credits = or_credits row,
                     ap_balance = Some (v_balance (bd_view s) (or_user row) + or_credits row) \<rparr>"]) simp
  qed
qed

text \<open>An in-memory store and a database that hold the same orders, balances and events, no two orders
  sharing a checkout identifier.\<close>

definition same_books :: "memory_stores \<Rightarrow> billing_db \<Rightarrow> bool" where
  "same_books m s \<longleftrightarrow> im_ok m \<and> bd_ok s \<and> im_view m = bd_view s \<and> im_clock m 0 = bd_clock s 0
     \<and> (\<forall>b \<in> set (v_orders (bd_view s)). \<forall>c \<in> set (v_orders (bd_view s)).
          bo_checkout b \<noteq> None \<longrightarrow> bo_checkout b = bo_checkout c \<longrightarrow> b = c)"

lemma resolution_unique:
  assumes "bd_ok s" "\<forall>b \<in> set (v_orders (bd_view s)). \<forall>c \<in> set (v_orders (bd_view s)).
          bo_checkout b \<noteq> None \<longrightarrow> bo_checkout b = bo_checkout c \<longrightarrow> b = c"
    and "resolution g (v_orders (bd_view s)) q" "resolution g (v_orders (bd_view s)) r"
  shows "q = r"
proof (cases "\<exists>b \<in> set (v_orders (bd_view s)). by_request g b")
  case True
  then show ?thesis using assms(3,4) unfolding resolution_def
    by (auto intro!: found_unique [of "by_request g" q "v_orders (bd_view s)" r]
        intro: bd_order_unique [OF assms(1)] simp: by_request_def)
next
  case False
  then show ?thesis using assms(2-4) unfolding resolution_def
    by (auto intro!: found_unique [of "\<lambda>b. bo_checkout b = Some (gr_checkout_id g)" q "v_orders (bd_view s)" r])
qed

text \<open>
  C33. The in-memory store that the tests use stands for the database: on equal books both webhook services give
  the same answer, be it a result or an exception, to every notification, and their books are equal afterwards.\<close>

theorem memory_store_matches_database:
  assumes "same_books m s"
    and "apply_payload (memory_webhook_service (product_id_by_pack_from_settings settings) secret) payload m = (r, m')"
    and "apply_payload (get_webhook_service settings secret) payload s = (r', s')"
  shows "r = r' \<and> im_view m' = bd_view s'"
proof -
  let ?p = "product_id_by_pack_from_settings settings"
  have ok: "im_ok m" "bd_ok s" and eq: "im_view m = bd_view s" "im_clock m 0 = bd_clock s 0"
    using assms(1) by (simp_all add: same_books_def)
  have prods: "ws_products (get_webhook_service settings secret) = ?p"
    "ws_products (memory_webhook_service ?p secret) = ?p"
    by (simp_all add: get_webhook_service_def memory_webhook_service_def)
  obtain q where q: "resolves ?p payload (bd_view s) q"
      "webhook_step ?p payload q (bd_clock s 0) (bd_view s) = (r, im_view m')"
    using im.apply_payload_law [OF ok(1), of ?p secret payload] assms(2) eq unfolding prods
    by (metis prod.collapse prod.inject)
  obtain q' where q': "resolves ?p payload (bd_view s) q'"
      "webhook_step ?p payload q' (bd_clock s 0) (bd_view s) = (r', bd_view s')"
    using bd.apply_payload_law [OF ok(2), of settings secret payload] assms(3) unfolding prods
    by (metis prod.collapse prod.inject)
  show ?thesis
  proof (cases "\<exists>g. parse_checkout_completed_grant payload ?p = Inr (Some g)")
    case True
    then have "q = q'" using q(1) q'(1) resolution_unique [OF ok(2)] assms(1)
      unfolding resolves_def same_books_def by metis
    with q q' show ?thesis by simp
  next
    case False
    then have "webhook_step ?p payload q (bd_clock s 0) (bd_view s) = webhook_step ?p payload q' (bd_clock s 0) (bd_view s)"
      by (auto simp: webhook_step_def split: sum.splits option.splits)
    with q q' show ?thesis by simp
  qed
qed

section \<open>Signatures and packs\<close>

lemma hex_digit_ascii: "n < 16 \<Longrightarrow> (of_char (hex_digit n) :: nat) < 128"
  by (simp add: hex_digit_def of_char_of)

lemma hex_bytes_ascii: "list_all (\<lambda>c. (of_char c :: nat) < 128) (hex_bytes s)"
proof -
  have "(of_char c :: nat) div 16 < 16" "(of_char c :: nat) mod 16 < 16" for c :: char
    using nat_of_char_less_256 [of c] by (simp_all add: less_mult_imp_div_less)
  then show ?thesis by (induction s) (simp_all add: hex_bytes_def Let_def hex_digit_ascii)
qed

text \<open>
  The signature check accepts a request exactly when the secret is configured and the header, without
  surrounding white space, is the hexadecimal HMAC-SHA256 of the body under the secret. It never fails in
  another way than by refusing, except for a header with characters outside ASCII, for which the comparison
  raises a type error instead.\<close>

theorem verify_signature_exact:
  "verify_signature secret body header =
     (case header of
        None \<Rightarrow> Inl (AppError ''PERMISSION_DENIED'' ''invalid creem webhook signature'')
      | Some h \<Rightarrow>
          if secret \<noteq> [] \<and> strip h = hmac_sha256_hex secret body then Inr ()
          else if secret \<noteq> [] \<and> h \<noteq> [] \<and> \<not> list_all (\<lambda>c. (of_char c :: nat) < 128) (strip h)
          then Inl (TypeError ''comparing strings with non-ASCII characters is not supported'')
          else Inl (AppError ''PERMISSION_DENIED'' ''invalid creem webhook signature''))"
proof (cases header)
  case None
  then show ?thesis by (simp add: verify_signature_def verify_creem_webhook_signature_def)
next
  case (Some h)
  have ascii: "list_all (\<lambda>c. (of_char c :: nat) < 128) (hmac_sha256_hex secret body)"
    by (simp add: hmac_sha256_hex_def Let_def hex_bytes_ascii)
  have "hmac_sha256_hex secret body \<noteq> []"
    using hex_bytes_length sha256_digest_length by (simp add: hmac_sha256_hex_def Let_def flip: length_greater_0_conv)
  then have "h \<noteq> []" if "strip h = hmac_sha256_hex secret body" using that by auto
  then show ?thesis using Some ascii
    by (auto simp: verify_signature_def verify_creem_webhook_signature_def sign_creem_webhook_def compare_digest_def)
qed

text \<open>
  A price in cents is worth credits exactly when it is a positive whole number of dollars, and then ten credits
  per dollar; every pack of the catalogue is priced so, under its own key.\<close>

theorem credits_are_ten_per_dollar:
  "(credits_for_usd_cents cents = Inr c \<longleftrightarrow> 0 < cents \<and> 100 dvd cents \<and> 10 * c = cents)
   \<and> (\<forall>k. \<exists>p. get_pack (credit_pack_key_value k) = Inr p \<and> pack_key p = k
         \<and> pack_price p = 10 * pack_credits p \<and> 50 \<le> pack_credits p \<and> pack_credits p \<le> 1000)"
proof
  have "cents div 10 = c \<longleftrightarrow> 10 * c = cents" if "100 dvd cents" using that by (auto elim!: dvdE)
  then show "credits_for_usd_cents cents = Inr c \<longleftrightarrow> 0 < cents \<and> 100 dvd cents \<and> 10 * c = cents"
    by (auto simp: credits_for_usd_cents_def CREDITS_PER_USD_CENT_def dvd_eq_mod_eq_0)
  have "\<exists>p. get_pack (credit_pack_key_value k) = Inr p \<and> pack_key p = k
         \<and> pack_price p = 10 * pack_credits p \<and> 50 \<le> pack_credits p \<and> pack_credits p \<le> 1000" for k
    by (cases k) (simp_all add: get_pack_def credit_pack_key_of_def all_credit_pack_key_def pack_at_def CREDIT_PACKS_eq)
  then show "\<forall>k. \<exists>p. get_pack (credit_pack_key_value k) = Inr p \<and> pack_key p = k
         \<and> pack_price p = 10 * pack_credits p \<and> 50 \<le> pack_credits p \<and> pack_credits p \<le> 1000" by blast
qed

section \<open>Concurrent notifications\<close>

text \<open>The part of the webhook after the order was read uses only the identity and the owner of the order it
  read. When two transactions read the same pending order before either marks it paid, the row lock of
  \<open>mark_paid\<close> orders them, but the second finds the order paid, does nothing and goes on to credit: two
  notifications with different event identifiers then grant the credits of one order twice.\<close>

lemma claim_and_credit_cong:
  "bo_id b = bo_id b' \<Longrightarrow> bo_user b = bo_user b' \<Longrightarrow> claim_and_credit ws g b = claim_and_credit ws g b'"
  unfolding claim_and_credit_def report_duplicate_def Let_def by (simp cong: if_cong)

lemma check_order_pay [simp]: "check_order g (pay_order i c t b) = check_order g b"
  unfolding check_order_def pay_order_fields by (rule refl)

lemma concurrent_notifications_credit_twice:
  fixes settings secret
  defines "ws \<equiv> get_webhook_service settings secret"
  assumes ok: "bd_ok s" and b: "b \<in> set (v_orders (bd_view s))" "0 < bo_credits b"
    and g: "check_order g b = Inr ()" "check_order h b = Inr ()" "gr_event_id g \<noteq> gr_event_id h"
    and new: "gr_event_id g \<notin> v_seen (bd_view s)" "gr_event_id h \<notin> v_seen (bd_view s)"
  shows "\<exists>r1 s1 r2 s2. claim_and_credit ws g b s = (Inr r1, s1) \<and> claim_and_credit ws h b s1 = (Inr r2, s2)
     \<and> ap_status r1 = Applied \<and> ap_status r2 = Applied
     \<and> v_balance (bd_view s2) (bo_user b) = v_balance (bd_view s) (bo_user b) + 2 * bo_credits b"
proof -
  have cr: "pack_credits (gr_pack g) = bo_credits b" "pack_credits (gr_pack h) = bo_credits b"
    using check_order_Inr [OF g(1)] check_order_Inr [OF g(2)] by simp_all
  define b' where "b' = pay_order (bo_id b) (gr_order_id g) (bd_clock s 0) b"
  obtain r1 s1 where s1: "claim_and_credit ws g b s = (Inr r1, s1)" "ap_status r1 = Applied" "bd_ok s1"
    "bd_view s1 = \<lparr> v_orders = map (pay_order (bo_id b) (gr_order_id g) (bd_clock s 0)) (v_orders (bd_view s)),
       v_balance = (v_balance (bd_view s))(bo_user b := v_balance (bd_view s) (bo_user b) + bo_credits b),
       v_seen = insert (gr_event_id g) (v_seen (bd_view s)) \<rparr>"
    using bd.claim_and_credit_law [OF ok b(1) g(1), of settings secret] cr b(2) new(1) unfolding ws_def by auto
  have b': "b' \<in> set (v_orders (bd_view s1))" "check_order h b' = Inr ()"
    using b(1) s1(4) g(2) by (simp_all add: b'_def)
  obtain r2 s2 where s2: "claim_and_credit ws h b' s1 = (Inr r2, s2)" "ap_status r2 = Applied"
    "v_balance (bd_view s2) (bo_user b) = v_balance (bd_view s1) (bo_user b) + bo_credits b"
    using bd.claim_and_credit_law [OF s1(3) b', of settings secret] cr b(2) new(2) g(3) s1(4) unfolding ws_def
    by (auto simp: b'_def)
  moreover have "claim_and_credit ws h b' = claim_and_credit ws h b"
    by (rule claim_and_credit_cong) (simp_all add: b'_def)
  ultimately show ?thesis using s1 by (intro exI [of _ r1] exI [of _ s1] exI [of _ r2] exI [of _ s2]) simp
qed

section \<open>A checkout and its payment\<close>

definition sample_settings :: creem_settings where
  "sample_settings = \<lparr> CREEM_PRODUCT_ID_USD_5 = ''prod_5'', CREEM_PRODUCT_ID_USD_15 = [],
     CREEM_PRODUCT_ID_USD_50 = [], CREEM_PRODUCT_ID_USD_100 = [] \<rparr>"

definition sample_client :: creem_client where
  "sample_client = \<lparr> cc_api_key = ''key'', cc_base_url = ''https://creem'',
     cc_post = (\<lambda>_ _ _. Response 200 (Some (JObj [(''id'', JStr ''ch_1''), (''checkout_url'', JStr ''https://pay'')]))) \<rparr>"

definition sample_db :: billing_db where
  "sample_db = new_billing_db (\<lambda>n. int n) (\<lambda>_. ''f0'') (\<lambda>_. [])"

definition sample_session :: checkout_session where
  "sample_session = \<lparr> se_order_id = 1, se_request_id = ''billing_7_usd_5_f0'', se_pack_key = USD_5,
     se_credits = 50, se_price = 500, se_url = ''https://pay'' \<rparr>"

definition sample_order_row :: billing_order_row where
  "sample_order_row = \<lparr> or_id = 1, or_user = 7, or_pack_key = ''usd_5'', or_credits = 50, or_price = 500,
     or_status = Pending, or_request = ''billing_7_usd_5_f0'', or_product = ''prod_5'',
     or_checkout = Some ''ch_1'', or_creem_order = None, or_paid_at = None \<rparr>"

definition sample_payload :: "json dict" where
  "sample_payload = [(''eventType'', JStr ''checkout.completed''), (''id'', JStr ''ev_1''),
     (''object'', JObj [(''id'', JStr ''ch_1''), (''product'', JStr ''prod_5''),
        (''order'', JObj [(''amount'', JInt 500), (''currency'', JStr ''usd'')]),
        (''request_id'', JStr ''billing_7_usd_5_f0'')])]"

definition sample_grant :: checkout_completed_grant where
  "sample_grant = \<lparr> gr_event_id = ''ev_1'', gr_checkout_id = ''ch_1'', gr_order_id = None,
     gr_product_id = ''prod_5'', gr_request_id = Some ''billing_7_usd_5_f0'', gr_amount = Some 500,
     gr_currency = Some ''usd'', gr_metadata = [],
     gr_pack = \<lparr> pack_key = USD_5, pack_price = 500, pack_credits = 50, pack_label = ''$5 / 50 credits'' \<rparr> \<rparr>"

lemma sample_products: "product_id_by_pack_from_settings sample_settings = [(USD_5, ''prod_5'')]"
  by (simp add: product_id_by_pack_from_settings_def sample_settings_def strip_plain plain_char_def)

lemma sample_checkout:
  "create_checkout (get_checkout_service sample_settings ''https://ok'' sample_client) 7 ''usd_5'' None sample_db
     = (Inr sample_session, sample_db\<lparr>bd_orders := [sample_order_row], bd_next := 2\<rparr>)"
proof -
  have pack: "get_pack ''usd_5'' = Inr \<lparr> pack_key = USD_5, pack_price = 500, pack_credits = 50, pack_label = ''$5 / 50 credits'' \<rparr>"
    using credit_pack_key_of_value [of USD_5] by (simp add: get_pack_def pack_at_def CREDIT_PACKS_eq)
  have "int_str 7 = ''7''" "int_str 1 = ''1''" by (simp_all add: int_str_def nat_str.simps char_of_def bit_0)
  then show ?thesis
    unfolding create_checkout_def get_checkout_service_def
    by (simp add: pack sample_products eff_simps strip_plain plain_char_def place_order_def bd_transaction_def
        bindE_def bd_uuid4_def sample_db_def new_billing_db_def bd_ports_def bd_create_pending_def bd_constraint_def
        to_record_def credit_pack_key_of_def all_credit_pack_key_def creem_create_checkout_def sample_client_def
        checkout_response_def require_opt_def jget_def bd_attach_checkout_def billing_request_id_def
        sample_session_def sample_order_row_def Let_def)
qed

lemma sample_parse: "parse_checkout_completed_grant sample_payload [(USD_5, ''prod_5'')] = Inr (Some sample_grant)"
  by (simp add: parse_checkout_completed_grant_def sample_payload_def jget_def require_opt_def strip_plain plain_char_def
      parse_checkout_object_def order_field_def grant_product_id_def grant_pack_def get_pack_by_creem_product_id_def
      pack_at_def CREDIT_PACKS_eq grant_request_id_def grant_metadata_def sample_grant_def)

lemma sample_reach:
  "billing_steps (get_checkout_service sample_settings ''https://ok'' sample_client)
     (get_webhook_service sample_settings ''s'') (new_billing_db (\<lambda>n. int n) (\<lambda>_. ''f0'') (\<lambda>_. []))
     (sample_db\<lparr>bd_orders := [sample_order_row], bd_next := 2\<rparr>)"
  using billing_steps.checkout [OF billing_steps.start sample_checkout] by (simp add: sample_db_def)

lemma sample_check: "check_order sample_grant (row_order sample_order_row) = Inr ()"
  using credit_pack_key_of_value [of USD_5]
  by (simp add: check_order_def sample_grant_def row_order_def sample_order_row_def usd_spellings_def
      strip_plain plain_char_def)

lemma sample_apply:
  "apply_payload (get_webhook_service sample_settings ''s'') sample_payload
      (sample_db\<lparr>bd_orders := [sample_order_row], bd_next := 2\<rparr>)
     = (Inr \<lparr> ap_status = Applied, ap_event_id = Some ''ev_1'', ap_credits = 50, ap_balance = Some 50 \<rparr>,
        sample_db\<lparr> bd_orders := [sample_order_row\<lparr>or_status := Paid, or_paid_at := Some 0\<rparr>], bd_next := 2,
          bd_balances := [\<lparr> ba_user = 7, ba_balance = 50, ba_version = 1 \<rparr>],
          bd_ledger := [\<lparr> le_user = 7, le_order = 1, le_event = ''ev_1'', le_delta = 50, le_balance_after = 50 \<rparr>],
          bd_events := [\<lparr> we_event = ''ev_1'', we_type = ''checkout.completed'' \<rparr>],
          bd_clock := (\<lambda>n. int (Suc n)) \<rparr>)"
proof -
  have rec: "to_record sample_order_row = Inr (row_order sample_order_row)"
    "to_record (sample_order_row\<lparr>or_status := Paid, or_paid_at := Some 0\<rparr>)
       = Inr (row_order (sample_order_row\<lparr>or_status := Paid, or_paid_at := Some 0\<rparr>))"
    by (rule to_record_ok, simp add: sample_order_row_def, metis credit_pack_key_value.simps(1) rangeI)+
  have row: "or_id sample_order_row = 1" "or_status sample_order_row = Pending"
    "or_request sample_order_row = ''billing_7_usd_5_f0''" "or_user sample_order_row = 7"
    "sample_order_row\<lparr>or_status := Paid, or_creem_order := None, or_paid_at := Some 0\<rparr>
       = sample_order_row\<lparr>or_status := Paid, or_paid_at := Some 0\<rparr>"
    by (simp_all add: sample_order_row_def)
  have g: "gr_request_id sample_grant = Some ''billing_7_usd_5_f0''" "gr_event_id sample_grant = ''ev_1''"
    "pack_credits (gr_pack sample_grant) = 50" "gr_order_id sample_grant = None" by (simp_all add: sample_grant_def)
  show ?thesis
    unfolding apply_payload_def get_webhook_service_def
    by (simp add: apply_payload_body_def sample_products sample_parse apply_grant_def resolve_order_def
        bd_transaction_def bindE_def eff_simps bd_ports_def bd_get_by_request_id_def record_option_def rec row g
        sample_check claim_and_credit_def bd_try_begin_def catchE_def bd_constraint_def sample_db_def
        new_billing_db_def bd_now_def bd_mark_paid_def bd_credit_def bd_lock_balance_def Let_def)
qed

theorem paid_checkout_is_credited_witness:
  "\<exists>res t. apply_payload (get_webhook_service sample_settings ''s'') sample_payload
       (sample_db\<lparr>bd_orders := [sample_order_row], bd_next := 2\<rparr>) = (Inr res, t)
     \<and> ap_status res = Applied \<and> balance_of_rows (bd_balances t) 7 = 50"
proof -
  have start: "billing_steps (get_checkout_service sample_settings ''https://ok'' sample_client)
     (get_webhook_service sample_settings ''s'') (new_billing_db (\<lambda>n. int n) (\<lambda>_. ''f0'') (\<lambda>_. [])) sample_db"
    unfolding sample_db_def by (rule billing_steps.start)
  have "strip ''usd'' \<in> set usd_spellings" by (simp add: strip_plain plain_char_def usd_spellings_def)
  with paid_checkout_is_credited [OF start sample_checkout billing_steps.start, of sample_payload sample_grant "''usd''"]
  show ?thesis
    by (simp add: sample_products sample_parse)
       (simp add: sample_grant_def sample_session_def sample_order_row_def sample_db_def new_billing_db_def, blast)
qed

theorem balance_is_paid_total_witness:
  "get_balance bd_ports 7 (sample_db\<lparr>bd_orders := [sample_order_row], bd_next := 2\<rparr>)
     = (Inr 0, sample_db\<lparr>bd_orders := [sample_order_row], bd_next := 2\<rparr>)"
  using balance_is_paid_total [OF sample_reach, of 7] by (simp add: sample_order_row_def)

theorem webhook_credits_only_due_payments_witness:
  "v_balance (bd_view (snd (apply_payload (get_webhook_service sample_settings ''s'') sample_payload
       (sample_db\<lparr>bd_orders := [sample_order_row], bd_next := 2\<rparr>)))) 7 = 50"
  using webhook_credits_only_due_payments [OF sample_reach sample_apply]
  by (simp add: sample_apply) (simp add: bd_view_def sample_db_def new_billing_db_def)

definition sample_memory :: memory_stores where
  "sample_memory = \<lparr> im_orders = [(1, row_order sample_order_row)], im_by_request = [(''billing_7_usd_5_f0'', 1)],
     im_by_checkout = [(''ch_1'', 1)], im_balances = [], im_events = {}, im_next = 2,
     im_clock = (\<lambda>n. int n), im_uuids = (\<lambda>_. ''f0'') \<rparr>"

lemma sample_books: "same_books sample_memory (sample_db\<lparr>bd_orders := [sample_order_row], bd_next := 2\<rparr>)"
proof -
  have "im_ok sample_memory"
    by (auto simp: im_ok_def sample_memory_def im_indexed_def sample_order_row_def row_order_def)
  moreover have "bd_ok (sample_db\<lparr>bd_orders := [sample_order_row], bd_next := 2\<rparr>)"
    using reachable_ok [OF sample_reach] by simp
  ultimately show ?thesis
    by (simp add: same_books_def) (simp add: im_view_def bd_view_def sample_memory_def sample_db_def new_billing_db_def
        balance_of_rows_def fun_eq_iff)
qed

theorem memory_store_matches_database_witness:
  "fst (apply_payload (memory_webhook_service (product_id_by_pack_from_settings sample_settings) ''s'') sample_payload sample_memory)
     = Inr \<lparr> ap_status = Applied, ap_event_id = Some ''ev_1'', ap_credits = 50, ap_balance = Some 50 \<rparr>"
  using memory_store_matches_database [OF sample_books _ sample_apply]
  by (metis prod.collapse)

end
