(* ===== verification/Workflow_Schedule.thy ===== *)
theory Workflow_Schedule
  imports Task_Orchestrator Expert_Profiles Workflow_Executor
begin

text \<open>
  \<open>app/server/workshop/services/workflow_schedule_service.py\<close> and
  \<open>workflow_run_execution.py\<close>: drafting, saving and deleting workflows, manual and scheduled runs,
  the tick that claims due schedules, the completion of scheduled tasks, and the execution of a run.

  \<open>svc_env\<close> holds what the service is built with: whether the callbacks that enqueue and revoke a
  run are configured, the cron parameters and the deliverable contracts. The clock of the service
  is \<open>utc_now\<close>.
\<close>

abbreviation WSE :: "string \<Rightarrow> exc" where
  "WSE \<equiv> WorkshopWorkflowScheduleError"

record svc_env =
  se_enqueue :: bool
  se_revoke :: bool
  se_cron :: cron_env
  se_contract :: contract_env

record schedule_trigger_result =
  tr_task :: workshop_task
  tr_run :: schedule_run
  tr_events :: "string list"
  tr_popup :: bool
  tr_workflow_run :: "workshop_run option"

record scheduled_completion =
  sc_task_status :: task_status
  sc_event_ids :: "string list"

definition utc_now :: "(db, datetime) eff" where
  "utc_now = bindE tick (\<lambda>t. ret (Aware t))"

section \<open>Helpers\<close>

definition schedule_key :: "workshop_schedule \<Rightarrow> bool \<times> int \<times> string" where
  "schedule_key s = (s_enabled s, s_authorized_at s, s_id s)"

definition prefer_schedule :: "workshop_schedule list \<Rightarrow> workshop_schedule option" where
  "prefer_schedule ss =
     (case ss of [] \<Rightarrow> None
      | x # xs \<Rightarrow> Some (foldl (\<lambda>b s. if schedule_key b < schedule_key s then s else b) x xs))"

definition external_capabilities_from_nodes :: "workflow_node list \<Rightarrow> capability set" where
  "external_capabilities_from_nodes nodes =
     {c. \<exists>n \<in> set nodes. c \<in> set (wn_caps n) \<and> is_external_capability c}"

definition validate_definition_graph ::
    "workflow_node list \<Rightarrow> workflow_edge list \<Rightarrow> string list option \<Rightarrow> unit res" where
  "validate_definition_graph nodes edges entry =
     (let (keys, allowlists) = workshop_preset_catalog in
      case validate_workflow_definition
             \<lparr>wd_nodes = nodes, wd_edges = edges, wd_known_presets = keys, wd_allowlists = allowlists,
              wd_entry = (case entry of None \<Rightarrow> None | Some [] \<Rightarrow> None | Some es \<Rightarrow> Some es)\<rparr> of
        Inl (WorkflowDefinitionError m) \<Rightarrow> Inl (WSE m)
      | r \<Rightarrow> r)"

definition namespace_manual_trigger_key :: "string \<Rightarrow> string res" where
  "namespace_manual_trigger_key key =
     (let k = strip key in
      if k = [] then Inl (WSE ''trigger_key required'')
      else if prefix ''manual:'' k
      then Inl (WSE ''trigger_key must not include manual: prefix; service namespaces it'')
      else Inr (''manual:'' @ k))"

definition to_trigger_result :: "workshop_task \<Rightarrow> workshop_event \<Rightarrow> schedule_run \<Rightarrow> workshop_run option
    \<Rightarrow> schedule_trigger_result" where
  "to_trigger_result t e u wr =
     \<lparr>tr_task = t, tr_run = u, tr_events = [e_key e], tr_popup = False, tr_workflow_run = wr\<rparr>"

definition svc_enqueue :: "svc_env \<Rightarrow> string \<Rightarrow> int \<Rightarrow> string \<Rightarrow> (db, unit) eff" where
  "svc_enqueue env pid uid rid =
     (if se_enqueue env then modify (\<lambda>db. db\<lparr>db_enqueued := db_enqueued db @ [(pid, uid, rid)]\<rparr>) else ret ())"

definition svc_revoke :: "svc_env \<Rightarrow> string \<Rightarrow> int \<Rightarrow> string \<Rightarrow> (db, unit) eff" where
  "svc_revoke env pid uid rid =
     (if se_revoke env then modify (\<lambda>db. db\<lparr>db_revoked := db_revoked db @ [(pid, uid, rid)]\<rparr>) else ret ())"

definition require_workflow :: "string \<Rightarrow> int \<Rightarrow> string \<Rightarrow> (db, workshop_workflow) eff" where
  "require_workflow pid uid wid =
     catchE (get_workflow pid uid wid)
       (\<lambda>e. case e of WorkshopWorkflowNotFoundError _ \<Rightarrow> raise (WSE (''unknown workflow: '' @ wid)) | _ \<Rightarrow> raise e)"

definition require_saved :: "string \<Rightarrow> int \<Rightarrow> string \<Rightarrow> (db, workshop_workflow) eff" where
  "require_saved pid uid wid =
     bindE (require_workflow pid uid wid) (\<lambda>w.
     bindE (ensure (w_status w = WS_SAVED) (WSE ''workflow is not saved'')) (\<lambda>_. ret w))"

definition schedule_or_unknown :: "string \<Rightarrow> (db, 'a) eff \<Rightarrow> (db, 'a) eff" where
  "schedule_or_unknown sid m =
     catchE m (\<lambda>e. case e of WorkshopScheduleNotFoundError _ \<Rightarrow> raise (WSE (''unknown schedule: '' @ sid))
                   | _ \<Rightarrow> raise e)"

section \<open>Drafting and saving\<close>

definition new_draft :: "string \<Rightarrow> int \<Rightarrow> string \<Rightarrow> workflow_node list \<Rightarrow> workflow_edge list \<Rightarrow> string
    \<Rightarrow> workflow_source \<Rightarrow> string list option \<Rightarrow> (db, workshop_workflow) eff" where
  "new_draft pid uid name nodes edges model_key source entry =
     bindE (ensure (\<not> blank name \<and> nodes \<noteq> []) (WSE ''name and nodes required'')) (\<lambda>_.
     let key = strip model_key in
     bindE (ensure (key \<noteq> []) (WSE ''model_key required'')) (\<lambda>_.
     bindE (liftR (validate_definition_graph nodes edges entry)) (\<lambda>_.
     bindE (new_id ''wf'') (\<lambda>wid.
     create_workflow wid pid uid (strip name) nodes edges key WS_DRAFT source entry))))"

definition agent_draft_workflow :: "string \<Rightarrow> int \<Rightarrow> string \<Rightarrow> workflow_node list \<Rightarrow> workflow_edge list
    \<Rightarrow> string \<Rightarrow> string list option \<Rightarrow> (db, workshop_workflow) eff" where
  "agent_draft_workflow pid uid name nodes edges model_key entry =
     new_draft pid uid name nodes edges model_key SRC_AGENT entry"

definition user_draft_workflow :: "string \<Rightarrow> int \<Rightarrow> string \<Rightarrow> workflow_node list \<Rightarrow> workflow_edge list
    \<Rightarrow> string \<Rightarrow> string list option \<Rightarrow> (db, workshop_workflow) eff" where
  "user_draft_workflow pid uid name nodes edges model_key entry =
     new_draft pid uid name nodes edges model_key SRC_USER entry"

definition user_confirm_save_workflow :: "string \<Rightarrow> int \<Rightarrow> string \<Rightarrow> (db, workshop_workflow) eff" where
  "user_confirm_save_workflow pid uid wid =
     bindE (require_workflow pid uid wid) (\<lambda>w.
     bindE (ensure (w_status w = WS_DRAFT) (WSE ''only drafts can be confirmed'')) (\<lambda>_.
     catchE (save_workflow_cas pid uid wid (w_revision w))
       (\<lambda>e. case e of WorkshopWorkflowConflictError _ \<Rightarrow> raise (WSE ''workflow confirm conflict'')
            | _ \<Rightarrow> raise e)))"

definition svc_list_saved_workflows ::
    "string \<Rightarrow> int \<Rightarrow> (db, (workshop_workflow \<times> workshop_schedule option) list) eff" where
  "svc_list_saved_workflows pid uid =
     bindE (list_saved_workflows pid uid) (\<lambda>ws.
     mapE (\<lambda>w. bindE (list_schedules_for_workflow pid uid (w_id w)) (\<lambda>ss. ret (w, prefer_schedule ss))) ws)"

section \<open>Schedules\<close>

text \<open>\<open>InvalidCronExpressionError\<close> and \<open>InvalidTimezoneError\<close> become service errors;
  \<open>CronNextFireError\<close> is not caught.\<close>

definition next_run_or_error :: "svc_env \<Rightarrow> string \<Rightarrow> string \<Rightarrow> datetime \<Rightarrow> (db, int) eff" where
  "next_run_or_error env cron tz after =
     (case compute_next_run_at (se_cron env) cron tz after None of
        Inr n \<Rightarrow> ret n
      | Inl (InvalidCronExpressionError m) \<Rightarrow> raise (WSE m)
      | Inl (InvalidTimezoneError m) \<Rightarrow> raise (WSE m)
      | Inl e \<Rightarrow> raise e)"

definition now_or_clock :: "datetime option \<Rightarrow> (db, datetime) eff" where
  "now_or_clock now = (case now of Some m \<Rightarrow> ret m | None \<Rightarrow> utc_now)"

definition check_grant :: "capability set \<Rightarrow> workshop_workflow \<Rightarrow> (db, unit) eff" where
  "check_grant authorized w =
     bindE (ensure (\<forall>c \<in> authorized. is_external_capability c)
              (WSE ''authorized capabilities must be external'')) (\<lambda>_.
     ensure (external_capabilities_from_nodes (w_nodes w) \<subseteq> authorized)
       (WSE ''authorized capabilities must cover workflow external scope''))"

definition create_schedule :: "svc_env \<Rightarrow> string \<Rightarrow> int \<Rightarrow> string \<Rightarrow> string \<Rightarrow> string \<Rightarrow> capability set
    \<Rightarrow> datetime option \<Rightarrow> (db, workshop_schedule) eff" where
  "create_schedule env pid uid wid cron tz authorized now =
     bindE (require_saved pid uid wid) (\<lambda>w.
     bindE (ensure (\<not> blank cron) (WSE ''cron required'')) (\<lambda>_.
     bindE (ensure (\<not> blank tz) (WSE ''timezone required'')) (\<lambda>_.
     bindE (check_grant authorized w) (\<lambda>_.
     bindE (now_or_clock now) (\<lambda>m.
     case m of
       Naive _ \<Rightarrow> raise (WSE ''now must be timezone-aware'')
     | Aware t \<Rightarrow>
         bindE (next_run_or_error env (strip cron) (strip tz) (Aware t)) (\<lambda>n.
         bindE (new_id ''sched'') (\<lambda>sid.
         repo_create_schedule sid pid uid wid (strip cron) (strip tz) t authorized (Some n))))))))"

definition disable_schedule :: "string \<Rightarrow> int \<Rightarrow> string \<Rightarrow> (db, workshop_schedule) eff" where
  "disable_schedule pid uid sid = schedule_or_unknown sid (repo_disable_schedule pid uid sid)"

definition enable_schedule :: "svc_env \<Rightarrow> string \<Rightarrow> int \<Rightarrow> string \<Rightarrow> datetime option
    \<Rightarrow> (db, workshop_schedule) eff" where
  "enable_schedule env pid uid sid now =
     bindE (schedule_or_unknown sid (repo_get_schedule pid uid sid)) (\<lambda>s.
     bindE (now_or_clock now) (\<lambda>m.
     bindE (ensure (is_aware m) (WSE ''now must be timezone-aware'')) (\<lambda>_.
     bindE (next_run_or_error env (s_cron s) (s_timezone s) m) (\<lambda>n.
     schedule_or_unknown sid (repo_enable_schedule pid uid sid (Aware n))))))"

definition get_schedule :: "string \<Rightarrow> int \<Rightarrow> string \<Rightarrow> (db, workshop_schedule) eff" where
  "get_schedule pid uid sid = schedule_or_unknown sid (repo_get_schedule pid uid sid)"

definition schedules_or_error :: "string \<Rightarrow> int \<Rightarrow> string \<Rightarrow> (db, workshop_schedule list) eff" where
  "schedules_or_error pid uid wid =
     bindE (require_saved pid uid wid) (\<lambda>_.
     bindE (list_schedules_for_workflow pid uid wid) (\<lambda>ss.
     bindE (ensure (ss \<noteq> []) (WSE ''workflow has no schedule; create_schedule first'')) (\<lambda>_. ret ss)))"

definition start_workflow_execution :: "svc_env \<Rightarrow> string \<Rightarrow> int \<Rightarrow> string \<Rightarrow> datetime option
    \<Rightarrow> (db, workshop_schedule list) eff" where
  "start_workflow_execution env pid uid wid now =
     bindE (schedules_or_error pid uid wid) (\<lambda>ss.
     mapE (\<lambda>s. enable_schedule env pid uid (s_id s) now) ss)"

definition stop_workflow_execution :: "string \<Rightarrow> int \<Rightarrow> string \<Rightarrow> (db, workshop_schedule list) eff" where
  "stop_workflow_execution pid uid wid =
     bindE (schedules_or_error pid uid wid) (\<lambda>ss.
     mapE (\<lambda>s. disable_schedule pid uid (s_id s)) ss)"

section \<open>Deleting a workflow\<close>

definition cancel_active_run :: "svc_env \<Rightarrow> string \<Rightarrow> int \<Rightarrow> datetime \<Rightarrow> string \<Rightarrow> workshop_run \<Rightarrow> (db, unit) eff" where
  "cancel_active_run env pid uid finished reason run =
     bindE (catchE (cancel_workflow_run_cas pid uid (r_id run) (r_revision run) finished (Some reason))
              (\<lambda>e. if is_repository_error e then raise (WSE (''failed to cancel workflow run: '' @ r_id run))
                   else raise e)) (\<lambda>_.
     svc_revoke env pid uid (r_id run))"

definition delete_workflow :: "svc_env \<Rightarrow> string \<Rightarrow> int \<Rightarrow> string \<Rightarrow> string option \<Rightarrow> (db, unit) eff" where
  "delete_workflow env pid uid wid reason =
     bindE (require_workflow pid uid wid) (\<lambda>_.
     bindE (list_active_workflow_runs pid uid wid) (\<lambda>active.
     bindE utc_now (\<lambda>finished.
     bindE (ensure (is_aware finished) (WSE ''clock must be timezone-aware'')) (\<lambda>_.
     let cancel_reason = (case reason of None \<Rightarrow> ''workflow deleted'' | Some [] \<Rightarrow> ''workflow deleted'' | Some r \<Rightarrow> r) in
     bindE (forE active (cancel_active_run env pid uid finished cancel_reason)) (\<lambda>_.
     bindE (clear_task_schedule_refs_for_workflow pid uid wid) (\<lambda>_.
     catchE (repo_delete_workflow pid uid wid)
       (\<lambda>e. case e of WorkshopWorkflowNotFoundError _ \<Rightarrow> raise (WSE (''unknown workflow: '' @ wid))
            | _ \<Rightarrow> raise e)))))))"

section \<open>Runs\<close>

definition manual_run_with_light_confirm :: "svc_env \<Rightarrow> string \<Rightarrow> int \<Rightarrow> string \<Rightarrow> capability set
    \<Rightarrow> (db, workshop_run) eff" where
  "manual_run_with_light_confirm env pid uid wid authorized =
     bindE (require_saved pid uid wid) (\<lambda>w.
     bindE (check_grant authorized w) (\<lambda>_.
     bindE uuid_str (\<lambda>rid.
     bindE (create_workflow_run rid pid uid wid (w_revision w) TRIG_MANUAL None RS_QUEUED) (\<lambda>run.
     bindE (create_executing_task_from_workflow pid uid wid (r_id run) authorized) (\<lambda>_.
     bindE (svc_enqueue env pid uid (r_id run)) (\<lambda>_.
     ret run))))))"

definition start_scheduled_run :: "svc_env \<Rightarrow> string \<Rightarrow> int \<Rightarrow> workshop_schedule \<Rightarrow> string \<Rightarrow> (db, workshop_run) eff" where
  "start_scheduled_run env pid uid s sid =
     bindE (require_saved pid uid (s_workflow s)) (\<lambda>w.
     bindE uuid_str (\<lambda>rid.
     bindE (create_workflow_run rid pid uid (w_id w) (w_revision w) TRIG_SCHEDULE (Some sid) RS_QUEUED) (\<lambda>run.
     bindE (create_executing_task_from_workflow pid uid (w_id w) (r_id run) (s_caps s)) (\<lambda>_.
     bindE (svc_enqueue env pid uid (r_id run)) (\<lambda>_.
     ret run)))))"

definition trigger_schedule :: "svc_env \<Rightarrow> string \<Rightarrow> int \<Rightarrow> string \<Rightarrow> string \<Rightarrow> (db, schedule_trigger_result) eff" where
  "trigger_schedule env pid uid sid key =
     bindE (liftR (namespace_manual_trigger_key key)) (\<lambda>nkey.
     bindE uuid_str (\<lambda>tid.
     bindE (new_id ''evt'') (\<lambda>ekey.
     bindE (schedule_or_unknown sid (trigger_schedule_run pid uid sid nkey tid ekey)) (\<lambda>(t, e, u).
     bindE (repo_get_schedule pid uid sid) (\<lambda>s.
     bindE (start_scheduled_run env pid uid s sid) (\<lambda>run.
     ret (to_trigger_result t e u (Some run))))))))"

definition claim_one :: "svc_env \<Rightarrow> workshop_schedule \<Rightarrow> (db, schedule_trigger_result list) eff" where
  "claim_one env s =
     (case s_next_run s of
        None \<Rightarrow> ret []
      | Some due \<Rightarrow>
          bindE uuid_str (\<lambda>tid.
          bindE (new_id ''evt'') (\<lambda>ekey.
          bindE (claim_due_schedule_run (se_cron env) (s_id s) (Aware due) tid ekey) (\<lambda>bundle.
          case bundle of
            None \<Rightarrow> ret []
          | Some (t, e, u) \<Rightarrow>
              bindE (get_project_owner_user_id (s_project s)) (\<lambda>uid.
              bindE (start_scheduled_run env (s_project s) uid s (s_id s)) (\<lambda>run.
              ret [to_trigger_result t e u (Some run)]))))))"

definition tick_once :: "svc_env \<Rightarrow> datetime \<Rightarrow> int \<Rightarrow> (db, schedule_trigger_result list) eff" where
  "tick_once env now batch =
     bindE (ensure (is_aware now) (WSE ''now must be timezone-aware'')) (\<lambda>_.
     bindE (ensure (batch \<ge> 1) (WSE ''batch_size must be >= 1'')) (\<lambda>_.
     bindE (list_due_schedules now batch) (\<lambda>candidates.
     bindE (mapE (claim_one env) candidates) (\<lambda>claimed.
     ret (concat claimed)))))"

definition complete_scheduled_run :: "svc_env \<Rightarrow> string \<Rightarrow> int \<Rightarrow> string \<Rightarrow> string set
    \<Rightarrow> artifact_submission list \<Rightarrow> (db, scheduled_completion) eff" where
  "complete_scheduled_run env pid uid tid covered arts =
     bindE (orch_get pid uid tid) (\<lambda>task0.
     bindE (ensure (t_schedule task0 \<noteq> None \<and> t_sched_auth task0)
              (WSE ''complete_scheduled_run requires schedule_id and schedule_authorized'')) (\<lambda>_.
     bindE (if t_status task0 = TS_EXECUTING then mark_reviewing pid uid tid else ret task0) (\<lambda>task.
     bindE (list_capability_uses pid uid tid) (\<lambda>used.
     let res = evaluate_weak_accept (se_contract env) (t_goals task) covered (t_required task) arts
                 (t_ext_auth task) used;
         conflict = (\<lambda>e. case e of WorkshopTaskConflictError _ \<Rightarrow> raise (WSE (''task conflict: '' @ tid))
                           | _ \<Rightarrow> raise e) in
     if wa_passed res then
       bindE (new_id ''evt'') (\<lambda>k1.
       bindE (new_id ''evt'') (\<lambda>k2.
       bindE (catchE (complete_scheduled_success pid uid tid (t_revision task) arts k1 k2) conflict) (\<lambda>(_, e1, e2).
       ret \<lparr>sc_task_status = TS_DONE, sc_event_ids = [e_key e1, e_key e2]\<rparr>)))
     else
       bindE (new_id ''evt'') (\<lambda>k.
       bindE (catchE (complete_scheduled_blocked pid uid tid (t_revision task) (wa_reasons res) k)
                (\<lambda>e. case e of WorkshopTaskConflictError _ \<Rightarrow> raise (WSE (''task conflict: '' @ tid))
                      | _ \<Rightarrow> raise e)) (\<lambda>(_, e1).
       ret \<lparr>sc_task_status = TS_BLOCKED, sc_event_ids = [e_key e1]\<rparr>))))))"

section \<open>Executing a run\<close>

text \<open>The first part of \<open>execute_run\<close> ends with the run marked as running; the graph is then
  executed, and the second part writes the outcome. Other operations interleave in between.\<close>

definition execute_run_start :: "string \<Rightarrow> int \<Rightarrow> string
    \<Rightarrow> (db, run_status + (workshop_run \<times> workshop_workflow \<times> int)) eff" where
  "execute_run_start pid uid rid =
     bindE (get_workflow_run pid uid rid) (\<lambda>run.
     if \<not> active_status (r_status run) then ret (Inl (r_status run))
     else
       bindE (get_workflow pid uid (r_workflow run)) (\<lambda>w.
       bindE tick (\<lambda>started.
       bindE (update_workflow_run_cas pid uid rid (r_revision run) RS_RUNNING None None (Some started) None) (\<lambda>run'.
       ret (Inr (run', w, started))))))"

definition execute_run_graph :: "string \<Rightarrow> string \<Rightarrow> workshop_workflow \<Rightarrow> node_runner \<Rightarrow> workflow_run_state res" where
  "execute_run_graph pid rid w runner =
     (let (keys, allowlists) = workshop_preset_catalog in
      execute_workflow_graph rid pid (w_nodes w) (w_edges w) (w_model_key w) keys allowlists runner)"

definition execute_run_finish :: "string \<Rightarrow> int \<Rightarrow> string \<Rightarrow> workshop_run \<Rightarrow> int \<Rightarrow> workflow_run_state
    \<Rightarrow> (db, run_status) eff" where
  "execute_run_finish pid uid rid run started st =
     bindE tick (\<lambda>finished.
     bindE (update_workflow_run_cas pid uid rid (r_revision run) (st_status st) (st_current st) (st_error st)
              (Some started) (Some finished)) (\<lambda>_.
     ret (st_status st)))"

definition execute_run :: "node_runner \<Rightarrow> string \<Rightarrow> int \<Rightarrow> string \<Rightarrow> (db, run_status) eff" where
  "execute_run runner pid uid rid =
     bindE (execute_run_start pid uid rid) (\<lambda>r.
     case r of
       Inl status \<Rightarrow> ret status
     | Inr (run, w, started) \<Rightarrow>
         bindE (liftR (execute_run_graph pid rid w runner)) (\<lambda>st.
         execute_run_finish pid uid rid run started st))"

text \<open>The runner used until the expert runtime is wired.\<close>

definition unwired_expert_node_runner :: node_runner where
  "unwired_expert_node_runner ctx =
     Inl (RuntimeError ''expert node runner not wired; refuse placeholder artifacts'')"

end
