(* ===== verification/Schedule_Properties.thy ===== *)
theory Schedule_Properties
  imports Workflow_Schedule Task_Lifecycle
begin

text \<open>
  Properties of schedules: the claim of a due schedule is exclusive and moves the schedule on, and a
  trigger key fires once.
\<close>

section \<open>Frames of the inserts\<close>

lemma inserts_keep_schedules [frame_intros]:
  "keeps schedules (insert_task i p ti g rq st sc au ex rv)"
  "keeps schedules (insert_schedule_run i p s k t)"
  "keeps schedules (insert_event k p tsk kd j)"
  unfolding insert_task_def insert_schedule_run_def insert_event_def Let_def
  by (intro frame_intros; simp)+

lemma insert_schedule_trigger_keeps [frame_intros]:
  "keeps schedules (insert_schedule_trigger sr key tid ekey)"
  unfolding insert_schedule_trigger_def by (intro frame_intros; simp)

section \<open>The claim\<close>

lemma advance_schedule_run:
  assumes "advance_schedule env sr due db = (Inr (), db')"
  obtains n where "compute_next_run_at env (sc_cron sr) (sc_timezone sr) (Aware due) (Some (Aware due)) = Inr n"
    "schedules db' = update_rows (\<lambda>r. sc_id r = sc_id sr \<and> sc_next_run r = Some due)
       (\<lambda>r. r\<lparr>sc_next_run := Some n, sc_updated := db_clock db 0\<rparr>) (schedules db)"
  using assms
  by (auto simp: advance_schedule_def bindE_eq_Inr liftR_def update_schedules_run ensure_def split: if_splits)

text \<open>The outcomes of a claim: nothing changes but the clock and the identifiers drawn, or the
  schedule was due, its row has moved on, and the bundle is that of the trigger key.\<close>

lemma claim_outcome:
  assumes "claim_due_schedule_run env sid (Aware due) tid ekey db = (res, db')"
  obtains (unclaimed) c u where "\<nexists>b. res = Inr (Some b)" "db' = db\<lparr>db_clock := c, db_uuids := u\<rparr>"
  | (claimed) sr key b db1 where "res = Inr (Some b)"
      "find (\<lambda>r. sc_id r = sid \<and> sc_enabled r \<and> sc_next_run r = Some due) (schedules db) = Some sr"
      "schedule_trigger_key sid (Aware due) = Inr key"
      "advance_schedule env sr due db = (Inr (), db1)"
      "(case find (\<lambda>r. sr_schedule r = sid \<and> sr_trigger_key r = key) (schedule_runs db) of
          Some run \<Rightarrow> load_trigger_bundle (sc_project sr) run
        | None \<Rightarrow> insert_schedule_trigger sr key tid ekey) db1 = (Inr b, db')"
proof -
  let ?found = "find (\<lambda>r. sc_id r = sid \<and> sc_enabled r \<and> sc_next_run r = Some due) (schedules db)"
  define body where "body = (\<lambda>found :: schedule_row option. case found of
      None \<Rightarrow> ret None
    | Some sr \<Rightarrow>
        bindE (liftR (schedule_trigger_key sid (Aware due))) (\<lambda>key.
        bindE (gets (\<lambda>db. find (\<lambda>r. sr_schedule r = sid \<and> sr_trigger_key r = key) (schedule_runs db))) (\<lambda>existing.
        bindE (advance_schedule env sr due) (\<lambda>_.
        case existing of
          Some run \<Rightarrow> bindE (load_trigger_bundle (sc_project sr) run) (\<lambda>b. ret (Some b))
        | None \<Rightarrow> bindE (insert_schedule_trigger sr key tid ekey) (\<lambda>b. ret (Some b))))))"
  obtain r0 d where run: "body ?found db = (r0, d)" by force
  show ?thesis
  proof (cases r0)
    case (Inl e)
    then have "\<nexists>b. res = Inr (Some b)" "db' = db\<lparr>db_clock := db_clock d, db_uuids := db_uuids d\<rparr>"
      using assms run by (auto simp: claim_due_schedule_run_def catchE_def in_transaction_def bindE_def gets_def
          body_def [symmetric] ret_def raise_def split: exc.splits)
    then show ?thesis by (rule unclaimed)
  next
    case (Inr x)
    then have eq: "res = Inr x" "db' = d"
      using assms run by (simp_all add: claim_due_schedule_run_def catchE_def in_transaction_def bindE_def gets_def
          body_def [symmetric])
    show ?thesis
    proof (cases ?found)
      case None
      with run Inr have "x = None" "d = db" by (simp_all add: body_def ret_def)
      with eq have "\<nexists>b. res = Inr (Some b)" "db' = db\<lparr>db_clock := db_clock db, db_uuids := db_uuids db\<rparr>" by simp_all
      then show ?thesis by (rule unclaimed)
    next
      case (Some sr)
      with run Inr obtain key db1 where k: "schedule_trigger_key sid (Aware due) = Inr key"
          "advance_schedule env sr due db = (Inr (), db1)"
        and b: "(case find (\<lambda>r. sr_schedule r = sid \<and> sr_trigger_key r = key) (schedule_runs db) of
          Some run \<Rightarrow> bindE (load_trigger_bundle (sc_project sr) run) (\<lambda>b. ret (Some b))
        | None \<Rightarrow> bindE (insert_schedule_trigger sr key tid ekey) (\<lambda>b. ret (Some b))) db1 = (Inr x, d)"
        by (auto simp: body_def bindE_eq_Inr liftR_def gets_def)
      from b obtain b0 where "x = Some b0"
        "(case find (\<lambda>r. sr_schedule r = sid \<and> sr_trigger_key r = key) (schedule_runs db) of
          Some run \<Rightarrow> load_trigger_bundle (sc_project sr) run
        | None \<Rightarrow> insert_schedule_trigger sr key tid ekey) db1 = (Inr b0, d)"
        by (auto simp: bindE_eq_Inr ret_def split: option.splits)
      with claimed Some k eq show ?thesis by blast
    qed
  qed
qed

lemma trigger_keeps_schedules:
  "keeps schedules (case x of Some run \<Rightarrow> load_trigger_bundle p run | None \<Rightarrow> insert_schedule_trigger sr key tid ekey)"
  by (intro frame_intros)

text \<open>How a claim changes the schedules.\<close>

lemma claim_schedules:
  assumes "claim_due_schedule_run env sid (Aware due) tid ekey db = (res, db')"
    and "distinct (map sc_id (schedules db))"
  obtains (same) "\<nexists>b. res = Inr (Some b)" "schedules db' = schedules db"
  | (moved) b r n now where "res = Inr (Some b)" "r \<in> set (schedules db)" "sc_id r = sid" "sc_enabled r"
      "sc_next_run r = Some due"
      "compute_next_run_at env (sc_cron r) (sc_timezone r) (Aware due) (Some (Aware due)) = Inr n"
      "schedules db' = map (\<lambda>x. if sc_id x = sid then r\<lparr>sc_next_run := Some n, sc_updated := now\<rparr> else x)
         (schedules db)"
  using assms(1)
proof (cases rule: claim_outcome)
  case (unclaimed c u)
  with same show ?thesis by simp
next
  case (claimed sr key b db1)
  note f = find_SomeD [OF claimed(2)]
  from advance_schedule_run [OF claimed(4)] obtain n where
    n: "compute_next_run_at env (sc_cron sr) (sc_timezone sr) (Aware due) (Some (Aware due)) = Inr n"
    and s: "schedules db1 = update_rows (\<lambda>r. sc_id r = sc_id sr \<and> sc_next_run r = Some due)
       (\<lambda>r. r\<lparr>sc_next_run := Some n, sc_updated := db_clock db 0\<rparr>) (schedules db)" by blast
  have only: "x = sr" if "x \<in> set (schedules db)" "sc_id x = sid" for x
    using that f assms(2) inj_onD [of sc_id "set (schedules db)" x sr] by (simp add: distinct_map)
  have "schedules db' = schedules db1" using keepsD [OF trigger_keeps_schedules claimed(5)] .
  also have "\<dots> = map (\<lambda>x. if sc_id x = sid then sr\<lparr>sc_next_run := Some n, sc_updated := db_clock db 0\<rparr> else x)
         (schedules db)"
    unfolding s update_rows_def
  proof (rule map_cong [OF refl])
    fix x assume "x \<in> set (schedules db)"
    with only [of x] f show "(if sc_id x = sc_id sr \<and> sc_next_run x = Some due
           then x\<lparr>sc_next_run := Some n, sc_updated := db_clock db 0\<rparr> else x)
        = (if sc_id x = sid then sr\<lparr>sc_next_run := Some n, sc_updated := db_clock db 0\<rparr> else x)"
      by (cases "sc_id x = sid") simp_all
  qed
  finally show ?thesis using f by (intro moved [OF claimed(1) _ _ _ _ n]) blast+
qed


section \<open>A due instant fires once\<close>

text \<open>
  What the schedulers of several workers do to the database, in the order in which the transactions
  commit: claims of any schedule at any instant, and a user who stops schedules. The list holds the
  instants at which a claim of \<open>sid\<close> succeeded.
\<close>

inductive claims :: "cron_env \<Rightarrow> string \<Rightarrow> db \<Rightarrow> int list \<Rightarrow> db \<Rightarrow> bool" for env sid where
  claims_done: "claims env sid db [] db"
| claims_hit: "claim_due_schedule_run env sid (Aware due) tid ekey db = (Inr (Some b), db1) \<Longrightarrow>
    claims env sid db1 ds db' \<Longrightarrow> claims env sid db (due # ds) db'"
| claims_miss: "claim_due_schedule_run env sid' (Aware due) tid ekey db = (res, db1) \<Longrightarrow>
    sid' \<noteq> sid \<or> (\<nexists>b. res = Inr (Some b)) \<Longrightarrow>
    claims env sid db1 ds db' \<Longrightarrow> claims env sid db ds db'"
| claims_stop: "disable_schedule pid uid sid' db = (res, db1) \<Longrightarrow>
    claims env sid db1 ds db' \<Longrightarrow> claims env sid db ds db'"

text \<open>Every instant at which \<open>sid\<close> may still fire lies after \<open>lo\<close>.\<close>

definition fires_after :: "string \<Rightarrow> int \<Rightarrow> db \<Rightarrow> bool" where
  "fires_after sid lo db \<longleftrightarrow>
     (\<forall>r \<in> set (schedules db). sc_id r = sid \<longrightarrow> (\<forall>n. sc_next_run r = Some n \<longrightarrow> lo < n))"

lemma disable_schedule_rows:
  assumes "disable_schedule pid uid sid db = (res, db')"
  shows "map sc_id (schedules db') = map sc_id (schedules db)"
    and "set (schedules db') \<subseteq> set (schedules db) \<union> {r. sc_next_run r = None}"
proof -
  have "schedules db' = schedules db \<or> (\<exists>u. schedules db' = update_rows (schedule_is pid sid)
          (\<lambda>r. r\<lparr>sc_enabled := False, sc_next_run := None, sc_updated := u\<rparr>) (schedules db))"
  proof -
    obtain r0 d where d: "repo_disable_schedule pid uid sid db = (r0, d)" by force
    have "d = db' "
      using assms d by (cases r0) (auto simp: disable_schedule_def schedule_or_unknown_def catchE_def raise_def split: exc.splits)
    obtain p where p: "require_project pid uid db = (p, db)"
      by (metis reads_only(2) read_state surj_pair)
    show ?thesis using d p \<open>d = db'\<close>
      by (cases p) (auto simp: repo_disable_schedule_def bindE_def in_transaction_def gets_def first_or_def
          ret_def raise_def update_schedules_run liftR_def split: option.splits prod.splits sum.splits)
  qed
  then show "map sc_id (schedules db') = map sc_id (schedules db)"
    and "set (schedules db') \<subseteq> set (schedules db) \<union> {r. sc_next_run r = None}"
    by (auto simp: update_rows_def)
qed

lemma claims_increasing:
  assumes "claims env sid db ds db'" and "cron_advances env"
    and "distinct (map sc_id (schedules db))" and "fires_after sid lo db"
  shows "sorted_wrt (<) (lo # ds)"
  using assms
proof (induction arbitrary: lo rule: claims.induct)
  case (claims_done db)
  then show ?case by simp
next
  case (claims_hit due tid ekey db b db1 ds db')
  from claims_hit.hyps(1) claims_hit.prems(2) show ?case
  proof (cases rule: claim_schedules)
    case (moved b r n now)
    then have "due < n" "lo < due"
      using compute_next_run_at_later [OF claims_hit.prems(1)] claims_hit.prems(3) by (auto simp: fires_after_def)
    moreover from this moved have "fires_after sid due db1" by (auto simp: fires_after_def)
    moreover have "map sc_id (schedules db1) = map sc_id (schedules db)" using moved by auto
    ultimately have "sorted_wrt (<) (due # ds)" using claims_hit by metis
    with \<open>lo < due\<close> show ?thesis by (auto simp: order_less_trans)
  qed blast
next
  case (claims_miss sid' due tid ekey db res db1 ds db')
  from claims_miss.hyps(1) claims_miss.prems(2) show ?case
  proof (cases rule: claim_schedules)
    case same
    with claims_miss show ?thesis by (simp add: fires_after_def)
  next
    case (moved b r n now)
    then have "map sc_id (schedules db1) = map sc_id (schedules db)" by auto
    moreover have "sid' \<noteq> sid" using moved(1) claims_miss.hyps(2) by blast
    with moved claims_miss.prems(3) have "fires_after sid lo db1" by (auto simp: fires_after_def)
    ultimately show ?thesis using claims_miss by metis
  qed
next
  case (claims_stop pid uid sid' db res db1 ds db')
  note rows = disable_schedule_rows [OF claims_stop.hyps(1)]
  with claims_stop.prems(3) have "fires_after sid lo db1" by (auto simp: fires_after_def)
  with rows(1) claims_stop show ?case by metis
qed


section \<open>What a trigger stores\<close>

lemma has_clock [simp]:
  "has_project (db\<lparr>db_clock := c\<rparr>) p = has_project db p" "has_task (db\<lparr>db_clock := c\<rparr>) p t = has_task db p t"
  "has_schedule (db\<lparr>db_clock := c\<rparr>) p s = has_schedule db p s"
  by (simp_all add: has_project_def has_task_def has_schedule_def)

lemma insert_task_run:
  "insert_task i p ti g rq st sc au ex rv db = (Inr r, db') \<longleftrightarrow>
     rv \<ge> 1 \<and> i \<notin> tk_id ` set (tasks db) \<and> has_project db p
     \<and> (case sc of None \<Rightarrow> True | Some s \<Rightarrow> has_schedule db p s)
     \<and> r = \<lparr>tk_id = i, tk_project = p, tk_title = ti, tk_goals = g, tk_required = rq, tk_status = st,
            tk_schedule = sc, tk_sched_auth = au, tk_ext_auth = ex, tk_revision = rv,
            tk_created = db_clock db 0, tk_updated = db_clock db 1\<rparr>
     \<and> db' = db\<lparr>db_clock := (\<lambda>n. db_clock db (Suc (Suc n))), tasks := tasks db @ [r]\<rparr>"
  by (cases sc) (auto simp: insert_task_def bindE_eq_Inr tick_def gets_def modify_def ret_def constraints_Inr Let_def)

lemma insert_schedule_run_run:
  "insert_schedule_run i p s k t db = (Inr r, db') \<longleftrightarrow>
     i \<notin> sr_id ` set (schedule_runs db)
     \<and> (s, k) \<notin> (\<lambda>r. (sr_schedule r, sr_trigger_key r)) ` set (schedule_runs db)
     \<and> has_project db p \<and> has_schedule db p s \<and> has_task db p t
     \<and> r = \<lparr>sr_id = i, sr_project = p, sr_schedule = s, sr_trigger_key = k, sr_task = t,
            sr_created = db_clock db 0\<rparr>
     \<and> db' = db\<lparr>db_clock := (\<lambda>n. db_clock db (Suc n)), schedule_runs := schedule_runs db @ [r]\<rparr>"
  by (auto simp: insert_schedule_run_def bindE_eq_Inr tick_def gets_def modify_def ret_def constraints_Inr Let_def)

lemma insert_event_run:
  "insert_event k p t kd j db = (Inr r, db') \<longleftrightarrow>
     k \<notin> ev_key ` set (events db) \<and> has_project db p
     \<and> (case t of None \<Rightarrow> True | Some t \<Rightarrow> has_task db p t)
     \<and> r = \<lparr>ev_key = k, ev_project = p, ev_task = t, ev_kind = kd, ev_payload = j,
            ev_created = db_clock db 0\<rparr>
     \<and> db' = db\<lparr>db_clock := (\<lambda>n. db_clock db (Suc n)), events := events db @ [r]\<rparr>"
  by (cases t) (auto simp: insert_event_def bindE_eq_Inr tick_def gets_def modify_def ret_def constraints_Inr Let_def)

text \<open>The rows a trigger appends: an executing task of the schedule with the schedule's
  capabilities, the run that records the trigger key, and the event that announces it.\<close>

definition triggered :: "schedule_row \<Rightarrow> string \<Rightarrow> string \<Rightarrow> string \<Rightarrow> db \<Rightarrow> db \<Rightarrow> bool" where
  "triggered sr key tid ekey db db' \<longleftrightarrow>
     (\<exists>t run ev. tasks db' = tasks db @ [t] \<and> schedule_runs db' = schedule_runs db @ [run]
        \<and> events db' = events db @ [ev]
        \<and> tk_id t = tid \<and> tk_project t = sc_project sr \<and> tk_status t = TS_EXECUTING
        \<and> tk_schedule t = Some (sc_id sr) \<and> tk_sched_auth t
        \<and> parse_capabilities (tk_ext_auth t) = parse_capabilities (sc_caps sr)
        \<and> sr_schedule run = sc_id sr \<and> sr_trigger_key run = key \<and> sr_task run = tid
        \<and> ev_key ev = ekey \<and> ev_task ev = Some tid \<and> ev_kind ev = EV_SCHEDULE_STARTED)
     \<and> (sc_id sr, key) \<notin> (\<lambda>r. (sr_schedule r, sr_trigger_key r)) ` set (schedule_runs db)
     \<and> projects db' = projects db \<and> workflows db' = workflows db
     \<and> workflow_runs db' = workflow_runs db \<and> artifacts db' = artifacts db"

lemma map_integrity_raises: "\<nexists>x t. map_integrity f e s = (Inr x, t)"
  by (simp add: map_integrity_def raise_def)

lemma insert_schedule_trigger_run:
  assumes "insert_schedule_trigger sr key tid ekey db = (Inr b, db')"
  shows "triggered sr key tid ekey db db'"
  using assms
  by (auto simp: insert_schedule_trigger_def triggered_def bindE_eq_Inr liftR_def insert_task_run
      insert_schedule_run_run insert_event_run catch_Inr [OF map_integrity_raises] new_id_def uuid_hex_def ret_def
      to_schedule_def bindR_Inr dest!: read_state [OF reads_only(11)])


lemma advance_schedule_keeps [frame_intros]:
  "(\<And>db c x. f (db\<lparr>db_clock := c, schedules := x\<rparr>) = f db) \<Longrightarrow> keeps f (advance_schedule env sr due)"
  unfolding advance_schedule_def by (intro frame_intros) (simp add: keeps_def update_schedules_run)

section \<open>The exact effect of a claim\<close>

text \<open>
  A claim of a due schedule that does not return a bundle leaves every table as it was. One that
  does found the schedule enabled and due at the expected instant and moved it to the next instant of
  its cron expression; if the trigger key was already recorded nothing else changes, and otherwise it
  appends exactly one executing task with the schedule's capabilities, one run with the trigger key
  and one event.
\<close>

theorem claim_due_schedule_run_exact:
  assumes "claim_due_schedule_run env sid (Aware due) tid ekey db = (res, db')"
    and "distinct (map sc_id (schedules db))"
  shows "(\<nexists>b. res = Inr (Some b)) \<and> (\<exists>c u. db' = db\<lparr>db_clock := c, db_uuids := u\<rparr>)
    \<or> (\<exists>b r key n now. res = Inr (Some b) \<and> r \<in> set (schedules db) \<and> sc_id r = sid \<and> sc_enabled r
        \<and> sc_next_run r = Some due
        \<and> compute_next_run_at env (sc_cron r) (sc_timezone r) (Aware due) (Some (Aware due)) = Inr n
        \<and> schedules db' = map (\<lambda>x. if sc_id x = sid then r\<lparr>sc_next_run := Some n, sc_updated := now\<rparr> else x)
            (schedules db)
        \<and> schedule_trigger_key sid (Aware due) = Inr key
        \<and> (if \<exists>x \<in> set (schedule_runs db). sr_schedule x = sid \<and> sr_trigger_key x = key
           then tasks db' = tasks db \<and> schedule_runs db' = schedule_runs db \<and> events db' = events db
           else triggered r key tid ekey db db'))"
  using assms(1)
proof (cases rule: claim_outcome)
  case (unclaimed c u)
  then show ?thesis by blast
next
  case (claimed sr key b db1)
  note f = find_SomeD [OF claimed(2)]
  have same: "tasks db1 = tasks db" "schedule_runs db1 = schedule_runs db" "events db1 = events db"
      "projects db1 = projects db" "workflows db1 = workflows db" "workflow_runs db1 = workflow_runs db"
      "artifacts db1 = artifacts db"
    by (rule keepsD [OF advance_schedule_keeps claimed(4)], simp)+
  have effect: "if \<exists>x \<in> set (schedule_runs db). sr_schedule x = sid \<and> sr_trigger_key x = key
      then tasks db' = tasks db \<and> schedule_runs db' = schedule_runs db \<and> events db' = events db
      else triggered sr key tid ekey db db'"
  proof (cases "find (\<lambda>r. sr_schedule r = sid \<and> sr_trigger_key r = key) (schedule_runs db)")
    case None
    with claimed(5) have "triggered sr key tid ekey db1 db'" by (auto dest: insert_schedule_trigger_run)
    with None same show ?thesis by (auto simp: triggered_def find_None_iff)
  next
    case (Some run)
    with claimed(5) have "db' = db1" by (auto dest: read_state [OF reads_only(12)])
    with Some same show ?thesis by (auto dest: find_SomeD)
  qed
  show ?thesis using assms
  proof (cases rule: claim_schedules)
    case same
    with claimed(1) show ?thesis by blast
  next
    case (moved b' r n now)
    have "r = sr" using moved(2,3) f assms(2) inj_onD [of sc_id "set (schedules db)" r sr]
      by (simp add: distinct_map)
    with moved effect claimed(3) show ?thesis by blast
  qed
qed

text \<open>
  C22. However many workers claim schedules, in whatever order their transactions commit and whichever
  schedules are stopped in between, the instants at which one schedule fires are strictly increasing:
  no due instant fires twice. The cron trigger is assumed to give instants after the one it is asked
  about.
\<close>

theorem due_instant_fires_once:
  assumes "claims env sid db ds db'" and "cron_advances env" and "distinct (map sc_id (schedules db))"
  shows "sorted_wrt (<) ds"
proof -
  let ?ns = "{n. \<exists>r \<in> set (schedules db). sc_next_run r = Some n}"
  have "?ns \<subseteq> (\<lambda>r. the (sc_next_run r)) ` set (schedules db)" by force
  then have fin: "finite ?ns" by (rule finite_surj [OF finite_set])
  have "Min (insert 0 ?ns) - 1 < n" if "n \<in> ?ns" for n
  proof -
    have "Min (insert 0 ?ns) \<le> n" using that fin by (intro Min_le) blast+
    then show ?thesis by simp
  qed
  then have "fires_after sid (Min (insert 0 ?ns) - 1) db" by (auto simp: fires_after_def)
  from claims_increasing [OF assms this] show ?thesis by simp
qed


definition sample_cron :: cron_env where
  "sample_cron = \<lparr>ce_zone = (\<lambda>z. Inr ()), ce_crontab = (\<lambda>e z. True),
     ce_next_fire = (\<lambda>e z p t. Some (t + 60))\<rparr>"

definition sample_workflow_row :: workflow_row where
  "sample_workflow_row = \<lparr>wf_id = ''w1'', wf_project = ''p1'', wf_name = ''W'', wf_steps = sample_raw,
     wf_status = WS_SAVED, wf_source = SRC_USER, wf_revision = 1, wf_created = 0, wf_updated = 0\<rparr>"

definition sample_schedule_row :: schedule_row where
  "sample_schedule_row = \<lparr>sc_id = ''s1'', sc_project = ''p1'', sc_workflow = ''w1'', sc_cron = ''* * * * *'',
     sc_timezone = ''UTC'', sc_enabled = True, sc_authorized_at = 0, sc_caps = JList [JStr ''mcp''],
     sc_next_run = Some 100, sc_created = 0, sc_updated = 0\<rparr>"

definition sample_sched_db :: db where
  "sample_sched_db = sample_db\<lparr>workflows := [sample_workflow_row], schedules := [sample_schedule_row]\<rparr>"

lemma sample_cron_next: "compute_next_run_at sample_cron ''* * * * *'' ''UTC'' (Aware 100) (Some (Aware 100)) = Inr 160"
  by (simp add: compute_next_run_at_def require_aware_def parse_iana_timezone_def parse_five_field_cron_def
      strip_plain plain_char_def py_split_plain py_split_space sample_cron_def)

lemma sample_trigger_key: "schedule_trigger_key ''s1'' (Aware 100) = Inr (''s1:'' @ strftime_utc 100)"
  by (simp add: schedule_trigger_key_def require_aware_def strip_plain plain_char_def)

lemma sample_to_workflow: "\<exists>w. to_workflow sample_workflow_row = Inr w"
  by (simp add: sample_workflow_row_def to_workflow_def parse_definition_payload_def sample_raw_def
      parse_definition_graph_def parse_node_def parse_objects_def
        objects_of_def jget_def jget_or_def or_empty_def node_assignee_init_def
        workflow_node_init_def parse_entry_def int_str_def nat_str.simps strip_plain plain_char_def)


lemma sample_mcp: "capability_of ''mcp'' = Inr MCP"
  using capability_of_value [of MCP] by simp

lemma sample_claim:
  "\<exists>b db'. claim_due_schedule_run sample_cron ''s1'' (Aware 100) ''t2'' ''e1'' sample_sched_db = (Inr (Some b), db')"
proof -
  obtain w where "to_workflow sample_workflow_row = Inr w" using sample_to_workflow by blast
  then show ?thesis
    by (simp add: claim_due_schedule_run_def catchE_def in_transaction_def bindE_def gets_def sample_sched_db_def
        sample_db_def sample_schedule_row_def liftR_def sample_trigger_key advance_schedule_def sample_cron_next
        update_schedules_run count_rows_def ensure_def insert_schedule_trigger_def to_schedule_def
        parse_capabilities_def sample_mcp load_workflow_row_def first_or_def ret_def insert_task_def
        tick_def constraints.simps has_project_def has_schedule_def update_rows_def sample_task_def
        sample_workflow_row_def Let_def modify_def new_id_def uuid_hex_def insert_schedule_run_def has_task_def insert_event_def
        to_task_def to_event_def parse_event_payload_def need_str_def jget_def parse_string_list_def
        parse_dump_capabilities [unfolded parse_capabilities_def])
qed


lemma sample_sched_schedules: "schedules sample_sched_db = [sample_schedule_row]"
  "schedule_runs sample_sched_db = []" "tasks sample_sched_db = [sample_task]"
  by (simp_all add: sample_sched_db_def sample_db_def)

lemma sample_cron_advances: "cron_advances sample_cron"
  by (simp add: cron_advances_def sample_cron_def)

theorem claim_due_schedule_run_exact_witness:
  "\<exists>res db'. claim_due_schedule_run sample_cron ''s1'' (Aware 100) ''t2'' ''e1'' sample_sched_db = (res, db')
     \<and> map sc_next_run (schedules db') = [Some 160] \<and> length (tasks db') = 2"
proof -
  obtain b db' where c: "claim_due_schedule_run sample_cron ''s1'' (Aware 100) ''t2'' ''e1'' sample_sched_db
    = (Inr (Some b), db')" using sample_claim by blast
  have "distinct (map sc_id (schedules sample_sched_db))" by (simp add: sample_sched_schedules)
  from claim_due_schedule_run_exact [OF c this] sample_cron_next
  have "map sc_next_run (schedules db') = [Some 160] \<and> length (tasks db') = 2"
    by (cases b) (auto simp: sample_sched_schedules sample_schedule_row_def triggered_def)
  with c show ?thesis by (intro exI [of _ "Inr (Some b)"] exI [of _ db']) simp
qed

theorem due_instant_fires_once_witness:
  "\<exists>db'. claims sample_cron ''s1'' sample_sched_db [100] db' \<and> cron_advances sample_cron
     \<and> distinct (map sc_id (schedules sample_sched_db)) \<and> sorted_wrt (<) [100 :: int]"
proof -
  obtain b db' where "claim_due_schedule_run sample_cron ''s1'' (Aware 100) ''t2'' ''e1'' sample_sched_db
    = (Inr (Some b), db')" using sample_claim by blast
  from claims_hit [OF this claims_done] have c: "claims sample_cron ''s1'' sample_sched_db [100] db'" .
  have d: "distinct (map sc_id (schedules sample_sched_db))" by (simp add: sample_sched_schedules)
  from due_instant_fires_once [OF c sample_cron_advances d] c d sample_cron_advances show ?thesis by blast
qed

section \<open>A trigger key fires once\<close>

text \<open>The foreign key of events: an event of a task refers to a stored task.\<close>

definition events_refer :: "db \<Rightarrow> bool" where
  "events_refer db \<longleftrightarrow> (\<forall>ev \<in> set (events db). \<forall>t. ev_task ev = Some t \<longrightarrow> t \<in> tk_id ` set (tasks db))"

lemma trigger_load_again:
  assumes "insert_schedule_trigger sr key tid ekey db = (Inr b, db')" and "events_refer db"
  obtains run where "schedule_runs db' = schedule_runs db @ [run]" "sr_project run = sc_project sr"
    "sr_schedule run = sc_id sr" "sr_trigger_key run = key" "projects db' = projects db"
    "load_trigger_bundle (sc_project sr) run db' = (Inr b, db')"
proof -
  from assms(1) obtain t ev run j where
      t: "tid \<notin> tk_id ` set (tasks db)" "tasks db' = tasks db @ [t]" "tk_id t = tid" "tk_project t = sc_project sr"
    and ev: "events db' = events db @ [ev]" "ev_project ev = sc_project sr" "ev_task ev = Some tid"
      "ev_kind ev = EV_SCHEDULE_STARTED"
    and run: "schedule_runs db' = schedule_runs db @ [run]" "sr_project run = sc_project sr"
    "sr_schedule run = sc_id sr" "sr_trigger_key run = key" "sr_task run = tid" "projects db' = projects db"
    and b: "fst (snd b) = j" "to_task t = Inr (fst b)" "to_event ev = Inr (fst (snd b))"
      "snd (snd b) = to_schedule_run run"
    by (auto simp: insert_schedule_trigger_def bindE_eq_Inr liftR_def insert_task_run
      insert_schedule_run_run insert_event_run catch_Inr [OF map_integrity_raises] new_id_def uuid_hex_def ret_def
      dest!: read_state [OF reads_only(11)])
  have "find (\<lambda>r. tk_id r = tid \<and> tk_project r = sc_project sr) (tasks db) = None"
    using t(1) by (auto simp: find_None_iff)
  then have task: "find (\<lambda>r. tk_id r = tid \<and> tk_project r = sc_project sr) (tasks db') = Some t"
    using t by (simp add: find_append)
  have "filter (\<lambda>r. ev_project r = sc_project sr \<and> ev_task r = Some tid \<and> ev_kind r = EV_SCHEDULE_STARTED)
          (events db) = []"
    using t(1) assms(2) by (auto simp: filter_empty_conv events_refer_def)
  then have evs: "filter (\<lambda>r. ev_project r = sc_project sr \<and> ev_task r = Some tid \<and> ev_kind r = EV_SCHEDULE_STARTED)
          (events db') = [ev]"
    using ev by simp
  have "load_trigger_bundle (sc_project sr) run db' = (Inr b, db')"
    using task evs b run(5)
    by (cases b) (simp add: load_trigger_bundle_def bindE_def gets_def first_or_def ret_def liftR_def)
  with run that show ?thesis by blast
qed


lemma trigger_schedule_run_Inr:
  assumes "trigger_schedule_run pid uid sid key tid ekey db = (Inr b, db')"
  obtains p run where "require_project pid uid db = (Inr p, db)"
      "find (\<lambda>r. sr_project r = pid \<and> sr_schedule r = sid \<and> sr_trigger_key r = key) (schedule_runs db) = Some run"
      "load_trigger_bundle pid run db = (Inr b, db)" "db' = db"
  | p sr where "require_project pid uid db = (Inr p, db)"
      "find (\<lambda>r. sr_project r = pid \<and> sr_schedule r = sid \<and> sr_trigger_key r = key) (schedule_runs db) = None"
      "find (schedule_is pid sid) (schedules db) = Some sr" "sc_enabled sr"
      "insert_schedule_trigger sr key tid ekey db = (Inr b, db')"
proof -
  let ?find = "\<lambda>d. find (\<lambda>r. sr_project r = pid \<and> sr_schedule r = sid \<and> sr_trigger_key r = key) (schedule_runs d)"
  from assms obtain p where p: "require_project pid uid db = (Inr p, db)"
    by (auto simp: trigger_schedule_run_def bindE_eq_Inr dest: read_state [OF reads_only(2)])
  define m where "m = (case ?find db of
         Some run \<Rightarrow> load_trigger_bundle pid run
       | None \<Rightarrow>
           bindE (gets (\<lambda>db. find (schedule_is pid sid) (schedules db))) (\<lambda>sr.
           bindE (first_or sr (WorkshopScheduleNotFoundError sid)) (\<lambda>sr.
           bindE (ensure (sc_enabled sr) (WRE ''schedule is disabled'')) (\<lambda>_.
           insert_schedule_trigger sr key tid ekey))))"
  define h where "h = (\<lambda>e. case e of
         WorkshopScheduleTriggerConflictError _ \<Rightarrow> get_schedule_run_by_trigger_key pid uid sid key
       | _ \<Rightarrow> raise e)"
  have run: "catchE (in_transaction m) h db = (Inr b, db')"
    using assms p by (simp add: trigger_schedule_run_def bindE_def gets_def m_def h_def catchE_def in_transaction_def)
  obtain r d where md: "m db = (r, d)" by force
  show ?thesis
  proof (cases r)
    case (Inr x)
    with run md have md: "m db = (Inr b, db')" by (simp add: catchE_def in_transaction_def)
    show ?thesis
    proof (cases "?find db")
      case (Some run)
      then have "load_trigger_bundle pid run db = (Inr b, db')" using md by (simp add: m_def)
      moreover from this have "db' = db" by (rule read_state [OF reads_only(12)])
      ultimately show ?thesis using that(1) p Some by blast
    next
      case None
      then have "\<exists>sr. find (schedule_is pid sid) (schedules db) = Some sr \<and> sc_enabled sr
          \<and> insert_schedule_trigger sr key tid ekey db = (Inr b, db')"
        using md by (auto simp: m_def bindE_eq_Inr gets_def first_or_def ensure_def ret_def raise_def
            split: option.splits if_splits)
      then show ?thesis using that(2) p None by blast
    qed
  next
    case (Inl e)
    define db1 where "db1 = db\<lparr>db_clock := db_clock d, db_uuids := db_uuids d\<rparr>"
    have "h e db1 = (Inr b, db')" using run md Inl by (simp add: catchE_def in_transaction_def db1_def)
    then have g: "get_schedule_run_by_trigger_key pid uid sid key db1 = (Inr b, db')"
      by (auto simp: h_def raise_def split: exc.splits)
    then have "?find db1 \<noteq> None"
      by (auto simp: get_schedule_run_by_trigger_key_def bindE_eq_Inr gets_def first_or_def raise_def
          split: option.splits dest!: read_state [OF reads_only(2)])
    then obtain run where some: "?find db = Some run" by (auto simp: db1_def)
    then have "load_trigger_bundle pid run db = (Inl e, d)" using md Inl by (simp add: m_def)
    moreover from this have "d = db" by (rule read_state [OF reads_only(12)])
    moreover have "load_trigger_bundle pid run db1 = (Inr b, db')"
      using g some by (auto simp: get_schedule_run_by_trigger_key_def bindE_eq_Inr gets_def first_or_def ret_def db1_def
          dest!: read_state [OF reads_only(2)])
    ultimately show ?thesis by (simp add: db1_def)
  qed
qed

text \<open>
  Triggering a schedule is idempotent in the trigger key: once a trigger has succeeded, any later
  trigger of the same schedule with the same key, whatever fresh identifiers it brings, returns the
  same task, event and run and changes nothing.
\<close>

theorem trigger_schedule_run_idempotent:
  assumes "trigger_schedule_run pid uid sid key tid ekey db = (Inr b, db')" and "events_refer db"
  shows "trigger_schedule_run pid uid sid key tid' ekey' db' = (Inr b, db')"
  using assms(1)
proof (cases rule: trigger_schedule_run_Inr)
  case (1 p run)
  then show ?thesis
    by (simp add: trigger_schedule_run_def bindE_def gets_def catchE_def in_transaction_def)
next
  case (2 p sr)
  have sr: "sc_project sr = pid" "sc_id sr = sid" using find_SomeD [OF 2(3)] by (simp_all add: schedule_is_def)
  from trigger_load_again [OF 2(5) assms(2)] obtain run where
    run: "schedule_runs db' = schedule_runs db @ [run]" "sr_project run = sc_project sr"
    "sr_schedule run = sc_id sr" "sr_trigger_key run = key" "projects db' = projects db"
    "load_trigger_bundle (sc_project sr) run db' = (Inr b, db')" by blast
  have "find (\<lambda>r. sr_project r = pid \<and> sr_schedule r = sid \<and> sr_trigger_key r = key) (schedule_runs db') = Some run"
    using 2(2) run sr by (simp add: find_append)
  moreover have "require_project pid uid db' = (Inr p, db')"
    using 2(1) run(5) by (simp add: require_project_run)
  ultimately show ?thesis using run(6) sr
    by (simp add: trigger_schedule_run_def bindE_def gets_def catchE_def in_transaction_def)
qed


lemma sample_trigger:
  "\<exists>b db'. trigger_schedule_run ''p1'' 7 ''s1'' ''manual:k'' ''t2'' ''e1'' sample_sched_db = (Inr b, db')"
proof -
  obtain w where "to_workflow sample_workflow_row = Inr w" using sample_to_workflow by blast
  then show ?thesis
    by (simp add: trigger_schedule_run_def require_project_run catchE_def in_transaction_def bindE_def gets_def sample_sched_db_def
        sample_db_def sample_schedule_row_def liftR_def schedule_is_def
        ensure_def insert_schedule_trigger_def to_schedule_def
        parse_capabilities_def sample_mcp load_workflow_row_def first_or_def ret_def insert_task_def
        tick_def constraints.simps has_project_def has_schedule_def sample_task_def
        sample_workflow_row_def Let_def modify_def new_id_def uuid_hex_def insert_schedule_run_def has_task_def insert_event_def
        to_task_def to_event_def parse_event_payload_def need_str_def jget_def parse_string_list_def
        parse_dump_capabilities [unfolded parse_capabilities_def])
qed

theorem trigger_schedule_run_idempotent_witness:
  "\<exists>b db'. trigger_schedule_run ''p1'' 7 ''s1'' ''manual:k'' ''t2'' ''e1'' sample_sched_db = (Inr b, db')
     \<and> events_refer sample_sched_db
     \<and> trigger_schedule_run ''p1'' 7 ''s1'' ''manual:k'' ''t3'' ''e2'' db' = (Inr b, db')"
proof -
  obtain b db' where t: "trigger_schedule_run ''p1'' 7 ''s1'' ''manual:k'' ''t2'' ''e1'' sample_sched_db = (Inr b, db')"
    using sample_trigger by blast
  have e: "events_refer sample_sched_db" by (simp add: events_refer_def sample_sched_db_def sample_db_def)
  from trigger_schedule_run_idempotent [OF t e] t e show ?thesis by blast
qed

end
