(* ===== verification/Run_Lifecycle.thy ===== *)
theory Run_Lifecycle
  imports Schedule_Properties
begin

text \<open>
  The life of a workflow run. \<open>execute_run\<close> reads a run, marks it running, executes the graph and
  writes the outcome; in between, the run may be cancelled by the deletion of its workflow, or picked
  up by a second worker. Every write is a compare-and-set on the revision, and the theorems say that
  this is enough: a run that has reached a final status never changes again.
\<close>

section \<open>Compare-and-set on runs\<close>

definition run_is :: "string \<Rightarrow> string \<Rightarrow> workflow_run_row \<Rightarrow> bool" where
  "run_is pid rid r \<longleftrightarrow> wr_id r = rid \<and> wr_project r = pid"

lemma get_workflow_run_Inr:
  "get_workflow_run pid uid rid db = (Inr run, db') \<longleftrightarrow>
     (\<exists>p r. require_project pid uid db = (Inr p, db) \<and> find (run_is pid rid) (workflow_runs db) = Some r
        \<and> run = to_workflow_run r \<and> db' = db)"
  by (auto simp: get_workflow_run_def run_is_def [abs_def] bindE_def require_project_run gets_def first_or_def
      ret_def raise_def split: option.splits)

lemma update_workflow_run_cas_rows:
  assumes "update_workflow_run_cas pid uid rid v st cur err sta fin db = (res, db')"
  shows "workflow_runs db' = workflow_runs db \<and> (\<nexists>x. res = Inr x)
    \<or> workflow_runs db' = update_rows (\<lambda>r. run_is pid rid r \<and> wr_revision r = v)
         (\<lambda>r. r\<lparr>wr_status := st, wr_current_node := cur, wr_error := err, wr_started := sta,
                wr_finished := fin, wr_revision := v + 1, wr_updated := db_clock db 0\<rparr>) (workflow_runs db)
      \<and> (\<forall>run. res = Inr run \<longrightarrow> get_workflow_run pid uid rid db' = (Inr run, db')
             \<and> (\<exists>r \<in> set (workflow_runs db). run_is pid rid r \<and> wr_revision r = v))"
proof -
  obtain p where p: "require_project pid uid db = (p, db)" by (metis reads_only(2) read_state surj_pair)
  show ?thesis
  proof (cases p)
    case (Inl e)
    with assms p show ?thesis by (auto simp: update_workflow_run_cas_def bindE_def)
  next
    case (Inr x)
    then show ?thesis using assms p
      by (auto simp: update_workflow_run_cas_def bindE_def update_workflow_runs_run ensure_def run_is_def
          conj_assoc count_rows_def length_Suc_conv filter_eq_Cons_iff
          dest: read_state [OF reads_only(9)] split: if_splits)
  qed
qed


lemma cancel_active_run_rows:
  assumes "cancel_active_run env pid uid finished reason run db = (res, db')"
  shows "workflow_runs db' = workflow_runs db
    \<or> (\<exists>t. workflow_runs db' = update_rows
           (\<lambda>r. run_is pid (r_id run) r \<and> wr_revision r = r_revision run \<and> active_status (wr_status r))
           (\<lambda>r. r\<lparr>wr_status := RS_CANCELLED, wr_error := Some reason, wr_finished := Some t,
                  wr_revision := r_revision run + 1, wr_updated := db_clock db 0\<rparr>) (workflow_runs db))"
proof -
  obtain r d where c: "cancel_workflow_run_cas pid uid (r_id run) (r_revision run) finished (Some reason) db = (r, d)"
    by force
  have "workflow_runs db' = workflow_runs d"
    using assms c by (auto simp: cancel_active_run_def bindE_def catchE_def svc_revoke_def raise_def modify_def ret_def
        split: sum.splits if_splits)
  moreover have "workflow_runs d = workflow_runs db
    \<or> (\<exists>t. workflow_runs d = update_rows
           (\<lambda>r. run_is pid (r_id run) r \<and> wr_revision r = r_revision run \<and> active_status (wr_status r))
           (\<lambda>r. r\<lparr>wr_status := RS_CANCELLED, wr_error := Some reason, wr_finished := Some t,
                  wr_revision := r_revision run + 1, wr_updated := db_clock db 0\<rparr>) (workflow_runs db))"
    using c by (auto simp: cancel_workflow_run_cas_def bindE_def require_project_run update_workflow_runs_run ensure_def
        run_is_def conj_assoc raise_def dest!: read_state [OF reads_only(9)] split: datetime.splits option.splits if_splits)
  ultimately show ?thesis by simp
qed

section \<open>Interleaved workers\<close>

text \<open>What a worker has read and is about to write: the start of a run, its outcome, a cancellation.\<close>

datatype run_pending =
    PStart string int workshop_run
  | PFinish string int workshop_run int
  | PCancel string int workshop_run

fun pending_run :: "run_pending \<Rightarrow> string \<times> workshop_run" where
  "pending_run (PStart pid uid run) = (pid, run)"
| "pending_run (PFinish pid uid run started) = (pid, run)"
| "pending_run (PCancel pid uid run) = (pid, run)"

inductive run_step :: "db \<times> run_pending list \<Rightarrow> db \<times> run_pending list \<Rightarrow> bool" where
  read_start:
    "get_workflow_run pid uid rid db = (Inr run, db') \<Longrightarrow> active_status (r_status run) \<Longrightarrow>
     run_step (db, ps) (db', PStart pid uid run # ps)"
| write_start:
    "update_workflow_run_cas pid uid (r_id run) (r_revision run) RS_RUNNING None None (Some started) None db
       = (Inr run', db') \<Longrightarrow>
     run_step (db, xs @ PStart pid uid run # ys) (db', PFinish pid uid run' started # xs @ ys)"
| fail_start:
    "update_workflow_run_cas pid uid (r_id run) (r_revision run) RS_RUNNING None None (Some started) None db
       = (Inl e, db') \<Longrightarrow>
     run_step (db, xs @ PStart pid uid run # ys) (db', xs @ ys)"
| write_finish:
    "execute_run_graph pid (r_id run) w runner = Inr st \<Longrightarrow>
     execute_run_finish pid uid (r_id run) run started st db = (res, db') \<Longrightarrow>
     run_step (db, xs @ PFinish pid uid run started # ys) (db', xs @ ys)"
| read_active:
    "list_active_workflow_runs pid uid wid db = (Inr runs, db') \<Longrightarrow>
     run_step (db, ps) (db', map (PCancel pid uid) runs @ ps)"
| write_cancel:
    "cancel_active_run env pid uid finished reason run db = (res, db') \<Longrightarrow>
     run_step (db, xs @ PCancel pid uid run # ys) (db', xs @ ys)"
| crash: "run_step (db, xs @ p # ys) (db, xs @ ys)"
| new_run:
    "create_workflow_run rid pid uid wid wrev trig sched status db = (res, db') \<Longrightarrow> run_step (db, ps) (db', ps)"
| other: "workflow_runs db' = workflow_runs db \<Longrightarrow> run_step (db, ps) (db', ps)"

text \<open>A pending write was decided on a row that was active, so the row still is, or its revision has
  moved past the one that was read.\<close>

definition pending_valid :: "workflow_run_row list \<Rightarrow> run_pending \<Rightarrow> bool" where
  "pending_valid rows p \<longleftrightarrow>
     (case pending_run p of (pid, run) \<Rightarrow>
        \<exists>r \<in> set rows. run_is pid (r_id run) r
          \<and> (r_revision run < wr_revision r \<or> r_revision run = wr_revision r \<and> active_status (wr_status r)))"

definition run_inv :: "db \<times> run_pending list \<Rightarrow> bool" where
  "run_inv s \<longleftrightarrow> distinct (map wr_id (workflow_runs (fst s))) \<and> list_all (pending_valid (workflow_runs (fst s))) (snd s)"

text \<open>How one row may change.\<close>

definition run_row_step :: "workflow_run_row \<Rightarrow> workflow_run_row \<Rightarrow> bool" where
  "run_row_step r r' \<longleftrightarrow> r' = r \<or>
     wr_id r' = wr_id r \<and> wr_project r' = wr_project r \<and> active_status (wr_status r)
     \<and> wr_revision r' = wr_revision r + 1"

definition run_rows_step :: "workflow_run_row list \<Rightarrow> workflow_run_row list \<Rightarrow> bool" where
  "run_rows_step rs rs' \<longleftrightarrow> (\<exists>new. list_all2 run_row_step (rs @ new) rs' \<and> distinct (map wr_id (rs @ new)))"

lemma run_rows_refl: "distinct (map wr_id rs) \<Longrightarrow> run_rows_step rs rs"
  unfolding run_rows_step_def by (intro exI [of _ "[]"]) (simp add: list_all2_same run_row_step_def)

lemma run_rows_distinct: "run_rows_step rs rs' \<Longrightarrow> distinct (map wr_id rs')"
proof -
  assume "run_rows_step rs rs'"
  then obtain new where l: "list_all2 run_row_step (rs @ new) rs'" and d: "distinct (map wr_id (rs @ new))"
    by (auto simp: run_rows_step_def)
  have "list_all2 (\<lambda>a b. wr_id a = wr_id b) (rs @ new) rs'"
    using l by (rule list_all2_mono) (auto simp: run_row_step_def)
  then have "map wr_id (rs @ new) = map wr_id rs'"
    by (auto simp: list_all2_conv_all_nth intro!: nth_equalityI simp del: map_append)
  with d show ?thesis by (simp only: )
qed

lemma run_rows_step_row:
  assumes "run_rows_step rs rs'" "r \<in> set rs"
  obtains r' where "r' \<in> set rs'" "run_row_step r r'"
proof -
  from assms obtain new where l: "list_all2 run_row_step (rs @ new) rs'" by (auto simp: run_rows_step_def)
  from assms(2) obtain i where "i < length rs" "rs ! i = r" by (auto simp: in_set_conv_nth)
  with list_all2_nthD [OF l, of i] list_all2_lengthD [OF l]
  have "run_row_step r (rs' ! i)" "rs' ! i \<in> set rs'" by (auto simp: nth_append)
  with that show ?thesis by blast
qed

lemma pending_valid_step:
  assumes "run_rows_step rs rs'" "pending_valid rs p"
  shows "pending_valid rs' p"
proof -
  from assms(2) obtain pid run r where p: "pending_run p = (pid, run)" and r: "r \<in> set rs" "run_is pid (r_id run) r"
    "r_revision run < wr_revision r \<or> r_revision run = wr_revision r \<and> active_status (wr_status r)"
    by (auto simp: pending_valid_def split: prod.splits)
  from run_rows_step_row [OF assms(1) r(1)] obtain r' where "r' \<in> set rs'" "run_row_step r r'" by blast
  with r(2,3) show ?thesis unfolding pending_valid_def p
    by (auto simp: run_row_step_def run_is_def intro!: bexI [of _ r'])
qed

lemma cas_rows_step:
  assumes "distinct (map wr_id rs)" "pending_valid rs p" "pending_run p = (pid, run)"
    and "\<And>r. Q r \<Longrightarrow> run_is pid (r_id run) r \<and> wr_revision r = r_revision run"
    and "\<And>r. wr_id (f r) = wr_id r \<and> wr_project (f r) = wr_project r \<and> wr_revision (f r) = r_revision run + 1"
  shows "run_rows_step rs (update_rows Q f rs)"
proof -
  from assms(2,3) obtain r0 where r0: "r0 \<in> set rs" "run_is pid (r_id run) r0"
    "r_revision run < wr_revision r0 \<or> r_revision run = wr_revision r0 \<and> active_status (wr_status r0)"
    by (auto simp: pending_valid_def)
  have "run_row_step r (if Q r then f r else r)" if "r \<in> set rs" for r
  proof (cases "Q r")
    case True
    from assms(4) [OF True] have q: "run_is pid (r_id run) r" "wr_revision r = r_revision run" by auto
    then have "r = r0" using r0(1,2) that assms(1) inj_onD [of wr_id "set rs" r r0]
      by (simp add: run_is_def distinct_map)
    with q r0 True assms(5) show ?thesis by (auto simp: run_row_step_def)
  qed (simp add: run_row_step_def)
  then show ?thesis unfolding run_rows_step_def update_rows_def using assms(1)
    by (intro exI [of _ "[]"]) (simp add: list.rel_map list_all2_same)
qed


lemma create_workflow_run_rows:
  assumes "create_workflow_run rid pid uid wid wrev trig sched status db = (res, db')"
    and "distinct (map wr_id (workflow_runs db))"
  shows "run_rows_step (workflow_runs db) (workflow_runs db')"
proof -
  have "workflow_runs db' = workflow_runs db
     \<or> (\<exists>r. wr_id r \<notin> wr_id ` set (workflow_runs db) \<and> workflow_runs db' = workflow_runs db @ [r])"
    using assms(1)
    by (auto simp: create_workflow_run_def bindE_def require_project_run insert_workflow_run_def tick_def gets_def
        modify_def ret_def constraints.simps Let_def split: option.splits if_splits)
  then show ?thesis
  proof
    assume "\<exists>r. wr_id r \<notin> wr_id ` set (workflow_runs db) \<and> workflow_runs db' = workflow_runs db @ [r]"
    then obtain r where "wr_id r \<notin> wr_id ` set (workflow_runs db)" "workflow_runs db' = workflow_runs db @ [r]" by blast
    with assms(2) show ?thesis unfolding run_rows_step_def
      by (intro exI [of _ "[r]"]) (simp add: list_all2_same run_row_step_def del: list_all2_append)
  qed (simp add: run_rows_refl assms(2))
qed

lemma execute_run_finish_rows:
  assumes "execute_run_finish pid uid rid run started st db = (res, db')"
  shows "workflow_runs db' = workflow_runs db
    \<or> (\<exists>fin now. workflow_runs db' = update_rows (\<lambda>r. run_is pid rid r \<and> wr_revision r = r_revision run)
         (\<lambda>r. r\<lparr>wr_status := st_status st, wr_current_node := st_current st, wr_error := st_error st,
                wr_started := Some started, wr_finished := fin, wr_revision := r_revision run + 1,
                wr_updated := now\<rparr>) (workflow_runs db))"
proof -
  let ?db = "db\<lparr>db_clock := \<lambda>n. db_clock db (Suc n)\<rparr>"
  obtain r d where u: "update_workflow_run_cas pid uid rid (r_revision run) (st_status st) (st_current st) (st_error st)
      (Some started) (Some (db_clock db 0)) ?db = (r, d)" by force
  have "d = db'" using assms u
    by (auto simp: execute_run_finish_def bindE_def tick_def ret_def split: sum.splits)
  then show ?thesis using update_workflow_run_cas_rows [OF u] by auto
qed

lemma unchanged_rows_step:
  "run_inv (db, ps) \<Longrightarrow> workflow_runs db' = workflow_runs db \<Longrightarrow>
   run_rows_step (workflow_runs db) (workflow_runs db')"
  by (simp add: run_inv_def run_rows_refl)

lemma write_rows_step:
  assumes "run_inv (db, xs @ p # ys)" and "workflow_runs db' = update_rows Q f (workflow_runs db)"
    and "pending_run p = (pid, run)"
    and "\<And>r. Q r \<Longrightarrow> run_is pid (r_id run) r \<and> wr_revision r = r_revision run"
    and "\<And>r. wr_id (f r) = wr_id r \<and> wr_project (f r) = wr_project r \<and> wr_revision (f r) = r_revision run + 1"
  shows "run_rows_step (workflow_runs db) (workflow_runs db')"
  using assms(1) cas_rows_step [OF _ _ assms(3-5), of "workflow_runs db"] by (simp add: assms(2) run_inv_def)

lemma run_step_rows:
  assumes "run_step s s'" and "run_inv s"
  shows "run_rows_step (workflow_runs (fst s)) (workflow_runs (fst s'))"
  using assms
proof (induction rule: run_step.induct)
  case (read_start pid uid rid db run db' ps)
  then show ?case by (auto simp: run_inv_def get_workflow_run_Inr run_rows_refl)
next
  case (write_start pid uid run started db run' db' xs ys)
  note inv = write_start(2)
  from update_workflow_run_cas_rows [OF write_start(1)] show ?case
    unfolding fst_conv by (elim disjE conjE) (erule unchanged_rows_step [OF inv] write_rows_step [OF inv]; auto)+
next
  case (fail_start pid uid run started db e db' xs ys)
  note inv = fail_start(2)
  from update_workflow_run_cas_rows [OF fail_start(1)] show ?case
    unfolding fst_conv by (elim disjE conjE) (erule unchanged_rows_step [OF inv] write_rows_step [OF inv]; auto)+
next
  case (write_finish pid run w runner st uid started db res db' xs ys)
  note inv = write_finish(3)
  from execute_run_finish_rows [OF write_finish(2)] show ?case
    unfolding fst_conv by (elim disjE exE) (erule unchanged_rows_step [OF inv] write_rows_step [OF inv]; auto)+
next
  case (read_active pid uid wid db runs db' ps)
  then show ?case by (auto simp: run_inv_def run_rows_refl dest!: read_state [OF reads_only(14)])
next
  case (write_cancel env pid uid finished reason run db res db' xs ys)
  note inv = write_cancel(2)
  from cancel_active_run_rows [OF write_cancel(1)] show ?case
    unfolding fst_conv by (elim disjE exE) (erule unchanged_rows_step [OF inv] write_rows_step [OF inv]; auto)+
qed (auto simp: run_inv_def run_rows_refl dest: create_workflow_run_rows)


lemma pending_valid_read:
  "pending_run p = (pid, to_workflow_run r) \<Longrightarrow> r \<in> set rows \<Longrightarrow> wr_project r = pid \<Longrightarrow>
   active_status (wr_status r) \<Longrightarrow> pending_valid rows p"
  by (auto simp: pending_valid_def run_is_def to_workflow_run_def intro!: bexI [of _ r])

lemma run_step_inv:
  assumes "run_step s s'" and "run_inv s"
  shows "run_inv s'"
proof -
  note rows = run_step_rows [OF assms]
  have old: "pending_valid (workflow_runs (fst s')) p" if "p \<in> set (snd s)" for p
    using that assms(2) pending_valid_step [OF rows] by (auto simp: run_inv_def list_all_iff)
  note dist = run_rows_distinct [OF rows]
  have "pending_valid (workflow_runs (fst s')) p" if "p \<in> set (snd s')" for p
    using assms(1) that old dist
  proof (induction rule: run_step.induct)
    case (read_start pid uid rid db run db' ps)
    then show ?case
      by (auto simp: get_workflow_run_Inr run_is_def dest!: find_SomeD
          intro: pending_valid_read simp: to_workflow_run_def)
  next
    case (write_start pid uid run started db run' db' xs ys)
    from update_workflow_run_cas_rows [OF write_start(1)] obtain r r' f where
        r: "r \<in> set (workflow_runs db)" "run_is pid (r_id run) r" "wr_revision r = r_revision run"
      and r': "find (run_is pid (r_id run)) (workflow_runs db') = Some r'" "run' = to_workflow_run r'"
      and eq: "workflow_runs db' = update_rows (\<lambda>r. run_is pid (r_id run) r \<and> wr_revision r = r_revision run) f
                 (workflow_runs db)"
      and f: "\<And>r. wr_id (f r) = wr_id r" "\<And>r. wr_status (f r) = RS_RUNNING"
      by (auto simp: get_workflow_run_Inr)
    have "f r \<in> set (workflow_runs db')" using r by (auto simp: eq update_rows_def)
    moreover note find_SomeD [OF r'(1)]
    moreover have "distinct (map wr_id (workflow_runs db'))"
      using write_start by simp
    ultimately have "r' = f r" using r(2) f(1) inj_onD [of wr_id "set (workflow_runs db')" r' "f r"]
      by (simp add: run_is_def distinct_map)
    then have "pending_valid (workflow_runs db') (PFinish pid uid run' started)"
      using \<open>f r \<in> _\<close> find_SomeD [OF r'(1)] f(2)
      by (intro pending_valid_read [of _ pid r']) (auto simp: r'(2) run_is_def active_status_def)
    with write_start show ?case by auto
  next
    case (read_active pid uid wid db runs db' ps)
    then show ?case
      by (auto simp: list_active_workflow_runs_def bindE_eq_Inr gets_def intro: pending_valid_read [OF pending_run.simps(3)]
          dest!: read_state [OF reads_only(2)])
  qed auto
  with dist show ?thesis by (auto simp: run_inv_def list_all_iff)
qed


lemma run_row_steps:
  assumes "run_step\<^sup>*\<^sup>* s s'" and "run_inv s" and "r \<in> set (workflow_runs (fst s))"
  shows "\<exists>r' \<in> set (workflow_runs (fst s')). run_row_step\<^sup>*\<^sup>* r r'"
  using assms
proof (induction arbitrary: r rule: converse_rtranclp_induct)
  case (step s s1)
  from run_rows_step_row [OF run_step_rows [OF step(1,4)] step(5)] obtain r1 where
    "r1 \<in> set (workflow_runs (fst s1))" "run_row_step r r1" by blast
  with step(3) [OF run_step_inv [OF step(1,4)]] show ?case
    by (blast intro: converse_rtranclp_into_rtranclp)
qed blast

lemma run_row_steps_rev:
  "run_row_step\<^sup>*\<^sup>* r r' \<Longrightarrow> wr_id r' = wr_id r \<and>
     (r' = r \<or> active_status (wr_status r) \<and> wr_revision r < wr_revision r')"
  by (induction rule: converse_rtranclp_induct) (auto simp: run_row_step_def)

text \<open>
  C26. However workers that execute runs, deletions that cancel them and the creation of runs
  interleave, and wherever a worker crashes between its read and its write, every run is still there
  and either is the same row or was active and has a larger revision. So a run that has succeeded,
  failed, been blocked or been cancelled never changes again: a cancelled run is not overwritten by
  the outcome of the worker that was executing it.
\<close>

theorem finished_run_is_final:
  assumes "run_step\<^sup>*\<^sup>* (db, []) (db', ps)" and "distinct (map wr_id (workflow_runs db))"
    and "r \<in> set (workflow_runs db)"
  shows "\<exists>r' \<in> set (workflow_runs db'). wr_id r' = wr_id r
           \<and> (r' = r \<or> active_status (wr_status r) \<and> wr_revision r < wr_revision r')"
proof -
  have "run_inv (db, [])" using assms(2) by (simp add: run_inv_def)
  from run_row_steps [OF assms(1) this, of r] assms(3) run_row_steps_rev show ?thesis by fastforce
qed


definition sample_run_row :: workflow_run_row where
  "sample_run_row = \<lparr>wr_id = ''r1'', wr_project = ''p1'', wr_workflow = ''w1'', wr_workflow_revision = 1,
     wr_schedule = None, wr_trigger = TRIG_MANUAL, wr_status = RS_QUEUED, wr_current_node = None,
     wr_error = None, wr_started = None, wr_finished = None, wr_revision = 1, wr_created = 0, wr_updated = 0\<rparr>"

definition sample_run_db :: db where
  "sample_run_db = sample_sched_db\<lparr>workflow_runs := [sample_run_row]\<rparr>"

definition sample_svc :: svc_env where
  "sample_svc = \<lparr>se_enqueue = True, se_revoke = True, se_cron = sample_cron, se_contract = sample_env\<rparr>"

lemmas sample_run_eval = sample_run_db_def sample_sched_db_def sample_db_def sample_run_row_def sample_svc_def
  require_project_run bindE_def gets_def ret_def

theorem finished_run_is_final_witness:
  "\<exists>db' ps. run_step\<^sup>*\<^sup>* (sample_run_db, []) (db', ps) \<and> map wr_status (workflow_runs db') = [RS_CANCELLED]
     \<and> distinct (map wr_id (workflow_runs sample_run_db)) \<and> sample_run_row \<in> set (workflow_runs sample_run_db)
     \<and> (\<exists>r' \<in> set (workflow_runs db'). wr_id r' = wr_id sample_run_row
           \<and> (r' = sample_run_row \<or> active_status (wr_status sample_run_row) \<and> wr_revision sample_run_row < wr_revision r'))"
proof -
  let ?run = "to_workflow_run sample_run_row"
  let ?start = "PStart ''p1'' 7 ?run" and ?cancel = "PCancel ''p1'' 7 ?run"
  obtain res db1 where c: "cancel_active_run sample_svc ''p1'' 7 (Aware 5) ''stop'' ?run sample_run_db = (res, db1)" by force
  obtain res2 db2 where w: "update_workflow_run_cas ''p1'' 7 (r_id ?run) (r_revision ?run) RS_RUNNING None None (Some 9) None db1
      = (res2, db2)" by force
  have db1: "map wr_status (workflow_runs db1) = [RS_CANCELLED]" "map wr_revision (workflow_runs db1) = [2]"
      "projects db1 = projects sample_run_db"
    using c by (auto simp: cancel_active_run_def cancel_workflow_run_cas_def catchE_def update_workflow_runs_run count_rows_def
        update_rows_def ensure_def get_workflow_run_def first_or_def svc_revoke_def modify_def
        to_workflow_run_def active_status_def sample_run_eval)
  then obtain e where e: "res2 = Inl e" and db2: "map wr_status (workflow_runs db2) = [RS_CANCELLED]"
    using w by (auto simp: update_workflow_run_cas_def update_workflow_runs_run count_rows_def update_rows_def ensure_def
        to_workflow_run_def map_eq_Cons_conv sample_run_eval)
  have "run_step (sample_run_db, []) (sample_run_db, [?start])"
    by (rule read_start [of _ _ "''r1''"]) (simp_all add: get_workflow_run_def first_or_def to_workflow_run_def
        active_status_def sample_run_eval)
  moreover have "run_step (sample_run_db, [?start]) (sample_run_db, [?cancel, ?start])"
    using read_active [of "''p1''" 7 "''w1''" sample_run_db "[?run]" sample_run_db "[?start]"]
    by (simp add: list_active_workflow_runs_def active_status_def sample_run_eval)
  moreover have "run_step (sample_run_db, [?cancel, ?start]) (db1, [?start])"
    using write_cancel [OF c, of "[]" "[?start]"] by simp
  moreover have "run_step (db1, [?start]) (db2, [])"
    using fail_start [OF w [unfolded e], of "[]" "[]"] by simp
  ultimately have run: "run_step\<^sup>*\<^sup>* (sample_run_db, []) (db2, [])"
    by (meson converse_rtranclp_into_rtranclp r_into_rtranclp)
  have d: "distinct (map wr_id (workflow_runs sample_run_db))" "sample_run_row \<in> set (workflow_runs sample_run_db)"
    by (simp_all add: sample_run_db_def)
  from finished_run_is_final [OF run d] run d db2 show ?thesis
    by (intro exI [of _ db2] exI [of _ "[] :: run_pending list"] conjI)
qed

section \<open>The outcome of one execution\<close>

lemma update_workflow_run_cas_found:
  assumes "distinct (map wr_id (workflow_runs db))" "r \<in> set (workflow_runs db)" "run_is pid rid r"
    "wr_revision r = v" "require_project pid uid db = (Inr p, db)"
    and r'_def: "r' = r\<lparr>wr_status := st, wr_current_node := cur, wr_error := err, wr_started := sta,
                wr_finished := fin, wr_revision := v + 1, wr_updated := db_clock db 0\<rparr>"
  shows "update_workflow_run_cas pid uid rid v st cur err sta fin db =
    (Inr (to_workflow_run r'), db\<lparr>db_clock := \<lambda>n. db_clock db (Suc n),
       workflow_runs := map (\<lambda>x. if wr_id x = rid then r' else x) (workflow_runs db)\<rparr>)"
proof -
  have only: "x = r" if "x \<in> set (workflow_runs db)" "wr_id x = rid" for x
    using that assms(1-3) inj_onD [of wr_id "set (workflow_runs db)" x r] by (simp add: distinct_map run_is_def)
  have rows: "update_rows (\<lambda>r. wr_id r = rid \<and> wr_project r = pid \<and> wr_revision r = v)
      (\<lambda>r. r\<lparr>wr_status := st, wr_current_node := cur, wr_error := err, wr_started := sta,
                wr_finished := fin, wr_revision := v + 1, wr_updated := db_clock db 0\<rparr>) (workflow_runs db)
      = map (\<lambda>x. if wr_id x = rid then r' else x) (workflow_runs db)"
    unfolding update_rows_def
  proof (rule map_cong [OF refl])
    fix x assume "x \<in> set (workflow_runs db)"
    with only [of x] assms(3,4) show "(if wr_id x = rid \<and> wr_project x = pid \<and> wr_revision x = v
        then x\<lparr>wr_status := st, wr_current_node := cur, wr_error := err, wr_started := sta,
                wr_finished := fin, wr_revision := v + 1, wr_updated := db_clock db 0\<rparr> else x)
        = (if wr_id x = rid then r' else x)"
      by (cases "wr_id x = rid") (simp_all add: r'_def run_is_def)
  qed
  have count: "count_rows (\<lambda>r. wr_id r = rid \<and> wr_project r = pid \<and> wr_revision r = v) (workflow_runs db) = 1"
  proof -
    have "filter (\<lambda>r. wr_id r = rid \<and> wr_project r = pid \<and> wr_revision r = v) (workflow_runs db)
        = filter (\<lambda>x. x = r) (workflow_runs db)"
      by (rule filter_cong) (use only assms(3,4) in \<open>auto simp: run_is_def\<close>)
    also have "length \<dots> = 1"
      using assms(1,2) by (simp add: distinct_map distinct_length_filter Int_absorb2 card_1_singleton_iff)
    finally show ?thesis by (simp add: count_rows_def)
  qed
  have "r \<in> set rows \<Longrightarrow> find (run_is pid rid) (map (\<lambda>x. if wr_id x = rid then r' else x) rows) = Some r'" for rows
    by (induction rows) (use assms(3) in \<open>auto simp: run_is_def r'_def\<close>)
  from this [OF assms(2)] show ?thesis using assms(5)
    by (auto simp: update_workflow_run_cas_def bindE_def update_workflow_runs_run count rows ensure_def require_project_run
        get_workflow_run_Inr split: option.splits)
qed


lemma execute_run_graph_final:
  "execute_run_graph pid rid w runner = Inr st \<Longrightarrow> st_status st \<in> {RS_SUCCEEDED, RS_FAILED, RS_BLOCKED}"
  by (auto simp: execute_run_graph_def split: prod.splits dest!: execute_dependencies)

text \<open>The first part of an execution.\<close>

lemma execute_run_start_outcome:
  assumes "execute_run_start pid uid rid db = (res, db')" and "distinct (map wr_id (workflow_runs db))"
  obtains (raised) e where "res = Inl e" "workflow_runs db' = workflow_runs db"
  | (finished) r where "r \<in> set (workflow_runs db)" "run_is pid rid r" "\<not> active_status (wr_status r)"
      "res = Inr (Inl (wr_status r))" "db' = db"
  | (started) r r' w t u p where "r \<in> set (workflow_runs db)" "run_is pid rid r" "active_status (wr_status r)"
      "res = Inr (Inr (to_workflow_run r', w, t))"
      "r' = r\<lparr>wr_status := RS_RUNNING, wr_current_node := None, wr_error := None, wr_started := Some t,
              wr_finished := None, wr_revision := wr_revision r + 1, wr_updated := u\<rparr>"
      "workflow_runs db' = map (\<lambda>x. if wr_id x = rid then r' else x) (workflow_runs db)"
      "require_project pid uid db' = (Inr p, db')"
proof -
  obtain g where g: "get_workflow_run pid uid rid db = (g, db)" by (metis reads_only(9) read_state surj_pair)
  show ?thesis
  proof (cases g)
    case (Inl e)
    then show ?thesis using raised assms(1) g by (auto simp: execute_run_start_def bindE_def)
  next
    case (Inr run)
    then obtain p r where p: "require_project pid uid db = (Inr p, db)" and f: "find (run_is pid rid) (workflow_runs db) = Some r"
      and run: "run = to_workflow_run r" using g by (auto simp: get_workflow_run_Inr)
    note r = find_SomeD [OF f]
    show ?thesis
    proof (cases "active_status (wr_status r)")
      case False
      then show ?thesis using finished [of r] r assms(1) g Inr run
        by (simp add: execute_run_start_def bindE_def ret_def to_workflow_run_def)
    next
      case True
      obtain w where w: "get_workflow pid uid (wr_workflow r) db = (w, db)" by (metis reads_only(8) read_state surj_pair)
      show ?thesis
      proof (cases w)
        case (Inl e)
        then have "res = Inl e \<and> db' = db" using assms(1) g \<open>g = Inr run\<close> run w True
          by (simp add: execute_run_start_def bindE_def to_workflow_run_def)
        then show ?thesis using raised by blast
      next
        case wf: (Inr wf)
        let ?db = "db\<lparr>db_clock := \<lambda>n. db_clock db (Suc n)\<rparr>"
        let ?r = "r\<lparr>wr_status := RS_RUNNING, wr_current_node := None, wr_error := None, wr_started := Some (db_clock db 0),
              wr_finished := None, wr_revision := wr_revision r + 1, wr_updated := db_clock ?db 0\<rparr>"
        have "require_project pid uid ?db = (Inr p, ?db)" using p by (simp add: require_project_run)
        with assms(2) r have "update_workflow_run_cas pid uid rid (wr_revision r) RS_RUNNING None None (Some (db_clock db 0)) None ?db
          = (Inr (to_workflow_run ?r), ?db\<lparr>db_clock := \<lambda>n. db_clock ?db (Suc n),
              workflow_runs := map (\<lambda>x. if wr_id x = rid then ?r else x) (workflow_runs ?db)\<rparr>)"
          by (intro update_workflow_run_cas_found [where p = p and r = r]) simp_all
        then have "res = Inr (Inr (to_workflow_run ?r, wf, db_clock db 0))"
          "db' = ?db\<lparr>db_clock := \<lambda>n. db_clock ?db (Suc n),
              workflow_runs := map (\<lambda>x. if wr_id x = rid then ?r else x) (workflow_runs ?db)\<rparr>"
          using assms(1) g \<open>g = Inr run\<close> run w wf True
          by (simp_all add: execute_run_start_def bindE_def to_workflow_run_def tick_def ret_def)
        moreover from this p have "require_project pid uid db' = (Inr p, db')" by (simp add: require_project_run)
        ultimately show ?thesis using started [OF conjunct1 [OF r] conjunct2 [OF r] True] by simp
      qed
    qed
  qed
qed


text \<open>
  C27. What \<open>execute_run\<close> does to the runs. A run that is not active is answered with its status and
  nothing changes. An active run whose graph can be executed ends with the status, the current node
  and the error of the execution, which is a final status, with both times set and two revisions
  later, and no other run changes. When an exception leaves \<open>execute_run\<close>, either no run has changed
  or the execution of the graph raised it, and then the run is left in status \<open>running\<close>.
\<close>

theorem execute_run_outcome:
  assumes "execute_run runner pid uid rid db = (res, db')" and "distinct (map wr_id (workflow_runs db))"
  shows "(\<exists>r \<in> set (workflow_runs db). run_is pid rid r \<and> \<not> active_status (wr_status r)
            \<and> res = Inr (wr_status r) \<and> db' = db)
    \<or> (\<exists>r \<in> set (workflow_runs db). \<exists>w st t t' u. run_is pid rid r \<and> active_status (wr_status r)
            \<and> execute_run_graph pid rid w runner = Inr st \<and> res = Inr (st_status st)
            \<and> st_status st \<in> {RS_SUCCEEDED, RS_FAILED, RS_BLOCKED}
            \<and> workflow_runs db' = map (\<lambda>x. if wr_id x = rid then
                 r\<lparr>wr_status := st_status st, wr_current_node := st_current st, wr_error := st_error st,
                   wr_started := Some t, wr_finished := Some t', wr_revision := wr_revision r + 2,
                   wr_updated := u\<rparr> else x) (workflow_runs db))
    \<or> (\<exists>e. res = Inl e \<and> (workflow_runs db' = workflow_runs db
         \<or> (\<exists>r \<in> set (workflow_runs db). \<exists>w t u. run_is pid rid r \<and> active_status (wr_status r)
              \<and> execute_run_graph pid rid w runner = Inl e
              \<and> workflow_runs db' = map (\<lambda>x. if wr_id x = rid then
                   r\<lparr>wr_status := RS_RUNNING, wr_current_node := None, wr_error := None,
                     wr_started := Some t, wr_finished := None, wr_revision := wr_revision r + 1,
                     wr_updated := u\<rparr> else x) (workflow_runs db))))"
proof -
  obtain res1 db1 where start: "execute_run_start pid uid rid db = (res1, db1)" by force
  from start assms(2) show ?thesis
  proof (cases rule: execute_run_start_outcome)
    case (raised e)
    with assms(1) start have "res = Inl e \<and> workflow_runs db' = workflow_runs db"
      by (simp add: execute_run_def bindE_def)
    then show ?thesis by blast
  next
    case (finished r)
    with assms(1) start show ?thesis by (auto simp: execute_run_def bindE_def ret_def)
  next
    case (started r r' w t u p)
    show ?thesis
    proof (cases "execute_run_graph pid rid w runner")
      case (Inl e)
      with assms(1) start started have "res = Inl e" "db' = db1"
        by (simp_all add: execute_run_def bindE_def liftR_def)
      with Inl started show ?thesis by blast
    next
      case (Inr st)
      let ?db = "db1\<lparr>db_clock := \<lambda>n. db_clock db1 (Suc n)\<rparr>"
      let ?r = "r'\<lparr>wr_status := st_status st, wr_current_node := st_current st, wr_error := st_error st, wr_started := Some t,
              wr_finished := Some (db_clock db1 0), wr_revision := wr_revision r' + 1, wr_updated := db_clock ?db 0\<rparr>"
      have ids: "map wr_id (workflow_runs db1) = map wr_id (workflow_runs db)"
        using started(2) by (simp add: started(5,6) run_is_def comp_def if_distrib cong: if_cong)
      have "r' \<in> set (workflow_runs db1)" "run_is pid rid r'"
        using started(1,2) by (auto simp: started(5,6) run_is_def image_iff)
      with assms(2) ids started(7) have u: "update_workflow_run_cas pid uid rid (wr_revision r') (st_status st) (st_current st) (st_error st)
          (Some t) (Some (db_clock db1 0)) ?db
        = (Inr (to_workflow_run ?r), ?db\<lparr>db_clock := \<lambda>n. db_clock ?db (Suc n),
            workflow_runs := map (\<lambda>x. if wr_id x = rid then ?r else x) (workflow_runs ?db)\<rparr>)"
        by (intro update_workflow_run_cas_found [where p = p and r = r']) (simp_all add: require_project_run)
      have res: "res = Inr (st_status st)" and d: "workflow_runs db' = map (\<lambda>x. if wr_id x = rid then ?r else x) (workflow_runs db1)"
        using assms(1) start started(4) Inr u
        by (auto simp: execute_run_def execute_run_finish_def bindE_def liftR_def tick_def ret_def to_workflow_run_def)
      note d
      also have "map (\<lambda>x. if wr_id x = rid then ?r else x) (workflow_runs db1)
          = map (\<lambda>x. if wr_id x = rid then
                 r\<lparr>wr_status := st_status st, wr_current_node := st_current st, wr_error := st_error st,
                   wr_started := Some t, wr_finished := Some (db_clock db1 0), wr_revision := wr_revision r + 2,
                   wr_updated := db_clock ?db 0\<rparr> else x) (workflow_runs db)"
        using started(2) by (simp add: started(5,6) run_is_def)
      finally have rows: "workflow_runs db' = \<dots>" .
      show ?thesis
        by (rule disjI2, rule disjI1, rule bexI [OF _ started(1)], rule exI [of _ w], rule exI [of _ st], intro exI conjI)
           (rule started res rows Inr execute_run_graph_final [OF Inr])+
    qed
  qed
qed


theorem execute_run_outcome_witness:
  "\<exists>res db'. execute_run unwired_expert_node_runner ''p1'' 7 ''r1'' sample_run_db = (res, db')
     \<and> distinct (map wr_id (workflow_runs sample_run_db)) \<and> active_status (wr_status sample_run_row)
     \<and> (\<forall>s. res = Inr s \<longrightarrow> s \<in> {RS_SUCCEEDED, RS_FAILED, RS_BLOCKED})"
proof -
  obtain res db' where x: "execute_run unwired_expert_node_runner ''p1'' 7 ''r1'' sample_run_db = (res, db')" by force
  have d: "distinct (map wr_id (workflow_runs sample_run_db))" by (simp add: sample_run_db_def)
  have "\<forall>s. res = Inr s \<longrightarrow> s \<in> {RS_SUCCEEDED, RS_FAILED, RS_BLOCKED}"
    using execute_run_outcome [OF x d]
    by (auto simp: sample_run_db_def) (auto simp: sample_run_row_def active_status_def)
  with x d show ?thesis by (auto simp: sample_run_row_def active_status_def)
qed

end
