(* ===== verification/Workflow_Deletion.thy ===== *)
theory Workflow_Deletion
  imports Run_Lifecycle
begin

text \<open>
  Deleting a workflow: its active runs are cancelled and their execution revoked, tasks let go of its
  schedules, and then the workflow goes with its schedules, runs and trigger records.
\<close>

lemma cancel_active_run_keeps [frame_intros]:
  "(\<And>db c x. f (db\<lparr>db_clock := c, workflow_runs := x\<rparr>) = f db) \<Longrightarrow> (\<And>db x. f (db\<lparr>db_revoked := x\<rparr>) = f db) \<Longrightarrow>
   keeps f (cancel_active_run env pid uid fin reason run)"
  unfolding cancel_active_run_def cancel_workflow_run_cas_def svc_revoke_def
  by (intro frame_intros) (auto simp: keeps_def update_workflow_runs_run raise_def)

lemma cancel_active_run_revokes:
  assumes "cancel_active_run env pid uid fin reason run db = (Inr (), db')"
  shows "db_revoked db' = db_revoked db @ (if se_revoke env then [(pid, uid, r_id run)] else [])"
proof -
  have k: "keeps db_revoked (cancel_workflow_run_cas pid uid (r_id run) (r_revision run) fin (Some reason))"
    unfolding cancel_workflow_run_cas_def
    by (intro frame_intros) (simp add: keeps_def update_workflow_runs_run)
  show ?thesis using assms
    by (auto simp: cancel_active_run_def bindE_eq_Inr catch_Inr raise_def svc_revoke_def modify_def ret_def
        dest!: keepsD [OF k] split: if_splits)
qed

lemma cancel_all_revokes:
  assumes "forE runs (cancel_active_run env pid uid fin reason) db = (Inr (), db')"
  shows "db_revoked db' = db_revoked db @ (if se_revoke env then map (\<lambda>r. (pid, uid, r_id r)) runs else [])"
  using assms
  by (induction runs arbitrary: db) (auto simp: ret_def bindE_eq_Inr dest!: cancel_active_run_revokes)

lemma delete_workflows_Inr:
  "delete_workflows P db = (Inr n, db') \<longleftrightarrow>
     (let gone = (\<lambda>r. (wf_project r, wf_id r)) ` set (filter P (workflows db));
          sgone = (\<lambda>s. (sc_project s, Some (sc_id s))) ` {s \<in> set (schedules db). (sc_project s, sc_workflow s) \<in> gone} in
      (\<forall>t \<in> set (tasks db). (tk_project t, tk_schedule t) \<notin> sgone)
      \<and> n = length (filter P (workflows db))
      \<and> db' = db\<lparr>workflows := filter (\<lambda>r. \<not> P r) (workflows db),
         schedules := filter (\<lambda>s. (sc_project s, sc_workflow s) \<notin> gone) (schedules db),
         workflow_runs := filter (\<lambda>r. (wr_project r, wr_workflow r) \<notin> gone) (workflow_runs db),
         schedule_runs := filter (\<lambda>r. (sr_project r, Some (sr_schedule r)) \<notin> sgone) (schedule_runs db)\<rparr>)"
  by (auto simp: delete_workflows_def bindE_eq_Inr gets_def Let_def constraints_Inr modify_def ret_def)

lemma delete_workflows_run:
  assumes "delete_workflows (\<lambda>r. wf_id r = wid \<and> wf_project r = pid) db = (Inr n, db')" and "n = 1"
  shows "workflows db' = filter (\<lambda>r. \<not> (wf_id r = wid \<and> wf_project r = pid)) (workflows db)
    \<and> schedules db' = filter (\<lambda>s. \<not> (sc_workflow s = wid \<and> sc_project s = pid)) (schedules db)
    \<and> workflow_runs db' = filter (\<lambda>r. \<not> (wr_workflow r = wid \<and> wr_project r = pid)) (workflow_runs db)
    \<and> tasks db' = tasks db \<and> db_revoked db' = db_revoked db
    \<and> (\<forall>t \<in> set (tasks db). \<forall>s \<in> set (schedules db). sc_workflow s = wid \<and> sc_project s = pid
          \<longrightarrow> \<not> (tk_project t = pid \<and> tk_schedule t = Some (sc_id s)))"
proof -
  have gone: "(\<lambda>r. (wf_project r, wf_id r)) ` set (filter (\<lambda>r. wf_id r = wid \<and> wf_project r = pid) (workflows db)) = {(pid, wid)}"
  proof -
    have "filter (\<lambda>r. wf_id r = wid \<and> wf_project r = pid) (workflows db) \<noteq> []"
      using assms by (auto simp: delete_workflows_Inr Let_def)
    then obtain x where "x \<in> set (workflows db)" "wf_id x = wid" "wf_project x = pid"
      by (auto simp: filter_empty_conv)
    then show ?thesis by force
  qed
  show ?thesis using assms(1) unfolding delete_workflows_Inr gone Let_def by (auto intro!: filter_cong)
qed


lemma require_workflow_keeps [frame_intros]: "keeps f (require_workflow pid uid wid)"
  unfolding require_workflow_def by (intro frame_intros; auto split: exc.splits intro: frame_intros)

lemma wf_not_found_raises:
  "\<nexists>x t. (case e of WorkshopWorkflowNotFoundError _ \<Rightarrow> raise (WSE m) | _ \<Rightarrow> raise e) s = (Inr x, t)"
  by (auto simp: raise_def split: exc.splits)




end
