(* ===== verification/Acceptance.thy ===== *)
theory Acceptance
  imports Task_Lifecycle
begin

text \<open>
  The acceptance of a reviewed task (\<open>weak_accept\<close>): nothing happens unless the submission passes,
  and then the task is done and the submitted artifacts are stored, in one transaction.
\<close>

section \<open>Storing artifacts\<close>

text \<open>The row that holds a submission of a task.\<close>

definition stored :: "string \<Rightarrow> artifact_submission \<Rightarrow> artifact_row list \<Rightarrow> bool" where
  "stored tid a rows \<longleftrightarrow>
     (\<exists>r \<in> set rows. ar_task r = Some tid \<and> ar_name r = strip (as_name a) \<and> ar_storage r = as_storage a
        \<and> artifact_row_fields a (ar_id r) = Inr (ar_key r, ar_size r, ar_metadata r))"

lemma forE_append: "forE (xs @ ys) f = bindE (forE xs f) (\<lambda>_. forE ys f)"
  by (induction xs) (simp_all add: bindE_assoc bindE_basic)

lemma insert_artifacts_append:
  "insert_artifacts pid tid (xs @ ys) = bindE (insert_artifacts pid tid xs) (\<lambda>_. insert_artifacts pid tid ys)"
  by (simp add: insert_artifacts_def forE_append)

lemma update_artifacts_run:
  "update_artifacts P f db =
     (Inr (count_rows P (artifacts db)),
      db\<lparr>db_clock := (\<lambda>n. db_clock db (Suc n)),
         artifacts := update_rows P (\<lambda>r. f r\<lparr>ar_updated := db_clock db 0\<rparr>) (artifacts db)\<rparr>)"
  by (simp add: update_artifacts_def bindE_def tick_def gets_def modify_def ret_def)

text \<open>One submission: the row of its name is replaced, or a new one is added.\<close>

lemma insert_artifact_step:
  assumes "insert_artifacts pid tid [a] db = (Inr (), db')" and "distinct (map ar_id (artifacts db))"
  obtains (replaced) r r' where "r \<in> set (artifacts db)" "ar_task r = Some tid" "ar_name r = strip (as_name a)"
      "artifacts db' = map (\<lambda>x. if ar_id x = ar_id r then r' else x) (artifacts db)"
      "ar_id r' = ar_id r" "stored tid a [r']"
  | (added) r' where "ar_id r' \<notin> ar_id ` set (artifacts db)" "artifacts db' = artifacts db @ [r']" "stored tid a [r']"
proof (cases "find (\<lambda>r. ar_task r = Some tid \<and> ar_name r = strip (as_name a)) (artifacts db)")
  case (Some r)
  note r = find_SomeD [OF Some]
  have only: "x = r" if "x \<in> set (artifacts db)" "ar_id x = ar_id r" for x
    using that assms(2) r inj_onD [of ar_id "set (artifacts db)" x r] by (simp add: distinct_map)
  from assms(1) Some obtain key sz meta where f: "artifact_row_fields a (ar_id r) = Inr (key, sz, meta)"
    and db': "artifacts db' = update_rows (\<lambda>x. ar_id x = ar_id r) (\<lambda>x. x\<lparr>ar_storage := as_storage a, ar_key := key,
        ar_size := sz, ar_metadata := meta, ar_updated := db_clock db 0\<rparr>) (artifacts db)"
    by (auto simp: insert_artifacts_def Let_def bindE_eq_Inr gets_def liftR_def ret_def update_artifacts_run)
  let ?r = "r\<lparr>ar_storage := as_storage a, ar_key := key,
        ar_size := sz, ar_metadata := meta, ar_updated := db_clock db 0\<rparr>"
  have "artifacts db' = map (\<lambda>x. if ar_id x = ar_id r then ?r else x) (artifacts db)"
    unfolding db' update_rows_def by (rule map_cong [OF refl]) (use only in auto)
  then show ?thesis using r f by (intro replaced [of r ?r]) (auto simp: stored_def)
next
  case None
  have h: "\<nexists>x t. (case e of IntegrityError ls \<Rightarrow>
        if constraint_name ls = Some ''uk_workshop_artifacts_task_name'' \<or> is_unique_violation ls
        then raise (WorkshopArtifactConflictError n) else raise e | _ \<Rightarrow> raise e) s = (Inr x, t)" for e n s
    by (auto simp: raise_def split: exc.splits)
  from assms(1) None have "\<exists>r'. ar_id r' \<notin> ar_id ` set (artifacts db) \<and> artifacts db' = artifacts db @ [r'] \<and> stored tid a [r']"
    by (auto simp: insert_artifacts_def Let_def bindE_eq_Inr gets_def liftR_def ret_def new_id_def uuid_hex_def
        catch_Inr [OF h] insert_artifact_def tick_def constraints_Inr modify_def stored_def)
  then show ?thesis using added by blast
qed


lemma insert_artifact_other:
  assumes "insert_artifacts pid tid [a] db = (Inr (), db')" and "distinct (map ar_id (artifacts db))"
  shows "distinct (map ar_id (artifacts db'))" and "stored tid a (artifacts db')"
    and "stored tid b (artifacts db) \<Longrightarrow> strip (as_name b) \<noteq> strip (as_name a) \<Longrightarrow> stored tid b (artifacts db')"
proof -
  show "distinct (map ar_id (artifacts db'))" using assms
  proof (cases rule: insert_artifact_step)
    case (replaced r r')
    then have "map ar_id (artifacts db') = map ar_id (artifacts db)" by simp
    with assms(2) show ?thesis by simp
  qed (use assms(2) in auto)
  show "stored tid a (artifacts db')" using assms
    by (cases rule: insert_artifact_step) (auto simp: stored_def)
  show "stored tid b (artifacts db')" if b: "stored tid b (artifacts db)" "strip (as_name b) \<noteq> strip (as_name a)"
    using assms
  proof (cases rule: insert_artifact_step)
    case (replaced r r')
    from b(1) obtain x where x: "x \<in> set (artifacts db)" "stored tid b [x]" by (auto simp: stored_def)
    have "ar_id x \<noteq> ar_id r"
    proof
      assume "ar_id x = ar_id r"
      then have "x = r" using x(1) replaced(1) assms(2) inj_onD [of ar_id "set (artifacts db)" x r] by (simp add: distinct_map)
      with x(2) replaced(3) b(2) show False by (auto simp: stored_def)
    qed
    with x(1) have "x \<in> set (artifacts db')" by (force simp: replaced(4))
    with x(2) show ?thesis by (auto simp: stored_def)
  qed (use b in \<open>auto simp: stored_def\<close>)
qed

text \<open>After a sequence of submissions the last one of each name is stored.\<close>

lemma insert_artifacts_stores:
  assumes "insert_artifacts pid tid arts db = (Inr (), db')" and "distinct (map ar_id (artifacts db))"
  shows "distinct (map ar_id (artifacts db')) \<and>
    (\<forall>n a. find (\<lambda>a. strip (as_name a) = n) (rev arts) = Some a \<longrightarrow> stored tid a (artifacts db'))"
  using assms
proof (induction arts arbitrary: db' rule: rev_induct)
  case Nil
  then show ?case by (simp add: insert_artifacts_def ret_def)
next
  case (snoc a arts)
  then obtain db1 where 1: "insert_artifacts pid tid arts db = (Inr (), db1)"
    and 2: "insert_artifacts pid tid [a] db1 = (Inr (), db')"
    by (auto simp: insert_artifacts_append bindE_eq_Inr)
  note IH = snoc.IH [OF 1 snoc.prems(2)]
  note step = insert_artifact_other [OF 2 conjunct1 [OF IH]]
  have "stored tid b (artifacts db')" if "find (\<lambda>a. strip (as_name a) = n) (rev (arts @ [a])) = Some b" for n b
  proof (cases "strip (as_name a) = n")
    case False
    with that have "find (\<lambda>a. strip (as_name a) = n) (rev arts) = Some b" by simp
    with IH find_SomeD [OF this] False show ?thesis by (intro step(3)) auto
  qed (use that step(2) in simp)
  with step(1) show ?case by blast
qed


section \<open>The handler\<close>

lemma require_task_cong:
  assumes "tasks db' = tasks db" "projects db' = projects db" "require_task pid uid tid db = (r, db)"
  shows "require_task pid uid tid db' = (r, db')"
  using assms by (auto simp: require_task_def get_task_def bindE_def require_project_run gets_def first_or_run ret_def
      liftR_def split: option.splits sum.splits)

lemma complete_weak_accept_run:
  assumes "orch_get pid uid tid db = (Inr task, db)" "t_status task = TS_REVIEWING"
    and "distinct (map tk_id (tasks db))" "distinct (map ar_id (artifacts db))"
    and "complete_weak_accept pid uid tid (t_revision task) arts db = (res, db')"
  shows "(\<exists>e. res = Inl e) \<and> tasks db' = tasks db \<and> artifacts db' = artifacts db
    \<or> (\<exists>t. res = Inr t \<and> orch_get pid uid tid db' = (Inr t, db')
        \<and> t = task\<lparr>t_status := TS_DONE, t_revision := t_revision task + 1\<rparr>
        \<and> (\<forall>n a. find (\<lambda>a. strip (as_name a) = n) (rev arts) = Some a \<longrightarrow> stored tid a (artifacts db')))"
proof -
  obtain p0 r0 where "find (\<lambda>r. pr_id r = pid \<and> pr_user r = uid) (projects db) = Some p0"
    and "find (\<lambda>r. tk_id r = tid \<and> tk_project r = pid) (tasks db) = Some r0" "to_task r0 = Inr task"
    using assms(1) by (rule orch_get_row)
  then obtain p where p: "require_project pid uid db = (Inr p, db)" by (simp add: require_project_run)
  let ?t = "task\<lparr>t_status := TS_DONE, t_revision := t_revision task + 1\<rparr>"
  let ?db = "db\<lparr>db_clock := (\<lambda>n. db_clock db (Suc n)), tasks := map (cas_row pid tid (t_revision task)
      (t_status task) (\<lambda>r. r\<lparr>tk_status := TS_DONE\<rparr>) (db_clock db 0)) (tasks db)\<rparr>"
  have u: "update_task_status_cas pid uid tid (t_revision task) TS_REVIEWING TS_DONE db = (Inr ?t, ?db)"
    using task_cas_status [OF assms(1,3), of TS_DONE] assms(2) by (simp add: update_task_cas_eqs)
  obtain r d where i: "insert_artifacts pid tid arts ?db = (r, d)" by force
  show ?thesis
  proof (cases r)
    case (Inl e)
    with assms(5) p u i have "res = Inl e" "tasks db' = tasks db" "artifacts db' = artifacts db"
      by (auto simp: complete_weak_accept_def bindE_def in_transaction_def)
    then show ?thesis by blast
  next
    case (Inr x)
    with assms(5) p u i have res: "res = Inr ?t" "db' = d"
      by (auto simp: complete_weak_accept_def bindE_def in_transaction_def ret_def)
    have "tasks d = tasks ?db" "projects d = projects ?db"
      using keepsD [OF insert_artifacts_keeps(1) i] keepsD [OF insert_artifacts_keeps(2) i] .
    moreover have "require_task pid uid tid ?db = (Inr ?t, ?db)"
      using task_cas_Inr [OF u [unfolded update_task_cas_eqs]] by blast
    ultimately have "require_task pid uid tid d = (Inr ?t, d)" by (rule require_task_cong)
    then have "orch_get pid uid tid d = (Inr ?t, d)" by (simp add: orch_get_def catchE_def)
    moreover have "\<forall>n a. find (\<lambda>a. strip (as_name a) = n) (rev arts) = Some a \<longrightarrow> stored tid a (artifacts d)"
      using insert_artifacts_stores [of pid tid arts ?db d] i Inr assms(4) by simp
    ultimately show ?thesis using res by blast
  qed
qed

text \<open>
  C35. \<open>weak_accept\<close> is all or nothing. If it raises, no task and no artifact changes; if the
  submission does not pass, the database is as before; if it passes, the task was in review and is
  now done with the next revision, and for every submitted name the last submission of that name is
  stored as the task's artifact.
\<close>

theorem weak_accept_all_or_nothing:
  assumes "orch_weak_accept env pid uid tid covered arts db = (res, db')"
    and "distinct (map tk_id (tasks db))" "distinct (map ar_id (artifacts db))"
  shows "(\<exists>e. res = Inl e) \<and> tasks db' = tasks db \<and> artifacts db' = artifacts db
    \<or> (\<exists>r. res = Inr r \<and> \<not> wa_passed r \<and> db' = db)
    \<or> (\<exists>r task t. res = Inr r \<and> wa_passed r \<and> orch_get pid uid tid db = (Inr task, db)
        \<and> t_status task = TS_REVIEWING \<and> orch_get pid uid tid db' = (Inr t, db')
        \<and> t = task\<lparr>t_status := TS_DONE, t_revision := t_revision task + 1\<rparr>
        \<and> (\<forall>n a. find (\<lambda>a. strip (as_name a) = n) (rev arts) = Some a \<longrightarrow> stored tid a (artifacts db')))"
proof -
  obtain g where g: "orch_get pid uid tid db = (g, db)" by (metis orch_get_state prod.collapse)
  obtain us where us: "list_capability_uses pid uid tid db = (us, db)" by (metis reads_only(7) read_state surj_pair)
  show ?thesis
  proof (cases "\<exists>task used. g = Inr task \<and> t_status task = TS_REVIEWING \<and> us = Inr used
      \<and> wa_passed (evaluate_weak_accept env (t_goals task) covered (t_required task) arts (t_ext_auth task) used)")
    case True
    then obtain task used where t: "g = Inr task" "t_status task = TS_REVIEWING" "us = Inr used"
      "wa_passed (evaluate_weak_accept env (t_goals task) covered (t_required task) arts (t_ext_auth task) used)" by blast
    obtain c d where c: "complete_weak_accept pid uid tid (t_revision task) arts db = (c, d)" by force
    have d: "db' = d" and r: "case c of Inl _ \<Rightarrow> \<exists>e. res = Inl e
        | Inr _ \<Rightarrow> res = Inr (evaluate_weak_accept env (t_goals task) covered (t_required task) arts (t_ext_auth task) used)"
      using assms(1) g us t c
      by (auto simp: orch_weak_accept_def bindE_def ensure_def Let_def or_conflict_def catchE_def raise_def ret_def
          split: sum.splits exc.splits)
    from complete_weak_accept_run [OF _ t(2) assms(2,3) c] g t(1)
    show ?thesis using r d t by auto
  next
    case False
    with assms(1) g us show ?thesis
      by (cases g; cases us) (auto simp: orch_weak_accept_def bindE_def ensure_def Let_def ret_def split: if_splits)
  qed
qed


definition sample_review_db :: db where
  "sample_review_db = sample_db\<lparr>tasks := [sample_task\<lparr>tk_status := TS_REVIEWING\<rparr>]\<rparr>"

definition sample_note :: artifact_submission where
  "sample_note = \<lparr>as_name = ''note'', as_storage = ST_DB, as_content = Some ''x'', as_key = None, as_size = None\<rparr>"

theorem weak_accept_all_or_nothing_witness:
  "\<exists>r db'. orch_weak_accept sample_env ''p1'' 7 ''t1'' {} [sample_note] sample_review_db = (Inr r, db')
     \<and> wa_passed r \<and> stored ''t1'' sample_note (artifacts db')"
proof -
  have "\<exists>r db'. orch_weak_accept sample_env ''p1'' 7 ''t1'' {} [sample_note] sample_review_db = (Inr r, db') \<and> wa_passed r"
    by (simp add: orch_weak_accept_def orch_get_def require_task_def get_task_def require_project_run bindE_def gets_def
      catchE_def first_or_run sample_review_db_def sample_db_def sample_task_def to_task_def
      parse_string_list_def parse_capabilities_def liftR_def ret_def ensure_def list_capability_uses_def
      assert_task_in_project_def evaluate_weak_accept_def Let_def or_conflict_def complete_weak_accept_def in_transaction_def
      update_task_cas_eqs task_cas_def update_tasks_run count_rows_def update_rows_def task_at_def
      insert_artifacts_def sample_note_def artifact_row_fields_def strip_plain plain_char_def new_id_def uuid_hex_def
      insert_artifact_def tick_def constraints.simps has_project_def has_task_def modify_def nat_str.simps [of 0])
  then obtain r db' where x: "orch_weak_accept sample_env ''p1'' 7 ''t1'' {} [sample_note] sample_review_db = (Inr r, db')"
    "wa_passed r" by blast
  have d: "distinct (map tk_id (tasks sample_review_db))" "distinct (map ar_id (artifacts sample_review_db))"
    by (simp_all add: sample_review_db_def sample_db_def)
  from weak_accept_all_or_nothing [OF x(1) d] x(2) have "stored ''t1'' sample_note (artifacts db')" by auto
  with x show ?thesis by blast
qed

end
