(* ===== verification/Python_Numbers.thy ===== *)
theory Python_Numbers
  imports Prelude
begin

text \<open>
  The numbers of Python's standard library that the back end reads from text and JSON: \<open>int(x)\<close> and
  \<open>decimal.Decimal(text)\<close> with the default context (precision 28, rounding half to even). Digits are
  the ASCII digits. The limits on the exponent of a decimal are not modelled.
\<close>

section \<open>Integers\<close>

definition digit_value :: "char \<Rightarrow> nat option" where
  "digit_value c = (let n = (of_char c :: nat) in if 48 \<le> n \<and> n \<le> 57 then Some (n - 48) else None)"

text \<open>Digits with single underscores between them: the digits read so far, and whether the last
  character was one.\<close>

fun digit_run :: "nat list \<Rightarrow> bool \<Rightarrow> string \<Rightarrow> nat list option" where
  "digit_run ds after [] = (if after then Some ds else None)"
| "digit_run ds after (c # s) =
     (case digit_value c of
        Some d \<Rightarrow> digit_run (ds @ [d]) True s
      | None \<Rightarrow> if c = CHR ''_'' \<and> after then digit_run ds False s else None)"

definition digits_nat :: "nat list \<Rightarrow> nat" where
  "digits_nat ds = foldl (\<lambda>n d. 10 * n + d) 0 ds"

definition split_sign :: "string \<Rightarrow> bool \<times> string" where
  "split_sign s =
     (case s of c # r \<Rightarrow> if c = CHR ''-'' then (True, r) else if c = CHR ''+'' then (False, r) else (False, s)
      | [] \<Rightarrow> (False, []))"

definition signed :: "bool \<Rightarrow> nat \<Rightarrow> int" where
  "signed neg n = (if neg then - int n else int n)"

text \<open>\<open>int(s)\<close> of a \<open>str\<close>; more than 4300 digits are refused.\<close>

definition int_of_str :: "string \<Rightarrow> int option" where
  "int_of_str s =
     (let (neg, r) = split_sign (strip s) in
      case digit_run [] False r of
        None \<Rightarrow> None
      | Some ds \<Rightarrow> if 4300 < length ds then None else Some (signed neg (digits_nat ds)))"

text \<open>\<open>int(x)\<close> of a \<open>float\<close> given by its \<open>repr\<close>: the exact value is the double nearest to
  the decimal text; below \<open>2 ^ 53\<close> its integral part is the one of the text.\<close>

definition round53 :: "nat \<Rightarrow> nat" where
  "round53 n =
     (if n < 2 ^ 53 then n
      else let q = 2 ^ (length (takeWhile (\<lambda>k. 2 ^ (53 + k) \<le> n) [0..<1100]));
               d = n div q; r = n mod q
           in q * (d + (if q < 2 * r \<or> q = 2 * r \<and> odd d then 1 else 0)))"

definition split_at_char :: "char \<Rightarrow> string \<Rightarrow> string \<times> string option" where
  "split_at_char c s =
     (let a = takeWhile (\<lambda>x. x \<noteq> c) s in
      if length a < length s then (a, Some (drop (Suc (length a)) s)) else (s, None))"

definition float_trunc :: "string \<Rightarrow> int option" where
  "float_trunc t =
     (let (neg, r) = split_sign t; (m, e) = split_at_char (CHR ''e'') r; (ip, fp) = split_at_char (CHR ''.'') m;
          frac = (case fp of None \<Rightarrow> [] | Some f \<Rightarrow> f)
      in case digit_run [] False (ip @ frac) of
           None \<Rightarrow> None
         | Some ds \<Rightarrow>
             (case (case e of None \<Rightarrow> Some 0 | Some x \<Rightarrow> int_of_str x) of
                None \<Rightarrow> None
              | Some x \<Rightarrow>
                  let k = x - int (length frac); n = digits_nat ds
                  in Some (signed neg (round53 (if 0 \<le> k then n * 10 ^ nat k else n div 10 ^ nat (- k))))))"

text \<open>\<open>int(x)\<close> of a decoded JSON value.\<close>

fun py_int :: "json \<Rightarrow> int res" where
  "py_int (JInt i) = Inr i"
| "py_int (JBool b) = Inr (if b then 1 else 0)"
| "py_int (JStr s) =
     (case int_of_str s of
        Some i \<Rightarrow> Inr i
      | None \<Rightarrow> Inl (ValueError (''invalid literal for int() with base 10: '' @ repr_str s)))"
| "py_int (JFloat t) =
     (if t = ''nan'' then Inl (ValueError ''cannot convert float NaN to integer'')
      else if t = ''inf'' \<or> t = ''-inf'' then Inl (OverflowError ''cannot convert float infinity to integer'')
      else case float_trunc t of Some i \<Rightarrow> Inr i | None \<Rightarrow> Inl (ValueError t))"
| "py_int _ = Inl (TypeError ''int() argument must be a string, a bytes-like object or a real number'')"

section \<open>Decimals\<close>

text \<open>A finite decimal is \<open>dec_coeff * 10 ^ dec_exp\<close> with its sign.\<close>

datatype decimal = Finite (dec_neg: bool) (dec_coeff: nat) (dec_exp: int) | Infinite bool | NotANumber

definition lower_eq :: "string \<Rightarrow> string \<Rightarrow> bool" where
  "lower_eq s t \<longleftrightarrow> ascii_lower s = t"

text \<open>\<open>Decimal(text)\<close>, \<open>None\<close> standing for \<open>InvalidOperation\<close>. Underscores are removed and white
  space around the numeral is dropped; a signalling or payload NaN is a NaN.\<close>

definition all_digits :: "string \<Rightarrow> nat list option" where
  "all_digits s = (if list_all (\<lambda>c. digit_value c \<noteq> None) s then Some (map (\<lambda>c. the (digit_value c)) s) else None)"

definition decimal_exponent :: "string option \<Rightarrow> int option" where
  "decimal_exponent e =
     (case e of
        None \<Rightarrow> Some 0
      | Some x \<Rightarrow>
          (let (neg, r) = split_sign x in
           case all_digits r of
             None \<Rightarrow> None
           | Some ds \<Rightarrow> if ds = [] then None else Some (signed neg (digits_nat ds))))"

definition is_nan_text :: "string \<Rightarrow> bool" where
  "is_nan_text s \<longleftrightarrow>
     (let t = ascii_lower s; u = (if prefix ''snan'' t then drop 4 t else if prefix ''nan'' t then drop 3 t else ''x'')
      in all_digits u \<noteq> None)"

definition decimal_of_text :: "string \<Rightarrow> decimal option" where
  "decimal_of_text text =
     (let (neg, r) = split_sign (filter (\<lambda>c. c \<noteq> CHR ''_'') (strip text)) in
      if lower_eq r ''inf'' \<or> lower_eq r ''infinity'' then Some (Infinite neg)
      else if is_nan_text r then Some NotANumber
      else
        let (m, e) = split_at_char (CHR ''e'') (ascii_lower r); (ip, fp) = split_at_char (CHR ''.'') m;
            frac = (case fp of None \<Rightarrow> [] | Some f \<Rightarrow> f)
        in case (all_digits (ip @ frac), decimal_exponent e) of
             (Some ds, Some x) \<Rightarrow> if ds = [] then None else Some (Finite neg (digits_nat ds) (x - int (length frac)))
           | _ \<Rightarrow> None)"

definition decimal_prec :: nat where "decimal_prec = 28"

text \<open>The number of decimal digits of a coefficient.\<close>

fun ndigits :: "nat \<Rightarrow> nat" where
  "ndigits n = (if n < 10 then 1 else Suc (ndigits (n div 10)))"

declare ndigits.simps [simp del]

text \<open>Division by \<open>10 ^ k\<close>, rounded half to even.\<close>

definition half_even :: "nat \<Rightarrow> nat \<Rightarrow> nat" where
  "half_even n k =
     (let p = 10 ^ k; d = n div p; r = n mod p
      in d + (if p < 2 * r \<or> p = 2 * r \<and> odd d then 1 else 0))"

text \<open>Rounding a result to the precision of the context; a carry may add a digit, which is dropped again.\<close>

definition dec_round :: "bool \<Rightarrow> nat \<Rightarrow> int \<Rightarrow> decimal" where
  "dec_round neg c e =
     (let k = ndigits c - decimal_prec in
      if k = 0 then Finite neg c e
      else let d = half_even c k in
           if ndigits d > decimal_prec then Finite neg (d div 10) (e + int k + 1) else Finite neg d (e + int k))"

definition dec_times_100 :: "decimal \<Rightarrow> decimal" where
  "dec_times_100 d = (case d of Finite neg c e \<Rightarrow> dec_round neg (c * 100) e | _ \<Rightarrow> d)"

text \<open>\<open>d.quantize(Decimal("1"))\<close> of a finite \<open>d\<close>: exponent 0, and an error when the result does not fit.\<close>

definition quantize_unit :: "decimal \<Rightarrow> decimal res" where
  "quantize_unit d =
     (case d of
        Finite neg c e \<Rightarrow>
          (let q = (if 0 \<le> e then c * 10 ^ nat e else half_even c (nat (- e))) in
           if decimal_prec < ndigits q then Inl (InvalidOperation ''quantize'') else Inr (Finite neg q 0))
      | _ \<Rightarrow> Inr d)"

text \<open>Numerical equality of finite decimals, and \<open>int(d)\<close> of one with exponent 0.\<close>

fun dec_eq :: "decimal \<Rightarrow> decimal \<Rightarrow> bool" where
  "dec_eq (Finite n c e) (Finite m d f) =
     (let k = min e f in signed n (c * 10 ^ nat (e - k)) = signed m (d * 10 ^ nat (f - k)))"
| "dec_eq (Infinite n) (Infinite m) = (n = m)"
| "dec_eq _ _ = False"

end
