(* ===== verification/Json_Text.thy ===== *)
theory Json_Text
  imports Prelude
begin

text \<open>
  \<open>json.dumps(v, sort_keys=True, ensure_ascii=False)\<close> of a JSON value: the canonical text that the
  back end hashes. Keys are sorted by code point, which is byte order of their UTF-8 form.
\<close>

definition escape_char :: "char \<Rightarrow> string" where
  "escape_char c =
     (let n = (of_char c :: nat); bs = char_of (92 :: nat) in
      if c = dquote \<or> c = bs then [bs, c]
      else if n = 8 then [bs, CHR ''b''] else if n = 12 then [bs, CHR ''f'']
      else if n = 10 then [bs, CHR ''n''] else if n = 13 then [bs, CHR ''r'']
      else if n = 9 then [bs, CHR ''t'']
      else if n < 32 then [bs, CHR ''u'', CHR ''0'', CHR ''0'', hex_digit (n div 16), hex_digit (n mod 16)]
      else [c])"

definition json_string :: "string \<Rightarrow> string" where
  "json_string s = [dquote] @ concat (map escape_char s) @ [dquote]"

definition json_float :: "string \<Rightarrow> string" where
  "json_float t = (if t = ''nan'' then ''NaN'' else if t = ''inf'' then ''Infinity''
                   else if t = ''-inf'' then ''-Infinity'' else t)"

fun json_dumps :: "json \<Rightarrow> string" where
  "json_dumps JNull = ''null''"
| "json_dumps (JBool b) = (if b then ''true'' else ''false'')"
| "json_dumps (JInt i) = int_str i"
| "json_dumps (JFloat t) = json_float t"
| "json_dumps (JStr s) = json_string s"
| "json_dumps (JList xs) = ''['' @ join_with '', '' (map json_dumps xs) @ '']''"
| "json_dumps (JObj kvs) =
     ''{'' @ join_with '', '' (map (\<lambda>kv. json_string (fst kv) @ '': '' @ snd kv)
        (sort_key fst (map (\<lambda>kv. (fst kv, json_dumps (snd kv))) kvs))) @ ''}''"

text \<open>The order in which a dictionary was built does not matter.\<close>

lemma sort_key_perm:
  assumes "distinct (map fst xs)" "set xs = set ys" "distinct (map fst ys)"
  shows "sort_key fst xs = sort_key fst (ys :: ('k :: linorder \<times> 'v) list)"
proof (rule map_sorted_distinct_set_unique [of fst])
  have "inj_on fst (set xs)" "inj_on fst (set ys)" using assms by (simp_all add: distinct_map)
  then show "inj_on fst (set (sort_key fst xs) \<union> set (sort_key fst ys))" using assms(2) by simp
qed (use assms in \<open>auto simp: distinct_map\<close>)

lemma json_dumps_perm:
  assumes "distinct (map fst d)" "set d = set e" "distinct (map fst e)"
  shows "json_dumps (JObj d) = json_dumps (JObj e)"
proof -
  have "sort_key fst (map (\<lambda>kv. (fst kv, json_dumps (snd kv))) d)
      = sort_key fst (map (\<lambda>kv. (fst kv, json_dumps (snd kv))) e)"
    using assms by (intro sort_key_perm) (simp_all add: comp_def)
  then show ?thesis by simp
qed

end
