(* ===== verification/Authorized_Operations.thy ===== *)
theory Authorized_Operations
  imports Python_Numbers Json_Text Task_Lifecycle
begin

text \<open>
  Parameter-level authorizations: \<open>domain/ecommerce/authorized_operations.py\<close>,
  \<open>generation_gate.py\<close>, \<open>generation_service.py\<close>, the brief helpers of \<open>persistence/repository.py\<close> and
  \<open>authorize_operation\<close> of \<open>services/task_orchestrator.py\<close>.

  An operation is stored as a JSON object in the brief of its project. The text of a \<open>datetime\<close>
  (\<open>isoformat\<close>, \<open>fromisoformat\<close>) is a parameter; what the round trip relies on is
  \<open>iso_round_trip\<close>, the documented inverse of the two functions.
\<close>

section \<open>Records\<close>

record iso_text =
  iso_format :: "datetime \<Rightarrow> string"
  iso_parse :: "string \<Rightarrow> datetime option"

definition iso_round_trip :: "iso_text \<Rightarrow> bool" where
  "iso_round_trip tx \<longleftrightarrow> (\<forall>t. iso_parse tx (iso_format tx t) = Some t)"

record authorized_operation =
  ao_id :: string
  ao_task :: string
  ao_capability :: capability
  ao_kind :: string
  ao_hash :: string
  ao_granted_by :: int
  ao_granted_at :: datetime
  ao_consumed_at :: "datetime option"
  ao_revoked_at :: "datetime option"

definition stable_payload_hash :: "json dict \<Rightarrow> string" where
  "stable_payload_hash payload = sha256_hex (json_dumps (JObj payload))"

section \<open>Reading and writing the brief\<close>

definition ops_key :: string where
  "ops_key = ''authorized_operations''"

definition key_at :: "json dict \<Rightarrow> string \<Rightarrow> json res" where
  "key_at d k = (case dict_get d k of None \<Rightarrow> Inl (KeyError k) | Some v \<Rightarrow> Inr v)"

definition iso_read :: "iso_text \<Rightarrow> json \<Rightarrow> datetime res" where
  "iso_read tx v =
     (case iso_parse tx (py_str v) of
        Some t \<Rightarrow> Inr t
      | None \<Rightarrow> Inl (ValueError (''Invalid isoformat string: '' @ repr_str (py_str v))))"

definition iso_read_opt :: "iso_text \<Rightarrow> json \<Rightarrow> datetime option res" where
  "iso_read_opt tx v = (if v = JNull then Inr None else bindR (iso_read tx v) (\<lambda>t. Inr (Some t)))"

definition parse_operation_fields :: "iso_text \<Rightarrow> json dict \<Rightarrow> authorized_operation res" where
  "parse_operation_fields tx raw =
     bindR (capability_of (py_str (jget raw ''capability''))) (\<lambda>cap.
     bindR (key_at raw ''id'') (\<lambda>i.
     bindR (key_at raw ''task_id'') (\<lambda>tid.
     bindR (key_at raw ''operation_kind'') (\<lambda>kind.
     bindR (key_at raw ''payload_hash'') (\<lambda>hash.
     bindR (bindR (key_at raw ''granted_by'') py_int) (\<lambda>by.
     bindR (iso_read tx (jget raw ''granted_at'')) (\<lambda>granted.
     bindR (iso_read_opt tx (jget raw ''consumed_at'')) (\<lambda>consumed.
     bindR (iso_read_opt tx (jget raw ''revoked_at'')) (\<lambda>revoked.
     Inr \<lparr> ao_id = py_str i, ao_task = py_str tid, ao_capability = cap, ao_kind = py_str kind,
           ao_hash = py_str hash, ao_granted_by = by, ao_granted_at = granted, ao_consumed_at = consumed,
           ao_revoked_at = revoked \<rparr>)))))))))"

text \<open>\<open>except (KeyError, TypeError, ValueError): return None\<close>.\<close>

fun swallowed :: "exc \<Rightarrow> bool" where
  "swallowed (KeyError _) = True"
| "swallowed (TypeError _) = True"
| "swallowed (ValueError _) = True"
| "swallowed _ = False"

definition parse_operation :: "iso_text \<Rightarrow> json \<Rightarrow> authorized_operation option res" where
  "parse_operation tx raw =
     (case raw of
        JObj d \<Rightarrow>
          (case parse_operation_fields tx d of
             Inr op \<Rightarrow> Inr (Some op)
           | Inl e \<Rightarrow> if swallowed e then Inr None else Inl e)
      | _ \<Rightarrow> Inr None)"

fun collect_operations :: "iso_text \<Rightarrow> json list \<Rightarrow> authorized_operation list res" where
  "collect_operations tx [] = Inr []"
| "collect_operations tx (x # xs) =
     bindR (parse_operation tx x) (\<lambda>p.
     bindR (collect_operations tx xs) (\<lambda>ops.
     Inr (case p of None \<Rightarrow> ops | Some op \<Rightarrow> op # ops)))"

definition list_authorized_operations :: "iso_text \<Rightarrow> json dict \<Rightarrow> authorized_operation list res" where
  "list_authorized_operations tx brief =
     (case jget_or brief ops_key (JList []) of
        JList xs \<Rightarrow> collect_operations tx xs
      | _ \<Rightarrow> Inr [])"

definition iso_write_opt :: "iso_text \<Rightarrow> datetime option \<Rightarrow> json" where
  "iso_write_opt tx t = (case t of None \<Rightarrow> JNull | Some d \<Rightarrow> JStr (iso_format tx d))"

definition operation_json :: "iso_text \<Rightarrow> authorized_operation \<Rightarrow> json" where
  "operation_json tx op = JObj
     [(''id'', JStr (ao_id op)), (''task_id'', JStr (ao_task op)),
      (''capability'', JStr (capability_value (ao_capability op))), (''operation_kind'', JStr (ao_kind op)),
      (''payload_hash'', JStr (ao_hash op)), (''granted_by'', JInt (ao_granted_by op)),
      (''granted_at'', JStr (iso_format tx (ao_granted_at op))),
      (''consumed_at'', iso_write_opt tx (ao_consumed_at op)),
      (''revoked_at'', iso_write_opt tx (ao_revoked_at op))]"

definition append_authorized_operation :: "iso_text \<Rightarrow> json dict \<Rightarrow> authorized_operation \<Rightarrow> json dict res" where
  "append_authorized_operation tx brief op =
     bindR (py_iter (jget_or brief ops_key (JList []))) (\<lambda>existing.
     Inr (dict_set brief ops_key (JList (existing @ [operation_json tx op]))))"

section \<open>Authorizing and consuming\<close>

fun first_live :: "authorized_operation list \<Rightarrow> capability \<Rightarrow> string \<Rightarrow> string \<Rightarrow> authorized_operation res" where
  "first_live [] cap hash tid = Inl (AuthorizedOperationError ''no matching live authorized operation'')"
| "first_live (op # ops) cap hash tid =
     (if ao_task op \<noteq> tid then first_live ops cap hash tid
      else if ao_capability op \<noteq> cap then first_live ops cap hash tid
      else if ao_hash op \<noteq> hash then first_live ops cap hash tid
      else if ao_revoked_at op \<noteq> None then first_live ops cap hash tid
      else if ao_consumed_at op \<noteq> None then first_live ops cap hash tid
      else Inr op)"

definition authorize_operation ::
  "capability set \<Rightarrow> authorized_operation list \<Rightarrow> capability \<Rightarrow> string \<Rightarrow> string \<Rightarrow> authorized_operation res" where
  "authorize_operation granted ops cap hash tid =
     (if cap \<notin> granted then Inl (AuthorizedOperationError ''task external grant missing for capability'')
      else first_live ops cap hash tid)"

text \<open>One entry of the list: whether it is the named operation, and what is written back.\<close>

definition patch_operation :: "iso_text \<Rightarrow> string \<Rightarrow> datetime \<Rightarrow> json \<Rightarrow> bool \<times> json" where
  "patch_operation tx oid t item =
     (case item of
        JObj d \<Rightarrow>
          if py_str (jget d ''id'') = oid
          then (True, JObj (dict_set d ''consumed_at'' (JStr (iso_format tx t))))
          else (False, item)
      | _ \<Rightarrow> (False, item))"

definition consume_operation :: "iso_text \<Rightarrow> json dict \<Rightarrow> string \<Rightarrow> datetime \<Rightarrow> json dict res" where
  "consume_operation tx brief oid t =
     (case jget_or brief ops_key (JList []) of
        JList xs \<Rightarrow>
          let patched = map (patch_operation tx oid t) xs in
          if list_ex fst patched
          then Inr (dict_set brief ops_key (JList (map snd patched)))
          else Inl (AuthorizedOperationError (''unknown authorized operation: '' @ oid))
      | _ \<Rightarrow> Inl (AuthorizedOperationError ''authorized_operations missing''))"

section \<open>Repository and orchestrator\<close>

definition list_authorized_operations_for_project ::
  "iso_text \<Rightarrow> string \<Rightarrow> int \<Rightarrow> (db, authorized_operation list) eff" where
  "list_authorized_operations_for_project tx pid uid =
     bindE (get_project_brief pid uid) (\<lambda>brief. liftR (list_authorized_operations tx brief))"

definition append_authorized_operation_for_project ::
  "iso_text \<Rightarrow> string \<Rightarrow> int \<Rightarrow> authorized_operation \<Rightarrow> (db, unit) eff" where
  "append_authorized_operation_for_project tx pid uid op =
     bindE (get_project_brief pid uid) (\<lambda>brief.
     bindE (liftR (append_authorized_operation tx brief op)) (\<lambda>updated.
     update_project_brief pid uid updated))"

definition consume_authorized_operation_for_project ::
  "iso_text \<Rightarrow> string \<Rightarrow> int \<Rightarrow> string \<Rightarrow> datetime \<Rightarrow> (db, unit) eff" where
  "consume_authorized_operation_for_project tx pid uid oid t =
     bindE (get_project_brief pid uid) (\<lambda>brief.
     bindE (liftR (consume_operation tx brief oid t)) (\<lambda>updated.
     update_project_brief pid uid updated))"

definition orch_authorize_operation ::
  "iso_text \<Rightarrow> string \<Rightarrow> int \<Rightarrow> string \<Rightarrow> capability \<Rightarrow> string \<Rightarrow> string \<Rightarrow> (db, authorized_operation) eff" where
  "orch_authorize_operation tx pid uid tid cap kind hash =
     bindE (ensure (is_external_capability cap)
              (TOE ''authorized operation requires external capability'')) (\<lambda>_.
     bindE (ensure (strip hash \<noteq> [] \<and> strip kind \<noteq> [])
              (TOE ''operation_kind and payload_hash required'')) (\<lambda>_.
     bindE (orch_get pid uid tid) (\<lambda>task.
     bindE (ensure (cap \<in> t_ext_auth task) (TOE ''task external grant missing for capability'')) (\<lambda>_.
     bindE (ensure (t_status task \<in> {TS_AUTHORIZED, TS_EXECUTING, TS_BLOCKED})
              (TOE (''cannot authorize operation from '' @ task_status_value (t_status task)))) (\<lambda>_.
     bindE (new_id ''aop'') (\<lambda>i.
     bindE tick (\<lambda>now.
     let op = \<lparr> ao_id = i, ao_task = tid, ao_capability = cap, ao_kind = strip kind, ao_hash = strip hash,
                ao_granted_by = uid, ao_granted_at = Aware now, ao_consumed_at = None, ao_revoked_at = None \<rparr> in
     bindE (append_authorized_operation_for_project tx pid uid op) (\<lambda>_. ret op))))))))"

section \<open>The generation gate\<close>

definition generation_request_hash ::
  "string \<Rightarrow> string \<Rightarrow> string \<Rightarrow> string list \<Rightarrow> int \<Rightarrow> json dict \<Rightarrow> string" where
  "generation_request_hash kind model prompt refs cnt params =
     sha256_hex (json_dumps (JObj
       [(''kind'', JStr kind), (''model'', JStr model), (''prompt_summary'', JStr prompt),
        (''references'', JList (map JStr (sort refs))), (''count'', JInt cnt), (''parameters'', JObj params)]))"

definition assert_generation_submit_allowed ::
  "capability set \<Rightarrow> authorized_operation list \<Rightarrow> string \<Rightarrow> string \<Rightarrow> authorized_operation res" where
  "assert_generation_submit_allowed granted ops hash tid =
     (case authorize_operation granted ops GENERATION_SUBMIT hash tid of
        Inl (AuthorizedOperationError m) \<Rightarrow> Inl (GenerationGateError m)
      | r \<Rightarrow> r)"

definition assert_generation_list_allowed :: "capability set \<Rightarrow> unit res" where
  "assert_generation_list_allowed effective =
     assertR (GENERATION_LIST_MODELS \<in> effective)
       (GenerationGateError ''GENERATION_LIST_MODELS not in effective allowlist'')"

section \<open>Lists of operations\<close>

definition live :: "capability \<Rightarrow> string \<Rightarrow> string \<Rightarrow> authorized_operation \<Rightarrow> bool" where
  "live cap hash tid op \<longleftrightarrow> ao_task op = tid \<and> ao_capability op = cap \<and> ao_hash op = hash
     \<and> ao_revoked_at op = None \<and> ao_consumed_at op = None"

lemma first_live_find:
  "first_live ops cap hash tid =
     (case find (live cap hash tid) ops of
        None \<Rightarrow> Inl (AuthorizedOperationError ''no matching live authorized operation'') | Some op \<Rightarrow> Inr op)"
  by (induction ops) (auto simp: live_def)

lemma authorize_operation_Inr:
  "authorize_operation granted ops cap hash tid = Inr op \<longleftrightarrow> cap \<in> granted \<and> find (live cap hash tid) ops = Some op"
  by (auto simp: authorize_operation_def first_live_find split: option.splits)

lemma parse_operation_json:
  assumes "iso_round_trip tx" shows "parse_operation tx (operation_json tx op) = Inr (Some op)"
  using assms
  by (cases "ao_consumed_at op"; cases "ao_revoked_at op")
     (simp_all add: parse_operation_def operation_json_def parse_operation_fields_def jget_def key_at_def
        iso_read_def iso_read_opt_def iso_write_opt_def iso_round_trip_def)

lemma collect_operations_append:
  "collect_operations tx (xs @ ys) =
     bindR (collect_operations tx xs) (\<lambda>a. bindR (collect_operations tx ys) (\<lambda>b. Inr (a @ b)))"
proof (induction xs)
  case Nil
  then show ?case by (cases "collect_operations tx ys") simp_all
next
  case (Cons x xs)
  then show ?case
    by (cases "parse_operation tx x"; cases "collect_operations tx xs"; cases "collect_operations tx ys")
       (auto split: option.splits)
qed

lemma collect_strings: "collect_operations tx (map (\<lambda>x. JStr (f x)) xs) = Inr []"
  by (induction xs) (simp_all add: parse_operation_def)

lemma iterated_operations:
  assumes "py_iter (jget_or brief ops_key (JList [])) = Inr items"
  shows "list_authorized_operations tx brief = collect_operations tx items"
  using assms collect_strings [of tx "fst :: string \<times> json \<Rightarrow> string"] collect_strings [of tx id]
  by (cases "jget_or brief ops_key (JList [])")
     (auto simp: list_authorized_operations_def not_iterable_def)

lemma jget_or_set [simp]: "jget_or (dict_set d k v) k w = v"
  by (simp add: jget_or_def update_conv')

lemma append_then_list:
  assumes "iso_round_trip tx" "append_authorized_operation tx brief op = Inr brief'"
  shows "list_authorized_operations tx brief'
       = bindR (list_authorized_operations tx brief) (\<lambda>ops. Inr (ops @ [op]))"
proof -
  from assms(2) obtain items where items: "py_iter (jget_or brief ops_key (JList [])) = Inr items"
      "brief' = dict_set brief ops_key (JList (items @ [operation_json tx op]))"
    by (auto simp: append_authorized_operation_def bindR_Inr)
  then have "list_authorized_operations tx brief' = collect_operations tx (items @ [operation_json tx op])"
    by (simp add: list_authorized_operations_def)
  with iterated_operations [OF items(1)] assms(1) show ?thesis
    by (simp add: collect_operations_append parse_operation_json)
qed

section \<open>Consumption\<close>

lemma jget_set: "jget (dict_set d k v) j = (if j = k then v else jget d j)"
  by (simp add: jget_def update_conv')

lemma key_at_set: "j \<noteq> k \<Longrightarrow> key_at (dict_set d k v) j = key_at d j"
  by (simp add: key_at_def update_conv')

lemma parse_operation_id:
  "parse_operation tx (JObj d) = Inr (Some op) \<Longrightarrow> ao_id op = py_str (jget d ''id'')"
  by (auto simp: parse_operation_def parse_operation_fields_def bindR_Inr key_at_def jget_def
      split: sum.splits option.splits if_splits)

lemma parse_operation_consumed:
  assumes "iso_round_trip tx"
    and "parse_operation tx (JObj (dict_set d ''consumed_at'' (JStr (iso_format tx t)))) = Inr (Some op)"
  shows "ao_consumed_at op = Some t"
  using assms
  by (auto simp: parse_operation_def parse_operation_fields_def bindR_Inr jget_set iso_read_opt_def iso_read_def
      iso_round_trip_def split: sum.splits if_splits)

lemma patch_other:
  assumes "parse_operation tx x = Inr p" "parse_operation tx (snd (patch_operation tx oid t x)) = Inr p'"
  shows "(case p of None \<Rightarrow> [] | Some op \<Rightarrow> filter (\<lambda>a. ao_id a \<noteq> oid) [op])
       = (case p' of None \<Rightarrow> [] | Some op \<Rightarrow> filter (\<lambda>a. ao_id a \<noteq> oid) [op])"
proof (cases "fst (patch_operation tx oid t x)")
  case False
  then have "snd (patch_operation tx oid t x) = x"
    by (auto simp: patch_operation_def split: json.splits if_splits)
  with assms show ?thesis by simp
next
  case True
  then obtain d where d: "x = JObj d" "py_str (jget d ''id'') = oid"
    by (auto simp: patch_operation_def split: json.splits if_splits)
  then have "snd (patch_operation tx oid t x) = JObj (dict_set d ''consumed_at'' (JStr (iso_format tx t)))"
    by (simp add: patch_operation_def)
  moreover have "jget (dict_set d ''consumed_at'' (JStr (iso_format tx t))) ''id'' = jget d ''id''"
    by (simp add: jget_set)
  ultimately have id': "ao_id op = oid" if "p' = Some op" for op
    using assms(2) d(2) that parse_operation_id [of tx "dict_set d ''consumed_at'' (JStr (iso_format tx t))" op] by simp
  have id: "ao_id op = oid" if "p = Some op" for op
    using assms(1) d that parse_operation_id [of tx d op] by simp
  have "(case p of None \<Rightarrow> [] | Some op \<Rightarrow> filter (\<lambda>a. ao_id a \<noteq> oid) [op]) = []"
    using id by (auto split: option.split)
  moreover have "(case p' of None \<Rightarrow> [] | Some op \<Rightarrow> filter (\<lambda>a. ao_id a \<noteq> oid) [op]) = []"
    using id' by (auto split: option.split)
  ultimately show ?thesis by simp
qed

lemma collect_patched:
  assumes "iso_round_trip tx" "collect_operations tx xs = Inr ops"
    and "collect_operations tx (map (\<lambda>x. snd (patch_operation tx oid t x)) xs) = Inr ops'"
  shows "filter (\<lambda>a. ao_id a \<noteq> oid) ops' = filter (\<lambda>a. ao_id a \<noteq> oid) ops
    \<and> (\<forall>a \<in> set ops'. ao_id a = oid \<longrightarrow> ao_consumed_at a = Some t)"
  using assms(2,3)
proof (induction xs arbitrary: ops ops')
  case (Cons x xs)
  from Cons.prems obtain p q p' q' where
    p: "parse_operation tx x = Inr p" "collect_operations tx xs = Inr q"
      "ops = (case p of None \<Rightarrow> q | Some op \<Rightarrow> op # q)"
    and p': "parse_operation tx (snd (patch_operation tx oid t x)) = Inr p'"
      "collect_operations tx (map (\<lambda>x. snd (patch_operation tx oid t x)) xs) = Inr q'"
      "ops' = (case p' of None \<Rightarrow> q' | Some op \<Rightarrow> op # q')"
    by (auto simp: bindR_Inr)
  note IH = Cons.IH [OF p(2) p'(2)]
  have "filter (\<lambda>a. ao_id a \<noteq> oid) ops' = filter (\<lambda>a. ao_id a \<noteq> oid) ops"
    using patch_other [OF p(1) p'(1)] IH p(3) p'(3) by (cases p; cases p') (auto split: if_splits)
  moreover have "ao_consumed_at a = Some t" if "p' = Some a" "ao_id a = oid" for a
  proof -
    have "\<exists>d. x = JObj d" using p'(1) that(1)
      by (cases x) (simp_all add: patch_operation_def parse_operation_def)
    then obtain d where d: "x = JObj d" by blast
    show ?thesis
    proof (cases "py_str (jget d ''id'') = oid")
      case True
      with d p'(1) that(1) parse_operation_consumed [OF assms(1)] show ?thesis by (simp add: patch_operation_def)
    next
      case False
      with d p'(1) that parse_operation_id [of tx d a] show ?thesis by (simp add: patch_operation_def)
    qed
  qed
  ultimately show ?case using IH p'(3) by (cases p') auto
qed simp

end
