(* ===== verification/Authorization_Gate.thy ===== *)
theory Authorization_Gate
  imports Authorized_Operations
begin

text \<open>
  What the parameter-level authorizations give: an operation that the orchestrator recorded opens the gate for
  exactly its task, capability and payload, a consumed one never does again, and the hash of a
  request does not depend on the order in which its parameters and references are listed.
\<close>

section \<open>The brief of a project\<close>

lemma find_update_rows:
  assumes "\<And>r. P (f r) = P r"
  shows "find P (update_rows P f rows) = map_option f (find P rows)"
  by (induction rows) (auto simp: update_rows_def assms)

lemma find_update_other:
  assumes "\<And>r. P r \<Longrightarrow> \<not> Q r" "\<And>r. Q (f r) = Q r"
  shows "find Q (update_rows P f rows) = find Q rows"
  using assms(1) by (induction rows) (auto simp: update_rows_def assms(2))

lemma get_project_brief_run:
  "get_project_brief pid uid db =
     (case find (\<lambda>r. pr_id r = pid \<and> pr_user r = uid) (projects db) of
        None \<Rightarrow> (Inl (WorkshopProjectNotFoundError pid), db)
      | Some r \<Rightarrow> (Inr (case pr_brief r of JObj d \<Rightarrow> d | _ \<Rightarrow> []), db))"
  by (simp add: get_project_brief_def bindE_def gets_def first_or_def ret_def raise_def split: option.splits)

lemma update_project_brief_run:
  assumes "update_project_brief pid uid b db = (Inr u, db')"
  shows "get_project_brief pid uid db' = (Inr b, db')"
    and "(p, v) \<noteq> (pid, uid) \<Longrightarrow> fst (get_project_brief p v db') = fst (get_project_brief p v db)"
    and "find (\<lambda>r. pr_id r = p \<and> pr_user r = v) (projects db') = None \<longleftrightarrow>
         find (\<lambda>r. pr_id r = p \<and> pr_user r = v) (projects db) = None"
    and "tasks db' = tasks db"
proof -
  let ?P = "\<lambda>r. pr_id r = pid \<and> pr_user r = uid"
  define f where "f = (\<lambda>r. r\<lparr>pr_brief := JObj b, pr_updated := db_clock db 0\<rparr> :: project_row)"
  have n: "count_rows ?P (projects db) = 1" and p: "projects db' = update_rows ?P f (projects db)"
    and "tasks db' = tasks db"
    using assms
    by (auto simp: update_project_brief_def update_projects_def tick_def bindE_def gets_def modify_def ret_def
        ensure_def f_def split: if_splits)
  then show "tasks db' = tasks db" by simp
  obtain r where r: "find ?P (projects db) = Some r"
    using n by (cases "find ?P (projects db)") (auto simp: count_rows_def find_None_iff filter_empty_conv)
  then show "get_project_brief pid uid db' = (Inr b, db')"
    using find_update_rows [of ?P f "projects db"] by (simp add: get_project_brief_run p f_def)
  have other: "find (\<lambda>r. pr_id r = p \<and> pr_user r = v) (projects db') = find (\<lambda>r. pr_id r = p \<and> pr_user r = v) (projects db)"
    if "(p, v) \<noteq> (pid, uid)"
    unfolding p using that by (intro find_update_other) (auto simp: f_def)
  then show "(p, v) \<noteq> (pid, uid) \<Longrightarrow> fst (get_project_brief p v db') = fst (get_project_brief p v db)"
    by (simp add: get_project_brief_run split: option.splits)
  show "find (\<lambda>r. pr_id r = p \<and> pr_user r = v) (projects db') = None \<longleftrightarrow>
         find (\<lambda>r. pr_id r = p \<and> pr_user r = v) (projects db) = None"
  proof (cases "(p, v) = (pid, uid)")
    case True
    then show ?thesis using find_update_rows [of ?P f "projects db"] by (simp add: p f_def)
  qed (simp add: other)
qed

lemma orch_get_same_tasks:
  assumes "orch_get pid uid tid db = (Inr task, db0)" "tasks db' = tasks db"
    and "find (\<lambda>r. pr_id r = pid \<and> pr_user r = uid) (projects db') \<noteq> None"
  shows "orch_get pid uid tid db' = (Inr task, db')"
proof -
  obtain p r where "find (\<lambda>r. pr_id r = pid \<and> pr_user r = uid) (projects db) = Some p"
    and r: "find (\<lambda>r. tk_id r = tid \<and> tk_project r = pid) (tasks db) = Some r" "to_task r = Inr task"
    using assms(1) by (rule orch_get_row)
  with assms(2,3) show ?thesis
    by (auto simp: orch_get_def require_task_def get_task_def require_project_run bindE_def gets_def
        catchE_def first_or_run liftR_def ret_def)
qed

section \<open>Properties\<close>

lemma authorize_run:
  assumes "orch_authorize_operation tx pid uid tid cap kind hash db = (Inr op, db')"
  obtains task db1 where "is_external_capability cap" "orch_get pid uid tid db = (Inr task, db)"
    "cap \<in> t_ext_auth task" "t_status task \<in> {TS_AUTHORIZED, TS_EXECUTING, TS_BLOCKED}"
    "live cap (strip hash) tid op" "projects db1 = projects db" "tasks db1 = tasks db"
    "append_authorized_operation_for_project tx pid uid op db1 = (Inr (), db')"
proof -
  obtain task where g: "orch_get pid uid tid db = (Inr task, db)"
    using assms by (auto simp: orch_authorize_operation_def bindE_eq_Inr ensure_def)
      (metis orch_get_state snd_conv)
  have "is_external_capability cap" "cap \<in> t_ext_auth task" "t_status task \<in> {TS_AUTHORIZED, TS_EXECUTING, TS_BLOCKED}"
    using assms g by (auto simp: orch_authorize_operation_def bindE_eq_Inr ensure_def split: if_splits)
  moreover have "\<exists>db1. live cap (strip hash) tid op \<and> projects db1 = projects db \<and> tasks db1 = tasks db
     \<and> append_authorized_operation_for_project tx pid uid op db1 = (Inr (), db')"
    using assms g
    by (auto simp: orch_authorize_operation_def bindE_eq_Inr ensure_def new_id_def uuid_hex_def tick_def ret_def
        Let_def live_def split: if_splits intro!: exI [of _ "db\<lparr>db_uuids := (\<lambda>n. db_uuids db (Suc n)),
          db_clock := (\<lambda>n. db_clock db (Suc n))\<rparr>"])
  ultimately show thesis using g that by blast
qed

text \<open>
  An authorization that the orchestrator records opens the gate. When \<open>authorize_operation\<close> succeeds, the
  capability is an external one that was granted to the task, and the task is authorized, executing or
  blocked; the operations of the project are the previous ones followed by the new one, the briefs of all
  other projects are unchanged, and the gate now finds a live operation for this task, capability and payload.\<close>

theorem authorized_operation_opens_gate:
  assumes tx: "iso_round_trip tx"
    and run: "orch_authorize_operation tx pid uid tid cap kind hash db = (Inr op, db')"
    and before: "fst (list_authorized_operations_for_project tx pid uid db) = Inr ops"
  shows "is_external_capability cap \<and> (\<exists>task. orch_get pid uid tid db' = (Inr task, db')
       \<and> t_status task \<in> {TS_AUTHORIZED, TS_EXECUTING, TS_BLOCKED}
       \<and> list_authorized_operations_for_project tx pid uid db' = (Inr (ops @ [op]), db')
       \<and> (\<exists>a. authorize_operation (t_ext_auth task) (ops @ [op]) cap (strip hash) tid = Inr a))
     \<and> (\<forall>p v. (p, v) = (pid, uid) \<or> fst (get_project_brief p v db') = fst (get_project_brief p v db))"
proof -
  from authorize_run [OF run] obtain task db1 where t: "is_external_capability cap"
    "orch_get pid uid tid db = (Inr task, db)" "cap \<in> t_ext_auth task"
    "t_status task \<in> {TS_AUTHORIZED, TS_EXECUTING, TS_BLOCKED}" "live cap (strip hash) tid op"
    "projects db1 = projects db" "tasks db1 = tasks db"
    "append_authorized_operation_for_project tx pid uid op db1 = (Inr (), db')" .
  have same: "fst (get_project_brief p v db1) = fst (get_project_brief p v db)" for p v
    by (simp add: get_project_brief_run t(6) split: option.splits)
  from t(8) obtain brief brief' where b: "get_project_brief pid uid db1 = (Inr brief, db1)"
      "append_authorized_operation tx brief op = Inr brief'" "update_project_brief pid uid brief' db1 = (Inr (), db')"
    by (auto simp: append_authorized_operation_for_project_def bindE_eq_Inr liftR_def)
      (metis keeps_def reads_only(18) snd_conv)
  note u = update_project_brief_run [OF b(3)]
  have "list_authorized_operations tx brief = Inr ops"
    using before same [of pid uid] b(1)
    by (auto simp: list_authorized_operations_for_project_def bindE_def liftR_def get_project_brief_run
        split: option.splits)
  then have listed: "list_authorized_operations_for_project tx pid uid db' = (Inr (ops @ [op]), db')"
    using append_then_list [OF tx b(2)]
    by (simp add: list_authorized_operations_for_project_def bindE_def u(1) liftR_def)
  have "find (\<lambda>r. pr_id r = pid \<and> pr_user r = uid) (projects db') \<noteq> None"
    using u(3) [of pid uid] b(1) by (auto simp: get_project_brief_run split: option.splits)
  then have "orch_get pid uid tid db' = (Inr task, db')"
    using orch_get_same_tasks [OF t(2)] u(4) t(7) by simp
  moreover have "find (live cap (strip hash) tid) (ops @ [op]) \<noteq> None" using t(5) by (auto simp: find_None_iff)
  then have "\<exists>a. authorize_operation (t_ext_auth task) (ops @ [op]) cap (strip hash) tid = Inr a"
    using t(3) by (auto simp: authorize_operation_Inr)
  ultimately show ?thesis using t(1,4) listed u(2) same by metis
qed

text \<open>
  A consumed operation is dead. After an operation was marked consumed, every stored record with its
  identifier carries the time of consumption, so the gate never returns it again for any task, capability or
  payload; all other operations of the project are as before.\<close>

theorem consumed_operation_is_dead:
  assumes tx: "iso_round_trip tx"
    and run: "consume_authorized_operation_for_project tx pid uid oid t db = (Inr (), db')"
    and before: "fst (list_authorized_operations_for_project tx pid uid db) = Inr ops"
    and after: "fst (list_authorized_operations_for_project tx pid uid db') = Inr ops'"
  shows "filter (\<lambda>a. ao_id a \<noteq> oid) ops' = filter (\<lambda>a. ao_id a \<noteq> oid) ops
     \<and> (\<forall>a \<in> set ops'. ao_id a = oid \<longrightarrow> ao_consumed_at a = Some t)
     \<and> (\<forall>granted cap hash tid a. authorize_operation granted ops' cap hash tid = Inr a \<longrightarrow> ao_id a \<noteq> oid)"
proof -
  from run obtain brief brief' where b: "get_project_brief pid uid db = (Inr brief, db)"
      "consume_operation tx brief oid t = Inr brief'" "update_project_brief pid uid brief' db = (Inr (), db')"
    by (auto simp: consume_authorized_operation_for_project_def bindE_eq_Inr liftR_def)
      (metis keeps_def reads_only(18) snd_conv)
  note u = update_project_brief_run(1) [OF b(3)]
  from b(2) obtain xs where xs: "jget_or brief ops_key (JList []) = JList xs"
      "brief' = dict_set brief ops_key (JList (map (\<lambda>x. snd (patch_operation tx oid t x)) xs))"
    by (auto simp: consume_operation_def Let_def comp_def split: json.splits if_splits)
  have "collect_operations tx xs = Inr ops"
    using before b(1) xs(1)
    by (simp add: list_authorized_operations_for_project_def bindE_def liftR_def list_authorized_operations_def)
  moreover have "collect_operations tx (map (\<lambda>x. snd (patch_operation tx oid t x)) xs) = Inr ops'"
    using after u xs(2)
    by (simp add: list_authorized_operations_for_project_def bindE_def liftR_def list_authorized_operations_def)
  ultimately have c: "filter (\<lambda>a. ao_id a \<noteq> oid) ops' = filter (\<lambda>a. ao_id a \<noteq> oid) ops"
      "\<forall>a \<in> set ops'. ao_id a = oid \<longrightarrow> ao_consumed_at a = Some t"
    using collect_patched [OF tx] by blast+
  moreover have "ao_id a \<noteq> oid" if "authorize_operation granted ops' cap hash tid = Inr a" for granted cap hash tid a
  proof -
    from that have "a \<in> set ops'" "live cap hash tid a"
      using find_SomeD by (fastforce simp: authorize_operation_Inr)+
    with c(2) show ?thesis by (auto simp: live_def)
  qed
  ultimately show ?thesis by blast
qed

text \<open>
  The hash of a generation request is a function of what is requested: listing the references in another
  order, or building the parameter dictionary in another order, gives the same hash.\<close>

theorem request_hash_order_independent:
  assumes "mset refs = mset refs'" and "distinct (map fst params)" "distinct (map fst params')" "set params = set params'"
  shows "generation_request_hash kind model prompt refs n params = generation_request_hash kind model prompt refs' n params'"
proof -
  have "sort refs = sort refs'" using assms(1) by (metis mset_sort properties_for_sort sorted_sort)
  moreover have "json_dumps (JObj params) = json_dumps (JObj params')"
    using assms(2-4) by (intro json_dumps_perm) auto
  ultimately show ?thesis by (simp add: generation_request_hash_def)
qed

section \<open>Witnesses\<close>

definition sample_tx :: iso_text where
  "sample_tx = \<lparr>
     iso_format = (\<lambda>t. case t of
        Aware i \<Rightarrow> CHR ''A'' # (if i < 0 then CHR ''-'' else CHR ''+'') # replicate (nat \<bar>i\<bar>) (CHR ''1'')
      | Naive i \<Rightarrow> CHR ''N'' # (if i < 0 then CHR ''-'' else CHR ''+'') # replicate (nat \<bar>i\<bar>) (CHR ''1'')),
     iso_parse = (\<lambda>s. case s of
        a # b # r \<Rightarrow>
          let i = (if b = CHR ''-'' then - int (length r) else int (length r))
          in Some (if a = CHR ''A'' then Aware i else Naive i)
      | _ \<Rightarrow> None) \<rparr>"

lemma sample_tx_ok: "iso_round_trip sample_tx"
  by (auto simp: iso_round_trip_def sample_tx_def split: datetime.splits)

definition sample_op :: authorized_operation where
  "sample_op = \<lparr> ao_id = ''aop_0'', ao_task = ''t1'', ao_capability = MCP, ao_kind = ''call'', ao_hash = ''h'',
     ao_granted_by = 7, ao_granted_at = Aware 0, ao_consumed_at = None, ao_revoked_at = None \<rparr>"

definition gate_project :: "json \<Rightarrow> int \<Rightarrow> project_row" where
  "gate_project brief now = \<lparr>pr_id = ''p1'', pr_user = 7, pr_name = ''P'', pr_group_chat = 1, pr_brief = brief,
     pr_created = 0, pr_updated = now\<rparr>"

definition gate_db :: "json \<Rightarrow> db" where
  "gate_db brief = sample_db\<lparr>projects := [gate_project brief 0],
     tasks := [sample_task\<lparr>tk_ext_auth := JList [JStr (capability_value MCP)]\<rparr>], db_uuids := (\<lambda>_. ''0'')\<rparr>"

lemma gate_get:
  "orch_get ''p1'' 7 ''t1'' (gate_db brief) = (Inr (sample_read\<lparr>t_ext_auth := {MCP}\<rparr>), gate_db brief)"
proof -
  have "capability_of ''mcp'' = Inr MCP" using capability_of_value [of MCP] by simp
  then show ?thesis
    by (simp add: orch_get_def require_task_def get_task_def require_project_run bindE_def gets_def
        catchE_def first_or_run gate_db_def sample_db_def gate_project_def sample_task_def sample_read_def to_task_def
        parse_string_list_def parse_capabilities_def liftR_def ret_def)
qed

lemma gate_brief: "get_project_brief ''p1'' 7 (gate_db (JObj d)) = (Inr d, gate_db (JObj d))"
  by (simp add: get_project_brief_run gate_db_def gate_project_def)

lemma gate_update:
  "\<exists>db'. update_project_brief ''p1'' 7 b (gate_db x\<lparr>db_uuids := u, db_clock := c\<rparr>) = (Inr (), db')"
  by (simp add: update_project_brief_def update_projects_def tick_def bindE_def gets_def modify_def ret_def ensure_def
      gate_db_def gate_project_def count_rows_def sample_db_def)

theorem authorized_operation_opens_gate_witness:
  "\<exists>op db' task. orch_authorize_operation sample_tx ''p1'' 7 ''t1'' MCP ''call'' ''h'' (gate_db (JObj [])) = (Inr op, db')
     \<and> orch_get ''p1'' 7 ''t1'' db' = (Inr task, db')
     \<and> (\<exists>a. authorize_operation (t_ext_auth task) [op] MCP ''h'' ''t1'' = Inr a)"
proof -
  have h: "strip ''h'' = ''h''" "strip ''call'' = ''call''" by (simp_all add: strip_plain plain_char_def)
  define db1 where "db1 = gate_db (JObj [])\<lparr>db_uuids := (\<lambda>_. ''0''), db_clock := (\<lambda>n. int (Suc n))\<rparr>"
  obtain db' where upd: "update_project_brief ''p1'' 7 [(ops_key, JList [operation_json sample_tx sample_op])] db1 = (Inr (), db')"
    unfolding db1_def using gate_update by blast
  have "get_project_brief ''p1'' 7 db1 = (Inr [], db1)"
    by (simp add: db1_def get_project_brief_run gate_db_def gate_project_def)
  then have app: "append_authorized_operation_for_project sample_tx ''p1'' 7 sample_op db1 = (Inr (), db')"
    using upd by (simp add: append_authorized_operation_for_project_def bindE_def liftR_def
        append_authorized_operation_def jget_or_def)
  have run: "orch_authorize_operation sample_tx ''p1'' 7 ''t1'' MCP ''call'' ''h'' (gate_db (JObj [])) = (Inr sample_op, db')"
    using app
    by (simp add: orch_authorize_operation_def bindE_def ensure_def gate_get h new_id_def uuid_hex_def tick_def ret_def
        is_external_capability_def external_capabilities_def sample_read_def)
      (simp add: gate_db_def sample_db_def db1_def sample_op_def Let_def bindE_def ret_def)
  have "fst (list_authorized_operations_for_project sample_tx ''p1'' 7 (gate_db (JObj []))) = Inr []"
    by (simp add: list_authorized_operations_for_project_def bindE_def gate_brief liftR_def
        list_authorized_operations_def jget_or_def)
  from authorized_operation_opens_gate [OF sample_tx_ok run this] run h show ?thesis by auto
qed

theorem consumed_operation_is_dead_witness:
  "\<exists>db' ops'. consume_authorized_operation_for_project sample_tx ''p1'' 7 ''aop_0'' (Aware 5)
        (gate_db (JObj [(ops_key, JList [operation_json sample_tx sample_op])])) = (Inr (), db')
     \<and> fst (list_authorized_operations_for_project sample_tx ''p1'' 7 db') = Inr ops'
     \<and> authorize_operation {MCP} [sample_op] MCP ''h'' ''t1'' = Inr sample_op
     \<and> authorize_operation {MCP} ops' MCP ''h'' ''t1'' \<noteq> Inr sample_op"
proof -
  let ?brief = "[(ops_key, JList [operation_json sample_tx sample_op])]"
  define used where "used = sample_op\<lparr>ao_consumed_at := Some (Aware 5)\<rparr>"
  have cons: "consume_operation sample_tx ?brief ''aop_0'' (Aware 5) = Inr [(ops_key, JList [operation_json sample_tx used])]"
    by (simp add: consume_operation_def jget_or_def patch_operation_def operation_json_def jget_def sample_op_def used_def
        iso_write_opt_def)
  obtain db' where upd: "update_project_brief ''p1'' 7 [(ops_key, JList [operation_json sample_tx used])]
      (gate_db (JObj ?brief)) = (Inr (), db')"
    using gate_update [where x = "JObj ?brief" and u = "db_uuids (gate_db (JObj ?brief))"
        and c = "db_clock (gate_db (JObj ?brief))"] by auto
  have run: "consume_authorized_operation_for_project sample_tx ''p1'' 7 ''aop_0'' (Aware 5) (gate_db (JObj ?brief)) = (Inr (), db')"
    using upd cons by (simp add: consume_authorized_operation_for_project_def bindE_def liftR_def gate_brief)
  have before: "fst (list_authorized_operations_for_project sample_tx ''p1'' 7 (gate_db (JObj ?brief))) = Inr [sample_op]"
    by (simp add: list_authorized_operations_for_project_def bindE_def gate_brief liftR_def
        list_authorized_operations_def jget_or_def parse_operation_json [OF sample_tx_ok])
  have after: "fst (list_authorized_operations_for_project sample_tx ''p1'' 7 db') = Inr [used]"
    using update_project_brief_run(1) [OF upd]
    by (simp add: list_authorized_operations_for_project_def bindE_def liftR_def
        list_authorized_operations_def jget_or_def parse_operation_json [OF sample_tx_ok])
  have "authorize_operation {MCP} [sample_op] MCP ''h'' ''t1'' = Inr sample_op"
    by (simp add: authorize_operation_def sample_op_def)
  moreover have "ao_id sample_op = ''aop_0''" by (simp add: sample_op_def)
  ultimately show ?thesis
    using consumed_operation_is_dead [OF sample_tx_ok run before after] run after by blast
qed

theorem request_hash_order_independent_witness:
  "generation_request_hash ''image'' ''m'' ''p'' [''b'', ''a''] 1 [(''x'', JInt 1), (''y'', JNull)]
     = generation_request_hash ''image'' ''m'' ''p'' [''a'', ''b''] 1 [(''y'', JNull), (''x'', JInt 1)]"
  by (rule request_hash_order_independent) auto

end
