(* ===== verification/Commerce_Money.thy ===== *)
theory Commerce_Money
  imports Python_Numbers "HOL-Library.Product_Lexorder"
begin

text \<open>
  Money and paid turnover of the shop adapters: \<open>domain/ecommerce/money.py\<close> and
  \<open>domain/ecommerce/gmv.py\<close>. Amounts are integers in fen (1/100 yuan). The two ratios computed
  in binary floating point are left out.
\<close>

section \<open>Yuan to fen\<close>

abbreviation money_invalid :: "string \<Rightarrow> exc" where
  "money_invalid m \<equiv> MoneyParseError ''TAOBAO_MONEY_INVALID'' m"

abbreviation money_unavailable :: "string \<Rightarrow> exc" where
  "money_unavailable m \<equiv> MoneyParseError ''TAOBAO_MONEY_UNAVAILABLE'' m"

fun decimal_int :: "decimal \<Rightarrow> int" where
  "decimal_int (Finite neg c e) = signed neg (c * 10 ^ nat e div 10 ^ nat (- e))"
| "decimal_int _ = 0"

definition fen_of_decimal :: "string \<Rightarrow> decimal \<Rightarrow> int res" where
  "fen_of_decimal text amount =
     (case amount of
        Finite _ _ _ \<Rightarrow>
          (let scaled = dec_times_100 amount in
           bindR (quantize_unit scaled) (\<lambda>fen.
           if \<not> dec_eq fen scaled
           then Inl (money_invalid (''TOP yuan must have at most 2 decimal places: '' @ repr_str text))
           else Inr (decimal_int fen)))
      | _ \<Rightarrow> Inl (money_invalid (''non-finite TOP yuan: '' @ repr_str text)))"

definition parse_top_yuan_to_fen :: "string option \<Rightarrow> int res" where
  "parse_top_yuan_to_fen value =
     (case value of
        None \<Rightarrow> Inl (money_unavailable ''TOP money field empty'')
      | Some v \<Rightarrow>
          let text = strip v in
          if text = [] then Inl (money_unavailable ''TOP money field empty'')
          else (case decimal_of_text text of
                  None \<Rightarrow> Inl (money_invalid (''invalid TOP yuan string: '' @ repr_str text))
                | Some amount \<Rightarrow> fen_of_decimal text amount))"

section \<open>Amounts of unverified unit\<close>

definition UNIT_UNVERIFIED_AMOUNT_FIELDS :: "string list" where
  "UNIT_UNVERIFIED_AMOUNT_FIELDS =
     [''charge'', ''total_charge'', ''crowd_scene_charge'', ''item_scene_charge'', ''activity_scene_charge'',
      ''display_charge'', ''search_charge'', ''content_scene_charge'', ''shop_scene_charge'', ''ecpc'', ''ecpm'',
      ''alipay_dir_amt'', ''alipay_indir_amt'', ''alipay_inshop_amt'', ''prepay_inshop_amt'', ''prepay_dir_amt'',
      ''prepay_indir_amt'', ''gmv_inshop_amt'', ''alipay_inshop_cost'', ''col_cart_cost'', ''item_col_cart_cost'',
      ''item_col_inshop_cost'', ''shop_col_inshop_cost'', ''cart_cost'', ''shopping_amt'', ''hy_pay_amt'',
      ''natural_pay_amt'', ''alipay_inshop_amt_avg'']"

record unit_unverified_amount =
  ua_field :: string
  ua_raw :: string
  ua_status :: string

definition unverified :: "string \<Rightarrow> string \<Rightarrow> unit_unverified_amount" where
  "unverified field raw = \<lparr> ua_field = field, ua_raw = raw, ua_status = ''UNIT_UNVERIFIED'' \<rparr>"

definition preserve_unit_unverified_amount :: "string \<Rightarrow> string option \<Rightarrow> unit_unverified_amount res" where
  "preserve_unit_unverified_amount field raw =
     (case raw of
        None \<Rightarrow> Inl (money_unavailable (field @ '' raw amount empty''))
      | Some s \<Rightarrow> if strip s = [] then Inl (money_unavailable (field @ '' raw amount empty''))
                   else Inr (unverified field (strip s)))"

definition is_unit_unverified_field :: "string \<Rightarrow> bool" where
  "is_unit_unverified_field field \<longleftrightarrow> field \<in> set UNIT_UNVERIFIED_AMOUNT_FIELDS"

text \<open>The fields form a \<open>frozenset\<close>: only the mapping that results is determined, not its order.\<close>

definition extract_unit_unverified_from_row :: "json dict \<Rightarrow> string \<Rightarrow> unit_unverified_amount option" where
  "extract_unit_unverified_from_row row field =
     (if \<not> is_unit_unverified_field field then None
      else case dict_get row field of
        None \<Rightarrow> None
      | Some v \<Rightarrow> if v = JNull \<or> v = JStr [] then None else Some (unverified field (py_str v)))"

section \<open>Dates\<close>

text \<open>
  \<open>datetime.strptime(text, fmt).date()\<close> for the two formats of the source. A format item is a
  regular expression with alternatives in order of preference; \<open>re.match\<close> takes the first way
  through, and text left over is an error.
\<close>

type_synonym 'a scan = "string \<Rightarrow> ('a \<times> string) list"

definition digits_in :: "nat \<Rightarrow> (nat \<Rightarrow> bool) \<Rightarrow> nat scan" where
  "digits_in k ok s =
     (if k \<le> length s
      then (case all_digits (take k s) of
              Some ds \<Rightarrow> if ok (digits_nat ds) then [(digits_nat ds, drop k s)] else []
            | None \<Rightarrow> [])
      else [])"

definition scan_year :: "nat scan" where "scan_year = digits_in 4 (\<lambda>_. True)"

definition scan_two_or_one :: "(nat \<Rightarrow> bool) \<Rightarrow> (nat \<Rightarrow> bool) \<Rightarrow> nat scan" where
  "scan_two_or_one ok2 ok1 s = digits_in 2 ok2 s @ digits_in 1 ok1 s"

definition scan_month :: "nat scan" where
  "scan_month = scan_two_or_one (\<lambda>n. 1 \<le> n \<and> n \<le> 12) (\<lambda>n. 1 \<le> n)"

definition scan_day :: "nat scan" where
  "scan_day s = scan_two_or_one (\<lambda>n. 1 \<le> n \<and> n \<le> 31) (\<lambda>n. 1 \<le> n) s
     @ (case s of c # r \<Rightarrow> if c = CHR '' '' then digits_in 1 (\<lambda>n. 1 \<le> n) r else [] | [] \<Rightarrow> [])"

definition scan_hour :: "nat scan" where "scan_hour = scan_two_or_one (\<lambda>n. n \<le> 23) (\<lambda>_. True)"
definition scan_minute :: "nat scan" where "scan_minute = scan_two_or_one (\<lambda>n. n \<le> 59) (\<lambda>_. True)"
definition scan_second :: "nat scan" where "scan_second = scan_two_or_one (\<lambda>n. n \<le> 61) (\<lambda>_. True)"

definition scan_char :: "char \<Rightarrow> unit scan" where
  "scan_char c s = (case s of d # r \<Rightarrow> if d = c then [((), r)] else [] | [] \<Rightarrow> [])"

text \<open>\<open>\\s+\<close>, greedy: the longest run first.\<close>

fun spaces_from :: "nat \<Rightarrow> string \<Rightarrow> (unit \<times> string) list" where
  "spaces_from 0 s = []"
| "spaces_from (Suc n) s =
     (case find (\<lambda>w. prefix w s) py_whitespace of
        None \<Rightarrow> []
      | Some w \<Rightarrow> spaces_from n (drop (length w) s) @ [((), drop (length w) s)])"

definition scan_spaces :: "unit scan" where
  "scan_spaces s = spaces_from (length s) s"

definition seq_scan :: "'a scan \<Rightarrow> ('a \<Rightarrow> 'b scan) \<Rightarrow> 'b scan" where
  "seq_scan p f s = concat (map (\<lambda>(a, r). f a r) (p s))"

definition scan_date :: "(nat \<times> nat \<times> nat) scan" where
  "scan_date =
     seq_scan scan_year (\<lambda>y. seq_scan (scan_char (CHR ''-'')) (\<lambda>_. seq_scan scan_month (\<lambda>m.
     seq_scan (scan_char (CHR ''-'')) (\<lambda>_. seq_scan scan_day (\<lambda>d s. [((y, m, d), s)])))))"

definition scan_date_time :: "((nat \<times> nat \<times> nat) \<times> nat) scan" where
  "scan_date_time =
     seq_scan scan_date (\<lambda>date. seq_scan scan_spaces (\<lambda>_. seq_scan scan_hour (\<lambda>h.
     seq_scan (scan_char (CHR '':'')) (\<lambda>_. seq_scan scan_minute (\<lambda>mi. seq_scan (scan_char (CHR '':'')) (\<lambda>_.
     seq_scan scan_second (\<lambda>sec s. [((date, sec), s)])))))))"

definition leap_year :: "nat \<Rightarrow> bool" where
  "leap_year y \<longleftrightarrow> y mod 4 = 0 \<and> (y mod 100 \<noteq> 0 \<or> y mod 400 = 0)"

definition days_in_month :: "nat \<Rightarrow> nat \<Rightarrow> nat" where
  "days_in_month y m = (if m = 2 then (if leap_year y then 29 else 28)
                        else if m \<in> {4, 6, 9, 11} then 30 else 31)"

definition valid_date :: "nat \<times> nat \<times> nat \<Rightarrow> bool" where
  "valid_date d = (case d of (y, m, day) \<Rightarrow> 1 \<le> y \<and> day \<le> days_in_month y m)"

definition whole :: "('a \<times> string) list \<Rightarrow> 'a option" where
  "whole rs = (case rs of (x, r) # _ \<Rightarrow> if r = [] then Some x else None | [] \<Rightarrow> None)"

definition strptime_date_time :: "string \<Rightarrow> (nat \<times> nat \<times> nat) option" where
  "strptime_date_time s =
     (case whole (scan_date_time s) of
        Some (d, sec) \<Rightarrow> if valid_date d \<and> sec \<le> 59 then Some d else None
      | None \<Rightarrow> None)"

definition strptime_date :: "string \<Rightarrow> (nat \<times> nat \<times> nat) option" where
  "strptime_date s = (case whole (scan_date s) of Some d \<Rightarrow> if valid_date d then Some d else None | None \<Rightarrow> None)"

text \<open>The loop over the two formats.\<close>

definition parse_shop_date :: "string \<Rightarrow> (nat \<times> nat \<times> nat) option" where
  "parse_shop_date text =
     (case strptime_date_time text of Some d \<Rightarrow> Some d | None \<Rightarrow> strptime_date text)"

section \<open>Paid turnover\<close>

definition PAID_GMV_STATUS_WHITELIST :: "string list" where
  "PAID_GMV_STATUS_WHITELIST =
     [''WAIT_SELLER_SEND_GOODS'', ''PAID_FORBID_CONSIGN'', ''SELLER_CONSIGNED_PART'', ''WAIT_BUYER_CONFIRM_GOODS'',
      ''TRADE_BUYER_SIGNED'', ''TRADE_FINISHED'', ''TRADE_CLOSED'']"

definition PAID_GMV_STATUS_EXCLUDE :: "string list" where
  "PAID_GMV_STATUS_EXCLUDE =
     [''TRADE_NO_CREATE_PAY'', ''WAIT_BUYER_PAY'', ''TRADE_CLOSED_BY_TAOBAO'', ''PAY_PENDING'', ''WAIT_PRE_AUTH_CONFIRM'']"

abbreviation gmv_unavailable :: "string \<Rightarrow> exc" where
  "gmv_unavailable m \<equiv> GmvUnavailableError ''TAOBAO_GMV_UNAVAILABLE'' m"

record paid_gmv_contribution =
  pg_tid :: string
  pg_payment_fen :: int
  pg_pay_date :: "nat \<times> nat \<times> nat"
  pg_status :: string

definition parse_pay_date :: "string \<Rightarrow> (nat \<times> nat \<times> nat) res" where
  "parse_pay_date pay_time =
     (case parse_shop_date (strip pay_time) of
        Some d \<Rightarrow> Inr d | None \<Rightarrow> Inl (gmv_unavailable (''invalid pay_time: '' @ repr_str pay_time)))"

text \<open>\<open>str(x or "")\<close>, and the emptiness test of the two required fields.\<close>

definition str_or_empty :: "json \<Rightarrow> string" where
  "str_or_empty v = (if py_truthy v then py_str v else [])"

definition absent :: "json \<Rightarrow> bool" where
  "absent v = (case v of JNull \<Rightarrow> True | JStr s \<Rightarrow> strip s = [] | _ \<Rightarrow> False)"

fun as_gmv_error :: "exc \<Rightarrow> exc" where
  "as_gmv_error (MoneyParseError c m) = gmv_unavailable m"
| "as_gmv_error e = e"

definition evaluate_paid_gmv :: "json dict \<Rightarrow> paid_gmv_contribution option res" where
  "evaluate_paid_gmv trade =
     (let status = str_or_empty (jget trade ''status'') in
      if status \<in> set PAID_GMV_STATUS_EXCLUDE \<or> status \<notin> set PAID_GMV_STATUS_WHITELIST then Inr None
      else
        let payment = jget trade ''payment''; pay_time = jget trade ''pay_time'' in
        bindR (assertR (\<not> absent payment) (gmv_unavailable ''whitelist trade missing payment'')) (\<lambda>_.
        bindR (assertR (\<not> absent pay_time) (gmv_unavailable ''whitelist trade missing pay_time'')) (\<lambda>_.
        let tid = strip (str_or_empty (jget trade ''tid'')) in
        bindR (assertR (tid \<noteq> []) (gmv_unavailable ''missing tid'')) (\<lambda>_.
        bindR (case parse_top_yuan_to_fen (Some (py_str payment)) of Inl e \<Rightarrow> Inl (as_gmv_error e) | Inr f \<Rightarrow> Inr f) (\<lambda>fen.
        bindR (parse_pay_date (py_str pay_time)) (\<lambda>d.
        Inr (Some \<lparr> pg_tid = tid, pg_payment_fen = fen, pg_pay_date = d, pg_status = status \<rparr>)))))))"

definition aggregate_paid_gmv_fen :: "paid_gmv_contribution list \<Rightarrow> int" where
  "aggregate_paid_gmv_fen items =
     sum_list (map (\<lambda>kv. pg_payment_fen (snd kv)) (fold (\<lambda>c d. dict_set d (pg_tid c) c) items []))"

end
