(* ===== verification/Refunds_Tmc.thy ===== *)
theory Refunds_Tmc
  imports Commerce_Money
begin

text \<open>
  Refund snapshots (\<open>domain/ecommerce/refund.py\<close>) and the message accelerator
  (\<open>domain/ecommerce/tmc.py\<close>). Both keep their state in memory; an exception leaves the writes made
  before it. The REST interface that refreshes a trade, a refund or an item is a parameter, given
  anew to every call because its answers change with time.
\<close>

section \<open>Refund snapshots\<close>

record refund_snapshot =
  rf_id :: string
  rf_version :: int
  rf_status :: string
  rf_fee_fen :: int
  rf_oid :: string
  rf_date :: "nat \<times> nat \<times> nat"

record refund_store =
  rs_events :: "json dict list"
  rs_snapshots :: "(string \<times> refund_snapshot) list"
  rs_seen :: "(string \<times> int) set"

definition empty_refund_store :: refund_store where
  "empty_refund_store = \<lparr> rs_events = [], rs_snapshots = [], rs_seen = {} \<rparr>"

definition event_at :: "json dict \<Rightarrow> string \<Rightarrow> json res" where
  "event_at d k = (case dict_get d k of None \<Rightarrow> Inl (KeyError k) | Some v \<Rightarrow> Inr v)"

definition refund_date :: "json dict \<Rightarrow> (nat \<times> nat \<times> nat) res" where
  "refund_date event =
     (let end_time = jget event ''end_time'';
          raw = (if end_time = JNull \<or> end_time = JStr [] then jget event ''modified'' else end_time) in
      if raw = JNull \<or> raw = JStr [] then Inl (ValueError ''refund event missing end_time and modified'')
      else
        let text = strip (py_str raw) in
        case parse_shop_date text of
          Some d \<Rightarrow> Inr d | None \<Rightarrow> Inl (ValueError (''invalid refund time: '' @ repr_str text)))"

text \<open>The identity of an event, and the snapshot it describes.\<close>

definition refund_key :: "json dict \<Rightarrow> (string \<times> int) res" where
  "refund_key event =
     bindR (event_at event ''refund_id'') (\<lambda>i.
     bindR (bindR (event_at event ''refund_version'') py_int) (\<lambda>v. Inr (py_str i, v)))"

definition snapshot_of :: "json dict \<Rightarrow> string \<Rightarrow> int \<Rightarrow> refund_snapshot res" where
  "snapshot_of event i v =
     bindR (event_at event ''refund_fee'') (\<lambda>fee.
     bindR (parse_top_yuan_to_fen (Some (py_str fee))) (\<lambda>fen.
     bindR (refund_date event) (\<lambda>d.
     bindR (event_at event ''status'') (\<lambda>st.
     Inr \<lparr> rf_id = i, rf_version = v, rf_status = py_str st, rf_fee_fen = fen,
           rf_oid = str_or_empty (jget event ''oid''), rf_date = d \<rparr>))))"

definition apply_event :: "json dict \<Rightarrow> (refund_store, unit) eff" where
  "apply_event event =
     bindE (liftR (refund_key event)) (\<lambda>(i, v).
     bindE (modify (\<lambda>s. s\<lparr>rs_events := rs_events s @ [event]\<rparr>)) (\<lambda>_.
     bindE (gets (\<lambda>s. (i, v) \<in> rs_seen s)) (\<lambda>seen.
     if seen then ret ()
     else
       bindE (modify (\<lambda>s. s\<lparr>rs_seen := insert (i, v) (rs_seen s)\<rparr>)) (\<lambda>_.
       bindE (gets (\<lambda>s. dict_get (rs_snapshots s) i)) (\<lambda>current.
       if (case current of None \<Rightarrow> False | Some c \<Rightarrow> v < rf_version c) then ret ()
       else if (case current of None \<Rightarrow> False | Some c \<Rightarrow> v = rf_version c) then ret ()
       else
         bindE (liftR (snapshot_of event i v)) (\<lambda>snap.
         modify (\<lambda>s. s\<lparr>rs_snapshots := dict_set (rs_snapshots s) i snap\<rparr>)))))))"

definition current_snapshot :: "refund_store \<Rightarrow> string \<Rightarrow> refund_snapshot option" where
  "current_snapshot s i = dict_get (rs_snapshots s) i"

definition all_current_snapshots :: "refund_store \<Rightarrow> refund_snapshot list" where
  "all_current_snapshots s = map snd (rs_snapshots s)"

definition aggregate_success_refund_fee_fen :: "refund_store \<Rightarrow> int" where
  "aggregate_success_refund_fee_fen s =
     sum_list (map rf_fee_fen (filter (\<lambda>r. rf_status r = ''SUCCESS'') (all_current_snapshots s)))"

definition aggregate_success_refund_fee_fen_in_window ::
  "refund_store \<Rightarrow> nat \<times> nat \<times> nat \<Rightarrow> nat \<times> nat \<times> nat \<Rightarrow> int" where
  "aggregate_success_refund_fee_fen_in_window s window_start window_end =
     sum_list (map rf_fee_fen (filter (\<lambda>r. rf_status r = ''SUCCESS'' \<and> window_start \<le> rf_date r \<and> rf_date r \<le> window_end)
       (all_current_snapshots s)))"

definition net_paid_after_refunds ::
  "int \<Rightarrow> refund_store \<Rightarrow> nat \<times> nat \<times> nat \<Rightarrow> nat \<times> nat \<times> nat \<Rightarrow> int" where
  "net_paid_after_refunds paid_gmv_fen s window_start window_end =
     paid_gmv_fen - aggregate_success_refund_fee_fen_in_window s window_start window_end"

section \<open>The message accelerator\<close>

definition V1_TOPICS :: "string list" where
  "V1_TOPICS =
     [''taobao_trade_TradeBuyerPay'', ''taobao_trade_TradeSellerShip'', ''taobao_trade_TradeSuccess'',
      ''taobao_trade_TradeClose'', ''taobao_trade_TradeChanged'', ''taobao_trade_TradePartlyRefund'',
      ''taobao_refund_RefundCreated'', ''taobao_refund_RefundSuccess'', ''taobao_refund_RefundClosed'',
      ''taobao_item_ItemAdd'', ''taobao_item_ItemUpdate'', ''taobao_item_ItemUpshelf'',
      ''taobao_item_ItemDownshelf'', ''taobao_item_ItemDelete'']"

datatype topic_kind = TRADE | REFUND | ITEM

record tmc_message =
  tm_id :: string
  tm_topic :: string
  tm_content :: "json dict"

record tmc_handle_result =
  th_confirmed :: bool
  th_reason :: "string option"
  th_business_key :: "string option"

record rest_port =
  refresh_trade :: "string \<Rightarrow> json dict res"
  refresh_refund :: "string \<Rightarrow> json dict res"
  refresh_item :: "string \<Rightarrow> json dict res"

record tmc_state =
  tc_refunds :: refund_store
  tc_seen_ids :: "string set"
  tc_seen_keys :: "string set"
  tc_confirmed :: "string list"
  tc_trades :: "(string \<times> json dict) list"
  tc_items :: "(string \<times> json dict) list"

definition topic_kind_of :: "string \<Rightarrow> topic_kind" where
  "topic_kind_of topic =
     (if prefix ''taobao_trade_'' topic then TRADE
      else if prefix ''taobao_refund_'' topic then REFUND else ITEM)"

definition business_key :: "tmc_message \<Rightarrow> string" where
  "business_key m =
     (let c = tm_content m; t = tm_topic m in
      if prefix ''taobao_refund_'' t then ''refund:'' @ py_str (jget c ''refund_id'')
      else if prefix ''taobao_item_'' t then ''item:'' @ py_str (jget c ''num_iid'') @ '':'' @ t
      else ''trade:'' @ py_str (jget c ''tid'') @ '':'' @ t)"

text \<open>The refund store is part of the accelerator's state.\<close>

definition on_refunds :: "(refund_store, 'a) eff \<Rightarrow> (tmc_state, 'a) eff" where
  "on_refunds m s = (case m (tc_refunds s) of (r, t) \<Rightarrow> (r, s\<lparr>tc_refunds := t\<rparr>))"

definition refresh_and_store :: "rest_port \<Rightarrow> tmc_message \<Rightarrow> (tmc_state, unit) eff" where
  "refresh_and_store rest m =
     (case topic_kind_of (tm_topic m) of
        TRADE \<Rightarrow>
          bindE (liftR (event_at (tm_content m) ''tid'')) (\<lambda>v.
          bindE (liftR (refresh_trade rest (py_str v))) (\<lambda>snap.
          modify (\<lambda>s. s\<lparr>tc_trades := dict_set (tc_trades s) (py_str v) snap\<rparr>)))
      | REFUND \<Rightarrow>
          bindE (liftR (event_at (tm_content m) ''refund_id'')) (\<lambda>v.
          bindE (liftR (refresh_refund rest (py_str v))) (\<lambda>snap.
          on_refunds (apply_event snap)))
      | ITEM \<Rightarrow>
          bindE (liftR (event_at (tm_content m) ''num_iid'')) (\<lambda>v.
          bindE (liftR (refresh_item rest (py_str v))) (\<lambda>snap.
          modify (\<lambda>s. s\<lparr>tc_items := dict_set (tc_items s) (py_str v) snap\<rparr>))))"

text \<open>\<open>handle\<close>: every exception of the body is caught.\<close>

definition tmc_handle :: "rest_port \<Rightarrow> tmc_message \<Rightarrow> tmc_state \<Rightarrow> tmc_handle_result \<times> tmc_state" where
  "tmc_handle rest m s =
     (if tm_topic m \<notin> set V1_TOPICS
      then (\<lparr> th_confirmed = False, th_reason = Some ''unsupported_topic'', th_business_key = None \<rparr>, s)
      else
        let k = business_key m in
        if tm_id m \<in> tc_seen_ids s \<or> k \<in> tc_seen_keys s
        then (\<lparr> th_confirmed = True, th_reason = Some ''duplicate'', th_business_key = Some k \<rparr>,
              s\<lparr>tc_confirmed := tc_confirmed s @ [tm_id m], tc_seen_ids := insert (tm_id m) (tc_seen_ids s)\<rparr>)
        else
          case refresh_and_store rest m s of
            (Inl e, t) \<Rightarrow> (\<lparr> th_confirmed = False, th_reason = Some (''handler_error:'' @ exc_str e),
                              th_business_key = Some k \<rparr>, t)
          | (Inr _, t) \<Rightarrow> (\<lparr> th_confirmed = True, th_reason = None, th_business_key = Some k \<rparr>,
              t\<lparr>tc_seen_ids := insert (tm_id m) (tc_seen_ids t), tc_seen_keys := insert k (tc_seen_keys t),
                tc_confirmed := tc_confirmed t @ [tm_id m]\<rparr>))"

definition rest_compensate_trades :: "rest_port \<Rightarrow> string list \<Rightarrow> (tmc_state, unit) eff" where
  "rest_compensate_trades rest tids =
     forE tids (\<lambda>tid. bindE (liftR (refresh_trade rest tid)) (\<lambda>snap.
       modify (\<lambda>s. s\<lparr>tc_trades := dict_set (tc_trades s) tid snap\<rparr>)))"

definition rest_compensate_refunds :: "json dict list \<Rightarrow> (tmc_state, unit) eff" where
  "rest_compensate_refunds payloads = forE payloads (\<lambda>p. on_refunds (apply_event p))"

end
