(* ===== verification/Turnover_Properties.thy ===== *)
theory Turnover_Properties
  imports Commerce_Money
begin

text \<open>
  Amounts in yuan become fen exactly or not at all, and the paid turnover counts every trade once.
\<close>

section \<open>Decimal arithmetic\<close>

lemma ndigits_mono: "m \<le> n \<Longrightarrow> ndigits m \<le> ndigits n"
proof (induction n arbitrary: m rule: less_induct)
  case (less n)
  show ?case
  proof (cases "m < 10")
    case True
    then show ?thesis by (simp add: ndigits.simps [of m] ndigits.simps [of n])
  next
    case False
    with less have "ndigits (m div 10) \<le> ndigits (n div 10)" by (simp add: div_le_mono)
    with False less.prems show ?thesis by (simp add: ndigits.simps [of m] ndigits.simps [of n])
  qed
qed

lemma half_even_le: "half_even n k \<le> n"
proof (cases "n mod 10 ^ k = 0")
  case True
  then show ?thesis by (simp add: half_even_def Let_def)
next
  case False
  have "half_even n k \<le> n div 10 ^ k + n mod 10 ^ k" using False by (simp add: half_even_def Let_def)
  also have "\<dots> \<le> n div 10 ^ k * 10 ^ k + n mod 10 ^ k" by simp
  also have "\<dots> = n" by (rule div_mult_mod_eq)
  finally show ?thesis .
qed

lemma half_even_exact_iff: "half_even n k * 10 ^ k = n \<longleftrightarrow> 10 ^ k dvd n"
proof
  assume "10 ^ k dvd n"
  then show "half_even n k * 10 ^ k = n" by (simp add: half_even_def Let_def)
next
  assume "half_even n k * 10 ^ k = n"
  then show "10 ^ k dvd n" by (metis dvd_triv_right)
qed

lemma half_even_dvd: "10 ^ k dvd n \<Longrightarrow> half_even n k = n div 10 ^ k"
  by (simp add: half_even_def Let_def)

lemma signed_inject [simp]: "signed neg m = signed neg n \<longleftrightarrow> m = n"
  by (simp add: signed_def)

lemma dec_times_100_short: "ndigits (c * 100) \<le> decimal_prec \<Longrightarrow> dec_times_100 (Finite neg c e) = Finite neg (c * 100) e"
  by (simp add: dec_times_100_def dec_round_def)

lemma decimal_of_text_empty: "decimal_of_text [] = None"
proof -
  have "strip [] = []" using rstrip_prefix [of "[]"] by (simp add: strip_def lstrip_def drop_words_id)
  then show ?thesis
    by (simp add: decimal_of_text_def split_sign_def lower_eq_def ascii_lower_def is_nan_text_def all_digits_def
        digit_value_def split_at_char_def decimal_exponent_def)
qed

text \<open>
  An amount in yuan that is a decimal \<open>c * 10 ^ e\<close> of at most 26 significant digits becomes
  exactly one hundred times its value, or an error: the money error when it is not a whole number of
  fen, and the \<open>InvalidOperation\<close> of the decimal library when the result has more than 28 digits.
  No amount is rounded.
\<close>

theorem yuan_to_fen_exact:
  assumes "decimal_of_text (strip v) = Some (Finite neg c e)" "ndigits (c * 100) \<le> 28"
  shows "parse_top_yuan_to_fen (Some v) =
    (if 0 \<le> e
     then if 28 < ndigits (c * 100 * 10 ^ nat e) then Inl (InvalidOperation ''quantize'')
          else Inr (signed neg (c * 100 * 10 ^ nat e))
     else if 10 ^ nat (- e) dvd c * 100 then Inr (signed neg (c * 100 div 10 ^ nat (- e)))
     else Inl (MoneyParseError ''TAOBAO_MONEY_INVALID''
       (''TOP yuan must have at most 2 decimal places: '' @ repr_str (strip v))))"
proof -
  have ne: "strip v \<noteq> []" using assms(1) decimal_of_text_empty by auto
  have p: "parse_top_yuan_to_fen (Some v) = fen_of_decimal (strip v) (Finite neg c e)"
    using ne assms(1) by (simp add: parse_top_yuan_to_fen_def Let_def)
  have t: "dec_times_100 (Finite neg c e) = Finite neg (c * 100) e"
    using assms(2) by (simp add: dec_times_100_short decimal_prec_def)
  show ?thesis
  proof (cases "0 \<le> e")
    case True
    then show ?thesis
      by (simp add: p fen_of_decimal_def t quantize_unit_def decimal_prec_def Let_def)
  next
    case False
    let ?k = "nat (- e)"
    have fits: "\<not> 28 < ndigits (half_even (c * 100) ?k)"
      using ndigits_mono [OF half_even_le, of "c * 100" ?k] assms(2) by simp
    have "dec_eq (Finite neg (half_even (c * 100) ?k) 0) (Finite neg (c * 100) e) \<longleftrightarrow> 10 ^ ?k dvd c * 100"
      using False half_even_exact_iff [of "c * 100" ?k] by (simp add: min_def)
    with False fits half_even_dvd [of ?k "c * 100"] show ?thesis
      by (simp add: p fen_of_decimal_def t quantize_unit_def decimal_prec_def Let_def)
  qed
qed

lemmas decimal_eval = decimal_of_text_def split_sign_def lower_eq_def ascii_lower_def is_nan_text_def all_digits_def
  digit_value_def split_at_char_def decimal_exponent_def digits_nat_def strip_plain plain_char_def Let_def

lemmas fen_eval = fen_of_decimal_def dec_times_100_def dec_round_def decimal_prec_def ndigits.simps
  quantize_unit_def half_even_def signed_def

theorem yuan_to_fen_exact_witness: "parse_top_yuan_to_fen (Some ''19.90'') = Inr 1990"
proof -
  have "decimal_of_text (strip ''19.90'') = Some (Finite False 1990 (- 2))" by (simp add: decimal_eval)
  from yuan_to_fen_exact [OF this] show ?thesis by (simp add: ndigits.simps signed_def)
qed

text \<open>Beyond the precision of the context the product is rounded before the test for whole fen, so that
  an amount with three decimal places passes.\<close>

lemma long_amount_is_rounded:
  "parse_top_yuan_to_fen (Some ''12345678901234567890123456.001'') = Inr 1234567890123456789012345600"
  by (simp add: parse_top_yuan_to_fen_def decimal_eval fen_eval)

section \<open>Paid turnover\<close>

text \<open>The contribution that stands for a trade is the last one.\<close>

definition last_of_trade :: "paid_gmv_contribution list \<Rightarrow> string \<Rightarrow> paid_gmv_contribution option" where
  "last_of_trade items t = find (\<lambda>c. pg_tid c = t) (rev items)"

abbreviation by_trade :: "paid_gmv_contribution list \<Rightarrow> (string \<times> paid_gmv_contribution) list" where
  "by_trade items \<equiv> fold (\<lambda>c d. dict_set d (pg_tid c) c) items []"

lemma by_trade_distinct: "distinct (map fst (by_trade items))"
  by (induction items rule: rev_induct) (simp_all add: distinct_update)

lemma by_trade_lookup: "dict_get (by_trade items) t = last_of_trade items t"
  by (induction items rule: rev_induct) (auto simp: last_of_trade_def update_conv')

lemma by_trade_keys: "fst ` set (by_trade items) = pg_tid ` set items"
  by (induction items rule: rev_induct) (auto simp: dom_update)

lemma dict_sum:
  "distinct (map fst d) \<Longrightarrow> sum_list (map (\<lambda>kv. f (snd kv)) d) = (\<Sum>k\<in>fst ` set d. f (the (map_of d k)))"
proof (induction d)
  case (Cons kv d)
  then have "fst kv \<notin> fst ` set d" by simp
  then have "(\<Sum>k\<in>fst ` set d. f (the (map_of (kv # d) k))) = (\<Sum>k\<in>fst ` set d. f (the (map_of d k)))"
    by (intro sum.cong refl) (metis map_of_Cons_code(2) prod.collapse)
  with Cons show ?case by (cases kv) simp
qed simp

text \<open>
  The paid turnover counts every trade once: it is the sum, over the trade identifiers of the
  contributions, of the payment of the last contribution of the trade, however often a trade was
  delivered.
\<close>

theorem gmv_counts_each_trade_once:
  "aggregate_paid_gmv_fen items
     = (\<Sum>t\<in>pg_tid ` set items. pg_payment_fen (the (last_of_trade items t)))"
  unfolding aggregate_paid_gmv_fen_def dict_sum [OF by_trade_distinct] by_trade_keys by_trade_lookup ..

text \<open>
  A trade enters the paid turnover exactly when its status is one of the paid states and its
  identifier, payment and payment time can be read; then the contribution carries the identifier
  without surrounding white space, the payment in fen and the day of payment. A trade in any other
  state contributes nothing and raises nothing, whatever its other fields hold.
\<close>

theorem paid_trade_contribution_iff:
  "evaluate_paid_gmv trade = Inr (Some c) \<longleftrightarrow>
     pg_status c = str_or_empty (jget trade ''status'')
     \<and> pg_status c \<in> {''WAIT_SELLER_SEND_GOODS'', ''PAID_FORBID_CONSIGN'', ''SELLER_CONSIGNED_PART'',
          ''WAIT_BUYER_CONFIRM_GOODS'', ''TRADE_BUYER_SIGNED'', ''TRADE_FINISHED'', ''TRADE_CLOSED''}
     \<and> pg_tid c = strip (str_or_empty (jget trade ''tid'')) \<and> pg_tid c \<noteq> []
     \<and> \<not> absent (jget trade ''payment'') \<and> \<not> absent (jget trade ''pay_time'')
     \<and> parse_top_yuan_to_fen (Some (py_str (jget trade ''payment''))) = Inr (pg_payment_fen c)
     \<and> parse_shop_date (strip (py_str (jget trade ''pay_time''))) = Some (pg_pay_date c)"
proof -
  let ?s = "str_or_empty (jget trade ''status'')"
  have disj: "?s \<in> set PAID_GMV_STATUS_WHITELIST \<Longrightarrow> ?s \<notin> set PAID_GMV_STATUS_EXCLUDE"
    by (auto simp: PAID_GMV_STATUS_WHITELIST_def PAID_GMV_STATUS_EXCLUDE_def)
  have white: "set PAID_GMV_STATUS_WHITELIST = {''WAIT_SELLER_SEND_GOODS'', ''PAID_FORBID_CONSIGN'', ''SELLER_CONSIGNED_PART'',
          ''WAIT_BUYER_CONFIRM_GOODS'', ''TRADE_BUYER_SIGNED'', ''TRADE_FINISHED'', ''TRADE_CLOSED''}"
    by (simp add: PAID_GMV_STATUS_WHITELIST_def)
  show ?thesis
  proof (cases "?s \<in> set PAID_GMV_STATUS_WHITELIST")
    case False
    then show ?thesis unfolding white [symmetric] by (auto simp: evaluate_paid_gmv_def Let_def)
  next
    case True
    with disj show ?thesis unfolding white [symmetric]
      by (cases c) (auto simp: evaluate_paid_gmv_def Let_def bindR_Inr parse_pay_date_def split: sum.splits option.splits)
  qed
qed

end
