(* ===== verification/Versioned_Register.thy ===== *)
theory Versioned_Register
  imports Prelude
begin

text \<open>
  The contract of a store that keeps, for every key, the value with the highest version among the
  events applied to it, and what follows from it: the outcome of a sequence of events, and its
  independence of the order and the repetition of deliveries.
\<close>

locale versioned_register =
  fixes inv :: "'s \<Rightarrow> bool"
    and step :: "'e \<Rightarrow> 's \<Rightarrow> 's"
    and look :: "'s \<Rightarrow> 'k \<Rightarrow> 'v option"
    and describes :: "'e \<Rightarrow> ('k \<times> 'v) option"
    and version :: "'v \<Rightarrow> int"
  assumes inv_step: "inv s \<Longrightarrow> describes e = Some (k, v) \<Longrightarrow> inv (step e s)"
    and look_other: "inv s \<Longrightarrow> describes e = Some (k, v) \<Longrightarrow> j \<noteq> k \<Longrightarrow> look (step e s) j = look s j"
    and look_same: "inv s \<Longrightarrow> describes e = Some (k, v) \<Longrightarrow>
          look (step e s) k =
            (case look s k of None \<Rightarrow> Some v | Some c \<Rightarrow> Some (if version c < version v then v else c))"
begin

text \<open>The value the first event with the highest version describes.\<close>

definition newest :: "'e list \<Rightarrow> 'k \<Rightarrow> 'v \<Rightarrow> bool" where
  "newest es k v \<longleftrightarrow>
     (\<exists>xs e ys. es = xs @ e # ys \<and> describes e = Some (k, v)
        \<and> (\<forall>x\<in>set xs. \<forall>w. describes x = Some (k, w) \<longrightarrow> version w < version v)
        \<and> (\<forall>y\<in>set ys. \<forall>w. describes y = Some (k, w) \<longrightarrow> version w \<le> version v))"

abbreviation described :: "'e list \<Rightarrow> bool" where
  "described es \<equiv> (\<forall>e\<in>set es. describes e \<noteq> None)"

lemma inv_fold: "inv s \<Longrightarrow> described es \<Longrightarrow> inv (fold step es s)"
  by (induction es arbitrary: s) (auto intro: inv_step)

lemma newest_snoc_new:
  assumes "describes e = Some (k, v)" "\<And>x w. x \<in> set es \<Longrightarrow> describes x = Some (k, w) \<Longrightarrow> version w < version v"
  shows "newest (es @ [e]) k v"
  unfolding newest_def using assms by (intro exI [of _ es] exI [of _ e] exI [of _ "[]"]) auto

lemma newest_snoc_old:
  assumes "newest es k v" "\<And>w. describes e = Some (k, w) \<Longrightarrow> version w \<le> version v"
  shows "newest (es @ [e]) k v"
proof -
  from assms(1) obtain xs x ys where es: "es = xs @ x # ys" "describes x = Some (k, v)"
      "\<forall>x\<in>set xs. \<forall>w. describes x = Some (k, w) \<longrightarrow> version w < version v"
      "\<forall>y\<in>set ys. \<forall>w. describes y = Some (k, w) \<longrightarrow> version w \<le> version v"
    unfolding newest_def by blast
  show ?thesis
    unfolding newest_def using es assms(2) by (intro exI [of _ xs] exI [of _ x] exI [of _ "ys @ [e]"]) auto
qed

lemma newest_max:
  assumes "newest es k v" "x \<in> set es" "describes x = Some (k, w)"
  shows "version w \<le> version v"
  using assms unfolding newest_def by fastforce

lemma newest_in: "newest es k v \<Longrightarrow> \<exists>e\<in>set es. describes e = Some (k, v)"
  unfolding newest_def by auto

lemma newest_unique:
  assumes "newest es k v" "newest es k w"
  shows "v = w"
proof -
  obtain xs e ys where v: "es = xs @ e # ys" "describes e = Some (k, v)"
      "\<forall>x\<in>set xs. \<forall>w. describes x = Some (k, w) \<longrightarrow> version w < version v"
    using assms(1) unfolding newest_def by blast
  obtain xs' e' ys' where w: "es = xs' @ e' # ys'" "describes e' = Some (k, w)"
      "\<forall>x\<in>set xs'. \<forall>u. describes x = Some (k, u) \<longrightarrow> version u < version w"
    using assms(2) unfolding newest_def by blast
  have "e' \<in> set es" "e \<in> set es" by (metis v(1) w(1) in_set_conv_decomp)+
  then have eq: "version v = version w"
    using newest_max [OF assms(1) _ w(2)] newest_max [OF assms(2) _ v(2)] by simp
  have "e' \<notin> set xs" "e \<notin> set xs'" using v w eq by auto
  with v(1) w(1) have "e = e'" by (auto simp: append_eq_append_conv2 Cons_eq_append_conv append_eq_Cons_conv)
  with v(2) w(2) show ?thesis by simp
qed

lemma look_step_newest:
  assumes "inv s" and e: "describes e = Some (j, u)"
    and some: "\<And>k v. look s k = Some v \<Longrightarrow> newest es k v"
    and none: "\<And>k x w. look s k = None \<Longrightarrow> x \<in> set es \<Longrightarrow> describes x \<noteq> Some (k, w)"
    and l: "look (step e s) k = Some v"
  shows "newest (es @ [e]) k v"
proof (cases "k = j")
  case False
  with l look_other [OF assms(1) e] some have "newest es k v" by metis
  then show ?thesis using e False by (intro newest_snoc_old) auto
next
  case k: True
  show ?thesis
  proof (cases "look s j")
    case None
    with l k look_same [OF assms(1) e] have "v = u" by simp
    with none None k e show ?thesis by (metis newest_snoc_new)
  next
    case (Some c)
    then have c: "newest es j c" using some by simp
    show ?thesis
    proof (cases "version c < version u")
      case True
      with l k Some look_same [OF assms(1) e] have "v = u" by simp
      moreover have "version w < version u" if "x \<in> set es" "describes x = Some (j, w)" for x w
        using newest_max [OF c that] True by simp
      ultimately show ?thesis using k e by (metis newest_snoc_new)
    next
      case False
      with l k Some look_same [OF assms(1) e] have "v = c" by simp
      with c False k e show ?thesis by (intro newest_snoc_old) auto
    qed
  qed
qed

lemma fold_newest_aux:
  assumes "inv s" "\<And>k. look s k = None" "described es"
  shows "(\<forall>k v. look (fold step es s) k = Some v \<longrightarrow> newest es k v)
    \<and> (\<forall>k. look (fold step es s) k = None \<longleftrightarrow> (\<forall>e\<in>set es. \<forall>w. describes e \<noteq> Some (k, w)))"
  using assms(3)
proof (induction es rule: rev_induct)
  case Nil
  then show ?case using assms(2) by simp
next
  case (snoc e es)
  let ?s = "fold step es s"
  from snoc.prems have d: "described es" and "describes e \<noteq> None" by auto
  then obtain j u where e: "describes e = Some (j, u)" by fastforce
  have inv: "inv ?s" by (rule inv_fold [OF assms(1) d])
  note IH = snoc.IH [OF d]
  have "newest (es @ [e]) k v" if "look (step e ?s) k = Some v" for k v
    by (rule look_step_newest [OF inv e _ _ that]) (use IH in auto)
  moreover have "look (step e ?s) k = None \<longleftrightarrow> (\<forall>x\<in>set (es @ [e]). \<forall>w. describes x \<noteq> Some (k, w))" for k
    using look_other [OF inv e, of k] look_same [OF inv e] IH e by (cases "k = j") (auto split: option.splits)
  ultimately show ?case by simp
qed

lemma fold_newest_none:
  assumes "inv s" "\<And>k. look s k = None" "described es"
  shows "look (fold step es s) k = None \<longleftrightarrow> (\<forall>e\<in>set es. \<forall>w. describes e \<noteq> Some (k, w))"
  using fold_newest_aux [OF assms] by blast

lemma fold_newest:
  assumes "inv s" "\<And>k. look s k = None" "described es"
  shows "look (fold step es s) k = Some v \<longleftrightarrow> newest es k v"
proof
  assume n: "newest es k v"
  then have "look (fold step es s) k \<noteq> None" using fold_newest_none [OF assms] newest_in by metis
  then obtain w where w: "look (fold step es s) k = Some w" by auto
  with fold_newest_aux [OF assms] newest_unique [OF n] show "look (fold step es s) k = Some v" by metis
qed (use fold_newest_aux [OF assms] in blast)

text \<open>Two deliveries of the same events, in any order and with any repetition, agree when events with
  the same key and version describe the same value.\<close>

definition agreeing :: "'e list \<Rightarrow> bool" where
  "agreeing es \<longleftrightarrow>
     (\<forall>e\<in>set es. \<forall>f\<in>set es. \<forall>k v w. describes e = Some (k, v) \<longrightarrow> describes f = Some (k, w) \<longrightarrow>
        version v = version w \<longrightarrow> v = w)"

lemma newest_same_events:
  assumes "set es = set fs" "agreeing es" "newest es k v" "newest fs k w"
  shows "v = w"
proof -
  obtain e f where ef: "e \<in> set es" "describes e = Some (k, v)" "f \<in> set es" "describes f = Some (k, w)"
    using newest_in [OF assms(3)] newest_in [OF assms(4)] assms(1) by auto
  have "version v = version w"
    using newest_max [OF assms(3) ef(3,4)] newest_max [OF assms(4) _ ef(2)] ef(1) assms(1) by simp
  with ef assms(2) show ?thesis unfolding agreeing_def by blast
qed

lemma converges:
  assumes s: "inv s" "\<And>k. look s k = None" "described es" and same: "set es = set fs" "agreeing es"
  shows "look (fold step es s) k = look (fold step fs s) k"
proof -
  have fs: "described fs" using s(3) same(1) by simp
  have none: "look (fold step es s) k = None \<longleftrightarrow> look (fold step fs s) k = None"
    using fold_newest_none [OF s] fold_newest_none [OF s(1,2) fs] same(1) by simp
  moreover have "v = w" if "look (fold step es s) k = Some v" "look (fold step fs s) k = Some w" for v w
    using newest_same_events [OF same] fold_newest [OF s] fold_newest [OF s(1,2) fs] that by metis
  ultimately show ?thesis by (cases "look (fold step es s) k") (metis option.exhaust)+
qed

end

end
