(* ===== verification/Refund_Properties.thy ===== *)
theory Refund_Properties
  imports Refunds_Tmc Turnover_Properties Versioned_Register "HOL-Library.Multiset"
begin

text \<open>
  The refund store is a versioned register: after any sequence of well-formed events every refund
  shows the snapshot of its highest version, and the amounts derived from it do not depend on the
  order or the repetition of deliveries. An event that fails to parse uses its version up.
\<close>

section \<open>One event\<close>

text \<open>The refund and the snapshot a well-formed event describes.\<close>

definition event_snapshot :: "json dict \<Rightarrow> (string \<times> refund_snapshot) option" where
  "event_snapshot event =
     (case refund_key event of
        Inl _ \<Rightarrow> None
      | Inr (i, v) \<Rightarrow> (case snapshot_of event i v of Inl _ \<Rightarrow> None | Inr r \<Rightarrow> Some (i, r)))"

definition refund_inv :: "refund_store \<Rightarrow> bool" where
  "refund_inv s \<longleftrightarrow> distinct (map fst (rs_snapshots s))
     \<and> (\<forall>i v. (i, v) \<in> rs_seen s \<longrightarrow> (\<exists>c. current_snapshot s i = Some c \<and> v \<le> rf_version c))"

abbreviation refund_step :: "json dict \<Rightarrow> refund_store \<Rightarrow> refund_store" where
  "refund_step e s \<equiv> snd (apply_event e s)"

lemma snapshot_of_fields: "snapshot_of e i v = Inr r \<Longrightarrow> rf_id r = i \<and> rf_version r = v"
  by (auto simp: snapshot_of_def bindR_Inr)

lemma event_snapshot_SomeD:
  assumes "event_snapshot e = Some (i, r)"
  shows "refund_key e = Inr (i, rf_version r)" "snapshot_of e i (rf_version r) = Inr r"
  using assms snapshot_of_fields by (auto simp: event_snapshot_def split: sum.splits prod.splits)

lemma apply_event_run:
  assumes "event_snapshot e = Some (i, r)" and inv: "refund_inv s"
  shows "apply_event e s =
    (Inr (), s\<lparr> rs_events := rs_events s @ [e], rs_seen := insert (i, rf_version r) (rs_seen s),
       rs_snapshots := (case current_snapshot s i of
          None \<Rightarrow> dict_set (rs_snapshots s) i r
        | Some c \<Rightarrow> if rf_version c < rf_version r then dict_set (rs_snapshots s) i r else rs_snapshots s) \<rparr>)"
proof (cases "(i, rf_version r) \<in> rs_seen s")
  case True
  with inv obtain c where "current_snapshot s i = Some c" "rf_version r \<le> rf_version c"
    unfolding refund_inv_def by blast
  with True event_snapshot_SomeD [OF assms(1)] show ?thesis
    by (simp add: apply_event_def eff_simps insert_absorb)
next
  case False
  with event_snapshot_SomeD [OF assms(1)] show ?thesis
    by (cases "current_snapshot s i") (auto simp: apply_event_def eff_simps current_snapshot_def)
qed

lemma look_refund_step:
  assumes "event_snapshot e = Some (i, r)" "refund_inv s"
  shows "current_snapshot (refund_step e s) j =
    (if j = i then (case current_snapshot s i of None \<Rightarrow> Some r
                    | Some c \<Rightarrow> Some (if rf_version c < rf_version r then r else c))
     else current_snapshot s j)"
  unfolding apply_event_run [OF assms]
  by (cases "dict_get (rs_snapshots s) i") (simp_all add: current_snapshot_def update_conv')

lemma refund_inv_step:
  assumes e: "event_snapshot e = Some (i, r)" and inv: "refund_inv s"
  shows "refund_inv (refund_step e s)"
proof -
  have "distinct (map fst (rs_snapshots (refund_step e s)))"
    unfolding apply_event_run [OF e inv] using inv
    by (cases "current_snapshot s i") (simp_all add: refund_inv_def distinct_update)
  moreover have "\<exists>c. current_snapshot (refund_step e s) j = Some c \<and> v \<le> rf_version c"
    if seen: "(j, v) \<in> rs_seen (refund_step e s)" for j v
  proof (cases "(j, v) \<in> rs_seen s")
    case True
    with inv obtain c where "current_snapshot s j = Some c" "v \<le> rf_version c"
      unfolding refund_inv_def by blast
    then show ?thesis by (cases "j = i") (simp_all add: look_refund_step [OF e inv])
  next
    case False
    with seen have "j = i" "v = rf_version r" by (simp_all add: apply_event_run [OF e inv])
    then show ?thesis by (cases "current_snapshot s i") (simp_all add: look_refund_step [OF e inv])
  qed
  ultimately show ?thesis unfolding refund_inv_def by blast
qed

interpretation rr: versioned_register refund_inv refund_step current_snapshot event_snapshot rf_version
  by unfold_locales (simp_all add: refund_inv_step look_refund_step)

lemma refund_inv_empty: "refund_inv empty_refund_store"
  by (simp add: refund_inv_def empty_refund_store_def)

lemma current_snapshot_empty: "current_snapshot empty_refund_store i = None"
  by (simp add: current_snapshot_def empty_refund_store_def)

section \<open>Example events\<close>

definition refund_event :: "int \<Rightarrow> string \<Rightarrow> json dict" where
  "refund_event v fee =
     [(''refund_id'', JStr ''R1''), (''refund_version'', JInt v), (''refund_fee'', JStr fee),
      (''status'', JStr ''SUCCESS''), (''end_time'', JStr ''2024-05-01'')]"

lemma parse_fee_150: "parse_top_yuan_to_fen (Some ''1.50'') = Inr 150"
  by (simp add: parse_top_yuan_to_fen_def decimal_eval fen_eval)

lemma parse_fee_abc:
  "parse_top_yuan_to_fen (Some ''abc'') = Inl (money_invalid (''invalid TOP yuan string: '' @ repr_str ''abc''))"
  by (simp add: parse_top_yuan_to_fen_def decimal_eval)

lemma parse_shop_date_example: "parse_shop_date ''2024-05-01'' = Some (2024, 5, 1)"
  by code_simp

lemma refund_event_key: "refund_key (refund_event v fee) = Inr (''R1'', v)"
  by (simp add: refund_key_def refund_event_def event_at_def)

lemma refund_event_date: "refund_date (refund_event v fee) = Inr (2024, 5, 1)"
  by (simp add: refund_date_def refund_event_def jget_def strip_plain plain_char_def parse_shop_date_example Let_def)

lemma refund_event_snapshot:
  "snapshot_of (refund_event v ''1.50'') i w =
     Inr \<lparr> rf_id = i, rf_version = w, rf_status = ''SUCCESS'', rf_fee_fen = 150, rf_oid = [], rf_date = (2024, 5, 1) \<rparr>"
  unfolding snapshot_of_def refund_event_date
  by (simp add: refund_event_def event_at_def parse_fee_150 jget_def str_or_empty_def)

lemma refund_event_bad:
  "snapshot_of (refund_event v ''abc'') i w = Inl (money_invalid (''invalid TOP yuan string: '' @ repr_str ''abc''))"
  by (simp add: snapshot_of_def refund_event_def event_at_def parse_fee_abc)

lemma event_snapshot_example:
  "event_snapshot (refund_event v ''1.50'') =
     Some (''R1'', \<lparr> rf_id = ''R1'', rf_version = v, rf_status = ''SUCCESS'', rf_fee_fen = 150, rf_oid = [],
                     rf_date = (2024, 5, 1) \<rparr>)"
  by (simp add: event_snapshot_def refund_event_key refund_event_snapshot)

section \<open>Sequences of events\<close>

lemma forE_apply_event:
  "refund_inv s \<Longrightarrow> \<forall>e\<in>set es. event_snapshot e \<noteq> None \<Longrightarrow> forE es apply_event s = (Inr (), fold refund_step es s)"
proof (induction es arbitrary: s)
  case Nil
  then show ?case by (simp add: ret_def)
next
  case (Cons e es)
  then obtain i r where e: "event_snapshot e = Some (i, r)" by auto
  have "apply_event e s = (Inr (), refund_step e s)" by (simp add: apply_event_run [OF e Cons.prems(1)])
  then have "forE (e # es) apply_event s = forE es apply_event (refund_step e s)" by (simp add: bindE_Inr)
  with Cons.IH [OF refund_inv_step [OF e Cons.prems(1)]] Cons.prems(2) show ?case by simp
qed

lemma fold_refund_events:
  "refund_inv s \<Longrightarrow> \<forall>e\<in>set es. event_snapshot e \<noteq> None \<Longrightarrow> rs_events (fold refund_step es s) = rs_events s @ es"
proof (induction es arbitrary: s)
  case (Cons e es)
  then obtain i r where e: "event_snapshot e = Some (i, r)" by auto
  with Cons.IH [OF refund_inv_step [OF e Cons.prems(1)]] Cons.prems show ?case
    by (simp add: apply_event_run [OF e])
qed simp

text \<open>The snapshot a refund should show after some events: that of the first event with the highest
  version of the refund.\<close>

definition latest_refund :: "json dict list \<Rightarrow> string \<Rightarrow> refund_snapshot \<Rightarrow> bool" where
  "latest_refund es i r \<longleftrightarrow>
     (\<exists>xs e ys. es = xs @ e # ys \<and> event_snapshot e = Some (i, r)
        \<and> (\<forall>x\<in>set xs. \<forall>q. event_snapshot x = Some (i, q) \<longrightarrow> rf_version q < rf_version r)
        \<and> (\<forall>y\<in>set ys. \<forall>q. event_snapshot y = Some (i, q) \<longrightarrow> rf_version q \<le> rf_version r))"

lemma latest_refund_newest: "latest_refund = rr.newest"
  by (simp add: fun_eq_iff latest_refund_def rr.newest_def)

text \<open>
  C38. After any sequence of well-formed refund events, delivered in any order and with repetitions,
  the store holds every event for audit and shows for each refund exactly the snapshot of the first
  event with its highest version; a refund without events shows nothing.
\<close>

theorem refund_view_is_latest:
  assumes "\<forall>e\<in>set es. event_snapshot e \<noteq> None"
  shows "\<exists>s. forE es apply_event empty_refund_store = (Inr (), s) \<and> rs_events s = es
    \<and> (\<forall>i r. current_snapshot s i = Some r \<longleftrightarrow> latest_refund es i r)"
  unfolding latest_refund_newest
  using forE_apply_event [OF refund_inv_empty assms] fold_refund_events [OF refund_inv_empty assms]
    rr.fold_newest [OF refund_inv_empty current_snapshot_empty assms]
  by (simp add: empty_refund_store_def)

theorem refund_view_is_latest_witness:
  "\<exists>s. forE [refund_event 2 ''1.50'', refund_event 1 ''1.50'', refund_event 2 ''1.50''] apply_event empty_refund_store
       = (Inr (), s)
     \<and> rs_events s = [refund_event 2 ''1.50'', refund_event 1 ''1.50'', refund_event 2 ''1.50'']
     \<and> (\<forall>i r. current_snapshot s i = Some r \<longleftrightarrow>
          latest_refund [refund_event 2 ''1.50'', refund_event 1 ''1.50'', refund_event 2 ''1.50''] i r)"
  by (rule refund_view_is_latest) (simp add: event_snapshot_example)

section \<open>Amounts\<close>

lemma same_lookups_same_mset:
  assumes "distinct (map fst d)" "distinct (map fst d')" "\<And>k. dict_get d k = dict_get d' k"
  shows "mset d = mset d'"
proof -
  have "(k, v) \<in> set d \<longleftrightarrow> (k, v) \<in> set d'" for k v
    using assms(3) [of k] map_of_eq_Some_iff [OF assms(1)] map_of_eq_Some_iff [OF assms(2)] by metis
  then have "set d = set d'" by auto
  then show ?thesis using assms(1,2) distinct_map by (metis set_eq_iff_mset_eq_distinct)
qed

lemma fold_inv_distinct: "refund_inv s \<Longrightarrow> distinct (map fst (rs_snapshots s))"
  by (simp add: refund_inv_def)



section \<open>Failures\<close>

text \<open>
  An event whose body does not parse uses up its version: the exception leaves the pair of refund
  and version recorded, so that a later, well-formed delivery of the same version is kept for audit
  but never reaches the snapshot.
\<close>

theorem failed_refund_version_is_lost:
  assumes "refund_key bad = Inr (i, v)" "snapshot_of bad i v = Inl x"
    and "(i, v) \<notin> rs_seen s" "\<forall>c. current_snapshot s i = Some c \<longrightarrow> rf_version c < v"
    and "refund_key good = Inr (i, v)"
  shows "\<exists>t u. apply_event bad s = (Inl x, t) \<and> apply_event good t = (Inr (), u)
    \<and> rs_snapshots u = rs_snapshots s \<and> rs_events u = rs_events s @ [bad, good]"
proof -
  have "apply_event bad s =
      (Inl x, s\<lparr>rs_events := rs_events s @ [bad], rs_seen := insert (i, v) (rs_seen s)\<rparr>)"
    using assms(1-4) by (cases "current_snapshot s i") (auto simp: apply_event_def eff_simps current_snapshot_def)
  moreover have "apply_event good (s\<lparr>rs_events := rs_events s @ [bad], rs_seen := insert (i, v) (rs_seen s)\<rparr>) =
      (Inr (), s\<lparr>rs_events := rs_events s @ [bad, good], rs_seen := insert (i, v) (rs_seen s)\<rparr>)"
    using assms(5) by (simp add: apply_event_def eff_simps)
  ultimately show ?thesis by simp
qed

theorem failed_refund_version_is_lost_witness:
  "\<exists>x t u. apply_event (refund_event 1 ''abc'') empty_refund_store = (Inl x, t)
     \<and> apply_event (refund_event 1 ''1.50'') t = (Inr (), u)
     \<and> rs_snapshots u = rs_snapshots empty_refund_store
     \<and> rs_events u = rs_events empty_refund_store @ [refund_event 1 ''abc'', refund_event 1 ''1.50'']"
  using failed_refund_version_is_lost [OF refund_event_key refund_event_bad _ _ refund_event_key]
  by (metis current_snapshot_empty empty_iff empty_refund_store_def option.distinct(1) refund_store.select_convs(3))

end
