(* ===== verification/Canvas_Data.thy ===== *)
theory Canvas_Data
  imports Prelude Python_Numbers
begin

text \<open>
  The data of a canvas node: the enumerations of \<open>canvas/domain/enums.py\<close>, the contracts of
  \<open>contracts/canvas.py\<close> and the merging and reading functions of \<open>canvas/domain/node_data.py\<close>.

  A contract is a record of its fields. \<open>nd_set\<close> and \<open>cf_set\<close> are \<open>model_fields_set\<close>, the names given
  by the client, which only a patch looks at. Validating a dictionary of typed values
  (\<open>CanvasNodeData.model_validate(payload)\<close>) checks the \<open>ge=1\<close> constraints of the declarations and
  raises \<open>ValidationError\<close>, whose text is shortened to the name of the contract. Writing the contract
  to the JSON column and reading it back is the work of the validation library and is the parameter
  \<open>node_codec\<close>. Floating-point numbers are kept as their text.
\<close>

section \<open>Enumerations\<close>

datatype canvas_node_kind = CNK_TEXT | CNK_IMAGE | CNK_VIDEO | CNK_AUDIO

fun canvas_node_kind_value :: "canvas_node_kind \<Rightarrow> string" where
  "canvas_node_kind_value CNK_TEXT = ''text''"
| "canvas_node_kind_value CNK_IMAGE = ''image''"
| "canvas_node_kind_value CNK_VIDEO = ''video''"
| "canvas_node_kind_value CNK_AUDIO = ''audio''"

datatype canvas_node_status =
  CNS_IDLE | CNS_WAITING_INPUTS | CNS_READY | CNS_RUNNING | CNS_SUCCESS | CNS_FAILED | CNS_CANCELLED

datatype canvas_source_port = OUTPUT_TEXT | OUTPUT_ASSET
datatype canvas_target_port = PROMPT_INPUT | REFERENCE_ASSET
datatype canvas_edge_type = DEPENDENCY

section \<open>Contracts\<close>

datatype prompt_segment =
    TextSegment string
  | MediaSegment string "int option" string "string option" "string option"
  | TextRefSegment string

datatype node_content = ContentText string | ContentSegments "prompt_segment list"

record canvas_node_config =
  cf_model :: "string option"
  cf_text_num :: "int option"
  cf_img_num :: "int option"
  cf_ratio :: "string option"
  cf_aspect_ratio :: "string option"
  cf_resolution :: "string option"
  cf_image_size :: "string option"
  cf_mode :: "string option"
  cf_duration :: "string option"
  cf_duration_sec :: "int option"
  cf_reference_mode :: "int option"
  cf_voice_id :: "string option"
  cf_voice_name :: "string option"
  cf_speed :: "string option"
  cf_vol :: "string option"
  cf_pitch :: "int option"
  cf_emotion :: "string option"
  cf_set :: "string set"

record canvas_asset_path =
  pt_asset_id :: "int option"
  pt_url :: "string option"
  pt_thumb_url :: "string option"

record library_ref =
  lr_asset_id :: int
  lr_type :: "string option"
  lr_url :: string
  lr_thumb_url :: "string option"
  lr_name :: "string option"

record canvas_task_results =
  tr_status :: string
  tr_assets :: "canvas_asset_path list option"
  tr_error_message :: "string option"
  tr_raw :: json

record canvas_node_data =
  nd_title :: "string option"
  nd_prompt :: "string option"
  nd_content :: "node_content option"
  nd_prompt_content :: "prompt_segment list option"
  nd_config :: "canvas_node_config option"
  nd_model :: "string option"
  nd_status :: "canvas_node_status option"
  nd_generate_task_id :: "int option"
  nd_generate_created_at :: "string option"
  nd_generate_operation_type :: "string option"
  nd_generate_error :: "string option"
  nd_asset_id :: "int option"
  nd_path :: "string option"
  nd_preview_url :: "string option"
  nd_paths :: "canvas_asset_path list option"
  nd_output_asset_ids :: "int list option"
  nd_output_source :: "string option"
  nd_library_refs :: "library_ref list option"
  nd_results :: "canvas_task_results option"
  nd_set :: "string set"

definition config_fields :: "string set" where
  "config_fields = {''model'', ''text_num'', ''img_num'', ''ratio'', ''aspect_ratio'', ''resolution'', ''image_size'',
     ''mode'', ''duration'', ''duration_sec'', ''reference_mode'', ''voice_id'', ''voice_name'', ''speed'', ''vol'',
     ''pitch'', ''emotion''}"

definition node_data_fields :: "string set" where
  "node_data_fields = {''title'', ''prompt'', ''content'', ''prompt_content'', ''config'', ''model'', ''status'',
     ''generate_task_id'', ''generate_created_at'', ''generate_operation_type'', ''generate_error'', ''asset_id'',
     ''path'', ''preview_url'', ''paths'', ''output_asset_ids'', ''output_source'', ''library_refs'', ''results''}"

definition empty_config :: canvas_node_config where
  "empty_config = \<lparr> cf_model = None, cf_text_num = None, cf_img_num = None, cf_ratio = None, cf_aspect_ratio = None,
     cf_resolution = None, cf_image_size = None, cf_mode = None, cf_duration = None, cf_duration_sec = None,
     cf_reference_mode = None, cf_voice_id = None, cf_voice_name = None, cf_speed = None, cf_vol = None,
     cf_pitch = None, cf_emotion = None, cf_set = {} \<rparr>"

definition empty_data :: canvas_node_data where
  "empty_data = \<lparr> nd_title = None, nd_prompt = None, nd_content = None, nd_prompt_content = None, nd_config = None,
     nd_model = None, nd_status = None, nd_generate_task_id = None, nd_generate_created_at = None,
     nd_generate_operation_type = None, nd_generate_error = None, nd_asset_id = None, nd_path = None,
     nd_preview_url = None, nd_paths = None, nd_output_asset_ids = None, nd_output_source = None,
     nd_library_refs = None, nd_results = None, nd_set = {} \<rparr>"

definition NODE_DATA_CLIENT_FORBIDDEN_KEYS :: "string set" where
  "NODE_DATA_CLIENT_FORBIDDEN_KEYS = {''status'', ''generate_task_id'', ''generate_created_at'',
     ''generate_operation_type'', ''generate_error'', ''output_asset_ids'', ''asset_id'', ''path'', ''preview_url'',
     ''paths'', ''results'', ''output_source''}"

section \<open>Validation\<close>

definition at_least_one :: "int option \<Rightarrow> bool" where
  "at_least_one v = (case v of None \<Rightarrow> True | Some n \<Rightarrow> 1 \<le> n)"

fun segment_ok :: "prompt_segment \<Rightarrow> bool" where
  "segment_ok (MediaSegment t a u l r) =
     (t \<in> {''image_url'', ''video_url'', ''audio_url''} \<and> at_least_one a)"
| "segment_ok _ = True"

definition path_ok :: "canvas_asset_path \<Rightarrow> bool" where
  "path_ok p = at_least_one (pt_asset_id p)"

definition config_ok :: "canvas_node_config \<Rightarrow> bool" where
  "config_ok c \<longleftrightarrow> at_least_one (cf_text_num c) \<and> at_least_one (cf_img_num c) \<and> at_least_one (cf_reference_mode c)"

definition library_ref_ok :: "library_ref \<Rightarrow> bool" where
  "library_ref_ok r \<longleftrightarrow> 1 \<le> lr_asset_id r
     \<and> (case lr_type r of None \<Rightarrow> True | Some t \<Rightarrow> t \<in> {''image'', ''video'', ''audio''})"

definition results_ok :: "canvas_task_results \<Rightarrow> bool" where
  "results_ok r \<longleftrightarrow> tr_status r \<in> {''success'', ''failed''}
     \<and> (case tr_assets r of None \<Rightarrow> True | Some ps \<Rightarrow> list_all path_ok ps)"

definition node_data_ok :: "canvas_node_data \<Rightarrow> bool" where
  "node_data_ok d \<longleftrightarrow>
     (case nd_content d of Some (ContentSegments ss) \<Rightarrow> list_all segment_ok ss | _ \<Rightarrow> True)
     \<and> (case nd_prompt_content d of None \<Rightarrow> True | Some ss \<Rightarrow> list_all segment_ok ss)
     \<and> (case nd_config d of None \<Rightarrow> True | Some c \<Rightarrow> config_ok c)
     \<and> at_least_one (nd_generate_task_id d) \<and> at_least_one (nd_asset_id d)
     \<and> (case nd_paths d of None \<Rightarrow> True | Some ps \<Rightarrow> list_all path_ok ps)
     \<and> (case nd_output_source d of None \<Rightarrow> True | Some s \<Rightarrow> s \<in> {''upload'', ''generated''})
     \<and> (case nd_library_refs d of None \<Rightarrow> True | Some rs \<Rightarrow> list_all library_ref_ok rs)
     \<and> (case nd_results d of None \<Rightarrow> True | Some r \<Rightarrow> results_ok r)"

text \<open>A value dumped with all its fields and validated again has all its fields set.\<close>

definition all_set :: "canvas_node_data \<Rightarrow> canvas_node_data" where
  "all_set d = d\<lparr>nd_set := node_data_fields, nd_config := map_option (\<lambda>c. c\<lparr>cf_set := config_fields\<rparr>) (nd_config d)\<rparr>"

definition model_validate :: "canvas_node_data \<Rightarrow> canvas_node_data res" where
  "model_validate d = (if node_data_ok d then Inr (all_set d) else Inl (ValidationError ''CanvasNodeData''))"

definition validate_node_data_content :: "canvas_node_kind \<Rightarrow> canvas_node_data \<Rightarrow> unit res" where
  "validate_node_data_content kind d =
     (if kind = CNK_TEXT
      then (case nd_content d of
              Some (ContentSegments _) \<Rightarrow> Inl (ValueError ''text node data.content must be string'')
            | _ \<Rightarrow> Inr ())
      else (case nd_content d of
              Some (ContentText _) \<Rightarrow> Inl (ValueError ''media node data.content must be prompt content array'')
            | _ \<Rightarrow> Inr ()))"

definition forbidden_fields :: "canvas_node_data \<Rightarrow> string list" where
  "forbidden_fields d = sort (filter (\<lambda>k. k \<in> nd_set d)
     [''asset_id'', ''generate_created_at'', ''generate_error'', ''generate_operation_type'', ''generate_task_id'',
      ''output_asset_ids'', ''output_source'', ''path'', ''paths'', ''preview_url'', ''results'', ''status''])"

definition forbidden_message :: "canvas_node_data \<Rightarrow> string" where
  "forbidden_message d =
     ''client cannot write node data fields: '' @ py_repr (JList (map JStr (forbidden_fields d)))"

definition reject_client_forbidden_data :: "canvas_node_data \<Rightarrow> unit res" where
  "reject_client_forbidden_data d = assertR (forbidden_fields d = []) (ValueError (forbidden_message d))"

section \<open>The JSON column\<close>

record node_codec =
  nc_dump :: "canvas_node_data \<Rightarrow> json"
  nc_load :: "json dict \<Rightarrow> canvas_node_data option"

text \<open>What the code relies on: the dump of a valid value is an object that is read back with all its
  fields.\<close>

definition codec_round_trip :: "node_codec \<Rightarrow> bool" where
  "codec_round_trip nc \<longleftrightarrow>
     (\<forall>d. node_data_ok d \<longrightarrow> (\<exists>kvs. nc_dump nc d = JObj kvs \<and> nc_load nc kvs = Some (all_set d)))
     \<and> (\<forall>kvs d. nc_load nc kvs = Some d \<longrightarrow> node_data_ok d)"

definition parse_node_data :: "node_codec \<Rightarrow> json \<Rightarrow> canvas_node_data res" where
  "parse_node_data nc raw =
     (case raw of
        JNull \<Rightarrow> Inr (empty_data\<lparr>nd_status := Some CNS_IDLE, nd_set := {''status''}\<rparr>)
      | JObj kvs \<Rightarrow> (case nc_load nc kvs of
          Some d \<Rightarrow> Inr d | None \<Rightarrow> Inl (ValidationError ''CanvasNodeData''))
      | _ \<Rightarrow> Inl (AppError ''INVALID_PARAMS'' ''node data must be object''))"

definition dump_node_data :: "node_codec \<Rightarrow> canvas_node_data \<Rightarrow> json" where
  "dump_node_data nc d = nc_dump nc d"

section \<open>Merging\<close>

definition pick :: "string set \<Rightarrow> string \<Rightarrow> 'a \<Rightarrow> 'a \<Rightarrow> 'a" where
  "pick s k new old = (if k \<in> s then new else old)"

definition merge_config :: "canvas_node_config option \<Rightarrow> canvas_node_config \<Rightarrow> canvas_node_config" where
  "merge_config existing p =
     (let e = (case existing of None \<Rightarrow> empty_config | Some c \<Rightarrow> c); s = cf_set p in
      \<lparr> cf_model = pick s ''model'' (cf_model p) (cf_model e),
        cf_text_num = pick s ''text_num'' (cf_text_num p) (cf_text_num e),
        cf_img_num = pick s ''img_num'' (cf_img_num p) (cf_img_num e),
        cf_ratio = pick s ''ratio'' (cf_ratio p) (cf_ratio e),
        cf_aspect_ratio = pick s ''aspect_ratio'' (cf_aspect_ratio p) (cf_aspect_ratio e),
        cf_resolution = pick s ''resolution'' (cf_resolution p) (cf_resolution e),
        cf_image_size = pick s ''image_size'' (cf_image_size p) (cf_image_size e),
        cf_mode = pick s ''mode'' (cf_mode p) (cf_mode e),
        cf_duration = pick s ''duration'' (cf_duration p) (cf_duration e),
        cf_duration_sec = pick s ''duration_sec'' (cf_duration_sec p) (cf_duration_sec e),
        cf_reference_mode = pick s ''reference_mode'' (cf_reference_mode p) (cf_reference_mode e),
        cf_voice_id = pick s ''voice_id'' (cf_voice_id p) (cf_voice_id e),
        cf_voice_name = pick s ''voice_name'' (cf_voice_name p) (cf_voice_name e),
        cf_speed = pick s ''speed'' (cf_speed p) (cf_speed e),
        cf_vol = pick s ''vol'' (cf_vol p) (cf_vol e),
        cf_pitch = pick s ''pitch'' (cf_pitch p) (cf_pitch e),
        cf_emotion = pick s ''emotion'' (cf_emotion p) (cf_emotion e),
        cf_set = config_fields \<rparr>)"

definition merge_fields :: "canvas_node_data \<Rightarrow> canvas_node_data \<Rightarrow> canvas_node_data" where
  "merge_fields e p =
     (let s = nd_set p in
      \<lparr> nd_title = pick s ''title'' (nd_title p) (nd_title e),
        nd_prompt = pick s ''prompt'' (nd_prompt p) (nd_prompt e),
        nd_content = pick s ''content'' (nd_content p) (nd_content e),
        nd_prompt_content = pick s ''prompt_content'' (nd_prompt_content p) (nd_prompt_content e),
        nd_config = pick s ''config'' (map_option (merge_config (nd_config e)) (nd_config p)) (nd_config e),
        nd_model = pick s ''model'' (nd_model p) (nd_model e),
        nd_status = pick s ''status'' (nd_status p) (nd_status e),
        nd_generate_task_id = pick s ''generate_task_id'' (nd_generate_task_id p) (nd_generate_task_id e),
        nd_generate_created_at = pick s ''generate_created_at'' (nd_generate_created_at p) (nd_generate_created_at e),
        nd_generate_operation_type =
          pick s ''generate_operation_type'' (nd_generate_operation_type p) (nd_generate_operation_type e),
        nd_generate_error = pick s ''generate_error'' (nd_generate_error p) (nd_generate_error e),
        nd_asset_id = pick s ''asset_id'' (nd_asset_id p) (nd_asset_id e),
        nd_path = pick s ''path'' (nd_path p) (nd_path e),
        nd_preview_url = pick s ''preview_url'' (nd_preview_url p) (nd_preview_url e),
        nd_paths = pick s ''paths'' (nd_paths p) (nd_paths e),
        nd_output_asset_ids = pick s ''output_asset_ids'' (nd_output_asset_ids p) (nd_output_asset_ids e),
        nd_output_source = pick s ''output_source'' (nd_output_source p) (nd_output_source e),
        nd_library_refs = pick s ''library_refs'' (nd_library_refs p) (nd_library_refs e),
        nd_results = pick s ''results'' (nd_results p) (nd_results e),
        nd_set = node_data_fields \<rparr>)"

fun as_invalid_params :: "exc \<Rightarrow> exc" where
  "as_invalid_params (ValueError m) = AppError ''INVALID_PARAMS'' m"
| "as_invalid_params e = e"

definition with_error :: "(exc \<Rightarrow> exc) \<Rightarrow> 'a res \<Rightarrow> 'a res" where
  "with_error f r = (case r of Inl e \<Rightarrow> Inl (f e) | Inr x \<Rightarrow> Inr x)"

definition merge_client_node_data ::
  "canvas_node_data \<Rightarrow> canvas_node_data \<Rightarrow> canvas_node_kind \<Rightarrow> canvas_node_data res" where
  "merge_client_node_data existing patch kind =
     (if forbidden_fields patch \<noteq> [] then Inl (AppError ''INVALID_PARAMS'' (forbidden_message patch))
      else
        bindR (model_validate (merge_fields existing patch)) (\<lambda>merged.
        bindR (with_error as_invalid_params (validate_node_data_content kind merged)) (\<lambda>_. Inr merged)))"

text \<open>\<open>config["k"] = v\<close> when \<open>v\<close> is not \<open>None\<close>.\<close>

definition set_some :: "'a option \<Rightarrow> ('a \<Rightarrow> 'r \<Rightarrow> 'r) \<Rightarrow> 'r \<Rightarrow> 'r" where
  "set_some v f r = (case v of None \<Rightarrow> r | Some x \<Rightarrow> f x r)"

definition generation_config ::
  "canvas_node_config option \<Rightarrow> string option \<Rightarrow> string option \<Rightarrow> int option \<Rightarrow> string option \<Rightarrow> string option
   \<Rightarrow> canvas_node_config option" where
  "generation_config existing model voice_id duration_sec ratio resolution =
     (if existing = None \<and> model = None \<and> voice_id = None \<and> duration_sec = None \<and> ratio = None \<and> resolution = None
      then None
      else Some
        (set_some resolution (\<lambda>x c. c\<lparr>cf_resolution := Some x\<rparr>)
        (set_some ratio (\<lambda>x c. c\<lparr>cf_ratio := Some x\<rparr>)
        (set_some duration_sec (\<lambda>x c. c\<lparr>cf_duration_sec := Some x, cf_duration := Some (int_str x)\<rparr>)
        (set_some voice_id (\<lambda>x c. c\<lparr>cf_voice_id := Some x\<rparr>)
        (set_some model (\<lambda>x c. c\<lparr>cf_model := Some x\<rparr>)
          (case existing of None \<Rightarrow> empty_config | Some c \<Rightarrow> c)))))))"

text \<open>Every caller leaves \<open>set_task_id\<close> and \<open>set_error\<close> at their default \<open>True\<close>.\<close>

definition apply_generation_to_data ::
  "canvas_node_data \<Rightarrow> canvas_node_status \<Rightarrow> int option \<Rightarrow> string option \<Rightarrow> int list option \<Rightarrow> string option
   \<Rightarrow> string option \<Rightarrow> int option \<Rightarrow> string option \<Rightarrow> string option \<Rightarrow> canvas_node_data res" where
  "apply_generation_to_data existing status task_id err asset_ids model voice_id duration_sec ratio resolution =
     model_validate
       ((set_some model (\<lambda>x d. d\<lparr>nd_model := Some x\<rparr>)
        (set_some asset_ids (\<lambda>x d. d\<lparr>nd_output_asset_ids := Some x\<rparr>)
          (existing\<lparr>nd_status := Some status, nd_generate_task_id := task_id, nd_generate_error := err\<rparr>)))
        \<lparr>nd_config := generation_config (nd_config existing) model voice_id duration_sec ratio resolution\<rparr>)"

definition apply_upload_to_data :: "canvas_node_data \<Rightarrow> int \<Rightarrow> string \<Rightarrow> canvas_node_data res" where
  "apply_upload_to_data existing asset_id preview_url =
     model_validate (existing\<lparr>nd_output_source := Some ''upload'', nd_output_asset_ids := Some [asset_id],
       nd_asset_id := Some asset_id, nd_path := Some preview_url, nd_preview_url := Some preview_url,
       nd_paths := Some [\<lparr> pt_asset_id = Some asset_id, pt_url = Some preview_url, pt_thumb_url = None \<rparr>]\<rparr>)"

definition text_output_data ::
  "canvas_node_data \<Rightarrow> canvas_node_status \<Rightarrow> string option \<Rightarrow> string option \<Rightarrow> string option \<Rightarrow> canvas_node_data res" where
  "text_output_data existing status output_text error_message model_id =
     model_validate
       (set_some model_id (\<lambda>m d. d\<lparr>nd_model := Some m,
          nd_config := Some ((case nd_config existing of None \<Rightarrow> empty_config | Some c \<Rightarrow> c)\<lparr>cf_model := Some m\<rparr>)\<rparr>)
       (set_some error_message (\<lambda>e d. d\<lparr>nd_generate_error := Some e\<rparr>)
       (set_some output_text (\<lambda>t d. d\<lparr>nd_content := Some (ContentText t)\<rparr>)
         (existing\<lparr>nd_status := Some status, nd_generate_task_id := None\<rparr>))))"

definition ensure_create_defaults :: "canvas_node_kind \<Rightarrow> canvas_node_data \<Rightarrow> canvas_node_data res" where
  "ensure_create_defaults kind d =
     (let d1 = (if nd_status d = None then d\<lparr>nd_status := Some CNS_IDLE\<rparr> else d);
          d2 = (if kind = CNK_TEXT \<and> nd_content d1 = None then d1\<lparr>nd_content := Some (ContentText [])\<rparr> else d1)
      in model_validate d2)"

section \<open>Reading\<close>

definition some_text :: "string option \<Rightarrow> bool" where
  "some_text v = (case v of None \<Rightarrow> False | Some s \<Rightarrow> s \<noteq> [])"

definition data_has_output_assets :: "canvas_node_data \<Rightarrow> bool" where
  "data_has_output_assets d \<longleftrightarrow>
     (case nd_output_asset_ids d of None \<Rightarrow> False | Some ids \<Rightarrow> list_ex (\<lambda>i. 0 < i) ids)
     \<or> (case nd_asset_id d of None \<Rightarrow> False | Some a \<Rightarrow> 0 < a)
     \<or> (case nd_path d of None \<Rightarrow> False | Some p \<Rightarrow> strip p \<noteq> [])"

definition data_status :: "canvas_node_data \<Rightarrow> canvas_node_status" where
  "data_status d = (case nd_status d of None \<Rightarrow> CNS_IDLE | Some s \<Rightarrow> s)"

definition segment_texts :: "prompt_segment list option \<Rightarrow> string" where
  "segment_texts segments =
     (case segments of
        None \<Rightarrow> []
      | Some ss \<Rightarrow> join_with [char_of (10 :: nat)]
          (concat (map (\<lambda>s. case s of TextSegment t \<Rightarrow> if t = [] then [] else [t] | _ \<Rightarrow> []) ss)))"

definition data_prompt_text :: "canvas_node_data \<Rightarrow> canvas_node_kind \<Rightarrow> string" where
  "data_prompt_text d kind =
     (let p = (case nd_prompt d of None \<Rightarrow> [] | Some s \<Rightarrow> strip s);
          q = strip (segment_texts (nd_prompt_content d))
      in if p \<noteq> [] then p
         else if q \<noteq> [] then q
         else if kind = CNK_TEXT then []
         else (case nd_content d of
                 Some (ContentSegments ss) \<Rightarrow> strip (segment_texts (Some ss))
               | Some (ContentText s) \<Rightarrow> strip s
               | None \<Rightarrow> []))"

definition data_output_text :: "canvas_node_data \<Rightarrow> string" where
  "data_output_text d = (case nd_content d of Some (ContentText s) \<Rightarrow> s | _ \<Rightarrow> [])"

definition config_text :: "(canvas_node_config \<Rightarrow> string option) \<Rightarrow> canvas_node_data \<Rightarrow> string option" where
  "config_text f d =
     (case nd_config d of None \<Rightarrow> None | Some c \<Rightarrow> if some_text (f c) then f c else None)"

definition data_model_id :: "canvas_node_data \<Rightarrow> string option" where
  "data_model_id d = (if some_text (nd_model d) then nd_model d else config_text cf_model d)"

definition data_voice_id :: "canvas_node_data \<Rightarrow> string option" where
  "data_voice_id d = config_text cf_voice_id d"

definition data_ratio :: "canvas_node_data \<Rightarrow> string option" where
  "data_ratio d = config_text cf_ratio d"

definition data_resolution :: "canvas_node_data \<Rightarrow> string option" where
  "data_resolution d = config_text cf_resolution d"

definition data_duration_sec :: "canvas_node_data \<Rightarrow> int option" where
  "data_duration_sec d = (case nd_config d of None \<Rightarrow> None | Some c \<Rightarrow> cf_duration_sec c)"

definition data_task_id :: "canvas_node_data \<Rightarrow> int option" where
  "data_task_id d = nd_generate_task_id d"

definition data_output_asset_ids :: "canvas_node_data \<Rightarrow> int list" where
  "data_output_asset_ids d = (case nd_output_asset_ids d of None \<Rightarrow> [] | Some ids \<Rightarrow> ids)"

definition data_generate_error :: "canvas_node_data \<Rightarrow> string option" where
  "data_generate_error d = (if some_text (nd_generate_error d) then nd_generate_error d else None)"

definition sync_text_prompt_fields :: "string \<Rightarrow> string \<times> prompt_segment list" where
  "sync_text_prompt_fields prompt =
     (prompt, if strip prompt = [] then [] else [TextSegment (strip prompt)])"

definition sync_media_prompt_fields ::
  "string \<Rightarrow> prompt_segment list option \<Rightarrow> string \<times> prompt_segment list option" where
  "sync_media_prompt_fields prompt content =
     (prompt, case content of
        Some c \<Rightarrow> Some c
      | None \<Rightarrow> if strip prompt = [] then None else Some [TextSegment (strip prompt)])"

definition config_from_flat ::
  "string option \<Rightarrow> string option \<Rightarrow> string option \<Rightarrow> string option \<Rightarrow> int option \<Rightarrow> canvas_node_config option" where
  "config_from_flat model_id voice_id ratio resolution duration_sec =
     (if some_text model_id \<or> some_text voice_id \<or> some_text ratio \<or> some_text resolution \<or> duration_sec \<noteq> None
      then Some (empty_config\<lparr>cf_model := model_id, cf_voice_id := voice_id, cf_ratio := ratio,
        cf_resolution := resolution, cf_duration_sec := duration_sec, cf_duration := map_option int_str duration_sec,
        cf_set := {''model'', ''voice_id'', ''ratio'', ''resolution'', ''duration_sec'', ''duration''}\<rparr>)
      else None)"

section \<open>Facts\<close>

text \<open>The fields only the system writes.\<close>

definition projection :: "canvas_node_data \<Rightarrow> _" where
  "projection d = (nd_status d, nd_generate_task_id d, nd_generate_created_at d, nd_generate_operation_type d,
     nd_generate_error d, nd_output_asset_ids d, nd_asset_id d, nd_path d, nd_preview_url d, nd_paths d,
     nd_results d, nd_output_source d)"

lemma forbidden_fields_Nil: "forbidden_fields p = [] \<longleftrightarrow> nd_set p \<inter> NODE_DATA_CLIENT_FORBIDDEN_KEYS = {}"
  by (auto simp: forbidden_fields_def NODE_DATA_CLIENT_FORBIDDEN_KEYS_def simp flip: set_empty)

lemma all_set_projection [simp]: "projection (all_set d) = projection d"
  by (simp add: projection_def all_set_def)

lemma merge_fields_projection:
  "nd_set p \<inter> NODE_DATA_CLIENT_FORBIDDEN_KEYS = {} \<Longrightarrow> projection (merge_fields e p) = projection e"
  by (auto simp: projection_def merge_fields_def pick_def NODE_DATA_CLIENT_FORBIDDEN_KEYS_def Let_def)

lemma model_validate_Inr: "model_validate d = Inr m \<longleftrightarrow> node_data_ok d \<and> m = all_set d"
  by (auto simp: model_validate_def)

lemma merge_client_projection:
  "merge_client_node_data e p k = Inr m \<Longrightarrow> projection m = projection e"
  by (auto simp: merge_client_node_data_def bindR_Inr model_validate_Inr forbidden_fields_Nil
      merge_fields_projection split: if_splits)

lemma node_data_ok_all_set [simp]: "node_data_ok (all_set d) = node_data_ok d"
  by (simp add: node_data_ok_def all_set_def config_ok_def split: option.splits)

lemma merge_client_ok: "merge_client_node_data e p k = Inr m \<Longrightarrow> node_data_ok m"
  by (auto simp: merge_client_node_data_def bindR_Inr model_validate_Inr split: if_splits)

lemma parse_dump:
  assumes "codec_round_trip nc" "node_data_ok d"
  shows "parse_node_data nc (dump_node_data nc d) = Inr (all_set d)"
  using assms by (auto simp: codec_round_trip_def parse_node_data_def dump_node_data_def)

end
