(* ===== verification/Canvas_Service.thy ===== *)
theory Canvas_Service
  imports Canvas_Data
begin

text \<open>
  The canvas of an episode (\<open>canvas/services/canvas_service.py\<close>): nodes and edges as rows that are
  soft-deleted, patches applied in one transaction under the revisions the client has seen, and the
  write-back of generation results and uploads.

  Identifiers are UUIDs in their canonical text. The columns the database fills by itself
  (\<open>created_at\<close>, and \<open>updated_at\<close> of the canvas tables) are left out. Rows come in insertion order
  where the query asks for none. The state also has the readings of the clock and the values of
  \<open>uuid4()\<close> still to come, the driver's report of a violated key, and the events handed to Redis, whose
  delivery is not part of the model. The signed URL of a stored object is the parameter \<open>ce_preview\<close>.
\<close>

section \<open>Tables\<close>

record canvas_scope =
  sp_project :: int
  sp_episode :: int
  sp_user :: int

record episode_row =
  eo_id :: int
  eo_project :: int
  eo_creator :: int
  eo_no :: int
  eo_name :: string
  eo_cover :: "int option"
  eo_updated :: int
  eo_deleted :: "int option"

record episode_meta_row =
  me_episode :: int
  me_node_count :: int
  me_edge_count :: int

record canvas_node_row =
  no_id :: string
  no_episode :: int
  no_kind :: canvas_node_kind
  no_revision :: int
  no_x :: string
  no_y :: string
  no_width :: "string option"
  no_height :: "string option"
  no_data :: json
  no_deleted :: "int option"

record canvas_edge_row =
  eg_id :: string
  eg_episode :: int
  eg_revision :: int
  eg_source :: string
  eg_target :: string
  eg_source_port :: canvas_source_port
  eg_target_port :: canvas_target_port
  eg_type :: canvas_edge_type
  eg_metadata :: json
  eg_deleted :: "int option"

record asset_row =
  as_id :: int
  as_user :: int
  as_project :: "int option"
  as_storage_key :: string
  as_source_type :: string
  as_source_id :: "string option"
  as_metadata :: "json dict"
  as_status :: string
  as_deleted :: "int option"

record generate_task_row =
  gt_id :: int
  gt_user :: int
  gt_status :: int
  gt_result_asset_ids :: "int list option"
  gt_error_message :: "string option"
  gt_deleted :: "int option"

section \<open>Requests and views\<close>

record create_node_payload =
  cp_kind :: canvas_node_kind
  cp_position :: "string \<times> string"
  cp_width :: "string option"
  cp_height :: "string option"
  cp_data :: canvas_node_data

record update_node_payload =
  up_id :: string
  up_revision :: int
  up_position :: "(string \<times> string) option"
  up_width :: "string option"
  up_height :: "string option"
  up_data :: "canvas_node_data option"

record create_edge_payload =
  ce_source :: string
  ce_target :: string
  ce_source_port :: canvas_source_port
  ce_target_port :: canvas_target_port
  ce_type :: canvas_edge_type
  ce_metadata :: json

datatype anchor_side = SideLeft | SideRight

record connect_anchor =
  ca_node :: string
  ca_side :: anchor_side
  ca_source_port :: canvas_source_port
  ca_target_port :: canvas_target_port
  ca_type :: canvas_edge_type
  ca_metadata :: json

datatype canvas_patch_op =
    CreateNodeOp create_node_payload "connect_anchor option"
  | UpdateNodeOp update_node_payload
  | DeleteNodeOp string int
  | ConnectNodesOp create_edge_payload
  | DisconnectNodesOp string int

text \<open>The validators of the payloads.\<close>

definition create_node_payload_init :: "create_node_payload \<Rightarrow> create_node_payload res" where
  "create_node_payload_init p =
     bindR (validate_node_data_content (cp_kind p) (cp_data p)) (\<lambda>_.
     bindR (reject_client_forbidden_data (cp_data p)) (\<lambda>_. Inr p))"

definition update_node_payload_init :: "update_node_payload \<Rightarrow> update_node_payload res" where
  "update_node_payload_init p =
     bindR (assertR (1 \<le> up_revision p) (ValidationError ''UpdateNodePayload'')) (\<lambda>_.
     bindR (case up_data p of None \<Rightarrow> Inr () | Some d \<Rightarrow> reject_client_forbidden_data d) (\<lambda>_. Inr p))"

record canvas_node_view =
  nv_id :: string
  nv_kind :: canvas_node_kind
  nv_revision :: int
  nv_position :: "string \<times> string"
  nv_width :: "string option"
  nv_height :: "string option"
  nv_data :: canvas_node_data
  nv_output_asset_urls :: "string list option"

record canvas_edge_view =
  ev_id :: string
  ev_revision :: int
  ev_source :: string
  ev_target :: string
  ev_source_port :: canvas_source_port
  ev_target_port :: canvas_target_port
  ev_edge_type :: canvas_edge_type
  ev_metadata :: json

record canvas_patch_response =
  pp_op_id :: "string option"
  pp_nodes :: "canvas_node_view list"
  pp_edges :: "canvas_edge_view list"
  pp_deleted_node_ids :: "string list"
  pp_deleted_edge_ids :: "string list"

record generation_progress =
  gp_node :: string
  gp_task :: "int option"
  gp_status :: canvas_node_status
  gp_revision :: int

record canvas_snapshot =
  ss_project :: int
  ss_episode :: int
  ss_nodes :: "canvas_node_view list"
  ss_edges :: "canvas_edge_view list"

record canvas_operation_row =
  co_id :: string
  co_episode :: int
  co_user :: int
  co_turn :: "string option"
  co_type :: string
  co_ops :: "canvas_patch_op list"
  co_status :: string

record canvas_db =
  cv_episodes :: "episode_row list"
  cv_metas :: "episode_meta_row list"
  cv_nodes :: "canvas_node_row list"
  cv_edges :: "canvas_edge_row list"
  cv_operations :: "canvas_operation_row list"
  cv_assets :: "asset_row list"
  cv_tasks :: "generate_task_row list"
  cv_published :: "(int \<times> canvas_patch_response option \<times> generation_progress option) list"
  cv_clock :: "nat \<Rightarrow> int"
  cv_uuids :: "nat \<Rightarrow> string"
  cv_driver :: "string \<Rightarrow> exc_link list"

record canvas_env =
  ce_codec :: node_codec
  ce_preview :: "string \<Rightarrow> string"

section \<open>Primitive steps\<close>

definition cv_now :: "(canvas_db, int) eff" where
  "cv_now s = (Inr (cv_clock s 0), s\<lparr>cv_clock := (\<lambda>n. cv_clock s (Suc n))\<rparr>)"

definition cv_uuid4 :: "(canvas_db, string) eff" where
  "cv_uuid4 s = (Inr (cv_uuids s 0), s\<lparr>cv_uuids := (\<lambda>n. cv_uuids s (Suc n))\<rparr>)"

definition cv_transaction :: "(canvas_db, 'a) eff \<Rightarrow> (canvas_db, 'a) eff" where
  "cv_transaction m s =
     (case m s of
        (Inl e, t) \<Rightarrow> (Inl e, s\<lparr>cv_clock := cv_clock t, cv_uuids := cv_uuids t\<rparr>)
      | (Inr x, t) \<Rightarrow> (Inr x, t))"

definition node_alive :: "int \<Rightarrow> canvas_node_row \<Rightarrow> bool" where
  "node_alive ep r \<longleftrightarrow> no_episode r = ep \<and> no_deleted r = None"

definition edge_alive :: "int \<Rightarrow> canvas_edge_row \<Rightarrow> bool" where
  "edge_alive ep r \<longleftrightarrow> eg_episode r = ep \<and> eg_deleted r = None"

definition not_found :: "string \<Rightarrow> exc" where
  "not_found m = AppError ''RESOURCE_NOT_FOUND'' m"

definition insert_node :: "canvas_node_row \<Rightarrow> (canvas_db, unit) eff" where
  "insert_node r =
     bindE (gets id) (\<lambda>s.
     if no_id r \<in> no_id ` set (cv_nodes s) then raise (IntegrityError (cv_driver s ''canvas_nodes_pkey''))
     else modify (\<lambda>s. s\<lparr>cv_nodes := cv_nodes s @ [r]\<rparr>))"

definition insert_edge :: "canvas_edge_row \<Rightarrow> (canvas_db, unit) eff" where
  "insert_edge r =
     bindE (gets id) (\<lambda>s.
     if eg_id r \<in> eg_id ` set (cv_edges s) then raise (IntegrityError (cv_driver s ''canvas_edges_pkey''))
     else modify (\<lambda>s. s\<lparr>cv_edges := cv_edges s @ [r]\<rparr>))"

text \<open>\<open>await row.save()\<close>: every column of the row with this key.\<close>

definition save_node :: "canvas_node_row \<Rightarrow> (canvas_db, unit) eff" where
  "save_node r = modify (\<lambda>s. s\<lparr>cv_nodes := map (\<lambda>x. if no_id x = no_id r then r else x) (cv_nodes s)\<rparr>)"

definition save_edge :: "canvas_edge_row \<Rightarrow> (canvas_db, unit) eff" where
  "save_edge r = modify (\<lambda>s. s\<lparr>cv_edges := map (\<lambda>x. if eg_id x = eg_id r then r else x) (cv_edges s)\<rparr>)"

section \<open>Views\<close>

definition node_view_from_row :: "canvas_env \<Rightarrow> canvas_node_row \<Rightarrow> canvas_node_view res" where
  "node_view_from_row env r =
     bindR (parse_node_data (ce_codec env) (no_data r)) (\<lambda>d.
     bindR (with_error (\<lambda>_. ValidationError ''CanvasNodeView'') (validate_node_data_content (no_kind r) d)) (\<lambda>_.
     Inr \<lparr> nv_id = no_id r, nv_kind = no_kind r, nv_revision = no_revision r, nv_position = (no_x r, no_y r),
           nv_width = no_width r, nv_height = no_height r, nv_data = d, nv_output_asset_urls = None \<rparr>))"

definition edge_view :: "canvas_edge_row \<Rightarrow> canvas_edge_view" where
  "edge_view r = \<lparr> ev_id = eg_id r, ev_revision = eg_revision r, ev_source = eg_source r, ev_target = eg_target r,
     ev_source_port = eg_source_port r, ev_target_port = eg_target_port r, ev_edge_type = eg_type r,
     ev_metadata = eg_metadata r \<rparr>"

definition metadata_int :: "json dict \<Rightarrow> string \<Rightarrow> int option" where
  "metadata_int metadata key =
     (case jget metadata key of JNull \<Rightarrow> None | v \<Rightarrow> (case py_int v of Inr i \<Rightarrow> Some i | Inl _ \<Rightarrow> None))"

definition asset_allowed_for_node :: "canvas_scope \<Rightarrow> canvas_node_view \<Rightarrow> asset_row \<Rightarrow> bool" where
  "asset_allowed_for_node scope node asset =
     (if as_user asset \<noteq> sp_user scope then False
      else if as_deleted asset \<noteq> None \<or> as_status asset \<noteq> ''ready'' then False
      else if (case as_project asset of None \<Rightarrow> False | Some p \<Rightarrow> p \<noteq> sp_project scope) then False
      else
        let m = as_metadata asset in
        case metadata_int m ''episode_id'' of
          Some e \<Rightarrow> e = sp_episode scope
        | None \<Rightarrow>
            (case nd_generate_task_id (nv_data node) of
               Some t \<Rightarrow> as_source_type asset = ''generate_result''
                 \<and> (as_source_id asset = Some (int_str t) \<or> metadata_int m ''task_id'' = Some t
                     \<or> metadata_int m ''generation_task_id'' = Some t)
             | None \<Rightarrow> False)
            \<or> as_project asset = Some (sp_project scope))"

definition ready_asset :: "int \<Rightarrow> asset_row \<Rightarrow> bool" where
  "ready_asset user a \<longleftrightarrow> as_user a = user \<and> as_status a = ''ready'' \<and> as_deleted a = None"

definition node_asset_urls :: "canvas_env \<Rightarrow> canvas_scope \<Rightarrow> asset_row list \<Rightarrow> canvas_node_view \<Rightarrow> string list" where
  "node_asset_urls env scope assets node =
     concat (map (\<lambda>i. case find (\<lambda>a. as_id a = i \<and> ready_asset (sp_user scope) a) assets of
                        None \<Rightarrow> []
                      | Some a \<Rightarrow> if asset_allowed_for_node scope node a then [ce_preview env (as_storage_key a)] else [])
       (data_output_asset_ids (nv_data node)))"

definition refresh_node_asset_urls ::
  "canvas_env \<Rightarrow> canvas_scope \<Rightarrow> canvas_node_view list \<Rightarrow> (canvas_db, canvas_node_view list) eff" where
  "refresh_node_asset_urls env scope nodes =
     gets (\<lambda>s. map (\<lambda>n. let urls = node_asset_urls env scope (cv_assets s) n in
                        n\<lparr>nv_output_asset_urls := if urls = [] then None else Some urls\<rparr>) nodes)"

section \<open>Publishing\<close>

definition publish_canvas_patch :: "int \<Rightarrow> canvas_patch_response \<Rightarrow> (canvas_db, unit) eff" where
  "publish_canvas_patch ep patch = modify (\<lambda>s. s\<lparr>cv_published := cv_published s @ [(ep, Some patch, None)]\<rparr>)"

definition publish_patch_and_progress ::
  "int \<Rightarrow> canvas_patch_response option \<Rightarrow> generation_progress option \<Rightarrow> (canvas_db, unit) eff" where
  "publish_patch_and_progress ep patch progress =
     (if patch = None \<and> progress = None then ret ()
      else modify (\<lambda>s. s\<lparr>cv_published := cv_published s @ [(ep, patch, progress)]\<rparr>))"

section \<open>Reading the canvas\<close>

definition require_meta :: "int \<Rightarrow> (canvas_db, episode_meta_row) eff" where
  "require_meta ep =
     bindE (gets (\<lambda>s. find (\<lambda>m. me_episode m = ep) (cv_metas s))) (\<lambda>m.
     case m of None \<Rightarrow> raise (not_found ''canvas episode meta not found'') | Some r \<Rightarrow> ret r)"

definition get_snapshot :: "canvas_env \<Rightarrow> canvas_scope \<Rightarrow> (canvas_db, canvas_snapshot) eff" where
  "get_snapshot env scope =
     bindE (require_meta (sp_episode scope)) (\<lambda>_.
     bindE (gets (\<lambda>s. filter (node_alive (sp_episode scope)) (cv_nodes s))) (\<lambda>nodes.
     bindE (gets (\<lambda>s. filter (edge_alive (sp_episode scope)) (cv_edges s))) (\<lambda>edges.
     bindE (liftR (mapR (node_view_from_row env) nodes)) (\<lambda>views.
     bindE (refresh_node_asset_urls env scope views) (\<lambda>views'.
     ret \<lparr> ss_project = sp_project scope, ss_episode = sp_episode scope, ss_nodes = views',
           ss_edges = map edge_view edges \<rparr>)))))"

definition get_node_for_update :: "int \<Rightarrow> string \<Rightarrow> (canvas_db, canvas_node_row) eff" where
  "get_node_for_update ep i =
     bindE (gets (\<lambda>s. find (\<lambda>r. no_id r = i \<and> node_alive ep r) (cv_nodes s))) (\<lambda>m.
     case m of None \<Rightarrow> raise (not_found (''node '' @ i @ '' not found'')) | Some r \<Rightarrow> ret r)"

definition get_edge_for_update :: "int \<Rightarrow> string \<Rightarrow> (canvas_db, canvas_edge_row) eff" where
  "get_edge_for_update ep i =
     bindE (gets (\<lambda>s. find (\<lambda>r. eg_id r = i \<and> edge_alive ep r) (cv_edges s))) (\<lambda>m.
     case m of None \<Rightarrow> raise (not_found (''edge '' @ i @ '' not found'')) | Some r \<Rightarrow> ret r)"

definition require_nodes :: "int \<Rightarrow> string list \<Rightarrow> (canvas_db, unit) eff" where
  "require_nodes ep ids =
     (let unique_ids = rev (remdups (rev ids)) in
      bindE (gets (\<lambda>s. length (filter (\<lambda>r. no_id r \<in> set unique_ids \<and> node_alive ep r) (cv_nodes s)))) (\<lambda>c.
      ensure (c = length unique_ids) (not_found ''node not found'')))"

definition require_entity_revision :: "string \<Rightarrow> string \<Rightarrow> int \<Rightarrow> int \<Rightarrow> (canvas_db, unit) eff" where
  "require_entity_revision kind i actual expected =
     ensure (actual = expected) (CanvasRevisionConflictError [(kind, i, expected, actual)])"

definition touching :: "int \<Rightarrow> string \<Rightarrow> canvas_edge_row \<Rightarrow> bool" where
  "touching ep i r \<longleftrightarrow> edge_alive ep r \<and> (eg_source r = i \<or> eg_target r = i)"

section \<open>The conflict check of a patch\<close>

record patch_check =
  pc_conflicts :: "(string \<times> string \<times> int \<times> int) list"
  pc_nodes :: "(string \<times> int) list"
  pc_edges :: "(string \<times> int) list"
  pc_deleted_nodes :: "string set"
  pc_deleted_edges :: "string set"

definition patch_check_init :: patch_check where
  "patch_check_init = \<lparr> pc_conflicts = [], pc_nodes = [], pc_edges = [], pc_deleted_nodes = {}, pc_deleted_edges = {} \<rparr>"

definition working_node :: "int \<Rightarrow> string \<Rightarrow> patch_check \<Rightarrow> (canvas_db, int) eff" where
  "working_node ep i pc =
     (if i \<in> pc_deleted_nodes pc then raise (not_found (''node '' @ i @ '' not found''))
      else case dict_get (pc_nodes pc) i of
             Some r \<Rightarrow> ret r
           | None \<Rightarrow> bindE (get_node_for_update ep i) (\<lambda>row. ret (no_revision row)))"

definition working_edge :: "int \<Rightarrow> string \<Rightarrow> patch_check \<Rightarrow> (canvas_db, int) eff" where
  "working_edge ep i pc =
     (if i \<in> pc_deleted_edges pc then raise (not_found (''edge '' @ i @ '' not found''))
      else case dict_get (pc_edges pc) i of
             Some r \<Rightarrow> ret r
           | None \<Rightarrow> bindE (get_edge_for_update ep i) (\<lambda>row. ret (eg_revision row)))"

text \<open>The branches of the loop. A conflict leaves the revision read from the table in the working copy.\<close>

definition check_update :: "int \<Rightarrow> update_node_payload \<Rightarrow> patch_check \<Rightarrow> (canvas_db, patch_check) eff" where
  "check_update ep p pc =
     bindE (working_node ep (up_id p) pc) (\<lambda>actual.
     if actual \<noteq> up_revision p
     then ret (pc\<lparr>pc_nodes := dict_set (pc_nodes pc) (up_id p) actual,
                  pc_conflicts := pc_conflicts pc @ [(''node'', up_id p, up_revision p, actual)]\<rparr>)
     else ret (pc\<lparr>pc_nodes := dict_set (pc_nodes pc) (up_id p) (actual + 1)\<rparr>))"

definition check_delete :: "int \<Rightarrow> string \<Rightarrow> int \<Rightarrow> patch_check \<Rightarrow> (canvas_db, patch_check) eff" where
  "check_delete ep i expected pc =
     bindE (working_node ep i pc) (\<lambda>actual.
     if actual \<noteq> expected
     then ret (pc\<lparr>pc_nodes := dict_set (pc_nodes pc) i actual,
                  pc_conflicts := pc_conflicts pc @ [(''node'', i, expected, actual)]\<rparr>)
     else
       bindE (gets (\<lambda>s. map eg_id (filter (touching ep i) (cv_edges s)))) (\<lambda>cascade.
       ret (pc\<lparr>pc_nodes := dict_set (pc_nodes pc) i (actual + 1),
               pc_deleted_nodes := insert i (pc_deleted_nodes pc),
               pc_deleted_edges := pc_deleted_edges pc \<union> set cascade,
               pc_edges := filter (\<lambda>kv. fst kv \<notin> set cascade - pc_deleted_edges pc) (pc_edges pc)\<rparr>)))"

definition check_disconnect :: "int \<Rightarrow> string \<Rightarrow> int \<Rightarrow> patch_check \<Rightarrow> (canvas_db, patch_check) eff" where
  "check_disconnect ep i expected pc =
     bindE (working_edge ep i pc) (\<lambda>actual.
     if actual \<noteq> expected
     then ret (pc\<lparr>pc_edges := dict_set (pc_edges pc) i actual,
                  pc_conflicts := pc_conflicts pc @ [(''edge'', i, expected, actual)]\<rparr>)
     else ret (pc\<lparr>pc_edges := dict_set (pc_edges pc) i (actual + 1),
                  pc_deleted_edges := insert i (pc_deleted_edges pc)\<rparr>))"

fun check_op :: "int \<Rightarrow> canvas_patch_op \<Rightarrow> patch_check \<Rightarrow> (canvas_db, patch_check) eff" where
  "check_op ep (UpdateNodeOp p) pc = check_update ep p pc"
| "check_op ep (DeleteNodeOp i expected) pc = check_delete ep i expected pc"
| "check_op ep (DisconnectNodesOp i expected) pc = check_disconnect ep i expected pc"
| "check_op ep (CreateNodeOp _ _) pc = ret pc"
| "check_op ep (ConnectNodesOp _) pc = ret pc"

fun check_ops :: "int \<Rightarrow> canvas_patch_op list \<Rightarrow> patch_check \<Rightarrow> (canvas_db, patch_check) eff" where
  "check_ops ep [] pc = ret pc"
| "check_ops ep (x # xs) pc = bindE (check_op ep x pc) (check_ops ep xs)"

definition collect_patch_conflicts ::
  "int \<Rightarrow> canvas_patch_op list \<Rightarrow> (canvas_db, (string \<times> string \<times> int \<times> int) list) eff" where
  "collect_patch_conflicts ep xs = bindE (check_ops ep xs patch_check_init) (\<lambda>pc. ret (pc_conflicts pc))"

section \<open>Applying a patch\<close>

record patch_acc =
  pa_nodes :: "canvas_node_view list"
  pa_edges :: "canvas_edge_view list"
  pa_deleted_nodes :: "string list"
  pa_deleted_edges :: "string list"
  pa_node_count :: int
  pa_edge_count :: int

definition create_edge ::
  "int \<Rightarrow> create_edge_payload \<Rightarrow> patch_acc \<Rightarrow> (canvas_db, patch_acc) eff" where
  "create_edge ep p acc =
     bindE (require_nodes ep [ce_source p, ce_target p]) (\<lambda>_.
     bindE cv_uuid4 (\<lambda>i.
     let r = \<lparr> eg_id = i, eg_episode = ep, eg_revision = 1, eg_source = ce_source p, eg_target = ce_target p,
               eg_source_port = ce_source_port p, eg_target_port = ce_target_port p, eg_type = ce_type p,
               eg_metadata = ce_metadata p, eg_deleted = None \<rparr> in
     bindE (insert_edge r) (\<lambda>_.
     ret (acc\<lparr>pa_edge_count := pa_edge_count acc + 1, pa_edges := pa_edges acc @ [edge_view r]\<rparr>))))"

definition anchor_edge :: "connect_anchor \<Rightarrow> string \<Rightarrow> create_edge_payload" where
  "anchor_edge a i =
     \<lparr> ce_source = (if ca_side a = SideRight then ca_node a else i),
       ce_target = (if ca_side a = SideRight then i else ca_node a),
       ce_source_port = ca_source_port a, ce_target_port = ca_target_port a, ce_type = ca_type a,
       ce_metadata = ca_metadata a \<rparr>"

definition apply_create ::
  "canvas_env \<Rightarrow> int \<Rightarrow> create_node_payload \<Rightarrow> connect_anchor option \<Rightarrow> patch_acc \<Rightarrow> (canvas_db, patch_acc) eff" where
  "apply_create env ep p anchor acc =
     bindE cv_uuid4 (\<lambda>i.
     bindE (liftR (ensure_create_defaults (cp_kind p) (cp_data p))) (\<lambda>d.
     let r = \<lparr> no_id = i, no_episode = ep, no_kind = cp_kind p, no_revision = 1, no_x = fst (cp_position p),
               no_y = snd (cp_position p), no_width = cp_width p, no_height = cp_height p,
               no_data = dump_node_data (ce_codec env) d, no_deleted = None \<rparr> in
     bindE (insert_node r) (\<lambda>_.
     bindE (liftR (node_view_from_row env r)) (\<lambda>v.
     let acc' = acc\<lparr>pa_node_count := pa_node_count acc + 1, pa_nodes := pa_nodes acc @ [v]\<rparr> in
     case anchor of None \<Rightarrow> ret acc' | Some a \<Rightarrow> create_edge ep (anchor_edge a i) acc'))))"

definition patched_row :: "canvas_env \<Rightarrow> update_node_payload \<Rightarrow> canvas_node_row \<Rightarrow> canvas_node_row res" where
  "patched_row env p row =
     bindR (case up_data p of
              None \<Rightarrow> Inr (no_data row)
            | Some patch \<Rightarrow>
                bindR (parse_node_data (ce_codec env) (no_data row)) (\<lambda>existing.
                bindR (merge_client_node_data existing patch (no_kind row)) (\<lambda>merged.
                Inr (dump_node_data (ce_codec env) merged)))) (\<lambda>data.
     Inr (row\<lparr>no_x := (case up_position p of None \<Rightarrow> no_x row | Some xy \<Rightarrow> fst xy),
              no_y := (case up_position p of None \<Rightarrow> no_y row | Some xy \<Rightarrow> snd xy),
              no_width := (case up_width p of None \<Rightarrow> no_width row | Some w \<Rightarrow> Some w),
              no_height := (case up_height p of None \<Rightarrow> no_height row | Some h \<Rightarrow> Some h),
              no_data := data, no_revision := no_revision row + 1\<rparr>))"

definition apply_update ::
  "canvas_env \<Rightarrow> int \<Rightarrow> update_node_payload \<Rightarrow> patch_acc \<Rightarrow> (canvas_db, patch_acc) eff" where
  "apply_update env ep p acc =
     bindE (get_node_for_update ep (up_id p)) (\<lambda>row.
     bindE (require_entity_revision ''node'' (up_id p) (no_revision row) (up_revision p)) (\<lambda>_.
     bindE (liftR (patched_row env p row)) (\<lambda>row'.
     bindE (save_node row') (\<lambda>_.
     bindE (liftR (node_view_from_row env row')) (\<lambda>v.
     ret (acc\<lparr>pa_nodes := pa_nodes acc @ [v]\<rparr>))))))"

definition delete_edge :: "int \<Rightarrow> canvas_edge_row \<Rightarrow> patch_acc \<Rightarrow> (canvas_db, patch_acc) eff" where
  "delete_edge now r acc =
     bindE (save_edge (r\<lparr>eg_deleted := Some now, eg_revision := eg_revision r + 1\<rparr>)) (\<lambda>_.
     ret (acc\<lparr>pa_edge_count := max 0 (pa_edge_count acc - 1), pa_deleted_edges := pa_deleted_edges acc @ [eg_id r]\<rparr>))"

fun delete_edges :: "int \<Rightarrow> canvas_edge_row list \<Rightarrow> patch_acc \<Rightarrow> (canvas_db, patch_acc) eff" where
  "delete_edges now [] acc = ret acc"
| "delete_edges now (r # rs) acc = bindE (delete_edge now r acc) (delete_edges now rs)"

definition apply_delete :: "int \<Rightarrow> int \<Rightarrow> string \<Rightarrow> int \<Rightarrow> patch_acc \<Rightarrow> (canvas_db, patch_acc) eff" where
  "apply_delete ep now i expected acc =
     bindE (get_node_for_update ep i) (\<lambda>row.
     bindE (require_entity_revision ''node'' i (no_revision row) expected) (\<lambda>_.
     bindE (save_node (row\<lparr>no_deleted := Some now, no_revision := no_revision row + 1\<rparr>)) (\<lambda>_.
     bindE (gets (\<lambda>s. filter (touching ep i) (cv_edges s))) (\<lambda>cascade.
     delete_edges now cascade
       (acc\<lparr>pa_node_count := max 0 (pa_node_count acc - 1), pa_deleted_nodes := pa_deleted_nodes acc @ [i]\<rparr>)))))"

definition apply_disconnect :: "int \<Rightarrow> int \<Rightarrow> string \<Rightarrow> int \<Rightarrow> patch_acc \<Rightarrow> (canvas_db, patch_acc) eff" where
  "apply_disconnect ep now i expected acc =
     bindE (get_edge_for_update ep i) (\<lambda>row.
     bindE (require_entity_revision ''edge'' i (eg_revision row) expected) (\<lambda>_.
     delete_edge now row acc))"

fun apply_op :: "canvas_env \<Rightarrow> int \<Rightarrow> int \<Rightarrow> canvas_patch_op \<Rightarrow> patch_acc \<Rightarrow> (canvas_db, patch_acc) eff" where
  "apply_op env ep now (CreateNodeOp p anchor) acc = apply_create env ep p anchor acc"
| "apply_op env ep now (UpdateNodeOp p) acc = apply_update env ep p acc"
| "apply_op env ep now (DeleteNodeOp i expected) acc = apply_delete ep now i expected acc"
| "apply_op env ep now (ConnectNodesOp p) acc = create_edge ep p acc"
| "apply_op env ep now (DisconnectNodesOp i expected) acc = apply_disconnect ep now i expected acc"

fun apply_ops :: "canvas_env \<Rightarrow> int \<Rightarrow> int \<Rightarrow> canvas_patch_op list \<Rightarrow> patch_acc \<Rightarrow> (canvas_db, patch_acc) eff" where
  "apply_ops env ep now [] acc = ret acc"
| "apply_ops env ep now (x # xs) acc = bindE (apply_op env ep now x acc) (apply_ops env ep now xs)"

text \<open>The two rows every writer locks first.\<close>

definition lock_episode :: "int \<Rightarrow> (canvas_db, episode_meta_row) eff" where
  "lock_episode ep =
     bindE (gets (\<lambda>s. find (\<lambda>e. eo_id e = ep \<and> eo_deleted e = None) (cv_episodes s))) (\<lambda>e.
     case e of
       None \<Rightarrow> raise (not_found ''episode not found'')
     | Some _ \<Rightarrow> require_meta ep)"

definition touch_episode :: "int \<Rightarrow> (canvas_db, unit) eff" where
  "touch_episode ep =
     bindE cv_now (\<lambda>now.
     modify (\<lambda>s. s\<lparr>cv_episodes := map (\<lambda>e. if eo_id e = ep \<and> eo_deleted e = None then e\<lparr>eo_updated := now\<rparr> else e)
       (cv_episodes s)\<rparr>))"

definition save_meta :: "int \<Rightarrow> patch_acc \<Rightarrow> (canvas_db, unit) eff" where
  "save_meta ep acc = modify (\<lambda>s. s\<lparr>cv_metas :=
     map (\<lambda>m. if me_episode m = ep then m\<lparr>me_node_count := pa_node_count acc, me_edge_count := pa_edge_count acc\<rparr> else m)
       (cv_metas s)\<rparr>)"

definition record_operation :: "canvas_scope \<Rightarrow> canvas_patch_op list \<Rightarrow> string option \<Rightarrow> (canvas_db, string) eff" where
  "record_operation scope xs turn_id =
     bindE cv_uuid4 (\<lambda>i.
     bindE (gets id) (\<lambda>s.
     if i \<in> co_id ` set (cv_operations s) then raise (IntegrityError (cv_driver s ''canvas_operations_pkey''))
     else
       bindE (modify (\<lambda>s. s\<lparr>cv_operations := cv_operations s @
         [\<lparr> co_id = i, co_episode = sp_episode scope, co_user = sp_user scope, co_turn = turn_id,
            co_type = ''apply_patch'', co_ops = xs, co_status = ''applied'' \<rparr>]\<rparr>)) (\<lambda>_. ret i)))"

definition patch_body ::
  "canvas_env \<Rightarrow> canvas_scope \<Rightarrow> canvas_patch_op list \<Rightarrow> string option \<Rightarrow> (canvas_db, patch_acc \<times> string) eff" where
  "patch_body env scope xs turn_id =
     (let ep = sp_episode scope in
      bindE (lock_episode ep) (\<lambda>meta.
      bindE (collect_patch_conflicts ep xs) (\<lambda>conflicts.
      bindE (ensure (conflicts = []) (CanvasRevisionConflictError conflicts)) (\<lambda>_.
      bindE cv_now (\<lambda>now.
      bindE (apply_ops env ep now xs
               \<lparr> pa_nodes = [], pa_edges = [], pa_deleted_nodes = [], pa_deleted_edges = [],
                 pa_node_count = me_node_count meta, pa_edge_count = me_edge_count meta \<rparr>) (\<lambda>acc.
      bindE (save_meta ep acc) (\<lambda>_.
      bindE (touch_episode ep) (\<lambda>_.
      bindE (record_operation scope xs turn_id) (\<lambda>i.
      ret (acc, i))))))))))"

definition apply_patch ::
  "canvas_env \<Rightarrow> canvas_scope \<Rightarrow> canvas_patch_op list \<Rightarrow> string option \<Rightarrow> (canvas_db, canvas_patch_response) eff" where
  "apply_patch env scope xs turn_id =
     bindE (cv_transaction (patch_body env scope xs turn_id)) (\<lambda>(acc, i).
     bindE (refresh_node_asset_urls env scope (pa_nodes acc)) (\<lambda>nodes.
     let result = \<lparr> pp_op_id = Some i, pp_nodes = nodes, pp_edges = pa_edges acc,
                    pp_deleted_node_ids = pa_deleted_nodes acc, pp_deleted_edge_ids = pa_deleted_edges acc \<rparr> in
     bindE (publish_canvas_patch (sp_episode scope) result) (\<lambda>_. ret result)))"

end
