(* ===== verification/Canvas_Graph.thy ===== *)
theory Canvas_Graph
  imports Canvas_Service
begin

text \<open>
  The abstract canvas of an episode: live nodes with their revisions, live edges with their revision
  and end points. A patch is a sequence of abstract steps; \<open>apply_ops\<close> refines them, keeps the
  edges between live nodes and keeps the counters of the episode exact.
\<close>

section \<open>Rows found by key\<close>

lemma find_absent: "j \<notin> k ` set xs \<Longrightarrow> find (\<lambda>r. k r = j \<and> P r) xs = None"
  by (induction xs) auto

lemma replace_absent: "k y \<notin> k ` set xs \<Longrightarrow> map (\<lambda>z. if k z = k y then y else z) xs = xs"
  by (induction xs) auto

lemma find_by_key:
  assumes "distinct (map k xs)" "x \<in> set xs"
  shows "find (\<lambda>r. k r = k x \<and> P r) xs = (if P x then Some x else None)"
  using assms
proof (induction xs)
  case (Cons y ys)
  show ?case
  proof (cases "x = y")
    case True
    moreover have "find (\<lambda>r. k r = k y \<and> P r) ys = None"
      using Cons.prems(1) by (intro find_absent) simp
    ultimately show ?thesis by simp
  next
    case False
    with Cons.prems have "x \<in> set ys" "k y \<noteq> k x" by (auto simp: image_iff)
    with Cons show ?thesis by simp
  qed
qed simp

lemma find_replace:
  assumes "distinct (map k xs)" "x \<in> set xs" "k y = k x"
  shows "find (\<lambda>r. k r = j \<and> P r) (map (\<lambda>z. if k z = k y then y else z) xs) =
    (if j = k x then (if P y then Some y else None) else find (\<lambda>r. k r = j \<and> P r) xs)"
  using assms
proof (induction xs)
  case (Cons z zs)
  show ?case
  proof (cases "x \<in> set zs")
    case True
    with Cons.prems have "k z \<noteq> k x" by auto
    with True Cons show ?thesis by auto
  next
    case False
    with Cons.prems have z: "z = x" by simp
    have same: "map (\<lambda>z. if k z = k y then y else z) zs = zs"
      using Cons.prems z by (intro replace_absent) simp
    have none: "find (\<lambda>r. k r = k x \<and> P r) zs = None"
      using Cons.prems(1) z by (intro find_absent) simp
    show ?thesis
      by (cases "j = k x") (use same none z \<open>k y = k x\<close> in \<open>simp_all\<close>)
  qed
qed simp

lemma find_new:
  assumes "k y \<notin> k ` set xs"
  shows "find (\<lambda>r. k r = j \<and> P r) (xs @ [y]) =
    (if j = k y then (if P y then Some y else None) else find (\<lambda>r. k r = j \<and> P r) xs)"
proof -
  have "find (\<lambda>r. k r = k y \<and> P r) xs = None" by (rule find_absent [OF assms])
  then show ?thesis by (auto simp: find_append split: option.splits)
qed

lemma replace_keys:
  "map k (map (\<lambda>z. if k z = k y then y else z) xs) = map k xs"
  by (induction xs) auto

lemma count_by_key:
  assumes "distinct (map k xs)"
  shows "length (filter P xs) = card {j. find (\<lambda>r. k r = j \<and> P r) xs \<noteq> None}"
proof -
  have "{j. find (\<lambda>r. k r = j \<and> P r) xs \<noteq> None} = k ` set (filter P xs)"
    by (auto simp: find_None_iff image_iff)
  moreover have "inj_on k (set (filter P xs))"
    using assms by (auto simp: distinct_map intro: inj_on_subset)
  moreover have "distinct (filter P xs)" using assms by (simp add: distinct_map)
  ultimately show ?thesis using distinct_card [of "filter P xs"] by (simp only: card_image)
qed

section \<open>The abstract graph\<close>

record canvas_graph =
  cg_nodes :: "string \<rightharpoonup> int"
  cg_edges :: "string \<rightharpoonup> int \<times> string \<times> string"

definition live_node :: "int \<Rightarrow> canvas_db \<Rightarrow> string \<Rightarrow> canvas_node_row option" where
  "live_node ep s i = find (\<lambda>r. no_id r = i \<and> node_alive ep r) (cv_nodes s)"

definition live_edge :: "int \<Rightarrow> canvas_db \<Rightarrow> string \<Rightarrow> canvas_edge_row option" where
  "live_edge ep s i = find (\<lambda>r. eg_id r = i \<and> edge_alive ep r) (cv_edges s)"

definition graph_of :: "int \<Rightarrow> canvas_db \<Rightarrow> canvas_graph" where
  "graph_of ep s = \<lparr> cg_nodes = (\<lambda>i. map_option no_revision (live_node ep s i)),
     cg_edges = (\<lambda>i. map_option (\<lambda>r. (eg_revision r, eg_source r, eg_target r)) (live_edge ep s i)) \<rparr>"

definition drop_touching :: "string \<Rightarrow> (string \<rightharpoonup> int \<times> string \<times> string) \<Rightarrow> (string \<rightharpoonup> int \<times> string \<times> string)" where
  "drop_touching i E j = (case E j of None \<Rightarrow> None | Some (r, a, b) \<Rightarrow> if a = i \<or> b = i then None else Some (r, a, b))"

text \<open>One operation of a patch. The identifiers of new entities are fresh.\<close>

inductive graph_step :: "canvas_patch_op \<Rightarrow> canvas_graph \<Rightarrow> canvas_graph \<Rightarrow> bool" where
  create: "cg_nodes g i = None \<Longrightarrow>
    graph_step (CreateNodeOp p None) g (g\<lparr>cg_nodes := (cg_nodes g)(i \<mapsto> 1)\<rparr>)"
| create_connected: "cg_nodes g i = None \<Longrightarrow> cg_edges g j = None \<Longrightarrow> ca_node a = i \<or> cg_nodes g (ca_node a) \<noteq> None \<Longrightarrow>
    graph_step (CreateNodeOp p (Some a)) g
      (g\<lparr>cg_nodes := (cg_nodes g)(i \<mapsto> 1),
         cg_edges := (cg_edges g)(j \<mapsto> (1, ce_source (anchor_edge a i), ce_target (anchor_edge a i)))\<rparr>)"
| update: "cg_nodes g (up_id p) = Some (up_revision p) \<Longrightarrow>
    graph_step (UpdateNodeOp p) g (g\<lparr>cg_nodes := (cg_nodes g)(up_id p \<mapsto> up_revision p + 1)\<rparr>)"
| delete: "cg_nodes g i = Some r \<Longrightarrow>
    graph_step (DeleteNodeOp i r) g (g\<lparr>cg_nodes := (cg_nodes g)(i := None), cg_edges := drop_touching i (cg_edges g)\<rparr>)"
| connect: "cg_nodes g (ce_source p) \<noteq> None \<Longrightarrow> cg_nodes g (ce_target p) \<noteq> None \<Longrightarrow> cg_edges g j = None \<Longrightarrow>
    graph_step (ConnectNodesOp p) g (g\<lparr>cg_edges := (cg_edges g)(j \<mapsto> (1, ce_source p, ce_target p))\<rparr>)"
| disconnect: "cg_edges g i = Some (r, a, b) \<Longrightarrow>
    graph_step (DisconnectNodesOp i r) g (g\<lparr>cg_edges := (cg_edges g)(i := None)\<rparr>)"

inductive graph_steps :: "canvas_patch_op list \<Rightarrow> canvas_graph \<Rightarrow> canvas_graph \<Rightarrow> bool" where
  none: "graph_steps [] g g"
| more: "graph_step x g h \<Longrightarrow> graph_steps xs h k \<Longrightarrow> graph_steps (x # xs) g k"

definition graph_closed :: "canvas_graph \<Rightarrow> bool" where
  "graph_closed g \<longleftrightarrow>
     (\<forall>j r a b. cg_edges g j = Some (r, a, b) \<longrightarrow> cg_nodes g a \<noteq> None \<and> cg_nodes g b \<noteq> None)"

lemma graph_step_closed: "graph_step x g h \<Longrightarrow> graph_closed g \<Longrightarrow> graph_closed h"
proof (induction rule: graph_step.induct)
  case (delete g i r)
  then show ?case by (auto simp: graph_closed_def drop_touching_def split: option.splits if_splits)
next
  case (create_connected g i j a p)
  then show ?case by (auto simp: graph_closed_def anchor_edge_def)
qed (auto simp: graph_closed_def)

lemma graph_steps_closed: "graph_steps xs g h \<Longrightarrow> graph_closed g \<Longrightarrow> graph_closed h"
  by (induction rule: graph_steps.induct) (auto intro: graph_step_closed)

section \<open>Well-formed states\<close>

definition ids_ok :: "canvas_db \<Rightarrow> bool" where
  "ids_ok s \<longleftrightarrow> distinct (map no_id (cv_nodes s)) \<and> distinct (map eg_id (cv_edges s))"

definition counts :: "int \<Rightarrow> int \<Rightarrow> int \<Rightarrow> canvas_db \<Rightarrow> bool" where
  "counts ep n e s \<longleftrightarrow> n = int (length (filter (node_alive ep) (cv_nodes s)))
     \<and> e = int (length (filter (edge_alive ep) (cv_edges s)))"

definition canvas_inv :: "canvas_db \<Rightarrow> bool" where
  "canvas_inv s \<longleftrightarrow> ids_ok s \<and> distinct (map me_episode (cv_metas s))
     \<and> (\<forall>m\<in>set (cv_metas s). counts (me_episode m) (me_node_count m) (me_edge_count m) s)
     \<and> (\<forall>ep. graph_closed (graph_of ep s))"

lemma finite_nodes: "finite (dom (cg_nodes (graph_of ep s)))"
proof -
  have "dom (cg_nodes (graph_of ep s)) \<subseteq> no_id ` set (cv_nodes s)"
    by (auto simp: graph_of_def live_node_def find_Some_iff)
  then show ?thesis by (rule finite_subset) simp
qed

lemma finite_edges: "finite (dom (cg_edges (graph_of ep s)))"
proof -
  have "dom (cg_edges (graph_of ep s)) \<subseteq> eg_id ` set (cv_edges s)"
    by (auto simp: graph_of_def live_edge_def find_Some_iff)
  then show ?thesis by (rule finite_subset) simp
qed

lemma counts_card:
  assumes "ids_ok s"
  shows "counts ep n e s \<longleftrightarrow>
    n = int (card (dom (cg_nodes (graph_of ep s)))) \<and> e = int (card (dom (cg_edges (graph_of ep s))))"
proof -
  have "dom (cg_nodes (graph_of ep s)) = {j. find (\<lambda>r. no_id r = j \<and> node_alive ep r) (cv_nodes s) \<noteq> None}"
    "dom (cg_edges (graph_of ep s)) = {j. find (\<lambda>r. eg_id r = j \<and> edge_alive ep r) (cv_edges s) \<noteq> None}"
    by (auto simp: graph_of_def live_node_def live_edge_def)
  then show ?thesis
    using assms count_by_key [of no_id "cv_nodes s" "node_alive ep"] count_by_key [of eg_id "cv_edges s" "edge_alive ep"]
    by (simp add: counts_def ids_ok_def)
qed

text \<open>What the operations of a patch leave alone.\<close>

definition patch_frame :: "int \<Rightarrow> canvas_db \<Rightarrow> canvas_db \<Rightarrow> bool" where
  "patch_frame ep s t \<longleftrightarrow> cv_metas t = cv_metas s \<and> cv_episodes t = cv_episodes s \<and> cv_operations t = cv_operations s
     \<and> cv_assets t = cv_assets s \<and> cv_tasks t = cv_tasks s \<and> cv_published t = cv_published s
     \<and> (\<forall>e. e \<noteq> ep \<longrightarrow> graph_of e t = graph_of e s)"

lemma patch_frame_refl: "patch_frame ep s s"
  by (simp add: patch_frame_def)

lemma patch_frame_trans: "patch_frame ep s t \<Longrightarrow> patch_frame ep t u \<Longrightarrow> patch_frame ep s u"
  by (simp add: patch_frame_def)

section \<open>Graphs after a write\<close>

lemma graph_of_cong:
  "cv_nodes t = cv_nodes s \<Longrightarrow> cv_edges t = cv_edges s \<Longrightarrow> graph_of ep t = graph_of ep s"
  by (simp add: graph_of_def live_node_def live_edge_def)

lemma graph_of_simps [simp]:
  "graph_of ep (cv_clock_update f s) = graph_of ep s" "graph_of ep (cv_uuids_update g s) = graph_of ep s"
  "graph_of ep (cv_metas_update h s) = graph_of ep s" "graph_of ep (cv_episodes_update h' s) = graph_of ep s"
  "graph_of ep (cv_operations_update k s) = graph_of ep s" "graph_of ep (cv_assets_update k' s) = graph_of ep s"
  "graph_of ep (cv_published_update l s) = graph_of ep s"
  by (simp_all add: graph_of_def live_node_def live_edge_def)

lemma live_node_in: "live_node ep s i = Some r \<Longrightarrow> r \<in> set (cv_nodes s) \<and> no_id r = i \<and> node_alive ep r"
  by (auto simp: live_node_def dest: find_SomeD)

lemma live_edge_in: "live_edge ep s i = Some r \<Longrightarrow> r \<in> set (cv_edges s) \<and> eg_id r = i \<and> edge_alive ep r"
  by (auto simp: live_edge_def dest: find_SomeD)

lemma live_nodeI: "ids_ok s \<Longrightarrow> r \<in> set (cv_nodes s) \<Longrightarrow> node_alive ep r \<Longrightarrow> live_node ep s (no_id r) = Some r"
  unfolding live_node_def ids_ok_def by (simp add: find_by_key)

lemma live_edgeI: "ids_ok s \<Longrightarrow> r \<in> set (cv_edges s) \<Longrightarrow> edge_alive ep r \<Longrightarrow> live_edge ep s (eg_id r) = Some r"
  unfolding live_edge_def ids_ok_def by (simp add: find_by_key)

lemma graph_insert_node:
  assumes "no_id r \<notin> no_id ` set (cv_nodes s)" "node_alive ep r"
  shows "graph_of e (s\<lparr>cv_nodes := cv_nodes s @ [r]\<rparr>) =
    (if e = ep then (graph_of ep s)\<lparr>cg_nodes := (cg_nodes (graph_of ep s))(no_id r \<mapsto> no_revision r)\<rparr> else graph_of e s)"
  using assms
  by (auto simp: graph_of_def live_node_def live_edge_def find_new fun_eq_iff node_alive_def intro!: find_absent)

lemma graph_insert_edge:
  assumes "eg_id r \<notin> eg_id ` set (cv_edges s)" "edge_alive ep r"
  shows "graph_of e (s\<lparr>cv_edges := cv_edges s @ [r]\<rparr>) =
    (if e = ep then (graph_of ep s)\<lparr>cg_edges := (cg_edges (graph_of ep s))(eg_id r \<mapsto> (eg_revision r, eg_source r, eg_target r))\<rparr>
     else graph_of e s)"
  using assms
  by (auto simp: graph_of_def live_node_def live_edge_def find_new fun_eq_iff edge_alive_def intro!: find_absent)

lemma graph_save_node:
  assumes "ids_ok s" "live_node ep s i = Some row" "no_id r = no_id row" "no_episode r = ep"
  shows "graph_of e (snd (save_node r s)) =
    (if e = ep then (graph_of ep s)\<lparr>cg_nodes := (cg_nodes (graph_of ep s))(i := if no_deleted r = None then Some (no_revision r) else None)\<rparr>
     else graph_of e s)"
proof -
  have row: "row \<in> set (cv_nodes s)" "no_id row = i" "node_alive ep row" using live_node_in [OF assms(2)] by auto
  have d: "distinct (map no_id (cv_nodes s))" using assms(1) by (simp add: ids_ok_def)
  have other: "live_node e s i = None" if "e \<noteq> ep"
    using find_by_key [OF d row(1), of "node_alive e"] row(2,3) that by (simp add: live_node_def node_alive_def)
  have "live_node e (snd (save_node r s)) j =
      (if j = i then (if node_alive e r then Some r else None) else live_node e s j)" for j
    unfolding live_node_def save_node_def modify_def
    using find_replace [OF d row(1) assms(3), of j "node_alive e"] row(2) by simp
  then show ?thesis
    using other assms(4) by (auto simp: graph_of_def fun_eq_iff node_alive_def live_edge_def save_node_def modify_def)
qed

lemma live_save_edge:
  assumes "ids_ok s" "live_edge ep s i = Some row" "eg_id r = eg_id row" "eg_deleted r = Some now"
  shows "live_edge e (snd (save_edge r s)) j = (if j = i then None else live_edge e s j)"
proof -
  have row: "row \<in> set (cv_edges s)" "eg_id row = i" using live_edge_in [OF assms(2)] by auto
  have d: "distinct (map eg_id (cv_edges s))" using assms(1) by (simp add: ids_ok_def)
  show ?thesis
    unfolding live_edge_def save_edge_def modify_def
    using find_replace [OF d row(1) assms(3), of j "edge_alive e"] row(2) assms(4) by (simp add: edge_alive_def)
qed

lemma graph_save_edge:
  assumes "ids_ok s" "live_edge ep s i = Some row" "eg_id r = eg_id row" "eg_deleted r = Some now"
  shows "graph_of e (snd (save_edge r s)) =
    (if e = ep then (graph_of ep s)\<lparr>cg_edges := (cg_edges (graph_of ep s))(i := None)\<rparr> else graph_of e s)"
proof -
  have row: "row \<in> set (cv_edges s)" "eg_id row = i" "edge_alive ep row" using live_edge_in [OF assms(2)] by auto
  have d: "distinct (map eg_id (cv_edges s))" using assms(1) by (simp add: ids_ok_def)
  have other: "live_edge e s i = None" if "e \<noteq> ep"
    using find_by_key [OF d row(1), of "edge_alive e"] row(2,3) that by (simp add: live_edge_def edge_alive_def)
  show ?thesis
    using other
    by (auto simp: graph_of_def fun_eq_iff live_save_edge [OF assms] live_node_def)
       (simp_all add: save_edge_def modify_def)
qed

lemma ids_ok_save [simp]:
  "ids_ok (snd (save_node r s)) = ids_ok s" "ids_ok (snd (save_edge q s)) = ids_ok s"
  by (simp_all add: ids_ok_def save_node_def save_edge_def modify_def replace_keys [unfolded map_map comp_def] comp_def)

section \<open>Operations refine steps\<close>

text \<open>The relation an operation establishes: well-formed keys, exact counters, nothing else touched.\<close>

definition op_ok :: "int \<Rightarrow> canvas_db \<Rightarrow> patch_acc \<Rightarrow> canvas_db \<Rightarrow> patch_acc \<Rightarrow> bool" where
  "op_ok ep s acc t acc' \<longleftrightarrow> ids_ok t \<and> patch_frame ep s t
     \<and> (counts ep (pa_node_count acc) (pa_edge_count acc) s \<longrightarrow> counts ep (pa_node_count acc') (pa_edge_count acc') t)"

lemma op_ok_trans: "op_ok ep s acc t acc' \<Longrightarrow> op_ok ep t acc' u acc'' \<Longrightarrow> op_ok ep s acc u acc''"
  by (auto simp: op_ok_def intro: patch_frame_trans)

lemma save_state:
  "save_node r s = (Inr (), snd (save_node r s))" "save_edge q s = (Inr (), snd (save_edge q s))"
  by (simp_all add: save_node_def save_edge_def modify_def)

lemma save_outcome:
  "save_node r s = (x, t) \<longleftrightarrow> x = Inr () \<and> t = snd (save_node r s)"
  "save_edge q s = (x, t) \<longleftrightarrow> x = Inr () \<and> t = snd (save_edge q s)"
  "bindE (save_node r) f s = f () (snd (save_node r s))" "bindE (save_edge q) f s = f () (snd (save_edge q s))"
  by (auto simp: save_node_def save_edge_def modify_def bindE_def)

lemma save_frame:
  "cv_metas (snd (save_node r s)) = cv_metas s" "cv_episodes (snd (save_node r s)) = cv_episodes s"
  "cv_operations (snd (save_node r s)) = cv_operations s" "cv_assets (snd (save_node r s)) = cv_assets s"
  "cv_tasks (snd (save_node r s)) = cv_tasks s" "cv_published (snd (save_node r s)) = cv_published s"
  "cv_metas (snd (save_edge q s)) = cv_metas s" "cv_episodes (snd (save_edge q s)) = cv_episodes s"
  "cv_operations (snd (save_edge q s)) = cv_operations s" "cv_assets (snd (save_edge q s)) = cv_assets s"
  "cv_tasks (snd (save_edge q s)) = cv_tasks s" "cv_published (snd (save_edge q s)) = cv_published s"
  by (simp_all add: save_node_def save_edge_def modify_def)

lemma get_node_run:
  "get_node_for_update ep i s =
     (case live_node ep s i of None \<Rightarrow> Inl (not_found (''node '' @ i @ '' not found'')) | Some r \<Rightarrow> Inr r, s)"
  by (simp add: get_node_for_update_def live_node_def eff_simps split: option.splits)

lemma get_edge_run:
  "get_edge_for_update ep i s =
     (case live_edge ep s i of None \<Rightarrow> Inl (not_found (''edge '' @ i @ '' not found'')) | Some r \<Rightarrow> Inr r, s)"
  by (simp add: get_edge_for_update_def live_edge_def eff_simps split: option.splits)

lemma delete_edge_refines:
  assumes "ids_ok s" "live_edge ep s i = Some row" "delete_edge now row acc s = (r, t)"
  shows "\<exists>acc'. r = Inr acc' \<and> op_ok ep s acc t acc' \<and> pa_node_count acc' = pa_node_count acc
    \<and> graph_of ep t = (graph_of ep s)\<lparr>cg_edges := (cg_edges (graph_of ep s))(i := None)\<rparr>
    \<and> (\<forall>j. live_edge ep t j = (if j = i then None else live_edge ep s j))"
proof -
  let ?q = "row\<lparr>eg_deleted := Some now, eg_revision := eg_revision row + 1\<rparr>"
  let ?acc = "acc\<lparr>pa_edge_count := max 0 (pa_edge_count acc - 1), pa_deleted_edges := pa_deleted_edges acc @ [eg_id row]\<rparr>"
  have row: "eg_id row = i" "eg_episode row = ep" using live_edge_in [OF assms(2)] by (auto simp: edge_alive_def)
  have t: "r = Inr ?acc" "t = snd (save_edge ?q s)"
    using assms(3) by (auto simp: delete_edge_def bindE_Inr [OF save_state(2)] ret_def)
  have g: "graph_of e t = (if e = ep then (graph_of ep s)\<lparr>cg_edges := (cg_edges (graph_of ep s))(i := None)\<rparr> else graph_of e s)" for e
    unfolding t(2) by (rule graph_save_edge [OF assms(1,2), where now = now]) simp_all
  have ids: "ids_ok t" using assms(1) t(2) by simp
  have mem: "i \<in> dom (cg_edges (graph_of ep s))" using assms(2) by (auto simp: graph_of_def dom_def)
  have "counts ep (pa_node_count ?acc) (pa_edge_count ?acc) t" if "counts ep (pa_node_count acc) (pa_edge_count acc) s"
  proof -
    have "card (dom (cg_edges (graph_of ep s))) > 0" using mem finite_edges by (metis card_gt_0_iff empty_iff)
    then show ?thesis
      using that mem by (simp add: counts_card [OF assms(1)] counts_card [OF ids] g card_Diff_singleton finite_edges)
  qed
  then have "op_ok ep s acc t ?acc"
    unfolding op_ok_def patch_frame_def using ids g by (simp add: t(2) save_frame)
  moreover have "live_edge ep t j = (if j = i then None else live_edge ep s j)" for j
    unfolding t(2) by (rule live_save_edge [OF assms(1,2), where now = now]) simp_all
  ultimately show ?thesis using t g by simp
qed

lemma delete_edges_refines:
  assumes "ids_ok s" "distinct (map eg_id rows)" "\<And>q. q \<in> set rows \<Longrightarrow> live_edge ep s (eg_id q) = Some q"
    and "delete_edges now rows acc s = (r, t)"
  shows "\<exists>acc'. r = Inr acc' \<and> op_ok ep s acc t acc'
    \<and> graph_of ep t = (graph_of ep s)\<lparr>cg_edges := (cg_edges (graph_of ep s)) |` (- eg_id ` set rows)\<rparr>"
  using assms
proof (induction rows arbitrary: s acc)
  case Nil
  then show ?case by (auto simp: ret_def op_ok_def patch_frame_refl)
next
  case (Cons q rows)
  obtain r1 u where d: "delete_edge now q acc s = (r1, u)" by fastforce
  from delete_edge_refines [OF Cons.prems(1) Cons.prems(3) [of q] d]
  obtain acc1 where 1: "r1 = Inr acc1" "op_ok ep s acc u acc1"
      "graph_of ep u = (graph_of ep s)\<lparr>cg_edges := (cg_edges (graph_of ep s))(eg_id q := None)\<rparr>"
      "\<And>j. live_edge ep u j = (if j = eg_id q then None else live_edge ep s j)"
    by auto
  have "delete_edges now rows acc1 u = (r, t)" using Cons.prems(4) d 1(1) by (simp add: bindE_Inr)
  moreover have "live_edge ep u (eg_id p) = Some p" if "p \<in> set rows" for p
    using that Cons.prems(2) Cons.prems(3) [of p] 1(4) by (auto simp: image_iff)
  moreover have "ids_ok u" using 1(2) by (simp add: op_ok_def)
  ultimately obtain acc' where 2: "r = Inr acc'" "op_ok ep u acc1 t acc'"
      "graph_of ep t = (graph_of ep u)\<lparr>cg_edges := (cg_edges (graph_of ep u)) |` (- eg_id ` set rows)\<rparr>"
    using Cons.IH [of u acc1] Cons.prems(2) by auto
  have "graph_of ep t = (graph_of ep s)\<lparr>cg_edges := (cg_edges (graph_of ep s)) |` (- eg_id ` set (q # rows))\<rparr>"
    unfolding 2(3) 1(3) by (auto simp: restrict_map_def fun_eq_iff)
  with 2 op_ok_trans [OF 1(2) 2(2)] show ?case by auto
qed

lemma restrict_touching:
  assumes "ids_ok s"
  shows "(cg_edges (graph_of ep s)) |` (- eg_id ` set (filter (touching ep i) (cv_edges s))) = drop_touching i (cg_edges (graph_of ep s))"
proof
  fix j
  show "((cg_edges (graph_of ep s)) |` (- eg_id ` set (filter (touching ep i) (cv_edges s)))) j =
      drop_touching i (cg_edges (graph_of ep s)) j"
  proof (cases "live_edge ep s j")
    case None
    then show ?thesis by (simp add: restrict_map_def drop_touching_def graph_of_def)
  next
    case (Some q)
    then have q: "q \<in> set (cv_edges s)" "eg_id q = j" "edge_alive ep q" using live_edge_in by auto
    have "j \<in> eg_id ` set (filter (touching ep i) (cv_edges s)) \<longleftrightarrow> eg_source q = i \<or> eg_target q = i"
    proof
      assume "j \<in> eg_id ` set (filter (touching ep i) (cv_edges s))"
      then obtain p where p: "p \<in> set (cv_edges s)" "touching ep i p" "eg_id p = j" by auto
      then have "live_edge ep s j = Some p" using live_edgeI [OF assms, of p ep] by (simp add: touching_def)
      with Some p show "eg_source q = i \<or> eg_target q = i" by (simp add: touching_def)
    next
      assume "eg_source q = i \<or> eg_target q = i"
      with q show "j \<in> eg_id ` set (filter (touching ep i) (cv_edges s))" by (auto simp: touching_def)
    qed
    with Some show ?thesis by (auto simp: restrict_map_def drop_touching_def graph_of_def)
  qed
qed

lemma save_node_ok:
  assumes "ids_ok s" "live_node ep s i = Some row" "no_id r = no_id row" "no_episode r = ep"
  shows "ids_ok (snd (save_node r s)) \<and> patch_frame ep s (snd (save_node r s))"
  using assms graph_save_node [OF assms] by (simp add: patch_frame_def save_frame)

lemma apply_delete_refines:
  assumes "ids_ok s" "apply_delete ep now i expected acc s = (Inr acc', t)"
  shows "graph_step (DeleteNodeOp i expected) (graph_of ep s) (graph_of ep t) \<and> op_ok ep s acc t acc'"
proof -
  from assms(2) obtain row where row: "live_node ep s i = Some row" "no_revision row = expected"
    by (auto simp: apply_delete_def eff_outcomes get_node_run require_entity_revision_def ensure_def split: option.splits if_splits)
  let ?row = "row\<lparr>no_deleted := Some now, no_revision := no_revision row + 1\<rparr>"
  let ?u = "snd (save_node ?row s)"
  let ?acc = "acc\<lparr>pa_node_count := max 0 (pa_node_count acc - 1), pa_deleted_nodes := pa_deleted_nodes acc @ [i]\<rparr>"
  have r: "no_id ?row = no_id row" "no_episode ?row = ep" "no_id row = i"
    using live_node_in [OF row(1)] by (auto simp: node_alive_def)
  have gu: "graph_of ep ?u = (graph_of ep s)\<lparr>cg_nodes := (cg_nodes (graph_of ep s))(i := None)\<rparr>"
    using graph_save_node [OF assms(1) row(1) r(1,2), of ep] by simp
  have ok: "ids_ok ?u" "patch_frame ep s ?u" using save_node_ok [OF assms(1) row(1) r(1,2)] by auto
  have mem: "i \<in> dom (cg_nodes (graph_of ep s))" using row(1) by (auto simp: graph_of_def dom_def)
  have "counts ep (pa_node_count ?acc) (pa_edge_count ?acc) ?u" if "counts ep (pa_node_count acc) (pa_edge_count acc) s"
  proof -
    have "card (dom (cg_nodes (graph_of ep s))) > 0" using mem finite_nodes by (metis card_gt_0_iff empty_iff)
    then show ?thesis
      using that mem by (simp add: counts_card [OF assms(1)] counts_card [OF ok(1)] gu card_Diff_singleton finite_nodes)
  qed
  then have first: "op_ok ep s acc ?u ?acc" using ok by (simp add: op_ok_def)
  have "delete_edges now (filter (touching ep i) (cv_edges ?u)) ?acc ?u = (Inr acc', t)"
    using assms(2) row
    by (simp add: apply_delete_def bindE_def [of "get_node_for_update _ _"] get_node_run require_entity_revision_def
        save_outcome eff_simps)
  moreover have "distinct (map eg_id (filter (touching ep i) (cv_edges ?u)))"
    using ok(1) by (simp add: ids_ok_def distinct_map_filter)
  moreover have "live_edge ep ?u (eg_id q) = Some q" if "q \<in> set (filter (touching ep i) (cv_edges ?u))" for q
    using that by (intro live_edgeI [OF ok(1)]) (auto simp: touching_def)
  ultimately have second: "op_ok ep ?u ?acc t acc'"
      "graph_of ep t = (graph_of ep ?u)\<lparr>cg_edges := (cg_edges (graph_of ep ?u)) |` (- eg_id ` set (filter (touching ep i) (cv_edges ?u)))\<rparr>"
    using delete_edges_refines [OF ok(1), of "filter (touching ep i) (cv_edges ?u)" ep now ?acc "Inr acc'" t] by auto
  have "graph_of ep t = (graph_of ep s)\<lparr>cg_nodes := (cg_nodes (graph_of ep s))(i := None),
      cg_edges := drop_touching i (cg_edges (graph_of ep s))\<rparr>"
    unfolding second(2) restrict_touching [OF ok(1)] by (simp add: gu)
  moreover have "cg_nodes (graph_of ep s) i = Some expected" using row by (simp add: graph_of_def)
  ultimately show ?thesis using graph_step.delete op_ok_trans [OF first second(1)] by metis
qed

lemma apply_update_refines:
  assumes "ids_ok s" "apply_update env ep p acc s = (Inr acc', t)"
  shows "graph_step (UpdateNodeOp p) (graph_of ep s) (graph_of ep t) \<and> op_ok ep s acc t acc'"
proof -
  from assms(2) obtain row row' where row: "live_node ep s (up_id p) = Some row" "no_revision row = up_revision p"
      "patched_row env p row = Inr row'" and t: "t = snd (save_node row' s)"
      and acc: "pa_node_count acc' = pa_node_count acc" "pa_edge_count acc' = pa_edge_count acc"
    by (auto simp: apply_update_def eff_outcomes get_node_run require_entity_revision_def ensure_def liftR_def
        save_outcome ret_def split: option.splits if_splits)
  have r: "no_id row' = no_id row" "no_episode row' = ep" "no_deleted row' = None" "no_revision row' = up_revision p + 1"
    using row live_node_in [OF row(1)] by (auto simp: patched_row_def bindR_Inr node_alive_def)
  have gt: "graph_of ep t = (graph_of ep s)\<lparr>cg_nodes := (cg_nodes (graph_of ep s))(up_id p \<mapsto> up_revision p + 1)\<rparr>"
    unfolding t using graph_save_node [OF assms(1) row(1) r(1,2), of ep] r(3,4) by simp
  have n: "cg_nodes (graph_of ep s) (up_id p) = Some (up_revision p)" using row by (simp add: graph_of_def)
  have ok: "ids_ok t" "patch_frame ep s t" using save_node_ok [OF assms(1) row(1) r(1,2)] by (auto simp: t)
  have "dom (cg_nodes (graph_of ep t)) = dom (cg_nodes (graph_of ep s))" using n by (auto simp: gt)
  then have "op_ok ep s acc t acc'"
    using ok acc by (auto simp: op_ok_def counts_card [OF assms(1)] counts_card [OF ok(1)] gt)
  moreover have "graph_step (UpdateNodeOp p) (graph_of ep s) (graph_of ep t)"
    unfolding gt by (rule graph_step.update [OF n])
  ultimately show ?thesis by simp
qed

lemma apply_disconnect_refines:
  assumes "ids_ok s" "apply_disconnect ep now i expected acc s = (Inr acc', t)"
  shows "graph_step (DisconnectNodesOp i expected) (graph_of ep s) (graph_of ep t) \<and> op_ok ep s acc t acc'"
proof -
  from assms(2) obtain row where row: "live_edge ep s i = Some row" "eg_revision row = expected"
      and d: "delete_edge now row acc s = (Inr acc', t)"
    by (auto simp: apply_disconnect_def eff_outcomes get_edge_run require_entity_revision_def ensure_def split: option.splits if_splits)
  have "cg_edges (graph_of ep s) i = Some (expected, eg_source row, eg_target row)"
    using row by (simp add: graph_of_def)
  with delete_edge_refines [OF assms(1) row(1) d] show ?thesis using graph_step.disconnect by fastforce
qed

lemma require_nodes_run:
  assumes "ids_ok s"
  shows "require_nodes ep ids s =
    (if \<forall>i\<in>set ids. cg_nodes (graph_of ep s) i \<noteq> None then Inr () else Inl (not_found ''node not found''), s)"
proof -
  let ?u = "rev (remdups (rev ids))" and ?L = "{i \<in> set ids. cg_nodes (graph_of ep s) i \<noteq> None}"
  have "{j. find (\<lambda>r. no_id r = j \<and> no_id r \<in> set ?u \<and> node_alive ep r) (cv_nodes s) \<noteq> None} = ?L"
    by (auto simp: graph_of_def live_node_def find_None_iff)
  then have "length (filter (\<lambda>r. no_id r \<in> set ?u \<and> node_alive ep r) (cv_nodes s)) = card ?L"
    using assms count_by_key [of no_id "cv_nodes s" "\<lambda>r. no_id r \<in> set ?u \<and> node_alive ep r"]
    by (simp add: ids_ok_def)
  moreover have "length ?u = card (set ids)" by (simp add: length_remdups_card_conv)
  moreover have "card ?L = card (set ids) \<longleftrightarrow> (\<forall>i\<in>set ids. cg_nodes (graph_of ep s) i \<noteq> None)"
  proof
    assume "card ?L = card (set ids)"
    moreover have "?L \<subseteq> set ids" by auto
    ultimately have "?L = set ids" by (intro card_subset_eq) auto
    then show "\<forall>i\<in>set ids. cg_nodes (graph_of ep s) i \<noteq> None" by blast
  next
    assume "\<forall>i\<in>set ids. cg_nodes (graph_of ep s) i \<noteq> None"
    then have "?L = set ids" by auto
    then show "card ?L = card (set ids)" by simp
  qed
  ultimately show ?thesis by (simp add: require_nodes_def Let_def eff_simps)
qed

lemma ids_ok_simps [simp]:
  "ids_ok (cv_clock_update f s) = ids_ok s" "ids_ok (cv_uuids_update g s) = ids_ok s"
  "ids_ok (cv_metas_update h s) = ids_ok s" "ids_ok (cv_episodes_update h' s) = ids_ok s"
  "ids_ok (cv_operations_update k s) = ids_ok s" "ids_ok (cv_assets_update k' s) = ids_ok s"
  "ids_ok (cv_published_update l s) = ids_ok s"
  by (simp_all add: ids_ok_def)

lemma patch_frame_uuids [simp]: "patch_frame ep s (t\<lparr>cv_uuids := u\<rparr>) = patch_frame ep s t"
  by (simp add: patch_frame_def)

lemma create_edge_refines:
  assumes "ids_ok s" "create_edge ep p acc s = (Inr acc', t)"
  shows "\<exists>j. cg_edges (graph_of ep s) j = None \<and> cg_nodes (graph_of ep s) (ce_source p) \<noteq> None
    \<and> cg_nodes (graph_of ep s) (ce_target p) \<noteq> None
    \<and> graph_of ep t = (graph_of ep s)\<lparr>cg_edges := (cg_edges (graph_of ep s))(j \<mapsto> (1, ce_source p, ce_target p))\<rparr>
    \<and> op_ok ep s acc t acc'"
proof -
  let ?j = "cv_uuids s 0" and ?s = "s\<lparr>cv_uuids := (\<lambda>n. cv_uuids s (Suc n))\<rparr>"
  let ?r = "\<lparr> eg_id = ?j, eg_episode = ep, eg_revision = 1, eg_source = ce_source p, eg_target = ce_target p,
     eg_source_port = ce_source_port p, eg_target_port = ce_target_port p, eg_type = ce_type p,
     eg_metadata = ce_metadata p, eg_deleted = None \<rparr>"
  have ends: "cg_nodes (graph_of ep s) (ce_source p) \<noteq> None" "cg_nodes (graph_of ep s) (ce_target p) \<noteq> None"
    and new: "?j \<notin> eg_id ` set (cv_edges s)"
    and t: "t = ?s\<lparr>cv_edges := cv_edges ?s @ [?r]\<rparr>"
    and acc: "pa_node_count acc' = pa_node_count acc" "pa_edge_count acc' = pa_edge_count acc + 1"
    using assms(2)
    by (auto simp: create_edge_def eff_outcomes require_nodes_run [OF assms(1)] cv_uuid4_def insert_edge_def
        eff_simps Let_def split: if_splits)
  have g: "graph_of e t = (if e = ep then (graph_of ep s)\<lparr>cg_edges := (cg_edges (graph_of ep s))(?j \<mapsto> (1, ce_source p, ce_target p))\<rparr>
      else graph_of e s)" for e
    unfolding t using graph_insert_edge [of ?r ?s ep e] new by (simp add: edge_alive_def)
  have fresh: "cg_edges (graph_of ep s) ?j = None"
    using new by (simp add: graph_of_def live_edge_def find_absent)
  have ids: "ids_ok t" using assms(1) new by (simp add: t ids_ok_def)
  have "counts ep (pa_node_count acc') (pa_edge_count acc') t" if "counts ep (pa_node_count acc) (pa_edge_count acc) s"
    using that fresh acc finite_edges [of ep s]
    by (simp add: counts_card [OF assms(1)] counts_card [OF ids] g domIff)
  then have "op_ok ep s acc t acc'" using ids g by (simp add: op_ok_def patch_frame_def t)
  then show ?thesis using ends fresh g [of ep] by (intro exI [of _ ?j]) simp
qed

lemma apply_create_split:
  assumes "apply_create env ep p anchor acc s = (Inr acc', t)"
  obtains r v where "no_id r = cv_uuids s 0" "cv_uuids s 0 \<notin> no_id ` set (cv_nodes s)" "node_alive ep r" "no_revision r = 1"
    "(case anchor of
        None \<Rightarrow> ret (acc\<lparr>pa_node_count := pa_node_count acc + 1, pa_nodes := pa_nodes acc @ [v]\<rparr>)
      | Some a \<Rightarrow> create_edge ep (anchor_edge a (cv_uuids s 0))
                     (acc\<lparr>pa_node_count := pa_node_count acc + 1, pa_nodes := pa_nodes acc @ [v]\<rparr>))
      (s\<lparr>cv_uuids := (\<lambda>n. cv_uuids s (Suc n)), cv_nodes := cv_nodes s @ [r]\<rparr>) = (Inr acc', t)"
proof -
  from assms obtain d where d: "ensure_create_defaults (cp_kind p) (cp_data p) = Inr d"
    by (auto simp: apply_create_def eff_outcomes liftR_def)
  define r where "r = \<lparr> no_id = cv_uuids s 0, no_episode = ep, no_kind = cp_kind p, no_revision = 1,
     no_x = fst (cp_position p), no_y = snd (cp_position p), no_width = cp_width p, no_height = cp_height p,
     no_data = dump_node_data (ce_codec env) d, no_deleted = None \<rparr>"
  from assms d obtain v where "cv_uuids s 0 \<notin> no_id ` set (cv_nodes s)"
    "(case anchor of
        None \<Rightarrow> ret (acc\<lparr>pa_node_count := pa_node_count acc + 1, pa_nodes := pa_nodes acc @ [v]\<rparr>)
      | Some a \<Rightarrow> create_edge ep (anchor_edge a (cv_uuids s 0))
                     (acc\<lparr>pa_node_count := pa_node_count acc + 1, pa_nodes := pa_nodes acc @ [v]\<rparr>))
      (s\<lparr>cv_uuids := (\<lambda>n. cv_uuids s (Suc n)), cv_nodes := cv_nodes s @ [r]\<rparr>) = (Inr acc', t)"
    by (auto simp: apply_create_def eff_outcomes liftR_def cv_uuid4_def insert_node_def gets_def modify_def raise_def Let_def
        r_def split: if_splits)
  then show thesis using that [of r v] by (simp add: r_def node_alive_def)
qed

lemma apply_create_refines:
  assumes "ids_ok s" "apply_create env ep p anchor acc s = (Inr acc', t)"
  shows "graph_step (CreateNodeOp p anchor) (graph_of ep s) (graph_of ep t) \<and> op_ok ep s acc t acc'"
proof -
  let ?i = "cv_uuids s 0" and ?s = "s\<lparr>cv_uuids := (\<lambda>n. cv_uuids s (Suc n))\<rparr>"
  from apply_create_split [OF assms(2)] obtain r v where r: "no_id r = ?i" "node_alive ep r" "no_revision r = 1"
    and new: "?i \<notin> no_id ` set (cv_nodes s)"
    and rest0: "(case anchor of
        None \<Rightarrow> ret (acc\<lparr>pa_node_count := pa_node_count acc + 1, pa_nodes := pa_nodes acc @ [v]\<rparr>)
      | Some a \<Rightarrow> create_edge ep (anchor_edge a ?i) (acc\<lparr>pa_node_count := pa_node_count acc + 1, pa_nodes := pa_nodes acc @ [v]\<rparr>))
      (s\<lparr>cv_uuids := (\<lambda>n. cv_uuids s (Suc n)), cv_nodes := cv_nodes s @ [r]\<rparr>) = (Inr acc', t)" .
  define u where "u = ?s\<lparr>cv_nodes := cv_nodes ?s @ [r]\<rparr>"
  let ?acc = "acc\<lparr>pa_node_count := pa_node_count acc + 1, pa_nodes := pa_nodes acc @ [v]\<rparr>"
  have rest: "(case anchor of None \<Rightarrow> ret ?acc | Some a \<Rightarrow> create_edge ep (anchor_edge a ?i) ?acc) u = (Inr acc', t)"
    using rest0 by (simp add: u_def)
  have g: "graph_of e u = (if e = ep then (graph_of ep s)\<lparr>cg_nodes := (cg_nodes (graph_of ep s))(?i \<mapsto> 1)\<rparr> else graph_of e s)" for e
    unfolding u_def using graph_insert_node [of r ?s ep e] new r by simp
  have fresh: "cg_nodes (graph_of ep s) ?i = None"
    using new by (simp add: graph_of_def live_node_def find_absent)
  have ids: "ids_ok u" using assms(1) new r by (simp add: u_def ids_ok_def)
  have "counts ep (pa_node_count ?acc) (pa_edge_count ?acc) u" if "counts ep (pa_node_count acc) (pa_edge_count acc) s"
    using that fresh finite_nodes [of ep s]
    by (simp add: counts_card [OF assms(1)] counts_card [OF ids] g domIff)
  then have first: "op_ok ep s acc u ?acc" using ids g by (simp add: op_ok_def patch_frame_def) (simp add: u_def)
  show ?thesis
  proof (cases anchor)
    case None
    with rest have t: "t = u" "acc' = ?acc" by (simp_all add: ret_def)
    have "graph_step (CreateNodeOp p None) (graph_of ep s) (graph_of ep u)"
      using graph_step.create [of "graph_of ep s" ?i p, OF fresh] g [of ep] by simp
    with first show ?thesis unfolding None t by blast
  next
    case (Some a)
    from rest have ce: "create_edge ep (anchor_edge a ?i) ?acc u = (Inr acc', t)" by (simp add: Some)
    from create_edge_refines [OF ids this] obtain j where j: "cg_edges (graph_of ep u) j = None"
        "cg_nodes (graph_of ep u) (ce_source (anchor_edge a ?i)) \<noteq> None"
        "cg_nodes (graph_of ep u) (ce_target (anchor_edge a ?i)) \<noteq> None"
        "graph_of ep t = (graph_of ep u)\<lparr>cg_edges := (cg_edges (graph_of ep u))(j \<mapsto>
            (1, ce_source (anchor_edge a ?i), ce_target (anchor_edge a ?i)))\<rparr>"
        "op_ok ep u ?acc t acc'"
      by blast
    have gu: "graph_of ep u = (graph_of ep s)\<lparr>cg_nodes := (cg_nodes (graph_of ep s))(?i \<mapsto> 1)\<rparr>" using g [of ep] by simp
    have a: "ca_node a = ?i \<or> cg_nodes (graph_of ep s) (ca_node a) \<noteq> None" and e: "cg_edges (graph_of ep s) j = None"
      using j(1-3) unfolding gu by (auto simp: anchor_edge_def split: if_splits)
    have "graph_step (CreateNodeOp p (Some a)) (graph_of ep s) (graph_of ep t)"
      unfolding j(4) gu using graph_step.create_connected [OF fresh e a, of p] by simp
    with op_ok_trans [OF first j(5)] show ?thesis unfolding Some by blast
  qed
qed

lemma apply_op_refines:
  assumes "ids_ok s" "apply_op env ep now x acc s = (Inr acc', t)"
  shows "graph_step x (graph_of ep s) (graph_of ep t) \<and> op_ok ep s acc t acc'"
proof (cases x)
  case (CreateNodeOp p a)
  with assms apply_create_refines show ?thesis by simp
next
  case (UpdateNodeOp p)
  with assms apply_update_refines show ?thesis by simp
next
  case (DeleteNodeOp i r)
  with assms apply_delete_refines show ?thesis by simp
next
  case (ConnectNodesOp p)
  with assms create_edge_refines [OF assms(1), of ep p acc acc' t] show ?thesis using graph_step.connect by fastforce
next
  case (DisconnectNodesOp i r)
  with assms apply_disconnect_refines show ?thesis by simp
qed

lemma apply_ops_refines:
  "ids_ok s \<Longrightarrow> apply_ops env ep now xs acc s = (Inr acc', t) \<Longrightarrow>
   graph_steps xs (graph_of ep s) (graph_of ep t) \<and> op_ok ep s acc t acc'"
proof (induction xs arbitrary: s acc)
  case Nil
  then show ?case by (auto simp: ret_def op_ok_def patch_frame_refl intro: graph_steps.none)
next
  case (Cons x xs)
  from Cons.prems(2) obtain acc1 u where u: "apply_op env ep now x acc s = (Inr acc1, u)"
      "apply_ops env ep now xs acc1 u = (Inr acc', t)"
    by (auto simp: bindE_eq_Inr)
  note 1 = apply_op_refines [OF Cons.prems(1) u(1)]
  then have "ids_ok u" by (simp add: op_ok_def)
  from Cons.IH [OF this u(2)] 1 show ?case by (auto intro: graph_steps.more op_ok_trans)
qed

end
