(* ===== verification/Canvas_Patch.thy ===== *)
theory Canvas_Patch
  imports Canvas_Graph
begin

text \<open>
  Patches as a whole: the conflict check only reads, it predicts the application exactly, and a
  patch is applied completely or not at all.
\<close>

section \<open>The check only reads\<close>

lemma working_node_run:
  "working_node ep i pc s =
     (if i \<in> pc_deleted_nodes pc then Inl (not_found (''node '' @ i @ '' not found''))
      else case dict_get (pc_nodes pc) i of
             Some r \<Rightarrow> Inr r
           | None \<Rightarrow> (case cg_nodes (graph_of ep s) i of
                        None \<Rightarrow> Inl (not_found (''node '' @ i @ '' not found'')) | Some r \<Rightarrow> Inr r), s)"
  by (simp add: working_node_def get_node_run bindE_def ret_def raise_def graph_of_def split: option.splits)

lemma working_edge_run:
  "working_edge ep i pc s =
     (if i \<in> pc_deleted_edges pc then Inl (not_found (''edge '' @ i @ '' not found''))
      else case dict_get (pc_edges pc) i of
             Some r \<Rightarrow> Inr r
           | None \<Rightarrow> (case cg_edges (graph_of ep s) i of
                        None \<Rightarrow> Inl (not_found (''edge '' @ i @ '' not found'')) | Some (r, a, b) \<Rightarrow> Inr r), s)"
  by (simp add: working_edge_def get_edge_run bindE_def ret_def raise_def graph_of_def split: option.splits)

lemma check_op_reads: "check_op ep x pc s = (r, t) \<Longrightarrow> t = s"
proof (cases x)
  case (UpdateNodeOp p)
  assume "check_op ep x pc s = (r, t)"
  with UpdateNodeOp show "t = s"
    by (auto simp: check_update_def bindE_def working_node_run ret_def split: sum.splits if_splits)
next
  case (DeleteNodeOp i e)
  assume "check_op ep x pc s = (r, t)"
  with DeleteNodeOp show "t = s"
    by (auto simp: check_delete_def bindE_def working_node_run ret_def gets_def split: sum.splits if_splits)
next
  case (DisconnectNodesOp i e)
  assume "check_op ep x pc s = (r, t)"
  with DisconnectNodesOp show "t = s"
    by (auto simp: check_disconnect_def bindE_def working_edge_run ret_def split: sum.splits if_splits)
qed (auto simp: ret_def)

lemma check_ops_reads: "check_ops ep xs pc s = (r, t) \<Longrightarrow> t = s"
proof (induction xs arbitrary: pc s)
  case (Cons x xs)
  obtain r1 u where "check_op ep x pc s = (r1, u)" by fastforce
  with Cons check_op_reads [OF this] show ?case by (cases r1) (auto simp: bindE_def)
qed (simp add: ret_def)

lemma collect_reads: "collect_patch_conflicts ep xs s = (r, t) \<Longrightarrow> t = s"
proof -
  assume c: "collect_patch_conflicts ep xs s = (r, t)"
  obtain r1 u where "check_ops ep xs patch_check_init s = (r1, u)" by fastforce
  with c check_ops_reads [OF this] show "t = s" by (cases r1) (auto simp: collect_patch_conflicts_def bindE_def ret_def)
qed

section \<open>What the check knows\<close>

text \<open>\<open>g\<close> is the graph before the patch, \<open>h\<close> the graph after the operations checked so far.\<close>

definition check_sim :: "patch_check \<Rightarrow> canvas_graph \<Rightarrow> canvas_graph \<Rightarrow> bool" where
  "check_sim pc g h \<longleftrightarrow>
     (\<forall>i r. cg_nodes g i = Some r \<longrightarrow> cg_nodes h i =
        (if i \<in> pc_deleted_nodes pc then None else Some (case dict_get (pc_nodes pc) i of None \<Rightarrow> r | Some q \<Rightarrow> q)))
     \<and> (\<forall>i q. dict_get (pc_nodes pc) i = Some q \<longrightarrow> cg_nodes g i \<noteq> None)
     \<and> (\<forall>j r a b. cg_edges g j = Some (r, a, b) \<longrightarrow> cg_edges h j =
        (if j \<in> pc_deleted_edges pc then None
         else Some (case dict_get (pc_edges pc) j of None \<Rightarrow> r | Some q \<Rightarrow> q, a, b)))
     \<and> (\<forall>j q. dict_get (pc_edges pc) j = Some q \<longrightarrow> cg_edges g j \<noteq> None)"

lemma check_simD:
  assumes "check_sim pc g h"
  shows "cg_nodes g i = Some r \<Longrightarrow> cg_nodes h i =
      (if i \<in> pc_deleted_nodes pc then None else Some (case dict_get (pc_nodes pc) i of None \<Rightarrow> r | Some q \<Rightarrow> q))"
    and "dict_get (pc_nodes pc) i = Some q \<Longrightarrow> cg_nodes g i \<noteq> None"
    and "cg_edges g j = Some (r, a, b) \<Longrightarrow> cg_edges h j =
      (if j \<in> pc_deleted_edges pc then None else Some (case dict_get (pc_edges pc) j of None \<Rightarrow> r | Some q \<Rightarrow> q, a, b))"
    and "dict_get (pc_edges pc) j = Some q \<Longrightarrow> cg_edges g j \<noteq> None"
  using assms unfolding check_sim_def by blast+

lemma check_sim_init: "check_sim patch_check_init g g"
  by (simp add: check_sim_def patch_check_init_def)

lemma check_sim_node:
  assumes "check_sim pc (graph_of ep s0) h" "working_node ep i pc s0 = (Inr r, t)"
  shows "cg_nodes h i = Some r \<and> cg_nodes (graph_of ep s0) i \<noteq> None \<and> i \<notin> pc_deleted_nodes pc"
  using assms(2) check_simD(1,2) [OF assms(1), of i]
  by (cases "cg_nodes (graph_of ep s0) i"; cases "dict_get (pc_nodes pc) i") (auto simp: working_node_run split: if_splits)

lemma check_sim_edge:
  assumes "check_sim pc (graph_of ep s0) h" "working_edge ep i pc s0 = (Inr r, t)"
  obtains q a b where "cg_edges h i = Some (r, a, b)" "cg_edges (graph_of ep s0) i = Some (q, a, b)" "i \<notin> pc_deleted_edges pc"
proof (cases "cg_edges (graph_of ep s0) i")
  case None
  then show ?thesis
    using assms(2) check_simD(4) [OF assms(1), of i] by (cases "dict_get (pc_edges pc) i") (auto simp: working_edge_run split: if_splits)
next
  case (Some e)
  obtain q a b where e: "e = (q, a, b)" by (cases e)
  with Some assms(2) check_simD(3) [OF assms(1), of i q a b] that [of a b q] show ?thesis
    by (cases "dict_get (pc_edges pc) i") (auto simp: working_edge_run split: if_splits)
qed

text \<open>An operation that passes the check without a conflict: the check then knows the next graph, if
  what becomes live in it is new.\<close>

definition only_new :: "canvas_graph \<Rightarrow> canvas_graph \<Rightarrow> canvas_graph \<Rightarrow> bool" where
  "only_new g h k \<longleftrightarrow> (\<forall>i. cg_nodes h i = None \<and> cg_nodes k i \<noteq> None \<longrightarrow> cg_nodes g i = None)
     \<and> (\<forall>j. cg_edges h j = None \<and> cg_edges k j \<noteq> None \<longrightarrow> cg_edges g j = None)"

lemma check_update_ok:
  assumes "check_op ep (UpdateNodeOp p) pc s0 = (Inr pc', t)" "pc_conflicts pc' = []"
  shows "working_node ep (up_id p) pc s0 = (Inr (up_revision p), s0)"
    "pc' = pc\<lparr>pc_nodes := dict_set (pc_nodes pc) (up_id p) (up_revision p + 1)\<rparr>"
  using assms by (auto simp: check_update_def bindE_def working_node_run ret_def split: sum.splits if_splits)

text \<open>The edges a deletion takes along.\<close>

definition cascade :: "int \<Rightarrow> string \<Rightarrow> canvas_db \<Rightarrow> string set" where
  "cascade ep i s = eg_id ` set (filter (touching ep i) (cv_edges s))"

lemma check_delete_ok:
  assumes "check_op ep (DeleteNodeOp i e) pc s0 = (Inr pc', t)" "pc_conflicts pc' = []"
  shows "working_node ep i pc s0 = (Inr e, s0)"
    "pc' = pc\<lparr>pc_nodes := dict_set (pc_nodes pc) i (e + 1), pc_deleted_nodes := insert i (pc_deleted_nodes pc),
       pc_deleted_edges := pc_deleted_edges pc \<union> cascade ep i s0,
       pc_edges := filter (\<lambda>kv. fst kv \<notin> cascade ep i s0 - pc_deleted_edges pc) (pc_edges pc)\<rparr>"
  using assms by (auto simp: cascade_def check_delete_def bindE_def working_node_run ret_def gets_def split: sum.splits if_splits)

lemma check_disconnect_ok:
  assumes "check_op ep (DisconnectNodesOp i e) pc s0 = (Inr pc', t)" "pc_conflicts pc' = []"
  shows "working_edge ep i pc s0 = (Inr e, s0)"
    "pc' = pc\<lparr>pc_edges := dict_set (pc_edges pc) i (e + 1), pc_deleted_edges := insert i (pc_deleted_edges pc)\<rparr>"
  using assms by (auto simp: check_disconnect_def bindE_def working_edge_run ret_def split: sum.splits if_splits)

lemma cascade_iff:
  assumes "ids_ok s" "cg_edges (graph_of ep s) j = Some (r, a, b)"
  shows "j \<in> cascade ep i s \<longleftrightarrow> a = i \<or> b = i"
proof -
  have "((cg_edges (graph_of ep s)) |` (- cascade ep i s)) j = drop_touching i (cg_edges (graph_of ep s)) j"
    unfolding cascade_def restrict_touching [OF assms(1)] ..
  with assms(2) show ?thesis by (auto simp: restrict_map_def drop_touching_def split: if_splits)
qed

lemma dict_get_filter: "dict_get (filter (\<lambda>kv. fst kv \<notin> C) d) j = (if j \<in> C then None else dict_get d j)"
  by (induction d) auto

lemma check_sim_delete:
  assumes sim: "check_sim pc (graph_of ep s0) h" and ids: "ids_ok s0"
    and ok: "check_op ep (DeleteNodeOp i e) pc s0 = (Inr pc', t)" "pc_conflicts pc' = []"
  shows "check_sim pc' (graph_of ep s0) (h\<lparr>cg_nodes := (cg_nodes h)(i := None), cg_edges := drop_touching i (cg_edges h)\<rparr>)"
proof -
  note pc' = check_delete_ok(2) [OF ok]
  have w: "cg_nodes (graph_of ep s0) i \<noteq> None" using check_sim_node [OF sim check_delete_ok(1) [OF ok]] by simp
  show ?thesis
    unfolding check_sim_def
  proof (intro conjI allI impI)
    fix j r assume "cg_nodes (graph_of ep s0) j = Some r"
    with check_simD(1) [OF sim this]
    show "cg_nodes (h\<lparr>cg_nodes := (cg_nodes h)(i := None), cg_edges := drop_touching i (cg_edges h)\<rparr>) j =
        (if j \<in> pc_deleted_nodes pc' then None else Some (case dict_get (pc_nodes pc') j of None \<Rightarrow> r | Some q \<Rightarrow> q))"
      by (simp add: pc' update_conv')
  next
    fix j q assume "dict_get (pc_nodes pc') j = Some q"
    then show "cg_nodes (graph_of ep s0) j \<noteq> None"
      using w check_simD(2) [OF sim, of j] by (auto simp: pc' update_conv' split: if_splits)
  next
    fix j r a b assume e: "cg_edges (graph_of ep s0) j = Some (r, a, b)"
    with check_simD(3) [OF sim e]
    show "cg_edges (h\<lparr>cg_nodes := (cg_nodes h)(i := None), cg_edges := drop_touching i (cg_edges h)\<rparr>) j =
        (if j \<in> pc_deleted_edges pc' then None else Some (case dict_get (pc_edges pc') j of None \<Rightarrow> r | Some q \<Rightarrow> q, a, b))"
      unfolding pc' using cascade_iff [OF ids e, of i]
      by (auto simp: drop_touching_def dict_get_filter simp del: Diff_iff)
  next
    fix j q assume "dict_get (pc_edges pc') j = Some q"
    then show "cg_edges (graph_of ep s0) j \<noteq> None"
      using check_simD(4) [OF sim, of j q] unfolding pc' by (auto simp: dict_get_filter simp del: Diff_iff split: if_splits)
  qed
qed

lemma check_sim_step:
  assumes sim: "check_sim pc (graph_of ep s0) h" and ids: "ids_ok s0"
    and ok: "check_op ep x pc s0 = (Inr pc', t)" "pc_conflicts pc' = []"
    and step: "graph_step x h k" and new: "only_new (graph_of ep s0) h k"
  shows "check_sim pc' (graph_of ep s0) k"
  using step
proof cases
  case (create i p)
  then have "pc' = pc" "cg_nodes (graph_of ep s0) i = None" using ok new by (auto simp: ret_def only_new_def)
  with sim create show ?thesis by (auto simp: check_sim_def)
next
  case (create_connected i j a p)
  then have "pc' = pc" "cg_nodes (graph_of ep s0) i = None" "cg_edges (graph_of ep s0) j = None"
    using ok new by (auto simp: ret_def only_new_def)
  with sim create_connected show ?thesis by (auto simp: check_sim_def)
next
  case (update p)
  have "check_op ep (UpdateNodeOp p) pc s0 = (Inr pc', t)" using ok update by simp
  note u = check_update_ok [OF this ok(2)]
  have "cg_nodes (graph_of ep s0) (up_id p) \<noteq> None \<and> up_id p \<notin> pc_deleted_nodes pc"
    using check_sim_node [OF sim u(1)] by simp
  with sim update u(2) show ?thesis by (auto simp: check_sim_def update_conv')
next
  case (delete i r)
  then show ?thesis using check_sim_delete [OF sim ids, of i r pc' t] ok by simp
next
  case (connect p j)
  then have "pc' = pc" "cg_edges (graph_of ep s0) j = None" using ok new by (auto simp: ret_def only_new_def)
  with sim connect show ?thesis by (auto simp: check_sim_def)
next
  case (disconnect i r a b)
  have "check_op ep (DisconnectNodesOp i r) pc s0 = (Inr pc', t)" using ok disconnect by simp
  note u = check_disconnect_ok [OF this ok(2)]
  from check_sim_edge [OF sim u(1)] have "cg_edges (graph_of ep s0) i \<noteq> None" by blast
  with sim disconnect u(2) show ?thesis by (auto simp: check_sim_def update_conv')
qed

section \<open>New rows\<close>

text \<open>The identifiers in use, live or deleted.\<close>

definition node_ids :: "canvas_db \<Rightarrow> string set" where "node_ids s = set (map no_id (cv_nodes s))"

definition edge_ids :: "canvas_db \<Rightarrow> string set" where "edge_ids s = set (map eg_id (cv_edges s))"

definition rows_grow :: "canvas_db \<Rightarrow> canvas_db \<Rightarrow> bool" where
  "rows_grow s t \<longleftrightarrow> node_ids s \<subseteq> node_ids t \<and> edge_ids s \<subseteq> edge_ids t"

lemma rows_grow_refl: "rows_grow s s"
  by (simp add: rows_grow_def)

lemma rows_grow_trans: "rows_grow s t \<Longrightarrow> rows_grow t u \<Longrightarrow> rows_grow s u"
  unfolding rows_grow_def by (metis subset_trans)

text \<open>An identifier that becomes live in a step was never used before.\<close>

definition fresh_step :: "int \<Rightarrow> canvas_db \<Rightarrow> canvas_db \<Rightarrow> bool" where
  "fresh_step ep s t \<longleftrightarrow>
     (\<forall>i. cg_nodes (graph_of ep s) i = None \<and> cg_nodes (graph_of ep t) i \<noteq> None \<longrightarrow> i \<notin> node_ids s)
     \<and> (\<forall>j. cg_edges (graph_of ep s) j = None \<and> cg_edges (graph_of ep t) j \<noteq> None \<longrightarrow> j \<notin> edge_ids s)"

lemma live_has_row:
  "cg_nodes (graph_of ep s) i \<noteq> None \<Longrightarrow> i \<in> node_ids s"
  "cg_edges (graph_of ep s) j \<noteq> None \<Longrightarrow> j \<in> edge_ids s"
  by (auto simp: graph_of_def node_ids_def edge_ids_def dest: live_node_in live_edge_in)

lemma fresh_only_new:
  assumes "rows_grow s0 s" "fresh_step ep s t"
  shows "only_new (graph_of ep s0) (graph_of ep s) (graph_of ep t)"
proof -
  have "cg_nodes (graph_of ep s0) i = None"
    if "cg_nodes (graph_of ep s) i = None" "cg_nodes (graph_of ep t) i \<noteq> None" for i
  proof (rule ccontr)
    assume "cg_nodes (graph_of ep s0) i \<noteq> None"
    then have "i \<in> node_ids s" using live_has_row(1) assms(1) rows_grow_def by blast
    with assms(2) that show False by (simp add: fresh_step_def)
  qed
  moreover have "cg_edges (graph_of ep s0) j = None"
    if "cg_edges (graph_of ep s) j = None" "cg_edges (graph_of ep t) j \<noteq> None" for j
  proof (rule ccontr)
    assume "cg_edges (graph_of ep s0) j \<noteq> None"
    then have "j \<in> edge_ids s" using live_has_row(2) assms(1) rows_grow_def by blast
    with assms(2) that show False unfolding fresh_step_def by blast
  qed
  ultimately show ?thesis unfolding only_new_def by blast
qed

lemma save_rows:
  "node_ids (snd (save_node r s)) = node_ids s"
  "edge_ids (snd (save_node r s)) = edge_ids s"
  "edge_ids (snd (save_edge q s)) = edge_ids s"
  "node_ids (snd (save_edge q s)) = node_ids s"
proof -
  have "map no_id (cv_nodes (snd (save_node r s))) = map no_id (cv_nodes s)"
    "map eg_id (cv_edges (snd (save_edge q s))) = map eg_id (cv_edges s)"
    by (simp_all add: save_node_def save_edge_def modify_def replace_keys del: map_map)
  then show "node_ids (snd (save_node r s)) = node_ids s" "edge_ids (snd (save_edge q s)) = edge_ids s"
    by (simp_all only: node_ids_def edge_ids_def)
qed (simp_all add: save_node_def save_edge_def modify_def node_ids_def edge_ids_def)

lemma delete_edges_rows:
  "delete_edges now rows acc s = (r, t) \<Longrightarrow> node_ids t = node_ids s \<and> edge_ids t = edge_ids s"
proof (induction rows arbitrary: acc s)
  case (Cons q rows)
  let ?q = "q\<lparr>eg_deleted := Some now, eg_revision := eg_revision q + 1\<rparr>"
  obtain acc1 where "delete_edges now rows acc1 (snd (save_edge ?q s)) = (r, t)"
    using Cons.prems by (simp add: delete_edge_def bindE_assoc save_outcome eff_simps)
  from Cons.IH [OF this] show ?case by (simp only: save_rows)
qed (simp add: ret_def)

lemma fresh_step_trans:
  assumes "rows_grow s u" "fresh_step ep s u" "fresh_step ep u t"
  shows "fresh_step ep s t"
proof -
  have "i \<notin> node_ids s" if "cg_nodes (graph_of ep s) i = None" "cg_nodes (graph_of ep t) i \<noteq> None" for i
    using assms that unfolding fresh_step_def rows_grow_def by (cases "cg_nodes (graph_of ep u) i = None") blast+
  moreover have "j \<notin> edge_ids s" if "cg_edges (graph_of ep s) j = None" "cg_edges (graph_of ep t) j \<noteq> None" for j
    using assms that unfolding fresh_step_def rows_grow_def by (cases "cg_edges (graph_of ep u) j = None") blast+
  ultimately show ?thesis unfolding fresh_step_def by blast
qed

lemma fresh_append_node:
  assumes "cv_nodes t = cv_nodes s @ [r]" "no_id r \<notin> node_ids s" "cv_edges t = cv_edges s"
  shows "fresh_step ep s t \<and> rows_grow s t"
  using assms by (auto simp: fresh_step_def rows_grow_def node_ids_def edge_ids_def graph_of_def live_node_def live_edge_def
      find_append split: option.splits if_splits)

lemma fresh_append_edge:
  assumes "cv_edges t = cv_edges s @ [r]" "eg_id r \<notin> edge_ids s" "cv_nodes t = cv_nodes s"
  shows "fresh_step ep s t \<and> rows_grow s t"
  using assms by (auto simp: fresh_step_def rows_grow_def node_ids_def edge_ids_def graph_of_def live_node_def live_edge_def
      find_append split: option.splits if_splits)

lemma create_edge_fresh:
  assumes "ids_ok s" "create_edge ep p acc s = (Inr acc', t)"
  shows "fresh_step ep s t \<and> rows_grow s t"
proof -
  from assms(2) obtain r where "cv_edges t = cv_edges s @ [r]" "eg_id r \<notin> edge_ids s" "cv_nodes t = cv_nodes s"
    by (auto simp: create_edge_def eff_outcomes require_nodes_run [OF assms(1)] cv_uuid4_def insert_edge_def
        eff_simps Let_def edge_ids_def split: if_splits)
  then show ?thesis by (rule fresh_append_edge)
qed

lemma apply_create_fresh:
  assumes "ids_ok s" "apply_create env ep p anchor acc s = (Inr acc', t)"
  shows "fresh_step ep s t \<and> rows_grow s t"
proof -
  from apply_create_split [OF assms(2)] obtain r v where r: "no_id r = cv_uuids s 0" "cv_uuids s 0 \<notin> no_id ` set (cv_nodes s)"
    and rest0: "(case anchor of
        None \<Rightarrow> ret (acc\<lparr>pa_node_count := pa_node_count acc + 1, pa_nodes := pa_nodes acc @ [v]\<rparr>)
      | Some a \<Rightarrow> create_edge ep (anchor_edge a (cv_uuids s 0))
                     (acc\<lparr>pa_node_count := pa_node_count acc + 1, pa_nodes := pa_nodes acc @ [v]\<rparr>))
      (s\<lparr>cv_uuids := (\<lambda>n. cv_uuids s (Suc n)), cv_nodes := cv_nodes s @ [r]\<rparr>) = (Inr acc', t)" .
  define u where "u = s\<lparr>cv_uuids := (\<lambda>n. cv_uuids s (Suc n)), cv_nodes := cv_nodes s @ [r]\<rparr>"
  have u: "cv_nodes u = cv_nodes s @ [r]" "no_id r \<notin> node_ids s" "cv_edges u = cv_edges s"
    using r by (simp_all add: u_def node_ids_def)
  note rest = rest0 [folded u_def]
  have 1: "fresh_step ep s u" "rows_grow s u" using fresh_append_node [OF u] by auto
  have "ids_ok u" using assms(1) u by (simp add: ids_ok_def node_ids_def)
  with rest have "fresh_step ep u t \<and> rows_grow u t"
    by (cases anchor) (auto simp: ret_def fresh_step_def rows_grow_refl dest: create_edge_fresh)
  with 1 show ?thesis by (auto intro: fresh_step_trans rows_grow_trans)
qed

lemma apply_update_rows:
  assumes "apply_update env ep p acc s = (Inr acc', t)"
  shows "rows_grow s t"
proof -
  from assms obtain row' where "t = snd (save_node row' s)"
    by (auto simp: apply_update_def eff_outcomes get_node_run require_entity_revision_def ensure_def liftR_def
        save_outcome ret_def split: option.splits if_splits)
  then show ?thesis by (simp add: rows_grow_def save_rows)
qed

lemma apply_delete_rows:
  assumes "apply_delete ep now i e acc s = (Inr acc', t)"
  shows "rows_grow s t"
proof -
  from assms obtain row' rows acc1 where "delete_edges now rows acc1 (snd (save_node row' s)) = (Inr acc', t)"
    by (auto simp: apply_delete_def eff_outcomes get_node_run require_entity_revision_def ensure_def gets_def
        save_outcome split: option.splits if_splits)
  from delete_edges_rows [OF this] show ?thesis by (simp add: rows_grow_def save_rows)
qed

lemma apply_disconnect_rows:
  assumes "apply_disconnect ep now i e acc s = (Inr acc', t)"
  shows "rows_grow s t"
proof -
  from assms obtain q where "t = snd (save_edge q s)"
    by (auto simp: apply_disconnect_def delete_edge_def eff_outcomes get_edge_run require_entity_revision_def ensure_def
        save_outcome ret_def split: option.splits if_splits)
  then show ?thesis by (simp add: rows_grow_def save_rows)
qed

lemma graph_step_fresh:
  assumes "graph_step x (graph_of ep s) (graph_of ep t)" "\<And>p a. x \<noteq> CreateNodeOp p a" "\<And>p. x \<noteq> ConnectNodesOp p"
  shows "fresh_step ep s t"
  using assms(1)
proof cases
  case (delete i r)
  then show ?thesis by (auto simp: fresh_step_def drop_touching_def split: option.splits if_splits)
qed (use assms(2,3) in \<open>auto simp: fresh_step_def\<close>)

lemma apply_op_fresh:
  assumes "ids_ok s" "apply_op env ep now x acc s = (Inr acc', t)"
  shows "fresh_step ep s t \<and> rows_grow s t"
proof (cases x)
  case (CreateNodeOp p a)
  with assms apply_create_fresh show ?thesis by simp
next
  case (UpdateNodeOp p)
  with assms apply_update_rows apply_op_refines [OF assms] show ?thesis by (auto intro: graph_step_fresh)
next
  case (DeleteNodeOp i r)
  with assms apply_delete_rows apply_op_refines [OF assms] show ?thesis by (auto intro: graph_step_fresh)
next
  case (ConnectNodesOp p)
  with assms create_edge_fresh show ?thesis by simp
next
  case (DisconnectNodesOp i r)
  with assms apply_disconnect_rows apply_op_refines [OF assms] show ?thesis by (auto intro: graph_step_fresh)
qed

section \<open>An operation that passed the check meets no conflict\<close>

definition is_conflict :: "exc \<Rightarrow> bool" where
  "is_conflict e = (case e of CanvasRevisionConflictError _ \<Rightarrow> True | _ \<Rightarrow> False)"

lemma is_conflict_simps [simp]:
  "is_conflict (CanvasRevisionConflictError cs)" "\<not> is_conflict (AppError c m)" "\<not> is_conflict (ValidationError m)"
  "\<not> is_conflict (IntegrityError ls)" "\<not> is_conflict (not_found m)" "\<not> is_conflict (ValueError m)"
  by (simp_all add: is_conflict_def not_found_def)

lemma pure_no_conflict:
  "parse_node_data nc raw = Inl e \<Longrightarrow> \<not> is_conflict e"
  "model_validate d = Inl e \<Longrightarrow> \<not> is_conflict e"
  "validate_node_data_content k d = Inl e \<Longrightarrow> \<exists>m. e = ValueError m"
  by (auto simp: parse_node_data_def model_validate_def validate_node_data_content_def
      split: json.splits option.splits node_content.splits if_splits)

lemma bindR_Inl: "bindR m f = Inl e \<longleftrightarrow> m = Inl e \<or> (\<exists>x. m = Inr x \<and> f x = Inl e)"
  by (simp add: bindR_def split: sum.splits)

lemma with_error_Inl: "with_error f r = Inl e \<longleftrightarrow> (\<exists>x. r = Inl x \<and> e = f x)"
  by (auto simp: with_error_def split: sum.splits)

lemma insert_node_run:
  "insert_node r s = (if no_id r \<in> no_id ` set (cv_nodes s) then (Inl (IntegrityError (cv_driver s ''canvas_nodes_pkey'')), s)
     else (Inr (), s\<lparr>cv_nodes := cv_nodes s @ [r]\<rparr>))"
  by (simp add: insert_node_def eff_simps)

lemma merge_no_conflict: "merge_client_node_data x p k = Inl e \<Longrightarrow> \<not> is_conflict e"
  by (auto simp: merge_client_node_data_def bindR_Inl with_error_Inl pure_no_conflict(2)
      dest!: pure_no_conflict(3) split: if_splits)

lemma view_no_conflict: "node_view_from_row env r = Inl e \<Longrightarrow> \<not> is_conflict e"
  by (auto simp: node_view_from_row_def bindR_Inl with_error_Inl dest: pure_no_conflict(1))

lemma patched_no_conflict: "patched_row env p row = Inl e \<Longrightarrow> \<not> is_conflict e"
  by (auto simp: patched_row_def bindR_Inl dest: pure_no_conflict(1) merge_no_conflict split: option.splits)

lemma create_edge_no_conflict: "ids_ok s \<Longrightarrow> create_edge ep p acc s = (Inl e, t) \<Longrightarrow> \<not> is_conflict e"
  by (auto simp: create_edge_def bindE_eq_Inl require_nodes_run cv_uuid4_def insert_edge_def Let_def gets_def
      modify_def raise_def ret_def split: if_splits)

lemma ensure_no_conflict: "ensure_create_defaults k d = Inl e \<Longrightarrow> \<not> is_conflict e"
  by (auto simp: ensure_create_defaults_def Let_def dest: pure_no_conflict(2))

lemma apply_create_no_conflict:
  assumes "ids_ok s" "apply_create env ep p anchor acc s = (Inl e, t)"
  shows "\<not> is_conflict e"
proof (cases "ensure_create_defaults (cp_kind p) (cp_data p)")
  case (Inl f)
  with assms(2) ensure_no_conflict show ?thesis by (auto simp: apply_create_def bindE_eq_Inl cv_uuid4_def liftR_def)
next
  case (Inr d)
  let ?i = "cv_uuids s 0"
  define r where "r = \<lparr> no_id = ?i, no_episode = ep, no_kind = cp_kind p, no_revision = 1,
     no_x = fst (cp_position p), no_y = snd (cp_position p), no_width = cp_width p, no_height = cp_height p,
     no_data = dump_node_data (ce_codec env) d, no_deleted = None \<rparr>"
  define u where "u = s\<lparr>cv_uuids := (\<lambda>n. cv_uuids s (Suc n)), cv_nodes := cv_nodes s @ [r]\<rparr>"
  show ?thesis
  proof (cases "?i \<in> no_id ` set (cv_nodes s)")
    case True
    with assms(2) Inr show ?thesis
      by (auto simp: apply_create_def bindE_eq_Inl cv_uuid4_def liftR_def insert_node_run Let_def)
  next
    case False
    then have run: "apply_create env ep p anchor acc s =
        bindE (liftR (node_view_from_row env r)) (\<lambda>v. case anchor of
            None \<Rightarrow> ret (acc\<lparr>pa_node_count := pa_node_count acc + 1, pa_nodes := pa_nodes acc @ [v]\<rparr>)
          | Some a \<Rightarrow> create_edge ep (anchor_edge a ?i) (acc\<lparr>pa_node_count := pa_node_count acc + 1, pa_nodes := pa_nodes acc @ [v]\<rparr>)) u"
      using Inr by (simp add: apply_create_def bindE_def [of cv_uuid4] cv_uuid4_def insert_node_def Let_def eff_simps
          bindE_assoc r_def u_def)
    have "ids_ok u" using assms(1) False by (simp add: u_def ids_ok_def r_def)
    then show ?thesis
      using assms(2) view_no_conflict create_edge_no_conflict unfolding run
      by (cases anchor) (auto simp: bindE_eq_Inl liftR_def ret_def)
  qed
qed

lemma delete_edge_total: "\<exists>acc' t. delete_edge now r acc s = (Inr acc', t)"
  by (simp add: delete_edge_def save_outcome ret_def)

lemma delete_edges_total: "\<exists>acc' t. delete_edges now rows acc s = (Inr acc', t)"
proof (induction rows arbitrary: acc s)
  case (Cons q rows)
  obtain acc1 u where "delete_edge now q acc s = (Inr acc1, u)" using delete_edge_total by blast
  with Cons.IH show ?case by (simp add: bindE_Inr)
qed (simp add: ret_def)

lemma apply_op_no_conflict:
  assumes sim: "check_sim pc (graph_of ep s0) (graph_of ep s)" and ids: "ids_ok s"
    and ok: "check_op ep x pc s0 = (Inr pc', u)" "pc_conflicts pc' = []"
    and run: "apply_op env ep now x acc s = (Inl e, t)"
  shows "\<not> is_conflict e"
proof (cases x)
  case (CreateNodeOp p a)
  with run apply_create_no_conflict [OF ids] show ?thesis by simp
next
  case (ConnectNodesOp p)
  with run create_edge_no_conflict [OF ids] show ?thesis by simp
next
  case (UpdateNodeOp p)
  have "check_op ep (UpdateNodeOp p) pc s0 = (Inr pc', u)" using ok UpdateNodeOp by simp
  from check_sim_node [OF sim check_update_ok(1) [OF this ok(2)]]
  obtain row where "live_node ep s (up_id p) = Some row" "no_revision row = up_revision p" by (auto simp: graph_of_def)
  with run UpdateNodeOp patched_no_conflict view_no_conflict show ?thesis
    by (auto simp: apply_update_def bindE_eq_Inl get_node_run require_entity_revision_def ensure_def liftR_def save_outcome ret_def)
next
  case (DeleteNodeOp i r)
  have "check_op ep (DeleteNodeOp i r) pc s0 = (Inr pc', u)" using ok DeleteNodeOp by simp
  from check_sim_node [OF sim check_delete_ok(1) [OF this ok(2)]]
  obtain row where "live_node ep s i = Some row" "no_revision row = r" by (auto simp: graph_of_def)
  with run DeleteNodeOp show ?thesis
    using delete_edges_total
    by (auto simp: apply_delete_def bindE_eq_Inl get_node_run require_entity_revision_def ensure_def gets_def save_outcome)
       (metis Inl_Inr_False prod.inject)
next
  case (DisconnectNodesOp i r)
  have "check_op ep (DisconnectNodesOp i r) pc s0 = (Inr pc', u)" using ok DisconnectNodesOp by simp
  from check_sim_edge [OF sim check_disconnect_ok(1) [OF this ok(2)]]
  obtain row where "live_edge ep s i = Some row" "eg_revision row = r" by (auto simp: graph_of_def)
  with run DisconnectNodesOp show ?thesis
    using delete_edge_total
    by (auto simp: apply_disconnect_def bindE_eq_Inl get_edge_run require_entity_revision_def ensure_def)
       (metis Inl_Inr_False prod.inject)
qed

lemma check_op_conflicts: "check_op ep x pc s = (Inr pc', t) \<Longrightarrow> pc_conflicts pc' = [] \<Longrightarrow> pc_conflicts pc = []"
proof (cases x)
  case (UpdateNodeOp p)
  assume "check_op ep x pc s = (Inr pc', t)" "pc_conflicts pc' = []"
  with UpdateNodeOp check_update_ok(2) [of ep p pc s pc' t] show ?thesis by simp
next
  case (DeleteNodeOp i e)
  assume "check_op ep x pc s = (Inr pc', t)" "pc_conflicts pc' = []"
  with DeleteNodeOp check_delete_ok(2) [of ep i e pc s pc' t] show ?thesis by simp
next
  case (DisconnectNodesOp i e)
  assume "check_op ep x pc s = (Inr pc', t)" "pc_conflicts pc' = []"
  with DisconnectNodesOp check_disconnect_ok(2) [of ep i e pc s pc' t] show ?thesis by simp
qed (auto simp: ret_def)

lemma check_ops_conflicts: "check_ops ep xs pc s = (Inr pc', t) \<Longrightarrow> pc_conflicts pc' = [] \<Longrightarrow> pc_conflicts pc = []"
proof (induction xs arbitrary: pc s)
  case (Cons x xs)
  then obtain pc1 u where "check_op ep x pc s = (Inr pc1, u)" "check_ops ep xs pc1 u = (Inr pc', t)"
    by (auto simp: bindE_eq_Inr)
  with Cons check_op_conflicts show ?case by blast
qed (simp add: ret_def)

lemma apply_ops_no_conflict:
  assumes "ids_ok s0" "pc_conflicts pc' = []"
  shows "check_sim pc (graph_of ep s0) (graph_of ep s) \<Longrightarrow> ids_ok s \<Longrightarrow> rows_grow s0 s \<Longrightarrow>
    check_ops ep xs pc s0 = (Inr pc', u) \<Longrightarrow> apply_ops env ep now xs acc s = (Inl e, t) \<Longrightarrow> \<not> is_conflict e"
proof (induction xs arbitrary: pc s acc)
  case (Cons x xs)
  from Cons.prems(4) obtain pc1 v where c: "check_op ep x pc s0 = (Inr pc1, v)" "check_ops ep xs pc1 v = (Inr pc', u)"
    by (auto simp: bindE_eq_Inr)
  have v: "v = s0" using check_op_reads [OF c(1)] .
  have pc1: "pc_conflicts pc1 = []" using check_ops_conflicts [OF c(2) assms(2)] .
  show ?case
  proof (cases "apply_op env ep now x acc s")
    case (Pair r w)
    show ?thesis
    proof (cases r)
      case (Inl f)
      with Cons.prems(5) Pair have "f = e" by (simp add: bindE_Inl)
      with apply_op_no_conflict [OF Cons.prems(1,2) c(1) pc1] Pair Inl show ?thesis by simp
    next
      case (Inr acc1)
      with Pair have run: "apply_op env ep now x acc s = (Inr acc1, w)" by simp
      note ref = apply_op_refines [OF Cons.prems(2) run] and fresh = apply_op_fresh [OF Cons.prems(2) run]
      have "check_sim pc1 (graph_of ep s0) (graph_of ep w)"
        using check_sim_step [OF Cons.prems(1) assms(1) c(1) pc1] ref fresh fresh_only_new [OF Cons.prems(3)] by blast
      moreover have "ids_ok w" using ref by (simp add: op_ok_def)
      moreover have "rows_grow s0 w" using fresh Cons.prems(3) rows_grow_trans by blast
      moreover have "apply_ops env ep now xs acc1 w = (Inl e, t)" using Cons.prems(5) run by (simp add: bindE_Inr)
      ultimately show ?thesis using Cons.IH c(2) v by blast
    qed
  qed
qed (simp add: ret_def)

section \<open>A patch as a whole\<close>

definition episode_open :: "int \<Rightarrow> canvas_db \<Rightarrow> bool" where
  "episode_open ep s \<longleftrightarrow> (\<exists>e\<in>set (cv_episodes s). eo_id e = ep \<and> eo_deleted e = None) \<and> ep \<in> me_episode ` set (cv_metas s)"

lemma find_by_value: "find (\<lambda>x. f x = v) xs = None \<longleftrightarrow> v \<notin> f ` set xs"
  by (induction xs) auto

lemma lock_episode_run:
  assumes "lock_episode ep s = (r, t)"
  shows "t = s \<and> (case r of
     Inl e \<Rightarrow> \<not> is_conflict e \<and> \<not> episode_open ep s
   | Inr m \<Rightarrow> episode_open ep s \<and> m \<in> set (cv_metas s) \<and> me_episode m = ep)"
proof (cases "find (\<lambda>e. eo_id e = ep \<and> eo_deleted e = None) (cv_episodes s)")
  case None
  with assms show ?thesis by (auto simp: lock_episode_def eff_simps episode_open_def find_None_iff)
next
  case (Some e)
  from find_SomeD [OF Some] have e: "e \<in> set (cv_episodes s)" "eo_id e = ep" "eo_deleted e = None" by auto
  show ?thesis
  proof (cases "find (\<lambda>m. me_episode m = ep) (cv_metas s)")
    case None
    with assms Some show ?thesis
      by (auto simp: lock_episode_def require_meta_def eff_simps episode_open_def find_by_value)
  next
    case m: (Some m)
    from find_SomeD [OF m] have meta: "m \<in> set (cv_metas s)" "me_episode m = ep" by auto
    then have "ep \<in> me_episode ` set (cv_metas s)" by blast
    with e have "episode_open ep s" unfolding episode_open_def by blast
    with assms Some m meta show ?thesis
      by (auto simp: lock_episode_def require_meta_def eff_simps)
  qed
qed

lemma collect_no_conflict_error:
  assumes "collect_patch_conflicts ep xs s = (Inl e, t)"
  shows "\<not> is_conflict e"
proof -
  have op: "\<not> is_conflict e" if "check_op ep x pc s = (Inl e, t)" for x pc s t
    using that
    by (cases x) (auto simp: check_update_def check_delete_def check_disconnect_def bindE_eq_Inl working_node_run working_edge_run
        ret_def gets_def split: if_splits option.splits)
  have "\<not> is_conflict e" if "check_ops ep xs pc s = (Inl e, t)" for pc
    using that
  proof (induction xs arbitrary: pc s)
    case (Cons x xs)
    then show ?case using op by (auto simp: bindE_eq_Inl)
  qed (simp add: ret_def)
  with assms show ?thesis by (auto simp: collect_patch_conflicts_def bindE_eq_Inl ret_def)
qed

definition start_acc :: "episode_meta_row \<Rightarrow> patch_acc" where
  "start_acc meta = \<lparr> pa_nodes = [], pa_edges = [], pa_deleted_nodes = [], pa_deleted_edges = [],
     pa_node_count = me_node_count meta, pa_edge_count = me_edge_count meta \<rparr>"

definition after_check :: "canvas_env \<Rightarrow> canvas_scope \<Rightarrow> canvas_patch_op list \<Rightarrow> string option \<Rightarrow> episode_meta_row
    \<Rightarrow> (canvas_db, patch_acc \<times> string) eff" where
  "after_check env scope xs turn_id meta =
     bindE cv_now (\<lambda>now.
     bindE (apply_ops env (sp_episode scope) now xs (start_acc meta)) (\<lambda>acc.
     bindE (save_meta (sp_episode scope) acc) (\<lambda>_.
     bindE (touch_episode (sp_episode scope)) (\<lambda>_.
     bindE (record_operation scope xs turn_id) (\<lambda>i. ret (acc, i))))))"

lemma patch_body_split:
  "patch_body env scope xs turn_id =
     bindE (lock_episode (sp_episode scope)) (\<lambda>meta.
     bindE (collect_patch_conflicts (sp_episode scope) xs) (\<lambda>conflicts.
     bindE (ensure (conflicts = []) (CanvasRevisionConflictError conflicts)) (\<lambda>_.
     after_check env scope xs turn_id meta)))"
  by (simp add: patch_body_def after_check_def start_acc_def Let_def)

lemma after_check_no_conflict:
  assumes "ids_ok s" "collect_patch_conflicts (sp_episode scope) xs s = (Inr [], u)"
    and "after_check env scope xs turn_id meta s = (Inl e, t)"
  shows "\<not> is_conflict e"
proof -
  let ?s = "s\<lparr>cv_clock := (\<lambda>n. cv_clock s (Suc n))\<rparr>"
  from assms(2) obtain pc where pc: "check_ops (sp_episode scope) xs patch_check_init s = (Inr pc, u)" "pc_conflicts pc = []"
    by (auto simp: collect_patch_conflicts_def bindE_eq_Inr ret_def)
  have sim: "check_sim patch_check_init (graph_of (sp_episode scope) s) (graph_of (sp_episode scope) ?s)"
    by (simp add: check_sim_init)
  have grow: "rows_grow s ?s" by (simp add: rows_grow_def node_ids_def edge_ids_def)
  have "\<not> is_conflict f" if "apply_ops env (sp_episode scope) (cv_clock s 0) xs (start_acc meta) ?s = (Inl f, w)" for f w
    using apply_ops_no_conflict [OF assms(1) pc(2) sim _ grow pc(1) that] assms(1) by simp
  then show ?thesis
    using assms(3) by (auto simp: after_check_def bindE_eq_Inl cv_now_def save_meta_def touch_episode_def record_operation_def
        cv_uuid4_def modify_def gets_def raise_def ret_def split: if_splits)
qed

end
