(* ===== verification/Canvas_Writeback.thy ===== *)
theory Canvas_Writeback
  imports Canvas_Service
begin

text \<open>
  The writes of the system to a canvas: generation state, text output and uploads
  (\<open>canvas/services/canvas_service.py\<close>), the binding of generation tasks to nodes
  (\<open>canvas/services/generation_bind.py\<close>), the projection of tasks onto nodes
  (\<open>canvas/services/generation_sync.py\<close>) and the canvas of a new or deleted episode
  (\<open>canvas/persistence/episode_lifecycle.py\<close>).

  The scope check and the step that makes sure the result assets of a task exist belong to other
  services and are parameters.
\<close>

section \<open>UUIDs from text\<close>

text \<open>\<open>UUID(text)\<close>: the marks are removed and 32 characters must be left, which \<open>int(h, 16)\<close> reads.\<close>

definition hex_value :: "char \<Rightarrow> nat option" where
  "hex_value c =
     (let n = (of_char c :: nat) in
      if 48 \<le> n \<and> n \<le> 57 then Some (n - 48)
      else if 97 \<le> n \<and> n \<le> 102 then Some (n - 87)
      else if 65 \<le> n \<and> n \<le> 70 then Some (n - 55) else None)"

fun hex_run :: "nat \<Rightarrow> bool \<Rightarrow> string \<Rightarrow> nat option" where
  "hex_run acc after [] = (if after then Some acc else None)"
| "hex_run acc after (c # s) =
     (case hex_value c of
        Some d \<Rightarrow> hex_run (16 * acc + d) True s
      | None \<Rightarrow> if c = CHR ''_'' \<and> after then hex_run acc False s else None)"

definition int_base16 :: "string \<Rightarrow> nat option" where
  "int_base16 s =
     (let (neg, r) = split_sign (strip s);
          q = (if prefix ''0x'' r \<or> prefix ''0X'' r then (if prefix ''_'' (drop 2 r) then drop 3 r else drop 2 r) else r)
      in case hex_run 0 False q of
           Some n \<Rightarrow> if neg \<and> n \<noteq> 0 then None else Some n
         | None \<Rightarrow> None)"

definition hex_digit :: "nat \<Rightarrow> char" where
  "hex_digit d = (if d < 10 then char_of (48 + d) else char_of (87 + d))"

definition hex32 :: "nat \<Rightarrow> string" where
  "hex32 n = map (\<lambda>k. hex_digit (n div 16 ^ (31 - k) mod 16)) [0..<32]"

fun remove_word :: "string \<Rightarrow> string \<Rightarrow> string" where
  "remove_word w [] = []"
| "remove_word w (c # s) = (if w \<noteq> [] \<and> prefix w (c # s) then remove_word w (drop (length w - 1) s) else c # remove_word w s)"

definition uuid_text :: "string \<Rightarrow> string" where
  "uuid_text u = join_with ''-'' [take 8 u, take 4 (drop 8 u), take 4 (drop 12 u), take 4 (drop 16 u), drop 20 u]"

definition UUID :: "string \<Rightarrow> string res" where
  "UUID text =
     (let brace = (\<lambda>c. c = CHR ''{'' \<or> c = CHR ''}'');
          t = remove_word ''uuid:'' (remove_word ''urn:'' text);
          h = filter (\<lambda>c. c \<noteq> CHR ''-'') (rev (dropWhile brace (rev (dropWhile brace t))))
      in if length h \<noteq> 32 then Inl (ValueError ''badly formed hexadecimal UUID string'')
         else case int_base16 h of
                None \<Rightarrow> Inl (ValueError (''invalid literal for int() with base 16: '' @ repr_str h))
              | Some n \<Rightarrow> Inr (uuid_text (hex32 n)))"

section \<open>Generation results\<close>

definition setdefault :: "string \<Rightarrow> json \<Rightarrow> json dict \<Rightarrow> json dict" where
  "setdefault k v d = (case dict_get d k of None \<Rightarrow> dict_set d k v | Some _ \<Rightarrow> d)"

definition bound_metadata :: "canvas_scope \<Rightarrow> string \<Rightarrow> json dict \<Rightarrow> json dict" where
  "bound_metadata scope node_id m =
     setdefault ''node_id'' (JStr node_id)
       (setdefault ''episode_id'' (JInt (sp_episode scope)) (setdefault ''project_id'' (JInt (sp_project scope)) m))"

definition bind_asset :: "canvas_scope \<Rightarrow> string \<Rightarrow> int option \<Rightarrow> asset_row \<Rightarrow> asset_row" where
  "bind_asset scope node_id task_id a =
     a\<lparr>as_metadata := (case task_id of
          None \<Rightarrow> bound_metadata scope node_id (as_metadata a)
        | Some t \<Rightarrow> setdefault ''generation_task_id'' (JInt t) (bound_metadata scope node_id (as_metadata a))),
       as_project := (case as_project a of None \<Rightarrow> Some (sp_project scope) | Some p \<Rightarrow> Some p)\<rparr>"

definition attach_generation_output_assets ::
  "canvas_scope \<Rightarrow> int list \<Rightarrow> string \<Rightarrow> int option \<Rightarrow> (canvas_db, int list) eff" where
  "attach_generation_output_assets scope ids node_id task_id =
     (if ids = [] then ret []
      else
        bindE (gets (\<lambda>s. filter (\<lambda>a. as_id a \<in> set ids \<and> ready_asset (sp_user scope) a) (cv_assets s))) (\<lambda>rows.
        let missing = filter (\<lambda>i. case find (\<lambda>a. as_id a = i) rows of
               None \<Rightarrow> True
             | Some a \<Rightarrow> (case as_project a of None \<Rightarrow> False | Some p \<Rightarrow> p \<noteq> sp_project scope)) (rev (remdups (rev ids))) in
        bindE (ensure (missing = []) (AppError ''INVALID_PARAMS'' ''generation output asset not found in project'')) (\<lambda>_.
        bindE (modify (\<lambda>s. s\<lparr>cv_assets := map (\<lambda>a. if as_id a \<in> as_id ` set rows then bind_asset scope node_id task_id a else a)
                 (cv_assets s)\<rparr>)) (\<lambda>_.
        ret ids))))"

record generation_update =
  gu_task :: "int option"
  gu_status :: canvas_node_status
  gu_assets :: "int list option"
  gu_error :: "string option"
  gu_model :: "string option"
  gu_voice :: "string option"
  gu_duration :: "int option"
  gu_ratio :: "string option"
  gu_resolution :: "string option"

definition expect_revision :: "canvas_node_row \<Rightarrow> int option \<Rightarrow> (canvas_db, unit) eff" where
  "expect_revision row expected =
     (case expected of
        None \<Rightarrow> ret ()
      | Some e \<Rightarrow> require_entity_revision ''node'' (no_id row) (no_revision row) e)"

definition find_node :: "int \<Rightarrow> string \<Rightarrow> string \<Rightarrow> (canvas_db, canvas_node_row) eff" where
  "find_node ep node_id i =
     bindE (gets (\<lambda>s. find (\<lambda>r. no_id r = i \<and> node_alive ep r) (cv_nodes s))) (\<lambda>m.
     case m of None \<Rightarrow> raise (not_found (''node '' @ node_id @ '' not found'')) | Some r \<Rightarrow> ret r)"

text \<open>Storing new data in a node: the next revision, the time of the episode, the view.\<close>

definition store_node_data ::
  "canvas_env \<Rightarrow> int \<Rightarrow> canvas_node_row \<Rightarrow> canvas_node_data \<Rightarrow> (canvas_db, int \<times> canvas_node_view) eff" where
  "store_node_data env ep row d =
     (let row' = row\<lparr>no_data := dump_node_data (ce_codec env) d, no_revision := no_revision row + 1\<rparr> in
      bindE (save_node row') (\<lambda>_.
      bindE (touch_episode ep) (\<lambda>_.
      bindE (liftR (node_view_from_row env row')) (\<lambda>v.
      ret (no_revision row', v)))))"

definition update_node_generation ::
  "canvas_env \<Rightarrow> int \<Rightarrow> string \<Rightarrow> generation_update \<Rightarrow> int option \<Rightarrow> canvas_scope option
   \<Rightarrow> (canvas_db, int \<times> canvas_node_view) eff" where
  "update_node_generation env ep node_id u expected scope =
     bindE (cv_transaction
       (bindE (lock_episode ep) (\<lambda>_.
        bindE (liftR (UUID node_id)) (\<lambda>i.
        bindE (find_node ep node_id i) (\<lambda>row.
        bindE (expect_revision row expected) (\<lambda>_.
        bindE (case gu_assets u of
                 None \<Rightarrow> ret None
               | Some ids \<Rightarrow>
                   (case scope of
                      None \<Rightarrow> raise (AppError ''INTERNAL_ERROR'' ''canvas output asset scope required'')
                    | Some sc \<Rightarrow> bindE (attach_generation_output_assets sc ids node_id (gu_task u)) (\<lambda>xs. ret (Some xs)))) (\<lambda>attached.
        bindE (liftR (parse_node_data (ce_codec env) (no_data row))) (\<lambda>existing.
        bindE (liftR (apply_generation_to_data existing (gu_status u) (gu_task u) (gu_error u) attached (gu_model u)
                 (gu_voice u) (gu_duration u) (gu_ratio u) (gu_resolution u))) (\<lambda>merged.
        store_node_data env ep row merged))))))))) (\<lambda>(rvn, v).
     case scope of
       None \<Rightarrow> ret (rvn, v)
     | Some sc \<Rightarrow> bindE (refresh_node_asset_urls env sc [v]) (\<lambda>vs. ret (rvn, hd vs)))"

definition update_node_text_output ::
  "canvas_env \<Rightarrow> int \<Rightarrow> string \<Rightarrow> canvas_node_status \<Rightarrow> string option \<Rightarrow> string option \<Rightarrow> string option \<Rightarrow> int option
   \<Rightarrow> (canvas_db, int \<times> canvas_node_view) eff" where
  "update_node_text_output env ep node_id status output_text error_message model_id expected =
     cv_transaction
       (bindE (lock_episode ep) (\<lambda>_.
        bindE (liftR (UUID node_id)) (\<lambda>i.
        bindE (find_node ep node_id i) (\<lambda>row.
        bindE (expect_revision row expected) (\<lambda>_.
        bindE (liftR (parse_node_data (ce_codec env) (no_data row))) (\<lambda>existing.
        bindE (liftR (text_output_data existing status output_text error_message model_id)) (\<lambda>merged.
        store_node_data env ep row merged)))))))"

section \<open>Uploads\<close>

definition asset_type_from_mime :: "string \<Rightarrow> string" where
  "asset_type_from_mime mime =
     (if prefix ''image/'' mime then ''image''
      else if prefix ''video/'' mime then ''video''
      else if prefix ''audio/'' mime then ''audio'' else ''text'')"

text \<open>The rest of the message is in Chinese; its text is not modelled.\<close>

definition require_upload_compatible :: "canvas_node_kind \<Rightarrow> string \<Rightarrow> unit res" where
  "require_upload_compatible kind asset_type =
     (if kind \<noteq> CNK_IMAGE \<and> kind \<noteq> CNK_VIDEO
      then Inl (AppError ''INVALID_PARAMS'' (''node kind '' @ canvas_node_kind_value kind))
      else assertR (asset_type = ''image'')
        (AppError ''INVALID_PARAMS'' (''node kind '' @ canvas_node_kind_value kind @ '' '' @ asset_type)))"

definition upload_node_asset ::
  "canvas_env \<Rightarrow> canvas_scope \<Rightarrow> string \<Rightarrow> int \<Rightarrow> string \<Rightarrow> string \<Rightarrow> (canvas_db, int \<times> canvas_node_view) eff" where
  "upload_node_asset env scope node_id asset_id preview_url mime_type =
     (let ep = sp_episode scope in
      bindE (cv_transaction
        (bindE (lock_episode ep) (\<lambda>_.
         bindE (gets (\<lambda>s. find (\<lambda>a. as_id a = asset_id \<and> as_user a = sp_user scope \<and> as_deleted a = None) (cv_assets s))) (\<lambda>m.
         bindE (ensure (m \<noteq> None) (not_found (''asset '' @ int_str asset_id @ '' not found''))) (\<lambda>_.
         bindE (modify (\<lambda>s. s\<lparr>cv_assets := map (\<lambda>a. if as_id a = asset_id
                  then a\<lparr>as_metadata := bound_metadata scope node_id (as_metadata (the m))\<rparr> else a) (cv_assets s)\<rparr>)) (\<lambda>_.
         bindE (liftR (UUID node_id)) (\<lambda>i.
         bindE (get_node_for_update ep i) (\<lambda>row.
         bindE (liftR (require_upload_compatible (no_kind row) (asset_type_from_mime mime_type))) (\<lambda>_.
         bindE (liftR (parse_node_data (ce_codec env) (no_data row))) (\<lambda>existing.
         bindE (liftR (apply_upload_to_data existing asset_id preview_url)) (\<lambda>merged.
         store_node_data env ep row merged))))))))))) (\<lambda>(rvn, v).
      bindE (refresh_node_asset_urls env scope [v]) (\<lambda>vs.
      bindE (publish_canvas_patch ep \<lparr> pp_op_id = None, pp_nodes = vs, pp_edges = [], pp_deleted_node_ids = [],
               pp_deleted_edge_ids = [] \<rparr>) (\<lambda>_.
      ret (rvn, hd vs)))))"

definition require_upload_compatible_node :: "int \<Rightarrow> string \<Rightarrow> string \<Rightarrow> (canvas_db, unit) eff" where
  "require_upload_compatible_node ep node_id mime_type =
     bindE (liftR (UUID node_id)) (\<lambda>i.
     bindE (find_node ep node_id i) (\<lambda>row.
     liftR (require_upload_compatible (no_kind row) (asset_type_from_mime mime_type))))"

section \<open>Tasks and nodes\<close>

datatype gateway_task_status = GTS_CREATED | GTS_QUEUED | GTS_WAITING | GTS_RUNNING | GTS_SUCCEEDED | GTS_FAILED | GTS_CANCELLED

definition GatewayTaskStatus :: "int \<Rightarrow> gateway_task_status res" where
  "GatewayTaskStatus n =
     (if n = 1 then Inr GTS_CREATED else if n = 2 then Inr GTS_QUEUED else if n = 3 then Inr GTS_WAITING
      else if n = 4 then Inr GTS_RUNNING else if n = 5 then Inr GTS_SUCCEEDED else if n = 6 then Inr GTS_FAILED
      else if n = 7 then Inr GTS_CANCELLED
      else Inl (ValueError (int_str n @ '' is not a valid GatewayTaskStatus'')))"

fun gts_is_terminal :: "gateway_task_status \<Rightarrow> bool" where
  "gts_is_terminal GTS_SUCCEEDED = True"
| "gts_is_terminal GTS_FAILED = True"
| "gts_is_terminal GTS_CANCELLED = True"
| "gts_is_terminal _ = False"

definition gts_is_non_terminal :: "gateway_task_status \<Rightarrow> bool" where
  "gts_is_non_terminal st \<longleftrightarrow> st \<in> {GTS_CREATED, GTS_QUEUED, GTS_WAITING, GTS_RUNNING}"

datatype node_generate_gate = GateIdle | GateBusy | GateDone

definition task_by_id :: "int \<Rightarrow> (canvas_db, generate_task_row option) eff" where
  "task_by_id t = gets (\<lambda>s. find (\<lambda>r. gt_id r = t \<and> gt_deleted r = None) (cv_tasks s))"

definition gate_of_data :: "canvas_node_data \<Rightarrow> node_generate_gate" where
  "gate_of_data d = (if data_has_output_assets d then GateDone else GateIdle)"

definition classify_node_generate_gate :: "canvas_env \<Rightarrow> int \<Rightarrow> string \<Rightarrow> (canvas_db, node_generate_gate) eff" where
  "classify_node_generate_gate env ep node_id =
     bindE (liftR (UUID node_id)) (\<lambda>i.
     bindE (find_node ep node_id i) (\<lambda>row.
     bindE (liftR (parse_node_data (ce_codec env) (no_data row))) (\<lambda>d.
     case nd_generate_task_id d of
       None \<Rightarrow> ret (gate_of_data d)
     | Some t \<Rightarrow>
         bindE (task_by_id t) (\<lambda>task.
         case task of
           None \<Rightarrow> ret (gate_of_data d)
         | Some r \<Rightarrow>
             bindE (liftR (GatewayTaskStatus (gt_status r))) (\<lambda>st.
             ret (if gts_is_non_terminal st then GateBusy
                  else if st = GTS_SUCCEEDED then GateDone else GateIdle))))))"

abbreviation in_progress :: exc where
  "in_progress \<equiv> AppError ''CANVAS_NODE_GENERATION_IN_PROGRESS'' []"

definition assert_node_has_no_active_generate_task ::
  "canvas_env \<Rightarrow> (canvas_db, unit) eff \<Rightarrow> int \<Rightarrow> string \<Rightarrow> (canvas_db, unit) eff" where
  "assert_node_has_no_active_generate_task env require_write_scope ep node_id =
     bindE require_write_scope (\<lambda>_.
     bindE (classify_node_generate_gate env ep node_id) (\<lambda>gate.
     if gate \<noteq> GateBusy then ret ()
     else
       bindE (liftR (UUID node_id)) (\<lambda>i.
       bindE (gets (\<lambda>s. find (\<lambda>r. no_id r = i \<and> node_alive ep r) (cv_nodes s))) (\<lambda>m.
       bindE (liftR (case m of None \<Rightarrow> Inr None
                      | Some row \<Rightarrow> bindR (parse_node_data (ce_codec env) (no_data row)) (\<lambda>d. Inr (nd_generate_task_id d)))) (\<lambda>_.
       raise in_progress)))))"

definition bind_generate_task_to_node ::
  "canvas_env \<Rightarrow> (canvas_db, unit) eff \<Rightarrow> int \<Rightarrow> string \<Rightarrow> int \<Rightarrow> (canvas_db, unit) eff" where
  "bind_generate_task_to_node env require_write_scope ep node_id task_id =
     bindE require_write_scope (\<lambda>_.
     bindE (cv_transaction
       (bindE (lock_episode ep) (\<lambda>_.
        bindE (liftR (UUID node_id)) (\<lambda>i.
        bindE (find_node ep node_id i) (\<lambda>row.
        bindE (liftR (parse_node_data (ce_codec env) (no_data row))) (\<lambda>existing.
        bindE (case nd_generate_task_id existing of
                 None \<Rightarrow> ret ()
               | Some t \<Rightarrow>
                   if t = task_id then ret ()
                   else
                     bindE (task_by_id t) (\<lambda>prior.
                     case prior of
                       None \<Rightarrow> ret ()
                     | Some r \<Rightarrow> bindE (liftR (GatewayTaskStatus (gt_status r))) (\<lambda>st.
                                 ensure (\<not> gts_is_non_terminal st) in_progress))) (\<lambda>_.
        bindE (liftR (model_validate (existing\<lparr>nd_generate_task_id := Some task_id\<rparr>))) (\<lambda>merged.
        bindE (store_node_data env ep row merged) (\<lambda>(rvn, v). ret (i, rvn, v)))))))))) (\<lambda>(i, rvn, v).
     publish_patch_and_progress ep
       (Some \<lparr> pp_op_id = None, pp_nodes = [v], pp_edges = [], pp_deleted_node_ids = [], pp_deleted_edge_ids = [] \<rparr>)
       (Some \<lparr> gp_node = i, gp_task = Some task_id, gp_status = CNS_RUNNING, gp_revision = rvn \<rparr>)))"

section \<open>Projecting tasks onto nodes\<close>

fun node_status_of_gateway :: "gateway_task_status \<Rightarrow> canvas_node_status" where
  "node_status_of_gateway GTS_SUCCEEDED = CNS_SUCCESS"
| "node_status_of_gateway GTS_FAILED = CNS_FAILED"
| "node_status_of_gateway GTS_CANCELLED = CNS_FAILED"
| "node_status_of_gateway _ = CNS_RUNNING"

definition node_status_from_task :: "int \<Rightarrow> canvas_node_status res" where
  "node_status_from_task status = bindR (GatewayTaskStatus status) (\<lambda>st. Inr (node_status_of_gateway st))"

definition canvas_node_needs_sync :: "canvas_env \<Rightarrow> canvas_node_row \<Rightarrow> generate_task_row \<Rightarrow> bool res" where
  "canvas_node_needs_sync env row task =
     bindR (node_status_from_task (gt_status task)) (\<lambda>expected.
     bindR (parse_node_data (ce_codec env) (no_data row)) (\<lambda>d.
     Inr (data_status d \<noteq> expected
       \<or> expected = CNS_SUCCESS \<and> (case gt_result_asset_ids task of None \<Rightarrow> False | Some ids \<Rightarrow> ids \<noteq> [])
           \<and> data_output_asset_ids d = []
       \<or> expected = CNS_FAILED \<and> some_text (gt_error_message task) \<and> \<not> some_text (nd_generate_error d))))"

text \<open>\<open>data__contains={"generate_task_id": t}\<close> on the JSON column.\<close>

definition holds_task :: "int \<Rightarrow> canvas_node_row \<Rightarrow> bool" where
  "holds_task t r \<longleftrightarrow> no_deleted r = None
     \<and> (case no_data r of JObj kvs \<Rightarrow> dict_get kvs ''generate_task_id'' = Some (JInt t) | _ \<Rightarrow> False)"

definition node_for_task :: "int \<Rightarrow> (canvas_db, canvas_node_row option) eff" where
  "node_for_task t = gets (\<lambda>s. find (holds_task t) (cv_nodes s))"

definition scope_for_node :: "canvas_node_row \<Rightarrow> int \<Rightarrow> (canvas_db, canvas_scope option) eff" where
  "scope_for_node row user =
     gets (\<lambda>s. map_option (\<lambda>e. \<lparr> sp_project = eo_project e, sp_episode = eo_id e, sp_user = user \<rparr>)
       (find (\<lambda>e. eo_id e = no_episode row \<and> eo_deleted e = None) (cv_episodes s)))"

definition task_update :: "generate_task_row \<Rightarrow> canvas_node_status \<Rightarrow> generation_update" where
  "task_update task status =
     \<lparr> gu_task = Some (gt_id task), gu_status = status, gu_assets = gt_result_asset_ids task,
       gu_error = gt_error_message task, gu_model = None, gu_voice = None, gu_duration = None, gu_ratio = None,
       gu_resolution = None \<rparr>"

definition sync_canvas_node_from_generate_task ::
  "canvas_env \<Rightarrow> generate_task_row \<Rightarrow> (canvas_db, canvas_node_view option) eff" where
  "sync_canvas_node_from_generate_task env task =
     bindE (node_for_task (gt_id task)) (\<lambda>m.
     case m of
       None \<Rightarrow> ret None
     | Some row \<Rightarrow>
         bindE (scope_for_node row (gt_user task)) (\<lambda>sc.
         case sc of
           None \<Rightarrow> ret None
         | Some scope \<Rightarrow>
             bindE (liftR (node_status_from_task (gt_status task))) (\<lambda>status.
             bindE (update_node_generation env (no_episode row) (no_id row) (task_update task status) None (Some scope))
               (\<lambda>(_, v). ret (Some v)))))"

definition reconcile_canvas_node_for_task ::
  "canvas_env \<Rightarrow> (generate_task_row \<Rightarrow> (canvas_db, generate_task_row) eff) \<Rightarrow> generate_task_row \<Rightarrow> bool
   \<Rightarrow> (canvas_db, canvas_node_view option) eff" where
  "reconcile_canvas_node_for_task env ensure_result_assets task ensure_assets =
     bindE (liftR (GatewayTaskStatus (gt_status task))) (\<lambda>st.
     if \<not> gts_is_terminal st then ret None
     else
       bindE (node_for_task (gt_id task)) (\<lambda>m.
       case m of
         None \<Rightarrow> ret None
       | Some row \<Rightarrow>
           bindE (if ensure_assets \<and> st = GTS_SUCCEEDED
                     \<and> (case gt_result_asset_ids task of None \<Rightarrow> True | Some ids \<Rightarrow> ids = [])
                  then ensure_result_assets task else ret task) (\<lambda>task'.
           bindE (liftR (canvas_node_needs_sync env row task')) (\<lambda>needed.
           if needed then sync_canvas_node_from_generate_task env task' else ret None))))"

definition project_from_task ::
  "canvas_env \<Rightarrow> (generate_task_row \<Rightarrow> (canvas_db, generate_task_row) eff) \<Rightarrow> generate_task_row
   \<Rightarrow> (canvas_db, canvas_node_view option) eff" where
  "project_from_task env ensure_result_assets task =
     bindE (liftR (GatewayTaskStatus (gt_status task))) (\<lambda>st.
     if gts_is_terminal st then reconcile_canvas_node_for_task env ensure_result_assets task True
     else sync_canvas_node_from_generate_task env task)"

section \<open>The canvas of an episode\<close>

definition create_empty :: "int \<Rightarrow> (canvas_db, unit) eff" where
  "create_empty ep =
     bindE (gets id) (\<lambda>s.
     if ep \<in> me_episode ` set (cv_metas s) then raise (IntegrityError (cv_driver s ''canvas_episode_meta_pkey''))
     else modify (\<lambda>s. s\<lparr>cv_metas := cv_metas s @ [\<lparr> me_episode = ep, me_node_count = 0, me_edge_count = 0 \<rparr>]\<rparr>))"

definition get_delete_state :: "canvas_env \<Rightarrow> int \<Rightarrow> (canvas_db, int \<times> int list) eff" where
  "get_delete_state env ep =
     bindE (gets (\<lambda>s. filter (\<lambda>r. no_episode r = ep) (cv_nodes s))) (\<lambda>rows.
     bindE (liftR (mapR (\<lambda>r. parse_node_data (ce_codec env) (no_data r)) rows)) (\<lambda>ds.
     ret (int (length (filter (\<lambda>d. data_status d = CNS_RUNNING) ds)),
          rev (remdups (rev (concat (map (\<lambda>d. case data_task_id d of None \<Rightarrow> [] | Some t \<Rightarrow> [t]) ds)))))))"

text \<open>Sessions and messages of the episode are deleted as well; they are not part of this state.\<close>

definition delete_all :: "int \<Rightarrow> (canvas_db, unit) eff" where
  "delete_all ep = modify (\<lambda>s. s\<lparr>
     cv_operations := filter (\<lambda>r. co_episode r \<noteq> ep) (cv_operations s),
     cv_edges := filter (\<lambda>r. eg_episode r \<noteq> ep) (cv_edges s),
     cv_nodes := filter (\<lambda>r. no_episode r \<noteq> ep) (cv_nodes s),
     cv_metas := filter (\<lambda>r. me_episode r \<noteq> ep) (cv_metas s)\<rparr>)"

end
