(* ===== verification/Canvas_Codec.thy ===== *)
theory Canvas_Codec
  imports Canvas_Data
begin

text \<open>
  A concrete codec for the data column: every field of the contracts under its name, \<open>None\<close> as
  \<open>null\<close>, and objects read back only in that form. It shows that \<open>codec_round_trip\<close> can hold;
  the theorems about the canvas hold for every codec with that law.
\<close>

fun dump_opt :: "('a \<Rightarrow> json) \<Rightarrow> 'a option \<Rightarrow> json" where
  "dump_opt f None = JNull"
| "dump_opt f (Some x) = f x"

definition load_opt :: "(json \<Rightarrow> 'a) \<Rightarrow> json \<Rightarrow> 'a option" where
  "load_opt f j = (if j = JNull then None else Some (f j))"

fun load_str :: "json \<Rightarrow> string" where
  "load_str (JStr s) = s" | "load_str _ = []"

fun load_int :: "json \<Rightarrow> int" where
  "load_int (JInt n) = n" | "load_int _ = 0"

fun load_float :: "json \<Rightarrow> string" where
  "load_float (JFloat s) = s" | "load_float _ = []"

fun load_list :: "(json \<Rightarrow> 'a) \<Rightarrow> json \<Rightarrow> 'a list" where
  "load_list f (JList xs) = map f xs" | "load_list f _ = []"

fun members :: "json \<Rightarrow> json dict" where
  "members (JObj kvs) = kvs" | "members _ = []"

lemma load_opt_dump: "(\<And>x. f x \<noteq> JNull) \<Longrightarrow> (\<And>x. g (f x) = x) \<Longrightarrow> load_opt g (dump_opt f v) = v"
  by (cases v) (simp_all add: load_opt_def)

fun dump_segment :: "prompt_segment \<Rightarrow> json" where
  "dump_segment (TextSegment t) = JObj [(''type'', JStr ''text''), (''text'', JStr t)]"
| "dump_segment (MediaSegment ty a u l r) =
     JObj [(''type'', JStr ty), (''asset_id'', dump_opt JInt a), (''url'', JStr u), (''label'', dump_opt JStr l),
           (''reference_type'', dump_opt JStr r)]"
| "dump_segment (TextRefSegment t) = JObj [(''type'', JStr ''text_ref''), (''text'', JStr t)]"

definition load_segment :: "json \<Rightarrow> prompt_segment" where
  "load_segment j =
     (let m = members j; ty = load_str (jget m ''type'') in
      if ty = ''text'' then TextSegment (load_str (jget m ''text''))
      else if ty = ''text_ref'' then TextRefSegment (load_str (jget m ''text''))
      else MediaSegment ty (load_opt load_int (jget m ''asset_id'')) (load_str (jget m ''url''))
             (load_opt load_str (jget m ''label'')) (load_opt load_str (jget m ''reference_type'')))"

lemma load_segment_dump: "segment_ok s \<Longrightarrow> load_segment (dump_segment s) = s"
  by (cases s) (auto simp: load_segment_def jget_def load_opt_dump)

lemma load_segments_dump: "list_all segment_ok ss \<Longrightarrow> map load_segment (map dump_segment ss) = ss"
  by (induction ss) (simp_all add: load_segment_dump)

fun dump_content :: "node_content \<Rightarrow> json" where
  "dump_content (ContentText s) = JStr s"
| "dump_content (ContentSegments ss) = JList (map dump_segment ss)"

fun load_content :: "json \<Rightarrow> node_content" where
  "load_content (JStr s) = ContentText s"
| "load_content j = ContentSegments (load_list load_segment j)"

definition dump_config :: "canvas_node_config \<Rightarrow> json" where
  "dump_config c = JObj [(''model'', dump_opt JStr (cf_model c)), (''text_num'', dump_opt JInt (cf_text_num c)),
     (''img_num'', dump_opt JInt (cf_img_num c)), (''ratio'', dump_opt JStr (cf_ratio c)),
     (''aspect_ratio'', dump_opt JStr (cf_aspect_ratio c)), (''resolution'', dump_opt JStr (cf_resolution c)),
     (''image_size'', dump_opt JStr (cf_image_size c)), (''mode'', dump_opt JStr (cf_mode c)),
     (''duration'', dump_opt JStr (cf_duration c)), (''duration_sec'', dump_opt JInt (cf_duration_sec c)),
     (''reference_mode'', dump_opt JInt (cf_reference_mode c)), (''voice_id'', dump_opt JStr (cf_voice_id c)),
     (''voice_name'', dump_opt JStr (cf_voice_name c)), (''speed'', dump_opt JFloat (cf_speed c)),
     (''vol'', dump_opt JFloat (cf_vol c)), (''pitch'', dump_opt JInt (cf_pitch c)),
     (''emotion'', dump_opt JStr (cf_emotion c))]"

definition load_config :: "json \<Rightarrow> canvas_node_config" where
  "load_config j = (let m = members j; str = (\<lambda>k. load_opt load_str (jget m k)); num = (\<lambda>k. load_opt load_int (jget m k));
       flt = (\<lambda>k. load_opt load_float (jget m k)) in
     \<lparr> cf_model = str ''model'', cf_text_num = num ''text_num'', cf_img_num = num ''img_num'', cf_ratio = str ''ratio'',
       cf_aspect_ratio = str ''aspect_ratio'', cf_resolution = str ''resolution'', cf_image_size = str ''image_size'',
       cf_mode = str ''mode'', cf_duration = str ''duration'', cf_duration_sec = num ''duration_sec'',
       cf_reference_mode = num ''reference_mode'', cf_voice_id = str ''voice_id'', cf_voice_name = str ''voice_name'',
       cf_speed = flt ''speed'', cf_vol = flt ''vol'', cf_pitch = num ''pitch'', cf_emotion = str ''emotion'',
       cf_set = config_fields \<rparr>)"

lemma load_config_dump: "load_config (dump_config c) = c\<lparr>cf_set := config_fields\<rparr>"
  by (cases c) (simp add: load_config_def dump_config_def jget_def Let_def load_opt_dump)

definition dump_path :: "canvas_asset_path \<Rightarrow> json" where
  "dump_path p = JObj [(''asset_id'', dump_opt JInt (pt_asset_id p)), (''url'', dump_opt JStr (pt_url p)),
     (''thumb_url'', dump_opt JStr (pt_thumb_url p))]"

definition load_path :: "json \<Rightarrow> canvas_asset_path" where
  "load_path j = (let m = members j in
     \<lparr> pt_asset_id = load_opt load_int (jget m ''asset_id''), pt_url = load_opt load_str (jget m ''url''),
       pt_thumb_url = load_opt load_str (jget m ''thumb_url'') \<rparr>)"

lemma load_path_dump: "load_path (dump_path p) = p"
  by (cases p) (simp add: load_path_def dump_path_def jget_def Let_def load_opt_dump)

definition dump_library_ref :: "library_ref \<Rightarrow> json" where
  "dump_library_ref r = JObj [(''asset_id'', JInt (lr_asset_id r)), (''type'', dump_opt JStr (lr_type r)),
     (''url'', JStr (lr_url r)), (''thumb_url'', dump_opt JStr (lr_thumb_url r)), (''name'', dump_opt JStr (lr_name r))]"

definition load_library_ref :: "json \<Rightarrow> library_ref" where
  "load_library_ref j = (let m = members j in
     \<lparr> lr_asset_id = load_int (jget m ''asset_id''), lr_type = load_opt load_str (jget m ''type''),
       lr_url = load_str (jget m ''url''), lr_thumb_url = load_opt load_str (jget m ''thumb_url''),
       lr_name = load_opt load_str (jget m ''name'') \<rparr>)"

lemma load_library_ref_dump: "load_library_ref (dump_library_ref r) = r"
  by (cases r) (simp add: load_library_ref_def dump_library_ref_def jget_def Let_def load_opt_dump)

definition dump_results :: "canvas_task_results \<Rightarrow> json" where
  "dump_results r = JObj [(''status'', JStr (tr_status r)), (''assets'', dump_opt (\<lambda>ps. JList (map dump_path ps)) (tr_assets r)),
     (''error_message'', dump_opt JStr (tr_error_message r)), (''raw'', tr_raw r)]"

definition load_results :: "json \<Rightarrow> canvas_task_results" where
  "load_results j = (let m = members j in
     \<lparr> tr_status = load_str (jget m ''status''), tr_assets = load_opt (load_list load_path) (jget m ''assets''),
       tr_error_message = load_opt load_str (jget m ''error_message''), tr_raw = jget m ''raw'' \<rparr>)"

lemma load_paths_dump: "load_list load_path (JList (map dump_path ps)) = ps"
  by (induction ps) (simp_all add: load_path_dump)

lemma load_results_dump: "load_results (dump_results r) = r"
  by (cases r) (simp add: load_results_def dump_results_def jget_def Let_def load_opt_dump load_paths_dump del: load_list.simps)

fun dump_status :: "canvas_node_status \<Rightarrow> json" where
  "dump_status CNS_IDLE = JStr ''idle''"
| "dump_status CNS_WAITING_INPUTS = JStr ''waiting_inputs''"
| "dump_status CNS_READY = JStr ''ready''"
| "dump_status CNS_RUNNING = JStr ''running''"
| "dump_status CNS_SUCCESS = JStr ''success''"
| "dump_status CNS_FAILED = JStr ''failed''"
| "dump_status CNS_CANCELLED = JStr ''cancelled''"

definition load_status :: "json \<Rightarrow> canvas_node_status" where
  "load_status j =
     (let s = load_str j in
      if s = ''waiting_inputs'' then CNS_WAITING_INPUTS else if s = ''ready'' then CNS_READY
      else if s = ''running'' then CNS_RUNNING else if s = ''success'' then CNS_SUCCESS
      else if s = ''failed'' then CNS_FAILED else if s = ''cancelled'' then CNS_CANCELLED else CNS_IDLE)"

lemma load_status_dump: "load_status (dump_status st) = st" "dump_status st \<noteq> JNull"
  by (cases st; simp add: load_status_def)+

definition dump_data :: "canvas_node_data \<Rightarrow> json dict" where
  "dump_data d = [(''title'', dump_opt JStr (nd_title d)), (''prompt'', dump_opt JStr (nd_prompt d)),
     (''content'', dump_opt dump_content (nd_content d)),
     (''prompt_content'', dump_opt (\<lambda>ss. JList (map dump_segment ss)) (nd_prompt_content d)),
     (''config'', dump_opt dump_config (nd_config d)), (''model'', dump_opt JStr (nd_model d)),
     (''status'', dump_opt dump_status (nd_status d)), (''generate_task_id'', dump_opt JInt (nd_generate_task_id d)),
     (''generate_created_at'', dump_opt JStr (nd_generate_created_at d)),
     (''generate_operation_type'', dump_opt JStr (nd_generate_operation_type d)),
     (''generate_error'', dump_opt JStr (nd_generate_error d)), (''asset_id'', dump_opt JInt (nd_asset_id d)),
     (''path'', dump_opt JStr (nd_path d)), (''preview_url'', dump_opt JStr (nd_preview_url d)),
     (''paths'', dump_opt (\<lambda>ps. JList (map dump_path ps)) (nd_paths d)),
     (''output_asset_ids'', dump_opt (\<lambda>xs. JList (map JInt xs)) (nd_output_asset_ids d)),
     (''output_source'', dump_opt JStr (nd_output_source d)),
     (''library_refs'', dump_opt (\<lambda>rs. JList (map dump_library_ref rs)) (nd_library_refs d)),
     (''results'', dump_opt dump_results (nd_results d))]"

definition load_data :: "json dict \<Rightarrow> canvas_node_data" where
  "load_data m = (let str = (\<lambda>k. load_opt load_str (jget m k)); num = (\<lambda>k. load_opt load_int (jget m k)) in
     \<lparr> nd_title = str ''title'', nd_prompt = str ''prompt'', nd_content = load_opt load_content (jget m ''content''),
       nd_prompt_content = load_opt (load_list load_segment) (jget m ''prompt_content''),
       nd_config = load_opt load_config (jget m ''config''), nd_model = str ''model'',
       nd_status = load_opt load_status (jget m ''status''), nd_generate_task_id = num ''generate_task_id'',
       nd_generate_created_at = str ''generate_created_at'', nd_generate_operation_type = str ''generate_operation_type'',
       nd_generate_error = str ''generate_error'', nd_asset_id = num ''asset_id'', nd_path = str ''path'',
       nd_preview_url = str ''preview_url'', nd_paths = load_opt (load_list load_path) (jget m ''paths''),
       nd_output_asset_ids = load_opt (load_list load_int) (jget m ''output_asset_ids''),
       nd_output_source = str ''output_source'',
       nd_library_refs = load_opt (load_list load_library_ref) (jget m ''library_refs''),
       nd_results = load_opt load_results (jget m ''results''), nd_set = node_data_fields \<rparr>)"

definition plain_codec :: node_codec where
  "plain_codec = \<lparr> nc_dump = (\<lambda>d. JObj (dump_data d)),
     nc_load = (\<lambda>m. if node_data_ok (load_data m) then Some (load_data m) else None) \<rparr>"

lemma load_nested:
  "load_list load_int (JList (map JInt xs)) = xs"
  "load_list load_library_ref (JList (map dump_library_ref rs)) = rs"
  "load_opt load_config (dump_opt dump_config c) = map_option (\<lambda>c. c\<lparr>cf_set := config_fields\<rparr>) c"
  "load_opt load_results (dump_opt dump_results r) = r"
proof -
  show "load_list load_int (JList (map JInt xs)) = xs" by (induction xs) simp_all
  show "load_list load_library_ref (JList (map dump_library_ref rs)) = rs"
    by (induction rs) (simp_all add: load_library_ref_dump)
  show "load_opt load_config (dump_opt dump_config c) = map_option (\<lambda>c. c\<lparr>cf_set := config_fields\<rparr>) c"
    by (cases c) (simp_all add: load_opt_def load_config_dump, simp add: dump_config_def)
  show "load_opt load_results (dump_opt dump_results r) = r"
    by (rule load_opt_dump) (simp add: dump_results_def, rule load_results_dump)
qed

lemma load_content_dump:
  assumes "case c of Some (ContentSegments ss) \<Rightarrow> list_all segment_ok ss | _ \<Rightarrow> True"
  shows "load_opt load_content (dump_opt dump_content c) = c"
  using assms load_segments_dump by (auto simp: load_opt_def split: option.splits node_content.splits)

lemma load_prompt_dump:
  assumes "case c of Some ss \<Rightarrow> list_all segment_ok ss | None \<Rightarrow> True"
  shows "load_opt (load_list load_segment) (dump_opt (\<lambda>ss. JList (map dump_segment ss)) c) = c"
  using assms load_segments_dump by (auto simp: load_opt_def split: option.splits)

lemma load_leaf:
  "load_opt load_str (dump_opt JStr a) = a" "load_opt load_int (dump_opt JInt n) = n"
  "load_opt load_status (dump_opt dump_status st) = st"
  "load_opt (load_list load_path) (dump_opt (\<lambda>ps. JList (map dump_path ps)) ps) = ps"
  "load_opt (load_list load_int) (dump_opt (\<lambda>xs. JList (map JInt xs)) xs) = xs"
  "load_opt (load_list load_library_ref) (dump_opt (\<lambda>rs. JList (map dump_library_ref rs)) rs) = rs"
  by (rule load_opt_dump; simp only: load_str.simps load_int.simps load_status_dump load_paths_dump load_nested json.distinct not_False_eq_True)+

lemma dump_data_get:
  "jget (dump_data d) ''title'' = dump_opt JStr (nd_title d)" "jget (dump_data d) ''prompt'' = dump_opt JStr (nd_prompt d)"
  "jget (dump_data d) ''content'' = dump_opt dump_content (nd_content d)"
  "jget (dump_data d) ''prompt_content'' = dump_opt (\<lambda>ss. JList (map dump_segment ss)) (nd_prompt_content d)"
  "jget (dump_data d) ''config'' = dump_opt dump_config (nd_config d)" "jget (dump_data d) ''model'' = dump_opt JStr (nd_model d)"
  "jget (dump_data d) ''status'' = dump_opt dump_status (nd_status d)"
  "jget (dump_data d) ''generate_task_id'' = dump_opt JInt (nd_generate_task_id d)"
  "jget (dump_data d) ''generate_created_at'' = dump_opt JStr (nd_generate_created_at d)"
  "jget (dump_data d) ''generate_operation_type'' = dump_opt JStr (nd_generate_operation_type d)"
  "jget (dump_data d) ''generate_error'' = dump_opt JStr (nd_generate_error d)"
  "jget (dump_data d) ''asset_id'' = dump_opt JInt (nd_asset_id d)" "jget (dump_data d) ''path'' = dump_opt JStr (nd_path d)"
  "jget (dump_data d) ''preview_url'' = dump_opt JStr (nd_preview_url d)"
  "jget (dump_data d) ''paths'' = dump_opt (\<lambda>ps. JList (map dump_path ps)) (nd_paths d)"
  "jget (dump_data d) ''output_asset_ids'' = dump_opt (\<lambda>xs. JList (map JInt xs)) (nd_output_asset_ids d)"
  "jget (dump_data d) ''output_source'' = dump_opt JStr (nd_output_source d)"
  "jget (dump_data d) ''library_refs'' = dump_opt (\<lambda>rs. JList (map dump_library_ref rs)) (nd_library_refs d)"
  "jget (dump_data d) ''results'' = dump_opt dump_results (nd_results d)"
  by (simp_all add: dump_data_def jget_def)

lemma load_data_dump:
  assumes "node_data_ok d"
  shows "load_data (dump_data d) = all_set d"
proof -
  have "load_opt load_content (dump_opt dump_content (nd_content d)) = nd_content d"
    "load_opt (load_list load_segment) (dump_opt (\<lambda>ss. JList (map dump_segment ss)) (nd_prompt_content d)) = nd_prompt_content d"
    using assms load_content_dump [of "nd_content d"] load_prompt_dump [of "nd_prompt_content d"]
    by (cases "nd_prompt_content d"; simp add: node_data_ok_def)+
  then show ?thesis
    unfolding load_data_def Let_def dump_data_get load_leaf load_nested by (simp only: all_set_def) simp
qed

lemma plain_codec_round_trip: "codec_round_trip plain_codec"
  by (simp add: codec_round_trip_def plain_codec_def load_data_dump split: if_splits)

end
