(* ===== verification/Canvas_Properties.thy ===== *)
theory Canvas_Properties
  imports Canvas_Patch Canvas_Writeback Canvas_Codec
begin

text \<open>
  The properties of the canvas of an episode: conflicts are found before anything is written, a patch
  is a sequence of steps on the abstract graph, and the states the system reaches keep the counters
  exact and the edges between live nodes.
\<close>

section \<open>A patch that commits\<close>

lemma after_check_run:
  assumes "ids_ok s" "after_check env scope xs turn_id meta s = (Inr (acc, i), t)"
  obtains w where "apply_ops env (sp_episode scope) (cv_clock s 0) xs (start_acc meta) (s\<lparr>cv_clock := (\<lambda>n. cv_clock s (Suc n))\<rparr>) = (Inr acc, w)"
    "cv_nodes t = cv_nodes w" "cv_edges t = cv_edges w" "cv_published t = cv_published w" "cv_assets t = cv_assets w"
    "cv_metas t = map (\<lambda>m. if me_episode m = sp_episode scope
       then m\<lparr>me_node_count := pa_node_count acc, me_edge_count := pa_edge_count acc\<rparr> else m) (cv_metas w)"
    "cv_operations t = cv_operations w @ [\<lparr> co_id = i, co_episode = sp_episode scope, co_user = sp_user scope, co_turn = turn_id,
            co_type = ''apply_patch'', co_ops = xs, co_status = ''applied'' \<rparr>]"
  using assms(2)
  by (auto simp: after_check_def bindE_eq_Inr cv_now_def save_meta_def touch_episode_def record_operation_def
      cv_uuid4_def modify_def gets_def raise_def ret_def split: if_splits)

lemma patch_body_run:
  "patch_body env scope xs turn_id s = (Inr (acc, i), t) \<longleftrightarrow>
     (\<exists>m. lock_episode (sp_episode scope) s = (Inr m, s) \<and> collect_patch_conflicts (sp_episode scope) xs s = (Inr [], s)
        \<and> after_check env scope xs turn_id m s = (Inr (acc, i), t))"
proof
  assume "patch_body env scope xs turn_id s = (Inr (acc, i), t)"
  then obtain m u v where "lock_episode (sp_episode scope) s = (Inr m, u)"
      "collect_patch_conflicts (sp_episode scope) xs u = (Inr [], v)" "after_check env scope xs turn_id m v = (Inr (acc, i), t)"
    by (auto simp: patch_body_split bindE_eq_Inr ensure_def split: if_splits)
  moreover from this have "u = s" "v = u" using lock_episode_run collect_reads by blast+
  ultimately show "\<exists>m. lock_episode (sp_episode scope) s = (Inr m, s) \<and> collect_patch_conflicts (sp_episode scope) xs s = (Inr [], s)
        \<and> after_check env scope xs turn_id m s = (Inr (acc, i), t)" by blast
qed (auto simp: patch_body_split bindE_eq_Inr ensure_def)

lemma patch_body_conflict:
  assumes "ids_ok s"
  shows "(\<exists>t. patch_body env scope xs turn_id s = (Inl (CanvasRevisionConflictError cs), t)) \<longleftrightarrow>
     cs \<noteq> [] \<and> episode_open (sp_episode scope) s \<and> collect_patch_conflicts (sp_episode scope) xs s = (Inr cs, s)"
proof -
  obtain r u where l: "lock_episode (sp_episode scope) s = (r, u)" by fastforce
  obtain r' u' where c: "collect_patch_conflicts (sp_episode scope) xs s = (r', u')" by fastforce
  have u: "u = s" "u' = s" using lock_episode_run [OF l] collect_reads [OF c] by auto
  show ?thesis
  proof (cases r)
    case (Inl e)
    with l u lock_episode_run [OF l] show ?thesis by (auto simp: patch_body_split bindE_Inl)
  next
    case (Inr m)
    then have open_: "episode_open (sp_episode scope) s" using lock_episode_run [OF l] by simp
    show ?thesis
    proof (cases r')
      case (Inl e)
      with c l u Inr collect_no_conflict_error [of "sp_episode scope" xs s e s] show ?thesis
        by (auto simp: patch_body_split bindE_Inl bindE_Inr)
    next
      case cs': (Inr cs')
      have "after_check env scope xs turn_id m s \<noteq> (Inl (CanvasRevisionConflictError cs), t)" if "cs' = []" for t
        using after_check_no_conflict [OF assms, of scope xs s env turn_id m "CanvasRevisionConflictError cs" t] c cs' u that
        by auto
      then show ?thesis
        using c l u Inr cs' open_ by (auto simp: patch_body_split bindE_Inr eff_simps)
    qed
  qed
qed

lemma refresh_run: "\<exists>vs. refresh_node_asset_urls env scope ns s = (Inr vs, s) \<and> map nv_id vs = map nv_id ns"
  by (auto simp: refresh_node_asset_urls_def gets_def Let_def comp_def)

lemma apply_patch_Inl:
  "apply_patch env scope xs turn_id s = (Inl e, t) \<longleftrightarrow>
     (\<exists>u. patch_body env scope xs turn_id s = (Inl e, u) \<and> t = s\<lparr>cv_clock := cv_clock u, cv_uuids := cv_uuids u\<rparr>)"
  by (auto simp: apply_patch_def bindE_eq_Inl cv_transaction_def refresh_node_asset_urls_def publish_canvas_patch_def
      gets_def modify_def ret_def Let_def bindE_def split: prod.splits sum.splits)

lemma apply_patch_Inr:
  assumes "apply_patch env scope xs turn_id s = (Inr p, t)"
  obtains acc i u where "patch_body env scope xs turn_id s = (Inr (acc, i), u)" "pp_op_id p = Some i"
    "t = u\<lparr>cv_published := cv_published u @ [(sp_episode scope, Some p, None)]\<rparr>"
    "pp_deleted_node_ids p = pa_deleted_nodes acc" "pp_deleted_edge_ids p = pa_deleted_edges acc"
  using assms
  by (auto simp: apply_patch_def bindE_eq_Inr cv_transaction_def refresh_node_asset_urls_def publish_canvas_patch_def
      gets_def modify_def ret_def Let_def split: prod.splits sum.splits)

text \<open>The states between which a patch commits.\<close>

lemma apply_patch_commits:
  assumes "canvas_inv s" "apply_patch env scope xs turn_id s = (Inr p, t)"
  shows "episode_open (sp_episode scope) s \<and> canvas_inv t
    \<and> graph_steps xs (graph_of (sp_episode scope) s) (graph_of (sp_episode scope) t)
    \<and> (\<forall>e. e \<noteq> sp_episode scope \<longrightarrow> graph_of e t = graph_of e s)
    \<and> map me_episode (cv_metas t) = map me_episode (cv_metas s)
    \<and> (\<exists>i. pp_op_id p = Some i \<and> cv_operations t = cv_operations s @
         [\<lparr> co_id = i, co_episode = sp_episode scope, co_user = sp_user scope, co_turn = turn_id,
            co_type = ''apply_patch'', co_ops = xs, co_status = ''applied'' \<rparr>])
    \<and> cv_published t = cv_published s @ [(sp_episode scope, Some p, None)]"
proof -
  let ?ep = "sp_episode scope" and ?s = "s\<lparr>cv_clock := (\<lambda>n. cv_clock s (Suc n))\<rparr>"
  from apply_patch_Inr [OF assms(2)] obtain acc i u where b: "patch_body env scope xs turn_id s = (Inr (acc, i), u)"
      and p: "pp_op_id p = Some i" and t: "t = u\<lparr>cv_published := cv_published u @ [(?ep, Some p, None)]\<rparr>" by blast
  from b obtain m where m: "lock_episode ?ep s = (Inr m, s)" and a: "after_check env scope xs turn_id m s = (Inr (acc, i), u)"
    by (auto simp: patch_body_run)
  note lk = lock_episode_run [OF m]
  have ids: "ids_ok s" and metas: "distinct (map me_episode (cv_metas s))" "graph_closed (graph_of e s)" for e
    using assms(1) by (auto simp: canvas_inv_def)
  have mc: "counts (me_episode k) (me_node_count k) (me_edge_count k) s" if "k \<in> set (cv_metas s)" for k
    using assms(1) that by (simp add: canvas_inv_def)
  from after_check_run [OF ids a] obtain w where w: "apply_ops env ?ep (cv_clock s 0) xs (start_acc m) ?s = (Inr acc, w)"
    and eqs: "cv_nodes u = cv_nodes w" "cv_edges u = cv_edges w" "cv_published u = cv_published w"
      "cv_metas u = map (\<lambda>m. if me_episode m = ?ep then m\<lparr>me_node_count := pa_node_count acc, me_edge_count := pa_edge_count acc\<rparr> else m) (cv_metas w)"
      "cv_operations u = cv_operations w @ [\<lparr> co_id = i, co_episode = ?ep, co_user = sp_user scope, co_turn = turn_id,
            co_type = ''apply_patch'', co_ops = xs, co_status = ''applied'' \<rparr>]" by blast
  have "ids_ok ?s" using ids by simp
  note ref = apply_ops_refines [OF this w]
  have gt: "graph_of e t = graph_of e w" for e unfolding t by (simp add: graph_of_cong [of u w] eqs)
  have frame: "cv_metas w = cv_metas s" "cv_operations w = cv_operations s" "cv_published w = cv_published s"
      "\<And>e. e \<noteq> ?ep \<Longrightarrow> graph_of e w = graph_of e s" "ids_ok w"
    using ref by (auto simp: op_ok_def patch_frame_def)
  have idst: "ids_ok t" using frame(5) by (simp add: t ids_ok_def eqs)
  have cw: "counts ?ep (pa_node_count acc) (pa_edge_count acc) w"
    using ref mc [of m] lk by (simp add: op_ok_def start_acc_def counts_def)
  have ct: "counts (me_episode k) (me_node_count k) (me_edge_count k) t" if "k \<in> set (cv_metas t)" for k
  proof -
    from that obtain q where q: "q \<in> set (cv_metas s)"
      "k = (if me_episode q = ?ep then q\<lparr>me_node_count := pa_node_count acc, me_edge_count := pa_edge_count acc\<rparr> else q)"
      by (auto simp: t eqs frame)
    show ?thesis
    proof (cases "me_episode q = ?ep")
      case True
      with cw q show ?thesis by (simp add: counts_card [OF idst] counts_card [OF frame(5)] gt)
    next
      case False
      with mc [OF q(1)] q show ?thesis by (simp add: counts_card [OF idst] counts_card [OF ids] gt frame)
    qed
  qed
  have closed: "graph_closed (graph_of e t)" for e
    using graph_steps_closed [of xs "graph_of ?ep s" "graph_of ?ep w"] ref metas(2) frame(4) [of e]
    by (cases "e = ?ep") (simp_all add: gt)
  have mt: "map me_episode (cv_metas t) = map me_episode (cv_metas s)" by (simp add: t eqs frame comp_def)
  then have "canvas_inv t" using idst metas(1) ct closed by (simp add: canvas_inv_def)
  then show ?thesis using lk ref gt frame mt p by (simp add: t eqs)
qed

section \<open>Writes that keep the shape of the tables\<close>

definition same_shape :: "canvas_db \<Rightarrow> canvas_db \<Rightarrow> bool" where
  "same_shape s t \<longleftrightarrow>
     map (\<lambda>r. (no_id r, no_episode r, no_deleted r)) (cv_nodes t) = map (\<lambda>r. (no_id r, no_episode r, no_deleted r)) (cv_nodes s)
     \<and> cv_edges t = cv_edges s \<and> cv_metas t = cv_metas s"

lemma same_shape_refl: "same_shape s s"
  by (simp add: same_shape_def)

lemma same_shape_trans: "same_shape s t \<Longrightarrow> same_shape t u \<Longrightarrow> same_shape s u"
  by (simp add: same_shape_def)

lemma same_shape_frame:
  "same_shape s (t\<lparr>cv_clock := c\<rparr>) = same_shape s t" "same_shape s (t\<lparr>cv_uuids := i\<rparr>) = same_shape s t"
  "same_shape s (t\<lparr>cv_episodes := e\<rparr>) = same_shape s t" "same_shape s (t\<lparr>cv_assets := a\<rparr>) = same_shape s t"
  "same_shape s (t\<lparr>cv_published := p\<rparr>) = same_shape s t"
  by (simp_all add: same_shape_def)

lemma live_node_shape:
  "live_node ep s i \<noteq> None \<longleftrightarrow> (i, ep, None) \<in> set (map (\<lambda>r. (no_id r, no_episode r, no_deleted r)) (cv_nodes s))"
  by (auto simp: live_node_def find_None_iff node_alive_def image_iff)

lemma same_shape_live:
  assumes "same_shape s t"
  shows "live_node ep t i \<noteq> None \<longleftrightarrow> live_node ep s i \<noteq> None" "live_edge ep t = live_edge ep s"
  using assms unfolding live_node_shape by (simp_all add: same_shape_def live_edge_def fun_eq_iff)

lemma same_shape_graph:
  assumes "same_shape s t"
  shows "cg_nodes (graph_of ep t) i \<noteq> None \<longleftrightarrow> cg_nodes (graph_of ep s) i \<noteq> None"
    "cg_edges (graph_of ep t) = cg_edges (graph_of ep s)"
  using same_shape_live [OF assms] by (simp_all add: graph_of_def)

lemma same_shape_ids: "same_shape s t \<Longrightarrow> ids_ok s \<Longrightarrow> ids_ok t"
proof -
  assume sh: "same_shape s t" and "ids_ok s"
  have "map no_id (cv_nodes t) = map fst (map (\<lambda>r. (no_id r, no_episode r, no_deleted r)) (cv_nodes t))" by simp
  also have "\<dots> = map no_id (cv_nodes s)" using sh by (simp add: same_shape_def del: map_map) simp
  finally show "ids_ok t" using sh \<open>ids_ok s\<close> by (simp add: ids_ok_def same_shape_def)
qed

lemma same_shape_inv:
  assumes sh: "same_shape s t" and inv: "canvas_inv s"
  shows "canvas_inv t"
proof -
  have ids: "ids_ok s" "ids_ok t" using inv same_shape_ids [OF sh] by (simp_all add: canvas_inv_def)
  have dom: "dom (cg_nodes (graph_of e t)) = dom (cg_nodes (graph_of e s))" for e
    using same_shape_graph(1) [OF sh, of e] by (auto simp: dom_def)
  have "counts e n k t \<longleftrightarrow> counts e n k s" for e n k
    by (simp add: counts_card [OF ids(1)] counts_card [OF ids(2)] dom same_shape_graph [OF sh])
  moreover have "graph_closed (graph_of e t) \<longleftrightarrow> graph_closed (graph_of e s)" for e
    using same_shape_graph [OF sh, of e] by (simp add: graph_closed_def)
  ultimately show ?thesis using inv ids sh by (simp add: canvas_inv_def same_shape_def)
qed

lemma save_same_shape:
  assumes "ids_ok s" "row \<in> set (cv_nodes s)" "no_id r = no_id row" "no_episode r = no_episode row" "no_deleted r = no_deleted row"
  shows "same_shape s (snd (save_node r s))"
proof -
  have "(no_id (if no_id x = no_id r then r else x), no_episode (if no_id x = no_id r then r else x),
      no_deleted (if no_id x = no_id r then r else x)) = (no_id x, no_episode x, no_deleted x)" if "x \<in> set (cv_nodes s)" for x
  proof (cases "no_id x = no_id row")
    case True
    then have "x = row" using assms(1,2) that by (auto simp: ids_ok_def distinct_map inj_on_def)
    then show ?thesis using assms by simp
  qed (simp add: assms)
  then show ?thesis by (auto simp: same_shape_def save_node_def modify_def)
qed

lemma find_node_run:
  "find_node ep node_id i s =
     (case live_node ep s i of None \<Rightarrow> Inl (not_found (''node '' @ node_id @ '' not found'')) | Some r \<Rightarrow> Inr r, s)"
  by (simp add: find_node_def live_node_def eff_simps split: option.splits)

lemma store_same_shape:
  assumes "ids_ok s" "row \<in> set (cv_nodes s)" "store_node_data env ep row d s = (r, t)"
  shows "same_shape s t"
proof -
  let ?r = "row\<lparr>no_data := dump_node_data (ce_codec env) d, no_revision := no_revision row + 1\<rparr>"
  have sh: "same_shape s (snd (save_node ?r s))" using save_same_shape [OF assms(1,2)] by simp
  have "\<exists>c e. t = (snd (save_node ?r s))\<lparr>cv_clock := c, cv_episodes := e\<rparr>"
    using assms(3) by (cases "node_view_from_row env ?r")
      (auto simp: store_node_data_def Let_def save_outcome touch_episode_def cv_now_def liftR_def bindE_def [of cv_now]
        bindE_assoc eff_simps split: prod.splits)
  with sh show ?thesis by (auto simp: same_shape_frame)
qed

text \<open>Rules for programs: \<open>reads_only\<close> leaves the canvas tables alone, \<open>keeps_row R m\<close> keeps the shape when
  the row \<open>R\<close> (if any) is in the table.\<close>

definition reads_only :: "(canvas_db, 'a) eff \<Rightarrow> bool" where
  "reads_only m \<longleftrightarrow> (\<forall>s r t. m s = (r, t) \<longrightarrow> cv_nodes t = cv_nodes s \<and> cv_edges t = cv_edges s \<and> cv_metas t = cv_metas s)"

definition keeps_row :: "canvas_node_row option \<Rightarrow> (canvas_db, 'a) eff \<Rightarrow> bool" where
  "keeps_row R m \<longleftrightarrow> (\<forall>s r t. ids_ok s \<longrightarrow> (\<forall>row. R = Some row \<longrightarrow> row \<in> set (cv_nodes s)) \<longrightarrow> m s = (r, t) \<longrightarrow> same_shape s t)"

named_theorems shape_rules \<open>programs that keep the shape of the canvas tables\<close>

lemma reads_only_basic [shape_rules]:
  "reads_only (ret x)" "reads_only (raise e)" "reads_only (gets f)" "reads_only (liftR q)" "reads_only (ensure c e)"
  "reads_only (refresh_node_asset_urls env scope ns)" "reads_only (lock_episode ep)" "reads_only (task_by_id t)"
  "reads_only (publish_canvas_patch ep patch)" "reads_only (publish_patch_and_progress ep pt pr)"
  "reads_only (get_node_for_update ep i)" "reads_only (find_node ep node_id i)" "reads_only (expect_revision row expected)"
  by (auto simp: reads_only_def eff_simps refresh_node_asset_urls_def lock_episode_def require_meta_def task_by_id_def
      publish_canvas_patch_def publish_patch_and_progress_def get_node_for_update_def find_node_def expect_revision_def
      require_entity_revision_def split: if_splits option.splits)

lemma reads_only_bind [shape_rules]:
  assumes "reads_only m" "\<And>x. reads_only (f x)"
  shows "reads_only (bindE m f)"
  unfolding reads_only_def
proof (intro allI impI)
  fix s r t assume run: "bindE m f s = (r, t)"
  obtain q u where m: "m s = (q, u)" by fastforce
  then have u: "cv_nodes u = cv_nodes s" "cv_edges u = cv_edges s" "cv_metas u = cv_metas s"
    using assms(1) unfolding reads_only_def by blast+
  show "cv_nodes t = cv_nodes s \<and> cv_edges t = cv_edges s \<and> cv_metas t = cv_metas s"
  proof (cases q)
    case (Inr x)
    with m run have "f x u = (r, t)" by (simp add: bindE_Inr)
    with assms(2) [of x] u show ?thesis unfolding reads_only_def by metis
  qed (use m run u in \<open>simp add: bindE_Inl\<close>)
qed

lemma reads_only_assets [shape_rules]:
  "reads_only (modify (\<lambda>s. s\<lparr>cv_assets := h s\<rparr>))"
  by (simp add: reads_only_def modify_def)

lemma reads_only_attach [shape_rules]: "reads_only (attach_generation_output_assets scope ids node_id task_id)"
  unfolding attach_generation_output_assets_def Let_def by (simp add: shape_rules)

lemma keeps_reads [shape_rules]: "reads_only m \<Longrightarrow> keeps_row R m"
  by (simp add: keeps_row_def reads_only_def same_shape_def)

lemma keeps_store [shape_rules]: "keeps_row (Some row) (store_node_data env ep row d)"
  unfolding keeps_row_def using store_same_shape by blast

lemma row_keeps_bind:
  assumes "reads_only m" "\<And>x. keeps_row R (f x)"
  shows "keeps_row R (bindE m f)"
  unfolding keeps_row_def
proof (intro allI impI)
  fix s r t assume s: "ids_ok s" "\<forall>row. R = Some row \<longrightarrow> row \<in> set (cv_nodes s)" and run: "bindE m f s = (r, t)"
  obtain q u where m: "m s = (q, u)" by fastforce
  then have u: "cv_nodes u = cv_nodes s" "cv_edges u = cv_edges s" "cv_metas u = cv_metas s"
    using assms(1) unfolding reads_only_def by blast+
  then have "same_shape s u" "ids_ok u" using s(1) by (simp_all add: same_shape_def ids_ok_def)
  moreover have "same_shape u t" if "q = Inr x" for x
    using assms(2) [of x] m run that s(2) u \<open>ids_ok u\<close> unfolding keeps_row_def by (auto simp: bindE_Inr)
  ultimately show "same_shape s t" using m run by (cases q) (auto simp: bindE_Inl intro: same_shape_trans)
qed

lemma keeps_then:
  assumes "keeps_row R m" "\<And>x. reads_only (f x)"
  shows "keeps_row R (bindE m f)"
  unfolding keeps_row_def
proof (intro allI impI)
  fix s r t assume s: "ids_ok s" "\<forall>row. R = Some row \<longrightarrow> row \<in> set (cv_nodes s)" and run: "bindE m f s = (r, t)"
  obtain q u where m: "m s = (q, u)" by fastforce
  then have "same_shape s u" using assms(1) s unfolding keeps_row_def by blast
  moreover have "same_shape u t" if "q = Inr x" for x
    using assms(2) [of x] m run that unfolding reads_only_def same_shape_def by (auto simp: bindE_Inr)
  ultimately show "same_shape s t" using m run by (cases q) (auto simp: bindE_Inl intro: same_shape_trans)
qed

lemma keeps_found:
  assumes "m = find_node ep node_id i \<or> m = get_node_for_update ep i" "\<And>row. keeps_row (Some row) (f row)"
  shows "keeps_row None (bindE m f)"
  unfolding keeps_row_def
proof (intro allI impI)
  fix s r t assume s: "ids_ok s" and run: "bindE m f s = (r, t)"
  show "same_shape s t"
  proof (cases "live_node ep s i")
    case None
    with assms(1) run show ?thesis by (auto simp: bindE_def find_node_run get_node_run same_shape_refl)
  next
    case (Some row)
    with assms(1) run have "f row s = (r, t)" by (auto simp: bindE_def find_node_run get_node_run)
    with assms(2) [of row] live_node_in [OF Some] s show ?thesis unfolding keeps_row_def by blast
  qed
qed

lemma row_keeps_transaction: "keeps_row None m \<Longrightarrow> keeps_row None (cv_transaction m)"
  by (auto simp: keeps_row_def cv_transaction_def same_shape_frame same_shape_refl split: prod.splits sum.splits)

lemma generation_keeps: "keeps_row None (update_node_generation env ep node_id u expected scope)"
  unfolding update_node_generation_def
  by (intro keeps_then row_keeps_transaction row_keeps_bind [OF reads_only_basic(7)] row_keeps_bind [OF reads_only_basic(4)]
      keeps_found [OF disjI1 [OF refl]] row_keeps_bind [OF reads_only_basic(13)] row_keeps_bind keeps_store)
    (auto simp: shape_rules split: option.splits prod.splits)

lemma text_output_keeps: "keeps_row None (update_node_text_output env ep node_id st txt err mid expected)"
  unfolding update_node_text_output_def
  by (intro row_keeps_transaction row_keeps_bind [OF reads_only_basic(7)] row_keeps_bind [OF reads_only_basic(4)]
      keeps_found [OF disjI1 [OF refl]] row_keeps_bind [OF reads_only_basic(13)] keeps_store)

lemma upload_keeps: "keeps_row None (upload_node_asset env scope node_id asset_id url mime)"
  unfolding upload_node_asset_def Let_def
  by (intro keeps_then row_keeps_transaction row_keeps_bind [OF reads_only_basic(7)] row_keeps_bind [OF reads_only_basic(3)]
      row_keeps_bind [OF reads_only_basic(5)] row_keeps_bind [OF reads_only_assets] row_keeps_bind [OF reads_only_basic(4)]
      keeps_found [OF disjI2 [OF refl]] keeps_store)
    (auto simp: shape_rules split: prod.splits)

lemma bind_task_keeps:
  assumes "reads_only require_write_scope"
  shows "keeps_row None (bind_generate_task_to_node env require_write_scope ep node_id task_id)"
  unfolding bind_generate_task_to_node_def
  by (intro keeps_then row_keeps_transaction row_keeps_bind [OF assms] row_keeps_bind [OF reads_only_basic(7)] row_keeps_bind [OF reads_only_basic(4)]
      keeps_found [OF disjI1 [OF refl]] row_keeps_bind keeps_store)
    (auto simp: shape_rules split: option.splits prod.splits)

lemma sync_keeps: "keeps_row None (sync_canvas_node_from_generate_task env task)"
proof -
  have find: "reads_only (node_for_task t)" and scope: "reads_only (scope_for_node row user)" for t row user
    by (simp_all add: node_for_task_def scope_for_node_def shape_rules)
  have wr: "keeps_row None (bindE (liftR q) (\<lambda>status. bindE (update_node_generation env ep i (u status) None sc) (\<lambda>(_, v). ret (Some v))))"
    for q ep i sc and u :: "canvas_node_status \<Rightarrow> generation_update"
    by (rule row_keeps_bind [OF reads_only_basic(4)], rule keeps_then [OF generation_keeps]) (simp add: shape_rules split: prod.split)
  show ?thesis
    unfolding sync_canvas_node_from_generate_task_def
    by (rule row_keeps_bind [OF find], simp add: shape_rules split: option.split, intro conjI allI impI row_keeps_bind [OF scope])
      (auto simp: shape_rules wr split: option.split)
qed

lemma project_keeps:
  assumes "\<And>t. reads_only (ensure_result_assets t)"
  shows "keeps_row None (project_from_task env ensure_result_assets task)"
proof -
  have "reads_only (node_for_task t)" for t by (simp add: node_for_task_def shape_rules)
  then show ?thesis
    unfolding project_from_task_def reconcile_canvas_node_for_task_def
    by (auto intro!: row_keeps_bind sync_keeps simp: shape_rules assms split: option.splits if_splits)
qed

section \<open>The states of the canvas\<close>

text \<open>\<open>other\<close> stands for the services that own the episodes, assets and tasks. \<open>reads_only\<close> of the scope check
  and of the step that stores result assets says that they do not write the tables of the canvas.\<close>

inductive canvas_reach :: "canvas_env \<Rightarrow> canvas_db \<Rightarrow> bool" for env where
  init: "cv_nodes s = [] \<Longrightarrow> cv_edges s = [] \<Longrightarrow> cv_metas s = [] \<Longrightarrow> canvas_reach env s"
| patch: "canvas_reach env s \<Longrightarrow> apply_patch env scope xs turn_id s = (rp, t) \<Longrightarrow> canvas_reach env t"
| generation: "canvas_reach env s \<Longrightarrow> update_node_generation env ep node_id u expected sc s = (rg, t) \<Longrightarrow> canvas_reach env t"
| text_output: "canvas_reach env s \<Longrightarrow> update_node_text_output env ep node_id st txt err mid expected s = (rt, t) \<Longrightarrow>
    canvas_reach env t"
| upload: "canvas_reach env s \<Longrightarrow> upload_node_asset env scope node_id asset_id url mime s = (ru, t) \<Longrightarrow> canvas_reach env t"
| bind: "canvas_reach env s \<Longrightarrow> reads_only check \<Longrightarrow> bind_generate_task_to_node env check ep node_id task_id s = (rb, t) \<Longrightarrow>
    canvas_reach env t"
| project: "canvas_reach env s \<Longrightarrow> (\<And>x. reads_only (store x)) \<Longrightarrow> project_from_task env store task s = (rj, t) \<Longrightarrow>
    canvas_reach env t"
| created: "canvas_reach env s \<Longrightarrow> create_empty ep s = (rc, t) \<Longrightarrow> canvas_reach env t"
| deleted: "canvas_reach env s \<Longrightarrow> delete_all ep s = (rd, t) \<Longrightarrow> canvas_reach env t"
| other: "canvas_reach env s \<Longrightarrow> cv_nodes t = cv_nodes s \<Longrightarrow> cv_edges t = cv_edges s \<Longrightarrow> cv_metas t = cv_metas s \<Longrightarrow>
    canvas_reach env t"

definition owned :: "canvas_db \<Rightarrow> bool" where
  "owned s \<longleftrightarrow> (\<forall>ep. ep \<notin> me_episode ` set (cv_metas s) \<longrightarrow> graph_of ep s = \<lparr> cg_nodes = Map.empty, cg_edges = Map.empty \<rparr>)"

definition canvas_ok :: "canvas_db \<Rightarrow> bool" where
  "canvas_ok s \<longleftrightarrow> canvas_inv s \<and> owned s"

lemma owned_by_maps:
  "owned s \<longleftrightarrow> (\<forall>ep. ep \<notin> me_episode ` set (cv_metas s) \<longrightarrow> (\<forall>i. cg_nodes (graph_of ep s) i = None) \<and> (\<forall>j. cg_edges (graph_of ep s) j = None))"
  unfolding owned_def by (auto simp: fun_eq_iff intro!: canvas_graph.equality)

lemma same_shape_ok: "same_shape s t \<Longrightarrow> canvas_ok s \<Longrightarrow> canvas_ok t"
proof -
  assume sh: "same_shape s t" and ok: "canvas_ok s"
  have "cv_metas t = cv_metas s" using sh by (simp add: same_shape_def)
  with ok have "owned t" unfolding canvas_ok_def owned_by_maps using same_shape_graph [OF sh] by metis
  with ok same_shape_inv [OF sh] show "canvas_ok t" by (simp add: canvas_ok_def)
qed

lemma keeps_ok: "keeps_row None m \<Longrightarrow> canvas_ok s \<Longrightarrow> m s = (r, t) \<Longrightarrow> canvas_ok t"
  using same_shape_ok unfolding keeps_row_def canvas_ok_def canvas_inv_def by blast

lemma apply_patch_ok:
  assumes "canvas_ok s" "apply_patch env scope xs turn_id s = (r, t)"
  shows "canvas_ok t"
proof (cases r)
  case (Inl e)
  then have "same_shape s t" using assms(2) by (auto simp: apply_patch_Inl same_shape_frame same_shape_refl)
  then show ?thesis using assms(1) same_shape_ok by blast
next
  case (Inr p)
  have inv: "canvas_inv s" and own: "owned s" using assms(1) by (simp_all add: canvas_ok_def)
  note c = apply_patch_commits [OF inv, of env scope xs turn_id p t]
  have "set (map me_episode (cv_metas t)) = set (map me_episode (cv_metas s))" using c assms(2) Inr by metis
  moreover have "sp_episode scope \<in> me_episode ` set (cv_metas s)" using c assms(2) Inr by (simp add: episode_open_def)
  ultimately have "owned t" using own c assms(2) Inr unfolding owned_def set_map by metis
  then show ?thesis using c assms(2) Inr by (simp add: canvas_ok_def)
qed

lemma create_empty_ok:
  assumes "canvas_ok s" "create_empty ep s = (r, t)"
  shows "canvas_ok t"
proof (cases "ep \<in> me_episode ` set (cv_metas s)")
  case True
  with assms show ?thesis by (simp add: create_empty_def eff_simps)
next
  case False
  then have t: "t = s\<lparr>cv_metas := cv_metas s @ [\<lparr> me_episode = ep, me_node_count = 0, me_edge_count = 0 \<rparr>]\<rparr>"
    using assms(2) by (simp add: create_empty_def eff_simps)
  have s: "ids_ok s" "canvas_inv s" "owned s" "ids_ok t" using assms(1) by (simp_all add: canvas_ok_def canvas_inv_def t)
  have "graph_of ep s = \<lparr> cg_nodes = Map.empty, cg_edges = Map.empty \<rparr>" using s(3) False by (simp add: owned_def)
  then have "counts ep 0 0 t" using counts_card [OF s(4), of ep 0 0] by (simp add: t)
  moreover have "counts e n k t \<longleftrightarrow> counts e n k s" for e n k by (simp add: counts_def t)
  ultimately have "canvas_inv t" using s(2) False by (auto simp: canvas_inv_def t)
  moreover have "owned t" using s(3) by (simp add: owned_def t)
  ultimately show ?thesis by (simp add: canvas_ok_def)
qed

lemma find_filter_other:
  assumes "\<And>x. P x \<Longrightarrow> Q x"
  shows "find P (filter Q xs) = find P xs"
  using assms by (induction xs) auto

lemma graph_delete_all:
  assumes "t = snd (delete_all ep s)"
  shows "graph_of e t = (if e = ep then \<lparr> cg_nodes = Map.empty, cg_edges = Map.empty \<rparr> else graph_of e s)"
proof (cases "e = ep")
  case True
  then show ?thesis
    by (auto simp: assms delete_all_def modify_def graph_of_def live_node_def live_edge_def fun_eq_iff find_None_iff
        node_alive_def edge_alive_def intro!: canvas_graph.equality)
next
  case False
  have "find (\<lambda>r. no_id r = i \<and> node_alive e r) (filter (\<lambda>r. no_episode r \<noteq> ep) (cv_nodes s)) = find (\<lambda>r. no_id r = i \<and> node_alive e r) (cv_nodes s)"
    "find (\<lambda>r. eg_id r = i \<and> edge_alive e r) (filter (\<lambda>r. eg_episode r \<noteq> ep) (cv_edges s)) = find (\<lambda>r. eg_id r = i \<and> edge_alive e r) (cv_edges s)" for i
    using False by (intro find_filter_other; simp add: node_alive_def edge_alive_def)+
  with False show ?thesis by (simp add: assms delete_all_def modify_def graph_of_def live_node_def live_edge_def)
qed

lemma delete_all_ok:
  assumes "canvas_ok s" "delete_all ep s = (r, t)"
  shows "canvas_ok t"
proof -
  have t: "t = snd (delete_all ep s)" using assms(2) by simp
  have s: "ids_ok s" "canvas_inv s" "owned s" using assms(1) by (simp_all add: canvas_ok_def canvas_inv_def)
  have metas: "cv_metas t = filter (\<lambda>m. me_episode m \<noteq> ep) (cv_metas s)" by (simp add: t delete_all_def modify_def)
  have ids: "ids_ok t" using s(1) by (simp add: t delete_all_def modify_def ids_ok_def distinct_map_filter)
  note g = graph_delete_all [OF t]
  have "graph_closed (graph_of e t)" for e using s(2) by (simp add: g canvas_inv_def graph_closed_def)
  moreover have "counts (me_episode m) (me_node_count m) (me_edge_count m) t" if "m \<in> set (cv_metas t)" for m
    using that s(2) by (simp add: counts_card [OF ids] counts_card [OF s(1)] g metas canvas_inv_def)
  ultimately have "canvas_inv t" using ids s(2) by (simp add: canvas_inv_def metas distinct_map_filter)
  moreover have "owned t" using s(3) by (auto simp: owned_def g metas)
  ultimately show ?thesis by (simp add: canvas_ok_def)
qed

lemma canvas_reach_ok: "canvas_reach env s \<Longrightarrow> canvas_ok s"
proof (induction rule: canvas_reach.induct)
  case (init s)
  then show ?case
    by (simp add: canvas_ok_def canvas_inv_def owned_def ids_ok_def graph_closed_def graph_of_def live_node_def live_edge_def fun_eq_iff)
next
  case (patch s scope xs turn_id rp t)
  then show ?case using apply_patch_ok by blast
next
  case (generation s ep node_id u expected sc rg t)
  then show ?case using keeps_ok generation_keeps by blast
next
  case (text_output s ep node_id st tx err mid expected rt t)
  then show ?case using keeps_ok text_output_keeps by blast
next
  case (upload s scope node_id asset_id url mime ru t)
  then show ?case using keeps_ok upload_keeps by blast
next
  case (bind s check ep node_id task_id rb t)
  then show ?case using keeps_ok bind_task_keeps by blast
next
  case (project s store task rj t)
  then show ?case using keeps_ok project_keeps by blast
next
  case (created s ep rc t)
  then show ?case using create_empty_ok by blast
next
  case (deleted s ep rd t)
  then show ?case using delete_all_ok by blast
next
  case (other s t)
  then have "same_shape s t" by (simp add: same_shape_def)
  with other show ?case using same_shape_ok by blast
qed

section \<open>Fields only the system writes\<close>

definition row_projection :: "canvas_env \<Rightarrow> canvas_node_row \<Rightarrow> _ option" where
  "row_projection env r = (case parse_node_data (ce_codec env) (no_data r) of Inl _ \<Rightarrow> None | Inr d \<Rightarrow> Some (projection d))"

definition keeps_projection :: "canvas_env \<Rightarrow> canvas_db \<Rightarrow> canvas_db \<Rightarrow> bool" where
  "keeps_projection env s t \<longleftrightarrow>
     (\<forall>r\<in>set (cv_nodes s). \<exists>r'\<in>set (cv_nodes t). no_id r' = no_id r \<and> row_projection env r' = row_projection env r)"

lemma keeps_projection_trans: "keeps_projection env s t \<Longrightarrow> keeps_projection env t u \<Longrightarrow> keeps_projection env s u"
  unfolding keeps_projection_def by metis

lemma keeps_projection_rows: "set (cv_nodes s) \<subseteq> set (cv_nodes t) \<Longrightarrow> keeps_projection env s t"
  unfolding keeps_projection_def by blast

lemma save_keeps_projection:
  assumes "ids_ok s" "row \<in> set (cv_nodes s)" "no_id r = no_id row" "row_projection env r = row_projection env row"
  shows "keeps_projection env s (snd (save_node r s))"
  unfolding keeps_projection_def
proof
  fix q assume q: "q \<in> set (cv_nodes s)"
  show "\<exists>r'\<in>set (cv_nodes (snd (save_node r s))). no_id r' = no_id q \<and> row_projection env r' = row_projection env q"
  proof (cases "no_id q = no_id row")
    case True
    then have "q = row" using assms(1,2) q by (auto simp: ids_ok_def distinct_map inj_on_def)
    moreover have "r \<in> set (cv_nodes (snd (save_node r s)))" using assms(2,3) by (auto simp: save_node_def modify_def image_iff)
    ultimately show ?thesis using assms(3,4) by auto
  next
    case False
    then have "q \<in> set (cv_nodes (snd (save_node r s)))" using q assms(3) by (auto simp: save_node_def modify_def image_iff)
    then show ?thesis by blast
  qed
qed

lemma patched_projection:
  assumes "codec_round_trip (ce_codec env)" "patched_row env p row = Inr row'"
  shows "no_id row' = no_id row" "row_projection env row' = row_projection env row"
proof -
  show "no_id row' = no_id row" using assms(2) by (auto simp: patched_row_def bindR_Inr)
  show "row_projection env row' = row_projection env row"
  proof (cases "up_data p")
    case None
    with assms(2) show ?thesis by (auto simp: patched_row_def bindR_Inr row_projection_def)
  next
    case (Some d)
    with assms(2) obtain e m where m: "parse_node_data (ce_codec env) (no_data row) = Inr e"
        "merge_client_node_data e d (no_kind row) = Inr m" "no_data row' = dump_node_data (ce_codec env) m"
      by (auto simp: patched_row_def bindR_Inr)
    from parse_dump [OF assms(1) merge_client_ok [OF m(2)]] m merge_client_projection [OF m(2)]
    show ?thesis by (simp add: row_projection_def)
  qed
qed

lemma delete_edges_nodes: "delete_edges now rows acc s = (r, t) \<Longrightarrow> cv_nodes t = cv_nodes s"
proof (induction rows arbitrary: acc s)
  case (Cons q rows)
  from Cons.prems obtain acc1 where "delete_edges now rows acc1 (snd (save_edge (q\<lparr>eg_deleted := Some now, eg_revision := eg_revision q + 1\<rparr>) s)) = (r, t)"
    by (simp add: delete_edge_def bindE_assoc save_outcome eff_simps)
  from Cons.IH [OF this] show ?case by (simp add: save_edge_def modify_def)
qed (simp add: ret_def)

lemma create_edge_nodes: "create_edge ep p acc s = (Inr acc', t) \<Longrightarrow> cv_nodes t = cv_nodes s"
  by (auto simp: create_edge_def bindE_eq_Inr require_nodes_def cv_uuid4_def insert_edge_def Let_def gets_def modify_def
      ensure_def raise_def ret_def split: if_splits)

lemma apply_op_projection:
  assumes ids: "ids_ok s" and codec: "codec_round_trip (ce_codec env)" and run: "apply_op env ep now x acc s = (Inr acc', t)"
  shows "keeps_projection env s t"
proof (cases x)
  case (CreateNodeOp p a)
  with run have "apply_create env ep p a acc s = (Inr acc', t)" by simp
  from apply_create_split [OF this] obtain r v where
    "(case a of None \<Rightarrow> ret (acc\<lparr>pa_node_count := pa_node_count acc + 1, pa_nodes := pa_nodes acc @ [v]\<rparr>)
      | Some a \<Rightarrow> create_edge ep (anchor_edge a (cv_uuids s 0)) (acc\<lparr>pa_node_count := pa_node_count acc + 1, pa_nodes := pa_nodes acc @ [v]\<rparr>))
      (s\<lparr>cv_uuids := (\<lambda>n. cv_uuids s (Suc n)), cv_nodes := cv_nodes s @ [r]\<rparr>) = (Inr acc', t)" by blast
  then have "cv_nodes t = cv_nodes s @ [r]" by (cases a) (auto simp: ret_def dest: create_edge_nodes)
  then show ?thesis by (intro keeps_projection_rows) auto
next
  case (UpdateNodeOp p)
  with run obtain row row' where row: "live_node ep s (up_id p) = Some row" "patched_row env p row = Inr row'" "t = snd (save_node row' s)"
    by (auto simp: apply_update_def eff_outcomes get_node_run require_entity_revision_def ensure_def liftR_def
        save_outcome ret_def split: option.splits if_splits)
  from save_keeps_projection [OF ids _ patched_projection [OF codec row(2)]] live_node_in [OF row(1)] row(3) show ?thesis by blast
next
  case (DeleteNodeOp i e)
  with run obtain row where row: "live_node ep s i = Some row"
      and t: "cv_nodes t = cv_nodes (snd (save_node (row\<lparr>no_deleted := Some now, no_revision := no_revision row + 1\<rparr>) s))"
    by (auto simp: apply_delete_def eff_outcomes get_node_run require_entity_revision_def ensure_def gets_def
        save_outcome split: option.splits if_splits dest: delete_edges_nodes)
  have "keeps_projection env s (snd (save_node (row\<lparr>no_deleted := Some now, no_revision := no_revision row + 1\<rparr>) s))"
    using live_node_in [OF row] by (intro save_keeps_projection [OF ids]) (auto simp: row_projection_def)
  with t show ?thesis by (simp add: keeps_projection_def)
next
  case (ConnectNodesOp p)
  with run create_edge_nodes [of ep p acc s acc' t] show ?thesis by (simp add: keeps_projection_rows)
next
  case (DisconnectNodesOp i e)
  with run have "cv_nodes t = cv_nodes s"
    by (auto simp: apply_disconnect_def eff_outcomes get_edge_run require_entity_revision_def ensure_def delete_edge_def
        save_outcome ret_def save_edge_def modify_def split: option.splits if_splits)
  then show ?thesis by (simp add: keeps_projection_rows)
qed

lemma apply_ops_projection:
  "ids_ok s \<Longrightarrow> codec_round_trip (ce_codec env) \<Longrightarrow> apply_ops env ep now xs acc s = (Inr acc', t) \<Longrightarrow> keeps_projection env s t"
proof (induction xs arbitrary: s acc)
  case Nil
  then show ?case by (simp add: ret_def keeps_projection_rows)
next
  case (Cons x xs)
  from Cons.prems(3) obtain acc1 u where u: "apply_op env ep now x acc s = (Inr acc1, u)" "apply_ops env ep now xs acc1 u = (Inr acc', t)"
    by (auto simp: bindE_eq_Inr)
  have "ids_ok u" using apply_op_refines [OF Cons.prems(1) u(1)] by (simp add: op_ok_def)
  with Cons.IH [OF _ Cons.prems(2) u(2)] apply_op_projection [OF Cons.prems(1,2) u(1)] show ?case
    using keeps_projection_trans by blast
qed

lemma apply_patch_projection:
  assumes "canvas_inv s" "codec_round_trip (ce_codec env)" "apply_patch env scope xs turn_id s = (Inr p, t)"
  shows "keeps_projection env s t"
proof -
  let ?s = "s\<lparr>cv_clock := (\<lambda>n. cv_clock s (Suc n))\<rparr>"
  have ids: "ids_ok s" "ids_ok ?s" using assms(1) by (simp_all add: canvas_inv_def)
  from apply_patch_Inr [OF assms(3)] obtain acc i u where b: "patch_body env scope xs turn_id s = (Inr (acc, i), u)"
      "cv_nodes t = cv_nodes u" by (metis canvas_db.select_convs(3) canvas_db.surjective canvas_db.update_convs(8))
  from b(1) obtain m where "after_check env scope xs turn_id m s = (Inr (acc, i), u)" by (auto simp: patch_body_run)
  from after_check_run [OF ids(1) this] obtain w where
    w: "apply_ops env (sp_episode scope) (cv_clock s 0) xs (start_acc m) ?s = (Inr acc, w)" "cv_nodes u = cv_nodes w" by blast
  from apply_ops_projection [OF ids(2) assms(2) w(1)] w(2) b(2) show ?thesis by (simp add: keeps_projection_def)
qed

section \<open>A canvas to evaluate on\<close>

definition demo_env :: canvas_env where
  "demo_env = \<lparr> ce_codec = plain_codec, ce_preview = id \<rparr>"

definition demo_scope :: canvas_scope where
  "demo_scope = \<lparr> sp_project = 1, sp_episode = 7, sp_user = 5 \<rparr>"

definition demo_node :: "string \<Rightarrow> int \<Rightarrow> canvas_node_row" where
  "demo_node i rvn = \<lparr> no_id = i, no_episode = 7, no_kind = CNK_IMAGE, no_revision = rvn, no_x = ''0.0'', no_y = ''0.0'',
     no_width = None, no_height = None, no_data = JNull, no_deleted = None \<rparr>"

definition demo_edge :: "string \<Rightarrow> string \<Rightarrow> string \<Rightarrow> canvas_edge_row" where
  "demo_edge i a b = \<lparr> eg_id = i, eg_episode = 7, eg_revision = 1, eg_source = a, eg_target = b, eg_source_port = OUTPUT_ASSET,
     eg_target_port = REFERENCE_ASSET, eg_type = DEPENDENCY, eg_metadata = JObj [], eg_deleted = None \<rparr>"

definition demo_db :: "canvas_node_row list \<Rightarrow> canvas_edge_row list \<Rightarrow> episode_meta_row list \<Rightarrow> canvas_db" where
  "demo_db ns es ms = \<lparr> cv_episodes = [\<lparr> eo_id = 7, eo_project = 1, eo_creator = 5, eo_no = 1, eo_name = ''pilot'', eo_cover = None,
       eo_updated = 0, eo_deleted = None \<rparr>], cv_metas = ms, cv_nodes = ns, cv_edges = es, cv_operations = [], cv_assets = [],
     cv_tasks = [], cv_published = [], cv_clock = int, cv_uuids = (\<lambda>n. replicate (n + 1) CHR ''u''), cv_driver = (\<lambda>_. []) \<rparr>"

definition demo_canvas :: canvas_db where
  "demo_canvas = demo_db [demo_node ''a'' 3, demo_node ''b'' 1] [demo_edge ''e'' ''a'' ''b''] [\<lparr> me_episode = 7, me_node_count = 2, me_edge_count = 1 \<rparr>]"

lemmas demo_defs = demo_canvas_def demo_db_def demo_node_def demo_edge_def demo_scope_def demo_env_def

lemma demo_graph:
  "graph_of ep demo_canvas =
     (if ep = 7 then \<lparr> cg_nodes = [''a'' \<mapsto> 3, ''b'' \<mapsto> 1], cg_edges = [''e'' \<mapsto> (1, ''a'', ''b'')] \<rparr>
      else \<lparr> cg_nodes = Map.empty, cg_edges = Map.empty \<rparr>)"
  by (auto simp: graph_of_def live_node_def live_edge_def demo_defs node_alive_def edge_alive_def fun_eq_iff intro!: canvas_graph.equality)

lemma demo_inv: "canvas_inv demo_canvas"
proof -
  have "graph_closed (graph_of ep demo_canvas)" for ep by (auto simp: demo_graph graph_closed_def split: if_splits)
  moreover have "ids_ok demo_canvas" by (simp add: ids_ok_def demo_defs)
  moreover have "counts 7 2 1 demo_canvas" by (simp add: counts_def demo_defs node_alive_def edge_alive_def)
  moreover have "cv_metas demo_canvas = [\<lparr> me_episode = 7, me_node_count = 2, me_edge_count = 1 \<rparr>]" by (simp add: demo_defs)
  ultimately show ?thesis by (simp add: canvas_inv_def)
qed

text \<open>Deleting \<open>a\<close> takes the edge along.\<close>

lemma demo_delete_run: "\<exists>p t. apply_patch demo_env demo_scope [DeleteNodeOp ''a'' 3] None demo_canvas = (Inr p, t)"
  by (simp add: apply_patch_def patch_body_def cv_transaction_def collect_patch_conflicts_def patch_check_init_def check_delete_def
      working_node_def get_node_for_update_def lock_episode_def require_meta_def apply_delete_def require_entity_revision_def
      save_node_def save_edge_def delete_edge_def touching_def node_alive_def edge_alive_def cv_now_def cv_uuid4_def
      save_meta_def touch_episode_def record_operation_def refresh_node_asset_urls_def publish_canvas_patch_def
      Let_def bindE_def ret_def gets_def modify_def ensure_def raise_def demo_defs)

text \<open>A new episode, then its first node.\<close>

definition demo_payload :: create_node_payload where
  "demo_payload = \<lparr> cp_kind = CNK_IMAGE, cp_position = (''0.0'', ''0.0''), cp_width = None, cp_height = None, cp_data = empty_data \<rparr>"

definition demo_empty :: canvas_db where
  "demo_empty = demo_db [] [] [\<lparr> me_episode = 7, me_node_count = 0, me_edge_count = 0 \<rparr>]"

definition idle_data :: canvas_node_data where
  "idle_data = empty_data\<lparr>nd_status := Some CNS_IDLE\<rparr>"

lemma idle_data_ok: "node_data_ok idle_data" "node_data_ok (all_set idle_data)" "nd_content (all_set idle_data) = None"
  by (simp_all add: idle_data_def empty_data_def node_data_ok_def at_least_one_def all_set_def)

lemma demo_defaults: "ensure_create_defaults CNK_IMAGE empty_data = Inr (all_set idle_data)"
  using idle_data_ok(1) by (simp add: ensure_create_defaults_def idle_data_def empty_data_def model_validate_def)

lemma demo_parse: "parse_node_data plain_codec (dump_node_data plain_codec (all_set idle_data)) = Inr (all_set idle_data)"
proof -
  have "all_set (all_set idle_data) = all_set idle_data" by (simp add: all_set_def idle_data_def empty_data_def)
  then show ?thesis using parse_dump [OF plain_codec_round_trip idle_data_ok(2)] by simp
qed

lemma demo_create_run: "\<exists>p t. apply_patch demo_env demo_scope [CreateNodeOp demo_payload None] None demo_empty = (Inr p, t) \<and> length (cv_nodes t) = 1
    \<and> cv_metas t = [\<lparr> me_episode = 7, me_node_count = 1, me_edge_count = 0 \<rparr>]"
  by (simp add: apply_patch_def patch_body_def cv_transaction_def collect_patch_conflicts_def patch_check_init_def
      lock_episode_def require_meta_def apply_create_def insert_node_def node_view_from_row_def bindR_def with_error_def liftR_def
      validate_node_data_content_def demo_defaults demo_parse idle_data_ok(3) cv_now_def cv_uuid4_def
      save_meta_def touch_episode_def record_operation_def refresh_node_asset_urls_def publish_canvas_patch_def
      Let_def bindE_def ret_def gets_def modify_def ensure_def raise_def demo_empty_def demo_payload_def demo_defs)

text \<open>A client renames a node.\<close>

definition demo_rename :: update_node_payload where
  "demo_rename = \<lparr> up_id = ''b'', up_revision = 1, up_position = None, up_width = None, up_height = None,
     up_data = Some (empty_data\<lparr>nd_title := Some ''x'', nd_set := {''title''}\<rparr>) \<rparr>"

definition renamed_data :: canvas_node_data where
  "renamed_data = all_set (idle_data\<lparr>nd_title := Some ''x''\<rparr>)"

lemma renamed_data_ok: "node_data_ok renamed_data" "nd_content renamed_data = None" "all_set renamed_data = renamed_data"
  by (simp_all add: renamed_data_def idle_data_def empty_data_def node_data_ok_def at_least_one_def all_set_def)

lemma demo_merge:
  "merge_client_node_data (empty_data\<lparr>nd_status := Some CNS_IDLE, nd_set := {''status''}\<rparr>)
     (empty_data\<lparr>nd_title := Some ''x'', nd_set := {''title''}\<rparr>) CNK_IMAGE = Inr renamed_data"
proof -
  have "merge_fields (empty_data\<lparr>nd_status := Some CNS_IDLE, nd_set := {''status''}\<rparr>) (empty_data\<lparr>nd_title := Some ''x'', nd_set := {''title''}\<rparr>)
      = renamed_data"
    by (simp add: merge_fields_def pick_def empty_data_def renamed_data_def idle_data_def all_set_def Let_def)
  moreover have "forbidden_fields (empty_data\<lparr>nd_title := Some ''x'', nd_set := {''title''}\<rparr>) = []"
    by (simp add: forbidden_fields_Nil NODE_DATA_CLIENT_FORBIDDEN_KEYS_def)
  ultimately show ?thesis
    using renamed_data_ok by (simp add: merge_client_node_data_def model_validate_def bindR_def with_error_def validate_node_data_content_def)
qed

lemma demo_renamed_parse: "parse_node_data plain_codec (dump_node_data plain_codec renamed_data) = Inr renamed_data"
  using parse_dump [OF plain_codec_round_trip renamed_data_ok(1)] renamed_data_ok(3) by simp

lemma demo_rename_run: "\<exists>p t. apply_patch demo_env demo_scope [UpdateNodeOp demo_rename] None demo_canvas = (Inr p, t)
    \<and> (demo_node ''b'' 2)\<lparr>no_data := dump_node_data plain_codec renamed_data\<rparr> \<in> set (cv_nodes t)"
proof -
  have "patched_row demo_env demo_rename (demo_node ''b'' 1) = Inr ((demo_node ''b'' 2)\<lparr>no_data := dump_node_data plain_codec renamed_data\<rparr>)"
    using demo_merge by (simp add: patched_row_def demo_rename_def demo_node_def demo_env_def parse_node_data_def bindR_def)
  moreover have "node_view_from_row demo_env ((demo_node ''b'' 2)\<lparr>no_data := dump_node_data plain_codec renamed_data\<rparr>) =
      Inr \<lparr> nv_id = ''b'', nv_kind = CNK_IMAGE, nv_revision = 2, nv_position = (''0.0'', ''0.0''), nv_width = None, nv_height = None,
        nv_data = renamed_data, nv_output_asset_urls = None \<rparr>"
    using renamed_data_ok(2) by (simp add: node_view_from_row_def demo_env_def demo_renamed_parse bindR_def demo_node_def with_error_def
        validate_node_data_content_def)
  ultimately show ?thesis
    by (simp add: apply_patch_def patch_body_def cv_transaction_def collect_patch_conflicts_def patch_check_init_def check_update_def
        working_node_def get_node_for_update_def lock_episode_def require_meta_def apply_update_def require_entity_revision_def
        save_node_def node_alive_def cv_now_def cv_uuid4_def liftR_def
        save_meta_def touch_episode_def record_operation_def refresh_node_asset_urls_def publish_canvas_patch_def
        Let_def bindE_def ret_def gets_def modify_def ensure_def raise_def demo_canvas_def demo_db_def demo_scope_def)
      (simp add: demo_node_def demo_rename_def)
qed

section \<open>Properties\<close>

text \<open>
  C5. Conflicts of a patch are found before anything is written, and completely: a patch fails with a
  revision conflict exactly when the episode is open and the check that runs first over all
  operations reports those conflicts. An operation whose revision passed the check never meets a
  conflict when it is applied, even after earlier operations of the same patch bumped revisions,
  deleted nodes or took edges along.\<close>

theorem patch_conflicts_exact:
  assumes "ids_ok s"
  shows "(\<exists>t. apply_patch env scope xs turn_id s = (Inl (CanvasRevisionConflictError cs), t)) \<longleftrightarrow>
    cs \<noteq> [] \<and> episode_open (sp_episode scope) s \<and> collect_patch_conflicts (sp_episode scope) xs s = (Inr cs, s)"
  using patch_body_conflict [OF assms, of env scope xs turn_id cs] unfolding apply_patch_Inl by blast

theorem patch_conflicts_exact_witness:
  "\<exists>t. apply_patch demo_env demo_scope [DeleteNodeOp ''a'' 2, DisconnectNodesOp ''e'' 9] None demo_canvas
     = (Inl (CanvasRevisionConflictError [(''node'', ''a'', 2, 3), (''edge'', ''e'', 9, 1)]), t)"
proof -
  have "ids_ok demo_canvas" using demo_inv by (simp add: canvas_inv_def)
  moreover have "episode_open (sp_episode demo_scope) demo_canvas" by (simp add: episode_open_def demo_defs)
  moreover have "collect_patch_conflicts (sp_episode demo_scope) [DeleteNodeOp ''a'' 2, DisconnectNodesOp ''e'' 9] demo_canvas
      = (Inr [(''node'', ''a'', 2, 3), (''edge'', ''e'', 9, 1)], demo_canvas)"
    by (simp add: collect_patch_conflicts_def patch_check_init_def check_delete_def check_disconnect_def working_node_run working_edge_run
        bindE_def ret_def demo_graph) (simp add: demo_scope_def)
  ultimately show ?thesis using patch_conflicts_exact [of demo_canvas] by simp
qed

text \<open>
  C6. A patch is atomic and refines the abstract canvas. If it fails, no table and no published event
  changes. If it succeeds, the graph of its episode goes through exactly the steps of its operations,
  in order (new entities get revision 1 under identifiers not in use, an update or deletion needs the
  current revision, a deletion takes the edges of the node along, an edge needs two live ends), the
  graphs of all other episodes stay the same, and one operation row and one event are added.\<close>

theorem apply_patch_refines_graph:
  assumes "canvas_inv s" "apply_patch env scope xs turn_id s = (r, t)"
  shows "case r of
      Inl e \<Rightarrow> t = s\<lparr>cv_clock := cv_clock t, cv_uuids := cv_uuids t\<rparr>
    | Inr p \<Rightarrow> graph_steps xs (graph_of (sp_episode scope) s) (graph_of (sp_episode scope) t)
        \<and> (\<forall>e. e \<noteq> sp_episode scope \<longrightarrow> graph_of e t = graph_of e s)
        \<and> (\<exists>i. pp_op_id p = Some i \<and> cv_operations t = cv_operations s @
             [\<lparr> co_id = i, co_episode = sp_episode scope, co_user = sp_user scope, co_turn = turn_id,
                co_type = ''apply_patch'', co_ops = xs, co_status = ''applied'' \<rparr>])
        \<and> cv_published t = cv_published s @ [(sp_episode scope, Some p, None)]"
proof (cases r)
  case (Inl e)
  with assms(2) show ?thesis by (auto simp: apply_patch_Inl)
next
  case (Inr p)
  with apply_patch_commits [OF assms(1), of env scope xs turn_id p t] assms(2) show ?thesis by simp
qed

theorem apply_patch_refines_graph_witness:
  "\<exists>t. graph_steps [DeleteNodeOp ''a'' 3] (graph_of 7 demo_canvas) (graph_of 7 t)"
proof -
  obtain p t where run: "apply_patch demo_env demo_scope [DeleteNodeOp ''a'' 3] None demo_canvas = (Inr p, t)"
    using demo_delete_run by blast
  from apply_patch_refines_graph [OF demo_inv run] show ?thesis by (auto simp: demo_scope_def)
qed



text \<open>
  C8. A client patch cannot change the fields of a node that belong to the system (status, task, error,
  result assets, paths): after a successful patch the row with the same identifier still reads the
  same values, for every codec that reads back what it wrote.\<close>

theorem client_patch_keeps_system_fields:
  assumes "canvas_inv s" "codec_round_trip (ce_codec env)" "apply_patch env scope xs turn_id s = (Inr p, t)"
    and "r \<in> set (cv_nodes s)" "r' \<in> set (cv_nodes t)" "no_id r' = no_id r"
  shows "row_projection env r' = row_projection env r"
proof -
  have "ids_ok t" using apply_patch_commits [OF assms(1,3)] by (simp add: canvas_inv_def)
  then have u: "q = r'" if "q \<in> set (cv_nodes t)" "no_id q = no_id r'" for q
    using assms(5) that by (auto simp: ids_ok_def distinct_map inj_on_def)
  from apply_patch_projection [OF assms(1-3)] assms(4) obtain q where
    "q \<in> set (cv_nodes t)" "no_id q = no_id r" "row_projection env q = row_projection env r"
    unfolding keeps_projection_def by blast
  with u [of q] assms(6) show ?thesis by simp
qed

theorem client_patch_keeps_system_fields_witness:
  "\<exists>p t. apply_patch demo_env demo_scope [UpdateNodeOp demo_rename] None demo_canvas = (Inr p, t)
    \<and> row_projection demo_env ((demo_node ''b'' 2)\<lparr>no_data := dump_node_data plain_codec renamed_data\<rparr>) = row_projection demo_env (demo_node ''b'' 1)"
proof -
  obtain p t where run: "apply_patch demo_env demo_scope [UpdateNodeOp demo_rename] None demo_canvas = (Inr p, t)"
    and r: "(demo_node ''b'' 2)\<lparr>no_data := dump_node_data plain_codec renamed_data\<rparr> \<in> set (cv_nodes t)" using demo_rename_run by blast
  have "demo_node ''b'' 1 \<in> set (cv_nodes demo_canvas)" by (simp add: demo_canvas_def demo_db_def)
  from client_patch_keeps_system_fields [OF demo_inv _ run this r] run show ?thesis
    by (simp add: demo_env_def plain_codec_round_trip demo_node_def)
qed

end
