(* ===== verification/Redis_Store.thy ===== *)
theory Redis_Store
  imports Prelude Python_Numbers
begin

text \<open>
  The Redis server as the code sees it: strings, hashes, streams and sets by key, and the commands
  that \<open>agent/runtime/stream/replay.py\<close>, \<open>canvas/services/episode_fence.py\<close> and
  \<open>agent/canvas/turn/lock.py\<close> send, with their documented effect. A command is atomic, and so is a
  Lua script. Keys of different kinds have different texts and are kept apart. \<open>EXPIRE\<close> records the
  time to live of a key; that a key is gone when its time has passed is a step of its own
  (\<open>redis_evict\<close>), taken at any moment. The state also has the readings of the server's clock in
  milliseconds still to come.
\<close>

section \<open>State\<close>

type_synonym stream_id = "nat \<times> nat"

record redis =
  rd_strings :: "string dict"
  rd_hashes :: "string dict dict"
  rd_streams :: "(stream_id \<times> string dict) list dict"
  rd_sets :: "string list dict"
  rd_ttl :: "int dict"
  rd_millis :: "nat \<Rightarrow> nat"

definition redis_exists :: "string \<Rightarrow> redis \<Rightarrow> bool" where
  "redis_exists k s \<longleftrightarrow> dict_get (rd_strings s) k \<noteq> None \<or> dict_get (rd_hashes s) k \<noteq> None
     \<or> dict_get (rd_streams s) k \<noteq> None \<or> dict_get (rd_sets s) k \<noteq> None"

definition redis_del :: "string \<Rightarrow> redis \<Rightarrow> redis" where
  "redis_del k s = s\<lparr>rd_strings := AList.delete k (rd_strings s), rd_hashes := AList.delete k (rd_hashes s),
     rd_streams := AList.delete k (rd_streams s), rd_sets := AList.delete k (rd_sets s),
     rd_ttl := AList.delete k (rd_ttl s)\<rparr>"

definition redis_evict :: "string \<Rightarrow> redis \<Rightarrow> redis" where
  "redis_evict k s = redis_del k s"

definition redis_expire :: "string \<Rightarrow> int \<Rightarrow> redis \<Rightarrow> redis" where
  "redis_expire k ttl s = (if redis_exists k s then s\<lparr>rd_ttl := dict_set (rd_ttl s) k ttl\<rparr> else s)"

section \<open>Strings\<close>

definition redis_get :: "string \<Rightarrow> redis \<Rightarrow> string option" where
  "redis_get k s = dict_get (rd_strings s) k"

definition redis_set_ex :: "string \<Rightarrow> string \<Rightarrow> int \<Rightarrow> redis \<Rightarrow> redis" where
  "redis_set_ex k v ttl s = s\<lparr>rd_strings := dict_set (rd_strings s) k v, rd_ttl := dict_set (rd_ttl s) k ttl\<rparr>"

text \<open>\<open>SET k v EX ttl NX\<close>.\<close>

definition redis_set_nx :: "string \<Rightarrow> string \<Rightarrow> int \<Rightarrow> redis \<Rightarrow> bool \<times> redis" where
  "redis_set_nx k v ttl s = (if redis_exists k s then (False, s) else (True, redis_set_ex k v ttl s))"

section \<open>Hashes\<close>

definition redis_hgetall :: "string \<Rightarrow> redis \<Rightarrow> string dict" where
  "redis_hgetall k s = (case dict_get (rd_hashes s) k of None \<Rightarrow> [] | Some h \<Rightarrow> h)"

definition redis_hget :: "string \<Rightarrow> string \<Rightarrow> redis \<Rightarrow> string option" where
  "redis_hget k f s = dict_get (redis_hgetall k s) f"

definition redis_hset :: "string \<Rightarrow> string dict \<Rightarrow> redis \<Rightarrow> redis" where
  "redis_hset k fvs s =
     s\<lparr>rd_hashes := dict_set (rd_hashes s) k (fold (\<lambda>(f, v) h. dict_set h f v) fvs (redis_hgetall k s))\<rparr>"

section \<open>Streams\<close>

text \<open>The text of an identifier, and the identifier a text denotes.\<close>

definition id_text :: "stream_id \<Rightarrow> string" where
  "id_text i = nat_str (fst i) @ ''-'' @ nat_str (snd i)"

definition decimal_nat :: "string \<Rightarrow> nat" where
  "decimal_nat t = digits_nat (map (\<lambda>c. case digit_value c of Some d \<Rightarrow> d | None \<Rightarrow> 0) t)"

definition stream_id_of :: "string \<Rightarrow> stream_id" where
  "stream_id_of t =
     (case split_at_char (CHR ''-'') t of
        (a, None) \<Rightarrow> (decimal_nat a, 0)
      | (a, Some b) \<Rightarrow> (decimal_nat a, decimal_nat b))"

definition id_less :: "stream_id \<Rightarrow> stream_id \<Rightarrow> bool" where
  "id_less i j \<longleftrightarrow> fst i < fst j \<or> fst i = fst j \<and> snd i < snd j"

definition redis_entries :: "string \<Rightarrow> redis \<Rightarrow> (stream_id \<times> string dict) list" where
  "redis_entries k s = (case dict_get (rd_streams s) k of None \<Rightarrow> [] | Some es \<Rightarrow> es)"

text \<open>\<open>XADD k *\<close>: the clock, or the successor of the last identifier when the clock is not ahead of it.\<close>

definition next_id :: "nat \<Rightarrow> (stream_id \<times> string dict) list \<Rightarrow> stream_id" where
  "next_id now es =
     (let start = (now, 0) in
      if es = [] then start
      else let l = fst (last es) in if id_less l start then start else (fst l, Suc (snd l)))"

definition redis_xadd :: "string \<Rightarrow> string dict \<Rightarrow> redis \<Rightarrow> string \<times> redis" where
  "redis_xadd k fvs s =
     (let es = redis_entries k s; i = next_id (rd_millis s 0) es in
      (id_text i, s\<lparr>rd_streams := dict_set (rd_streams s) k (es @ [(i, fvs)]), rd_millis := (\<lambda>n. rd_millis s (Suc n))\<rparr>))"

definition redis_xread :: "string \<Rightarrow> string \<Rightarrow> nat \<Rightarrow> redis \<Rightarrow> (string \<times> string dict) list" where
  "redis_xread k after n s =
     map (\<lambda>(i, fvs). (id_text i, fvs))
       (take n (filter (\<lambda>(i, fvs). id_less (stream_id_of after) i) (redis_entries k s)))"

section \<open>Sets\<close>

definition redis_smembers :: "string \<Rightarrow> redis \<Rightarrow> string list" where
  "redis_smembers k s = (case dict_get (rd_sets s) k of None \<Rightarrow> [] | Some xs \<Rightarrow> xs)"

definition redis_sadd :: "string \<Rightarrow> string \<Rightarrow> redis \<Rightarrow> redis" where
  "redis_sadd k v s =
     (let xs = redis_smembers k s in
      s\<lparr>rd_sets := dict_set (rd_sets s) k (if v \<in> set xs then xs else xs @ [v])\<rparr>)"

text \<open>A set that becomes empty is removed.\<close>

definition redis_srem :: "string \<Rightarrow> string \<Rightarrow> redis \<Rightarrow> redis" where
  "redis_srem k v s =
     (let xs = removeAll v (redis_smembers k s) in
      if xs = [] then s\<lparr>rd_sets := AList.delete k (rd_sets s)\<rparr> else s\<lparr>rd_sets := dict_set (rd_sets s) k xs\<rparr>)"

section \<open>Identifiers\<close>

lemma digit_value_char: "d < 10 \<Longrightarrow> digit_value (char_of (48 + d :: nat)) = Some d"
  by (simp add: digit_value_def of_char_of)

lemma digits_nat_snoc: "digits_nat (ds @ [d]) = 10 * digits_nat ds + d"
  by (simp add: digits_nat_def)

lemma decimal_nat_str: "decimal_nat (nat_str n) = n"
proof (induction n rule: nat_str.induct)
  case (1 n)
  show ?case
  proof (cases "n < 10")
    case True
    then show ?thesis by (subst nat_str.simps) (simp add: decimal_nat_def digit_value_char digits_nat_def)
  next
    case False
    have "digit_value (char_of (48 + n mod 10)) = Some (n mod 10)" by (rule digit_value_char) simp
    with 1 [OF False] False show ?thesis
      by (subst nat_str.simps) (simp add: decimal_nat_def digits_nat_snoc)
  qed
qed

lemma digit_char_not_dash: "d < 10 \<Longrightarrow> char_of (48 + d :: nat) \<noteq> CHR ''-''"
  using digit_value_char [of d] by (auto simp: digit_value_def dest: arg_cong [where f = digit_value])

lemma nat_str_digits: "c \<in> set (nat_str n) \<Longrightarrow> c \<noteq> CHR ''-''"
proof (induction n rule: nat_str.induct)
  case (1 n)
  show ?case
  proof (cases "n < 10")
    case True
    with 1(2) have "c = char_of (48 + n)" by (subst (asm) nat_str.simps) simp
    with digit_char_not_dash [OF True] show ?thesis by simp
  next
    case False
    with 1(2) have "c \<in> set (nat_str (n div 10)) \<or> c = char_of (48 + n mod 10)" by (subst (asm) nat_str.simps) auto
    moreover have "char_of (48 + n mod 10) \<noteq> CHR ''-''" by (rule digit_char_not_dash) simp
    ultimately show ?thesis using 1(1) [OF False] by metis
  qed
qed

lemma stream_id_of_text: "stream_id_of (id_text i) = i"
proof -
  have "takeWhile (\<lambda>x. x \<noteq> CHR ''-'') (nat_str (fst i) @ ''-'' @ nat_str (snd i)) = nat_str (fst i)"
    using nat_str_digits [of _ "fst i"] by (simp add: takeWhile_append)
  then show ?thesis by (simp add: stream_id_of_def id_text_def split_at_char_def Let_def decimal_nat_str)
qed

lemma id_text_inject: "id_text i = id_text j \<longleftrightarrow> i = j"
  by (metis stream_id_of_text)

lemma id_less_trans: "id_less i j \<Longrightarrow> id_less j k \<Longrightarrow> id_less i k"
  by (auto simp: id_less_def)

lemma id_less_irrefl: "\<not> id_less i i"
  by (simp add: id_less_def)

lemma id_less_linear: "id_less i j \<or> i = j \<or> id_less j i"
  by (cases i; cases j) (auto simp: id_less_def)

text \<open>The identifiers of a stream increase.\<close>

fun increasing :: "stream_id list \<Rightarrow> bool" where
  "increasing [] = True"
| "increasing (i # is) = ((\<forall>j\<in>set is. id_less i j) \<and> increasing is)"

lemma increasing_snoc: "increasing (is @ [i]) \<longleftrightarrow> increasing is \<and> (\<forall>j\<in>set is. id_less j i)"
  by (induction "is") auto

lemma increasing_last: "increasing is \<Longrightarrow> j \<in> set is \<Longrightarrow> j = last is \<or> id_less j (last is)"
  by (induction "is") auto

lemma next_id_new:
  assumes "increasing (map fst es)"
  shows "increasing (map fst (es @ [(next_id now es, fvs)]))"
proof (cases "es = []")
  case False
  have new: "id_less (fst (last es)) (next_id now es)"
    using False by (auto simp: next_id_def Let_def id_less_def)
  have "id_less (fst e) (next_id now es)" if "e \<in> set es" for e
  proof -
    have "fst e = last (map fst es) \<or> id_less (fst e) (last (map fst es))"
      using increasing_last [OF assms, of "fst e"] that by simp
    then show ?thesis using id_less_trans [OF _ new, of "fst e"] new False by (auto simp: last_map)
  qed
  with assms show ?thesis by (auto simp: increasing_snoc)
qed simp

end
