(* ===== verification/Replay_Log.thy ===== *)
theory Replay_Log
  imports Redis_Store Json_Text
begin

text \<open>
  The replay log of an agent turn (\<open>agent/runtime/stream/replay.py\<close>): a request claims a log in Redis,
  one execution holds a lease and appends frames, subscribers read from a cursor and may reconnect.
  The Lua scripts are translated as functions on the Redis state.

  The work of the validation library (dumping a frame to JSON and validating one), \<open>json.loads\<close> and
  the ISO 8601 text of a time are parameters (\<open>replay_env\<close>), which also has the settings. Contracts of
  other modules inside a frame are their JSON values. Byte counts are natural numbers. A blocking
  read is the read at the moment it returns.
\<close>

section \<open>Frames\<close>

datatype stream_error_code =
    AGENT_RECOVERY_EXHAUSTED | CANVAS_DUPLICATE_TURN | CANVAS_EPISODE_BUSY | CANVAS_SESSION_BUSY | EMPTY_RESPONSE
  | EXECUTION_LOST | GENERATION_FAILED | GENERATION_TIMEOUT | GATEWAY_UPSTREAM_FAILED | INTERNAL | MAX_ITERATIONS
  | TOOL_PARSE_FATAL | TURN_FAILED | WALL_CLOCK

datatype stream_frame_type =
    FT_TOKEN | FT_TOOL_START | FT_TOOL_END | FT_HEARTBEAT | FT_ERROR | FT_DONE | FT_CANCELLED | FT_CONVERSATION_TITLE
  | FT_CANVAS_SESSION_TITLE | FT_CANVAS_PATCH | FT_GENERATION_PROGRESS | FT_TOOL_PENDING | FT_USER_GATE_REQUIRED
  | FT_UPGRADE_INVITE_PROPOSED | FT_BROWSER_BLOCKED | FT_BROWSER_FRAME | FT_COMPOSER_PROMPT_APPLIED

datatype token_channel = ANSWER | THINK

record speaker =
  sk_role :: "string option"
  sk_expert_id :: "string option"
  sk_expert_name :: "string option"
  sk_avatar :: "string option"
  sk_task :: "string option"

record tool_recovery =
  tc_synthetic :: bool
  tc_recoverable :: bool
  tc_attempt :: "int option"
  tc_error_code :: "string option"

text \<open>The first field of every frame is the protocol version.\<close>

datatype stream_frame =
    TokenFrame int token_channel string speaker
  | ToolStartFrame int string string "json dict" speaker
  | ToolEndFrame int string string bool string "tool_recovery option" speaker
  | HeartbeatFrame int int "string option" speaker
  | ErrorFrame int stream_error_code string "string option" "json dict option" speaker
  | DoneFrame int string "int list" speaker
  | CancelledFrame int string string
  | ConversationTitleFrame int int string string
  | CanvasSessionTitleFrame int int string string
  | CanvasPatchFrame int json "string option"
  | GenerationProgressFrame int json "string option"
  | ToolPendingFrame int string string "string option" string "json option" "string option"
  | UserGateRequiredFrame int string string string string "json list" "json dict" "json list" "string option" "string option"
  | UpgradeInviteProposedFrame int string int int "string list" string string "(string \<times> string) list"
  | BrowserBlockedFrame int string string "string option" int
  | BrowserFrameEvent int string int int
  | ComposerPromptAppliedFrame int string string "json list" "int list"

fun frame_type :: "stream_frame \<Rightarrow> stream_frame_type" where
  "frame_type (TokenFrame _ _ _ _) = FT_TOKEN"
| "frame_type (ToolStartFrame _ _ _ _ _) = FT_TOOL_START"
| "frame_type (ToolEndFrame _ _ _ _ _ _ _) = FT_TOOL_END"
| "frame_type (HeartbeatFrame _ _ _ _) = FT_HEARTBEAT"
| "frame_type (ErrorFrame _ _ _ _ _ _) = FT_ERROR"
| "frame_type (DoneFrame _ _ _ _) = FT_DONE"
| "frame_type (CancelledFrame _ _ _) = FT_CANCELLED"
| "frame_type (ConversationTitleFrame _ _ _ _) = FT_CONVERSATION_TITLE"
| "frame_type (CanvasSessionTitleFrame _ _ _ _) = FT_CANVAS_SESSION_TITLE"
| "frame_type (CanvasPatchFrame _ _ _) = FT_CANVAS_PATCH"
| "frame_type (GenerationProgressFrame _ _ _) = FT_GENERATION_PROGRESS"
| "frame_type (ToolPendingFrame _ _ _ _ _ _ _) = FT_TOOL_PENDING"
| "frame_type (UserGateRequiredFrame _ _ _ _ _ _ _ _ _ _) = FT_USER_GATE_REQUIRED"
| "frame_type (UpgradeInviteProposedFrame _ _ _ _ _ _ _ _) = FT_UPGRADE_INVITE_PROPOSED"
| "frame_type (BrowserBlockedFrame _ _ _ _ _) = FT_BROWSER_BLOCKED"
| "frame_type (BrowserFrameEvent _ _ _ _) = FT_BROWSER_FRAME"
| "frame_type (ComposerPromptAppliedFrame _ _ _ _ _) = FT_COMPOSER_PROMPT_APPLIED"

text \<open>\<open>protocol_version\<close> has the default 2, the fields of the speaker are optional.\<close>

definition no_speaker :: speaker where
  "no_speaker = \<lparr> sk_role = None, sk_expert_id = None, sk_expert_name = None, sk_avatar = None, sk_task = None \<rparr>"

definition error_frame :: "stream_error_code \<Rightarrow> string \<Rightarrow> stream_frame" where
  "error_frame code message = ErrorFrame 2 code message None None no_speaker"

section \<open>Text of JSON\<close>

text \<open>\<open>json.dumps(v, ensure_ascii=False, sort_keys=..., separators=...)\<close>.\<close>

fun json_text :: "bool \<Rightarrow> string \<Rightarrow> string \<Rightarrow> json \<Rightarrow> string" where
  "json_text srt i k JNull = ''null''"
| "json_text srt i k (JBool b) = (if b then ''true'' else ''false'')"
| "json_text srt i k (JInt n) = int_str n"
| "json_text srt i k (JFloat t) = json_float t"
| "json_text srt i k (JStr s) = json_string s"
| "json_text srt i k (JList xs) = ''['' @ join_with i (map (json_text srt i k) xs) @ '']''"
| "json_text srt i k (JObj kvs) =
     (let items = map (\<lambda>kv. (fst kv, json_text srt i k (snd kv))) kvs in
      ''{'' @ join_with i (map (\<lambda>kv. json_string (fst kv) @ k @ snd kv) (if srt then sort_key fst items else items)) @ ''}'')"

section \<open>Settings and state\<close>

record replay_env =
  re_dump :: "stream_frame \<Rightarrow> json"
  re_validate :: "json \<Rightarrow> stream_frame res"
  re_loads :: "string \<Rightarrow> json res"
  re_iso :: "int \<Rightarrow> string"
  re_uniso :: "string \<Rightarrow> int res"
  re_replay_ttl :: int
  re_meta_ttl :: int
  re_max_bytes :: nat
  re_lease_ttl :: int
  re_lock_ttl :: int
  re_delta_max :: nat
  re_protocol :: int

record replay_db =
  rp_redis :: redis
  rp_clock :: "nat \<Rightarrow> int"
  rp_subscribers :: int

definition on_redis :: "(redis \<Rightarrow> 'a \<times> redis) \<Rightarrow> (replay_db, 'a) eff" where
  "on_redis f s = (case f (rp_redis s) of (x, r) \<Rightarrow> (Inr x, s\<lparr>rp_redis := r\<rparr>))"

definition read_redis :: "(redis \<Rightarrow> 'a) \<Rightarrow> (replay_db, 'a) eff" where
  "read_redis f = gets (\<lambda>s. f (rp_redis s))"

definition write_redis :: "(redis \<Rightarrow> redis) \<Rightarrow> (replay_db, unit) eff" where
  "write_redis f = modify (\<lambda>s. s\<lparr>rp_redis := f (rp_redis s)\<rparr>)"

definition rp_now :: "(replay_db, int) eff" where
  "rp_now s = (Inr (rp_clock s 0), s\<lparr>rp_clock := (\<lambda>n. rp_clock s (Suc n))\<rparr>)"

datatype replay_request_kind = RK_TURN | RK_RESUME

fun replay_request_kind_value :: "replay_request_kind \<Rightarrow> string" where
  "replay_request_kind_value RK_TURN = ''turn''"
| "replay_request_kind_value RK_RESUME = ''resume''"

datatype replay_status = RS_STARTING | RS_RUNNING | RS_INTERRUPTED | RS_COMPLETED | RS_FAILED | RS_CANCELLED

fun replay_status_value :: "replay_status \<Rightarrow> string" where
  "replay_status_value RS_STARTING = ''starting''"
| "replay_status_value RS_RUNNING = ''running''"
| "replay_status_value RS_INTERRUPTED = ''interrupted''"
| "replay_status_value RS_COMPLETED = ''completed''"
| "replay_status_value RS_FAILED = ''failed''"
| "replay_status_value RS_CANCELLED = ''cancelled''"

definition ReplayRequestKind :: "string \<Rightarrow> replay_request_kind res" where
  "ReplayRequestKind v =
     (if v = ''turn'' then Inr RK_TURN else if v = ''resume'' then Inr RK_RESUME
      else Inl (ValueError (repr_str v @ '' is not a valid ReplayRequestKind'')))"

definition ReplayStatus :: "string \<Rightarrow> replay_status res" where
  "ReplayStatus v =
     (case find (\<lambda>st. replay_status_value st = v)
        [RS_STARTING, RS_RUNNING, RS_INTERRUPTED, RS_COMPLETED, RS_FAILED, RS_CANCELLED] of
        Some st \<Rightarrow> Inr st
      | None \<Rightarrow> Inl (ValueError (repr_str v @ '' is not a valid ReplayStatus'')))"

definition CLOSED_STATUSES :: "replay_status set" where
  "CLOSED_STATUSES = {RS_INTERRUPTED, RS_COMPLETED, RS_FAILED, RS_CANCELLED}"

record replay_meta =
  rm_request_id :: string
  rm_user_id :: int
  rm_session_id :: int
  rm_turn_id :: string
  rm_kind :: replay_request_kind
  rm_fingerprint :: string
  rm_status :: replay_status
  rm_last_event_id :: "string option"
  rm_bytes_written :: int
  rm_created_at :: string
  rm_finished_at :: "string option"

definition meta_closed :: "replay_meta \<Rightarrow> bool" where
  "meta_closed m \<longleftrightarrow> rm_status m \<in> CLOSED_STATUSES"

section \<open>Fingerprints and cursors\<close>

definition request_envelope :: "replay_request_kind \<Rightarrow> int \<Rightarrow> int \<Rightarrow> json dict \<Rightarrow> json" where
  "request_envelope kind user session body =
     JObj [(''kind'', JStr (replay_request_kind_value kind)), (''user_id'', JInt user), (''session_id'', JInt session),
           (''body'', JObj (filter (\<lambda>kv. fst kv \<noteq> ''request_id'') body))]"

definition is_digit :: "char \<Rightarrow> bool" where
  "is_digit c \<longleftrightarrow> digit_value c \<noteq> None"

text \<open>\<open>0|[1-9][0-9]*\<close>.\<close>

definition canonical_number :: "string \<Rightarrow> bool" where
  "canonical_number t \<longleftrightarrow> t = ''0'' \<or> (t \<noteq> [] \<and> list_all is_digit t \<and> hd t \<noteq> CHR ''0'')"

definition EVENT_ID_RE :: "string \<Rightarrow> bool" where
  "EVENT_ID_RE t \<longleftrightarrow>
     (case split_at_char (CHR ''-'') t of
        (a, Some b) \<Rightarrow> canonical_number a \<and> canonical_number b
      | (a, None) \<Rightarrow> False)"

definition validate_event_id :: "string option \<Rightarrow> string res" where
  "validate_event_id v =
     (let resolved = strip (case v of None \<Rightarrow> [] | Some t \<Rightarrow> t) in
      if resolved = [] then Inr ''0-0''
      else if \<not> EVENT_ID_RE resolved then Inl (AppError ''INVALID_PARAMS'' ''invalid Last-Event-ID'')
      else Inr resolved)"

definition event_number :: "string \<Rightarrow> int res" where
  "event_number t = (case int_of_str t of Some n \<Rightarrow> Inr n | None \<Rightarrow> Inl (ValueError ''invalid literal for int() with base 10''))"

definition event_id_tuple :: "string \<Rightarrow> (int \<times> int) res" where
  "event_id_tuple v =
     (case split_at_char (CHR ''-'') v of
        (a, None) \<Rightarrow> Inl (ValueError ''not enough values to unpack (expected 2, got 1)'')
      | (a, Some b) \<Rightarrow> bindR (event_number a) (\<lambda>i. bindR (event_number b) (\<lambda>j. Inr (i, j))))"

definition tuple_greater :: "int \<times> int \<Rightarrow> int \<times> int \<Rightarrow> bool" where
  "tuple_greater x y \<longleftrightarrow> fst y < fst x \<or> fst x = fst y \<and> snd y < snd x"

definition validate_replay_cursor :: "replay_meta \<Rightarrow> string option \<Rightarrow> string res" where
  "validate_replay_cursor meta v =
     bindR (validate_event_id v) (\<lambda>cursor.
     if cursor = ''0-0'' then Inr cursor
     else case rm_last_event_id meta of
            None \<Rightarrow> Inl (AppError ''INVALID_PARAMS'' ''Last-Event-ID is ahead of the stream'')
          | Some l \<Rightarrow>
              bindR (event_id_tuple cursor) (\<lambda>c. bindR (event_id_tuple l) (\<lambda>m.
              if tuple_greater c m then Inl (AppError ''INVALID_PARAMS'' ''Last-Event-ID is ahead of the stream'')
              else Inr cursor)))"

section \<open>Scripts\<close>

definition active_text :: "string option \<Rightarrow> bool" where
  "active_text st \<longleftrightarrow> st = Some ''starting'' \<or> st = Some ''running''"

definition claim_script :: "string \<Rightarrow> string \<Rightarrow> string \<Rightarrow> string dict \<Rightarrow> int \<Rightarrow> redis \<Rightarrow> bool \<times> redis" where
  "claim_script key events lease fvs ttl s =
     (if redis_exists key s then (False, s)
      else (True, redis_expire key ttl (redis_hset key fvs (redis_del lease (redis_del events s)))))"

definition set_running_script :: "string \<Rightarrow> string \<Rightarrow> string \<Rightarrow> int \<Rightarrow> redis \<Rightarrow> bool \<times> redis" where
  "set_running_script meta lease owner ttl s =
     (if redis_hget meta ''status'' s \<noteq> Some ''starting'' then (False, s)
      else case redis_set_nx lease owner ttl s of
             (False, t) \<Rightarrow> (False, t)
           | (True, t) \<Rightarrow> (True, redis_hset meta [(''status'', ''running'')] t))"

datatype append_reply = ReplyClosed | ReplyLimit | ReplyOk string

definition bytes_written :: "string \<Rightarrow> redis \<Rightarrow> nat" where
  "bytes_written meta s = decimal_nat (case redis_hget meta ''bytes_written'' s of None \<Rightarrow> ''0'' | Some t \<Rightarrow> t)"

definition append_entry :: "string \<Rightarrow> string \<Rightarrow> string \<Rightarrow> nat \<Rightarrow> redis \<Rightarrow> string \<times> redis" where
  "append_entry meta events payload added s =
     (case redis_xadd events [(''frame'', payload)] s of
        (i, t) \<Rightarrow> (i, redis_hset meta [(''last_event_id'', i), (''bytes_written'', nat_str (bytes_written meta s + added))] t))"

definition append_script ::
  "string \<Rightarrow> string \<Rightarrow> string \<Rightarrow> string \<Rightarrow> nat \<Rightarrow> nat \<Rightarrow> bool \<Rightarrow> string \<Rightarrow> string \<Rightarrow> int \<Rightarrow> int \<Rightarrow> redis
   \<Rightarrow> append_reply res \<times> redis" where
  "append_script meta events lease payload added maximum force close_status finished meta_ttl events_ttl s =
     (if \<not> redis_exists meta s then (Inl (ResponseError ''replay metadata missing''), s)
      else if \<not> active_text (redis_hget meta ''status'' s) then (Inr ReplyClosed, s)
      else if \<not> force \<and> maximum < bytes_written meta s + added then (Inr ReplyLimit, s)
      else
        case append_entry meta events payload added s of
          (i, t) \<Rightarrow>
            let u = redis_expire events events_ttl (redis_expire meta meta_ttl t) in
            (Inr (ReplyOk i),
             if close_status \<noteq> []
             then redis_del lease (redis_hset meta [(''status'', close_status), (''finished_at'', finished)] u)
             else u))"

definition finish_script :: "string \<Rightarrow> string \<Rightarrow> string \<Rightarrow> string \<Rightarrow> string \<Rightarrow> int \<Rightarrow> int \<Rightarrow> redis \<Rightarrow> string option \<times> redis" where
  "finish_script meta events lease status finished meta_ttl events_ttl s =
     (let current = redis_hget meta ''status'' s;
          t = (if active_text current then redis_hset meta [(''status'', status), (''finished_at'', finished)] s else s)
      in (current, redis_del lease (redis_expire events events_ttl (redis_expire meta meta_ttl t))))"

definition refresh_lease_script :: "string \<Rightarrow> string \<Rightarrow> int \<Rightarrow> redis \<Rightarrow> bool \<times> redis" where
  "refresh_lease_script lease owner ttl s =
     (if redis_get lease s \<noteq> Some owner then (False, s) else (True, redis_expire lease ttl s))"

definition mark_lost_script ::
  "string \<Rightarrow> string \<Rightarrow> string \<Rightarrow> string option \<Rightarrow> string \<Rightarrow> nat \<Rightarrow> string \<Rightarrow> int \<Rightarrow> int \<Rightarrow> string \<Rightarrow> redis \<Rightarrow> bool \<times> redis" where
  "mark_lost_script meta events lease lock payload added finished meta_ttl events_ttl lock_owner s =
     (if \<not> active_text (redis_hget meta ''status'' s) then (False, s)
      else if redis_exists lease s then (False, s)
      else
        case redis_xadd events [(''frame'', payload)] s of
          (i, t) \<Rightarrow>
            let u = redis_expire events events_ttl (redis_expire meta meta_ttl
                      (redis_hset meta [(''last_event_id'', i), (''bytes_written'', nat_str (bytes_written meta s + added)),
                         (''status'', ''failed''), (''finished_at'', finished)] t)) in
            (True,
             case lock of
               None \<Rightarrow> u
             | Some k \<Rightarrow> if redis_get k u = Some lock_owner then redis_del k u else u))"

section \<open>The store\<close>

definition meta_key :: "string \<Rightarrow> string" where
  "meta_key rid = ''agent:sse:request:'' @ rid @ '':meta''"

definition events_key :: "string \<Rightarrow> string" where
  "events_key rid = ''agent:sse:request:'' @ rid @ '':events''"

definition lease_key :: "string \<Rightarrow> string" where
  "lease_key rid = ''agent:sse:request:'' @ rid @ '':lease''"

definition cancel_key :: "int \<Rightarrow> string \<Rightarrow> string" where
  "cancel_key session turn = ''canvas:turn_cancel:'' @ int_str session @ '':'' @ turn"

definition hash_field :: "string dict \<Rightarrow> string \<Rightarrow> string res" where
  "hash_field h k = (case dict_get h k of None \<Rightarrow> Inl (KeyError k) | Some v \<Rightarrow> Inr v)"

definition some_nonempty :: "string option \<Rightarrow> string option" where
  "some_nonempty v = (case v of Some (c # t) \<Rightarrow> Some (c # t) | _ \<Rightarrow> None)"

definition parse_meta :: "string dict \<Rightarrow> replay_meta res" where
  "parse_meta raw =
     bindR (hash_field raw ''request_id'') (\<lambda>rid.
     bindR (bindR (hash_field raw ''user_id'') event_number) (\<lambda>user.
     bindR (bindR (hash_field raw ''session_id'') event_number) (\<lambda>session.
     bindR (hash_field raw ''turn_id'') (\<lambda>turn.
     bindR (bindR (hash_field raw ''kind'') ReplayRequestKind) (\<lambda>kind.
     bindR (hash_field raw ''fingerprint'') (\<lambda>fp.
     bindR (bindR (hash_field raw ''status'') ReplayStatus) (\<lambda>status.
     bindR (event_number (case dict_get raw ''bytes_written'' of None \<Rightarrow> ''0'' | Some t \<Rightarrow> t)) (\<lambda>bytes.
     bindR (hash_field raw ''created_at'') (\<lambda>created.
     Inr \<lparr> rm_request_id = rid, rm_user_id = user, rm_session_id = session, rm_turn_id = turn, rm_kind = kind,
           rm_fingerprint = fp, rm_status = status, rm_last_event_id = some_nonempty (dict_get raw ''last_event_id''),
           rm_bytes_written = bytes, rm_created_at = created,
           rm_finished_at = some_nonempty (dict_get raw ''finished_at'') \<rparr>)))))))))"

definition get_meta :: "string \<Rightarrow> (replay_db, replay_meta option) eff" where
  "get_meta rid =
     bindE (read_redis (redis_hgetall (meta_key rid))) (\<lambda>raw.
     if raw = [] then ret None else bindE (liftR (parse_meta raw)) (\<lambda>m. ret (Some m)))"

definition require_replay_meta :: "string \<Rightarrow> (replay_db, replay_meta) eff" where
  "require_replay_meta rid =
     bindE (get_meta rid) (\<lambda>m.
     case m of None \<Rightarrow> raise (AppError ''RESOURCE_NOT_FOUND'' ''stream request not found'') | Some x \<Rightarrow> ret x)"

definition ensure_replay_available :: "replay_meta \<Rightarrow> (replay_db, unit) eff" where
  "ensure_replay_available meta =
     (if rm_last_event_id meta = None \<or> \<not> meta_closed meta then ret ()
      else
        bindE (read_redis (redis_exists (events_key (rm_request_id meta)))) (\<lambda>ok.
        ensure ok (AppError ''STREAM_REPLAY_EXPIRED'' ''stream replay has expired'')))"

definition claim_fields :: "string \<Rightarrow> int \<Rightarrow> int \<Rightarrow> string \<Rightarrow> replay_request_kind \<Rightarrow> string \<Rightarrow> string \<Rightarrow> string dict" where
  "claim_fields rid user session turn kind fp created =
     [(''request_id'', rid), (''user_id'', int_str user), (''session_id'', int_str session), (''turn_id'', turn),
      (''kind'', replay_request_kind_value kind), (''fingerprint'', fp), (''status'', replay_status_value RS_STARTING),
      (''bytes_written'', ''0''), (''created_at'', created)]"

definition claim ::
  "replay_env \<Rightarrow> string \<Rightarrow> int \<Rightarrow> int \<Rightarrow> string \<Rightarrow> replay_request_kind \<Rightarrow> string \<Rightarrow> (replay_db, replay_meta \<times> bool) eff" where
  "claim env rid user session turn kind fp =
     bindE rp_now (\<lambda>now.
     bindE (on_redis (claim_script (meta_key rid) (events_key rid) (lease_key rid)
              (claim_fields rid user session turn kind fp (re_iso env now)) (re_meta_ttl env))) (\<lambda>created.
     bindE (require_replay_meta rid) (\<lambda>meta.
     bindE (ensure (created \<or> rm_user_id meta = user \<and> rm_session_id meta = session \<and> rm_kind meta = kind
                      \<and> rm_fingerprint meta = fp)
              (AppError ''STREAM_REQUEST_CONFLICT'' ''requestId is already used by another request'')) (\<lambda>_.
     bindE (if created then ret () else ensure_replay_available meta) (\<lambda>_.
     ret (meta, created))))))"

definition require_owned_meta :: "string \<Rightarrow> int \<Rightarrow> int \<Rightarrow> (replay_db, replay_meta) eff" where
  "require_owned_meta rid user session =
     bindE (get_meta rid) (\<lambda>m.
     case m of
       None \<Rightarrow> raise (AppError ''RESOURCE_NOT_FOUND'' ''stream request not found'')
     | Some meta \<Rightarrow>
         bindE (ensure (rm_user_id meta = user \<and> rm_session_id meta = session)
                  (AppError ''RESOURCE_NOT_FOUND'' ''stream request not found'')) (\<lambda>_.
         bindE (ensure_replay_available meta) (\<lambda>_. ret meta)))"

definition set_running :: "replay_env \<Rightarrow> string \<Rightarrow> string \<Rightarrow> (replay_db, unit) eff" where
  "set_running env rid owner =
     bindE (on_redis (set_running_script (meta_key rid) (lease_key rid) owner (re_lease_ttl env))) (\<lambda>ok.
     ensure ok (RuntimeError ''stream execution cannot transition from starting to running''))"

definition refresh_lease :: "replay_env \<Rightarrow> string \<Rightarrow> string \<Rightarrow> (replay_db, bool) eff" where
  "refresh_lease env rid owner = on_redis (refresh_lease_script (lease_key rid) owner (re_lease_ttl env))"

definition has_lease :: "string \<Rightarrow> (replay_db, bool) eff" where
  "has_lease rid = read_redis (redis_exists (lease_key rid))"

definition frame_payload :: "replay_env \<Rightarrow> stream_frame \<Rightarrow> string" where
  "frame_payload env frame = json_text False '','' '':'' (re_dump env frame)"

definition mark_execution_lost :: "replay_env \<Rightarrow> string \<Rightarrow> string option \<Rightarrow> string option \<Rightarrow> (replay_db, bool) eff" where
  "mark_execution_lost env rid lock owner =
     (let payload = frame_payload env (error_frame EXECUTION_LOST ''Agent execution was lost'') in
      bindE rp_now (\<lambda>now.
      on_redis (mark_lost_script (meta_key rid) (events_key rid) (lease_key rid) lock payload (length payload) (re_iso env now)
        (re_meta_ttl env) (re_replay_ttl env) (case owner of None \<Rightarrow> [] | Some w \<Rightarrow> w))))"

definition append_frame ::
  "replay_env \<Rightarrow> string \<Rightarrow> stream_frame \<Rightarrow> bool \<Rightarrow> replay_status option \<Rightarrow> (replay_db, string) eff" where
  "append_frame env rid frame force close_status =
     (let payload = frame_payload env frame in
      bindE rp_now (\<lambda>now.
      bindE (on_redis (append_script (meta_key rid) (events_key rid) (lease_key rid) payload (length payload) (re_max_bytes env)
               force (case close_status of None \<Rightarrow> [] | Some st \<Rightarrow> replay_status_value st) (re_iso env now)
               (re_meta_ttl env) (re_replay_ttl env))) (\<lambda>r.
      bindE (liftR r) (\<lambda>reply.
      case reply of
        ReplyLimit \<Rightarrow> raise (ReplayLogLimitExceeded ''stream replay log size exceeded'')
      | ReplyClosed \<Rightarrow> raise (ReplayExecutionClosed ''stream execution is already closed'')
      | ReplyOk i \<Rightarrow> ret i))))"

definition finish :: "replay_env \<Rightarrow> string \<Rightarrow> replay_status \<Rightarrow> (replay_db, unit) eff" where
  "finish env rid status =
     bindE rp_now (\<lambda>now.
     bindE (on_redis (finish_script (meta_key rid) (events_key rid) (lease_key rid) (replay_status_value status) (re_iso env now)
              (re_meta_ttl env) (re_replay_ttl env))) (\<lambda>_. ret ()))"

definition discard_starting :: "string \<Rightarrow> (replay_db, unit) eff" where
  "discard_starting rid =
     bindE (get_meta rid) (\<lambda>m.
     case m of
       None \<Rightarrow> ret ()
     | Some meta \<Rightarrow>
         if rm_status meta \<noteq> RS_STARTING \<or> rm_last_event_id meta \<noteq> None then ret ()
         else write_redis (\<lambda>s. redis_del (lease_key rid) (redis_del (events_key rid) (redis_del (meta_key rid) s))))"

definition read_after :: "string \<Rightarrow> string \<Rightarrow> (replay_db, (string \<times> string) list) eff" where
  "read_after rid event_id =
     bindE (read_redis (redis_xread (events_key rid) event_id 100)) (\<lambda>rows.
     ret (concat (map (\<lambda>(i, fvs). case dict_get fvs ''frame'' of None \<Rightarrow> [] | Some f \<Rightarrow> [(i, f)]) rows)))"

definition signal_cancel :: "replay_env \<Rightarrow> int \<Rightarrow> string \<Rightarrow> (replay_db, unit) eff" where
  "signal_cancel env session turn = write_redis (redis_set_ex (cancel_key session turn) ''1'' (re_lock_ttl env))"

definition is_cancel_requested :: "int \<Rightarrow> string \<Rightarrow> (replay_db, bool) eff" where
  "is_cancel_requested session turn = read_redis (redis_exists (cancel_key session turn))"

definition clear_cancel :: "int \<Rightarrow> string \<Rightarrow> (replay_db, unit) eff" where
  "clear_cancel session turn = write_redis (redis_del (cancel_key session turn))"

definition register_subscriber :: "(replay_db, int) eff" where
  "register_subscriber =
     bindE (modify (\<lambda>s. s\<lparr>rp_subscribers := rp_subscribers s + 1\<rparr>)) (\<lambda>_. gets rp_subscribers)"

definition unregister_subscriber :: "(replay_db, int) eff" where
  "unregister_subscriber =
     bindE (modify (\<lambda>s. s\<lparr>rp_subscribers := max 0 (rp_subscribers s - 1)\<rparr>)) (\<lambda>_. gets rp_subscribers)"

end
