(* ===== verification/Episode_Fence.thy ===== *)
theory Episode_Fence
  imports Redis_Store
begin

text \<open>
  Locks in Redis: the fence of an episode (\<open>canvas/services/episode_fence.py\<close>), which lets a
  deletion wait for running generations and keeps new ones out, and the lock of a session's turn
  (\<open>agent/canvas/turn/lock.py\<close>).

  \<open>lk_active\<close> is the table of turns of this process; the events of a turn are the lists of turns that were
  asked to cancel and that have completed. What other processes do while one waits is a list of
  changes to the state, one per poll; the deadline is reached at its end.
\<close>

section \<open>State\<close>

record lock_env =
  le_lock_ttl :: int

record lock_state =
  lk_redis :: redis
  lk_active :: "(int \<times> string) list"
  lk_cancel :: "string list"
  lk_completed :: "string list"

definition lk_read :: "(redis \<Rightarrow> 'a) \<Rightarrow> (lock_state, 'a) eff" where
  "lk_read f = gets (\<lambda>s. f (lk_redis s))"

definition lk_write :: "(redis \<Rightarrow> redis) \<Rightarrow> (lock_state, unit) eff" where
  "lk_write f = modify (\<lambda>s. s\<lparr>lk_redis := f (lk_redis s)\<rparr>)"

definition lk_run :: "(redis \<Rightarrow> 'a \<times> redis) \<Rightarrow> (lock_state, 'a) eff" where
  "lk_run f s = (case f (lk_redis s) of (x, r) \<Rightarrow> (Inr x, s\<lparr>lk_redis := r\<rparr>))"

text \<open>The release and refresh scripts.\<close>

definition release_script :: "string \<Rightarrow> string \<Rightarrow> redis \<Rightarrow> bool \<times> redis" where
  "release_script k owner r = (if redis_get k r \<noteq> Some owner then (False, r) else (True, redis_del k r))"

definition refresh_script :: "string \<Rightarrow> string \<Rightarrow> int \<Rightarrow> redis \<Rightarrow> bool \<times> redis" where
  "refresh_script k owner ttl r = (if redis_get k r \<noteq> Some owner then (False, r) else (True, redis_expire k ttl r))"

section \<open>The fence of an episode\<close>

definition mutex_key :: "int \<Rightarrow> string" where
  "mutex_key ep = ''canvas:episode_mutex:'' @ int_str ep"

definition gen_key :: "int \<Rightarrow> string" where
  "gen_key ep = ''canvas:episode_gen_inflight:'' @ int_str ep"

definition episode_busy :: "int \<Rightarrow> exc" where
  "episode_busy ep = AppError ''CANVAS_EPISODE_BUSY'' (''canvas episode '' @ int_str ep @ '' is busy'')"

definition assert_writable :: "int \<Rightarrow> (lock_state, unit) eff" where
  "assert_writable ep =
     bindE (lk_read (redis_get (mutex_key ep))) (\<lambda>active. ensure (active = None) (episode_busy ep))"

definition acquire_exclusive :: "lock_env \<Rightarrow> int \<Rightarrow> string \<Rightarrow> (lock_state, unit) eff" where
  "acquire_exclusive env ep owner =
     bindE (lk_run (redis_set_nx (mutex_key ep) owner (le_lock_ttl env))) (\<lambda>ok. ensure ok (episode_busy ep))"

definition release_exclusive :: "int \<Rightarrow> string \<Rightarrow> (lock_state, bool) eff" where
  "release_exclusive ep owner = lk_run (release_script (mutex_key ep) owner)"

definition enter_generation :: "lock_env \<Rightarrow> int \<Rightarrow> string \<Rightarrow> (lock_state, unit) eff" where
  "enter_generation env ep owner =
     bindE (assert_writable ep) (\<lambda>_.
     bindE (lk_write (redis_sadd (gen_key ep) owner)) (\<lambda>_.
     bindE (lk_write (redis_expire (gen_key ep) (le_lock_ttl env))) (\<lambda>_.
     catchE (assert_writable ep)
       (\<lambda>e. bindE (lk_write (redis_srem (gen_key ep) owner)) (\<lambda>_. raise e)))))"

definition leave_generation :: "int \<Rightarrow> string \<Rightarrow> (lock_state, unit) eff" where
  "leave_generation ep owner = lk_write (redis_srem (gen_key ep) owner)"

text \<open>\<open>async with generation(episode_id)\<close> around a body.\<close>

definition generation :: "lock_env \<Rightarrow> int \<Rightarrow> string \<Rightarrow> (lock_state, 'a) eff \<Rightarrow> (lock_state, 'a) eff" where
  "generation env ep owner body =
     bindE (enter_generation env ep owner) (\<lambda>_ s.
     case body s of (r, t) \<Rightarrow> (case leave_generation ep owner t of (Inl e, u) \<Rightarrow> (Inl e, u) | (Inr _, u) \<Rightarrow> (r, u)))"

fun wait_generations_idle :: "int \<Rightarrow> (lock_state \<Rightarrow> lock_state) list \<Rightarrow> (lock_state, unit) eff" where
  "wait_generations_idle ep [] =
     bindE (lk_read (redis_smembers (gen_key ep))) (\<lambda>members.
     ensure (members = []) (AppError ''CANVAS_EPISODE_BUSY'' ''canvas episode generation still in flight''))"
| "wait_generations_idle ep (others # rest) =
     bindE (lk_read (redis_smembers (gen_key ep))) (\<lambda>members.
     if members = [] then ret () else bindE (modify others) (\<lambda>_. wait_generations_idle ep rest))"

section \<open>The lock of a session's turn\<close>

definition turn_key :: "int \<Rightarrow> string" where
  "turn_key session = ''canvas:session_turn_lock:'' @ int_str session"

definition session_busy :: "int \<Rightarrow> exc" where
  "session_busy session = AppError ''CANVAS_SESSION_BUSY'' (''canvas session '' @ int_str session @ '' is busy'')"

definition turn_acquire :: "lock_env \<Rightarrow> int \<Rightarrow> string \<Rightarrow> bool \<Rightarrow> (lock_state, unit) eff" where
  "turn_acquire env session turn with_cancel =
     bindE (lk_run (redis_set_nx (turn_key session) turn (le_lock_ttl env))) (\<lambda>ok.
     bindE (ensure ok (session_busy session)) (\<lambda>_.
     if with_cancel
     then modify (\<lambda>s. s\<lparr>lk_active := AList.update session turn (lk_active s)\<rparr>)
     else ret ()))"

definition turn_refresh :: "lock_env \<Rightarrow> int \<Rightarrow> string \<Rightarrow> (lock_state, bool) eff" where
  "turn_refresh env session turn = lk_run (refresh_script (turn_key session) turn (le_lock_ttl env))"

text \<open>The local entry of the turn is removed and its completion signalled.\<close>

definition forget_turn :: "int \<Rightarrow> string \<Rightarrow> lock_state \<Rightarrow> lock_state" where
  "forget_turn session turn s =
     (if map_of (lk_active s) session = Some turn
      then s\<lparr>lk_active := AList.delete session (lk_active s), lk_completed := lk_completed s @ [turn]\<rparr> else s)"

definition turn_release :: "int \<Rightarrow> string \<Rightarrow> (lock_state, bool) eff" where
  "turn_release session turn =
     bindE (lk_run (release_script (turn_key session) turn)) (\<lambda>released.
     bindE (modify (forget_turn session turn)) (\<lambda>_. ret released))"

definition active_turn :: "int \<Rightarrow> (lock_state, string option) eff" where
  "active_turn session = lk_read (redis_get (turn_key session))"

definition force_release :: "int \<Rightarrow> (lock_state, string option) eff" where
  "force_release session =
     bindE (active_turn session) (\<lambda>active.
     case active of
       None \<Rightarrow> ret None
     | Some [] \<Rightarrow> ret (Some [])
     | Some t \<Rightarrow>
         bindE (lk_write (redis_del (turn_key session))) (\<lambda>_.
         bindE (modify (forget_turn session t)) (\<lambda>_. ret (Some t))))"

fun wait_until_released :: "int \<Rightarrow> string \<Rightarrow> (lock_state \<Rightarrow> lock_state) list \<Rightarrow> (lock_state, bool) eff" where
  "wait_until_released session turn [] =
     bindE (active_turn session) (\<lambda>a. ret (a \<noteq> Some turn))"
| "wait_until_released session turn (others # rest) =
     bindE (active_turn session) (\<lambda>a.
     if a \<noteq> Some turn then ret True else bindE (modify others) (\<lambda>_. wait_until_released session turn rest))"

fun wait_completed :: "string \<Rightarrow> (lock_state \<Rightarrow> lock_state) list \<Rightarrow> (lock_state, bool) eff" where
  "wait_completed turn [] = gets (\<lambda>s. turn \<in> set (lk_completed s))"
| "wait_completed turn (others # rest) =
     bindE (gets (\<lambda>s. turn \<in> set (lk_completed s))) (\<lambda>fin.
     if fin then ret True else bindE (modify others) (\<lambda>_. wait_completed turn rest))"

definition cancel_and_wait :: "int \<Rightarrow> (lock_state \<Rightarrow> lock_state) list \<Rightarrow> (lock_state, string option) eff" where
  "cancel_and_wait session polls =
     bindE (active_turn session) (\<lambda>active.
     case active of
       None \<Rightarrow> ret None
     | Some turn \<Rightarrow>
         bindE (gets (\<lambda>s. map_of (lk_active s) session = Some turn)) (\<lambda>here.
         bindE (if here
                then bindE (modify (\<lambda>s. s\<lparr>lk_cancel := lk_cancel s @ [turn]\<rparr>)) (\<lambda>_. wait_completed turn polls)
                else wait_until_released session turn polls) (\<lambda>ok.
         if ok then ret (Some turn)
         else
           bindE (force_release session) (\<lambda>_.
           raise (AppError ''TASK_CANCEL_FAILED'' ''canvas session turn cancellation cleanup timed out'')))))"

end
