(* ===== verification/Replay_Stream.thy ===== *)
theory Replay_Stream
  imports Replay_Log Episode_Fence
begin

text \<open>
  Readers and writers of the replay log: \<open>stream_replay\<close>, which serves a client from a cursor,
  \<open>ReplayFramePublisher\<close>, which joins answer tokens into larger frames
  (\<open>agent/runtime/stream/replay.py\<close>), the text of server-sent events
  (\<open>agent/runtime/stream/encoder.py\<close>), and the execution of a turn detached from the connection
  (\<open>agent/canvas/turn/replay_execution.py\<close>).
\<close>

section \<open>Server-sent events\<close>

definition newline :: string where "newline = [char_of (10 :: nat)]"

definition encode_sse_frame :: "replay_env \<Rightarrow> stream_frame \<Rightarrow> string" where
  "encode_sse_frame env frame = ''data: '' @ json_text False '', '' '': '' (re_dump env frame) @ newline @ newline"

text \<open>\<open>str.splitlines()\<close> on UTF-8: the line boundaries are \<open>LF\<close>, \<open>VT\<close>, \<open>FF\<close>, \<open>CR\<close>, \<open>CR LF\<close>, \<open>FS\<close>, \<open>GS\<close>, \<open>RS\<close>,
  \<open>U+0085\<close>, \<open>U+2028\<close> and \<open>U+2029\<close>.\<close>

definition bytes_of :: "nat list \<Rightarrow> string" where
  "bytes_of ns = map char_of ns"

definition break_at :: "string \<Rightarrow> nat" where
  "break_at s =
     (if prefix (bytes_of [13, 10]) s then 2
      else if list_ex (\<lambda>n. prefix (bytes_of [n]) s) [10, 11, 12, 13, 28, 29, 30] then 1
      else if prefix (bytes_of [194, 133]) s then 2
      else if prefix (bytes_of [226, 128, 168]) s \<or> prefix (bytes_of [226, 128, 169]) s then 3
      else 0)"

function splitlines_from :: "string \<Rightarrow> string \<Rightarrow> string list" where
  "splitlines_from acc [] = (if acc = [] then [] else [acc])"
| "splitlines_from acc (c # s) =
     (let n = break_at (c # s) in
      if n = 0 then splitlines_from (acc @ [c]) s else acc # splitlines_from [] (drop (n - 1) s))"
  by pat_completeness auto
termination by (relation "measure (\<lambda>(acc, s). length s)") auto

definition splitlines :: "string \<Rightarrow> string list" where
  "splitlines s = splitlines_from [] s"

definition data_value :: "string \<Rightarrow> string" where
  "data_value line = (let v = drop 5 line in if prefix '' '' v then drop 1 v else v)"

definition sse_data :: "string \<Rightarrow> string list" where
  "sse_data chunk = map data_value (filter (prefix ''data:'') (splitlines chunk))"

definition decode_encoded_sse_frame :: "replay_env \<Rightarrow> string \<Rightarrow> stream_frame res" where
  "decode_encoded_sse_frame env chunk =
     (let parts = sse_data chunk in
      if parts = [] then Inl (ValueError ''encoded SSE chunk has no data field'')
      else bindR (re_loads env (join_with newline parts)) (re_validate env))"

section \<open>Subscribers\<close>

record replay_session =
  rs_db :: replay_db
  rs_cursor :: string
  rs_out :: "string list"

definition lift_db :: "(replay_db, 'a) eff \<Rightarrow> (replay_session, 'a) eff" where
  "lift_db m s = (case m (rs_db s) of (r, d) \<Rightarrow> (r, s\<lparr>rs_db := d\<rparr>))"

definition yield_chunk :: "string \<Rightarrow> (replay_session, unit) eff" where
  "yield_chunk c = modify (\<lambda>s. s\<lparr>rs_out := rs_out s @ [c]\<rparr>)"

definition event_chunk :: "string \<times> string \<Rightarrow> string" where
  "event_chunk e = ''id: '' @ fst e @ newline @ ''data: '' @ snd e @ newline @ newline"

fun deliver :: "(string \<times> string) list \<Rightarrow> (replay_session, unit) eff" where
  "deliver [] = ret ()"
| "deliver (e # es) =
     bindE (modify (\<lambda>s. s\<lparr>rs_cursor := fst e\<rparr>)) (\<lambda>_. bindE (yield_chunk (event_chunk e)) (\<lambda>_. deliver es))"

text \<open>How the blocking read of an iteration ends.\<close>

datatype read_outcome = ReadReturns | ReadTimesOut | ReadBreaks string

definition read_entries :: "string \<Rightarrow> read_outcome \<Rightarrow> string \<Rightarrow> (replay_session, (string \<times> string) list) eff" where
  "read_entries rid io cursor =
     (case io of
        ReadReturns \<Rightarrow> lift_db (read_after rid cursor)
      | ReadTimesOut \<Rightarrow> ret []
      | ReadBreaks m \<Rightarrow> raise (RedisConnectionError m))"

definition heartbeat :: "replay_env \<Rightarrow> replay_meta \<Rightarrow> (replay_session, unit) eff" where
  "heartbeat env meta =
     bindE (lift_db rp_now) (\<lambda>now.
     yield_chunk (encode_sse_frame env (HeartbeatFrame 2 (now div 1000000) (Some (rm_turn_id meta)) no_speaker)))"

text \<open>An active log without a lease.\<close>

definition active_without_lease :: "string \<Rightarrow> replay_meta \<Rightarrow> (replay_db, bool) eff" where
  "active_without_lease rid current =
     (if rm_status current = RS_STARTING \<or> rm_status current = RS_RUNNING
      then bindE (has_lease rid) (\<lambda>l. ret (\<not> l)) else ret False)"

text \<open>An active log without a lease is marked as lost when it was running or has not started in time.\<close>

definition lost_part :: "replay_env \<Rightarrow> replay_meta \<Rightarrow> string option \<Rightarrow> string option \<Rightarrow> replay_meta \<Rightarrow> (replay_session, bool) eff" where
  "lost_part env meta lock owner current =
     bindE (liftR (re_uniso env (rm_created_at current))) (\<lambda>created.
     bindE (lift_db rp_now) (\<lambda>now.
     if rm_status current = RS_RUNNING \<or> re_lease_ttl env * 1000000 \<le> now - created
     then bindE (lift_db (mark_execution_lost env (rm_request_id meta) lock owner)) (\<lambda>_. ret False)
     else bindE (heartbeat env meta) (\<lambda>_. ret False)))"

text \<open>The part of an iteration after a read without entries.\<close>

definition idle_part :: "replay_env \<Rightarrow> replay_meta \<Rightarrow> string option \<Rightarrow> string option \<Rightarrow> string \<Rightarrow> (replay_session, bool) eff" where
  "idle_part env meta lock owner cursor =
     bindE (lift_db (require_replay_meta (rm_request_id meta))) (\<lambda>current.
     if meta_closed current \<and> (rm_last_event_id current = None \<or> rm_last_event_id current = Some cursor) then ret True
     else
       bindE (lift_db (active_without_lease (rm_request_id meta) current)) (\<lambda>lost.
       if lost then lost_part env meta lock owner current
       else bindE (heartbeat env meta) (\<lambda>_. ret False)))"

text \<open>The part after a read with entries.\<close>

definition entries_part :: "replay_meta \<Rightarrow> (string \<times> string) list \<Rightarrow> (replay_session, bool) eff" where
  "entries_part meta entries =
     bindE (deliver entries) (\<lambda>_.
     bindE (lift_db (require_replay_meta (rm_request_id meta))) (\<lambda>current.
     bindE (gets rs_cursor) (\<lambda>c.
     ret (meta_closed current \<and> rm_last_event_id current = Some c))))"

text \<open>One iteration of the loop; the result says whether the generator returns.\<close>

definition replay_iteration ::
  "replay_env \<Rightarrow> replay_meta \<Rightarrow> string option \<Rightarrow> string option \<Rightarrow> read_outcome \<Rightarrow> (replay_session, bool) eff" where
  "replay_iteration env meta lock owner io =
     bindE (gets rs_cursor) (\<lambda>cursor.
     bindE (read_entries (rm_request_id meta) io cursor) (\<lambda>entries.
     if entries \<noteq> [] then entries_part meta entries else idle_part env meta lock owner cursor))"

fun replay_loop ::
  "replay_env \<Rightarrow> replay_meta \<Rightarrow> string option \<Rightarrow> string option \<Rightarrow> read_outcome list \<Rightarrow> (replay_session, bool) eff" where
  "replay_loop env meta lock owner [] = ret False"
| "replay_loop env meta lock owner (io # ios) =
     bindE (replay_iteration env meta lock owner io) (\<lambda>fin. if fin then ret True else replay_loop env meta lock owner ios)"

text \<open>The list of read outcomes bounds the iterations; the result is \<open>True\<close> when the generator returned.\<close>

definition stream_replay ::
  "replay_env \<Rightarrow> replay_meta \<Rightarrow> string option \<Rightarrow> string option \<Rightarrow> string option \<Rightarrow> read_outcome list \<Rightarrow> (replay_session, bool) eff" where
  "stream_replay env meta last_event_id lock owner ios =
     bindE (liftR (validate_replay_cursor meta last_event_id)) (\<lambda>cursor.
     bindE (modify (\<lambda>s. s\<lparr>rs_cursor := cursor\<rparr>)) (\<lambda>_.
     bindE (lift_db register_subscriber) (\<lambda>_.
     finallyE (replay_loop env meta lock owner ios) (lift_db unregister_subscriber))))"

section \<open>The publisher\<close>

record publisher =
  pb_parts :: "string list"
  pb_chars :: nat
  pb_version :: int
  pb_flush_task :: bool
  pb_flush_error :: "exc option"
  pb_terminal :: "replay_status option"
  pb_saw_pending :: bool

record publisher_state =
  ps_db :: replay_db
  ps_pub :: publisher

definition publisher_init :: "replay_env \<Rightarrow> publisher" where
  "publisher_init env = \<lparr> pb_parts = [], pb_chars = 0, pb_version = re_protocol env, pb_flush_task = False,
     pb_flush_error = None, pb_terminal = None, pb_saw_pending = False \<rparr>"

definition via_store :: "(replay_db, 'a) eff \<Rightarrow> (publisher_state, 'a) eff" where
  "via_store m s = (case m (ps_db s) of (r, d) \<Rightarrow> (r, s\<lparr>ps_db := d\<rparr>))"

definition on_pub :: "(publisher \<Rightarrow> publisher) \<Rightarrow> (publisher_state, unit) eff" where
  "on_pub f = modify (\<lambda>s. s\<lparr>ps_pub := f (ps_pub s)\<rparr>)"

text \<open>\<open>len(text)\<close> counts code points.\<close>

definition py_len :: "string \<Rightarrow> nat" where
  "py_len t = length (filter (\<lambda>c. \<not> (128 \<le> (of_char c :: nat) \<and> (of_char c :: nat) < 192)) t)"

definition flush_locked :: "replay_env \<Rightarrow> string \<Rightarrow> (publisher_state, unit) eff" where
  "flush_locked env rid =
     bindE (on_pub (\<lambda>p. p\<lparr>pb_flush_task := False\<rparr>)) (\<lambda>_.
     bindE (gets ps_pub) (\<lambda>p.
     if pb_parts p = [] then ret ()
     else
       bindE (on_pub (\<lambda>p. p\<lparr>pb_parts := [], pb_chars := 0\<rparr>)) (\<lambda>_.
       bindE (via_store (append_frame env rid (TokenFrame (pb_version p) ANSWER (concat (pb_parts p)) no_speaker) False None)) (\<lambda>_.
       ret ()))))"

definition raise_flush_error :: "(publisher_state, unit) eff" where
  "raise_flush_error =
     bindE (gets ps_pub) (\<lambda>p.
     case pb_flush_error p of
       None \<Rightarrow> ret ()
     | Some e \<Rightarrow> bindE (on_pub (\<lambda>p. p\<lparr>pb_flush_error := None\<rparr>)) (\<lambda>_. raise e))"

definition observe :: "stream_frame \<Rightarrow> publisher \<Rightarrow> publisher" where
  "observe frame p =
     (if frame_type frame \<in> {FT_TOOL_PENDING, FT_USER_GATE_REQUIRED, FT_UPGRADE_INVITE_PROPOSED} then p\<lparr>pb_saw_pending := True\<rparr>
      else if frame_type frame = FT_DONE \<and> pb_terminal p = None then p\<lparr>pb_terminal := Some RS_COMPLETED\<rparr>
      else if frame_type frame = FT_ERROR then p\<lparr>pb_terminal := Some RS_FAILED\<rparr>
      else if frame_type frame = FT_CANCELLED \<and> pb_terminal p = None then p\<lparr>pb_terminal := Some RS_CANCELLED\<rparr>
      else p)"

definition terminal_status_for :: "stream_frame \<Rightarrow> publisher \<Rightarrow> replay_status option" where
  "terminal_status_for frame p =
     (if frame_type frame = FT_ERROR then Some RS_FAILED
      else if frame_type frame = FT_CANCELLED then Some (case pb_terminal p of Some st \<Rightarrow> st | None \<Rightarrow> RS_CANCELLED)
      else if frame_type frame = FT_DONE then Some (case pb_terminal p of Some st \<Rightarrow> st | None \<Rightarrow> RS_COMPLETED)
      else None)"

definition publish_token :: "replay_env \<Rightarrow> string \<Rightarrow> int \<Rightarrow> string \<Rightarrow> (publisher_state, unit) eff" where
  "publish_token env rid version t =
     bindE (on_pub (\<lambda>p. p\<lparr>pb_parts := pb_parts p @ [t], pb_chars := pb_chars p + py_len t, pb_version := version\<rparr>)) (\<lambda>_.
     bindE (gets ps_pub) (\<lambda>p.
     if re_delta_max env \<le> pb_chars p then flush_locked env rid
     else on_pub (\<lambda>p. p\<lparr>pb_flush_task := True\<rparr>)))"

definition publish_other :: "replay_env \<Rightarrow> string \<Rightarrow> stream_frame \<Rightarrow> (publisher_state, unit) eff" where
  "publish_other env rid frame =
     bindE (flush_locked env rid) (\<lambda>_.
     bindE (gets ps_pub) (\<lambda>p.
     bindE (via_store (append_frame env rid frame False (terminal_status_for frame p))) (\<lambda>_.
     on_pub (observe frame))))"

definition publish :: "replay_env \<Rightarrow> string \<Rightarrow> stream_frame \<Rightarrow> (publisher_state, unit) eff" where
  "publish env rid frame =
     bindE raise_flush_error (\<lambda>_.
     bindE (gets ps_pub) (\<lambda>p.
     if pb_terminal p \<noteq> None then ret ()
     else case frame of
            TokenFrame version ANSWER t sk \<Rightarrow> publish_token env rid version t
          | _ \<Rightarrow> publish_other env rid frame))"

definition publisher_close :: "replay_env \<Rightarrow> string \<Rightarrow> (publisher_state, unit) eff" where
  "publisher_close env rid = bindE (flush_locked env rid) (\<lambda>_. raise_flush_error)"

definition is_limit :: "exc \<Rightarrow> bool" where
  "is_limit e = (case e of ReplayLogLimitExceeded _ \<Rightarrow> True | _ \<Rightarrow> False)"

definition append_failure :: "replay_env \<Rightarrow> string \<Rightarrow> string \<Rightarrow> stream_error_code \<Rightarrow> (publisher_state, unit) eff" where
  "append_failure env rid message code =
     bindE (catchE (flush_locked env rid)
              (\<lambda>e. if is_limit e then on_pub (\<lambda>p. p\<lparr>pb_parts := [], pb_chars := 0\<rparr>) else raise e)) (\<lambda>_.
     bindE (via_store (append_frame env rid (error_frame code message) True (Some RS_FAILED))) (\<lambda>_.
     on_pub (\<lambda>p. p\<lparr>pb_terminal := Some RS_FAILED\<rparr>)))"

text \<open>The timer of a pending flush fires.\<close>

definition flush_after_delay :: "replay_env \<Rightarrow> string \<Rightarrow> (publisher_state, unit) eff" where
  "flush_after_delay env rid =
     bindE (gets ps_pub) (\<lambda>p.
     if \<not> pb_flush_task p then ret ()
     else catchE (flush_locked env rid) (\<lambda>e. on_pub (\<lambda>p. p\<lparr>pb_flush_error := Some e\<rparr>)))"

section \<open>Executing a turn\<close>

text \<open>What the stream of the turn does next, as the loop sees it: a chunk with whether the lease was lost
  before it, the timer of a pending flush; and how it ends.\<close>

datatype turn_event = TurnChunk bool string | FlushTimer

datatype turn_end = StreamEnds bool | StreamRaises exc | StreamCancelled

definition lease_lost :: exc where
  "lease_lost = ExecutionLeaseLost ''stream execution lease was lost''"

fun consume :: "replay_env \<Rightarrow> string \<Rightarrow> turn_event list \<Rightarrow> (publisher_state, unit) eff" where
  "consume env rid [] = ret ()"
| "consume env rid (FlushTimer # es) = bindE (flush_after_delay env rid) (\<lambda>_. consume env rid es)"
| "consume env rid (TurnChunk lost chunk # es) =
     bindE (ensure (\<not> lost) lease_lost) (\<lambda>_.
     bindE (liftR (decode_encoded_sse_frame env chunk)) (\<lambda>frame.
     bindE (if frame_type frame = FT_HEARTBEAT then ret () else publish env rid frame) (\<lambda>_.
     consume env rid es)))"

definition turn_status :: "replay_env \<Rightarrow> string \<Rightarrow> (publisher_state, replay_status) eff" where
  "turn_status env rid =
     bindE (publisher_close env rid) (\<lambda>_.
     bindE (gets ps_pub) (\<lambda>p.
     case pb_terminal p of
       Some st \<Rightarrow> ret st
     | None \<Rightarrow>
         if pb_saw_pending p then ret RS_INTERRUPTED
         else bindE (append_failure env rid ''Agent stream ended without a terminal frame'' INTERNAL) (\<lambda>_. ret RS_FAILED)))"

definition turn_body :: "replay_env \<Rightarrow> string \<Rightarrow> string \<Rightarrow> turn_event list \<Rightarrow> turn_end \<Rightarrow> (publisher_state, replay_status) eff" where
  "turn_body env rid owner es fin =
     bindE (via_store (set_running env rid owner)) (\<lambda>_.
     bindE (consume env rid es) (\<lambda>_.
     case fin of
       StreamEnds lost \<Rightarrow> bindE (ensure (\<not> lost) lease_lost) (\<lambda>_. turn_status env rid)
     | StreamRaises e \<Rightarrow> raise e
     | StreamCancelled \<Rightarrow> raise CancelledError))"

text \<open>The handlers. All of them leave \<open>final_status\<close> at \<open>FAILED\<close>; \<open>CancelledError\<close> is raised again after
  its frame.\<close>

fun turn_handler :: "replay_env \<Rightarrow> string \<Rightarrow> exc \<Rightarrow> (publisher_state, unit) eff" where
  "turn_handler env rid (ReplayLogLimitExceeded m) =
     append_failure env rid ''SSE replay log exceeded the configured size limit'' INTERNAL"
| "turn_handler env rid (ExecutionLeaseLost m) = append_failure env rid ''Agent execution was lost'' EXECUTION_LOST"
| "turn_handler env rid (ReplayExecutionClosed m) = ret ()"
| "turn_handler env rid CancelledError =
     bindE (catchE (append_failure env rid ''Agent execution was lost'' EXECUTION_LOST) (\<lambda>_. ret ())) (\<lambda>_. raise CancelledError)"
| "turn_handler env rid e = append_failure env rid (exc_str e) INTERNAL"

definition turn_cleanup :: "replay_env \<Rightarrow> string \<Rightarrow> int \<Rightarrow> string \<Rightarrow> replay_status \<Rightarrow> (publisher_state, unit) eff" where
  "turn_cleanup env rid session turn status =
     bindE (via_store (finish env rid status)) (\<lambda>_.
     bindE (via_store (clear_cancel session turn)) (\<lambda>_.
     bindE (via_store (on_redis (release_script (turn_key session) turn))) (\<lambda>_. ret ())))"

definition run_canvas_replay_execution ::
  "replay_env \<Rightarrow> string \<Rightarrow> int \<Rightarrow> string \<Rightarrow> string \<Rightarrow> turn_event list \<Rightarrow> turn_end \<Rightarrow> (publisher_state, unit) eff" where
  "run_canvas_replay_execution env rid session turn owner es fin s =
     (case turn_body env rid owner es fin (s\<lparr>ps_pub := publisher_init env\<rparr>) of
        (Inr st, t) \<Rightarrow> turn_cleanup env rid session turn st t
      | (Inl e, t) \<Rightarrow> finallyE (turn_handler env rid e) (turn_cleanup env rid session turn RS_FAILED) t)"

end
