(* ===== verification/Replay_Properties.thy ===== *)
theory Replay_Properties
  imports Replay_Stream
begin

text \<open>
  Properties of the replay log: it is consistent under every interleaving of its scripts, a closed log
  is final, subscribers see every event once, and a turn always closes its log.
\<close>

section \<open>Dictionaries and keys\<close>

lemma dict_get_delete: "dict_get (AList.delete k d) j = (if j = k then None else dict_get d j)"
  by (simp add: delete_conv')

lemma keys_differ:
  "meta_key r \<noteq> events_key q" "meta_key r \<noteq> lease_key q" "events_key r \<noteq> lease_key q"
  "events_key q \<noteq> meta_key r" "lease_key q \<noteq> meta_key r" "lease_key q \<noteq> events_key r"
proof -
  have "last (meta_key r) = CHR ''a''" "last (events_key q) = CHR ''s''" "last (lease_key q) = CHR ''e''" "last (events_key r) = CHR ''s''"
    by (simp_all add: meta_key_def events_key_def lease_key_def)
  then show "meta_key r \<noteq> events_key q" "meta_key r \<noteq> lease_key q" "events_key r \<noteq> lease_key q"
    "events_key q \<noteq> meta_key r" "lease_key q \<noteq> meta_key r" "lease_key q \<noteq> events_key r" by auto
qed

lemma lock_keys_differ: "turn_key i \<noteq> lease_key q" "turn_key i \<noteq> meta_key q" "turn_key i \<noteq> events_key q"
  "cancel_key i u \<noteq> lease_key q" "cancel_key i u \<noteq> meta_key q" "cancel_key i u \<noteq> events_key q"
  "lease_key q \<noteq> turn_key i" "meta_key q \<noteq> turn_key i" "events_key q \<noteq> turn_key i"
  "lease_key q \<noteq> cancel_key i u" "meta_key q \<noteq> cancel_key i u" "events_key q \<noteq> cancel_key i u"
  by (simp_all add: turn_key_def lease_key_def meta_key_def events_key_def cancel_key_def)

lemma redis_del_get:
  "dict_get (rd_hashes (redis_del k s)) j = (if j = k then None else dict_get (rd_hashes s) j)"
  "dict_get (rd_streams (redis_del k s)) j = (if j = k then None else dict_get (rd_streams s) j)"
  "dict_get (rd_strings (redis_del k s)) j = (if j = k then None else dict_get (rd_strings s) j)"
  by (simp_all add: redis_del_def dict_get_delete)

lemma redis_expire_frame [simp]:
  "rd_hashes (redis_expire k ttl s) = rd_hashes s" "rd_streams (redis_expire k ttl s) = rd_streams s"
  "rd_strings (redis_expire k ttl s) = rd_strings s" "rd_sets (redis_expire k ttl s) = rd_sets s"
  "rd_millis (redis_expire k ttl s) = rd_millis s"
  by (simp_all add: redis_expire_def)

lemma redis_hset_frame [simp]:
  "rd_streams (redis_hset k fvs s) = rd_streams s" "rd_strings (redis_hset k fvs s) = rd_strings s"
  "rd_sets (redis_hset k fvs s) = rd_sets s" "rd_millis (redis_hset k fvs s) = rd_millis s"
  by (simp_all add: redis_hset_def)

lemma redis_xadd_frame [simp]:
  "rd_hashes (snd (redis_xadd k fvs s)) = rd_hashes s" "rd_strings (snd (redis_xadd k fvs s)) = rd_strings s"
  by (simp_all add: redis_xadd_def Let_def)

lemma fold_dict_set: "dict_get (fold (\<lambda>(f, v) h. dict_set h f v) fvs h) k = (case map_of (rev fvs) k of None \<Rightarrow> dict_get h k | Some v \<Rightarrow> Some v)"
  by (induction fvs arbitrary: h) (auto simp: update_conv' map_add_def split: option.splits prod.splits)

lemma hget_hset:
  "redis_hget k f (redis_hset j fvs s) =
     (if k = j then (case map_of (rev fvs) f of None \<Rightarrow> redis_hget k f s | Some v \<Rightarrow> Some v) else redis_hget k f s)"
  by (auto simp: redis_hget_def redis_hgetall_def redis_hset_def update_conv' fold_dict_set split: option.split)

lemma hget_cong: "rd_hashes t = rd_hashes s \<Longrightarrow> redis_hget k f t = redis_hget k f s"
  by (simp add: redis_hget_def redis_hgetall_def)

lemma entries_cong: "rd_streams t = rd_streams s \<Longrightarrow> redis_entries k t = redis_entries k s"
  by (simp add: redis_entries_def)

lemma entries_xadd:
  "redis_entries j (snd (redis_xadd k fvs s)) =
     (if j = k then redis_entries k s @ [(next_id (rd_millis s 0) (redis_entries k s), fvs)] else redis_entries j s)"
  "fst (redis_xadd k fvs s) = id_text (next_id (rd_millis s 0) (redis_entries k s))"
  by (simp_all add: redis_xadd_def redis_entries_def Let_def update_conv')

section \<open>Consistent logs\<close>

definition meta_status :: "string \<Rightarrow> redis \<Rightarrow> string option" where
  "meta_status rid s = redis_hget (meta_key rid) ''status'' s"

definition log_events :: "string \<Rightarrow> redis \<Rightarrow> (stream_id \<times> string dict) list" where
  "log_events rid s = redis_entries (events_key rid) s"

definition log_bytes :: "(stream_id \<times> string dict) list \<Rightarrow> nat" where
  "log_bytes es = sum_list (map (\<lambda>(i, fvs). case dict_get fvs ''frame'' of None \<Rightarrow> 0 | Some f \<Rightarrow> length f) es)"

definition status_text :: "string option \<Rightarrow> bool" where
  "status_text v \<longleftrightarrow> (\<exists>st. v = Some (replay_status_value st))"

definition closed_text :: "string option \<Rightarrow> bool" where
  "closed_text v \<longleftrightarrow> (\<exists>st\<in>CLOSED_STATUSES. v = Some (replay_status_value st))"

definition log_ok :: "string \<Rightarrow> redis \<Rightarrow> bool" where
  "log_ok rid s \<longleftrightarrow> (dict_get (rd_hashes s) (meta_key rid) \<noteq> None \<longrightarrow>
     status_text (meta_status rid s)
     \<and> increasing (map fst (log_events rid s))
     \<and> list_all (\<lambda>e. \<exists>f. snd e = [(''frame'', f)]) (log_events rid s)
     \<and> redis_hget (meta_key rid) ''last_event_id'' s =
         (if log_events rid s = [] then None else Some (id_text (fst (last (log_events rid s)))))
     \<and> bytes_written (meta_key rid) s = log_bytes (log_events rid s)
     \<and> (dict_get (rd_strings s) (lease_key rid) \<noteq> None \<longrightarrow> meta_status rid s = Some ''running''))"

text \<open>Steps of the world as seen by one request: its scripts, the expiry of its lease, and everything that
  leaves its keys alone. The keys of the log itself stay.\<close>

definition foreign :: "string \<Rightarrow> redis \<Rightarrow> redis \<Rightarrow> bool" where
  "foreign rid s t \<longleftrightarrow> dict_get (rd_hashes t) (meta_key rid) = dict_get (rd_hashes s) (meta_key rid)
     \<and> dict_get (rd_streams t) (events_key rid) = dict_get (rd_streams s) (events_key rid)
     \<and> dict_get (rd_strings t) (lease_key rid) = dict_get (rd_strings s) (lease_key rid)"

inductive log_step :: "string \<Rightarrow> redis \<Rightarrow> redis \<Rightarrow> bool" for rid where
  claim: "t = snd (claim_script (meta_key rid) (events_key rid) (lease_key rid)
      (claim_fields rid user session turn kind fp created) ttl s) \<Longrightarrow> log_step rid s t"
| running: "t = snd (set_running_script (meta_key rid) (lease_key rid) owner ttl s) \<Longrightarrow> log_step rid s t"
| append: "t = snd (append_script (meta_key rid) (events_key rid) (lease_key rid) payload (length payload) maximum force
      (case cs of None \<Rightarrow> [] | Some st \<Rightarrow> replay_status_value st) finished ttl ttl' s) \<Longrightarrow>
    (\<And>st. cs = Some st \<Longrightarrow> st \<in> CLOSED_STATUSES) \<Longrightarrow> log_step rid s t"
| finish: "t = snd (finish_script (meta_key rid) (events_key rid) (lease_key rid) (replay_status_value st) finished ttl ttl' s) \<Longrightarrow>
    st \<in> CLOSED_STATUSES \<Longrightarrow> log_step rid s t"
| refresh: "t = snd (refresh_lease_script (lease_key rid) owner ttl s) \<Longrightarrow> log_step rid s t"
| lost: "t = snd (mark_lost_script (meta_key rid) (events_key rid) (lease_key rid) (map_option turn_key lock) payload
      (length payload) finished ttl ttl' owner s) \<Longrightarrow> log_step rid s t"
| lease_expires: "t = redis_evict (lease_key rid) s \<Longrightarrow> log_step rid s t"
| other: "foreign rid s t \<Longrightarrow> log_step rid s t"

inductive log_steps :: "string \<Rightarrow> redis \<Rightarrow> redis \<Rightarrow> bool" for rid where
  stop: "log_steps rid s s"
| step: "log_step rid s t \<Longrightarrow> log_steps rid t u \<Longrightarrow> log_steps rid s u"

text \<open>What the log of a request is made of.\<close>

definition same_log :: "string \<Rightarrow> redis \<Rightarrow> redis \<Rightarrow> bool" where
  "same_log rid s t \<longleftrightarrow> dict_get (rd_hashes t) (meta_key rid) = dict_get (rd_hashes s) (meta_key rid)
     \<and> dict_get (rd_streams t) (events_key rid) = dict_get (rd_streams s) (events_key rid)"

lemma same_log_hget: "same_log rid s t \<Longrightarrow> redis_hget (meta_key rid) f t = redis_hget (meta_key rid) f s"
  by (simp add: same_log_def redis_hget_def redis_hgetall_def)

lemma same_log_facts:
  assumes "same_log rid s t"
  shows "meta_status rid t = meta_status rid s" "log_events rid t = log_events rid s"
    "bytes_written (meta_key rid) t = bytes_written (meta_key rid) s"
  using assms same_log_hget [OF assms] by (simp_all add: meta_status_def log_events_def redis_entries_def same_log_def bytes_written_def)

lemma same_log_ok:
  assumes "same_log rid s t" "log_ok rid s"
    and "dict_get (rd_strings t) (lease_key rid) \<noteq> None \<Longrightarrow> dict_get (rd_strings s) (lease_key rid) \<noteq> None \<or> meta_status rid s = Some ''running''"
  shows "log_ok rid t"
  using assms same_log_facts [OF assms(1)] same_log_hget [OF assms(1)] unfolding log_ok_def same_log_def by auto

lemma log_okI:
  assumes "status_text (meta_status rid s)" "increasing (map fst (log_events rid s))"
    "list_all (\<lambda>e. \<exists>f. snd e = [(''frame'', f)]) (log_events rid s)"
    "redis_hget (meta_key rid) ''last_event_id'' s = (if log_events rid s = [] then None else Some (id_text (fst (last (log_events rid s)))))"
    "bytes_written (meta_key rid) s = log_bytes (log_events rid s)"
    "dict_get (rd_strings s) (lease_key rid) \<noteq> None \<Longrightarrow> meta_status rid s = Some ''running''"
  shows "log_ok rid s"
  using assms by (simp add: log_ok_def)

section \<open>Scripts keep a log consistent\<close>

lemma log_bytes_append: "log_bytes (es @ [(i, [(''frame'', f)])]) = log_bytes es + length f"
  by (simp add: log_bytes_def)

lemma status_text_value: "status_text (Some (replay_status_value st))"
  by (auto simp: status_text_def)

lemma status_text_simps [simp]: "status_text (Some ''starting'')" "status_text (Some ''running'')" "status_text (Some ''failed'')"
  using status_text_value [of RS_STARTING] status_text_value [of RS_RUNNING] status_text_value [of RS_FAILED] by simp_all

lemma closed_not_active: "closed_text v \<Longrightarrow> \<not> active_text v"
  by (auto simp: closed_text_def active_text_def CLOSED_STATUSES_def)

lemma active_or_closed: "status_text v \<Longrightarrow> active_text v \<or> closed_text v"
proof -
  assume "status_text v"
  then obtain st where "v = Some (replay_status_value st)" by (auto simp: status_text_def)
  then show ?thesis by (cases st) (auto simp: active_text_def closed_text_def CLOSED_STATUSES_def)
qed

lemma exists_meta: "active_text (redis_hget k ''status'' s) \<Longrightarrow> dict_get (rd_hashes s) k \<noteq> None"
  by (auto simp: active_text_def redis_hget_def redis_hgetall_def split: option.splits)

text \<open>Adding an entry and writing the fields that describe it.\<close>

lemma append_entry_ok:
  assumes ok: "log_ok rid s" and meta: "dict_get (rd_hashes s) (meta_key rid) \<noteq> None"
    and x: "redis_xadd (events_key rid) [(''frame'', payload)] s = (i, t)"
    and u: "redis_entries (events_key rid) u = redis_entries (events_key rid) t"
      "redis_hget (meta_key rid) ''last_event_id'' u = Some i"
      "redis_hget (meta_key rid) ''bytes_written'' u = Some (nat_str (bytes_written (meta_key rid) s + length payload))"
    and st: "status_text (meta_status rid u)"
    and lease: "dict_get (rd_strings u) (lease_key rid) \<noteq> None \<Longrightarrow> meta_status rid u = Some ''running''"
  shows "log_ok rid u"
    "log_events rid u = log_events rid s @ [(next_id (rd_millis s 0) (log_events rid s), [(''frame'', payload)])]"
proof -
  let ?es = "log_events rid s"
  have t: "t = snd (redis_xadd (events_key rid) [(''frame'', payload)] s)" "i = fst (redis_xadd (events_key rid) [(''frame'', payload)] s)"
    using x by simp_all
  show ev: "log_events rid u = ?es @ [(next_id (rd_millis s 0) ?es, [(''frame'', payload)])]"
    using u(1) entries_xadd(1) [of "events_key rid" "events_key rid" "[(''frame'', payload)]" s]
    by (simp add: log_events_def t)
  have i: "i = id_text (next_id (rd_millis s 0) ?es)" using entries_xadd(2) t by (simp add: log_events_def)
  have s: "increasing (map fst ?es)" "list_all (\<lambda>e. \<exists>f. snd e = [(''frame'', f)]) ?es"
      "bytes_written (meta_key rid) s = log_bytes ?es"
    using ok meta by (simp_all add: log_ok_def)
  show "log_ok rid u"
  proof (rule log_okI [OF st])
    show "increasing (map fst (log_events rid u))" unfolding ev by (rule next_id_new [OF s(1)])
    show "list_all (\<lambda>e. \<exists>f. snd e = [(''frame'', f)]) (log_events rid u)" using s(2) by (simp add: ev)
    show "redis_hget (meta_key rid) ''last_event_id'' u = (if log_events rid u = [] then None else Some (id_text (fst (last (log_events rid u)))))"
      by (simp add: ev u(2) i)
    show "bytes_written (meta_key rid) u = log_bytes (log_events rid u)"
      by (simp add: ev log_bytes_append bytes_written_def u(3) decimal_nat_str s(3) [unfolded bytes_written_def])
  qed (rule lease)
qed

lemma claim_ok:
  assumes "log_ok rid s"
    "t = snd (claim_script (meta_key rid) (events_key rid) (lease_key rid) (claim_fields rid user session turn kind fp created) ttl s)"
  shows "log_ok rid t"
proof (cases "redis_exists (meta_key rid) s")
  case True
  with assms show ?thesis by (simp add: claim_script_def)
next
  case False
  then have no: "dict_get (rd_hashes s) (meta_key rid) = None" by (simp add: redis_exists_def)
  define u where "u = redis_hset (meta_key rid) (claim_fields rid user session turn kind fp created)
    (redis_del (lease_key rid) (redis_del (events_key rid) s))"
  have t: "t = redis_expire (meta_key rid) ttl u" using False assms(2) by (simp add: claim_script_def u_def)
  have h0: "redis_hget (meta_key rid) f (redis_del (lease_key rid) (redis_del (events_key rid) s)) = None" for f
    using no keys_differ by (simp add: redis_hget_def redis_hgetall_def redis_del_get)
  have h: "redis_hget (meta_key rid) f t = map_of (rev (claim_fields rid user session turn kind fp created)) f" for f
    using hget_cong [of t u] by (simp add: t) (simp add: u_def hget_hset h0 split: option.split)
  have e: "log_events rid t = []" using keys_differ by (simp add: log_events_def redis_entries_def t u_def redis_del_get)
  have l: "dict_get (rd_strings t) (lease_key rid) = None" by (simp add: t u_def redis_del_get)
  show ?thesis
    by (rule log_okI)
      (simp_all add: meta_status_def h e l bytes_written_def log_bytes_def claim_fields_def decimal_nat_def digits_nat_def digit_value_def)
qed

lemma hset_other_ok:
  assumes "log_ok rid s" "dict_get (rd_hashes s) (meta_key rid) \<noteq> None"
    and "rd_streams t = rd_streams s" "redis_hget (meta_key rid) ''last_event_id'' t = redis_hget (meta_key rid) ''last_event_id'' s"
    and "redis_hget (meta_key rid) ''bytes_written'' t = redis_hget (meta_key rid) ''bytes_written'' s"
    and "status_text (meta_status rid t)"
    and "dict_get (rd_strings t) (lease_key rid) \<noteq> None \<Longrightarrow> meta_status rid t = Some ''running''"
  shows "log_ok rid t"
proof -
  have "log_events rid t = log_events rid s" using entries_cong [OF assms(3)] by (simp add: log_events_def)
  moreover have "bytes_written (meta_key rid) t = bytes_written (meta_key rid) s" using assms(5) by (simp add: bytes_written_def)
  ultimately show ?thesis using assms by (auto simp: log_ok_def intro: log_okI)
qed

lemma running_ok:
  assumes "log_ok rid s" "t = snd (set_running_script (meta_key rid) (lease_key rid) owner ttl s)"
  shows "log_ok rid t"
proof (cases "meta_status rid s = Some ''starting'' \<and> \<not> redis_exists (lease_key rid) s")
  case False
  with assms show ?thesis by (auto simp: set_running_script_def redis_set_nx_def meta_status_def)
next
  case True
  define u where "u = redis_set_ex (lease_key rid) owner ttl s"
  have u: "rd_hashes u = rd_hashes s" "rd_streams u = rd_streams s" by (simp_all add: u_def redis_set_ex_def)
  have t: "t = redis_hset (meta_key rid) [(''status'', ''running'')] u"
    using True assms(2) by (simp add: set_running_script_def redis_set_nx_def meta_status_def u_def)
  have m: "dict_get (rd_hashes s) (meta_key rid) \<noteq> None" using True exists_meta [of "meta_key rid" s] by (simp add: active_text_def meta_status_def)
  show ?thesis
    by (rule hset_other_ok [OF assms(1) m]) (simp_all add: t hget_hset meta_status_def u hget_cong [OF u(1)])
qed

lemma append_ok:
  assumes ok: "log_ok rid s" and cs: "\<And>st. cs = Some st \<Longrightarrow> st \<in> CLOSED_STATUSES"
    and t: "t = snd (append_script (meta_key rid) (events_key rid) (lease_key rid) payload (length payload) maximum force
      (case cs of None \<Rightarrow> [] | Some st \<Rightarrow> replay_status_value st) finished ttl ttl' s)"
  shows "log_ok rid t"
proof (cases "redis_exists (meta_key rid) s \<and> active_text (redis_hget (meta_key rid) ''status'' s)
    \<and> (force \<or> bytes_written (meta_key rid) s + length payload \<le> maximum)")
  case False
  then have "t = s" using t by (auto simp: append_script_def)
  with ok show ?thesis by simp
next
  case True
  then have act: "active_text (redis_hget (meta_key rid) ''status'' s)" by simp
  obtain i x where x: "redis_xadd (events_key rid) [(''frame'', payload)] s = (i, x)" by fastforce
  have xs: "rd_hashes x = rd_hashes s" "rd_strings x = rd_strings s"
    using redis_xadd_frame [of "events_key rid" "[(''frame'', payload)]" s] by (simp_all add: x)
  define y where "y = redis_expire (events_key rid) ttl' (redis_expire (meta_key rid) ttl
    (redis_hset (meta_key rid) [(''last_event_id'', i), (''bytes_written'', nat_str (bytes_written (meta_key rid) s + length payload))] x))"
  have y: "rd_streams y = rd_streams x" "rd_strings y = rd_strings s"
    "redis_hget (meta_key rid) f y = (if f = ''last_event_id'' then Some i
       else if f = ''bytes_written'' then Some (nat_str (bytes_written (meta_key rid) s + length payload)) else redis_hget (meta_key rid) f s)" for f
    using hget_cong [of y "redis_hset (meta_key rid) [(''last_event_id'', i), (''bytes_written'', nat_str (bytes_written (meta_key rid) s + length payload))] x"]
      hget_cong [OF xs(1)] by (auto simp: y_def hget_hset xs)
  have run: "t = (case cs of None \<Rightarrow> y | Some st \<Rightarrow> redis_del (lease_key rid)
      (redis_hset (meta_key rid) [(''status'', replay_status_value st), (''finished_at'', finished)] y))"
    using True t x by (cases cs; cases "the cs") (simp_all add: append_script_def append_entry_def Let_def y_def, auto)
  show ?thesis
  proof (cases cs)
    case None
    show ?thesis
      by (rule append_entry_ok(1) [OF ok exists_meta [OF act] x])
        (use None run y act ok exists_meta [OF act] in \<open>auto simp: meta_status_def log_ok_def active_text_def redis_entries_def\<close>)
  next
    case (Some st)
    define z where "z = redis_hset (meta_key rid) [(''status'', replay_status_value st), (''finished_at'', finished)] y"
    have tz: "t = redis_del (lease_key rid) z" using run Some by (simp add: z_def)
    have hz: "redis_hget (meta_key rid) f t = redis_hget (meta_key rid) f z" for f
      using keys_differ by (simp add: tz redis_hget_def redis_hgetall_def redis_del_get)
    have sz: "redis_entries (events_key rid) t = redis_entries (events_key rid) z"
      using keys_differ by (simp add: tz redis_entries_def redis_del_get)
    show ?thesis
      by (rule append_entry_ok(1) [OF ok exists_meta [OF act] x])
        (use y hz sz tz in \<open>simp_all add: z_def hget_hset meta_status_def status_text_value redis_del_get entries_cong [OF y(1)] redis_entries_def\<close>)
  qed
qed

lemma same_log_trans_del:
  "same_log rid s (redis_del (lease_key rid) t) \<longleftrightarrow> same_log rid s t"
  "same_log rid s (redis_del (turn_key i) t) \<longleftrightarrow> same_log rid s t"
  "same_log rid s (redis_expire k ttl t) \<longleftrightarrow> same_log rid s t"
  using keys_differ lock_keys_differ by (auto simp: same_log_def redis_del_get)

lemma finish_closed_log:
  assumes "\<not> active_text (redis_hget (meta_key rid) ''status'' s)"
    "t = snd (finish_script (meta_key rid) (events_key rid) (lease_key rid) st finished ttl ttl' s)"
  shows "same_log rid s t"
  using assms by (simp add: finish_script_def Let_def same_log_trans_del) (simp add: same_log_def)

lemma finish_ok:
  assumes "log_ok rid s" "st \<in> CLOSED_STATUSES"
    "t = snd (finish_script (meta_key rid) (events_key rid) (lease_key rid) (replay_status_value st) finished ttl ttl' s)"
  shows "log_ok rid t"
proof (cases "active_text (redis_hget (meta_key rid) ''status'' s)")
  case False
  from finish_closed_log [OF False assms(3)] assms(1) show ?thesis
    by (rule same_log_ok) (use assms(3) in \<open>simp add: finish_script_def Let_def redis_del_get\<close>)
next
  case True
  define z where "z = redis_hset (meta_key rid) [(''status'', replay_status_value st), (''finished_at'', finished)] s"
  have tz: "same_log rid z t" using True assms(3) by (simp add: finish_script_def Let_def same_log_trans_del z_def [symmetric]) (simp add: same_log_def)
  have l: "dict_get (rd_strings t) (lease_key rid) = None" using assms(3) by (simp add: finish_script_def Let_def redis_del_get)
  have "redis_entries (events_key rid) t = redis_entries (events_key rid) s"
    using same_log_facts(2) [OF tz] by (simp add: log_events_def z_def redis_entries_def)
  moreover have "redis_hget (meta_key rid) f t = redis_hget (meta_key rid) f z" for f using same_log_hget [OF tz] .
  ultimately show ?thesis
    using assms(1) exists_meta [OF True] l
    by (intro log_okI) (auto simp: log_ok_def meta_status_def log_events_def bytes_written_def z_def hget_hset status_text_value)
qed

lemma lost_ok:
  assumes ok: "log_ok rid s"
    and t: "t = snd (mark_lost_script (meta_key rid) (events_key rid) (lease_key rid) (map_option turn_key lock) payload
      (length payload) finished ttl ttl' owner s)"
  shows "log_ok rid t"
proof (cases "active_text (redis_hget (meta_key rid) ''status'' s) \<and> \<not> redis_exists (lease_key rid) s")
  case False
  then have "t = s" using t by (auto simp: mark_lost_script_def)
  with ok show ?thesis by simp
next
  case True
  then have act: "active_text (redis_hget (meta_key rid) ''status'' s)" by simp
  obtain i x where x: "redis_xadd (events_key rid) [(''frame'', payload)] s = (i, x)" by fastforce
  have xs: "rd_hashes x = rd_hashes s" "rd_strings x = rd_strings s"
    using redis_xadd_frame [of "events_key rid" "[(''frame'', payload)]" s] by (simp_all add: x)
  define z where "z = redis_hset (meta_key rid) [(''last_event_id'', i), (''bytes_written'', nat_str (bytes_written (meta_key rid) s + length payload)),
    (''status'', ''failed''), (''finished_at'', finished)] x"
  have tz: "same_log rid z t"
  proof (cases lock)
    case None
    with True t x show ?thesis by (simp add: mark_lost_script_def Let_def same_log_trans_del z_def [symmetric]) (simp add: same_log_def)
  next
    case (Some k)
    with True t x show ?thesis
      by (simp add: mark_lost_script_def Let_def z_def [symmetric] same_log_trans_del) (simp add: same_log_def)
  qed
  have l: "dict_get (rd_strings t) (lease_key rid) = None"
    using True t x xs by (cases lock) (auto simp: mark_lost_script_def Let_def redis_exists_def redis_del_get)
  have h: "redis_hget (meta_key rid) f t = redis_hget (meta_key rid) f z" for f using same_log_hget [OF tz] .
  show ?thesis
    by (rule append_entry_ok(1) [OF ok exists_meta [OF act] x])
      (use same_log_facts(2) [OF tz] l in
        \<open>simp_all add: h meta_status_def log_events_def z_def hget_hset, simp add: redis_entries_def\<close>)
qed

lemma log_step_ok: "log_step rid s t \<Longrightarrow> log_ok rid s \<Longrightarrow> log_ok rid t"
proof (induction rule: log_step.induct)
  case (claim t user session turn kind fp created ttl s)
  then show ?case using claim_ok by blast
next
  case (running t owner ttl s)
  then show ?case using running_ok by blast
next
  case (append t payload maximum force cs finished ttl ttl' s)
  then show ?case using append_ok by blast
next
  case (finish t st finished ttl ttl' s)
  then show ?case using finish_ok by blast
next
  case (refresh t owner ttl s)
  then have "same_log rid s t" "rd_strings t = rd_strings s"
    by (auto simp: refresh_lease_script_def same_log_def redis_expire_def)
  with refresh(2) show ?case by (auto intro: same_log_ok)
next
  case (lost t lock payload finished ttl ttl' owner s)
  then show ?case using lost_ok by blast
next
  case (lease_expires t s)
  then have "same_log rid s t" by (simp add: redis_evict_def same_log_trans_del) (simp add: same_log_def)
  from same_log_ok [OF this lease_expires(2)] show ?case by (simp add: lease_expires(1) redis_evict_def redis_del_get)
next
  case (other s t)
  then have "same_log rid s t" "dict_get (rd_strings t) (lease_key rid) = dict_get (rd_strings s) (lease_key rid)"
    by (simp_all add: foreign_def same_log_def)
  then show ?case by (intro same_log_ok [OF _ other(2)]) auto
qed

lemma log_steps_ok: "log_steps rid s t \<Longrightarrow> log_ok rid s \<Longrightarrow> log_ok rid t"
  by (induction rule: log_steps.induct) (auto intro: log_step_ok)

section \<open>A closed log\<close>

lemma closed_step:
  assumes "log_step rid s t" "closed_text (meta_status rid s)"
  shows "same_log rid s t"
proof -
  have na: "\<not> active_text (redis_hget (meta_key rid) ''status'' s)" and ns: "redis_hget (meta_key rid) ''status'' s \<noteq> Some ''starting''"
    using closed_not_active [OF assms(2)] by (auto simp: meta_status_def active_text_def)
  have ex: "redis_exists (meta_key rid) s"
    using assms(2) by (auto simp: closed_text_def meta_status_def redis_hget_def redis_hgetall_def redis_exists_def split: option.splits)
  from assms(1) show ?thesis
  proof cases
    case claim
    with ex show ?thesis by (simp add: claim_script_def same_log_def)
  next
    case running
    with ns show ?thesis by (simp add: set_running_script_def same_log_def)
  next
    case append
    with na show ?thesis by (simp add: append_script_def same_log_def)
  next
    case finish
    with finish_closed_log [OF na] show ?thesis by blast
  next
    case refresh
    then show ?thesis by (auto simp: refresh_lease_script_def same_log_def redis_expire_def)
  next
    case lost
    with na show ?thesis by (simp add: mark_lost_script_def same_log_def)
  next
    case lease_expires
    then show ?thesis by (simp add: redis_evict_def same_log_trans_del) (simp add: same_log_def)
  next
    case other
    then show ?thesis by (simp add: foreign_def same_log_def)
  qed
qed

lemma closed_steps: "log_steps rid s t \<Longrightarrow> closed_text (meta_status rid s) \<Longrightarrow> same_log rid s t"
proof (induction rule: log_steps.induct)
  case (step s t u)
  have st: "same_log rid s t" using closed_step step by blast
  then have "closed_text (meta_status rid t)" using step.prems same_log_facts(1) [OF st] by simp
  with step.IH st show ?case by (simp add: same_log_def)
qed (simp add: same_log_def)

section \<open>Logs grow\<close>

definition log_exists :: "string \<Rightarrow> redis \<Rightarrow> bool" where
  "log_exists rid s \<longleftrightarrow> dict_get (rd_hashes s) (meta_key rid) \<noteq> None"

lemma hset_exists: "dict_get (rd_hashes (redis_hset k fvs s)) j \<noteq> None \<longleftrightarrow> j = k \<or> dict_get (rd_hashes s) j \<noteq> None"
  "(\<exists>y. dict_get (rd_hashes (redis_hset k fvs s)) j = Some y) \<longleftrightarrow> j = k \<or> (\<exists>y. dict_get (rd_hashes s) j = Some y)"
  by (simp_all add: redis_hset_def update_conv')

lemma log_step_grows:
  assumes "log_step rid s t" "log_exists rid s"
  shows "log_exists rid t \<and> (\<exists>es. log_events rid t = log_events rid s @ es)"
  using assms(1)
proof cases
  case claim
  with assms(2) show ?thesis by (simp add: claim_script_def redis_exists_def log_exists_def)
next
  case (running owner ttl)
  then show ?thesis
    using assms(2) by (auto simp: set_running_script_def redis_set_nx_def redis_set_ex_def log_exists_def hset_exists log_events_def
        redis_entries_def simp del: not_None_eq)
next
  case (append payload maximum force cs finished ttl ttl')
  then show ?thesis
    using assms(2) keys_differ entries_xadd(1) [of "events_key rid" "events_key rid" "[(''frame'', payload)]" s]
      redis_xadd_frame(1) [of "events_key rid" "[(''frame'', payload)]" s]
    by (auto simp: append_script_def append_entry_def Let_def log_exists_def redis_del_get hset_exists log_events_def redis_entries_def
        simp del: not_None_eq redis_xadd_frame split: prod.splits)
next
  case (finish st finished ttl ttl')
  then show ?thesis
    using assms(2) keys_differ by (auto simp: finish_script_def Let_def log_exists_def redis_del_get hset_exists log_events_def redis_entries_def
        simp del: not_None_eq)
next
  case refresh
  with assms(2) show ?thesis by (auto simp: refresh_lease_script_def log_exists_def log_events_def redis_entries_def)
next
  case (lost lock payload finished ttl ttl' owner)
  then show ?thesis
    using assms(2) keys_differ lock_keys_differ entries_xadd(1) [of "events_key rid" "events_key rid" "[(''frame'', payload)]" s]
      redis_xadd_frame(1) [of "events_key rid" "[(''frame'', payload)]" s]
    by (cases lock) (auto simp: mark_lost_script_def Let_def log_exists_def redis_del_get hset_exists log_events_def redis_entries_def
        simp del: not_None_eq redis_xadd_frame split: prod.splits)
next
  case lease_expires
  with assms(2) keys_differ show ?thesis by (simp add: redis_evict_def log_exists_def redis_del_get log_events_def redis_entries_def)
next
  case other
  with assms(2) show ?thesis by (simp add: foreign_def log_exists_def log_events_def redis_entries_def)
qed

lemma log_steps_grow:
  "log_steps rid s t \<Longrightarrow> log_exists rid s \<Longrightarrow> log_exists rid t \<and> (\<exists>es. log_events rid t = log_events rid s @ es)"
proof (induction rule: log_steps.induct)
  case (step s t u)
  from log_step_grows [OF step(1) step.prems] step.IH show ?case by fastforce
qed simp

end
