(* ===== verification/Replay_Subscribers.thy ===== *)
theory Replay_Subscribers
  imports Replay_Properties
begin

text \<open>
  What a subscriber of a replay log gets: the events after its cursor, each once and in order, under
  every interleaving with the writers, and an end when the log is closed.
\<close>

section \<open>Suffixes of increasing lists\<close>

definition after_id :: "stream_id \<Rightarrow> (stream_id \<times> 'a) list \<Rightarrow> (stream_id \<times> 'a) list" where
  "after_id c es = filter (\<lambda>e. id_less c (fst e)) es"

definition up_to :: "stream_id \<Rightarrow> (stream_id \<times> 'a) list \<Rightarrow> (stream_id \<times> 'a) list" where
  "up_to c es = filter (\<lambda>e. \<not> id_less c (fst e)) es"

lemma id_less_asym: "id_less i j \<Longrightarrow> \<not> id_less j i"
  by (auto simp: id_less_def)

lemma increasing_append:
  "increasing (xs @ ys) \<longleftrightarrow> increasing xs \<and> increasing ys \<and> (\<forall>x\<in>set xs. \<forall>y\<in>set ys. id_less x y)"
  by (induction xs) auto

lemma increasing_split:
  assumes "increasing (map fst es)"
  shows "es = up_to c es @ after_id c es"
  using assms
proof (induction es)
  case (Cons e es)
  show ?case
  proof (cases "id_less c (fst e)")
    case True
    then have "id_less c (fst f)" if "f \<in> set es" for f using Cons.prems that id_less_trans by fastforce
    with True have "up_to c (e # es) = []" "after_id c (e # es) = e # es" by (auto simp: up_to_def after_id_def filter_empty_conv filter_id_conv)
    then show ?thesis by simp
  next
    case False
    with Cons show ?thesis by (simp add: up_to_def after_id_def)
  qed
qed (simp add: up_to_def after_id_def)

lemma after_cut:
  assumes "increasing (map fst es)" "after_id c es = xs @ rest" "xs \<noteq> []"
  shows "after_id (fst (last xs)) es = rest" "up_to (fst (last xs)) es = up_to c es @ xs"
proof -
  let ?l = "fst (last xs)"
  have es: "es = up_to c es @ xs @ rest" using increasing_split [OF assms(1), of c] assms(2) by simp
  have inc: "increasing (map fst (up_to c es @ xs @ rest))" using es assms(1) by simp
  have l: "?l \<in> set (map fst xs)" using assms(3) by simp
  have 1: "\<not> id_less ?l (fst e)" if "e \<in> set (up_to c es)" for e
  proof
    assume "id_less ?l (fst e)"
    moreover have "id_less (fst e) ?l" using inc that l by (auto simp: increasing_append)
    ultimately show False using id_less_asym by blast
  qed
  have 2: "\<not> id_less ?l (fst e)" if "e \<in> set xs" for e
  proof
    assume lt: "id_less ?l (fst e)"
    have "increasing (map fst xs)" using inc by (simp add: increasing_append)
    from increasing_last [OF this, of "fst e"] that assms(3) have "fst e = ?l \<or> id_less (fst e) ?l" by (simp add: last_map)
    with lt show False by (auto simp: id_less_irrefl dest: id_less_asym)
  qed
  have 3: "id_less ?l (fst e)" if "e \<in> set rest" for e using inc l that by (auto simp: increasing_append)
  have "after_id ?l (A @ xs @ rest) = rest" "up_to ?l (A @ xs @ rest) = A @ xs" if "\<And>e. e \<in> set A \<Longrightarrow> \<not> id_less ?l (fst e)" for A
    using that 2 3 unfolding after_id_def up_to_def filter_append by (simp_all add: filter_empty_conv filter_id_conv)
  from this [OF 1] have "after_id ?l (up_to c es @ xs @ rest) = rest" "up_to ?l (up_to c es @ xs @ rest) = up_to c es @ xs"
    by blast+
  then show "after_id ?l es = rest" "up_to ?l es = up_to c es @ xs" using es by metis+
qed

text \<open>Events appended later do not change what was before the cursor.\<close>

lemma up_to_append:
  assumes "increasing (map fst (es @ fs))" "up_to c es = es"
  shows "up_to c (es @ fs) = es @ up_to c fs"
  using assms by (simp add: up_to_def)

section \<open>Events and chunks\<close>

definition event_of :: "stream_id \<times> string dict \<Rightarrow> string \<times> string" where
  "event_of e = (id_text (fst e), case dict_get (snd e) ''frame'' of None \<Rightarrow> [] | Some f \<Rightarrow> f)"

lemma read_after_run:
  assumes "list_all (\<lambda>e. \<exists>f. snd e = [(''frame'', f)]) (log_events rid (rp_redis d))"
  shows "read_after rid c d = (Inr (map event_of (take 100 (after_id (stream_id_of c) (log_events rid (rp_redis d))))), d)"
proof -
  let ?xs = "take 100 (after_id (stream_id_of c) (log_events rid (rp_redis d)))"
  have all: "list_all (\<lambda>e. \<exists>f. snd e = [(''frame'', f)]) ?xs"
  proof -
    have "set ?xs \<subseteq> set (log_events rid (rp_redis d))" using set_take_subset unfolding after_id_def by fastforce
    with assms show ?thesis by (auto simp: list_all_iff)
  qed
  have "concat (map (\<lambda>(i, fvs). case dict_get fvs ''frame'' of None \<Rightarrow> [] | Some f \<Rightarrow> [(i, f)]) (map (\<lambda>(i, fvs). (id_text i, fvs)) xs))
      = map event_of xs" if "list_all (\<lambda>e. \<exists>f. snd e = [(''frame'', f)]) xs" for xs :: "(stream_id \<times> string dict) list"
    using that by (induction xs) (auto simp: event_of_def)
  from this [OF all] have "concat (map (\<lambda>(i, fvs). case dict_get fvs ''frame'' of None \<Rightarrow> [] | Some f \<Rightarrow> [(i, f)])
      (redis_xread (events_key rid) c 100 (rp_redis d))) = map event_of ?xs"
    by (simp only: redis_xread_def log_events_def after_id_def case_prod_unfold)
  then show ?thesis by (simp add: read_after_def read_redis_def eff_simps)
qed

lemma deliver_run:
  "deliver es s = (Inr (), s\<lparr>rs_cursor := (if es = [] then rs_cursor s else fst (last es)), rs_out := rs_out s @ map event_chunk es\<rparr>)"
  by (induction es arbitrary: s) (auto simp: yield_chunk_def eff_simps)

definition event_chunks :: "string list \<Rightarrow> string list" where
  "event_chunks out = filter (prefix ''id: '') out"

lemma event_chunks_simps:
  "event_chunks [] = []" "event_chunks (xs @ ys) = event_chunks xs @ event_chunks ys"
  "event_chunks (map event_chunk es) = map event_chunk es"
  "event_chunks [encode_sse_frame env f] = []"
  by (auto simp: event_chunks_def event_chunk_def encode_sse_frame_def filter_id_conv)

section \<open>One iteration\<close>

text \<open>The subscriber has delivered the events after its start up to its cursor.\<close>

definition delivered :: "string \<Rightarrow> stream_id \<Rightarrow> replay_session \<Rightarrow> bool" where
  "delivered rid c0 s \<longleftrightarrow>
     (let es = log_events rid (rp_redis (rs_db s)); c = stream_id_of (rs_cursor s) in
      event_chunks (rs_out s) = map (event_chunk \<circ> event_of) (after_id c0 (up_to c es))
      \<and> (c = c0 \<or> id_less c0 c \<and> (\<exists>e\<in>set es. fst e = c)))"

lemma delivered_grows:
  assumes "delivered rid c0 s" "increasing (map fst (log_events rid r))"
    and "log_events rid r = log_events rid (rp_redis (rs_db s)) @ fs" "rp_redis d = r"
  shows "delivered rid c0 (s\<lparr>rs_db := d\<rparr>)"
proof -
  let ?es = "log_events rid (rp_redis (rs_db s))" and ?c = "stream_id_of (rs_cursor s)"
  have "after_id c0 (up_to ?c (?es @ fs)) = after_id c0 (up_to ?c ?es)"
  proof (cases "?c = c0")
    case True
    then show ?thesis by (auto simp: after_id_def up_to_def filter_empty_conv)
  next
    case False
    with assms(1) obtain e where e: "e \<in> set ?es" "fst e = ?c" by (auto simp: delivered_def Let_def)
    have "id_less ?c (fst f)" if "f \<in> set fs" for f
      using assms(2) e that unfolding assms(3) by (auto simp: increasing_append)
    then show ?thesis by (simp add: up_to_def)
  qed
  with assms show ?thesis by (auto simp: delivered_def Let_def)
qed

lemma ReplayStatus_Inr: "ReplayStatus v = Inr x \<longleftrightarrow> replay_status_value x = v"
  by (cases x) (auto simp: ReplayStatus_def)

lemma parse_meta_fields:
  assumes "parse_meta raw = Inr m"
  shows "rm_last_event_id m = some_nonempty (dict_get raw ''last_event_id'')"
    "dict_get raw ''status'' = Some (replay_status_value (rm_status m))"
proof -
  show "rm_last_event_id m = some_nonempty (dict_get raw ''last_event_id'')"
    using assms by (auto simp: parse_meta_def bindR_Inr)
  show "dict_get raw ''status'' = Some (replay_status_value (rm_status m))"
    using assms by (auto simp: parse_meta_def bindR_Inr hash_field_def ReplayStatus_Inr split: option.splits)
qed

lemma require_meta_run:
  assumes "require_replay_meta rid d = (r, d')"
  shows "d' = d" "r = Inr m \<Longrightarrow> rm_last_event_id m = some_nonempty (redis_hget (meta_key rid) ''last_event_id'' (rp_redis d))"
    "r = Inr m \<Longrightarrow> meta_status rid (rp_redis d) = Some (replay_status_value (rm_status m))"
proof -
  let ?raw = "redis_hgetall (meta_key rid) (rp_redis d)"
  have run: "require_replay_meta rid d =
      (if ?raw = [] then Inl (AppError ''RESOURCE_NOT_FOUND'' ''stream request not found'') else parse_meta ?raw, d)"
    by (cases "parse_meta ?raw") (auto simp: require_replay_meta_def get_meta_def read_redis_def bindE_def eff_simps)
  with assms show "d' = d" by simp
  assume "r = Inr m"
  then have "parse_meta ?raw = Inr m" using assms run by (auto split: if_splits)
  from parse_meta_fields [OF this] show "rm_last_event_id m = some_nonempty (redis_hget (meta_key rid) ''last_event_id'' (rp_redis d))"
    "meta_status rid (rp_redis d) = Some (replay_status_value (rm_status m))"
    by (simp_all add: redis_hget_def meta_status_def)
qed

lemma id_text_nonempty: "some_nonempty (Some (id_text i)) = Some (id_text i)"
  by (cases "id_text i") (simp_all add: some_nonempty_def id_text_def nat_str.simps [of "fst i"] split: if_splits)

text \<open>What is left for a subscriber whose cursor is the last identifier.\<close>

lemma nothing_left:
  assumes ok: "log_ok rid s" "log_exists rid s"
    and "some_nonempty (redis_hget (meta_key rid) ''last_event_id'' s) \<in> {None, Some c}"
  shows "after_id (stream_id_of c) (log_events rid s) = []"
proof (cases "log_events rid s = []")
  case False
  let ?l = "fst (last (log_events rid s))"
  have "c = id_text ?l" using False assms id_text_nonempty by (auto simp: log_ok_def log_exists_def)
  moreover have "\<not> id_less ?l (fst e)" if "e \<in> set (log_events rid s)" for e
  proof -
    have "increasing (map fst (log_events rid s))" using ok by (simp add: log_ok_def log_exists_def)
    from increasing_last [OF this, of "fst e"] that False have "fst e = ?l \<or> id_less (fst e) ?l" by (simp add: last_map)
    then show ?thesis by (auto simp: id_less_irrefl dest: id_less_asym)
  qed
  ultimately show ?thesis by (simp add: after_id_def stream_id_of_text filter_empty_conv)
qed (simp add: after_id_def)

lemma lift_db_run: "lift_db m s = (r, t) \<longleftrightarrow> (\<exists>d. m (rs_db s) = (r, d) \<and> t = s\<lparr>rs_db := d\<rparr>)"
  by (auto simp: lift_db_def split: prod.splits)

lemma heartbeat_run:
  "\<exists>d f. heartbeat env meta s = (Inr (), s\<lparr>rs_db := d, rs_out := rs_out s @ [encode_sse_frame env f]\<rparr>) \<and> rp_redis d = rp_redis (rs_db s)"
  by (auto simp: heartbeat_def lift_db_def rp_now_def yield_chunk_def modify_def bindE_def)

text \<open>The effect of an iteration: some events are delivered and the log is not changed, or none is delivered
  and the log is not changed or marked as lost.\<close>

definition iteration_effect :: "string \<Rightarrow> replay_session \<Rightarrow> bool res \<Rightarrow> replay_session \<Rightarrow> bool" where
  "iteration_effect rid s r t \<longleftrightarrow>
     (let c = stream_id_of (rs_cursor s); es = log_events rid (rp_redis (rs_db s)); xs = take 100 (after_id c es) in
      (xs \<noteq> [] \<and> rp_redis (rs_db t) = rp_redis (rs_db s) \<and> rs_cursor t = id_text (fst (last xs))
         \<and> event_chunks (rs_out t) = event_chunks (rs_out s) @ map (event_chunk \<circ> event_of) xs
       \<or> rs_cursor t = rs_cursor s \<and> event_chunks (rs_out t) = event_chunks (rs_out s)
         \<and> (rp_redis (rs_db t) = rp_redis (rs_db s) \<or> log_step rid (rp_redis (rs_db s)) (rp_redis (rs_db t))))
      \<and> (r = Inr True \<longrightarrow> rp_redis (rs_db t) = rp_redis (rs_db s) \<and> closed_text (meta_status rid (rp_redis (rs_db t)))
           \<and> after_id (stream_id_of (rs_cursor t)) (log_events rid (rp_redis (rs_db t))) = []))"

lemma lift_db_state: "lift_db m s = (fst (m (rs_db s)), s\<lparr>rs_db := snd (m (rs_db s))\<rparr>)"
  by (simp add: lift_db_def split: prod.splits)

lemma mark_lost_steps:
  "log_step rid (rp_redis d) (rp_redis (snd (mark_execution_lost env rid (map_option turn_key lk) owner d)))"
proof -
  let ?p = "frame_payload env (error_frame EXECUTION_LOST ''Agent execution was lost'')"
  have "rp_redis (snd (mark_execution_lost env rid (map_option turn_key lk) owner d)) =
      snd (mark_lost_script (meta_key rid) (events_key rid) (lease_key rid) (map_option turn_key lk) ?p (length ?p)
        (re_iso env (rp_clock d 0)) (re_meta_ttl env) (re_replay_ttl env) (case owner of None \<Rightarrow> [] | Some w \<Rightarrow> w) (rp_redis d))"
    by (simp add: mark_execution_lost_def Let_def bindE_def rp_now_def on_redis_def split: prod.splits)
  then show ?thesis by (rule log_step.lost)
qed

text \<open>An idle part delivers nothing and leaves the log alone or marks it as lost.\<close>

definition idle_outcome :: "string \<Rightarrow> replay_session \<Rightarrow> bool res \<Rightarrow> replay_session \<Rightarrow> bool" where
  "idle_outcome rid s r t \<longleftrightarrow> rs_cursor t = rs_cursor s \<and> event_chunks (rs_out t) = event_chunks (rs_out s)
     \<and> (rp_redis (rs_db t) = rp_redis (rs_db s) \<or> log_step rid (rp_redis (rs_db s)) (rp_redis (rs_db t)))"

lemma heartbeat_outcome:
  assumes "bindE (heartbeat env meta) (\<lambda>_. ret False) u = (r, t)"
    "rp_redis (rs_db u) = rp_redis (rs_db s)" "rs_cursor u = rs_cursor s" "rs_out u = rs_out s"
  shows "idle_outcome rid s r t" "r = Inr False"
proof -
  obtain d f where "heartbeat env meta u = (Inr (), u\<lparr>rs_db := d, rs_out := rs_out u @ [encode_sse_frame env f]\<rparr>)" "rp_redis d = rp_redis (rs_db u)"
    using heartbeat_run by blast
  with assms show "idle_outcome rid s r t" "r = Inr False"
    by (auto simp: bindE_def ret_def idle_outcome_def event_chunks_simps)
qed

lemma lost_part_effect:
  assumes run: "lost_part env meta (map_option turn_key lk) owner m s = (r, t)"
  shows "idle_outcome (rm_request_id meta) s r t" "r \<noteq> Inr True"
proof -
  let ?rid = "rm_request_id meta"
  define v where "v = s\<lparr>rs_db := snd (rp_now (rs_db s))\<rparr>"
  have v: "rp_redis (rs_db v) = rp_redis (rs_db s)" "rs_cursor v = rs_cursor s" "rs_out v = rs_out s"
    by (simp_all add: v_def rp_now_def)
  have now: "lift_db rp_now s = (Inr (rp_clock (rs_db s) 0), v)" by (simp add: lift_db_state v_def rp_now_def)
  have "idle_outcome ?rid s r t \<and> r \<noteq> Inr True"
  proof (cases "re_uniso env (rm_created_at m)")
    case (Inl e)
    with run show ?thesis by (auto simp: lost_part_def eff_simps idle_outcome_def)
  next
    case (Inr created)
    then have run: "(if rm_status m = RS_RUNNING \<or> re_lease_ttl env * 1000000 \<le> rp_clock (rs_db s) 0 - created
       then bindE (lift_db (mark_execution_lost env ?rid (map_option turn_key lk) owner)) (\<lambda>_. ret False)
       else bindE (heartbeat env meta) (\<lambda>_. ret False)) v = (r, t)"
      using run by (simp add: lost_part_def bindE_basic bindE_Inr [where m = "lift_db rp_now", OF now])
    show ?thesis
    proof (cases "rm_status m = RS_RUNNING \<or> re_lease_ttl env * 1000000 \<le> rp_clock (rs_db s) 0 - created")
      case True
      have "r \<noteq> Inr True \<and> t = v\<lparr>rs_db := snd (mark_execution_lost env ?rid (map_option turn_key lk) owner (rs_db v))\<rparr>"
        using run True by (auto simp: bindE_def lift_db_state ret_def split: sum.splits)
      with mark_lost_steps [of ?rid "rs_db v" env lk owner] v show ?thesis by (simp add: idle_outcome_def)
    next
      case False
      then have "bindE (heartbeat env meta) (\<lambda>_. ret False) v = (r, t)" using run by simp
      from heartbeat_outcome [OF this v] show ?thesis by simp
    qed
  qed
  then show "idle_outcome ?rid s r t" "r \<noteq> Inr True" by simp_all
qed

lemma lease_check_run:
  "lift_db (active_without_lease rid m) s =
     (Inr ((rm_status m = RS_STARTING \<or> rm_status m = RS_RUNNING) \<and> \<not> redis_exists (lease_key rid) (rp_redis (rs_db s))), s)"
  by (auto simp: lift_db_state active_without_lease_def has_lease_def read_redis_def eff_simps)

lemma idle_part_effect:
  assumes run: "idle_part env meta (map_option turn_key lk) owner (rs_cursor s) s = (r, t)"
    and ok: "log_ok (rm_request_id meta) (rp_redis (rs_db s))" "log_exists (rm_request_id meta) (rp_redis (rs_db s))"
  shows "idle_outcome (rm_request_id meta) s r t"
    "r = Inr True \<Longrightarrow> t = s \<and> closed_text (meta_status (rm_request_id meta) (rp_redis (rs_db s)))
       \<and> after_id (stream_id_of (rs_cursor s)) (log_events (rm_request_id meta) (rp_redis (rs_db s))) = []"
proof -
  let ?rid = "rm_request_id meta" and ?d = "rs_db s"
  obtain q d' where q: "require_replay_meta ?rid ?d = (q, d')" by fastforce
  have d': "lift_db (require_replay_meta ?rid) s = (q, s)" using require_meta_run(1) [OF q] q by (simp add: lift_db_state)
  have "idle_outcome ?rid s r t \<and> (r = Inr True \<longrightarrow> t = s \<and> closed_text (meta_status ?rid (rp_redis ?d))
      \<and> after_id (stream_id_of (rs_cursor s)) (log_events ?rid (rp_redis ?d)) = [])"
  proof (cases q)
    case (Inl e)
    with run d' show ?thesis by (auto simp: idle_part_def bindE_def idle_outcome_def)
  next
    case (Inr m)
    note meta = require_meta_run(2,3) [OF q Inr]
    show ?thesis
    proof (cases "meta_closed m \<and> (rm_last_event_id m = None \<or> rm_last_event_id m = Some (rs_cursor s))")
      case True
      then have "closed_text (meta_status ?rid (rp_redis ?d))" using meta(2) by (auto simp: closed_text_def meta_closed_def)
      moreover have "after_id (stream_id_of (rs_cursor s)) (log_events ?rid (rp_redis ?d)) = []"
        by (rule nothing_left [OF ok]) (use True meta(1) in auto)
      ultimately show ?thesis using run d' Inr True by (auto simp: idle_part_def bindE_def ret_def idle_outcome_def)
    next
      case False
      then have "(if (rm_status m = RS_STARTING \<or> rm_status m = RS_RUNNING) \<and> \<not> redis_exists (lease_key ?rid) (rp_redis ?d)
          then lost_part env meta (map_option turn_key lk) owner m s else bindE (heartbeat env meta) (\<lambda>_. ret False) s) = (r, t)"
        using run unfolding idle_part_def bindE_Inr [where m = "lift_db (require_replay_meta ?rid)", OF d' [unfolded Inr]]
        unfolding if_not_P [OF False] bindE_Inr [where m = "lift_db (active_without_lease ?rid m)", OF lease_check_run]
        by (auto split: if_splits)
      then show ?thesis
        using lost_part_effect [of env meta lk owner m s r t] heartbeat_outcome [of env meta s r t s] by (auto split: if_splits)
    qed
  qed
  then show "idle_outcome ?rid s r t" "r = Inr True \<Longrightarrow> t = s \<and> closed_text (meta_status ?rid (rp_redis ?d))
      \<and> after_id (stream_id_of (rs_cursor s)) (log_events ?rid (rp_redis ?d)) = []" by blast+
qed

lemma entries_part_effect:
  assumes run: "entries_part meta (map event_of xs) s = (r, t)" and xs: "xs \<noteq> []"
    and ok: "log_ok (rm_request_id meta) (rp_redis (rs_db s))" "log_exists (rm_request_id meta) (rp_redis (rs_db s))"
  shows "rp_redis (rs_db t) = rp_redis (rs_db s)" "rs_cursor t = id_text (fst (last xs))"
    "event_chunks (rs_out t) = event_chunks (rs_out s) @ map (event_chunk \<circ> event_of) xs"
    "r = Inr True \<Longrightarrow> closed_text (meta_status (rm_request_id meta) (rp_redis (rs_db s)))
       \<and> after_id (fst (last xs)) (log_events (rm_request_id meta) (rp_redis (rs_db s))) = []"
proof -
  let ?rid = "rm_request_id meta"
  define u where "u = s\<lparr>rs_cursor := id_text (fst (last xs)), rs_out := rs_out s @ map event_chunk (map event_of xs)\<rparr>"
  obtain q d' where q: "require_replay_meta ?rid (rs_db s) = (q, d')" by fastforce
  have "deliver (map event_of xs) s = (Inr (), u)" using xs by (simp add: deliver_run u_def last_map event_of_def)
  moreover have "lift_db (require_replay_meta ?rid) u = (q, u)" using require_meta_run(1) [OF q] q by (simp add: lift_db_state u_def)
  ultimately have rt: "t = u" "r = (case q of Inl e \<Rightarrow> Inl e | Inr m \<Rightarrow> Inr (meta_closed m \<and> rm_last_event_id m = Some (rs_cursor u)))"
    using run by (auto simp: entries_part_def bindE_def gets_def ret_def split: sum.splits)
  then show "rp_redis (rs_db t) = rp_redis (rs_db s)" "rs_cursor t = id_text (fst (last xs))"
    "event_chunks (rs_out t) = event_chunks (rs_out s) @ map (event_chunk \<circ> event_of) xs"
    using event_chunks_simps(3) [of "map event_of xs"] by (simp_all add: u_def event_chunks_simps(2))
  assume "r = Inr True"
  then obtain m where m: "q = Inr m" "meta_closed m" "rm_last_event_id m = Some (id_text (fst (last xs)))"
    using rt(2) by (auto simp: u_def split: sum.splits)
  note meta = require_meta_run(2,3) [OF q m(1)]
  have "after_id (stream_id_of (id_text (fst (last xs)))) (log_events ?rid (rp_redis (rs_db s))) = []"
    by (rule nothing_left [OF ok]) (use m(3) meta(1) in simp)
  with m(2) meta(2) show "closed_text (meta_status ?rid (rp_redis (rs_db s))) \<and> after_id (fst (last xs)) (log_events ?rid (rp_redis (rs_db s))) = []"
    by (auto simp: closed_text_def meta_closed_def stream_id_of_text)
qed

lemma iteration_run:
  assumes run: "replay_iteration env meta (map_option turn_key lk) owner io s = (r, t)"
    and ok: "log_ok (rm_request_id meta) (rp_redis (rs_db s))" "log_exists (rm_request_id meta) (rp_redis (rs_db s))"
  shows "iteration_effect (rm_request_id meta) s r t"
proof -
  let ?rid = "rm_request_id meta"
  let ?xs = "take 100 (after_id (stream_id_of (rs_cursor s)) (log_events ?rid (rp_redis (rs_db s))))"
  have idle: "iteration_effect ?rid s r t" if "idle_part env meta (map_option turn_key lk) owner (rs_cursor s) s = (r, t)"
    using idle_part_effect [OF that ok] by (auto simp: iteration_effect_def Let_def idle_outcome_def)
  show ?thesis
  proof (cases io)
    case ReadReturns
    have fr: "list_all (\<lambda>e. \<exists>f. snd e = [(''frame'', f)]) (log_events ?rid (rp_redis (rs_db s)))"
      using ok by (simp add: log_ok_def log_exists_def)
    have "read_entries ?rid io (rs_cursor s) s = (Inr (map event_of ?xs), s)"
      using read_after_run [OF fr, of "rs_cursor s"] ReadReturns by (simp add: read_entries_def lift_db_state)
    then have run: "(if ?xs \<noteq> [] then entries_part meta (map event_of ?xs) s
        else idle_part env meta (map_option turn_key lk) owner (rs_cursor s) s) = (r, t)"
      using run by (auto simp: replay_iteration_def bindE_def gets_def split: if_splits)
    show ?thesis
    proof (cases "?xs = []")
      case True
      with run idle show ?thesis by simp
    next
      case False
      with run have "entries_part meta (map event_of ?xs) s = (r, t)" by simp
      from entries_part_effect [OF this False ok] False show ?thesis
        by (auto simp: iteration_effect_def Let_def stream_id_of_text)
    qed
  next
    case ReadTimesOut
    then have "idle_part env meta (map_option turn_key lk) owner (rs_cursor s) s = (r, t)"
      using run by (simp add: replay_iteration_def read_entries_def bindE_def gets_def ret_def)
    then show ?thesis by (rule idle)
  next
    case (ReadBreaks m)
    with run show ?thesis by (auto simp: replay_iteration_def read_entries_def bindE_def gets_def raise_def iteration_effect_def Let_def)
  qed
qed

section \<open>A subscriber among the others\<close>

text \<open>The subscriber's iterations alternate with steps of the writers and of other subscribers; the flag
  says whether its generator has returned.\<close>

inductive subscriber_run :: "replay_env \<Rightarrow> replay_meta \<Rightarrow> int option \<Rightarrow> string option \<Rightarrow> replay_session \<Rightarrow> bool \<Rightarrow> replay_session \<Rightarrow> bool"
  for env meta lk owner s0 where
  start: "subscriber_run env meta lk owner s0 False s0"
| others: "subscriber_run env meta lk owner s0 fin s \<Longrightarrow> log_step (rm_request_id meta) (rp_redis (rs_db s)) (rp_redis d) \<Longrightarrow>
    subscriber_run env meta lk owner s0 fin (s\<lparr>rs_db := d\<rparr>)"
| iterate: "subscriber_run env meta lk owner s0 False s \<Longrightarrow>
    replay_iteration env meta (map_option turn_key lk) owner io s = (Inr fin, t) \<Longrightarrow> subscriber_run env meta lk owner s0 fin t"

text \<open>What holds along a run.\<close>

definition run_ok :: "string \<Rightarrow> stream_id \<Rightarrow> bool \<Rightarrow> replay_session \<Rightarrow> bool" where
  "run_ok rid c0 fin s \<longleftrightarrow> log_ok rid (rp_redis (rs_db s)) \<and> log_exists rid (rp_redis (rs_db s)) \<and> delivered rid c0 s
     \<and> (fin \<longrightarrow> closed_text (meta_status rid (rp_redis (rs_db s)))
           \<and> after_id (stream_id_of (rs_cursor s)) (log_events rid (rp_redis (rs_db s))) = [])"

lemma log_ok_increasing: "log_ok rid s \<Longrightarrow> log_exists rid s \<Longrightarrow> increasing (map fst (log_events rid s))"
  by (simp add: log_ok_def log_exists_def)

lemma others_run_ok:
  assumes "run_ok rid c0 fin s" "log_step rid (rp_redis (rs_db s)) (rp_redis d)"
  shows "run_ok rid c0 fin (s\<lparr>rs_db := d\<rparr>)"
proof -
  have ok: "log_ok rid (rp_redis d)" using assms log_step_ok by (auto simp: run_ok_def)
  obtain fs where ex: "log_exists rid (rp_redis d)" "log_events rid (rp_redis d) = log_events rid (rp_redis (rs_db s)) @ fs"
    using log_step_grows [OF assms(2)] assms(1) unfolding run_ok_def by blast
  have "delivered rid c0 (s\<lparr>rs_db := d\<rparr>)"
    using delivered_grows [OF _ log_ok_increasing [OF ok ex(1)] ex(2)] assms(1) by (simp add: run_ok_def)
  moreover
  have "same_log rid (rp_redis (rs_db s)) (rp_redis d)" if fin
    using closed_step [OF assms(2)] assms(1) that by (simp add: run_ok_def)
  then have "meta_status rid (rp_redis d) = meta_status rid (rp_redis (rs_db s)) \<and> log_events rid (rp_redis d) = log_events rid (rp_redis (rs_db s))" if fin
    using same_log_facts that by blast
  ultimately show ?thesis using assms(1) ok ex(1) by (auto simp: run_ok_def)
qed

lemma delivered_more:
  assumes d: "delivered rid c0 s" and inc: "increasing (map fst (log_events rid (rp_redis (rs_db s))))"
    and xs: "after_id (stream_id_of (rs_cursor s)) (log_events rid (rp_redis (rs_db s))) = xs @ rest" "xs \<noteq> []"
    and t: "rp_redis (rs_db t) = rp_redis (rs_db s)" "rs_cursor t = id_text (fst (last xs))"
      "event_chunks (rs_out t) = event_chunks (rs_out s) @ map (event_chunk \<circ> event_of) xs"
  shows "delivered rid c0 t"
proof -
  let ?es = "log_events rid (rp_redis (rs_db s))" and ?c = "stream_id_of (rs_cursor s)"
  have le: "?c = c0 \<or> id_less c0 ?c" using d by (auto simp: delivered_def Let_def)
  have in_es: "x \<in> set ?es" "id_less ?c (fst x)" if "x \<in> set xs" for x
    using that arg_cong [OF xs(1), of set] by (auto simp: after_id_def)
  have "id_less c0 (fst x)" if "x \<in> set xs" for x using in_es(2) [OF that] le by (auto intro: id_less_trans)
  then have "after_id c0 xs = xs" by (simp add: after_id_def)
  then have "after_id c0 (up_to (fst (last xs)) ?es) = after_id c0 (up_to ?c ?es) @ xs"
    using after_cut(2) [OF inc xs] by (simp add: after_id_def)
  moreover have "last xs \<in> set ?es" "id_less c0 (fst (last xs))"
    using in_es [of "last xs"] xs(2) le by (auto intro: id_less_trans)
  ultimately show ?thesis using d t by (auto simp: delivered_def Let_def stream_id_of_text)
qed

lemma iterate_run_ok:
  assumes "run_ok rid c0 False s" "iteration_effect rid s (Inr fin) t"
  shows "run_ok rid c0 fin t"
proof -
  let ?es = "log_events rid (rp_redis (rs_db s))" and ?c = "stream_id_of (rs_cursor s)"
  let ?xs = "take 100 (after_id ?c ?es)"
  have ok: "log_ok rid (rp_redis (rs_db s))" "log_exists rid (rp_redis (rs_db s))" "delivered rid c0 s" using assms(1) by (simp_all add: run_ok_def)
  have end_ok: "fin \<Longrightarrow> closed_text (meta_status rid (rp_redis (rs_db t))) \<and> after_id (stream_id_of (rs_cursor t)) (log_events rid (rp_redis (rs_db t))) = []"
    using assms(2) unfolding iteration_effect_def Let_def by blast
  from assms(2) consider
      (entries) "?xs \<noteq> []" "rp_redis (rs_db t) = rp_redis (rs_db s)" "rs_cursor t = id_text (fst (last ?xs))"
        "event_chunks (rs_out t) = event_chunks (rs_out s) @ map (event_chunk \<circ> event_of) ?xs"
    | (idle) "rs_cursor t = rs_cursor s" "event_chunks (rs_out t) = event_chunks (rs_out s)"
        "rp_redis (rs_db t) = rp_redis (rs_db s) \<or> log_step rid (rp_redis (rs_db s)) (rp_redis (rs_db t))"
    unfolding iteration_effect_def Let_def by blast
  then show ?thesis
  proof cases
    case entries
    have "after_id ?c ?es = ?xs @ drop 100 (after_id ?c ?es)" by simp
    from delivered_more [OF ok(3) log_ok_increasing [OF ok(1,2)] this entries] ok entries(2) end_ok show ?thesis
      by (simp add: run_ok_def)
  next
    case idle
    have "run_ok rid c0 False (s\<lparr>rs_db := rs_db t\<rparr>)"
      using idle(3) others_run_ok [OF assms(1)] assms(1) by (auto simp: run_ok_def delivered_def)
    with idle(1,2) end_ok show ?thesis by (simp add: run_ok_def delivered_def)
  qed
qed

lemma subscriber_run_ok:
  "subscriber_run env meta lk owner s0 fin s \<Longrightarrow> run_ok (rm_request_id meta) c0 False s0 \<Longrightarrow> run_ok (rm_request_id meta) c0 fin s"
proof (induction rule: subscriber_run.induct)
  case (iterate s io fin t)
  then have "run_ok (rm_request_id meta) c0 False s" by blast
  moreover from this iteration_run [OF iterate.hyps(2)] have "iteration_effect (rm_request_id meta) s (Inr fin) t" by (simp add: run_ok_def)
  ultimately show ?case by (rule iterate_run_ok)
qed (simp_all add: others_run_ok)

end
