(* ===== verification/Replay_Delivery.thy ===== *)
theory Replay_Delivery
  imports Replay_Subscribers
begin

text \<open>
  Cursors of clients, the end of \<open>stream_replay\<close> on a closed log, and the properties of the log and of
  its subscribers.
\<close>

section \<open>Cursors\<close>

lemma digit_value_Some: "digit_value c = Some d \<longleftrightarrow> d < 10 \<and> c = char_of (48 + d)"
proof
  assume "digit_value c = Some d"
  then have "48 \<le> (of_char c :: nat)" "(of_char c :: nat) \<le> 57" "d = of_char c - 48"
    by (auto simp: digit_value_def Let_def split: if_splits)
  then show "d < 10 \<and> c = char_of (48 + d)" by simp
qed (auto simp: digit_value_char)

definition digit_of :: "char \<Rightarrow> nat" where
  "digit_of c = (case digit_value c of Some d \<Rightarrow> d | None \<Rightarrow> 0)"

lemma decimal_nat_snoc: "decimal_nat (t @ [c]) = 10 * decimal_nat t + digit_of c"
  by (simp add: decimal_nat_def digits_nat_snoc digit_of_def)

lemma digit_facts:
  assumes "is_digit c"
  shows "digit_of c < 10" "c = char_of (48 + digit_of c)" "digit_value c = Some (digit_of c)"
proof -
  obtain d where "digit_value c = Some d" using assms by (auto simp: is_digit_def)
  then show "digit_of c < 10" "c = char_of (48 + digit_of c)" "digit_value c = Some (digit_of c)"
    using digit_value_Some [of c d] by (simp_all add: digit_of_def)
qed

lemma zero_char: "char_of (48 :: nat) = CHR ''0''"
  by code_simp

text \<open>A number without leading zero is the text of its value.\<close>

lemma decimal_positive:
  assumes "t \<noteq> []" "list_all is_digit t" "hd t \<noteq> CHR ''0''"
  shows "0 < decimal_nat t \<and> nat_str (decimal_nat t) = t"
  using assms
proof (induction t rule: rev_induct)
  case (snoc c t)
  note c = digit_facts [of c]
  show ?case
  proof (cases "t = []")
    case True
    have "c = CHR ''0''" if "digit_of c = 0" using snoc.prems c(2) that zero_char by simp
    then have "digit_of c \<noteq> 0" using True snoc.prems by auto
    with True snoc.prems c show ?thesis
      by (subst nat_str.simps) (simp add: decimal_nat_def digits_nat_def)
  next
    case False
    with snoc have IH: "0 < decimal_nat t" "nat_str (decimal_nat t) = t" by auto
    moreover have "digit_of c < 10" "char_of (48 + digit_of c) = c" using c snoc.prems by simp_all
    ultimately show ?thesis
      by (subst nat_str.simps) (simp add: decimal_nat_snoc)
  qed
qed simp

lemma canonical_text: "canonical_number t \<Longrightarrow> nat_str (decimal_nat t) = t"
  using decimal_positive [of t]
  by (auto simp: canonical_number_def decimal_nat_def digits_nat_def digit_value_def nat_str.simps [of 0] zero_char)

lemma canonical_digits: "canonical_number t \<Longrightarrow> t \<noteq> [] \<and> list_all is_digit t"
  by (auto simp: canonical_number_def is_digit_def digit_value_def)

lemma digit_run_digits:
  "list_all is_digit t \<Longrightarrow> digit_run ds after t = (if t = [] \<and> \<not> after then None else Some (ds @ map digit_of t))"
  by (induction t arbitrary: ds after) (auto simp: is_digit_def digit_of_def split: option.splits)

lemma digit_visible: "is_digit c \<Longrightarrow> plain_char c \<and> c \<noteq> CHR ''-'' \<and> c \<noteq> CHR ''+''"
  by (auto simp: is_digit_def digit_value_def Let_def plain_char_def split: if_splits)

lemma int_of_canonical:
  assumes "canonical_number t" "length t \<le> 4300"
  shows "int_of_str t = Some (int (decimal_nat t))"
proof -
  have t: "t \<noteq> []" "list_all is_digit t" using canonical_digits [OF assms(1)] by auto
  then have "is_digit (hd t)" "is_digit (last t)" by (auto simp: list_all_iff)
  then have "strip t = t" using t digit_visible by (intro strip_plain) auto
  moreover have "split_sign t = (False, t)" using t digit_visible [of "hd t"] \<open>is_digit (hd t)\<close> by (cases t) (auto simp: split_sign_def)
  moreover have "digit_run [] False t = Some (map digit_of t)" using digit_run_digits [OF t(2)] t(1) by simp
  moreover have "digits_nat (map digit_of t) = decimal_nat t" by (simp add: decimal_nat_def digit_of_def [abs_def])
  ultimately show ?thesis using assms(2) by (simp add: int_of_str_def signed_def)
qed

lemma nat_str_canonical: "canonical_number (nat_str n)"
proof (induction n rule: nat_str.induct)
  case (1 n)
  have digit: "is_digit (char_of (48 + d))" if "d < 10" for d :: nat using digit_value_char [OF that] by (simp add: is_digit_def)
  show ?case
  proof (cases "n < 10")
    case True
    have "digit_value (CHR ''0'') = Some 0" by (simp add: digit_value_def)
    then have "char_of (48 + n) = CHR ''0'' \<longleftrightarrow> n = 0" using True digit_value_char [of n] zero_char by (metis add.right_neutral option.inject)
    with True digit [OF True] show ?thesis by (subst nat_str.simps) (auto simp: canonical_number_def zero_char)
  next
    case False
    then have "nat_str (n div 10) \<noteq> ''0''" using decimal_nat_str [of "n div 10"] by (auto simp: decimal_nat_def digits_nat_def digit_value_def)
    with 1 [OF False] digit [of "n mod 10"] False show ?thesis
      by (subst nat_str.simps) (auto simp: canonical_number_def)
  qed
qed

lemma split_at_char_Some: "split_at_char c s = (a, Some b) \<longleftrightarrow> s = a @ c # b \<and> c \<notin> set a"
proof
  assume split: "split_at_char c s = (a, Some b)"
  then have a: "a = takeWhile (\<lambda>x. x \<noteq> c) s" "length a < length s" "b = drop (Suc (length a)) s"
    by (auto simp: split_at_char_def Let_def split: if_splits)
  have "s ! length a = c" using nth_length_takeWhile [of "\<lambda>x. x \<noteq> c" s] a by simp
  then have "drop (length a) s = c # b" using Cons_nth_drop_Suc [OF a(2)] a(3) by simp
  moreover have "take (length a) s = a"
    using takeWhile_eq_take [of "\<lambda>x. x \<noteq> c" s] unfolding a(1) [symmetric] by (rule sym)
  ultimately have "s = a @ c # b" using append_take_drop_id [of "length a" s] by simp
  moreover have "c \<notin> set a" using a(1) set_takeWhileD by fastforce
  ultimately show "s = a @ c # b \<and> c \<notin> set a" ..
next
  assume "s = a @ c # b \<and> c \<notin> set a"
  then have "takeWhile (\<lambda>x. x \<noteq> c) s = a" by (auto simp: takeWhile_append)
  with \<open>s = a @ c # b \<and> c \<notin> set a\<close> show "split_at_char c s = (a, Some b)" by (simp add: split_at_char_def)
qed

lemma split_id_text:
  assumes "EVENT_ID_RE t"
  shows "t = id_text (stream_id_of t)"
proof -
  obtain a b where ab: "split_at_char (CHR ''-'') t = (a, Some b)" "canonical_number a" "canonical_number b"
    using assms by (auto simp: EVENT_ID_RE_def split: prod.splits option.splits)
  have "t = a @ ''-'' @ b" using ab(1) by (simp add: split_at_char_Some)
  with ab canonical_text show ?thesis by (simp add: stream_id_of_def id_text_def)
qed

lemma split_at_id_text: "split_at_char (CHR ''-'') (id_text i) = (nat_str (fst i), Some (nat_str (snd i)))"
  using nat_str_digits by (auto simp: split_at_char_Some id_text_def)

text \<open>Identifiers whose parts \<open>int\<close> reads.\<close>

definition readable :: "stream_id \<Rightarrow> bool" where
  "readable i \<longleftrightarrow> length (nat_str (fst i)) \<le> 4300 \<and> length (nat_str (snd i)) \<le> 4300"

lemma event_id_tuple_text: "readable i \<Longrightarrow> event_id_tuple (id_text i) = Inr (int (fst i), int (snd i))"
  using int_of_canonical [OF nat_str_canonical] by (simp add: event_id_tuple_def split_at_id_text event_number_def decimal_nat_str readable_def)

lemma event_id_tuple_readable: "event_id_tuple (id_text i) = Inr p \<Longrightarrow> readable i"
proof -
  have "int_of_str (nat_str n) = Some k \<Longrightarrow> length (nat_str n) \<le> 4300" for n k
  proof -
    assume run: "int_of_str (nat_str n) = Some k"
    have t: "nat_str n \<noteq> []" "list_all is_digit (nat_str n)" using canonical_digits [OF nat_str_canonical] by auto
    then have "is_digit (hd (nat_str n))" "is_digit (last (nat_str n))" by (auto simp: list_all_iff)
    then have "strip (nat_str n) = nat_str n" using t digit_visible by (intro strip_plain) auto
    moreover have "split_sign (nat_str n) = (False, nat_str n)"
      using t digit_visible [of "hd (nat_str n)"] \<open>is_digit (hd (nat_str n))\<close> by (cases "nat_str n") (auto simp: split_sign_def)
    ultimately show ?thesis using run digit_run_digits [OF t(2)] t(1) by (auto simp: int_of_str_def split: if_splits)
  qed
  then show "event_id_tuple (id_text i) = Inr p \<Longrightarrow> readable i"
    by (auto simp: event_id_tuple_def split_at_id_text event_number_def readable_def bindR_Inr split: option.splits)
qed

lemma tuple_greater_id: "tuple_greater (int (fst i), int (snd i)) (int (fst j), int (snd j)) \<longleftrightarrow> id_less j i"
  by (auto simp: tuple_greater_def id_less_def)

lemma validated_cursor:
  assumes "validate_replay_cursor m v = Inr c"
  shows "c = id_text (stream_id_of c)" "c = ''0-0'' \<or> (\<exists>l. rm_last_event_id m = Some l \<and> (\<forall>i. l = id_text i \<longrightarrow> \<not> id_less i (stream_id_of c)))"
proof -
  have zero: "''0-0'' = id_text (0, 0)" by (simp add: id_text_def nat_str.simps [of 0] zero_char)
  have ev: "validate_event_id v = Inr c" using assms by (auto simp: validate_replay_cursor_def bindR_Inr split: if_splits option.splits)
  then show c: "c = id_text (stream_id_of c)"
    using split_id_text [of c] zero stream_id_of_text [of "(0, 0)"]
    by (auto simp: validate_event_id_def Let_def simp del: id_text_def split: if_splits)
  show "c = ''0-0'' \<or> (\<exists>l. rm_last_event_id m = Some l \<and> (\<forall>i. l = id_text i \<longrightarrow> \<not> id_less i (stream_id_of c)))"
  proof (cases "c = ''0-0''")
    case False
    with assms ev obtain l p q where l: "rm_last_event_id m = Some l" "event_id_tuple c = Inr p" "event_id_tuple l = Inr q" "\<not> tuple_greater p q"
      by (auto simp: validate_replay_cursor_def bindR_Inr split: if_splits option.splits)
    have "\<not> id_less i (stream_id_of c)" if "l = id_text i" for i
    proof -
      have "readable i" using event_id_tuple_readable l(3) that by blast
      moreover have "readable (stream_id_of c)" using event_id_tuple_readable l(2) c by metis
      ultimately have "p = (int (fst (stream_id_of c)), int (snd (stream_id_of c)))" "q = (int (fst i), int (snd i))"
        using event_id_tuple_text l(2,3) that c by (metis sum.inject(2))+
      with l(4) tuple_greater_id show ?thesis by simp
    qed
    with l(1) show ?thesis by blast
  qed simp
qed

section \<open>Replaying a closed log\<close>

text \<open>The meta data of a consistent log name the last event.\<close>

lemma meta_last_event:
  assumes ok: "log_ok rid (rp_redis d)" "log_exists rid (rp_redis d)" and m: "require_replay_meta rid d = (Inr m, d')"
  shows "rm_last_event_id m = (if log_events rid (rp_redis d) = [] then None else Some (id_text (fst (last (log_events rid (rp_redis d))))))"
    "closed_text (meta_status rid (rp_redis d)) \<Longrightarrow> meta_closed m"
proof -
  have "rm_last_event_id m = some_nonempty (redis_hget (meta_key rid) ''last_event_id'' (rp_redis d))"
    by (rule require_meta_run(2) [OF m refl])
  then show "rm_last_event_id m = (if log_events rid (rp_redis d) = [] then None else Some (id_text (fst (last (log_events rid (rp_redis d))))))"
    using ok id_text_nonempty by (simp add: log_ok_def log_exists_def some_nonempty_def)
  have st: "replay_status_value x = replay_status_value y \<Longrightarrow> x = y" for x y by (cases x; cases y) simp_all
  show "closed_text (meta_status rid (rp_redis d)) \<Longrightarrow> meta_closed m"
    using require_meta_run(3) [OF m refl] st by (auto simp: closed_text_def meta_closed_def)
qed

lemma last_of_suffix:
  assumes "increasing (map fst es)" "after_id c es = xs" "xs \<noteq> []"
  shows "last xs = last es" "es \<noteq> []"
proof -
  have "es = up_to c es @ xs" using increasing_split [OF assms(1), of c] assms(2) by simp
  then show "last xs = last es" "es \<noteq> []" using assms(3) by (metis last_appendR, auto)
qed

text \<open>One iteration on a closed log.\<close>

lemma closed_iteration:
  fixes s :: replay_session
  defines "es m \<equiv> log_events (rm_request_id m) (rp_redis (rs_db s))"
  assumes ok: "log_ok (rm_request_id m) (rp_redis (rs_db s))" "log_exists (rm_request_id m) (rp_redis (rs_db s))"
    and cl: "closed_text (meta_status (rm_request_id m) (rp_redis (rs_db s)))"
    and m: "require_replay_meta (rm_request_id m) (rs_db s) = (Inr m, rs_db s)"
    and xs: "xs = after_id (stream_id_of (rs_cursor s)) (es m)"
    and c: "xs = [] \<longrightarrow> rm_last_event_id m \<in> {None, Some (rs_cursor s)}"
  shows "replay_iteration env m lock owner ReadReturns s =
    (Inr (length xs \<le> 100),
     if xs = [] then s
     else s\<lparr>rs_cursor := id_text (fst (last (take 100 xs))), rs_out := rs_out s @ map (event_chunk \<circ> event_of) (take 100 xs)\<rparr>)"
proof -
  let ?rid = "rm_request_id m" and ?ys = "take 100 xs"
  have frames: "list_all (\<lambda>e. \<exists>f. snd e = [(''frame'', f)]) (es m)" and inc: "increasing (map fst (es m))"
    using ok by (simp_all add: log_ok_def log_exists_def es_def)
  have rd: "read_entries ?rid ReadReturns (rs_cursor s) s = (Inr (map event_of ?ys), s)"
    using read_after_run [OF frames [unfolded es_def], of "rs_cursor s"] by (simp add: read_entries_def lift_db_state xs es_def)
  have closed: "meta_closed m" by (rule meta_last_event(2) [OF ok m cl])
  show ?thesis
  proof (cases "xs = []")
    case True
    then have "idle_part env m lock owner (rs_cursor s) s = (Inr True, s)"
      using c closed m by (auto simp: idle_part_def bindE_def lift_db_state ret_def)
    with True rd show ?thesis by (simp add: replay_iteration_def bindE_def gets_def)
  next
    case False
    define u where "u = s\<lparr>rs_cursor := id_text (fst (last ?ys)), rs_out := rs_out s @ map (event_chunk \<circ> event_of) ?ys\<rparr>"
    have "deliver (map event_of ?ys) s = (Inr (), u)" using False by (simp add: deliver_run u_def last_map event_of_def)
    moreover have "lift_db (require_replay_meta ?rid) u = (Inr m, u)" using m by (simp add: lift_db_state u_def)
    ultimately have run: "entries_part m (map event_of ?ys) s = (Inr (rm_last_event_id m = Some (id_text (fst (last ?ys)))), u)"
      using closed by (simp add: entries_part_def bindE_def gets_def ret_def u_def)
    have last: "rm_last_event_id m = Some (id_text (fst (last xs)))"
      using meta_last_event(1) [OF ok m] last_of_suffix [OF inc xs [symmetric] False] by (simp add: es_def)
    have "fst (last xs) = fst (last ?ys) \<longleftrightarrow> length xs \<le> 100"
    proof (cases "length xs \<le> 100")
      case long: False
      have "increasing (map fst xs)" using inc increasing_split [OF inc, of "stream_id_of (rs_cursor s)"] xs by (metis increasing_append map_append)
      then have "increasing (map fst ?ys @ map fst (drop 100 xs))" by (simp flip: map_append)
      moreover have "last ?ys \<in> set ?ys" "last xs \<in> set (drop 100 xs)" using False long last_drop [of 100 xs] last_in_set [of "drop 100 xs"] by simp_all
      ultimately have "id_less (fst (last ?ys)) (fst (last xs))" unfolding increasing_append by auto
      with long show ?thesis by (auto simp: id_less_irrefl)
    qed simp
    with run last rd False show ?thesis
      by (auto simp: replay_iteration_def bindE_def gets_def u_def id_text_inject)
  qed
qed

lemma closed_loop:
  assumes "log_ok (rm_request_id m) (rp_redis (rs_db s))" "log_exists (rm_request_id m) (rp_redis (rs_db s))"
    and "closed_text (meta_status (rm_request_id m) (rp_redis (rs_db s)))"
    and "require_replay_meta (rm_request_id m) (rs_db s) = (Inr m, rs_db s)"
    and "xs = after_id (stream_id_of (rs_cursor s)) (log_events (rm_request_id m) (rp_redis (rs_db s)))"
    and "xs = [] \<longrightarrow> rm_last_event_id m \<in> {None, Some (rs_cursor s)}" "length xs div 100 < n"
  shows "\<exists>c. replay_loop env m lock owner (replicate n ReadReturns) s =
    (Inr True, s\<lparr>rs_cursor := c, rs_out := rs_out s @ map (event_chunk \<circ> event_of) xs\<rparr>)"
  using assms
proof (induction n arbitrary: s xs)
  case (Suc n)
  note it = closed_iteration [OF Suc.prems(1-6), of env lock owner]
  show ?case
  proof (cases "length xs \<le> 100")
    case True
    then have "replay_loop env m lock owner (replicate (Suc n) ReadReturns) s = (Inr True, s\<lparr>
        rs_cursor := (if xs = [] then rs_cursor s else id_text (fst (last xs))), rs_out := rs_out s @ map (event_chunk \<circ> event_of) xs\<rparr>)"
      using it by (simp add: bindE_def ret_def)
    then show ?thesis by blast
  next
    case False
    define u where "u = s\<lparr>rs_cursor := id_text (fst (last (take 100 xs))), rs_out := rs_out s @ map (event_chunk \<circ> event_of) (take 100 xs)\<rparr>"
    have ne: "take 100 xs \<noteq> []" "xs \<noteq> []" using False by auto
    have it: "replay_iteration env m lock owner ReadReturns s = (Inr False, u)" using it False ne by (simp add: u_def)
    have db: "rs_db u = rs_db s" by (simp add: u_def)
    have "after_id (stream_id_of (rs_cursor u)) (log_events (rm_request_id m) (rp_redis (rs_db u))) = drop 100 xs"
      using after_cut(1) [OF log_ok_increasing [OF Suc.prems(1,2)], of "stream_id_of (rs_cursor s)" "take 100 xs" "drop 100 xs"] Suc.prems(5) ne
      by (simp add: u_def stream_id_of_text)
    moreover have "drop 100 xs \<noteq> []" "length (drop 100 xs) div 100 < n" using False Suc.prems(7) by auto
    ultimately have "\<exists>c. replay_loop env m lock owner (replicate n ReadReturns) u =
        (Inr True, u\<lparr>rs_cursor := c, rs_out := rs_out u @ map (event_chunk \<circ> event_of) (drop 100 xs)\<rparr>)"
      by (intro Suc.IH) (use Suc.prems(1-4) db in simp_all)
    then obtain c where "replay_loop env m lock owner (replicate n ReadReturns) u =
        (Inr True, u\<lparr>rs_cursor := c, rs_out := rs_out u @ map (event_chunk \<circ> event_of) (drop 100 xs)\<rparr>)"
      by blast
    then have "replay_loop env m lock owner (replicate n ReadReturns) u = (Inr True, s\<lparr>rs_cursor := c, rs_out := rs_out s @ map (event_chunk \<circ> event_of) xs\<rparr>)"
      using map_append [of "event_chunk \<circ> event_of" "take 100 xs" "drop 100 xs", symmetric] by (simp add: u_def)
    with it have "replay_loop env m lock owner (replicate (Suc n) ReadReturns) s =
        (Inr True, s\<lparr>rs_cursor := c, rs_out := rs_out s @ map (event_chunk \<circ> event_of) xs\<rparr>)" by (simp add: bindE_def)
    then show ?thesis by blast
  qed
qed simp

lemma cursor_settled:
  assumes ok: "log_ok rid (rp_redis d)" "log_exists rid (rp_redis d)" and m: "require_replay_meta rid d = (Inr m, d')"
    and c: "validate_replay_cursor m v = Inr c" and none: "after_id (stream_id_of c) (log_events rid (rp_redis d)) = []"
  shows "rm_last_event_id m \<in> {None, Some c}"
proof (cases "log_events rid (rp_redis d) = []")
  case False
  let ?l = "fst (last (log_events rid (rp_redis d)))"
  have l: "rm_last_event_id m = Some (id_text ?l)" using meta_last_event(1) [OF ok m] False by simp
  have "last (log_events rid (rp_redis d)) \<in> set (log_events rid (rp_redis d))" using False by simp
  then have le: "\<not> id_less (stream_id_of c) ?l" using none by (auto simp: after_id_def filter_empty_conv)
  have "\<not> id_less ?l (stream_id_of c)"
  proof (cases "c = ''0-0''")
    case True
    have "stream_id_of ''0-0'' = (0, 0)" by code_simp
    with True show ?thesis by (simp add: id_less_def)
  next
    case False
    with validated_cursor(2) [OF c] obtain l' where l': "rm_last_event_id m = Some l'" "\<forall>i. l' = id_text i \<longrightarrow> \<not> id_less i (stream_id_of c)"
      by blast
    from l'(2) [rule_format, of ?l] l'(1) l show ?thesis by simp
  qed
  with le id_less_linear have "?l = stream_id_of c" by blast
  with l validated_cursor(1) [OF c] show ?thesis by simp
qed (use meta_last_event(1) [OF ok m] in simp)

lemma closed_exists: "closed_text (meta_status rid s) \<Longrightarrow> log_exists rid s"
  by (auto simp: closed_text_def meta_status_def redis_hget_def redis_hgetall_def log_exists_def split: option.splits)

lemma fresh_log_ok: "\<not> log_exists rid s \<Longrightarrow> log_ok rid s"
  by (simp add: log_exists_def log_ok_def)

lemma require_meta_cong:
  assumes "require_replay_meta rid d = (Inr m, d)" "rp_redis e = rp_redis d"
  shows "require_replay_meta rid e = (Inr m, e)"
proof -
  have run: "require_replay_meta rid x =
      (if redis_hgetall (meta_key rid) (rp_redis x) = [] then Inl (AppError ''RESOURCE_NOT_FOUND'' ''stream request not found'')
       else parse_meta (redis_hgetall (meta_key rid) (rp_redis x)), x)" for x
    by (cases "parse_meta (redis_hgetall (meta_key rid) (rp_redis x))")
      (auto simp: require_replay_meta_def get_meta_def read_redis_def bindE_def eff_simps)
  show ?thesis using assms unfolding run by (auto split: if_splits)
qed

section \<open>Properties\<close>

text \<open>
  C28. Under every interleaving of claims, starts, appends, closes, lease renewals, lost-execution marks and
  expiries of the lease, from a state without the log and until its keys expire: the identifiers of the events of a log strictly increase,
  the recorded last event identifier is that of the last event, the byte count of the meta data is the total
  length of the stored frames, the status is one of the six, and a lease is held only while the log is running.\<close>

theorem replay_log_consistent:
  assumes "\<not> log_exists rid s" "log_steps rid s t" "log_exists rid t"
  shows "increasing (map fst (log_events rid t))
    \<and> redis_hget (meta_key rid) ''last_event_id'' t =
        (if log_events rid t = [] then None else Some (id_text (fst (last (log_events rid t)))))
    \<and> bytes_written (meta_key rid) t = log_bytes (log_events rid t)
    \<and> status_text (meta_status rid t)
    \<and> (redis_get (lease_key rid) t \<noteq> None \<longrightarrow> meta_status rid t = Some ''running'')"
  using log_steps_ok [OF assms(2) fresh_log_ok [OF assms(1)]] assms(3)
  by (simp add: log_ok_def log_exists_def redis_get_def)

text \<open>
  A closed log is final: whatever claims, starts, appends (forced ones too), closes, lost-execution marks and
  lease operations are tried afterwards, in any order, its meta data and its events stay as they are.\<close>

theorem closed_log_is_final:
  assumes "closed_text (meta_status rid s)" "log_steps rid s t"
  shows "redis_hgetall (meta_key rid) t = redis_hgetall (meta_key rid) s
    \<and> redis_entries (events_key rid) t = redis_entries (events_key rid) s"
  using closed_steps [OF assms(2,1)] by (simp add: same_log_def redis_hgetall_def redis_entries_def)


text \<open>
  C29. A client that reconnects to a closed log with an accepted cursor is served to the end: when the reads return,
  one iteration per hundred remaining events (and one more) is enough for \<open>stream_replay\<close> to return, and what it
  has sent are exactly the events after the cursor.\<close>

theorem stream_replay_terminates:
  assumes "\<not> log_exists (rm_request_id m) r0" "log_steps (rm_request_id m) r0 (rp_redis (rs_db s))"
    and "closed_text (meta_status (rm_request_id m) (rp_redis (rs_db s)))"
    and "require_replay_meta (rm_request_id m) (rs_db s) = (Inr m, rs_db s)"
    and "validate_replay_cursor m v = Inr c"
    and "length (after_id (stream_id_of c) (log_events (rm_request_id m) (rp_redis (rs_db s)))) div 100 < n"
  shows "\<exists>t. stream_replay env m v lock owner (replicate n ReadReturns) s = (Inr True, t)
    \<and> rs_out t = rs_out s @ map (event_chunk \<circ> event_of) (after_id (stream_id_of c) (log_events (rm_request_id m) (rp_redis (rs_db s))))"
proof -
  let ?rid = "rm_request_id m" and ?xs = "after_id (stream_id_of c) (log_events (rm_request_id m) (rp_redis (rs_db s)))"
  define u where "u = s\<lparr>rs_cursor := c, rs_db := (rs_db s)\<lparr>rp_subscribers := rp_subscribers (rs_db s) + 1\<rparr>\<rparr>"
  have db: "rp_redis (rs_db u) = rp_redis (rs_db s)" "rs_cursor u = c" "rs_out u = rs_out s" by (simp_all add: u_def)
  have ok: "log_ok ?rid (rp_redis (rs_db s))" using log_steps_ok [OF assms(2) fresh_log_ok [OF assms(1)]] .
  have ex: "log_exists ?rid (rp_redis (rs_db s))" using closed_exists [OF assms(3)] .
  have m: "require_replay_meta ?rid (rs_db u) = (Inr m, rs_db u)" using require_meta_cong [OF assms(4)] db(1) by blast
  have "\<exists>c'. replay_loop env m lock owner (replicate n ReadReturns) u =
      (Inr True, u\<lparr>rs_cursor := c', rs_out := rs_out u @ map (event_chunk \<circ> event_of) ?xs\<rparr>)"
    by (rule closed_loop) (use ok ex assms(3,6) m db cursor_settled [OF ok ex assms(4,5)] in simp_all)
  then obtain c' where "replay_loop env m lock owner (replicate n ReadReturns) u =
      (Inr True, u\<lparr>rs_cursor := c', rs_out := rs_out u @ map (event_chunk \<circ> event_of) ?xs\<rparr>)"
    by blast
  then show ?thesis
    using assms(5) db(3)
    by (simp add: stream_replay_def bindE_def liftR_def modify_def register_subscriber_def unregister_subscriber_def
        lift_db_state gets_def finallyE_def u_def)
qed

section \<open>A log of two events\<close>

definition log_env :: replay_env where
  "log_env = \<lparr> re_dump = (\<lambda>f. JStr ''frame''), re_validate = (\<lambda>j. Inr (error_frame INTERNAL ''e'')), re_loads = (\<lambda>t. Inr (JStr t)),
     re_iso = int_str, re_uniso = (\<lambda>t. Inr 0), re_replay_ttl = 3600, re_meta_ttl = 86400, re_max_bytes = 1000, re_lease_ttl = 60,
     re_lock_ttl = 1800, re_delta_max = 3, re_protocol = 2 \<rparr>"

definition empty_redis :: redis where
  "empty_redis = \<lparr> rd_strings = [], rd_hashes = [], rd_streams = [], rd_sets = [], rd_ttl = [], rd_millis = (\<lambda>n. 7) \<rparr>"

definition sample_claimed :: redis where
  "sample_claimed = snd (claim_script (meta_key ''r'') (events_key ''r'') (lease_key ''r'')
     (claim_fields ''r'' 1 2 ''t'' RK_TURN ''fp'' ''0'') 86400 empty_redis)"

definition sample_running :: redis where
  "sample_running = snd (set_running_script (meta_key ''r'') (lease_key ''r'') ''w'' 60 sample_claimed)"

definition sample_append :: "string \<Rightarrow> replay_status option \<Rightarrow> redis \<Rightarrow> redis" where
  "sample_append payload cs s = snd (append_script (meta_key ''r'') (events_key ''r'') (lease_key ''r'') payload (length payload) 1000 False
     (case cs of None \<Rightarrow> [] | Some st \<Rightarrow> replay_status_value st) ''1'' 86400 3600 s)"

definition sample_log :: redis where
  "sample_log = sample_append ''one'' None sample_running"

definition sample_closed :: redis where
  "sample_closed = sample_append ''two'' (Some RS_COMPLETED) sample_log"

definition log_session :: "redis \<Rightarrow> replay_session" where
  "log_session r = \<lparr> rs_db = \<lparr> rp_redis = r, rp_clock = (\<lambda>n. 0), rp_subscribers = 0 \<rparr>, rs_cursor = ''0-0'', rs_out = [] \<rparr>"

definition sample_meta :: replay_meta where
  "sample_meta = \<lparr> rm_request_id = ''r'', rm_user_id = 1, rm_session_id = 2, rm_turn_id = ''t'', rm_kind = RK_TURN, rm_fingerprint = ''fp'',
     rm_status = RS_COMPLETED, rm_last_event_id = Some ''7-1'', rm_bytes_written = 6, rm_created_at = ''0'', rm_finished_at = Some ''1'' \<rparr>"

lemma log_steps_snoc: "log_steps rid s t \<Longrightarrow> log_step rid t u \<Longrightarrow> log_steps rid s u"
  by (induction rule: log_steps.induct) (auto intro: log_steps.intros)

lemma sample_steps: "log_steps ''r'' empty_redis sample_log" "log_steps ''r'' sample_log sample_closed" "log_steps ''r'' empty_redis sample_closed"
proof -
  have claimed: "log_step ''r'' empty_redis sample_claimed" by (rule log_step.claim [OF sample_claimed_def])
  have running: "log_step ''r'' sample_claimed sample_running" by (rule log_step.running [OF sample_running_def])
  have app: "log_step ''r'' s (sample_append p cs s)" if "cs = None \<or> cs = Some RS_COMPLETED" for p cs s
    by (rule log_step.append [OF sample_append_def]) (use that in \<open>auto simp: CLOSED_STATUSES_def\<close>)
  show log: "log_steps ''r'' empty_redis sample_log"
    unfolding sample_log_def by (rule log_steps.step [OF claimed log_steps.step [OF running log_steps.step [OF app log_steps.stop]]]) simp
  show "log_steps ''r'' sample_log sample_closed" unfolding sample_closed_def by (auto intro: log_steps.intros app)
  show "log_steps ''r'' empty_redis sample_closed" unfolding sample_closed_def by (rule log_steps_snoc [OF log app]) simp
qed

lemma sample_facts:
  "\<not> log_exists ''r'' empty_redis" "log_exists ''r'' sample_log" "closed_text (meta_status ''r'' sample_closed)"
  "redis_get (lease_key ''r'') sample_log = Some ''w''"
  "log_events ''r'' sample_closed = [((7, 0), [(''frame'', ''one'')]), ((7, 1), [(''frame'', ''two'')])]"
  by code_simp+

theorem replay_log_consistent_witness:
  "redis_get (lease_key ''r'') sample_log = Some ''w'' \<and> meta_status ''r'' sample_log = Some ''running''
   \<and> bytes_written (meta_key ''r'') sample_log = log_bytes (log_events ''r'' sample_log)"
  using replay_log_consistent [OF sample_facts(1) sample_steps(1) sample_facts(2)] sample_facts(4) by simp

theorem closed_log_is_final_witness:
  "redis_entries (events_key ''r'') (sample_append ''late'' None sample_closed) = redis_entries (events_key ''r'') sample_closed"
proof -
  have "log_step ''r'' sample_closed (sample_append ''late'' None sample_closed)"
    by (rule log_step.append [OF sample_append_def]) simp
  from closed_log_is_final [OF sample_facts(3) log_steps.step [OF this log_steps.stop]] show ?thesis by simp
qed

lemma sample_start:
  "rm_request_id sample_meta = ''r''" "rp_redis (rs_db (log_session r)) = r" "rs_out (log_session r) = []" "rs_cursor (log_session r) = ''0-0''"
  by (simp_all add: log_session_def sample_meta_def)

lemma sample_ids: "stream_id_of ''0-0'' = (0, 0)" "stream_id_of ''7-0'' = (7, 0)" "id_text (7, 0) = ''7-0''" "id_text (7, Suc 0) = ''7-1''"
  by code_simp+

lemma sample_hash:
  "redis_hgetall (meta_key ''r'') sample_closed =
     [(''request_id'', ''r''), (''user_id'', ''1''), (''session_id'', ''2''), (''turn_id'', ''t''), (''kind'', ''turn''), (''fingerprint'', ''fp''),
      (''status'', ''completed''), (''bytes_written'', ''6''), (''created_at'', ''0''), (''last_event_id'', ''7-1''), (''finished_at'', ''1'')]"
  by code_simp

lemma event_number_canonical: "canonical_number t \<Longrightarrow> length t \<le> 4300 \<Longrightarrow> event_number t = Inr (int (decimal_nat t))"
  by (simp add: event_number_def int_of_canonical)

lemma sample_numbers: "event_number ''1'' = Inr 1" "event_number ''2'' = Inr 2" "event_number ''6'' = Inr 6" "event_number ''7'' = Inr 7" "event_number ''0'' = Inr 0"
proof -
  have "canonical_number ''1''" "canonical_number ''2''" "canonical_number ''6''" "canonical_number ''7''" "canonical_number ''0''"
    "decimal_nat ''1'' = 1" "decimal_nat ''2'' = 2" "decimal_nat ''6'' = 6" "decimal_nat ''7'' = 7" "decimal_nat ''0'' = 0"
    by code_simp+
  then show "event_number ''1'' = Inr 1" "event_number ''2'' = Inr 2" "event_number ''6'' = Inr 6" "event_number ''7'' = Inr 7" "event_number ''0'' = Inr 0"
    using event_number_canonical by simp_all
qed

lemma sample_meta_read:
  "require_replay_meta ''r'' (rs_db (log_session sample_closed)) = (Inr sample_meta, rs_db (log_session sample_closed))"
proof -
  have "parse_meta (redis_hgetall (meta_key ''r'') sample_closed) = Inr sample_meta"
    by (simp add: sample_hash parse_meta_def hash_field_def sample_numbers ReplayRequestKind_def ReplayStatus_def some_nonempty_def sample_meta_def)
  then show ?thesis
    by (simp add: require_replay_meta_def get_meta_def read_redis_def bindE_def eff_simps sample_start sample_hash)
qed

lemma sample_iteration:
  "replay_iteration log_env sample_meta None None ReadReturns (log_session sample_closed) =
     (Inr True, (log_session sample_closed)\<lparr>rs_cursor := ''7-1'', rs_out := [event_chunk (''7-0'', ''one''), event_chunk (''7-1'', ''two'')]\<rparr>)"
proof -
  let ?s = "log_session sample_closed"
  have ok: "log_ok (rm_request_id sample_meta) (rp_redis (rs_db ?s))" "log_exists (rm_request_id sample_meta) (rp_redis (rs_db ?s))"
    "closed_text (meta_status (rm_request_id sample_meta) (rp_redis (rs_db ?s)))"
    unfolding sample_start
    using log_steps_ok [OF sample_steps(3) fresh_log_ok [OF sample_facts(1)]] closed_exists [OF sample_facts(3)] sample_facts(3) .
  have m: "require_replay_meta (rm_request_id sample_meta) (rs_db ?s) = (Inr sample_meta, rs_db ?s)"
    using sample_meta_read by (simp only: sample_start)
  have xs: "log_events ''r'' sample_closed = after_id (stream_id_of (rs_cursor ?s)) (log_events (rm_request_id sample_meta) (rp_redis (rs_db ?s)))"
    by (simp add: sample_start sample_ids sample_facts(5) after_id_def id_less_def)
  have "log_events ''r'' sample_closed = [] \<longrightarrow> rm_last_event_id sample_meta \<in> {None, Some (rs_cursor ?s)}"
    by (simp add: sample_facts(5))
  from closed_iteration [OF ok m xs this, of log_env None None] show ?thesis
    by (simp add: sample_facts(5) sample_ids event_of_def sample_start)
qed


theorem stream_replay_terminates_witness:
  "\<exists>t. stream_replay log_env sample_meta (Some ''7-0'') None None [ReadReturns] (log_session sample_closed) = (Inr True, t)
     \<and> rs_out t = [event_chunk (''7-1'', ''two'')]"
proof -
  let ?s = "log_session sample_closed"
  have m: "require_replay_meta (rm_request_id sample_meta) (rs_db ?s) = (Inr sample_meta, rs_db ?s)"
    using sample_meta_read by (simp add: sample_start)
  have "strip ''7-0'' = ''7-0''" by (rule strip_plain) (simp_all add: plain_char_def)
  moreover have "split_at_char (CHR ''-'') ''7-0'' = (''7'', Some ''0'')" "split_at_char (CHR ''-'') ''7-1'' = (''7'', Some ''1'')"
      "EVENT_ID_RE ''7-0''" by code_simp+
  ultimately have c: "validate_replay_cursor sample_meta (Some ''7-0'') = Inr ''7-0''"
    by (simp add: validate_replay_cursor_def validate_event_id_def event_id_tuple_def sample_numbers tuple_greater_def sample_meta_def)
  have xs: "after_id (stream_id_of ''7-0'') (log_events ''r'' sample_closed) = [((7, 1), [(''frame'', ''two'')])]"
    by (simp add: sample_facts(5) sample_ids after_id_def id_less_def)
  have "\<exists>t. stream_replay log_env sample_meta (Some ''7-0'') None None (replicate 1 ReadReturns) ?s = (Inr True, t)
      \<and> rs_out t = rs_out ?s @ map (event_chunk \<circ> event_of) (after_id (stream_id_of ''7-0'') (log_events (rm_request_id sample_meta) (rp_redis (rs_db ?s))))"
    by (rule stream_replay_terminates [of sample_meta empty_redis ?s, OF _ _ _ m c])
      (use sample_facts(1,3) sample_steps(3) xs in \<open>simp_all add: sample_start\<close>)
  then show ?thesis by (simp add: sample_start xs event_of_def sample_ids(4))
qed

end
