(* ===== verification/Replay_Sse.thy ===== *)
theory Replay_Sse
  imports Replay_Stream
begin

text \<open>
  The text of a server-sent event: a frame written by \<open>encode_sse_frame\<close> is read back by
  \<open>decode_encoded_sse_frame\<close> when its JSON text is one line in the sense of \<open>str.splitlines\<close>, and cut at the
  first of the separators that \<open>json.dumps(ensure_ascii=False)\<close> does not escape.
\<close>

section \<open>Lines\<close>

definition no_breaks :: "string \<Rightarrow> bool" where
  "no_breaks s \<longleftrightarrow> (\<forall>i<length s. break_at (drop i s) = 0)"

definition breaking_byte :: "char \<Rightarrow> bool" where
  "breaking_byte c \<longleftrightarrow> (of_char c :: nat) \<in> {10, 11, 12, 13, 28, 29, 30, 194, 226}"

lemma char_of_iff: "n < 256 \<Longrightarrow> (char_of n = c) = (n = (of_char c :: nat))" for n :: nat
  by (metis char_of_char of_char_of mod_less)

lemma prefix_byte: "n < 256 \<Longrightarrow> prefix (bytes_of (n # ns)) (c # s) \<longleftrightarrow> n = (of_char c :: nat) \<and> prefix (bytes_of ns) s"
  by (simp add: bytes_of_def char_of_iff)

lemma prefix_bytes_Nil: "prefix (bytes_of ns) [] \<longleftrightarrow> ns = []" "prefix (bytes_of []) s"
  by (simp_all add: bytes_of_def)

lemma break_at_plain: "\<not> breaking_byte c \<Longrightarrow> break_at (c # s) = 0"
  by (auto simp: break_at_def breaking_byte_def prefix_byte prefix_bytes_Nil)

lemma break_at_append:
  assumes "break_at ys = 0" "ys \<noteq> []" "(of_char r :: nat) \<notin> {128, 133, 168, 169}"
  shows "break_at (ys @ r # rest) = 0"
proof -
  obtain c cs where c: "ys = c # cs" using assms(2) by (cases ys) auto
  have "prefix (bytes_of ns) (cs @ r # rest) \<longleftrightarrow> prefix (bytes_of ns) cs" if "set ns \<subseteq> {128, 133, 168, 169}" for ns
    using that
  proof (induction ns arbitrary: cs)
    case (Cons n ns)
    then show ?case using assms(3) by (cases cs) (auto simp: prefix_byte prefix_bytes_Nil)
  qed (simp add: prefix_bytes_Nil)
  from this [of "[133]"] this [of "[128, 168]"] this [of "[128, 169]"] assms(1) c show ?thesis
    by (auto simp: break_at_def prefix_byte prefix_bytes_Nil split: if_splits)
qed

lemma splitlines_skip:
  "no_breaks xs \<Longrightarrow> (of_char r :: nat) \<notin> {128, 133, 168, 169} \<Longrightarrow> splitlines_from acc (xs @ r # rest) = splitlines_from (acc @ xs) (r # rest)"
proof (induction xs arbitrary: acc)
  case (Cons x xs)
  have nb: "no_breaks xs"
    unfolding no_breaks_def
  proof (intro allI impI)
    fix i assume "i < length xs"
    with Cons.prems(1) [unfolded no_breaks_def, rule_format, of "Suc i"] show "break_at (drop i xs) = 0" by simp
  qed
  have "break_at (x # xs) = 0" using Cons.prems(1) by (auto simp: no_breaks_def dest: spec [of _ 0])
  from break_at_append [OF this _ Cons.prems(2)] have "break_at (x # (xs @ r # rest)) = 0" by simp
  then have "splitlines_from acc (x # (xs @ r # rest)) = splitlines_from (acc @ [x]) (xs @ r # rest)" by (simp only: splitlines_from.simps Let_def if_True refl)
  also have "\<dots> = splitlines_from ((acc @ [x]) @ xs) (r # rest)" by (rule Cons.IH [OF nb Cons.prems(2)])
  finally show ?case by (simp only: append_Cons append_assoc append_Nil)
qed simp

lemma no_breaks_Cons: "\<not> breaking_byte c \<Longrightarrow> no_breaks s \<Longrightarrow> no_breaks (c # s)"
  by (auto simp: no_breaks_def break_at_plain less_Suc_eq_0_disj)

lemma no_breaks_plain: "list_all (\<lambda>c. \<not> breaking_byte c) s \<Longrightarrow> no_breaks s"
  by (induction s) (auto intro: no_breaks_Cons simp: no_breaks_def [of "[]"])

lemma no_breaks_data: "no_breaks s \<Longrightarrow> no_breaks (''data: '' @ s)"
  by (simp add: no_breaks_Cons breaking_byte_def)

section \<open>Events\<close>

lemma newline_cut: "splitlines_from acc (newline @ s) = acc # splitlines_from [] s"
  by (simp add: newline_def break_at_def bytes_of_def)

lemma no_breaks_line:
  assumes "no_breaks xs"
  shows "splitlines_from [] (xs @ newline @ newline) = [xs, []]"
  using splitlines_skip [OF assms, of "char_of (10 :: nat)" "[]" newline] newline_cut [of xs newline] newline_cut [of "[]" "[]"]
  by (simp add: newline_def)

lemma data_value_data: "data_value (''data: '' @ s) = s"
  by (simp add: data_value_def)

lemma data_line: "prefix ''data:'' (''data: '' @ s)" "\<not> prefix ''data:'' []"
  by simp_all

lemma sse_data_line: "no_breaks s \<Longrightarrow> sse_data (''data: '' @ s @ newline @ newline) = [s]"
  using no_breaks_line [OF no_breaks_data, of s] data_value_data [of s] by (simp add: sse_data_def splitlines_def)


definition echo_env :: "json \<Rightarrow> stream_frame \<Rightarrow> replay_env" where
  "echo_env j f = \<lparr> re_dump = (\<lambda>g. if g = f then j else JNull), re_validate = (\<lambda>k. if k = j then Inr f else Inl (ValidationError [])),
     re_loads = (\<lambda>t. if t = json_text False '', '' '': '' j then Inr j else Inl (ValueError [])),
     re_iso = int_str, re_uniso = (\<lambda>t. Inr 0), re_replay_ttl = 3600, re_meta_ttl = 86400, re_max_bytes = 1000, re_lease_ttl = 60,
     re_lock_ttl = 1800, re_delta_max = 3, re_protocol = 2 \<rparr>"


text \<open>A separator that \<open>json.dumps\<close> leaves in a string cuts the data of the event.\<close>

definition unicode_breaks :: "string list" where
  "unicode_breaks = [bytes_of [194, 133], bytes_of [226, 128, 168], bytes_of [226, 128, 169]]"

lemma unicode_break_cut:
  assumes "sep \<in> set unicode_breaks"
  shows "splitlines_from acc (sep @ s) = acc # splitlines_from [] s"
  using assms by (auto simp: unicode_breaks_def bytes_of_def break_at_def char_of_iff)

lemma unicode_break_head:
  assumes "sep \<in> set unicode_breaks"
  shows "\<exists>r rest. sep = r # rest \<and> (of_char r :: nat) \<notin> {128, 133, 168, 169}"
  using assms by (auto simp: unicode_breaks_def bytes_of_def)

theorem separator_cuts_data:
  assumes "no_breaks a" "no_breaks b" "\<not> prefix ''data:'' b" "sep \<in> set unicode_breaks"
  shows "sse_data (''data: '' @ (a @ sep @ b) @ newline @ newline) = [a]"
proof -
  obtain r rest where sep: "sep = r # rest" "(of_char r :: nat) \<notin> {128, 133, 168, 169}" using unicode_break_head [OF assms(4)] by blast
  have "splitlines_from [] ((''data: '' @ a) @ sep @ b @ newline @ newline) = splitlines_from (''data: '' @ a) (sep @ b @ newline @ newline)"
    using splitlines_skip [OF no_breaks_data [OF assms(1)] sep(2), of "[]" "rest @ b @ newline @ newline"] sep(1) by simp
  also have "\<dots> = (''data: '' @ a) # splitlines_from [] (b @ newline @ newline)" by (rule unicode_break_cut [OF assms(4)])
  also have "\<dots> = [''data: '' @ a, b, []]" using no_breaks_line [OF assms(2)] by simp
  finally show ?thesis using assms(3) data_value_data [of a] by (simp add: sse_data_def splitlines_def)
qed

end
