(* ===== verification/Replay_Execution.thy ===== *)
theory Replay_Execution
  imports Replay_Delivery Replay_Sse
begin

text \<open>
  The execution of a turn: whatever its stream does, the log ends closed and the locks are released; and
  the publisher, which joins answer tokens, stores the frames of the turn.
\<close>

section \<open>Writers as steps of the log\<close>

definition ps_redis :: "publisher_state \<Rightarrow> redis" where
  "ps_redis s = rp_redis (ps_db s)"

definition terminal_ok :: "publisher \<Rightarrow> bool" where
  "terminal_ok p \<longleftrightarrow> (\<forall>st. pb_terminal p = Some st \<longrightarrow> st \<in> CLOSED_STATUSES)"

text \<open>An operation that changes the log only by its scripts and keeps a closed status in the publisher.\<close>

definition writes_log :: "string \<Rightarrow> (publisher_state, 'a) eff \<Rightarrow> bool" where
  "writes_log rid m \<longleftrightarrow> (\<forall>s r t. m s = (r, t) \<longrightarrow> terminal_ok (ps_pub s) \<longrightarrow>
     log_steps rid (ps_redis s) (ps_redis t) \<and> terminal_ok (ps_pub t))"

lemma writes_logD:
  assumes "writes_log rid m" "m s = (r, t)" "terminal_ok (ps_pub s)"
  shows "log_steps rid (ps_redis s) (ps_redis t)" "terminal_ok (ps_pub t)"
  using assms by (auto simp: writes_log_def)

lemma log_steps_trans: "log_steps rid s t \<Longrightarrow> log_steps rid t u \<Longrightarrow> log_steps rid s u"
  by (induction rule: log_steps.induct) (auto intro: log_steps.intros)

lemma log_step_one: "log_step rid s t \<Longrightarrow> log_steps rid s t"
  by (auto intro: log_steps.intros)

named_theorems writes_intro

lemma writes_log_bind [writes_intro]:
  assumes "writes_log rid m" "\<And>x. writes_log rid (f x)"
  shows "writes_log rid (bindE m f)"
  unfolding writes_log_def
proof (intro allI impI)
  fix s r t
  assume run: "bindE m f s = (r, t)" and ok: "terminal_ok (ps_pub s)"
  obtain q u where m: "m s = (q, u)" by fastforce
  have u: "log_steps rid (ps_redis s) (ps_redis u)" "terminal_ok (ps_pub u)" using assms(1) m ok by (auto simp: writes_log_def)
  show "log_steps rid (ps_redis s) (ps_redis t) \<and> terminal_ok (ps_pub t)"
  proof (cases q)
    case (Inl e)
    with run m u show ?thesis by (simp add: bindE_def)
  next
    case (Inr x)
    then have "f x u = (r, t)" using run m by (simp add: bindE_def)
    then have "log_steps rid (ps_redis u) (ps_redis t)" "terminal_ok (ps_pub t)" using assms(2) [of x] u(2) by (auto simp: writes_log_def)
    with u(1) show ?thesis by (blast intro: log_steps_trans)
  qed
qed

lemma writes_log_catch [writes_intro]:
  assumes "writes_log rid m" "\<And>e. writes_log rid (h e)"
  shows "writes_log rid (catchE m h)"
  unfolding writes_log_def
proof (intro allI impI)
  fix s r t
  assume run: "catchE m h s = (r, t)" and ok: "terminal_ok (ps_pub s)"
  obtain q u where m: "m s = (q, u)" by fastforce
  have u: "log_steps rid (ps_redis s) (ps_redis u)" "terminal_ok (ps_pub u)" using assms(1) m ok by (auto simp: writes_log_def)
  show "log_steps rid (ps_redis s) (ps_redis t) \<and> terminal_ok (ps_pub t)"
  proof (cases q)
    case (Inr x)
    with run m u show ?thesis by (simp add: catchE_def)
  next
    case (Inl e)
    then have "h e u = (r, t)" using run m by (simp add: catchE_def)
    then have "log_steps rid (ps_redis u) (ps_redis t)" "terminal_ok (ps_pub t)" using assms(2) [of e] u(2) by (auto simp: writes_log_def)
    with u(1) show ?thesis by (blast intro: log_steps_trans)
  qed
qed

lemma writes_log_pure [writes_intro]:
  "writes_log rid (ret x)" "writes_log rid (raise e)" "writes_log rid (liftR r)" "writes_log rid (gets g)" "writes_log rid (ensure c e)"
  by (auto simp: writes_log_def eff_simps intro: log_steps.stop)

lemma writes_log_on_pub [writes_intro]: "(\<And>p. terminal_ok p \<Longrightarrow> terminal_ok (f p)) \<Longrightarrow> writes_log rid (on_pub f)"
  by (auto simp: writes_log_def on_pub_def modify_def ps_redis_def intro: log_steps.stop)

lemma writes_log_via:
  assumes "\<And>d r e. m d = (r, e) \<Longrightarrow> log_steps rid (rp_redis d) (rp_redis e)"
  shows "writes_log rid (via_store m)"
  using assms by (auto simp: writes_log_def via_store_def ps_redis_def split: prod.splits)

lemma writes_log_append [writes_intro]:
  assumes "\<And>st. cs = Some st \<Longrightarrow> st \<in> CLOSED_STATUSES"
  shows "writes_log rid (via_store (append_frame env rid frame force cs))"
proof (rule writes_log_via, rule log_step_one)
  fix d r e
  let ?p = "frame_payload env frame"
  assume "append_frame env rid frame force cs d = (r, e)"
  then have "rp_redis e = snd (append_script (meta_key rid) (events_key rid) (lease_key rid) ?p (length ?p) (re_max_bytes env) force
      (case cs of None \<Rightarrow> [] | Some st \<Rightarrow> replay_status_value st) (re_iso env (rp_clock d 0)) (re_meta_ttl env) (re_replay_ttl env) (rp_redis d))"
    by (auto simp: append_frame_def Let_def bindE_def rp_now_def on_redis_def liftR_def raise_def ret_def
        split: prod.splits sum.splits append_reply.splits)
  then show "log_step rid (rp_redis d) (rp_redis e)" by (rule log_step.append) (rule assms)
qed

lemma writes_log_if [writes_intro]: "(c \<Longrightarrow> writes_log rid m) \<Longrightarrow> (\<not> c \<Longrightarrow> writes_log rid n) \<Longrightarrow> writes_log rid (if c then m else n)"
  by simp

lemma writes_log_pub:
  assumes "\<And>p. terminal_ok p \<Longrightarrow> writes_log rid (f p)"
  shows "writes_log rid (bindE (gets ps_pub) f)"
  using assms by (auto simp: writes_log_def bindE_basic)

section \<open>The operations of the publisher and of the turn\<close>

lemma observe_terminal: "terminal_ok p \<Longrightarrow> terminal_ok (observe frame p)"
  by (auto simp: terminal_ok_def observe_def CLOSED_STATUSES_def)

lemma status_for_closed: "terminal_ok p \<Longrightarrow> terminal_status_for frame p = Some st \<Longrightarrow> st \<in> CLOSED_STATUSES"
  by (auto simp: terminal_ok_def terminal_status_for_def CLOSED_STATUSES_def split: if_splits option.splits)

lemma writes_flush [writes_intro]: "writes_log rid (flush_locked env rid)"
  unfolding flush_locked_def by (intro writes_intro) (simp_all add: terminal_ok_def)

lemma writes_flush_error [writes_intro]: "writes_log rid raise_flush_error"
  unfolding raise_flush_error_def
  by (intro writes_log_bind) (auto intro!: writes_intro simp: terminal_ok_def split: option.splits)

lemma writes_publish [writes_intro]: "writes_log rid (publish env rid frame)"
proof -
  have tok: "writes_log rid (publish_token env rid v t)" for v t
    unfolding publish_token_def by (intro writes_intro) (simp_all add: terminal_ok_def)
  have other: "writes_log rid (publish_other env rid frame)" for frame
    unfolding publish_other_def
    by (intro writes_log_bind [OF writes_flush] writes_log_pub) (auto intro!: writes_intro intro: status_for_closed observe_terminal)
  show ?thesis unfolding publish_def
    by (intro writes_log_bind [OF writes_flush_error] writes_log_bind [OF writes_log_pure(4)] writes_log_if writes_log_pure)
      (auto intro: tok other split: stream_frame.splits token_channel.splits)
qed

lemma writes_timer [writes_intro]: "writes_log rid (flush_after_delay env rid)"
  unfolding flush_after_delay_def by (intro writes_intro) (simp_all add: terminal_ok_def)

lemma writes_consume [writes_intro]: "writes_log rid (consume env rid es)"
  by (induction env rid es rule: consume.induct) (auto intro!: writes_intro)

lemma writes_failure [writes_intro]: "writes_log rid (append_failure env rid message code)"
  unfolding append_failure_def by (intro writes_intro) (auto simp: terminal_ok_def CLOSED_STATUSES_def)

lemma writes_close [writes_intro]: "writes_log rid (publisher_close env rid)"
  unfolding publisher_close_def by (intro writes_intro)

lemma set_running_step:
  assumes "set_running env rid owner d = (r, e)"
  shows "log_steps rid (rp_redis d) (rp_redis e)"
proof (rule log_step_one, rule log_step.running)
  show "rp_redis e = snd (set_running_script (meta_key rid) (lease_key rid) owner (re_lease_ttl env) (rp_redis d))"
    using assms by (auto simp: set_running_def bindE_def on_redis_def ensure_def split: prod.splits)
qed

lemma writes_status: "writes_log rid (turn_status env rid)"
  unfolding turn_status_def
  by (intro writes_log_bind [OF writes_close] writes_log_bind [OF writes_log_pure(4)]) (auto intro!: writes_intro split: option.splits)

lemma writes_running [writes_intro]: "writes_log rid (via_store (set_running env rid owner))"
  by (rule writes_log_via [OF set_running_step])

lemma writes_body: "writes_log rid (turn_body env rid owner es fin)"
  unfolding turn_body_def
  by (intro writes_log_bind [OF writes_running] writes_log_bind [OF writes_consume])
    (auto intro!: writes_intro writes_status split: turn_end.splits)

lemma writes_handler: "writes_log rid (turn_handler env rid e)"
  by (cases e) (auto intro!: writes_intro)

lemma status_closed:
  assumes "turn_body env rid owner es fin s = (Inr st, t)" "terminal_ok (ps_pub s)"
  shows "st \<in> CLOSED_STATUSES"
proof -
  obtain u where "turn_status env rid u = (Inr st, t)" "terminal_ok (ps_pub u)"
  proof -
    obtain a where a: "via_store (set_running env rid owner) s = (Inr (), a)" and
      b: "bindE (consume env rid es) (\<lambda>_. case fin of
       StreamEnds lost \<Rightarrow> bindE (ensure (\<not> lost) lease_lost) (\<lambda>_. turn_status env rid)
     | StreamRaises e \<Rightarrow> raise e
     | StreamCancelled \<Rightarrow> raise CancelledError) a = (Inr st, t)"
      using assms(1) by (auto simp: turn_body_def bindE_eq_Inr)
    then obtain u where u: "consume env rid es a = (Inr (), u)" and c: "(case fin of
       StreamEnds lost \<Rightarrow> bindE (ensure (\<not> lost) lease_lost) (\<lambda>_. turn_status env rid)
     | StreamRaises e \<Rightarrow> raise e
     | StreamCancelled \<Rightarrow> raise CancelledError) u = (Inr st, t)"
      by (auto simp: bindE_eq_Inr)
    have "terminal_ok (ps_pub a)" using writes_logD(2) [OF writes_running a assms(2)] .
    then have "terminal_ok (ps_pub u)" using writes_logD(2) [OF writes_consume u] by blast
    moreover have "turn_status env rid u = (Inr st, t)"
      using c by (auto simp: raise_def bindE_basic split: turn_end.splits if_splits)
    ultimately show ?thesis using that by blast
  qed
  then obtain v where v: "publisher_close env rid u = (Inr (), v)" and st: "(case pb_terminal (ps_pub v) of
       Some st \<Rightarrow> ret st
     | None \<Rightarrow>
         if pb_saw_pending (ps_pub v) then ret RS_INTERRUPTED
         else bindE (append_failure env rid ''Agent stream ended without a terminal frame'' INTERNAL) (\<lambda>_. ret RS_FAILED)) v = (Inr st, t)"
    by (auto simp: turn_status_def bindE_eq_Inr gets_def)
  have "terminal_ok (ps_pub v)" using writes_logD(2) [OF writes_close v \<open>terminal_ok (ps_pub u)\<close>] .
  with st show ?thesis
    by (auto simp: bindE_eq_Inr ret_def CLOSED_STATUSES_def terminal_ok_def split: option.splits if_splits)
qed

section \<open>The end of a turn\<close>

lemma finish_closes:
  assumes ok: "log_ok rid s" "log_exists rid s" and st: "st \<in> CLOSED_STATUSES"
    and t: "t = snd (finish_script (meta_key rid) (events_key rid) (lease_key rid) (replay_status_value st) finished ttl ttl' s)"
  shows "closed_text (meta_status rid t)" "redis_get (lease_key rid) t = None"
proof -
  show "redis_get (lease_key rid) t = None" using t by (simp add: finish_script_def Let_def redis_get_def redis_del_get)
  show "closed_text (meta_status rid t)"
  proof (cases "active_text (redis_hget (meta_key rid) ''status'' s)")
    case False
    then have "closed_text (meta_status rid s)" using ok active_or_closed by (auto simp: log_ok_def log_exists_def meta_status_def)
    with same_log_facts(1) [OF finish_closed_log [OF False t]] show ?thesis by simp
  next
    case True
    define z where "z = redis_hset (meta_key rid) [(''status'', replay_status_value st), (''finished_at'', finished)] s"
    have "same_log rid z t"
      using True t by (simp add: finish_script_def Let_def same_log_trans_del z_def [symmetric]) (simp add: same_log_def)
    from same_log_facts(1) [OF this] st show ?thesis by (auto simp: z_def meta_status_def hget_hset closed_text_def)
  qed
qed

text \<open>What holds after the cleanup of a turn.\<close>

definition turn_over :: "string \<Rightarrow> int \<Rightarrow> string \<Rightarrow> redis \<Rightarrow> bool" where
  "turn_over rid session turn s \<longleftrightarrow> closed_text (meta_status rid s) \<and> redis_get (lease_key rid) s = None
     \<and> redis_get (turn_key session) s \<noteq> Some turn \<and> \<not> redis_exists (cancel_key session turn) s"

lemma redis_get_del: "redis_get j (redis_del k s) = (if j = k then None else redis_get j s)"
  by (simp add: redis_get_def redis_del_get)

lemma release_script_effects:
  "redis_get j (snd (release_script k v s)) = (if j = k \<and> redis_get k s = Some v then None else redis_get j s)"
  "redis_exists j (snd (release_script k v s)) \<Longrightarrow> redis_exists j s"
  "j \<noteq> k \<Longrightarrow> dict_get (rd_hashes (snd (release_script k v s))) j = dict_get (rd_hashes s) j"
  "j \<noteq> k \<Longrightarrow> dict_get (rd_streams (snd (release_script k v s))) j = dict_get (rd_streams s) j"
  by (auto simp: release_script_def redis_get_def redis_exists_def redis_del_def delete_conv' split: if_splits)

lemma cleanup_over:
  assumes ok: "log_ok rid (ps_redis s)" "log_exists rid (ps_redis s)" and st: "st \<in> CLOSED_STATUSES"
    and run: "turn_cleanup env rid session turn st s = (r, t)"
  shows "turn_over rid session turn (ps_redis t)" "log_steps rid (ps_redis s) (ps_redis t)" "r = Inr ()"
proof -
  define x where "x = snd (finish_script (meta_key rid) (events_key rid) (lease_key rid) (replay_status_value st)
      (re_iso env (rp_clock (ps_db s) 0)) (re_meta_ttl env) (re_replay_ttl env) (ps_redis s))"
  define y where "y = redis_del (cancel_key session turn) x"
  define z where "z = snd (release_script (turn_key session) turn y)"
  have t: "ps_redis t = z" "r = Inr ()"
    using run by (auto simp: turn_cleanup_def bindE_def via_store_def finish_def clear_cancel_def write_redis_def on_redis_def rp_now_def
        modify_def ret_def ps_redis_def x_def y_def z_def split: prod.splits)
  note closes = finish_closes [OF ok st x_def]
  have same: "same_log rid x z"
    using lock_keys_differ by (auto simp: same_log_def z_def y_def release_script_effects redis_del_get)
  have get: "redis_get (lease_key rid) z = redis_get (lease_key rid) x"
    using lock_keys_differ by (simp add: z_def release_script_effects y_def redis_get_del)
  show "turn_over rid session turn (ps_redis t)"
    unfolding turn_over_def t(1)
  proof (intro conjI)
    show "closed_text (meta_status rid z)" using closes(1) same_log_facts(1) [OF same] by simp
    show "redis_get (lease_key rid) z = None" using closes(2) get by simp
    show "redis_get (turn_key session) z \<noteq> Some turn" by (auto simp: z_def release_script_effects split: if_splits)
    have "\<not> redis_exists (cancel_key session turn) y" by (simp add: y_def redis_exists_def redis_del_def delete_conv')
    then show "\<not> redis_exists (cancel_key session turn) z" unfolding z_def by (blast dest: release_script_effects(2))
  qed
  have "log_step rid (ps_redis s) x" by (rule log_step.finish [OF x_def st])
  moreover have "log_step rid x z" using same get by (intro log_step.other) (simp add: foreign_def same_log_def redis_get_def)
  ultimately show "log_steps rid (ps_redis s) (ps_redis t)" unfolding t(1) by (blast intro: log_steps.intros)
  show "r = Inr ()" by (rule t(2))
qed

lemma execution_ends:
  assumes ok: "log_ok rid (ps_redis s)" "log_exists rid (ps_redis s)"
    and run: "run_canvas_replay_execution env rid session turn owner es fin s = (r, t)"
  shows "turn_over rid session turn (ps_redis t)" "log_steps rid (ps_redis s) (ps_redis t)"
proof -
  define s0 where "s0 = s\<lparr>ps_pub := publisher_init env\<rparr>"
  have s0: "ps_redis s0 = ps_redis s" "terminal_ok (ps_pub s0)" by (simp_all add: s0_def ps_redis_def publisher_init_def terminal_ok_def)
  obtain q u where body: "turn_body env rid owner es fin s0 = (q, u)" by fastforce
  have u: "log_steps rid (ps_redis s) (ps_redis u)" "terminal_ok (ps_pub u)" 
    using writes_logD [OF writes_body body s0(2)] s0(1) by simp_all
  obtain v st w where v: "log_steps rid (ps_redis s) (ps_redis v)" "st \<in> CLOSED_STATUSES" "turn_cleanup env rid session turn st v = (w, t)"
  proof (cases q)
    case (Inr st)
    with run body have "turn_cleanup env rid session turn st u = (r, t)" by (simp add: run_canvas_replay_execution_def s0_def)
    with that u(1) status_closed [OF body [unfolded Inr] s0(2)] show ?thesis by blast
  next
    case (Inl e)
    obtain p v where v: "turn_handler env rid e u = (p, v)" by fastforce
    then have "log_steps rid (ps_redis u) (ps_redis v)" by (rule writes_logD(1) [OF writes_handler _ u(2)])
    moreover have "\<exists>w. turn_cleanup env rid session turn RS_FAILED v = (w, t)"
      using run body Inl v by (auto simp: run_canvas_replay_execution_def s0_def finallyE_def split: prod.splits sum.splits)
    ultimately show ?thesis using that u(1) by (auto simp: CLOSED_STATUSES_def intro: log_steps_trans)
  qed
  have "log_ok rid (ps_redis v)" "log_exists rid (ps_redis v)" using log_steps_ok [OF v(1) ok(1)] log_steps_grow [OF v(1) ok(2)] by simp_all
  from cleanup_over [OF this v(2,3)] v(1) show "turn_over rid session turn (ps_redis t)" "log_steps rid (ps_redis s) (ps_redis t)"
    by (blast intro: log_steps_trans)+
qed

text \<open>
  C11. Whatever the stream of a turn does - it ends, raises, is cancelled, yields text that does not decode, overruns
  the size limit, or loses its lease - after \<open>run_canvas_replay_execution\<close> the log of the request is closed, the events
  stored before are still there, the execution lease is gone, the lock of the session is not held by the turn any more
  and the request to cancel it is cleared.\<close>

theorem execution_closes_log:
  assumes "\<not> log_exists rid r0" "log_steps rid r0 (ps_redis s)" "log_exists rid (ps_redis s)"
    and "run_canvas_replay_execution env rid session turn owner es fin s = (r, t)"
  shows "closed_text (meta_status rid (ps_redis t))
    \<and> (\<exists>new. log_events rid (ps_redis t) = log_events rid (ps_redis s) @ new)
    \<and> redis_get (lease_key rid) (ps_redis t) = None
    \<and> redis_get (turn_key session) (ps_redis t) \<noteq> Some turn
    \<and> \<not> redis_exists (cancel_key session turn) (ps_redis t)"
  using execution_ends [OF log_steps_ok [OF assms(2) fresh_log_ok [OF assms(1)]] assms(3,4)] log_steps_grow [OF _ assms(3)]
  by (auto simp: turn_over_def)

section \<open>What the publisher stores\<close>

text \<open>The content of a list of frames: adjacent answer tokens count as one text.\<close>

definition add_text :: "(string + stream_frame) list \<Rightarrow> string \<Rightarrow> (string + stream_frame) list" where
  "add_text c t =
     (if c = [] then [Inl t]
      else case last c of Inl u \<Rightarrow> butlast c @ [Inl (u @ t)] | Inr f \<Rightarrow> c @ [Inl t])"

fun add_frame :: "(string + stream_frame) list \<Rightarrow> stream_frame \<Rightarrow> (string + stream_frame) list" where
  "add_frame c (TokenFrame v ANSWER t sk) = add_text c t"
| "add_frame c f = c @ [Inr f]"

definition content :: "stream_frame list \<Rightarrow> (string + stream_frame) list" where
  "content fs = foldl add_frame [] fs"

text \<open>The frames up to and with the first that ends the turn.\<close>

definition is_terminal :: "stream_frame \<Rightarrow> bool" where
  "is_terminal f \<longleftrightarrow> frame_type f \<in> {FT_DONE, FT_ERROR, FT_CANCELLED}"

fun until_terminal :: "stream_frame list \<Rightarrow> stream_frame list" where
  "until_terminal [] = []"
| "until_terminal (f # fs) = (if is_terminal f then [f] else f # until_terminal fs)"

text \<open>The frames a turn yields, without heartbeats, as far as its chunks decode.\<close>

fun turn_frames :: "replay_env \<Rightarrow> turn_event list \<Rightarrow> stream_frame list" where
  "turn_frames env [] = []"
| "turn_frames env (FlushTimer # es) = turn_frames env es"
| "turn_frames env (TurnChunk lost chunk # es) =
     (case decode_encoded_sse_frame env chunk of
        Inl e \<Rightarrow> []
      | Inr f \<Rightarrow> (if frame_type f = FT_HEARTBEAT then [] else [f]) @ turn_frames env es)"

lemma add_text_again: "add_text (add_text c t) u = add_text c (t @ u)"
  by (auto simp: add_text_def split: sum.splits)

lemma content_snoc: "content (fs @ [f]) = add_frame (content fs) f"
  by (simp add: content_def)

lemma add_frame_other: "(\<And>v t sk. f \<noteq> TokenFrame v ANSWER t sk) \<Longrightarrow> add_frame c f = c @ [Inr f]"
  by (cases "(c, f)" rule: add_frame.cases) auto

text \<open>The stored frames of a log.\<close>

definition stored_frames :: "string \<Rightarrow> redis \<Rightarrow> string list" where
  "stored_frames rid r = map (\<lambda>e. case dict_get (snd e) ''frame'' of None \<Rightarrow> [] | Some f \<Rightarrow> f) (log_events rid r)"

lemma append_frame_stores:
  assumes "append_frame env rid f force cs d = (Inr i, e)"
  shows "stored_frames rid (rp_redis e) = stored_frames rid (rp_redis d) @ [frame_payload env f]"
proof -
  let ?p = "frame_payload env f"
  let ?x = "append_script (meta_key rid) (events_key rid) (lease_key rid) ?p (length ?p) (re_max_bytes env) force
      (case cs of None \<Rightarrow> [] | Some st \<Rightarrow> replay_status_value st) (re_iso env (rp_clock d 0)) (re_meta_ttl env) (re_replay_ttl env) (rp_redis d)"
  have run: "fst ?x = Inr (ReplyOk i)" "rp_redis e = snd ?x"
    using assms by (auto simp: append_frame_def Let_def bindE_def rp_now_def on_redis_def liftR_def raise_def ret_def
        split: prod.splits sum.splits append_reply.splits)
  obtain j y where xadd: "redis_xadd (events_key rid) [(''frame'', ?p)] (rp_redis d) = (j, y)" by fastforce
  have "redis_entries (events_key rid) (snd ?x) = redis_entries (events_key rid) y"
    using run(1) xadd keys_differ
    by (auto simp: append_script_def append_entry_def Let_def redis_entries_def redis_del_get split: if_splits)
  moreover have "redis_entries (events_key rid) y = redis_entries (events_key rid) (rp_redis d) @
      [(next_id (rd_millis (rp_redis d) 0) (redis_entries (events_key rid) (rp_redis d)), [(''frame'', ?p)])]"
    using entries_xadd(1) [of "events_key rid" "events_key rid" "[(''frame'', ?p)]" "rp_redis d"] xadd by simp
  ultimately show ?thesis using run(2) by (simp add: stored_frames_def log_events_def)
qed

text \<open>What has been stored since \<open>old\<close>, and what still waits in the publisher, have the content of \<open>fs\<close>.\<close>

definition published :: "replay_env \<Rightarrow> string \<Rightarrow> string list \<Rightarrow> stream_frame list \<Rightarrow> publisher_state \<Rightarrow> bool" where
  "published env rid old fs s \<longleftrightarrow>
     (\<exists>gs. stored_frames rid (ps_redis s) = old @ map (frame_payload env) gs
        \<and> content fs = (if pb_parts (ps_pub s) = [] then content gs else add_text (content gs) (concat (pb_parts (ps_pub s)))))"

lemma flush_published:
  assumes "flush_locked env rid s = (Inr (), t)" "published env rid old fs s"
  shows "published env rid old fs t" "pb_parts (ps_pub t) = []"
    "pb_terminal (ps_pub t) = pb_terminal (ps_pub s)" "pb_flush_error (ps_pub t) = pb_flush_error (ps_pub s)"
proof -
  let ?p = "ps_pub s"
  define s1 where "s1 = s\<lparr>ps_pub := ?p\<lparr>pb_flush_task := False\<rparr>\<rparr>"
  define s2 where "s2 = s1\<lparr>ps_pub := (ps_pub s1)\<lparr>pb_parts := [], pb_chars := 0\<rparr>\<rparr>"
  let ?f = "TokenFrame (pb_version ?p) ANSWER (concat (pb_parts ?p)) no_speaker"
  have "published env rid old fs t \<and> pb_parts (ps_pub t) = [] \<and> pb_terminal (ps_pub t) = pb_terminal ?p \<and> pb_flush_error (ps_pub t) = pb_flush_error ?p"
  proof (cases "pb_parts ?p = []")
    case True
    then have "t = s1" using assms(1) by (simp add: flush_locked_def on_pub_def bindE_basic ret_def s1_def)
    with True assms(2) show ?thesis by (simp add: s1_def published_def ps_redis_def)
  next
    case False
    then have "bindE (via_store (append_frame env rid ?f False None)) (\<lambda>_. ret ()) s2 = (Inr (), t)"
      using assms(1) by (simp add: flush_locked_def on_pub_def bindE_basic s1_def s2_def)
    then obtain i d where a: "append_frame env rid ?f False None (ps_db s) = (Inr i, d)" "t = s2\<lparr>ps_db := d\<rparr>"
      by (auto simp: bindE_eq_Inr via_store_def ret_def s1_def s2_def split: prod.splits)
    obtain gs where gs: "stored_frames rid (ps_redis s) = old @ map (frame_payload env) gs" "content fs = add_text (content gs) (concat (pb_parts ?p))"
      using assms(2) False by (auto simp: published_def)
    have "stored_frames rid (ps_redis t) = old @ map (frame_payload env) (gs @ [?f])"
      using append_frame_stores [OF a(1)] gs(1) a(2) by (simp add: ps_redis_def)
    moreover have "content fs = content (gs @ [?f])" using gs(2) by (simp add: content_snoc)
    ultimately have "published env rid old fs t"
      using a(2) unfolding published_def by (intro exI [of _ "gs @ [?f]"]) (simp add: s2_def s1_def)
    then show ?thesis using a(2) by (simp add: s2_def s1_def)
  qed
  then show "published env rid old fs t" "pb_parts (ps_pub t) = []"
    "pb_terminal (ps_pub t) = pb_terminal (ps_pub s)" "pb_flush_error (ps_pub t) = pb_flush_error (ps_pub s)" by simp_all
qed

lemma flush_keeps_error: "flush_locked env rid s = (r, t) \<Longrightarrow> pb_flush_error (ps_pub t) = pb_flush_error (ps_pub s)"
  by (auto simp: flush_locked_def on_pub_def bindE_def modify_def gets_def via_store_def ret_def split: if_splits prod.splits sum.splits)

text \<open>The frames \<open>fs\<close> have been published.\<close>

definition frames_in :: "replay_env \<Rightarrow> string \<Rightarrow> string list \<Rightarrow> stream_frame list \<Rightarrow> publisher_state \<Rightarrow> bool" where
  "frames_in env rid old fs s \<longleftrightarrow> pb_flush_error (ps_pub s) \<noteq> None
     \<or> published env rid old (until_terminal fs) s \<and> (pb_terminal (ps_pub s) \<noteq> None \<longleftrightarrow> list_ex is_terminal fs)"

lemma until_terminal_snoc: "until_terminal (fs @ [f]) = (if list_ex is_terminal fs then until_terminal fs else fs @ [f])"
  by (induction fs) auto

lemma until_terminal_none: "\<not> list_ex is_terminal fs \<Longrightarrow> until_terminal fs = fs"
  by (induction fs) auto

lemma timer_frames:
  assumes "flush_after_delay env rid s = (r, t)" "frames_in env rid old fs s"
  shows "frames_in env rid old fs t"
proof (cases "pb_flush_task (ps_pub s)")
  case False
  with assms show ?thesis by (simp add: flush_after_delay_def bindE_basic ret_def)
next
  case True
  obtain q u where q: "flush_locked env rid s = (q, u)" by fastforce
  show ?thesis
  proof (cases q)
    case (Inl e)
    with True q assms(1) show ?thesis
      by (auto simp: flush_after_delay_def bindE_basic catchE_def on_pub_def modify_def frames_in_def)
  next
    case (Inr x)
    with True q assms(1) have "t = u" by (auto simp: flush_after_delay_def bindE_basic catchE_def)
    with flush_published [of env rid s u old "until_terminal fs"] q Inr assms(2) flush_keeps_error [OF q] show ?thesis
      by (auto simp: frames_in_def)
  qed
qed

lemma flush_error_none:
  assumes "raise_flush_error s = (Inr (), t)"
  shows "t = s" "pb_flush_error (ps_pub s) = None"
  using assms by (auto simp: raise_flush_error_def gets_def on_pub_def modify_def raise_def ret_def bindE_def split: option.splits)

lemma token_frames:
  assumes run: "publish_token env rid v word s = (Inr (), t)" and nt: "pb_terminal (ps_pub s) = None"
    and p: "published env rid old fs s"
  shows "published env rid old (fs @ [TokenFrame v ANSWER word sk]) t" "pb_terminal (ps_pub t) = None"
proof -
  define s1 where "s1 = s\<lparr>ps_pub := (ps_pub s)\<lparr>pb_parts := pb_parts (ps_pub s) @ [word], pb_chars := pb_chars (ps_pub s) + py_len word, pb_version := v\<rparr>\<rparr>"
  have p1: "published env rid old (fs @ [TokenFrame v ANSWER word sk]) s1"
  proof -
    obtain gs where gs: "stored_frames rid (ps_redis s) = old @ map (frame_payload env) gs"
      "content fs = (if pb_parts (ps_pub s) = [] then content gs else add_text (content gs) (concat (pb_parts (ps_pub s))))"
      using p by (auto simp: published_def)
    have "content (fs @ [TokenFrame v ANSWER word sk]) = add_text (content gs) (concat (pb_parts (ps_pub s)) @ word)"
      using gs(2) by (simp add: content_snoc add_text_again)
    with gs(1) show ?thesis unfolding published_def by (intro exI [of _ gs]) (simp add: s1_def ps_redis_def)
  qed
  have run: "(if re_delta_max env \<le> pb_chars (ps_pub s1) then flush_locked env rid else on_pub (\<lambda>p. p\<lparr>pb_flush_task := True\<rparr>)) s1 = (Inr (), t)"
    using run by (simp add: publish_token_def on_pub_def bindE_basic s1_def)
  have "published env rid old (fs @ [TokenFrame v ANSWER word sk]) t \<and> pb_terminal (ps_pub t) = None"
  proof (cases "re_delta_max env \<le> pb_chars (ps_pub s1)")
    case True
    with run have "flush_locked env rid s1 = (Inr (), t)" by simp
    from flush_published [OF this p1] nt show ?thesis by (simp add: s1_def)
  next
    case False
    with run have "t = s1\<lparr>ps_pub := (ps_pub s1)\<lparr>pb_flush_task := True\<rparr>\<rparr>" by (simp add: on_pub_def modify_def)
    with p1 nt show ?thesis by (simp add: published_def ps_redis_def s1_def)
  qed
  then show "published env rid old (fs @ [TokenFrame v ANSWER word sk]) t" "pb_terminal (ps_pub t) = None" by simp_all
qed

lemma other_frames:
  assumes run: "publish_other env rid f s = (Inr (), t)" and nt: "pb_terminal (ps_pub s) = None"
    and p: "published env rid old fs s" and f: "\<And>v t sk. f \<noteq> TokenFrame v ANSWER t sk"
  shows "published env rid old (fs @ [f]) t" "pb_terminal (ps_pub t) \<noteq> None \<longleftrightarrow> is_terminal f"
proof -
  obtain u where u: "flush_locked env rid s = (Inr (), u)" and
    a: "bindE (gets ps_pub) (\<lambda>p. bindE (via_store (append_frame env rid f False (terminal_status_for f p))) (\<lambda>_. on_pub (observe f))) u = (Inr (), t)"
    using run by (auto simp: publish_other_def bindE_eq_Inr)
  note fl = flush_published [OF u p]
  obtain i d where d: "append_frame env rid f False (terminal_status_for f (ps_pub u)) (ps_db u) = (Inr i, d)" "t = u\<lparr>ps_db := d, ps_pub := observe f (ps_pub u)\<rparr>"
    using a by (auto simp: bindE_basic bindE_eq_Inr via_store_def on_pub_def modify_def split: prod.splits)
  obtain gs where gs: "stored_frames rid (ps_redis u) = old @ map (frame_payload env) gs" "content fs = content gs"
    using fl(1,2) by (auto simp: published_def)
  have parts: "pb_parts (observe f (ps_pub u)) = []" using fl(2) by (simp add: observe_def)
  have "stored_frames rid (ps_redis t) = old @ map (frame_payload env) (gs @ [f])"
    using append_frame_stores [OF d(1)] gs(1) d(2) by (simp add: ps_redis_def)
  moreover have "content (fs @ [f]) = content (gs @ [f])" using gs(2) by (simp add: content_snoc)
  ultimately show "published env rid old (fs @ [f]) t" using parts d(2) unfolding published_def by (intro exI [of _ "gs @ [f]"]) simp
  show "pb_terminal (ps_pub t) \<noteq> None \<longleftrightarrow> is_terminal f"
    using fl(3) nt d(2) by (auto simp: observe_def is_terminal_def)
qed

lemma publish_frames:
  assumes run: "publish env rid f s = (Inr (), t)" and inv: "frames_in env rid old fs s"
  shows "frames_in env rid old (fs @ [f]) t"
proof -
  obtain u where u: "raise_flush_error s = (Inr (), u)" and
    b: "bindE (gets ps_pub) (\<lambda>p. if pb_terminal p \<noteq> None then ret ()
     else case f of TokenFrame version ANSWER t sk \<Rightarrow> publish_token env rid version t | _ \<Rightarrow> publish_other env rid f) u = (Inr (), t)"
    using run by (auto simp: publish_def bindE_eq_Inr)
  note fe = flush_error_none [OF u]
  have pub: "published env rid old (until_terminal fs) s" "pb_terminal (ps_pub s) \<noteq> None \<longleftrightarrow> list_ex is_terminal fs"
    using inv fe(2) by (simp_all add: frames_in_def)
  show ?thesis
  proof (cases "pb_terminal (ps_pub s) = None")
    case False
    with b fe(1) have "t = s" by (simp add: bindE_basic ret_def)
    with inv pub(2) False show ?thesis by (auto simp: frames_in_def until_terminal_snoc)
  next
    case True
    then have none: "\<not> list_ex is_terminal fs" using pub(2) by simp
    have pub: "published env rid old fs s" using pub(1) none by (simp add: until_terminal_none)
    have b: "(case f of TokenFrame version ANSWER t sk \<Rightarrow> publish_token env rid version t | _ \<Rightarrow> publish_other env rid f) s = (Inr (), t)"
      using b fe(1) True by (simp add: bindE_basic)
    have "published env rid old (fs @ [f]) t \<and> (pb_terminal (ps_pub t) \<noteq> None \<longleftrightarrow> is_terminal f)"
    proof (cases "\<exists>v x sk. f = TokenFrame v ANSWER x sk")
      case True
      then obtain v x sk where f: "f = TokenFrame v ANSWER x sk" by blast
      with b have "publish_token env rid v x s = (Inr (), t)" by simp
      from token_frames [OF this \<open>pb_terminal (ps_pub s) = None\<close> pub] f show ?thesis by (simp add: is_terminal_def)
    next
      case other: False
      then have "publish_other env rid f s = (Inr (), t)" using b by (auto split: stream_frame.splits token_channel.splits)
      from other_frames [OF this \<open>pb_terminal (ps_pub s) = None\<close> pub] other show ?thesis by blast
    qed
    with none show ?thesis by (auto simp: frames_in_def until_terminal_snoc)
  qed
qed

lemma consume_frames:
  "consume env rid es s = (Inr (), t) \<Longrightarrow> frames_in env rid old fs s \<Longrightarrow> frames_in env rid old (fs @ turn_frames env es) t"
proof (induction env rid es arbitrary: s fs rule: consume.induct)
  case (1 env rid)
  then show ?case by (simp add: ret_def)
next
  case (2 env rid es)
  then obtain u where "flush_after_delay env rid s = (Inr (), u)" "consume env rid es u = (Inr (), t)" by (auto simp: bindE_eq_Inr)
  with 2 timer_frames show ?case by fastforce
next
  case (3 env rid lost chunk es)
  then obtain f u where f: "decode_encoded_sse_frame env chunk = Inr f"
    and u: "(if frame_type f = FT_HEARTBEAT then ret () else publish env rid f) s = (Inr (), u)" "consume env rid es u = (Inr (), t)"
    by (cases "decode_encoded_sse_frame env chunk") (auto simp: bindE_eq_Inr ensure_def liftR_def raise_def split: if_splits)
  have "frames_in env rid old (fs @ (if frame_type f = FT_HEARTBEAT then [] else [f])) u"
    using u(1) 3(3) publish_frames by (auto simp: ret_def split: if_splits)
  from 3(1) [OF u(2) this] show ?case by (simp add: f)
qed

text \<open>
  C10. Joining answer tokens loses and reorders nothing: when a turn is consumed and the publisher closed without an
  exception, whatever moments the flush timer fires at, the frames appended to the log have the content of the frames
  the turn yielded up to and with its first final frame - the same answer text between the same other frames in
  the same order.\<close>

theorem publisher_keeps_content:
  assumes "ps_pub s = publisher_init env"
    and "bindE (consume env rid es) (\<lambda>_. publisher_close env rid) s = (Inr (), t)"
  shows "\<exists>gs. stored_frames rid (ps_redis t) = stored_frames rid (ps_redis s) @ map (frame_payload env) gs
    \<and> content gs = content (until_terminal (turn_frames env es))"
proof -
  obtain u v where run: "consume env rid es s = (Inr (), u)" "flush_locked env rid u = (Inr (), v)" "raise_flush_error v = (Inr (), t)"
    using assms(2) by (auto simp: bindE_eq_Inr publisher_close_def)
  have "published env rid (stored_frames rid (ps_redis s)) [] s"
    using assms(1) by (auto simp: published_def publisher_init_def intro: exI [of _ "[]"])
  then have "frames_in env rid (stored_frames rid (ps_redis s)) [] s" using assms(1) by (simp add: frames_in_def publisher_init_def)
  from consume_frames [OF run(1) this] have u: "frames_in env rid (stored_frames rid (ps_redis s)) (turn_frames env es) u" by simp
  moreover have "pb_flush_error (ps_pub u) = None" "t = v"
    using flush_error_none [OF run(3)] flush_keeps_error [OF run(2)] by simp_all
  ultimately have "published env rid (stored_frames rid (ps_redis s)) (until_terminal (turn_frames env es)) u" by (simp add: frames_in_def)
  from flush_published(1,2) [OF run(2) this] \<open>t = v\<close> show ?thesis by (auto simp: published_def)
qed

section \<open>A turn\<close>

definition sample_publisher :: "redis \<Rightarrow> publisher_state" where
  "sample_publisher r = \<lparr> ps_db = \<lparr> rp_redis = r, rp_clock = (\<lambda>n. 0), rp_subscribers = 0 \<rparr>, ps_pub = publisher_init log_env \<rparr>"

theorem execution_closes_log_witness:
  "closed_text (meta_status ''r'' (ps_redis (snd (run_canvas_replay_execution log_env ''r'' 2 ''t'' ''w'' [FlushTimer]
     (StreamRaises (RuntimeError ''x'')) (sample_publisher sample_claimed)))))"
proof -
  have "log_step ''r'' empty_redis sample_claimed" by (rule log_step.claim [OF sample_claimed_def])
  then have "log_steps ''r'' empty_redis (ps_redis (sample_publisher sample_claimed))"
    by (simp add: ps_redis_def sample_publisher_def log_step_one)
  moreover have "log_exists ''r'' sample_claimed" by code_simp
  then have "log_exists ''r'' (ps_redis (sample_publisher sample_claimed))" by (simp add: ps_redis_def sample_publisher_def)
  ultimately show ?thesis using execution_closes_log [OF sample_facts(1) _ _ surjective_pairing] by blast
qed

definition sample_turn :: "turn_event list" where
  "sample_turn = [FlushTimer, TurnChunk False (''data: '' @ ''x'' @ newline @ newline)]"

lemma sample_decodes: "decode_encoded_sse_frame log_env (''data: '' @ ''x'' @ newline @ newline) = Inr (error_frame INTERNAL ''e'')"
proof -
  have "no_breaks ''x''" by (rule no_breaks_plain) (simp add: breaking_byte_def)
  from sse_data_line [OF this] show ?thesis by (simp add: decode_encoded_sse_frame_def log_env_def)
qed

lemma sample_append: "fst (append_frame log_env ''r'' (error_frame INTERNAL ''e'') False (Some RS_FAILED) (ps_db (sample_publisher sample_running))) = Inr ''7-0''"
  by code_simp

lemma sample_turn_runs:
  "fst (bindE (consume log_env ''r'' sample_turn) (\<lambda>_. publisher_close log_env ''r'') (sample_publisher sample_running)) = Inr ()"
proof -
  obtain d where d: "append_frame log_env ''r'' (error_frame INTERNAL ''e'') False (Some RS_FAILED) (ps_db (sample_publisher sample_running)) = (Inr ''7-0'', d)"
    using sample_append by (metis prod.collapse)
  then show ?thesis
    using sample_decodes
    by (simp add: sample_turn_def flush_after_delay_def publish_def publish_other_def flush_locked_def raise_flush_error_def publisher_close_def
        error_frame_def terminal_status_for_def observe_def on_pub_def via_store_def bindE_def gets_def modify_def ret_def ensure_def liftR_def
        sample_publisher_def publisher_init_def)
qed

theorem publisher_keeps_content_witness:
  "\<exists>gs. stored_frames ''r'' (ps_redis (snd (bindE (consume log_env ''r'' sample_turn) (\<lambda>_. publisher_close log_env ''r'') (sample_publisher sample_running)))) =
      stored_frames ''r'' sample_running @ map (frame_payload log_env) gs \<and> content gs = [Inr (error_frame INTERNAL ''e'')]"
proof -
  have "bindE (consume log_env ''r'' sample_turn) (\<lambda>_. publisher_close log_env ''r'') (sample_publisher sample_running) = (Inr (), snd
      (bindE (consume log_env ''r'' sample_turn) (\<lambda>_. publisher_close log_env ''r'') (sample_publisher sample_running)))"
    using sample_turn_runs by (simp add: prod_eq_iff)
  moreover have "content (until_terminal (turn_frames log_env sample_turn)) = [Inr (error_frame INTERNAL ''e'')]"
    using sample_decodes by (simp add: sample_turn_def is_terminal_def error_frame_def content_def)
  ultimately show ?thesis
    using publisher_keeps_content [of "sample_publisher sample_running" log_env "''r''" sample_turn] by (simp add: sample_publisher_def ps_redis_def)
qed

end
