(* ===== verification/Fence_Exclusion.thy ===== *)
theory Fence_Exclusion
  imports Episode_Fence
begin

text \<open>
  Mutual exclusion of the episode fence. Every Redis command of \<open>enter_generation\<close>, \<open>leave_generation\<close>,
  \<open>acquire_exclusive\<close>, \<open>wait_generations_idle\<close> and \<open>release_exclusive\<close> is a step of its own, and
  the steps of all the processes interleave. Each process has a name of its own (a fresh \<open>uuid4\<close>). Keys that
  expire are a separate relation: the exclusion holds as long as no key of the fence expires.
\<close>

section \<open>Processes\<close>

text \<open>Where a generation is: before the first check, after it, registered, with the time to live of the
  registration set, after the second check (its body runs), and on its way out after a failed second check.\<close>

datatype gen_place = GenIdle | GenChecked | GenSaved | GenAdded | GenRuns | GenRefused

text \<open>Where a deletion is: it holds the mutex and waits, or it has seen no generation and deletes.\<close>

datatype del_place = DelIdle | DelWaits | DelDeletes

record fence_world =
  fw_locks :: lock_state
  fw_gen :: "string \<Rightarrow> gen_place"
  fw_del :: "string \<Rightarrow> del_place"

definition at_gen :: "fence_world \<Rightarrow> string \<Rightarrow> gen_place \<Rightarrow> lock_state \<Rightarrow> fence_world" where
  "at_gen w g p s = w\<lparr>fw_locks := s, fw_gen := (fw_gen w)(g := p)\<rparr>"

definition at_del :: "fence_world \<Rightarrow> string \<Rightarrow> del_place \<Rightarrow> lock_state \<Rightarrow> fence_world" where
  "at_del w d p s = w\<lparr>fw_locks := s, fw_del := (fw_del w)(d := p)\<rparr>"

inductive fence_step :: "lock_env \<Rightarrow> int \<Rightarrow> fence_world \<Rightarrow> fence_world \<Rightarrow> bool" for env ep where
  check: "fw_gen w g = GenIdle \<Longrightarrow> assert_writable ep (fw_locks w) = (Inr (), s) \<Longrightarrow>
    fence_step env ep w (at_gen w g GenChecked s)"
| register: "fw_gen w g = GenChecked \<Longrightarrow> lk_write (redis_sadd (gen_key ep) g) (fw_locks w) = (Inr (), s) \<Longrightarrow>
    fence_step env ep w (at_gen w g GenSaved s)"
| expire: "fw_gen w g = GenSaved \<Longrightarrow> lk_write (redis_expire (gen_key ep) (le_lock_ttl env)) (fw_locks w) = (Inr (), s) \<Longrightarrow>
    fence_step env ep w (at_gen w g GenAdded s)"
| admit: "fw_gen w g = GenAdded \<Longrightarrow> assert_writable ep (fw_locks w) = (Inr (), s) \<Longrightarrow>
    fence_step env ep w (at_gen w g GenRuns s)"
| refuse: "fw_gen w g = GenAdded \<Longrightarrow> assert_writable ep (fw_locks w) = (Inl e, s) \<Longrightarrow>
    fence_step env ep w (at_gen w g GenRefused s)"
| withdraw: "fw_gen w g = GenRefused \<Longrightarrow> lk_write (redis_srem (gen_key ep) g) (fw_locks w) = (Inr (), s) \<Longrightarrow>
    fence_step env ep w (at_gen w g GenIdle s)"
| leave: "fw_gen w g = GenRuns \<Longrightarrow> leave_generation ep g (fw_locks w) = (Inr (), s) \<Longrightarrow>
    fence_step env ep w (at_gen w g GenIdle s)"
| acquire: "fw_del w d = DelIdle \<Longrightarrow> acquire_exclusive env ep d (fw_locks w) = (Inr (), s) \<Longrightarrow>
    fence_step env ep w (at_del w d DelWaits s)"
| idle: "fw_del w d = DelWaits \<Longrightarrow> wait_generations_idle ep [] (fw_locks w) = (Inr (), s) \<Longrightarrow>
    fence_step env ep w (at_del w d DelDeletes s)"
| release: "fw_del w d \<in> {DelWaits, DelDeletes} \<Longrightarrow> release_exclusive ep d (fw_locks w) = (Inr b, s) \<Longrightarrow>
    fence_step env ep w (at_del w d DelIdle s)"

inductive fence_reachable :: "lock_env \<Rightarrow> int \<Rightarrow> lock_state \<Rightarrow> fence_world \<Rightarrow> bool" for env ep s0 where
  init: "fence_reachable env ep s0 \<lparr> fw_locks = s0, fw_gen = (\<lambda>g. GenIdle), fw_del = (\<lambda>d. DelIdle) \<rparr>"
| step: "fence_reachable env ep s0 w \<Longrightarrow> fence_step env ep w v \<Longrightarrow> fence_reachable env ep s0 v"

definition mutex_owner :: "int \<Rightarrow> lock_state \<Rightarrow> string option" where
  "mutex_owner ep s = redis_get (mutex_key ep) (lk_redis s)"

definition registered :: "int \<Rightarrow> lock_state \<Rightarrow> string set" where
  "registered ep s = set (redis_smembers (gen_key ep) (lk_redis s))"

section \<open>Commands\<close>

lemma fence_keys_differ: "mutex_key i \<noteq> gen_key j" "gen_key j \<noteq> mutex_key i"
  by (simp_all add: mutex_key_def gen_key_def)

lemma smembers_add: "redis_smembers k (redis_sadd k v s) = (if v \<in> set (redis_smembers k s) then redis_smembers k s else redis_smembers k s @ [v])"
  by (simp add: redis_sadd_def redis_smembers_def Let_def update_conv')

lemma smembers_rem: "redis_smembers k (redis_srem k v s) = removeAll v (redis_smembers k s)"
  by (auto simp: redis_srem_def redis_smembers_def Let_def update_conv' delete_conv')

lemma set_ops_frame [simp]:
  "redis_get j (redis_sadd k v s) = redis_get j s" "redis_get j (redis_srem k v s) = redis_get j s"
  "redis_get j (redis_expire k ttl s) = redis_get j s" "redis_smembers j (redis_expire k ttl s) = redis_smembers j s"
  by (simp_all add: redis_get_def redis_sadd_def redis_srem_def redis_expire_def redis_smembers_def Let_def)

text \<open>What each operation reads and changes of the mutex and the registrations.\<close>

lemma fence_op_effects:
  "assert_writable ep s = (Inr (), t) \<Longrightarrow> t = s \<and> mutex_owner ep s = None"
  "assert_writable ep s = (Inl e, t) \<Longrightarrow> t = s"
  "lk_write (redis_sadd (gen_key ep) g) s = (Inr (), t) \<Longrightarrow> mutex_owner ep t = mutex_owner ep s \<and> registered ep t = insert g (registered ep s)"
  "lk_write (redis_expire (gen_key ep) ttl) s = (Inr (), t) \<Longrightarrow> mutex_owner ep t = mutex_owner ep s \<and> registered ep t = registered ep s"
  "lk_write (redis_srem (gen_key ep) g) s = (Inr (), t) \<Longrightarrow> mutex_owner ep t = mutex_owner ep s \<and> registered ep t = registered ep s - {g}"
  "leave_generation ep g s = (Inr (), t) \<Longrightarrow> mutex_owner ep t = mutex_owner ep s \<and> registered ep t = registered ep s - {g}"
  "wait_generations_idle ep [] s = (Inr (), t) \<Longrightarrow> t = s \<and> registered ep s = {}"
  by (auto simp: assert_writable_def leave_generation_def lk_read_def lk_write_def eff_simps mutex_owner_def registered_def
      smembers_add smembers_rem split: if_splits)

lemma acquire_effect:
  assumes "acquire_exclusive env ep d s = (Inr (), t)"
  shows "mutex_owner ep s = None \<and> mutex_owner ep t = Some d \<and> registered ep t = registered ep s"
  using assms
  by (auto simp: acquire_exclusive_def bindE_def lk_run_def ensure_def mutex_owner_def registered_def redis_set_nx_def redis_set_ex_def
      redis_exists_def redis_get_def redis_smembers_def update_conv' split: if_splits)

lemma release_effect:
  assumes "release_exclusive ep d s = (Inr b, t)"
  shows "mutex_owner ep t = (if mutex_owner ep s = Some d then None else mutex_owner ep s) \<and> registered ep t = registered ep s"
  using assms fence_keys_differ
  by (auto simp: release_exclusive_def lk_run_def release_script_def mutex_owner_def registered_def redis_get_def redis_del_def redis_smembers_def
      delete_conv' split: if_splits)

section \<open>Invariant\<close>

definition fence_ok :: "int \<Rightarrow> fence_world \<Rightarrow> bool" where
  "fence_ok ep w \<longleftrightarrow>
     (\<forall>g. fw_gen w g \<in> {GenSaved, GenAdded, GenRuns, GenRefused} \<longrightarrow> g \<in> registered ep (fw_locks w))
     \<and> (\<forall>d. fw_del w d \<noteq> DelIdle \<longrightarrow> mutex_owner ep (fw_locks w) = Some d)
     \<and> (\<forall>d g. fw_del w d = DelDeletes \<longrightarrow> fw_gen w g \<noteq> GenRuns)"

lemma fence_okI:
  assumes "\<And>g. fw_gen w g \<in> {GenSaved, GenAdded, GenRuns, GenRefused} \<Longrightarrow> g \<in> registered ep (fw_locks w)"
    and "\<And>d. fw_del w d \<noteq> DelIdle \<Longrightarrow> mutex_owner ep (fw_locks w) = Some d"
    and "\<And>d g. fw_del w d = DelDeletes \<Longrightarrow> fw_gen w g \<noteq> GenRuns"
  shows "fence_ok ep w"
  using assms by (simp add: fence_ok_def)

lemma fence_okD:
  assumes "fence_ok ep w"
  shows "fw_gen w g \<in> {GenSaved, GenAdded, GenRuns, GenRefused} \<Longrightarrow> g \<in> registered ep (fw_locks w)"
    "fw_del w d \<noteq> DelIdle \<Longrightarrow> mutex_owner ep (fw_locks w) = Some d"
    "fw_del w d = DelDeletes \<Longrightarrow> fw_gen w g \<noteq> GenRuns"
  using assms unfolding fence_ok_def by blast+

text \<open>A step of a generation that does not start it, and one that does not touch a registered one.\<close>

lemma gen_step_ok:
  assumes ok: "fence_ok ep w" and m: "mutex_owner ep s = mutex_owner ep (fw_locks w)"
    and r: "p \<in> {GenSaved, GenAdded, GenRuns, GenRefused} \<Longrightarrow> g \<in> registered ep s" "registered ep (fw_locks w) - {g} \<subseteq> registered ep s"
    and run: "p = GenRuns \<Longrightarrow> mutex_owner ep (fw_locks w) = None"
  shows "fence_ok ep (at_gen w g p s)"
proof (rule fence_okI)
  fix h
  assume "fw_gen (at_gen w g p s) h \<in> {GenSaved, GenAdded, GenRuns, GenRefused}"
  then show "h \<in> registered ep (fw_locks (at_gen w g p s))"
    using fence_okD(1) [OF ok, of h] r by (cases "h = g") (auto simp: at_gen_def)
next
  fix d
  assume "fw_del (at_gen w g p s) d \<noteq> DelIdle"
  with fence_okD(2) [OF ok, of d] m show "mutex_owner ep (fw_locks (at_gen w g p s)) = Some d" by (simp add: at_gen_def)
next
  fix d h
  assume "fw_del (at_gen w g p s) d = DelDeletes"
  then have "fw_del w d = DelDeletes" by (simp add: at_gen_def)
  with fence_okD(2,3) [OF ok, of d] run show "fw_gen (at_gen w g p s) h \<noteq> GenRuns" by (auto simp: at_gen_def)
qed

text \<open>A step of a deletion when no other one holds the mutex.\<close>

lemma del_step_ok:
  assumes ok: "fence_ok ep w" and others: "\<And>e. e \<noteq> d \<Longrightarrow> fw_del w e = DelIdle"
    and m: "p \<noteq> DelIdle \<Longrightarrow> mutex_owner ep s = Some d" and r: "registered ep s = registered ep (fw_locks w)"
    and del: "p = DelDeletes \<Longrightarrow> registered ep s = {}"
  shows "fence_ok ep (at_del w d p s)"
proof (rule fence_okI)
  fix e g
  show "fw_gen (at_del w d p s) g \<in> {GenSaved, GenAdded, GenRuns, GenRefused} \<Longrightarrow> g \<in> registered ep (fw_locks (at_del w d p s))"
    using fence_okD(1) [OF ok, of g] r by (simp add: at_del_def)
  show "fw_del (at_del w d p s) e \<noteq> DelIdle \<Longrightarrow> mutex_owner ep (fw_locks (at_del w d p s)) = Some e"
    using others m by (auto simp: at_del_def split: if_splits)
  show "fw_gen (at_del w d p s) g \<noteq> GenRuns" if "fw_del (at_del w d p s) e = DelDeletes"
    using that others [of e] del fence_okD(1) [OF ok, of g] r by (auto simp: at_del_def split: if_splits)
qed

lemma others_idle: "fence_ok ep w \<Longrightarrow> mutex_owner ep (fw_locks w) \<noteq> Some e \<Longrightarrow> fw_del w e = DelIdle"
  using fence_okD(2) by blast

lemma fence_step_ok:
  assumes "fence_step env ep w v" "fence_ok ep w"
  shows "fence_ok ep v"
  using assms(1)
proof cases
  case (check g s)
  with fence_op_effects(1) show ?thesis by (auto intro: gen_step_ok [OF assms(2)])
next
  case (register g s)
  with fence_op_effects(3) [OF register(3)] show ?thesis by (auto intro: gen_step_ok [OF assms(2)])
next
  case (expire g s)
  with fence_op_effects(4) [OF expire(3)] fence_okD(1) [OF assms(2), of g] show ?thesis by (auto intro: gen_step_ok [OF assms(2)])
next
  case (admit g s)
  with fence_op_effects(1) [OF admit(3)] fence_okD(1) [OF assms(2), of g] show ?thesis by (auto intro: gen_step_ok [OF assms(2)])
next
  case (refuse g e s)
  with fence_op_effects(2) [OF refuse(3)] fence_okD(1) [OF assms(2), of g] show ?thesis by (auto intro: gen_step_ok [OF assms(2)])
next
  case (withdraw g s)
  with fence_op_effects(5) [OF withdraw(3)] show ?thesis by (auto intro: gen_step_ok [OF assms(2)])
next
  case (leave g s)
  with fence_op_effects(6) [OF leave(3)] show ?thesis by (auto intro: gen_step_ok [OF assms(2)])
next
  case (acquire d s)
  have free: "fw_del w e = DelIdle" for e
    using acquire_effect [OF acquire(3)] others_idle [OF assms(2), of e] by simp
  show ?thesis unfolding acquire(1)
    by (rule del_step_ok [OF assms(2)]) (use acquire_effect [OF acquire(3)] free in auto)
next
  case (idle d s)
  then have own: "mutex_owner ep (fw_locks w) = Some d" using fence_okD(2) [OF assms(2), of d] by simp
  then have "fw_del w e = DelIdle" if "e \<noteq> d" for e using others_idle [OF assms(2), of e] that by simp
  then show ?thesis unfolding idle(1)
    by (rule del_step_ok [OF assms(2)]) (use fence_op_effects(7) [OF idle(3)] own in auto)
next
  case (release d b s)
  then have "mutex_owner ep (fw_locks w) = Some d" using fence_okD(2) [OF assms(2), of d] by auto
  then have "fw_del w e = DelIdle" if "e \<noteq> d" for e using others_idle [OF assms(2), of e] that by simp
  then show ?thesis unfolding release(1)
    by (rule del_step_ok [OF assms(2)]) (use release_effect [OF release(3)] in auto)
qed

lemma fence_reachable_ok: "fence_reachable env ep s0 w \<Longrightarrow> fence_ok ep w"
proof (induction rule: fence_reachable.induct)
  case init
  show ?case by (simp add: fence_ok_def)
qed (rule fence_step_ok)

text \<open>
  C12. Under every interleaving of the Redis commands of any number of generations and deletions of an episode, while
  no key of the fence expires: when a deletion has acquired the mutex and seen no registered generation, no generation
  is running, it is the only deletion, and the mutex is its own.\<close>

theorem fence_excludes_generations:
  assumes "fence_reachable env ep s0 w" "fw_del w d = DelDeletes"
  shows "fw_gen w g \<noteq> GenRuns \<and> (fw_del w e \<noteq> DelIdle \<longrightarrow> e = d) \<and> redis_get (mutex_key ep) (lk_redis (fw_locks w)) = Some d"
proof -
  note ok = fence_okD [OF fence_reachable_ok [OF assms(1)]]
  have "mutex_owner ep (fw_locks w) = Some d" "fw_gen w g \<noteq> GenRuns" using ok(2) [of d] ok(3) [of d g] assms(2) by simp_all
  moreover have "e = d" if "fw_del w e \<noteq> DelIdle" using ok(2) [OF that] \<open>mutex_owner ep (fw_locks w) = Some d\<close> by simp
  ultimately show ?thesis by (auto simp: mutex_owner_def)
qed

section \<open>The operations as sequences of steps\<close>

text \<open>\<open>enter_generation\<close> run without interruption is such a sequence of steps: it ends with the generation running
  when it returns and idle again when it raises.\<close>

inductive fence_steps :: "lock_env \<Rightarrow> int \<Rightarrow> fence_world \<Rightarrow> fence_world \<Rightarrow> bool" for env ep where
  stop: "fence_steps env ep w w"
| more: "fence_step env ep w v \<Longrightarrow> fence_steps env ep v u \<Longrightarrow> fence_steps env ep w u"

lemma at_gen_again: "at_gen (at_gen w g p s) g q t = at_gen w g q t"
  by (simp add: at_gen_def)

lemma at_gen_places [simp]: "fw_gen (at_gen w g p s) g = p" "fw_locks (at_gen w g p s) = s" "fw_del (at_gen w g p s) = fw_del w"
  by (simp_all add: at_gen_def)

lemma enter_generation_steps:
  assumes "fw_gen w g = GenIdle" "enter_generation env ep g (fw_locks w) = (r, t)"
  shows "(case r of Inr _ \<Rightarrow> fence_steps env ep w (at_gen w g GenRuns t)
    | Inl _ \<Rightarrow> t = fw_locks w \<or> fence_steps env ep w (at_gen w g GenIdle t))"
proof (cases "assert_writable ep (fw_locks w)")
  case (Pair q s)
  show ?thesis
  proof (cases q)
    case (Inl e)
    with Pair assms(2) fence_op_effects(2) show ?thesis by (auto simp: enter_generation_def bindE_def)
  next
    case (Inr u)
    define s1 where "s1 = s\<lparr>lk_redis := redis_sadd (gen_key ep) g (lk_redis s)\<rparr>"
    define s2 where "s2 = s1\<lparr>lk_redis := redis_expire (gen_key ep) (le_lock_ttl env) (lk_redis s1)\<rparr>"
    have 0: "assert_writable ep (fw_locks w) = (Inr (), s)" using Pair Inr by simp
    have 1: "lk_write (redis_sadd (gen_key ep) g) s = (Inr (), s1)" "lk_write (redis_expire (gen_key ep) (le_lock_ttl env)) s1 = (Inr (), s2)"
      by (simp_all add: lk_write_def modify_def s1_def s2_def)
    have pre: "fence_steps env ep w v" if "fence_steps env ep (at_gen w g GenAdded s2) v" for v
    proof -
      have "fence_step env ep (at_gen w g GenSaved s1) (at_gen w g GenAdded s2)"
        using fence_step.expire [of "at_gen w g GenSaved s1" g ep env s2] 1(2) by (simp add: at_gen_again)
      moreover have "fence_step env ep (at_gen w g GenChecked s) (at_gen w g GenSaved s1)"
        using fence_step.register [of "at_gen w g GenChecked s" g ep s1 env] 1(1) by (simp add: at_gen_again)
      moreover have "fence_step env ep w (at_gen w g GenChecked s)" using fence_step.check [OF assms(1) 0] .
      ultimately show ?thesis using that by (blast intro: fence_steps.more)
    qed
    have run: "catchE (assert_writable ep) (\<lambda>e. bindE (lk_write (redis_srem (gen_key ep) g)) (\<lambda>_. raise e)) s2 = (r, t)"
      using assms(2) 0 1 by (simp add: enter_generation_def bindE_def)
    show ?thesis
    proof (cases "assert_writable ep s2")
      case p2: (Pair q2 s3)
      show ?thesis
      proof (cases q2)
        case (Inl e)
        define s4 where "s4 = s3\<lparr>lk_redis := redis_srem (gen_key ep) g (lk_redis s3)\<rparr>"
        have "r = Inl e" "t = s4" using run p2 Inl by (simp_all add: catchE_def bindE_def lk_write_def modify_def raise_def s4_def)
        moreover have "fence_step env ep (at_gen w g GenAdded s2) (at_gen w g GenRefused s3)"
          using fence_step.refuse [of "at_gen w g GenAdded s2" g ep e s3 env] p2 Inl by (simp add: at_gen_again)
        moreover have "fence_step env ep (at_gen w g GenRefused s3) (at_gen w g GenIdle s4)"
          using fence_step.withdraw [of "at_gen w g GenRefused s3" g ep s4 env] by (simp add: at_gen_again lk_write_def modify_def s4_def)
        ultimately have "fence_steps env ep (at_gen w g GenAdded s2) (at_gen w g GenIdle t)" by (blast intro: fence_steps.intros)
        with pre \<open>r = Inl e\<close> show ?thesis by simp
      next
        case (Inr u2)
        have "r = Inr ()" "t = s3" using run p2 Inr by (simp_all add: catchE_def)
        moreover have "fence_step env ep (at_gen w g GenAdded s2) (at_gen w g GenRuns s3)"
          using fence_step.admit [of "at_gen w g GenAdded s2" g ep s3 env] p2 Inr by (simp add: at_gen_again)
        ultimately have "fence_steps env ep (at_gen w g GenAdded s2) (at_gen w g GenRuns t)" by (blast intro: fence_steps.intros)
        with pre \<open>r = Inr ()\<close> show ?thesis by simp
      qed
    qed
  qed
qed

section \<open>Expiry\<close>

definition no_locks :: lock_state where
  "no_locks = \<lparr> lk_redis = \<lparr> rd_strings = [], rd_hashes = [], rd_streams = [], rd_sets = [], rd_ttl = [], rd_millis = (\<lambda>n. 0) \<rparr>,
     lk_active = [], lk_cancel = [], lk_completed = [] \<rparr>"

definition fence_start :: fence_world where
  "fence_start = \<lparr> fw_locks = no_locks, fw_gen = (\<lambda>g. GenIdle), fw_del = (\<lambda>d. DelIdle) \<rparr>"

text \<open>A deletion alone reaches the point where it deletes.\<close>

definition delete_env :: lock_env where
  "delete_env = \<lparr> le_lock_ttl = 1800 \<rparr>"

definition deletion_holds :: lock_state where
  "deletion_holds = snd (acquire_exclusive delete_env 1 ''d'' no_locks)"

lemma deletion_runs: "fence_reachable delete_env 1 no_locks (at_del fence_start ''d'' DelDeletes deletion_holds)"
proof -
  have acq: "acquire_exclusive delete_env 1 ''d'' no_locks = (Inr (), deletion_holds)"
    by (simp add: deletion_holds_def acquire_exclusive_def bindE_def lk_run_def ensure_def redis_set_nx_def redis_exists_def no_locks_def)
  have idl: "wait_generations_idle 1 [] deletion_holds = (Inr (), deletion_holds)"
    by (simp add: deletion_holds_def acquire_exclusive_def bindE_def lk_run_def ensure_def redis_set_nx_def redis_exists_def no_locks_def
        redis_set_ex_def lk_read_def gets_def redis_smembers_def)
  have "fence_reachable delete_env 1 no_locks fence_start" unfolding fence_start_def by (rule fence_reachable.init)
  moreover have "fence_step delete_env 1 fence_start (at_del fence_start ''d'' DelWaits deletion_holds)"
    by (rule fence_step.acquire) (simp_all add: fence_start_def acq)
  moreover have "fence_step delete_env 1 (at_del fence_start ''d'' DelWaits deletion_holds) (at_del fence_start ''d'' DelDeletes deletion_holds)"
    using fence_step.idle [of "at_del fence_start ''d'' DelWaits deletion_holds" "''d''" 1 deletion_holds delete_env] idl by (simp add: at_del_def)
  ultimately show ?thesis by (blast intro: fence_reachable.step)
qed

theorem fence_excludes_generations_witness:
  "fw_del (at_del fence_start ''d'' DelDeletes deletion_holds) ''d'' = DelDeletes
   \<and> redis_get (mutex_key 1) (lk_redis deletion_holds) = Some ''d''"
  using fence_excludes_generations [OF deletion_runs, of "''d''" "''g''" "''e''"] by (simp add: at_del_def)

text \<open>The mutex and the registrations are written with a time to live and are not renewed: once the mutex has
  expired, a generation is admitted beside a deletion that still runs.\<close>

lemma expired_mutex_admits:
  "fst (enter_generation delete_env 1 ''g'' (deletion_holds\<lparr>lk_redis := redis_evict (mutex_key 1) (lk_redis deletion_holds)\<rparr>)) = Inr ()"
  by (simp add: deletion_holds_def acquire_exclusive_def bindE_def lk_run_def ensure_def redis_set_nx_def redis_exists_def no_locks_def
      redis_set_ex_def redis_evict_def redis_del_def enter_generation_def assert_writable_def lk_read_def gets_def lk_write_def modify_def
      redis_get_def catchE_def redis_expire_def redis_sadd_def redis_smembers_def Let_def delete_conv' update_conv')

end
