(* ===== verification/Generation_Domain.thy ===== *)
theory Generation_Domain
  imports Canvas_Writeback
begin

text \<open>
  The rules of media generation: the enumerations, models and rules of \<open>generation/domain\<close>, the
  contracts of \<open>contracts/gateway.py\<close> that the service uses, the error codes of
  \<open>infra/gateway_mapping.py\<close> and the requests of \<open>generation/gateway/submit.py\<close>.

  Objects of the contracts are records of their fields. Floating-point numbers are kept as their text.
  The dictionaries of details that some errors carry are left out.
\<close>

section \<open>Enumerations\<close>

datatype generation_kind = GK_IMAGE | GK_VIDEO | GK_AUDIO

fun generation_kind_value :: "generation_kind \<Rightarrow> string" where
  "generation_kind_value GK_IMAGE = ''image''"
| "generation_kind_value GK_VIDEO = ''video''"
| "generation_kind_value GK_AUDIO = ''audio''"

definition GenerationKind :: "string \<Rightarrow> generation_kind res" where
  "GenerationKind s =
     (if s = ''image'' then Inr GK_IMAGE else if s = ''video'' then Inr GK_VIDEO
      else if s = ''audio'' then Inr GK_AUDIO
      else Inl (ValueError (repr_str s @ '' is not a valid GenerationKind'')))"

datatype reference_mode = RM_FIRST_FRAME | RM_FIRST_LAST_FRAME | RM_OMNI_REFERENCE | RM_VIDEO_EDIT

fun reference_mode_value :: "reference_mode \<Rightarrow> int" where
  "reference_mode_value RM_FIRST_FRAME = 1"
| "reference_mode_value RM_FIRST_LAST_FRAME = 2"
| "reference_mode_value RM_OMNI_REFERENCE = 3"
| "reference_mode_value RM_VIDEO_EDIT = 4"

definition ReferenceMode :: "int \<Rightarrow> reference_mode res" where
  "ReferenceMode n =
     (if n = 1 then Inr RM_FIRST_FRAME else if n = 2 then Inr RM_FIRST_LAST_FRAME
      else if n = 3 then Inr RM_OMNI_REFERENCE else if n = 4 then Inr RM_VIDEO_EDIT
      else Inl (ValueError (int_str n @ '' is not a valid ReferenceMode'')))"

datatype material_type = MT_VIDEO | MT_IMAGE | MT_AUDIO

datatype gateway_content_type = GCT_TEXT | GCT_IMAGE | GCT_VIDEO | GCT_AUDIO

datatype gateway_model_task_type = GMT_CHAT | GMT_IMAGE | GMT_VIDEO | GMT_TTS | GMT_EMBEDDING

fun gts_value :: "gateway_task_status \<Rightarrow> int" where
  "gts_value GTS_CREATED = 1"
| "gts_value GTS_QUEUED = 2"
| "gts_value GTS_WAITING = 3"
| "gts_value GTS_RUNNING = 4"
| "gts_value GTS_SUCCEEDED = 5"
| "gts_value GTS_FAILED = 6"
| "gts_value GTS_CANCELLED = 7"

lemma GenerationKind_value [simp]: "GenerationKind (generation_kind_value k) = Inr k"
  by (cases k) (simp_all add: GenerationKind_def)

lemma ReferenceMode_value [simp]: "ReferenceMode (reference_mode_value m) = Inr m"
  by (cases m) (simp_all add: ReferenceMode_def)

lemma GatewayTaskStatus_value [simp]: "GatewayTaskStatus (gts_value st) = Inr st"
  by (cases st) (simp_all add: GatewayTaskStatus_def)

lemma GatewayTaskStatus_Inr: "GatewayTaskStatus n = Inr st \<longleftrightarrow> n = gts_value st"
proof
  show "n = gts_value st" if "GatewayTaskStatus n = Inr st"
    using that by (cases st) (auto simp: GatewayTaskStatus_def split: if_splits)
qed simp

lemma gts_non_terminal [simp]: "gts_is_non_terminal st \<longleftrightarrow> \<not> gts_is_terminal st"
  by (cases st) (simp_all add: gts_is_non_terminal_def)

lemma gts_terminal_value: "gts_is_terminal st \<longleftrightarrow> 5 \<le> gts_value st"
  by (cases st) simp_all

lemma gts_value_inject [simp]: "gts_value a = gts_value b \<longleftrightarrow> a = b"
  by (cases a; cases b) simp_all

lemma gts_value_range: "1 \<le> gts_value st" "gts_value st \<le> 7"
  by (cases st; simp)+

section \<open>Messages\<close>

definition utf8 :: "nat list \<Rightarrow> string" where
  "utf8 bs = map char_of bs"

lemma utf8_empty [simp]: "utf8 bs = [] \<longleftrightarrow> bs = []"
  by (simp add: utf8_def)

definition label_of_material :: "material_type \<Rightarrow> string" where
  "label_of_material m =
     (case m of MT_IMAGE \<Rightarrow> utf8 [229, 155, 190, 231, 137, 135] | MT_VIDEO \<Rightarrow> utf8 [232, 167, 134, 233, 162, 145] | MT_AUDIO \<Rightarrow> utf8 [233, 159, 179, 233, 162, 145])"

definition label_of_reference_mode :: "reference_mode \<Rightarrow> string" where
  "label_of_reference_mode m =
     (case m of
        RM_FIRST_FRAME \<Rightarrow> utf8 [233, 166, 150, 229, 184, 167, 229, 143, 130, 232, 128, 131]
      | RM_FIRST_LAST_FRAME \<Rightarrow> utf8 [233, 166, 150, 229, 176, 190, 229, 184, 167, 229, 143, 130, 232, 128, 131]
      | RM_OMNI_REFERENCE \<Rightarrow> utf8 [229, 133, 168, 232, 131, 189, 229, 143, 130, 232, 128, 131]
      | RM_VIDEO_EDIT \<Rightarrow> utf8 [232, 167, 134, 233, 162, 145, 231, 188, 150, 232, 190, 145])"

abbreviation invalid_params :: "string \<Rightarrow> exc" where
  "invalid_params \<equiv> AppError ''INVALID_PARAMS''"

definition msg_only_media :: string where
  "msg_only_media = utf8 [228, 187, 133, 230, 148, 175, 230, 140, 129, 229, 188, 149, 231, 148, 168, 229, 155, 190, 231, 137,
     135, 227, 128, 129, 232, 167, 134, 233, 162, 145, 230, 136, 150, 233, 159, 179, 233, 162, 145,
     231, 180, 160, 230, 157, 144]"

definition msg_capability_mismatch :: string where
  "msg_capability_mismatch = utf8 [230, 168, 161, 229, 158, 139, 232, 131, 189, 229, 138, 155, 228, 184, 142, 231, 148, 159, 230, 136,
     144, 232, 175, 183, 230, 177, 130, 228, 184, 141, 229, 140, 185, 233, 133, 141]"

definition msg_ratio_unsupported :: "string \<Rightarrow> string" where
  "msg_ratio_unsupported r = utf8 [229, 189, 147, 229, 137, 141, 230, 168, 161, 229, 158, 139, 228, 184, 141, 230, 148, 175, 230, 140,
     129, 229, 174, 189, 233, 171, 152, 230, 175, 148, 32] @ r"

definition msg_resolution_unsupported :: "string \<Rightarrow> string" where
  "msg_resolution_unsupported r = utf8 [229, 189, 147, 229, 137, 141, 230, 168, 161, 229, 158, 139, 228, 184, 141, 230, 148, 175, 230, 140,
     129, 229, 136, 134, 232, 190, 168, 231, 142, 135, 32] @ r"

definition msg_count_unsupported :: "int \<Rightarrow> string" where
  "msg_count_unsupported n = utf8 [229, 189, 147, 229, 137, 141, 230, 168, 161, 229, 158, 139, 228, 184, 141, 230, 148, 175, 230, 140,
     129, 231, 148, 159, 230, 136, 144, 32] @ int_str n @ utf8 [32, 229, 188, 160, 229, 155, 190, 231, 137, 135]"

definition msg_duration_required :: string where
  "msg_duration_required = utf8 [232, 167, 134, 233, 162, 145, 231, 148, 159, 230, 136, 144, 229, 191, 133, 233, 161, 187, 230, 140,
     135, 229, 174, 154, 230, 151, 182, 233, 149, 191]"

definition msg_duration_unsupported :: "int \<Rightarrow> string" where
  "msg_duration_unsupported n = utf8 [229, 189, 147, 229, 137, 141, 230, 168, 161, 229, 158, 139, 228, 184, 141, 230, 148, 175, 230, 140,
     129, 32] @ int_str n @ utf8 [32, 231, 167, 146, 232, 167, 134, 233, 162, 145]"

definition msg_mode_unsupported :: string where
  "msg_mode_unsupported = utf8 [229, 189, 147, 229, 137, 141, 230, 168, 161, 229, 158, 139, 228, 184, 141, 230, 148, 175, 230, 140,
     129, 230, 137, 128, 233, 128, 137, 229, 143, 130, 232, 128, 131, 230, 168, 161, 229, 188, 143]"

definition msg_model_needs_material :: string where
  "msg_model_needs_material = utf8 [229, 189, 147, 229, 137, 141, 230, 168, 161, 229, 158, 139, 233, 156, 128, 232, 166, 129, 229, 133,
     136, 32, 64, 32, 229, 188, 149, 231, 148, 168, 231, 180, 160, 230, 157, 144]"

definition msg_mode_needs_material :: string where
  "msg_mode_needs_material = utf8 [229, 189, 147, 229, 137, 141, 232, 167, 134, 233, 162, 145, 230, 168, 161, 229, 188, 143, 233, 156,
     128, 232, 166, 129, 229, 133, 136, 32, 64, 32, 229, 188, 149, 231, 148, 168, 231, 180, 160,
     230, 157, 144]"

definition msg_too_many :: "int \<Rightarrow> string \<Rightarrow> string" where
  "msg_too_many n label = utf8 [229, 189, 147, 229, 137, 141, 230, 168, 161, 229, 158, 139, 230, 156, 128, 229, 164, 154, 229, 188,
     149, 231, 148, 168, 32] @ int_str n @ utf8 [32, 228, 184, 170] @ label @ utf8 [231, 180, 160, 230, 157, 144]"

definition msg_image_only :: string where
  "msg_image_only = utf8 [229, 155, 190, 231, 137, 135, 231, 148, 159, 230, 136, 144, 228, 187, 133, 230, 148, 175, 230, 140,
     129, 229, 188, 149, 231, 148, 168, 229, 155, 190, 231, 137, 135, 231, 180, 160, 230, 157, 144]"

definition msg_mode_required :: string where
  "msg_mode_required = utf8 [232, 167, 134, 233, 162, 145, 231, 148, 159, 230, 136, 144, 229, 191, 133, 233, 161, 187, 230, 152,
     190, 229, 188, 143, 233, 128, 137, 230, 139, 169, 229, 143, 130, 232, 128, 131, 230, 168, 161,
     229, 188, 143]"

definition msg_first_frame :: string where
  "msg_first_frame = utf8 [233, 166, 150, 229, 184, 167, 229, 143, 130, 232, 128, 131, 230, 168, 161, 229, 188, 143, 233, 156,
     128, 232, 166, 129, 228, 184, 148, 228, 187, 133, 233, 156, 128, 232, 166, 129, 32, 49, 32,
     229, 188, 160, 229, 155, 190, 231, 137, 135]"

definition msg_first_last_frame :: string where
  "msg_first_last_frame = utf8 [233, 166, 150, 229, 176, 190, 229, 184, 167, 229, 143, 130, 232, 128, 131, 230, 168, 161, 229, 188,
     143, 233, 156, 128, 232, 166, 129, 228, 184, 148, 228, 187, 133, 233, 156, 128, 232, 166, 129,
     32, 50, 32, 229, 188, 160, 229, 155, 190, 231, 137, 135]"

definition msg_audio_only :: string where
  "msg_audio_only = utf8 [229, 133, 168, 232, 131, 189, 229, 143, 130, 232, 128, 131, 228, 184, 141, 232, 131, 189, 229, 143,
     170, 229, 188, 149, 231, 148, 168, 233, 159, 179, 233, 162, 145, 231, 180, 160, 230, 157, 144]"

definition msg_video_edit :: string where
  "msg_video_edit = utf8 [232, 167, 134, 233, 162, 145, 231, 188, 150, 232, 190, 145, 230, 168, 161, 229, 188, 143, 233, 156,
     128, 232, 166, 129, 228, 184, 148, 228, 187, 133, 233, 156, 128, 232, 166, 129, 32, 49, 32,
     230, 174, 181, 232, 167, 134, 233, 162, 145, 239, 188, 140, 229, 143, 175, 233, 162, 157, 229,
     164, 150, 229, 188, 149, 231, 148, 168, 229, 155, 190, 231, 137, 135]"

definition msg_success_without_result :: string where
  "msg_success_without_result = utf8 [230, 136, 144, 229, 138, 159, 231, 187, 136, 230, 128, 129, 231, 188, 186, 229, 176, 145, 231, 148,
     159, 230, 136, 144, 231, 187, 147, 230, 158, 156]"

definition msg_failure_without_reason :: string where
  "msg_failure_without_reason = utf8 [229, 164, 177, 232, 180, 165, 231, 187, 136, 230, 128, 129, 231, 188, 186, 229, 176, 145, 233, 148,
     153, 232, 175, 175, 229, 142, 159, 229, 155, 160]"

definition msg_unexpected_result :: string where
  "msg_unexpected_result = utf8 [233, 157, 158, 230, 136, 144, 229, 138, 159, 231, 187, 136, 230, 128, 129, 228, 184, 141, 232, 131,
     189, 230, 144, 186, 229, 184, 166, 231, 148, 159, 230, 136, 144, 231, 187, 147, 230, 158, 156]"

section \<open>Model capabilities\<close>

record material_limits =
  ml_images :: int
  ml_videos :: int
  ml_audios :: int
  ml_requires_any :: bool
  ml_allow_audio_only :: bool

definition limit_for :: "material_limits \<Rightarrow> material_type \<Rightarrow> int" where
  "limit_for l m =
     (if m = MT_IMAGE then ml_images l else if m = MT_VIDEO then ml_videos l else ml_audios l)"

record generation_capabilities =
  gc_model :: string
  gc_kind :: generation_kind
  gc_ratios :: "string list"
  gc_resolutions :: "string list"
  gc_counts :: "int list"
  gc_durations :: "int list"
  gc_modes :: "reference_mode list"
  gc_limits :: material_limits
  gc_ratios_by_resolution :: "(string \<times> string list) list"

definition ratios_for_resolution :: "generation_capabilities \<Rightarrow> string option \<Rightarrow> string list" where
  "ratios_for_resolution c resolution =
     (case resolution of
        None \<Rightarrow> gc_ratios c
      | Some r \<Rightarrow> (case find (\<lambda>p. fst p = r) (gc_ratios_by_resolution c) of
                    Some (_, ratios) \<Rightarrow> ratios
                  | None \<Rightarrow> gc_ratios c))"

section \<open>Rules\<close>

definition material_type_from_mime :: "string \<Rightarrow> material_type res" where
  "material_type_from_mime mime =
     (if prefix ''image/'' mime then Inr MT_IMAGE
      else if prefix ''video/'' mime then Inr MT_VIDEO
      else if prefix ''audio/'' mime then Inr MT_AUDIO
      else Inl (invalid_params msg_only_media))"

definition reference_mode_requires_material :: "reference_mode option \<Rightarrow> bool" where
  "reference_mode_requires_material mode \<longleftrightarrow>
     mode \<in> {Some RM_FIRST_FRAME, Some RM_FIRST_LAST_FRAME, Some RM_VIDEO_EDIT}"

text \<open>\<open>x is not None and allowed and x not in allowed\<close> raises.\<close>

definition offered :: "('a \<Rightarrow> string) \<Rightarrow> 'a option \<Rightarrow> 'a list \<Rightarrow> unit res" where
  "offered msg x allowed =
     (case x of
        None \<Rightarrow> Inr ()
      | Some v \<Rightarrow> assertR (allowed = [] \<or> v \<in> set allowed) (invalid_params (msg v)))"

definition validate_submit_params ::
  "generation_kind \<Rightarrow> string \<Rightarrow> generation_capabilities \<Rightarrow> string option \<Rightarrow> string option \<Rightarrow> int
   \<Rightarrow> int option \<Rightarrow> reference_mode option \<Rightarrow> unit res" where
  "validate_submit_params kind model_id caps ratio resolution count duration mode =
     bindR (assertR (gc_model caps = model_id \<and> gc_kind caps = kind)
              (AppError ''GENERATION_MODEL_CAPABILITY_UNAVAILABLE'' msg_capability_mismatch)) (\<lambda>_.
     if kind = GK_AUDIO then Inr ()
     else
       bindR (offered msg_ratio_unsupported ratio (ratios_for_resolution caps resolution)) (\<lambda>_.
       bindR (offered msg_resolution_unsupported resolution (gc_resolutions caps)) (\<lambda>_.
       if kind = GK_IMAGE then offered msg_count_unsupported (Some count) (gc_counts caps)
       else
         bindR (assertR (duration \<noteq> None) (invalid_params msg_duration_required)) (\<lambda>_.
         bindR (offered msg_duration_unsupported duration (gc_durations caps)) (\<lambda>_.
         offered (\<lambda>_. msg_mode_unsupported) mode (gc_modes caps))))))"

text \<open>\<open>dict.fromkeys\<close> and \<open>Counter\<close> list their keys in the order of first occurrence.\<close>

definition unique :: "'a list \<Rightarrow> 'a list" where
  "unique xs = rev (remdups (rev xs))"

lemma set_unique [simp]: "set (unique xs) = set xs"
  by (simp add: unique_def)

lemma distinct_unique [simp]: "distinct (unique xs)"
  by (simp add: unique_def)

lemma unique_Nil [simp]: "unique xs = [] \<longleftrightarrow> xs = []"
  by (metis set_empty set_unique)

lemma unique_distinct: "distinct xs \<Longrightarrow> unique xs = xs"
  by (simp add: unique_def distinct_remdups_id)

definition occurrences :: "'a list \<Rightarrow> 'a \<Rightarrow> int" where
  "occurrences xs x = int (count_list xs x)"

definition check_mode_materials :: "reference_mode option \<Rightarrow> material_type list \<Rightarrow> material_limits \<Rightarrow> unit res" where
  "check_mode_materials mode types limits =
     (let image_count = occurrences types MT_IMAGE;
          video_count = occurrences types MT_VIDEO;
          audio_count = occurrences types MT_AUDIO
      in case mode of
           None \<Rightarrow> Inl (invalid_params msg_mode_required)
         | Some RM_FIRST_FRAME \<Rightarrow>
             assertR (\<not> (image_count \<noteq> 1 \<or> video_count \<noteq> 0 \<or> audio_count \<noteq> 0)) (invalid_params msg_first_frame)
         | Some RM_FIRST_LAST_FRAME \<Rightarrow>
             assertR (\<not> (image_count \<noteq> 2 \<or> video_count \<noteq> 0 \<or> audio_count \<noteq> 0)) (invalid_params msg_first_last_frame)
         | Some RM_OMNI_REFERENCE \<Rightarrow>
             assertR (\<not> (audio_count \<noteq> 0 \<and> image_count = 0 \<and> video_count = 0 \<and> \<not> ml_allow_audio_only limits))
               (invalid_params msg_audio_only)
         | Some RM_VIDEO_EDIT \<Rightarrow>
             assertR (\<not> (video_count \<noteq> 1 \<or> audio_count \<noteq> 0)) (invalid_params msg_video_edit))"

definition validate_reference_materials ::
  "generation_kind \<Rightarrow> reference_mode option \<Rightarrow> material_type list \<Rightarrow> generation_capabilities \<Rightarrow> unit res" where
  "validate_reference_materials kind mode types caps =
     (let limits = gc_limits caps in
      if types = [] then
        bindR (assertR (\<not> ml_requires_any limits) (invalid_params msg_model_needs_material)) (\<lambda>_.
        assertR (\<not> (kind = GK_VIDEO \<and> reference_mode_requires_material mode)) (invalid_params msg_mode_needs_material))
      else
        bindR (mapR (\<lambda>m. assertR (occurrences types m \<le> limit_for limits m)
                 (invalid_params (msg_too_many (limit_for limits m) (label_of_material m)))) (unique types)) (\<lambda>_.
        if kind = GK_IMAGE
        then assertR (\<not> (occurrences types MT_VIDEO \<noteq> 0 \<or> occurrences types MT_AUDIO \<noteq> 0)) (invalid_params msg_image_only)
        else check_mode_materials mode types limits))"

section \<open>Contracts of the gateway\<close>

datatype gateway_number = GN_int int | GN_float string

record result_item =
  ri_url :: string
  ri_type :: "int option"
  ri_width :: "int option"
  ri_height :: "int option"
  ri_duration :: "gateway_number option"
  ri_ratio :: "string option"
  ri_resolution :: "string option"
  ri_fps :: "int option"

definition jopt :: "('a \<Rightarrow> json) \<Rightarrow> 'a option \<Rightarrow> json" where
  "jopt f x = (case x of None \<Rightarrow> JNull | Some v \<Rightarrow> f v)"

fun number_json :: "gateway_number \<Rightarrow> json" where
  "number_json (GN_int i) = JInt i"
| "number_json (GN_float t) = JFloat t"

text \<open>\<open>item.model_dump(mode="json", exclude_none=False)\<close>.\<close>

definition dump_result_item :: "result_item \<Rightarrow> json" where
  "dump_result_item i = JObj
     [(''url'', JStr (ri_url i)), (''type'', jopt JInt (ri_type i)), (''width'', jopt JInt (ri_width i)),
      (''height'', jopt JInt (ri_height i)), (''duration'', jopt number_json (ri_duration i)),
      (''ratio'', jopt JStr (ri_ratio i)), (''resolution'', jopt JStr (ri_resolution i)),
      (''frames_per_second'', jopt JInt (ri_fps i))]"

text \<open>
  \<open>GatewayResultItem.model_validate(raw)\<close>: strict fields, no others; the frame rate is read under its
  alias or its name, and giving both makes one of them a field too many.
\<close>

definition invalid_item :: exc where
  "invalid_item = ValidationError ''GatewayResultItem''"

definition strict_int :: "json \<Rightarrow> int option res" where
  "strict_int j = (case j of JNull \<Rightarrow> Inr None | JInt i \<Rightarrow> Inr (Some i) | _ \<Rightarrow> Inl invalid_item)"

definition strict_str :: "json \<Rightarrow> string option res" where
  "strict_str j = (case j of JNull \<Rightarrow> Inr None | JStr s \<Rightarrow> Inr (Some s) | _ \<Rightarrow> Inl invalid_item)"

definition strict_number :: "json \<Rightarrow> gateway_number option res" where
  "strict_number j =
     (case j of JNull \<Rightarrow> Inr None | JInt i \<Rightarrow> Inr (Some (GN_int i)) | JFloat t \<Rightarrow> Inr (Some (GN_float t))
      | _ \<Rightarrow> Inl invalid_item)"

definition result_item_fields :: "string list" where
  "result_item_fields = [''url'', ''type'', ''width'', ''height'', ''duration'', ''ratio'', ''resolution'']"

definition validate_result_item :: "json \<Rightarrow> result_item res" where
  "validate_result_item raw =
     (case raw of
        JObj d \<Rightarrow>
          let fps = (if dict_get d ''framesPerSecond'' \<noteq> None then ''framesPerSecond'' else ''frames_per_second'') in
          bindR (assertR (\<forall>k \<in> fst ` set d. k \<in> set (fps # result_item_fields)) invalid_item) (\<lambda>_.
          bindR (case jget d ''url'' of JStr u \<Rightarrow> if u = [] then Inl invalid_item else Inr u | _ \<Rightarrow> Inl invalid_item) (\<lambda>u.
          bindR (strict_int (jget d ''type'')) (\<lambda>ty.
          bindR (strict_int (jget d ''width'')) (\<lambda>w.
          bindR (strict_int (jget d ''height'')) (\<lambda>h.
          bindR (strict_number (jget d ''duration'')) (\<lambda>du.
          bindR (strict_str (jget d ''ratio'')) (\<lambda>ra.
          bindR (strict_str (jget d ''resolution'')) (\<lambda>re.
          bindR (strict_int (jget d fps)) (\<lambda>f.
          Inr \<lparr> ri_url = u, ri_type = ty, ri_width = w, ri_height = h, ri_duration = du, ri_ratio = ra,
                ri_resolution = re, ri_fps = f \<rparr>)))))))))
      | _ \<Rightarrow> Inl invalid_item)"

lemma strict_jopt [simp]:
  "strict_int (jopt JInt x) = Inr x" "strict_str (jopt JStr y) = Inr y"
  "strict_number (jopt number_json z) = Inr z"
proof -
  show "strict_int (jopt JInt x) = Inr x" by (cases x) (simp_all add: strict_int_def jopt_def)
  show "strict_str (jopt JStr y) = Inr y" by (cases y) (simp_all add: strict_str_def jopt_def)
  show "strict_number (jopt number_json z) = Inr z"
    by (cases z; cases "the z") (simp_all add: strict_number_def jopt_def)
qed

lemma validate_dump_result_item:
  assumes "ri_url i \<noteq> []"
  shows "validate_result_item (dump_result_item i) = Inr i"
  using assms
  by (simp add: validate_result_item_def dump_result_item_def jget_def result_item_fields_def Let_def)

section \<open>Terminal states\<close>

record generation_terminal =
  tm_status :: gateway_task_status
  tm_result_keys :: "json list option"
  tm_error :: "string option"

text \<open>\<open>not urls\<close> and \<open>not reason\<close> hold for \<open>None\<close> and for the empty value.\<close>

definition given :: "'a list option \<Rightarrow> bool" where
  "given x \<longleftrightarrow> x \<noteq> None \<and> x \<noteq> Some []"

definition normalize_gateway_terminal ::
  "int \<Rightarrow> result_item list option \<Rightarrow> string option \<Rightarrow> generation_terminal res" where
  "normalize_gateway_terminal status urls reason =
     bindR (GatewayTaskStatus status) (\<lambda>st.
     if st = GTS_SUCCEEDED then
       (if \<not> given urls
        then Inr \<lparr> tm_status = GTS_FAILED, tm_result_keys = None, tm_error = Some msg_success_without_result \<rparr>
        else Inr \<lparr> tm_status = st, tm_result_keys = Some (map dump_result_item (the urls)), tm_error = reason \<rparr>)
     else if st = GTS_FAILED then
       (if \<not> given reason then Inl (AppError ''GATEWAY_PROTOCOL_ERROR'' msg_failure_without_reason)
        else Inr \<lparr> tm_status = st, tm_result_keys = None, tm_error = reason \<rparr>)
     else if given urls then Inl (AppError ''GATEWAY_PROTOCOL_ERROR'' msg_unexpected_result)
     else Inr \<lparr> tm_status = st, tm_result_keys = None, tm_error = reason \<rparr>)"

section \<open>Error codes of the gateway\<close>

definition gateway_client_codes :: "(int \<times> string) list" where
  "gateway_client_codes =
     [(10001, ''INVALID_PARAMS''), (10002, ''INVALID_TOKEN''), (10003, ''GATEWAY_QUOTA_OR_RATE_LIMITED''),
      (10004, ''PERMISSION_DENIED''), (10006, ''GATEWAY_QUOTA_OR_RATE_LIMITED''),
      (10007, ''GATEWAY_QUOTA_OR_RATE_LIMITED''), (10008, ''TASK_CANCEL_FAILED''),
      (10009, ''TASK_CANCEL_FAILED''), (10105, ''TASK_NOT_FOUND'')]"

definition gateway_upstream_codes :: "(int \<times> string) list" where
  "gateway_upstream_codes =
     [(20003, ''GATEWAY_QUOTA_OR_RATE_LIMITED''), (20004, ''SERVICE_UNAVAILABLE''),
      (20005, ''GATEWAY_QUOTA_OR_RATE_LIMITED'')]"

definition product_messages :: "(string \<times> string) list" where
  "product_messages =
     [(''INVALID_PARAMS'', utf8 [232, 175, 183, 230, 177, 130, 229, 143, 130, 230, 149, 176, 230, 151, 160, 230, 149, 136]),
      (''INVALID_TOKEN'', utf8 [231, 189, 145, 229, 133, 179, 233, 137, 180, 230, 157, 131, 229, 164, 177, 232, 180, 165]),
      (''PERMISSION_DENIED'', utf8 [230, 151, 160, 230, 157, 131, 232, 174, 191, 233, 151, 174, 228, 184, 138, 230, 184, 184, 232, 181,
     132, 230, 186, 144]),
      (''GATEWAY_QUOTA_OR_RATE_LIMITED'', utf8 [228, 184, 138, 230, 184, 184, 233, 133, 141, 233, 162, 157, 228, 184, 141, 232, 182, 179, 230, 136,
     150, 232, 175, 183, 230, 177, 130, 232, 191, 135, 228, 186, 142, 233, 162, 145, 231, 185, 129]),
      (''TASK_CANCEL_FAILED'', utf8 [228, 187, 187, 229, 138, 161, 230, 151, 160, 230, 179, 149, 229, 143, 150, 230, 182, 136]),
      (''TASK_NOT_FOUND'', utf8 [228, 184, 138, 230, 184, 184, 228, 187, 187, 229, 138, 161, 228, 184, 141, 229, 173, 152, 229, 156,
     168]),
      (''GATEWAY_UPSTREAM_ERROR'', utf8 [228, 184, 138, 230, 184, 184, 230, 168, 161, 229, 158, 139, 230, 156, 141, 229, 138, 161, 229, 164,
     177, 232, 180, 165]),
      (''GATEWAY_PROTOCOL_ERROR'', utf8 [230, 168, 161, 229, 158, 139, 231, 189, 145, 229, 133, 179, 232, 191, 148, 229, 155, 158, 228, 186,
     134, 228, 184, 141, 231, 172, 166, 229, 144, 136, 229, 141, 143, 232, 174, 174, 231, 154, 132,
     230, 149, 176, 230, 141, 174]),
      (''GATEWAY_SUBMIT_ERROR'', utf8 [230, 143, 144, 228, 186, 164, 231, 148, 159, 230, 136, 144, 228, 187, 187, 229, 138, 161, 229, 164,
     177, 232, 180, 165, 239, 188, 154, 228, 184, 138, 230, 184, 184, 230, 156, 141, 229, 138, 161,
     230, 154, 130, 228, 184, 141, 229, 143, 175, 231, 148, 168]),
      (''GENERATION_STATUS_UNAVAILABLE'', utf8 [228, 187, 187, 229, 138, 161, 231, 138, 182, 230, 128, 129, 230, 154, 130, 230, 151, 182, 228, 184,
     141, 229, 143, 175, 231, 148, 168]),
      (''GENERATION_QUEUE_UNAVAILABLE'', utf8 [230, 142, 146, 233, 152, 159, 228, 191, 161, 230, 129, 175, 230, 154, 130, 230, 151, 182, 228, 184,
     141, 229, 143, 175, 231, 148, 168]),
      (''GENERATION_MODEL_LIST_UNAVAILABLE'', utf8 [230, 168, 161, 229, 158, 139, 230, 136, 150, 233, 159, 179, 232, 137, 178, 229, 136, 151, 232, 161,
     168, 230, 154, 130, 230, 151, 182, 228, 184, 141, 229, 143, 175, 231, 148, 168]),
      (''SERVICE_UNAVAILABLE'', utf8 [228, 184, 138, 230, 184, 184, 232, 175, 183, 230, 177, 130, 232, 182, 133, 230, 151, 182, 239, 188,
     140, 232, 175, 183, 231, 168, 141, 229, 144, 142, 233, 135, 141, 232, 175, 149])]"

definition msg_upstream_failed :: string where
  "msg_upstream_failed = utf8 [228, 184, 138, 230, 184, 184, 232, 175, 183, 230, 177, 130, 229, 164, 177, 232, 180, 165]"

definition resolve_product_error_code :: "int \<Rightarrow> string" where
  "resolve_product_error_code code =
     (case map_of gateway_client_codes code of
        Some c \<Rightarrow> c
      | None \<Rightarrow>
          (case map_of gateway_upstream_codes code of
             Some c \<Rightarrow> c
           | None \<Rightarrow>
               if 20000 \<le> code \<and> code < 30000 then ''GATEWAY_UPSTREAM_ERROR''
               else ''GATEWAY_PROTOCOL_ERROR''))"

definition default_message_for_product_code :: "string \<Rightarrow> string" where
  "default_message_for_product_code product =
     (case map_of product_messages product of Some m \<Rightarrow> m | None \<Rightarrow> msg_upstream_failed)"

definition resolve_gateway_failure_message :: "int option \<Rightarrow> string option \<Rightarrow> string" where
  "resolve_gateway_failure_message code text =
     (let message = strip (case text of None \<Rightarrow> [] | Some t \<Rightarrow> t) in
      if message \<noteq> [] then message
      else case code of
             None \<Rightarrow> []
           | Some c \<Rightarrow> default_message_for_product_code (resolve_product_error_code c))"

definition map_gateway_business_code :: "int \<Rightarrow> string option \<Rightarrow> exc" where
  "map_gateway_business_code code text =
     (let product = resolve_product_error_code code;
          message = strip (case text of None \<Rightarrow> [] | Some t \<Rightarrow> t)
      in AppError product (if message \<noteq> [] then message else default_message_for_product_code product))"

definition msg_gateway_down :: string where
  "msg_gateway_down = utf8 [230, 168, 161, 229, 158, 139, 231, 189, 145, 229, 133, 179, 230, 154, 130, 230, 151, 182, 228, 184,
     141, 229, 143, 175, 231, 148, 168]"

definition msg_gateway_http :: "int \<Rightarrow> string" where
  "msg_gateway_http n = utf8 [230, 168, 161, 229, 158, 139, 231, 189, 145, 229, 133, 179, 32, 72, 84, 84, 80, 32] @ int_str n"

definition app_error_from_gateway_http_status :: "int \<Rightarrow> exc" where
  "app_error_from_gateway_http_status n =
     (if n = 429 then AppError ''GATEWAY_QUOTA_OR_RATE_LIMITED''
                        (default_message_for_product_code ''GATEWAY_QUOTA_OR_RATE_LIMITED'')
      else if n \<in> {502, 503, 504, 524} then AppError ''SERVICE_UNAVAILABLE'' msg_gateway_down
      else if n = 401 then AppError ''INVALID_TOKEN'' (default_message_for_product_code ''INVALID_TOKEN'')
      else if n = 403 then AppError ''PERMISSION_DENIED'' (default_message_for_product_code ''PERMISSION_DENIED'')
      else if n = 400 then AppError ''INVALID_PARAMS'' (default_message_for_product_code ''INVALID_PARAMS'')
      else AppError ''GATEWAY_UPSTREAM_ERROR'' (msg_gateway_http n))"

lemma default_message_not_empty: "default_message_for_product_code product \<noteq> []"
  by (auto simp: default_message_for_product_code_def product_messages_def msg_upstream_failed_def
      split: option.splits if_splits)

lemma resolve_gateway_failure_message_empty:
  "resolve_gateway_failure_message code text = [] \<longleftrightarrow>
     code = None \<and> strip (case text of None \<Rightarrow> [] | Some t \<Rightarrow> t) = []"
  by (auto simp: resolve_gateway_failure_message_def Let_def default_message_not_empty split: option.splits)

section \<open>The catalogue of models\<close>

record gateway_model =
  gm_id :: string
  gm_task_type :: gateway_model_task_type
  gm_supports_vision :: bool
  gm_ratios :: "string list"
  gm_resolutions :: "string list"
  gm_ratios_by_resolution :: "string list dict"
  gm_counts :: "int list"
  gm_durations :: "int list"
  gm_modes :: "int list"
  gm_limits :: material_limits

definition generation_kind_of_model :: "gateway_model \<Rightarrow> generation_kind option" where
  "generation_kind_of_model m =
     (case gm_task_type m of
        GMT_IMAGE \<Rightarrow> Some GK_IMAGE | GMT_VIDEO \<Rightarrow> Some GK_VIDEO | GMT_TTS \<Rightarrow> Some GK_AUDIO | _ \<Rightarrow> None)"

definition mode_of_model :: "gateway_model \<Rightarrow> int \<Rightarrow> reference_mode res" where
  "mode_of_model m raw =
     (case ReferenceMode raw of
        Inr mode \<Rightarrow> Inr mode
      | Inl _ \<Rightarrow> Inl (ValueError (''unsupported reference_mode '' @ int_str raw @ '' for model '' @ gm_id m)))"

definition capabilities_from_gateway_model :: "gateway_model \<Rightarrow> generation_capabilities option res" where
  "capabilities_from_gateway_model m =
     (case generation_kind_of_model m of
        None \<Rightarrow> Inr None
      | Some kind \<Rightarrow>
          bindR (mapR (mode_of_model m) (gm_modes m)) (\<lambda>modes.
          Inr (Some \<lparr> gc_model = gm_id m, gc_kind = kind, gc_ratios = gm_ratios m, gc_resolutions = gm_resolutions m,
             gc_counts = gm_counts m, gc_durations = gm_durations m, gc_modes = modes, gc_limits = gm_limits m,
             gc_ratios_by_resolution = gm_ratios_by_resolution m \<rparr>)))"

type_synonym capability_map = "generation_capabilities dict"

fun capability_map_from_gateway_models :: "capability_map \<Rightarrow> gateway_model list \<Rightarrow> capability_map res" where
  "capability_map_from_gateway_models acc [] = Inr acc"
| "capability_map_from_gateway_models acc (m # ms) =
     bindR (capabilities_from_gateway_model m) (\<lambda>c.
     capability_map_from_gateway_models (case c of None \<Rightarrow> acc | Some c' \<Rightarrow> dict_set acc (gm_id m) c') ms)"

record param_options =
  po_ratios :: "string list"
  po_resolutions :: "string list"
  po_counts :: "int list"
  po_durations :: "int list"
  po_modes :: "(reference_mode \<times> string) list"
  po_ratios_by_resolution :: "string list dict"
  po_limits :: material_limits

definition dict_of_pairs :: "(string \<times> 'v) list \<Rightarrow> 'v dict" where
  "dict_of_pairs ps = foldl (\<lambda>d (k, v). dict_set d k v) [] ps"

definition to_param_options :: "generation_capabilities \<Rightarrow> param_options" where
  "to_param_options c =
     \<lparr> po_ratios = gc_ratios c, po_resolutions = gc_resolutions c, po_counts = gc_counts c,
       po_durations = gc_durations c, po_modes = map (\<lambda>m. (m, label_of_reference_mode m)) (gc_modes c),
       po_ratios_by_resolution = dict_of_pairs (gc_ratios_by_resolution c), po_limits = gc_limits c \<rparr>"

section \<open>Requests to the gateway\<close>

record submit_request =
  sr_kind :: generation_kind
  sr_prompt :: string
  sr_model :: string
  sr_voice :: "string option"
  sr_ratio :: "string option"
  sr_resolution :: "string option"
  sr_count :: int
  sr_duration :: "int option"
  sr_mode :: "reference_mode option"
  sr_refs :: "int list"
  sr_episode :: "int option"
  sr_node :: "string option"

text \<open>What the validation of the request guarantees: field constraints, and an episode exactly with a node.\<close>

definition stripped_node :: "submit_request \<Rightarrow> string" where
  "stripped_node req = (case sr_node req of None \<Rightarrow> [] | Some n \<Rightarrow> strip n)"

definition submit_request_valid :: "submit_request \<Rightarrow> bool" where
  "submit_request_valid req \<longleftrightarrow>
     sr_prompt req \<noteq> [] \<and> sr_model req \<noteq> [] \<and> 1 \<le> sr_count req \<and> sr_count req \<le> 6
     \<and> (case sr_duration req of None \<Rightarrow> True | Some d \<Rightarrow> 3 \<le> d \<and> d \<le> 15)
     \<and> (case sr_episode req of None \<Rightarrow> True | Some e \<Rightarrow> 1 \<le> e)
     \<and> (sr_episode req \<noteq> None) = (stripped_node req \<noteq> [])"

record gateway_material =
  gw_type :: material_type
  gw_key :: string

fun dedupe_from :: "string list \<Rightarrow> gateway_material list \<Rightarrow> gateway_material list" where
  "dedupe_from seen [] = []"
| "dedupe_from seen (m # ms) =
     (if gw_key m = [] \<or> gw_key m \<in> set seen then dedupe_from seen ms
      else m # dedupe_from (gw_key m # seen) ms)"

definition dedupe_materials :: "gateway_material list \<Rightarrow> gateway_material list" where
  "dedupe_materials ms = dedupe_from [] ms"

fun content_type_of_material :: "material_type \<Rightarrow> gateway_content_type" where
  "content_type_of_material MT_IMAGE = GCT_IMAGE"
| "content_type_of_material MT_VIDEO = GCT_VIDEO"
| "content_type_of_material MT_AUDIO = GCT_AUDIO"

record content_part =
  ct_type :: gateway_content_type
  ct_text :: "string option"
  ct_ref :: "int option"

definition content_with_materials :: "string \<Rightarrow> gateway_material list \<Rightarrow> content_part list" where
  "content_with_materials prompt ms =
     \<lparr> ct_type = GCT_TEXT, ct_text = Some prompt, ct_ref = None \<rparr>
     # map (\<lambda>(i, m). \<lparr> ct_type = content_type_of_material (gw_type m), ct_text = None, ct_ref = Some (int i) \<rparr>)
         (enumerate 1 ms)"

record image_submit =
  is_model :: string
  is_content :: "content_part list"
  is_max_images :: int
  is_callback :: string
  is_materials :: "gateway_material list"
  is_ratio :: "string option"
  is_resolution :: "string option"

record video_submit =
  vs_model :: string
  vs_content :: "content_part list"
  vs_callback :: string
  vs_mode :: reference_mode
  vs_duration :: int
  vs_materials :: "gateway_material list"
  vs_ratio :: "string option"
  vs_resolution :: "string option"

record tts_submit =
  ts_model :: string
  ts_text :: string
  ts_voice :: string
  ts_callback :: string

definition msg_mode_and_duration_required :: string where
  "msg_mode_and_duration_required = utf8 [232, 167, 134, 233, 162, 145, 231, 148, 159, 230, 136, 144, 229, 191, 133, 233, 161, 187, 230, 152,
     190, 229, 188, 143, 233, 128, 137, 230, 139, 169, 229, 143, 130, 232, 128, 131, 230, 168, 161,
     229, 188, 143, 229, 146, 140, 230, 151, 182, 233, 149, 191]"

definition msg_no_mode_needed :: string where
  "msg_no_mode_needed = utf8 [233, 157, 158, 232, 167, 134, 233, 162, 145, 232, 175, 183, 230, 177, 130, 230, 151, 160, 233, 156,
     128, 229, 143, 130, 232, 128, 131, 230, 168, 161, 229, 188, 143]"

definition build_image_submit_request :: "submit_request \<Rightarrow> gateway_material list \<Rightarrow> string \<Rightarrow> image_submit" where
  "build_image_submit_request req ms url =
     \<lparr> is_model = sr_model req, is_content = content_with_materials (sr_prompt req) ms, is_max_images = sr_count req,
       is_callback = url, is_materials = ms, is_ratio = sr_ratio req, is_resolution = sr_resolution req \<rparr>"

definition build_video_submit_request :: "submit_request \<Rightarrow> gateway_material list \<Rightarrow> string \<Rightarrow> video_submit res" where
  "build_video_submit_request req ms url =
     (case (sr_mode req, sr_duration req) of
        (Some mode, Some d) \<Rightarrow>
          Inr \<lparr> vs_model = sr_model req, vs_content = content_with_materials (sr_prompt req) ms, vs_callback = url,
                vs_mode = mode, vs_duration = d, vs_materials = ms, vs_ratio = sr_ratio req,
                vs_resolution = sr_resolution req \<rparr>
      | _ \<Rightarrow> Inl (invalid_params msg_mode_and_duration_required))"

definition build_tts_submit_request :: "submit_request \<Rightarrow> string \<Rightarrow> string \<Rightarrow> tts_submit res" where
  "build_tts_submit_request req voice url =
     (if sr_prompt req = [] \<or> voice = [] then Inl (ValidationError ''GatewayTTSSubmitRequest'')
      else Inr \<lparr> ts_model = sr_model req, ts_text = sr_prompt req, ts_voice = voice, ts_callback = url \<rparr>)"

definition require_video_reference_mode :: "submit_request \<Rightarrow> reference_mode res" where
  "require_video_reference_mode req =
     bindR (assertR (sr_kind req = GK_VIDEO) (invalid_params msg_no_mode_needed)) (\<lambda>_.
     case sr_mode req of None \<Rightarrow> Inl (invalid_params msg_mode_required) | Some m \<Rightarrow> Inr m)"
end
