(* ===== verification/Multi_Level_Cache.thy ===== *)
theory Multi_Level_Cache
  imports Redis_Store Frame_Rules
begin

text \<open>
  The two-level cache of \<open>utils/cache.py\<close>: \<open>LRUCache\<close> in the memory of the process, an ordered
  dictionary from the least to the most recently used key, and \<open>MultiLevelCache\<close>, which has Redis behind it.

  Cached values are JSON values and \<open>None\<close> is \<open>JNull\<close>. Times are microseconds and \<open>time.time()\<close> is a
  stream of readings; 0 is the expiry of an entry that never expires. Any call to Redis may fail: the
  next element of \<open>ch_faults\<close> says whether it does. \<open>json.dumps\<close>, \<open>json.loads\<close> and what other processes
  do to Redis while this one sleeps are parameters. The locks of the process are held only between two
  suspension points and are left out, as are the decorator \<open>cached\<close>, the key built from a function
  and its arguments, and \<open>invalidate_pattern\<close>.
\<close>

section \<open>State\<close>

record cache =
  ch_l1 :: "(json \<times> int) dict"
  ch_redis :: redis
  ch_clock :: "nat \<Rightarrow> int"
  ch_faults :: "nat \<Rightarrow> exc option"

record cache_env =
  cx_has_redis :: bool
  cx_maxsize :: nat
  cx_l1_ttl :: int
  cx_l2_ttl :: int
  cx_null_ttl :: int
  cx_lock_timeout :: int
  cx_prefix :: string
  cx_dumps :: "json \<Rightarrow> string"
  cx_loads :: "string \<Rightarrow> json res"
  cx_sleep :: "redis \<Rightarrow> redis"

definition ch_now :: "(cache, int) eff" where
  "ch_now s = (Inr (ch_clock s 0), s\<lparr>ch_clock := (\<lambda>n. ch_clock s (Suc n))\<rparr>)"

section \<open>The memory of the process\<close>

definition without_key :: "string \<Rightarrow> 'v dict \<Rightarrow> 'v dict" where
  "without_key k d = filter (\<lambda>p. fst p \<noteq> k) d"

definition lru_get :: "string \<Rightarrow> (cache, json) eff" where
  "lru_get k =
     bindE (gets (\<lambda>s. dict_get (ch_l1 s) k)) (\<lambda>m.
     case m of
       None \<Rightarrow> ret JNull
     | Some (v, expires_at) \<Rightarrow>
         bindE (if expires_at = 0 then ret False else bindE ch_now (\<lambda>now. ret (expires_at < now))) (\<lambda>expired.
         if expired then bindE (modify (\<lambda>s. s\<lparr>ch_l1 := without_key k (ch_l1 s)\<rparr>)) (\<lambda>_. ret JNull)
         else bindE (modify (\<lambda>s. s\<lparr>ch_l1 := without_key k (ch_l1 s) @ [(k, (v, expires_at))]\<rparr>)) (\<lambda>_. ret v)))"

definition lru_store :: "cache_env \<Rightarrow> string \<Rightarrow> json \<Rightarrow> int \<Rightarrow> (cache, unit) eff" where
  "lru_store env k v expires_at =
     bindE (gets ch_l1) (\<lambda>l1.
     if dict_get l1 k \<noteq> None
     then modify (\<lambda>s. s\<lparr>ch_l1 := without_key k l1 @ [(k, (v, expires_at))]\<rparr>)
     else if cx_maxsize env \<le> length l1
     then (case l1 of
             [] \<Rightarrow> raise (KeyError ''dictionary is empty'')
           | _ # rest \<Rightarrow> modify (\<lambda>s. s\<lparr>ch_l1 := rest @ [(k, (v, expires_at))]\<rparr>))
     else modify (\<lambda>s. s\<lparr>ch_l1 := l1 @ [(k, (v, expires_at))]\<rparr>))"

definition lru_set :: "cache_env \<Rightarrow> string \<Rightarrow> json \<Rightarrow> int \<Rightarrow> (cache, unit) eff" where
  "lru_set env k v ttl =
     bindE (if ttl > 0 then bindE ch_now (\<lambda>now. ret (now + ttl * 1000000)) else ret 0) (\<lambda>expires_at.
     lru_store env k v expires_at)"

definition lru_delete :: "string \<Rightarrow> (cache, bool) eff" where
  "lru_delete k s = (Inr (dict_get (ch_l1 s) k \<noteq> None), s\<lparr>ch_l1 := without_key k (ch_l1 s)\<rparr>)"

definition lru_clear :: "(cache, unit) eff" where
  "lru_clear = modify (\<lambda>s. s\<lparr>ch_l1 := []\<rparr>)"

definition cleanup_expired :: "(cache, nat) eff" where
  "cleanup_expired =
     bindE ch_now (\<lambda>now s.
     let dead = (\<lambda>p. snd (snd p) \<noteq> 0 \<and> snd (snd p) < now) in
     (Inr (length (filter dead (ch_l1 s))), s\<lparr>ch_l1 := filter (\<lambda>p. \<not> dead p) (ch_l1 s)\<rparr>))"

section \<open>Both levels\<close>

definition null_sentinel :: json where
  "null_sentinel = JStr ''__NULL__''"

definition value_key :: "cache_env \<Rightarrow> string \<Rightarrow> string" where
  "value_key env k = cx_prefix env @ '':'' @ k"

definition lock_key :: "cache_env \<Rightarrow> string \<Rightarrow> string" where
  "lock_key env k = cx_prefix env @ '':lock:'' @ k"

text \<open>A call to Redis, which may fail before it has any effect; \<open>except Exception\<close> around it.\<close>

definition redis_call :: "(redis \<Rightarrow> 'a \<times> redis) \<Rightarrow> (cache, 'a) eff" where
  "redis_call f s =
     (let s' = s\<lparr>ch_faults := (\<lambda>n. ch_faults s (Suc n))\<rparr> in
      case ch_faults s 0 of
        Some e \<Rightarrow> (Inl e, s')
      | None \<Rightarrow> (case f (ch_redis s) of (x, r) \<Rightarrow> (Inr x, s'\<lparr>ch_redis := r\<rparr>)))"

definition except_exception :: "('s, 'a) eff \<Rightarrow> 'a \<Rightarrow> ('s, 'a) eff" where
  "except_exception m x = catchE m (\<lambda>e. if e = CancelledError then raise e else ret x)"

definition cache_get :: "cache_env \<Rightarrow> string \<Rightarrow> (cache, json) eff" where
  "cache_get env k =
     bindE (lru_get k) (\<lambda>v.
     if v \<noteq> JNull then ret (if v = null_sentinel then JNull else v)
     else if \<not> cx_has_redis env then ret JNull
     else
       except_exception
         (bindE (redis_call (\<lambda>r. (redis_get (value_key env k) r, r))) (\<lambda>raw.
          case raw of
            None \<Rightarrow> ret JNull
          | Some t \<Rightarrow>
              bindE (liftR (cx_loads env t)) (\<lambda>w.
              if w = null_sentinel
              then bindE (lru_set env k null_sentinel (cx_null_ttl env)) (\<lambda>_. ret JNull)
              else bindE (lru_set env k w (cx_l1_ttl env)) (\<lambda>_. ret w)))) JNull)"

definition cache_set :: "cache_env \<Rightarrow> string \<Rightarrow> json \<Rightarrow> int option \<Rightarrow> int option \<Rightarrow> (cache, bool) eff" where
  "cache_set env k v ttl_arg l1_ttl_arg =
     (let ttl = (case ttl_arg of None \<Rightarrow> cx_l2_ttl env | Some t \<Rightarrow> t);
          l1_ttl = (case l1_ttl_arg of None \<Rightarrow> min (cx_l1_ttl env) ttl | Some t \<Rightarrow> t);
          w = (if v = JNull then null_sentinel else v)
      in bindE (lru_set env k w l1_ttl) (\<lambda>_.
         if \<not> cx_has_redis env then ret True
         else
           except_exception
             (bindE (ensure (ttl > 0) (ResponseError ''invalid expire time in 'set' command'')) (\<lambda>_.
              bindE (redis_call (\<lambda>r. ((), redis_set_ex (value_key env k) (cx_dumps env w) ttl r))) (\<lambda>_.
              ret True))) False))"

definition cache_delete :: "cache_env \<Rightarrow> string \<Rightarrow> (cache, bool) eff" where
  "cache_delete env k =
     bindE (lru_delete k) (\<lambda>_.
     if \<not> cx_has_redis env then ret True
     else
       except_exception
         (bindE (redis_call (\<lambda>r. ((), redis_del (value_key env k) r))) (\<lambda>_. ret True)) False)"

definition acquire_lock :: "cache_env \<Rightarrow> string \<Rightarrow> (cache, bool) eff" where
  "acquire_lock env k =
     (if \<not> cx_has_redis env then ret True
      else except_exception (redis_call (redis_set_nx (lock_key env k) ''1'' (cx_lock_timeout env))) True)"

definition release_lock :: "cache_env \<Rightarrow> string \<Rightarrow> (cache, unit) eff" where
  "release_lock env k =
     (if \<not> cx_has_redis env then ret ()
      else except_exception (redis_call (\<lambda>r. ((), redis_del (lock_key env k) r))) ())"

section \<open>Computing what is not cached\<close>

text \<open>The cache as a part of a larger state.\<close>

definition zoom :: "('s \<Rightarrow> 'c) \<Rightarrow> ('c \<Rightarrow> 's \<Rightarrow> 's) \<Rightarrow> ('c, 'a) eff \<Rightarrow> ('s, 'a) eff" where
  "zoom get_part put_part m s = (case m (get_part s) of (r, c) \<Rightarrow> (r, put_part c s))"

definition cache_sleep :: "cache_env \<Rightarrow> (cache, unit) eff" where
  "cache_sleep env = modify (\<lambda>s. s\<lparr>ch_redis := cx_sleep env (ch_redis s)\<rparr>)"

definition compute_and_store ::
  "('s \<Rightarrow> cache) \<Rightarrow> (cache \<Rightarrow> 's \<Rightarrow> 's) \<Rightarrow> cache_env \<Rightarrow> string \<Rightarrow> ('s, json) eff \<Rightarrow> int option \<Rightarrow> bool \<Rightarrow> ('s, json) eff" where
  "compute_and_store g p env k compute ttl cache_none =
     finallyE
       (bindE compute (\<lambda>result.
        bindE (if result \<noteq> JNull \<or> cache_none then zoom g p (cache_set env k result ttl None) else ret True) (\<lambda>_.
        ret result)))
       (zoom g p (release_lock env k))"

definition get_or_set ::
  "('s \<Rightarrow> cache) \<Rightarrow> (cache \<Rightarrow> 's \<Rightarrow> 's) \<Rightarrow> cache_env \<Rightarrow> string \<Rightarrow> ('s, json) eff \<Rightarrow> int option \<Rightarrow> ('s, json) eff" where
  "get_or_set g p env k factory ttl =
     bindE (zoom g p (cache_get env k)) (\<lambda>v.
     if v \<noteq> JNull then ret v
     else
       bindE (zoom g p (acquire_lock env k)) (\<lambda>acquired.
       bindE (if acquired then ret JNull
              else bindE (zoom g p (cache_sleep env)) (\<lambda>_. zoom g p (cache_get env k))) (\<lambda>w.
       if w \<noteq> JNull then ret w else compute_and_store g p env k factory ttl True)))"

definition get_or_compute ::
  "('s \<Rightarrow> cache) \<Rightarrow> (cache \<Rightarrow> 's \<Rightarrow> 's) \<Rightarrow> cache_env \<Rightarrow> string \<Rightarrow> ('s, json) eff \<Rightarrow> int option \<Rightarrow> bool \<Rightarrow> ('s, json) eff" where
  "get_or_compute g p env k compute ttl cache_none =
     bindE (zoom g p (cache_get env k)) (\<lambda>v.
     if v \<noteq> JNull then ret v
     else
       bindE (zoom g p (lru_get k)) (\<lambda>l.
       if l = null_sentinel then ret JNull
       else
         bindE (zoom g p (acquire_lock env k)) (\<lambda>acquired.
         if acquired then compute_and_store g p env k compute ttl cache_none
         else
           bindE (zoom g p (cache_sleep env)) (\<lambda>_.
           bindE (zoom g p (cache_get env k)) (\<lambda>w.
           if w \<noteq> JNull then ret w
           else
             bindE (zoom g p (lru_get k)) (\<lambda>l'.
             if l' = null_sentinel then ret JNull
             else compute_and_store g p env k compute ttl cache_none))))))"

end
