(* ===== verification/Asset_Store.thy ===== *)
theory Asset_Store
  imports Generation_Domain Episode_Fence Multi_Level_Cache
begin

text \<open>
  The state of the generation service and the registry of assets: the tables \<open>assets\<close> and
  \<open>generate_task\<close> of \<open>db/schema.sql\<close>, \<open>assets/persistence\<close>, \<open>assets/services/service.py\<close> and
  \<open>assets/domain/upload_rules.py\<close>.

  The canvas and the locks are parts of the state, so that the operations on them run on the same tables,
  and so are the cache and the capabilities of models that the service object holds.
  What lies outside, the model gateway and the object storage, is a stream of answers: every call takes
  the next one (\<open>gd_world\<close>). The signing of URLs, the case-insensitive search of the database and the
  text of a time as a float are parameters (\<open>gen_env\<close>), as is the check that a user may write to an
  episode. Times are microseconds. JSON columns hold what the code writes to them.
\<close>

section \<open>State\<close>

record gen_task =
  gk_id :: int
  gk_user :: int
  gk_union :: "int option"
  gk_kind :: string
  gk_status :: int
  gk_prompt :: string
  gk_model :: string
  gk_voice :: "string option"
  gk_ratio :: "string option"
  gk_resolution :: "string option"
  gk_max_images :: "int option"
  gk_duration :: "int option"
  gk_mode :: "int option"
  gk_refs :: "int list option"
  gk_result_keys :: "json list option"
  gk_result_assets :: "int list option"
  gk_error :: "string option"
  gk_callback_sent :: bool
  gk_deleted :: "int option"
  gk_created :: int

record gen_asset =
  ga_id :: int
  ga_user :: int
  ga_project :: "int option"
  ga_key :: string
  ga_filename :: string
  ga_mime :: string
  ga_type :: string
  ga_source_type :: string
  ga_source_id :: "string option"
  ga_metadata :: "json dict"
  ga_status :: string
  ga_favorite :: bool
  ga_deleted :: "int option"

record task_data =
  td_status :: int
  td_urls :: "result_item list option"
  td_reason :: "string option"
  td_error_code :: "int option"

record queue_item =
  qi_task :: int
  qi_status :: int
  qi_position :: "int option"
  qi_total :: "int option"
  qi_wait :: "int option"

record voice_item =
  vi_id :: string
  vi_name :: string
  vi_description :: string

text \<open>One answer of the outside world to each of the calls.\<close>

record world =
  wd_submit_image :: "image_submit \<Rightarrow> string \<Rightarrow> int res"
  wd_submit_video :: "video_submit \<Rightarrow> string \<Rightarrow> int res"
  wd_submit_tts :: "tts_submit \<Rightarrow> string \<Rightarrow> int res"
  wd_get_task :: "int \<Rightarrow> task_data res"
  wd_queue :: "int list \<Rightarrow> queue_item list res"
  wd_cancel :: "int \<Rightarrow> string \<Rightarrow> unit res"
  wd_models :: "gateway_model list res"
  wd_voices :: "string \<Rightarrow> voice_item list res"
  wd_head :: "string \<Rightarrow> int res"

record gen_db =
  gd_tasks :: "gen_task list"
  gd_task_seq :: int
  gd_assets :: "gen_asset list"
  gd_asset_seq :: int
  gd_clock :: "nat \<Rightarrow> int"
  gd_uuids :: "nat \<Rightarrow> string"
  gd_world :: "nat \<Rightarrow> world"
  gd_canvas :: canvas_db
  gd_locks :: lock_state
  gd_cache :: cache
  gd_caps :: capability_map
  gd_caps_until :: int

record gen_env =
  ge_canvas :: canvas_env
  ge_callback_url :: string
  ge_presign :: "string \<Rightarrow> string res"
  ge_presign_put :: "string \<Rightarrow> string res"
  ge_presign_ttl :: int
  ge_icontains :: "string \<Rightarrow> string \<Rightarrow> bool"
  ge_write_scope :: "int \<Rightarrow> int \<Rightarrow> (canvas_db, unit) eff"
  ge_cache :: cache_env
  ge_ttl :: int
  ge_float_text :: "int \<Rightarrow> string"
  ge_float_value :: "string \<Rightarrow> int"

definition gd_now :: "(gen_db, int) eff" where
  "gd_now s = (Inr (gd_clock s 0), s\<lparr>gd_clock := (\<lambda>n. gd_clock s (Suc n))\<rparr>)"

definition gd_uuid4_hex :: "(gen_db, string) eff" where
  "gd_uuid4_hex s = (Inr (gd_uuids s 0), s\<lparr>gd_uuids := (\<lambda>n. gd_uuids s (Suc n))\<rparr>)"

definition ask_world :: "(world \<Rightarrow> 'a res) \<Rightarrow> (gen_db, 'a) eff" where
  "ask_world f s = (f (gd_world s 0), s\<lparr>gd_world := (\<lambda>n. gd_world s (Suc n))\<rparr>)"

text \<open>
  \<open>async with in_transaction()\<close>: an exception restores the tables. Sequences of identifiers, the
  clock and the calls that have been made are not undone.
\<close>

definition gd_transaction :: "(gen_db, 'a) eff \<Rightarrow> (gen_db, 'a) eff" where
  "gd_transaction m s =
     (case m s of
        (Inl e, t) \<Rightarrow> (Inl e, t\<lparr>gd_tasks := gd_tasks s, gd_assets := gd_assets s, gd_canvas := gd_canvas s\<rparr>)
      | (Inr x, t) \<Rightarrow> (Inr x, t))"

section \<open>Rules of uploads\<close>

definition material_max_bytes :: int where
  "material_max_bytes = 200 * 1024 * 1024"

datatype upload_source = US_MANUAL_UPLOAD | US_GENERATE_MATERIAL | US_AGENT_UPLOAD

fun upload_source_value :: "upload_source \<Rightarrow> string" where
  "upload_source_value US_MANUAL_UPLOAD = ''manual_upload''"
| "upload_source_value US_GENERATE_MATERIAL = ''generate_material''"
| "upload_source_value US_AGENT_UPLOAD = ''agent_upload''"

definition msg_media_only :: string where
  "msg_media_only = utf8 [228, 187, 133, 230, 148, 175, 230, 140, 129, 229, 155, 190, 231, 137, 135, 227, 128, 129, 232, 167,
     134, 233, 162, 145, 230, 136, 150, 233, 159, 179, 233, 162, 145]"

definition msg_file_empty :: string where
  "msg_file_empty = utf8 [231, 180, 160, 230, 157, 144, 230, 150, 135, 228, 187, 182, 228, 184, 186, 231, 169, 186]"

definition msg_file_too_large :: string where
  "msg_file_too_large = utf8 [231, 180, 160, 230, 157, 144, 230, 150, 135, 228, 187, 182, 232, 191, 135, 229, 164, 167]"

definition msg_project_required :: string where
  "msg_project_required = ''agent_upload '' @ utf8 [229, 191, 133, 233, 161, 187, 230, 143, 144, 228, 190, 155, 32, 112, 114, 111, 106, 101, 99, 116,
     95, 105, 100]"

definition msg_key_mismatch :: string where
  "msg_key_mismatch = ''storage_key '' @ utf8 [228, 184, 142, 229, 189, 147, 229, 137, 141, 231, 148, 168, 230, 136, 183, 230, 136, 150, 230, 157,
     165, 230, 186, 144, 228, 184, 141, 229, 140, 185, 233, 133, 141]"

definition msg_key_illegal :: string where
  "msg_key_illegal = ''storage_key '' @ utf8 [233, 157, 158, 230, 179, 149]"

definition msg_size_mismatch :: string where
  "msg_size_mismatch = utf8 [229, 174, 162, 230, 136, 183, 231, 171, 175, 229, 163, 176, 230, 152, 142, 229, 164, 167, 229, 176,
     143, 228, 184, 142, 229, 175, 185, 232, 177, 161, 229, 174, 158, 233, 153, 133, 229, 164, 167,
     229, 176, 143, 228, 184, 141, 228, 184, 128, 232, 135, 180]"

definition msg_content_type_empty :: string where
  "msg_content_type_empty = utf8 [231, 180, 160, 230, 157, 144, 32, 67, 111, 110, 116, 101, 110, 116, 45, 84, 121, 112, 101, 32, 228,
     184, 141, 232, 131, 189, 228, 184, 186, 231, 169, 186]"

definition msg_text_asset :: string where
  "msg_text_asset = utf8 [228, 184, 141, 230, 148, 175, 230, 140, 129, 229, 176, 134, 230, 150, 135, 230, 156, 172, 232, 181,
     132, 228, 186, 167, 228, 189, 156, 228, 184, 186, 231, 148, 159, 230, 136, 144, 229, 143, 130,
     232, 128, 131, 231, 180, 160, 230, 157, 144]"

definition msg_asset_missing :: string where
  "msg_asset_missing = utf8 [229, 188, 149, 231, 148, 168, 232, 181, 132, 228, 186, 167, 228, 184, 141, 229, 173, 152, 229, 156,
     168, 230, 136, 150, 230, 151, 160, 230, 157, 131, 232, 174, 191, 233, 151, 174]"

definition msg_filename :: string where
  "msg_filename = utf8 [230, 150, 135, 228, 187, 182, 229, 144, 141, 230, 151, 160, 230, 149, 136]"

definition asset_type_from_media_mime :: "string \<Rightarrow> string res" where
  "asset_type_from_media_mime mime =
     (if prefix ''image/'' mime then Inr ''image''
      else if prefix ''video/'' mime then Inr ''video''
      else if prefix ''audio/'' mime then Inr ''audio''
      else Inl (invalid_params msg_media_only))"

definition validate_direct_upload_bytes :: "int \<Rightarrow> unit res" where
  "validate_direct_upload_bytes n =
     (if n \<le> 0 then Inl (invalid_params msg_file_empty)
      else if n > material_max_bytes then Inl (invalid_params msg_file_too_large)
      else Inr ())"

definition validate_direct_upload_media :: "string \<Rightarrow> int \<Rightarrow> string res" where
  "validate_direct_upload_media mime n =
     bindR (validate_direct_upload_bytes n) (\<lambda>_. asset_type_from_media_mime mime)"

definition expected_key_prefix :: "upload_source \<Rightarrow> int \<Rightarrow> int option \<Rightarrow> string res" where
  "expected_key_prefix source user project =
     (case source of
        US_MANUAL_UPLOAD \<Rightarrow> Inr (''assets/'' @ int_str user @ ''/'')
      | US_GENERATE_MATERIAL \<Rightarrow> Inr (''materials/'' @ int_str user @ ''/'')
      | US_AGENT_UPLOAD \<Rightarrow>
          (case project of
             None \<Rightarrow> Inl (invalid_params msg_project_required)
           | Some p \<Rightarrow> Inr (''agent/'' @ int_str user @ ''/'' @ int_str p @ ''/'')))"

text \<open>\<open>s.split(sep)\<close> with a separator of one character.\<close>

fun split_on :: "char \<Rightarrow> string \<Rightarrow> string list" where
  "split_on c [] = [[]]"
| "split_on c (x # s) =
     (if x = c then [] # split_on c s
      else case split_on c s of [] \<Rightarrow> [[x]] | w # ws \<Rightarrow> (x # w) # ws)"

definition assert_storage_key_owned :: "string \<Rightarrow> upload_source \<Rightarrow> int \<Rightarrow> int option \<Rightarrow> unit res" where
  "assert_storage_key_owned key source user project =
     bindR (expected_key_prefix source user project) (\<lambda>p.
     bindR (assertR (prefix p key) (invalid_params msg_key_mismatch)) (\<lambda>_.
     let remainder = drop (length p) key in
     assertR (\<not> (remainder = [] \<or> prefix ''/'' remainder \<or> ''..'' \<in> set (split_on (CHR ''/'') remainder)))
       (invalid_params msg_key_illegal)))"

text \<open>\<open>Path(filename).name\<close>: the last component that is neither empty nor \<open>.\<close>.\<close>

definition path_name :: "string \<Rightarrow> string" where
  "path_name p =
     (case filter (\<lambda>c. c \<noteq> [] \<and> c \<noteq> ''.'') (split_on (CHR ''/'') p) of [] \<Rightarrow> [] | cs \<Rightarrow> last cs)"

definition safe_filename :: "string \<Rightarrow> string res" where
  "safe_filename filename =
     (let name = strip (path_name filename) in
      if name = [] then Inl (invalid_params msg_filename) else Inr name)"

section \<open>Assets: repository\<close>

definition live_asset :: "int \<Rightarrow> gen_asset \<Rightarrow> bool" where
  "live_asset user a \<longleftrightarrow> ga_user a = user \<and> ga_deleted a = None"

definition select_assets :: "(gen_asset \<Rightarrow> bool) \<Rightarrow> (gen_db, gen_asset list) eff" where
  "select_assets c = gets (\<lambda>s. filter c (gd_assets s))"

definition update_assets :: "(gen_asset \<Rightarrow> bool) \<Rightarrow> (gen_asset \<Rightarrow> gen_asset) \<Rightarrow> (gen_db, int) eff" where
  "update_assets c f s =
     (Inr (int (length (filter c (gd_assets s)))),
      s\<lparr>gd_assets := map (\<lambda>a. if c a then f a else a) (gd_assets s)\<rparr>)"

definition get_active_by_ids_for_user :: "int list \<Rightarrow> int \<Rightarrow> (gen_db, gen_asset list) eff" where
  "get_active_by_ids_for_user ids user =
     (if ids = [] then ret [] else select_assets (\<lambda>a. ga_id a \<in> set ids \<and> live_asset user a))"

definition ready_visual :: "int \<Rightarrow> string list \<Rightarrow> gen_asset \<Rightarrow> bool" where
  "ready_visual user types a \<longleftrightarrow> live_asset user a \<and> ga_type a \<in> set types \<and> ga_status a = ''ready''"

definition get_ready_visual_by_id_for_user :: "int \<Rightarrow> int \<Rightarrow> string list \<Rightarrow> (gen_db, gen_asset option) eff" where
  "get_ready_visual_by_id_for_user i user types =
     gets (\<lambda>s. find (\<lambda>a. ga_id a = i \<and> ready_visual user types a) (gd_assets s))"

definition get_ready_visual_by_ids_for_user :: "int list \<Rightarrow> int \<Rightarrow> string list \<Rightarrow> (gen_db, gen_asset list) eff" where
  "get_ready_visual_by_ids_for_user ids user types =
     (if ids = [] then ret [] else select_assets (\<lambda>a. ga_id a \<in> set ids \<and> ready_visual user types a))"

definition update_generation_context ::
  "int \<Rightarrow> int \<Rightarrow> int option \<Rightarrow> json dict \<Rightarrow> (gen_db, unit) eff" where
  "update_generation_context i project current metadata =
     bindE (update_assets (\<lambda>a. ga_id a = i \<and> ga_deleted a = None)
       (\<lambda>a. if current = None then a\<lparr>ga_metadata := metadata, ga_project := Some project\<rparr>
             else a\<lparr>ga_metadata := metadata\<rparr>)) (\<lambda>_. ret ())"

definition get_favorited_by_ids_for_user :: "int list \<Rightarrow> int \<Rightarrow> (gen_db, gen_asset list) eff" where
  "get_favorited_by_ids_for_user ids user =
     (if ids = [] then ret [] else select_assets (\<lambda>a. ga_id a \<in> set ids \<and> live_asset user a \<and> ga_favorite a))"

definition list_favorited_for_user :: "int \<Rightarrow> (gen_db, gen_asset list) eff" where
  "list_favorited_for_user user = select_assets (\<lambda>a. live_asset user a \<and> ga_favorite a)"

definition set_favorite_for_user :: "int \<Rightarrow> int list \<Rightarrow> bool \<Rightarrow> (gen_db, unit) eff" where
  "set_favorite_for_user user ids favorited =
     (if ids = [] then ret ()
      else bindE (update_assets (\<lambda>a. live_asset user a \<and> ga_id a \<in> set ids) (\<lambda>a. a\<lparr>ga_favorite := favorited\<rparr>))
             (\<lambda>_. ret ()))"

section \<open>Assets: service\<close>

definition material_type_from_asset_type :: "string \<Rightarrow> material_type res" where
  "material_type_from_asset_type t =
     (if t = ''image'' then Inr MT_IMAGE else if t = ''video'' then Inr MT_VIDEO
      else if t = ''audio'' then Inr MT_AUDIO else Inl (invalid_params msg_text_asset))"

record asset_data =
  ad_user :: int
  ad_key :: string
  ad_mime :: string
  ad_type :: "string option"
  ad_filename :: string
  ad_source_type :: string
  ad_source_id :: "string option"
  ad_project :: "int option"
  ad_metadata :: "json dict"

definition insert_asset :: "asset_data \<Rightarrow> (gen_db, gen_asset) eff" where
  "insert_asset d s =
     (let a = \<lparr> ga_id = gd_asset_seq s, ga_user = ad_user d, ga_project = ad_project d, ga_key = ad_key d,
            ga_filename = ad_filename d, ga_mime = ad_mime d,
            ga_type = (if given (ad_type d) then the (ad_type d) else asset_type_from_mime (ad_mime d)),
            ga_source_type = ad_source_type d, ga_source_id = ad_source_id d, ga_metadata = ad_metadata d,
            ga_status = ''ready'', ga_favorite = False, ga_deleted = None \<rparr>
      in (Inr a, s\<lparr>gd_assets := gd_assets s @ [a], gd_asset_seq := gd_asset_seq s + 1\<rparr>))"

definition same_source :: "asset_data \<Rightarrow> gen_asset \<Rightarrow> bool" where
  "same_source d a \<longleftrightarrow> ga_key a = ad_key d \<and> ga_source_type a = ad_source_type d \<and> ga_source_id a = ad_source_id d
     \<and> live_asset (ad_user d) a"

definition create_asset :: "asset_data \<Rightarrow> (gen_db, gen_asset) eff" where
  "create_asset d =
     bindE (gets (\<lambda>s. if given (ad_source_id d) then find (same_source d) (gd_assets s) else None)) (\<lambda>existing.
     case existing of Some a \<Rightarrow> ret a | None \<Rightarrow> insert_asset d)"

definition get_owned_assets :: "int \<Rightarrow> int list \<Rightarrow> (gen_db, gen_asset list) eff" where
  "get_owned_assets user ids =
     (if ids = [] then ret [] else select_assets (\<lambda>a. live_asset user a \<and> ga_id a \<in> set (unique ids)))"

definition require_owned :: "int \<Rightarrow> int \<Rightarrow> (gen_db, gen_asset) eff" where
  "require_owned user i =
     bindE (gets (\<lambda>s. find (\<lambda>a. live_asset user a \<and> ga_id a = i) (gd_assets s))) (\<lambda>m.
     case m of None \<Rightarrow> raise (AppError ''RESOURCE_NOT_FOUND'' ''asset not found'') | Some a \<Rightarrow> ret a)"

definition mint_storage_key :: "int \<Rightarrow> upload_source \<Rightarrow> string \<Rightarrow> int option \<Rightarrow> (gen_db, string) eff" where
  "mint_storage_key user source filename project =
     bindE (liftR (expected_key_prefix source user project)) (\<lambda>p.
     bindE gd_uuid4_hex (\<lambda>u.
     bindE (liftR (safe_filename filename)) (\<lambda>name.
     ret (p @ u @ ''/'' @ name))))"

record asset_upload_url =
  au_key :: string
  au_url :: string
  au_expires_in :: int
  au_source :: upload_source

definition create_upload_url ::
  "gen_env \<Rightarrow> int \<Rightarrow> string \<Rightarrow> upload_source \<Rightarrow> int option \<Rightarrow> (gen_db, asset_upload_url) eff" where
  "create_upload_url env user filename source project =
     bindE (mint_storage_key user source filename project) (\<lambda>key.
     bindE (liftR (ge_presign_put env key)) (\<lambda>url.
     ret \<lparr> au_key = key, au_url = url, au_expires_in = ge_presign_ttl env, au_source = source \<rparr>))"

definition upload_metadata :: "int \<Rightarrow> string \<Rightarrow> int option \<Rightarrow> json dict" where
  "upload_metadata n name project =
     [(''size'', JInt n), (''filename'', JStr name)]
     @ (case project of None \<Rightarrow> [] | Some p \<Rightarrow> [(''project_id'', JInt p)])"

definition register_uploaded ::
  "int \<Rightarrow> string \<Rightarrow> string \<Rightarrow> string \<Rightarrow> upload_source \<Rightarrow> int option \<Rightarrow> int option \<Rightarrow> (gen_db, gen_asset) eff" where
  "register_uploaded user key filename mime source project size_bytes =
     bindE (liftR (assert_storage_key_owned key source user project)) (\<lambda>_.
     bindE (ask_world (\<lambda>w. wd_head w key)) (\<lambda>n.
     bindE (ensure (size_bytes = None \<or> size_bytes = Some n) (invalid_params msg_size_mismatch)) (\<lambda>_.
     let content_type = strip mime in
     bindE (ensure (content_type \<noteq> []) (invalid_params msg_content_type_empty)) (\<lambda>_.
     bindE (liftR (validate_direct_upload_media content_type n)) (\<lambda>ty.
     bindE (liftR (safe_filename filename)) (\<lambda>name.
     bindE (gets (\<lambda>s. find (\<lambda>a. live_asset user a \<and> ga_key a = key \<and> ga_source_type a = upload_source_value source)
              (gd_assets s))) (\<lambda>existing.
     case existing of
       Some a \<Rightarrow> ret a
     | None \<Rightarrow>
         create_asset \<lparr> ad_user = user, ad_key = key, ad_mime = content_type, ad_type = Some ty, ad_filename = name,
           ad_source_type = upload_source_value source, ad_source_id = None, ad_project = project,
           ad_metadata = upload_metadata n name project \<rparr>)))))))"

definition update_asset :: "int \<Rightarrow> int \<Rightarrow> string option \<Rightarrow> bool option \<Rightarrow> (gen_db, gen_asset) eff" where
  "update_asset user i filename favorite =
     bindE (require_owned user i) (\<lambda>row.
     bindE (liftR (case filename of None \<Rightarrow> Inr row
                   | Some f \<Rightarrow> bindR (safe_filename f) (\<lambda>name. Inr (row\<lparr>ga_filename := name\<rparr>)))) (\<lambda>row1.
     let row2 = (case favorite of None \<Rightarrow> row1 | Some v \<Rightarrow> row1\<lparr>ga_favorite := v\<rparr>);
         saved = (\<lambda>a. let a1 = (if filename = None then a else a\<lparr>ga_filename := ga_filename row2\<rparr>)
                     in if favorite = None then a1 else a1\<lparr>ga_favorite := ga_favorite row2\<rparr>) in
     bindE (if filename = None \<and> favorite = None then ret 0
            else update_assets (\<lambda>a. ga_id a = ga_id row2) saved) (\<lambda>_.
     ret row2)))"

definition soft_delete_assets :: "int \<Rightarrow> int list \<Rightarrow> (gen_db, int) eff" where
  "soft_delete_assets user ids =
     (if ids = [] then ret 0
      else
        bindE gd_now (\<lambda>t.
        update_assets (\<lambda>a. live_asset user a \<and> ga_id a \<in> set (unique ids)) (\<lambda>a. a\<lparr>ga_deleted := Some t\<rparr>)))"

definition asset_preview_url :: "gen_env \<Rightarrow> string \<Rightarrow> string res" where
  "asset_preview_url env key = ge_presign env key"

record asset_view =
  av_asset :: gen_asset
  av_preview_url :: string

definition asset_to_view :: "gen_env \<Rightarrow> gen_asset \<Rightarrow> asset_view res" where
  "asset_to_view env a = bindR (asset_preview_url env (ga_key a)) (\<lambda>u. Inr \<lparr> av_asset = a, av_preview_url = u \<rparr>)"

definition gateway_material :: "gen_asset \<Rightarrow> gateway_material res" where
  "gateway_material a =
     bindR (material_type_from_asset_type (ga_type a)) (\<lambda>ty.
     if ga_key a = [] then Inl (ValidationError ''GatewayGenerateMaterial'')
     else Inr \<lparr> gw_type = ty, gw_key = ga_key a \<rparr>)"

text \<open>\<open>{row.id: row for row in rows}\<close> keeps the last row of an identifier.\<close>

definition asset_with_id :: "gen_asset list \<Rightarrow> int \<Rightarrow> gen_asset option" where
  "asset_with_id rows i = find (\<lambda>a. ga_id a = i) (rev rows)"

definition assets_to_gateway_materials :: "int \<Rightarrow> int list \<Rightarrow> (gen_db, gateway_material list) eff" where
  "assets_to_gateway_materials user ids =
     bindE (get_owned_assets user ids) (\<lambda>rows.
     bindE (ensure (\<forall>i \<in> set (unique ids). asset_with_id rows i \<noteq> None) (invalid_params msg_asset_missing)) (\<lambda>_.
     liftR (mapR (\<lambda>i. gateway_material (the (asset_with_id rows i))) (unique ids))))"

section \<open>The canvas and the locks of the same process\<close>

definition canvas_task :: "gen_task \<Rightarrow> generate_task_row" where
  "canvas_task r = \<lparr> gt_id = gk_id r, gt_user = gk_user r, gt_status = gk_status r,
     gt_result_asset_ids = gk_result_assets r, gt_error_message = gk_error r, gt_deleted = gk_deleted r \<rparr>"

definition canvas_asset :: "gen_asset \<Rightarrow> asset_row" where
  "canvas_asset a = \<lparr> as_id = ga_id a, as_user = ga_user a, as_project = ga_project a, as_storage_key = ga_key a,
     as_source_type = ga_source_type a, as_source_id = ga_source_id a, as_metadata = ga_metadata a,
     as_status = ga_status a, as_deleted = ga_deleted a \<rparr>"

definition canvas_now :: "gen_db \<Rightarrow> canvas_db" where
  "canvas_now s = (gd_canvas s)\<lparr>cv_tasks := map canvas_task (gd_tasks s), cv_assets := map canvas_asset (gd_assets s)\<rparr>"

text \<open>An operation of the canvas that only reads tasks and assets.\<close>

definition on_canvas :: "(canvas_db, 'a) eff \<Rightarrow> (gen_db, 'a) eff" where
  "on_canvas m s = (case m (canvas_now s) of (r, t) \<Rightarrow> (r, s\<lparr>gd_canvas := t\<rparr>))"

definition on_locks :: "(lock_state, 'a) eff \<Rightarrow> (gen_db, 'a) eff" where
  "on_locks m s = (case m (gd_locks s) of (r, t) \<Rightarrow> (r, s\<lparr>gd_locks := t\<rparr>))"

end
