(* ===== verification/Generation_Store.thy ===== *)
theory Generation_Store
  imports Asset_Store
begin

text \<open>
  The table of generation tasks: \<open>generation/persistence/repository.py\<close> and
  \<open>generation/services/task_state.py\<close>, without the columns \<open>error_code\<close> and \<open>is_favorited\<close>, which
  the code neither reads nor writes. An update writes the columns it names, as one statement.
\<close>

section \<open>Rows\<close>

definition live_task :: "int \<Rightarrow> gen_task \<Rightarrow> bool" where
  "live_task user r \<longleftrightarrow> gk_user r = user \<and> gk_deleted r = None"

definition terminal_status :: "int \<Rightarrow> bool" where
  "terminal_status n \<longleftrightarrow> n \<in> {5, 6, 7}"

lemma terminal_status_value [simp]: "terminal_status (gts_value st) \<longleftrightarrow> gts_is_terminal st"
  by (cases st) (simp_all add: terminal_status_def)

record new_task =
  nt_user :: int
  nt_kind :: generation_kind
  nt_prompt :: string
  nt_model :: string
  nt_voice :: "string option"
  nt_ratio :: "string option"
  nt_resolution :: "string option"
  nt_max_images :: "int option"
  nt_duration :: "int option"
  nt_mode :: "reference_mode option"
  nt_refs :: "int list option"

definition task_of_new :: "int \<Rightarrow> int \<Rightarrow> new_task \<Rightarrow> gen_task" where
  "task_of_new i t n =
     \<lparr> gk_id = i, gk_user = nt_user n, gk_union = None, gk_kind = generation_kind_value (nt_kind n),
       gk_status = gts_value GTS_CREATED, gk_prompt = nt_prompt n, gk_model = nt_model n, gk_voice = nt_voice n,
       gk_ratio = nt_ratio n, gk_resolution = nt_resolution n, gk_max_images = nt_max_images n,
       gk_duration = nt_duration n, gk_mode = map_option reference_mode_value (nt_mode n), gk_refs = nt_refs n,
       gk_result_keys = None, gk_result_assets = None, gk_error = None, gk_callback_sent = False,
       gk_deleted = None, gk_created = t \<rparr>"

definition create_gen_task :: "new_task \<Rightarrow> (gen_db, gen_task) eff" where
  "create_gen_task n =
     bindE gd_now (\<lambda>t.
     bindE (gets gd_task_seq) (\<lambda>i.
     let r = task_of_new i t n in
     bindE (modify (\<lambda>s. s\<lparr>gd_tasks := gd_tasks s @ [r], gd_task_seq := i + 1\<rparr>)) (\<lambda>_. ret r)))"

section \<open>Reading\<close>

definition get_by_ids_for_user :: "int list \<Rightarrow> int \<Rightarrow> (gen_db, gen_task list) eff" where
  "get_by_ids_for_user ids user =
     (if ids = [] then ret [] else gets (\<lambda>s. filter (\<lambda>r. gk_id r \<in> set ids \<and> live_task user r) (gd_tasks s)))"

definition get_active_by_ids :: "int list \<Rightarrow> (gen_db, gen_task list) eff" where
  "get_active_by_ids ids =
     (if ids = [] then ret [] else gets (\<lambda>s. filter (\<lambda>r. gk_id r \<in> set ids \<and> gk_deleted r = None) (gd_tasks s)))"

definition get_active_for_user :: "int \<Rightarrow> int \<Rightarrow> (gen_db, gen_task option) eff" where
  "get_active_for_user i user = gets (\<lambda>s. find (\<lambda>r. gk_id r = i \<and> live_task user r) (gd_tasks s))"

text \<open>\<open>get_or_none\<close> on a column that is not unique raises when several rows match.\<close>

definition get_by_union_task_id :: "int \<Rightarrow> (gen_db, gen_task option) eff" where
  "get_by_union_task_id u =
     bindE (gets (\<lambda>s. filter (\<lambda>r. gk_union r = Some u) (gd_tasks s))) (\<lambda>rows.
     case rows of [] \<Rightarrow> ret None | [r] \<Rightarrow> ret (Some r) | _ \<Rightarrow> raise (MultipleObjectsReturned ''GenerateTask''))"

definition get_by_id_required :: "int \<Rightarrow> (gen_db, gen_task) eff" where
  "get_by_id_required i =
     bindE (gets (\<lambda>s. find (\<lambda>r. gk_id r = i) (gd_tasks s))) (\<lambda>m.
     case m of Some r \<Rightarrow> ret r | None \<Rightarrow> raise (DoesNotExist ''GenerateTask''))"

definition has_non_terminal :: "int list \<Rightarrow> (gen_db, bool) eff" where
  "has_non_terminal ids =
     bindE (get_active_by_ids ids) (\<lambda>rows.
     bindE (liftR (mapR (\<lambda>r. GatewayTaskStatus (gk_status r)) rows)) (\<lambda>sts.
     ret (\<exists>st \<in> set sts. gts_is_non_terminal st)))"

section \<open>Pages\<close>

record task_query =
  tq_user :: int
  tq_limit :: nat
  tq_kind :: "generation_kind option"
  tq_statuses :: "gateway_task_status list"
  tq_after :: "int option"
  tq_prompt :: string
  tq_ids :: "int list option"
  tq_cursor :: "(int \<times> int) option"

definition matches_query :: "gen_env \<Rightarrow> task_query \<Rightarrow> gen_task \<Rightarrow> bool" where
  "matches_query env q r \<longleftrightarrow>
     live_task (tq_user q) r
     \<and> (case tq_kind q of None \<Rightarrow> True | Some k \<Rightarrow> gk_kind r = generation_kind_value k)
     \<and> (tq_statuses q = [] \<or> gk_status r \<in> gts_value ` set (tq_statuses q))
     \<and> (case tq_after q of None \<Rightarrow> True | Some t \<Rightarrow> t \<le> gk_created r)
     \<and> (tq_prompt q = [] \<or> ge_icontains env (gk_prompt r) (tq_prompt q))
     \<and> (case tq_ids q of None \<Rightarrow> True | Some ids \<Rightarrow> gk_id r \<in> set ids)"

definition below_cursor :: "(int \<times> int) option \<Rightarrow> gen_task \<Rightarrow> bool" where
  "below_cursor c r \<longleftrightarrow>
     (case c of None \<Rightarrow> True | Some (t, i) \<Rightarrow> gk_created r < t \<or> gk_created r = t \<and> gk_id r < i)"

text \<open>\<open>order_by("-created_at", "-id")\<close>: the key of a task, and tasks from the highest key down.\<close>

definition task_key :: "gen_task \<Rightarrow> int \<times> int" where
  "task_key r = (gk_created r, gk_id r)"

definition key_above :: "int \<times> int \<Rightarrow> int \<times> int \<Rightarrow> bool" where
  "key_above a b \<longleftrightarrow> fst b < fst a \<or> fst b = fst a \<and> snd b < snd a"

fun insert_task :: "gen_task \<Rightarrow> gen_task list \<Rightarrow> gen_task list" where
  "insert_task x [] = [x]"
| "insert_task x (y # ys) =
     (if key_above (task_key y) (task_key x) then y # insert_task x ys else x # y # ys)"

definition newest_first :: "gen_task list \<Rightarrow> gen_task list" where
  "newest_first rows = foldr insert_task rows []"

definition list_by_query :: "gen_env \<Rightarrow> task_query \<Rightarrow> (gen_db, gen_task list) eff" where
  "list_by_query env q =
     (if tq_ids q = Some [] then ret []
      else gets (\<lambda>s. take (tq_limit q)
             (newest_first (filter (\<lambda>r. matches_query env q r \<and> below_cursor (tq_cursor q) r) (gd_tasks s)))))"

section \<open>Writing\<close>

definition update_tasks :: "(gen_task \<Rightarrow> bool) \<Rightarrow> (gen_task \<Rightarrow> gen_task) \<Rightarrow> (gen_db, int) eff" where
  "update_tasks c f s =
     (Inr (int (length (filter c (gd_tasks s)))),
      s\<lparr>gd_tasks := map (\<lambda>r. if c r then f r else r) (gd_tasks s)\<rparr>)"

definition mark_failed_if_non_terminal :: "int \<Rightarrow> string \<Rightarrow> (gen_db, unit) eff" where
  "mark_failed_if_non_terminal i message =
     bindE (update_tasks (\<lambda>r. gk_id r = i \<and> \<not> terminal_status (gk_status r))
              (\<lambda>r. r\<lparr>gk_status := gts_value GTS_FAILED, gk_error := Some message\<rparr>)) (\<lambda>_. ret ())"

definition bind_union_task_queued :: "int \<Rightarrow> int \<Rightarrow> (gen_db, bool) eff" where
  "bind_union_task_queued i u =
     bindE (update_tasks (\<lambda>r. gk_id r = i \<and> gk_status r = gts_value GTS_CREATED)
              (\<lambda>r. r\<lparr>gk_union := Some u, gk_status := gts_value GTS_QUEUED\<rparr>)) (\<lambda>updated.
     if updated = 1 then ret True
     else bindE (update_tasks (\<lambda>r. gk_id r = i) (\<lambda>r. r\<lparr>gk_union := Some u\<rparr>)) (\<lambda>_. ret False))"

definition cancel_if_non_terminal :: "int \<Rightarrow> (gen_db, bool) eff" where
  "cancel_if_non_terminal i =
     bindE (update_tasks (\<lambda>r. gk_id r = i \<and> \<not> terminal_status (gk_status r))
              (\<lambda>r. r\<lparr>gk_status := gts_value GTS_CANCELLED\<rparr>)) (\<lambda>updated. ret (updated = 1))"

definition soft_delete_task :: "int \<Rightarrow> (gen_db, unit) eff" where
  "soft_delete_task i =
     bindE gd_now (\<lambda>t.
     bindE (update_tasks (\<lambda>r. gk_id r = i \<and> gk_deleted r = None) (\<lambda>r. r\<lparr>gk_deleted := Some t\<rparr>)) (\<lambda>_. ret ()))"

definition mark_callback_sent :: "int \<Rightarrow> (gen_db, unit) eff" where
  "mark_callback_sent i =
     bindE (update_tasks (\<lambda>r. gk_id r = i \<and> gk_deleted r = None) (\<lambda>r. r\<lparr>gk_callback_sent := True\<rparr>)) (\<lambda>_. ret ())"

definition set_result_asset_ids :: "int \<Rightarrow> int list \<Rightarrow> (gen_db, gen_task) eff" where
  "set_result_asset_ids i ids =
     bindE (update_tasks (\<lambda>r. gk_id r = i) (\<lambda>r. r\<lparr>gk_result_assets := Some ids\<rparr>)) (\<lambda>_. get_by_id_required i)"

text \<open>\<open>update_fields(...).model_dump(exclude_none=True)\<close>: a column without a value is not written.\<close>

definition write_terminal :: "generation_terminal \<Rightarrow> bool \<Rightarrow> gen_task \<Rightarrow> gen_task" where
  "write_terminal result sent r =
     r\<lparr>gk_status := gts_value (tm_status result), gk_callback_sent := sent,
       gk_result_keys := (case tm_result_keys result of None \<Rightarrow> gk_result_keys r | Some k \<Rightarrow> Some k),
       gk_error := (case tm_error result of None \<Rightarrow> gk_error r | Some e \<Rightarrow> Some e)\<rparr>"

definition update_if_status :: "int \<Rightarrow> gateway_task_status \<Rightarrow> (gen_task \<Rightarrow> gen_task) \<Rightarrow> (gen_db, int) eff" where
  "update_if_status i expected f =
     update_tasks (\<lambda>r. gk_id r = i \<and> gk_status r = gts_value expected \<and> gk_deleted r = None) f"

end
