(* ===== verification/Generation_Capabilities.thy ===== *)
theory Generation_Capabilities
  imports Generation_Store
begin

text \<open>
  The capabilities of models and the list of models: \<open>generation/schemas/capabilities_cache.py\<close> and the
  part of \<open>generation/services/service.py\<close> that keeps them in the service object, in the shared cache and
  in the gateway's catalogue.

  The JSON of a contract is an object of all its fields; reading one back follows its declaration. A number
  given as text, as a float or as a boolean, which the validation library would convert, is refused here; the
  code never writes one.
\<close>

section \<open>Reading JSON by a declaration\<close>

definition jfield :: "exc \<Rightarrow> json dict \<Rightarrow> string \<Rightarrow> 'a option \<Rightarrow> (json \<Rightarrow> 'a res) \<Rightarrow> 'a res" where
  "jfield e d k dflt parse =
     (case dict_get d k of
        Some j \<Rightarrow> parse j
      | None \<Rightarrow> (case dflt of Some v \<Rightarrow> Inr v | None \<Rightarrow> Inl e))"

definition parse_str :: "exc \<Rightarrow> json \<Rightarrow> string res" where
  "parse_str e j = (case j of JStr s \<Rightarrow> Inr s | _ \<Rightarrow> Inl e)"

definition parse_int :: "exc \<Rightarrow> json \<Rightarrow> int res" where
  "parse_int e j = (case j of JInt i \<Rightarrow> Inr i | _ \<Rightarrow> Inl e)"

definition parse_bool :: "exc \<Rightarrow> json \<Rightarrow> bool res" where
  "parse_bool e j = (case j of JBool b \<Rightarrow> Inr b | _ \<Rightarrow> Inl e)"

definition parse_list :: "exc \<Rightarrow> (json \<Rightarrow> 'a res) \<Rightarrow> json \<Rightarrow> 'a list res" where
  "parse_list e parse j = (case j of JList js \<Rightarrow> mapR parse js | _ \<Rightarrow> Inl e)"

definition parse_dict :: "exc \<Rightarrow> (json \<Rightarrow> 'a res) \<Rightarrow> json \<Rightarrow> 'a dict res" where
  "parse_dict e parse j =
     (case j of JObj kvs \<Rightarrow> mapR (\<lambda>(k, v). bindR (parse v) (\<lambda>x. Inr (k, x))) kvs | _ \<Rightarrow> Inl e)"

text \<open>An object with no other fields than the declared ones.\<close>

definition parse_object :: "exc \<Rightarrow> string list \<Rightarrow> (json dict \<Rightarrow> 'a res) \<Rightarrow> json \<Rightarrow> 'a res" where
  "parse_object e names build j =
     (case j of
        JObj kvs \<Rightarrow> bindR (assertR (\<forall>k \<in> fst ` set kvs. k \<in> set names) e) (\<lambda>_. build kvs)
      | _ \<Rightarrow> Inl e)"

definition parse_kind :: "exc \<Rightarrow> json \<Rightarrow> generation_kind res" where
  "parse_kind e j =
     (case j of JStr s \<Rightarrow> (case GenerationKind s of Inr k \<Rightarrow> Inr k | Inl _ \<Rightarrow> Inl e) | _ \<Rightarrow> Inl e)"

definition parse_mode :: "exc \<Rightarrow> json \<Rightarrow> reference_mode res" where
  "parse_mode e j =
     (case j of JInt n \<Rightarrow> (case ReferenceMode n of Inr m \<Rightarrow> Inr m | Inl _ \<Rightarrow> Inl e) | _ \<Rightarrow> Inl e)"

named_theorems parse_json \<open>reading back what was written\<close>

lemma parse_basic [parse_json]:
  "parse_str e (JStr s) = Inr s" "parse_int e (JInt i) = Inr i" "parse_bool e (JBool b) = Inr b"
  "parse_kind e (JStr (generation_kind_value k)) = Inr k"
  "parse_mode e (JInt (reference_mode_value m)) = Inr m"
  by (simp_all add: parse_str_def parse_int_def parse_bool_def parse_kind_def parse_mode_def)

lemma parse_list_map: "(\<And>x. parse (f x) = Inr (g x)) \<Longrightarrow> parse_list e parse (JList (map f xs)) = Inr (map g xs)"
  by (induction xs) (simp_all add: parse_list_def)

lemma parse_list_id [parse_json]: "(\<And>x. parse (f x) = Inr x) \<Longrightarrow> parse_list e parse (JList (map f xs)) = Inr xs"
  using parse_list_map [of parse f "\<lambda>x. x" e xs] by simp

lemma parse_dict_id [parse_json]:
  "(\<And>x. parse (f x) = Inr x) \<Longrightarrow> parse_dict e parse (JObj (map (\<lambda>(k, v). (k, f v)) d)) = Inr d"
  by (induction d) (auto simp: parse_dict_def)

section \<open>The payload of the shared cache\<close>

record capabilities_payload =
  pl_models :: capability_map
  pl_expires :: int

definition cached_from_domain :: "generation_capabilities \<Rightarrow> generation_capabilities" where
  "cached_from_domain c = c\<lparr>gc_ratios_by_resolution := dict_of_pairs (gc_ratios_by_resolution c)\<rparr>"

definition payload_from_domain_map :: "capability_map \<Rightarrow> int \<Rightarrow> (gen_db, capabilities_payload) eff" where
  "payload_from_domain_map m ttl =
     bindE gd_now (\<lambda>now.
     ret \<lparr> pl_models = map (\<lambda>(k, c). (k, cached_from_domain c)) m, pl_expires = now + ttl * 1000000 \<rparr>)"

definition payload_to_domain_map :: "capabilities_payload \<Rightarrow> capability_map" where
  "payload_to_domain_map p = pl_models p"

definition strs_json :: "string list \<Rightarrow> json" where
  "strs_json xs = JList (map JStr xs)"

definition ints_json :: "int list \<Rightarrow> json" where
  "ints_json xs = JList (map JInt xs)"

definition ratios_json :: "string list dict \<Rightarrow> json" where
  "ratios_json d = JObj (map (\<lambda>(k, v). (k, strs_json v)) d)"

definition limits_json :: "material_limits \<Rightarrow> json" where
  "limits_json l = JObj
     [(''images'', JInt (ml_images l)), (''videos'', JInt (ml_videos l)), (''audios'', JInt (ml_audios l)),
      (''requires_any'', JBool (ml_requires_any l)), (''allow_audio_only'', JBool (ml_allow_audio_only l))]"

definition capabilities_json :: "generation_capabilities \<Rightarrow> json" where
  "capabilities_json c = JObj
     [(''model_id'', JStr (gc_model c)), (''kind'', JStr (generation_kind_value (gc_kind c))),
      (''ratios'', strs_json (gc_ratios c)), (''resolutions'', strs_json (gc_resolutions c)),
      (''counts'', ints_json (gc_counts c)), (''durations'', ints_json (gc_durations c)),
      (''reference_modes'', JList (map (\<lambda>m. JInt (reference_mode_value m)) (gc_modes c))),
      (''material_limits'', limits_json (gc_limits c)),
      (''ratios_by_resolution'', ratios_json (gc_ratios_by_resolution c))]"

definition dump_payload :: "gen_env \<Rightarrow> capabilities_payload \<Rightarrow> json" where
  "dump_payload env p = JObj
     [(''models'', JObj (map (\<lambda>(k, c). (k, capabilities_json c)) (pl_models p))),
      (''expires_at'', JFloat (ge_float_text env (pl_expires p)))]"

definition parse_strs :: "exc \<Rightarrow> json \<Rightarrow> string list res" where
  "parse_strs e j = parse_list e (parse_str e) j"

definition parse_ints :: "exc \<Rightarrow> json \<Rightarrow> int list res" where
  "parse_ints e j = parse_list e (parse_int e) j"

definition parse_ratios :: "exc \<Rightarrow> json \<Rightarrow> string list dict res" where
  "parse_ratios e j = parse_dict e (parse_strs e) j"

definition no_limits :: material_limits where
  "no_limits = \<lparr> ml_images = 0, ml_videos = 0, ml_audios = 0, ml_requires_any = False, ml_allow_audio_only = False \<rparr>"

definition parse_limits :: "exc \<Rightarrow> json \<Rightarrow> material_limits res" where
  "parse_limits e j =
     parse_object e [''images'', ''videos'', ''audios'', ''requires_any'', ''allow_audio_only''] (\<lambda>d.
       bindR (jfield e d ''images'' (Some 0) (parse_int e)) (\<lambda>i.
       bindR (jfield e d ''videos'' (Some 0) (parse_int e)) (\<lambda>v.
       bindR (jfield e d ''audios'' (Some 0) (parse_int e)) (\<lambda>a.
       bindR (jfield e d ''requires_any'' (Some False) (parse_bool e)) (\<lambda>r.
       bindR (jfield e d ''allow_audio_only'' (Some False) (parse_bool e)) (\<lambda>o1.
       Inr \<lparr> ml_images = i, ml_videos = v, ml_audios = a, ml_requires_any = r, ml_allow_audio_only = o1 \<rparr>)))))) j"

definition capabilities_fields :: "string list" where
  "capabilities_fields =
     [''model_id'', ''kind'', ''ratios'', ''resolutions'', ''counts'', ''durations'', ''reference_modes'',
      ''material_limits'', ''ratios_by_resolution'']"

definition parse_capabilities :: "exc \<Rightarrow> json \<Rightarrow> generation_capabilities res" where
  "parse_capabilities e j =
     parse_object e capabilities_fields (\<lambda>d.
       bindR (jfield e d ''model_id'' None (parse_str e)) (\<lambda>i.
       bindR (jfield e d ''kind'' None (parse_kind e)) (\<lambda>k.
       bindR (jfield e d ''ratios'' (Some []) (parse_strs e)) (\<lambda>ra.
       bindR (jfield e d ''resolutions'' (Some []) (parse_strs e)) (\<lambda>re.
       bindR (jfield e d ''counts'' (Some []) (parse_ints e)) (\<lambda>co.
       bindR (jfield e d ''durations'' (Some []) (parse_ints e)) (\<lambda>du.
       bindR (jfield e d ''reference_modes'' (Some []) (parse_list e (parse_mode e))) (\<lambda>mo.
       bindR (jfield e d ''material_limits'' (Some no_limits) (parse_limits e)) (\<lambda>li.
       bindR (jfield e d ''ratios_by_resolution'' (Some []) (parse_ratios e)) (\<lambda>rr.
       Inr \<lparr> gc_model = i, gc_kind = k, gc_ratios = ra, gc_resolutions = re, gc_counts = co, gc_durations = du,
             gc_modes = mo, gc_limits = li, gc_ratios_by_resolution = rr \<rparr>)))))))))) j"

definition invalid_payload :: exc where
  "invalid_payload = ValidationError ''CachedCapabilitiesPayload''"

definition parse_moment :: "gen_env \<Rightarrow> json \<Rightarrow> int res" where
  "parse_moment env j =
     (case j of
        JFloat t \<Rightarrow> Inr (ge_float_value env t)
      | JInt i \<Rightarrow> Inr (i * 1000000)
      | _ \<Rightarrow> Inl invalid_payload)"

definition validate_payload :: "gen_env \<Rightarrow> json \<Rightarrow> capabilities_payload res" where
  "validate_payload env j =
     parse_object invalid_payload [''models'', ''expires_at''] (\<lambda>d.
       bindR (jfield invalid_payload d ''models'' None (parse_dict invalid_payload (parse_capabilities invalid_payload))) (\<lambda>ms.
       bindR (jfield invalid_payload d ''expires_at'' None (parse_moment env)) (\<lambda>t.
       Inr \<lparr> pl_models = ms, pl_expires = t \<rparr>))) j"

lemma parse_written [parse_json]:
  "parse_strs e (strs_json xs) = Inr xs" "parse_ints e (ints_json ns) = Inr ns"
  by (simp_all add: parse_strs_def parse_ints_def strs_json_def ints_json_def parse_json)

lemma parse_ratios_json [parse_json]: "parse_ratios e (ratios_json d) = Inr d"
  by (simp add: parse_ratios_def ratios_json_def parse_json)

lemma parse_limits_json [parse_json]: "parse_limits e (limits_json l) = Inr l"
  by (simp add: parse_limits_def limits_json_def parse_object_def jfield_def parse_json)

lemma parse_capabilities_json [parse_json]: "parse_capabilities e (capabilities_json c) = Inr c"
  by (simp add: parse_capabilities_def capabilities_json_def parse_object_def capabilities_fields_def jfield_def
      parse_json)

definition float_kept :: "gen_env \<Rightarrow> int \<Rightarrow> bool" where
  "float_kept env t \<longleftrightarrow> ge_float_value env (ge_float_text env t) = t"

lemma validate_dump_payload: "float_kept env (pl_expires p) \<Longrightarrow> validate_payload env (dump_payload env p) = Inr p"
  by (simp add: validate_payload_def dump_payload_def parse_object_def jfield_def parse_json parse_moment_def
      float_kept_def)

section \<open>Capabilities in the service\<close>

definition ge_compute :: "gen_env \<Rightarrow> string \<Rightarrow> (gen_db, json) eff \<Rightarrow> (gen_db, json) eff" where
  "ge_compute env k compute =
     get_or_compute gd_cache (\<lambda>c s. s\<lparr>gd_cache := c\<rparr>) (ge_cache env) k compute (Some (ge_ttl env)) False"

definition on_cache :: "(cache, 'a) eff \<Rightarrow> (gen_db, 'a) eff" where
  "on_cache m = zoom gd_cache (\<lambda>c s. s\<lparr>gd_cache := c\<rparr>) m"

definition capabilities_key :: string where
  "capabilities_key = ''gen:model_capabilities''"

definition capabilities_fresh :: "(gen_db, bool) eff" where
  "capabilities_fresh =
     bindE (gets gd_caps) (\<lambda>caps.
     if caps = [] then ret False
     else bindE gd_now (\<lambda>now. bindE (gets gd_caps_until) (\<lambda>u. ret (now < u))))"

definition install_capabilities_from_payload :: "capabilities_payload \<Rightarrow> (gen_db, unit) eff" where
  "install_capabilities_from_payload p =
     modify (\<lambda>s. s\<lparr>gd_caps := payload_to_domain_map p, gd_caps_until := pl_expires p\<rparr>)"

definition store_capabilities_map :: "gen_env \<Rightarrow> capability_map \<Rightarrow> (gen_db, unit) eff" where
  "store_capabilities_map env m =
     bindE (payload_from_domain_map m (ge_ttl env)) (\<lambda>p.
     bindE (on_cache (cache_set (ge_cache env) capabilities_key (dump_payload env p) (Some (ge_ttl env)) None)) (\<lambda>_.
     install_capabilities_from_payload p))"

definition gateway_capability_map :: "(gen_db, gateway_model list \<times> capability_map) eff" where
  "gateway_capability_map =
     bindE (ask_world wd_models) (\<lambda>ms.
     bindE (liftR (capability_map_from_gateway_models [] ms)) (\<lambda>m. ret (ms, m)))"

definition fetch_capabilities_cache_payload :: "gen_env \<Rightarrow> (gen_db, json) eff" where
  "fetch_capabilities_cache_payload env =
     bindE gateway_capability_map (\<lambda>(_, m).
     bindE (payload_from_domain_map m (ge_ttl env)) (\<lambda>p. ret (dump_payload env p)))"

definition refresh_capabilities_from_gateway :: "gen_env \<Rightarrow> (gen_db, capability_map) eff" where
  "refresh_capabilities_from_gateway env =
     bindE gateway_capability_map (\<lambda>(_, m).
     bindE (store_capabilities_map env m) (\<lambda>_. gets gd_caps))"

fun is_validation_error :: "exc \<Rightarrow> bool" where
  "is_validation_error (ValidationError _) = True"
| "is_validation_error _ = False"

definition read_payload :: "gen_env \<Rightarrow> (gen_db, capabilities_payload) eff" where
  "read_payload env =
     bindE (ge_compute env capabilities_key (fetch_capabilities_cache_payload env)) (\<lambda>raw.
     liftR (validate_payload env raw))"

definition load_capabilities_from_shared_cache :: "gen_env \<Rightarrow> (gen_db, capability_map) eff" where
  "load_capabilities_from_shared_cache env =
     bindE (catchE (read_payload env) (\<lambda>e.
              if is_validation_error e
              then bindE (on_cache (cache_delete (ge_cache env) capabilities_key)) (\<lambda>_. read_payload env)
              else raise e)) (\<lambda>p.
     bindE (install_capabilities_from_payload p) (\<lambda>_.
     bindE capabilities_fresh (\<lambda>fresh.
     if \<not> fresh then refresh_capabilities_from_gateway env else gets gd_caps)))"

definition ensure_capabilities :: "gen_env \<Rightarrow> (gen_db, capability_map) eff" where
  "ensure_capabilities env =
     bindE capabilities_fresh (\<lambda>fresh.
     if fresh then gets gd_caps else load_capabilities_from_shared_cache env)"

definition capabilities_for :: "capability_map \<Rightarrow> string \<Rightarrow> generation_kind \<Rightarrow> generation_capabilities option" where
  "capabilities_for m model_id kind =
     (case dict_get m model_id of
        Some c \<Rightarrow> if gc_kind c = kind then Some c else None
      | None \<Rightarrow> None)"

definition get_model_capabilities :: "string \<Rightarrow> generation_kind option \<Rightarrow> (gen_db, generation_capabilities option) eff" where
  "get_model_capabilities model_id kind =
     gets (\<lambda>s. case kind of
        None \<Rightarrow> dict_get (gd_caps s) model_id
      | Some k \<Rightarrow> capabilities_for (gd_caps s) model_id k)"

definition msg_capability_unavailable :: string where
  "msg_capability_unavailable = utf8 [230, 168, 161, 229, 158, 139, 232, 131, 189, 229, 138, 155, 228, 191, 161, 230, 129, 175, 228, 184,
     141, 229, 143, 175, 231, 148, 168, 239, 188, 140, 232, 175, 183, 231, 161, 174, 232, 174, 164,
     231, 189, 145, 229, 133, 179, 32, 109, 111, 100, 101, 108, 95, 99, 97, 112, 97, 98, 105, 108,
     105, 116, 105, 101, 115, 32, 229, 183, 178, 233, 133, 141, 231, 189, 174]"

definition require_model_capabilities :: "gen_env \<Rightarrow> string \<Rightarrow> generation_kind \<Rightarrow> (gen_db, generation_capabilities) eff" where
  "require_model_capabilities env model_id kind =
     bindE (ensure_capabilities env) (\<lambda>m.
     case capabilities_for m model_id kind of
       Some c \<Rightarrow> ret c
     | None \<Rightarrow>
         bindE (refresh_capabilities_from_gateway env) (\<lambda>m'.
         case capabilities_for m' model_id kind of
           Some c \<Rightarrow> ret c
         | None \<Rightarrow> raise (AppError ''GENERATION_MODEL_CAPABILITY_UNAVAILABLE'' msg_capability_unavailable)))"

section \<open>The list of models\<close>

record model_item =
  mi_model :: string
  mi_label :: string
  mi_kind :: generation_kind
  mi_vision :: bool
  mi_options :: param_options

definition msg_missing_capability :: "string \<Rightarrow> string" where
  "msg_missing_capability m = utf8 [230, 168, 161, 229, 158, 139, 32] @ m @ utf8 [32, 231, 188, 186, 229, 176, 145, 229, 143, 175, 230, 152, 160, 229, 176, 132, 231, 154, 132, 232,
     131, 189, 229, 138, 155, 233, 133, 141, 231, 189, 174]"

definition msg_list_unavailable :: string where
  "msg_list_unavailable = utf8 [230, 168, 161, 229, 158, 139, 229, 136, 151, 232, 161, 168, 230, 154, 130, 230, 151, 182, 228, 184,
     141, 229, 143, 175, 231, 148, 168]"

abbreviation list_unavailable :: "string \<Rightarrow> exc" where
  "list_unavailable \<equiv> AppError ''GENERATION_MODEL_LIST_UNAVAILABLE''"

definition build_generate_model_items ::
  "generation_kind \<Rightarrow> gateway_model list \<Rightarrow> capability_map \<Rightarrow> model_item list res" where
  "build_generate_model_items kind ms m =
     mapR (\<lambda>g. case dict_get m (gm_id g) of
         None \<Rightarrow> Inl (list_unavailable (msg_missing_capability (gm_id g)))
       | Some c \<Rightarrow> Inr \<lparr> mi_model = gm_id g, mi_label = gm_id g, mi_kind = kind, mi_vision = gm_supports_vision g,
                        mi_options = to_param_options c \<rparr>)
       (filter (\<lambda>g. generation_kind_of_model g = Some kind) ms)"

definition options_json :: "param_options \<Rightarrow> json" where
  "options_json p = JObj
     [(''ratios'', strs_json (po_ratios p)), (''resolutions'', strs_json (po_resolutions p)),
      (''counts'', ints_json (po_counts p)), (''durations'', ints_json (po_durations p)),
      (''reference_modes'', JList (map (\<lambda>x. JObj [(''value'', JInt (reference_mode_value (fst x))), (''label'', JStr (snd x))])
          (po_modes p))),
      (''ratios_by_resolution'', ratios_json (po_ratios_by_resolution p)), (''material_limits'', limits_json (po_limits p))]"

definition model_item_json :: "model_item \<Rightarrow> json" where
  "model_item_json i = JObj
     [(''model_id'', JStr (mi_model i)), (''label'', JStr (mi_label i)),
      (''kind'', JStr (generation_kind_value (mi_kind i))), (''supports_vision'', JBool (mi_vision i)),
      (''param_options'', options_json (mi_options i))]"

definition model_list_json :: "model_item list \<Rightarrow> json" where
  "model_list_json is = JObj [(''items'', JList (map model_item_json is))]"

definition invalid_list :: exc where
  "invalid_list = ValidationError ''GenerateModelsResponse''"

definition parse_mode_option :: "json \<Rightarrow> (reference_mode \<times> string) res" where
  "parse_mode_option j =
     parse_object invalid_list [''value'', ''label''] (\<lambda>d.
       bindR (jfield invalid_list d ''value'' None (parse_mode invalid_list)) (\<lambda>m.
       bindR (jfield invalid_list d ''label'' None (parse_str invalid_list)) (\<lambda>l. Inr (m, l)))) j"

definition no_options :: param_options where
  "no_options = \<lparr> po_ratios = [], po_resolutions = [], po_counts = [], po_durations = [], po_modes = [],
     po_ratios_by_resolution = [], po_limits = no_limits \<rparr>"

definition parse_options :: "json \<Rightarrow> param_options res" where
  "parse_options j =
     (let e = invalid_list in
      parse_object e
       [''ratios'', ''resolutions'', ''counts'', ''durations'', ''reference_modes'', ''ratios_by_resolution'', ''material_limits''] (\<lambda>d.
       bindR (jfield e d ''ratios'' (Some []) (parse_strs e)) (\<lambda>ra.
       bindR (jfield e d ''resolutions'' (Some []) (parse_strs e)) (\<lambda>re.
       bindR (jfield e d ''counts'' (Some []) (parse_ints e)) (\<lambda>co.
       bindR (jfield e d ''durations'' (Some []) (parse_ints e)) (\<lambda>du.
       bindR (jfield e d ''reference_modes'' (Some []) (parse_list e parse_mode_option)) (\<lambda>mo.
       bindR (jfield e d ''ratios_by_resolution'' (Some []) (parse_ratios e)) (\<lambda>rr.
       bindR (jfield e d ''material_limits'' (Some no_limits) (parse_limits e)) (\<lambda>li.
       Inr \<lparr> po_ratios = ra, po_resolutions = re, po_counts = co, po_durations = du, po_modes = mo,
             po_ratios_by_resolution = rr, po_limits = li \<rparr>)))))))) j)"

text \<open>These two contracts do not forbid other fields.\<close>

definition parse_open :: "exc \<Rightarrow> (json dict \<Rightarrow> 'a res) \<Rightarrow> json \<Rightarrow> 'a res" where
  "parse_open e build j = (case j of JObj kvs \<Rightarrow> build kvs | _ \<Rightarrow> Inl e)"

definition parse_model_item :: "json \<Rightarrow> model_item res" where
  "parse_model_item j =
     (let e = invalid_list in
      parse_open e (\<lambda>d.
       bindR (jfield e d ''model_id'' None (parse_str e)) (\<lambda>m.
       bindR (jfield e d ''label'' None (parse_str e)) (\<lambda>l.
       bindR (jfield e d ''kind'' None (parse_kind e)) (\<lambda>k.
       bindR (jfield e d ''supports_vision'' (Some False) (parse_bool e)) (\<lambda>v.
       bindR (jfield e d ''param_options'' (Some no_options) parse_options) (\<lambda>p.
       Inr \<lparr> mi_model = m, mi_label = l, mi_kind = k, mi_vision = v, mi_options = p \<rparr>)))))) j)"

definition validate_model_list :: "json \<Rightarrow> model_item list res" where
  "validate_model_list j = parse_open invalid_list (\<lambda>d. jfield invalid_list d ''items'' None (parse_list invalid_list parse_model_item)) j"

lemma parse_options_json [parse_json]: "parse_options (options_json p) = Inr p"
  by (simp add: parse_options_def options_json_def parse_object_def jfield_def parse_json Let_def
      parse_list_map [where g = "\<lambda>x. x", simplified] parse_mode_option_def)

lemma parse_model_item_json [parse_json]: "parse_model_item (model_item_json i) = Inr i"
  by (simp add: parse_model_item_def model_item_json_def parse_open_def jfield_def parse_json Let_def)

lemma validate_model_list_json: "validate_model_list (model_list_json is) = Inr is"
  by (simp add: validate_model_list_def model_list_json_def parse_open_def jfield_def parse_json)

definition compute_model_list :: "gen_env \<Rightarrow> generation_kind \<Rightarrow> (gen_db, json) eff" where
  "compute_model_list env kind =
     bindE gateway_capability_map (\<lambda>(ms, m).
     bindE (store_capabilities_map env m) (\<lambda>_.
     bindE (liftR (build_generate_model_items kind ms m)) (\<lambda>is.
     ret (model_list_json is))))"

definition read_model_list_cache :: "gen_env \<Rightarrow> string \<Rightarrow> (gen_db, json) eff \<Rightarrow> (gen_db, model_item list) eff" where
  "read_model_list_cache env k compute =
     bindE (ge_compute env k compute) (\<lambda>raw.
     case validate_model_list raw of
       Inr is \<Rightarrow> ret is
     | Inl e \<Rightarrow>
         bindE (on_cache (cache_delete (ge_cache env) k)) (\<lambda>_.
         bindE (ge_compute env k compute) (\<lambda>raw'.
         liftR (validate_model_list raw'))))"

definition attach_param_options ::
  "gen_env \<Rightarrow> generation_kind \<Rightarrow> model_item list \<Rightarrow> (gen_db, model_item list) eff" where
  "attach_param_options env kind is =
     bindE (ensure_capabilities env) (\<lambda>m.
     liftR (mapR (\<lambda>i. case capabilities_for m (mi_model i) kind of
         None \<Rightarrow> Inl (list_unavailable (msg_missing_capability (mi_model i)))
       | Some c \<Rightarrow> Inr (i\<lparr>mi_options := to_param_options c\<rparr>)) is))"

fun is_app_error :: "exc \<Rightarrow> bool" where
  "is_app_error (AppError _ _) = True"
| "is_app_error _ = False"

definition list_models :: "gen_env \<Rightarrow> generation_kind \<Rightarrow> (gen_db, model_item list) eff" where
  "list_models env kind =
     catchE
       (bindE (read_model_list_cache env (''gen:models:'' @ generation_kind_value kind) (compute_model_list env kind))
          (attach_param_options env kind))
       (\<lambda>e. if is_app_error e \<or> e = CancelledError then raise e else raise (list_unavailable msg_list_unavailable))"

definition list_tts_voices :: "string \<Rightarrow> (gen_db, voice_item list) eff" where
  "list_tts_voices model_id = ask_world (\<lambda>w. wd_voices w model_id)"

definition msg_voice_required :: string where
  "msg_voice_required = utf8 [232, 175, 173, 233, 159, 179, 231, 148, 159, 230, 136, 144, 229, 191, 133, 233, 161, 187, 230, 152,
     190, 229, 188, 143, 233, 128, 137, 230, 139, 169, 233, 159, 179, 232, 137, 178]"

definition resolve_tts_voice_id :: "string option \<Rightarrow> string option \<Rightarrow> string res" where
  "resolve_tts_voice_id voice fallback =
     (let explicit = strip (if given voice then the voice else if given fallback then the fallback else []) in
      if explicit \<noteq> [] then Inr explicit else Inl (invalid_params msg_voice_required))"

end
