(* ===== verification/Generation_Service.thy ===== *)
theory Generation_Service
  imports Generation_Capabilities
begin

text \<open>
  The generation service: \<open>generation/services/service.py\<close> with the observations of
  \<open>generation/schemas/observation.py\<close> and the views of \<open>generation/assembly\<close>. A task is a row read
  earlier; writes go by its identifier and check the status they expect. Log records are left out.
\<close>

section \<open>Views\<close>

definition task_result_asset_ids :: "gen_task \<Rightarrow> int list" where
  "task_result_asset_ids r = (case gk_result_assets r of None \<Rightarrow> [] | Some ids \<Rightarrow> ids)"

text \<open>Metadata and \<open>source_id\<close> may hold anything; what \<open>int\<close> refuses counts as no task.\<close>

definition asset_task_id :: "gen_asset \<Rightarrow> int option res" where
  "asset_task_id a =
     (let m = jget (ga_metadata a) ''task_id'';
          raw = (if m = JNull \<and> ga_source_type a = ''generate_result'' then jopt JStr (ga_source_id a) else m)
      in if raw = JNull then Inr None
         else case py_int raw of
                Inr i \<Rightarrow> Inr (Some i)
              | Inl (ValueError _) \<Rightarrow> Inr None
              | Inl (TypeError _) \<Rightarrow> Inr None
              | Inl e \<Rightarrow> Inl e)"

definition collect_ref_asset_ids :: "gen_task list \<Rightarrow> int list" where
  "collect_ref_asset_ids rows = unique (concat (map (\<lambda>r. case gk_refs r of None \<Rightarrow> [] | Some ids \<Rightarrow> ids) rows))"

definition presigned :: "gen_env \<Rightarrow> result_item \<Rightarrow> result_item" where
  "presigned env i = (case ge_presign env (ri_url i) of Inr u \<Rightarrow> i\<lparr>ri_url := u\<rparr> | Inl _ \<Rightarrow> i)"

definition to_result_urls :: "gen_env \<Rightarrow> json list \<Rightarrow> result_item list res" where
  "to_result_urls env keys = mapR (\<lambda>raw. bindR (validate_result_item raw) (\<lambda>i. Inr (presigned env i))) keys"

record observation =
  ob_union :: int
  ob_status :: gateway_task_status
  ob_position :: "int option"
  ob_total :: "int option"
  ob_wait :: "int option"

record ref_material =
  rm_asset :: int
  rm_filename :: string
  rm_mime :: string
  rm_url :: string
  rm_source :: "string option"

record queue_view =
  qv_position :: "int option"
  qv_total :: "int option"
  qv_wait :: "int option"

definition queue_of :: "observation option \<Rightarrow> queue_view" where
  "queue_of o1 =
     (case o1 of
        None \<Rightarrow> \<lparr> qv_position = None, qv_total = None, qv_wait = None \<rparr>
      | Some x \<Rightarrow> \<lparr> qv_position = ob_position x, qv_total = ob_total x, qv_wait = ob_wait x \<rparr>)"

record task_view =
  tv_id :: int
  tv_kind :: generation_kind
  tv_status :: gateway_task_status
  tv_prompt :: string
  tv_model :: string
  tv_ratio :: "string option"
  tv_resolution :: "string option"
  tv_duration :: "int option"
  tv_mode :: "reference_mode option"
  tv_refs :: "ref_material list"
  tv_urls :: "result_item list"
  tv_assets :: "int list"
  tv_error :: "string option"
  tv_favorited :: bool
  tv_queue :: queue_view
  tv_created :: int

record task_item =
  ti_id :: int
  ti_kind :: generation_kind
  ti_status :: gateway_task_status
  ti_prompt :: string
  ti_model :: string
  ti_ratio :: "string option"
  ti_resolution :: "string option"
  ti_duration :: "int option"
  ti_mode :: "reference_mode option"
  ti_count :: nat
  ti_preview_url :: "string option"
  ti_preview_asset :: "int option"
  ti_preview_type :: "int option"
  ti_error :: "string option"
  ti_favorited :: bool
  ti_queue :: queue_view
  ti_created :: int

text \<open>The enumerations of a view are checked by its validation.\<close>

definition valid_enums ::
  "string \<Rightarrow> gen_task \<Rightarrow> (generation_kind \<times> gateway_task_status \<times> reference_mode option) res" where
  "valid_enums contract r =
     (case (GenerationKind (gk_kind r), GatewayTaskStatus (gk_status r),
            case gk_mode r of None \<Rightarrow> Inr None | Some n \<Rightarrow> bindR (ReferenceMode n) (\<lambda>m. Inr (Some m))) of
        (Inr k, Inr st, Inr m) \<Rightarrow> Inr (k, st, m)
      | _ \<Rightarrow> Inl (ValidationError contract))"

definition result_urls_of :: "gen_env \<Rightarrow> gen_task \<Rightarrow> result_item list res" where
  "result_urls_of env r = (if given (gk_result_keys r) then to_result_urls env (the (gk_result_keys r)) else Inr [])"

definition is_favorited :: "int list \<Rightarrow> gen_task \<Rightarrow> bool" where
  "is_favorited favorited r \<longleftrightarrow> (\<exists>i \<in> set (task_result_asset_ids r). i \<in> set favorited)"

definition to_task_view ::
  "gen_env \<Rightarrow> gen_task \<Rightarrow> observation option \<Rightarrow> ref_material list \<Rightarrow> int list \<Rightarrow> task_view res" where
  "to_task_view env r obs refs favorited =
     bindR (result_urls_of env r) (\<lambda>urls.
     bindR (valid_enums ''GenerateTaskView'' r) (\<lambda>(k, st, m).
     Inr \<lparr> tv_id = gk_id r, tv_kind = k, tv_status = st, tv_prompt = gk_prompt r, tv_model = gk_model r,
           tv_ratio = gk_ratio r, tv_resolution = gk_resolution r, tv_duration = gk_duration r, tv_mode = m,
           tv_refs = refs, tv_urls = urls, tv_assets = task_result_asset_ids r, tv_error = gk_error r,
           tv_favorited = is_favorited favorited r, tv_queue = queue_of obs, tv_created = gk_created r \<rparr>))"

definition to_task_list_item ::
  "gen_env \<Rightarrow> gen_task \<Rightarrow> observation option \<Rightarrow> int list \<Rightarrow> task_item res" where
  "to_task_list_item env r obs favorited =
     bindR (result_urls_of env r) (\<lambda>urls.
     bindR (valid_enums ''GenerateTaskListItem'' r) (\<lambda>(k, st, m).
     Inr \<lparr> ti_id = gk_id r, ti_kind = k, ti_status = st, ti_prompt = gk_prompt r, ti_model = gk_model r,
           ti_ratio = gk_ratio r, ti_resolution = gk_resolution r, ti_duration = gk_duration r, ti_mode = m,
           ti_count = length urls,
           ti_preview_url = (case urls of [] \<Rightarrow> None | u # _ \<Rightarrow> Some (ri_url u)),
           ti_preview_asset = (case task_result_asset_ids r of [] \<Rightarrow> None | i # _ \<Rightarrow> Some i),
           ti_preview_type = (case urls of [] \<Rightarrow> None | u # _ \<Rightarrow> ri_type u),
           ti_error = gk_error r, ti_favorited = is_favorited favorited r, ti_queue = queue_of obs,
           ti_created = gk_created r \<rparr>))"

section \<open>Results become assets\<close>

fun asset_type_of_kind :: "generation_kind \<Rightarrow> string" where
  "asset_type_of_kind GK_VIDEO = ''video''"
| "asset_type_of_kind GK_AUDIO = ''audio''"
| "asset_type_of_kind GK_IMAGE = ''image''"

fun result_mime :: "generation_kind \<Rightarrow> string" where
  "result_mime GK_IMAGE = ''image/png''"
| "result_mime GK_VIDEO = ''video/mp4''"
| "result_mime GK_AUDIO = ''audio/mpeg''"

definition result_filename :: "gen_task \<Rightarrow> nat \<Rightarrow> string \<Rightarrow> string" where
  "result_filename r index key =
     (let name = last (split_on (CHR ''/'') key) in
      if name \<noteq> [] then name else gk_kind r @ ''-'' @ int_str (gk_id r) @ ''-'' @ nat_str index)"

definition result_metadata :: "gen_task \<Rightarrow> nat \<Rightarrow> result_item \<Rightarrow> json dict" where
  "result_metadata r index item =
     [(''task_id'', JInt (gk_id r)), (''union_task_id'', jopt JInt (gk_union r)), (''kind'', JStr (gk_kind r)),
      (''prompt'', JStr (gk_prompt r)), (''model_id'', JStr (gk_model r)), (''ratio'', jopt JStr (gk_ratio r)),
      (''resolution'', jopt JStr (gk_resolution r)), (''duration'', jopt JInt (gk_duration r)),
      (''index'', JInt (int index)), (''gateway_result'', dump_result_item item)]"

definition result_asset_data :: "gen_task \<Rightarrow> generation_kind \<Rightarrow> nat \<Rightarrow> result_item \<Rightarrow> asset_data" where
  "result_asset_data r kind index item =
     \<lparr> ad_user = gk_user r, ad_key = ri_url item, ad_mime = result_mime kind,
       ad_type = Some (asset_type_of_kind kind), ad_filename = result_filename r index (ri_url item),
       ad_source_type = ''generate_result'', ad_source_id = Some (int_str (gk_id r)), ad_project = None,
       ad_metadata = result_metadata r index item \<rparr>"

definition create_result_asset :: "gen_task \<Rightarrow> generation_kind \<Rightarrow> nat \<times> json \<Rightarrow> (gen_db, int) eff" where
  "create_result_asset r kind p =
     bindE (liftR (validate_result_item (snd p))) (\<lambda>item.
     bindE (create_asset (result_asset_data r kind (fst p) item)) (\<lambda>a. ret (ga_id a)))"

definition ensure_result_assets :: "gen_task \<Rightarrow> (gen_db, gen_task) eff" where
  "ensure_result_assets r =
     (if \<not> given (gk_result_keys r) then ret r
      else if given (gk_result_assets r) then ret r
      else
        bindE (liftR (GenerationKind (gk_kind r))) (\<lambda>kind.
        bindE (mapE (create_result_asset r kind) (enumerate 0 (the (gk_result_keys r)))) (\<lambda>ids.
        if ids \<noteq> [] then set_result_asset_ids (gk_id r) ids else ret r)))"

section \<open>Applying a result\<close>

definition write_result :: "gen_task \<Rightarrow> gateway_task_status \<Rightarrow> generation_terminal \<Rightarrow> bool \<Rightarrow> (gen_db, gen_task \<times> bool) eff" where
  "write_result r current result sent =
     bindE (update_if_status (gk_id r) current (write_terminal result sent)) (\<lambda>updated.
     if updated \<noteq> 1 then bindE (get_by_id_required (gk_id r)) (\<lambda>now. ret (now, False))
     else
       bindE (get_by_id_required (gk_id r)) (\<lambda>applied.
       bindE (if tm_status result = GTS_SUCCEEDED then ensure_result_assets applied else ret applied) (\<lambda>final.
       ret (final, True))))"

definition apply_result :: "gen_task \<Rightarrow> generation_terminal \<Rightarrow> bool \<Rightarrow> (gen_db, gen_task \<times> bool) eff" where
  "apply_result r result sent =
     bindE (liftR (GatewayTaskStatus (gk_status r))) (\<lambda>current.
     if gts_is_terminal current then ret (r, False)
     else if \<not> gts_is_terminal (tm_status result) \<and> gts_value (tm_status result) < gts_value current then ret (r, False)
     else gd_transaction (write_result r current result sent))"

definition msg_callback_task :: string where
  "msg_callback_task = utf8 [229, 155, 158, 232, 176, 131, 228, 187, 187, 229, 138, 161, 228, 184, 141, 229, 173, 152, 229, 156,
     168]"

definition msg_callback_deleted :: string where
  "msg_callback_deleted = utf8 [229, 155, 158, 232, 176, 131, 228, 187, 187, 229, 138, 161, 229, 183, 178, 229, 136, 160, 233, 153,
     164]"

record callback_payload =
  cb_task :: int
  cb_data :: task_data

definition normalized_result :: "task_data \<Rightarrow> generation_terminal res" where
  "normalized_result d =
     normalize_gateway_terminal (td_status d) (td_urls d)
       (Some (resolve_gateway_failure_message (td_error_code d) (td_reason d)))"

definition handle_callback :: "callback_payload \<Rightarrow> (gen_db, gen_task \<times> bool) eff" where
  "handle_callback payload =
     bindE (get_by_union_task_id (cb_task payload)) (\<lambda>m.
     case m of
       None \<Rightarrow> raise (AppError ''TASK_NOT_FOUND'' msg_callback_task)
     | Some r \<Rightarrow>
         bindE (ensure (gk_deleted r = None) (AppError ''TASK_DELETED'' msg_callback_deleted)) (\<lambda>_.
         bindE (if gk_callback_sent r
                then liftR (bindR (GatewayTaskStatus (gk_status r)) (\<lambda>st. Inr (gts_is_terminal st)))
                else ret False) (\<lambda>skip.
         if skip then ret (r, False)
         else
           bindE (liftR (normalized_result (cb_data payload))) (\<lambda>result.
           bindE (apply_result r result True) (\<lambda>(r', applied).
           if applied then ret (r', True)
           else
             bindE (mark_callback_sent (gk_id r')) (\<lambda>_.
             bindE (get_by_id_required (gk_id r')) (\<lambda>now. ret (now, False))))))))"

section \<open>Observing the gateway\<close>

definition observation_from_queue_item :: "queue_item \<Rightarrow> observation res" where
  "observation_from_queue_item q =
     bindR (GatewayTaskStatus (qi_status q)) (\<lambda>st.
     Inr \<lparr> ob_union = qi_task q, ob_status = st, ob_position = qi_position q, ob_total = qi_total q, ob_wait = qi_wait q \<rparr>)"

text \<open>A batch is a dictionary by task; of two entries the later one counts.\<close>

definition for_union_task :: "observation list \<Rightarrow> int \<Rightarrow> observation option" where
  "for_union_task batch u = find (\<lambda>x. ob_union x = u) (rev batch)"

definition observation_for :: "gen_task \<Rightarrow> observation list \<Rightarrow> observation option" where
  "observation_for r batch = (case gk_union r of None \<Rightarrow> None | Some u \<Rightarrow> for_union_task batch u)"

definition fetch_observations :: "int list \<Rightarrow> (gen_db, observation list) eff" where
  "fetch_observations ids =
     (if ids = [] then ret []
      else
        except_exception
          (bindE (ask_world (\<lambda>w. wd_queue w (unique ids))) (\<lambda>qs. liftR (mapR observation_from_queue_item qs))) [])"

definition apply_gateway_terminal_observation :: "gen_task \<Rightarrow> (gen_db, gen_task \<times> bool) eff" where
  "apply_gateway_terminal_observation r =
     (case gk_union r of
        None \<Rightarrow> ret (r, False)
      | Some u \<Rightarrow>
          bindE (except_exception (bindE (ask_world (\<lambda>w. wd_get_task w u)) (\<lambda>d. ret (Some d))) None) (\<lambda>m.
          case m of
            None \<Rightarrow> ret (r, False)
          | Some d \<Rightarrow>
              (case normalized_result d of
                 Inr result \<Rightarrow> apply_result r result True
               | Inl e \<Rightarrow> if is_app_error e then ret (r, False) else raise e)))"

definition apply_gateway_status_observation :: "gen_task \<Rightarrow> gateway_task_status \<Rightarrow> (gen_db, gen_task) eff" where
  "apply_gateway_status_observation r st =
     bindE (if gts_is_terminal st then apply_gateway_terminal_observation r
            else bindE (liftR (normalize_gateway_terminal (gts_value st) None None)) (\<lambda>result. apply_result r result False))
       (\<lambda>(r', _). ret r')"

definition observe_one_non_terminal_task :: "observation list \<Rightarrow> gen_task \<Rightarrow> (gen_db, gen_task) eff" where
  "observe_one_non_terminal_task batch r =
     bindE (liftR (GatewayTaskStatus (gk_status r))) (\<lambda>current.
     if gts_is_terminal current \<or> gk_union r = None then ret r
     else
       (case observation_for r batch of
          None \<Rightarrow> ret r
        | Some x \<Rightarrow> if ob_status x = current then ret r else apply_gateway_status_observation r (ob_status x)))"

definition non_terminal_unions :: "gen_task list \<Rightarrow> int list res" where
  "non_terminal_unions rows =
     bindR (mapR (\<lambda>r. bindR (GatewayTaskStatus (gk_status r)) (\<lambda>st.
        Inr (if gts_is_non_terminal st then (case gk_union r of None \<Rightarrow> [] | Some u \<Rightarrow> [u]) else []))) rows)
       (\<lambda>us. Inr (concat us))"

definition observe_non_terminal_tasks :: "gen_task list \<Rightarrow> (gen_db, gen_task list \<times> observation list) eff" where
  "observe_non_terminal_tasks rows =
     bindE (liftR (non_terminal_unions rows)) (\<lambda>us.
     bindE (fetch_observations us) (\<lambda>batch.
     bindE (mapE (observe_one_non_terminal_task batch) rows) (\<lambda>rows'. ret (rows', batch))))"

section \<open>Reading tasks\<close>

definition msg_task_missing :: string where
  "msg_task_missing = utf8 [228, 187, 187, 229, 138, 161, 228, 184, 141, 229, 173, 152, 229, 156, 168]"

abbreviation task_missing :: exc where
  "task_missing \<equiv> AppError ''TASK_NOT_FOUND'' msg_task_missing"

definition ref_material_of :: "gen_env \<Rightarrow> gen_asset \<Rightarrow> ref_material res" where
  "ref_material_of env a =
     bindR (asset_preview_url env (ga_key a)) (\<lambda>u.
     if ga_id a < 1 then Inl (ValidationError ''GenerateRefMaterial'')
     else Inr \<lparr> rm_asset = ga_id a, rm_filename = ga_filename a, rm_mime = ga_mime a, rm_url = u,
                rm_source = Some (ga_source_type a) \<rparr>)"

definition load_reference_materials_by_task_id ::
  "gen_env \<Rightarrow> gen_task list \<Rightarrow> int \<Rightarrow> (gen_db, (int \<times> ref_material list) list) eff" where
  "load_reference_materials_by_task_id env rows user =
     (let ids = collect_ref_asset_ids rows in
      if ids = [] then ret []
      else
        bindE (get_active_by_ids_for_user ids user) (\<lambda>assets.
        let missing = filter (\<lambda>i. asset_with_id assets i = None) (sort ids) in
        bindE (ensure (missing = [])
                 (invalid_params (''reference assets not found: '' @ py_repr (JList (map JInt missing))))) (\<lambda>_.
        liftR (mapR (\<lambda>r. bindR (mapR (\<lambda>i. ref_material_of env (the (asset_with_id assets i)))
                                   (unique (case gk_refs r of None \<Rightarrow> [] | Some is \<Rightarrow> is)))
                         (\<lambda>ms. Inr (gk_id r, ms))) rows))))"

definition refs_of_task :: "(int \<times> ref_material list) list \<Rightarrow> int \<Rightarrow> ref_material list" where
  "refs_of_task refs i = (case map_of (rev refs) i of None \<Rightarrow> [] | Some ms \<Rightarrow> ms)"

definition load_favorited_asset_ids :: "gen_task list \<Rightarrow> int \<Rightarrow> (gen_db, int list) eff" where
  "load_favorited_asset_ids rows user =
     (let ids = unique (concat (map task_result_asset_ids rows)) in
      if ids = [] then ret []
      else bindE (get_favorited_by_ids_for_user ids user) (\<lambda>as. ret (map ga_id as)))"

definition favorite_task_ids_for_user :: "int \<Rightarrow> (gen_db, int list) eff" where
  "favorite_task_ids_for_user user =
     bindE (list_favorited_for_user user) (\<lambda>as.
     bindE (liftR (mapR asset_task_id as)) (\<lambda>ms.
     ret (unique (concat (map (\<lambda>m. case m of None \<Rightarrow> [] | Some i \<Rightarrow> [i]) ms)))))"

definition observe_task :: "int \<Rightarrow> int \<Rightarrow> (gen_db, gen_task \<times> observation option) eff" where
  "observe_task i user =
     bindE (get_by_ids_for_user [i] user) (\<lambda>rows.
     bindE (ensure (rows \<noteq> []) task_missing) (\<lambda>_.
     bindE (observe_non_terminal_tasks rows) (\<lambda>(rows', batch).
     ret (hd rows', observation_for (hd rows') batch))))"

definition assemble_task_view :: "gen_env \<Rightarrow> gen_task \<times> observation option \<Rightarrow> int \<Rightarrow> (gen_db, task_view) eff" where
  "assemble_task_view env observed user =
     (let r = fst observed in
      bindE (load_reference_materials_by_task_id env [r] user) (\<lambda>refs.
      bindE (load_favorited_asset_ids [r] user) (\<lambda>fav.
      liftR (to_task_view env r (snd observed) (refs_of_task refs (gk_id r)) fav))))"

definition get_task_status :: "gen_env \<Rightarrow> int \<Rightarrow> int \<Rightarrow> (gen_db, task_view) eff" where
  "get_task_status env i user =
     bindE (observe_task i user) (\<lambda>observed. assemble_task_view env observed user)"

definition task_with_id :: "gen_task list \<Rightarrow> int \<Rightarrow> gen_task option" where
  "task_with_id rows i = find (\<lambda>r. gk_id r = i) (rev rows)"

definition get_tasks_status :: "gen_env \<Rightarrow> int list \<Rightarrow> int \<Rightarrow> (gen_db, task_view list \<times> int list) eff" where
  "get_tasks_status env task_ids user =
     (let requested = unique task_ids in
      bindE (get_by_ids_for_user requested user) (\<lambda>rows.
      let ordered = map (\<lambda>i. the (task_with_id rows i)) (filter (\<lambda>i. task_with_id rows i \<noteq> None) requested) in
      bindE (observe_non_terminal_tasks ordered) (\<lambda>(ordered', batch).
      bindE (load_reference_materials_by_task_id env ordered' user) (\<lambda>refs.
      bindE (load_favorited_asset_ids ordered' user) (\<lambda>fav.
      bindE (liftR (mapR (\<lambda>r. to_task_view env r (observation_for r batch) (refs_of_task refs (gk_id r)) fav) ordered')) (\<lambda>views.
      ret (views, filter (\<lambda>i. task_with_id rows i = None) requested)))))))"

record list_request =
  lr_kind :: "generation_kind option"
  lr_statuses :: "gateway_task_status list"
  lr_after :: "int option"
  lr_query :: string
  lr_favorites_only :: bool
  lr_page_size :: nat
  lr_cursor :: "(int \<times> int) option"

record list_response =
  ls_items :: "task_item list"
  ls_next :: "(int \<times> int) option"
  ls_more :: bool

definition query_of_request :: "int \<Rightarrow> list_request \<Rightarrow> int list option \<Rightarrow> task_query" where
  "query_of_request user req ids =
     \<lparr> tq_user = user, tq_limit = lr_page_size req + 1, tq_kind = lr_kind req, tq_statuses = lr_statuses req,
       tq_after = lr_after req, tq_prompt = strip (lr_query req), tq_ids = ids, tq_cursor = lr_cursor req \<rparr>"

text \<open>One row more than the page is read, to know whether there are more.\<close>

definition page_of :: "nat \<Rightarrow> gen_task list \<Rightarrow> gen_task list \<times> (int \<times> int) option \<times> bool" where
  "page_of n rows =
     (let has_more = length rows > n; listed = take n rows
      in (listed, if has_more \<and> listed \<noteq> [] then Some (task_key (last listed)) else None, has_more))"

definition list_tasks :: "gen_env \<Rightarrow> int \<Rightarrow> list_request \<Rightarrow> (gen_db, list_response) eff" where
  "list_tasks env user req =
     bindE (if lr_favorites_only req then bindE (favorite_task_ids_for_user user) (\<lambda>is. ret (Some is)) else ret None) (\<lambda>ids.
     if ids = Some [] then ret \<lparr> ls_items = [], ls_next = None, ls_more = False \<rparr>
     else
       bindE (list_by_query env (query_of_request user req ids)) (\<lambda>rows.
       case page_of (lr_page_size req) rows of (listed, next_cursor, has_more) \<Rightarrow>
       bindE (observe_non_terminal_tasks listed) (\<lambda>(listed', batch).
       bindE (load_favorited_asset_ids listed' user) (\<lambda>fav.
       bindE (liftR (mapR (\<lambda>r. to_task_list_item env r (observation_for r batch) fav) listed')) (\<lambda>items.
       ret \<lparr> ls_items = items, ls_next = next_cursor, ls_more = has_more \<rparr>)))))"

section \<open>Changing tasks\<close>

definition msg_image_cancel :: string where
  "msg_image_cancel = utf8 [229, 155, 190, 231, 137, 135, 231, 148, 159, 230, 136, 144, 228, 187, 187, 229, 138, 161, 230, 154,
     130, 228, 184, 141, 230, 148, 175, 230, 140, 129, 229, 143, 150, 230, 182, 136]"

definition msg_cancel_upstream :: string where
  "msg_cancel_upstream = utf8 [228, 184, 138, 230, 184, 184, 228, 187, 187, 229, 138, 161, 229, 143, 150, 230, 182, 136, 229, 164,
     177, 232, 180, 165, 239, 188, 140, 232, 175, 183, 231, 168, 141, 229, 144, 142, 233, 135, 141,
     232, 175, 149]"

definition msg_already_finished :: string where
  "msg_already_finished = utf8 [228, 187, 187, 229, 138, 161, 229, 183, 178, 231, 187, 147, 230, 157, 159, 239, 188, 140, 230, 151,
     160, 230, 179, 149, 229, 143, 150, 230, 182, 136]"

definition msg_no_result_asset :: string where
  "msg_no_result_asset = utf8 [228, 187, 187, 229, 138, 161, 230, 154, 130, 230, 151, 160, 229, 143, 175, 230, 148, 182, 232, 151,
     143, 232, 181, 132, 228, 186, 167]"

definition has_union :: "gen_task \<Rightarrow> bool" where
  "has_union r \<longleftrightarrow> gk_union r \<noteq> None \<and> gk_union r \<noteq> Some 0"

definition cancel :: "int \<Rightarrow> int \<Rightarrow> (gen_db, unit) eff" where
  "cancel i user =
     bindE (get_active_for_user i user) (\<lambda>m.
     case m of
       None \<Rightarrow> raise task_missing
     | Some r \<Rightarrow>
         bindE (liftR (GenerationKind (gk_kind r))) (\<lambda>kind.
         bindE (ensure (kind \<noteq> GK_IMAGE) (AppError ''TASK_CANCEL_FAILED'' msg_image_cancel)) (\<lambda>_.
         bindE (if has_union r
                then catchE (ask_world (\<lambda>w. wd_cancel w (the (gk_union r)) (int_str user)))
                       (\<lambda>e. if e = CancelledError then raise e
                            else raise (AppError ''TASK_CANCEL_FAILED'' msg_cancel_upstream))
                else ret ()) (\<lambda>_.
         bindE (cancel_if_non_terminal i) (\<lambda>cancelled.
         ensure cancelled (AppError ''TASK_ALREADY_FINISHED'' msg_already_finished))))))"

definition toggle_favorite :: "int \<Rightarrow> int \<Rightarrow> bool \<Rightarrow> (gen_db, unit) eff" where
  "toggle_favorite i user favorited =
     bindE (get_active_for_user i user) (\<lambda>m.
     case m of
       None \<Rightarrow> raise task_missing
     | Some r \<Rightarrow>
         bindE (if gk_status r = gts_value GTS_SUCCEEDED \<and> task_result_asset_ids r = []
                then ensure_result_assets r else ret r) (\<lambda>r'.
         let ids = task_result_asset_ids r' in
         bindE (ensure (ids \<noteq> []) (invalid_params msg_no_result_asset)) (\<lambda>_.
         set_favorite_for_user user ids favorited)))"

definition delete_task :: "int \<Rightarrow> int \<Rightarrow> (gen_db, unit) eff" where
  "delete_task i user =
     bindE (get_active_for_user i user) (\<lambda>m.
     case m of
       None \<Rightarrow> raise task_missing
     | Some r \<Rightarrow>
         bindE (liftR (GatewayTaskStatus (gk_status r))) (\<lambda>st.
         bindE (if gts_is_non_terminal st \<and> has_union r
                then bindE (liftR (GenerationKind (gk_kind r))) (\<lambda>kind.
                     if kind = GK_VIDEO
                     then except_exception (ask_world (\<lambda>w. wd_cancel w (the (gk_union r)) (int_str user))) ()
                     else ret ())
                else ret ()) (\<lambda>_.
         soft_delete_task (gk_id r))))"

section \<open>Submitting a task\<close>

definition load_reference_materials ::
  "int \<Rightarrow> submit_request \<Rightarrow> generation_capabilities \<Rightarrow> (gen_db, gateway_material list) eff" where
  "load_reference_materials user req caps =
     (let ids = unique (filter (\<lambda>i. i > 0) (sr_refs req)) in
      bindE (if ids = [] then ret [] else assets_to_gateway_materials user ids) (\<lambda>ms.
      let materials = dedupe_materials ms in
      bindE (liftR (validate_reference_materials (sr_kind req) (sr_mode req) (map gw_type materials) caps)) (\<lambda>_.
      ret materials)))"

definition submit_to_gateway ::
  "gen_env \<Rightarrow> submit_request \<Rightarrow> gateway_material list \<Rightarrow> string option \<Rightarrow> (gen_db, int) eff" where
  "submit_to_gateway env req materials voice =
     bindE gd_uuid4_hex (\<lambda>rid.
     case sr_kind req of
       GK_IMAGE \<Rightarrow>
         ask_world (\<lambda>w. wd_submit_image w (build_image_submit_request req materials (ge_callback_url env)) rid)
     | GK_AUDIO \<Rightarrow>
         bindE (liftR (if given voice then Inr (the voice) else resolve_tts_voice_id (sr_voice req) None)) (\<lambda>v.
         bindE (liftR (build_tts_submit_request req v (ge_callback_url env))) (\<lambda>r.
         ask_world (\<lambda>w. wd_submit_tts w r rid)))
     | GK_VIDEO \<Rightarrow>
         bindE (liftR (build_video_submit_request req materials (ge_callback_url env))) (\<lambda>r.
         ask_world (\<lambda>w. wd_submit_video w r rid)))"

text \<open>The canvas node a request is bound to.\<close>

definition bound_node :: "submit_request \<Rightarrow> (int \<times> string) option" where
  "bound_node req =
     (case sr_episode req of
        None \<Rightarrow> None
      | Some ep \<Rightarrow> if stripped_node req = [] then None else Some (ep, stripped_node req))"

definition check_node_free :: "gen_env \<Rightarrow> int \<Rightarrow> submit_request \<Rightarrow> (gen_db, unit) eff" where
  "check_node_free env user req =
     (case bound_node req of
        None \<Rightarrow> ret ()
      | Some (ep, node) \<Rightarrow>
          bindE (on_locks (assert_writable ep)) (\<lambda>_.
          on_canvas (assert_node_has_no_active_generate_task (ge_canvas env) (ge_write_scope env user ep) ep node)))"

definition bind_node :: "gen_env \<Rightarrow> int \<Rightarrow> submit_request \<Rightarrow> int \<Rightarrow> (gen_db, unit) eff" where
  "bind_node env user req i =
     (case bound_node req of
        None \<Rightarrow> ret ()
      | Some (ep, node) \<Rightarrow>
          on_canvas (bind_generate_task_to_node (ge_canvas env) (ge_write_scope env user ep) ep node i))"

definition msg_upstream_unavailable :: string where
  "msg_upstream_unavailable = ''upstream unavailable''"

definition msg_submit_failed :: string where
  "msg_submit_failed = utf8 [230, 143, 144, 228, 186, 164, 231, 148, 159, 230, 136, 144, 228, 187, 187, 229, 138, 161, 229, 164,
     177, 232, 180, 165, 239, 188, 154, 228, 184, 138, 230, 184, 184, 230, 156, 141, 229, 138, 161,
     230, 154, 130, 228, 184, 141, 229, 143, 175, 231, 148, 168]"

definition submit_error :: "gen_task \<Rightarrow> exc \<Rightarrow> (gen_db, int) eff" where
  "submit_error r e =
     (case e of
        AppError code message \<Rightarrow>
          bindE (mark_failed_if_non_terminal (gk_id r) message) (\<lambda>_. raise e)
      | CancelledError \<Rightarrow> raise e
      | _ \<Rightarrow>
          bindE (mark_failed_if_non_terminal (gk_id r) msg_upstream_unavailable) (\<lambda>_.
          raise (AppError ''GATEWAY_SUBMIT_ERROR'' msg_submit_failed)))"

text \<open>Everything that is checked before the task exists.\<close>

definition prepare_submit ::
  "gen_env \<Rightarrow> int \<Rightarrow> submit_request \<Rightarrow> (gen_db, gateway_material list \<times> string option \<times> reference_mode option) eff" where
  "prepare_submit env user req =
     bindE (check_node_free env user req) (\<lambda>_.
     bindE (require_model_capabilities env (sr_model req) (sr_kind req)) (\<lambda>caps.
     bindE (liftR (validate_submit_params (sr_kind req) (sr_model req) caps (sr_ratio req) (sr_resolution req)
              (sr_count req) (sr_duration req) (sr_mode req))) (\<lambda>_.
     bindE (if sr_kind req \<noteq> GK_AUDIO then load_reference_materials user req caps else ret []) (\<lambda>materials.
     bindE (if sr_kind req = GK_AUDIO
            then bindE (liftR (resolve_tts_voice_id (sr_voice req) None)) (\<lambda>v. ret (Some v)) else ret None) (\<lambda>voice.
     bindE (if sr_kind req = GK_VIDEO
            then bindE (liftR (require_video_reference_mode req)) (\<lambda>m. ret (Some m)) else ret None) (\<lambda>mode.
     ret (materials, voice, mode)))))))"

definition new_task_of :: "int \<Rightarrow> submit_request \<Rightarrow> string option \<Rightarrow> reference_mode option \<Rightarrow> new_task" where
  "new_task_of user req voice mode =
     \<lparr> nt_user = user, nt_kind = sr_kind req, nt_prompt = sr_prompt req, nt_model = sr_model req, nt_voice = voice,
       nt_ratio = sr_ratio req, nt_resolution = sr_resolution req,
       nt_max_images = (if sr_kind req = GK_IMAGE then Some (sr_count req) else None),
       nt_duration = (if sr_kind req = GK_VIDEO then sr_duration req else None), nt_mode = mode,
       nt_refs = (if sr_refs req = [] then None else Some (unique (sr_refs req))) \<rparr>"

definition submit :: "gen_env \<Rightarrow> int \<Rightarrow> submit_request \<Rightarrow> (gen_db, int \<times> gateway_task_status) eff" where
  "submit env user req =
     bindE (prepare_submit env user req) (\<lambda>(materials, voice, mode).
     bindE (create_gen_task (new_task_of user req voice mode)) (\<lambda>r.
     bindE (catchE (submit_to_gateway env req materials voice) (submit_error r)) (\<lambda>u.
     bindE (bind_union_task_queued (gk_id r) u) (\<lambda>_.
     bindE (get_by_id_required (gk_id r)) (\<lambda>r'.
     bindE (bind_node env user req (gk_id r')) (\<lambda>_.
     bindE (liftR (case GatewayTaskStatus (gk_status r') of
              Inr st \<Rightarrow> Inr st | Inl _ \<Rightarrow> Inl (ValidationError ''GenerateTaskSubmitResponse''))) (\<lambda>st.
     ret (gk_id r', st))))))))"

end
