(* ===== verification/Generation_Samples.thy ===== *)
theory Generation_Samples
  imports Generation_Service Canvas_Codec
begin

text \<open>
  Concrete states and a concrete outside world for the generation service: a catalogue of an image and a
  video model, and tasks that succeed with one video.
\<close>

definition empty_redis :: redis where
  "empty_redis = \<lparr> rd_strings = [], rd_hashes = [], rd_streams = [], rd_sets = [], rd_ttl = [], rd_millis = (\<lambda>n. n) \<rparr>"

definition sample_gen_env :: gen_env where
  "sample_gen_env =
     \<lparr> ge_canvas = \<lparr> ce_codec = plain_codec, ce_preview = (\<lambda>k. ''https://signed/'' @ k) \<rparr>,
       ge_callback_url = ''https://studio/callback'', ge_presign = (\<lambda>k. Inr (''https://signed/'' @ k)),
       ge_presign_put = (\<lambda>k. Inr (''https://put/'' @ k)), ge_presign_ttl = 3600, ge_icontains = (\<lambda>t q. is_substring q t),
       ge_write_scope = (\<lambda>user ep. ret ()),
       ge_cache = \<lparr> cx_has_redis = False, cx_maxsize = 8, cx_l1_ttl = 60, cx_l2_ttl = 300, cx_null_ttl = 30,
          cx_lock_timeout = 5, cx_prefix = ''cache'', cx_dumps = (\<lambda>j. []), cx_loads = (\<lambda>t. Inr JNull), cx_sleep = id \<rparr>,
       ge_ttl = 300, ge_float_text = int_str, ge_float_value = (\<lambda>t. case int_of_str t of Some i \<Rightarrow> i | None \<Rightarrow> 0) \<rparr>"

definition sample_limits :: material_limits where
  "sample_limits = \<lparr> ml_images = 2, ml_videos = 1, ml_audios = 1, ml_requires_any = False, ml_allow_audio_only = False \<rparr>"

definition sample_models :: "gateway_model list" where
  "sample_models =
     [\<lparr> gm_id = ''paint'', gm_task_type = GMT_IMAGE, gm_supports_vision = True, gm_ratios = [''1:1''],
        gm_resolutions = [''2k''], gm_ratios_by_resolution = [], gm_counts = [1, 2], gm_durations = [], gm_modes = [],
        gm_limits = sample_limits \<rparr>,
      \<lparr> gm_id = ''film'', gm_task_type = GMT_VIDEO, gm_supports_vision = False, gm_ratios = [''16:9''],
        gm_resolutions = [''4k''], gm_ratios_by_resolution = [(''4k'', [''16:9''])], gm_counts = [], gm_durations = [5],
        gm_modes = [1, 3], gm_limits = sample_limits \<rparr>]"

definition sample_result :: result_item where
  "sample_result = \<lparr> ri_url = ''r/v.mp4'', ri_type = Some 2, ri_width = None, ri_height = None,
     ri_duration = Some (GN_int 5), ri_ratio = None, ri_resolution = None, ri_fps = None \<rparr>"

definition sample_done :: task_data where
  "sample_done = \<lparr> td_status = 5, td_urls = Some [sample_result], td_reason = None, td_error_code = None \<rparr>"

definition sample_world :: world where
  "sample_world =
     \<lparr> wd_submit_image = (\<lambda>r i. Inr 41), wd_submit_video = (\<lambda>r i. Inr 42), wd_submit_tts = (\<lambda>r i. Inr 43),
       wd_get_task = (\<lambda>u. Inr sample_done),
       wd_queue = (\<lambda>us. Inr (map (\<lambda>u. \<lparr> qi_task = u, qi_status = 5, qi_position = None, qi_total = None, qi_wait = None \<rparr>) us)),
       wd_cancel = (\<lambda>u t. Inr ()), wd_models = Inr sample_models, wd_voices = (\<lambda>m. Inr []), wd_head = (\<lambda>k. Inr 10) \<rparr>"

definition sample_gen :: "gen_task list \<Rightarrow> gen_asset list \<Rightarrow> gen_db" where
  "sample_gen tasks assets =
     \<lparr> gd_tasks = tasks, gd_task_seq = 10, gd_assets = assets, gd_asset_seq = 100, gd_clock = (\<lambda>n. 1000 + int n),
       gd_uuids = (\<lambda>n. ''u'' @ nat_str n), gd_world = (\<lambda>n. sample_world),
       gd_canvas = \<lparr> cv_episodes = [], cv_metas = [], cv_nodes = [], cv_edges = [], cv_operations = [], cv_assets = [],
          cv_tasks = [], cv_published = [], cv_clock = int, cv_uuids = nat_str, cv_driver = (\<lambda>c. []) \<rparr>,
       gd_locks = \<lparr> lk_redis = empty_redis, lk_active = [], lk_cancel = [], lk_completed = [] \<rparr>,
       gd_cache = \<lparr> ch_l1 = [], ch_redis = empty_redis, ch_clock = int, ch_faults = (\<lambda>n. None) \<rparr>,
       gd_caps = [], gd_caps_until = 0 \<rparr>"

definition sample_task :: "int \<Rightarrow> gateway_task_status \<Rightarrow> gen_task" where
  "sample_task i st =
     \<lparr> gk_id = i, gk_user = 7, gk_union = Some (40 + i), gk_kind = ''video'', gk_status = gts_value st,
       gk_prompt = ''a storm'', gk_model = ''film'', gk_voice = None, gk_ratio = None, gk_resolution = None,
       gk_max_images = None, gk_duration = Some 5, gk_mode = Some 3, gk_refs = None, gk_result_keys = None,
       gk_result_assets = None, gk_error = None, gk_callback_sent = False, gk_deleted = None, gk_created = 500 + i \<rparr>"

definition sample_callback :: "int \<Rightarrow> callback_payload" where
  "sample_callback i = \<lparr> cb_task = 40 + i, cb_data = sample_done \<rparr>"

lemmas sample_defs = sample_gen_def sample_gen_env_def sample_task_def sample_world_def sample_callback_def
  sample_done_def sample_result_def

end
