(* ===== verification/Generation_Lifecycle.thy ===== *)
theory Generation_Lifecycle
  imports Generation_Samples
begin

text \<open>
  The life of a generation task. Requests, callbacks and polls read a row, wait for the gateway and write
  later, so every write may be based on an old row. \<open>gen_step\<close> has one rule for each statement that writes
  the table of tasks, with arbitrary arguments, and one for everything that leaves it alone: its sequences are the
  interleavings of the statements of any number of operations. A transaction that is rolled back is no step.
  Every operation of the service is shown to consist of such steps.
\<close>

section \<open>Parts of the state that operations leave alone\<close>

definition task_part :: "gen_db \<Rightarrow> gen_task list \<times> int" where
  "task_part s = (gd_tasks s, gd_task_seq s)"

lemma keeps_ask_world [frame_intros]:
  "(\<And>s w. f (s\<lparr>gd_world := w\<rparr>) = f s) \<Longrightarrow> keeps f (ask_world g)"
  by (simp add: keeps_def ask_world_def)

lemma keeps_gd_now [frame_intros]: "(\<And>s c. f (s\<lparr>gd_clock := c\<rparr>) = f s) \<Longrightarrow> keeps f gd_now"
  by (simp add: keeps_def gd_now_def)

lemma keeps_uuid4_hex [frame_intros]: "(\<And>s c. f (s\<lparr>gd_uuids := c\<rparr>) = f s) \<Longrightarrow> keeps f gd_uuid4_hex"
  by (simp add: keeps_def gd_uuid4_hex_def)

lemma keeps_zoom: "(\<And>c s. f (p c s) = f s) \<Longrightarrow> keeps f (zoom g p m)"
  by (simp add: keeps_def zoom_def split: prod.splits)

lemma keeps_on_cache [frame_intros]: "(\<And>s c. f (s\<lparr>gd_cache := c\<rparr>) = f s) \<Longrightarrow> keeps f (on_cache m)"
  unfolding on_cache_def by (rule keeps_zoom)

lemma keeps_on_canvas [frame_intros]: "(\<And>s c. f (s\<lparr>gd_canvas := c\<rparr>) = f s) \<Longrightarrow> keeps f (on_canvas m)"
  by (simp add: keeps_def on_canvas_def split: prod.splits)

lemma keeps_on_locks [frame_intros]: "(\<And>s c. f (s\<lparr>gd_locks := c\<rparr>) = f s) \<Longrightarrow> keeps f (on_locks m)"
  by (simp add: keeps_def on_locks_def split: prod.splits)

lemma keeps_finally [frame_intros]: "keeps f m \<Longrightarrow> keeps f h \<Longrightarrow> keeps f (finallyE m h)"
  by (auto simp: keeps_def finallyE_def split: prod.splits sum.splits) (metis snd_conv)+

lemma keeps_except [frame_intros]: "keeps f m \<Longrightarrow> keeps f (except_exception m x)"
  unfolding except_exception_def by (intro frame_intros)

lemma keeps_get_or_compute [frame_intros]:
  "(\<And>s c. f (s\<lparr>gd_cache := c\<rparr>) = f s) \<Longrightarrow> keeps f m \<Longrightarrow> keeps f (ge_compute env k m)"
  unfolding ge_compute_def get_or_compute_def compute_and_store_def by (intro frame_intros keeps_zoom; simp)

lemma keeps_select_assets [frame_intros]: "keeps f (select_assets c)"
  unfolding select_assets_def by (intro frame_intros)

lemma task_part_other [simp]:
  "task_part (s\<lparr>gd_world := w\<rparr>) = task_part s" "task_part (s\<lparr>gd_clock := c\<rparr>) = task_part s"
  "task_part (s\<lparr>gd_uuids := u\<rparr>) = task_part s" "task_part (s\<lparr>gd_cache := h\<rparr>) = task_part s"
  "task_part (s\<lparr>gd_canvas := v\<rparr>) = task_part s" "task_part (s\<lparr>gd_locks := l\<rparr>) = task_part s"
  "task_part (s\<lparr>gd_assets := a\<rparr>) = task_part s" "task_part (s\<lparr>gd_caps := m, gd_caps_until := n\<rparr>) = task_part s"
  "task_part (s\<lparr>gd_assets := a, gd_asset_seq := n\<rparr>) = task_part s"
  by (simp_all add: task_part_def)

lemma task_part_asset_operations [frame_intros]:
  "keeps task_part (update_assets c g)" "keeps task_part (insert_asset d)" "keeps task_part (create_asset d)"
  "keeps task_part (get_active_by_ids_for_user ids user)" "keeps task_part (get_owned_assets user ids)"
  "keeps task_part (get_favorited_by_ids_for_user ids user)" "keeps task_part (list_favorited_for_user user)"
  "keeps task_part (set_favorite_for_user user ids b)" "keeps task_part (assets_to_gateway_materials user ids)"
proof -
  show u: "keeps task_part (update_assets c g)" for c g by (simp add: keeps_def update_assets_def)
  show i: "keeps task_part (insert_asset d)" by (simp add: keeps_def insert_asset_def Let_def)
  show "keeps task_part (create_asset d)" unfolding create_asset_def by (intro frame_intros i)
  show "keeps task_part (get_active_by_ids_for_user ids user)"
    unfolding get_active_by_ids_for_user_def by (intro frame_intros)
  show o: "keeps task_part (get_owned_assets user ids)" unfolding get_owned_assets_def by (intro frame_intros)
  show "keeps task_part (get_favorited_by_ids_for_user ids user)"
    unfolding get_favorited_by_ids_for_user_def by (intro frame_intros)
  show "keeps task_part (list_favorited_for_user user)" unfolding list_favorited_for_user_def by (intro frame_intros)
  show "keeps task_part (set_favorite_for_user user ids b)"
    unfolding set_favorite_for_user_def by (intro frame_intros u)
  show "keeps task_part (assets_to_gateway_materials user ids)"
    unfolding assets_to_gateway_materials_def by (intro frame_intros o)
qed

section \<open>Steps\<close>

definition may_follow :: "gateway_task_status \<Rightarrow> gateway_task_status \<Rightarrow> bool" where
  "may_follow current new \<longleftrightarrow> \<not> gts_is_terminal current \<and> (gts_is_terminal new \<or> gts_value current \<le> gts_value new)"

inductive gen_step :: "gen_db \<Rightarrow> gen_db \<Rightarrow> bool" where
  elsewhere: "gd_tasks t = gd_tasks s \<Longrightarrow> gd_task_seq s \<le> gd_task_seq t \<Longrightarrow> gen_step s t"
| create: "gen_step s (s\<lparr>gd_tasks := gd_tasks s @ [task_of_new (gd_task_seq s) t n], gd_task_seq := gd_task_seq s + 1\<rparr>)"
| fail: "gen_step s (snd (mark_failed_if_non_terminal i m s))"
| enqueue: "gen_step s (snd (update_tasks (\<lambda>r. gk_id r = i \<and> gk_status r = gts_value GTS_CREATED)
              (\<lambda>r. r\<lparr>gk_union := Some u, gk_status := gts_value GTS_QUEUED\<rparr>) s))"
| name: "gen_step s (snd (update_tasks (\<lambda>r. gk_id r = i) (\<lambda>r. r\<lparr>gk_union := Some u\<rparr>) s))"
| cancelled: "gen_step s (snd (cancel_if_non_terminal i s))"
| delete: "gen_step s (snd (update_tasks (\<lambda>r. gk_id r = i \<and> gk_deleted r = None) (\<lambda>r. r\<lparr>gk_deleted := Some t\<rparr>) s))"
| called_back: "gen_step s (snd (mark_callback_sent i s))"
| store_results: "gen_step s (snd (update_tasks (\<lambda>r. gk_id r = i) (\<lambda>r. r\<lparr>gk_result_assets := Some ids\<rparr>) s))"
| move: "may_follow current (tm_status result) \<Longrightarrow>
    gen_step s (snd (update_if_status i current (write_terminal result sent) s))"

text \<open>An effect all of whose outcomes are reached by steps.\<close>

definition by_steps :: "(gen_db, 'a) eff \<Rightarrow> bool" where
  "by_steps m \<longleftrightarrow> (\<forall>s. gen_step\<^sup>*\<^sup>* s (snd (m s)))"

named_theorems step_intros \<open>rules for by_steps\<close>

lemma by_stepsD: "by_steps m \<Longrightarrow> m s = (r, t) \<Longrightarrow> gen_step\<^sup>*\<^sup>* s t"
  by (metis by_steps_def snd_conv)

lemma by_steps_keeps: "keeps task_part m \<Longrightarrow> by_steps m"
  unfolding by_steps_def keeps_def task_part_def
  by (metis (no_types, lifting) elsewhere order_refl prod.inject r_into_rtranclp)

lemma by_steps_bind [step_intros]:
  assumes "by_steps m" "\<And>x. by_steps (k x)"
  shows "by_steps (bindE m k)"
  unfolding by_steps_def
proof
  fix s
  obtain r u where m: "m s = (r, u)" by force
  then have u: "gen_step\<^sup>*\<^sup>* s u" using assms(1) by (auto dest: by_stepsD)
  show "gen_step\<^sup>*\<^sup>* s (snd (bindE m k s))"
  proof (cases r)
    case (Inl e)
    with m u show ?thesis by (simp add: bindE_def)
  next
    case (Inr x)
    have "gen_step\<^sup>*\<^sup>* u (snd (k x u))" using assms(2) by (simp add: by_steps_def)
    with u m Inr show ?thesis by (simp add: bindE_def)
  qed
qed

lemma by_steps_catch [step_intros]:
  assumes "by_steps m" "\<And>e. by_steps (h e)"
  shows "by_steps (catchE m h)"
  unfolding by_steps_def
proof
  fix s
  obtain r u where m: "m s = (r, u)" by force
  then have u: "gen_step\<^sup>*\<^sup>* s u" using assms(1) by (auto dest: by_stepsD)
  show "gen_step\<^sup>*\<^sup>* s (snd (catchE m h s))"
  proof (cases r)
    case (Inl e)
    have "gen_step\<^sup>*\<^sup>* u (snd (h e u))" using assms(2) by (simp add: by_steps_def)
    with u m Inl show ?thesis by (simp add: catchE_def)
  next
    case (Inr x)
    with m u show ?thesis by (simp add: catchE_def)
  qed
qed

lemma by_steps_basic [step_intros]:
  "by_steps (ret x)" "by_steps (raise e)" "by_steps (liftR r)" "by_steps (gets g)" "by_steps (ensure c e)"
  by (intro by_steps_keeps frame_intros)+

lemma by_steps_if [step_intros]: "(c \<Longrightarrow> by_steps m) \<Longrightarrow> (\<not> c \<Longrightarrow> by_steps n) \<Longrightarrow> by_steps (if c then m else n)"
  by simp

lemma by_steps_option [step_intros]:
  "(x = None \<Longrightarrow> by_steps m) \<Longrightarrow> (\<And>y. x = Some y \<Longrightarrow> by_steps (k y)) \<Longrightarrow>
   by_steps (case x of None \<Rightarrow> m | Some y \<Rightarrow> k y)"
  by (cases x) auto

lemma by_steps_prod [step_intros]:
  "(\<And>a b. x = (a, b) \<Longrightarrow> by_steps (k a b)) \<Longrightarrow> by_steps (case x of (a, b) \<Rightarrow> k a b)"
  by (cases x) auto

lemma by_steps_list [step_intros]:
  "(x = [] \<Longrightarrow> by_steps m) \<Longrightarrow> (\<And>y ys. x = y # ys \<Longrightarrow> by_steps (k y ys)) \<Longrightarrow>
   by_steps (case x of [] \<Rightarrow> m | y # ys \<Rightarrow> k y ys)"
  by (cases x) auto

lemma by_steps_sum [step_intros]:
  "(\<And>e. x = Inl e \<Longrightarrow> by_steps (f e)) \<Longrightarrow> (\<And>y. x = Inr y \<Longrightarrow> by_steps (k y)) \<Longrightarrow>
   by_steps (case x of Inl e \<Rightarrow> f e | Inr y \<Rightarrow> k y)"
  by (cases x) auto

lemma by_steps_mapE [step_intros]: "(\<And>x. by_steps (k x)) \<Longrightarrow> by_steps (mapE k xs)"
  by (induction xs) (auto intro: step_intros)

lemma by_steps_except [step_intros]: "by_steps m \<Longrightarrow> by_steps (except_exception m x)"
  unfolding except_exception_def by (intro step_intros)

lemma gen_step_seq: "gen_step s t \<Longrightarrow> gd_task_seq s \<le> gd_task_seq t"
  by (induction rule: gen_step.induct)
    (auto simp: mark_failed_if_non_terminal_def cancel_if_non_terminal_def mark_callback_sent_def update_if_status_def
      update_tasks_def bindE_def ret_def)

lemma gen_steps_seq: "gen_step\<^sup>*\<^sup>* s t \<Longrightarrow> gd_task_seq s \<le> gd_task_seq t"
  by (induction rule: rtranclp_induct) (auto dest: gen_step_seq)

lemma by_steps_transaction [step_intros]:
  assumes "by_steps m"
  shows "by_steps (gd_transaction m)"
  unfolding by_steps_def
proof
  fix s
  obtain r u where m: "m s = (r, u)" by force
  then have u: "gen_step\<^sup>*\<^sup>* s u" using assms by (auto dest: by_stepsD)
  show "gen_step\<^sup>*\<^sup>* s (snd (gd_transaction m s))"
  proof (cases r)
    case (Inl e)
    have "gen_step s (u\<lparr>gd_tasks := gd_tasks s, gd_assets := gd_assets s, gd_canvas := gd_canvas s\<rparr>)"
      using gen_steps_seq [OF u] by (intro elsewhere) simp_all
    with m Inl show ?thesis by (simp add: gd_transaction_def r_into_rtranclp)
  next
    case (Inr x)
    with m u show ?thesis by (simp add: gd_transaction_def)
  qed
qed

section \<open>The repository and the service take steps\<close>

lemma by_steps_one: "(\<And>s. gen_step s (snd (m s))) \<Longrightarrow> by_steps m"
  by (simp add: by_steps_def r_into_rtranclp)

lemma repository_steps [step_intros]:
  "by_steps (create_gen_task n)" "by_steps (mark_failed_if_non_terminal i message)"
  "by_steps (bind_union_task_queued i u)" "by_steps (cancel_if_non_terminal i)" "by_steps (soft_delete_task i)"
  "by_steps (mark_callback_sent i)" "by_steps (set_result_asset_ids i ids)" "by_steps (get_by_id_required i)"
  "by_steps (get_by_union_task_id u)" "by_steps (get_active_for_user i user)" "by_steps (get_by_ids_for_user is user)"
  "by_steps (list_by_query env q)"
proof -
  show g: "by_steps (get_by_id_required i)" unfolding get_by_id_required_def by (intro step_intros)
  show "by_steps (get_by_union_task_id u)" unfolding get_by_union_task_id_def by (intro step_intros)
  show "by_steps (get_active_for_user i user)" unfolding get_active_for_user_def by (intro step_intros)
  show "by_steps (get_by_ids_for_user is user)" unfolding get_by_ids_for_user_def by (intro step_intros)
  show "by_steps (list_by_query env q)" unfolding list_by_query_def by (intro step_intros)
  have now: "by_steps gd_now" by (intro by_steps_keeps frame_intros) simp
  show "by_steps (create_gen_task n)"
  proof -
    have "by_steps (\<lambda>s. bindE (gets gd_task_seq) (\<lambda>i. let r = task_of_new i t n in
       bindE (modify (\<lambda>s. s\<lparr>gd_tasks := gd_tasks s @ [r], gd_task_seq := i + 1\<rparr>)) (\<lambda>_. ret r)) s)" for t
      by (rule by_steps_one) (simp add: eff_simps Let_def gen_step.create)
    then show ?thesis unfolding create_gen_task_def by (rule by_steps_bind [OF now])
  qed
  show "by_steps (mark_failed_if_non_terminal i message)" by (rule by_steps_one) (rule fail)
  show "by_steps (cancel_if_non_terminal i)" by (rule by_steps_one) (rule cancelled)
  show "by_steps (mark_callback_sent i)" by (rule by_steps_one) (rule called_back)
  have q: "by_steps (update_tasks (\<lambda>r. gk_id r = i \<and> gk_status r = gts_value GTS_CREATED)
             (\<lambda>r. r\<lparr>gk_union := Some u, gk_status := gts_value GTS_QUEUED\<rparr>))"
    by (rule by_steps_one) (rule enqueue)
  have n: "by_steps (update_tasks (\<lambda>r. gk_id r = i) (\<lambda>r. r\<lparr>gk_union := Some u\<rparr>))"
    by (rule by_steps_one) (rule gen_step.name)
  show "by_steps (bind_union_task_queued i u)" unfolding bind_union_task_queued_def by (intro step_intros q n)
  have d: "by_steps (update_tasks (\<lambda>r. gk_id r = i \<and> gk_deleted r = None) (\<lambda>r. r\<lparr>gk_deleted := Some t\<rparr>))" for t
    by (rule by_steps_one) (rule delete)
  show "by_steps (soft_delete_task i)" unfolding soft_delete_task_def by (intro step_intros now d)
  have a: "by_steps (update_tasks (\<lambda>r. gk_id r = i) (\<lambda>r. r\<lparr>gk_result_assets := Some ids\<rparr>))"
    by (rule by_steps_one) (rule store_results)
  show "by_steps (set_result_asset_ids i ids)" unfolding set_result_asset_ids_def by (intro step_intros a g)
qed

lemma asset_steps [step_intros]:
  "by_steps (create_asset d)" "by_steps (get_active_by_ids_for_user ids user)"
  "by_steps (get_favorited_by_ids_for_user ids user)" "by_steps (list_favorited_for_user user)"
  "by_steps (set_favorite_for_user user ids b)" "by_steps (assets_to_gateway_materials user ids)"
  "by_steps (ask_world f)" "by_steps (on_cache h)" "by_steps (on_canvas c)" "by_steps (on_locks l)"
  "by_steps gd_uuid4_hex"
  by (intro by_steps_keeps frame_intros; simp)+

lemma ensure_result_assets_steps [step_intros]: "by_steps (ensure_result_assets r)"
  unfolding ensure_result_assets_def create_result_asset_def by (intro step_intros)

lemma apply_result_steps [step_intros]: "by_steps (apply_result r result sent)"
proof -
  have w: "by_steps (write_result r current result sent)" if "may_follow current (tm_status result)" for current
  proof -
    have "by_steps (update_if_status (gk_id r) current (write_terminal result sent))"
      by (rule by_steps_one) (rule move [OF that])
    then show ?thesis unfolding write_result_def by (intro step_intros)
  qed
  show ?thesis
    unfolding apply_result_def by (intro step_intros w) (auto simp: may_follow_def)
qed

lemma observation_steps [step_intros]:
  "by_steps (fetch_observations ids)" "by_steps (observe_non_terminal_tasks rows)"
proof -
  show f: "by_steps (fetch_observations ids)" for ids unfolding fetch_observations_def by (intro step_intros)
  have "by_steps (observe_one_non_terminal_task batch r)" for batch r
    unfolding observe_one_non_terminal_task_def apply_gateway_status_observation_def
      apply_gateway_terminal_observation_def
    by (intro step_intros)
  then show "by_steps (observe_non_terminal_tasks rows)"
    unfolding observe_non_terminal_tasks_def by (intro step_intros f)
qed

lemma reading_steps [step_intros]:
  "by_steps (load_reference_materials_by_task_id env rows user)" "by_steps (load_favorited_asset_ids rows user)"
  "by_steps (favorite_task_ids_for_user user)"
  unfolding load_reference_materials_by_task_id_def load_favorited_asset_ids_def favorite_task_ids_for_user_def Let_def
  by (intro step_intros)+

text \<open>Looking up capabilities touches the answers of the world, the clock, the cache and the service object only.\<close>

lemma capabilities_keep:
  assumes "\<And>s w. f (s\<lparr>gd_world := w\<rparr>) = f s" "\<And>s c. f (s\<lparr>gd_clock := c\<rparr>) = f s"
    "\<And>s h. f (s\<lparr>gd_cache := h\<rparr>) = f s" "\<And>s m n. f (s\<lparr>gd_caps := m, gd_caps_until := n\<rparr>) = f s"
  shows "keeps f (require_model_capabilities env m k)" "keeps f (list_models env k)"
proof -
  have k: "keeps f capabilities_fresh" "keeps f gateway_capability_map"
    "keeps f (install_capabilities_from_payload p)" "keeps f (payload_from_domain_map m t)" for p m t
    unfolding capabilities_fresh_def gateway_capability_map_def install_capabilities_from_payload_def
      payload_from_domain_map_def
    by (intro frame_intros; simp add: assms)+
  have st: "keeps f (store_capabilities_map env m)" for m
    unfolding store_capabilities_map_def by (intro frame_intros k) (simp add: assms)
  have re: "keeps f (refresh_capabilities_from_gateway env)"
    unfolding refresh_capabilities_from_gateway_def by (intro frame_intros k st)
  have rp: "keeps f (read_payload env)"
    unfolding read_payload_def fetch_capabilities_cache_payload_def by (intro frame_intros k) (simp add: assms)
  have en: "keeps f (ensure_capabilities env)"
    unfolding ensure_capabilities_def load_capabilities_from_shared_cache_def
    by (intro frame_intros k re rp) (simp add: assms)
  show "keeps f (require_model_capabilities env m k)"
    unfolding require_model_capabilities_def by (intro frame_intros en re)
  have cm: "keeps f (compute_model_list env k)"
    unfolding compute_model_list_def by (intro frame_intros k st)
  have rd: "keeps f (read_model_list_cache env x (compute_model_list env k))" for x
    unfolding read_model_list_cache_def
    by (auto simp: frame_intros cm assms split: sum.splits intro!: frame_intros)
  have "keeps f (attach_param_options env k js)" for js
    unfolding attach_param_options_def by (intro frame_intros en)
  then show "keeps f (list_models env k)"
    unfolding list_models_def by (intro frame_intros rd)
qed

lemma capability_steps [step_intros]:
  "by_steps (require_model_capabilities env m k)" "by_steps (list_models env k)"
  by (intro by_steps_keeps capabilities_keep; simp)+

lemma service_steps:
  "by_steps (submit env user req)" "by_steps (get_task_status env i user)" "by_steps (get_tasks_status env is user)"
  "by_steps (list_tasks env user lreq)" "by_steps (cancel i user)" "by_steps (toggle_favorite i user b)"
  "by_steps (delete_task i user)" "by_steps (handle_callback payload)"
proof -
  have ce: "by_steps (submit_error r e)" for r e
    unfolding submit_error_def by (cases e) (auto intro!: step_intros)
  have sg: "by_steps (submit_to_gateway env req materials voice)" for materials voice
    unfolding submit_to_gateway_def by (cases "sr_kind req") (auto intro!: step_intros)
  have pr: "by_steps (prepare_submit env user req)"
    unfolding prepare_submit_def check_node_free_def load_reference_materials_def Let_def by (intro step_intros)
  show "by_steps (submit env user req)"
    unfolding submit_def bind_node_def by (intro step_intros pr sg ce)
  show "by_steps (get_task_status env i user)"
    unfolding get_task_status_def observe_task_def assemble_task_view_def Let_def by (intro step_intros)
  show "by_steps (get_tasks_status env is user)"
    unfolding get_tasks_status_def Let_def by (intro step_intros)
  show "by_steps (list_tasks env user lreq)"
    unfolding list_tasks_def by (intro step_intros)
  show "by_steps (cancel i user)" unfolding cancel_def by (intro step_intros)
  show "by_steps (toggle_favorite i user b)" unfolding toggle_favorite_def Let_def by (intro step_intros)
  show "by_steps (delete_task i user)" unfolding delete_task_def by (intro step_intros)
  show "by_steps (handle_callback payload)" unfolding handle_callback_def by (intro step_intros)
qed

section \<open>How a row may change\<close>

definition row_evolves :: "gen_task \<Rightarrow> gen_task \<Rightarrow> bool" where
  "row_evolves r r' \<longleftrightarrow>
     r'\<lparr>gk_union := gk_union r, gk_status := gk_status r, gk_result_keys := gk_result_keys r,
        gk_result_assets := gk_result_assets r, gk_error := gk_error r, gk_callback_sent := gk_callback_sent r,
        gk_deleted := gk_deleted r\<rparr> = r
     \<and> gk_status r \<le> gk_status r'
     \<and> (terminal_status (gk_status r) \<longrightarrow>
          gk_status r' = gk_status r \<and> gk_result_keys r' = gk_result_keys r \<and> gk_error r' = gk_error r
          \<and> (gk_callback_sent r \<longrightarrow> gk_callback_sent r'))
     \<and> (gk_deleted r \<noteq> None \<longrightarrow> gk_deleted r' = gk_deleted r)"

text \<open>Identifiers are unique and come from the sequence; statuses are those of the enumeration.\<close>

definition gen_wf :: "gen_db \<Rightarrow> bool" where
  "gen_wf s \<longleftrightarrow> distinct (map gk_id (gd_tasks s))
     \<and> (\<forall>r \<in> set (gd_tasks s). gk_id r < gd_task_seq s \<and> 1 \<le> gk_status r \<and> gk_status r \<le> 7)"

definition table_evolves :: "gen_task list \<Rightarrow> gen_task list \<Rightarrow> bool" where
  "table_evolves rows rows' \<longleftrightarrow> (\<exists>old new. rows' = old @ new \<and> list_all2 row_evolves rows old)"

lemma row_evolves_refl [simp]: "row_evolves r r"
  by (simp add: row_evolves_def)

lemma row_evolves_id: "row_evolves r r' \<Longrightarrow> gk_id r' = gk_id r"
  unfolding row_evolves_def by (cases r; cases r') simp

lemma row_evolves_trans: "row_evolves a b \<Longrightarrow> row_evolves b c \<Longrightarrow> row_evolves a c"
  unfolding row_evolves_def by (cases a; cases b; cases c) auto

lemma table_evolves_refl [simp]: "table_evolves rows rows"
  unfolding table_evolves_def by (rule exI [of _ rows], rule exI [of _ "[]"]) (simp add: list_all2_refl)

lemma table_evolves_trans:
  assumes "table_evolves a b" "table_evolves b c"
  shows "table_evolves a c"
proof -
  obtain o1 n1 where b: "b = o1 @ n1" and ab: "list_all2 row_evolves a o1" using assms(1) by (auto simp: table_evolves_def)
  obtain o2 n2 where c: "c = o2 @ n2" and bc: "list_all2 row_evolves b o2" using assms(2) by (auto simp: table_evolves_def)
  from bc b obtain p q where o2: "o2 = p @ q" and p: "list_all2 row_evolves o1 p"
    by (auto simp: list_all2_append1)
  have "list_all2 row_evolves a p"
    using list_all2_trans [of row_evolves row_evolves row_evolves, OF row_evolves_trans ab p] .
  with c o2 show ?thesis unfolding table_evolves_def by (intro exI [of _ p] exI [of _ "q @ n2"]) simp
qed

lemma table_evolves_update:
  assumes "\<And>r. r \<in> set rows \<Longrightarrow> c r \<Longrightarrow> row_evolves r (f r)"
  shows "table_evolves rows (map (\<lambda>r. if c r then f r else r) rows)"
proof -
  have "list_all2 row_evolves rows (map (\<lambda>r. if c r then f r else r) rows)"
    using assms by (auto simp: list_all2_map2 intro!: list_all2I elim: in_set_zipE simp: set_zip)
  then show ?thesis unfolding table_evolves_def by (intro exI [of _ "map (\<lambda>r. if c r then f r else r) rows"] exI [of _ "[]"]) simp
qed

text \<open>An update of the rows of one identifier.\<close>

lemma update_tasks_table: "gd_tasks (snd (update_tasks c f s)) = map (\<lambda>r. if c r then f r else r) (gd_tasks s)"
  "gd_task_seq (snd (update_tasks c f s)) = gd_task_seq s"
  by (simp_all add: update_tasks_def)

lemma update_unit_table: "snd (bindE (update_tasks c f) (\<lambda>_. ret x) s) = snd (update_tasks c f s)"
  "snd (bindE (update_tasks c f) (\<lambda>n. ret (g n)) s) = snd (update_tasks c f s)"
  by (simp_all add: bindE_def update_tasks_def ret_def)

lemma write_terminal_status: "gk_status (write_terminal result sent r) = gts_value (tm_status result)"
  "gk_id (write_terminal result sent r) = gk_id r"
  by (simp_all add: write_terminal_def)

lemma open_status: "\<not> terminal_status n \<Longrightarrow> 1 \<le> n \<Longrightarrow> n \<le> 7 \<Longrightarrow> n \<le> 4"
  by (auto simp: terminal_status_def)

lemma may_follow_status:
  assumes "may_follow current new"
  shows "gts_value current \<le> gts_value new" "\<not> terminal_status (gts_value current)"
  using assms by (cases current; cases new; simp add: may_follow_def terminal_status_def)+

lemma gen_step_evolves:
  assumes "gen_step s t" "gen_wf s"
  shows "table_evolves (gd_tasks s) (gd_tasks t)"
  using assms
proof (induction rule: gen_step.induct)
  case (elsewhere t s)
  then show ?case by simp
next
  case (create s t n)
  show ?case unfolding table_evolves_def
    by (rule exI [of _ "gd_tasks s"], rule exI [of _ "[task_of_new (gd_task_seq s) t n]"]) (simp add: list_all2_refl)
next
  case (fail s i m)
  then show ?case unfolding mark_failed_if_non_terminal_def update_unit_table update_tasks_table
    by (intro table_evolves_update) (auto simp: row_evolves_def gen_wf_def dest: open_status)
next
  case (enqueue s i u)
  show ?case unfolding update_tasks_table
    by (intro table_evolves_update) (auto simp: row_evolves_def terminal_status_def)
next
  case (name s i u)
  show ?case unfolding update_tasks_table by (intro table_evolves_update) (auto simp: row_evolves_def)
next
  case (cancelled s i)
  then show ?case unfolding cancel_if_non_terminal_def update_unit_table update_tasks_table
    by (intro table_evolves_update) (auto simp: row_evolves_def gen_wf_def dest: open_status)
next
  case (delete s i t)
  show ?case unfolding update_tasks_table by (intro table_evolves_update) (auto simp: row_evolves_def)
next
  case (called_back s i)
  show ?case unfolding mark_callback_sent_def update_unit_table update_tasks_table
    by (intro table_evolves_update) (auto simp: row_evolves_def)
next
  case (store_results s i ids)
  show ?case unfolding update_tasks_table by (intro table_evolves_update) (auto simp: row_evolves_def)
next
  case (move current result s i sent)
  show ?case unfolding update_if_status_def update_tasks_table
    using may_follow_status [OF move(1)]
    by (intro table_evolves_update) (auto simp: row_evolves_def write_terminal_def)
qed

section \<open>Invariants\<close>

lemma gen_wf_update:
  assumes wf: "gen_wf s" and f: "\<And>r. gk_id (f r) = gk_id r"
    and st: "\<And>r. r \<in> set (gd_tasks s) \<Longrightarrow> c r \<Longrightarrow> 1 \<le> gk_status (f r) \<and> gk_status (f r) \<le> 7"
  shows "gen_wf (snd (update_tasks c f s))"
proof -
  have ids: "map gk_id (map (\<lambda>r. if c r then f r else r) (gd_tasks s)) = map gk_id (gd_tasks s)"
    using f by (simp add: comp_def if_distrib [where f = gk_id])
  show ?thesis
    unfolding gen_wf_def update_tasks_table ids
    using wf st f by (auto simp: gen_wf_def)
qed

lemma gen_step_wf: "gen_step s t \<Longrightarrow> gen_wf s \<Longrightarrow> gen_wf t"
proof (induction rule: gen_step.induct)
  case (elsewhere t s)
  then show ?case by (fastforce simp: gen_wf_def)
next
  case (create s t n)
  then show ?case by (auto simp: gen_wf_def task_of_new_def)
next
  case (fail s i m)
  then show ?case unfolding mark_failed_if_non_terminal_def update_unit_table by (rule gen_wf_update) simp_all
next
  case (enqueue s i u)
  then show ?case by (rule gen_wf_update) simp_all
next
  case (name s i u)
  then show ?case by (intro gen_wf_update) (auto simp: gen_wf_def)
next
  case (cancelled s i)
  then show ?case unfolding cancel_if_non_terminal_def update_unit_table by (rule gen_wf_update) simp_all
next
  case (delete s i t)
  then show ?case by (intro gen_wf_update) (auto simp: gen_wf_def)
next
  case (called_back s i)
  then show ?case unfolding mark_callback_sent_def update_unit_table by (intro gen_wf_update) (auto simp: gen_wf_def)
next
  case (store_results s i ids)
  then show ?case by (intro gen_wf_update) (auto simp: gen_wf_def)
next
  case (move current result s i sent)
  then show ?case unfolding update_if_status_def
    by (intro gen_wf_update) (simp_all add: write_terminal_status gts_value_range)
qed

lemma gen_steps_evolve:
  assumes "gen_step\<^sup>*\<^sup>* s t" "gen_wf s"
  shows "gen_wf t \<and> table_evolves (gd_tasks s) (gd_tasks t)"
  using assms
  by (induction rule: rtranclp_induct) (auto dest: gen_step_wf gen_step_evolves intro: table_evolves_trans)

definition task_by_key :: "int \<Rightarrow> gen_db \<Rightarrow> gen_task option" where
  "task_by_key i s = find (\<lambda>r. gk_id r = i) (gd_tasks s)"

lemma find_distinct:
  assumes "distinct (map f xs)" "x \<in> set xs"
  shows "find (\<lambda>y. f y = f x) xs = Some x"
  using assms by (induction xs) (auto simp: image_iff)

lemma gen_wf_find: "gen_wf s \<Longrightarrow> r \<in> set (gd_tasks s) \<Longrightarrow> task_by_key (gk_id r) s = Some r"
  unfolding task_by_key_def by (rule find_distinct) (simp_all add: gen_wf_def)

lemma task_by_keyD: "task_by_key i s = Some r \<Longrightarrow> r \<in> set (gd_tasks s) \<and> gk_id r = i"
  by (auto simp: task_by_key_def find_Some_iff)

lemma table_evolves_row:
  assumes "table_evolves rows rows'" "r \<in> set rows"
  shows "\<exists>r' \<in> set rows'. row_evolves r r'"
  using assms by (fastforce simp: table_evolves_def list_all2_conv_all_nth in_set_conv_nth)

section \<open>The outcome of a task is final\<close>

lemma steps_row:
  assumes "gen_step\<^sup>*\<^sup>* s t" "gen_wf s" "task_by_key i s = Some r"
  shows "\<exists>r'. task_by_key i t = Some r' \<and> row_evolves r r'"
proof -
  have t: "gen_wf t" "table_evolves (gd_tasks s) (gd_tasks t)" using gen_steps_evolve [OF assms(1,2)] by auto
  have r: "r \<in> set (gd_tasks s)" "gk_id r = i" using task_by_keyD [OF assms(3)] by auto
  obtain r' where r': "r' \<in> set (gd_tasks t)" "row_evolves r r'" using table_evolves_row [OF t(2) r(1)] by auto
  then show ?thesis using gen_wf_find [OF t(1) r'(1)] row_evolves_id [OF r'(2)] r(2) by auto
qed

text \<open>
  C13. However the statements of concurrent submissions, callbacks, polls, cancellations and deletions interleave, and
  however old the rows are that they act on: a task keeps what was submitted, its status never decreases, and
  once it has succeeded, failed or been cancelled its status, its results and its error never change again. A
  deleted task stays deleted.
\<close>

theorem task_outcome_is_final:
  assumes "gen_step\<^sup>*\<^sup>* s t" "gen_wf s" "task_by_key i s = Some r"
  shows "\<exists>r'. task_by_key i t = Some r' \<and> row_evolves r r'"
  using assms by (rule steps_row)

text \<open>The calls of the service, their answers left out.\<close>

datatype gen_call =
    CallSubmit int submit_request
  | CallStatus int int
  | CallStatuses "int list" int
  | CallList int list_request
  | CallCancel int int
  | CallFavorite int int bool
  | CallDelete int int
  | CallBack callback_payload
  | CallModels generation_kind

definition discard :: "('s, 'a) eff \<Rightarrow> ('s, unit) eff" where
  "discard m = bindE m (\<lambda>_. ret ())"

fun service_call :: "gen_env \<Rightarrow> gen_call \<Rightarrow> (gen_db, unit) eff" where
  "service_call env (CallSubmit user req) = discard (submit env user req)"
| "service_call env (CallStatus i user) = discard (get_task_status env i user)"
| "service_call env (CallStatuses is user) = discard (get_tasks_status env is user)"
| "service_call env (CallList user req) = discard (list_tasks env user req)"
| "service_call env (CallCancel i user) = cancel i user"
| "service_call env (CallFavorite i user b) = toggle_favorite i user b"
| "service_call env (CallDelete i user) = delete_task i user"
| "service_call env (CallBack payload) = discard (handle_callback payload)"
| "service_call env (CallModels kind) = discard (list_models env kind)"

text \<open>
  C14. Every operation of the service, a submission, a status query, a list, a cancellation, a favourite, a deletion
  or a callback, writes the table of tasks only by those steps, whatever the gateway answers and whether it
  returns or raises.
\<close>

theorem service_calls_take_steps: "gen_step\<^sup>*\<^sup>* s (snd (service_call env call s))"
proof -
  have d: "by_steps (discard m)" if "by_steps m" for m :: "(gen_db, 'a) eff"
    unfolding discard_def by (intro step_intros that)
  have "by_steps (service_call env call)"
    by (cases call) (simp_all add: service_steps capability_steps d)
  then show ?thesis by (simp add: by_steps_def)
qed

text \<open>A running task that is cancelled while a poll that still sees it running applies its success: the poll
  loses.\<close>

theorem task_outcome_is_final_witness:
  "\<exists>r'. task_by_key 1 (snd (apply_result (sample_task 1 GTS_RUNNING)
         \<lparr> tm_status = GTS_SUCCEEDED, tm_result_keys = Some [dump_result_item sample_result], tm_error = None \<rparr> True
         (snd (cancel_if_non_terminal 1 (sample_gen [sample_task 1 GTS_RUNNING] []))))) = Some r'
     \<and> row_evolves (sample_task 1 GTS_CANCELLED) r'"
proof -
  let ?s = "snd (cancel_if_non_terminal 1 (sample_gen [sample_task 1 GTS_RUNNING] []))"
  let ?r = "\<lparr> tm_status = GTS_SUCCEEDED, tm_result_keys = Some [dump_result_item sample_result], tm_error = None \<rparr>"
  have s: "?s = sample_gen [sample_task 1 GTS_CANCELLED] []"
    by (simp add: cancel_if_non_terminal_def update_unit_table update_tasks_def sample_gen_def sample_task_def
        terminal_status_def)
  have steps: "gen_step\<^sup>*\<^sup>* ?s (snd (apply_result (sample_task 1 GTS_RUNNING) ?r True ?s))"
    using apply_result_steps by (simp add: by_steps_def)
  have "gen_wf ?s" "task_by_key 1 ?s = Some (sample_task 1 GTS_CANCELLED)"
    unfolding s by (simp_all add: gen_wf_def task_by_key_def sample_gen_def sample_task_def)
  from task_outcome_is_final [OF steps this] show ?thesis .
qed

end
