(* ===== verification/Generation_Results.thy ===== *)
theory Generation_Results
  imports Generation_Lifecycle
begin

text \<open>
  What single operations of the generation service achieve: results become assets once, a callback is
  applied once, and a submission ends with a queued task, a failed one or none.
\<close>

section \<open>Creating an asset for a source\<close>

definition result_source :: "gen_task \<Rightarrow> string \<Rightarrow> gen_asset \<Rightarrow> bool" where
  "result_source r url a \<longleftrightarrow> ga_key a = url \<and> ga_source_type a = ''generate_result''
     \<and> ga_source_id a = Some (int_str (gk_id r)) \<and> live_asset (gk_user r) a"

lemma same_result_source: "same_source (result_asset_data r kind k item) = result_source r (ri_url item)"
  by (simp add: fun_eq_iff same_source_def result_source_def result_asset_data_def)

lemma given_int_str [simp]: "given (Some (int_str i))"
proof -
  have "nat_str n \<noteq> []" for n by (subst nat_str.simps) simp
  then show ?thesis by (simp add: given_def int_str_def)
qed

lemma find_app: "find P (xs @ ys) = (case find P xs of Some x \<Rightarrow> Some x | None \<Rightarrow> find P ys)"
  by (induction xs) simp_all

abbreviation sources :: "gen_task \<Rightarrow> string \<Rightarrow> gen_asset list \<Rightarrow> nat" where
  "sources r url assets \<equiv> length (filter (result_source r url) assets)"

text \<open>Identifiers for the results, and new assets only for results that had none.\<close>

definition results_made :: "gen_task \<Rightarrow> string list \<Rightarrow> gen_asset list \<Rightarrow> gen_asset list \<Rightarrow> int list \<Rightarrow> bool" where
  "results_made r urls assets new ids \<longleftrightarrow>
     list_all2 (\<lambda>u i. \<exists>a. find (result_source r u) (assets @ new) = Some a \<and> ga_id a = i) urls ids
     \<and> (\<forall>b \<in> set new. result_source r (ga_key b) b \<and> ga_key b \<in> set urls)
     \<and> (\<forall>u \<in> set urls. sources r u (assets @ new) = max 1 (sources r u assets))"

lemma create_result_asset_made:
  assumes "ri_url item \<noteq> []"
  shows "\<exists>i new n. create_result_asset r kind (k, dump_result_item item) s
           = (Inr i, s\<lparr>gd_assets := gd_assets s @ new, gd_asset_seq := n\<rparr>)
         \<and> results_made r [ri_url item] (gd_assets s) new [i]"
proof (cases "find (result_source r (ri_url item)) (gd_assets s)")
  case (Some a)
  have g: "given (ad_source_id (result_asset_data r kind k item))" by (simp add: result_asset_data_def)
  have "a \<in> set (filter (result_source r (ri_url item)) (gd_assets s))" using find_SomeD [OF Some] by simp
  then have n: "max (Suc 0) (sources r (ri_url item) (gd_assets s)) = sources r (ri_url item) (gd_assets s)"
    by (cases "filter (result_source r (ri_url item)) (gd_assets s)") auto
  have "create_result_asset r kind (k, dump_result_item item) s = (Inr (ga_id a), s)"
    by (simp add: create_result_asset_def validate_dump_result_item assms create_asset_def eff_simps bindE_assoc g
        same_result_source Some)
  moreover have "results_made r [ri_url item] (gd_assets s) [] [ga_id a]" using Some n by (simp add: results_made_def find_app)
  moreover have "s = s\<lparr>gd_assets := gd_assets s @ [], gd_asset_seq := gd_asset_seq s\<rparr>" by simp
  ultimately show ?thesis by metis
next
  case None
  let ?d = "result_asset_data r kind k item"
  have g: "given (ad_source_id ?d)" by (simp add: result_asset_data_def)
  obtain a where ins: "insert_asset ?d s = (Inr a, s\<lparr>gd_assets := gd_assets s @ [a], gd_asset_seq := gd_asset_seq s + 1\<rparr>)"
    and a: "result_source r (ri_url item) a" "ga_id a = gd_asset_seq s"
    by (simp add: insert_asset_def Let_def result_source_def result_asset_data_def live_asset_def)
  have none: "sources r (ri_url item) (gd_assets s) = 0" using None by (simp add: find_None_iff filter_empty_conv)
  have c: "create_asset ?d s = (Inr a, s\<lparr>gd_assets := gd_assets s @ [a], gd_asset_seq := gd_asset_seq s + 1\<rparr>)"
    by (simp add: create_asset_def bindE_def gets_def g same_result_source None ins)
  have "create_result_asset r kind (k, dump_result_item item) s
      = (Inr (ga_id a), s\<lparr>gd_assets := gd_assets s @ [a], gd_asset_seq := gd_asset_seq s + 1\<rparr>)"
    by (simp add: create_result_asset_def validate_dump_result_item assms bindE_def liftR_def ret_def c)
  moreover have "ga_key a = ri_url item" using a by (simp add: result_source_def)
  with None a none have "results_made r [ri_url item] (gd_assets s) [a] [ga_id a]"
    by (simp add: results_made_def find_app)
  ultimately show ?thesis by blast
qed

section \<open>Creating the assets of all results\<close>

lemma results_made_Cons:
  assumes one: "results_made r [u] assets new1 [i]" and rest: "results_made r us (assets @ new1) new2 ids"
  shows "results_made r (u # us) assets (new1 @ new2) (i # ids)"
proof -
  have f: "find (result_source r u) (assets @ new1 @ new2) = find (result_source r u) (assets @ new1)"
    using one by (auto simp: results_made_def find_app split: option.splits)
  have keys: "result_source r v b \<longleftrightarrow> v = ga_key b" if "b \<in> set new1 \<union> set new2" for v b
    using that one rest by (auto simp: results_made_def result_source_def)
  have n1: "sources r v new1 = 0" if "v \<noteq> u" for v
    using that one keys by (auto simp: results_made_def filter_empty_conv)
  have n2: "sources r u new2 = 0" if "u \<notin> set us"
    using that rest keys by (auto simp: results_made_def filter_empty_conv)
  have "sources r v (assets @ new1 @ new2) = max 1 (sources r v assets)" if "v \<in> set (u # us)" for v
  proof (cases "v \<in> set us")
    case True
    then have "sources r v ((assets @ new1) @ new2) = max 1 (sources r v (assets @ new1))"
      using rest by (auto simp: results_made_def)
    moreover have "max 1 (sources r v (assets @ new1)) = max 1 (sources r v assets)"
    proof (cases "v = u")
      case True
      with one show ?thesis by (simp add: results_made_def)
    next
      case False
      with n1 show ?thesis by simp
    qed
    ultimately show ?thesis by simp
  next
    case False
    with that have "v = u" by simp
    with one n2 False show ?thesis by (simp add: results_made_def)
  qed
  with one rest f show ?thesis by (auto simp: results_made_def)
qed

lemma create_results_made:
  assumes "\<forall>item \<in> set items. ri_url item \<noteq> []"
  shows "\<exists>ids new n. mapE (create_result_asset r kind) (enumerate k (map dump_result_item items)) s
           = (Inr ids, s\<lparr>gd_assets := gd_assets s @ new, gd_asset_seq := n\<rparr>)
         \<and> results_made r (map ri_url items) (gd_assets s) new ids"
  using assms
proof (induction items arbitrary: k s)
  case Nil
  show ?case
    by (rule exI [of _ "[]"], rule exI [of _ "[]"], rule exI [of _ "gd_asset_seq s"]) (simp add: ret_def results_made_def)
next
  case (Cons x items)
  obtain i new1 n1 where one: "create_result_asset r kind (k, dump_result_item x) s
        = (Inr i, s\<lparr>gd_assets := gd_assets s @ new1, gd_asset_seq := n1\<rparr>)"
    and m1: "results_made r [ri_url x] (gd_assets s) new1 [i]"
    using create_result_asset_made [of x r kind k s] Cons.prems by auto
  let ?s1 = "s\<lparr>gd_assets := gd_assets s @ new1, gd_asset_seq := n1\<rparr>"
  obtain ids new2 n2 where rest: "mapE (create_result_asset r kind) (enumerate (Suc k) (map dump_result_item items)) ?s1
        = (Inr ids, ?s1\<lparr>gd_assets := gd_assets ?s1 @ new2, gd_asset_seq := n2\<rparr>)"
    and m2: "results_made r (map ri_url items) (gd_assets ?s1) new2 ids"
    using Cons.IH [of "Suc k" ?s1] Cons.prems by auto
  have "mapE (create_result_asset r kind) (enumerate k (map dump_result_item (x # items))) s
      = (Inr (i # ids), s\<lparr>gd_assets := gd_assets s @ (new1 @ new2), gd_asset_seq := n2\<rparr>)"
    using rest by (simp add: bindE_def one ret_def)
  moreover have "results_made r (map ri_url (x # items)) (gd_assets s) (new1 @ new2) (i # ids)"
    using results_made_Cons [OF m1, of "map ri_url items" new2 ids] m2 by simp
  ultimately show ?case by blast
qed

lemma create_results_found:
  assumes "list_all2 (\<lambda>u i. \<exists>a. find (result_source r u) (gd_assets s) = Some a \<and> ga_id a = i) (map ri_url items) ids"
    "\<forall>item \<in> set items. ri_url item \<noteq> []"
  shows "mapE (create_result_asset r kind) (enumerate k (map dump_result_item items)) s = (Inr ids, s)"
  using assms
proof (induction items arbitrary: k ids)
  case Nil
  then show ?case by (simp add: ret_def)
next
  case (Cons x items)
  obtain a js where ids: "ids = ga_id a # js" and a: "find (result_source r (ri_url x)) (gd_assets s) = Some a"
    and rest: "list_all2 (\<lambda>u i. \<exists>a. find (result_source r u) (gd_assets s) = Some a \<and> ga_id a = i) (map ri_url items) js"
    using Cons.prems(1) by (auto simp: list_all2_Cons1)
  have g: "given (ad_source_id (result_asset_data r kind k x))" by (simp add: result_asset_data_def)
  have "create_result_asset r kind (k, dump_result_item x) s = (Inr (ga_id a), s)"
    using Cons.prems(2)
    by (simp add: create_result_asset_def validate_dump_result_item create_asset_def eff_simps bindE_assoc g
        same_result_source a)
  with Cons.IH [OF rest, of "Suc k"] Cons.prems(2) ids show ?case by (simp add: bindE_def ret_def)
qed

text \<open>Writing the identifiers into the row.\<close>

definition with_assets :: "int \<Rightarrow> int list \<Rightarrow> gen_task list \<Rightarrow> gen_task list" where
  "with_assets i ids rows = map (\<lambda>r. if gk_id r = i then r\<lparr>gk_result_assets := Some ids\<rparr> else r) rows"

lemma find_map_same:
  "(\<And>x. P (f x) = P x) \<Longrightarrow> find P (map f xs) = map_option f (find P xs)"
  by (induction xs) auto

lemma set_result_asset_ids_row:
  assumes "task_by_key i s = Some r"
  shows "set_result_asset_ids i ids s
    = (Inr (r\<lparr>gk_result_assets := Some ids\<rparr>), s\<lparr>gd_tasks := with_assets i ids (gd_tasks s)\<rparr>)"
proof -
  have "find (\<lambda>r. gk_id r = i) (with_assets i ids (gd_tasks s)) = Some (r\<lparr>gk_result_assets := Some ids\<rparr>)"
    unfolding with_assets_def using assms task_by_keyD [OF assms]
    by (subst find_map_same) (auto simp: task_by_key_def)
  then show ?thesis
    by (simp add: set_result_asset_ids_def update_tasks_def bindE_def get_by_id_required_def eff_simps with_assets_def)
qed

definition stored_results :: "gen_task \<Rightarrow> result_item list \<Rightarrow> bool" where
  "stored_results r items \<longleftrightarrow>
     gk_result_keys r = Some (map dump_result_item items) \<and> items \<noteq> [] \<and> (\<forall>item \<in> set items. ri_url item \<noteq> [])
     \<and> \<not> given (gk_result_assets r) \<and> (\<exists>kind. gk_kind r = generation_kind_value kind)"

lemma ensure_result_assets_run:
  assumes st: "stored_results r items" and row: "task_by_key (gk_id r) s = Some r0"
    and made: "mapE (create_result_asset r kind) (enumerate 0 (map dump_result_item items)) s
        = (Inr ids, s\<lparr>gd_assets := as, gd_asset_seq := n\<rparr>)"
    and kind: "gk_kind r = generation_kind_value kind" and ids: "length ids = length items"
  shows "ensure_result_assets r s
    = (Inr (r0\<lparr>gk_result_assets := Some ids\<rparr>),
       s\<lparr>gd_tasks := with_assets (gk_id r) ids (gd_tasks s), gd_assets := as, gd_asset_seq := n\<rparr>)"
proof -
  let ?t = "s\<lparr>gd_assets := as, gd_asset_seq := n\<rparr>"
  have g: "given (gk_result_keys r)" "\<not> given (gk_result_assets r)"
    "the (gk_result_keys r) = map dump_result_item items"
    using st by (auto simp: stored_results_def given_def)
  have ne: "ids \<noteq> []" using ids st by (auto simp: stored_results_def)
  have t: "task_by_key (gk_id r) ?t = Some r0" using row by (simp add: task_by_key_def)
  have k: "liftR (GenerationKind (gk_kind r)) s = (Inr kind, s)" by (simp add: kind eff_simps)
  show ?thesis
    unfolding ensure_result_assets_def using g ne set_result_asset_ids_row [OF t, of ids]
    by (simp add: bindE_def k made)
qed

text \<open>
  C15. Results become assets once. For a task with stored results and no assets yet, making sure of its assets
  returns the row with one identifier for each result, in order, each of a live asset of the task's user under
  the key of the result; every result has exactly one asset of this task where it had at most one before; no
  existing asset changes. Doing it again, even from the old row, changes nothing and gives the same identifiers.
\<close>

theorem result_assets_once:
  assumes "stored_results r items" "task_by_key (gk_id r) s = Some r0"
  shows "\<exists>ids new t. ensure_result_assets r s = (Inr (r0\<lparr>gk_result_assets := Some ids\<rparr>), t)
    \<and> gd_tasks t = with_assets (gk_id r) ids (gd_tasks s) \<and> gd_assets t = gd_assets s @ new
    \<and> list_all2 (\<lambda>item i. \<exists>a \<in> set (gd_assets t). ga_id a = i \<and> result_source r (ri_url item) a) items ids
    \<and> (\<forall>item \<in> set items. sources r (ri_url item) (gd_assets t) = max 1 (sources r (ri_url item) (gd_assets s)))
    \<and> ensure_result_assets r t = (Inr (r0\<lparr>gk_result_assets := Some ids\<rparr>), t)"
proof -
  obtain kind where kind: "gk_kind r = generation_kind_value kind" using assms(1) by (auto simp: stored_results_def)
  have urls: "\<forall>item \<in> set items. ri_url item \<noteq> []" using assms(1) by (simp add: stored_results_def)
  obtain ids new n where run: "mapE (create_result_asset r kind) (enumerate 0 (map dump_result_item items)) s
        = (Inr ids, s\<lparr>gd_assets := gd_assets s @ new, gd_asset_seq := n\<rparr>)"
    and made: "results_made r (map ri_url items) (gd_assets s) new ids"
    using create_results_made [OF urls] by blast
  have len: "length ids = length items" using made by (auto simp: results_made_def dest: list_all2_lengthD)
  let ?t = "s\<lparr>gd_tasks := with_assets (gk_id r) ids (gd_tasks s), gd_assets := gd_assets s @ new, gd_asset_seq := n\<rparr>"
  have first: "ensure_result_assets r s = (Inr (r0\<lparr>gk_result_assets := Some ids\<rparr>), ?t)"
    by (rule ensure_result_assets_run [OF assms run kind len])
  have found: "list_all2 (\<lambda>u i. \<exists>a. find (result_source r u) (gd_assets ?t) = Some a \<and> ga_id a = i) (map ri_url items) ids"
    using made by (simp add: results_made_def)
  have row: "task_by_key (gk_id r) ?t = Some (r0\<lparr>gk_result_assets := Some ids\<rparr>)"
    using assms(2) task_by_keyD [OF assms(2)] unfolding task_by_key_def with_assets_def
    by (simp add: find_map_same)
  have again: "ensure_result_assets r ?t = (Inr (r0\<lparr>gk_result_assets := Some ids\<rparr>), ?t)"
    using ensure_result_assets_run [OF assms(1) row _ kind len, where as = "gd_assets ?t" and n = "gd_asset_seq ?t"]
      create_results_found [OF found urls]
    by (simp add: with_assets_def comp_def if_distrib cong: if_cong)
  have owned: "list_all2 (\<lambda>item i. \<exists>a \<in> set (gd_assets ?t). ga_id a = i \<and> result_source r (ri_url item) a) items ids"
    using found unfolding list_all2_map1 by (rule list_all2_mono) (blast dest: find_SomeD)
  have cnt: "\<forall>item \<in> set items. sources r (ri_url item) (gd_assets ?t) = max 1 (sources r (ri_url item) (gd_assets s))"
    using made by (simp add: results_made_def)
  show ?thesis using first again owned cnt by (intro exI [of _ ids] exI [of _ new] exI [of _ ?t]) simp
qed

definition sample_stored :: gen_task where
  "sample_stored = (sample_task 1 GTS_SUCCEEDED)\<lparr>gk_result_keys := Some [dump_result_item sample_result]\<rparr>"

theorem result_assets_once_witness:
  "\<exists>ids new t. ensure_result_assets sample_stored (sample_gen [sample_stored] [])
      = (Inr (sample_stored\<lparr>gk_result_assets := Some ids\<rparr>), t)
    \<and> gd_tasks t = with_assets (gk_id sample_stored) ids (gd_tasks (sample_gen [sample_stored] []))
    \<and> gd_assets t = gd_assets (sample_gen [sample_stored] []) @ new
    \<and> list_all2 (\<lambda>item i. \<exists>a \<in> set (gd_assets t). ga_id a = i \<and> result_source sample_stored (ri_url item) a) [sample_result] ids
    \<and> sources sample_stored (ri_url sample_result) (gd_assets t)
          = max 1 (sources sample_stored (ri_url sample_result) (gd_assets (sample_gen [sample_stored] [])))
    \<and> ensure_result_assets sample_stored t = (Inr (sample_stored\<lparr>gk_result_assets := Some ids\<rparr>), t)"
proof -
  have "GenerationKind ''video'' = Inr GK_VIDEO" by (simp add: GenerationKind_def)
  then have "stored_results sample_stored [sample_result]"
    by (auto simp: stored_results_def sample_stored_def sample_task_def sample_result_def given_def
        intro: exI [of _ GK_VIDEO])
  moreover have "task_by_key (gk_id sample_stored) (sample_gen [sample_stored] []) = Some sample_stored"
    by (simp add: task_by_key_def sample_gen_def)
  ultimately show ?thesis using result_assets_once [of sample_stored "[sample_result]" "sample_gen [sample_stored] []"]
    by (simp only: list.set ball_simps simp_thms)
qed

section \<open>Applying a terminal result\<close>

definition write_row :: "int \<Rightarrow> (gen_task \<Rightarrow> gen_task) \<Rightarrow> gen_task list \<Rightarrow> gen_task list" where
  "write_row i f rows = map (\<lambda>r. if gk_id r = i then f r else r) rows"

lemma with_assets_row: "with_assets i ids = write_row i (\<lambda>r. r\<lparr>gk_result_assets := Some ids\<rparr>)"
  by (simp add: fun_eq_iff with_assets_def write_row_def)

lemma distinct_key: "distinct (map gk_id rows) \<Longrightarrow> r \<in> set rows \<Longrightarrow> x \<in> set rows \<Longrightarrow> gk_id x = gk_id r \<longleftrightarrow> x = r"
  by (auto simp: distinct_map inj_on_def)

lemma filter_single: "distinct xs \<Longrightarrow> x \<in> set xs \<Longrightarrow> filter (\<lambda>y. y = x) xs = [x]"
  by (induction xs) (auto simp: filter_empty_conv)

text \<open>An update of the single row of an identifier, which satisfies the further condition.\<close>

lemma update_single_row:
  assumes wf: "gen_wf s" and r: "r \<in> set (gd_tasks s)" and c: "c r" and id: "\<And>x. c x \<Longrightarrow> gk_id x = gk_id r"
  shows "update_tasks c f s = (Inr 1, s\<lparr>gd_tasks := write_row (gk_id r) f (gd_tasks s)\<rparr>)"
proof -
  have dist: "distinct (map gk_id (gd_tasks s))" using wf by (simp add: gen_wf_def)
  have c_iff: "c x \<longleftrightarrow> gk_id x = gk_id r" if "x \<in> set (gd_tasks s)" for x
  proof
    show "gk_id x = gk_id r" if "c x" using id [OF that] .
    show "c x" if "gk_id x = gk_id r" using distinct_key [OF dist r \<open>x \<in> set (gd_tasks s)\<close>] that c by metis
  qed
  have "filter c (gd_tasks s) = filter (\<lambda>x. x = r) (gd_tasks s)"
    using distinct_key [OF dist r] by (intro filter_cong) (simp_all add: c_iff)
  also have "\<dots> = [r]" using dist r by (intro filter_single) (simp_all add: distinct_map)
  finally have one: "filter c (gd_tasks s) = [r]" .
  have "map (\<lambda>x. if c x then f x else x) (gd_tasks s) = write_row (gk_id r) f (gd_tasks s)"
    unfolding write_row_def by (rule map_cong) (simp_all add: c_iff)
  then show ?thesis unfolding update_tasks_def one by simp
qed

lemma write_row_find:
  assumes "gen_wf s" "r \<in> set (gd_tasks s)" "\<And>x. gk_id (f x) = gk_id x"
  shows "get_by_id_required (gk_id r) (s\<lparr>gd_tasks := write_row (gk_id r) f (gd_tasks s)\<rparr>)
    = (Inr (f r), s\<lparr>gd_tasks := write_row (gk_id r) f (gd_tasks s)\<rparr>)"
proof -
  have "find (\<lambda>x. gk_id x = gk_id r) (gd_tasks s) = Some r"
    using gen_wf_find [OF assms(1,2)] by (simp add: task_by_key_def)
  then have "find (\<lambda>x. gk_id x = gk_id r) (write_row (gk_id r) f (gd_tasks s)) = Some (f r)"
    unfolding write_row_def by (subst find_map_same) (auto simp: assms(3))
  then show ?thesis by (simp add: get_by_id_required_def bindE_def eff_simps)
qed

lemma write_result_run:
  assumes wf: "gen_wf s" and r: "r \<in> set (gd_tasks s)" "gk_status r = gts_value current" "gk_deleted r = None"
  shows "write_result r current result sent s =
    bindE (if tm_status result = GTS_SUCCEEDED then ensure_result_assets (write_terminal result sent r)
           else ret (write_terminal result sent r)) (\<lambda>final. ret (final, True))
      (s\<lparr>gd_tasks := write_row (gk_id r) (write_terminal result sent) (gd_tasks s)\<rparr>)"
proof -
  have "update_if_status (gk_id r) current (write_terminal result sent) s
      = (Inr 1, s\<lparr>gd_tasks := write_row (gk_id r) (write_terminal result sent) (gd_tasks s)\<rparr>)"
    unfolding update_if_status_def using r by (intro update_single_row [OF wf]) simp_all
  then show ?thesis
    unfolding write_result_def
    by (simp add: bindE_def write_row_find [OF wf r(1)] write_terminal_status)
qed

text \<open>What is left of a task when a terminal result was applied: the row with the result, and perhaps its assets.\<close>

lemma ensure_result_assets_row:
  assumes "ensure_result_assets r s = (Inr r', t)" "task_by_key (gk_id r) s = Some r"
  shows "(r' = r \<and> gd_tasks t = gd_tasks s)
    \<or> (\<exists>ids. r' = r\<lparr>gk_result_assets := Some ids\<rparr> \<and> gd_tasks t = with_assets (gk_id r) ids (gd_tasks s))"
proof (cases "given (gk_result_keys r) \<and> \<not> given (gk_result_assets r)")
  case False
  then have "ensure_result_assets r = ret r"
    by (cases "given (gk_result_keys r)") (simp_all add: ensure_result_assets_def)
  with assms(1) show ?thesis by (simp add: ret_def)
next
  case True
  then have given: "given (gk_result_keys r)" "\<not> given (gk_result_assets r)" by simp_all
  have "bindE (liftR (GenerationKind (gk_kind r))) (\<lambda>kind.
      bindE (mapE (create_result_asset r kind) (enumerate 0 (the (gk_result_keys r)))) (\<lambda>ids.
      if ids \<noteq> [] then set_result_asset_ids (gk_id r) ids else ret r)) s = (Inr r', t)"
    using assms(1) unfolding ensure_result_assets_def by (simp only: given simp_thms if_False)
  then obtain kind where "bindE (mapE (create_result_asset r kind) (enumerate 0 (the (gk_result_keys r)))) (\<lambda>ids.
      if ids \<noteq> [] then set_result_asset_ids (gk_id r) ids else ret r) s = (Inr r', t)"
    unfolding bindE_eq_Inr [where m = "liftR (GenerationKind (gk_kind r))"] liftR_def by blast
  then obtain ids u where run: "mapE (create_result_asset r kind) (enumerate 0 (the (gk_result_keys r))) s = (Inr ids, u)"
    and set_ids: "(if ids \<noteq> [] then set_result_asset_ids (gk_id r) ids else ret r) u = (Inr r', t)"
    unfolding bindE_eq_Inr by blast
  have k: "keeps task_part (mapE (create_result_asset r kind) (enumerate 0 (the (gk_result_keys r))))"
    unfolding create_result_asset_def by (intro frame_intros)
  have "task_part u = task_part s" using k run by (metis keeps_def snd_conv)
  then have u: "gd_tasks u = gd_tasks s" by (simp add: task_part_def)
  show ?thesis
  proof (cases "ids = []")
    case True
    with set_ids u show ?thesis by (simp add: ret_def)
  next
    case False
    have "task_by_key (gk_id r) u = Some r" using assms(2) u by (simp add: task_by_key_def)
    with set_ids False have "r' = r\<lparr>gk_result_assets := Some ids\<rparr>" "t = u\<lparr>gd_tasks := with_assets (gk_id r) ids (gd_tasks u)\<rparr>"
      by (simp_all add: set_result_asset_ids_row)
    with u show ?thesis by auto
  qed
qed

lemma write_row_union:
  assumes "\<And>x. gk_union (f x) = gk_union x" "filter (\<lambda>x. gk_union x = Some u) rows = [r]" "gk_id r = i"
  shows "filter (\<lambda>x. gk_union x = Some u) (write_row i f rows) = [f r]"
proof -
  have "filter (\<lambda>x. gk_union x = Some u) (write_row i f rows)
      = map (\<lambda>x. if gk_id x = i then f x else x) (filter (\<lambda>x. gk_union x = Some u) rows)"
    unfolding write_row_def using assms(1) by (induction rows) auto
  with assms show ?thesis by simp
qed

text \<open>The state after a terminal result was applied to the only row of a union task.\<close>

lemma apply_terminal_result:
  assumes wf: "gen_wf s" and row: "filter (\<lambda>x. gk_union x = Some u) (gd_tasks s) = [r]" "gk_deleted r = None"
    and fin: "gts_is_terminal (tm_status result)" and run: "apply_result r result True s = (Inr (r', True), t)"
  shows "filter (\<lambda>x. gk_union x = Some u) (gd_tasks t) = [r'] \<and> gk_callback_sent r' \<and> gk_deleted r' = None
    \<and> gk_status r' = gts_value (tm_status result)"
proof -
  have r: "r \<in> set (gd_tasks s)" using row(1) by (metis filter_is_subset list.set_intros(1) subsetD)
  obtain current where st: "gk_status r = gts_value current" "\<not> gts_is_terminal current"
    and w: "write_result r current result True s = (Inr (r', True), t)"
    using run unfolding apply_result_def bindE_eq_Inr liftR_def
    by (auto simp: GatewayTaskStatus_Inr ret_def transaction_eq_Inr gd_transaction_def fin split: if_splits prod.splits sum.splits)
  define f where "f = write_terminal result True"
  define s1 where "s1 = s\<lparr>gd_tasks := write_row (gk_id r) f (gd_tasks s)\<rparr>"
  have f: "gk_id (f x) = gk_id x" "gk_union (f x) = gk_union x" for x by (simp_all add: f_def write_terminal_def)
  have ens: "(if tm_status result = GTS_SUCCEEDED then ensure_result_assets (f r) else ret (f r)) s1 = (Inr r', t)"
    using w unfolding write_result_run [OF wf r st(1) row(2)] f_def [symmetric] s1_def [symmetric] bindE_eq_Inr
    by (auto simp: ret_def)
  have key: "task_by_key (gk_id (f r)) s1 = Some (f r)"
    using gen_wf_find [OF wf r] f unfolding task_by_key_def s1_def write_row_def by (simp add: find_map_same)
  have u1: "filter (\<lambda>x. gk_union x = Some u) (gd_tasks s1) = [f r]"
    unfolding s1_def using write_row_union [of f, OF f(2) row(1) refl] by simp
  have "r' = f r \<and> gd_tasks t = gd_tasks s1
      \<or> (\<exists>ids. r' = (f r)\<lparr>gk_result_assets := Some ids\<rparr> \<and> gd_tasks t = with_assets (gk_id (f r)) ids (gd_tasks s1))"
  proof (cases "tm_status result = GTS_SUCCEEDED")
    case True
    with ens ensure_result_assets_row [OF _ key] show ?thesis by simp
  next
    case False
    with ens show ?thesis by (simp add: ret_def)
  qed
  moreover have "gk_callback_sent (f r)" "gk_deleted (f r) = None" "gk_status (f r) = gts_value (tm_status result)"
    using row(2) by (simp_all add: f_def write_terminal_def)
  moreover have "filter (\<lambda>x. gk_union x = Some u) (with_assets (gk_id (f r)) ids (gd_tasks s1))
      = [(f r)\<lparr>gk_result_assets := Some ids\<rparr>]" for ids
    unfolding with_assets_row using u1 by (intro write_row_union) simp_all
  ultimately show ?thesis using u1 by auto
qed

text \<open>
  C16. A final callback is applied once. When the callback of a gateway task was accepted with a final result,
  the task has that status, and every later callback of the same gateway task, whatever it says, is answered as
  not applied and changes nothing at all.
\<close>

theorem final_callback_applies_once:
  assumes "gen_wf s" "handle_callback p s = (Inr (r', True), t)"
    and "normalized_result (cb_data p) = Inr result" "gts_is_terminal (tm_status result)"
    and "cb_task q = cb_task p"
  shows "gk_status r' = gts_value (tm_status result) \<and> handle_callback q t = (Inr (r', False), t)"
proof -
  let ?u = "cb_task p"
  obtain r where row: "filter (\<lambda>x. gk_union x = Some ?u) (gd_tasks s) = [r]" "gk_deleted r = None"
    and run: "apply_result r result True s = (Inr (r', True), t)"
    using assms(2)
    by (auto simp: handle_callback_def bindE_eq_Inr get_by_union_task_id_def eff_simps assms(3)
        split: list.splits option.splits if_splits prod.splits)
  note after = apply_terminal_result [OF assms(1) row assms(4) run]
  then have "handle_callback q t = (Inr (r', False), t)"
    using assms(4) by (simp add: handle_callback_def get_by_union_task_id_def bindE_def eff_simps assms(5))
  with after show ?thesis by simp
qed

lemma sample_normalized: "normalized_result sample_done = Inr \<lparr> tm_status = GTS_SUCCEEDED,
    tm_result_keys = Some [dump_result_item sample_result], tm_error = Some [] \<rparr>"
proof -
  have "resolve_gateway_failure_message None None = []" by (simp add: resolve_gateway_failure_message_empty strip_Nil)
  then show ?thesis
    by (simp add: normalized_result_def sample_done_def normalize_gateway_terminal_def GatewayTaskStatus_def given_def)
qed

theorem final_callback_applies_once_witness:
  "\<exists>r' t. handle_callback (sample_callback 1) (sample_gen [sample_task 1 GTS_RUNNING] []) = (Inr (r', True), t)
     \<and> gk_status r' = 5 \<and> handle_callback (sample_callback 1) t = (Inr (r', False), t)"
proof -
  let ?s = "sample_gen [sample_task 1 GTS_RUNNING] []"
  have wf: "gen_wf ?s" by (simp add: gen_wf_def sample_gen_def sample_task_def)
  have kind: "GenerationKind ''video'' = Inr GK_VIDEO" by (simp add: GenerationKind_def)
  have url: "ri_url sample_result \<noteq> []" by (simp add: sample_result_def)
  have first: "\<exists>r' t. handle_callback (sample_callback 1) ?s = (Inr (r', True), t)"
    by (simp add: handle_callback_def sample_callback_def get_by_union_task_id_def bindE_def eff_simps sample_gen_def
        sample_task_def sample_normalized apply_result_def GatewayTaskStatus_def gd_transaction_def write_result_def
        update_if_status_def update_tasks_def get_by_id_required_def write_terminal_def ensure_result_assets_def given_def
        kind create_result_asset_def validate_dump_result_item [OF url] create_asset_def insert_asset_def Let_def
        set_result_asset_ids_def)
  then obtain r' t where f: "handle_callback (sample_callback 1) ?s = (Inr (r', True), t)" by blast
  from final_callback_applies_once [OF wf f, of _ "sample_callback 1"]
  show ?thesis using f by (auto simp: sample_callback_def sample_normalized)
qed

end
