(* ===== verification/Generation_Submission.thy ===== *)
theory Generation_Submission
  imports Generation_Results
begin

text \<open>
  Submissions: how one ends, and which materials it may send to the gateway.
\<close>

section \<open>What preparing and calling the gateway leave alone\<close>

definition rows_part :: "gen_db \<Rightarrow> (gen_task list \<times> int) \<times> gen_asset list \<times> int" where
  "rows_part s = (task_part s, gd_assets s, gd_asset_seq s)"

lemma rows_part_other [simp]:
  "rows_part (s\<lparr>gd_world := w\<rparr>) = rows_part s" "rows_part (s\<lparr>gd_clock := c\<rparr>) = rows_part s"
  "rows_part (s\<lparr>gd_uuids := u\<rparr>) = rows_part s" "rows_part (s\<lparr>gd_cache := h\<rparr>) = rows_part s"
  "rows_part (s\<lparr>gd_canvas := v\<rparr>) = rows_part s" "rows_part (s\<lparr>gd_locks := l\<rparr>) = rows_part s"
  "rows_part (s\<lparr>gd_caps := m, gd_caps_until := n\<rparr>) = rows_part s"
  by (simp_all add: rows_part_def)

lemma rows_part_eq: "rows_part t = rows_part s \<longleftrightarrow> gd_tasks t = gd_tasks s \<and> gd_task_seq t = gd_task_seq s
    \<and> gd_assets t = gd_assets s \<and> gd_asset_seq t = gd_asset_seq s"
  by (auto simp: rows_part_def task_part_def)

lemma keeps_same: "keeps f m \<Longrightarrow> m s = (r, t) \<Longrightarrow> f t = f s"
  by (metis keeps_def snd_conv)

lemma material_keeps [frame_intros]:
  "keeps rows_part (assets_to_gateway_materials user ids)" "keeps rows_part (load_reference_materials user req caps)"
proof -
  show a: "keeps rows_part (assets_to_gateway_materials user ids)" for ids
    unfolding assets_to_gateway_materials_def get_owned_assets_def by (intro frame_intros)
  show "keeps rows_part (load_reference_materials user req caps)"
    unfolding load_reference_materials_def Let_def by (intro frame_intros a)
qed

lemma prepare_keeps: "keeps rows_part (prepare_submit env user req)"
  unfolding prepare_submit_def check_node_free_def by (intro frame_intros capabilities_keep; simp)

lemma gateway_keeps: "keeps rows_part (submit_to_gateway env req materials voice)"
  unfolding submit_to_gateway_def
  by (cases "sr_kind req"; simp only: generation_kind.case; intro frame_intros; simp)

lemma bind_node_keeps: "keeps rows_part (bind_node env user req i)"
  unfolding bind_node_def by (intro frame_intros) simp

section \<open>The outcome of a submission\<close>

text \<open>The row after the gateway has answered, and what the caller is told when it refuses.\<close>

definition submitted_row :: "int res \<Rightarrow> gen_task \<Rightarrow> gen_task" where
  "submitted_row answer r =
     (case answer of
        Inr u \<Rightarrow> r\<lparr>gk_union := Some u, gk_status := gts_value GTS_QUEUED\<rparr>
      | Inl (AppError c m) \<Rightarrow> r\<lparr>gk_status := gts_value GTS_FAILED, gk_error := Some m\<rparr>
      | Inl CancelledError \<Rightarrow> r
      | Inl _ \<Rightarrow> r\<lparr>gk_status := gts_value GTS_FAILED, gk_error := Some msg_upstream_unavailable\<rparr>)"

definition submit_failure :: "exc \<Rightarrow> exc" where
  "submit_failure e =
     (if is_app_error e \<or> e = CancelledError then e else AppError ''GATEWAY_SUBMIT_ERROR'' msg_submit_failed)"

lemma write_row_last:
  assumes "\<forall>r \<in> set rows. gk_id r < gk_id x"
  shows "write_row (gk_id x) f (rows @ [x]) = rows @ [f x]"
proof -
  have "map (\<lambda>r. if gk_id r = gk_id x then f r else r) rows = map (\<lambda>r. r) rows"
    using assms by (intro map_cong) auto
  then show ?thesis by (simp add: write_row_def)
qed

lemma mark_failed_row:
  assumes "gen_wf s" "gd_tasks s = rows @ [r]" "\<not> terminal_status (gk_status r)"
    and "\<forall>x \<in> set rows. gk_id x < gk_id r"
  shows "mark_failed_if_non_terminal (gk_id r) m s
    = (Inr (), s\<lparr>gd_tasks := rows @ [r\<lparr>gk_status := gts_value GTS_FAILED, gk_error := Some m\<rparr>]\<rparr>)"
proof -
  have "update_tasks (\<lambda>x. gk_id x = gk_id r \<and> \<not> terminal_status (gk_status x))
          (\<lambda>r. r\<lparr>gk_status := gts_value GTS_FAILED, gk_error := Some m\<rparr>) s
      = (Inr 1, s\<lparr>gd_tasks := write_row (gk_id r) (\<lambda>r. r\<lparr>gk_status := gts_value GTS_FAILED, gk_error := Some m\<rparr>) (gd_tasks s)\<rparr>)"
    using assms by (intro update_single_row) simp_all
  then show ?thesis
    using write_row_last [OF assms(4)] by (simp add: mark_failed_if_non_terminal_def bindE_def ret_def assms(2))
qed

lemma submit_error_row:
  assumes "gen_wf s" "gd_tasks s = rows @ [r]" "\<not> terminal_status (gk_status r)"
    and "\<forall>x \<in> set rows. gk_id x < gk_id r"
  shows "submit_error r e s = (Inl (submit_failure e), s\<lparr>gd_tasks := rows @ [submitted_row (Inl e) r]\<rparr>)"
proof -
  have "s = s\<lparr>gd_tasks := rows @ [r]\<rparr>" using assms(2) by simp
  then show ?thesis
    using mark_failed_row [OF assms]
    by (cases e) (simp_all add: submit_error_def submitted_row_def submit_failure_def bindE_def raise_def)
qed

lemma bind_union_row:
  assumes "gen_wf s" "gd_tasks s = rows @ [r]" "gk_status r = gts_value GTS_CREATED"
    and "\<forall>x \<in> set rows. gk_id x < gk_id r"
  shows "bind_union_task_queued (gk_id r) u s = (Inr True, s\<lparr>gd_tasks := rows @ [submitted_row (Inr u) r]\<rparr>)"
proof -
  let ?f = "\<lambda>r. r\<lparr>gk_union := Some u, gk_status := gts_value GTS_QUEUED\<rparr>"
  have "update_tasks (\<lambda>x. gk_id x = gk_id r \<and> gk_status x = gts_value GTS_CREATED) ?f s
      = (Inr 1, s\<lparr>gd_tasks := write_row (gk_id r) ?f (gd_tasks s)\<rparr>)"
    using assms by (intro update_single_row) simp_all
  then show ?thesis
    using write_row_last [OF assms(4)]
    by (simp add: bind_union_task_queued_def bindE_def ret_def assms(2) submitted_row_def)
qed

lemma create_gen_task_run:
  "create_gen_task n s = (let r = task_of_new (gd_task_seq s) (gd_clock s 0) n in
     (Inr r, s\<lparr>gd_clock := (\<lambda>k. gd_clock s (Suc k)), gd_tasks := gd_tasks s @ [r], gd_task_seq := gd_task_seq s + 1\<rparr>))"
  by (simp add: create_gen_task_def gd_now_def bindE_def eff_simps Let_def)

text \<open>What follows the creation of the row, once the row is the last of the table.\<close>

definition finish_submit :: "gen_env \<Rightarrow> int \<Rightarrow> submit_request \<Rightarrow> gateway_material list \<Rightarrow> string option \<Rightarrow> gen_task
   \<Rightarrow> (gen_db, int \<times> gateway_task_status) eff" where
  "finish_submit env user req materials voice r =
     bindE (catchE (submit_to_gateway env req materials voice) (submit_error r)) (\<lambda>u.
     bindE (bind_union_task_queued (gk_id r) u) (\<lambda>_.
     bindE (get_by_id_required (gk_id r)) (\<lambda>r'.
     bindE (bind_node env user req (gk_id r')) (\<lambda>_.
     bindE (liftR (case GatewayTaskStatus (gk_status r') of
              Inr st \<Rightarrow> Inr st | Inl _ \<Rightarrow> Inl (ValidationError ''GenerateTaskSubmitResponse''))) (\<lambda>st.
     ret (gk_id r', st))))))"

lemma finish_submit_outcome:
  assumes wf: "gen_wf s" and rows: "gd_tasks s = rows @ [r]" "gk_status r = gts_value GTS_CREATED"
    and below: "\<forall>x \<in> set rows. gk_id x < gk_id r"
    and run: "finish_submit env user req materials voice r s = (res, t)"
  defines "answer \<equiv> fst (submit_to_gateway env req materials voice s)"
  shows "gd_tasks t = rows @ [submitted_row answer r] \<and> gd_assets t = gd_assets s
    \<and> (case answer of
         Inl e \<Rightarrow> res = Inl (submit_failure e)
       | Inr u \<Rightarrow> res = Inr (gk_id r, GTS_QUEUED) \<or> bound_node req \<noteq> None \<and> (\<exists>e. res = Inl e))"
proof -
  obtain s1 where call: "submit_to_gateway env req materials voice s = (answer, s1)"
    unfolding answer_def by (metis prod.collapse)
  have s1: "rows_part s1 = rows_part s" using keeps_same [OF gateway_keeps call] .
  then have t1: "gd_tasks s1 = rows @ [r]" "gd_assets s1 = gd_assets s" using rows by (simp_all add: rows_part_eq)
  have wf1: "gen_wf s1" using wf s1 by (simp add: gen_wf_def rows_part_eq)
  have open_row: "\<not> terminal_status (gk_status r)" using rows(2) by (simp add: terminal_status_def)
  show ?thesis
  proof (cases answer)
    case (Inl e)
    have "finish_submit env user req materials voice r s
        = (Inl (submit_failure e), s1\<lparr>gd_tasks := rows @ [submitted_row (Inl e) r]\<rparr>)"
      unfolding finish_submit_def
      by (simp add: bindE_def catchE_def call Inl submit_error_row [OF wf1 t1(1) open_row below])
    with run t1 Inl show ?thesis by auto
  next
    case (Inr u)
    let ?r = "submitted_row (Inr u) r"
    define s2 where "s2 = s1\<lparr>gd_tasks := rows @ [?r]\<rparr>"
    have r: "gk_id ?r = gk_id r" "gk_status ?r = gts_value GTS_QUEUED" by (simp_all add: submitted_row_def)
    have bound: "bind_union_task_queued (gk_id r) u s1 = (Inr True, s2)"
      unfolding s2_def by (rule bind_union_row [OF wf1 t1(1) rows(2) below])
    have none: "find (\<lambda>x. gk_id x = gk_id r) rows = None" using below by (auto simp: find_None_iff)
    have get: "get_by_id_required (gk_id r) s2 = (Inr ?r, s2)"
      by (simp add: get_by_id_required_def bindE_def eff_simps s2_def find_app none r)
    obtain b s3 where node: "bind_node env user req (gk_id r) s2 = (b, s3)" by force
    have s3: "gd_tasks s3 = rows @ [?r]" "gd_assets s3 = gd_assets s"
      using keeps_same [OF bind_node_keeps node] t1 by (simp_all add: rows_part_eq s2_def)
    have unbound: "b = Inr ()" if "bound_node req = None" using node that by (simp add: bind_node_def ret_def)
    have "finish_submit env user req materials voice r s
        = (case b of Inl e \<Rightarrow> (Inl e, s3) | Inr _ \<Rightarrow> (Inr (gk_id r, GTS_QUEUED), s3))"
      unfolding finish_submit_def
      by (simp add: bindE_def catchE_def call Inr bound get r node GatewayTaskStatus_def liftR_def ret_def split: sum.splits)
    with run s3 Inr unbound show ?thesis by (cases b; cases "bound_node req") auto
  qed
qed

text \<open>
  C17. How a submission ends. Either a check refuses it before anything is stored, and no task and no asset
  changes; or exactly one task is added, with the next identifier and the submitted data: queued under the
  gateway's identifier when the gateway accepts (the answer is that task, unless binding it to the canvas node
  fails), failed with the gateway's message when it refuses, failed as unavailable when the call breaks, and
  just created when the request is cancelled meanwhile.
\<close>

theorem submit_outcome:
  assumes "gen_wf s" "submit env user req s = (res, t)"
  shows "case prepare_submit env user req s of
      (Inl e, _) \<Rightarrow> res = Inl e \<and> gd_tasks t = gd_tasks s \<and> gd_assets t = gd_assets s
    | (Inr (materials, voice, mode), s1) \<Rightarrow>
        (\<exists>now. let r = task_of_new (gd_task_seq s) now (new_task_of user req voice mode);
           answer = fst (submit_to_gateway env req materials voice (snd (create_gen_task (new_task_of user req voice mode) s1)))
         in gd_tasks t = gd_tasks s @ [submitted_row answer r] \<and> gd_assets t = gd_assets s
          \<and> (case answer of
               Inl e \<Rightarrow> res = Inl (submit_failure e)
             | Inr u \<Rightarrow> res = Inr (gd_task_seq s, GTS_QUEUED) \<or> bound_node req \<noteq> None \<and> (\<exists>e. res = Inl e)))"
proof -
  obtain p s1 where prep: "prepare_submit env user req s = (p, s1)" by force
  have s1: "gd_tasks s1 = gd_tasks s" "gd_task_seq s1 = gd_task_seq s" "gd_assets s1 = gd_assets s"
    using keeps_same [OF prepare_keeps prep] by (simp_all add: rows_part_eq)
  show ?thesis
  proof (cases p)
    case (Inl e)
    with assms(2) prep s1 show ?thesis by (auto simp: submit_def bindE_def)
  next
    case (Inr x)
    obtain materials voice mode where x: "x = (materials, voice, mode)" by (cases x) auto
    define r where "r = task_of_new (gd_task_seq s) (gd_clock s1 0) (new_task_of user req voice mode)"
    obtain s2 where s2: "create_gen_task (new_task_of user req voice mode) s1 = (Inr r, s2)"
      and t2: "gd_tasks s2 = gd_tasks s @ [r]" "gd_assets s2 = gd_assets s" "gd_task_seq s2 = gd_task_seq s + 1"
      by (simp add: create_gen_task_run Let_def r_def s1)
    have id: "gk_id r = gd_task_seq s" "gk_status r = gts_value GTS_CREATED" by (simp_all add: r_def task_of_new_def)
    have wf2: "gen_wf s2" using assms(1) id t2 by (auto simp: gen_wf_def)
    have below: "\<forall>x \<in> set (gd_tasks s). gk_id x < gk_id r" using assms(1) id by (simp add: gen_wf_def)
    have "finish_submit env user req materials voice r s2 = (res, t)"
      using assms(2) unfolding submit_def by (simp add: bindE_def [of "prepare_submit env user req"] prep Inr x
          bindE_def [of "create_gen_task (new_task_of user req voice mode)"] s2 finish_submit_def)
    from finish_submit_outcome [OF wf2 t2(1) id(2) below this]
    show ?thesis using t2(2) unfolding id(1)
      by (auto simp: prep Inr x s2 Let_def r_def [symmetric] intro!: exI [of _ "gd_clock s1 0"])
  qed
qed

definition sample_capabilities :: generation_capabilities where
  "sample_capabilities = \<lparr> gc_model = ''paint'', gc_kind = GK_IMAGE, gc_ratios = [''1:1''], gc_resolutions = [''2k''],
     gc_counts = [1, 2], gc_durations = [], gc_modes = [], gc_limits = sample_limits, gc_ratios_by_resolution = [] \<rparr>"

definition sample_request :: submit_request where
  "sample_request = \<lparr> sr_kind = GK_IMAGE, sr_prompt = ''a storm'', sr_model = ''paint'', sr_voice = None,
     sr_ratio = Some ''1:1'', sr_resolution = None, sr_count = 2, sr_duration = None, sr_mode = None, sr_refs = [3],
     sr_episode = None, sr_node = None \<rparr>"

definition sample_picture :: gen_asset where
  "sample_picture = \<lparr> ga_id = 3, ga_user = 7, ga_project = None, ga_key = ''assets/7/k/p.png'', ga_filename = ''p.png'',
     ga_mime = ''image/png'', ga_type = ''image'', ga_source_type = ''manual_upload'', ga_source_id = None,
     ga_metadata = [], ga_status = ''ready'', ga_favorite = False, ga_deleted = None \<rparr>"

definition sample_ready :: gen_db where
  "sample_ready = (sample_gen [] [sample_picture])\<lparr>gd_caps := [(''paint'', sample_capabilities)], gd_caps_until := 9000\<rparr>"

lemma sample_prepared:
  "prepare_submit sample_gen_env 7 sample_request sample_ready
     = (Inr ([\<lparr> gw_type = MT_IMAGE, gw_key = ''assets/7/k/p.png'' \<rparr>], None, None), snd (gd_now sample_ready))"
proof -
  let ?s = "snd (gd_now sample_ready)"
  have caps: "require_model_capabilities sample_gen_env ''paint'' GK_IMAGE sample_ready = (Inr sample_capabilities, ?s)"
    by (simp add: require_model_capabilities_def ensure_capabilities_def capabilities_fresh_def bindE_def eff_simps
        gd_now_def sample_ready_def sample_gen_def capabilities_for_def sample_capabilities_def)
  have ok: "validate_submit_params GK_IMAGE ''paint'' sample_capabilities (Some ''1:1'') None 2 None None = Inr ()"
    by (simp add: validate_submit_params_def sample_capabilities_def offered_def ratios_for_resolution_def)
  have refs: "validate_reference_materials GK_IMAGE None [MT_IMAGE] sample_capabilities = Inr ()"
    by (simp add: validate_reference_materials_def sample_capabilities_def sample_limits_def unique_def occurrences_def
        limit_for_def Let_def)
  have mats: "load_reference_materials 7 sample_request sample_capabilities ?s
      = (Inr [\<lparr> gw_type = MT_IMAGE, gw_key = ''assets/7/k/p.png'' \<rparr>], ?s)"
    by (simp add: load_reference_materials_def sample_request_def unique_def assets_to_gateway_materials_def bindE_def
        get_owned_assets_def select_assets_def eff_simps gd_now_def sample_ready_def sample_gen_def sample_picture_def
        live_asset_def asset_with_id_def gateway_material_def material_type_from_asset_type_def dedupe_materials_def refs)
  then show ?thesis
    using caps ok
    by (simp add: prepare_submit_def check_node_free_def bound_node_def bindE_def eff_simps sample_request_def)
qed

theorem submit_outcome_witness:
  "\<exists>t r. submit sample_gen_env 7 sample_request sample_ready = (Inr (10, GTS_QUEUED), t)
     \<and> gd_tasks t = [r] \<and> gk_status r = 2 \<and> gk_union r = Some 41"
proof -
  obtain res t where run: "submit sample_gen_env 7 sample_request sample_ready = (res, t)" by force
  have wf: "gen_wf sample_ready" by (simp add: gen_wf_def sample_ready_def sample_gen_def)
  have world: "gd_world (snd (gd_now sample_ready)) = (\<lambda>n. sample_world)"
    by (simp add: gd_now_def sample_ready_def sample_gen_def)
  have answer: "fst (submit_to_gateway sample_gen_env sample_request ms None
      (snd (create_gen_task n (snd (gd_now sample_ready))))) = Inr 41" for ms n
    by (simp add: submit_to_gateway_def sample_request_def gd_uuid4_hex_def bindE_def ask_world_def create_gen_task_run
        Let_def world) (simp add: sample_world_def)
  have "gd_task_seq sample_ready = 10" "gd_tasks sample_ready = []" "bound_node sample_request = None"
    by (simp_all add: sample_ready_def sample_gen_def bound_node_def sample_request_def)
  with submit_outcome [OF wf run] run show ?thesis
    by (auto simp: sample_prepared answer Let_def submitted_row_def)
qed

section \<open>The materials of a submission\<close>

lemma dedupe_from_subset: "set (dedupe_from seen ms) \<subseteq> set ms"
  by (induction ms arbitrary: seen) auto

lemma dedupe_from_unseen: "m \<in> set (dedupe_from seen ms) \<Longrightarrow> gw_key m \<notin> set seen"
proof (induction ms arbitrary: seen)
  case (Cons x ms)
  then show ?case using Cons.IH [of seen] Cons.IH [of "gw_key x # seen"] by (auto split: if_splits)
qed simp

lemma dedupe_from_distinct: "distinct (map gw_key (dedupe_from seen ms))"
  by (induction ms arbitrary: seen) (auto dest: dedupe_from_unseen)

lemma asset_with_idD: "asset_with_id rows i = Some a \<Longrightarrow> a \<in> set rows \<and> ga_id a = i"
  by (auto simp: asset_with_id_def dest: find_SomeD)

lemma mapR_image: "mapR f xs = Inr ys \<Longrightarrow> y \<in> set ys \<Longrightarrow> \<exists>x \<in> set xs. f x = Inr y"
  by (induction xs arbitrary: ys) (auto simp: bindR_Inr)

definition owned_material :: "int \<Rightarrow> int list \<Rightarrow> gen_asset list \<Rightarrow> gateway_material \<Rightarrow> bool" where
  "owned_material user ids assets m \<longleftrightarrow>
     (\<exists>a \<in> set assets. live_asset user a \<and> ga_id a \<in> set ids \<and> ga_key a = gw_key m
        \<and> material_type_from_asset_type (ga_type a) = Inr (gw_type m))"

lemma gateway_material_owned:
  assumes "assets_to_gateway_materials user ids s = (Inr ms, t)" "m \<in> set ms"
  shows "owned_material user ids (gd_assets s) m"
proof -
  define rows where "rows = (if ids = [] then [] else filter (\<lambda>a. live_asset user a \<and> ga_id a \<in> set ids) (gd_assets s))"
  have rows: "set rows \<subseteq> {a \<in> set (gd_assets s). live_asset user a \<and> ga_id a \<in> set ids}" by (auto simp: rows_def)
  have all: "\<forall>i \<in> set ids. asset_with_id rows i \<noteq> None"
    and ms: "mapR (\<lambda>i. gateway_material (the (asset_with_id rows i))) (unique ids) = Inr ms"
    using assms(1)
    by (auto simp: assets_to_gateway_materials_def bindE_eq_Inr get_owned_assets_def select_assets_def eff_simps rows_def
        split: if_splits)
  obtain i where i: "i \<in> set ids" "gateway_material (the (asset_with_id rows i)) = Inr m"
    using mapR_image [OF ms assms(2)] by auto
  then obtain a where a: "asset_with_id rows i = Some a" using all by auto
  with i rows show ?thesis
    by (auto simp: owned_material_def gateway_material_def bindR_Inr split: if_splits dest!: asset_with_idD)
qed

lemma loaded_materials_owned:
  assumes "load_reference_materials user req caps s = (Inr ms, t)"
  shows "distinct (map gw_key ms)" "m \<in> set ms \<Longrightarrow> owned_material user (sr_refs req) (gd_assets s) m"
    "validate_reference_materials (sr_kind req) (sr_mode req) (map gw_type ms) caps = Inr ()"
proof -
  let ?ids = "unique (filter (\<lambda>i. i > 0) (sr_refs req))"
  obtain raw u where raw: "(if ?ids = [] then ret [] else assets_to_gateway_materials user ?ids) s = (Inr raw, u)"
    and ms: "ms = dedupe_materials raw"
    and ok: "validate_reference_materials (sr_kind req) (sr_mode req) (map gw_type ms) caps = Inr ()"
    using assms by (auto simp: load_reference_materials_def Let_def bindE_eq_Inr eff_simps)
  show "distinct (map gw_key ms)" unfolding ms dedupe_materials_def by (rule dedupe_from_distinct)
  show "validate_reference_materials (sr_kind req) (sr_mode req) (map gw_type ms) caps = Inr ()" by (rule ok)
  assume "m \<in> set ms"
  then have m: "m \<in> set raw" unfolding ms dedupe_materials_def using dedupe_from_subset by blast
  with raw have "owned_material user ?ids (gd_assets s) m"
    by (cases "?ids = []") (auto simp: ret_def intro: gateway_material_owned)
  then show "owned_material user (sr_refs req) (gd_assets s) m" by (auto simp: owned_material_def)
qed

text \<open>What the rules say of accepted materials.\<close>

definition within_rules :: "generation_kind \<Rightarrow> reference_mode option \<Rightarrow> material_type list \<Rightarrow> material_limits \<Rightarrow> bool" where
  "within_rules kind mode types limits \<longleftrightarrow>
     (\<forall>ty \<in> set types. occurrences types ty \<le> limit_for limits ty)
     \<and> (ml_requires_any limits \<longrightarrow> types \<noteq> [])
     \<and> (kind = GK_IMAGE \<longrightarrow> set types \<subseteq> {MT_IMAGE})
     \<and> (kind = GK_VIDEO \<longrightarrow>
          (mode = Some RM_FIRST_FRAME \<longrightarrow> types = [MT_IMAGE])
          \<and> (mode = Some RM_FIRST_LAST_FRAME \<longrightarrow> types = [MT_IMAGE, MT_IMAGE])
          \<and> (mode = Some RM_VIDEO_EDIT \<longrightarrow> count_list types MT_VIDEO = 1 \<and> MT_AUDIO \<notin> set types)
          \<and> (mode = Some RM_OMNI_REFERENCE \<longrightarrow> set types = {MT_AUDIO} \<longrightarrow> ml_allow_audio_only limits))"

lemma only_images:
  assumes "count_list types MT_VIDEO = 0" "count_list types MT_AUDIO = 0"
  shows "types = replicate (count_list types MT_IMAGE) MT_IMAGE"
  using assms
proof (induction types)
  case (Cons x types)
  then show ?case by (cases x) auto
qed simp

lemma count_list_zero: "count_list xs x = 0 \<longleftrightarrow> x \<notin> set xs"
  by (simp add: count_list_0_iff)

lemma accepted_within_rules:
  assumes "validate_reference_materials kind mode types caps = Inr ()" "kind \<noteq> GK_AUDIO"
  shows "within_rules kind mode types (gc_limits caps)"
proof (cases "types = []")
  case True
  with assms show ?thesis
    by (cases mode rule: option.exhaust; cases "the mode")
      (auto simp: validate_reference_materials_def within_rules_def Let_def bindR_Inr reference_mode_requires_material_def)
next
  case False
  define n where "n = count_list types"
  have lim: "\<forall>ty \<in> set types. occurrences types ty \<le> limit_for (gc_limits caps) ty"
    using assms(1) False by (auto simp: validate_reference_materials_def Let_def bindR_Inr mapR_Inr_iff list_all2_conv_all_nth
        in_set_conv_nth) (metis in_set_conv_nth set_unique)
  have rest: "if kind = GK_IMAGE then n MT_VIDEO = 0 \<and> n MT_AUDIO = 0 else check_mode_materials mode types (gc_limits caps) = Inr ()"
    using assms(1) False by (auto simp: validate_reference_materials_def Let_def bindR_Inr occurrences_def n_def)
  show ?thesis
  proof (cases kind)
    case GK_IMAGE
    with rest lim False show ?thesis
      using only_images [of types] by (auto simp: within_rules_def n_def count_list_zero) (metis material_type.exhaust)
  next
    case GK_VIDEO
    have t: "types = replicate (n MT_IMAGE) MT_IMAGE" if "n MT_VIDEO = 0" "n MT_AUDIO = 0"
      using only_images that by (simp add: n_def)
    have two: "replicate 2 MT_IMAGE = [MT_IMAGE, MT_IMAGE]" "replicate 1 MT_IMAGE = [MT_IMAGE]"
      by (simp_all add: numeral_2_eq_2)
    have c: "check_mode_materials mode types (gc_limits caps) = Inr ()" using rest GK_VIDEO by simp
    then obtain m where m: "mode = Some m" by (cases mode) (auto simp: check_mode_materials_def Let_def)
    show ?thesis
    proof (cases m)
      case RM_FIRST_FRAME
      with c m have "n MT_IMAGE = 1" "n MT_VIDEO = 0" "n MT_AUDIO = 0"
        by (auto simp: check_mode_materials_def Let_def occurrences_def n_def)
      with t two lim m RM_FIRST_FRAME GK_VIDEO show ?thesis by (simp add: within_rules_def)
    next
      case RM_FIRST_LAST_FRAME
      with c m have "n MT_IMAGE = 2" "n MT_VIDEO = 0" "n MT_AUDIO = 0"
        by (auto simp: check_mode_materials_def Let_def occurrences_def n_def)
      with t two lim m RM_FIRST_LAST_FRAME GK_VIDEO show ?thesis by (simp add: within_rules_def)
    next
      case RM_OMNI_REFERENCE
      with c m have "\<not> (n MT_AUDIO \<noteq> 0 \<and> n MT_IMAGE = 0 \<and> n MT_VIDEO = 0 \<and> \<not> ml_allow_audio_only (gc_limits caps))"
        by (auto simp: check_mode_materials_def Let_def occurrences_def n_def)
      with lim m RM_OMNI_REFERENCE GK_VIDEO False show ?thesis by (auto simp: within_rules_def n_def count_list_zero)
    next
      case RM_VIDEO_EDIT
      with c m have "n MT_VIDEO = 1" "n MT_AUDIO = 0"
        by (auto simp: check_mode_materials_def Let_def occurrences_def n_def)
      with lim m RM_VIDEO_EDIT GK_VIDEO False show ?thesis by (auto simp: within_rules_def n_def count_list_zero)
    qed
  qed (use assms in simp)
qed



end
