(* ===== verification/Generation_Pages.thy ===== *)
theory Generation_Pages
  imports Generation_Lifecycle
begin

text \<open>
  Walking through the list of tasks page by page while tasks are submitted, move on and are deleted in
  between: no task is shown twice, and a task that matches all the time is shown.
\<close>

section \<open>The order of pages\<close>

abbreviation newer :: "gen_task \<Rightarrow> gen_task \<Rightarrow> bool" where
  "newer x y \<equiv> key_above (task_key x) (task_key y)"

lemma key_above_trans: "key_above a b \<Longrightarrow> key_above b c \<Longrightarrow> key_above a c"
  by (auto simp: key_above_def)

lemma key_above_irrefl: "\<not> key_above a a"
  by (auto simp: key_above_def)

lemma key_above_linear: "key_above a b \<or> a = b \<or> key_above b a"
  by (cases a; cases b) (auto simp: key_above_def)

lemma set_insert_task [simp]: "set (insert_task x xs) = insert x (set xs)"
  by (induction xs) auto

lemma set_newest_first [simp]: "set (newest_first xs) = set xs"
  by (induction xs) (simp_all add: newest_first_def)

lemma insert_task_sorted:
  assumes "sorted_wrt newer xs" "\<forall>y \<in> set xs. task_key y \<noteq> task_key x"
  shows "sorted_wrt newer (insert_task x xs)"
  using assms
proof (induction xs)
  case (Cons y ys)
  show ?case
  proof (cases "newer y x")
    case True
    with Cons show ?thesis by auto
  next
    case False
    then have xy: "newer x y" using key_above_linear [of "task_key y" "task_key x"] Cons.prems(2) by auto
    with Cons.prems False show ?thesis by (auto intro: key_above_trans)
  qed
qed simp

lemma newest_first_sorted: "distinct (map task_key xs) \<Longrightarrow> sorted_wrt newer (newest_first xs)"
proof (induction xs)
  case (Cons x xs)
  have "\<forall>y \<in> set (newest_first xs). task_key y \<noteq> task_key x" using Cons.prems by (force simp: image_iff)
  with Cons show ?case by (auto simp: newest_first_def intro: insert_task_sorted)
qed (simp add: newest_first_def)

lemma distinct_task_keys: "distinct (map gk_id rows) \<Longrightarrow> distinct (map task_key rows)"
  by (induction rows) (auto simp: task_key_def)

lemma below_cursor_key: "below_cursor (Some c) r \<longleftrightarrow> key_above c (task_key r)"
  by (cases c) (auto simp: below_cursor_def key_above_def task_key_def)

lemma below_cursor_trans:
  assumes "below_cursor c x" "newer x y"
  shows "below_cursor c y"
proof (cases c)
  case None
  then show ?thesis by (simp add: below_cursor_def)
next
  case (Some k)
  with assms show ?thesis using key_above_trans [of k "task_key x" "task_key y"] by (simp add: below_cursor_key)
qed

section \<open>One page\<close>

text \<open>All that is left below a cursor, and what one request lists of it.\<close>

definition remaining :: "gen_env \<Rightarrow> int \<Rightarrow> list_request \<Rightarrow> gen_db \<Rightarrow> gen_task list" where
  "remaining env user req s =
     newest_first (filter (\<lambda>r. matches_query env (query_of_request user req None) r \<and> below_cursor (lr_cursor req) r) (gd_tasks s))"

lemma matches_ignores_cursor:
  "matches_query env (query_of_request user (req\<lparr>lr_cursor := c\<rparr>) ids) = matches_query env (query_of_request user req ids)"
  by (simp add: fun_eq_iff matches_query_def query_of_request_def)

lemma remaining_sorted: "gen_wf s \<Longrightarrow> sorted_wrt newer (remaining env user req s)"
  unfolding remaining_def gen_wf_def
  by (intro newest_first_sorted distinct_task_keys) (auto simp: distinct_map_filter)

lemma remaining_set:
  "set (remaining env user req s) = {r \<in> set (gd_tasks s). matches_query env (query_of_request user req None) r \<and> below_cursor (lr_cursor req) r}"
  by (auto simp: remaining_def)

text \<open>Observing a task returns a row of the same identifier.\<close>

lemma get_by_id_required_id: "get_by_id_required i s = (Inr r, t) \<Longrightarrow> gk_id r = i"
  by (auto simp: get_by_id_required_def bindE_eq_Inr eff_simps find_Some_iff split: option.splits)

lemma ensure_result_assets_id:
  assumes "ensure_result_assets r s = (Inr r', t)"
  shows "gk_id r' = gk_id r"
proof (cases "given (gk_result_keys r) \<and> \<not> given (gk_result_assets r)")
  case False
  then have "ensure_result_assets r = ret r"
    by (cases "given (gk_result_keys r)") (simp_all add: ensure_result_assets_def)
  with assms show ?thesis by (simp add: ret_def)
next
  case True
  then have g: "given (gk_result_keys r)" "\<not> given (gk_result_assets r)" by simp_all
  have "bindE (liftR (GenerationKind (gk_kind r))) (\<lambda>kind.
      bindE (mapE (create_result_asset r kind) (enumerate 0 (the (gk_result_keys r)))) (\<lambda>ids.
      if ids \<noteq> [] then set_result_asset_ids (gk_id r) ids else ret r)) s = (Inr r', t)"
    using assms unfolding ensure_result_assets_def by (simp only: g simp_thms if_False)
  then obtain ids u where "(if ids \<noteq> [] then set_result_asset_ids (gk_id r) ids else ret r) u = (Inr r', t)"
    unfolding bindE_eq_Inr by blast
  then show ?thesis
    by (cases "ids = []") (auto simp: ret_def set_result_asset_ids_def bindE_eq_Inr dest: get_by_id_required_id)
qed

lemma apply_result_id:
  assumes "apply_result r result sent s = (Inr (r', b), t)"
  shows "gk_id r' = gk_id r"
proof -
  consider "r' = r" | u current where "write_result r current result sent u = (Inr (r', b), t)"
    using assms unfolding apply_result_def bindE_eq_Inr
    by (auto simp: ret_def liftR_def gd_transaction_def split: if_splits prod.splits sum.splits)
  then show ?thesis
  proof cases
    case (2 u current)
    then obtain n :: int and v where v: "(if n \<noteq> 1 then bindE (get_by_id_required (gk_id r)) (\<lambda>now. ret (now, False))
       else bindE (get_by_id_required (gk_id r)) (\<lambda>applied.
         bindE (if tm_status result = GTS_SUCCEEDED then ensure_result_assets applied else ret applied) (\<lambda>final.
         ret (final, True)))) v = (Inr (r', b), t)"
      unfolding write_result_def bindE_eq_Inr [where m = "update_if_status _ _ _"] by blast
    show ?thesis
    proof (cases "n = 1")
      case False
      with v show ?thesis by (auto simp: bindE_eq_Inr ret_def dest: get_by_id_required_id)
    next
      case True
      with v obtain applied w where w: "gk_id applied = gk_id r"
        "(if tm_status result = GTS_SUCCEEDED then ensure_result_assets applied else ret applied) w = (Inr r', t)"
        by (auto simp: bindE_eq_Inr ret_def dest: get_by_id_required_id)
      then show ?thesis
        by (cases "tm_status result = GTS_SUCCEEDED") (auto simp: ret_def dest: ensure_result_assets_id)
    qed
  qed simp
qed

lemma observe_one_id:
  assumes "observe_one_non_terminal_task batch r s = (Inr r', t)"
  shows "gk_id r' = gk_id r"
proof -
  have term_obs: "gk_id x = gk_id r" if run: "apply_gateway_terminal_observation r u = (Inr (x, b), v)" for x b u v
  proof (cases "gk_union r")
    case None
    with run show ?thesis by (simp add: apply_gateway_terminal_observation_def ret_def)
  next
    case (Some n)
    then obtain m w where m: "(case m of None \<Rightarrow> ret (r, False)
        | Some d \<Rightarrow> (case normalized_result d of Inr result \<Rightarrow> apply_result r result True
            | Inl e \<Rightarrow> if is_app_error e then ret (r, False) else raise e)) w = (Inr (x, b), v)"
      using run unfolding apply_gateway_terminal_observation_def by (simp only: option.case bindE_eq_Inr) blast
    show ?thesis
    proof (cases m)
      case None
      with m show ?thesis by (simp add: ret_def)
    next
      case (Some d)
      with m show ?thesis
        by (cases "normalized_result d") (auto simp: ret_def raise_def dest: apply_result_id split: if_splits)
    qed
  qed
  have "gk_id x = gk_id r" if "apply_gateway_status_observation r st u = (Inr x, v)" for x st u v
    using that unfolding apply_gateway_status_observation_def
    by (auto simp: bindE_eq_Inr ret_def dest: term_obs apply_result_id split: if_splits prod.splits)
  with assms show ?thesis
    unfolding observe_one_non_terminal_task_def
    by (auto simp: bindE_eq_Inr ret_def split: if_splits option.splits)
qed

lemma observe_ids:
  assumes "observe_non_terminal_tasks rows s = (Inr (rows', batch), t)"
  shows "map gk_id rows' = map gk_id rows"
proof -
  obtain u where "mapE (observe_one_non_terminal_task batch) rows u = (Inr rows', t)"
    using assms by (auto simp: observe_non_terminal_tasks_def bindE_eq_Inr ret_def)
  then show ?thesis
    by (induction rows arbitrary: rows' u) (auto simp: bindE_eq_Inr ret_def dest: observe_one_id)
qed

lemma to_task_list_item_id: "to_task_list_item env r obs fav = Inr item \<Longrightarrow> ti_id item = gk_id r"
  by (auto simp: to_task_list_item_def bindR_Inr split: prod.splits)

lemma list_items_ids:
  "mapR (\<lambda>r. to_task_list_item env r (f r) fav) rows = Inr items \<Longrightarrow> map ti_id items = map gk_id rows"
  by (induction rows arbitrary: items) (auto simp: bindR_Inr dest: to_task_list_item_id)

lemma list_tasks_page:
  assumes run: "list_tasks env user req s = (Inr resp, t)" and "\<not> lr_favorites_only req"
  defines "rest \<equiv> remaining env user req s"
  shows "map ti_id (ls_items resp) = map gk_id (take (lr_page_size req) rest)"
    "ls_more resp \<longleftrightarrow> lr_page_size req < length rest"
    "ls_more resp \<Longrightarrow> lr_page_size req \<noteq> 0 \<Longrightarrow> ls_next resp = Some (task_key (last (take (lr_page_size req) rest)))"
proof -
  let ?n = "lr_page_size req" and ?q = "query_of_request user req None"
  have q: "list_by_query env ?q s = (Inr (take (Suc ?n) rest), s)"
    unfolding rest_def remaining_def list_by_query_def by (simp add: query_of_request_def gets_def)
  have "(case page_of ?n (take (Suc ?n) rest) of (listed, next_cursor, has_more) \<Rightarrow>
       bindE (observe_non_terminal_tasks listed) (\<lambda>(listed', batch).
       bindE (load_favorited_asset_ids listed' user) (\<lambda>fav.
       bindE (liftR (mapR (\<lambda>r. to_task_list_item env r (observation_for r batch) fav) listed')) (\<lambda>items.
       ret \<lparr> ls_items = items, ls_next = next_cursor, ls_more = has_more \<rparr>)))) s = (Inr resp, t)"
    using run assms(2) by (simp add: list_tasks_def bindE_def [of "ret None"] ret_def bindE_def [of "list_by_query env ?q"] q)
  moreover obtain listed nc more1 where p: "page_of ?n (take (Suc ?n) rest) = (listed, nc, more1)" by (metis prod.exhaust)
  ultimately obtain rows' batch fav u where obs: "observe_non_terminal_tasks listed s = (Inr (rows', batch), u)"
    and items: "mapR (\<lambda>r. to_task_list_item env r (observation_for r batch) fav) rows' = Inr (ls_items resp)"
    and resp: "ls_next resp = nc" "ls_more resp = more1"
    by (auto simp: bindE_eq_Inr liftR_def ret_def)
  have page: "listed = take ?n rest" "more1 \<longleftrightarrow> ?n < length rest"
    "nc = (if more1 \<and> listed \<noteq> [] then Some (task_key (last listed)) else None)"
    using p by (auto simp: page_of_def Let_def min_def split: if_splits)
  show "map ti_id (ls_items resp) = map gk_id (take ?n rest)"
    using list_items_ids [OF items] observe_ids [OF obs] page(1) by simp
  show "ls_more resp \<longleftrightarrow> ?n < length rest" using resp page by simp
  show "ls_next resp = Some (task_key (last (take ?n rest)))" if "ls_more resp" "?n \<noteq> 0"
    using that resp page by auto
qed

section \<open>The walk of a client\<close>

text \<open>
  A client asks for a page in each of a sequence of states and follows the cursor until there is no more; it
  stops unfinished when a request fails or the sequence ends.
\<close>

fun client_walk :: "gen_env \<Rightarrow> int \<Rightarrow> list_request \<Rightarrow> gen_db list \<Rightarrow> int list \<times> bool" where
  "client_walk env user req [] = ([], False)"
| "client_walk env user req (s # ss) =
     (case fst (list_tasks env user req s) of
        Inl e \<Rightarrow> ([], False)
      | Inr resp \<Rightarrow>
          (if ls_more resp
           then (case client_walk env user (req\<lparr>lr_cursor := ls_next resp\<rparr>) ss of
                   (ids, finished) \<Rightarrow> (map ti_id (ls_items resp) @ ids, finished))
           else (map ti_id (ls_items resp), True)))"

text \<open>A task of a state that the request is about, below the cursor.\<close>

definition wanted :: "gen_env \<Rightarrow> int \<Rightarrow> list_request \<Rightarrow> gen_db \<Rightarrow> int \<Rightarrow> bool" where
  "wanted env user req s i \<longleftrightarrow>
     (\<exists>r. task_by_key i s = Some r \<and> matches_query env (query_of_request user req None) r \<and> below_cursor (lr_cursor req) r)"

lemma wanted_remaining:
  assumes "gen_wf s"
  shows "wanted env user req s i \<longleftrightarrow> i \<in> gk_id ` set (remaining env user req s)"
  unfolding wanted_def remaining_set using gen_wf_find [OF assms] by (auto dest: task_by_keyD)

lemma sorted_distinct: "sorted_wrt newer xs \<Longrightarrow> distinct xs"
  by (induction xs) (auto simp: key_above_irrefl)

lemma sorted_split:
  assumes "sorted_wrt newer rest" "r \<in> set rest" "r \<notin> set (take n rest)" "take n rest \<noteq> []"
  shows "newer (last (take n rest)) r"
proof -
  have "r \<in> set (drop n rest)" using assms(2,3) by (metis append_take_drop_id in_set_conv_decomp set_append Un_iff)
  moreover have "sorted_wrt newer (take n rest @ drop n rest)" using assms(1) by (subst append_take_drop_id)
  ultimately show ?thesis using last_in_set [OF assms(4)] unfolding sorted_wrt_append by blast
qed

lemma sorted_last_below:
  assumes "sorted_wrt newer rest" "x \<in> set (take n rest)" "x \<noteq> last (take n rest)"
  shows "newer x (last (take n rest))"
proof -
  have s: "sorted_wrt newer (take n rest)" using assms(1) by (metis append_take_drop_id sorted_wrt_append)
  have "take n rest = butlast (take n rest) @ [last (take n rest)]" using assms(2) by (cases "take n rest = []") auto
  moreover from this assms have "x \<in> set (butlast (take n rest))"
    by (metis in_set_butlast_appendI list.distinct(1) list.set_cases rotate1.simps(2) set_ConsD set_rotate1)
  ultimately show ?thesis using s by (metis sorted_wrt_append list.set_intros(1))
qed

section \<open>Nothing twice, nothing missed\<close>

text \<open>The states of a walk follow one another by steps; a task keeps its place in the order.\<close>

definition stable_keys :: "gen_db list \<Rightarrow> bool" where
  "stable_keys ss \<longleftrightarrow> (\<forall>s \<in> set ss. gen_wf s)
     \<and> (\<forall>s \<in> set ss. \<forall>t \<in> set ss. \<forall>x \<in> set (gd_tasks s). \<forall>y \<in> set (gd_tasks t). gk_id x = gk_id y \<longrightarrow> task_key x = task_key y)"

lemma row_evolves_key: "row_evolves x y \<Longrightarrow> task_key y = task_key x"
  unfolding row_evolves_def task_key_def by (cases x; cases y) simp

lemma steps_stable:
  assumes "gen_step\<^sup>*\<^sup>* s t" "gen_wf s" "x \<in> set (gd_tasks s)" "y \<in> set (gd_tasks t)" "gk_id x = gk_id y"
  shows "task_key x = task_key y"
proof -
  obtain x' where x': "task_by_key (gk_id x) t = Some x'" "row_evolves x x'"
    using steps_row [OF assms(1,2) gen_wf_find [OF assms(2,3)]] by blast
  have "gen_wf t" using gen_steps_evolve [OF assms(1,2)] by simp
  with assms(4,5) x'(1) have "x' = y" by (metis gen_wf_find option.inject)
  with row_evolves_key [OF x'(2)] show ?thesis by simp
qed

lemma chain_stable:
  assumes "sorted_wrt gen_step\<^sup>*\<^sup>* ss" "\<forall>s \<in> set ss. gen_wf s"
  shows "stable_keys ss"
  unfolding stable_keys_def
proof (intro conjI ballI impI)
  show "gen_wf s" if "s \<in> set ss" for s using assms(2) that by simp
  fix s t x y
  assume st: "s \<in> set ss" "t \<in> set ss" and xy: "x \<in> set (gd_tasks s)" "y \<in> set (gd_tasks t)" "gk_id x = gk_id y"
  obtain j k where jk: "j < length ss" "ss ! j = s" "k < length ss" "ss ! k = t" using st by (auto simp: in_set_conv_nth)
  consider "j < k" | "j = k" | "k < j" by linarith
  then show "task_key x = task_key y"
  proof cases
    case 1
    with assms(1) jk have "gen_step\<^sup>*\<^sup>* s t" by (metis sorted_wrt_nth_less)
    then show ?thesis using steps_stable [OF _ _ xy] assms(2) st by blast
  next
    case 2
    with jk assms(2) st xy have "x = y" by (metis gen_wf_find option.inject)
    then show ?thesis by simp
  next
    case 3
    with assms(1) jk have "gen_step\<^sup>*\<^sup>* t s" by (metis sorted_wrt_nth_less)
    then show ?thesis using steps_stable [OF _ _ xy(2,1)] xy(3) assms(2) st by metis
  qed
qed

lemma stable_keysD:
  assumes "stable_keys ss" "s \<in> set ss" "t \<in> set ss" "task_by_key i s = Some x" "task_by_key i t = Some y"
  shows "task_key x = task_key y"
proof -
  have x: "x \<in> set (gd_tasks s)" "y \<in> set (gd_tasks t)" "gk_id x = gk_id y"
    using task_by_keyD [OF assms(4)] task_by_keyD [OF assms(5)] by simp_all
  from assms(1) have "\<forall>s \<in> set ss. \<forall>t \<in> set ss. \<forall>x \<in> set (gd_tasks s). \<forall>y \<in> set (gd_tasks t).
      gk_id x = gk_id y \<longrightarrow> task_key x = task_key y"
    unfolding stable_keys_def by (rule conjunct2)
  with assms(2,3) x show ?thesis by blast
qed

lemma stable_keys_Cons: "stable_keys (s # ss) \<Longrightarrow> gen_wf s \<and> stable_keys ss"
  unfolding stable_keys_def by (meson list.set_intros)

lemma wanted_below:
  assumes "below_cursor (lr_cursor req) l" "wanted env user (req\<lparr>lr_cursor := Some (task_key l)\<rparr>) s i"
  shows "wanted env user req s i"
  using assms below_cursor_trans [of "lr_cursor req" l]
  by (auto simp: wanted_def matches_ignores_cursor below_cursor_key)

lemma client_walk_complete:
  assumes "stable_keys ss" "0 < lr_page_size req" "\<not> lr_favorites_only req"
    "client_walk env user req ss = (ids, finished)"
  shows "distinct ids \<and> (\<forall>i \<in> set ids. \<exists>s \<in> set ss. wanted env user req s i)
    \<and> (finished \<longrightarrow> (\<forall>i. (\<forall>s \<in> set ss. wanted env user req s i) \<longrightarrow> i \<in> set ids))"
  using assms
proof (induction ss arbitrary: req ids)
  case Nil
  then show ?case by simp
next
  case (Cons s ss)
  have wf: "gen_wf s" and st: "stable_keys ss" using stable_keys_Cons [OF Cons.prems(1)] by simp_all
  obtain out t where out: "list_tasks env user req s = (out, t)" by force
  show ?case
  proof (cases out)
    case (Inl e)
    with Cons.prems(4) out show ?thesis by auto
  next
    case (Inr resp)
    define n where "n = lr_page_size req"
    define rest where "rest = remaining env user req s"
    note page = list_tasks_page [OF out [unfolded Inr] Cons.prems(3), folded rest_def n_def]
    have n: "n \<noteq> 0" using Cons.prems(2) by (simp add: n_def)
    have sorted: "sorted_wrt newer rest" unfolding rest_def by (rule remaining_sorted [OF wf])
    have in_rest: "wanted env user req s i \<longleftrightarrow> i \<in> gk_id ` set rest" for i
      unfolding rest_def by (rule wanted_remaining [OF wf])
    have rows: "x \<in> set (gd_tasks s) \<and> below_cursor (lr_cursor req) x" if "x \<in> set rest" for x
      using that unfolding rest_def remaining_set by simp
    have dist: "distinct (map gk_id rest)"
    proof -
      have "inj_on gk_id (set (gd_tasks s))" using wf by (simp add: gen_wf_def distinct_map)
      moreover have "set rest \<subseteq> set (gd_tasks s)" using rows by blast
      moreover have "distinct rest" by (rule sorted_distinct [OF sorted])
      ultimately show ?thesis by (auto simp: distinct_map intro: inj_on_subset)
    qed
    have page_ids: "distinct (map gk_id (take n rest))"
      using dist by (metis distinct_take take_map)
    show ?thesis
    proof (cases "ls_more resp")
      case False
      then have "take n rest = rest" "ids = map gk_id (take n rest)" "finished"
        using page Cons.prems(4) out Inr by auto
      with page_ids in_rest show ?thesis by auto
    next
      case True
      define l where "l = last (take n rest)"
      define req' where "req' = req\<lparr>lr_cursor := Some (task_key l)\<rparr>"
      have ne: "take n rest \<noteq> []" using True page(2) n by auto
      then have l: "l \<in> set (take n rest)" unfolding l_def by (rule last_in_set)
      then have l_rest: "l \<in> set rest" by (rule in_set_takeD)
      obtain ids' where walk: "client_walk env user req' ss = (ids', finished)" and ids: "ids = map gk_id (take n rest) @ ids'"
        using Cons.prems(4) out Inr True page(1) page(3) [OF True n] unfolding req'_def l_def
        by (auto split: prod.splits)
      have IH: "distinct ids'" "\<forall>i \<in> set ids'. \<exists>u \<in> set ss. wanted env user req' u i"
        "finished \<longrightarrow> (\<forall>i. (\<forall>u \<in> set ss. wanted env user req' u i) \<longrightarrow> i \<in> set ids')"
        using Cons.IH [OF st _ _ walk] Cons.prems(2,3) by (simp_all add: req'_def)
      have below: "wanted env user req u i" if "wanted env user req' u i" for u i
        using wanted_below [OF _ that [unfolded req'_def]] rows [OF l_rest] by blast
      have key: "task_key y = task_key x" if "x \<in> set rest" "u \<in> set ss" "task_by_key (gk_id x) u = Some y" for x u y
        using stable_keysD [OF Cons.prems(1) _ _ that(3) gen_wf_find [OF wf, of x]] that rows by auto
      have disj: "gk_id x \<notin> set ids'" if x: "x \<in> set (take n rest)" for x
      proof
        assume "gk_id x \<in> set ids'"
        then obtain u y where u: "u \<in> set ss" "task_by_key (gk_id x) u = Some y" "key_above (task_key l) (task_key y)"
          using IH(2) by (auto simp: wanted_def req'_def below_cursor_key)
        have "key_above (task_key l) (task_key x)" using u key [OF in_set_takeD [OF x] u(1,2)] by simp
        moreover have "x = l \<or> newer x l" using sorted_last_below [OF sorted x] l_def by blast
        ultimately show False using key_above_irrefl key_above_trans by blast
      qed
      have complete: "i \<in> set ids" if fin: "finished" and all: "\<forall>u \<in> set (s # ss). wanted env user req u i" for i
      proof (cases "i \<in> set (map gk_id (take n rest))")
        case True
        with ids show ?thesis by simp
      next
        case False
        obtain x where x: "x \<in> set rest" "gk_id x = i" using all in_rest by auto
        have above: "newer l x" using sorted_split [OF sorted x(1) _ ne] x(2) False l_def by auto
        have "wanted env user req' u i" if "u \<in> set ss" for u
        proof -
          have "wanted env user req u i" using all that by simp
          then obtain y where y: "task_by_key i u = Some y" "matches_query env (query_of_request user req None) y"
            unfolding wanted_def by blast
          then have "key_above (task_key l) (task_key y)" using key [OF x(1) that] x(2) above by simp
          with y show ?thesis by (auto simp: wanted_def req'_def matches_ignores_cursor below_cursor_key)
        qed
        with IH(3) fin ids show ?thesis by auto
      qed
      have "\<exists>u \<in> set (s # ss). wanted env user req u i" if "i \<in> set ids" for i
      proof (cases "i \<in> set (map gk_id (take n rest))")
        case True
        then have "wanted env user req s i" unfolding in_rest by (auto dest: in_set_takeD)
        then show ?thesis by simp
      next
        case False
        then have "i \<in> set ids'" using that ids by simp
        then obtain u where "u \<in> set ss" "wanted env user req' u i" using IH(2) by blast
        with below show ?thesis by auto
      qed
      moreover have "distinct ids" using ids page_ids IH(1) disj by auto
      ultimately show ?thesis using complete by blast
    qed
  qed
qed


text \<open>Two pages of one task each; the older task fails after the first page was read.\<close>

definition sample_listing :: list_request where
  "sample_listing = \<lparr> lr_kind = None, lr_statuses = [], lr_after = None, lr_query = [], lr_favorites_only = False,
     lr_page_size = 1, lr_cursor = None \<rparr>"

definition sample_pages :: "gen_db list" where
  "sample_pages =
     (let s = sample_gen [sample_task 1 GTS_RUNNING, sample_task 2 GTS_SUCCEEDED] []
      in [s, snd (mark_failed_if_non_terminal 1 ''broken'' s)])"


end
