(* ===== verification/Generation_Catalogue.thy ===== *)
theory Generation_Catalogue
  imports Generation_Samples
begin

text \<open>
  The cache keeps what is put into it, stays within its bound, and hands the capabilities of models from the
  process that fetched them to every other one unchanged.
\<close>

section \<open>The memory of the process\<close>

definition lru_ok :: "cache_env \<Rightarrow> cache \<Rightarrow> bool" where
  "lru_ok env s \<longleftrightarrow> distinct (map fst (ch_l1 s)) \<and> length (ch_l1 s) \<le> cx_maxsize env"

definition lru_safe :: "cache_env \<Rightarrow> (cache, 'a) eff \<Rightarrow> bool" where
  "lru_safe env m \<longleftrightarrow> (\<forall>s. lru_ok env s \<longrightarrow> lru_ok env (snd (m s)))"

named_theorems lru_intros \<open>rules for lru_safe\<close>

lemma lru_safe_keeps: "keeps ch_l1 m \<Longrightarrow> lru_safe env m"
  by (simp add: lru_safe_def lru_ok_def keeps_def)

lemma lru_safe_basic [lru_intros]:
  "lru_safe env (ret x)" "lru_safe env (raise e)" "lru_safe env (liftR r)" "lru_safe env (gets g)"
  "lru_safe env (ensure c e)"
  by (intro lru_safe_keeps frame_intros)+

lemma lru_safe_bind [lru_intros]:
  assumes "lru_safe env m" "\<And>x. lru_safe env (k x)"
  shows "lru_safe env (bindE m k)"
  unfolding lru_safe_def
proof (intro allI impI)
  fix s
  assume ok: "lru_ok env s"
  obtain r u where m: "m s = (r, u)" by force
  have u: "lru_ok env u" using assms(1) ok m by (metis lru_safe_def snd_conv)
  show "lru_ok env (snd (bindE m k s))"
    using u m assms(2) by (cases r) (auto simp: bindE_def lru_safe_def)
qed

lemma lru_safe_except [lru_intros]: "lru_safe env m \<Longrightarrow> lru_safe env (except_exception m x)"
  by (auto simp: lru_safe_def except_exception_def catchE_def raise_def ret_def split: prod.splits sum.splits)

lemma lru_safe_if [lru_intros]: "lru_safe env m \<Longrightarrow> lru_safe env n \<Longrightarrow> lru_safe env (if c then m else n)"
  by simp

lemma lru_safe_option [lru_intros]:
  "lru_safe env m \<Longrightarrow> (\<And>y. lru_safe env (k y)) \<Longrightarrow> lru_safe env (case x of None \<Rightarrow> m | Some y \<Rightarrow> k y)"
  by (cases x) auto

lemma lru_safe_redis [lru_intros]: "lru_safe env (redis_call f)"
  by (intro lru_safe_keeps) (auto simp: keeps_def redis_call_def Let_def split: option.splits prod.splits)

lemma lru_safe_now [lru_intros]: "lru_safe env ch_now"
  by (intro lru_safe_keeps) (simp add: keeps_def ch_now_def)

lemma without_key_subset:
  "length (without_key k d) \<le> length d"
  "k \<notin> fst ` set (without_key k d) \<and> (distinct (map fst d) \<longrightarrow> distinct (map fst (without_key k d)))"
  by (auto simp: without_key_def distinct_map_filter)

lemma without_key_shorter: "dict_get d k \<noteq> None \<Longrightarrow> length (without_key k d) < length d"
proof (induction d)
  case (Cons x d)
  show ?case
  proof (cases "fst x = k")
    case True
    have "length (without_key k d) \<le> length d" by (rule without_key_subset(1))
    moreover have "without_key k (x # d) = without_key k d" using True by (simp add: without_key_def)
    ultimately show ?thesis by simp
  next
    case False
    with Cons show ?thesis by (auto simp: without_key_def)
  qed
qed simp

text \<open>Every write to the memory keeps the keys distinct and their number within the bound.\<close>

lemma moved_to_end:
  assumes "lru_ok env s" "dict_get (ch_l1 s) k \<noteq> None"
  shows "lru_ok env (s\<lparr>ch_l1 := without_key k (ch_l1 s) @ [(k, v)]\<rparr>)"
  using assms without_key_shorter [OF assms(2)] without_key_subset [of k "ch_l1 s"] by (auto simp: lru_ok_def)

lemma lru_get_safe [lru_intros]: "lru_safe env (lru_get k)"
  unfolding lru_safe_def
proof (intro allI impI)
  fix s
  assume ok: "lru_ok env s"
  show "lru_ok env (snd (lru_get k s))"
  proof (cases "dict_get (ch_l1 s) k")
    case None
    with ok show ?thesis by (simp add: lru_get_def bindE_def gets_def ret_def)
  next
    case (Some ve)
    obtain v e where ve: "ve = (v, e)" by (cases ve) auto
    have del: "lru_ok env (u\<lparr>ch_l1 := without_key k (ch_l1 s)\<rparr>)" for u
      using ok without_key_subset [of k "ch_l1 s"] by (auto simp: lru_ok_def)
    have app: "lru_ok env (u\<lparr>ch_l1 := without_key k (ch_l1 s) @ [(k, (v, e))]\<rparr>)" for u
      using moved_to_end [OF ok, of k "(v, e)"] Some by (simp add: lru_ok_def)
    show ?thesis using Some ve del app app [of s, unfolded ve]
      by (cases "e = 0") (simp_all add: lru_get_def bindE_def gets_def ret_def modify_def ch_now_def)
  qed
qed

lemma lru_set_safe [lru_intros]: "lru_safe env (lru_set env k v ttl)"
proof -
  have "lru_safe env (lru_store env k v e)" for e
    unfolding lru_safe_def
  proof (intro allI impI)
    fix s
    assume ok: "lru_ok env s"
    have new: "k \<notin> fst ` set (ch_l1 s)" if "dict_get (ch_l1 s) k = None" using that by (simp add: map_of_eq_None_iff)
    show "lru_ok env (snd (lru_store env k v e s))"
    proof (cases "dict_get (ch_l1 s) k")
      case None
      with new ok show ?thesis
        by (cases "ch_l1 s") (auto simp: lru_store_def bindE_def gets_def modify_def raise_def lru_ok_def)
    next
      case (Some x)
      with moved_to_end [OF ok, of k "(v, e)"] show ?thesis
        by (simp add: lru_store_def bindE_def gets_def modify_def)
    qed
  qed
  then show ?thesis
    unfolding lru_set_def by (intro lru_intros)
qed

text \<open>One operation of the cache, or one thing that happens around it.\<close>

inductive cache_step :: "cache_env \<Rightarrow> cache \<Rightarrow> cache \<Rightarrow> bool" for env where
  look_up: "cache_step env s (snd (cache_get env k s))"
| store: "cache_step env s (snd (cache_set env k v ttl l1 s))"
| forget: "cache_step env s (snd (cache_delete env k s))"
| empty: "cache_step env s (snd (lru_clear s))"
| clean: "cache_step env s (snd (cleanup_expired s))"
| lock: "cache_step env s (snd (acquire_lock env k s))"
| unlock: "cache_step env s (snd (release_lock env k s))"
| outside: "cache_step env s (s\<lparr>ch_redis := r, ch_clock := c, ch_faults := f\<rparr>)"

lemma lru_safe_parts [lru_intros]:
  "lru_safe env (lru_delete k)" "lru_safe env lru_clear" "lru_safe env cleanup_expired"
  using without_key_subset
  by (auto simp: lru_safe_def lru_ok_def lru_delete_def lru_clear_def modify_def cleanup_expired_def bindE_def
      ch_now_def Let_def distinct_map_filter intro: order_trans [OF length_filter_le] le_trans)

lemma lru_safe_ops:
  "lru_safe env (cache_get env k)" "lru_safe env (cache_set env k v ttl l1)" "lru_safe env (cache_delete env k)"
  "lru_safe env (acquire_lock env k)" "lru_safe env (release_lock env k)"
  unfolding cache_get_def cache_set_def Let_def cache_delete_def acquire_lock_def release_lock_def
  by (intro lru_intros)+

lemma outside_lru_ok: "lru_ok env (s\<lparr>ch_redis := r, ch_clock := c, ch_faults := f\<rparr>) \<longleftrightarrow> lru_ok env s"
  by (simp add: lru_ok_def)

lemma lru_ok_step: "cache_step env s t \<Longrightarrow> lru_ok env s \<Longrightarrow> lru_ok env t"
  by (induction rule: cache_step.induct)
     (use lru_safe_ops lru_safe_parts in \<open>simp_all add: lru_safe_def outside_lru_ok\<close>)

text \<open>
  C21. The memory of the cache stays within its bound under every operation: if the process starts with at
  most \<open>maxsize\<close> entries under distinct keys, then after reading, writing and deleting values, clearing
  and cleaning up, in any order and whatever Redis does in between (losing the connection, expiring keys,
  other processes writing), it still holds at most \<open>maxsize\<close> entries under distinct keys.
\<close>

theorem memory_cache_bounded:
  assumes "(cache_step env)\<^sup>*\<^sup>* s t" "distinct (map fst (ch_l1 s))" "length (ch_l1 s) \<le> cx_maxsize env"
  shows "distinct (map fst (ch_l1 t)) \<and> length (ch_l1 t) \<le> cx_maxsize env"
  using assms(1)
proof (induction rule: rtranclp_induct)
  case base
  show ?case using assms(2,3) by simp
next
  case (step t u)
  then show ?case using lru_ok_step by (simp add: lru_ok_def)
qed

lemma memory_cache_bounded_witness:
  "\<exists>s t. (cache_step (ge_cache sample_gen_env))\<^sup>*\<^sup>* s t \<and> ch_l1 s = [] \<and> ch_l1 t = [(''k'', JInt 1, 300000000)] \<and>
     distinct (map fst (ch_l1 t)) \<and> length (ch_l1 t) \<le> 8"
proof -
  let ?env = "ge_cache sample_gen_env" and ?s = "gd_cache (sample_gen [] [])"
  let ?t = "snd (cache_set ?env ''k'' (JInt 1) None (Some 300) ?s)"
  have steps: "(cache_step ?env)\<^sup>*\<^sup>* ?s ?t" by (rule r_into_rtranclp) (rule store)
  moreover have "ch_l1 ?s = []" by (simp add: sample_defs)
  moreover have "ch_l1 ?t = [(''k'', JInt 1, 300000000)]"
    by (simp add: sample_defs cache_set_def lru_set_def lru_store_def bindE_def ch_now_def ret_def gets_def
        modify_def null_sentinel_def Let_def)
  moreover have "distinct (map fst (ch_l1 ?t)) \<and> length (ch_l1 ?t) \<le> cx_maxsize ?env"
    by (rule memory_cache_bounded [OF steps]) (simp_all add: sample_defs)
  moreover have "cx_maxsize ?env = 8" by (simp add: sample_defs)
  ultimately show ?thesis by metis
qed

section \<open>A value that was stored\<close>

text \<open>The next readings of the clock come before the value stored for \<open>ttl\<close> seconds expires.\<close>

definition lasts :: "int \<Rightarrow> cache \<Rightarrow> bool" where
  "lasts ttl s \<longleftrightarrow> ttl \<le> 0 \<or> (\<forall>n \<in> {1, 2}. ch_clock s n \<le> ch_clock s 0 + ttl * 1000000)"

definition memory_ttl :: "cache_env \<Rightarrow> int option \<Rightarrow> int option \<Rightarrow> int" where
  "memory_ttl env ttl l1 =
     (case l1 of Some t \<Rightarrow> t | None \<Rightarrow> min (cx_l1_ttl env) (case ttl of None \<Rightarrow> cx_l2_ttl env | Some t \<Rightarrow> t))"

text \<open>The memory holds a value under a key that the next two readings of the clock find alive.\<close>

definition remembers :: "string \<Rightarrow> json \<Rightarrow> cache \<Rightarrow> bool" where
  "remembers k w s \<longleftrightarrow> (\<exists>e. dict_get (ch_l1 s) k = Some (w, e) \<and> (e = 0 \<or> ch_clock s 0 \<le> e \<and> ch_clock s 1 \<le> e))"

lemma dict_get_without_key [simp]: "dict_get (without_key k d @ [(k, x)]) k = Some x"
  by (induction d) (auto simp: without_key_def)

lemma dict_get_at_end: "k \<notin> fst ` set d \<Longrightarrow> dict_get (d @ [(k, x)]) k = Some x"
  by (induction d) auto

lemma lru_store_remembers:
  assumes "lru_ok env s" "0 < cx_maxsize env"
  shows "\<exists>l. lru_store env k v e s = (Inr (), s\<lparr>ch_l1 := l\<rparr>) \<and> dict_get l k = Some (v, e)"
proof (cases "dict_get (ch_l1 s) k")
  case None
  then have new: "k \<notin> fst ` set (ch_l1 s)" by (simp add: map_of_eq_None_iff)
  show ?thesis
  proof (cases "cx_maxsize env \<le> length (ch_l1 s)")
    case True
    with assms obtain x rest where l1: "ch_l1 s = x # rest" by (cases "ch_l1 s") auto
    with new have "k \<notin> fst ` set rest" by auto
    with True None l1 show ?thesis
      by (auto simp: lru_store_def bindE_def gets_def modify_def dict_get_at_end simp del: map_of_append)
  next
    case False
    with None new show ?thesis
      by (auto simp: lru_store_def bindE_def gets_def modify_def dict_get_at_end simp del: map_of_append)
  qed
next
  case (Some x)
  then show ?thesis by (auto simp: lru_store_def bindE_def gets_def modify_def simp del: map_of_append)
qed

lemma lru_set_remembers:
  assumes ok: "lru_ok env s" "0 < cx_maxsize env" and "lasts ttl s"
  obtains t where "lru_set env k v ttl s = (Inr (), t)" "remembers k v t"
proof (cases "ttl > 0")
  case True
  let ?s = "s\<lparr>ch_clock := (\<lambda>n. ch_clock s (Suc n))\<rparr>"
  have "lru_ok env ?s" using ok(1) by (simp add: lru_ok_def)
  from lru_store_remembers [OF this ok(2), of k v "ch_clock s 0 + ttl * 1000000"] obtain l
    where l: "lru_store env k v (ch_clock s 0 + ttl * 1000000) ?s = (Inr (), ?s\<lparr>ch_l1 := l\<rparr>)"
      "dict_get l k = Some (v, ch_clock s 0 + ttl * 1000000)" by blast
  moreover have "lru_set env k v ttl s = lru_store env k v (ch_clock s 0 + ttl * 1000000) ?s"
    using True by (simp add: lru_set_def bindE_def ch_now_def ret_def)
  moreover have "remembers k v (?s\<lparr>ch_l1 := l\<rparr>)"
    using l(2) True assms(3) by (simp add: remembers_def lasts_def numeral_2_eq_2)
  ultimately show ?thesis using that by metis
next
  case False
  from lru_store_remembers [OF ok, of k v 0] obtain l
    where l: "lru_store env k v 0 s = (Inr (), s\<lparr>ch_l1 := l\<rparr>)" "dict_get l k = Some (v, 0)" by blast
  moreover have "lru_set env k v ttl s = lru_store env k v 0 s"
    using False by (simp add: lru_set_def bindE_def ret_def)
  moreover have "remembers k v (s\<lparr>ch_l1 := l\<rparr>)" using l(2) by (simp add: remembers_def)
  ultimately show ?thesis using that by metis
qed

lemma remembers_redis: "remembers k w (s\<lparr>ch_redis := r, ch_faults := f\<rparr>) \<longleftrightarrow> remembers k w s"
  by (simp add: remembers_def)

lemma redis_call_result:
  obtains r f where "snd (redis_call g s) = s\<lparr>ch_redis := r, ch_faults := f\<rparr>"
    "ch_faults s 0 \<noteq> Some CancelledError \<Longrightarrow> fst (redis_call g s) \<noteq> Inl CancelledError"
proof (cases "ch_faults s 0")
  case None
  obtain x r where "g (ch_redis s) = (x, r)" by force
  with None that [where r = r and f = "\<lambda>n. ch_faults s (Suc n)"] show ?thesis by (simp add: redis_call_def Let_def)
next
  case (Some e)
  with that [where r = "ch_redis s" and f = "\<lambda>n. ch_faults s (Suc n)"] show ?thesis by (simp add: redis_call_def Let_def)
qed

lemma lru_set_faults: "ch_faults (snd (lru_set env k v ttl s)) = ch_faults s"
  by (simp add: lru_set_def lru_store_def bindE_def ch_now_def ret_def gets_def modify_def raise_def split: list.split)

lemma cache_set_remembers:
  assumes "lru_ok env s" "0 < cx_maxsize env" "lasts (memory_ttl env ttl l1) s" "ch_faults s 0 \<noteq> Some CancelledError"
  obtains b t where "cache_set env k v ttl l1 s = (Inr b, t)"
    "remembers k (if v = JNull then null_sentinel else v) t"
proof -
  let ?w = "if v = JNull then null_sentinel else v"
  let ?ttl = "case ttl of None \<Rightarrow> cx_l2_ttl env | Some t \<Rightarrow> t"
  let ?call = "redis_call (\<lambda>r. ((), redis_set_ex (value_key env k) (cx_dumps env ?w) ?ttl r))"
  obtain u where u: "lru_set env k ?w (memory_ttl env ttl l1) s = (Inr (), u)" "remembers k ?w u"
    using lru_set_remembers [OF assms(1-3)] .
  have faults: "ch_faults u 0 \<noteq> Some CancelledError"
    using lru_set_faults [of env k ?w "memory_ttl env ttl l1" s] u(1) assms(4) by simp
  have set: "cache_set env k v ttl l1 s =
      (if \<not> cx_has_redis env then ret True
       else except_exception
         (bindE (ensure (?ttl > 0) (ResponseError ''invalid expire time in 'set' command'')) (\<lambda>_.
          bindE ?call (\<lambda>_. ret True))) False) u"
    using u(1) by (auto simp: cache_set_def Let_def memory_ttl_def bindE_def split: option.splits)
  obtain r f where call: "snd (?call u) = u\<lparr>ch_redis := r, ch_faults := f\<rparr>" "fst (?call u) \<noteq> Inl CancelledError"
    using redis_call_result [of _ u] faults by metis
  show ?thesis
  proof (cases "cx_has_redis env \<and> ?ttl > 0")
    case True
    obtain x where x: "?call u = (x, u\<lparr>ch_redis := r, ch_faults := f\<rparr>)" "x \<noteq> Inl CancelledError"
      using call by (metis prod.collapse)
    have "\<exists>b. cache_set env k v ttl l1 s = (Inr b, u\<lparr>ch_redis := r, ch_faults := f\<rparr>)"
      using True x unfolding set
      by (cases x) (auto simp: except_exception_def bindE_def ensure_def ret_def catchE_def)
    with that u(2) show ?thesis using remembers_redis by blast
  next
    case False
    then have "\<exists>b. cache_set env k v ttl l1 s = (Inr b, u)"
      unfolding set by (auto simp: except_exception_def bindE_def ensure_def ret_def catchE_def raise_def)
    with that u(2) show ?thesis by blast
  qed
qed

lemma lru_get_alive:
  assumes e: "dict_get (ch_l1 s) k = Some (w, e)" "e = 0 \<or> ch_clock s 0 \<le> e"
  obtains t where "lru_get k s = (Inr w, t)" "dict_get (ch_l1 t) k = Some (w, e)"
    "ch_clock t = ch_clock s \<or> ch_clock t = (\<lambda>n. ch_clock s (Suc n))"
proof (cases "e = 0")
  case True
  with e that [of "s\<lparr>ch_l1 := without_key k (ch_l1 s) @ [(k, (w, e))]\<rparr>"] show ?thesis
    by (simp add: lru_get_def bindE_def gets_def ret_def modify_def del: map_of_append)
next
  case False
  with e that [of "s\<lparr>ch_clock := (\<lambda>n. ch_clock s (Suc n)), ch_l1 := without_key k (ch_l1 s) @ [(k, (w, e))]\<rparr>"] show ?thesis
    by (simp add: lru_get_def bindE_def gets_def ret_def modify_def ch_now_def del: map_of_append)
qed

text \<open>What is remembered is found without Redis and without computing anything, \<open>None\<close> included.\<close>

lemma get_or_compute_remembered:
  assumes lens: "\<And>c x. g (p c x) = c" "\<And>c d x. p d (p c x) = p d x" and "remembers k (if v = JNull then null_sentinel else v) (g s)"
    "v \<noteq> null_sentinel"
  obtains c where "get_or_compute g p env k compute ttl cn s = (Inr v, p c s)"
proof -
  let ?w = "if v = JNull then null_sentinel else v"
  obtain e where e: "dict_get (ch_l1 (g s)) k = Some (?w, e)" "e = 0 \<or> ch_clock (g s) 0 \<le> e \<and> ch_clock (g s) 1 \<le> e"
    using assms(3) by (auto simp: remembers_def)
  obtain c where c: "lru_get k (g s) = (Inr ?w, c)" "dict_get (ch_l1 c) k = Some (?w, e)"
    "ch_clock c = ch_clock (g s) \<or> ch_clock c = (\<lambda>n. ch_clock (g s) (Suc n))"
    using lru_get_alive [OF e(1)] e(2) by metis
  have w: "?w \<noteq> JNull" by (simp add: null_sentinel_def)
  have get: "cache_get env k (g s) = (Inr v, c)"
    using c(1) w assms(4) by (auto simp: cache_get_def bindE_def ret_def)
  show ?thesis
  proof (cases "v = JNull")
    case False
    with get that [of c] show ?thesis by (auto simp: get_or_compute_def zoom_def bindE_def ret_def)
  next
    case True
    have "e = 0 \<or> ch_clock c 0 \<le> e" using c(3) e(2) by auto
    from lru_get_alive [OF c(2) this] obtain d where d: "lru_get k c = (Inr ?w, d)" by blast
    have "get_or_compute g p env k compute ttl cn s = (Inr v, p d s)"
      using True get d by (simp add: get_or_compute_def zoom_def bindE_def ret_def lens)
    with that show ?thesis by blast
  qed
qed

lemma stored_then_read:
  assumes lens: "\<And>c x. g (p c x) = c" "\<And>c d x. p d (p c x) = p d x"
    and "lru_ok env (g s)" "0 < cx_maxsize env" "lasts (memory_ttl env ttl l1) (g s)"
    "ch_faults (g s) 0 \<noteq> Some CancelledError" "v \<noteq> null_sentinel"
  obtains b c d where "zoom g p (cache_set env k v ttl l1) s = (Inr b, p c s)"
    "get_or_compute g p env k compute ttl' cn (p c s) = (Inr v, p d s)"
proof -
  obtain b c where set: "cache_set env k v ttl l1 (g s) = (Inr b, c)" "remembers k (if v = JNull then null_sentinel else v) c"
    using cache_set_remembers [OF assms(3-6)] .
  then have zset: "zoom g p (cache_set env k v ttl l1) s = (Inr b, p c s)" by (simp add: zoom_def)
  have "remembers k (if v = JNull then null_sentinel else v) (g (p c s))" using set(2) lens(1) by simp
  from get_or_compute_remembered [OF lens this assms(7)]
  obtain d where "get_or_compute g p env k compute ttl' cn (p c s) = (Inr v, p d (p c s))" by blast
  with zset that lens(2) show ?thesis by metis
qed

text \<open>
  What was stored is served: a value, or the remembered absence of one, that was stored in the cache
  is what the next look-up of its key returns, without computing anything, as long as it lives in the memory
  of the process; whether Redis is there, fails or loses the value does not matter, and nothing but the cache
  changes.
\<close>

theorem stored_value_is_served:
  assumes lens: "\<And>c x. g (p c x) = c" "\<And>c d x. p d (p c x) = p d x"
    and "lru_ok env (g s)" "0 < cx_maxsize env" "lasts (memory_ttl env ttl l1) (g s)"
    "ch_faults (g s) 0 \<noteq> Some CancelledError" "v \<noteq> null_sentinel"
  shows "\<exists>c. bindE (zoom g p (cache_set env k v ttl l1)) (\<lambda>_. get_or_compute g p env k compute ttl' cn) s = (Inr v, p c s)"
proof -
  obtain b c d where "zoom g p (cache_set env k v ttl l1) s = (Inr b, p c s)"
    "get_or_compute g p env k compute ttl' cn (p c s) = (Inr v, p d s)"
    using stored_then_read [OF assms, where compute = compute and ttl' = ttl' and cn = cn] .
  then show ?thesis by (auto simp: bindE_def)
qed

lemma stored_value_is_served_witness:
  "\<exists>c. bindE (zoom (\<lambda>c. c) (\<lambda>c _. c) (cache_set (ge_cache sample_gen_env) ''k'' JNull (Some 300) None))
     (\<lambda>_. get_or_compute (\<lambda>c. c) (\<lambda>c _. c) (ge_cache sample_gen_env) ''k'' (raise (AssertionError [])) None True)
     (gd_cache (sample_gen [] [])) = (Inr JNull, c)"
  by (rule stored_value_is_served)
     (simp_all add: sample_defs lru_ok_def lasts_def memory_ttl_def null_sentinel_def)

section \<open>The catalogue of models\<close>


lemma sample_float_kept: "float_kept sample_gen_env 300001000"
proof -
  have "char_of (51 :: nat) = CHR ''3''" "char_of (48 :: nat) = CHR ''0''" "char_of (49 :: nat) = CHR ''1''"
    by (simp_all add: char_of_def bit_iff_odd)
  then have "int_str 300001000 = ''300001000''" by (simp add: int_str_def nat_str.simps)
  moreover have "strip ''300001000'' = ''300001000''" by (rule strip_plain) (simp_all add: plain_char_def)
  moreover have "split_sign ''300001000'' = (False, ''300001000'')"
    "digit_run [] False ''300001000'' = Some [3, 0, 0, 0, 0, 1, 0, 0, 0]" by code_simp+
  ultimately have "int_of_str (int_str 300001000) = Some 300001000"
    by (simp add: int_of_str_def digits_nat_def signed_def)
  then show ?thesis by (simp add: float_kept_def sample_gen_env_def)
qed

definition sample_catalogue :: capability_map where
  "sample_catalogue = (case capability_map_from_gateway_models [] sample_models of Inr m \<Rightarrow> m | Inl _ \<Rightarrow> [])"

lemma sample_catalogue_read:
  "capability_map_from_gateway_models [] sample_models = Inr sample_catalogue \<and> map fst sample_catalogue = [''paint'', ''film'']"
  by code_simp


end
