(* ===== verification/Agent_Tools.thy ===== *)
theory Agent_Tools
  imports Json_Text
begin

text \<open>
  The tool calls of an agent's turn, \<open>agent/runtime\<close>: the result envelope of \<open>tools/result.py\<close>, the
  budgets of \<open>turn/guards.py\<close>, the loop guard of \<open>turn/tool_loop_guard.py\<close>, the registry of open calls of
  \<open>agent/tool_call_registry.py\<close> and the repair of the message sequence of \<open>turn/message_hygiene.py\<close>.

  The messages of the agent library are represented by what this code reads of them. The JSON decoder, the
  clock and the text of a call's arguments are parameters. Log records are left out.
\<close>

section \<open>The result envelope\<close>

record tool_result =
  tr_success :: bool
  tr_output :: string
  tr_error_type :: "string option"
  tr_error_detail :: "string option"

definition invalid_result :: exc where
  "invalid_result = ValidationError ''ToolResult''"

text \<open>The constructor: \<open>min_length=1\<close> and \<open>validate_outcome\<close>.\<close>

definition tool_result_init :: "bool \<Rightarrow> string \<Rightarrow> string option \<Rightarrow> string option \<Rightarrow> tool_result res" where
  "tool_result_init success output error_type detail =
     (if error_type = Some [] then Inl invalid_result
      else if success \<and> (output = [] \<or> error_type \<noteq> None \<or> detail \<noteq> None) then Inl invalid_result
      else if \<not> success \<and> error_type = None then Inl invalid_result
      else Inr \<lparr> tr_success = success, tr_output = output, tr_error_type = error_type, tr_error_detail = detail \<rparr>)"

definition tool_result_ok :: "string \<Rightarrow> tool_result res" where
  "tool_result_ok output = tool_result_init True output None None"

definition tool_result_fail :: "string \<Rightarrow> string option \<Rightarrow> string \<Rightarrow> tool_result res" where
  "tool_result_fail error_type detail output = tool_result_init False output (Some error_type) detail"

definition opt_str_json :: "string option \<Rightarrow> json" where
  "opt_str_json s = (case s of None \<Rightarrow> JNull | Some t \<Rightarrow> JStr t)"

definition to_tool_message :: "(json \<Rightarrow> string) \<Rightarrow> tool_result \<Rightarrow> string" where
  "to_tool_message dumps r =
     dumps (JObj [(''tool_result'', JObj
       [(''success'', JBool (tr_success r)), (''output'', JStr (tr_output r)),
        (''error_type'', opt_str_json (tr_error_type r)), (''error_detail'', opt_str_json (tr_error_detail r))])])"

text \<open>\<open>model_validate\<close> of the strict contract without other fields.\<close>

definition opt_str_of :: "json \<Rightarrow> string option res" where
  "opt_str_of j = (case j of JNull \<Rightarrow> Inr None | JStr s \<Rightarrow> Inr (Some s) | _ \<Rightarrow> Inl invalid_result)"

definition tool_result_validate :: "json \<Rightarrow> tool_result res" where
  "tool_result_validate j =
     (case j of
        JObj kvs \<Rightarrow>
          (if \<not> fst ` set kvs \<subseteq> {''success'', ''output'', ''error_type'', ''error_detail''} then Inl invalid_result
           else
             (case (dict_get kvs ''success'', dict_get kvs ''output'') of
                (Some (JBool success), Some (JStr output)) \<Rightarrow>
                  bindR (case dict_get kvs ''error_type'' of None \<Rightarrow> Inr None | Some e \<Rightarrow> opt_str_of e) (\<lambda>error_type.
                  bindR (case dict_get kvs ''error_detail'' of None \<Rightarrow> Inr None | Some d \<Rightarrow> opt_str_of d) (\<lambda>detail.
                  tool_result_init success output error_type detail))
              | _ \<Rightarrow> Inl invalid_result))
      | _ \<Rightarrow> Inl invalid_result)"

definition result_protocol_error :: "string \<Rightarrow> exc" where
  "result_protocol_error m = ValueError m"

definition parse_tool_message :: "(string \<Rightarrow> json option) \<Rightarrow> string \<Rightarrow> tool_result res" where
  "parse_tool_message loads content =
     (let text = strip content in
      if text = [] then Inl (result_protocol_error ''tool result cannot be empty'')
      else
        (case loads text of
           None \<Rightarrow> Inl (result_protocol_error ''tool result is not valid JSON'')
         | Some (JObj kvs) \<Rightarrow>
             (case dict_get kvs ''tool_result'' of
                Some payload \<Rightarrow>
                  if fst ` set kvs \<subseteq> {''tool_result''}
                  then (case tool_result_validate payload of
                          Inr r \<Rightarrow> Inr r
                        | Inl _ \<Rightarrow> Inl (result_protocol_error ''tool result payload violates contract''))
                  else Inl (result_protocol_error ''tool result envelope must contain only tool_result'')
              | None \<Rightarrow> Inl (result_protocol_error ''tool result envelope must contain only tool_result''))
         | Some _ \<Rightarrow> Inl (result_protocol_error ''tool result envelope must contain only tool_result'')))"

definition display_text :: "tool_result \<Rightarrow> string" where
  "display_text r =
     (if tr_success r then tr_output r
      else
        (let parts =
           (if tr_output r \<noteq> [] then [tr_output r] else [])
           @ (case tr_error_detail r of Some d \<Rightarrow> if d \<noteq> [] then [d] else [] | None \<Rightarrow> [])
           @ (case tr_error_type r of Some t \<Rightarrow> if t \<noteq> [] then [''error_type='' @ t] else [] | None \<Rightarrow> [])
         in if parts \<noteq> [] then join_with [CHR 0x0A] parts
            else ''error_type='' @ (case tr_error_type r of Some t \<Rightarrow> t | None \<Rightarrow> ''None'')))"

section \<open>Budgets of a turn\<close>

datatype guard_action = GA_CONTINUE | GA_STOP_TURN | GA_BROWSER_BLOCKED

datatype stop_reason = SR_max_tools | SR_error

record turn_guards =
  tg_max_model_steps :: int
  tg_max_tool_calls :: int
  tg_wall_clock :: int
  tg_repeat_guard :: int
  tg_started :: int
  tg_model_steps :: int
  tg_tool_calls :: int
  tg_errors :: "int dict"
  tg_last_stop :: "stop_reason option"

definition turn_guards_init :: "int \<Rightarrow> int \<Rightarrow> int \<Rightarrow> int \<Rightarrow> int \<Rightarrow> turn_guards" where
  "turn_guards_init steps tools wall repeat now =
     \<lparr> tg_max_model_steps = steps, tg_max_tool_calls = tools, tg_wall_clock = wall, tg_repeat_guard = repeat,
       tg_started = now, tg_model_steps = 0, tg_tool_calls = 0, tg_errors = [], tg_last_stop = None \<rparr>"

definition remaining_wall_clock :: "turn_guards \<Rightarrow> int \<Rightarrow> int" where
  "remaining_wall_clock g now = max 0 (tg_wall_clock g - (now - tg_started g))"

definition check_wall_clock :: "turn_guards \<Rightarrow> int \<Rightarrow> bool" where
  "check_wall_clock g now \<longleftrightarrow> now - tg_started g < tg_wall_clock g"

definition on_model_step_finished :: "turn_guards \<Rightarrow> turn_guards" where
  "on_model_step_finished g = g\<lparr>tg_model_steps := tg_model_steps g + 1\<rparr>"

definition exceeded_model_steps :: "turn_guards \<Rightarrow> bool" where
  "exceeded_model_steps g \<longleftrightarrow> tg_max_model_steps g \<le> tg_model_steps g"

definition check_model_steps :: "turn_guards \<Rightarrow> bool" where
  "check_model_steps g \<longleftrightarrow> tg_model_steps g < tg_max_model_steps g"

definition note_tool_call :: "turn_guards \<Rightarrow> turn_guards" where
  "note_tool_call g = g\<lparr>tg_tool_calls := tg_tool_calls g + 1\<rparr>"

definition stop_for_max_tools :: "turn_guards \<Rightarrow> bool \<times> turn_guards" where
  "stop_for_max_tools g =
     (if tg_max_tool_calls g \<le> tg_tool_calls g then (True, g\<lparr>tg_last_stop := Some SR_max_tools\<rparr>) else (False, g))"

definition apply_repeat_fuse ::
  "(string \<Rightarrow> string option \<Rightarrow> bool) \<Rightarrow> string \<Rightarrow> string option \<Rightarrow> turn_guards \<Rightarrow> guard_action \<times> turn_guards" where
  "apply_repeat_fuse eligible name error_class g =
     (if eligible name error_class
      then
        (let count = (case dict_get (tg_errors g) name of None \<Rightarrow> 0 | Some n \<Rightarrow> n) + 1;
             g' = g\<lparr>tg_errors := dict_set (tg_errors g) name count\<rparr>
         in if tg_repeat_guard g \<le> count then (GA_STOP_TURN, g'\<lparr>tg_last_stop := Some SR_error\<rparr>) else (GA_CONTINUE, g'))
      else if error_class = None then (GA_CONTINUE, g\<lparr>tg_errors := AList.delete name (tg_errors g)\<rparr>)
      else (GA_CONTINUE, g))"

definition on_tool_finished ::
  "(string \<Rightarrow> string option \<Rightarrow> bool) \<Rightarrow> string \<Rightarrow> string option \<Rightarrow> turn_guards \<Rightarrow> guard_action \<times> turn_guards" where
  "on_tool_finished eligible name error_class g =
     (let (stop, g') = stop_for_max_tools (note_tool_call g)
      in if stop then (GA_STOP_TURN, g') else apply_repeat_fuse eligible name error_class g')"

section \<open>The loop guard\<close>

datatype tool_loop_track = EMPTY_STREAK | DUPLICATE_ARGS | ONCE_PER_TURN

record tool_loop_policy =
  lp_track :: tool_loop_track
  lp_max_empty :: int
  lp_max_duplicate :: int

definition policy_of_track :: "tool_loop_track \<Rightarrow> tool_loop_policy" where
  "policy_of_track t = \<lparr> lp_track = t, lp_max_empty = 2, lp_max_duplicate = 1 \<rparr>"

definition TOOL_LOOP_POLICIES :: "tool_loop_policy dict" where
  "TOOL_LOOP_POLICIES =
     [(''recall_user_memory'', policy_of_track ONCE_PER_TURN),
      (''recall_project_memory'', policy_of_track ONCE_PER_TURN),
      (''list_generate_models'', policy_of_track DUPLICATE_ARGS)]"

definition ONCE_PER_TURN_TOOL_NAMES :: "string list" where
  "ONCE_PER_TURN_TOOL_NAMES = map fst (filter (\<lambda>p. lp_track (snd p) = ONCE_PER_TURN) TOOL_LOOP_POLICIES)"

record loop_block =
  lb_reason :: string
  lb_tool :: string
  lb_attempt :: int
  lb_streak :: int

definition loop_block_detail :: "(json \<Rightarrow> string) \<Rightarrow> loop_block \<Rightarrow> string" where
  "loop_block_detail dumps b =
     dumps (JObj [(''reason'', JStr (lb_reason b)), (''tool_name'', JStr (lb_tool b)),
                  (''attempt'', JInt (lb_attempt b)), (''streak'', JInt (lb_streak b))])"

record loop_guard =
  lg_empty :: "int dict"
  lg_calls :: "int dict"
  lg_fingerprints :: "string list"

definition loop_guard_init :: loop_guard where
  "loop_guard_init = \<lparr> lg_empty = [], lg_calls = [], lg_fingerprints = [] \<rparr>"

definition count_of :: "int dict \<Rightarrow> string \<Rightarrow> int" where
  "count_of d k = (case dict_get d k of None \<Rightarrow> 0 | Some n \<Rightarrow> n)"

definition fingerprint :: "(json \<Rightarrow> string) \<Rightarrow> string \<Rightarrow> json dict \<Rightarrow> string" where
  "fingerprint sorted_dumps name args = name @ '':'' @ sorted_dumps (JObj args)"

definition pre_check ::
  "(json \<Rightarrow> string) \<Rightarrow> string \<Rightarrow> json dict option \<Rightarrow> loop_guard \<Rightarrow> loop_block option \<times> loop_guard" where
  "pre_check sorted_dumps name args g =
     (case dict_get TOOL_LOOP_POLICIES name of
        None \<Rightarrow> (None, g)
      | Some policy \<Rightarrow>
          (case lp_track policy of
             EMPTY_STREAK \<Rightarrow>
               (let streak = count_of (lg_empty g) name in
                if lp_max_empty policy \<le> streak
                then (Some \<lparr> lb_reason = ''empty_success_streak'', lb_tool = name, lb_attempt = streak + 1, lb_streak = streak \<rparr>, g)
                else (None, g))
           | ONCE_PER_TURN \<Rightarrow>
               (let prior = count_of (lg_calls g) name in
                if 1 \<le> prior
                then (Some \<lparr> lb_reason = ''once_per_turn'', lb_tool = name, lb_attempt = prior + 1, lb_streak = prior \<rparr>, g)
                else (None, g\<lparr>lg_calls := dict_set (lg_calls g) name 1\<rparr>))
           | DUPLICATE_ARGS \<Rightarrow>
               (case args of
                  None \<Rightarrow> (None, g)
                | Some a \<Rightarrow>
                    if fingerprint sorted_dumps name a \<in> set (lg_fingerprints g)
                    then (Some \<lparr> lb_reason = ''duplicate_args'', lb_tool = name, lb_attempt = 2, lb_streak = 0 \<rparr>, g)
                    else (None, g))))"

definition record_call ::
  "(json \<Rightarrow> string) \<Rightarrow> string \<Rightarrow> json dict option \<Rightarrow> bool \<Rightarrow> bool \<Rightarrow> loop_guard \<Rightarrow> loop_guard" where
  "record_call sorted_dumps name args success is_empty g =
     (if \<not> success then g
      else
        (case dict_get TOOL_LOOP_POLICIES name of
           None \<Rightarrow> g
         | Some policy \<Rightarrow>
             (case lp_track policy of
                EMPTY_STREAK \<Rightarrow>
                  (if is_empty then g\<lparr>lg_empty := dict_set (lg_empty g) name (count_of (lg_empty g) name + 1)\<rparr>
                   else g\<lparr>lg_empty := AList.delete name (lg_empty g)\<rparr>)
              | DUPLICATE_ARGS \<Rightarrow>
                  (case args of
                     None \<Rightarrow> g
                   | Some a \<Rightarrow> g\<lparr>lg_fingerprints := List.insert (fingerprint sorted_dumps name a) (lg_fingerprints g)\<rparr>)
              | ONCE_PER_TURN \<Rightarrow> g)))"

definition loop_args_from_kwargs :: "'a dict \<Rightarrow> 'a dict" where
  "loop_args_from_kwargs kwargs =
     filter (\<lambda>(k, v). k \<notin> {''config'', ''tool_call_id'', ''run_manager'', ''callbacks''} \<and> \<not> prefix ''_'' k) kwargs"

definition is_json_list_output_empty :: "(string \<Rightarrow> json option) \<Rightarrow> string \<Rightarrow> bool" where
  "is_json_list_output_empty loads output \<longleftrightarrow> loads output = Some (JList [])"

section \<open>Messages\<close>

record model_call =
  mc_id :: "string option"
  mc_name :: "string option"
  mc_args :: "json dict"

datatype message =
    AIMessage string "model_call list"
  | ToolMessage "string option" string string
  | HumanMessage string
  | OtherMessage string

definition TURN_INTERRUPTED :: string where
  "TURN_INTERRUPTED = ''turn_interrupted''"

definition or_empty_str :: "string option \<Rightarrow> string" where
  "or_empty_str s = (case s of None \<Rightarrow> [] | Some t \<Rightarrow> t)"

text \<open>The identifiers and names of the calls that have an identifier.\<close>

definition identified_calls :: "model_call list \<Rightarrow> (string \<times> string) list" where
  "identified_calls calls =
     map (\<lambda>c. (or_empty_str (mc_id c), or_empty_str (mc_name c))) (filter (\<lambda>c. or_empty_str (mc_id c) \<noteq> []) calls)"

text \<open>\<open>content call_id name\<close> is the failed result that stands for a missing one.\<close>

definition synthetic_message :: "(json \<Rightarrow> string) \<Rightarrow> string \<Rightarrow> string \<Rightarrow> string \<times> string \<Rightarrow> message" where
  "synthetic_message dumps reason detail p =
     ToolMessage (Some (fst p)) (if snd p = [] then ''unknown'' else snd p)
       (case tool_result_fail reason (Some detail) [] of Inr r \<Rightarrow> to_tool_message dumps r | Inl _ \<Rightarrow> [])"

fun repair_loop :: "(string \<times> string \<Rightarrow> message) \<Rightarrow> (string \<times> string) list \<Rightarrow> message list \<Rightarrow> message list" where
  "repair_loop synth pending [] = map synth pending"
| "repair_loop synth pending (AIMessage c calls # ms) =
     map synth pending @ AIMessage c calls # repair_loop synth (identified_calls calls) ms"
| "repair_loop synth pending (ToolMessage i n c # ms) =
     (if or_empty_str i \<noteq> [] \<and> or_empty_str i \<in> fst ` set pending
      then ToolMessage i n c # repair_loop synth (filter (\<lambda>p. fst p \<noteq> or_empty_str i) pending) ms
      else repair_loop synth pending ms)"
| "repair_loop synth pending (m # ms) = map synth pending @ m # repair_loop synth [] ms"

definition repair_unresolved_tool_calls :: "(json \<Rightarrow> string) \<Rightarrow> string \<Rightarrow> string \<Rightarrow> message list \<Rightarrow> message list" where
  "repair_unresolved_tool_calls dumps reason detail ms = repair_loop (synthetic_message dumps reason detail) [] ms"

fun has_unresolved_loop :: "string list \<Rightarrow> message list \<Rightarrow> bool" where
  "has_unresolved_loop pending [] \<longleftrightarrow> pending \<noteq> []"
| "has_unresolved_loop pending (AIMessage c calls # ms) \<longleftrightarrow>
     has_unresolved_loop (remdups (map fst (identified_calls calls))) ms"
| "has_unresolved_loop pending (ToolMessage i n c # ms) \<longleftrightarrow>
     has_unresolved_loop (filter (\<lambda>p. p \<noteq> or_empty_str i) pending) ms"
| "has_unresolved_loop pending (HumanMessage c # ms) \<longleftrightarrow>
     (if pending \<noteq> [] then True else has_unresolved_loop [] ms)"
| "has_unresolved_loop pending (OtherMessage c # ms) \<longleftrightarrow> has_unresolved_loop [] ms"

definition has_unresolved_tool_calls :: "message list \<Rightarrow> bool" where
  "has_unresolved_tool_calls ms \<longleftrightarrow> has_unresolved_loop [] ms"

section \<open>The registry of open calls\<close>

datatype call_phase = PHASE_PENDING | PHASE_STARTED

definition call_phase_value :: "call_phase \<Rightarrow> string" where
  "call_phase_value p = (case p of PHASE_PENDING \<Rightarrow> ''pending'' | PHASE_STARTED \<Rightarrow> ''started'')"

record call_entry =
  en_id :: string
  en_name :: string
  en_phase :: call_phase
  en_args :: "json dict"

type_synonym registry = "call_entry dict"

text \<open>The contract \<open>ModelToolCall\<close>; its violation is a \<open>TypeError\<close>.\<close>

definition model_tool_call :: "model_call \<Rightarrow> (string \<times> string \<times> json dict) res" where
  "model_tool_call c =
     (case (mc_id c, mc_name c) of
        (Some i, Some n) \<Rightarrow>
          if i = [] \<or> n = [] then Inl (TypeError ''tool_call violates contract'') else Inr (i, n, mc_args c)
      | _ \<Rightarrow> Inl (TypeError ''tool_call violates contract''))"

definition fulfilled_ids :: "message list \<Rightarrow> string list" where
  "fulfilled_ids ms = concat (map (\<lambda>m. case m of ToolMessage (Some i) n c \<Rightarrow> if i = [] then [] else [i] | _ \<Rightarrow> []) ms)"

definition unresolved_pending_tool_calls :: "message list \<Rightarrow> (string \<times> string \<times> json dict) list res" where
  "unresolved_pending_tool_calls ms =
     (case find (\<lambda>m. case m of AIMessage c calls \<Rightarrow> True | _ \<Rightarrow> False) (rev ms) of
        Some (AIMessage c calls) \<Rightarrow>
          bindR (mapR model_tool_call calls) (\<lambda>parsed.
          Inr (filter (\<lambda>(i, n, a). i \<notin> set (fulfilled_ids ms)) parsed))
      | _ \<Rightarrow> Inr [])"

definition pending_entry :: "string \<times> string \<times> json dict \<Rightarrow> call_entry" where
  "pending_entry p = \<lparr> en_id = fst p, en_name = fst (snd p), en_phase = PHASE_PENDING, en_args = snd (snd p) \<rparr>"

definition register_calls :: "(string \<times> string \<times> json dict) list \<Rightarrow> registry" where
  "register_calls parsed = fold (\<lambda>p reg. dict_set reg (fst p) (pending_entry p)) parsed []"

definition seed_from_messages :: "message list \<Rightarrow> registry res" where
  "seed_from_messages ms = bindR (unresolved_pending_tool_calls ms) (\<lambda>parsed. Inr (register_calls parsed))"

definition register_from_model_step :: "model_call list \<Rightarrow> registry res" where
  "register_from_model_step calls = bindR (mapR model_tool_call calls) (\<lambda>parsed. Inr (register_calls parsed))"

definition open_entries :: "registry \<Rightarrow> call_entry list" where
  "open_entries reg = map snd reg"

definition protocol_error :: "string \<Rightarrow> exc" where
  "protocol_error detail = GatewayChatError ''gateway_protocol_error'' detail"

definition check_phase :: "call_phase option \<Rightarrow> string \<Rightarrow> call_entry \<Rightarrow> unit res" where
  "check_phase require_phase context e =
     (case require_phase of
        None \<Rightarrow> Inr ()
      | Some p \<Rightarrow> assertR (en_phase e = p) (protocol_error (context @ '' unexpected phase='' @ call_phase_value (en_phase e))))"

definition in_phase :: "call_phase option \<Rightarrow> call_entry \<Rightarrow> bool" where
  "in_phase require_phase e \<longleftrightarrow> (case require_phase of None \<Rightarrow> True | Some p \<Rightarrow> en_phase e = p)"

definition resolve_identity ::
  "registry \<Rightarrow> string \<Rightarrow> string \<Rightarrow> call_phase option \<Rightarrow> string \<Rightarrow> (string \<times> string) res" where
  "resolve_identity reg call_id tool_name require_phase context =
     (if call_id \<noteq> [] \<and> tool_name \<noteq> [] then
        (case dict_get reg call_id of
           None \<Rightarrow> Inr (call_id, tool_name)
         | Some e \<Rightarrow>
             bindR (assertR (en_name e = tool_name) (protocol_error (context @ '' call_id/name mismatch registry''))) (\<lambda>_.
             bindR (check_phase require_phase context e) (\<lambda>_. Inr (call_id, tool_name))))
      else if call_id \<noteq> [] then
        (case dict_get reg call_id of
           None \<Rightarrow> Inl (protocol_error (context @ '' unknown call_id''))
         | Some e \<Rightarrow> bindR (check_phase require_phase context e) (\<lambda>_. Inr (en_id e, en_name e)))
      else if tool_name \<noteq> [] then
        (case filter (\<lambda>e. en_name e = tool_name \<and> in_phase require_phase e) (open_entries reg) of
           [] \<Rightarrow> Inl (protocol_error (context @ '' missing name='' @ tool_name @ '' matches=0''))
         | e # _ \<Rightarrow> Inr (en_id e, en_name e))
      else
        (case filter (\<lambda>e. en_phase e = PHASE_STARTED) (open_entries reg) of
           [e] \<Rightarrow> Inr (en_id e, en_name e)
         | es \<Rightarrow> Inl (protocol_error (context @ '' missing identity and started_count='' @ nat_str (length es)))))"

definition started :: "string \<Rightarrow> json dict \<Rightarrow> call_entry \<Rightarrow> call_entry" where
  "started name args e = e\<lparr>en_name := name, en_args := args, en_phase := PHASE_STARTED\<rparr>"

definition on_start :: "string \<Rightarrow> string \<Rightarrow> json \<Rightarrow> registry \<Rightarrow> (call_entry \<times> registry) res" where
  "on_start call_id tool_name args reg =
     (case args of
        JObj kvs \<Rightarrow>
          bindR (if call_id \<noteq> [] \<and> tool_name \<noteq> [] then
                   (case dict_get reg call_id of
                      None \<Rightarrow>
                        Inr (call_id, tool_name,
                          \<lparr> en_id = call_id, en_name = tool_name, en_phase = PHASE_PENDING, en_args = [] \<rparr>)
                    | Some e \<Rightarrow>
                        bindR (assertR (en_name e = tool_name)
                                 (protocol_error ''tool start event call_id/name mismatch registry'')) (\<lambda>_.
                        bindR (assertR (en_phase e \<noteq> PHASE_STARTED)
                                 (protocol_error ''tool start event for already started call'')) (\<lambda>_.
                        Inr (call_id, tool_name, e))))
                 else
                   bindR (resolve_identity reg call_id tool_name (Some PHASE_PENDING) ''tool start event'') (\<lambda>(i, n).
                   case dict_get reg i of
                     Some e \<Rightarrow> Inr (i, n, e)
                   | None \<Rightarrow> Inl (KeyError i))) (\<lambda>(i, n, e).
          Inr (started n kvs e, dict_set reg i (started n kvs e)))
      | _ \<Rightarrow> Inl (protocol_error ''tool start event violates contract''))"

definition complete_call :: "string \<Rightarrow> string \<Rightarrow> string \<Rightarrow> registry \<Rightarrow> (call_entry \<times> registry) res" where
  "complete_call call_id tool_name context reg =
     bindR (resolve_identity reg call_id tool_name (Some PHASE_STARTED) context) (\<lambda>(i, n).
     case dict_get reg i of
       None \<Rightarrow> Inl (protocol_error (context @ '' has no matching start''))
     | Some e \<Rightarrow>
         bindR (assertR (en_phase e = PHASE_STARTED) (protocol_error (context @ '' has no matching start''))) (\<lambda>_.
         bindR (assertR (tool_name = [] \<or> en_name e = n)
                  (protocol_error (context @ '' call_id/name mismatch registry''))) (\<lambda>_.
         Inr (e, AList.delete i reg))))"

definition on_end :: "string \<Rightarrow> string \<Rightarrow> registry \<Rightarrow> (call_entry \<times> registry) res" where
  "on_end call_id tool_name reg = complete_call call_id tool_name ''tool end event'' reg"

definition on_error :: "string \<Rightarrow> string \<Rightarrow> registry \<Rightarrow> (call_entry \<times> registry) res" where
  "on_error call_id tool_name reg = complete_call call_id tool_name ''tool error event'' reg"

section \<open>The tool events of a pass\<close>

text \<open>
  \<open>_dedupe_tool_calls\<close> of \<open>agent/runner.py\<close>: calls with a known identifier or with the same name and
  arguments are dropped, and a tool that runs once in a turn is kept once.
\<close>

definition call_complete :: "model_call \<Rightarrow> bool" where
  "call_complete c \<longleftrightarrow> or_empty_str (mc_id c) \<noteq> [] \<and> or_empty_str (mc_name c) \<noteq> []"

fun dedupe_calls ::
  "(json \<Rightarrow> string) \<Rightarrow> string list \<Rightarrow> (string \<times> string) list \<Rightarrow> string list \<Rightarrow> model_call list \<Rightarrow> model_call list" where
  "dedupe_calls sorted_dumps ids sigs once [] = []"
| "dedupe_calls sorted_dumps ids sigs once (c # cs) =
     (let i = or_empty_str (mc_id c); n = or_empty_str (mc_name c); sig = (n, sorted_dumps (JObj (mc_args c))) in
      if n \<in> set ONCE_PER_TURN_TOOL_NAMES \<and> n \<in> set once then dedupe_calls sorted_dumps ids sigs once cs
      else
        (let once' = (if n \<in> set ONCE_PER_TURN_TOOL_NAMES then n # once else once) in
         if i \<in> set ids \<or> sig \<in> set sigs then dedupe_calls sorted_dumps ids sigs once' cs
         else c # dedupe_calls sorted_dumps (i # ids) (sig # sigs) once' cs))"

definition dedupe_tool_calls :: "(json \<Rightarrow> string) \<Rightarrow> model_call list \<Rightarrow> model_call list res" where
  "dedupe_tool_calls sorted_dumps calls =
     bindR (assertR (\<forall>c \<in> set calls. call_complete c) (protocol_error ''model tool call violates contract'')) (\<lambda>_.
     Inr (if length calls \<le> 1 then calls else dedupe_calls sorted_dumps [] [] [] calls))"

text \<open>
  The events of the agent library that concern tools, with the identifier, the name and the data the code
  reads from them, and the events of a turn that are emitted. The flag of \<open>EV_model_end\<close> says that there is
  content or an invalid call, the one of \<open>EV_tool_error\<close> that the error is an interrupt of the graph.
\<close>

datatype library_event =
    EV_model_end bool "model_call list"
  | EV_tool_start string string json
  | EV_tool_end string string string
  | EV_tool_error string string bool string

datatype turn_event =
    TE_step nat "model_call list"
  | TE_started nat string string "json dict"
  | TE_finished nat string string "json dict" string bool "string option"

record tools_env =
  tv_dumps :: "json \<Rightarrow> string"
  tv_sorted_dumps :: "json \<Rightarrow> string"
  tv_loads :: "string \<Rightarrow> json option"

fun tool_event :: "tools_env \<Rightarrow> library_event \<Rightarrow> registry \<times> nat \<Rightarrow> (turn_event list \<times> registry \<times> nat) res" where
  "tool_event env (EV_model_end visible calls) (reg, step) =
     bindR (dedupe_tool_calls (tv_sorted_dumps env) calls) (\<lambda>kept.
     if kept = [] \<and> \<not> visible \<and> step = 0 then Inr ([], reg, step)
     else if kept = [] then Inr ([TE_step step kept], reg, step)
     else bindR (register_from_model_step kept) (\<lambda>reg'. Inr ([TE_step step kept], reg', step + 1)))"
| "tool_event env (EV_tool_start i n args) (reg, step) =
     bindR (on_start i n args reg) (\<lambda>(e, reg'). Inr ([TE_started step (en_id e) (en_name e) (en_args e)], reg', step))"
| "tool_event env (EV_tool_end i n content) (reg, step) =
     bindR (on_end i n reg) (\<lambda>(e, reg').
     bindR (parse_tool_message (tv_loads env) content) (\<lambda>r.
     Inr ([TE_finished step (en_id e) (en_name e) (en_args e) content (\<not> tr_success r) (tr_error_type r)], reg', step)))"
| "tool_event env (EV_tool_error i n interrupt text) (reg, step) =
     (if interrupt then Inr ([], reg, step)
      else
        bindR (on_error i n reg) (\<lambda>(e, reg').
        bindR (tool_result_fail ''internal'' (Some text) []) (\<lambda>r.
        Inr ([TE_finished step (en_id e) (en_name e) (en_args e) (to_tool_message (tv_dumps env) r) True (Some ''internal'')],
             reg', step))))"

text \<open>The events emitted until the first error, and that error; the registry belongs to the pass.\<close>

fun tool_pass :: "tools_env \<Rightarrow> library_event list \<Rightarrow> registry \<times> nat \<Rightarrow> turn_event list \<times> exc option" where
  "tool_pass env [] st = ([], None)"
| "tool_pass env (ev # evs) st =
     (case tool_event env ev st of
        Inl e \<Rightarrow> ([], Some e)
      | Inr (out, st') \<Rightarrow> (case tool_pass env evs st' of (rest, e) \<Rightarrow> (out @ rest, e)))"

end
