(* ===== verification/Agent_Tool_Properties.thy ===== *)
theory Agent_Tool_Properties
  imports Agent_Tools
begin

text \<open>
  Every result of a tool belongs to a running call, parallel calls of one tool are bound in the order of the
  model, a repaired sequence of messages answers every call, and the budgets end a turn.
\<close>

section \<open>The envelope\<close>

text \<open>What the code relies on of \<open>json.dumps\<close> and \<open>json.loads\<close>.\<close>

definition json_codec :: "(json \<Rightarrow> string) \<Rightarrow> (string \<Rightarrow> json option) \<Rightarrow> bool" where
  "json_codec dumps loads \<longleftrightarrow>
     (\<forall>kvs. loads (dumps (JObj kvs)) = Some (JObj kvs) \<and> dumps (JObj kvs) \<noteq> [] \<and> strip (dumps (JObj kvs)) = dumps (JObj kvs))"

lemma opt_str_json_read: "opt_str_of (opt_str_json s) = Inr s"
  by (cases s) (simp_all add: opt_str_of_def opt_str_json_def)

lemma envelope_roundtrip:
  assumes "json_codec dumps loads"
    and "tool_result_init (tr_success r) (tr_output r) (tr_error_type r) (tr_error_detail r) = Inr r"
  shows "parse_tool_message loads (to_tool_message dumps r) = Inr r"
  using assms
  by (simp add: parse_tool_message_def to_tool_message_def json_codec_def tool_result_validate_def opt_str_json_read)

section \<open>Every result belongs to a running call\<close>

text \<open>The calls that the emitted events say are running: their names and arguments.\<close>

type_synonym running_calls = "string \<Rightarrow> (string \<times> json dict) option"

fun run_step :: "running_calls \<Rightarrow> turn_event \<Rightarrow> running_calls" where
  "run_step m (TE_step s calls) = (if calls = [] then m else (\<lambda>_. None))"
| "run_step m (TE_started s i n a) = m(i := Some (n, a))"
| "run_step m (TE_finished s i n a c err cls) = m(i := None)"

definition running :: "turn_event list \<Rightarrow> running_calls" where
  "running evs = foldl run_step (\<lambda>_. None) evs"

definition started_in :: "registry \<Rightarrow> running_calls" where
  "started_in reg i =
     (case dict_get reg i of
        Some e \<Rightarrow> if en_phase e = PHASE_STARTED then Some (en_name e, en_args e) else None
      | None \<Rightarrow> None)"

definition registry_ok :: "registry \<Rightarrow> bool" where
  "registry_ok reg \<longleftrightarrow> (\<forall>i e. dict_get reg i = Some e \<longrightarrow> en_id e = i)"

lemma register_calls_entries:
  "dict_get (register_calls parsed) i = Some e \<Longrightarrow> en_id e = i \<and> en_phase e = PHASE_PENDING"
proof -
  have "dict_get (fold (\<lambda>p reg. dict_set reg (fst p) (pending_entry p)) parsed reg) i = Some e \<Longrightarrow>
      (\<forall>e. dict_get reg i = Some e \<longrightarrow> en_id e = i \<and> en_phase e = PHASE_PENDING) \<Longrightarrow>
      en_id e = i \<and> en_phase e = PHASE_PENDING" for reg
    by (induction parsed arbitrary: reg) (auto simp: update_conv' pending_entry_def split: if_splits)
  from this [of "[]"] show "dict_get (register_calls parsed) i = Some e \<Longrightarrow> ?thesis"
    by (simp add: register_calls_def)
qed

lemma register_calls_ok: "registry_ok (register_calls parsed)" "started_in (register_calls parsed) = (\<lambda>_. None)"
  using register_calls_entries
  by (auto simp: registry_ok_def started_in_def fun_eq_iff split: option.splits)

lemma complete_call_Inr:
  "complete_call c n ctx reg = Inr (e, reg') \<Longrightarrow>
   \<exists>i. dict_get reg i = Some e \<and> en_phase e = PHASE_STARTED \<and> reg' = AList.delete i reg"
  by (auto simp: complete_call_def bindR_Inr assertR_def split: option.splits if_splits prod.splits)

lemma on_start_Inr:
  "on_start c n args reg = Inr (e', reg') \<Longrightarrow> registry_ok reg \<Longrightarrow>
   en_phase e' = PHASE_STARTED \<and> reg' = dict_set reg (en_id e') e'"
  by (auto simp: on_start_def bindR_Inr started_def registry_ok_def split: json.splits option.splits if_splits prod.splits)

lemma started_in_update:
  "en_phase e = PHASE_STARTED \<Longrightarrow> started_in (dict_set reg i e) = (started_in reg)(i := Some (en_name e, en_args e))"
  by (auto simp: started_in_def fun_eq_iff update_conv')

lemma started_in_delete: "started_in (AList.delete i reg) = (started_in reg)(i := None)"
  by (auto simp: started_in_def fun_eq_iff delete_conv' split: option.splits)

definition finished_call :: "turn_event \<Rightarrow> (string \<times> string \<times> json dict) option" where
  "finished_call ev = (case ev of TE_finished s i n a c err cls \<Rightarrow> Some (i, n, a) | _ \<Rightarrow> None)"

lemma tool_event_step:
  assumes "tool_event env ev (reg, step) = Inr (out, reg', step')" "registry_ok reg"
  shows "registry_ok reg' \<and> started_in reg' = foldl run_step (started_in reg) out
    \<and> (out = [] \<or> (\<exists>x. out = [x] \<and> (\<forall>i n a. finished_call x = Some (i, n, a) \<longrightarrow> started_in reg i = Some (n, a))))"
proof -
  have completed: ?thesis if ended: "complete_call i n ctx reg = Inr (e, reg')"
    "out = [TE_finished step (en_id e) (en_name e) (en_args e) content err cls]" for i n ctx e content err cls
  proof -
    obtain j where j: "dict_get reg j = Some e" "en_phase e = PHASE_STARTED" "reg' = AList.delete j reg"
      using complete_call_Inr [OF ended(1)] by blast
    then have "en_id e = j" using assms(2) by (simp add: registry_ok_def)
    with j ended(2) assms(2) show ?thesis
      by (auto simp: started_in_delete finished_call_def registry_ok_def delete_conv' started_in_def)
  qed
  show ?thesis
  proof (cases ev)
    case (EV_model_end visible calls)
    with assms show ?thesis
      by (auto simp: bindR_Inr register_from_model_step_def register_calls_ok finished_call_def split: if_splits)
  next
    case (EV_tool_start i n args)
    then obtain e where e: "on_start i n args reg = Inr (e, reg')"
        "out = [TE_started step (en_id e) (en_name e) (en_args e)]"
      using assms(1) by (auto simp: bindR_Inr)
    from on_start_Inr [OF e(1) assms(2)] have "en_phase e = PHASE_STARTED" "reg' = dict_set reg (en_id e) e" by auto
    with e(2) assms(2) show ?thesis
      by (auto simp: started_in_update finished_call_def registry_ok_def update_conv' split: if_splits)
  next
    case (EV_tool_end i n content)
    with assms(1) obtain e err cls where "complete_call i n ''tool end event'' reg = Inr (e, reg')"
        "out = [TE_finished step (en_id e) (en_name e) (en_args e) content err cls]"
      by (auto simp: bindR_Inr on_end_def)
    then show ?thesis by (rule completed)
  next
    case (EV_tool_error i n interrupt msg)
    show ?thesis
    proof (cases interrupt)
      case True
      with assms EV_tool_error show ?thesis by simp
    next
      case False
      with assms(1) EV_tool_error obtain e msg' cls where "complete_call i n ''tool error event'' reg = Inr (e, reg')"
          "out = [TE_finished step (en_id e) (en_name e) (en_args e) msg' True cls]"
        by (auto simp: bindR_Inr on_error_def)
      then show ?thesis by (rule completed)
    qed
  qed
qed

lemma tool_pass_running:
  assumes "registry_ok reg" "fst (tool_pass env evs (reg, step)) = xs @ x # ys" "finished_call x = Some (i, n, a)"
  shows "foldl run_step (started_in reg) xs i = Some (n, a)"
  using assms
proof (induction evs arbitrary: reg step xs)
  case (Cons ev evs)
  show ?case
  proof (cases "tool_event env ev (reg, step)")
    case (Inr r)
    obtain out reg' step' where r: "r = (out, reg', step')" by (cases r) auto
    note ev = tool_event_step [OF Inr [unfolded r] Cons.prems(1)]
    have emitted: "xs @ x # ys = out @ fst (tool_pass env evs (reg', step'))"
      using Cons.prems(2) Inr r by (auto split: prod.splits)
    show ?thesis
    proof (cases "out = [] \<or> xs \<noteq> []")
      case True
      then obtain zs where zs: "xs = out @ zs" "fst (tool_pass env evs (reg', step')) = zs @ x # ys"
        using emitted ev by (cases xs) auto
      from Cons.IH [OF conjunct1 [OF ev] zs(2) Cons.prems(3)] ev zs(1) show ?thesis by simp
    next
      case False
      with emitted ev Cons.prems(3) show ?thesis by auto
    qed
  qed (use Cons.prems in auto)
qed auto

text \<open>
  C23. Every result belongs to a running call. In whatever order the agent library reports model steps, starts, ends and
  errors of tools, with or without identifiers or names: when the stream of a turn emits that a call has
  finished, a start of this call, with the same name and the same arguments, was emitted before, and since then
  neither its end nor a new step of the model.
\<close>

theorem tool_results_have_running_call:
  assumes "tool_pass env evs (register_calls pending, step) = (xs @ x # ys, err)" "finished_call x = Some (i, n, a)"
  shows "running xs i = Some (n, a)"
  using tool_pass_running [of "register_calls pending" env evs step xs x ys i n a] assms
  by (simp add: register_calls_ok running_def)

definition sample_tools_env :: tools_env where
  "sample_tools_env =
     \<lparr> tv_dumps = (\<lambda>j. ''{}''), tv_sorted_dumps = json_dumps,
       tv_loads = (\<lambda>s. Some (JObj [(''tool_result'', JObj [(''success'', JBool True), (''output'', JStr s)])])) \<rparr>"

definition sample_call :: "string \<Rightarrow> string \<Rightarrow> model_call" where
  "sample_call i q = \<lparr> mc_id = Some i, mc_name = Some ''search'', mc_args = [(''q'', JStr q)] \<rparr>"

text \<open>Two parallel calls of one tool, started without identifiers; the second ends first.\<close>

definition sample_events :: "library_event list" where
  "sample_events =
     [EV_model_end False [sample_call ''a'' ''x'', sample_call ''b'' ''y''],
      EV_tool_start [] ''search'' (JObj [(''q'', JStr ''x'')]), EV_tool_start [] ''search'' (JObj [(''q'', JStr ''y'')]),
      EV_tool_end ''b'' ''search'' ''found'', EV_tool_end [] [] ''found'']"

theorem tool_results_have_running_call_witness:
  "tool_pass sample_tools_env sample_events ([], 0)
     = ([TE_step 0 [sample_call ''a'' ''x'', sample_call ''b'' ''y''],
         TE_started 1 ''a'' ''search'' [(''q'', JStr ''x'')], TE_started 1 ''b'' ''search'' [(''q'', JStr ''y'')],
         TE_finished 1 ''b'' ''search'' [(''q'', JStr ''y'')] ''found'' False None,
         TE_finished 1 ''a'' ''search'' [(''q'', JStr ''x'')] ''found'' False None], None)
   \<and> running [TE_step 0 [sample_call ''a'' ''x'', sample_call ''b'' ''y''],
         TE_started 1 ''a'' ''search'' [(''q'', JStr ''x'')], TE_started 1 ''b'' ''search'' [(''q'', JStr ''y'')]] ''b''
       = Some (''search'', [(''q'', JStr ''y'')])"
proof -
  have strip: "strip ''found'' = ''found''" by (rule strip_plain) (simp_all add: plain_char_def)
  have kept: "dedupe_tool_calls json_dumps [sample_call ''a'' ''x'', sample_call ''b'' ''y'']
      = Inr [sample_call ''a'' ''x'', sample_call ''b'' ''y'']"
    by code_simp
  have result: "parse_tool_message (tv_loads sample_tools_env) ''found''
      = Inr \<lparr> tr_success = True, tr_output = ''found'', tr_error_type = None, tr_error_detail = None \<rparr>"
    by (simp add: parse_tool_message_def strip sample_tools_env_def tool_result_validate_def tool_result_init_def)
  have dumps: "tv_sorted_dumps sample_tools_env = json_dumps" by (simp add: sample_tools_env_def)
  have run: "tool_pass sample_tools_env sample_events ([], 0) = ([TE_step 0 [sample_call ''a'' ''x'', sample_call ''b'' ''y''],
         TE_started 1 ''a'' ''search'' [(''q'', JStr ''x'')], TE_started 1 ''b'' ''search'' [(''q'', JStr ''y'')]]
       @ TE_finished 1 ''b'' ''search'' [(''q'', JStr ''y'')] ''found'' False None #
         [TE_finished 1 ''a'' ''search'' [(''q'', JStr ''x'')] ''found'' False None], None)"
    unfolding sample_events_def
    by (simp add: dumps kept [unfolded sample_call_def] result register_from_model_step_def model_tool_call_def sample_call_def register_calls_def
        pending_entry_def on_start_def resolve_identity_def open_entries_def in_phase_def started_def on_end_def
        complete_call_def check_phase_def)
  from tool_results_have_running_call [of sample_tools_env sample_events "[]" 0] run
  show ?thesis by (simp add: register_calls_def finished_call_def)
qed

section \<open>Parallel calls of one tool\<close>

text \<open>Starts that carry only the name of the tool.\<close>

fun start_named :: "(string \<times> json) list \<Rightarrow> registry \<Rightarrow> (call_entry list \<times> registry) res" where
  "start_named [] reg = Inr ([], reg)"
| "start_named ((n, args) # ns) reg =
     bindR (on_start [] n args reg) (\<lambda>(e, reg').
     bindR (start_named ns reg') (\<lambda>(es, reg''). Inr (e # es, reg'')))"

definition waiting :: "string \<Rightarrow> registry \<Rightarrow> call_entry list" where
  "waiting n reg = filter (\<lambda>e. en_name e = n \<and> en_phase e = PHASE_PENDING) (map snd reg)"

definition keys_ok :: "registry \<Rightarrow> bool" where
  "keys_ok reg \<longleftrightarrow> distinct (map fst reg) \<and> (\<forall>p \<in> set reg. en_id (snd p) = fst p)"

lemma filter_update_first:
  assumes "distinct (map fst reg)" "\<forall>p \<in> set reg. en_id (snd p) = fst p" "filter P (map snd reg) = e # es" "\<not> P v"
  shows "filter P (map snd (AList.update (en_id e) v reg)) = es"
  using assms
proof (induction reg)
  case (Cons p reg)
  obtain k x where p: "p = (k, x)" by force
  show ?case
  proof (cases "P x")
    case True
    with Cons.prems p show ?thesis by auto
  next
    case False
    with Cons.prems p have tl: "filter P (map snd reg) = e # es" by simp
    then have "e \<in> set (map snd reg)" by (metis filter_is_subset list.set_intros(1) subset_iff)
    with Cons.prems(1,2) p have "en_id e \<noteq> k" by (force simp: image_iff)
    with Cons.IH Cons.prems p False tl show ?thesis by simp
  qed
qed simp

lemma filter_update_other:
  assumes "\<forall>x. dict_get reg k = Some x \<longrightarrow> \<not> P x" "\<not> P v"
  shows "filter P (map snd (AList.update k v reg)) = filter P (map snd reg)"
  using assms by (induction reg) auto

lemma keys_ok_lookup: "keys_ok reg \<Longrightarrow> e \<in> set (map snd reg) \<Longrightarrow> dict_get reg (en_id e) = Some e"
  by (auto simp: keys_ok_def)

lemma keys_ok_update: "keys_ok reg \<Longrightarrow> en_id e = i \<Longrightarrow> keys_ok (AList.update i e reg)"
proof -
  assume ok: "keys_ok reg" and i: "en_id e = i"
  have "\<forall>p \<in> set (AList.update i e reg). en_id (snd p) = fst p"
    using ok i unfolding keys_ok_def by (induction reg) auto
  with ok show ?thesis by (simp add: keys_ok_def distinct_update)
qed

lemma waiting_Cons:
  "waiting n reg = e # es \<Longrightarrow> e \<in> set (map snd reg) \<and> en_name e = n \<and> en_phase e = PHASE_PENDING"
proof -
  assume "waiting n reg = e # es"
  then have "e \<in> set (filter (\<lambda>e. en_name e = n \<and> en_phase e = PHASE_PENDING) (map snd reg))"
    unfolding waiting_def by simp
  then show ?thesis by simp
qed

text \<open>A start by name takes the first call of that name that has not started, if there is one.\<close>

lemma on_start_named:
  assumes ok: "keys_ok reg" and n: "n \<noteq> []"
  shows "on_start [] n (JObj a) reg =
    (case waiting n reg of
       [] \<Rightarrow> Inl (protocol_error (''tool start event missing name='' @ n @ '' matches=0''))
     | e # es \<Rightarrow> Inr (started n a e, AList.update (en_id e) (started n a e) reg))"
proof (cases "waiting n reg")
  case Nil
  with n show ?thesis by (simp add: on_start_def resolve_identity_def waiting_def open_entries_def in_phase_def)
next
  case (Cons e es)
  then have e: "e \<in> set (map snd reg)" "en_name e = n" "en_phase e = PHASE_PENDING"
    using waiting_Cons by auto
  with keys_ok_lookup [OF ok e(1)] Cons n show ?thesis
    by (simp add: on_start_def resolve_identity_def waiting_def open_entries_def in_phase_def)
qed

lemma waiting_started:
  assumes ok: "keys_ok reg" and w: "waiting n reg = e # es"
  shows "waiting m (AList.update (en_id e) (started n a e) reg) = (if m = n then es else waiting m reg)"
proof -
  have e: "e \<in> set (map snd reg)" "en_name e = n"
    using waiting_Cons [OF w] by auto
  show ?thesis
  proof (cases "m = n")
    case True
    with w ok show ?thesis unfolding waiting_def keys_ok_def
      by (auto intro!: filter_update_first simp: started_def)
  next
    case False
    with keys_ok_lookup [OF ok e(1)] e(2) show ?thesis
      unfolding waiting_def by (subst filter_update_other) (auto simp: started_def)
  qed
qed

lemma start_named_order:
  assumes "keys_ok reg" "\<forall>(n, j) \<in> set ns. n \<noteq> [] \<and> (\<exists>a. j = JObj a)" "start_named ns reg = Inr (es, reg')"
  shows "map en_id (filter (\<lambda>e. en_name e = n) es)
    = take (length (filter (\<lambda>x. fst x = n) ns)) (map en_id (waiting n reg))
    \<and> length (filter (\<lambda>x. fst x = n) ns) \<le> length (waiting n reg)"
  using assms
proof (induction ns arbitrary: reg es)
  case (Cons x ns)
  obtain m a where x: "x = (m, JObj a)" "m \<noteq> []" using Cons.prems(2) by (cases x) auto
  from Cons.prems(3) obtain e es' where e: "waiting m reg = e # es'"
    using x on_start_named [OF Cons.prems(1) x(2)] by (auto split: list.splits)
  let ?reg = "AList.update (en_id e) (started m a e) reg"
  obtain fs where fs: "start_named ns ?reg = Inr (fs, reg')" "es = started m a e # fs"
    using Cons.prems(3) x on_start_named [OF Cons.prems(1) x(2)] e by (auto simp: bindR_Inr)
  have "keys_ok ?reg" using Cons.prems(1) by (intro keys_ok_update) (simp_all add: started_def)
  from Cons.IH [OF this _ fs(1)] Cons.prems(2) waiting_started [OF Cons.prems(1) e]
  show ?case using fs(2) x(1) e by (auto simp: started_def)
qed simp

lemma register_calls_waiting:
  assumes "distinct (map fst parsed)"
  shows "keys_ok (register_calls parsed)"
    "map en_id (waiting n (register_calls parsed)) = map fst (filter (\<lambda>p. fst (snd p) = n) parsed)"
proof -
  have "register_calls parsed = map (\<lambda>p. (fst p, pending_entry p)) parsed"
    using dict_set_fold_distinct [OF assms, of pending_entry] by (simp add: register_calls_def)
  then show "keys_ok (register_calls parsed)"
    "map en_id (waiting n (register_calls parsed)) = map fst (filter (\<lambda>p. fst (snd p) = n) parsed)"
    using assms by (auto simp: keys_ok_def waiting_def pending_entry_def comp_def filter_map)
qed

text \<open>
  Parallel calls of one tool are told apart. When the model asked for calls with different identifiers and the
  starts carry only names, in any order, then the starts of a name are taken for the calls of that name in the
  order in which the model asked for them, and there are no more starts than calls.
\<close>

theorem parallel_starts_in_model_order:
  assumes "distinct (map fst calls)" "\<forall>(n, j) \<in> set ns. n \<noteq> [] \<and> (\<exists>a. j = JObj a)"
    and "start_named ns (register_calls calls) = Inr (es, reg)"
  shows "map en_id (filter (\<lambda>e. en_name e = n) es)
      = take (length (filter (\<lambda>x. fst x = n) ns)) (map fst (filter (\<lambda>c. fst (snd c) = n) calls))
    \<and> length (filter (\<lambda>x. fst x = n) ns) \<le> length (filter (\<lambda>c. fst (snd c) = n) calls)"
  using start_named_order [OF register_calls_waiting(1) [OF assms(1)] assms(2,3), of n]
    register_calls_waiting(2) [OF assms(1), of n]
  by (metis length_map)

theorem parallel_starts_in_model_order_witness:
  "\<exists>es reg. start_named [(''f'', JObj []), (''g'', JObj []), (''f'', JObj [])]
       (register_calls [(''1'', ''f'', []), (''2'', ''f'', []), (''3'', ''g'', [])]) = (Inr (es, reg))
     \<and> map en_id (filter (\<lambda>e. en_name e = ''f'') es) = [''1'', ''2'']"
proof -
  let ?calls = "[(''1'', ''f'', []), (''2'', ''f'', []), (''3'', ''g'', [])] :: (string \<times> string \<times> json dict) list"
  let ?ns = "[(''f'', JObj []), (''g'', JObj []), (''f'', JObj [])]"
  obtain es reg where run: "start_named ?ns (register_calls ?calls) = Inr (es, reg)"
    by (simp add: register_calls_def pending_entry_def on_start_def resolve_identity_def open_entries_def in_phase_def
        started_def)
  have "map en_id (filter (\<lambda>e. en_name e = ''f'') es) = [''1'', ''2'']"
    using parallel_starts_in_model_order [OF _ _ run, of "''f''"] by simp
  with run show ?thesis by (intro exI [of _ es] exI [of _ reg] conjI)
qed

section \<open>The sequence of messages\<close>

definition is_tool :: "message \<Rightarrow> bool" where
  "is_tool m = (case m of ToolMessage i n c \<Rightarrow> True | _ \<Rightarrow> False)"

definition answered_id :: "message \<Rightarrow> string" where
  "answered_id m = (case m of ToolMessage i n c \<Rightarrow> or_empty_str i | _ \<Rightarrow> [])"

lemma is_tool_simps [simp]:
  "is_tool (ToolMessage i n c)" "\<not> is_tool (AIMessage t calls)" "\<not> is_tool (HumanMessage t)" "\<not> is_tool (OtherMessage t)"
  by (simp_all add: is_tool_def)

text \<open>
  What the gateway accepts: results stand only behind the model message with their calls, and every call has
  exactly one.
\<close>

fun paired :: "string list \<Rightarrow> message list \<Rightarrow> bool" where
  "paired pending [] \<longleftrightarrow> pending = []"
| "paired pending (AIMessage c calls # ms) \<longleftrightarrow> pending = [] \<and> paired (map fst (identified_calls calls)) ms"
| "paired pending (ToolMessage i n c # ms) \<longleftrightarrow>
     or_empty_str i \<in> set pending \<and> paired (filter (\<lambda>p. p \<noteq> or_empty_str i) pending) ms"
| "paired pending (m # ms) \<longleftrightarrow> pending = [] \<and> paired [] ms"

definition calls_distinct :: "message list \<Rightarrow> bool" where
  "calls_distinct ms \<longleftrightarrow> (\<forall>c calls. AIMessage c calls \<in> set ms \<longrightarrow> distinct (map fst (identified_calls calls)))"

definition answers_for :: "(string \<times> string \<Rightarrow> message) \<Rightarrow> bool" where
  "answers_for synth \<longleftrightarrow> (\<forall>p. is_tool (synth p) \<and> answered_id (synth p) = fst p)"

lemma answers_for_cases:
  assumes "answers_for synth"
  obtains i n c where "synth p = ToolMessage i n c" "or_empty_str i = fst p"
proof -
  have "is_tool (synth p)" "answered_id (synth p) = fst p" using assms unfolding answers_for_def by blast+
  with that show ?thesis by (cases "synth p") (auto simp: is_tool_def answered_id_def)
qed

lemma answers_for_tool: "answers_for synth \<Longrightarrow> is_tool (synth p)"
  unfolding answers_for_def by blast

lemma filter_synthetic: "answers_for synth \<Longrightarrow> filter (\<lambda>m. \<not> is_tool m) (map synth pending) = []"
  by (simp add: filter_empty_conv answers_for_tool)

lemma paired_synthetic:
  assumes "answers_for synth" "distinct (map fst pending)"
  shows "paired (map fst pending) (map synth pending @ ms) = paired [] ms"
  using assms(2)
proof (induction pending)
  case (Cons p pending)
  obtain i n c where t: "synth p = ToolMessage i n c" "or_empty_str i = fst p"
    using answers_for_cases [OF assms(1)] by blast
  from Cons.prems have "filter (\<lambda>q. q \<noteq> fst p) (map fst pending) = map fst pending"
    by (intro filter_True) force
  with Cons t show ?case by simp
qed simp

lemma filter_pending: "map fst (filter (\<lambda>p. fst p \<noteq> i) pending) = filter (\<lambda>p. p \<noteq> i) (map fst pending)"
  by (induction pending) auto

lemma repair_paired:
  assumes "answers_for synth" "distinct (map fst pending)" "calls_distinct ms"
  shows "paired (map fst pending) (repair_loop synth pending ms)"
  using assms
proof (induction synth pending ms rule: repair_loop.induct)
  case (1 synth pending)
  then show ?case using paired_synthetic [of synth pending "[]"] by simp
next
  case (2 synth pending c calls ms)
  then have "distinct (map fst (identified_calls calls))" "calls_distinct ms" by (auto simp: calls_distinct_def)
  with 2 paired_synthetic [of synth pending] show ?case by simp
next
  case (3 synth pending i n c ms)
  then have "calls_distinct ms" by (auto simp: calls_distinct_def)
  with 3 show ?case by (simp add: filter_pending distinct_map_filter)
qed (use paired_synthetic in \<open>auto simp: calls_distinct_def\<close>)

lemma paired_repaired:
  "distinct (map fst pending) \<Longrightarrow> calls_distinct ms \<Longrightarrow> \<forall>p \<in> set pending. fst p \<noteq> [] \<Longrightarrow> paired (map fst pending) ms \<Longrightarrow>
   repair_loop synth pending ms = ms"
proof (induction synth pending ms rule: repair_loop.induct)
  case (2 synth pending c calls ms)
  have "distinct (map fst (identified_calls calls))" "calls_distinct ms" "\<forall>p \<in> set (identified_calls calls). fst p \<noteq> []"
    using 2(3) by (auto simp: calls_distinct_def identified_calls_def)
  with 2 show ?case by simp
next
  case (3 synth pending i n c ms)
  then have "or_empty_str i \<in> fst ` set pending" by simp
  moreover from this 3(5) have "or_empty_str i \<noteq> []" by auto
  moreover have "calls_distinct ms" using 3(4) by (auto simp: calls_distinct_def)
  ultimately show ?case using 3 by (simp add: filter_pending distinct_map_filter)
qed (auto simp: calls_distinct_def)

lemma paired_resolved: "paired pending ms \<Longrightarrow> distinct pending \<Longrightarrow> calls_distinct ms \<Longrightarrow> \<not> has_unresolved_loop pending ms"
proof (induction pending ms rule: paired.induct)
  case (2 pending c calls ms)
  then have "distinct (map fst (identified_calls calls))" "calls_distinct ms" by (auto simp: calls_distinct_def)
  with 2 show ?case by (simp add: distinct_remdups_id)
next
  case (3 pending i n c ms)
  then have "calls_distinct ms" by (auto simp: calls_distinct_def)
  with 3 show ?case by simp
qed (auto simp: calls_distinct_def)

lemma repair_keeps_others:
  "answers_for synth \<Longrightarrow> filter (\<lambda>m. \<not> is_tool m) (repair_loop synth pending ms) = filter (\<lambda>m. \<not> is_tool m) ms"
  by (induction synth pending ms rule: repair_loop.induct) (simp_all add: filter_synthetic del: filter_map)

lemma repair_adds_synthetic: "set (repair_loop synth pending ms) \<subseteq> set ms \<union> range synth"
  by (induction synth pending ms rule: repair_loop.induct) auto

lemma calls_distinct_repaired:
  assumes "answers_for synth" "calls_distinct ms"
  shows "calls_distinct (repair_loop synth pending ms)"
  unfolding calls_distinct_def
proof (intro allI impI)
  fix c calls
  assume "AIMessage c calls \<in> set (repair_loop synth pending ms)"
  then have "AIMessage c calls \<in> set (filter (\<lambda>m. \<not> is_tool m) (repair_loop synth pending ms))" by simp
  then have "AIMessage c calls \<in> set ms" unfolding repair_keeps_others [OF assms(1)] by simp
  with assms(2) show "distinct (map fst (identified_calls calls))" by (simp add: calls_distinct_def)
qed

lemma synthetic_answers: "answers_for (synthetic_message dumps reason detail)"
  by (simp add: answers_for_def is_tool_def answered_id_def synthetic_message_def or_empty_str_def)


definition sample_history :: "message list" where
  "sample_history =
     [HumanMessage ''hi'', AIMessage [] [sample_call ''a'' ''x'', sample_call ''b'' ''y''],
      ToolMessage (Some ''b'') ''search'' ''found'', HumanMessage ''stop'']"


text \<open>
  The check that decides whether a history is repaired looks at the calls of the last model message only: an
  unanswered call before another message of the model, or before a system message, is not seen.
\<close>

lemma unresolved_call_not_seen:
  "\<not> has_unresolved_tool_calls [AIMessage [] [sample_call ''a'' ''x''], AIMessage ''done'' []]"
  "\<not> paired [] [AIMessage [] [sample_call ''a'' ''x''], AIMessage ''done'' []]"
  by (simp_all add: has_unresolved_tool_calls_def identified_calls_def sample_call_def or_empty_str_def)

section \<open>Budgets\<close>

text \<open>A turn goes on only as long as the guards say so.\<close>

fun tools_finished ::
  "(string \<Rightarrow> string option \<Rightarrow> bool) \<Rightarrow> (string \<times> string option) list \<Rightarrow> turn_guards \<Rightarrow> guard_action list \<times> turn_guards" where
  "tools_finished eligible [] g = ([], g)"
| "tools_finished eligible ((n, e) # xs) g =
     (case on_tool_finished eligible n e g of
        (a, g') \<Rightarrow>
          if a = GA_CONTINUE then (case tools_finished eligible xs g' of (as, h) \<Rightarrow> (a # as, h)) else ([a], g'))"

lemma on_tool_finished_calls:
  "on_tool_finished eligible n e g = (a, g') \<Longrightarrow>
   tg_tool_calls g' = tg_tool_calls g + 1 \<and> tg_max_tool_calls g' = tg_max_tool_calls g
   \<and> (a = GA_CONTINUE \<longrightarrow> tg_tool_calls g' < tg_max_tool_calls g)"
  by (auto simp: on_tool_finished_def stop_for_max_tools_def note_tool_call_def apply_repeat_fuse_def Let_def
      split: if_splits)

lemma tools_finished_bounded:
  "tools_finished eligible xs g = (as, h) \<Longrightarrow> as \<noteq> [] \<Longrightarrow> int (length as) \<le> max 1 (tg_max_tool_calls g - tg_tool_calls g)"
proof (induction xs arbitrary: g as)
  case (Cons x xs)
  obtain n e where x: "x = (n, e)" by force
  obtain a g' where a: "on_tool_finished eligible n e g = (a, g')" by force
  show ?case
  proof (cases "a = GA_CONTINUE")
    case True
    obtain bs where bs: "tools_finished eligible xs g' = (bs, h)" "as = a # bs"
      using Cons.prems(1) x a True by (auto split: prod.splits)
    have "tg_tool_calls g' = tg_tool_calls g + 1" "tg_max_tool_calls g' = tg_max_tool_calls g"
        "tg_tool_calls g' < tg_max_tool_calls g"
      using on_tool_finished_calls [OF a] True by auto
    with Cons.IH [OF bs(1)] bs(2) show ?thesis by (cases "bs = []") auto
  next
    case False
    with Cons.prems x a show ?thesis by auto
  qed
qed simp

text \<open>Checks and recorded calls of a turn in the order in which they happen; the verdicts of the checks.\<close>

datatype guard_op = Check string "json dict option" | Record string "json dict option" bool bool

fun guard_run :: "(json \<Rightarrow> string) \<Rightarrow> guard_op list \<Rightarrow> loop_guard \<Rightarrow> (string \<times> json dict option \<times> bool) list \<times> loop_guard" where
  "guard_run d [] g = ([], g)"
| "guard_run d (Check n a # ops) g =
     (case pre_check d n a g of (b, g') \<Rightarrow> (case guard_run d ops g' of (vs, h) \<Rightarrow> ((n, a, b = None) # vs, h)))"
| "guard_run d (Record n a ok e # ops) g = guard_run d ops (record_call d n a ok e g)"

lemma policies:
  "dict_get TOOL_LOOP_POLICIES n = Some p \<Longrightarrow> lp_track p = ONCE_PER_TURN \<longleftrightarrow> n \<in> {''recall_user_memory'', ''recall_project_memory''}"
  by (auto simp: TOOL_LOOP_POLICIES_def policy_of_track_def split: if_splits)

lemma once_per_turn:
  assumes "n \<in> {''recall_user_memory'', ''recall_project_memory''}" "guard_run d ops g = (vs, h)"
  shows "length (filter (\<lambda>v. fst v = n \<and> snd (snd v)) vs) + (if 1 \<le> count_of (lg_calls g) n then 1 else 0) \<le> 1"
  using assms(2)
proof (induction d ops g arbitrary: vs rule: guard_run.induct)
  case (2 d m a ops g)
  obtain b g' where pre: "pre_check d m a g = (b, g')" by force
  obtain ws where ws: "guard_run d ops g' = (ws, h)" "vs = (m, a, b = None) # ws"
    using "2.prems" pre by (auto split: prod.splits)
  note IH = "2.IH" [OF pre [symmetric] ws(1)]
  show ?case
  proof (cases "m = n")
    case True
    then have "dict_get TOOL_LOOP_POLICIES m = Some (policy_of_track ONCE_PER_TURN)"
      using assms(1) by (auto simp: TOOL_LOOP_POLICIES_def)
    then have "if 1 \<le> count_of (lg_calls g) n then b \<noteq> None \<and> g' = g else b = None \<and> count_of (lg_calls g') n = 1"
      using pre True
      by (auto simp: pre_check_def policy_of_track_def Let_def count_of_def update_conv' split: if_splits)
    with IH ws(2) True show ?thesis by (auto split: if_splits)
  next
    case False
    then have "count_of (lg_calls g') n = count_of (lg_calls g) n"
      using pre
      by (auto simp: pre_check_def Let_def count_of_def update_conv' split: option.splits tool_loop_track.splits if_splits)
    with IH ws(2) False show ?thesis by simp
  qed
next
  case (3 d m a ok e ops g)
  have "lg_calls (record_call d m a ok e g) = lg_calls g"
    by (auto simp: record_call_def split: option.splits tool_loop_track.splits)
  with 3 show ?case by simp
qed auto

lemma once_per_turn_init:
  assumes "n \<in> {''recall_user_memory'', ''recall_project_memory''}"
  shows "length (filter (\<lambda>v. fst v = n \<and> snd (snd v)) (fst (guard_run d ops loop_guard_init))) \<le> 1"
  using once_per_turn [OF assms, of d ops loop_guard_init] by (cases "guard_run d ops loop_guard_init") simp

text \<open>A call of a tool with the arguments of an earlier successful one is blocked.\<close>

lemma fingerprints_kept:
  "guard_run d ops g = (vs, h) \<Longrightarrow> x \<in> set (lg_fingerprints g) \<Longrightarrow> x \<in> set (lg_fingerprints h)"
  by (induction d ops g arbitrary: vs rule: guard_run.induct)
     (auto simp: pre_check_def record_call_def Let_def split: prod.splits option.splits tool_loop_track.splits if_splits)

lemma duplicate_blocked:
  assumes "guard_run d ops (record_call d ''list_generate_models'' (Some a) True e g) = (vs, h)"
  shows "fst (pre_check d ''list_generate_models'' (Some a) h) \<noteq> None"
proof -
  have "fingerprint d ''list_generate_models'' a \<in> set (lg_fingerprints (record_call d ''list_generate_models'' (Some a) True e g))"
    by (simp add: record_call_def TOOL_LOOP_POLICIES_def policy_of_track_def)
  from fingerprints_kept [OF assms this] show ?thesis
    by (simp add: pre_check_def TOOL_LOOP_POLICIES_def policy_of_track_def)
qed

end
