(* ===== verification/Shop_OAuth.thy ===== *)
theory Shop_OAuth
  imports Python_Numbers Frame_Rules
begin

text \<open>
  The OAuth connection of a shop, \<open>workshop/domain/ecommerce/oauth.py\<close>: pending authorizations by their
  state, the exchange of a code for a token, the credential store and the public view of a connection.

  The answers of the token endpoint are a stream, as are the clock and the random states. Times are
  microseconds since 1970. \<open>parse_authorize_query\<close>, which nothing uses, is left out.
\<close>

section \<open>State\<close>

datatype app_type = APP_SELF_DEV | APP_SUBSCRIPTION_ISV

definition app_type_value :: "app_type \<Rightarrow> string" where
  "app_type_value t = (case t of APP_SELF_DEV \<Rightarrow> ''self_dev'' | APP_SUBSCRIPTION_ISV \<Rightarrow> ''subscription_isv'')"

datatype shop_status = SHOP_CONNECTED | SHOP_REAUTH_REQUIRED | SHOP_DISCONNECTED

definition shop_status_value :: "shop_status \<Rightarrow> string" where
  "shop_status_value s =
     (case s of SHOP_CONNECTED \<Rightarrow> ''connected'' | SHOP_REAUTH_REQUIRED \<Rightarrow> ''REAUTH_REQUIRED'' | SHOP_DISCONNECTED \<Rightarrow> ''disconnected'')"

record oauth_config =
  oc_client_id :: string
  oc_client_secret :: string
  oc_redirect_uri :: string
  oc_app_type :: app_type
  oc_refresh_enabled :: bool

record credential =
  cr_shop :: string
  cr_access_token :: string
  cr_expires_in :: int
  cr_expires_at :: int
  cr_refresh_token :: json
  cr_re_expires_in :: "int option"
  cr_nick :: json
  cr_open_uid :: json

record pending_auth =
  pa_state :: string
  pa_shop :: string
  pa_created :: int
  pa_used :: "string list"

record shop_view =
  sv_shop :: string
  sv_status :: shop_status
  sv_app_type :: app_type
  sv_expires_at :: "int option"

text \<open>An answer of the token endpoint; the body is \<open>None\<close> when it is not JSON.\<close>

datatype http_answer = HTTP_failed string | HTTP_response int "json option"

record oauth =
  oa_pending :: "pending_auth dict"
  oa_store :: "credential dict"
  oa_refresh_calls :: int
  oa_clock :: "nat \<Rightarrow> int"
  oa_random :: "nat \<Rightarrow> string"
  oa_http :: "nat \<Rightarrow> string dict \<Rightarrow> http_answer"

definition oauth_now :: "int option \<Rightarrow> (oauth, int) eff" where
  "oauth_now t s =
     (case t of
        Some n \<Rightarrow> (Inr n, s)
      | None \<Rightarrow> (Inr (oa_clock s 0), s\<lparr>oa_clock := (\<lambda>n. oa_clock s (Suc n))\<rparr>))"

definition token_urlsafe :: "(oauth, string) eff" where
  "token_urlsafe s = (Inr (oa_random s 0), s\<lparr>oa_random := (\<lambda>n. oa_random s (Suc n))\<rparr>)"

definition http_post :: "string dict \<Rightarrow> (oauth, http_answer) eff" where
  "http_post data s = (Inr (oa_http s 0 data), s\<lparr>oa_http := (\<lambda>n. oa_http s (Suc n))\<rparr>)"

section \<open>Authorization\<close>

text \<open>\<open>urllib.parse.urlencode\<close> of a dictionary of strings.\<close>

definition hex_upper :: "nat \<Rightarrow> char" where
  "hex_upper n = ''0123456789ABCDEF'' ! n"

definition quote_char :: "char \<Rightarrow> string" where
  "quote_char c =
     (let n = of_char c :: nat in
      if 48 \<le> n \<and> n \<le> 57 \<or> 65 \<le> n \<and> n \<le> 90 \<or> 97 \<le> n \<and> n \<le> 122 \<or> c \<in> set ''_.-~'' then [c]
      else if c = CHR '' '' then ''+''
      else [CHR ''%'', hex_upper (n div 16), hex_upper (n mod 16)])"

definition quote_plus :: "string \<Rightarrow> string" where
  "quote_plus s = concat (map quote_char s)"

definition urlencode :: "string dict \<Rightarrow> string" where
  "urlencode d = join_with ''&'' (map (\<lambda>(k, v). quote_plus k @ ''='' @ quote_plus v) d)"

definition AUTHORIZE_URL :: string where
  "AUTHORIZE_URL = ''https://oauth.taobao.com/authorize''"

definition CODE_TTL :: int where
  "CODE_TTL = 30 * 60 * 1000000"

definition build_authorize_url :: "oauth_config \<Rightarrow> string \<Rightarrow> string option \<Rightarrow> (oauth, string) eff" where
  "build_authorize_url cfg shop state =
     bindE (case state of Some t \<Rightarrow> if t = [] then token_urlsafe else ret t | None \<Rightarrow> token_urlsafe) (\<lambda>csrf.
     bindE (oauth_now None) (\<lambda>now.
     bindE (modify (\<lambda>s. s\<lparr>oa_pending := dict_set (oa_pending s) csrf
              \<lparr> pa_state = csrf, pa_shop = shop, pa_created = now, pa_used = [] \<rparr>\<rparr>)) (\<lambda>_.
     ret (AUTHORIZE_URL @ ''?'' @ urlencode
       [(''client_id'', oc_client_id cfg), (''response_type'', ''code''), (''redirect_uri'', oc_redirect_uri cfg),
        (''state'', csrf)]))))"

section \<open>Tokens\<close>

definition field_of :: "json dict \<Rightarrow> string \<Rightarrow> json" where
  "field_of d k = (case dict_get d k of Some j \<Rightarrow> j | None \<Rightarrow> JNull)"

definition optional_int :: "json \<Rightarrow> int option res" where
  "optional_int j = (if j = JNull \<or> j = JStr [] then Inr None else bindR (py_int j) (\<lambda>i. Inr (Some i)))"

text \<open>\<open>now + timedelta(seconds=n)\<close>, which raises beyond the year 9999.\<close>

definition later :: "int \<Rightarrow> int \<Rightarrow> int res" where
  "later now n =
     (if 999999999 < \<bar>n div 86400\<bar>
      then Inl (OverflowError (''days='' @ int_str (n div 86400) @ ''; must have magnitude <= 999999999''))
      else if now + n * 1000000 < -62135596800000000 \<or> 253402300800000000 \<le> now + n * 1000000
      then Inl (OverflowError ''date value out of range'')
      else Inr (now + n * 1000000))"

definition exchange_data :: "oauth_config \<Rightarrow> string \<Rightarrow> string \<Rightarrow> string dict" where
  "exchange_data cfg code state =
     [(''client_id'', oc_client_id cfg), (''client_secret'', oc_client_secret cfg), (''grant_type'', ''authorization_code''),
      (''code'', code), (''redirect_uri'', oc_redirect_uri cfg), (''state'', state)]"

definition json_error :: exc where
  "json_error = ValueError ''JSONDecodeError''"

definition exchange_code :: "oauth_config \<Rightarrow> string \<Rightarrow> string \<Rightarrow> (oauth, json dict) eff" where
  "exchange_code cfg code state =
     bindE (http_post (exchange_data cfg code state)) (\<lambda>answer.
     case answer of
       HTTP_failed m \<Rightarrow> raise (OAuthError ''TAOBAO_OAUTH_HTTP_ERROR'' m)
     | HTTP_response status body \<Rightarrow>
         bindE (ensure (status < 400) (OAuthError ''TAOBAO_OAUTH_PROVIDER_ERROR'' (''token http '' @ int_str status))) (\<lambda>_.
         case body of
           None \<Rightarrow> raise json_error
         | Some (JObj payload) \<Rightarrow>
             bindE (ensure (\<not> py_truthy (field_of payload ''error'') \<and> \<not> py_truthy (field_of payload ''error_description''))
               (OAuthError ''TAOBAO_OAUTH_PROVIDER_ERROR''
                 (py_str (if py_truthy (field_of payload ''error_description'') then field_of payload ''error_description''
                          else field_of payload ''error'')))) (\<lambda>_.
             ret payload)
         | Some _ \<Rightarrow> raise (OAuthError ''TAOBAO_OAUTH_TOKEN_INVALID'' ''token response not an object'')))"

definition public_view :: "oauth_config \<Rightarrow> string \<Rightarrow> int option \<Rightarrow> (oauth, shop_view) eff" where
  "public_view cfg shop t =
     bindE (oauth_now t) (\<lambda>now.
     bindE (gets (\<lambda>s. dict_get (oa_store s) shop)) (\<lambda>cred.
     ret (case cred of
            None \<Rightarrow> \<lparr> sv_shop = shop, sv_status = SHOP_DISCONNECTED, sv_app_type = oc_app_type cfg, sv_expires_at = None \<rparr>
          | Some c \<Rightarrow>
              \<lparr> sv_shop = shop, sv_status = (if cr_expires_at c \<le> now then SHOP_REAUTH_REQUIRED else SHOP_CONNECTED),
                sv_app_type = oc_app_type cfg, sv_expires_at = Some (cr_expires_at c) \<rparr>)))"

definition save_credential :: "credential \<Rightarrow> (oauth, unit) eff" where
  "save_credential c = modify (\<lambda>s. s\<lparr>oa_store := dict_set (oa_store s) (cr_shop c) c\<rparr>)"

definition mark_code_used :: "string \<Rightarrow> string \<Rightarrow> (oauth, unit) eff" where
  "mark_code_used state code =
     modify (\<lambda>s. case dict_get (oa_pending s) state of
        None \<Rightarrow> s
      | Some p \<Rightarrow> s\<lparr>oa_pending := dict_set (oa_pending s) state (p\<lparr>pa_used := List.insert code (pa_used p)\<rparr>)\<rparr>)"

definition credential_of :: "string \<Rightarrow> int \<Rightarrow> json dict \<Rightarrow> credential res" where
  "credential_of shop now payload =
     bindR (assertR (py_truthy (field_of payload ''access_token''))
       (OAuthError ''TAOBAO_OAUTH_TOKEN_INVALID'' ''token response missing access_token'')) (\<lambda>_.
     bindR (if py_truthy (field_of payload ''expires_in'') then py_int (field_of payload ''expires_in'') else Inr 0) (\<lambda>expires_in.
     bindR (assertR (0 < expires_in)
       (OAuthError ''TAOBAO_OAUTH_TOKEN_INVALID'' ''token response missing expires_in'')) (\<lambda>_.
     bindR (later now expires_in) (\<lambda>expires_at.
     bindR (optional_int (field_of payload ''re_expires_in'')) (\<lambda>re.
     Inr \<lparr> cr_shop = shop, cr_access_token = py_str (field_of payload ''access_token''), cr_expires_in = expires_in,
           cr_expires_at = expires_at, cr_refresh_token = field_of payload ''refresh_token'', cr_re_expires_in = re,
           cr_nick = field_of payload ''taobao_user_nick'', cr_open_uid = field_of payload ''taobao_open_uid'' \<rparr>)))))"

definition oauth_callback :: "oauth_config \<Rightarrow> string \<Rightarrow> string \<Rightarrow> int option \<Rightarrow> (oauth, shop_view) eff" where
  "oauth_callback cfg code state t =
     bindE (oauth_now t) (\<lambda>now.
     bindE (gets (\<lambda>s. dict_get (oa_pending s) state)) (\<lambda>found.
     case found of
       None \<Rightarrow> raise (OAuthError ''TAOBAO_OAUTH_STATE_MISMATCH'' ''oauth state mismatch'')
     | Some p \<Rightarrow>
         bindE (ensure (pa_state p = state) (OAuthError ''TAOBAO_OAUTH_STATE_MISMATCH'' ''oauth state mismatch'')) (\<lambda>_.
         bindE (ensure (strip code \<noteq> []) (OAuthError ''TAOBAO_OAUTH_CALLBACK_INVALID'' ''code required'')) (\<lambda>_.
         bindE (ensure (code \<notin> set (pa_used p))
           (OAuthError ''TAOBAO_OAUTH_CODE_REUSED'' ''authorization code already used'')) (\<lambda>_.
         bindE (ensure (now - pa_created p \<le> CODE_TTL)
           (OAuthError ''TAOBAO_OAUTH_CODE_EXPIRED'' ''authorization code expired'')) (\<lambda>_.
         bindE (exchange_code cfg code state) (\<lambda>payload.
         bindE (mark_code_used state code) (\<lambda>_.
         bindE (liftR (credential_of (pa_shop p) now payload)) (\<lambda>cred.
         bindE (save_credential cred) (\<lambda>_.
         public_view cfg (pa_shop p) (Some now)))))))))))"

section \<open>Refreshing\<close>

definition refresh_data :: "oauth_config \<Rightarrow> json \<Rightarrow> string dict" where
  "refresh_data cfg token =
     [(''client_id'', oc_client_id cfg), (''client_secret'', oc_client_secret cfg), (''grant_type'', ''refresh_token''),
      (''refresh_token'', py_str token)]"

definition required_field :: "json dict \<Rightarrow> string \<Rightarrow> json res" where
  "required_field d k = (case dict_get d k of Some j \<Rightarrow> Inr j | None \<Rightarrow> Inl (KeyError k))"

definition refreshed_credential :: "credential \<Rightarrow> string \<Rightarrow> json dict \<Rightarrow> (oauth, credential) eff" where
  "refreshed_credential cred shop payload =
     bindE (liftR (required_field payload ''access_token'')) (\<lambda>token.
     bindE (liftR (bindR (required_field payload ''expires_in'') py_int)) (\<lambda>expires_in.
     bindE (oauth_now None) (\<lambda>now.
     bindE (liftR (later now expires_in)) (\<lambda>expires_at.
     bindE (liftR (optional_int (field_of payload ''re_expires_in''))) (\<lambda>re.
     ret \<lparr> cr_shop = shop, cr_access_token = py_str token, cr_expires_in = expires_in, cr_expires_at = expires_at,
           cr_refresh_token = (if py_truthy (field_of payload ''refresh_token'') then field_of payload ''refresh_token''
                               else cr_refresh_token cred),
           cr_re_expires_in = re, cr_nick = cr_nick cred, cr_open_uid = cr_open_uid cred \<rparr>)))))"

definition try_refresh :: "oauth_config \<Rightarrow> string \<Rightarrow> int option \<Rightarrow> (oauth, shop_view) eff" where
  "try_refresh cfg shop t =
     bindE (oauth_now t) (\<lambda>now.
     if oc_app_type cfg = APP_SELF_DEV \<or> \<not> oc_refresh_enabled cfg
     then
       bindE (public_view cfg shop (Some now)) (\<lambda>view.
       ret (if sv_status view = SHOP_CONNECTED then view
            else \<lparr> sv_shop = shop, sv_status = SHOP_REAUTH_REQUIRED, sv_app_type = oc_app_type cfg,
                   sv_expires_at = sv_expires_at view \<rparr>))
     else
       bindE (gets (\<lambda>s. dict_get (oa_store s) shop)) (\<lambda>found.
       case found of
         None \<Rightarrow> raise (OAuthError ''TAOBAO_OAUTH_REFRESH_UNAVAILABLE'' ''no refresh_token'')
       | Some cred \<Rightarrow>
           bindE (ensure (py_truthy (cr_refresh_token cred))
             (OAuthError ''TAOBAO_OAUTH_REFRESH_UNAVAILABLE'' ''no refresh_token'')) (\<lambda>_.
           bindE (modify (\<lambda>s. s\<lparr>oa_refresh_calls := oa_refresh_calls s + 1\<rparr>)) (\<lambda>_.
           bindE (http_post (refresh_data cfg (cr_refresh_token cred))) (\<lambda>answer.
           case answer of
             HTTP_failed m \<Rightarrow> raise (RuntimeError m)
           | HTTP_response status None \<Rightarrow> raise json_error
           | HTTP_response status (Some (JObj payload)) \<Rightarrow>
               bindE (refreshed_credential cred shop payload) (\<lambda>updated.
               bindE (save_credential updated) (\<lambda>_.
               public_view cfg shop None))
           | HTTP_response status (Some _) \<Rightarrow> raise (TypeError ''token response not an object''))))))"

definition connection_to_public_dict :: "(int \<Rightarrow> string) \<Rightarrow> shop_view \<Rightarrow> json dict" where
  "connection_to_public_dict isoformat v =
     [(''shop_connection_id'', JStr (sv_shop v)), (''status'', JStr (shop_status_value (sv_status v))),
      (''app_type'', JStr (app_type_value (sv_app_type v))),
      (''expires_at'', case sv_expires_at v of None \<Rightarrow> JNull | Some t \<Rightarrow> JStr (isoformat t))]"

definition redact_secrets_from_log_payload :: "json dict \<Rightarrow> json dict" where
  "redact_secrets_from_log_payload payload =
     map (\<lambda>(k, v). (k, if k \<in> {''access_token'', ''refresh_token'', ''client_secret'', ''session'', ''code''}
                        then JStr ''***'' else v)) payload"

end
