(* ===== verification/Shop_OAuth_Properties.thy ===== *)
theory Shop_OAuth_Properties
  imports Shop_OAuth
begin

text \<open>
  An authorization code is exchanged at most once, and a shop is connected only by the callback of an
  authorization that was begun for it.
\<close>

section \<open>The calls on the service\<close>

datatype oauth_call =
    CallAuthorize string "string option"
  | CallCallback string string "int option"
  | CallRefresh string "int option"
  | CallView string "int option"

definition forget :: "('s, 'a) eff \<Rightarrow> ('s, unit) eff" where
  "forget m s = (case m s of (r, t) \<Rightarrow> (Inr (), t))"

fun perform_call :: "oauth_config \<Rightarrow> oauth_call \<Rightarrow> (oauth, unit) eff" where
  "perform_call cfg (CallAuthorize shop state) = forget (build_authorize_url cfg shop state)"
| "perform_call cfg (CallCallback code state t) = forget (oauth_callback cfg code state t)"
| "perform_call cfg (CallRefresh shop t) = forget (try_refresh cfg shop t)"
| "perform_call cfg (CallView shop t) = forget (public_view cfg shop t)"

definition oauth_run :: "oauth_config \<Rightarrow> oauth_call list \<Rightarrow> oauth \<Rightarrow> oauth" where
  "oauth_run cfg calls s = fold (\<lambda>c s. snd (perform_call cfg c s)) calls s"

text \<open>The state a call to \<open>build_authorize_url\<close> issues, and whether a run issues a given state.\<close>

definition issued_state :: "string option \<Rightarrow> oauth \<Rightarrow> string" where
  "issued_state state s = (case state of Some t \<Rightarrow> if t = [] then oa_random s 0 else t | None \<Rightarrow> oa_random s 0)"

fun issues :: "oauth_config \<Rightarrow> string \<Rightarrow> oauth_call list \<Rightarrow> oauth \<Rightarrow> bool" where
  "issues cfg st [] s = False"
| "issues cfg st (c # cs) s =
     ((case c of CallAuthorize shop state \<Rightarrow> issued_state state s = st | _ \<Rightarrow> False)
      \<or> issues cfg st cs (snd (perform_call cfg c s)))"

section \<open>What calls leave alone\<close>

lemmas oauth_simps = bindE_def ret_def raise_def ensure_def gets_def modify_def liftR_def

lemma frame_parts [frame_intros]:
  "keeps oa_pending (oauth_now t)" "keeps oa_store (oauth_now t)" "keeps oa_http (oauth_now t)"
  "keeps oa_pending (http_post d)" "keeps oa_store (http_post d)"
  "keeps oa_pending (save_credential c)" "keeps oa_http (save_credential c)"
  "keeps oa_store (mark_code_used st code)" "keeps oa_http (mark_code_used st code)"
  by (auto simp: keeps_def oauth_now_def http_post_def save_credential_def mark_code_used_def modify_def split: option.splits)

lemma frame_answer [frame_intros]:
  "(\<And>m. keeps f (a m)) \<Longrightarrow> (\<And>st b. keeps f (k st b)) \<Longrightarrow>
   keeps f (case x of HTTP_failed m \<Rightarrow> a m | HTTP_response st b \<Rightarrow> k st b)"
  by (cases x) auto

lemma frame_json [frame_intros]:
  "(\<And>kvs. keeps f (o1 kvs)) \<Longrightarrow> keeps f other \<Longrightarrow>
   keeps f (case j of JObj kvs \<Rightarrow> o1 kvs | _ \<Rightarrow> other)"
  by (cases j) auto

lemma frame_view [frame_intros]:
  "keeps oa_pending (public_view cfg shop t)" "keeps oa_store (public_view cfg shop t)" "keeps oa_http (public_view cfg shop t)"
  unfolding public_view_def by (intro frame_intros)+

lemma frame_exchange [frame_intros]:
  "keeps oa_pending (exchange_code cfg code st)" "keeps oa_store (exchange_code cfg code st)"
  unfolding exchange_code_def by (intro frame_intros)+

lemma frame_refresh: "keeps oa_pending (try_refresh cfg shop t)"
  unfolding try_refresh_def refreshed_credential_def by (intro frame_intros) simp_all

lemma snd_forget [simp]: "snd (forget m s) = snd (m s)"
  by (simp add: forget_def split: prod.splits)

section \<open>Used codes\<close>

definition code_used :: "string \<Rightarrow> string \<Rightarrow> oauth \<Rightarrow> bool" where
  "code_used st code s \<longleftrightarrow> (\<exists>p. dict_get (oa_pending s) st = Some p \<and> pa_state p = st \<and> code \<in> set (pa_used p))"

lemma keeps_code_used: "keeps oa_pending m \<Longrightarrow> code_used st code (snd (m s)) = code_used st code s"
  by (simp add: keeps_def code_used_def)

lemma keeps_exchange:
  "exchange_code cfg code st s = (r, s') \<Longrightarrow> oa_pending s' = oa_pending s \<and> oa_store s' = oa_store s"
  using keepsD [OF frame_exchange(1)] keepsD [OF frame_exchange(2)] by metis

lemma keeps_finish:
  "keeps oa_pending (bindE (liftR r) (\<lambda>cred. bindE (save_credential cred) (\<lambda>_. public_view cfg shop t)))"
  by (intro frame_intros)

lemma authorize_pending:
  "oa_pending (snd (build_authorize_url cfg shop state s)) =
     dict_set (oa_pending s) (issued_state state s)
       \<lparr> pa_state = issued_state state s, pa_shop = shop, pa_created = oa_clock s 0, pa_used = [] \<rparr>"
  "oa_store (snd (build_authorize_url cfg shop state s)) = oa_store s"
  by (auto simp: build_authorize_url_def issued_state_def token_urlsafe_def oauth_now_def oauth_simps split: option.splits)

definition marked :: "string \<Rightarrow> string \<Rightarrow> pending_auth dict \<Rightarrow> pending_auth \<Rightarrow> pending_auth dict" where
  "marked st code pend p = dict_set pend st (p\<lparr>pa_used := List.insert code (pa_used p)\<rparr>)"

lemma oauth_now_total: "\<exists>now s1. oauth_now t s = (Inr now, s1)"
  by (cases t) (simp_all add: oauth_now_def)

lemma callback_cases:
  assumes run: "oauth_callback cfg code st t s = (r, s')"
  shows "(\<exists>e. r = Inl e) \<and> oa_pending s' = oa_pending s
    \<or> (\<exists>p. dict_get (oa_pending s) st = Some p \<and> pa_state p = st \<and> strip code \<noteq> [] \<and> code \<notin> set (pa_used p)
          \<and> oa_pending s' = marked st code (oa_pending s) p)"
proof -
  obtain now s1 where n: "oauth_now t s = (Inr now, s1)" and p1: "oa_pending s1 = oa_pending s"
    using keepsD [OF frame_parts(1)] by (metis oauth_now_total)
  show ?thesis
  proof (cases "dict_get (oa_pending s) st")
    case None
    then show ?thesis using run n p1 by (auto simp: oauth_callback_def oauth_simps)
  next
    case (Some p)
    show ?thesis
    proof (cases "pa_state p = st \<and> strip code \<noteq> [] \<and> code \<notin> set (pa_used p) \<and> now - pa_created p \<le> CODE_TTL")
      case False
      then show ?thesis using run n p1 Some
        by (simp add: oauth_callback_def oauth_simps split: if_splits) blast+
    next
      case True
      obtain x s2 where x: "exchange_code cfg code st s1 = (x, s2)" by fastforce
      have p2: "oa_pending s2 = oa_pending s" using keeps_exchange [OF x] p1 by simp
      show ?thesis
      proof (cases x)
        case (Inl e)
        then show ?thesis using run n p1 p2 Some True x by (auto simp: oauth_callback_def oauth_simps)
      next
        case (Inr payload)
        obtain s3 where s3: "mark_code_used st code s2 = (Inr (), s3)" "oa_pending s3 = marked st code (oa_pending s) p"
          using p2 Some by (simp add: mark_code_used_def modify_def marked_def)
        have "bindE (liftR (credential_of (pa_shop p) now payload))
            (\<lambda>cred. bindE (save_credential cred) (\<lambda>_. public_view cfg (pa_shop p) (Some now))) s3 = (r, s')"
          using run n p1 Some True x Inr s3
          by (simp add: oauth_callback_def bindE_def gets_def ensure_def)
        then have "oa_pending s' = oa_pending s3" by (rule keepsD [OF keeps_finish])
        then show ?thesis using Some True s3 by simp
      qed
    qed
  qed
qed

lemma code_used_marked:
  assumes "oa_pending s' = marked st' code' (oa_pending s) p" "dict_get (oa_pending s) st' = Some p" "pa_state p = st'"
  shows "code_used st' code' s'" "code_used st code s \<Longrightarrow> code_used st code s'"
  using assms by (cases "st = st'"; fastforce simp: code_used_def marked_def update_conv')+

lemma callback_uses_code: "oauth_callback cfg code st t s = (Inr v, s') \<Longrightarrow> code_used st code s' \<and> strip code \<noteq> []"
  using callback_cases [of cfg code st t s "Inr v" s'] code_used_marked(1) by blast

lemma callback_keeps_used:
  assumes used: "code_used st code s" shows "code_used st code (snd (oauth_callback cfg code' st' t s))"
proof -
  obtain r s' where run: "oauth_callback cfg code' st' t s = (r, s')" by fastforce
  from callback_cases [OF run] have "code_used st code s'"
  proof (elim disjE exE conjE)
    assume "oa_pending s' = oa_pending s" then show ?thesis using used by (simp add: code_used_def)
  next
    fix p assume "dict_get (oa_pending s) st' = Some p" "pa_state p = st'"
      "oa_pending s' = marked st' code' (oa_pending s) p"
    then show ?thesis using code_used_marked(2) used by blast
  qed
  then show ?thesis by (simp add: run)
qed

lemma call_keeps_used:
  assumes "code_used st code s" "case c of CallAuthorize shop state \<Rightarrow> issued_state state s \<noteq> st | _ \<Rightarrow> True"
  shows "code_used st code (snd (perform_call cfg c s))"
proof (cases c)
  case (CallAuthorize shop state)
  then show ?thesis using assms by (auto simp: code_used_def authorize_pending update_conv')
next
  case (CallRefresh shop t)
  then show ?thesis using assms keeps_code_used [OF frame_refresh] by simp
next
  case (CallView shop t)
  then show ?thesis using assms keeps_code_used [OF frame_view(1)] by simp
qed (use assms callback_keeps_used in simp)

lemma run_keeps_used: "code_used st code s \<Longrightarrow> \<not> issues cfg st calls s \<Longrightarrow> code_used st code (oauth_run cfg calls s)"
proof (induction calls arbitrary: s)
  case (Cons c calls)
  have "code_used st code (snd (perform_call cfg c s))"
    using Cons.prems by (intro call_keeps_used) (auto split: oauth_call.splits)
  with Cons.IH [OF this] Cons.prems(2) show ?case by (simp add: oauth_run_def)
qed (simp add: oauth_run_def)

definition CODE_REUSED :: exc where
  "CODE_REUSED = OAuthError ''TAOBAO_OAUTH_CODE_REUSED'' ''authorization code already used''"

lemma used_code_refused:
  assumes "code_used st code s" "strip code \<noteq> []"
  shows "\<exists>s'. oauth_callback cfg code st t s = (Inl CODE_REUSED, s') \<and> oa_store s' = oa_store s
           \<and> oa_http s' = oa_http s \<and> oa_pending s' = oa_pending s"
  using assms
  by (cases t) (auto simp: code_used_def oauth_callback_def oauth_now_def oauth_simps CODE_REUSED_def)

section \<open>Connected shops\<close>

text \<open>Every stored credential and every pending authorization belongs to a shop of \<open>A\<close>.\<close>

definition shops_within :: "string set \<Rightarrow> oauth \<Rightarrow> bool" where
  "shops_within A s \<longleftrightarrow> (\<forall>st p. dict_get (oa_pending s) st = Some p \<longrightarrow> pa_shop p \<in> A)
     \<and> (\<forall>shop c. dict_get (oa_store s) shop = Some c \<longrightarrow> shop \<in> A)"

definition begun_shops :: "oauth_call list \<Rightarrow> string set" where
  "begun_shops calls = (\<Union>c\<in>set calls. case c of CallAuthorize shop _ \<Rightarrow> {shop} | _ \<Rightarrow> {})"

lemma keeps_bind_result:
  "keeps f m \<Longrightarrow> (\<And>x s s'. m s = (Inr x, s') \<Longrightarrow> keeps f (k x)) \<Longrightarrow> keeps f (bindE m k)"
  by (auto simp: keeps_def bindE_def split: prod.splits sum.splits) (metis snd_conv)+

lemma keeps_other_credential: "k \<noteq> cr_shop c \<Longrightarrow> keeps (\<lambda>s. dict_get (oa_store s) k) (save_credential c)"
  by (simp add: save_credential_def keeps_def modify_def update_conv')

lemma keeps_store_at: "keeps oa_store m \<Longrightarrow> keeps (\<lambda>s. dict_get (oa_store s) k) m"
  by (simp add: keeps_def)

lemma credential_of_shop: "credential_of shop now payload = Inr c \<Longrightarrow> cr_shop c = shop"
  by (auto simp: credential_of_def bindR_def assertR_def split: sum.splits if_splits)

lemma refreshed_credential_shop: "refreshed_credential cred shop payload s = (Inr c, s') \<Longrightarrow> cr_shop c = shop"
  by (auto simp: refreshed_credential_def bindE_def liftR_def ret_def split: sum.splits prod.splits)

lemma keeps_finish_store:
  assumes "k \<noteq> shop"
  shows "keeps (\<lambda>s. dict_get (oa_store s) k)
    (bindE (liftR (credential_of shop now payload)) (\<lambda>cred. bindE (save_credential cred) (\<lambda>_. public_view cfg shop' t)))"
proof (rule keeps_bind_result)
  fix cred s s' assume "liftR (credential_of shop now payload) s = (Inr cred, s')"
  then have "cr_shop cred = shop" by (auto simp: liftR_def intro: credential_of_shop)
  then show "keeps (\<lambda>s. dict_get (oa_store s) k) (bindE (save_credential cred) (\<lambda>_. public_view cfg shop' t))"
    using assms by (intro keeps_bind keeps_other_credential keeps_store_at frame_intros) auto
qed (simp add: frame_intros)

lemma keeps_refreshed: "keeps oa_store (refreshed_credential cred shop payload)"
  unfolding refreshed_credential_def by (intro frame_intros)

lemma keeps_saved_refresh:
  assumes "k \<noteq> shop"
  shows "keeps (\<lambda>s. dict_get (oa_store s) k)
    (bindE (refreshed_credential cred shop payload) (\<lambda>updated. bindE (save_credential updated) (\<lambda>_. public_view cfg shop t)))"
proof (rule keeps_bind_result)
  fix c s s' assume "refreshed_credential cred shop payload s = (Inr c, s')"
  then have "cr_shop c = shop" by (rule refreshed_credential_shop)
  then show "keeps (\<lambda>s. dict_get (oa_store s) k) (bindE (save_credential c) (\<lambda>_. public_view cfg shop t))"
    using assms by (intro keeps_bind keeps_other_credential keeps_store_at frame_intros) auto
qed (rule keeps_store_at [OF keeps_refreshed])

text \<open>A refresh touches only the credential of its shop.\<close>

lemma refresh_other_shop: "k \<noteq> shop \<Longrightarrow> keeps (\<lambda>s. dict_get (oa_store s) k) (try_refresh cfg shop t)"
  unfolding try_refresh_def
  by (intro frame_intros frame_parts(2,5) [THEN keeps_store_at] frame_view(2) [THEN keeps_store_at] keeps_saved_refresh) simp_all

text \<open>A refresh never creates a credential.\<close>

lemma refresh_unknown_shop:
  assumes "dict_get (oa_store s) shop = None" shows "oa_store (snd (try_refresh cfg shop t s)) = oa_store s"
proof -
  obtain now s1 where n: "oauth_now t s = (Inr now, s1)" using oauth_now_total by blast
  have s1: "oa_store s1 = oa_store s" by (rule keepsD [OF frame_parts(2) n])
  have view: "\<And>r s'. public_view cfg shop (Some now) s1 = (r, s') \<Longrightarrow> oa_store s' = oa_store s"
    using keepsD [OF frame_view(2)] s1 by metis
  show ?thesis
  proof (cases "oc_app_type cfg = APP_SELF_DEV \<or> \<not> oc_refresh_enabled cfg")
    case True
    obtain r s' where v: "public_view cfg shop (Some now) s1 = (r, s')" by fastforce
    show ?thesis using True view [OF v] by (cases r) (auto simp: try_refresh_def bindE_def n v ret_def)
  next
    case False
    then show ?thesis using assms s1 by (simp add: try_refresh_def bindE_def n gets_def raise_def)
  qed
qed

lemma callback_store:
  assumes run: "oauth_callback cfg code st t s = (r, s')"
  shows "oa_store s' = oa_store s
    \<or> (\<exists>p. dict_get (oa_pending s) st = Some p \<and> (\<forall>k. k \<noteq> pa_shop p \<longrightarrow> dict_get (oa_store s') k = dict_get (oa_store s) k))"
proof -
  obtain now s1 where n: "oauth_now t s = (Inr now, s1)" using oauth_now_total by blast
  have s1: "oa_store s1 = oa_store s" "oa_pending s1 = oa_pending s"
    using n keepsD [OF frame_parts(2)] keepsD [OF frame_parts(1)] by metis+
  show ?thesis
  proof (cases "dict_get (oa_pending s) st")
    case None
    then show ?thesis using run n s1 by (auto simp: oauth_callback_def oauth_simps)
  next
    case (Some p)
    have rest: "keeps (\<lambda>s. dict_get (oa_store s) k)
      (bindE (ensure (pa_state p = st) e1) (\<lambda>_. bindE (ensure (strip code \<noteq> []) e2) (\<lambda>_.
       bindE (ensure (code \<notin> set (pa_used p)) e3) (\<lambda>_. bindE (ensure (now - pa_created p \<le> CODE_TTL) e4) (\<lambda>_.
       bindE (exchange_code cfg code st) (\<lambda>payload. bindE (mark_code_used st code) (\<lambda>_.
       bindE (liftR (credential_of (pa_shop p) now payload)) (\<lambda>cred. bindE (save_credential cred) (\<lambda>_.
       public_view cfg (pa_shop p) (Some now))))))))))" if "k \<noteq> pa_shop p" for k e1 e2 e3 e4
      using that by (intro keeps_bind frame_exchange(2) [THEN keeps_store_at] frame_parts(8) [THEN keeps_store_at]
        keeps_finish_store keeps_basic)
    show ?thesis using run n s1 Some keepsD [OF rest]
      by (simp add: oauth_callback_def bindE_def [of "oauth_now t"] bindE_def [of "gets f" for f] gets_def)
  qed
qed

section \<open>Runs\<close>

lemma call_within:
  assumes "shops_within A s" "case c of CallAuthorize shop _ \<Rightarrow> shop \<in> A | _ \<Rightarrow> True"
  shows "shops_within A (snd (perform_call cfg c s))"
proof (cases c)
  case (CallAuthorize shop state)
  then show ?thesis using assms by (auto simp: shops_within_def authorize_pending update_conv' split: if_splits)
next
  case (CallCallback code st t)
  obtain r s' where run: "oauth_callback cfg code st t s = (r, s')" by fastforce
  have "pa_shop p \<in> A" if "dict_get (oa_pending s') k = Some p" for k p
    using callback_cases [OF run] assms(1) that
    by (auto simp: shops_within_def marked_def update_conv' split: if_splits)
  moreover have "k \<in> A" if "dict_get (oa_store s') k = Some d" for k d
    using callback_store [OF run] assms(1) that unfolding shops_within_def by metis
  ultimately show ?thesis by (simp add: CallCallback run shops_within_def)
next
  case (CallRefresh shop t)
  have pend: "oa_pending (snd (try_refresh cfg shop t s)) = oa_pending s" using frame_refresh by (simp add: keeps_def)
  have "k \<in> A" if "dict_get (oa_store (snd (try_refresh cfg shop t s))) k = Some d" for k d
  proof (cases "dict_get (oa_store s) k")
    case None
    then have "dict_get (oa_store (snd (try_refresh cfg shop t s))) k = None"
      using refresh_other_shop [of k shop cfg t] refresh_unknown_shop [of s shop cfg t]
      by (cases "k = shop") (simp_all add: keeps_def)
    then show ?thesis using that by simp
  qed (use assms(1) in \<open>auto simp: shops_within_def\<close>)
  then show ?thesis using assms(1) pend by (simp add: CallRefresh shops_within_def)
next
  case (CallView shop t)
  then show ?thesis using assms(1) frame_view by (simp add: shops_within_def keeps_def)
qed

lemma run_within:
  "shops_within A s \<Longrightarrow> begun_shops calls \<subseteq> A \<Longrightarrow> shops_within A (oauth_run cfg calls s)"
proof (induction calls arbitrary: s)
  case (Cons c calls)
  have "shops_within A (snd (perform_call cfg c s))"
    using Cons.prems by (intro call_within) (auto simp: begun_shops_def split: oauth_call.splits)
  moreover have "begun_shops calls \<subseteq> A" using Cons.prems(2) by (auto simp: begun_shops_def)
  ultimately show ?case using Cons.IH by (simp add: oauth_run_def)
qed (simp add: oauth_run_def)

section \<open>Properties\<close>

definition sample_oauth :: oauth where
  "sample_oauth =
     \<lparr> oa_pending = [], oa_store = [], oa_refresh_calls = 0, oa_clock = (\<lambda>n. int n), oa_random = (\<lambda>n. ''r''),
       oa_http = (\<lambda>n d. HTTP_response 200 (Some (JObj [(''access_token'', JStr ''t''), (''expires_in'', JInt 60)]))) \<rparr>"

definition sample_oauth_config :: oauth_config where
  "sample_oauth_config =
     \<lparr> oc_client_id = ''id'', oc_client_secret = ''sec'', oc_redirect_uri = ''u'', oc_app_type = APP_SELF_DEV,
       oc_refresh_enabled = False \<rparr>"

definition authorized_oauth :: oauth where
  "authorized_oauth = oauth_run sample_oauth_config [CallAuthorize ''shop'' None] sample_oauth"


text \<open>
  From an empty service, whatever calls are made, a credential is stored only for a shop an
  authorization was begun for.
\<close>

theorem stored_shops_were_authorized:
  assumes "oa_pending s = []" "oa_store s = []"
  shows "fst ` set (oa_store (oauth_run cfg calls s)) \<subseteq> begun_shops calls"
proof
  fix k assume "k \<in> fst ` set (oa_store (oauth_run cfg calls s))"
  then obtain c where "dict_get (oa_store (oauth_run cfg calls s)) k = Some c"
    by (metis domD dom_map_of_conv_image_fst)
  moreover have "shops_within (begun_shops calls) (oauth_run cfg calls s)"
    using assms by (intro run_within) (simp_all add: shops_within_def)
  ultimately show "k \<in> begun_shops calls" by (auto simp: shops_within_def)
qed

lemma sample_callback:
  "\<exists>v s'. oauth_callback sample_oauth_config ''c'' ''r'' None authorized_oauth = (Inr v, s')
     \<and> sv_status v = SHOP_CONNECTED \<and> sv_expires_at v = Some 60000001 \<and> map fst (oa_store s') = [''shop'']"
proof -
  have strip: "strip ''c'' = ''c''" by (rule strip_plain) (simp_all add: plain_char_def)
  show ?thesis
    by (simp add: authorized_oauth_def oauth_run_def oauth_callback_def build_authorize_url_def token_urlsafe_def
      oauth_now_def sample_oauth_def sample_oauth_config_def oauth_simps strip CODE_TTL_def exchange_code_def
      http_post_def field_of_def mark_code_used_def credential_of_def bindR_def assertR_def later_def
      optional_int_def save_credential_def public_view_def)
qed


theorem stored_shops_were_authorized_witness:
  "fst ` set (oa_store (oauth_run sample_oauth_config [CallAuthorize ''shop'' None, CallCallback ''c'' ''r'' None] sample_oauth))
     = {''shop''} \<and> begun_shops [CallAuthorize ''shop'' None, CallCallback ''c'' ''r'' None] = {''shop''}"
proof -
  let ?calls = "[CallAuthorize ''shop'' None, CallCallback ''c'' ''r'' None]"
  obtain v s' where r: "oauth_callback sample_oauth_config ''c'' ''r'' None authorized_oauth = (Inr v, s')"
    and k: "map fst (oa_store s') = [''shop'']"
    using sample_callback by (elim exE conjE)
  have run: "oauth_run sample_oauth_config ?calls sample_oauth = s'"
    using r by (simp add: oauth_run_def authorized_oauth_def)
  have begun: "begun_shops ?calls = {''shop''}" by (simp add: begun_shops_def)
  have "fst ` set (oa_store (oauth_run sample_oauth_config ?calls sample_oauth)) \<subseteq> begun_shops ?calls"
    by (rule stored_shops_were_authorized) (simp_all add: sample_oauth_def)
  moreover have "''shop'' \<in> fst ` set (oa_store s')" using k by (metis list.set_intros(1) set_map)
  ultimately show ?thesis using run begun by auto
qed

end
