(* ===== verification/Spec2Isabelle.thy ===== *)
theory Spec2Isabelle
  imports Workflow_Validation Workflow_Executor Task_Lifecycle Expert_Profiles Billing_Properties
    Workflow_Deletion Acceptance
    Authorization_Gate Refund_Properties Turnover_Properties Canvas_Properties
    Replay_Execution Fence_Exclusion Generation_Submission Generation_Pages Generation_Catalogue
    Agent_Tool_Properties Shop_OAuth_Properties
begin

text \<open>
  Verification of the back end under \<open>src/app\<close>: a studio in which a host, advisors and executors
  align on tasks and run workflow graphs (the workshop), an agent edits the canvas of an episode and
  streams its turns to browsers, images, videos and speech are generated by an external model gateway,
  and credits are sold. Paths below are relative to \<open>src/app/server\<close> unless they start with \<open>agent\<close>,
  \<open>contracts\<close> or \<open>db\<close>.

  \<^bold>\<open>How code becomes HOL.\<close> Pure functions are HOL functions; code that may raise returns \<open>res\<close>, a sum of
  the exceptions \<open>exc\<close> and values; code on a database or on Redis is an effect \<open>eff\<close>, a function from
  the state to a result and the new state, which keeps the writes made before an exception unless a
  transaction restores them. A table is the list of its rows, with the unique and foreign keys of
  \<open>db/schema.sql\<close> checked where the code relies on them. The clock, random identifiers and the answers of
  the outside world are streams or lists in the state or arguments of the definitions. Where operations
  of several processes interleave, every read and every atomic write is a step of its own in an inductive
  step relation. Strings are the bytes of their UTF-8 form.

  \<^bold>\<open>Foundations.\<close>

  \<^item> \<open>Prelude\<close>: the parts of Python the code uses (strings, \<open>strip\<close>, \<open>repr\<close>, ordered dictionaries, JSON
    values, date-times), exceptions, \<open>res\<close> and \<open>eff\<close>. \<open>Frame_Rules\<close>: what an effect leaves alone.
    \<open>Python_Numbers\<close>: \<open>int(x)\<close> and \<open>Decimal\<close>. \<open>Json_Text\<close>: canonical JSON text. \<open>Sha256\<close>: the digest.

  \<^bold>\<open>The workshop\<close> (\<open>workshop/\<close>).

  \<^item> \<open>Workshop_Enums\<close>: \<open>domain/enums.py\<close>, \<open>role_policy.py\<close>, \<open>external_tool_gate.py\<close>,
    \<open>ecommerce/effective_profile.py\<close>; \<open>Expert_Profiles\<close>: \<open>ecommerce/profiles.py\<close>; \<open>Workshop_Types\<close>:
    \<open>domain/types.py\<close>, \<open>domain/weak_accept.py\<close>, the event payloads.
  \<^item> \<open>Workflow_Definition\<close>, \<open>Workflow_Codec\<close>: \<open>domain/workflow_definition.py\<close>, its loops as total functions
    with termination proofs. \<open>Workflow_Graph\<close> holds Kahn's algorithm over the locale \<open>queue_discipline\<close>,
    interpreted for the stack of \<open>_has_cycle\<close> and the sorted queue of \<open>topological_order\<close>;
    \<open>Workflow_Validation\<close> the declarative contract of a definition, which the validator decides; the codec
    theory the round trip of definitions.
  \<^item> \<open>Workflow_Executor\<close>: \<open>domain/workflow_executor.py\<close> with the node runner as a parameter: dependencies
    are respected, and when a run succeeds.
  \<^item> \<open>Workshop_DB\<close>: the tables of \<open>persistence/models.py\<close>, cascades, \<open>in_transaction\<close>.
    \<open>Workshop_Repository\<close>, \<open>Schedule_Repository\<close>: \<open>persistence/repository.py\<close>; \<open>Frames\<close>: which tables
    its operations leave alone.
  \<^item> \<open>Task_Orchestrator\<close>: \<open>services/task_orchestrator.py\<close>; \<open>Task_Lifecycle\<close>: a task moves along the
    allowed transitions in every interleaving of the handlers; \<open>Acceptance\<close>: weak acceptance completes a task and
    stores its artifacts, or does nothing.
  \<^item> \<open>Cron_Next_Fire\<close>: \<open>domain/cron_next_fire.py\<close>, the time-zone database and the cron trigger being the
    parameter \<open>cron_env\<close>; \<open>Workflow_Schedule\<close>: \<open>services/workflow_schedule_service.py\<close> and
    \<open>services/workflow_run_execution.py\<close>; \<open>Schedule_Properties\<close>: every due instant fires once;
    \<open>Run_Lifecycle\<close>: the outcome of a run, which is final; \<open>Workflow_Deletion\<close>: deletion is complete.
  \<^item> \<open>Authorized_Operations\<close>, \<open>Authorization_Gate\<close>: \<open>domain/ecommerce/authorized_operations.py\<close> and
    \<open>generation_gate.py\<close>: an operation opens the gate for its own task, capability and payload, once.
  \<^item> \<open>Commerce_Money\<close>, \<open>Turnover_Properties\<close>: \<open>domain/ecommerce/money.py\<close>, \<open>gmv.py\<close>;
    \<open>Refunds_Tmc\<close>: \<open>refund.py\<close>, \<open>tmc.py\<close>. \<open>Versioned_Register\<close> is the contract of a store that keeps the
    highest version of every key; \<open>Refund_Properties\<close> interprets it for the refund store.
  \<^item> \<open>Shop_OAuth\<close>: \<open>domain/ecommerce/oauth.py\<close>, the token endpoint being a stream of answers;
    \<open>Shop_OAuth_Properties\<close>: a code is used once, and only shops with a begun authorization get credentials.

  \<^bold>\<open>Billing\<close> (\<open>billing/\<close>).

  \<^item> \<open>Billing_Packs\<close>: \<open>domain/packs.py\<close>, \<open>domain/grant.py\<close>; \<open>Billing_Service\<close>: \<open>services/checkout.py\<close>,
    \<open>services/webhook.py\<close>, \<open>domain/webhook_signature.py\<close>, \<open>adapters/creem_client.py\<close>; \<open>Billing_Store\<close>: both
    stores. The locale \<open>billing_contract\<close> (\<open>Billing_Contract\<close>) is what the services need of a store;
    \<open>Billing_Ledger\<close> interprets it for both. \<open>Billing_Properties\<close>: balances are the totals of paid orders, each
    payment is credited once, and both stores answer alike.

  \<^bold>\<open>The canvas\<close> (\<open>canvas/\<close>).

  \<^item> \<open>Canvas_Data\<close>, \<open>Canvas_Codec\<close>: the contracts of \<open>contracts/canvas.py\<close> and \<open>domain/node_data.py\<close>;
    \<open>Canvas_Service\<close>: snapshot, conflict check and patches of \<open>services/canvas_service.py\<close>;
    \<open>Canvas_Writeback\<close>: the writes of the system, \<open>services/generation_bind.py\<close>, \<open>generation_sync.py\<close> and
    \<open>persistence/episode_lifecycle.py\<close>.
  \<^item> \<open>Canvas_Graph\<close> is the abstract canvas, live nodes and edges with revisions; \<open>Canvas_Patch\<close> and
    \<open>Canvas_Properties\<close> show that a patch is all or nothing, refines the abstract steps, and keeps
    counters and edges consistent in every reachable state.

  \<^bold>\<open>Generation\<close> (\<open>generation/\<close>, \<open>assets/\<close>).

  \<^item> \<open>Generation_Domain\<close>: \<open>domain/rules.py\<close>, \<open>models.py\<close>, \<open>terminal.py\<close>, \<open>gateway/submit.py\<close>,
    \<open>infra/gateway_mapping.py\<close> and the contracts of \<open>contracts/gateway.py\<close>; \<open>Asset_Store\<close>: the assets and the
    state of the service, with the answers of the gateway as a stream; \<open>Generation_Store\<close>:
    \<open>persistence/repository.py\<close>; \<open>Multi_Level_Cache\<close>: \<open>app/utils/cache.py\<close>; \<open>Generation_Capabilities\<close> and
    \<open>Generation_Service\<close>: \<open>services/service.py\<close>, \<open>assembly\<close>, \<open>schemas\<close>.
  \<^item> \<open>Generation_Lifecycle\<close>: the statements on the table of tasks as a step relation; every operation of the
    service takes such steps, and in every interleaving of them the outcome of a task is final.
    \<open>Generation_Results\<close>: results become assets once, a final callback is applied once;
    \<open>Generation_Submission\<close>: how a submission ends and what it may send; \<open>Generation_Pages\<close>: a walk through the
    pages of the list; \<open>Generation_Catalogue\<close>: the cache is bounded, serves what was stored and hands the
    capabilities of models on unchanged. \<open>Generation_Samples\<close> has concrete states.

  \<^bold>\<open>Turns and their replay\<close> (\<open>agent/runtime/stream\<close>, \<open>agent/canvas/turn\<close>).

  \<^item> \<open>Redis_Store\<close>: the Redis commands with their documented effect, keys that expire included.
    \<open>Episode_Fence\<close>: \<open>canvas/services/episode_fence.py\<close> and \<open>agent/canvas/turn/lock.py\<close>;
    \<open>Fence_Exclusion\<close>: deletions exclude generations in every interleaving of the commands.
  \<^item> \<open>Replay_Log\<close>: the scripts and the store of \<open>replay.py\<close>; \<open>Replay_Stream\<close>: subscribers, publisher,
    server-sent events, execution of a turn. \<open>Replay_Properties\<close>, \<open>Replay_Subscribers\<close>, \<open>Replay_Delivery\<close>:
    the log is consistent and final, and subscribers get every event once, in order; \<open>Replay_Sse\<close>: frames
    survive their text; \<open>Replay_Execution\<close>: every turn closes its log.
  \<^item> \<open>Agent_Tools\<close>: the tool calls of a turn, \<open>agent/runtime/agent/tool_call_registry.py\<close> with the tool
    events of \<open>runner.py\<close>, the result envelope \<open>runtime/tools/result.py\<close>, and \<open>guards.py\<close>,
    \<open>tool_loop_guard.py\<close>, \<open>message_hygiene.py\<close> of \<open>runtime/turn\<close>. \<open>Agent_Tool_Properties\<close>: a result
    belongs to a running call, parallel calls are told apart by their order, and a repaired history answers every call.

  \<^bold>\<open>Bounds and fuel.\<close> Loops that end by themselves are total functions. A loop that waits for other
  processes (\<open>replay_loop\<close>, \<open>wait_generations_idle\<close>, \<open>wait_until_released\<close>) consumes the list of what the
  polls find, so that its end is the end of the list or the deadline; \<open>stream_replay_terminates\<close> gives the
  number of reads that is enough.

  \<^bold>\<open>What is not modelled.\<close> Column lengths and integer widths of the database, the text of log
  records, HTTP routing and schemas, the language-model agents with their prompts, tools and skills, the
  stream of tokens of a turn, network clients other than the token endpoint, object storage, and binary floating point (advertising ratios). In front of and behind the
  generation service, the preparation of a submission from chat content (\<open>use_cases\<close>) and the forwarding of
  a callback to the canvas (the endpoint). The texts of the Chinese error messages are left out of the
  exceptions of the canvas; their codes are there. Those of generation are the bytes of their text.
\<close>

end
